(* ===== verification/Prelude.thy ===== *)
theory Prelude
  imports Main "HOL-Library.AList" "HOL-Library.List_Lexorder" "HOL-Library.Char_ord"
begin

text \<open>
  Shared vocabulary of the development: the collections of simplification rules the component
  theories extend, the types the source uses everywhere (milliseconds, cents, JavaScript
  \<open>Map\<close> objects), the array helpers of the JavaScript standard library the source calls, and
  the interface of an insertion-ordered map with its interpretation on association lists.

  Conventions. A JavaScript \<open>number\<close> that the source uses as a count, a version, a millisecond
  time or an amount of cents is an \<open>int\<close>; the source keeps these below \<open>2^53\<close>, where double
  precision arithmetic is exact. A \<open>string\<close> is a list of characters, compared
  lexicographically by \<open><\<close> as JavaScript does by code unit. \<open>T | null\<close> and \<open>T | undefined\<close>
  are \<open>T option\<close>. A call of \<open>Date.now()\<close> is an argument \<open>now\<close> of the model, a call of an
  identifier generator is an argument with the generated identifier. A throwing function
  returns a sum, \<open>Inl\<close> the error.
\<close>

named_theorems js_simps "rewrite rules for the JavaScript library helpers"
named_theorems order_simps "facts about the clock comparison"
named_theorems record_ext "extensionality rules of the model's records"

type_synonym ms = int
type_synonym cents = int
type_synonym ('k, 'v) js_map = "('k \<times> 'v) list"

section \<open>Arrays\<close>

text \<open>\<open>Array.prototype.findIndex\<close>, with \<open>None\<close> for \<open>-1\<close>.\<close>

fun findIndex :: "('a \<Rightarrow> bool) \<Rightarrow> 'a list \<Rightarrow> nat option" where
  "findIndex p [] = None"
| "findIndex p (x # xs) = (if p x then Some 0 else map_option Suc (findIndex p xs))"

text \<open>\<open>arr.splice(i, 1)\<close>: the array without its element \<open>i\<close>.\<close>

definition splice_at :: "nat \<Rightarrow> 'a list \<Rightarrow> 'a list" where
  "splice_at i xs = take i xs @ drop (Suc i) xs"

text \<open>Assignment through the reference that \<open>arr.find(p)\<close> returned: the first match changes.\<close>

fun update_first :: "('a \<Rightarrow> bool) \<Rightarrow> ('a \<Rightarrow> 'a) \<Rightarrow> 'a list \<Rightarrow> 'a list" where
  "update_first p f [] = []"
| "update_first p f (x # xs) = (if p x then f x # xs else x # update_first p f xs)"

lemma findIndex_None [simp]: "findIndex p xs = None \<longleftrightarrow> (\<forall>x \<in> set xs. \<not> p x)"
  by (induction xs) auto

lemma findIndex_Some_nth:
  "findIndex p xs = Some i \<Longrightarrow> i < length xs \<and> p (xs ! i) \<and> (\<forall>j < i. \<not> p (xs ! j))"
proof (induction xs arbitrary: i)
  case (Cons x xs)
  show ?case
  proof (cases "p x")
    case False
    with Cons.prems obtain k where "findIndex p xs = Some k" "i = Suc k" by auto
    with Cons.IH False show ?thesis by (auto simp: less_Suc_eq_0_disj)
  qed (use Cons.prems in simp)
qed simp

lemma find_Some_iff_findIndex:
  "List.find p xs = None \<longleftrightarrow> findIndex p xs = None"
  by (auto simp: find_None_iff)

lemma map_update_first:
  assumes "\<And>x. g (f x) = g x"
  shows "map g (update_first p f xs) = map g xs"
  by (induction xs) (auto simp: assms)

lemma length_update_first [simp]: "length (update_first p f xs) = length xs"
  by (induction xs) auto

lemma update_first_id: "\<forall>x \<in> set xs. \<not> p x \<Longrightarrow> update_first p f xs = xs"
  by (induction xs) auto

lemma set_update_first_subset: "set (update_first p f xs) \<subseteq> set xs \<union> f ` set xs"
  by (induction xs) auto

lemma length_splice_at: "i < length xs \<Longrightarrow> Suc (length (splice_at i xs)) = length xs"
  by (simp add: splice_at_def)

lemma set_splice_at: "set (splice_at i xs) \<subseteq> set xs"
  by (auto simp: splice_at_def dest: in_set_takeD in_set_dropD)

lemma map_splice_at: "map f (splice_at i xs) = splice_at i (map f xs)"
  by (simp add: splice_at_def take_map drop_map)

lemma distinct_splice_at: "distinct xs \<Longrightarrow> distinct (splice_at i xs)"
  unfolding splice_at_def
  by (metis append_take_drop_id distinct_append set_drop_subset_set_drop Int_mono
      lessI less_imp_le_nat order_refl subset_empty distinct_drop distinct_take)

section \<open>Insertion-ordered maps\<close>

text \<open>
  A JavaScript \<open>Map\<close> keeps its entries in insertion order; \<open>set\<close> on a present key keeps the
  position. The source relies on the following contract: what \<open>get\<close> returns after \<open>set\<close>
  and \<open>delete\<close>, and that iterating (\<open>entries\<close>) yields each key once.
\<close>

locale ordered_map =
  fixes empty :: "'m"
    and get :: "'m \<Rightarrow> 'k \<Rightarrow> 'v option"
    and put :: "'k \<Rightarrow> 'v \<Rightarrow> 'm \<Rightarrow> 'm"
    and del :: "'k \<Rightarrow> 'm \<Rightarrow> 'm"
    and entries :: "'m \<Rightarrow> ('k \<times> 'v) list"
    and invar :: "'m \<Rightarrow> bool"
  assumes get_empty: "get empty k = None"
    and get_put: "get (put k v m) k' = (if k' = k then Some v else get m k')"
    and get_del: "get (del k m) k' = (if k' = k then None else get m k')"
    and get_entries: "invar m \<Longrightarrow> get m k = map_of (entries m) k"
    and distinct_entries: "invar m \<Longrightarrow> distinct (map fst (entries m))"
    and invar_empty: "invar empty"
    and invar_put: "invar m \<Longrightarrow> invar (put k v m)"
    and invar_del: "invar m \<Longrightarrow> invar (del k m)"
begin

text \<open>
  A loop \<open>for (const [k, v] of src) if (test(v, dst.get(k))) dst.set(k, v)\<close>, and what it leaves
  at a key: the loop visits a key once, so the test sees the value \<open>dst\<close> had before it.
\<close>

lemma get_foldl_notin:
  assumes "k \<notin> fst ` set es"
  shows "get (foldl (\<lambda>d (k', v). if t v (get d k') then put k' v d else d) dst es) k = get dst k"
  using assms by (induction es arbitrary: dst) (auto simp: get_put)

lemma get_copy_loop:
  assumes "distinct (map fst es)"
  shows "get (foldl (\<lambda>d (k', v). if t v (get d k') then put k' v d else d) dst es) k =
    (case map_of es k of
       None \<Rightarrow> get dst k
     | Some v \<Rightarrow> if t v (get dst k) then Some v else get dst k)"
  using assms
proof (induction es arbitrary: dst)
  case (Cons e es)
  obtain k' v where e: "e = (k', v)" by force
  let ?dst = "if t v (get dst k') then put k' v dst else dst"
  from Cons.prems e have fresh: "k' \<notin> fst ` set es" and d: "distinct (map fst es)" by auto
  show ?case
  proof (cases "k = k'")
    case True
    with get_foldl_notin [OF fresh, of t ?dst] show ?thesis by (auto simp: e get_put)
  next
    case False
    with Cons.IH [OF d, of ?dst] show ?thesis
      by (auto simp: e get_put split: option.splits)
  qed
qed simp

lemma invar_copy_loop:
  assumes "invar dst"
  shows "invar (foldl (\<lambda>d (k', v). if t v (get d k') then put k' v d else d) dst es)"
  using assms by (induction es arbitrary: dst) (auto simp: invar_put)

end

text \<open>Association lists with distinct keys are such maps.\<close>

interpretation alist: ordered_map "[]" map_of AList.update AList.delete "\<lambda>m. m"
  "\<lambda>m. distinct (map fst m)"
  by unfold_locales (auto simp: update_conv' delete_conv' distinct_update distinct_delete)

lemmas [js_simps] = update_conv' delete_conv'

section \<open>Runs of event systems\<close>

text \<open>
  The stateful modules are functions from an event and a state to a state, and a run is a fold over a
  list of events. \<open>admissible ok\<close> says that each event of a run satisfies \<open>ok\<close> in the state in which it
  happens. What an event preserves, a run preserves; this contract is stated once and interpreted
  for the step function and the invariant of each module.
\<close>

primrec admissible :: "('e \<Rightarrow> 's \<Rightarrow> bool) \<Rightarrow> ('e \<Rightarrow> 's \<Rightarrow> 's) \<Rightarrow> 'e list \<Rightarrow> 's \<Rightarrow> bool" where
  "admissible ok step [] s = True"
| "admissible ok step (e # es) s = (ok e s \<and> admissible ok step es (step e s))"

lemma admissible_all [simp]: "admissible (\<lambda>_ _. True) step es s"
  by (induction es arbitrary: s) auto

lemma admissible_events [simp]: "admissible (\<lambda>e _. ok e) step es s \<longleftrightarrow> list_all ok es"
  by (induction es arbitrary: s) auto

locale event_system =
  fixes step :: "'e \<Rightarrow> 's \<Rightarrow> 's" and ok :: "'e \<Rightarrow> 's \<Rightarrow> bool" and inv :: "'s \<Rightarrow> bool"
  assumes inv_step: "inv s \<Longrightarrow> ok e s \<Longrightarrow> inv (step e s)"
begin

lemma inv_run: "inv s \<Longrightarrow> admissible ok step es s \<Longrightarrow> inv (fold step es s)"
  by (induction es arbitrary: s) (auto intro: inv_step)

lemma frame_run:
  assumes "\<And>s e. inv s \<Longrightarrow> ok e s \<Longrightarrow> f (step e s) = f s"
  shows "inv s \<Longrightarrow> admissible ok step es s \<Longrightarrow> f (fold step es s) = f s"
  by (induction es arbitrary: s) (auto simp: assms inv_step)

end

locale free_event_system =
  fixes step :: "'e \<Rightarrow> 's \<Rightarrow> 's" and inv :: "'s \<Rightarrow> bool"
  assumes preserved: "inv s \<Longrightarrow> inv (step e s)"

sublocale free_event_system \<subseteq> event_system step "\<lambda>_ _. True" inv
  by unfold_locales (rule preserved)

context free_event_system
begin

lemma run: "inv s \<Longrightarrow> inv (fold step es s)"
  by (rule inv_run) simp_all

lemma frame:
  assumes "\<And>s e. inv s \<Longrightarrow> f (step e s) = f s" and "inv s"
  shows "f (fold step es s) = f s"
  by (rule frame_run) (use assms in simp_all)

end

end
