(* ===== verification/Hlc.thy ===== *)
theory Hlc
  imports Prelude
begin

text \<open>
  The hybrid logical clock of \<open>packages/shared-types/src/hlc.ts\<close>: the clock value, its
  comparison, the merge of a local with a received clock, and the increment for a local event.
  The comparison is the interface the CRDT layer relies on; its laws are the locale
  \<open>timestamp_order\<close>, interpreted here on \<open>compareHlc\<close>.
\<close>

section \<open>Model\<close>

record Hlc =
  physicalTimeMs :: int
  logicalCounter :: int
  nodeId :: string

definition compareHlc :: "Hlc \<Rightarrow> Hlc \<Rightarrow> int" where
  "compareHlc a b =
     (if physicalTimeMs a \<noteq> physicalTimeMs b then
        (if physicalTimeMs a < physicalTimeMs b then -1 else 1)
      else if logicalCounter a \<noteq> logicalCounter b then
        (if logicalCounter a < logicalCounter b then -1 else 1)
      else if nodeId a \<noteq> nodeId b then
        (if nodeId a < nodeId b then -1 else 1)
      else 0)"

definition mergeHlc :: "Hlc \<Rightarrow> Hlc \<Rightarrow> Hlc" where
  "mergeHlc local remote =
     (let localWins = compareHlc local remote \<ge> 0;
          base = (if localWins then local else remote)
      in \<lparr>physicalTimeMs = physicalTimeMs base,
          logicalCounter = logicalCounter base + 1,
          nodeId = nodeId local\<rparr>)"

text \<open>\<open>now\<close> is \<open>Date.now()\<close>; the node is the optional second argument.\<close>

definition incrementHlc :: "ms \<Rightarrow> Hlc \<Rightarrow> string option \<Rightarrow> Hlc" where
  "incrementHlc now h node =
     (if now > physicalTimeMs h then
        \<lparr>physicalTimeMs = now, logicalCounter = 0,
         nodeId = (case node of None \<Rightarrow> nodeId h | Some n \<Rightarrow> n)\<rparr>
      else
        \<lparr>physicalTimeMs = physicalTimeMs h, logicalCounter = logicalCounter h + 1,
         nodeId = (case node of None \<Rightarrow> nodeId h | Some n \<Rightarrow> n)\<rparr>)"

text \<open>The clock readings of a node that handles local events at the given wall-clock times.\<close>

fun clock_run :: "Hlc \<Rightarrow> ms list \<Rightarrow> Hlc list" where
  "clock_run h [] = []"
| "clock_run h (t # ts) = (let h' = incrementHlc t h None in h' # clock_run h' ts)"

section \<open>The comparison as an interface\<close>

locale timestamp_order =
  fixes cmp :: "'t \<Rightarrow> 't \<Rightarrow> int"
  assumes cmp_range: "cmp a b \<in> {-1, 0, 1}"
    and cmp_zero: "cmp a b = 0 \<longleftrightarrow> a = b"
    and cmp_anti: "cmp b a = - cmp a b"
    and cmp_trans: "cmp a b > 0 \<Longrightarrow> cmp b c > 0 \<Longrightarrow> cmp a c > 0"
begin

lemma cmp_refl [simp]: "cmp a a = 0"
  by (simp add: cmp_zero)

lemma cmp_pos_neg: "cmp a b > 0 \<longleftrightarrow> cmp b a < 0"
  by (simp add: cmp_anti [of a b])

lemma cmp_asym: "cmp a b > 0 \<Longrightarrow> \<not> cmp b a > 0"
  by (simp add: cmp_anti [of a b])

lemma cmp_total: "cmp a b > 0 \<or> a = b \<or> cmp b a > 0"
  using cmp_range [of a b] cmp_zero [of a b] cmp_anti [of a b] by auto

lemma cmp_le_trans: "cmp a b \<ge> 0 \<Longrightarrow> cmp b c \<ge> 0 \<Longrightarrow> cmp a c \<ge> 0"
  using cmp_trans [of a b c] cmp_zero [of a b] cmp_zero [of b c] by force

lemma cmp_le_antisym: "cmp a b \<ge> 0 \<Longrightarrow> cmp b a \<ge> 0 \<Longrightarrow> a = b"
  using cmp_anti [of a b] cmp_zero [of a b] by auto

lemma cmp_not_pos: "\<not> cmp a b > 0 \<longleftrightarrow> cmp b a \<ge> 0"
  using cmp_anti [of a b] by auto

lemma cmp_not_newer_trans: "\<not> cmp c b > 0 \<Longrightarrow> \<not> cmp b a > 0 \<Longrightarrow> \<not> cmp c a > 0"
  unfolding cmp_not_pos by (rule cmp_le_trans)

end

lemma compareHlc_range: "compareHlc a b \<in> {-1, 0, 1}"
  by (simp add: compareHlc_def)

lemma compareHlc_zero: "compareHlc a b = 0 \<longleftrightarrow> a = b"
  by (auto simp: compareHlc_def)

lemma compareHlc_anti: "compareHlc b a = - compareHlc a b"
  by (auto simp: compareHlc_def)

lemma compareHlc_pos:
  "compareHlc a b > 0 \<longleftrightarrow>
     physicalTimeMs b < physicalTimeMs a \<or>
     physicalTimeMs b = physicalTimeMs a \<and>
       (logicalCounter b < logicalCounter a \<or>
        logicalCounter b = logicalCounter a \<and> nodeId b < nodeId a)"
  by (auto simp: compareHlc_def)

interpretation hlc: timestamp_order compareHlc
proof unfold_locales
  fix a b c :: Hlc
  show "compareHlc a b \<in> {-1, 0, 1}" by (rule compareHlc_range)
  show "compareHlc a b = 0 \<longleftrightarrow> a = b" by (rule compareHlc_zero)
  show "compareHlc b a = - compareHlc a b" by (rule compareHlc_anti)
  assume "compareHlc a b > 0" "compareHlc b c > 0"
  then show "compareHlc a c > 0" unfolding compareHlc_pos by auto
qed

lemmas [order_simps] = hlc.cmp_refl hlc.cmp_zero

section \<open>Properties\<close>

lemma mergeHlc_base:
  "compareHlc (mergeHlc l r) (if compareHlc l r \<ge> 0 then l else r) > 0"
  by (simp add: mergeHlc_def Let_def compareHlc_pos)

lemma incrementHlc_newer: "compareHlc (incrementHlc now h node) h > 0"
  by (simp add: incrementHlc_def compareHlc_pos)

lemma clock_run_newer: "h' \<in> set (clock_run h ts) \<Longrightarrow> compareHlc h' h > 0"
proof (induction ts arbitrary: h)
  case (Cons t ts)
  let ?h = "incrementHlc t h None"
  from Cons.prems consider "h' = ?h" | "h' \<in> set (clock_run ?h ts)" by (auto simp: Let_def)
  then show ?case
    using Cons.IH [of ?h] hlc.cmp_trans incrementHlc_newer by cases blast+
qed simp

text \<open>
  The clock comparison is a total order: 0 exactly on equal clocks, antisymmetric in its
  sign and transitive, so every pair of clocks is ordered and every replica orders them alike.
\<close>

theorem compareHlc_total_order:
  "(compareHlc a b = 0 \<longleftrightarrow> a = b) \<and> compareHlc b a = - compareHlc a b \<and>
   (compareHlc a b > 0 \<and> compareHlc b c > 0 \<longrightarrow> compareHlc a c > 0)"
  using compareHlc_zero compareHlc_anti hlc.cmp_trans by blast

theorem compareHlc_total_order_witness:
  "compareHlc \<lparr>physicalTimeMs = 7, logicalCounter = 0, nodeId = ''b''\<rparr>
     \<lparr>physicalTimeMs = 5, logicalCounter = 1, nodeId = ''a''\<rparr> > 0"
  using compareHlc_total_order
    [of "\<lparr>physicalTimeMs = 7, logicalCounter = 0, nodeId = ''b''\<rparr>"
        "\<lparr>physicalTimeMs = 5, logicalCounter = 2, nodeId = ''b''\<rparr>"
        "\<lparr>physicalTimeMs = 5, logicalCounter = 1, nodeId = ''a''\<rparr>"]
  by (simp add: compareHlc_def)

text \<open>
  Merging a received clock into the local one gives a clock that is strictly newer than
  both, so an event after a receive is ordered after everything either side had seen.
\<close>

theorem mergeHlc_dominates:
  "compareHlc (mergeHlc local remote) local > 0 \<and> compareHlc (mergeHlc local remote) remote > 0"
proof (cases "compareHlc local remote \<ge> 0")
  case True
  then have m: "compareHlc (mergeHlc local remote) local > 0"
    using mergeHlc_base [of local remote] by simp
  with True show ?thesis using hlc.cmp_trans hlc.cmp_total hlc.cmp_not_pos by metis
next
  case False
  then have m: "compareHlc (mergeHlc local remote) remote > 0"
    using mergeHlc_base [of local remote] by simp
  with False show ?thesis using hlc.cmp_trans hlc.cmp_not_pos by metis
qed

text \<open>
  C34. The clock readings of one node are strictly increasing, whatever the wall clock does
  (it may stand still or jump backwards): no two local events get the same clock.
\<close>

theorem clock_run_strictly_increasing:
  "sorted_wrt (\<lambda>a b. compareHlc b a > 0) (clock_run h ts)"
  by (induction ts arbitrary: h) (auto simp: Let_def clock_run_newer)

end
