(* ===== verification/Crdt.thy ===== *)
theory Crdt
  imports Hlc
begin

text \<open>
  The state-based CRDTs of \<open>packages/shared-types/src/crdt.ts\<close>: the last-writer-wins element
  set and the multi-value register. The locale \<open>state_crdt\<close> is what replication relies on (a
  merge that computes a join of the abstract states); it proves once that replicas which merge
  the same states agree, whatever the order and the repetitions, and is interpreted on the
  element set's merge.
\<close>

section \<open>LWW-Element-Set\<close>

record 'a LwwElement =
  lwwValue :: 'a
  lwwHlc :: Hlc

record 'a LwwElementSet =
  adds :: "(string, 'a LwwElement) js_map"
  removes :: "(string, Hlc) js_map"

definition lookupLwwElement :: "'a LwwElementSet \<Rightarrow> string \<Rightarrow> 'a option" where
  "lookupLwwElement s eid =
     (case map_of (adds s) eid of
        None \<Rightarrow> None
      | Some add \<Rightarrow>
          (case map_of (removes s) eid of
             None \<Rightarrow> Some (lwwValue add)
           | Some remove \<Rightarrow>
               if compareHlc remove (lwwHlc add) \<ge> 0 then None else Some (lwwValue add)))"

definition addLwwElement ::
  "ms \<Rightarrow> 'a LwwElementSet \<Rightarrow> string \<Rightarrow> 'a \<Rightarrow> Hlc \<Rightarrow> 'a LwwElementSet" where
  "addLwwElement now s eid v localHlc =
     (let nextHlc = incrementHlc now localHlc None
      in \<lparr>adds = AList.update eid \<lparr>lwwValue = v, lwwHlc = nextHlc\<rparr> (adds s),
          removes = removes s\<rparr>)"

definition removeLwwElement ::
  "ms \<Rightarrow> 'a LwwElementSet \<Rightarrow> string \<Rightarrow> Hlc \<Rightarrow> 'a LwwElementSet" where
  "removeLwwElement now s eid localHlc =
     (let nextHlc = incrementHlc now localHlc None
      in \<lparr>adds = adds s, removes = AList.update eid nextHlc (removes s)\<rparr>)"

text \<open>
  The body of both loops of the merge: take the other replica's entry when this one has none
  or an older one. \<open>st\<close> is the clock of an entry (its \<open>hlc\<close> field for an add, the entry itself
  for a remove).
\<close>

definition is_newer :: "('v \<Rightarrow> Hlc) \<Rightarrow> 'v \<Rightarrow> 'v option \<Rightarrow> bool" where
  "is_newer st v existing =
     (case existing of None \<Rightarrow> True | Some e \<Rightarrow> compareHlc (st v) (st e) > 0)"

definition merge_entries ::
  "('v \<Rightarrow> Hlc) \<Rightarrow> (string, 'v) js_map \<Rightarrow> (string, 'v) js_map \<Rightarrow> (string, 'v) js_map" where
  "merge_entries st a b =
     foldl (\<lambda>m (eid, v). if is_newer st v (map_of m eid) then AList.update eid v m else m) a b"

definition mergeLwwElementSet ::
  "'a LwwElementSet \<Rightarrow> 'a LwwElementSet \<Rightarrow> 'a LwwElementSet" where
  "mergeLwwElementSet a b =
     \<lparr>adds = merge_entries lwwHlc (adds a) (adds b),
      removes = merge_entries (\<lambda>h. h) (removes a) (removes b)\<rparr>"

section \<open>MV-Register\<close>

record 'a MvRegister =
  mvValues :: "'a LwwElement list"

definition writeMvRegister :: "ms \<Rightarrow> 'a MvRegister \<Rightarrow> 'a \<Rightarrow> Hlc \<Rightarrow> 'a MvRegister" where
  "writeMvRegister now reg v localHlc =
     (let nextHlc = incrementHlc now localHlc None;
          dominated = filter (\<lambda>entry. compareHlc nextHlc (lwwHlc entry) > 0) (mvValues reg)
      in \<lparr>mvValues = dominated @ [\<lparr>lwwValue = v, lwwHlc = nextHlc\<rparr>]\<rparr>)"

text \<open>
  The loop of \<open>mergeMvRegister\<close> over the combined entries. The source excludes the candidate
  itself by object identity; the comparison of a clock with itself is 0, so the exclusion
  changes nothing. Values are compared with \<open>===\<close>.
\<close>

definition mv_dominated :: "'a LwwElement list \<Rightarrow> 'a LwwElement \<Rightarrow> bool" where
  "mv_dominated combined candidate =
     list_ex (\<lambda>other. other \<noteq> candidate \<and> compareHlc (lwwHlc other) (lwwHlc candidate) > 0) combined"

definition mv_included :: "'a LwwElement list \<Rightarrow> 'a LwwElement \<Rightarrow> bool" where
  "mv_included survivors candidate =
     list_ex (\<lambda>e. compareHlc (lwwHlc e) (lwwHlc candidate) = 0 \<and> lwwValue e = lwwValue candidate)
       survivors"

definition mergeMvRegister :: "'a MvRegister \<Rightarrow> 'a MvRegister \<Rightarrow> 'a MvRegister" where
  "mergeMvRegister a b =
     (let combined = mvValues a @ mvValues b
      in \<lparr>mvValues =
            foldl (\<lambda>survivors candidate.
                     if \<not> mv_dominated combined candidate \<and> \<not> mv_included survivors candidate
                     then survivors @ [candidate] else survivors) [] combined\<rparr>)"

definition readMvRegister :: "'a MvRegister \<Rightarrow> 'a list" where
  "readMvRegister reg = map lwwValue (mvValues reg)"

section \<open>Convergence of state-based replication\<close>

locale state_crdt =
  fixes merge :: "'s \<Rightarrow> 's \<Rightarrow> 's"
    and abs :: "'s \<Rightarrow> 'm"
    and valid :: "'s \<Rightarrow> bool"
    and join :: "'m \<Rightarrow> 'm \<Rightarrow> 'm"
  assumes valid_merge: "valid a \<Longrightarrow> valid b \<Longrightarrow> valid (merge a b)"
    and abs_merge: "valid a \<Longrightarrow> valid b \<Longrightarrow> abs (merge a b) = join (abs a) (abs b)"
    and join_assoc: "valid a \<Longrightarrow> valid b \<Longrightarrow> valid c \<Longrightarrow>
      join (join (abs a) (abs b)) (abs c) = join (abs a) (join (abs b) (abs c))"
    and join_comm: "valid a \<Longrightarrow> valid b \<Longrightarrow> join (abs a) (abs b) = join (abs b) (abs a)"
    and join_idem: "valid a \<Longrightarrow> join (abs a) (abs a) = abs a"
begin

text \<open>State \<open>a\<close> is below \<open>b\<close> when merging it into \<open>b\<close> changes nothing.\<close>

definition below :: "'s \<Rightarrow> 's \<Rightarrow> bool" where
  "below a b \<longleftrightarrow> join (abs a) (abs b) = abs b"

lemma below_antisym: "valid a \<Longrightarrow> valid b \<Longrightarrow> below a b \<Longrightarrow> below b a \<Longrightarrow> abs a = abs b"
  by (metis below_def join_comm)

lemma below_trans:
  "valid a \<Longrightarrow> valid b \<Longrightarrow> valid c \<Longrightarrow> below a b \<Longrightarrow> below b c \<Longrightarrow> below a c"
  unfolding below_def by (metis join_assoc)

lemma below_merge1: "valid a \<Longrightarrow> valid b \<Longrightarrow> below a (merge a b)"
  by (simp add: below_def abs_merge join_idem flip: join_assoc)

lemma below_merge2: "valid a \<Longrightarrow> valid b \<Longrightarrow> below b (merge a b)"
  by (simp add: below_def abs_merge join_comm [of a b] join_idem flip: join_assoc)

lemma merge_least:
  "valid a \<Longrightarrow> valid b \<Longrightarrow> valid u \<Longrightarrow> below a u \<Longrightarrow> below b u \<Longrightarrow> below (merge a b) u"
  by (simp add: below_def abs_merge join_assoc)

lemma merge_all_valid: "valid s \<Longrightarrow> \<forall>x \<in> set xs. valid x \<Longrightarrow> valid (foldl merge s xs)"
  by (induction xs arbitrary: s) (auto simp: valid_merge)

lemma merge_all_upper:
  assumes "valid s" and "\<forall>x \<in> set xs. valid x" and "x \<in> insert s (set xs)"
  shows "below x (foldl merge s xs)"
  using assms
proof (induction xs arbitrary: s x)
  case Nil
  then show ?case by (auto simp: below_def join_idem)
next
  case (Cons y ys)
  then have v: "valid s" "valid y" "valid (merge s y)" by (auto simp: valid_merge)
  have m: "below (merge s y) (foldl merge (merge s y) ys)" using Cons v by simp
  have vall: "valid (foldl merge (merge s y) ys)" using Cons.prems v by (auto intro: merge_all_valid)
  from Cons.prems(3) consider "x = s" | "x = y" | "x \<in> set ys" by auto
  then show ?case
  proof cases
    case 1
    then show ?thesis using below_trans [OF v(1) v(3) vall below_merge1 [OF v(1,2)] m] by simp
  next
    case 2
    then show ?thesis using below_trans [OF v(2) v(3) vall below_merge2 [OF v(1,2)] m] by simp
  next
    case 3
    then show ?thesis using Cons v by simp
  qed
qed

lemma merge_all_least:
  assumes "valid s" and "\<forall>x \<in> set xs. valid x" and "valid u"
    and "\<forall>x \<in> insert s (set xs). below x u"
  shows "below (foldl merge s xs) u"
  using assms by (induction xs arbitrary: s) (auto simp: valid_merge merge_least)

lemma convergence:
  assumes s: "valid s" "valid s'" and v: "\<forall>x \<in> set xs \<union> set ys. valid x"
    and same: "insert s (set xs) = insert s' (set ys)"
  shows "abs (foldl merge s xs) = abs (foldl merge s' ys)"
proof (rule below_antisym)
  show vx: "valid (foldl merge s xs)" and vy: "valid (foldl merge s' ys)"
    using s v by (auto intro: merge_all_valid)
  show "below (foldl merge s xs) (foldl merge s' ys)"
    using s v vy same by (intro merge_all_least) (auto intro: merge_all_upper)
  show "below (foldl merge s' ys) (foldl merge s xs)"
    using s v vx same by (intro merge_all_least) (auto intro: merge_all_upper)
qed

end

section \<open>The element set as a convergent replicated type\<close>

text \<open>The abstract state: what the two maps answer, whatever the order of their entries.\<close>

definition lww_abs ::
  "'a LwwElementSet \<Rightarrow> (string \<Rightarrow> 'a LwwElement option) \<times> (string \<Rightarrow> Hlc option)" where
  "lww_abs s = (map_of (adds s), map_of (removes s))"

definition newest :: "('v \<Rightarrow> Hlc) \<Rightarrow> ('k \<Rightarrow> 'v option) \<Rightarrow> ('k \<Rightarrow> 'v option) \<Rightarrow> 'k \<Rightarrow> 'v option" where
  "newest st m n k =
     (case n k of None \<Rightarrow> m k | Some v \<Rightarrow> if is_newer st v (m k) then Some v else m k)"

definition lww_join ::
  "(string \<Rightarrow> 'a LwwElement option) \<times> (string \<Rightarrow> Hlc option) \<Rightarrow>
   (string \<Rightarrow> 'a LwwElement option) \<times> (string \<Rightarrow> Hlc option) \<Rightarrow>
   (string \<Rightarrow> 'a LwwElement option) \<times> (string \<Rightarrow> Hlc option)" where
  "lww_join p q = (newest lwwHlc (fst p) (fst q), newest (\<lambda>h. h) (snd p) (snd q))"

text \<open>
  A replica of a system in which the clocks are unique: both maps hold each key once, and the
  value written for an element at a clock is the one \<open>tags\<close> gives. \<open>tags\<close> is the history of
  the whole system, shared by all replicas.
\<close>

definition lww_ok :: "(string \<Rightarrow> Hlc \<Rightarrow> 'a) \<Rightarrow> 'a LwwElementSet \<Rightarrow> bool" where
  "lww_ok tags s \<longleftrightarrow>
     distinct (map fst (adds s)) \<and> distinct (map fst (removes s)) \<and>
     (\<forall>(eid, e) \<in> set (adds s). lwwValue e = tags eid (lwwHlc e))"

lemma merge_entries_get:
  "distinct (map fst b) \<Longrightarrow> map_of (merge_entries st a b) = newest st (map_of a) (map_of b)"
  unfolding merge_entries_def
  by (rule ext) (simp add: alist.get_copy_loop newest_def split: option.splits)

lemma merge_entries_distinct:
  "distinct (map fst a) \<Longrightarrow> distinct (map fst (merge_entries st a b))"
  unfolding merge_entries_def by (rule alist.invar_copy_loop)

lemma newest_assoc: "newest st (newest st l m) n = newest st l (newest st m n)"
proof (rule ext)
  fix k
  show "newest st (newest st l m) n k = newest st l (newest st m n) k"
    by (cases "l k"; cases "m k"; cases "n k")
      (auto simp: newest_def is_newer_def dest: hlc.cmp_trans hlc.cmp_not_newer_trans
        split: if_splits)
qed

lemma newest_idem: "newest st m m = m"
  by (rule ext) (auto simp: newest_def is_newer_def order_simps split: option.splits)

lemma newest_comm:
  assumes "\<And>k x y. m k = Some x \<Longrightarrow> n k = Some y \<Longrightarrow> st x = st y \<Longrightarrow> x = y"
  shows "newest st m n = newest st n m"
proof (rule ext)
  fix k
  show "newest st m n k = newest st n m k"
    using assms [of k] hlc.cmp_total hlc.cmp_asym
    by (cases "m k"; cases "n k") (auto simp: newest_def is_newer_def)
qed

lemma newest_SomeD: "newest st m n k = Some v \<Longrightarrow> m k = Some v \<or> n k = Some v"
  by (auto simp: newest_def split: option.splits if_splits)

lemma newest_upper:
  assumes "m k = Some r \<or> n k = Some r"
  shows "\<exists>x. newest st m n k = Some x \<and> compareHlc (st x) (st r) \<ge> 0"
proof (cases "n k")
  case (Some v)
  with assms show ?thesis
    by (cases "m k"; cases "is_newer st v (m k)")
      (auto simp: newest_def is_newer_def order_simps hlc.cmp_not_pos)
qed (use assms in \<open>simp add: newest_def order_simps\<close>)

lemma LwwElement_eqI: "lwwValue x = lwwValue y \<Longrightarrow> lwwHlc x = lwwHlc y \<Longrightarrow> x = (y::'a LwwElement)"
  by simp

lemma lww_ok_value:
  "lww_ok tags s \<Longrightarrow> map_of (adds s) k = Some e \<Longrightarrow> lwwValue e = tags k (lwwHlc e)"
  by (auto simp: lww_ok_def dest: map_of_SomeD)

lemma lww_ok_merge:
  assumes a: "lww_ok tags a" and b: "lww_ok tags b"
  shows "lww_ok tags (mergeLwwElementSet a b)"
proof -
  let ?m = "merge_entries lwwHlc (adds a) (adds b)"
  have d: "distinct (map fst ?m)" "distinct (map fst (merge_entries (\<lambda>h. h) (removes a) (removes b)))"
    using a by (auto simp: lww_ok_def intro: merge_entries_distinct)
  have "lwwValue e = tags k (lwwHlc e)" if "(k, e) \<in> set ?m" for k e
  proof -
    from that d(1) have "map_of ?m k = Some e" by simp
    then have "map_of (adds a) k = Some e \<or> map_of (adds b) k = Some e"
      using b by (auto simp: merge_entries_get lww_ok_def dest: newest_SomeD)
    then show ?thesis using lww_ok_value a b by metis
  qed
  with d show ?thesis by (auto simp: lww_ok_def mergeLwwElementSet_def)
qed

lemma lww_abs_merge:
  "lww_ok tags b \<Longrightarrow> lww_abs (mergeLwwElementSet a b) = lww_join (lww_abs a) (lww_abs b)"
  by (simp add: lww_abs_def lww_join_def mergeLwwElementSet_def merge_entries_get lww_ok_def)

interpretation lww: state_crdt mergeLwwElementSet lww_abs "lww_ok tags" lww_join
  for tags :: "string \<Rightarrow> Hlc \<Rightarrow> 'a"
proof unfold_locales
  fix a b c :: "'a LwwElementSet"
  show "lww_join (lww_join (lww_abs a) (lww_abs b)) (lww_abs c) =
      lww_join (lww_abs a) (lww_join (lww_abs b) (lww_abs c))"
    by (simp add: lww_join_def newest_assoc)
  show "lww_join (lww_abs a) (lww_abs a) = lww_abs a"
    by (simp add: lww_join_def newest_idem lww_abs_def)
  assume ok: "lww_ok tags a" "lww_ok tags b"
  then show "lww_ok tags (mergeLwwElementSet a b)" by (rule lww_ok_merge)
  show "lww_abs (mergeLwwElementSet a b) = lww_join (lww_abs a) (lww_abs b)"
    using ok(2) by (rule lww_abs_merge)
  have "newest lwwHlc (map_of (adds a)) (map_of (adds b)) =
      newest lwwHlc (map_of (adds b)) (map_of (adds a))"
    using ok by (intro newest_comm LwwElement_eqI) (auto simp: lww_ok_value)
  moreover have "newest (\<lambda>h. h) (map_of (removes a)) (map_of (removes b)) =
      newest (\<lambda>h. h) (map_of (removes b)) (map_of (removes a))"
    by (rule newest_comm) simp
  ultimately show "lww_join (lww_abs a) (lww_abs b) = lww_join (lww_abs b) (lww_abs a)"
    by (simp add: lww_join_def lww_abs_def)
qed

text \<open>An element is visible when the newest add is newer than the newest remove.\<close>

fun visible :: "'a LwwElement option \<Rightarrow> Hlc option \<Rightarrow> 'a option" where
  "visible None r = None"
| "visible (Some a) None = Some (lwwValue a)"
| "visible (Some a) (Some r) = (if compareHlc r (lwwHlc a) \<ge> 0 then None else Some (lwwValue a))"

lemma lookup_visible:
  "lookupLwwElement s eid = visible (fst (lww_abs s) eid) (snd (lww_abs s) eid)"
  by (auto simp: lookupLwwElement_def lww_abs_def split: option.splits)

lemma lookup_of_abs: "lww_abs s = lww_abs t \<Longrightarrow> lookupLwwElement s = lookupLwwElement t"
  by (rule ext) (simp only: lookup_visible)

section \<open>The register\<close>

lemma mv_included_iff [simp]: "mv_included xs c \<longleftrightarrow> c \<in> set xs"
  by (auto simp: mv_included_def list_ex_iff order_simps dest: LwwElement_eqI)

lemma mv_dominated_iff:
  "mv_dominated xs c \<longleftrightarrow> (\<exists>y \<in> set xs. compareHlc (lwwHlc y) (lwwHlc c) > 0)"
  by (auto simp: mv_dominated_def list_ex_iff) (metis hlc.cmp_refl less_irrefl)

lemma collect_loop:
  fixes P :: "'b \<Rightarrow> bool"
  defines "loop \<equiv> foldl (\<lambda>acc c. if P c \<and> c \<notin> set acc then acc @ [c] else acc)"
  shows "set (loop acc xs) = set acc \<union> {c \<in> set xs. P c}"
    and "distinct acc \<Longrightarrow> distinct (loop acc xs)"
  unfolding loop_def by (induction xs arbitrary: acc) auto

lemma mergeMv_values:
  "set (mvValues (mergeMvRegister a b)) =
     {c \<in> set (mvValues a) \<union> set (mvValues b).
        \<forall>y \<in> set (mvValues a) \<union> set (mvValues b). \<not> compareHlc (lwwHlc y) (lwwHlc c) > 0}"
  "distinct (mvValues (mergeMvRegister a b))"
  by (auto simp: mergeMvRegister_def Let_def collect_loop mv_dominated_iff)

lemma distinct_singleton: "distinct xs \<Longrightarrow> set xs = {x} \<Longrightarrow> xs = [x]"
proof -
  assume "distinct xs" "set xs = {x}"
  then have "length xs = 1" using distinct_card [of xs] by simp
  with \<open>set xs = {x}\<close> show ?thesis by (cases xs) auto
qed

section \<open>Properties\<close>


definition lww_sample :: "int \<Rightarrow> string \<Rightarrow> int LwwElementSet" where
  "lww_sample t n =
     \<lparr>adds = [(''milk'', \<lparr>lwwValue = t, lwwHlc = \<lparr>physicalTimeMs = t, logicalCounter = 0, nodeId = n\<rparr>\<rparr>)],
      removes = []\<rparr>"


text \<open>
  Merging invents nothing: an element visible in the merge, with its value, was visible with
  that value in one of the two replicas.
\<close>

theorem lww_merge_no_resurrection:
  assumes "distinct (map fst (adds b))" and "distinct (map fst (removes b))"
    and "lookupLwwElement (mergeLwwElementSet a b) eid = Some v"
  shows "lookupLwwElement a eid = Some v \<or> lookupLwwElement b eid = Some v"
proof -
  let ?add = "newest lwwHlc (map_of (adds a)) (map_of (adds b)) eid"
  let ?rem = "newest (\<lambda>h. h) (map_of (removes a)) (map_of (removes b)) eid"
  have vis: "visible ?add ?rem = Some v"
    using assms by (simp add: lookup_visible lww_abs_def mergeLwwElementSet_def merge_entries_get)
  then obtain e where e: "?add = Some e" "lwwValue e = v" by (cases ?add; cases ?rem) (auto split: if_splits)
  have old: "\<not> compareHlc r (lwwHlc e) \<ge> 0"
    if r: "map_of (removes a) eid = Some r \<or> map_of (removes b) eid = Some r" for r
  proof -
    from newest_upper [of "map_of (removes a)" eid r "map_of (removes b)" "\<lambda>h. h"] r
    obtain m where m: "?rem = Some m" "compareHlc m r \<ge> 0" by blast
    with vis e have "\<not> compareHlc m (lwwHlc e) \<ge> 0" by (auto split: if_splits)
    with m(2) show ?thesis using hlc.cmp_le_trans by blast
  qed
  from e(1) have "map_of (adds a) eid = Some e \<or> map_of (adds b) eid = Some e"
    by (rule newest_SomeD)
  then show ?thesis
    using old e(2) by (auto simp: lookupLwwElement_def split: option.splits)
qed

theorem lww_merge_no_resurrection_witness:
  "lookupLwwElement (lww_sample 1 ''a'') ''milk'' = Some 2 \<or>
   lookupLwwElement (lww_sample 2 ''b'') ''milk'' = Some 2"
  by (rule lww_merge_no_resurrection)
    (simp_all add: lww_sample_def lookupLwwElement_def mergeLwwElementSet_def merge_entries_def
      is_newer_def compareHlc_def)

text \<open>
  What a lookup returns after an add and after a remove, on every branch: the added value
  unless a remove at least as new is recorded, nothing after a remove at least as new as the
  add, and no change for other elements.
\<close>

theorem lww_lookup_after_update:
  "(lookupLwwElement (addLwwElement now s eid v h) k =
     (if k \<noteq> eid then lookupLwwElement s k
      else case map_of (removes s) eid of
        None \<Rightarrow> Some v
      | Some r \<Rightarrow> if compareHlc (incrementHlc now h None) r > 0 then Some v else None)) \<and>
   (lookupLwwElement (removeLwwElement now s eid h) k =
     (if k \<noteq> eid then lookupLwwElement s k
      else case map_of (adds s) eid of
        None \<Rightarrow> None
      | Some a \<Rightarrow> if compareHlc (lwwHlc a) (incrementHlc now h None) > 0 then Some (lwwValue a) else None))"
  using hlc.cmp_not_pos
  by (auto simp: lookupLwwElement_def addLwwElement_def removeLwwElement_def Let_def js_simps
      split: option.splits)

text \<open>
  The register merge keeps exactly the entries whose clock no entry of either register
  exceeds, each once; it does not depend on the order of its arguments.
\<close>

theorem mergeMvRegister_maximal:
  "set (mvValues (mergeMvRegister a b)) =
     {c \<in> set (mvValues a @ mvValues b).
        list_all (\<lambda>y. compareHlc (lwwHlc c) (lwwHlc y) \<ge> 0) (mvValues a @ mvValues b)} \<and>
   distinct (mvValues (mergeMvRegister a b)) \<and>
   set (mvValues (mergeMvRegister a b)) = set (mvValues (mergeMvRegister b a))"
  by (auto simp: mergeMv_values hlc.cmp_not_pos list_all_iff)

text \<open>
  A write whose clock is newer than every entry does not collapse the register: all old
  values stay readable before the new one, and only a later merge (here with itself) leaves the
  written value alone.
\<close>

theorem writeMvRegister_collapses_only_on_merge:
  assumes "list_all (\<lambda>e. compareHlc (incrementHlc now h None) (lwwHlc e) > 0) (mvValues reg)"
  shows "readMvRegister (writeMvRegister now reg v h) = readMvRegister reg @ [v] \<and>
    readMvRegister (mergeMvRegister (writeMvRegister now reg v h) (writeMvRegister now reg v h)) = [v]"
proof -
  let ?n = "\<lparr>lwwValue = v, lwwHlc = incrementHlc now h None\<rparr>"
  let ?w = "writeMvRegister now reg v h"
  have w: "mvValues ?w = mvValues reg @ [?n]"
    using assms by (simp add: writeMvRegister_def Let_def list_all_iff)
  have "set (mvValues (mergeMvRegister ?w ?w)) = {?n}"
    using assms by (auto simp: mergeMv_values w list_all_iff order_simps dest: hlc.cmp_asym)
  then have "mvValues (mergeMvRegister ?w ?w) = [?n]"
    by (rule distinct_singleton [OF mergeMv_values(2)])
  with w show ?thesis by (simp add: readMvRegister_def)
qed

theorem writeMvRegister_collapses_only_on_merge_witness:
  "readMvRegister (writeMvRegister 9
     \<lparr>mvValues = [\<lparr>lwwValue = 4::int, lwwHlc = \<lparr>physicalTimeMs = 5, logicalCounter = 0, nodeId = ''a''\<rparr>\<rparr>]\<rparr>
     6 \<lparr>physicalTimeMs = 5, logicalCounter = 0, nodeId = ''a''\<rparr>) = [4, 6]"
  using writeMvRegister_collapses_only_on_merge
    [of 9 "\<lparr>physicalTimeMs = 5, logicalCounter = 0, nodeId = ''a''\<rparr>"
      "\<lparr>mvValues = [\<lparr>lwwValue = 4::int, lwwHlc = \<lparr>physicalTimeMs = 5, logicalCounter = 0, nodeId = ''a''\<rparr>\<rparr>]\<rparr>" 6]
  by (simp add: readMvRegister_def incrementHlc_def compareHlc_def)

end
