(* ===== verification/JsValues.thy ===== *)
theory JsValues
  imports Prelude Complex_Main
begin

text \<open>
  JavaScript values the source handles without a static type (parsed JSON, environment
  variables), the errors it throws, and the string functions of the standard library it calls.
\<close>

section \<open>Values of type \<open>unknown\<close>\<close>

text \<open>
  A finite number is a rational: JSON numbers, and every double, are rationals. \<open>JBytes\<close> is a
  \<open>Uint8Array\<close>. Objects keep their properties in order.
\<close>

datatype jsval =
    JUndefined
  | JNull
  | JBool bool
  | JNum rat
  | JStr string
  | JArr "jsval list"
  | JObj "(string \<times> jsval) list"
  | JBytes "nat list"

text \<open>Property access on a value cast to a record: \<open>undefined\<close> when absent.\<close>

fun getProp :: "jsval \<Rightarrow> string \<Rightarrow> jsval" where
  "getProp (JObj ps) k = (case map_of ps k of None \<Rightarrow> JUndefined | Some v \<Rightarrow> v)"
| "getProp _ k = JUndefined"

text \<open>The conversion to boolean in a condition.\<close>

fun truthy :: "jsval \<Rightarrow> bool" where
  "truthy JUndefined = False"
| "truthy JNull = False"
| "truthy (JBool b) = b"
| "truthy (JNum q) = (q \<noteq> 0)"
| "truthy (JStr s) = (s \<noteq> [])"
| "truthy (JArr _) = True"
| "truthy (JObj _) = True"
| "truthy (JBytes _) = True"

fun is_str :: "jsval \<Rightarrow> bool" where
  "is_str (JStr _) = True"
| "is_str _ = False"

text \<open>\<open>typeof v === "object"\<close>, which holds of \<open>null\<close>.\<close>

fun typeof_object :: "jsval \<Rightarrow> bool" where
  "typeof_object JNull = True"
| "typeof_object (JArr _) = True"
| "typeof_object (JObj _) = True"
| "typeof_object (JBytes _) = True"
| "typeof_object _ = False"

fun str_of :: "jsval \<Rightarrow> string" where
  "str_of (JStr s) = s"
| "str_of _ = []"

section \<open>Thrown errors\<close>

datatype err_kind = PlainError | TypeErr | TimeoutErr | ApiErr | DomErr string

record js_error =
  errKind :: err_kind
  errMessage :: string
  errStatus :: "int option"
  errCode :: "string option"
  errRetryAfterMs :: "int option"

text \<open>A thrown value: an instance of \<open>Error\<close>, or anything else.\<close>

datatype thrown = ThrownError js_error | ThrownOther string

definition mk_error :: "string \<Rightarrow> js_error" where
  "mk_error msg = \<lparr>errKind = PlainError, errMessage = msg, errStatus = None, errCode = None,
     errRetryAfterMs = None\<rparr>"

definition new_Error :: "string \<Rightarrow> thrown" where
  "new_Error msg = ThrownError (mk_error msg)"

text \<open>\<open>error instanceof Error ? error : new Error(String(error))\<close>.\<close>

fun as_error :: "thrown \<Rightarrow> js_error" where
  "as_error (ThrownError e) = e"
| "as_error (ThrownOther s) = mk_error s"

section \<open>Strings\<close>

definition is_digit :: "char \<Rightarrow> bool" where
  "is_digit c \<longleftrightarrow> CHR ''0'' \<le> c \<and> c \<le> CHR ''9''"

definition is_lower_hex :: "char \<Rightarrow> bool" where
  "is_lower_hex c \<longleftrightarrow> is_digit c \<or> CHR ''a'' \<le> c \<and> c \<le> CHR ''f''"

definition is_hex :: "char \<Rightarrow> bool" where
  "is_hex c \<longleftrightarrow> is_lower_hex c \<or> CHR ''A'' \<le> c \<and> c \<le> CHR ''F''"

text \<open>The value of a hexadecimal digit, as \<open>parseInt\<close> with radix 16 reads it.\<close>

definition hex_val :: "char \<Rightarrow> nat" where
  "hex_val c =
     (if is_digit c then of_char c - 48
      else if CHR ''a'' \<le> c \<and> c \<le> CHR ''f'' then of_char c - 87
      else of_char c - 55)"

definition parse_hex :: "string \<Rightarrow> nat" where
  "parse_hex s = foldl (\<lambda>n c. 16 * n + hex_val c) 0 s"

text \<open>\<open>s.split(sep)\<close> for a one-character separator.\<close>

fun split_on :: "char \<Rightarrow> string \<Rightarrow> string list" where
  "split_on sep [] = [[]]"
| "split_on sep (c # cs) =
     (if c = sep then [] # split_on sep cs
      else case split_on sep cs of [] \<Rightarrow> [[c]] | p # ps \<Rightarrow> (c # p) # ps)"

fun join_with :: "string \<Rightarrow> string list \<Rightarrow> string" where
  "join_with sep [] = []"
| "join_with sep [s] = s"
| "join_with sep (s # t # ss) = s @ sep @ join_with sep (t # ss)"

text \<open>The decimal digits of \<open>String(n)\<close> for an integer.\<close>

fun nat_digits :: "nat \<Rightarrow> string" where
  "nat_digits n =
     (if n < 10 then [char_of (48 + n)] else nat_digits (n div 10) @ [char_of (48 + n mod 10)])"

declare nat_digits.simps [simp del]

definition int_digits :: "int \<Rightarrow> string" where
  "int_digits i = (if i < 0 then CHR ''-'' # nat_digits (nat (- i)) else nat_digits (nat i))"

definition is_space :: "char \<Rightarrow> bool" where
  "is_space c \<longleftrightarrow> (let n = (of_char c :: nat) in n = 32 \<or> 9 \<le> n \<and> n \<le> 13 \<or> n = 160)"

definition trim :: "string \<Rightarrow> string" where
  "trim s = rev (dropWhile is_space (rev (dropWhile is_space s)))"

definition to_lower :: "string \<Rightarrow> string" where
  "to_lower = map (\<lambda>c. if CHR ''A'' \<le> c \<and> c \<le> CHR ''Z'' then char_of (of_char c + (32::nat)) else c)"

definition to_upper :: "string \<Rightarrow> string" where
  "to_upper = map (\<lambda>c. if CHR ''a'' \<le> c \<and> c \<le> CHR ''z'' then char_of (of_char c - (32::nat)) else c)"

text \<open>
  \<open>Number.parseInt(s, radix)\<close> for radix 10 and 16: leading white space and a sign are skipped, for
  radix 16 also a prefix \<open>0x\<close>, and the longest run of digits is read. \<open>None\<close> is \<open>NaN\<close>.
\<close>

definition radix_digit :: "nat \<Rightarrow> char \<Rightarrow> bool" where
  "radix_digit radix c = (if radix = 16 then is_hex c else is_digit c)"

definition digits_value :: "nat \<Rightarrow> string \<Rightarrow> nat" where
  "digits_value radix ds = foldl (\<lambda>n c. radix * n + hex_val c) 0 ds"

definition parse_unsigned :: "nat \<Rightarrow> string \<Rightarrow> int option" where
  "parse_unsigned radix s =
     (let t = (if radix = 16 \<and> (take 2 s = ''0x'' \<or> take 2 s = ''0X'') then drop 2 s else s);
          ds = takeWhile (radix_digit radix) t
      in if ds = [] then None else Some (int (digits_value radix ds)))"

definition parseInt :: "nat \<Rightarrow> string \<Rightarrow> int option" where
  "parseInt radix s =
     (case dropWhile is_space s of
        [] \<Rightarrow> None
      | c # cs \<Rightarrow>
          if c = CHR ''-'' then map_option uminus (parse_unsigned radix cs)
          else if c = CHR ''+'' then parse_unsigned radix cs
          else parse_unsigned radix (c # cs))"

lemma split_on_not_Nil [simp]: "split_on sep s \<noteq> []"
  by (induction s) (auto split: list.splits)

lemma join_split: "join_with [sep] (split_on sep s) = s"
proof (induction s)
  case (Cons c cs)
  obtain p ps where "split_on sep cs = p # ps" by (cases "split_on sep cs") auto
  with Cons show ?case by (cases ps) auto
qed simp

lemma parse_hex_snoc: "parse_hex (s @ [c]) = 16 * parse_hex s + hex_val c"
  by (simp add: parse_hex_def)

lemma hex_val_less: "is_hex c \<Longrightarrow> hex_val c < 16"
  by (auto simp: is_hex_def is_lower_hex_def is_digit_def hex_val_def less_eq_char_def)

lemma parse_hex_less: "list_all is_hex s \<Longrightarrow> parse_hex s < 16 ^ length s"
proof (induction s rule: rev_induct)
  case (snoc c s)
  then have "parse_hex s < 16 ^ length s" "hex_val c < 16" by (auto intro: hex_val_less)
  then show ?case by (simp add: parse_hex_snoc)
qed (simp add: parse_hex_def)

section \<open>Digits\<close>

lemma nat_digits_reads: "digits_value 10 (nat_digits n) = n \<and> list_all is_digit (nat_digits n) \<and> nat_digits n \<noteq> []"
proof (induction n rule: nat_digits.induct)
  case (1 n)
  have d: "is_digit (char_of (48 + k)) \<and> hex_val (char_of (48 + k)) = k" if "k < 10" for k :: nat
    using that by (auto simp: is_digit_def hex_val_def less_eq_char_def)
  show ?case
  proof (cases "n < 10")
    case True
    then show ?thesis using d [of n] by (simp add: nat_digits.simps [of n] digits_value_def)
  next
    case False
    have "10 * (n div 10) + n mod 10 = n" by simp
    then show ?thesis
      using 1 [OF False] d [of "n mod 10"] False by (simp add: nat_digits.simps [of n] digits_value_def)
  qed
qed

lemma nat_digits_inj: "nat_digits m = nat_digits n \<Longrightarrow> m = n"
  using nat_digits_reads by metis

lemma nat_digits_not:
  assumes "\<not> is_digit c" shows "c \<notin> set (nat_digits n)"
  using nat_digits_reads [of n] assms by (auto simp: list_all_iff)

end
