(* ===== verification/KioskTypes.thy ===== *)
theory KioskTypes
  imports Hlc JsValues
begin

text \<open>
  The data of the kiosk: the part of \<open>packages/shared-types/src/types/domain.ts\<close> and
  \<open>kiosk.ts\<close> that the kiosk's own code computes with (menu items with their modifier groups,
  orders, cart lines, cart state, totals, payments), and the locale codes of
  \<open>apps/kiosk/src/i18n/index.ts\<close>. Interfaces are records and unions of literals are datatypes.
  Where two interfaces share a field name, the later record hides the earlier one, and the
  earlier is written with its record's name (\<open>Item.name\<close>).
\<close>

section \<open>Enumerations\<close>

datatype ItemTaxCategory = Tax_standard | Tax_exempt | Tax_reduced

datatype WeightUnit = Unit_g | Unit_kg | Unit_lb | Unit_oz

datatype OrderStatus =
  Order_pending | Order_paid | Order_fulfilled | Order_cancelled | Order_refunded

datatype PaymentMethod =
  credit_debit | nfc_apple_pay | nfc_google_pay | qr_code | cash_recycler

datatype PaymentStatus =
  PS_pending | PS_authorized | PS_captured | PS_queued_offline | PS_declined | PS_voided | PS_refunded

datatype LaneMode = express | full

datatype LocaleCode =
  L_en | L_es | L_zh_CN | L_fr | L_ja | L_ko | L_hi | L_ar | L_pt | L_ru | L_bn | L_de | L_ur
| L_tr | L_zh_TW | L_vi | L_th

section \<open>Menu\<close>

record Category =
  categoryId :: string
  storeId :: string
  parentId :: "string option"
  name :: string
  description :: "string option"
  displayOrder :: int
  imageUrl :: "string option"
  blurhash :: "string option"
  isActive :: bool
  createdAt :: string
  updatedAt :: string
  deletedAt :: "string option"

record ModifierOption =
  modifierOptionId :: string
  modifierGroupId :: string
  name :: string
  priceDeltaCents :: cents
  isDefault :: bool
  displayOrder :: int
  isActive :: bool
  createdAt :: string
  updatedAt :: string
  deletedAt :: "string option"

text \<open>\<open>MenuModifierGroup\<close> is \<open>ModifierGroup & { options }\<close>.\<close>

record ModifierGroup =
  modifierGroupId :: string
  storeId :: string
  name :: string
  description :: "string option"
  minSelect :: int
  maxSelect :: int
  displayOrder :: int
  isActive :: bool
  createdAt :: string
  updatedAt :: string
  deletedAt :: "string option"

record MenuModifierGroup = ModifierGroup +
  options :: "ModifierOption list"

record Item =
  itemId :: string
  storeId :: string
  categoryId :: string
  name :: string
  description :: "string option"
  priceCents :: cents
  costCents :: "cents option"
  plu :: "string option"
  barcode :: "string option"
  sku :: "string option"
  imageUrl :: "string option"
  blurhash :: "string option"
  taxCategory :: ItemTaxCategory
  isWeightBased :: bool
  weightUnit :: "WeightUnit option"
  isActive :: bool
  metadata :: "(string \<times> jsval) list option"
  createdAt :: string
  updatedAt :: string
  deletedAt :: "string option"

text \<open>\<open>MenuItem\<close> is \<open>Item & { modifierGroups, category? }\<close>.\<close>

record MenuItem = Item +
  modifierGroups :: "MenuModifierGroup list"
  category :: "Category option"

section \<open>Orders\<close>

record OrderItemModifier =
  modifierGroupId :: string
  optionId :: string
  name :: string
  priceDeltaCents :: cents

record OrderItem =
  orderItemId :: string
  orderId :: string
  itemId :: string
  nameSnapshot :: string
  priceCentsSnapshot :: cents
  quantity :: int
  modifiersJson :: "OrderItemModifier list"
  lineTotalCents :: cents
  createdAt :: string

record TaxBreakdownEntry =
  label :: string
  amountCents :: cents
  rate :: rat

record Order =
  orderId :: string
  storeId :: string
  kioskId :: string
  cartId :: string
  orderNumber :: string
  status :: OrderStatus
  subtotalCents :: cents
  taxCents :: cents
  discountCents :: cents
  totalCents :: cents
  itemsJson :: "OrderItem list"
  taxBreakdownJson :: "TaxBreakdownEntry list option"
  metadata :: "(string \<times> jsval) list option"
  paidAt :: "string option"
  fulfilledAt :: "string option"
  cancelledAt :: "string option"
  createdAt :: string

section \<open>Payments\<close>

record PaymentAuthorizationResult =
  authorizationId :: string
  status :: PaymentStatus
  paymentMethod :: PaymentMethod
  amountCents :: cents
  approvalCode :: "string option"
  declineReason :: "string option"
  cardBrand :: "string option"
  cardLastFour :: "string option"
  receiptText :: "string option"

record OfflinePaymentToken =
  tokenId :: string
  kioskId :: string
  cartId :: string
  amountCents :: cents
  currency :: string
  paymentMethod :: PaymentMethod
  verifoneOpaqueToken :: string
  createdAtMs :: ms
  expiresAtMs :: ms
  hmacSignature :: string
  synced :: bool

section \<open>Cart\<close>

record ModifierSelection =
  modifierId :: string
  optionId :: string
  priceDeltaCents :: cents

record CartLineItem =
  lineId :: string
  menuItemId :: string
  nameSnapshot :: string
  unitPriceCentsSnapshot :: cents
  quantity :: int
  modifiers :: "ModifierSelection list"
  lineNotes :: "string option"
  weightGrams :: "int option"
  addedAtMs :: ms

datatype breakdownKind = K_tax | K_discount | K_fee | K_loyalty

record BreakdownEntry =
  label :: string
  amountCents :: cents
  kind :: breakdownKind

record CartTotals =
  subtotalCents :: cents
  discountCents :: cents
  taxCents :: cents
  environmentalFeeCents :: cents
  loyaltyDiscountCents :: cents
  totalCents :: cents
  breakdown :: "BreakdownEntry list"

record CartState =
  cartId :: string
  kioskId :: string
  sessionId :: string
  storeId :: "string option"
  lines :: "CartLineItem list"
  version :: int
  currency :: string
  createdAtMs :: ms
  updatedAtMs :: ms

end
