(* ===== verification/KioskMachine.thy ===== *)
theory KioskMachine
  imports KioskTypes
begin

text \<open>
  The workflow machine of \<open>apps/kiosk/src/machines/kioskMachine.ts\<close>. The configuration object
  is data: one definition per state node gives, for every event, the guarded transition with its
  target and its actions, in the order of the source. \<open>send\<close> interprets it with the semantics of
  XState: the first enabled transition of the current state runs its actions and then the entry
  actions of its target; a transition without a target only runs actions; entering \<open>PROCESSING\<close>
  starts the promise actor \<open>finalizeOrder\<close>, leaving it stops the actor, and the result of an actor
  that was stopped is not delivered. Actors are numbered, so that a late result is recognisable.
\<close>

section \<open>Context and events\<close>

datatype stage =
  LANGUAGE_SELECT | ATTRACT | MENU | ITEM_DETAIL | CART | PAYMENT | PROCESSING
| PROCESSING_ERROR | RECEIPT | ADMIN

datatype returnTarget = Return_MENU | Return_CART

datatype apiStatusKind = Api_online | Api_offline | Api_degraded | Api_unknown

record KioskContext =
  uiLocale :: LocaleCode
  sessionId :: "string option"
  laneMode :: LaneMode
  selectedItem :: "MenuItem option"
  cartHasItems :: bool
  returnTo :: "returnTarget option"
  paymentResult :: "PaymentAuthorizationResult option"
  order :: "Order option"
  errorMessage :: "string option"
  apiStatus :: apiStatusKind
  isOfflineMode :: bool
  cartId :: string

text \<open>The last two events are those XState raises when the promise actor settles.\<close>

datatype KioskEvent =
    SET_LANGUAGE LocaleCode
  | START_SESSION string "LaneMode option"
  | TAP_START string "LaneMode option"
  | SELECT_ITEM MenuItem
  | CLOSE_ITEM_DETAIL
  | ADD_TO_CART
  | CART_UPDATED bool
  | GO_TO_CART
  | BACK_TO_MENU
  | PROCEED_TO_PAYMENT
  | PAYMENT_AUTHORIZED PaymentAuthorizationResult
  | PAYMENT_DECLINED PaymentAuthorizationResult
  | PAYMENT_FAILED string
  | CANCEL_PAYMENT
  | ORDER_FINALIZED Order
  | RECEIPT_ACKNOWLEDGED
  | RETURN_TO_ATTRACT
  | OPEN_ADMIN
  | CLOSE_ADMIN
  | API_ERROR string
  | NETWORK_OFFLINE
  | NETWORK_ONLINE
  | RETRY
  | FINALIZE_DONE Order
  | FINALIZE_ERROR thrown

definition APPROVED_STATUSES :: "PaymentStatus list" where
  "APPROVED_STATUSES = [PS_authorized, PS_captured, PS_queued_offline]"

definition isApprovedResult :: "PaymentAuthorizationResult \<Rightarrow> bool" where
  "isApprovedResult result \<longleftrightarrow> status result \<in> set APPROVED_STATUSES"

definition isDeclinedResult :: "PaymentAuthorizationResult \<Rightarrow> bool" where
  "isDeclinedResult result \<longleftrightarrow> status result = PS_declined"

record FinalizeInput =
  inSessionId :: string
  inPaymentResult :: "PaymentAuthorizationResult option"
  inCartId :: string

text \<open>\<open>createOrder\<close> is the call of the API client with the cart and the authorization.\<close>

definition finalizeOrder ::
  "(string \<Rightarrow> string \<Rightarrow> thrown + Order) \<Rightarrow> FinalizeInput \<Rightarrow> thrown + Order" where
  "finalizeOrder createOrder input =
     (case inPaymentResult input of
        None \<Rightarrow> Inl (new_Error ''Cannot finalize order without a payment result.'')
      | Some r \<Rightarrow> createOrder (inCartId input) (authorizationId r))"

section \<open>Guards and actions\<close>

datatype guard = G_cartHasItems | G_paymentApproved | G_paymentDeclined

datatype action =
  assignLanguage | assignSession | assignSelectedItem | clearSelectedItem | assignCartStatus
| markCartHasItems | assignPaymentResult | clearPaymentResult | setPaymentError | setErrorMessage
| setDeclineError | setOnlineMode | setOfflineMode | assignCartId | clearError | resetContext
| assignOrder | assignFinalizeError

text \<open>The identifier in the cart proxy when the event is handled, and when the module was loaded.\<close>

record machine_env =
  proxyCartId :: string
  bootCartId :: string

fun guard_holds :: "guard \<Rightarrow> KioskContext \<Rightarrow> KioskEvent \<Rightarrow> bool" where
  "guard_holds G_cartHasItems c e = cartHasItems c"
| "guard_holds G_paymentApproved c e = (case e of PAYMENT_AUTHORIZED r \<Rightarrow> isApprovedResult r | _ \<Rightarrow> False)"
| "guard_holds G_paymentDeclined c e = (case e of PAYMENT_DECLINED r \<Rightarrow> isDeclinedResult r | _ \<Rightarrow> False)"

definition decline_message :: "PaymentAuthorizationResult \<Rightarrow> string" where
  "decline_message r =
     (case declineReason r of None \<Rightarrow> ''Payment declined. Try another method.'' | Some m \<Rightarrow> m)"

definition assign_session :: "string \<Rightarrow> string \<Rightarrow> LaneMode option \<Rightarrow> KioskContext \<Rightarrow> KioskContext" where
  "assign_session proxy sid lane c =
     c\<lparr>sessionId := Some sid, laneMode := (case lane of None \<Rightarrow> full | Some l \<Rightarrow> l),
       errorMessage := None, cartId := proxy, returnTo := None\<rparr>"

fun run_action :: "machine_env \<Rightarrow> KioskEvent \<Rightarrow> action \<Rightarrow> KioskContext \<Rightarrow> KioskContext" where
  "run_action env e assignLanguage c = (case e of SET_LANGUAGE l \<Rightarrow> c\<lparr>uiLocale := l\<rparr> | _ \<Rightarrow> c)"
| "run_action env e assignSession c =
     (case e of
        START_SESSION sid lane \<Rightarrow> assign_session (proxyCartId env) sid lane c
      | TAP_START sid lane \<Rightarrow> assign_session (proxyCartId env) sid lane c
      | _ \<Rightarrow> c)"
| "run_action env e assignSelectedItem c =
     c\<lparr>selectedItem := (case e of SELECT_ITEM i \<Rightarrow> Some i | _ \<Rightarrow> None)\<rparr>"
| "run_action env e clearSelectedItem c = c\<lparr>selectedItem := None\<rparr>"
| "run_action env e assignCartStatus c =
     c\<lparr>cartHasItems := (case e of CART_UPDATED b \<Rightarrow> b | _ \<Rightarrow> False)\<rparr>"
| "run_action env e markCartHasItems c = c\<lparr>cartHasItems := True\<rparr>"
| "run_action env e assignPaymentResult c =
     c\<lparr>paymentResult := (case e of PAYMENT_AUTHORIZED r \<Rightarrow> Some r | _ \<Rightarrow> None)\<rparr>"
| "run_action env e clearPaymentResult c = c\<lparr>paymentResult := None\<rparr>"
| "run_action env e setPaymentError c =
     c\<lparr>errorMessage :=
         (case e of PAYMENT_DECLINED r \<Rightarrow> Some (decline_message r)
          | PAYMENT_FAILED m \<Rightarrow> Some m | _ \<Rightarrow> None)\<rparr>"
| "run_action env e setErrorMessage c =
     c\<lparr>errorMessage :=
         (case e of PAYMENT_FAILED m \<Rightarrow> Some m | _ \<Rightarrow> Some ''An unexpected error occurred.'')\<rparr>"
| "run_action env e setDeclineError c =
     c\<lparr>errorMessage := (case e of PAYMENT_DECLINED r \<Rightarrow> Some (decline_message r) | _ \<Rightarrow> None)\<rparr>"
| "run_action env e setOnlineMode c = c\<lparr>apiStatus := Api_online, isOfflineMode := False\<rparr>"
| "run_action env e setOfflineMode c = c\<lparr>apiStatus := Api_offline, isOfflineMode := True\<rparr>"
| "run_action env e assignCartId c = c\<lparr>cartId := bootCartId env\<rparr>"
| "run_action env e clearError c = c\<lparr>errorMessage := None\<rparr>"
| "run_action env e resetContext c =
     c\<lparr>sessionId := None, laneMode := full, selectedItem := None, cartHasItems := False,
       returnTo := None, paymentResult := None, order := None, errorMessage := None,
       cartId := proxyCartId env\<rparr>"
| "run_action env e assignOrder c = (case e of FINALIZE_DONE o' \<Rightarrow> c\<lparr>order := Some o'\<rparr> | _ \<Rightarrow> c)"
| "run_action env e assignFinalizeError c =
     c\<lparr>errorMessage :=
         (case e of
            FINALIZE_ERROR (ThrownError err) \<Rightarrow> Some (errMessage err)
          | _ \<Rightarrow> Some ''Order finalization failed.'')\<rparr>"

section \<open>The configuration\<close>

record transition =
  guardOf :: "guard option"
  target :: "stage option"
  actions :: "action list"

definition goto :: "stage \<Rightarrow> action list \<Rightarrow> transition option" where
  "goto t as = Some \<lparr>guardOf = None, target = Some t, actions = as\<rparr>"

definition goto_if :: "guard \<Rightarrow> stage \<Rightarrow> action list \<Rightarrow> transition option" where
  "goto_if g t as = Some \<lparr>guardOf = Some g, target = Some t, actions = as\<rparr>"

definition stay :: "action list \<Rightarrow> transition option" where
  "stay as = Some \<lparr>guardOf = None, target = None, actions = as\<rparr>"

definition on_LANGUAGE_SELECT :: "KioskEvent \<Rightarrow> transition option" where
  "on_LANGUAGE_SELECT e =
     (case e of
        SET_LANGUAGE _ \<Rightarrow> goto ATTRACT [assignLanguage]
      | NETWORK_OFFLINE \<Rightarrow> stay [setOfflineMode]
      | NETWORK_ONLINE \<Rightarrow> stay [setOnlineMode]
      | _ \<Rightarrow> None)"

definition on_ATTRACT :: "KioskEvent \<Rightarrow> transition option" where
  "on_ATTRACT e =
     (case e of
        START_SESSION _ _ \<Rightarrow> goto MENU [assignSession]
      | TAP_START _ _ \<Rightarrow> goto MENU [assignSession]
      | OPEN_ADMIN \<Rightarrow> goto ADMIN []
      | NETWORK_OFFLINE \<Rightarrow> stay [setOfflineMode]
      | NETWORK_ONLINE \<Rightarrow> stay [setOnlineMode]
      | _ \<Rightarrow> None)"

definition on_MENU :: "KioskEvent \<Rightarrow> transition option" where
  "on_MENU e =
     (case e of
        SELECT_ITEM _ \<Rightarrow> goto ITEM_DETAIL [assignSelectedItem]
      | GO_TO_CART \<Rightarrow> goto_if G_cartHasItems CART []
      | CART_UPDATED _ \<Rightarrow> stay [assignCartStatus]
      | RETURN_TO_ATTRACT \<Rightarrow> goto ATTRACT [resetContext]
      | OPEN_ADMIN \<Rightarrow> goto ADMIN []
      | NETWORK_OFFLINE \<Rightarrow> stay [setOfflineMode]
      | NETWORK_ONLINE \<Rightarrow> stay [setOnlineMode]
      | _ \<Rightarrow> None)"

definition on_ITEM_DETAIL :: "KioskEvent \<Rightarrow> transition option" where
  "on_ITEM_DETAIL e =
     (case e of
        CLOSE_ITEM_DETAIL \<Rightarrow> goto MENU [clearSelectedItem]
      | ADD_TO_CART \<Rightarrow> goto MENU [clearSelectedItem, markCartHasItems]
      | RETURN_TO_ATTRACT \<Rightarrow> goto ATTRACT [resetContext]
      | OPEN_ADMIN \<Rightarrow> goto ADMIN []
      | NETWORK_OFFLINE \<Rightarrow> stay [setOfflineMode]
      | NETWORK_ONLINE \<Rightarrow> stay [setOnlineMode]
      | _ \<Rightarrow> None)"

definition on_CART :: "KioskEvent \<Rightarrow> transition option" where
  "on_CART e =
     (case e of
        BACK_TO_MENU \<Rightarrow> goto MENU []
      | PROCEED_TO_PAYMENT \<Rightarrow> goto_if G_cartHasItems PAYMENT []
      | RETURN_TO_ATTRACT \<Rightarrow> goto ATTRACT [resetContext]
      | OPEN_ADMIN \<Rightarrow> goto ADMIN []
      | NETWORK_OFFLINE \<Rightarrow> stay [setOfflineMode]
      | NETWORK_ONLINE \<Rightarrow> stay [setOnlineMode]
      | _ \<Rightarrow> None)"

definition on_PAYMENT :: "KioskEvent \<Rightarrow> transition option" where
  "on_PAYMENT e =
     (case e of
        PAYMENT_AUTHORIZED _ \<Rightarrow> goto_if G_paymentApproved PROCESSING [assignPaymentResult]
      | PAYMENT_DECLINED _ \<Rightarrow> goto_if G_paymentDeclined CART [setDeclineError]
      | PAYMENT_FAILED _ \<Rightarrow> goto CART [setErrorMessage]
      | CANCEL_PAYMENT \<Rightarrow> goto CART []
      | RETURN_TO_ATTRACT \<Rightarrow> goto ATTRACT [resetContext]
      | OPEN_ADMIN \<Rightarrow> goto ADMIN []
      | NETWORK_OFFLINE \<Rightarrow> stay [setOfflineMode]
      | NETWORK_ONLINE \<Rightarrow> stay [setOnlineMode]
      | _ \<Rightarrow> None)"

definition on_PROCESSING :: "KioskEvent \<Rightarrow> transition option" where
  "on_PROCESSING e =
     (case e of
        FINALIZE_DONE _ \<Rightarrow> goto RECEIPT [assignOrder]
      | FINALIZE_ERROR _ \<Rightarrow> goto PROCESSING_ERROR [assignFinalizeError]
      | RETURN_TO_ATTRACT \<Rightarrow> goto ATTRACT [resetContext]
      | NETWORK_OFFLINE \<Rightarrow> stay [setOfflineMode]
      | NETWORK_ONLINE \<Rightarrow> stay [setOnlineMode]
      | _ \<Rightarrow> None)"

definition on_PROCESSING_ERROR :: "KioskEvent \<Rightarrow> transition option" where
  "on_PROCESSING_ERROR e =
     (case e of
        RETRY \<Rightarrow> goto PROCESSING []
      | CANCEL_PAYMENT \<Rightarrow> goto CART []
      | RETURN_TO_ATTRACT \<Rightarrow> goto ATTRACT [resetContext]
      | OPEN_ADMIN \<Rightarrow> goto ADMIN []
      | NETWORK_OFFLINE \<Rightarrow> stay [setOfflineMode]
      | NETWORK_ONLINE \<Rightarrow> stay [setOnlineMode]
      | _ \<Rightarrow> None)"

definition on_RECEIPT :: "KioskEvent \<Rightarrow> transition option" where
  "on_RECEIPT e =
     (case e of
        RECEIPT_ACKNOWLEDGED \<Rightarrow> goto ATTRACT [resetContext]
      | RETURN_TO_ATTRACT \<Rightarrow> goto ATTRACT [resetContext]
      | OPEN_ADMIN \<Rightarrow> goto ADMIN []
      | NETWORK_OFFLINE \<Rightarrow> stay [setOfflineMode]
      | NETWORK_ONLINE \<Rightarrow> stay [setOnlineMode]
      | _ \<Rightarrow> None)"

definition on_ADMIN :: "KioskEvent \<Rightarrow> transition option" where
  "on_ADMIN e =
     (case e of
        CLOSE_ADMIN \<Rightarrow> goto ATTRACT [resetContext]
      | RETURN_TO_ATTRACT \<Rightarrow> goto ATTRACT [resetContext]
      | NETWORK_OFFLINE \<Rightarrow> stay [setOfflineMode]
      | NETWORK_ONLINE \<Rightarrow> stay [setOnlineMode]
      | _ \<Rightarrow> None)"

fun kioskMachine :: "stage \<Rightarrow> KioskEvent \<Rightarrow> transition option" where
  "kioskMachine LANGUAGE_SELECT = on_LANGUAGE_SELECT"
| "kioskMachine ATTRACT = on_ATTRACT"
| "kioskMachine MENU = on_MENU"
| "kioskMachine ITEM_DETAIL = on_ITEM_DETAIL"
| "kioskMachine CART = on_CART"
| "kioskMachine PAYMENT = on_PAYMENT"
| "kioskMachine PROCESSING = on_PROCESSING"
| "kioskMachine PROCESSING_ERROR = on_PROCESSING_ERROR"
| "kioskMachine RECEIPT = on_RECEIPT"
| "kioskMachine ADMIN = on_ADMIN"

fun entry_actions :: "stage \<Rightarrow> action list" where
  "entry_actions PAYMENT = [clearError]"
| "entry_actions _ = []"

section \<open>The interpreter\<close>

record Kiosk =
  stageOf :: stage
  context_of :: KioskContext
  actor :: "(nat \<times> FinalizeInput) option"
  actorCount :: nat

definition initial_context :: "string \<Rightarrow> KioskContext" where
  "initial_context boot =
     \<lparr>uiLocale = L_en, sessionId = None, laneMode = full, selectedItem = None,
      cartHasItems = False, returnTo = None, paymentResult = None, order = None,
      errorMessage = None, apiStatus = Api_unknown, isOfflineMode = False, cartId = boot\<rparr>"

definition initial_kiosk :: "string \<Rightarrow> Kiosk" where
  "initial_kiosk boot =
     \<lparr>stageOf = LANGUAGE_SELECT, context_of = initial_context boot, actor = None, actorCount = 0\<rparr>"

definition finalize_input :: "KioskContext \<Rightarrow> FinalizeInput" where
  "finalize_input c =
     \<lparr>inSessionId = (case sessionId c of None \<Rightarrow> ''anonymous'' | Some s \<Rightarrow> s),
      inPaymentResult = paymentResult c, inCartId = cartId c\<rparr>"

definition run_actions :: "machine_env \<Rightarrow> KioskEvent \<Rightarrow> action list \<Rightarrow> KioskContext \<Rightarrow> KioskContext" where
  "run_actions env e as c = fold (run_action env e) as c"

definition enter :: "stage \<Rightarrow> KioskContext \<Rightarrow> Kiosk \<Rightarrow> Kiosk" where
  "enter t c k =
     (if t = PROCESSING
      then k\<lparr>stageOf := t, context_of := c, actor := Some (actorCount k, finalize_input c),
             actorCount := actorCount k + 1\<rparr>
      else k\<lparr>stageOf := t, context_of := c, actor := None\<rparr>)"

definition send :: "machine_env \<Rightarrow> KioskEvent \<Rightarrow> Kiosk \<Rightarrow> Kiosk" where
  "send env e k =
     (case kioskMachine (stageOf k) e of
        None \<Rightarrow> k
      | Some tr \<Rightarrow>
          if (case guardOf tr of None \<Rightarrow> True | Some g \<Rightarrow> guard_holds g (context_of k) e) then
            (case target tr of
               None \<Rightarrow> k\<lparr>context_of := run_actions env e (actions tr) (context_of k)\<rparr>
             | Some t \<Rightarrow> enter t (run_actions env e (actions tr @ entry_actions t) (context_of k)) k)
          else k)"

text \<open>The promise of actor \<open>n\<close> settles; only the running actor's result reaches the machine.\<close>

definition settle :: "machine_env \<Rightarrow> nat \<Rightarrow> thrown + Order \<Rightarrow> Kiosk \<Rightarrow> Kiosk" where
  "settle env n outcome k =
     (case actor k of
        Some (m, _) \<Rightarrow>
          if m = n then
            send env (case outcome of Inl err \<Rightarrow> FINALIZE_ERROR err | Inr o' \<Rightarrow> FINALIZE_DONE o') k
          else k
      | None \<Rightarrow> k)"

fun is_external :: "KioskEvent \<Rightarrow> bool" where
  "is_external (FINALIZE_DONE _) = False"
| "is_external (FINALIZE_ERROR _) = False"
| "is_external _ = True"

text \<open>
  The steps of the running application: some component sends an event, or the promise of the
  running actor settles with what \<open>finalizeOrder\<close> computes from the API's answer.
\<close>

inductive kiosk_step :: "Kiosk \<Rightarrow> Kiosk \<Rightarrow> bool" where
  user_event: "is_external e \<Longrightarrow> kiosk_step k (send env e k)"
| actor_settles: "actor k = Some (n, input) \<Longrightarrow>
    kiosk_step k (settle env n (finalizeOrder createOrder input) k)"

inductive kiosk_reachable :: "Kiosk \<Rightarrow> bool" where
  boot: "kiosk_reachable (initial_kiosk boot)"
| step: "kiosk_reachable k \<Longrightarrow> kiosk_step k k' \<Longrightarrow> kiosk_reachable k'"

lemmas config_defs =
  on_LANGUAGE_SELECT_def on_ATTRACT_def on_MENU_def on_ITEM_DETAIL_def on_CART_def on_PAYMENT_def
  on_PROCESSING_def on_PROCESSING_ERROR_def on_RECEIPT_def on_ADMIN_def goto_def goto_if_def stay_def

lemmas send_defs = send_def enter_def run_actions_def assign_session_def

inductive_cases kiosk_stepE: "kiosk_step k k'"

section \<open>The invariant of reachable states\<close>

definition no_customer :: "KioskContext \<Rightarrow> bool" where
  "no_customer c \<longleftrightarrow>
     sessionId c = None \<and> selectedItem c = None \<and> \<not> cartHasItems c \<and> paymentResult c = None \<and>
     order c = None \<and> errorMessage c = None \<and> laneMode c = full \<and> returnTo c = None"

definition approved_payment :: "KioskContext \<Rightarrow> bool" where
  "approved_payment c \<longleftrightarrow> (case paymentResult c of None \<Rightarrow> False | Some r \<Rightarrow> isApprovedResult r)"

definition checkout_stages :: "stage set" where
  "checkout_stages = {CART, PAYMENT, PROCESSING, PROCESSING_ERROR, RECEIPT}"

definition paid_stages :: "stage set" where
  "paid_stages = {PROCESSING, PROCESSING_ERROR, RECEIPT}"

text \<open>What each stage guarantees of the context.\<close>

definition context_inv :: "stage \<Rightarrow> KioskContext \<Rightarrow> bool" where
  "context_inv s c \<longleftrightarrow>
     (s \<in> paid_stages \<longrightarrow> approved_payment c) \<and>
     (s = RECEIPT \<longrightarrow> order c \<noteq> None) \<and>
     (s \<in> checkout_stages \<longrightarrow> cartHasItems c) \<and>
     (s = ITEM_DETAIL \<longrightarrow> selectedItem c \<noteq> None) \<and>
     (s \<noteq> ITEM_DETAIL \<and> s \<noteq> ADMIN \<longrightarrow> selectedItem c = None) \<and>
     (s \<in> checkout_stages \<union> {MENU, ITEM_DETAIL} \<longrightarrow> sessionId c \<noteq> None) \<and>
     (s = LANGUAGE_SELECT \<or> s = ATTRACT \<longrightarrow> no_customer c) \<and>
     (isOfflineMode c \<longleftrightarrow> apiStatus c = Api_offline)"

text \<open>An actor runs exactly in \<open>PROCESSING\<close>, and its input is the context's payment and cart.\<close>

definition actor_inv :: "Kiosk \<Rightarrow> bool" where
  "actor_inv k \<longleftrightarrow>
     (case actor k of
        None \<Rightarrow> stageOf k \<noteq> PROCESSING
      | Some (n, i) \<Rightarrow> stageOf k = PROCESSING \<and> n < actorCount k \<and> i = finalize_input (context_of k))"

definition kiosk_inv :: "Kiosk \<Rightarrow> bool" where
  "kiosk_inv k \<longleftrightarrow> context_inv (stageOf k) (context_of k) \<and> actor_inv k"

lemmas inv_defs = context_inv_def no_customer_def approved_payment_def checkout_stages_def paid_stages_def

lemma kiosk_inv_initial: "kiosk_inv (initial_kiosk boot)"
  by (simp add: kiosk_inv_def actor_inv_def initial_kiosk_def initial_context_def inv_defs)

lemma send_context_inv:
  assumes "context_inv (stageOf k) (context_of k)"
  shows "context_inv (stageOf (send env e k)) (context_of (send env e k))"
  using assms
  by (cases "stageOf k"; cases e) (simp_all add: send_defs config_defs inv_defs split: option.splits)

lemma finalize_input_simps [simp]:
  "finalize_input (c\<lparr>apiStatus := a, isOfflineMode := b\<rparr>) = finalize_input c"
  by (simp add: finalize_input_def)

lemma send_actor_inv:
  assumes "actor_inv k"
  shows "actor_inv (send env e k)"
  using assms
  by (cases "stageOf k"; cases e; cases "actor k")
    (auto simp: send_defs config_defs actor_inv_def)

lemma send_inv: "kiosk_inv k \<Longrightarrow> kiosk_inv (send env e k)"
  by (simp add: kiosk_inv_def send_context_inv send_actor_inv)

lemma settle_inv: "kiosk_inv k \<Longrightarrow> kiosk_inv (settle env n r k)"
  by (auto simp: settle_def send_inv split: option.splits)

lemma reachable_inv: "kiosk_reachable k \<Longrightarrow> kiosk_inv k"
proof (induction rule: kiosk_reachable.induct)
  case (boot b)
  show ?case by (rule kiosk_inv_initial)
next
  case (step k k')
  then show ?case by (auto elim!: kiosk_stepE intro: send_inv settle_inv)
qed

end
