(* ===== verification/KioskSafety.thy ===== *)
theory KioskSafety
  imports KioskMachine
begin

text \<open>
  What the workflow machine guarantees its customers and the store: orders are created only for
  approved payments of carts marked as filled, nothing but the language of one customer is left for the next, every stage
  can be left for the attract screen, and a result that arrives late changes nothing. All of it
  rests on the invariant of the reachable states.
\<close>

section \<open>Facts of reachable states\<close>

lemma reachable_context_inv: "kiosk_reachable k \<Longrightarrow> context_inv (stageOf k) (context_of k)"
  using reachable_inv by (simp add: kiosk_inv_def)

lemma reachable_actor_inv: "kiosk_reachable k \<Longrightarrow> actor_inv k"
  using reachable_inv by (simp add: kiosk_inv_def)

lemma reachable_send: "kiosk_reachable k \<Longrightarrow> is_external e \<Longrightarrow> kiosk_reachable (send env e k)"
  by (rule kiosk_reachable.step, assumption, rule kiosk_step.user_event)

lemma reachable_settle:
  "kiosk_reachable k \<Longrightarrow> actor k = Some (n, i) \<Longrightarrow>
   kiosk_reachable (settle env n (finalizeOrder createOrder i) k)"
  by (rule kiosk_reachable.step, assumption, rule kiosk_step.actor_settles)

text \<open>A customer's events, one after the other.\<close>

definition send_all :: "machine_env \<Rightarrow> KioskEvent list \<Rightarrow> Kiosk \<Rightarrow> Kiosk" where
  "send_all env es k = fold (send env) es k"

lemma reachable_send_all:
  "kiosk_reachable k \<Longrightarrow> list_all is_external es \<Longrightarrow> kiosk_reachable (send_all env es k)"
  unfolding send_all_def by (induction es arbitrary: k) (auto intro: reachable_send)

lemma enters_PROCESSING:
  assumes "stageOf (send env e k) = PROCESSING" "stageOf k \<noteq> PROCESSING"
  shows "stageOf k = PAYMENT \<and> (\<exists>r. e = PAYMENT_AUTHORIZED r \<and> isApprovedResult r) \<or>
    stageOf k = PROCESSING_ERROR \<and> e = RETRY"
  using assms
  by (cases "stageOf k"; cases e) (simp_all add: send_defs config_defs split: if_splits)

lemma send_RETURN_TO_ATTRACT:
  assumes "stageOf k \<noteq> LANGUAGE_SELECT" "stageOf k \<noteq> ATTRACT"
  shows "send env RETURN_TO_ATTRACT k =
    enter ATTRACT (run_action env RETURN_TO_ATTRACT resetContext (context_of k)) k"
  using assms by (cases "stageOf k") (simp_all add: send_defs config_defs)

lemma settle_stopped: "actor_inv k \<Longrightarrow> stageOf k \<noteq> PROCESSING \<Longrightarrow> settle env n r k = k"
  by (auto simp: settle_def actor_inv_def split: option.splits)

lemma settle_other: "actor k = Some (m, i) \<Longrightarrow> m \<noteq> n \<Longrightarrow> settle env n r k = k"
  by (simp add: settle_def)

text \<open>The actors of the future have numbers not below \<open>N\<close>.\<close>

definition actors_from :: "nat \<Rightarrow> Kiosk \<Rightarrow> bool" where
  "actors_from N k \<longleftrightarrow> N \<le> actorCount k \<and> (\<forall>m i. actor k = Some (m, i) \<longrightarrow> N \<le> m)"

lemma send_actors_from: "actors_from N k \<Longrightarrow> actors_from N (send env e k)"
  by (auto simp: actors_from_def send_def enter_def split: option.splits)

lemma step_actors_from: "kiosk_step k k' \<Longrightarrow> actors_from N k \<Longrightarrow> actors_from N k'"
  by (auto elim!: kiosk_stepE simp: settle_def send_actors_from split: option.splits)

lemma steps_actors_from: "kiosk_step\<^sup>*\<^sup>* k k' \<Longrightarrow> actors_from N k \<Longrightarrow> actors_from N k'"
  by (induction rule: rtranclp_induct) (auto intro: step_actors_from)

lemma settle_before: "actors_from N k \<Longrightarrow> n < N \<Longrightarrow> settle env n r k = k"
  by (auto simp: settle_def actors_from_def split: option.splits)

section \<open>A complete purchase\<close>

text \<open>The concrete run the witnesses use: language, session, one item, cart and payment.\<close>

definition sample_item :: MenuItem where
  "sample_item =
     \<lparr>Item.itemId = ''i1'', Item.storeId = ''s1'', Item.categoryId = ''c1'', Item.name = ''Coffee'',
      Item.description = None, priceCents = 350, costCents = None, plu = None, barcode = None,
      sku = None, Item.imageUrl = None, Item.blurhash = None, taxCategory = Tax_standard,
      isWeightBased = False, weightUnit = None, Item.isActive = True, Item.metadata = None,
      Item.createdAt = '''', Item.updatedAt = '''', Item.deletedAt = None, modifierGroups = [],
      category = None\<rparr>"

definition sample_payment :: "PaymentStatus \<Rightarrow> PaymentAuthorizationResult" where
  "sample_payment s =
     \<lparr>authorizationId = ''auth1'', status = s, PaymentAuthorizationResult.paymentMethod = credit_debit,
      PaymentAuthorizationResult.amountCents = 375,
      approvalCode = None, declineReason = None, cardBrand = None, cardLastFour = None,
      receiptText = None\<rparr>"

definition sample_order :: Order where
  "sample_order =
     \<lparr>Order.orderId = ''o1'', Order.storeId = ''s1'', Order.kioskId = ''k1'', Order.cartId = ''cart1'',
      orderNumber = ''1'', Order.status = Order_paid, Order.subtotalCents = 350, Order.taxCents = 25,
      Order.discountCents = 0, Order.totalCents = 375, itemsJson = [], taxBreakdownJson = None,
      Order.metadata = None, paidAt = None, fulfilledAt = None, cancelledAt = None,
      Order.createdAt = ''''\<rparr>"

definition sample_env :: machine_env where
  "sample_env = \<lparr>proxyCartId = ''cart1'', bootCartId = ''cart0''\<rparr>"

definition to_payment :: "KioskEvent list" where
  "to_payment =
     [SET_LANGUAGE L_en, TAP_START ''sess1'' None, SELECT_ITEM sample_item, ADD_TO_CART, GO_TO_CART,
      PROCEED_TO_PAYMENT]"

definition paying_kiosk :: Kiosk where
  "paying_kiosk = send_all sample_env to_payment (initial_kiosk ''cart0'')"

definition processing_kiosk :: Kiosk where
  "processing_kiosk = send sample_env (PAYMENT_AUTHORIZED (sample_payment PS_captured)) paying_kiosk"

lemmas sample_run_defs = paying_kiosk_def processing_kiosk_def send_all_def to_payment_def
  sample_env_def initial_kiosk_def initial_context_def sample_payment_def send_defs config_defs
  finalize_input_def isApprovedResult_def APPROVED_STATUSES_def

lemma paying_kiosk_reachable: "kiosk_reachable paying_kiosk"
  unfolding paying_kiosk_def to_payment_def
  by (rule reachable_send_all) (simp_all add: kiosk_reachable.boot)

lemma processing_kiosk_reachable: "kiosk_reachable processing_kiosk"
  unfolding processing_kiosk_def by (rule reachable_send) (simp_all add: paying_kiosk_reachable)

lemma processing_kiosk_actor:
  "actor processing_kiosk = Some (0, \<lparr>inSessionId = ''sess1'',
     inPaymentResult = Some (sample_payment PS_captured), inCartId = ''cart1''\<rparr>)"
  by (simp add: sample_run_defs)

lemma processing_kiosk_stage: "stageOf processing_kiosk = PROCESSING"
  using reachable_actor_inv [OF processing_kiosk_reachable]
  by (simp add: actor_inv_def processing_kiosk_actor)

section \<open>Properties\<close>

text \<open>
  C1. An order is only ever created for an approved payment, in an open session, of a cart that the machine has marked as
  filled. Whenever, in a reachable state, the promise actor runs, it was started with the payment result and the cart of
  the current context; that result is approved, the flag \<open>cartHasItems\<close> is set, a session is open, and what
  the actor does is exactly one call of the order API with this cart and this authorization:
  the branch of \<open>finalizeOrder\<close> for a missing payment is never taken. The flag is all the machine knows of the cart: that
  its lines can have been removed since it was set is \<open>KioskScreens.emptied_cart_still_ordered\<close>.
\<close>

theorem orders_only_for_approved_payments:
  assumes "kiosk_reachable k" and "actor k = Some (n, input)"
  shows "stageOf k = PROCESSING \<and>
    (\<exists>r sid. paymentResult (context_of k) = Some r \<and> isApprovedResult r \<and>
      sessionId (context_of k) = Some sid \<and> cartHasItems (context_of k) \<and>
      input = \<lparr>inSessionId = sid, inPaymentResult = Some r,
        inCartId = KioskContext.cartId (context_of k)\<rparr> \<and>
      (\<forall>createOrder. finalizeOrder createOrder input =
         createOrder (KioskContext.cartId (context_of k)) (authorizationId r)))"
  using reachable_context_inv [OF assms(1)] reachable_actor_inv [OF assms(1)] assms(2)
  by (auto simp: actor_inv_def inv_defs finalize_input_def finalizeOrder_def split: option.splits)

theorem orders_only_for_approved_payments_witness:
  "kiosk_reachable processing_kiosk \<and> stageOf processing_kiosk = PROCESSING \<and>
   paymentResult (context_of processing_kiosk) = Some (sample_payment PS_captured)"
proof -
  from orders_only_for_approved_payments [OF processing_kiosk_reachable processing_kiosk_actor]
  show ?thesis by (auto simp: processing_kiosk_reachable)
qed

text \<open>
  C9. The receipt is that of the order that the running actor got. No event from outside the machine leads to \<open>RECEIPT\<close> or
  changes the order there; of the promises that settle, only that of the running actor leads there, only with an order, and
  that order is the one in the context; and when \<open>finalizeOrder\<close> has an order for the running actor, the kiosk goes there
  with it. On the receipt screen no actor runs, the payment was approved and the session is still open.
\<close>

theorem receipt_shows_finalized_order:
  assumes "kiosk_reachable k"
  shows "(is_external e \<and> stageOf (send env e k) = RECEIPT \<longrightarrow>
      stageOf k = RECEIPT \<and> order (context_of (send env e k)) = order (context_of k)) \<and>
    (stageOf (settle env m outcome k) = RECEIPT \<and> stageOf k \<noteq> RECEIPT \<longrightarrow>
      (\<exists>input o'. actor k = Some (m, input) \<and> outcome = Inr o' \<and> order (context_of (settle env m outcome k)) = Some o')) \<and>
    (\<forall>n input o'. actor k = Some (n, input) \<and> finalizeOrder createOrder input = Inr o' \<longrightarrow>
      stageOf (settle env n (finalizeOrder createOrder input) k) = RECEIPT \<and>
      order (context_of (settle env n (finalizeOrder createOrder input) k)) = Some o') \<and>
    (stageOf k = RECEIPT \<longrightarrow>
      actor k = None \<and> order (context_of k) \<noteq> None \<and> approved_payment (context_of k) \<and> sessionId (context_of k) \<noteq> None)"
proof (intro conjI impI allI)
  note inv = reachable_context_inv [OF assms] reachable_actor_inv [OF assms]
  show "actor k = None" "order (context_of k) \<noteq> None" "approved_payment (context_of k)" "sessionId (context_of k) \<noteq> None"
    if "stageOf k = RECEIPT"
    using inv that by (auto simp: context_inv_def actor_inv_def paid_stages_def checkout_stages_def split: option.splits)
  show "stageOf k = RECEIPT" "order (context_of (send env e k)) = order (context_of k)"
    if "is_external e \<and> stageOf (send env e k) = RECEIPT"
    using that by (cases "stageOf k"; cases e; simp add: send_defs config_defs split: if_splits)+
  show "\<exists>input o'. actor k = Some (m, input) \<and> outcome = Inr o' \<and> order (context_of (settle env m outcome k)) = Some o'"
    if settles: "stageOf (settle env m outcome k) = RECEIPT \<and> stageOf k \<noteq> RECEIPT"
  proof -
    from settles obtain input where run: "actor k = Some (m, input)"
      by (auto simp: settle_def split: option.splits if_splits)
    then have "stageOf k = PROCESSING" using inv(2) by (simp add: actor_inv_def)
    with run settles show ?thesis by (cases outcome) (simp_all add: settle_def send_defs config_defs)
  qed
  fix n input o' assume run: "actor k = Some (n, input) \<and> finalizeOrder createOrder input = Inr o'"
  then have "stageOf k = PROCESSING" using inv(2) by (simp add: actor_inv_def)
  with run show "stageOf (settle env n (finalizeOrder createOrder input) k) = RECEIPT"
    "order (context_of (settle env n (finalizeOrder createOrder input) k)) = Some o'"
    by (simp_all add: settle_def send_defs config_defs)
qed

definition receipt_kiosk :: Kiosk where
  "receipt_kiosk = settle sample_env 0 (Inr sample_order) processing_kiosk"

lemma receipt_kiosk_step: "kiosk_step processing_kiosk receipt_kiosk"
  using kiosk_step.actor_settles [OF processing_kiosk_actor, of sample_env "\<lambda>_ _. Inr sample_order"]
  by (simp add: finalizeOrder_def receipt_kiosk_def)

lemma receipt_kiosk_stage: "stageOf receipt_kiosk = RECEIPT"
  by (simp add: receipt_kiosk_def settle_def processing_kiosk_actor send_defs config_defs
      processing_kiosk_stage)

lemma receipt_kiosk_reachable: "kiosk_reachable receipt_kiosk"
  using processing_kiosk_reachable receipt_kiosk_step by (rule kiosk_reachable.step)

theorem receipt_shows_finalized_order_witness:
  "stageOf receipt_kiosk = RECEIPT \<and> approved_payment (context_of receipt_kiosk) \<and>
   order (context_of (send sample_env NETWORK_OFFLINE receipt_kiosk)) = order (context_of receipt_kiosk) \<and>
   order (context_of (settle sample_env 0 (finalizeOrder (\<lambda>_ _. Inr sample_order)
     \<lparr>inSessionId = ''sess1'', inPaymentResult = Some (sample_payment PS_captured), inCartId = ''cart1''\<rparr>) processing_kiosk)) =
     Some sample_order"
proof -
  have "stageOf (send sample_env NETWORK_OFFLINE receipt_kiosk) = RECEIPT"
    using receipt_kiosk_stage by (simp add: send_defs config_defs)
  with receipt_shows_finalized_order [OF receipt_kiosk_reachable, of NETWORK_OFFLINE sample_env 0 "Inr sample_order" "\<lambda>_ _. Inr sample_order"]
    receipt_shows_finalized_order [OF processing_kiosk_reachable, of NETWORK_OFFLINE sample_env 0 "Inr sample_order" "\<lambda>_ _. Inr sample_order"]
    processing_kiosk_actor
  show ?thesis by (simp add: receipt_kiosk_stage finalizeOrder_def)
qed

text \<open>
  C11. What is left of a customer for the next. In every reachable state in which the kiosk shows the language or the attract
  screen, the context is that of a fresh start but for the language, the state of the network and the identifier of the
  cart: no session, selected item, payment, order, error or return target, the cart not marked as filled, the lane mode the
  default. The first step from there into an ordering stage opens a session with the identifier of its event and the cart of
  the proxy, and still no payment. That the language stays is \<open>Languages.language_chosen_once\<close>.
\<close>

theorem no_data_of_previous_customer:
  assumes "kiosk_reachable k" and "stageOf k = LANGUAGE_SELECT \<or> stageOf k = ATTRACT"
  shows "no_customer (context_of k) \<and> actor k = None \<and>
    context_of k = (initial_context (KioskContext.cartId (context_of k)))
      \<lparr>uiLocale := uiLocale (context_of k), apiStatus := apiStatus (context_of k),
       isOfflineMode := isOfflineMode (context_of k)\<rparr> \<and>
    (stageOf (send env e k) \<in> checkout_stages \<union> {MENU, ITEM_DETAIL} \<longrightarrow>
       stageOf (send env e k) = MENU \<and>
       (\<exists>sid lane. e \<in> {START_SESSION sid lane, TAP_START sid lane} \<and>
          sessionId (context_of (send env e k)) = Some sid) \<and>
       paymentResult (context_of (send env e k)) = None \<and>
       \<not> cartHasItems (context_of (send env e k)) \<and>
       KioskContext.cartId (context_of (send env e k)) = proxyCartId env)"
proof -
  have nc: "no_customer (context_of k)"
    using reachable_context_inv [OF assms(1)] assms(2) by (simp add: context_inv_def)
  moreover have "actor k = None"
    using reachable_actor_inv [OF assms(1)] assms(2) by (auto simp: actor_inv_def split: option.splits)
  moreover have "context_of k = (initial_context (KioskContext.cartId (context_of k)))
      \<lparr>uiLocale := uiLocale (context_of k), apiStatus := apiStatus (context_of k),
       isOfflineMode := isOfflineMode (context_of k)\<rparr>"
    using nc by (simp add: no_customer_def initial_context_def)
  ultimately show ?thesis
    using assms(2)
    by (cases e) (auto simp: send_defs config_defs no_customer_def checkout_stages_def)
qed

theorem no_data_of_previous_customer_witness:
  "no_customer (context_of (initial_kiosk ''c'')) \<and> actor (initial_kiosk ''c'') = None"
proof -
  have "stageOf (initial_kiosk ''c'') = LANGUAGE_SELECT" by (simp add: initial_kiosk_def)
  with no_data_of_previous_customer [OF kiosk_reachable.boot, of "''c''"] show ?thesis by blast
qed

text \<open>
  C12. Every stage but the first two can be left: \<open>RETURN_TO_ATTRACT\<close>, the event of the idle timer,
  always leads to the attract screen with the customer's data erased, the language and the network
  status kept and the actor stopped; and whatever an actor started so far later settles with is
  ignored in that state and in every state reachable from it, so the order of a customer who was
  timed out never appears on the next customer's receipt.
\<close>

theorem idle_reclaim_always_possible:
  assumes "kiosk_reachable k" and "stageOf k \<noteq> LANGUAGE_SELECT" and "stageOf k \<noteq> ATTRACT"
  shows "let k' = send env RETURN_TO_ATTRACT k in
    stageOf k' = ATTRACT \<and> no_customer (context_of k') \<and> actor k' = None \<and>
    uiLocale (context_of k') = uiLocale (context_of k) \<and>
    isOfflineMode (context_of k') = isOfflineMode (context_of k) \<and>
    (\<forall>k'' n outcome env'. kiosk_step\<^sup>*\<^sup>* k' k'' \<longrightarrow> n < actorCount k \<longrightarrow>
       settle env' n outcome k'' = k'')"
proof -
  let ?k' = "send env RETURN_TO_ATTRACT k"
  have eq: "?k' = enter ATTRACT (run_action env RETURN_TO_ATTRACT resetContext (context_of k)) k"
    using assms(2,3) by (rule send_RETURN_TO_ATTRACT)
  then have "actors_from (actorCount k) ?k'" by (simp add: enter_def actors_from_def)
  then have "kiosk_step\<^sup>*\<^sup>* ?k' k'' \<Longrightarrow> n < actorCount k \<Longrightarrow> settle env' n outcome k'' = k''"
    for k'' n outcome env'
    using settle_before steps_actors_from by blast
  with eq show ?thesis by (simp add: enter_def no_customer_def)
qed

theorem idle_reclaim_always_possible_witness:
  "stageOf (send sample_env RETURN_TO_ATTRACT processing_kiosk) = ATTRACT \<and>
   settle sample_env 0 (Inr sample_order) (send sample_env RETURN_TO_ATTRACT processing_kiosk) =
     send sample_env RETURN_TO_ATTRACT processing_kiosk"
proof -
  have "0 < actorCount processing_kiosk"
    using reachable_actor_inv [OF processing_kiosk_reachable]
    by (simp add: actor_inv_def processing_kiosk_actor)
  with idle_reclaim_always_possible [OF processing_kiosk_reachable, of sample_env]
  show ?thesis by (simp add: processing_kiosk_stage Let_def)
qed

text \<open>
  The authorization of a failed order outlives the customer's return to the cart. When
  finalization fails, \<open>CANCEL_PAYMENT\<close> leads back to \<open>CART\<close> with the approved result still in
  the context, and a second \<open>PROCEED_TO_PAYMENT\<close> asks for another payment although the first one
  is approved; the first authorization is overwritten by the second and never voided, since
  nothing in the configuration runs \<open>clearPaymentResult\<close>.
\<close>

theorem cancelled_order_keeps_authorization:
  assumes "kiosk_reachable k" and "stageOf k = PROCESSING_ERROR"
  shows "let k1 = send env CANCEL_PAYMENT k; k2 = send env PROCEED_TO_PAYMENT k1;
             k3 = send env (PAYMENT_AUTHORIZED r) k2 in
    stageOf k1 = CART \<and> stageOf k2 = PAYMENT \<and> approved_payment (context_of k2) \<and>
    paymentResult (context_of k2) = paymentResult (context_of k) \<and>
    (isApprovedResult r \<longrightarrow> stageOf k3 = PROCESSING \<and> paymentResult (context_of k3) = Some r)"
proof -
  have "cartHasItems (context_of k)" "approved_payment (context_of k)"
    using reachable_context_inv [OF assms(1)] assms(2)
    by (auto simp: context_inv_def checkout_stages_def paid_stages_def)
  with assms(2) show ?thesis
    by (simp add: Let_def send_defs config_defs approved_payment_def)
qed

definition failed_kiosk :: Kiosk where
  "failed_kiosk = settle sample_env 0 (Inl (new_Error ''timeout'')) processing_kiosk"

lemma failed_kiosk_reachable: "kiosk_reachable failed_kiosk"
  using reachable_settle [OF processing_kiosk_reachable processing_kiosk_actor, of sample_env
      "\<lambda>_ _. Inl (new_Error ''timeout'')"]
  by (simp add: finalizeOrder_def failed_kiosk_def)

lemma failed_kiosk_stage: "stageOf failed_kiosk = PROCESSING_ERROR"
  by (simp add: failed_kiosk_def settle_def processing_kiosk_actor send_defs config_defs
      processing_kiosk_stage)

theorem cancelled_order_keeps_authorization_witness:
  "stageOf failed_kiosk = PROCESSING_ERROR \<and>
   paymentResult (context_of (send sample_env PROCEED_TO_PAYMENT
     (send sample_env CANCEL_PAYMENT failed_kiosk))) = paymentResult (context_of failed_kiosk)"
  using cancelled_order_keeps_authorization [OF failed_kiosk_reachable failed_kiosk_stage,
      of sample_env "sample_payment PS_captured"]
  by (simp add: failed_kiosk_stage Let_def)

end
