(* ===== verification/KioskHooks.thy ===== *)
theory KioskHooks
  imports KioskSafety "HOL-Library.Sublist"
begin

text \<open>
  The hooks that drive the workflow machine from timers and the network, and the router that shows
  a stage: \<open>useIdleReclaim.ts\<close>, \<open>useApiStatus.ts\<close>, \<open>useApiNetworkMonitor.ts\<close> and
  \<open>useScrollSpy.ts\<close> of \<open>apps/kiosk/src/hooks\<close>, and \<open>WorkflowRouter.tsx\<close>. A timer callback is an
  operation that takes the time at which it runs.
\<close>

section \<open>Idle reclaim\<close>

definition IDLE_TIMEOUT_MS :: ms where
  "IDLE_TIMEOUT_MS = 90000"

definition IMMUNE_STAGES :: "stage list" where
  "IMMUNE_STAGES = [ATTRACT, PAYMENT, PROCESSING, RECEIPT]"

record IdleReclaim =
  lastInteractionAtMs :: ms
  kiosk :: Kiosk

definition recordInteraction :: "ms \<Rightarrow> IdleReclaim \<Rightarrow> IdleReclaim" where
  "recordInteraction now h = h\<lparr>lastInteractionAtMs := now\<rparr>"

definition idle_tick :: "machine_env \<Rightarrow> ms \<Rightarrow> IdleReclaim \<Rightarrow> IdleReclaim" where
  "idle_tick env now h =
     (if stageOf (kiosk h) \<in> set IMMUNE_STAGES then h
      else if now - lastInteractionAtMs h > IDLE_TIMEOUT_MS
      then h\<lparr>kiosk := send env RETURN_TO_ATTRACT (kiosk h)\<rparr>
      else h)"

section \<open>API status\<close>

definition MIN_POLL_MS :: ms where "MIN_POLL_MS = 5000"
definition MAX_POLL_MS :: ms where "MAX_POLL_MS = 60000"
definition BACKOFF_FACTOR :: int where "BACKOFF_FACTOR = 2"

text \<open>\<open>timer\<close> is the delay of the scheduled next check.\<close>

record ApiStatusHook =
  hookStatus :: apiStatusKind
  currentInterval :: ms
  isMounted :: bool
  timer :: "ms option"

definition api_status_mount :: "ms \<Rightarrow> ApiStatusHook" where
  "api_status_mount pollIntervalMs =
     \<lparr>hookStatus = Api_unknown, currentInterval = pollIntervalMs, isMounted = True, timer = None\<rparr>"

definition api_status_unmount :: "ApiStatusHook \<Rightarrow> ApiStatusHook" where
  "api_status_unmount h = h\<lparr>isMounted := False, timer := None\<rparr>"

definition is_network_error :: "thrown \<Rightarrow> bool" where
  "is_network_error e =
     (case e of ThrownError err \<Rightarrow> sublist ''network'' (errMessage err) | ThrownOther _ \<Rightarrow> False)"

text \<open>What follows the health request in \<open>checkStatus\<close>.\<close>

definition checkStatus :: "thrown + unit \<Rightarrow> ApiStatusHook \<Rightarrow> ApiStatusHook" where
  "checkStatus outcome h =
     (if \<not> isMounted h then h
      else
        (case outcome of
           Inr _ \<Rightarrow> h\<lparr>hookStatus := Api_online, currentInterval := MIN_POLL_MS, timer := Some MIN_POLL_MS\<rparr>
         | Inl e \<Rightarrow>
             let next = min (currentInterval h * BACKOFF_FACTOR) MAX_POLL_MS in
             h\<lparr>hookStatus := (if is_network_error e then Api_offline else Api_degraded),
               currentInterval := next, timer := Some next\<rparr>))"

definition network_event :: "apiStatusKind \<Rightarrow> KioskEvent option" where
  "network_event s =
     (case s of Api_online \<Rightarrow> Some NETWORK_ONLINE
      | Api_offline \<Rightarrow> Some NETWORK_OFFLINE | Api_degraded \<Rightarrow> Some NETWORK_OFFLINE
      | Api_unknown \<Rightarrow> None)"

text \<open>The effect of \<open>useApiNetworkMonitor\<close> when the status changes.\<close>

definition api_status_effect :: "machine_env \<Rightarrow> apiStatusKind \<Rightarrow> Kiosk \<Rightarrow> Kiosk" where
  "api_status_effect env s k = (case network_event s of None \<Rightarrow> k | Some e \<Rightarrow> send env e k)"

section \<open>Scroll spy\<close>

text \<open>The fields of an \<open>IntersectionObserverEntry\<close> the callback reads.\<close>

record IntersectionEntry =
  isIntersecting :: bool
  intersectionRatio :: rat
  dataCategoryId :: "string option"

fun best_entry :: "IntersectionEntry option \<Rightarrow> IntersectionEntry list \<Rightarrow> IntersectionEntry option" where
  "best_entry best [] = best"
| "best_entry best (e # es) =
     best_entry
       (if isIntersecting e then
          (case best of
             None \<Rightarrow> Some e
           | Some b \<Rightarrow> if intersectionRatio e > intersectionRatio b then Some e else best)
        else best) es"

text \<open>The observer's callback: the new active category, and the notification it sends.\<close>

definition on_intersection ::
  "IntersectionEntry list \<Rightarrow> string option \<Rightarrow> string option \<times> string list" where
  "on_intersection entries active =
     (case best_entry None entries of
        None \<Rightarrow> (active, [])
      | Some b \<Rightarrow>
          (case dataCategoryId b of
             None \<Rightarrow> (active, [])
           | Some i \<Rightarrow> if i = [] \<or> Some i = active then (active, []) else (Some i, [i])))"

section \<open>Router\<close>

datatype screen =
  LanguageSelectScreen | AttractScreen | AdminScreen | MenuApp | MenuScreen | CartApp
| CartReviewScreen | PaymentAuthScreen | ProcessingScreen | ReceiptScreen

definition baseScreen :: "bool \<Rightarrow> stage \<Rightarrow> screen" where
  "baseScreen useRemote s =
     (if s = LANGUAGE_SELECT then LanguageSelectScreen
      else if s = ATTRACT then AttractScreen
      else if s = ADMIN then AdminScreen
      else if s = MENU \<or> s = ITEM_DETAIL then (if useRemote then MenuApp else MenuScreen)
      else if s = CART then (if useRemote then CartApp else CartReviewScreen)
      else if s = PAYMENT then PaymentAuthScreen
      else if s = PROCESSING then ProcessingScreen
      else if s = RECEIPT then ReceiptScreen
      else AttractScreen)"

definition showsItemModal :: "stage \<Rightarrow> bool" where
  "showsItemModal s \<longleftrightarrow> s = ITEM_DETAIL"

section \<open>Lemmas\<close>

definition better :: "IntersectionEntry option \<Rightarrow> IntersectionEntry \<Rightarrow> IntersectionEntry option" where
  "better best e =
     (if isIntersecting e then
        (case best of
           None \<Rightarrow> Some e
         | Some b \<Rightarrow> if intersectionRatio e > intersectionRatio b then Some e else best)
      else best)"

lemma best_entry_Cons: "best_entry best (e # es) = best_entry (better best e) es"
  by (simp add: better_def)

lemma best_entry_above: "best_entry (Some c) es = Some b \<Longrightarrow> intersectionRatio c \<le> intersectionRatio b"
proof (induction es arbitrary: c)
  case (Cons e es)
  have "\<exists>d. better (Some c) e = Some d \<and> intersectionRatio c \<le> intersectionRatio d"
    by (simp add: better_def)
  then obtain d where d: "better (Some c) e = Some d" "intersectionRatio c \<le> intersectionRatio d"
    by blast
  with Cons.prems have "best_entry (Some d) es = Some b" by (simp only: best_entry_Cons)
  from Cons.IH [OF this] d(2) show ?case by simp
qed simp

lemma better_above: "isIntersecting e \<Longrightarrow> \<exists>d. better best e = Some d \<and> intersectionRatio e \<le> intersectionRatio d"
  by (cases best) (auto simp: better_def)

lemma best_entry_member:
  "best_entry best es = Some b \<Longrightarrow> best = Some b \<or> b \<in> set es \<and> isIntersecting b"
proof (induction es arbitrary: best)
  case (Cons e es)
  from Cons.IH [of "better best e"] Cons.prems
  show ?case by (auto simp only: best_entry_Cons) (auto simp: better_def split: if_splits option.splits)
qed simp

lemma best_entry_max:
  "best_entry best es = Some b \<Longrightarrow> e \<in> set es \<Longrightarrow> isIntersecting e \<Longrightarrow>
   intersectionRatio e \<le> intersectionRatio b"
proof (induction es arbitrary: best)
  case (Cons d es)
  from Cons.prems(1) have step: "best_entry (better best d) es = Some b" by (simp only: best_entry_Cons)
  show ?case
  proof (cases "e = d")
    case True
    with better_above [OF Cons.prems(3), of best] step best_entry_above show ?thesis by fastforce
  next
    case False
    with Cons.prems have "e \<in> set es" by simp
    from Cons.IH [OF step this Cons.prems(3)] show ?thesis .
  qed
qed simp

lemma checkStatus_failures:
  assumes "isMounted h" and "0 < currentInterval h" and "currentInterval h \<le> MAX_POLL_MS"
  shows "currentInterval (((checkStatus (Inl e)) ^^ n) h) = min (currentInterval h * 2 ^ n) MAX_POLL_MS \<and>
    isMounted (((checkStatus (Inl e)) ^^ n) h)"
proof (induction n)
  case (Suc n)
  then show ?case
    using assms by (auto simp: checkStatus_def Let_def BACKOFF_FACTOR_def MAX_POLL_MS_def min_def)
qed (use assms in simp)

lemma send_network:
  "send env NETWORK_ONLINE k = k\<lparr>context_of := (context_of k)\<lparr>apiStatus := Api_online, isOfflineMode := False\<rparr>\<rparr>"
  "send env NETWORK_OFFLINE k = k\<lparr>context_of := (context_of k)\<lparr>apiStatus := Api_offline, isOfflineMode := True\<rparr>\<rparr>"
  by (cases "stageOf k"; simp add: send_defs config_defs)+

section \<open>Properties\<close>

text \<open>
  The idle timer never interrupts a payment and always reclaims an abandoned session. In
  \<open>PAYMENT\<close>, \<open>PROCESSING\<close>, \<open>RECEIPT\<close> and \<open>ATTRACT\<close> a tick changes nothing, however long nobody
  has touched the screen; in every other stage a tick within 90 seconds of the last interaction
  changes nothing, and a later one brings every reachable state past the language screen to the
  attract screen with the customer's data erased.
\<close>

theorem idle_tick_behaviour:
  assumes "kiosk_reachable (kiosk h)"
  shows "(stageOf (kiosk h) \<in> {ATTRACT, PAYMENT, PROCESSING, RECEIPT} \<longrightarrow> idle_tick env now h = h) \<and>
    (now - lastInteractionAtMs h \<le> 90000 \<longrightarrow> idle_tick env now h = h) \<and>
    (now - lastInteractionAtMs h > 90000 \<and>
       stageOf (kiosk h) \<in> {MENU, ITEM_DETAIL, CART, PROCESSING_ERROR, ADMIN} \<longrightarrow>
       stageOf (kiosk (idle_tick env now h)) = ATTRACT \<and>
       no_customer (context_of (kiosk (idle_tick env now h))) \<and>
       kiosk_reachable (kiosk (idle_tick env now h)))"
proof -
  have "kiosk_reachable (send env RETURN_TO_ATTRACT (kiosk h))"
    using assms by (rule reachable_send) simp
  then show ?thesis
    by (auto simp: idle_tick_def IMMUNE_STAGES_def IDLE_TIMEOUT_MS_def send_RETURN_TO_ATTRACT
        enter_def no_customer_def)
qed

theorem idle_tick_behaviour_witness:
  "let h = \<lparr>lastInteractionAtMs = 0, kiosk = processing_kiosk\<rparr> in idle_tick sample_env 1000000 h = h"
  using idle_tick_behaviour [of "\<lparr>lastInteractionAtMs = 0, kiosk = processing_kiosk\<rparr>" sample_env 1000000]
  by (simp add: processing_kiosk_reachable processing_kiosk_stage Let_def)

text \<open>
  \<open>PROCESSING_ERROR\<close> is a payment phase without this protection, and without a screen: the
  router shows the attract screen for it, and the idle timer erases the approved authorization of
  an order that could not be created, so that nobody can retry or refund it.
\<close>

theorem processing_error_unprotected:
  assumes "kiosk_reachable (kiosk h)" and "stageOf (kiosk h) = PROCESSING_ERROR"
    and "now - lastInteractionAtMs h > 90000"
  shows "approved_payment (context_of (kiosk h)) \<and> baseScreen useRemote (stageOf (kiosk h)) = AttractScreen \<and>
    paymentResult (context_of (kiosk (idle_tick env now h))) = None"
proof -
  have "approved_payment (context_of (kiosk h))"
    using reachable_context_inv [OF assms(1)] assms(2) by (simp add: context_inv_def paid_stages_def)
  with assms(2,3) show ?thesis
    by (simp add: baseScreen_def idle_tick_def IMMUNE_STAGES_def IDLE_TIMEOUT_MS_def
        send_RETURN_TO_ATTRACT enter_def)
qed

theorem processing_error_unprotected_witness:
  "baseScreen True (stageOf failed_kiosk) = AttractScreen \<and> approved_payment (context_of failed_kiosk)"
  using processing_error_unprotected [of "\<lparr>lastInteractionAtMs = 0, kiosk = failed_kiosk\<rparr>" 90001 True]
  by (simp add: failed_kiosk_reachable failed_kiosk_stage)

text \<open>
  The health poll backs off exponentially and stays bounded: after \<open>n\<close> failures in a row from
  an interval between 1 and 60 seconds the next check is scheduled after the interval times
  \<open>2^n\<close>, at most a minute; a success sets five seconds; after the hook is unmounted a late answer
  neither changes the status nor schedules another check.
\<close>

theorem api_status_backoff:
  assumes "0 < poll" and "poll \<le> 60000"
  shows "let h = ((checkStatus (Inl e)) ^^ n) (api_status_mount poll) in
    currentInterval h = min (poll * 2 ^ n) 60000 \<and>
    timer (checkStatus (Inl e) h) = Some (min (poll * 2 ^ Suc n) 60000) \<and>
    timer (checkStatus (Inr ()) h) = Some 5000 \<and> hookStatus (checkStatus (Inr ()) h) = Api_online \<and>
    checkStatus r (api_status_unmount h) = api_status_unmount h \<and>
    timer (api_status_unmount h) = None"
proof -
  let ?h = "((checkStatus (Inl e)) ^^ n) (api_status_mount poll)"
  have "currentInterval ?h = min (poll * 2 ^ n) 60000 \<and> isMounted ?h"
    using checkStatus_failures [where h = "api_status_mount poll" and e = e and n = n] assms
    by (simp add: api_status_mount_def MAX_POLL_MS_def)
  then show ?thesis
    using assms
    by (auto simp: Let_def checkStatus_def api_status_unmount_def MAX_POLL_MS_def MIN_POLL_MS_def
        BACKOFF_FACTOR_def min_def split: sum.splits)
qed

theorem api_status_backoff_witness:
  "currentInterval (((checkStatus (Inl (new_Error ''down''))) ^^ 3) (api_status_mount 10000)) = 60000"
  using api_status_backoff [where poll = 10000 and e = "new_Error ''down''" and n = 3] by (simp add: Let_def)

text \<open>
  Whatever the API's status is, only the network fields of the context follow it: \<open>online\<close>
  clears offline mode, \<open>offline\<close> and \<open>degraded\<close> set it, \<open>unknown\<close> changes nothing, in every
  stage; the stage, the actor and the customer's data stay.
\<close>

theorem api_status_effect_frame:
  "let k' = api_status_effect env s k in
   stageOf k' = stageOf k \<and> actor k' = actor k \<and>
   context_of k' =
     (case s of
        Api_unknown \<Rightarrow> context_of k
      | Api_online \<Rightarrow> (context_of k)\<lparr>apiStatus := Api_online, isOfflineMode := False\<rparr>
      | _ \<Rightarrow> (context_of k)\<lparr>apiStatus := Api_offline, isOfflineMode := True\<rparr>)"
  by (cases s) (simp_all add: api_status_effect_def network_event_def send_network Let_def)

text \<open>
  The scroll spy activates the most visible category: a notification is sent exactly when the
  active category changes, and then the new one belongs to an intersecting section whose visible
  ratio no other intersecting section of the batch exceeds.
\<close>

theorem scroll_spy_most_visible:
  "(case on_intersection entries active of (active', notified) \<Rightarrow>
     (notified = [] \<longleftrightarrow> active' = active) \<and>
     (\<forall>i. active' = Some i \<and> active' \<noteq> active \<longrightarrow>
        notified = [i] \<and>
        (\<exists>b \<in> set entries. isIntersecting b \<and> dataCategoryId b = Some i \<and>
           (\<forall>e \<in> set entries. isIntersecting e \<longrightarrow> intersectionRatio e \<le> intersectionRatio b))))"
  using best_entry_member [of None entries] best_entry_max [of None entries]
  by (auto simp: on_intersection_def split: option.splits)

theorem scroll_spy_most_visible_witness:
  "on_intersection [\<lparr>isIntersecting = True, intersectionRatio = 1, dataCategoryId = Some ''a''\<rparr>] None =
     (Some ''a'', [''a'']) \<and>
   (\<exists>b \<in> set [\<lparr>isIntersecting = True, intersectionRatio = 1, dataCategoryId = Some ''a''\<rparr>].
      isIntersecting b \<and> dataCategoryId b = Some ''a'')"
proof -
  let ?es = "[\<lparr>isIntersecting = True, intersectionRatio = 1, dataCategoryId = Some ''a''\<rparr>]"
  have run: "on_intersection ?es None = (Some ''a'', [''a''])" by (simp add: on_intersection_def)
  from scroll_spy_most_visible [where entries = ?es and active = None] run
  have "\<exists>b \<in> set ?es. isIntersecting b \<and> dataCategoryId b = Some ''a''" by simp
  with run show ?thesis by simp
qed

end
