(* ===== verification/JsNumber.thy ===== *)
theory JsNumber
  imports Prelude
begin

text \<open>
  The double-precision arithmetic behind \<open>Math.round(cents * rate)\<close>. A decimal literal such as
  \<open>0.07\<close> denotes the nearest double, a dyadic rational \<open>M / 2^k\<close>; the product of an integer with
  it is rounded to 53 significant bits, ties to even; \<open>Math.round\<close> then takes the nearest integer,
  ties upwards. All of it is computed here on integers, over the fixed denominator \<open>2^k\<close>. The
  main lemma says when the result is the commercially rounded percentage.
\<close>

section \<open>Rounding to 53 bits\<close>

text \<open>How many low bits of the numerator do not fit into a significand of 53 bits.\<close>

function excess_bits :: "nat \<Rightarrow> nat" where
  "excess_bits p = (if p < 2 ^ 53 then 0 else Suc (excess_bits (p div 2)))"
  by pat_completeness auto
termination by (relation "measure id") auto

declare excess_bits.simps [simp del]

definition round_half_even :: "int \<Rightarrow> int \<Rightarrow> int" where
  "round_half_even p u =
     (let q = p div u; r = p mod u in
      if 2 * r < u then q * u
      else if 2 * r > u then (q + 1) * u
      else if even q then q * u else (q + 1) * u)"

definition round_double :: "int \<Rightarrow> int" where
  "round_double p = round_half_even p (2 ^ excess_bits (nat \<bar>p\<bar>))"

text \<open>A double constant \<open>M / 2^k\<close>.\<close>

record dyadic =
  significand :: int
  scale :: nat

definition fmul :: "int \<Rightarrow> dyadic \<Rightarrow> dyadic" where
  "fmul n c = \<lparr>significand = round_double (n * significand c), scale = scale c\<rparr>"

text \<open>\<open>Math.round\<close>: the greatest integer not above \<open>x + 1/2\<close>.\<close>

definition Math_round :: "dyadic \<Rightarrow> int" where
  "Math_round x = (2 * significand x + 2 ^ scale x) div 2 ^ (scale x + 1)"

section \<open>Error bounds\<close>

lemma excess_bits_bound: "p < 2 ^ (53 + b) \<Longrightarrow> excess_bits p \<le> b"
proof (induction p arbitrary: b rule: excess_bits.induct)
  case (1 p)
  show ?case
  proof (cases "p < 2 ^ 53")
    case True
    then show ?thesis by (simp add: excess_bits.simps)
  next
    case False
    with "1.prems" obtain c where "b = Suc c" by (cases b) auto
    moreover have "p div 2 < 2 ^ (53 + c)"
      using "1.prems" \<open>b = Suc c\<close> by (intro less_mult_imp_div_less) (simp add: power_add)
    ultimately show ?thesis using "1.IH" [OF False, of c] False by (simp add: excess_bits.simps [of p])
  qed
qed

lemma round_half_even_cases:
  assumes "0 < u"
  obtains "round_half_even p u = p div u * u" "2 * (p mod u) \<le> u"
  | "round_half_even p u = (p div u + 1) * u" "u \<le> 2 * (p mod u)"
  unfolding round_half_even_def Let_def using that by (metis linorder_not_less order_le_less)

lemma round_half_even_upper:
  assumes "0 < u" shows "2 * round_half_even p u \<le> 2 * p + u"
proof -
  have p: "p = p div u * u + p mod u" by simp
  have m: "0 \<le> p mod u" using assms by simp
  show ?thesis
  proof (cases rule: round_half_even_cases [OF assms, of p])
    case 1
    with p m assms show ?thesis by linarith
  next
    case 2
    then have "round_half_even p u = p div u * u + u" by (simp add: distrib_right)
    with 2 p show ?thesis by linarith
  qed
qed

lemma round_half_even_mono_multiple:
  assumes u: "0 < u" and le: "m * u \<le> p"
  shows "m * u \<le> round_half_even p u"
proof -
  have "m \<le> p div u" using le u by (metis nonzero_mult_div_cancel_right zdiv_mono1 order_less_irrefl)
  then have "m * u \<le> p div u * u" "m * u \<le> (p div u + 1) * u"
    using u by (auto intro: mult_right_mono)
  then show ?thesis by (cases rule: round_half_even_cases [OF u, of p]) simp_all
qed

lemma round_half_even_exact: "0 < u \<Longrightarrow> round_half_even (m * u) u = m * u"
  by (simp add: round_half_even_def)

lemma round_double_exact: "\<bar>p\<bar> < 2 ^ 53 \<Longrightarrow> round_double p = p"
  by (simp add: round_double_def excess_bits.simps round_half_even_def nat_less_iff)

section \<open>Percentages\<close>

text \<open>
  A constant that approximates \<open>c / 100\<close> from above: \<open>100 M = c 2^k + d\<close>. As long as the error
  \<open>n d\<close> of the literal and the error of the product stay below \<open>2^k\<close> together, the rounded
  product is the nearest integer to \<open>c n / 100\<close>, halves upwards.
\<close>

lemma Math_round_percentage:
  assumes const: "100 * significand r = c * 2 ^ scale r + d" and d: "0 \<le> d" and n: "0 \<le> n"
    and fits: "nat (n * significand r) < 2 ^ (53 + b)" and pos: "0 \<le> significand r"
    and b: "b < scale r" and small: "n * d + 100 * 2 ^ b < 2 ^ scale r"
  shows "Math_round (fmul n r) = (c * n + 50) div 100"
proof -
  define k where "k = scale r"
  define p where "p = n * significand r"
  define s where "s = excess_bits (nat \<bar>p\<bar>)"
  define R where "R = round_half_even p (2 ^ s)"
  define t where "t = (c * n + 50) div 100"
  have p0: "0 \<le> p" using n pos by (simp add: p_def)
  have sb: "s \<le> b" using excess_bits_bound [OF fits] p0 by (simp add: s_def p_def)
  have u: "(0::int) < 2 ^ s" "(2::int) ^ s \<le> 2 ^ b" using sb by simp_all
  have t: "100 * t \<le> c * n + 50" "c * n + 50 < 100 * t + 100" by (simp_all add: t_def)
  have hp: "100 * p = c * n * 2 ^ k + n * d"
    using arg_cong [OF const, of "\<lambda>x. n * x"] by (simp add: p_def k_def algebra_simps)
  have k: "k = Suc (k - 1)" using b by (simp add: k_def)
  then have two_k: "(2::int) ^ k = 2 * 2 ^ (k - 1)" by (metis power_Suc)
  have "(100 * t - 50) * 2 ^ k \<le> c * n * 2 ^ k" by (rule mult_right_mono) (use t in simp_all)
  with hp n d have low: "(100 * t - 50) * 2 ^ k \<le> 100 * p" by (smt (verit) mult_nonneg_nonneg)
  then have low': "(2 * t - 1) * 2 ^ (k - 1) \<le> p" by (simp add: two_k algebra_simps)
  have "(2 * t - 1) * 2 ^ (k - 1) = (2 * t - 1) * 2 ^ (k - 1 - s) * (2::int) ^ s"
    using sb b by (simp add: k_def flip: power_add)
  with low' have ge: "(2 * t - 1) * 2 ^ (k - 1) \<le> R"
    using round_half_even_mono_multiple [OF u(1)] unfolding R_def by metis
  have "c * n * 2 ^ k \<le> (100 * t + 49) * 2 ^ k" by (rule mult_right_mono) (use t in simp_all)
  then have "100 * p + 100 * 2 ^ b < (100 * t + 50) * 2 ^ k"
    using hp small by (simp add: k_def algebra_simps)
  moreover have "100 * R \<le> 100 * p + 100 * 2 ^ b"
    using round_half_even_upper [OF u(1), of p] u unfolding R_def by linarith
  ultimately have lt: "R < (2 * t + 1) * 2 ^ (k - 1)" by (simp add: two_k algebra_simps)
  have "t * 2 ^ (k + 1) \<le> 2 * R + 2 ^ k" "2 * R + 2 ^ k < (t + 1) * 2 ^ (k + 1)"
    using ge lt by (simp_all add: two_k algebra_simps)
  then have "(2 * R + 2 ^ k) div 2 ^ (k + 1) = t"
    by (intro int_div_pos_eq [of _ _ _ "2 * R + 2 ^ k - t * 2 ^ (k + 1)"]) (simp_all add: algebra_simps)
  then show ?thesis
    by (simp add: Math_round_def fmul_def round_double_def R_def s_def p_def k_def t_def)
qed

lemma nat_mult_less_pow:
  assumes "0 \<le> n" "n < 2 ^ i" "0 \<le> m" "m < 2 ^ j"
  shows "nat (n * m) < 2 ^ (i + j)"
proof -
  have "n * m < 2 ^ i * 2 ^ j" using assms by (intro mult_strict_mono) simp_all
  then show ?thesis using assms by (simp add: nat_less_iff power_add)
qed

end
