(* ===== verification/CartEngine.thy ===== *)
theory CartEngine
  imports KioskTypes JsNumber "HOL-Library.Multiset"
begin

text \<open>
  The pricing engine of \<open>packages/cart-engine/src\<close>: \<open>computeTotals.ts\<close> with its rounding done in
  double precision, the worker of \<open>totals.worker.ts\<close> and the hook of \<open>useCartTotals.ts\<close>, which
  chooses between the synchronous totals and the worker's. The hook is a state machine: an effect
  run posts a request and listens for its answer, the worker answers its requests in order.
\<close>

section \<open>Totals\<close>

definition FLORIDA_SALES_TAX_RATE :: dyadic where
  "FLORIDA_SALES_TAX_RATE = \<lparr>significand = 0x11EB851EB851EC, scale = 56\<rparr>"

definition ENVIRONMENTAL_FEE_PER_ITEM_CENTS :: cents where
  "ENVIRONMENTAL_FEE_PER_ITEM_CENTS = 5"

definition LOYALTY_DISCOUNT_RATE :: dyadic where
  "LOYALTY_DISCOUNT_RATE = \<lparr>significand = 0x1999999999999A, scale = 57\<rparr>"

definition modifiersTotal :: "CartLineItem \<Rightarrow> cents" where
  "modifiersTotal l = foldl (\<lambda>m md. m + ModifierSelection.priceDeltaCents md) 0 (modifiers l)"

definition line_cents :: "CartLineItem \<Rightarrow> cents" where
  "line_cents l = CartLineItem.quantity l * (unitPriceCentsSnapshot l + modifiersTotal l)"

definition subtotal_of :: "CartLineItem list \<Rightarrow> cents" where
  "subtotal_of ls = foldl (\<lambda>sum l. sum + line_cents l) 0 ls"

definition item_count :: "CartLineItem list \<Rightarrow> int" where
  "item_count ls = foldl (\<lambda>sum l. sum + CartLineItem.quantity l) 0 ls"

definition computeCartTotals :: "CartLineItem list \<Rightarrow> bool \<Rightarrow> CartTotals" where
  "computeCartTotals ls hasLoyaltyAccount =
     (let subtotal = subtotal_of ls;
          fee = item_count ls * ENVIRONMENTAL_FEE_PER_ITEM_CENTS;
          loyalty = (if hasLoyaltyAccount then Math_round (fmul subtotal LOYALTY_DISCOUNT_RATE) else 0);
          taxableBase = subtotal - loyalty;
          tax = Math_round (fmul taxableBase FLORIDA_SALES_TAX_RATE);
          total = subtotal - loyalty + tax + fee
      in \<lparr>subtotalCents = subtotal, discountCents = loyalty, taxCents = tax,
          environmentalFeeCents = fee, loyaltyDiscountCents = loyalty, totalCents = total,
          breakdown =
            [\<lparr>label = ''Subtotal'', amountCents = subtotal, kind = K_fee\<rparr>] @
            (if loyalty > 0
             then [\<lparr>label = ''Loyalty discount (5%)'', amountCents = - loyalty, kind = K_loyalty\<rparr>]
             else []) @
            [\<lparr>label = ''Sales tax (Miami-Dade, 7%)'', amountCents = tax, kind = K_tax\<rparr>] @
            (if fee > 0 then [\<lparr>label = ''Environmental fee'', amountCents = fee, kind = K_fee\<rparr>] else [])\<rparr>)"

text \<open>The reference: percentages in exact integer arithmetic, halves rounded up.\<close>

definition percent :: "int \<Rightarrow> cents \<Rightarrow> cents" where
  "percent c n = (c * n + 50) div 100"

definition loyalty_spec :: "bool \<Rightarrow> cents \<Rightarrow> cents" where
  "loyalty_spec b n = (if b then percent 5 n else 0)"

definition total_spec :: "CartLineItem list \<Rightarrow> bool \<Rightarrow> cents" where
  "total_spec ls b =
     (let base = subtotal_of ls - loyalty_spec b (subtotal_of ls)
      in base + percent 7 base + 5 * item_count ls)"

section \<open>The worker and the hook\<close>

record TotalsWorkerRequest =
  reqId :: string
  reqLines :: "CartLineItem list"
  reqLoyalty :: bool

record TotalsWorkerResponse =
  respId :: string
  totals :: CartTotals

definition totals_worker :: "TotalsWorkerRequest \<Rightarrow> TotalsWorkerResponse" where
  "totals_worker r = \<lparr>respId = reqId r, totals = computeCartTotals (reqLines r) (reqLoyalty r)\<rparr>"

definition WORKER_OFFLOAD_THRESHOLD :: int where
  "WORKER_OFFLOAD_THRESHOLD = 25"

definition complexity :: "CartLineItem list \<Rightarrow> int" where
  "complexity ls = foldl (\<lambda>sum l. sum + 1 + int (length (modifiers l))) 0 ls"

text \<open>
  \<open>listening\<close> is the request whose answer the installed listener accepts, \<open>queue\<close> the requests
  the worker has not answered yet.
\<close>

record TotalsHook =
  hookLines :: "CartLineItem list"
  hookLoyalty :: bool
  workerTotals :: "CartTotals option"
  listening :: "string option"
  queue :: "TotalsWorkerRequest list"

definition hook_effect :: "string \<Rightarrow> TotalsHook \<Rightarrow> TotalsHook" where
  "hook_effect requestId h =
     (if complexity (hookLines h) \<le> WORKER_OFFLOAD_THRESHOLD then h
      else h\<lparr>listening := Some requestId,
             queue := queue h @ [\<lparr>reqId = requestId, reqLines = hookLines h, reqLoyalty = hookLoyalty h\<rparr>]\<rparr>)"

text \<open>A render with other arguments: the cleanup removes the listener, then the effect runs.\<close>

definition hook_render :: "string \<Rightarrow> CartLineItem list \<Rightarrow> bool \<Rightarrow> TotalsHook \<Rightarrow> TotalsHook" where
  "hook_render requestId ls loyalty h =
     hook_effect requestId (h\<lparr>hookLines := ls, hookLoyalty := loyalty, listening := None\<rparr>)"

definition hook_mount :: "string \<Rightarrow> CartLineItem list \<Rightarrow> bool \<Rightarrow> TotalsHook" where
  "hook_mount requestId ls loyalty =
     hook_effect requestId
       \<lparr>hookLines = ls, hookLoyalty = loyalty, workerTotals = None, listening = None, queue = []\<rparr>"

definition handleMessage :: "TotalsWorkerResponse \<Rightarrow> TotalsHook \<Rightarrow> TotalsHook" where
  "handleMessage resp h =
     (if listening h = Some (respId resp) then h\<lparr>workerTotals := Some (totals resp)\<rparr> else h)"

definition worker_answers :: "TotalsHook \<Rightarrow> TotalsHook" where
  "worker_answers h =
     (case queue h of [] \<Rightarrow> h | r # rs \<Rightarrow> handleMessage (totals_worker r) (h\<lparr>queue := rs\<rparr>))"

definition hook_result :: "TotalsHook \<Rightarrow> CartTotals" where
  "hook_result h =
     (case workerTotals h of
        Some t \<Rightarrow> if complexity (hookLines h) > WORKER_OFFLOAD_THRESHOLD then t
                  else computeCartTotals (hookLines h) (hookLoyalty h)
      | None \<Rightarrow> computeCartTotals (hookLines h) (hookLoyalty h))"

section \<open>Rounding\<close>

lemma tax_rate_rounds:
  assumes "0 \<le> n" "n < 2 ^ 48"
  shows "Math_round (fmul n FLORIDA_SALES_TAX_RATE) = percent 7 n"
  unfolding percent_def
proof (rule Math_round_percentage [where d = 48 and b = 48])
  show "nat (n * significand FLORIDA_SALES_TAX_RATE) < 2 ^ (53 + 48)"
    using nat_mult_less_pow [OF assms, of "significand FLORIDA_SALES_TAX_RATE" 53]
    by (simp add: FLORIDA_SALES_TAX_RATE_def)
qed (use assms in \<open>simp_all add: FLORIDA_SALES_TAX_RATE_def\<close>)

lemma loyalty_rate_rounds:
  assumes "0 \<le> n" "n < 2 ^ 48"
  shows "Math_round (fmul n LOYALTY_DISCOUNT_RATE) = percent 5 n"
  unfolding percent_def
proof (rule Math_round_percentage [where d = 40 and b = 48])
  show "nat (n * significand LOYALTY_DISCOUNT_RATE) < 2 ^ (53 + 48)"
    using nat_mult_less_pow [OF assms, of "significand LOYALTY_DISCOUNT_RATE" 53]
    by (simp add: LOYALTY_DISCOUNT_RATE_def)
qed (use assms in \<open>simp_all add: LOYALTY_DISCOUNT_RATE_def\<close>)

lemma percent_bounds: "0 \<le> c \<Longrightarrow> c \<le> 100 \<Longrightarrow> 0 \<le> n \<Longrightarrow> 0 \<le> percent c n \<and> percent c n \<le> n"
proof -
  assume *: "0 \<le> c" "c \<le> 100" "0 \<le> n"
  then have "c * n \<le> 100 * n" by (intro mult_right_mono)
  moreover have "0 \<le> c * n" using * by simp
  ultimately show ?thesis by (auto simp: percent_def)
qed

lemma percent_mono: "0 \<le> c \<Longrightarrow> m \<le> n \<Longrightarrow> percent c m \<le> percent c n"
  unfolding percent_def by (intro zdiv_mono1 add_right_mono mult_left_mono) simp_all

section \<open>Sums\<close>

lemma foldl_sum: "foldl (\<lambda>s x. s + f x) a xs = a + (\<Sum>x\<leftarrow>xs. f x)" for f :: "'a \<Rightarrow> int"
  by (induction xs arbitrary: a) simp_all

lemma modifiersTotal_sum: "modifiersTotal l = (\<Sum>m\<leftarrow>modifiers l. ModifierSelection.priceDeltaCents m)"
  by (simp add: modifiersTotal_def foldl_sum)

lemma subtotal_sum: "subtotal_of ls = (\<Sum>l\<leftarrow>ls. line_cents l)"
  by (simp add: subtotal_of_def foldl_sum)

lemma item_count_sum: "item_count ls = (\<Sum>l\<leftarrow>ls. CartLineItem.quantity l)"
  by (simp add: item_count_def foldl_sum)

lemma sum_list_mset_eq: "mset xs = mset ys \<Longrightarrow> (\<Sum>x\<leftarrow>xs. f x) = (\<Sum>y\<leftarrow>ys. f y)" for f :: "'a \<Rightarrow> int"
  by (metis sum_mset_sum_list mset_map)

lemmas totals_sums = subtotal_sum item_count_sum

text \<open>What a well-formed cart is: positive quantities, no line with a negative price.\<close>

definition wf_line :: "CartLineItem \<Rightarrow> bool" where
  "wf_line l \<longleftrightarrow> 0 < CartLineItem.quantity l \<and> 0 \<le> unitPriceCentsSnapshot l + modifiersTotal l"

definition wf_cart :: "CartLineItem list \<Rightarrow> bool" where
  "wf_cart ls \<longleftrightarrow> list_all wf_line ls \<and> subtotal_of ls < 2 ^ 48"

lemma wf_line_nonneg: "wf_line l \<Longrightarrow> 0 \<le> line_cents l \<and> 0 \<le> CartLineItem.quantity l"
  by (simp add: wf_line_def line_cents_def)

lemma wf_cart_nonneg:
  assumes "wf_cart ls"
  shows "0 \<le> subtotal_of ls" "0 \<le> item_count ls"
  using assms wf_line_nonneg
  by (auto simp: wf_cart_def totals_sums list_all_iff intro!: sum_list_nonneg)

lemma loyalty_computed:
  "wf_cart ls \<Longrightarrow>
   (if b then Math_round (fmul (subtotal_of ls) LOYALTY_DISCOUNT_RATE) else 0) = loyalty_spec b (subtotal_of ls)"
  using wf_cart_nonneg(1) by (simp add: loyalty_spec_def wf_cart_def loyalty_rate_rounds)

lemma loyalty_spec_bounds: "0 \<le> n \<Longrightarrow> 0 \<le> loyalty_spec b n \<and> loyalty_spec b n \<le> n"
  using percent_bounds [of 5 n] by (simp add: loyalty_spec_def)

lemma tax_computed:
  assumes "wf_cart ls"
  shows "Math_round (fmul (subtotal_of ls - loyalty_spec b (subtotal_of ls)) FLORIDA_SALES_TAX_RATE) =
    percent 7 (subtotal_of ls - loyalty_spec b (subtotal_of ls))"
proof -
  from assms have "subtotal_of ls < 2 ^ 48" by (simp add: wf_cart_def)
  with loyalty_spec_bounds [OF wf_cart_nonneg(1) [OF assms], of b] show ?thesis
    by (intro tax_rate_rounds) linarith+
qed

lemma computed_totals:
  assumes "wf_cart ls"
  shows "totalCents (computeCartTotals ls b) = total_spec ls b"
    and "loyaltyDiscountCents (computeCartTotals ls b) = loyalty_spec b (subtotal_of ls)"
    and "taxCents (computeCartTotals ls b) = percent 7 (subtotal_of ls - loyalty_spec b (subtotal_of ls))"
  by (simp_all only: computeCartTotals_def Let_def loyalty_computed [OF assms] tax_computed [OF assms]
      CartTotals.simps total_spec_def ENVIRONMENTAL_FEE_PER_ITEM_CENTS_def mult.commute [of _ 5])

lemma breakdown_sum:
  assumes "wf_cart ls"
  shows "(\<Sum>e\<leftarrow>breakdown (computeCartTotals ls b). BreakdownEntry.amountCents e) = total_spec ls b"
proof -
  have "0 \<le> loyalty_spec b (subtotal_of ls)"
    using loyalty_spec_bounds [OF wf_cart_nonneg(1) [OF assms]] by simp
  moreover have "0 \<le> item_count ls" by (rule wf_cart_nonneg(2) [OF assms])
  ultimately show ?thesis
    by (simp add: computeCartTotals_def Let_def loyalty_computed [OF assms] tax_computed [OF assms]
        total_spec_def ENVIRONMENTAL_FEE_PER_ITEM_CENTS_def)
qed

section \<open>Reachable states of the hook\<close>

text \<open>
  A run of the hook, with the request identifiers used so far: \<open>crypto.randomUUID\<close> never returns
  one twice.
\<close>

inductive hook_run :: "TotalsHook \<Rightarrow> string set \<Rightarrow> bool" where
  mount: "hook_run (hook_mount i ls b) {i}"
| render: "hook_run h used \<Longrightarrow> i \<notin> used \<Longrightarrow> hook_run (hook_render i ls b h) (insert i used)"
| answer: "hook_run h used \<Longrightarrow> hook_run (worker_answers h) used"

definition current_totals :: "TotalsHook \<Rightarrow> CartTotals" where
  "current_totals h = computeCartTotals (hookLines h) (hookLoyalty h)"

definition hook_inv :: "TotalsHook \<Rightarrow> string set \<Rightarrow> bool" where
  "hook_inv h used \<longleftrightarrow>
     reqId ` set (queue h) \<subseteq> used \<and>
     (complexity (hookLines h) > WORKER_OFFLOAD_THRESHOLD \<longrightarrow>
        (\<exists>i \<in> used. listening h = Some i \<and>
           (i \<in> reqId ` set (queue h) \<or> workerTotals h = Some (current_totals h)) \<and>
           (\<forall>r \<in> set (queue h). reqId r = i \<longrightarrow>
              reqLines r = hookLines h \<and> reqLoyalty r = hookLoyalty h)))"

lemma hook_effect_inv:
  assumes "reqId ` set (queue h) \<subseteq> used" and "i \<notin> used"
  shows "hook_inv (hook_effect i h) (insert i used)"
  using assms by (auto simp: hook_inv_def hook_effect_def)

lemma worker_answers_inv:
  assumes "hook_inv h used"
  shows "hook_inv (worker_answers h) used"
proof (cases "queue h")
  case (Cons r rs)
  with assms show ?thesis
    by (auto simp: hook_inv_def worker_answers_def handleMessage_def totals_worker_def current_totals_def)
qed (use assms in \<open>simp add: worker_answers_def\<close>)

lemma hook_run_inv: "hook_run h used \<Longrightarrow> hook_inv h used"
proof (induction rule: hook_run.induct)
  case (mount i ls b)
  show ?case unfolding hook_mount_def by (rule hook_effect_inv) simp_all
next
  case (render h used i ls b)
  then show ?case unfolding hook_render_def by (intro hook_effect_inv) (auto simp: hook_inv_def)
next
  case (answer h used)
  then show ?case by (intro worker_answers_inv)
qed

section \<open>Properties\<close>

definition sample_line :: "nat \<Rightarrow> CartLineItem" where
  "sample_line n =
     \<lparr>lineId = ''l'' @ replicate n CHR ''x'', menuItemId = ''m'', CartLineItem.nameSnapshot = ''Tea'',
      unitPriceCentsSnapshot = 250, CartLineItem.quantity = 1,
      modifiers = [\<lparr>modifierId = ''g'', optionId = ''o'', priceDeltaCents = 50\<rparr>],
      lineNotes = None, weightGrams = None, addedAtMs = 0\<rparr>"

lemmas sample_cart_defs = wf_cart_def wf_line_def sample_line_def subtotal_of_def line_cents_def
  modifiersTotal_def item_count_def complexity_def WORKER_OFFLOAD_THRESHOLD_def

text \<open>
  C4. For every well-formed cart below \<open>2^48\<close> cents, the totals that the kiosk computes in double
  precision are the exact ones: loyalty discount and tax are 5 and 7 percent rounded to the nearest cent
  (half cents up), tax is taken after the discount, the total is subtotal less discount plus tax
  plus five cents per item, and the itemised breakdown adds up to the total. The discount never
  exceeds the subtotal, so no total is negative.
\<close>

theorem computeCartTotals_exact:
  assumes "wf_cart ls"
  shows "let t = computeCartTotals ls b in
    subtotalCents t = subtotal_of ls \<and>
    loyaltyDiscountCents t = loyalty_spec b (subtotal_of ls) \<and>
    discountCents t = loyaltyDiscountCents t \<and>
    taxCents t = percent 7 (subtotal_of ls - loyaltyDiscountCents t) \<and>
    totalCents t = subtotal_of ls - loyaltyDiscountCents t + taxCents t + 5 * item_count ls \<and>
    (\<Sum>e\<leftarrow>breakdown t. BreakdownEntry.amountCents e) = totalCents t \<and>
    0 \<le> loyaltyDiscountCents t \<and> loyaltyDiscountCents t \<le> subtotalCents t \<and>
    5 * item_count ls \<le> totalCents t"
proof -
  let ?n = "subtotal_of ls"
  have l: "0 \<le> loyalty_spec b ?n" "loyalty_spec b ?n \<le> ?n"
    using loyalty_spec_bounds [OF wf_cart_nonneg(1) [OF assms]] by auto
  then have "0 \<le> percent 7 (?n - loyalty_spec b ?n)"
    using percent_bounds [of 7 "?n - loyalty_spec b ?n"] by simp
  with l computed_totals [OF assms] breakdown_sum [OF assms] show ?thesis
    by (simp add: Let_def total_spec_def) (simp add: computeCartTotals_def Let_def loyalty_computed [OF assms])
qed

theorem computeCartTotals_exact_witness:
  "wf_cart [sample_line 0, sample_line 1] \<and>
   totalCents (computeCartTotals [sample_line 0, sample_line 1] True) = 620"
proof -
  have wf: "wf_cart [sample_line 0, sample_line 1]" by (simp add: sample_cart_defs)
  from computeCartTotals_exact [OF wf, of True] wf show ?thesis
    by (simp add: Let_def sample_cart_defs loyalty_spec_def percent_def)
qed

text \<open>
  The totals depend on what is in the cart, not on the order in which it was added, and a
  customer with a loyalty account never pays more than one without: the discount lowers the
  taxed amount, and rounding cannot undo it.
\<close>

theorem computeCartTotals_order_and_loyalty:
  assumes "wf_cart ls" and "mset ls' = mset ls"
  shows "computeCartTotals ls' b = computeCartTotals ls b \<and>
    totalCents (computeCartTotals ls' True) \<le> totalCents (computeCartTotals ls False)"
proof -
  have sums: "subtotal_of ls' = subtotal_of ls" "item_count ls' = item_count ls"
    unfolding totals_sums using assms(2) by (intro sum_list_mset_eq; simp)+
  then have eq: "computeCartTotals ls' c = computeCartTotals ls c" for c
    by (simp add: computeCartTotals_def)
  have n: "0 \<le> subtotal_of ls" by (rule wf_cart_nonneg(1) [OF assms(1)])
  have "0 \<le> loyalty_spec True (subtotal_of ls)" using loyalty_spec_bounds [OF n] by simp
  moreover from this have "percent 7 (subtotal_of ls - loyalty_spec True (subtotal_of ls)) \<le> percent 7 (subtotal_of ls)"
    by (intro percent_mono) simp_all
  ultimately have "total_spec ls True \<le> total_spec ls False"
    by (simp add: total_spec_def Let_def loyalty_spec_def)
  then show ?thesis by (simp add: eq computed_totals(1) [OF assms(1)])
qed

theorem computeCartTotals_order_and_loyalty_witness:
  "computeCartTotals [sample_line 1, sample_line 0] True = computeCartTotals [sample_line 0, sample_line 1] True"
  using computeCartTotals_order_and_loyalty [of "[sample_line 0, sample_line 1]"
      "[sample_line 1, sample_line 0]" True]
  by (simp add: sample_cart_defs)

text \<open>
  C21. What the hook shows is the total of the cart it was last rendered with as soon as the worker
  has answered every request, and at every moment for a cart of at most 25 lines and modifiers: an
  answer to an older request that arrives late is never shown in place of a newer one, because the
  listener only accepts the identifier of the last request.
\<close>

theorem useCartTotals_settles:
  assumes "hook_run h used"
    and "queue h = [] \<or> complexity (hookLines h) \<le> WORKER_OFFLOAD_THRESHOLD \<or> workerTotals h = None"
  shows "hook_result h = computeCartTotals (hookLines h) (hookLoyalty h)"
  using hook_run_inv [OF assms(1)] assms(2)
  by (cases "workerTotals h") (auto simp: hook_result_def hook_inv_def current_totals_def)

definition large_cart :: "nat \<Rightarrow> CartLineItem list" where
  "large_cart n = map sample_line [0..<n]"

lemma complexity_large_cart: "complexity (large_cart n) = 2 * int n"
proof (induction n)
  case (Suc n)
  then show ?case by (simp add: large_cart_def complexity_def sample_line_def)
qed (simp add: large_cart_def complexity_def)

theorem useCartTotals_settles_witness:
  "hook_result (worker_answers (hook_mount ''r1'' (large_cart 13) True)) =
     computeCartTotals (large_cart 13) True"
proof -
  let ?h = "worker_answers (hook_mount ''r1'' (large_cart 13) True)"
  have run: "hook_run ?h {''r1''}" by (intro hook_run.intros)
  have eqs: "queue ?h = []" "hookLines ?h = large_cart 13" "hookLoyalty ?h = True"
    by (simp_all add: worker_answers_def hook_mount_def hook_effect_def handleMessage_def
        complexity_large_cart WORKER_OFFLOAD_THRESHOLD_def)
  from useCartTotals_settles [OF run] eqs show ?thesis by simp
qed

text \<open>
  Until then the hook can show another cart's total: when a large cart changes to another large
  cart, the totals of the previous cart stay on the screen until the worker's next answer, although
  the right ones have been computed synchronously in the same render.
\<close>

theorem useCartTotals_stale_after_change:
  assumes "complexity ls > 25" and "complexity ls' > 25"
  shows "hook_result (hook_render i' ls' b (worker_answers (hook_mount i ls b))) = computeCartTotals ls b"
  using assms
  by (simp add: hook_result_def hook_render_def hook_mount_def hook_effect_def worker_answers_def
      handleMessage_def totals_worker_def WORKER_OFFLOAD_THRESHOLD_def)

theorem useCartTotals_stale_after_change_witness:
  "hook_result (hook_render ''r2'' (large_cart 14) True (worker_answers (hook_mount ''r1'' (large_cart 13) True))) =
     computeCartTotals (large_cart 13) True \<and>
   subtotalCents (computeCartTotals (large_cart 13) True) \<noteq> subtotalCents (computeCartTotals (large_cart 14) True)"
proof
  show "hook_result (hook_render ''r2'' (large_cart 14) True (worker_answers (hook_mount ''r1'' (large_cart 13) True))) =
     computeCartTotals (large_cart 13) True"
    by (rule useCartTotals_stale_after_change) (simp_all add: complexity_large_cart)
  show "subtotalCents (computeCartTotals (large_cart 13) True) \<noteq> subtotalCents (computeCartTotals (large_cart 14) True)"
    by (simp add: computeCartTotals_def Let_def large_cart_def subtotal_of_def line_cents_def
        modifiersTotal_def sample_line_def upt_rec)
qed

end
