(* ===== verification/KioskState.thy ===== *)
theory KioskState
  imports KioskTypes "HOL-Library.Sublist"
begin

text \<open>
  The shared stores of \<open>packages/kiosk-state/src\<close>: the cart proxy of \<open>cartProxy.ts\<close>, the session
  store of \<open>sessionStore.ts\<close>, and the two hooks of \<open>apps/kiosk/src/hooks\<close> that write to the
  session store (\<open>useSilentAssist.ts\<close>, \<open>useNetworkMonitor.ts\<close>). The cart operations refine updates
  of a finite map from line identifiers to lines.
\<close>

section \<open>The cart proxy\<close>

definition initial_cart :: "string \<Rightarrow> string \<Rightarrow> string option \<Rightarrow> ms \<Rightarrow> ms \<Rightarrow> CartState" where
  "initial_cart cid sid envKioskId now1 now2 =
     \<lparr>cartId = cid, kioskId = (case envKioskId of None \<Rightarrow> ''unknown-kiosk'' | Some k \<Rightarrow> k),
      sessionId = sid, storeId = None, lines = [], version = 0, currency = ''USD'',
      createdAtMs = now1, updatedAtMs = now2\<rparr>"

text \<open>\<open>version += 1; updatedAtMs = Date.now()\<close>, the end of every mutation.\<close>

definition touch :: "ms \<Rightarrow> CartState \<Rightarrow> CartState" where
  "touch now c = c\<lparr>version := version c + 1, updatedAtMs := now\<rparr>"

definition addLineItem :: "string \<Rightarrow> ms \<Rightarrow> ms \<Rightarrow> CartLineItem \<Rightarrow> CartState \<Rightarrow> CartState" where
  "addLineItem newId added now item c =
     touch now (c\<lparr>lines := lines c @ [item\<lparr>lineId := newId, addedAtMs := added\<rparr>]\<rparr>)"

definition removeLineItem :: "ms \<Rightarrow> string \<Rightarrow> CartState \<Rightarrow> CartState" where
  "removeLineItem now lid c =
     (case findIndex (\<lambda>l. lineId l = lid) (lines c) of
        None \<Rightarrow> c
      | Some idx \<Rightarrow> touch now (c\<lparr>lines := splice_at idx (lines c)\<rparr>))"

definition updateLineQuantity :: "ms \<Rightarrow> string \<Rightarrow> int \<Rightarrow> CartState \<Rightarrow> CartState" where
  "updateLineQuantity now lid q c =
     (case List.find (\<lambda>l. lineId l = lid) (lines c) of
        None \<Rightarrow> c
      | Some line \<Rightarrow>
          if q \<le> 0 then removeLineItem now lid c
          else touch now (c\<lparr>lines := update_first (\<lambda>l. lineId l = lid) (\<lambda>l. l\<lparr>quantity := q\<rparr>) (lines c)\<rparr>))"

definition resetCart :: "string \<Rightarrow> string \<Rightarrow> ms \<Rightarrow> ms \<Rightarrow> string \<Rightarrow> CartState \<Rightarrow> CartState" where
  "resetCart newCart newSession now1 now2 kid c =
     c\<lparr>cartId := newCart, sessionId := newSession, kioskId := kid, lines := [], version := 0,
       createdAtMs := now1, updatedAtMs := now2\<rparr>"

record DerivedCart =
  itemCount :: int
  isEmpty :: bool

text \<open>The subscriber that maintains \<open>derivedCart\<close>.\<close>

definition derive_cart :: "CartState \<Rightarrow> DerivedCart" where
  "derive_cart c =
     \<lparr>itemCount = foldl (\<lambda>sum l. sum + quantity l) 0 (lines c), isEmpty = (length (lines c) = 0)\<rparr>"

datatype opType = Op_set | Op_delete

record CrdtCartOp =
  opPath :: "string list"
  opKind :: opType
  opCartId :: string
  opVersion :: int
  timestampMs :: ms

text \<open>The subscriber of \<open>bridgeCartToCrdtWorker\<close>: one operation per change that Valtio reports.\<close>

definition bridge_ops :: "ms \<Rightarrow> CartState \<Rightarrow> (opType \<times> string list) list \<Rightarrow> CrdtCartOp list" where
  "bridge_ops now c ops =
     map (\<lambda>(k, path). \<lparr>opPath = path, opKind = k, opCartId = cartId c, opVersion = version c,
                       timestampMs = now\<rparr>) ops"

section \<open>The session store\<close>

datatype WorkflowStage = attract | menu | cart_review | payment_auth | receipt

record NetworkStatus =
  online :: bool
  syncLagMs :: int
  meshPeerCount :: int
  isLeader :: bool

record SessionState =
  sessStage :: WorkflowStage
  sessLaneMode :: LaneMode
  sessId :: "string option"
  lastInteraction :: ms
  network :: NetworkStatus
  silentAssistArmed :: bool
  ghostCartTransferred :: bool

fun ALLOWED_TRANSITIONS :: "WorkflowStage \<Rightarrow> WorkflowStage list" where
  "ALLOWED_TRANSITIONS attract = [menu]"
| "ALLOWED_TRANSITIONS menu = [cart_review, attract]"
| "ALLOWED_TRANSITIONS cart_review = [menu, payment_auth, attract]"
| "ALLOWED_TRANSITIONS payment_auth = [receipt, cart_review]"
| "ALLOWED_TRANSITIONS receipt = [attract]"

fun stage_name :: "WorkflowStage \<Rightarrow> string" where
  "stage_name attract = ''attract''"
| "stage_name menu = ''menu''"
| "stage_name cart_review = ''cart_review''"
| "stage_name payment_auth = ''payment_auth''"
| "stage_name receipt = ''receipt''"

definition initial_session :: "ms \<Rightarrow> SessionState" where
  "initial_session now =
     \<lparr>sessStage = attract, sessLaneMode = full, sessId = None, lastInteraction = now,
      network = \<lparr>online = True, syncLagMs = 0, meshPeerCount = 0, isLeader = False\<rparr>,
      silentAssistArmed = False, ghostCartTransferred = False\<rparr>"

definition startSession :: "string \<Rightarrow> ms \<Rightarrow> SessionState \<Rightarrow> SessionState" where
  "startSession sid now s = s\<lparr>sessId := Some sid, sessStage := menu, lastInteraction := now\<rparr>"

definition endSession :: "ms \<Rightarrow> SessionState \<Rightarrow> SessionState" where
  "endSession now s =
     s\<lparr>sessId := None, sessStage := attract, silentAssistArmed := False, lastInteraction := now\<rparr>"

definition goToStage :: "bool \<Rightarrow> WorkflowStage \<Rightarrow> ms \<Rightarrow> SessionState \<Rightarrow> thrown + SessionState" where
  "goToStage DEV stage now s =
     (if stage \<notin> set (ALLOWED_TRANSITIONS (sessStage s)) then
        (if DEV then
           Inl (new_Error (''Illegal workflow transition: '' @ stage_name (sessStage s) @ '' -> '' @ stage_name stage))
         else Inr s)
      else Inr (s\<lparr>sessStage := stage, lastInteraction := now, silentAssistArmed := False\<rparr>))"

definition recordInteraction_session :: "ms \<Rightarrow> SessionState \<Rightarrow> SessionState" where
  "recordInteraction_session now s = s\<lparr>lastInteraction := now, silentAssistArmed := False\<rparr>"

definition setLaneMode :: "LaneMode \<Rightarrow> SessionState \<Rightarrow> SessionState" where
  "setLaneMode mode s = s\<lparr>sessLaneMode := mode\<rparr>"

text \<open>\<open>Partial<NetworkStatus>\<close>: the fields that are present overwrite.\<close>

record PartialNetworkStatus =
  p_online :: "bool option"
  p_syncLagMs :: "int option"
  p_meshPeerCount :: "int option"
  p_isLeader :: "bool option"

definition setNetworkStatus :: "PartialNetworkStatus \<Rightarrow> SessionState \<Rightarrow> SessionState" where
  "setNetworkStatus p s =
     (let n = network s in
      s\<lparr>network :=
          \<lparr>online = case_option (online n) id (p_online p),
           syncLagMs = case_option (syncLagMs n) id (p_syncLagMs p),
           meshPeerCount = case_option (meshPeerCount n) id (p_meshPeerCount p),
           isLeader = case_option (isLeader n) id (p_isLeader p)\<rparr>\<rparr>)"

definition armSilentAssist :: "bool \<Rightarrow> SessionState \<Rightarrow> SessionState" where
  "armSilentAssist b s = s\<lparr>silentAssistArmed := b\<rparr>"

definition setGhostCartTransferred :: "bool \<Rightarrow> SessionState \<Rightarrow> SessionState" where
  "setGhostCartTransferred b s = s\<lparr>ghostCartTransferred := b\<rparr>"

section \<open>Hooks on the session store\<close>

definition SILENT_ASSIST_STALL_MS :: ms where
  "SILENT_ASSIST_STALL_MS = 45000"

definition ELIGIBLE_STAGES :: "string list" where
  "ELIGIBLE_STAGES = [''MENU'', ''CART'']"

text \<open>The interval callback of \<open>useSilentAssist\<close>; the stage is the machine's, by its name.\<close>

definition silent_assist_tick :: "string \<Rightarrow> ms \<Rightarrow> SessionState \<Rightarrow> SessionState" where
  "silent_assist_tick machineStage now s =
     (if machineStage \<in> set ELIGIBLE_STAGES \<and> now - lastInteraction s > SILENT_ASSIST_STALL_MS \<and>
         \<not> silentAssistArmed s
      then armSilentAssist True s else s)"

definition updateOnlineState :: "bool \<Rightarrow> SessionState \<Rightarrow> SessionState" where
  "updateOnlineState onLine s =
     setNetworkStatus \<lparr>p_online = Some onLine, p_syncLagMs = None, p_meshPeerCount = None, p_isLeader = None\<rparr> s"

text \<open>The answer of the sync daemon's health endpoint, or any failure to get one.\<close>

record health_body =
  h_syncLagMs :: int
  h_meshPeerCount :: int
  h_isLeader :: bool

definition pollMeshHealth :: "(bool \<times> health_body) option \<Rightarrow> SessionState \<Rightarrow> SessionState" where
  "pollMeshHealth res s =
     (case res of
        Some (True, body) \<Rightarrow>
          setNetworkStatus \<lparr>p_online = None, p_syncLagMs = Some (h_syncLagMs body),
            p_meshPeerCount = Some (h_meshPeerCount body), p_isLeader = Some (h_isLeader body)\<rparr> s
      | _ \<Rightarrow>
          setNetworkStatus \<lparr>p_online = None, p_syncLagMs = None, p_meshPeerCount = Some 0,
            p_isLeader = Some False\<rparr> s)"

section \<open>Stores of lines\<close>

text \<open>
  The contract of a cart as its clients use it: what is found under an identifier after each
  operation. Clients reason about the abstract map only.
\<close>

locale line_store =
  fixes look :: "'s \<Rightarrow> string \<Rightarrow> 'l option"
    and ins :: "string \<Rightarrow> 'l \<Rightarrow> 's \<Rightarrow> 's"
    and upd :: "string \<Rightarrow> int \<Rightarrow> 's \<Rightarrow> 's"
    and del :: "string \<Rightarrow> 's \<Rightarrow> 's"
    and stamp :: "string \<Rightarrow> 'l \<Rightarrow> 'l"
    and setq :: "int \<Rightarrow> 'l \<Rightarrow> 'l"
    and invar :: "'s \<Rightarrow> bool"
    and fresh :: "string \<Rightarrow> 's \<Rightarrow> bool"
  assumes look_ins: "invar s \<Longrightarrow> fresh i s \<Longrightarrow> look (ins i l s) = (look s)(i \<mapsto> stamp i l)"
    and look_del: "invar s \<Longrightarrow> look (del i s) = (look s)(i := None)"
    and look_upd: "invar s \<Longrightarrow>
      look (upd i q s) = (if q \<le> 0 then (look s)(i := None) else (look s)(i := map_option (setq q) (look s i)))"
    and invar_ins: "invar s \<Longrightarrow> fresh i s \<Longrightarrow> invar (ins i l s)"
    and invar_del: "invar s \<Longrightarrow> invar (del i s)"
    and invar_upd: "invar s \<Longrightarrow> invar (upd i q s)"
    and fresh_look: "fresh i s \<Longrightarrow> look s i = None"
begin

lemma ins_then_del: "invar s \<Longrightarrow> fresh i s \<Longrightarrow> look (del i (ins i l s)) = look s"
  by (auto simp: look_del look_ins invar_ins fresh_look fun_eq_iff)

lemma upd_zero_is_del: "invar s \<Longrightarrow> q \<le> 0 \<Longrightarrow> look (upd i q s) = look (del i s)"
  by (simp add: look_upd look_del)

lemma upd_upd:
  assumes "invar s" and "0 < q" and "setq r \<circ> setq q = setq r"
  shows "look (upd i r (upd i q s)) = look (upd i r s)"
  using assms by (cases "look s i") (auto simp: look_upd invar_upd fun_eq_iff)

end

section \<open>The cart proxy refines a map\<close>

definition cart_map :: "CartState \<Rightarrow> string \<Rightarrow> CartLineItem option" where
  "cart_map c = map_of (map (\<lambda>l. (lineId l, l)) (lines c))"

definition cart_invar :: "CartState \<Rightarrow> bool" where
  "cart_invar c \<longleftrightarrow> distinct (map lineId (lines c))"

definition fresh_line :: "string \<Rightarrow> CartState \<Rightarrow> bool" where
  "fresh_line i c \<longleftrightarrow> i \<notin> lineId ` set (lines c)"

lemma touch_simps [simp]:
  "lines (touch now c) = lines c" "cartId (touch now c) = cartId c"
  "version (touch now c) = version c + 1"
  by (simp_all add: touch_def)

lemma map_of_key_splice:
  assumes "distinct (map f ls)" and "i < length ls" and "f (ls ! i) = k"
  shows "map_of (map (\<lambda>l. (f l, l)) (splice_at i ls)) = (map_of (map (\<lambda>l. (f l, l)) ls))(k := None)"
  using assms
proof (induction ls arbitrary: i)
  case (Cons l ls)
  show ?case
  proof (cases i)
    case 0
    with Cons.prems have "f l = k" "k \<notin> fst ` set (map (\<lambda>l. (f l, l)) ls)" by auto
    with 0 show ?thesis by (auto simp: splice_at_def map_of_eq_None_iff fun_eq_iff)
  next
    case (Suc j)
    with Cons.prems have j: "j < length ls" "f (ls ! j) = k" "f l \<noteq> k" by auto
    with Cons.IH [of j] Cons.prems(1) Suc show ?thesis
      by (auto simp: splice_at_def fun_eq_iff)
  qed
qed simp

lemma map_of_key_update_first:
  assumes "\<And>x. f (g x) = f x"
  shows "map_of (map (\<lambda>l. (f l, l)) (update_first (\<lambda>l. f l = k) g ls)) =
    (map_of (map (\<lambda>l. (f l, l)) ls))(k := map_option g (map_of (map (\<lambda>l. (f l, l)) ls) k))"
  by (induction ls) (auto simp: assms fun_eq_iff)

lemma cart_map_remove:
  assumes "cart_invar c"
  shows "cart_map (removeLineItem now i c) = (cart_map c)(i := None)"
proof (cases "findIndex (\<lambda>l. lineId l = i) (lines c)")
  case None
  then have "cart_map c i = None" by (auto simp: cart_map_def map_of_eq_None_iff)
  moreover from None have "removeLineItem now i c = c" unfolding removeLineItem_def by (simp only: option.case)
  ultimately show ?thesis by (auto simp: fun_eq_iff)
next
  case (Some j)
  from findIndex_Some_nth [OF Some] have "j < length (lines c)" "lineId (lines c ! j) = i" by auto
  with assms Some show ?thesis
    by (simp add: removeLineItem_def cart_map_def cart_invar_def map_of_key_splice)
qed

lemma find_None_cart_map: "List.find (\<lambda>l. lineId l = i) (lines c) = None \<longleftrightarrow> cart_map c i = None"
  by (force simp: find_None_iff cart_map_def map_of_eq_None_iff)

lemma cart_map_update:
  assumes "cart_invar c"
  shows "cart_map (updateLineQuantity now i q c) =
    (if q \<le> 0 then (cart_map c)(i := None)
     else (cart_map c)(i := map_option (\<lambda>l. l\<lparr>quantity := q\<rparr>) (cart_map c i)))"
proof (cases "List.find (\<lambda>l. lineId l = i) (lines c)")
  case None
  then have "cart_map c i = None" by (simp add: find_None_cart_map)
  with None show ?thesis by (auto simp: updateLineQuantity_def fun_eq_iff)
next
  case (Some l)
  then show ?thesis
    using map_of_key_update_first [of lineId "\<lambda>l. l\<lparr>quantity := q\<rparr>" i "lines c"]
    by (simp add: updateLineQuantity_def cart_map_remove [OF assms]) (simp add: cart_map_def)
qed

lemma cart_map_add:
  assumes "fresh_line i c"
  shows "cart_map (addLineItem i t now item c) = (cart_map c)(i \<mapsto> item\<lparr>lineId := i, addedAtMs := t\<rparr>)"
proof -
  have "cart_map c i = None" using assms by (auto simp: fresh_line_def cart_map_def map_of_eq_None_iff)
  then show ?thesis by (auto simp: addLineItem_def cart_map_def fun_eq_iff map_add_def split: option.splits)
qed

lemma cart_invar_add: "cart_invar c \<Longrightarrow> fresh_line i c \<Longrightarrow> cart_invar (addLineItem i t now item c)"
  by (auto simp: cart_invar_def fresh_line_def addLineItem_def)

lemma cart_invar_remove: "cart_invar c \<Longrightarrow> cart_invar (removeLineItem now i c)"
  by (auto simp: cart_invar_def removeLineItem_def map_splice_at distinct_splice_at split: option.splits)

lemma cart_invar_update: "cart_invar c \<Longrightarrow> cart_invar (updateLineQuantity now i q c)"
  using cart_invar_remove [of c now i]
  by (auto simp: updateLineQuantity_def map_update_first cart_invar_def split: option.splits)

text \<open>The proxy is such a store: \<open>push\<close> stamps a line with its identifier and time.\<close>

interpretation proxy: line_store cart_map "\<lambda>i. addLineItem i t now"
  "updateLineQuantity now" "removeLineItem now" "\<lambda>i l. l\<lparr>lineId := i, addedAtMs := t\<rparr>"
  "\<lambda>q l. l\<lparr>quantity := q\<rparr>" cart_invar fresh_line
proof
  fix i s
  assume "fresh_line i s"
  then show "cart_map s i = None" by (auto simp: fresh_line_def cart_map_def map_of_eq_None_iff)
qed (simp_all add: cart_map_add cart_map_remove cart_map_update cart_invar_add cart_invar_remove
    cart_invar_update)

section \<open>Runs of cart operations\<close>

datatype cart_op =
    AddLine string ms ms CartLineItem
  | SetQuantity ms string int
  | RemoveLine ms string

fun run_cart_op :: "cart_op \<Rightarrow> CartState \<Rightarrow> CartState" where
  "run_cart_op (AddLine i t now item) c = addLineItem i t now item c"
| "run_cart_op (SetQuantity now i q) c = updateLineQuantity now i q c"
| "run_cart_op (RemoveLine now i) c = removeLineItem now i c"

text \<open>The specification: the same operations on a finite map.\<close>

fun spec_cart_op :: "cart_op \<Rightarrow> (string \<Rightarrow> CartLineItem option) \<Rightarrow> (string \<Rightarrow> CartLineItem option)" where
  "spec_cart_op (AddLine i t now item) m = m(i \<mapsto> item\<lparr>lineId := i, addedAtMs := t\<rparr>)"
| "spec_cart_op (SetQuantity now i q) m =
     (if q \<le> 0 then m(i := None) else m(i := map_option (\<lambda>l. l\<lparr>quantity := q\<rparr>) (m i)))"
| "spec_cart_op (RemoveLine now i) m = m(i := None)"

text \<open>Identifiers are new when a line is added, as those of \<open>uuidV7\<close> are.\<close>

fun ids_fresh :: "cart_op list \<Rightarrow> CartState \<Rightarrow> bool" where
  "ids_fresh [] c = True"
| "ids_fresh (p # ps) c =
     ((case p of AddLine i _ _ _ \<Rightarrow> fresh_line i c | _ \<Rightarrow> True) \<and> ids_fresh ps (run_cart_op p c))"

definition positive_lines :: "CartState \<Rightarrow> bool" where
  "positive_lines c \<longleftrightarrow> list_all (\<lambda>l. 0 < quantity l) (lines c)"

lemma run_cart_op_refines:
  assumes "cart_invar c" and "ids_fresh [p] c"
  shows "cart_map (run_cart_op p c) = spec_cart_op p (cart_map c) \<and> cart_invar (run_cart_op p c)"
  using assms
  by (cases p) (simp_all add: proxy.look_ins proxy.look_upd proxy.look_del proxy.invar_ins
      proxy.invar_upd proxy.invar_del)

lemma ids_fresh_Cons: "ids_fresh (p # ps) c \<longleftrightarrow> ids_fresh [p] c \<and> ids_fresh ps (run_cart_op p c)"
  by simp

lemma run_cart_ops_refine:
  assumes "cart_invar c" and "ids_fresh ps c"
  shows "cart_map (fold run_cart_op ps c) = fold spec_cart_op ps (cart_map c) \<and>
    cart_invar (fold run_cart_op ps c)"
  using assms
proof (induction ps arbitrary: c)
  case (Cons p ps)
  from Cons.prems(2) have "ids_fresh [p] c" "ids_fresh ps (run_cart_op p c)"
    by (simp_all only: ids_fresh_Cons [of p ps])
  with run_cart_op_refines [OF Cons.prems(1)] Cons.IH show ?case by simp
qed simp

lemma run_cart_op_version:
  "run_cart_op p c = c \<or> version (run_cart_op p c) = version c + 1"
  by (cases p) (simp_all add: addLineItem_def updateLineQuantity_def removeLineItem_def split: option.splits)

lemma run_cart_ops_version:
  "version c \<le> version (fold run_cart_op ps c) \<and>
   version (fold run_cart_op ps c) \<le> version c + int (length ps) \<and>
   (version (fold run_cart_op ps c) = version c \<longrightarrow> fold run_cart_op ps c = c)"
proof (induction ps arbitrary: c)
  case (Cons p ps)
  from Cons.IH [of "run_cart_op p c"] run_cart_op_version [of p c] show ?case by auto
qed simp

fun adds_positive :: "cart_op \<Rightarrow> bool" where
  "adds_positive (AddLine _ _ _ item) = (0 < quantity item)"
| "adds_positive _ = True"

lemma list_all_update_first: "list_all P xs \<Longrightarrow> (\<And>x. P (f x)) \<Longrightarrow> list_all P (update_first q f xs)"
  by (induction xs) auto

lemma list_all_splice_at: "list_all P xs \<Longrightarrow> list_all P (splice_at i xs)"
  using set_splice_at [of i xs] by (auto simp: list_all_iff)

lemma run_cart_op_positive: "positive_lines c \<Longrightarrow> adds_positive p \<Longrightarrow> positive_lines (run_cart_op p c)"
  by (cases p)
    (auto simp: positive_lines_def addLineItem_def updateLineQuantity_def removeLineItem_def
      intro: list_all_update_first list_all_splice_at split: option.splits)

lemma run_cart_ops_positive:
  "positive_lines c \<Longrightarrow> list_all adds_positive ps \<Longrightarrow> positive_lines (fold run_cart_op ps c)"
  by (induction ps arbitrary: c) (simp_all add: run_cart_op_positive)

lemma foldl_quantities: "foldl (\<lambda>sum l. sum + quantity l) a ls = a + (\<Sum>l\<leftarrow>ls. quantity l)"
  by (induction ls arbitrary: a) simp_all

lemma positive_count:
  assumes "list_all (\<lambda>l. 0 < quantity l) ls"
  shows "int (length ls) \<le> (\<Sum>l\<leftarrow>ls. quantity l)"
  using assms by (induction ls) auto

section \<open>Runs of the session store\<close>

datatype session_op =
    StartSession string ms
  | EndSession ms
  | GoToStage WorkflowStage ms
  | RecordInteraction ms
  | SetLaneMode LaneMode
  | SetNetworkStatus PartialNetworkStatus
  | ArmSilentAssist bool
  | SetGhostCartTransferred bool

text \<open>A throwing \<open>goToStage\<close> leaves the store as it is.\<close>

fun run_session_op :: "bool \<Rightarrow> session_op \<Rightarrow> SessionState \<Rightarrow> SessionState" where
  "run_session_op DEV (StartSession sid now) s = startSession sid now s"
| "run_session_op DEV (EndSession now) s = endSession now s"
| "run_session_op DEV (GoToStage t now) s = (case goToStage DEV t now s of Inl _ \<Rightarrow> s | Inr s' \<Rightarrow> s')"
| "run_session_op DEV (RecordInteraction now) s = recordInteraction_session now s"
| "run_session_op DEV (SetLaneMode m) s = setLaneMode m s"
| "run_session_op DEV (SetNetworkStatus p) s = setNetworkStatus p s"
| "run_session_op DEV (ArmSilentAssist b) s = armSilentAssist b s"
| "run_session_op DEV (SetGhostCartTransferred b) s = setGhostCartTransferred b s"

fun session_trace :: "bool \<Rightarrow> session_op list \<Rightarrow> SessionState \<Rightarrow> WorkflowStage list" where
  "session_trace DEV [] s = []"
| "session_trace DEV (p # ps) s =
     sessStage (run_session_op DEV p s) # session_trace DEV ps (run_session_op DEV p s)"

text \<open>The screens a customer must have seen on the way to a stage.\<close>

fun path_to :: "WorkflowStage \<Rightarrow> WorkflowStage list" where
  "path_to attract = []"
| "path_to menu = [menu]"
| "path_to cart_review = [menu, cart_review]"
| "path_to payment_auth = [menu, cart_review, payment_auth]"
| "path_to receipt = [menu, cart_review, payment_auth, receipt]"

lemmas session_defs = startSession_def endSession_def goToStage_def recordInteraction_session_def
  setLaneMode_def setNetworkStatus_def armSilentAssist_def setGhostCartTransferred_def

lemma session_trace_snoc:
  "session_trace DEV (ps @ [p]) s =
   session_trace DEV ps s @ [sessStage (run_session_op DEV p (fold (run_session_op DEV) ps s))]"
  by (induction ps arbitrary: s) simp_all

lemma path_to_step:
  "subseq (path_to (sessStage (run_session_op DEV p s))) (path_to (sessStage s) @ [sessStage (run_session_op DEV p s)])"
proof (cases p)
  case (GoToStage t now)
  then show ?thesis by (cases "sessStage s"; cases t) (simp_all add: session_defs)
qed (cases "sessStage s"; simp add: session_defs Let_def)+

lemma path_to_trace:
  assumes "sessStage s = attract"
  shows "subseq (path_to (sessStage (fold (run_session_op DEV) ps s))) (session_trace DEV ps s)"
proof (induction ps rule: rev_induct)
  case (snoc p ps)
  let ?s = "fold (run_session_op DEV) ps s"
  from snoc have "subseq (path_to (sessStage ?s) @ [sessStage (run_session_op DEV p ?s)])
      (session_trace DEV (ps @ [p]) s)"
    unfolding session_trace_snoc by (rule list_emb_append_mono) simp
  with path_to_step [of DEV p ?s] show ?case by (simp add: subseq_order.trans)
qed (simp add: assms)

section \<open>Properties\<close>

definition sample_cart_line :: CartLineItem where
  "sample_cart_line =
     \<lparr>lineId = '''', menuItemId = ''m1'', nameSnapshot = ''Tea'', unitPriceCentsSnapshot = 250,
      quantity = 2, modifiers = [], lineNotes = None, weightGrams = None, addedAtMs = 0\<rparr>"

definition sample_cart :: CartState where
  "sample_cart = initial_cart ''c1'' ''s1'' None 0 0"

text \<open>
  C8. The cart proxy implements a finite map from line identifiers to lines. After any sequence of
  additions, quantity updates and removals with fresh identifiers, every identifier maps to what
  the same sequence of map updates leaves there (a quantity of zero or less removes the line, an
  unknown identifier changes nothing); identifiers stay distinct, and quantities positive when
  only positive ones are added. The version counts the changes: it never falls, and when it is
  the same the whole cart is the same, so that no change goes unnoticed.
\<close>

theorem cart_refines_map:
  assumes "cart_invar c" and "ids_fresh ps c"
  shows "cart_map (fold run_cart_op ps c) = fold spec_cart_op ps (cart_map c) \<and>
    cart_invar (fold run_cart_op ps c) \<and>
    (positive_lines c \<and> list_all adds_positive ps \<longrightarrow> positive_lines (fold run_cart_op ps c)) \<and>
    version c \<le> version (fold run_cart_op ps c) \<and>
    (version (fold run_cart_op ps c) = version c \<longrightarrow> fold run_cart_op ps c = c)"
  using run_cart_ops_refine [OF assms] run_cart_ops_version [of c ps] run_cart_ops_positive [of c ps]
  by blast

theorem cart_refines_map_witness:
  "version sample_cart \<le> version (fold run_cart_op
     [AddLine ''l1'' 5 5 sample_cart_line, SetQuantity 6 ''l1'' 3, RemoveLine 7 ''l1''] sample_cart) \<and>
   cart_map (fold run_cart_op
     [AddLine ''l1'' 5 5 sample_cart_line, SetQuantity 6 ''l1'' 3, RemoveLine 7 ''l1''] sample_cart) ''l1'' = None"
proof -
  let ?ps = "[AddLine ''l1'' 5 5 sample_cart_line, SetQuantity 6 ''l1'' 3, RemoveLine 7 ''l1'']"
  have "cart_invar sample_cart" "ids_fresh ?ps sample_cart"
    by (simp_all add: sample_cart_def initial_cart_def cart_invar_def fresh_line_def)
  from cart_refines_map [OF this] show ?thesis by simp
qed

text \<open>
  The derived cart agrees with the lines: in a cart with positive quantities the item count is
  the sum of the quantities, at least the number of lines, and it is zero exactly when the cart is
  flagged empty. After \<open>resetCart\<close> it is empty again, under the new cart and session identifiers
  and with version zero, whatever it held.
\<close>

theorem derived_cart_agrees:
  assumes "positive_lines c"
  shows "itemCount (derive_cart c) = (\<Sum>l\<leftarrow>lines c. quantity l) \<and>
    int (length (lines c)) \<le> itemCount (derive_cart c) \<and>
    (isEmpty (derive_cart c) \<longleftrightarrow> itemCount (derive_cart c) = 0) \<and>
    (let c' = resetCart cid sid t1 t2 kid c in
       isEmpty (derive_cart c') \<and> itemCount (derive_cart c') = 0 \<and> cart_invar c' \<and> version c' = 0 \<and>
       cartId c' = cid \<and> sessionId c' = sid \<and> kioskId c' = kid)"
proof -
  have "int (length (lines c)) \<le> (\<Sum>l\<leftarrow>lines c. quantity l)"
    using assms by (intro positive_count) (simp add: positive_lines_def)
  then show ?thesis
    by (auto simp: derive_cart_def foldl_quantities resetCart_def cart_invar_def Let_def)
qed

theorem derived_cart_agrees_witness:
  "isEmpty (derive_cart sample_cart) \<and> itemCount (derive_cart sample_cart) = 0"
  using derived_cart_agrees [of sample_cart]
  by (simp add: sample_cart_def initial_cart_def positive_lines_def derive_cart_def)

text \<open>
  Payment cannot be skipped: whatever operations the micro-frontends call on the session store,
  in development and in production, a store that started in the attract stage and shows the
  receipt has shown the menu, then the cart review, then payment authorization, in this order. An
  illegal transition throws in development and is ignored in production.
\<close>

theorem session_cannot_skip_payment:
  assumes "sessStage s = attract"
  shows "subseq (path_to (sessStage (fold (run_session_op DEV) ps s))) (session_trace DEV ps s) \<and>
    (sessStage (fold (run_session_op DEV) ps s) = receipt \<longrightarrow>
       subseq [menu, cart_review, payment_auth, receipt] (session_trace DEV ps s)) \<and>
    (t \<notin> set (ALLOWED_TRANSITIONS (sessStage s)) \<longrightarrow>
       goToStage False t now s = Inr s \<and> (\<exists>e. goToStage True t now s = Inl e))"
proof -
  have path: "subseq (path_to (sessStage (fold (run_session_op DEV) ps s))) (session_trace DEV ps s)"
    by (rule path_to_trace [OF assms])
  then have "sessStage (fold (run_session_op DEV) ps s) = receipt \<longrightarrow>
       subseq [menu, cart_review, payment_auth, receipt] (session_trace DEV ps s)"
    by auto
  with path show ?thesis by (simp add: goToStage_def)
qed

theorem session_cannot_skip_payment_witness:
  "sessStage (fold (run_session_op False) [GoToStage receipt 1] (initial_session 0)) = attract \<and>
   goToStage False receipt 1 (initial_session 0) = Inr (initial_session 0)"
  using session_cannot_skip_payment [where s = "initial_session 0" and DEV = False and ps = "[]"
      and t = receipt and now = 1]
  by (simp add: initial_session_def goToStage_def)

text \<open>
  Silent assist arms only after 45 seconds without interaction on the menu or the cart, and any
  interaction or stage change disarms it; a failed health poll zeroes the peers and the leader flag
  but keeps the browser's online state and the last known lag, so a kiosk that lost the mesh is not
  reported offline.
\<close>

theorem silent_assist_and_network:
  "(silentAssistArmed (silent_assist_tick st now s) \<longleftrightarrow>
      silentAssistArmed s \<or> st \<in> {''MENU'', ''CART''} \<and> now - lastInteraction s > 45000) \<and>
   \<not> silentAssistArmed (recordInteraction_session now s) \<and>
   \<not> silentAssistArmed (silent_assist_tick st (now + 45000) (recordInteraction_session now s)) \<and>
   network (pollMeshHealth None s) = (network s)\<lparr>meshPeerCount := 0, isLeader := False\<rparr> \<and>
   online (network (pollMeshHealth res s)) = online (network s) \<and>
   network (updateOnlineState b s) = (network s)\<lparr>online := b\<rparr>"
  by (auto simp: silent_assist_tick_def ELIGIBLE_STAGES_def SILENT_ASSIST_STALL_MS_def session_defs
      pollMeshHealth_def updateOnlineState_def Let_def split: option.splits bool.splits)

end
