(* ===== verification/ApiCart.thy ===== *)
theory ApiCart
  imports KioskTypes
begin

text \<open>
  The resilient cart client of \<open>packages/kiosk-state/src/apiCart.ts\<close>. The remote API is a
  parameter: a record of calls, each of which maps the state of the outside world to an outcome,
  the time it took and the next state. \<open>withTimeout\<close> bounds a call, \<open>execute\<close> is the retry loop
  with cart re-creation. When a call times out, its effects on the world still happen.
\<close>

section \<open>The API client's interface\<close>

type_synonym ('w, 'a) call = "'w \<Rightarrow> (thrown + 'a) \<times> ms \<times> 'w"

text \<open>A line of a response; its modifiers are untyped records.\<close>

record ResponseLine =
  rLineId :: string
  rMenuItemId :: string
  rNameSnapshot :: string
  rUnitPriceCentsSnapshot :: cents
  rQuantity :: int
  rModifiers :: "jsval list"
  rAddedAtMs :: ms

record CartResponse =
  respCartId :: string
  respStoreId :: string
  respKioskId :: string
  respSessionId :: string
  respLines :: "ResponseLine list"
  respTotals :: CartTotals
  respVersion :: int
  respExpiresAt :: string

record CartLineInput =
  inLineId :: "string option"
  inMenuItemId :: string
  inNameSnapshot :: string
  inUnitPriceCentsSnapshot :: cents
  inQuantity :: int
  inModifiers :: "ModifierSelection list"
  inNotes :: "string option"
  inWeightGrams :: "int option"

record CheckoutIntent =
  checkoutId :: string
  paymentIntentId :: string

record 'w ApiClient =
  cl_createCart :: "string \<Rightarrow> string \<Rightarrow> string \<Rightarrow> ('w, CartResponse) call"
  cl_addItemToCart :: "string \<Rightarrow> CartLineInput \<Rightarrow> ('w, CartResponse) call"
  cl_getCart :: "string \<Rightarrow> ('w, CartResponse) call"
  cl_checkoutCart :: "string \<Rightarrow> PaymentMethod \<Rightarrow> ('w, CheckoutIntent) call"

section \<open>Timeouts and error classes\<close>

definition READ_TIMEOUT_MS :: ms where "READ_TIMEOUT_MS = 16000"
definition MUTATE_TIMEOUT_MS :: ms where "MUTATE_TIMEOUT_MS = 22000"
definition CREATE_TIMEOUT_MS :: ms where "CREATE_TIMEOUT_MS = 22000"
definition CHECKOUT_TIMEOUT_MS :: ms where "CHECKOUT_TIMEOUT_MS = 35000"
definition MAX_ATTEMPTS :: nat where "MAX_ATTEMPTS = 3"
definition BASE_BACKOFF_MS :: ms where "BASE_BACKOFF_MS = 400"
definition MAX_BACKOFF_MS :: ms where "MAX_BACKOFF_MS = 4000"

definition timeout_error :: "string \<Rightarrow> ms \<Rightarrow> thrown" where
  "timeout_error lbl ms =
     ThrownError ((mk_error (''ApiCart: '' @ lbl @ '' timed out after '' @ int_digits ms @ ''ms''))
       \<lparr>errKind := TimeoutErr\<rparr>)"

definition withTimeout :: "('w, 'a) call \<Rightarrow> ms \<Rightarrow> string \<Rightarrow> ('w, 'a) call" where
  "withTimeout promise ms lbl w =
     (case promise w of
        (r, d, w') \<Rightarrow>
          if d < ms then (case r of Inr v \<Rightarrow> Inr v | Inl e \<Rightarrow> Inl (ThrownError (as_error e)), d, w')
          else (Inl (timeout_error lbl ms), ms, w'))"

fun statusOf :: "thrown \<Rightarrow> int option" where
  "statusOf (ThrownError e) = errStatus e"
| "statusOf (ThrownOther _) = None"

fun isRetryableNetworkError :: "thrown \<Rightarrow> bool" where
  "isRetryableNetworkError (ThrownError e) =
     (errKind e = TypeErr \<or>
      (case errCode e of
         None \<Rightarrow> False
       | Some c \<Rightarrow> c \<in> {''ECONNRESET'', ''ETIMEDOUT'', ''ENOTFOUND'', ''ECONNREFUSED''}))"
| "isRetryableNetworkError (ThrownOther _) = False"

fun is_TimeoutError :: "thrown \<Rightarrow> bool" where
  "is_TimeoutError (ThrownError e) = (errKind e = TimeoutErr)"
| "is_TimeoutError (ThrownOther _) = False"

definition shouldRetry :: "thrown \<Rightarrow> int option \<Rightarrow> bool" where
  "shouldRetry error stat =
     (case stat of
        Some st \<Rightarrow> if st \<ge> 500 then True else st = 429 \<or> st = 404 \<or> st = 409
      | None \<Rightarrow> isRetryableNetworkError error \<or> is_TimeoutError error)"

definition backoff :: "nat \<Rightarrow> ms" where
  "backoff attempt = min (BASE_BACKOFF_MS * 2 ^ attempt) MAX_BACKOFF_MS"

section \<open>The cart client\<close>

record ApiCart =
  acCartId :: string
  acKioskId :: string
  acSessionId :: string
  acStoreId :: string

definition new_ApiCart :: "string \<Rightarrow> string \<Rightarrow> string \<Rightarrow> string \<Rightarrow> ApiCart" where
  "new_ApiCart kid sid newCart newSession =
     \<lparr>acCartId = newCart, acKioskId = kid, acSessionId = newSession, acStoreId = sid\<rparr>"

definition createLocalCart :: "ms \<Rightarrow> ApiCart \<Rightarrow> CartState" where
  "createLocalCart now a =
     \<lparr>cartId = acCartId a, kioskId = acKioskId a, sessionId = acSessionId a,
      storeId = Some (acStoreId a), lines = [], version = 0, currency = ''USD'', createdAtMs = now,
      updatedAtMs = now\<rparr>"

text \<open>
  The casts of \<open>responseToCartState\<close> take the value as it is. A property that is missing, which
  JavaScript reads as \<open>undefined\<close>, is read here as the empty string or zero.
\<close>

definition num_of :: "jsval \<Rightarrow> int" where
  "num_of v = (case v of JNum q \<Rightarrow> \<lfloor>q\<rfloor> | _ \<Rightarrow> 0)"

definition response_modifier :: "jsval \<Rightarrow> ModifierSelection" where
  "response_modifier md =
     \<lparr>modifierId = str_of (getProp md ''modifierId''), optionId = str_of (getProp md ''optionId''),
      priceDeltaCents = num_of (getProp md ''priceDeltaCents'')\<rparr>"

definition response_line :: "ResponseLine \<Rightarrow> CartLineItem" where
  "response_line l =
     \<lparr>lineId = rLineId l, menuItemId = rMenuItemId l, nameSnapshot = rNameSnapshot l,
      unitPriceCentsSnapshot = rUnitPriceCentsSnapshot l, quantity = rQuantity l,
      modifiers = map response_modifier (rModifiers l), lineNotes = None, weightGrams = None,
      addedAtMs = rAddedAtMs l\<rparr>"

text \<open>\<open>getTime\<close> is \<open>new Date(s).getTime()\<close>.\<close>

definition responseToCartState :: "(string \<Rightarrow> ms) \<Rightarrow> CartResponse \<Rightarrow> CartState" where
  "responseToCartState getTime r =
     \<lparr>cartId = respCartId r, kioskId = respKioskId r, sessionId = respSessionId r,
      storeId = Some (respStoreId r), lines = map response_line (respLines r),
      version = respVersion r, currency = ''USD'', createdAtMs = getTime (respExpiresAt r),
      updatedAtMs = getTime (respExpiresAt r)\<rparr>"

text \<open>
  What the methods need besides the client: the parser of timestamps and the clock reading of a
  local cart.
\<close>

record 'w cart_env =
  client :: "'w ApiClient option"
  getTime :: "string \<Rightarrow> ms"
  localNow :: ms

definition createCart :: "'w cart_env \<Rightarrow> ApiCart \<Rightarrow> 'w \<Rightarrow> CartState \<times> ms \<times> ApiCart \<times> 'w" where
  "createCart env a w =
     (case client env of
        None \<Rightarrow> (createLocalCart (localNow env) a, 0, a, w)
      | Some cl \<Rightarrow>
          (case withTimeout (cl_createCart cl (acStoreId a) (acKioskId a) (acSessionId a))
                  CREATE_TIMEOUT_MS ''createCart'' w of
             (Inr resp, d, w') \<Rightarrow>
               (responseToCartState (getTime env) resp, d, a\<lparr>acCartId := respCartId resp\<rparr>, w')
           | (Inl _, d, w') \<Rightarrow> (createLocalCart (localNow env) a, d, a, w')))"

definition recreateCart :: "'w cart_env \<Rightarrow> ApiCart \<Rightarrow> 'w \<Rightarrow> ms \<times> ApiCart \<times> 'w" where
  "recreateCart env a w =
     (case createCart env a w of
        (st, d, a', w') \<Rightarrow>
          (d, a'\<lparr>acCartId := CartState.cartId st, acSessionId := CartState.sessionId st\<rparr>, w'))"

definition reset :: "string \<Rightarrow> string \<Rightarrow> ApiCart \<Rightarrow> ApiCart" where
  "reset newCart newSession a = a\<lparr>acCartId := newCart, acSessionId := newSession\<rparr>"

section \<open>The retry loop\<close>

record opts =
  timeoutMs :: ms
  opLabel :: string
  recreateOnMissing :: bool

function execute_from ::
  "nat \<Rightarrow> thrown \<Rightarrow> 'w cart_env \<Rightarrow> (ApiCart \<Rightarrow> ('w, 'a) call) \<Rightarrow> opts \<Rightarrow> ApiCart \<Rightarrow> 'w \<Rightarrow>
   (thrown + 'a) \<times> ms \<times> ApiCart \<times> 'w" where
  "execute_from attempt lastError env op o' a w =
     (if attempt < MAX_ATTEMPTS then
        (case withTimeout (op a) (timeoutMs o') (opLabel o') w of
           (Inr v, d, w') \<Rightarrow> (Inr v, d, a, w')
         | (Inl e, d, w') \<Rightarrow>
             let stat = statusOf e in
             if recreateOnMissing o' \<and> (stat = Some 404 \<or> stat = Some 409) \<and> attempt < MAX_ATTEMPTS - 1
             then
               (case recreateCart env a w' of
                  (d2, a2, w2) \<Rightarrow>
                    (case execute_from (attempt + 1) e env op o' a2 w2 of
                       (r, d3, a3, w3) \<Rightarrow> (r, d + d2 + d3, a3, w3)))
             else if \<not> shouldRetry e stat \<or> attempt = MAX_ATTEMPTS - 1 then (Inl e, d, a, w')
             else
               (case execute_from (attempt + 1) e env op o' a w' of
                  (r, d3, a3, w3) \<Rightarrow> (r, d + backoff attempt + d3, a3, w3)))
      else (Inl lastError, 0, a, w))"
  by pat_completeness auto
termination by (relation "measure (\<lambda>(n, _). MAX_ATTEMPTS - n)") auto

declare execute_from.simps [simp del]

text \<open>\<open>let lastError: unknown\<close> starts undefined.\<close>

definition execute ::
  "'w cart_env \<Rightarrow> (ApiCart \<Rightarrow> ('w, 'a) call) \<Rightarrow> opts \<Rightarrow> ApiCart \<Rightarrow> 'w \<Rightarrow> (thrown + 'a) \<times> ms \<times> ApiCart \<times> 'w" where
  "execute env op o' a w = execute_from 0 (ThrownOther ''undefined'') env op o' a w"

section \<open>Operations\<close>

definition no_client :: "('w, 'a) call" where
  "no_client w = (Inl (new_Error ''API client not initialized''), 0, w)"

definition then_call :: "('w, 'a) call \<Rightarrow> ('a \<Rightarrow> ('w, 'b) call) \<Rightarrow> ('w, 'b) call" where
  "then_call c k w =
     (case c w of
        (Inl e, d, w') \<Rightarrow> (Inl e, d, w')
      | (Inr v, d, w') \<Rightarrow> (case k v w' of (r, d2, w2) \<Rightarrow> (r, d + d2, w2)))"

definition return_call :: "'a \<Rightarrow> ('w, 'a) call" where
  "return_call v w = (Inr v, 0, w)"

definition with_client :: "'w cart_env \<Rightarrow> ('w ApiClient \<Rightarrow> ('w, 'a) call) \<Rightarrow> ('w, 'a) call" where
  "with_client env k = (case client env of None \<Rightarrow> no_client | Some cl \<Rightarrow> k cl)"

definition addItem :: "'w cart_env \<Rightarrow> CartLineInput \<Rightarrow> ApiCart \<Rightarrow> 'w \<Rightarrow> (thrown + CartState) \<times> ms \<times> ApiCart \<times> 'w" where
  "addItem env line =
     execute env
       (\<lambda>a. with_client env (\<lambda>cl.
          then_call (cl_addItemToCart cl (acCartId a) line)
            (\<lambda>r. return_call (responseToCartState (getTime env) r))))
       \<lparr>timeoutMs = MUTATE_TIMEOUT_MS, opLabel = ''addItem'', recreateOnMissing = True\<rparr>"

text \<open>The loop over the lines: one \<open>addItemToCart\<close> each, without notes and weight.\<close>

fun add_lines :: "'w ApiClient \<Rightarrow> string \<Rightarrow> CartLineInput list \<Rightarrow> ('w, unit) call" where
  "add_lines cl cid [] = return_call ()"
| "add_lines cl cid (l # ls) =
     then_call (cl_addItemToCart cl cid (l\<lparr>inLineId := None, inNotes := None, inWeightGrams := None\<rparr>))
       (\<lambda>_. add_lines cl cid ls)"

definition updateCart :: "'w cart_env \<Rightarrow> CartLineInput list \<Rightarrow> ApiCart \<Rightarrow> 'w \<Rightarrow> (thrown + CartState) \<times> ms \<times> ApiCart \<times> 'w" where
  "updateCart env ls =
     execute env
       (\<lambda>a. with_client env (\<lambda>cl.
          then_call (add_lines cl (acCartId a) ls)
            (\<lambda>_. then_call (cl_getCart cl (acCartId a))
               (\<lambda>r. return_call (responseToCartState (getTime env) r)))))
       \<lparr>timeoutMs = MUTATE_TIMEOUT_MS, opLabel = ''updateCart'', recreateOnMissing = True\<rparr>"

definition getCart :: "'w cart_env \<Rightarrow> ApiCart \<Rightarrow> 'w \<Rightarrow> (thrown + CartState) \<times> ms \<times> ApiCart \<times> 'w" where
  "getCart env =
     execute env
       (\<lambda>a. with_client env (\<lambda>cl.
          then_call (cl_getCart cl (acCartId a))
            (\<lambda>r. return_call (responseToCartState (getTime env) r))))
       \<lparr>timeoutMs = READ_TIMEOUT_MS, opLabel = ''getCart'', recreateOnMissing = True\<rparr>"

definition checkout :: "'w cart_env \<Rightarrow> PaymentMethod \<Rightarrow> ApiCart \<Rightarrow> 'w \<Rightarrow> (thrown + CheckoutIntent) \<times> ms \<times> ApiCart \<times> 'w" where
  "checkout env pm =
     execute env
       (\<lambda>a. with_client env (\<lambda>cl. cl_checkoutCart cl (acCartId a) pm))
       \<lparr>timeoutMs = CHECKOUT_TIMEOUT_MS, opLabel = ''checkout'', recreateOnMissing = False\<rparr>"

section \<open>Laws of the loop\<close>

lemma withTimeout_bound: "withTimeout c ms lbl w = (r, d, w') \<Longrightarrow> d \<le> ms"
  by (auto simp: withTimeout_def split: prod.splits if_splits)

lemma withTimeout_error: "withTimeout c ms lbl w = (Inl e, d, w') \<Longrightarrow> \<exists>err. e = ThrownError err"
  by (auto simp: withTimeout_def timeout_error_def split: prod.splits if_splits sum.splits)

lemma createCart_bound: "createCart env a w = (st, d, a', w') \<Longrightarrow> d \<le> CREATE_TIMEOUT_MS"
  by (auto simp: createCart_def CREATE_TIMEOUT_MS_def dest!: withTimeout_bound
      split: option.splits prod.splits sum.splits)

lemma recreateCart_bound: "recreateCart env a w = (d, a', w') \<Longrightarrow> d \<le> CREATE_TIMEOUT_MS"
  by (auto simp: recreateCart_def dest: createCart_bound split: prod.splits)

lemma backoff_bound: "backoff n \<le> MAX_BACKOFF_MS"
  by (simp add: backoff_def)

text \<open>When the loop recreates the cart, and when it gives up.\<close>

definition recreates :: "opts \<Rightarrow> nat \<Rightarrow> thrown \<Rightarrow> bool" where
  "recreates o' n e \<longleftrightarrow>
     recreateOnMissing o' \<and> (statusOf e = Some 404 \<or> statusOf e = Some 409) \<and> n < MAX_ATTEMPTS - 1"

definition gives_up :: "nat \<Rightarrow> thrown \<Rightarrow> bool" where
  "gives_up n e \<longleftrightarrow> \<not> shouldRetry e (statusOf e) \<or> n = MAX_ATTEMPTS - 1"

lemma execute_from_elim [consumes 2, case_names ok recreate stop again]:
  assumes "execute_from n e0 env op o' a w = (r, d, a', w')" and "n < MAX_ATTEMPTS"
  obtains v where "withTimeout (op a) (timeoutMs o') (opLabel o') w = (Inr v, d, w')" "r = Inr v" "a' = a"
  | e d1 w1 d2 a2 w2 d3 where "withTimeout (op a) (timeoutMs o') (opLabel o') w = (Inl e, d1, w1)"
      "recreates o' n e" "recreateCart env a w1 = (d2, a2, w2)"
      "execute_from (n + 1) e env op o' a2 w2 = (r, d3, a', w')" "d = d1 + d2 + d3"
  | e where "withTimeout (op a) (timeoutMs o') (opLabel o') w = (Inl e, d, w')" "\<not> recreates o' n e"
      "gives_up n e" "r = Inl e" "a' = a"
  | e d1 w1 d3 where "withTimeout (op a) (timeoutMs o') (opLabel o') w = (Inl e, d1, w1)"
      "\<not> recreates o' n e" "\<not> gives_up n e"
      "execute_from (n + 1) e env op o' a w1 = (r, d3, a', w')" "d = d1 + backoff n + d3"
proof -
  obtain r1 d1 w1 where run: "withTimeout (op a) (timeoutMs o') (opLabel o') w = (r1, d1, w1)"
    by (metis prod_cases3)
  show thesis
  proof (cases r1)
    case (Inr v)
    have "execute_from n e0 env op o' a w = (Inr v, d1, a, w1)"
      using assms(2) run Inr by (subst execute_from.simps) simp
    with assms(1) have eq: "r = Inr v" "d = d1" "a' = a" "w' = w1" by simp_all
    show ?thesis by (rule that(1) [of v]) (use run Inr eq in simp_all)
  next
    case (Inl e)
    obtain d2 a2 w2 where rc: "recreateCart env a w1 = (d2, a2, w2)" by (metis prod_cases3)
    obtain r3 d3 a3 w3 where n1: "execute_from (n + 1) e env op o' a2 w2 = (r3, d3, a3, w3)"
      by (metis prod_cases4)
    obtain r4 d4 a4 w4 where n2: "execute_from (n + 1) e env op o' a w1 = (r4, d4, a4, w4)"
      by (metis prod_cases4)
    have "execute_from n e0 env op o' a w =
        (if recreates o' n e then (r3, d1 + d2 + d3, a3, w3)
         else if gives_up n e then (Inl e, d1, a, w1) else (r4, d1 + backoff n + d4, a4, w4))"
      using assms(2) run Inl rc n1 n2
      by (subst execute_from.simps) (simp add: recreates_def gives_up_def Let_def, blast)
    with assms(1) have eq: "(r, d, a', w') =
        (if recreates o' n e then (r3, d1 + d2 + d3, a3, w3)
         else if gives_up n e then (Inl e, d1, a, w1) else (r4, d1 + backoff n + d4, a4, w4))"
      by simp
    show ?thesis
    proof (cases "recreates o' n e")
      case True
      with eq have e2: "r = r3" "d = d1 + d2 + d3" "a' = a3" "w' = w3" by simp_all
      show ?thesis by (rule that(2) [OF _ True rc]) (use run Inl n1 e2 in simp_all)
    next
      case False
      show ?thesis
      proof (cases "gives_up n e")
        case True
        with False eq have e3: "r = Inl e" "d = d1" "a' = a" "w' = w1" by simp_all
        show ?thesis by (rule that(3) [OF _ False True]) (use run Inl e3 in simp_all)
      next
        case up: False
        with False eq have e4: "r = r4" "d = d1 + backoff n + d4" "a' = a4" "w' = w4" by simp_all
        show ?thesis by (rule that(4) [OF _ False up]) (use run Inl n2 e4 in simp_all)
      qed
    qed
  qed
qed

lemma execute_from_bound:
  assumes "execute_from n e0 env op o' a w = (r, d, a', w')" and "0 \<le> timeoutMs o'" and "n < MAX_ATTEMPTS"
    and "MAX_ATTEMPTS - n = Suc k"
  shows "d \<le> timeoutMs o' + int k * (timeoutMs o' + CREATE_TIMEOUT_MS)"
  using assms
proof (induction k arbitrary: n e0 a w d)
  case (0 n)
  then have last: "n = MAX_ATTEMPTS - 1" by simp
  from 0(1,3) show ?case
  proof (cases rule: execute_from_elim)
    case (again e)
    with last show ?thesis by (simp add: gives_up_def)
  qed (use 0 last in \<open>auto dest: withTimeout_bound simp: recreates_def\<close>)
next
  case (Suc k n)
  have c: "0 \<le> CREATE_TIMEOUT_MS" by (simp add: CREATE_TIMEOUT_MS_def)
  have pos: "0 \<le> int k * (timeoutMs o' + CREATE_TIMEOUT_MS)" using Suc.prems(2) c by simp
  have Sk: "int (Suc k) * (timeoutMs o' + CREATE_TIMEOUT_MS) =
      timeoutMs o' + CREATE_TIMEOUT_MS + int k * (timeoutMs o' + CREATE_TIMEOUT_MS)"
    by (simp add: distrib_right)
  have IH: "execute_from (n + 1) e env op o' a2 w2 = (r, d3, a', w') \<Longrightarrow>
      d3 \<le> timeoutMs o' + int k * (timeoutMs o' + CREATE_TIMEOUT_MS)" for e a2 w2 d3
    using Suc.prems by (intro Suc.IH [of "n + 1"]) auto
  from Suc.prems(1,3) show ?case
  proof (cases rule: execute_from_elim)
    case (ok v)
    from withTimeout_bound [OF ok(1)] pos c Suc.prems(2) show ?thesis unfolding Sk by linarith
  next
    case (recreate e d1 w1 d2 a2 w2 d3)
    from withTimeout_bound [OF recreate(1)] recreateCart_bound [OF recreate(3)] IH [OF recreate(4)] recreate(5)
    show ?thesis unfolding Sk by linarith
  next
    case (stop e)
    from withTimeout_bound [OF stop(1)] pos c Suc.prems(2) show ?thesis unfolding Sk by linarith
  next
    case (again e d1 w1 d3)
    have "backoff n \<le> CREATE_TIMEOUT_MS"
      using backoff_bound [of n] by (simp add: MAX_BACKOFF_MS_def CREATE_TIMEOUT_MS_def)
    with withTimeout_bound [OF again(1)] IH [OF again(4)] again(5)
    show ?thesis unfolding Sk by linarith
  qed
qed

lemma withTimeout_world: "withTimeout c ms lbl w = (r, d, w') \<Longrightarrow> \<exists>r0 d0. c w = (r0, d0, w')"
  by (auto simp: withTimeout_def split: prod.splits if_splits)

lemma execute_from_calls:
  assumes "execute_from n e0 env op o' a w = (r, d, a', w')" and "n < MAX_ATTEMPTS"
    and "\<And>a w r d w'. op a w = (r, d, w') \<Longrightarrow> f w' \<le> f w + (1::nat)"
    and "\<And>a w d a' w'. recreateCart env a w = (d, a', w') \<Longrightarrow> f w' \<le> f w"
    and "MAX_ATTEMPTS - n = k"
  shows "f w' \<le> f w + k"
  using assms(1,2,5)
proof (induction k arbitrary: n e0 a w d)
  case (Suc k n)
  have run: "f w1 \<le> f w + 1"
    if wt: "withTimeout (op a) (timeoutMs o') (opLabel o') w = (r1, d1, w1)" for a w r1 d1 w1
  proof -
    obtain r0 d0 where "op a w = (r0, d0, w1)" using withTimeout_world [OF wt] by blast
    then show ?thesis by (rule assms(3))
  qed
  have IH: "execute_from (n + 1) e env op o' a2 w2 = (r, d3, a', w') \<Longrightarrow> f w' \<le> f w2 + k" for e a2 w2 d3
  proof (cases "n + 1 < MAX_ATTEMPTS")
    case True
    moreover assume "execute_from (n + 1) e env op o' a2 w2 = (r, d3, a', w')"
    ultimately show ?thesis using Suc.prems by (intro Suc.IH [of "n + 1"]) auto
  next
    case False
    moreover assume "execute_from (n + 1) e env op o' a2 w2 = (r, d3, a', w')"
    ultimately show ?thesis by (subst (asm) execute_from.simps) simp
  qed
  from Suc.prems(1,2) show ?case
  proof (cases rule: execute_from_elim)
    case (recreate e d1 w1 d2 a2 w2 d3)
    from run [OF recreate(1)] assms(4) [OF recreate(3)] IH [OF recreate(4)] show ?thesis by simp
  next
    case (again e d1 w1 d3)
    from run [OF again(1)] IH [OF again(4)] show ?thesis by simp
  qed (use run in fastforce)+
qed simp

section \<open>What the loop returns\<close>

text \<open>Before an attempt: the identity of the cart and the outside world. An attempt's result, its time and the world after it.\<close>

definition attempt :: "(ApiCart \<Rightarrow> ('w, 'a) call) \<Rightarrow> opts \<Rightarrow> ApiCart \<times> 'w \<Rightarrow> (thrown + 'a) \<times> ms \<times> 'w" where
  "attempt op o' s = withTimeout (op (fst s)) (timeoutMs o') (opLabel o') (snd s)"

text \<open>
  The failures after which another attempt is made: a status of at least 500, or 404, 409 or 429; without a status a network error
  or a timeout of the wrapper.
\<close>

definition retried :: "thrown + 'a \<Rightarrow> bool" where
  "retried r =
     (case r of
        Inl (ThrownError e) \<Rightarrow>
          (case errStatus e of
             Some st \<Rightarrow> 500 \<le> st \<or> st \<in> {404, 409, 429}
           | None \<Rightarrow> errKind e \<in> {TypeErr, TimeoutErr} \<or>
               errCode e \<in> {Some ''ECONNRESET'', Some ''ETIMEDOUT'', Some ''ENOTFOUND'', Some ''ECONNREFUSED''})
      | _ \<Rightarrow> False)"

text \<open>
  Between two attempts: after 404 or 409, if the operation asks for it, a new cart is asked for, and its identity
  replaces the old one if the server creates it; otherwise a pause that doubles.
\<close>

definition replaced :: "'w cart_env \<Rightarrow> ApiCart \<Rightarrow> 'w \<Rightarrow> ms \<times> ApiCart \<times> 'w" where
  "replaced env a w =
     (case client env of
        None \<Rightarrow> (0, a, w)
      | Some cl \<Rightarrow>
          (case withTimeout (cl_createCart cl (acStoreId a) (acKioskId a) (acSessionId a)) 22000 ''createCart'' w of
             (Inr resp, d, w') \<Rightarrow> (d, a\<lparr>acCartId := respCartId resp, acSessionId := respSessionId resp\<rparr>, w')
           | (Inl _, d, w') \<Rightarrow> (d, a, w')))"

definition between :: "'w cart_env \<Rightarrow> opts \<Rightarrow> nat \<Rightarrow> thrown + 'a \<Rightarrow> ApiCart \<Rightarrow> 'w \<Rightarrow> ms \<times> ApiCart \<times> 'w" where
  "between env o' n r a w =
     (if recreateOnMissing o' \<and> (case r of Inl e \<Rightarrow> statusOf e \<in> {Some 404, Some 409} | Inr _ \<Rightarrow> False)
      then replaced env a w else (min (400 * 2 ^ n) 4000, a, w))"

text \<open>The state before attempt \<open>n\<close> and the time spent until then, when every earlier attempt is followed by another.\<close>

primrec attempt_state ::
  "'w cart_env \<Rightarrow> (ApiCart \<Rightarrow> ('w, 'a) call) \<Rightarrow> opts \<Rightarrow> ApiCart \<Rightarrow> 'w \<Rightarrow> nat \<Rightarrow> ms \<times> ApiCart \<times> 'w" where
  "attempt_state env op o' a w 0 = (0, a, w)"
| "attempt_state env op o' a w (Suc n) =
     (case attempt_state env op o' a w n of
        (t, a1, w1) \<Rightarrow>
          (case attempt op o' (a1, w1) of
             (r, d, w2) \<Rightarrow> (case between env o' n r a1 w2 of (p, a3, w3) \<Rightarrow> (t + d + p, a3, w3))))"

definition attempt_outcome ::
  "'w cart_env \<Rightarrow> (ApiCart \<Rightarrow> ('w, 'a) call) \<Rightarrow> opts \<Rightarrow> ApiCart \<Rightarrow> 'w \<Rightarrow> nat \<Rightarrow> thrown + 'a" where
  "attempt_outcome env op o' a w n = fst (attempt op o' (snd (attempt_state env op o' a w n)))"

definition last_attempt :: "'w cart_env \<Rightarrow> (ApiCart \<Rightarrow> ('w, 'a) call) \<Rightarrow> opts \<Rightarrow> ApiCart \<Rightarrow> 'w \<Rightarrow> nat" where
  "last_attempt env op o' a w =
     (if \<not> retried (attempt_outcome env op o' a w 0) then 0
      else if \<not> retried (attempt_outcome env op o' a w 1) then 1 else 2)"

lemma recreateCart_replaced: "recreateCart env a w = replaced env a w"
  by (auto simp: recreateCart_def replaced_def createCart_def createLocalCart_def responseToCartState_def CREATE_TIMEOUT_MS_def
      split: option.split prod.split sum.split)

lemma retried_shouldRetry: "retried (Inl e) \<longleftrightarrow> shouldRetry e (statusOf e)"
  by (cases e) (auto simp: retried_def shouldRetry_def split: option.split)

lemma execute_from_step:
  assumes "n < 3"
  shows "execute_from n e0 env op o' a w =
    (case attempt op o' (a, w) of
       (r, d, w1) \<Rightarrow>
         if n < 2 \<and> retried r then
           (case between env o' n r a w1 of
              (p, a2, w2) \<Rightarrow>
                (case execute_from (n + 1) (projl r) env op o' a2 w2 of (r', d', a', w') \<Rightarrow> (r', d + p + d', a', w')))
         else (r, d, a, w1))"
proof -
  obtain r d w1 where run: "withTimeout (op a) (timeoutMs o') (opLabel o') w = (r, d, w1)" by (metis prod_cases3)
  then have at: "attempt op o' (a, w) = (r, d, w1)" by (simp add: attempt_def)
  show ?thesis
  proof (cases r)
    case (Inr v)
    then show ?thesis using assms run at by (subst execute_from.simps) (simp add: MAX_ATTEMPTS_def retried_def)
  next
    case (Inl e)
    have "shouldRetry e (statusOf e)" if "statusOf e = Some 404 \<or> statusOf e = Some 409"
      using that by (auto simp: shouldRetry_def)
    with Inl show ?thesis
      using assms run at
      by (subst execute_from.simps)
        (auto simp: MAX_ATTEMPTS_def retried_shouldRetry between_def recreateCart_replaced backoff_def BASE_BACKOFF_MS_def
          MAX_BACKOFF_MS_def Let_def split: prod.split)
  qed
qed

lemma execute_attempts:
  "execute env op o' a w =
     (let n = last_attempt env op o' a w; s = attempt_state env op o' a w n
      in case attempt op o' (snd s) of (r, d, w') \<Rightarrow> (r, fst s + d, fst (snd s), w'))"
  unfolding execute_def
  by (simp add: execute_from_step last_attempt_def attempt_outcome_def Let_def numeral_2_eq_2 split: prod.split)

section \<open>Properties\<close>

text \<open>
  C17. Every resilient call comes back: whatever the API does, \<open>execute\<close> returns within three times
  the operation's timeout plus two times 22 seconds for cart re-creation or back-off, and it
  starts the operation at most three times (any quantity \<open>f\<close> of the outside world that one run of
  the operation raises by at most one, and re-creation by none, is raised by at most three).
\<close>

theorem execute_bounded:
  assumes "execute env op o' a w = (r, d, a', w')" and "0 \<le> timeoutMs o'"
  shows "d \<le> 3 * timeoutMs o' + 2 * 22000 \<and>
    ((\<forall>a w r d w'. op a w = (r, d, w') \<longrightarrow> f w' \<le> f w + (1::nat)) \<and>
     (\<forall>a w d a' w'. recreateCart env a w = (d, a', w') \<longrightarrow> f w' \<le> f w) \<longrightarrow> f w' \<le> f w + 3)"
proof -
  note run = assms(1) [unfolded execute_def]
  have m: "0 < MAX_ATTEMPTS" "MAX_ATTEMPTS - 0 = Suc 2" "MAX_ATTEMPTS - 0 = 3"
    by (simp_all add: MAX_ATTEMPTS_def)
  from execute_from_bound [OF run assms(2) m(1,2)]
  have "d \<le> 3 * timeoutMs o' + 2 * 22000" by (simp add: CREATE_TIMEOUT_MS_def algebra_simps)
  moreover have "(\<forall>a w r d w'. op a w = (r, d, w') \<longrightarrow> f w' \<le> f w + 1) \<and>
     (\<forall>a w d a' w'. recreateCart env a w = (d, a', w') \<longrightarrow> f w' \<le> f w) \<longrightarrow> f w' \<le> f w + 3"
    using execute_from_calls [OF run m(1) _ _ m(3), of f] by blast
  ultimately show ?thesis by blast
qed

definition offline_env :: "nat cart_env" where
  "offline_env = \<lparr>client = None, getTime = (\<lambda>_. 0), localNow = 0\<rparr>"

definition failing_op :: "ApiCart \<Rightarrow> (nat, unit) call" where
  "failing_op a w = (Inl (ThrownError ((mk_error ''x'')\<lparr>errKind := TypeErr\<rparr>)), 5, w + 1)"

definition sample_opts :: opts where
  "sample_opts = \<lparr>timeoutMs = 100, opLabel = ''t'', recreateOnMissing = True\<rparr>"

definition sample_api_cart :: ApiCart where
  "sample_api_cart = new_ApiCart ''k'' ''s'' ''c0'' ''u0''"

theorem execute_bounded_witness:
  "fst (snd (execute offline_env failing_op sample_opts sample_api_cart 0)) \<le> 3 * 100 + 2 * 22000"
proof -
  obtain r d a' w' where run: "execute offline_env failing_op sample_opts sample_api_cart 0 = (r, d, a', w')"
    by (metis prod_cases4)
  have "0 \<le> timeoutMs sample_opts" by (simp add: sample_opts_def)
  from execute_bounded [OF run this, of "\<lambda>_. 0"] run show ?thesis by (simp add: sample_opts_def)
qed

text \<open>
  C18. The result of the loop, whatever its attempts give. \<open>execute\<close> makes attempts until one succeeds or fails with an error
  that is not retried, three at most. It returns the outcome of the last one as it is, with the world it left and the
  identity of the cart it used, after the sum of the times of the attempts and of what lies between them: after 404 or 409, for an
  operation that asks for it, the creation of a new cart, whose identity the next attempts use and the client keeps if the
  server created it, and otherwise 0.4 and 0.8 seconds.
\<close>

theorem execute_result:
  "\<exists>n t a1 w1 d. attempt_state env op o' a w n = (t, a1, w1) \<and>
     execute env op o' a w = (fst (attempt op o' (a1, w1)), t + d, a1, snd (snd (attempt op o' (a1, w1)))) \<and>
     d = fst (snd (attempt op o' (a1, w1))) \<and> n \<le> 2 \<and>
     (\<forall>j < n. retried (attempt_outcome env op o' a w j)) \<and> (n = 2 \<or> \<not> retried (fst (attempt op o' (a1, w1))))"
proof -
  define n where "n = last_attempt env op o' a w"
  obtain t a1 w1 where s: "attempt_state env op o' a w n = (t, a1, w1)" by (metis prod_cases3)
  have "n = 2 \<or> \<not> retried (attempt_outcome env op o' a w n)" "n \<le> 2"
    "\<forall>j < n. retried (attempt_outcome env op o' a w j)"
    by (auto simp: n_def last_attempt_def less_Suc_eq numeral_2_eq_2)
  moreover have "attempt_outcome env op o' a w n = fst (attempt op o' (a1, w1))" by (simp add: attempt_outcome_def s)
  moreover have "execute env op o' a w =
      (fst (attempt op o' (a1, w1)), t + fst (snd (attempt op o' (a1, w1))), a1, snd (snd (attempt op o' (a1, w1))))"
    by (simp add: execute_attempts n_def [symmetric] s Let_def split: prod.split)
  ultimately show ?thesis using s by auto
qed

text \<open>
  The API client's own timeouts are not retried. The client reports a timeout as an error with
  status code 0, and its timeouts are shorter than those of this wrapper; status 0 is in none of
  the retried classes, so the first such timeout ends the operation.
\<close>

theorem client_timeout_not_retried:
  assumes "op a w = (Inl (ThrownError err), d, w')" and "errStatus err = Some 0" and "d < timeoutMs o'"
  shows "\<exists>d'. execute env op o' a w = (Inl (ThrownError err), d', a, w')"
proof -
  have at: "attempt op o' (a, w) = (Inl (ThrownError err), d, w')" using assms(1,3) by (simp add: attempt_def withTimeout_def)
  moreover have "\<not> retried (fst (attempt op o' (a, w)))" using assms(2) by (simp add: at retried_def)
  ultimately show ?thesis by (simp add: execute_attempts last_attempt_def attempt_outcome_def Let_def)
qed

theorem client_timeout_not_retried_witness:
  "\<exists>d'. execute offline_env
     (\<lambda>_ w. (Inl (ThrownError ((mk_error ''t'')\<lparr>errStatus := Some 0, errCode := Some ''TIMEOUT''\<rparr>)), 20, w + 1) :: (thrown + unit) \<times> ms \<times> nat)
     sample_opts sample_api_cart 0 =
   (Inl (ThrownError ((mk_error ''t'')\<lparr>errStatus := Some 0, errCode := Some ''TIMEOUT''\<rparr>)), d', sample_api_cart, 1)"
  by (rule client_timeout_not_retried [where d = 20]) (simp_all add: mk_error_def sample_opts_def)

text \<open>
  A cart that the server no longer knows is replaced: when an operation with re-creation fails
  with 404 or 409 and the server creates a new cart, the next attempt runs against the new cart's
  identifier, and the client keeps it. With an operation that succeeds there, the whole call
  succeeds. When the server cannot create a cart either, the identifier stays as it was.
\<close>

theorem missing_cart_recreated:
  assumes "client env = Some cl" and "recreateOnMissing o'"
    and "withTimeout (op a) (timeoutMs o') (opLabel o') w = (Inl e, d, w1)"
    and "statusOf e = Some 404 \<or> statusOf e = Some 409"
    and "withTimeout (cl_createCart cl (acStoreId a) (acKioskId a) (acSessionId a)) 22000 ''createCart'' w1 = (cr, d2, w2)"
    and "a' = (case cr of Inr resp \<Rightarrow> a\<lparr>acCartId := respCartId resp, acSessionId := respSessionId resp\<rparr> | Inl _ \<Rightarrow> a)"
    and "withTimeout (op a') (timeoutMs o') (opLabel o') w2 = (Inr v, d3, w3)"
  shows "execute env op o' a w = (Inr v, d + d2 + d3, a', w3)"
proof -
  have rc: "recreateCart env a w1 = (d2, a', w2)"
    using assms(1,5,6)
    by (cases cr) (simp_all add: recreateCart_def createCart_def createLocalCart_def
        responseToCartState_def CREATE_TIMEOUT_MS_def)
  have "execute_from 1 e env op o' a' w2 = (Inr v, d3, a', w3)"
    using assms(7) by (subst execute_from.simps) (simp add: MAX_ATTEMPTS_def)
  with assms(2,3,4) rc show ?thesis
    unfolding execute_def by (subst execute_from.simps) (simp add: MAX_ATTEMPTS_def Let_def)
qed

text \<open>A server that appends every added line to a log and creates carts named \<open>new\<close>.\<close>

definition log_response :: "string \<Rightarrow> CartResponse" where
  "log_response cid =
     \<lparr>respCartId = cid, respStoreId = ''s'', respKioskId = ''k'', respSessionId = ''u1'', respLines = [],
      respTotals = \<lparr>subtotalCents = 0, discountCents = 0, taxCents = 0, environmentalFeeCents = 0,
        loyaltyDiscountCents = 0, totalCents = 0, breakdown = []\<rparr>,
      respVersion = 1, respExpiresAt = ''''\<rparr>"

definition log_client :: "(string \<times> CartLineInput) list ApiClient" where
  "log_client =
     \<lparr>cl_createCart = (\<lambda>_ _ _ w. (Inr (log_response ''new''), 0, w)),
      cl_addItemToCart = (\<lambda>cid l w. (Inr (log_response cid), 0, w @ [(cid, l)])),
      cl_getCart = (\<lambda>cid w. (Inr (log_response cid), 0, w)),
      cl_checkoutCart = (\<lambda>cid pm w. (Inr \<lparr>checkoutId = ''co'', paymentIntentId = ''pi''\<rparr>, 0, w))\<rparr>"

definition log_env :: "(string \<times> CartLineInput) list cart_env" where
  "log_env = \<lparr>client = Some log_client, getTime = (\<lambda>_. 0), localNow = 0\<rparr>"

definition needs_new_cart :: "ApiCart \<Rightarrow> ((string \<times> CartLineInput) list, string) call" where
  "needs_new_cart a w =
     (if acCartId a = ''new'' then (Inr ''done'', 0, w)
      else (Inl (ThrownError ((mk_error ''gone'')\<lparr>errStatus := Some 404\<rparr>)), 0, w))"

theorem missing_cart_recreated_witness:
  "execute log_env needs_new_cart sample_opts sample_api_cart [] =
     (Inr ''done'', 0 + 0 + 0, sample_api_cart\<lparr>acCartId := ''new'', acSessionId := ''u1''\<rparr>, [])"
  by (rule missing_cart_recreated [where cl = log_client and cr = "Inr (log_response ''new'')"
      and e = "ThrownError ((mk_error ''gone'')\<lparr>errStatus := Some 404\<rparr>)" and ?w1.0 = "[]" and ?w2.0 = "[]"])
    (simp_all add: log_env_def sample_opts_def withTimeout_def needs_new_cart_def sample_api_cart_def
      new_ApiCart_def mk_error_def log_client_def log_response_def)

text \<open>An operation that fails with 404 on the old cart, and a server that creates the cart \<open>new\<close>.\<close>

theorem execute_result_witness:
  "\<exists>d. execute log_env needs_new_cart sample_opts sample_api_cart [] =
     (Inr ''done'', d, sample_api_cart\<lparr>acCartId := ''new'', acSessionId := ''u1''\<rparr>, [])"
proof -
  let ?state = "attempt_state log_env needs_new_cart sample_opts sample_api_cart []"
  have first: "attempt needs_new_cart sample_opts (sample_api_cart, []) =
      (Inl (ThrownError ((mk_error ''gone'')\<lparr>errStatus := Some 404\<rparr>)), 0, [])"
    by (simp add: attempt_def withTimeout_def needs_new_cart_def sample_opts_def sample_api_cart_def new_ApiCart_def)
  let ?new = "sample_api_cart\<lparr>acCartId := ''new'', acSessionId := ''u1''\<rparr>"
  have second: "attempt needs_new_cart sample_opts (?new, []) = (Inr ''done'', 0, [])"
    by (simp add: attempt_def withTimeout_def needs_new_cart_def sample_opts_def)
  have "between log_env sample_opts 0 (Inl (ThrownError ((mk_error ''gone'')\<lparr>errStatus := Some 404\<rparr>)) :: thrown + string)
      sample_api_cart [] = (0, ?new, [])"
    by (simp add: between_def replaced_def log_env_def log_client_def log_response_def withTimeout_def sample_opts_def mk_error_def)
  then have states: "?state 0 = (0, sample_api_cart, [])" "?state 1 = (0, ?new, [])" by (simp_all add: first)
  have outcomes: "retried (attempt_outcome log_env needs_new_cart sample_opts sample_api_cart [] 0)"
    "\<not> retried (attempt_outcome log_env needs_new_cart sample_opts sample_api_cart [] 1)"
    by (simp_all only: attempt_outcome_def states snd_conv first second fst_conv) (simp_all add: retried_def mk_error_def)
  obtain n t a1 w1 d where n: "?state n = (t, a1, w1)" "n \<le> 2"
      "\<forall>j < n. retried (attempt_outcome log_env needs_new_cart sample_opts sample_api_cart [] j)"
      "n = 2 \<or> \<not> retried (fst (attempt needs_new_cart sample_opts (a1, w1)))"
    and run: "execute log_env needs_new_cart sample_opts sample_api_cart [] =
      (fst (attempt needs_new_cart sample_opts (a1, w1)), t + d, a1, snd (snd (attempt needs_new_cart sample_opts (a1, w1))))"
    using execute_result [of log_env needs_new_cart sample_opts sample_api_cart "[]"] by metis
  have "n \<noteq> 0" using n(1,4) outcomes(1) by (auto simp: attempt_outcome_def intro: gr0I)
  moreover have "\<not> 1 < n" using n(3) outcomes(2) by blast
  ultimately have "n = 1" by linarith
  then have "a1 = ?new" "w1 = []" using n(1) states(2) by simp_all
  with run second show ?thesis by simp
qed

text \<open>
  Every sync adds every line again. Against a server that appends what \<open>addItemToCart\<close> sends
  (as the cart service does) and answers at once, one call of \<open>updateCart\<close> appends each line of
  the cart exactly once, in order, without its notes and weight; so a second sync of the same
  cart leaves every line twice on the server.
\<close>

theorem updateCart_appends_lines:
  assumes "client env = Some cl"
    and "\<And>cid l w. \<exists>r. cl_addItemToCart cl cid l w = (Inr r, 0, w @ [(cid, l)])"
    and "\<And>cid w. \<exists>r. cl_getCart cl cid w = (Inr r, 0, w)"
  shows "let sent = map (\<lambda>l. (acCartId a, l\<lparr>inLineId := None, inNotes := None, inWeightGrams := None\<rparr>)) ls in
    \<exists>st. updateCart env ls a w = (Inr st, 0, a, w @ sent) \<and>
      (\<exists>st'. updateCart env ls a (w @ sent) = (Inr st', 0, a, w @ sent @ sent))"
proof -
  let ?sent = "map (\<lambda>l. (acCartId a, l\<lparr>inLineId := None, inNotes := None, inWeightGrams := None\<rparr>)) ls"
  have adds: "add_lines cl (acCartId a) ks w =
      (Inr (), 0, w @ map (\<lambda>l. (acCartId a, l\<lparr>inLineId := None, inNotes := None, inWeightGrams := None\<rparr>)) ks)"
    for ks w
  proof (induction ks arbitrary: w)
    case (Cons l ks)
    obtain r where "cl_addItemToCart cl (acCartId a) (l\<lparr>inLineId := None, inNotes := None, inWeightGrams := None\<rparr>) w =
        (Inr r, 0, w @ [(acCartId a, l\<lparr>inLineId := None, inNotes := None, inWeightGrams := None\<rparr>)])"
      using assms(2) by blast
    then show ?case by (simp add: then_call_def Cons.IH)
  qed (simp add: return_call_def)
  have sync: "\<exists>st. updateCart env ls a w = (Inr st, 0, a, w @ ?sent)" for w
  proof -
    obtain r where "cl_getCart cl (acCartId a) (w @ ?sent) = (Inr r, 0, w @ ?sent)" using assms(3) by blast
    then show ?thesis
      unfolding updateCart_def execute_def
      by (subst execute_from.simps)
        (simp add: MAX_ATTEMPTS_def withTimeout_def with_client_def assms(1) then_call_def adds
          return_call_def MUTATE_TIMEOUT_MS_def)
  qed
  from sync [of w] sync [of "w @ ?sent"] show ?thesis by simp
qed

definition sample_input :: CartLineInput where
  "sample_input =
     \<lparr>inLineId = Some ''l1'', inMenuItemId = ''m'', inNameSnapshot = ''Tea'', inUnitPriceCentsSnapshot = 250,
      inQuantity = 1, inModifiers = [], inNotes = Some ''hot'', inWeightGrams = None\<rparr>"

theorem updateCart_appends_lines_witness:
  "\<exists>st. updateCart log_env [sample_input] sample_api_cart
      [(''c0'', sample_input\<lparr>inLineId := None, inNotes := None, inWeightGrams := None\<rparr>)] =
    (Inr st, 0, sample_api_cart,
     [(''c0'', sample_input\<lparr>inLineId := None, inNotes := None, inWeightGrams := None\<rparr>),
      (''c0'', sample_input\<lparr>inLineId := None, inNotes := None, inWeightGrams := None\<rparr>)])"
proof -
  have "let sent = map (\<lambda>l. (acCartId sample_api_cart,
        l\<lparr>inLineId := None, inNotes := None, inWeightGrams := None\<rparr>)) [sample_input] in
    \<exists>st. updateCart log_env [sample_input] sample_api_cart [] = (Inr st, 0, sample_api_cart, [] @ sent) \<and>
      (\<exists>st'. updateCart log_env [sample_input] sample_api_cart ([] @ sent) =
        (Inr st', 0, sample_api_cart, [] @ sent @ sent))"
    by (rule updateCart_appends_lines [where cl = log_client]) (simp_all add: log_env_def log_client_def)
  moreover have "acCartId sample_api_cart = ''c0''" by (simp add: sample_api_cart_def new_ApiCart_def)
  ultimately show ?thesis by (auto simp: Let_def)
qed

end
