(* ===== verification/CartService.thy ===== *)
theory CartService
  imports KioskState ApiCart
begin

text \<open>
  The sync scheduler of \<open>apps/kiosk/src/state/cartService.ts\<close>: every local change restarts a
  debounce timer, a firing timer starts a sync of all lines, a failed sync schedules a retry with
  doubling delay. Asynchronous code is a state machine: \<open>timers\<close> are the pending browser timers
  and \<open>inflight\<close> the syncs whose promise has not settled; the environment decides which timer
  fires, which sync settles and when the network changes. Three things are only for the proofs: an in-flight sync carries the
  contents that it sent, or nothing once the cart it was for has been reset, and \<open>synced\<close> and \<open>syncedVersion\<close> are the
  contents and the version of the newest sync that succeeded, those of the empty cart after a reset. The mutations of the
  cart do not touch them.
\<close>

section \<open>State\<close>

definition DEBOUNCE_MS :: ms where "DEBOUNCE_MS = 800"
definition MAX_RETRY_DELAY_MS :: ms where "MAX_RETRY_DELAY_MS = 30000"
definition BASE_RETRY_DELAY_MS :: ms where "BASE_RETRY_DELAY_MS = 1000"

datatype timer_kind = Debounce | Retry

definition mapCartLineToApiFormat :: "CartLineItem \<Rightarrow> CartLineInput" where
  "mapCartLineToApiFormat l =
     \<lparr>inLineId = Some (lineId l), inMenuItemId = menuItemId l, inNameSnapshot = nameSnapshot l,
      inUnitPriceCentsSnapshot = unitPriceCentsSnapshot l, inQuantity = quantity l,
      inModifiers = modifiers l, inNotes = lineNotes l, inWeightGrams = weightGrams l\<rparr>"

record CartService =
  csCart :: CartState
  csApi :: ApiCart
  isOnline :: bool
  syncDebounceTimer :: "nat option"
  pendingSyncVersion :: int
  retryDelay :: ms
  retryTimer :: "nat option"
  destroyed :: bool
  timers :: "(nat \<times> timer_kind \<times> ms) list"
  nextTimer :: nat
  inflight :: "(int \<times> CartLineInput list option) list"
  sent :: "CartLineInput list list"
  synced :: "CartLineInput list"
  syncedVersion :: int

definition cart_contents :: "CartService \<Rightarrow> CartLineInput list" where
  "cart_contents s = map mapCartLineToApiFormat (lines (csCart s))"

definition new_CartService :: "CartState \<Rightarrow> ApiCart \<Rightarrow> bool \<Rightarrow> CartService" where
  "new_CartService c a onLine =
     \<lparr>csCart = c, csApi = a, isOnline = onLine, syncDebounceTimer = None, pendingSyncVersion = 0,
      retryDelay = BASE_RETRY_DELAY_MS, retryTimer = None, destroyed = False, timers = [],
      nextTimer = 1, inflight = [], sent = [], synced = map mapCartLineToApiFormat (lines c), syncedVersion = 0\<rparr>"

definition initializeCart :: "CartState \<Rightarrow> ApiCart \<Rightarrow> CartService \<Rightarrow> CartService" where
  "initializeCart st a s =
     s\<lparr>csCart := (csCart s)\<lparr>cartId := CartState.cartId st, sessionId := CartState.sessionId st\<rparr>, csApi := a\<rparr>"

section \<open>Timers\<close>

definition setTimeout :: "timer_kind \<Rightarrow> ms \<Rightarrow> CartService \<Rightarrow> CartService" where
  "setTimeout k d s = s\<lparr>timers := (nextTimer s, k, d) # timers s, nextTimer := nextTimer s + 1\<rparr>"

definition clearTimeout :: "nat option \<Rightarrow> CartService \<Rightarrow> CartService" where
  "clearTimeout t s = (case t of None \<Rightarrow> s | Some i \<Rightarrow> s\<lparr>timers := filter (\<lambda>x. fst x \<noteq> i) (timers s)\<rparr>)"

definition scheduleSync :: "CartService \<Rightarrow> CartService" where
  "scheduleSync s =
     (let s1 = clearTimeout (syncDebounceTimer s) s
      in (setTimeout Debounce DEBOUNCE_MS s1)\<lparr>syncDebounceTimer := Some (nextTimer s1)\<rparr>)"

definition cancelSync :: "CartService \<Rightarrow> CartService" where
  "cancelSync s =
     (let s1 = (clearTimeout (syncDebounceTimer s) s)\<lparr>syncDebounceTimer := None\<rparr>
      in (clearTimeout (retryTimer s1) s1)\<lparr>retryTimer := None\<rparr>)"

definition scheduleRetry :: "CartService \<Rightarrow> CartService" where
  "scheduleRetry s =
     (if destroyed s \<or> retryTimer s \<noteq> None then s
      else (setTimeout Retry (retryDelay s) s)
             \<lparr>retryTimer := Some (nextTimer s),
              retryDelay := min (retryDelay s * 2) MAX_RETRY_DELAY_MS\<rparr>)"

section \<open>Syncing\<close>

text \<open>\<open>flushSync\<close> up to its \<open>await\<close>.\<close>

definition flushSync :: "CartService \<Rightarrow> CartService" where
  "flushSync s =
     (if \<not> isOnline s \<or> destroyed s then s
      else
        let s1 = (clearTimeout (syncDebounceTimer s) s)\<lparr>syncDebounceTimer := None\<rparr>;
            v = pendingSyncVersion s1 + 1;
            localLines = map mapCartLineToApiFormat (lines (csCart s1))
        in s1\<lparr>pendingSyncVersion := v, sent := sent s1 @ [localLines],
              inflight := (v, Some localLines) # inflight s1\<rparr>)"

text \<open>The rest of \<open>flushSync\<close>; the cart client may have adopted another cart meanwhile.\<close>

definition acknowledge :: "int \<Rightarrow> CartService \<Rightarrow> CartService" where
  "acknowledge v s =
     (case map_of (inflight s) v of
        Some (Some c) \<Rightarrow> if syncedVersion s \<le> v then s\<lparr>synced := c, syncedVersion := v\<rparr> else s
      | _ \<Rightarrow> s)"

definition sync_settled :: "int \<Rightarrow> bool \<Rightarrow> ApiCart \<Rightarrow> CartService \<Rightarrow> CartService" where
  "sync_settled v ok a s =
     (let s0 = (if ok then acknowledge v s else s);
          s1 = s0\<lparr>csApi := a, inflight := filter (\<lambda>x. fst x \<noteq> v) (inflight s0)\<rparr>
      in if ok then s1\<lparr>retryDelay := BASE_RETRY_DELAY_MS\<rparr>
         else if v \<noteq> pendingSyncVersion s1 then s1
         else scheduleRetry s1)"

definition handleOnline :: "CartService \<Rightarrow> CartService" where
  "handleOnline s = flushSync (s\<lparr>isOnline := True, retryDelay := BASE_RETRY_DELAY_MS\<rparr>)"

definition handleOffline :: "CartService \<Rightarrow> CartService" where
  "handleOffline s = cancelSync (s\<lparr>isOnline := False\<rparr>)"

definition timer_fires :: "nat \<Rightarrow> CartService \<Rightarrow> CartService" where
  "timer_fires i s =
     (case map_of (timers s) i of
        None \<Rightarrow> s
      | Some (k, _) \<Rightarrow>
          let s1 = s\<lparr>timers := filter (\<lambda>x. fst x \<noteq> i) (timers s)\<rparr> in
          (case k of
             Debounce \<Rightarrow> flushSync s1
           | Retry \<Rightarrow> flushSync (s1\<lparr>retryTimer := None\<rparr>)))"

section \<open>Mutations\<close>

definition markDirty :: "ms \<Rightarrow> CartService \<Rightarrow> CartService" where
  "markDirty now s = scheduleSync (s\<lparr>csCart := touch now (csCart s)\<rparr>)"

definition set_lines :: "CartLineItem list \<Rightarrow> CartService \<Rightarrow> CartService" where
  "set_lines ls s = s\<lparr>csCart := (csCart s)\<lparr>lines := ls\<rparr>\<rparr>"

definition cs_addItem :: "string \<Rightarrow> ms \<Rightarrow> ms \<Rightarrow> CartLineItem \<Rightarrow> CartService \<Rightarrow> CartService" where
  "cs_addItem newId added now item s =
     markDirty now (set_lines (lines (csCart s) @ [item\<lparr>lineId := newId, addedAtMs := added\<rparr>]) s)"

definition cs_removeItem :: "ms \<Rightarrow> string \<Rightarrow> CartService \<Rightarrow> CartService" where
  "cs_removeItem now lid s =
     (case findIndex (\<lambda>l. lineId l = lid) (lines (csCart s)) of
        None \<Rightarrow> s
      | Some idx \<Rightarrow> markDirty now (set_lines (splice_at idx (lines (csCart s))) s))"

definition cs_updateQuantity :: "ms \<Rightarrow> string \<Rightarrow> int \<Rightarrow> CartService \<Rightarrow> CartService" where
  "cs_updateQuantity now lid q s =
     (case List.find (\<lambda>l. lineId l = lid) (lines (csCart s)) of
        None \<Rightarrow> s
      | Some _ \<Rightarrow>
          if q \<le> 0 then cs_removeItem now lid s
          else markDirty now
            (set_lines (update_first (\<lambda>l. lineId l = lid) (\<lambda>l. l\<lparr>quantity := q\<rparr>) (lines (csCart s))) s))"

text \<open>The proxy and the cart client get fresh identifiers of their own.\<close>

record reset_ids =
  proxyCart :: string
  proxySession :: string
  apiCart :: string
  apiSession :: string

definition abandon_inflight :: "CartService \<Rightarrow> CartService" where
  "abandon_inflight s =
     s\<lparr>inflight := map (\<lambda>x. (fst x, None)) (inflight s), synced := [], syncedVersion := pendingSyncVersion s\<rparr>"

definition cs_resetCart :: "string \<Rightarrow> reset_ids \<Rightarrow> ms \<Rightarrow> CartService \<Rightarrow> CartService" where
  "cs_resetCart KIOSK_ID ids now s =
     (let s1 = cancelSync s
      in (abandon_inflight s1)
           \<lparr>csCart := resetCart (proxyCart ids) (proxySession ids) now now KIOSK_ID (csCart s1),
            csApi := reset (apiCart ids) (apiSession ids) (csApi s1)\<rparr>)"

definition destroy :: "CartService \<Rightarrow> CartService" where
  "destroy s = cancelSync (s\<lparr>destroyed := True\<rparr>)"

text \<open>
  \<open>checkout\<close>: a sync whose failure is swallowed, then the checkout call. Here both with their results; among the events its
  part before the sync's \<open>await\<close> is a flush, and the answer of the call may leave the cart client changed.
\<close>

definition cs_checkout ::
  "'w cart_env \<Rightarrow> PaymentMethod \<Rightarrow> CartService \<Rightarrow> 'w \<Rightarrow> (thrown + CheckoutIntent) \<times> ms \<times> ApiCart \<times> 'w" where
  "cs_checkout env pm s w =
     (if \<not> isOnline s \<or> destroyed s then checkout env pm (csApi s) w
      else (case updateCart env (map mapCartLineToApiFormat (lines (csCart s))) (csApi s) w of
              (_, d, a, w') \<Rightarrow> (case checkout env pm a w' of (r, d2, a2, w2) \<Rightarrow> (r, d + d2, a2, w2))))"

section \<open>Steps\<close>

datatype cs_event =
    AddItem string ms ms CartLineItem
  | UpdateQuantity ms string int
  | RemoveItem ms string
  | ResetCart string reset_ids ms
  | TimerFires nat
  | SyncSettles int bool ApiCart
  | Online
  | Offline
  | Initialized CartState ApiCart
  | CheckoutStarts
  | CheckoutSettles ApiCart
  | Destroy

text \<open>\<open>destroy\<close> removes the two listeners, so network events are not handled afterwards.\<close>

fun cs_step :: "cs_event \<Rightarrow> CartService \<Rightarrow> CartService" where
  "cs_step (AddItem i t now item) s = cs_addItem i t now item s"
| "cs_step (UpdateQuantity now i q) s = cs_updateQuantity now i q s"
| "cs_step (RemoveItem now i) s = cs_removeItem now i s"
| "cs_step (ResetCart k ids now) s = cs_resetCart k ids now s"
| "cs_step (TimerFires i) s = timer_fires i s"
| "cs_step (SyncSettles v ok a) s = (if v \<in> fst ` set (inflight s) then sync_settled v ok a s else s)"
| "cs_step Online s = (if destroyed s then s else handleOnline s)"
| "cs_step Offline s = (if destroyed s then s else handleOffline s)"
| "cs_step (Initialized st a) s = initializeCart st a s"
| "cs_step CheckoutStarts s = flushSync s"
| "cs_step (CheckoutSettles a) s = s\<lparr>csApi := a\<rparr>"
| "cs_step Destroy s = destroy s"

lemmas cs_defs = setTimeout_def clearTimeout_def scheduleSync_def cancelSync_def scheduleRetry_def
  flushSync_def acknowledge_def sync_settled_def handleOnline_def handleOffline_def timer_fires_def abandon_inflight_def
  markDirty_def set_lines_def cs_addItem_def cs_removeItem_def cs_updateQuantity_def cs_resetCart_def
  destroy_def initializeCart_def

section \<open>Invariant\<close>

text \<open>Pending timers are the two the service holds, and a held retry timer is pending.\<close>

definition timers_ok :: "(nat \<times> timer_kind \<times> ms) list \<Rightarrow> nat \<Rightarrow> nat option \<Rightarrow> nat option \<Rightarrow> bool" where
  "timers_ok ts next db rt \<longleftrightarrow>
     distinct (map fst ts) \<and>
     (\<forall>(i, k, d) \<in> set ts. i < next \<and> i \<in> set_option (case k of Debounce \<Rightarrow> db | Retry \<Rightarrow> rt)) \<and>
     (\<forall>i \<in> set_option rt. \<exists>d. (i, Retry, d) \<in> set ts) \<and>
     (\<forall>i \<in> set_option db. i < next \<and> i \<notin> set_option rt)"

definition timers_inv :: "CartService \<Rightarrow> bool" where
  "timers_inv s \<longleftrightarrow> timers_ok (timers s) (nextTimer s) (syncDebounceTimer s) (retryTimer s)"

definition delay_inv :: "CartService \<Rightarrow> bool" where
  "delay_inv s \<longleftrightarrow> BASE_RETRY_DELAY_MS \<le> retryDelay s \<and> retryDelay s \<le> MAX_RETRY_DELAY_MS"

text \<open>Work that will bring the present contents to the server, or has brought them there.\<close>

definition work_pending :: "CartService \<Rightarrow> bool" where
  "work_pending s \<longleftrightarrow>
     (\<exists>i d. (i, Debounce, d) \<in> set (timers s)) \<or> retryTimer s \<noteq> None \<or>
     (pendingSyncVersion s, Some (cart_contents s)) \<in> set (inflight s) \<or>
     syncedVersion s = pendingSyncVersion s \<and> synced s = cart_contents s"

text \<open>Versions grow; a sync of the cart in use that is still under way is newer than the newest that succeeded.\<close>

definition syncs_inv :: "CartService \<Rightarrow> bool" where
  "syncs_inv s \<longleftrightarrow>
     (\<forall>x \<in> set (inflight s). fst x \<le> pendingSyncVersion s) \<and> distinct (map fst (inflight s)) \<and>
     syncedVersion s \<le> pendingSyncVersion s \<and> syncedVersion s \<notin> fst ` set (filter (\<lambda>x. snd x \<noteq> None) (inflight s))"

definition work_inv :: "CartService \<Rightarrow> bool" where
  "work_inv s \<longleftrightarrow>
     (isOnline s \<and> \<not> destroyed s \<longrightarrow> work_pending s) \<and> syncs_inv s"

definition cs_inv :: "CartService \<Rightarrow> bool" where
  "cs_inv s \<longleftrightarrow> timers_inv s \<and> delay_inv s \<and> work_inv s"

definition drop_timer :: "nat option \<Rightarrow> (nat \<times> timer_kind \<times> ms) list \<Rightarrow> (nat \<times> timer_kind \<times> ms) list" where
  "drop_timer t ts = (case t of None \<Rightarrow> ts | Some i \<Rightarrow> filter (\<lambda>x. fst x \<noteq> i) ts)"

lemma clearTimeout_drop: "clearTimeout t s = s\<lparr>timers := drop_timer t (timers s)\<rparr>"
  by (cases t) (simp_all add: clearTimeout_def drop_timer_def)

lemma set_drop_timer: "x \<in> set (drop_timer t ts) \<longleftrightarrow> x \<in> set ts \<and> t \<noteq> Some (fst x)"
  by (auto simp: drop_timer_def split: option.splits)

lemma distinct_drop_timer: "distinct (map fst ts) \<Longrightarrow> distinct (map fst (drop_timer t ts))"
  by (simp add: drop_timer_def distinct_map_filter split: option.splits)

lemma timers_okI:
  assumes "distinct (map fst ts)"
    and "\<And>i d. (i, Debounce, d) \<in> set ts \<Longrightarrow> i \<in> set_option db"
    and "\<And>i d. (i, Retry, d) \<in> set ts \<Longrightarrow> i < next \<and> i \<in> set_option rt"
    and "\<And>i. i \<in> set_option rt \<Longrightarrow> \<exists>d. (i, Retry, d) \<in> set ts"
    and "\<And>i. i \<in> set_option db \<Longrightarrow> i < next \<and> i \<notin> set_option rt"
  shows "timers_ok ts next db rt"
proof -
  have "i < next \<and> i \<in> set_option (case k of Debounce \<Rightarrow> db | Retry \<Rightarrow> rt)" if "(i, k, d) \<in> set ts" for i k d
    using that assms(2,3,5) by (cases k) auto
  with assms(1,4,5) show ?thesis unfolding timers_ok_def by blast
qed

lemma timers_okD:
  assumes "timers_ok ts next db rt"
  shows "distinct (map fst ts)" "(i, Debounce, d) \<in> set ts \<Longrightarrow> i \<in> set_option db"
    "(i, Retry, d) \<in> set ts \<Longrightarrow> i \<in> set_option rt" "(i, k, d) \<in> set ts \<Longrightarrow> i < next"
    "i \<in> set_option rt \<Longrightarrow> \<exists>d. (i, Retry, d) \<in> set ts"
    "i \<in> set_option db \<Longrightarrow> i < next" "i \<in> set_option db \<Longrightarrow> i \<notin> set_option rt"
  using assms unfolding timers_ok_def by fastforce+

lemma timers_ok_drop_debounce:
  assumes "timers_ok ts n db rt" shows "timers_ok (drop_timer db ts) n None rt"
proof (rule timers_okI)
  show "\<exists>d. (i, Retry, d) \<in> set (drop_timer db ts)" if "i \<in> set_option rt" for i
    using timers_okD(5,7) [OF assms] that unfolding set_drop_timer by fastforce
qed (use timers_okD [OF assms] in \<open>auto simp: set_drop_timer distinct_drop_timer\<close>)

lemma timers_ok_drop_retry:
  assumes "timers_ok ts n db rt" shows "timers_ok (drop_timer rt ts) n db None"
  by (rule timers_okI) (use timers_okD [OF assms] in \<open>auto simp: set_drop_timer distinct_drop_timer\<close>)

lemma timers_ok_fires:
  assumes "timers_ok ts n db rt" and "(i, Debounce, d) \<in> set ts"
  shows "timers_ok (drop_timer (Some i) ts) n db rt"
proof (rule timers_okI)
  have "i \<notin> set_option rt" using timers_okD(2,7) [OF assms(1)] assms(2) by blast
  then show "\<exists>d. (j, Retry, d) \<in> set (drop_timer (Some i) ts)" if "j \<in> set_option rt" for j
    using timers_okD(5) [OF assms(1)] that unfolding set_drop_timer by fastforce
qed (use timers_okD [OF assms(1)] in \<open>auto simp: set_drop_timer distinct_drop_timer\<close>)

lemma timers_ok_fresh: "timers_ok ts n db rt \<Longrightarrow> n \<notin> fst ` set ts"
  using timers_okD(4) by fastforce

lemma timers_ok_new_debounce:
  assumes "timers_ok ts n None rt" shows "timers_ok ((n, Debounce, d) # ts) (Suc n) (Some n) rt"
proof (rule timers_okI)
  show "i < Suc n \<and> i \<in> set_option rt" if "(i, Retry, d') \<in> set ((n, Debounce, d) # ts)" for i d'
  proof -
    from that have "(i, Retry, d') \<in> set ts" by simp
    from timers_okD(3,4) [OF assms this] show ?thesis by simp
  qed
  show "i < Suc n \<and> i \<notin> set_option rt" if "i \<in> set_option (Some n)" for i
  proof -
    from that have "i = n" by simp
    moreover have "n \<notin> set_option rt" using timers_okD(5) [OF assms] timers_ok_fresh [OF assms] by force
    ultimately show ?thesis by simp
  qed
  show "i \<in> set_option (Some n)" if "(i, Debounce, d') \<in> set ((n, Debounce, d) # ts)" for i d'
    using that timers_okD(2) [OF assms] by fastforce
  show "\<exists>d'. (i, Retry, d') \<in> set ((n, Debounce, d) # ts)" if "i \<in> set_option rt" for i
    using timers_okD(5) [OF assms that] by auto
  show "distinct (map fst ((n, Debounce, d) # ts))"
    using timers_okD(1) [OF assms] timers_ok_fresh [OF assms] by simp
qed

lemma timers_ok_new_retry:
  assumes "timers_ok ts n db None" shows "timers_ok ((n, Retry, d) # ts) (Suc n) db (Some n)"
  by (rule timers_okI) (use timers_okD [OF assms] timers_ok_fresh [OF assms] in \<open>force+\<close>)

lemma timers_ok_empty:
  assumes "timers_ok ts n None None" shows "ts = []"
proof (rule ccontr)
  assume "ts \<noteq> []"
  then obtain i k d where "(i, k, d) \<in> set ts" by (cases ts) auto
  with timers_okD(2,3) [OF assms] show False by (cases k) auto
qed

lemma timers_ok_at_most_two:
  assumes "timers_ok ts n db rt" shows "length ts \<le> 2"
proof -
  have "i \<in> set_option db \<union> set_option rt" if "(i, k, d) \<in> set ts" for i k d
    using that timers_okD(2,3) [OF assms] by (cases k) auto
  then have "fst ` set ts \<subseteq> set_option db \<union> set_option rt" by (metis image_subsetI prod.collapse)
  then have "card (fst ` set ts) \<le> card (set_option db \<union> set_option rt)" by (intro card_mono) auto
  also have "\<dots> \<le> 2" by (cases db; cases rt) (auto simp: card_insert_if)
  finally show ?thesis
    using timers_okD(1) [OF assms] by (metis distinct_card length_map set_map)
qed

lemma scheduleSync_timers: "timers_inv s \<Longrightarrow> timers_inv (scheduleSync s)"
  unfolding timers_inv_def scheduleSync_def clearTimeout_drop
  by (simp add: setTimeout_def timers_ok_new_debounce [OF timers_ok_drop_debounce])

lemma cancelSync_timers: "timers_inv s \<Longrightarrow> timers_inv (cancelSync s) \<and> timers (cancelSync s) = []"
proof -
  assume "timers_inv s"
  then have "timers_ok (drop_timer (retryTimer s) (drop_timer (syncDebounceTimer s) (timers s))) (nextTimer s) None None"
    unfolding timers_inv_def by (intro timers_ok_drop_retry timers_ok_drop_debounce)
  with timers_ok_empty [OF this] show ?thesis
    by (simp add: timers_inv_def cancelSync_def clearTimeout_drop)
qed

lemma scheduleRetry_timers: "timers_inv s \<Longrightarrow> timers_inv (scheduleRetry s)"
  unfolding timers_inv_def scheduleRetry_def
  by (cases "retryTimer s") (simp_all add: setTimeout_def timers_ok_new_retry)

lemma flushSync_timers: "timers_inv s \<Longrightarrow> timers_inv (flushSync s)"
  unfolding timers_inv_def flushSync_def clearTimeout_drop
  by (simp add: Let_def timers_ok_drop_debounce)


subsection \<open>Delays and pending work\<close>

lemma scheduleRetry_delay: "delay_inv s \<Longrightarrow> delay_inv (scheduleRetry s)"
  by (auto simp: delay_inv_def scheduleRetry_def setTimeout_def BASE_RETRY_DELAY_MS_def MAX_RETRY_DELAY_MS_def)

lemma delay_frame [simp]:
  "retryDelay (scheduleSync s) = retryDelay s" "retryDelay (cancelSync s) = retryDelay s"
  "retryDelay (flushSync s) = retryDelay s"
  by (simp_all add: scheduleSync_def cancelSync_def flushSync_def clearTimeout_drop
      setTimeout_def Let_def)

lemma syncs_invD:
  assumes "syncs_inv s"
  shows "x \<in> set (inflight s) \<Longrightarrow> fst x \<le> pendingSyncVersion s" "distinct (map fst (inflight s))"
    "syncedVersion s \<le> pendingSyncVersion s" "(syncedVersion s, Some c) \<notin> set (inflight s)"
  using assms by (force simp: syncs_inv_def)+

lemma flushSync_syncs:
  assumes "syncs_inv s" shows "syncs_inv (flushSync s)"
proof -
  note inv = syncs_invD [OF assms]
  have "pendingSyncVersion s + 1 \<notin> fst ` set (inflight s)" using inv(1) by fastforce
  then show ?thesis
    using inv assms by (fastforce simp: syncs_inv_def flushSync_def clearTimeout_drop Let_def)
qed

lemma flushSync_work: "syncs_inv s \<Longrightarrow> isOnline s \<Longrightarrow> \<not> destroyed s \<Longrightarrow> work_pending (flushSync s)"
  by (simp add: flushSync_def work_pending_def clearTimeout_drop cart_contents_def Let_def)

lemma flushSync_idle: "\<not> isOnline s \<or> destroyed s \<Longrightarrow> flushSync s = s"
  by (simp add: flushSync_def)

lemma flushSync_network [simp]: "isOnline (flushSync s) = isOnline s" "destroyed (flushSync s) = destroyed s"
  by (simp_all add: flushSync_def clearTimeout_drop Let_def)

lemma scheduleSync_pending: "work_pending (scheduleSync s)"
  by (auto simp: work_pending_def scheduleSync_def setTimeout_def Let_def)

lemma scheduleSync_frame [simp]:
  "inflight (scheduleSync s) = inflight s" "pendingSyncVersion (scheduleSync s) = pendingSyncVersion s"
  "synced (scheduleSync s) = synced s" "syncedVersion (scheduleSync s) = syncedVersion s"
  by (simp_all add: scheduleSync_def setTimeout_def clearTimeout_drop Let_def)

text \<open>What the invariant says without the contents of the cart.\<close>

definition base_inv :: "CartService \<Rightarrow> bool" where
  "base_inv s \<longleftrightarrow> timers_inv s \<and> delay_inv s \<and> syncs_inv s"

lemma cs_inv_base: "cs_inv s \<longleftrightarrow> base_inv s \<and> (isOnline s \<and> \<not> destroyed s \<longrightarrow> work_pending s)"
  by (auto simp: cs_inv_def work_inv_def base_inv_def)

lemma cs_invD:
  assumes "cs_inv s"
  shows "base_inv s" "timers_inv s" "delay_inv s" "syncs_inv s" "isOnline s \<Longrightarrow> \<not> destroyed s \<Longrightarrow> work_pending s"
  using assms by (auto simp: cs_inv_base base_inv_def)

lemma base_frame:
  "timers t = timers s \<Longrightarrow> nextTimer t = nextTimer s \<Longrightarrow> syncDebounceTimer t = syncDebounceTimer s \<Longrightarrow>
   retryTimer t = retryTimer s \<Longrightarrow> retryDelay t = retryDelay s \<Longrightarrow> inflight t = inflight s \<Longrightarrow>
   pendingSyncVersion t = pendingSyncVersion s \<Longrightarrow> syncedVersion t = syncedVersion s \<Longrightarrow> base_inv s \<Longrightarrow> base_inv t"
  by (simp add: base_inv_def timers_inv_def delay_inv_def syncs_inv_def)

lemma scheduleSync_inv: "base_inv s \<Longrightarrow> cs_inv (scheduleSync s)"
  using scheduleSync_timers [of s] scheduleSync_pending [of s]
  by (simp add: cs_inv_base base_inv_def) (simp add: delay_inv_def syncs_inv_def)

lemma markDirty_inv: "base_inv s \<Longrightarrow> cs_inv (markDirty now s)"
  unfolding markDirty_def by (rule scheduleSync_inv, erule base_frame [rotated -1]) simp_all

lemma set_lines_inv: "base_inv s \<Longrightarrow> base_inv (set_lines ls s)"
  by (erule base_frame [rotated -1]) (simp_all add: set_lines_def)

lemma addItem_inv: "cs_inv s \<Longrightarrow> cs_inv (cs_addItem i t now item s)"
  by (simp add: cs_addItem_def markDirty_inv set_lines_inv cs_invD)

lemma removeItem_inv: "cs_inv s \<Longrightarrow> cs_inv (cs_removeItem now i s)"
  by (auto simp: cs_removeItem_def intro: markDirty_inv set_lines_inv dest: cs_invD(1) split: option.splits)

lemma updateQuantity_inv: "cs_inv s \<Longrightarrow> cs_inv (cs_updateQuantity now i q s)"
  by (auto simp: cs_updateQuantity_def intro: markDirty_inv set_lines_inv removeItem_inv dest: cs_invD(1) split: option.splits)

lemma flushSync_inv:
  assumes "base_inv s" shows "cs_inv (flushSync s)"
proof -
  have "base_inv (flushSync s)"
    using assms flushSync_timers [of s] flushSync_syncs [of s] by (simp add: base_inv_def delay_inv_def)
  then show ?thesis using assms flushSync_work [of s] by (simp add: cs_inv_base base_inv_def)
qed

lemma network_base [simp]:
  "base_inv (s\<lparr>isOnline := b\<rparr>) = base_inv s" "base_inv (s\<lparr>destroyed := b\<rparr>) = base_inv s"
  "base_inv s \<Longrightarrow> base_inv (s\<lparr>retryDelay := BASE_RETRY_DELAY_MS\<rparr>)"
  by (simp_all add: base_inv_def timers_inv_def delay_inv_def syncs_inv_def BASE_RETRY_DELAY_MS_def MAX_RETRY_DELAY_MS_def)

lemma handleOnline_inv: "cs_inv s \<Longrightarrow> cs_inv (handleOnline s)"
  unfolding handleOnline_def
  by (rule flushSync_inv) (simp add: cs_invD(1) network_base(3) [of "s\<lparr>isOnline := True\<rparr>", simplified])

lemma cancelSync_frame [simp]:
  "inflight (cancelSync s) = inflight s" "pendingSyncVersion (cancelSync s) = pendingSyncVersion s"
  "isOnline (cancelSync s) = isOnline s" "destroyed (cancelSync s) = destroyed s"
  "synced (cancelSync s) = synced s" "syncedVersion (cancelSync s) = syncedVersion s" "sent (cancelSync s) = sent s"
  by (simp_all add: cancelSync_def clearTimeout_drop Let_def)

lemma cancelSync_base: "base_inv s \<Longrightarrow> base_inv (cancelSync s)"
  using cancelSync_timers [of s] by (simp add: base_inv_def) (simp add: delay_inv_def syncs_inv_def)

lemma handleOffline_inv: "cs_inv s \<Longrightarrow> cs_inv (handleOffline s)"
  by (simp add: handleOffline_def cs_inv_base cancelSync_base)

lemma destroy_inv: "cs_inv s \<Longrightarrow> cs_inv (destroy s)"
  by (simp add: destroy_def cs_inv_base cancelSync_base)

lemma resetCart_inv:
  assumes "cs_inv s" shows "cs_inv (cs_resetCart k ids now s)"
proof -
  have "base_inv (cancelSync s)" using assms by (intro cancelSync_base cs_invD)
  then have "base_inv (cs_resetCart k ids now s)"
    by (auto simp: cs_resetCart_def abandon_inflight_def base_inv_def timers_inv_def delay_inv_def syncs_inv_def comp_def Let_def)
  moreover have "work_pending (cs_resetCart k ids now s)"
    by (simp add: cs_resetCart_def abandon_inflight_def work_pending_def cart_contents_def resetCart_def Let_def)
  ultimately show ?thesis by (simp add: cs_inv_base)
qed

lemma scheduleRetry_work: "\<not> destroyed s \<Longrightarrow> work_pending (scheduleRetry s)"
  by (auto simp: work_pending_def scheduleRetry_def setTimeout_def)

lemma scheduleRetry_frame [simp]:
  "inflight (scheduleRetry s) = inflight s" "pendingSyncVersion (scheduleRetry s) = pendingSyncVersion s"
  "isOnline (scheduleRetry s) = isOnline s" "destroyed (scheduleRetry s) = destroyed s"
  "syncedVersion (scheduleRetry s) = syncedVersion s" "sent (scheduleRetry s) = sent s"
  by (simp_all add: scheduleRetry_def setTimeout_def)

lemma scheduleRetry_inv: "base_inv s \<Longrightarrow> cs_inv (scheduleRetry s)"
  using scheduleRetry_timers [of s] scheduleRetry_delay [of s] scheduleRetry_work [of s]
  by (simp add: cs_inv_base base_inv_def) (simp add: syncs_inv_def)

lemma acknowledge_frame [simp]:
  "timers (acknowledge v s) = timers s" "nextTimer (acknowledge v s) = nextTimer s"
  "syncDebounceTimer (acknowledge v s) = syncDebounceTimer s" "retryTimer (acknowledge v s) = retryTimer s"
  "retryDelay (acknowledge v s) = retryDelay s" "inflight (acknowledge v s) = inflight s"
  "pendingSyncVersion (acknowledge v s) = pendingSyncVersion s" "isOnline (acknowledge v s) = isOnline s"
  "destroyed (acknowledge v s) = destroyed s" "csCart (acknowledge v s) = csCart s" "sent (acknowledge v s) = sent s"
  by (simp_all add: acknowledge_def split: option.splits)

text \<open>The state when a sync has gone from those under way, before anything else is done.\<close>

definition settle_core :: "int \<Rightarrow> ApiCart \<Rightarrow> CartService \<Rightarrow> CartService" where
  "settle_core v a s = s\<lparr>csApi := a, inflight := filter (\<lambda>x. fst x \<noteq> v) (inflight s)\<rparr>"

lemma settle_core_base: "base_inv s \<Longrightarrow> base_inv (settle_core v a s)"
  by (auto simp: settle_core_def base_inv_def timers_inv_def delay_inv_def syncs_inv_def distinct_map_filter)

lemma acknowledged_version:
  "syncs_inv s \<Longrightarrow> syncedVersion (acknowledge v s) = syncedVersion s \<or>
     syncedVersion (acknowledge v s) = v \<and> (\<exists>c. (v, Some c) \<in> set (inflight s))"
  by (auto simp: acknowledge_def split: option.splits dest!: map_of_SomeD)

lemma acknowledged_base:
  assumes "base_inv s" shows "base_inv (settle_core v a (acknowledge v s))"
proof -
  have syncs: "syncs_inv s" using assms by (simp add: base_inv_def)
  note inv = syncs_invD [OF syncs]
  have "syncs_inv (settle_core v a (acknowledge v s))"
    using acknowledged_version [OF syncs, of v] inv(2,3) inv(1) syncs
    by (fastforce simp: settle_core_def syncs_inv_def distinct_map_filter)
  then show ?thesis using assms by (simp add: base_inv_def settle_core_def timers_inv_def delay_inv_def)
qed

text \<open>A success of the latest sync brings the contents it sent; one of an older sync leaves what is pending.\<close>

lemma acknowledged_work:
  assumes "syncs_inv s" "work_pending s" shows "work_pending (settle_core v a (acknowledge v s))"
proof -
  note inv = syncs_invD [OF assms(1)]
  have contents: "cart_contents (settle_core v a (acknowledge v s)) = cart_contents s"
    by (simp add: settle_core_def cart_contents_def)
  from assms(2) consider (timer) "(\<exists>i d. (i, Debounce, d) \<in> set (timers s)) \<or> retryTimer s \<noteq> None"
    | (sync) "(pendingSyncVersion s, Some (cart_contents s)) \<in> set (inflight s)"
    | (brought) "syncedVersion s = pendingSyncVersion s" "synced s = cart_contents s"
    unfolding work_pending_def by blast
  then show ?thesis
  proof cases
    case timer
    moreover have "timers (settle_core v a (acknowledge v s)) = timers s"
      "retryTimer (settle_core v a (acknowledge v s)) = retryTimer s" by (simp_all add: settle_core_def)
    ultimately show ?thesis unfolding work_pending_def by presburger
  next
    case sync
    show ?thesis
    proof (cases "v = pendingSyncVersion s")
      case True
      then have "map_of (inflight s) v = Some (Some (cart_contents s))" using sync inv(2) by simp
      then have "synced (acknowledge v s) = cart_contents s" "syncedVersion (acknowledge v s) = pendingSyncVersion s"
        using inv(3) True by (simp_all add: acknowledge_def)
      then show ?thesis using contents by (simp add: work_pending_def settle_core_def)
    next
      case False
      then show ?thesis using sync contents by (simp add: work_pending_def settle_core_def)
    qed
  next
    case brought
    have "acknowledge v s = s"
    proof (cases "map_of (inflight s) v")
      case (Some x)
      then show ?thesis
        using brought inv(1) [OF map_of_SomeD [OF Some]] inv(4)
        by (cases x) (auto simp: acknowledge_def dest!: map_of_SomeD)
    qed (simp add: acknowledge_def)
    then show ?thesis using brought contents by (simp add: work_pending_def settle_core_def)
  qed
qed

lemma settle_core_work: "v \<noteq> pendingSyncVersion s \<Longrightarrow> work_pending s \<Longrightarrow> work_pending (settle_core v a s)"
  by (auto simp: work_pending_def settle_core_def cart_contents_def)

lemma sync_settled_inv:
  assumes "cs_inv s" shows "cs_inv (sync_settled v ok a s)"
proof -
  note inv = cs_invD [OF assms]
  have unfold: "sync_settled v ok a s =
      (if ok then (settle_core v a (acknowledge v s))\<lparr>retryDelay := BASE_RETRY_DELAY_MS\<rparr>
       else if v \<noteq> pendingSyncVersion s then settle_core v a s
       else scheduleRetry (settle_core v a s))"
    by (simp add: sync_settled_def settle_core_def Let_def)
  have same: "isOnline (settle_core v a t) = isOnline t" "destroyed (settle_core v a t) = destroyed t" for t
    by (simp_all add: settle_core_def)
  consider (good) ok | (old) "\<not> ok" "v \<noteq> pendingSyncVersion s" | (bad) "\<not> ok" "v = pendingSyncVersion s" by blast
  then show ?thesis
  proof cases
    case good
    have "base_inv ((settle_core v a (acknowledge v s))\<lparr>retryDelay := BASE_RETRY_DELAY_MS\<rparr>)"
      using acknowledged_base [OF inv(1), of v a]
      by simp
    moreover have "work_pending (t\<lparr>retryDelay := d\<rparr>) = work_pending t" for t :: CartService and d
      by (simp add: work_pending_def cart_contents_def)
    ultimately show ?thesis
      unfolding unfold cs_inv_base using good inv(5) acknowledged_work [OF inv(4)] by (simp add: same)
  next
    case old
    then show ?thesis using settle_core_base [OF inv(1)] settle_core_work inv(5) unfolding unfold cs_inv_base by (simp add: same)
  next
    case bad
    then show ?thesis using scheduleRetry_inv [OF settle_core_base [OF inv(1)]] unfolding unfold by simp
  qed
qed

lemma timer_fires_inv:
  assumes "cs_inv s" shows "cs_inv (timer_fires i s)"
proof (cases "map_of (timers s) i")
  case None
  with assms show ?thesis by (simp add: timer_fires_def)
next
  case (Some p)
  obtain k d where p: "p = (k, d)" by force
  from map_of_SomeD [OF Some] have mem: "(i, k, d) \<in> set (timers s)" by (simp add: p)
  note inv = cs_invD [OF assms]
  have ok: "timers_ok (timers s) (nextTimer s) (syncDebounceTimer s) (retryTimer s)"
    using inv(2) by (simp add: timers_inv_def)
  show ?thesis
  proof (cases k)
    case Debounce
    with mem have "timers_ok (drop_timer (Some i) (timers s)) (nextTimer s) (syncDebounceTimer s) (retryTimer s)"
      using timers_ok_fires [OF ok] by blast
    then have "cs_inv (flushSync (s\<lparr>timers := filter (\<lambda>x. fst x \<noteq> i) (timers s)\<rparr>))"
      using inv by (intro flushSync_inv) (simp_all add: base_inv_def timers_inv_def delay_inv_def syncs_inv_def drop_timer_def)
    with Debounce Some p show ?thesis by (simp add: timer_fires_def)
  next
    case Retry
    with mem timers_okD(3) [OF ok] have "retryTimer s = Some i" by auto
    with timers_ok_drop_retry [OF ok]
    have "timers_ok (filter (\<lambda>x. fst x \<noteq> i) (timers s)) (nextTimer s) (syncDebounceTimer s) None"
      by (simp add: drop_timer_def)
    then have "cs_inv (flushSync (s\<lparr>timers := filter (\<lambda>x. fst x \<noteq> i) (timers s), retryTimer := None\<rparr>))"
      using inv by (intro flushSync_inv) (simp_all add: base_inv_def timers_inv_def delay_inv_def syncs_inv_def)
    with Retry Some p show ?thesis by (simp add: timer_fires_def)
  qed
qed

lemma initializeCart_inv: "cs_inv s \<Longrightarrow> cs_inv (initializeCart st a s)"
  by (simp add: initializeCart_def cs_inv_def timers_inv_def delay_inv_def work_inv_def work_pending_def syncs_inv_def cart_contents_def)

lemma csApi_inv: "cs_inv s \<Longrightarrow> cs_inv (s\<lparr>csApi := a\<rparr>)"
  by (simp add: cs_inv_def timers_inv_def delay_inv_def work_inv_def work_pending_def syncs_inv_def cart_contents_def)

lemma cs_step_inv: "cs_inv s \<Longrightarrow> cs_inv (cs_step ev s)"
  by (cases ev) (simp_all add: addItem_inv removeItem_inv updateQuantity_inv resetCart_inv timer_fires_inv sync_settled_inv
      handleOnline_inv handleOffline_inv initializeCart_inv flushSync_inv csApi_inv destroy_inv cs_invD)

lemma new_CartService_inv: "cs_inv (new_CartService c a b)"
  by (simp add: new_CartService_def cs_inv_def timers_inv_def timers_ok_def delay_inv_def work_inv_def work_pending_def
      syncs_inv_def cart_contents_def BASE_RETRY_DELAY_MS_def MAX_RETRY_DELAY_MS_def)

interpretation cart_syncs: free_event_system cs_step cs_inv
  by unfold_locales (rule cs_step_inv)

section \<open>Properties\<close>

lemma destroyed_step: "destroyed s \<Longrightarrow> destroyed (cs_step ev s) \<and> sent (cs_step ev s) = sent s"
proof (cases ev)
  case (TimerFires i)
  moreover assume "destroyed s"
  ultimately show ?thesis
    by (auto simp: timer_fires_def flushSync_def Let_def split: option.splits timer_kind.splits)
qed (auto simp: cs_defs Let_def split: option.splits)

interpretation destroyed_service: free_event_system cs_step destroyed
  by unfold_locales (simp add: destroyed_step)

lemma destroyed_run: "destroyed s \<Longrightarrow> sent (fold cs_step evs s) = sent s"
  by (rule destroyed_service.frame) (simp_all add: destroyed_step)

lemma flushSync_sends:
  "isOnline s \<Longrightarrow> \<not> destroyed s \<Longrightarrow> sent (flushSync s) = sent s @ [cart_contents s]"
  by (simp add: flushSync_def clearTimeout_drop cart_contents_def Let_def)

lemma flushSync_synced:
  assumes "syncs_inv s" "isOnline s" "\<not> destroyed s"
  shows "synced (sync_settled (pendingSyncVersion (flushSync s)) True a (flushSync s)) = cart_contents s"
  using syncs_invD(3) [OF assms(1)] assms(2,3)
  by (simp add: sync_settled_def acknowledge_def flushSync_def clearTimeout_drop cart_contents_def Let_def)

definition no_reset :: "cs_event \<Rightarrow> bool" where
  "no_reset ev = (case ev of ResetCart _ _ _ \<Rightarrow> False | Initialized _ _ \<Rightarrow> False | _ \<Rightarrow> True)"

lemma cart_frame [simp]:
  "csCart (clearTimeout t s) = csCart s" "csCart (setTimeout k d s) = csCart s"
  "csCart (scheduleSync s) = csCart s" "csCart (cancelSync s) = csCart s"
  "csCart (flushSync s) = csCart s" "csCart (scheduleRetry s) = csCart s"
  "CartState.cartId (csCart (markDirty now s)) = CartState.cartId (csCart s)"
  by (simp_all add: cs_defs Let_def split: option.splits)

lemma proxy_id_step:
  "no_reset ev \<Longrightarrow> CartState.cartId (csCart (cs_step ev s)) = CartState.cartId (csCart s)"
  by (cases ev)
    (auto simp: no_reset_def cs_addItem_def cs_updateQuantity_def cs_removeItem_def set_lines_def
      timer_fires_def sync_settled_def handleOnline_def handleOffline_def destroy_def Let_def
      split: option.splits timer_kind.splits)

lemma proxy_id_run:
  "list_all no_reset evs \<Longrightarrow> CartState.cartId (csCart (fold cs_step evs s)) = CartState.cartId (csCart s)"
  by (induction evs arbitrary: s) (simp_all add: proxy_id_step)


definition sample_service :: CartService where
  "sample_service = new_CartService sample_cart (new_ApiCart ''k'' ''s'' ''c0'' ''u0'') True"


text \<open>
  The scheduler stays bounded and stops when destroyed. After any sequence of events at most
  one debounce and one retry timer are pending, each held by the service, and the retry delay lies
  between one and thirty seconds; once the service is destroyed, no later event of any kind makes
  it send another sync.
\<close>

theorem cart_service_bounded:
  "let s = fold cs_step evs (new_CartService c a b) in
   length (timers s) \<le> 2 \<and> 1000 \<le> retryDelay s \<and> retryDelay s \<le> 30000 \<and>
   sent (fold cs_step evs' (cs_step Destroy s)) = sent s"
proof -
  let ?s = "fold cs_step evs (new_CartService c a b)"
  have inv: "cs_inv ?s" by (rule cart_syncs.run [OF new_CartService_inv])
  have "length (timers ?s) \<le> 2"
    using cs_invD(2) [OF inv] unfolding timers_inv_def by (rule timers_ok_at_most_two)
  moreover have "1000 \<le> retryDelay ?s \<and> retryDelay ?s \<le> 30000"
    using cs_invD(3) [OF inv] by (simp add: delay_inv_def BASE_RETRY_DELAY_MS_def MAX_RETRY_DELAY_MS_def)
  moreover have "sent (fold cs_step evs' (cs_step Destroy ?s)) = sent ?s"
    using destroyed_run [of "destroy ?s" evs'] by (simp add: destroy_def)
  ultimately show ?thesis by (simp add: Let_def)
qed

text \<open>
  After a reset the proxy and the cart client name different carts. \<open>resetCart\<close> draws one
  identifier for the cart proxy and another for the cart client, and no later event short of
  another reset or initialisation reconciles them: whatever cart the client syncs to, the proxy
  keeps the identifier of its own, which is the one the workflow machine puts into the order.
\<close>

theorem reset_separates_cart_ids:
  assumes "proxyCart ids \<noteq> apiCart ids" and "list_all no_reset evs"
  shows "let s1 = cs_step (ResetCart k ids now) s; s2 = fold cs_step evs s1 in
    acCartId (csApi s1) = apiCart ids \<and> CartState.cartId (csCart s1) = proxyCart ids \<and>
    CartState.cartId (csCart s2) = proxyCart ids \<and>
    acCartId (csApi s1) \<noteq> CartState.cartId (csCart s2)"
  using assms proxy_id_run [OF assms(2), of "cs_resetCart k ids now s"]
  by (simp add: cs_resetCart_def resetCart_def reset_def Let_def)

theorem reset_separates_cart_ids_witness:
  "let ids = \<lparr>proxyCart = ''p'', proxySession = ''ps'', apiCart = ''q'', apiSession = ''qs''\<rparr>;
       s1 = cs_step (ResetCart ''k'' ids 0) sample_service in
   acCartId (csApi s1) = ''q'' \<and> CartState.cartId (csCart (fold cs_step [Online] s1)) = ''p''"
  using reset_separates_cart_ids [where ids = "\<lparr>proxyCart = ''p'', proxySession = ''ps'', apiCart = ''q'',
      apiSession = ''qs''\<rparr>" and evs = "[Online]" and k = "''k''" and now = 0 and s = sample_service]
  by (simp add: Let_def no_reset_def)

text \<open>
  The service changes the cart as the cart proxy's own functions do: the same lines, version
  and time stamps result from adding, removing and updating through the service as from
  \<open>addLineItem\<close>, \<open>removeLineItem\<close> and \<open>updateLineQuantity\<close>, so the service's carts refine the same
  map; every change that took effect is scheduled for a sync.
\<close>

theorem service_agrees_with_proxy:
  "csCart (cs_addItem i t now item s) = addLineItem i t now item (csCart s) \<and>
   csCart (cs_removeItem now i s) = removeLineItem now i (csCart s) \<and>
   csCart (cs_updateQuantity now i q s) = updateLineQuantity now i q (csCart s) \<and>
   (csCart (cs_updateQuantity now i q s) = csCart s \<or>
    (\<exists>j d. (j, Debounce, d) \<in> set (timers (cs_updateQuantity now i q s))))"
proof -
  have md: "csCart (markDirty now s) = touch now (csCart s)" for s by (simp add: markDirty_def)
  have timer: "\<exists>j d. (j, Debounce, d) \<in> set (timers (markDirty now s))" for s
    by (auto simp: markDirty_def scheduleSync_def setTimeout_def Let_def)
  have rm: "csCart (cs_removeItem now i s) = removeLineItem now i (csCart s)"
    by (cases "findIndex (\<lambda>l. lineId l = i) (lines (csCart s))"; simp only: cs_removeItem_def
        removeLineItem_def option.case md set_lines_def; simp)
  have up: "csCart (cs_updateQuantity now i q s) = updateLineQuantity now i q (csCart s)"
    by (simp add: cs_updateQuantity_def updateLineQuantity_def rm md set_lines_def split: option.splits)
  have "csCart (cs_updateQuantity now i q s) = csCart s \<or>
      (\<exists>j d. (j, Debounce, d) \<in> set (timers (cs_updateQuantity now i q s)))"
    using timer unfolding cs_updateQuantity_def cs_removeItem_def by (auto split: option.splits)
  with rm up show ?thesis by (simp add: cs_addItem_def addLineItem_def md set_lines_def)
qed

end
