(* ===== verification/JsJson.thy ===== *)
theory JsJson
  imports JsValues
begin

text \<open>
  \<open>JSON.stringify\<close> on the values of the model, as ECMAScript defines it without an indentation
  argument: strings are quoted and escaped, properties whose value is \<open>undefined\<close> are left out of
  objects, \<open>undefined\<close> elements of arrays become \<open>null\<close>. The decimal form of a number is a
  parameter, the language's own \<open>Number::toString\<close>.
\<close>

definition hex_digit :: "nat \<Rightarrow> char" where
  "hex_digit n = (if n < 10 then char_of (48 + n) else char_of (87 + n))"

definition escape_char :: "char \<Rightarrow> string" where
  "escape_char c =
     (let n = (of_char c :: nat) in
      if n = 34 then [CHR 0x5C, CHR 0x22]
      else if n = 92 then [CHR 0x5C, CHR 0x5C]
      else if n = 8 then [CHR 0x5C, CHR ''b'']
      else if n = 9 then [CHR 0x5C, CHR ''t'']
      else if n = 10 then [CHR 0x5C, CHR ''n'']
      else if n = 12 then [CHR 0x5C, CHR ''f'']
      else if n = 13 then [CHR 0x5C, CHR ''r'']
      else if n < 32 then [CHR 0x5C, CHR ''u'', CHR ''0'', CHR ''0'', hex_digit (n div 16), hex_digit (n mod 16)]
      else [c])"

definition quote :: "string \<Rightarrow> string" where
  "quote s = [CHR 0x22] @ concat (map escape_char s) @ [CHR 0x22]"

fun stringify_bytes :: "nat \<Rightarrow> nat list \<Rightarrow> string list" where
  "stringify_bytes i [] = []"
| "stringify_bytes i (b # bs) = (quote (nat_digits i) @ '':'' @ nat_digits b) # stringify_bytes (Suc i) bs"

definition json_element :: "string option \<Rightarrow> string" where
  "json_element v = (case v of None \<Rightarrow> ''null'' | Some s \<Rightarrow> s)"

definition json_members :: "(string \<times> string option) list \<Rightarrow> string list" where
  "json_members ps = map (\<lambda>(k, v). quote k @ '':'' @ json_element v) (filter (\<lambda>p. snd p \<noteq> None) ps)"

primrec stringify_opt :: "(rat \<Rightarrow> string) \<Rightarrow> jsval \<Rightarrow> string option" where
  "stringify_opt ns JUndefined = None"
| "stringify_opt ns JNull = Some ''null''"
| "stringify_opt ns (JBool b) = Some (if b then ''true'' else ''false'')"
| "stringify_opt ns (JNum q) = Some (ns q)"
| "stringify_opt ns (JStr s) = Some (quote s)"
| "stringify_opt ns (JArr vs) = Some (''['' @ join_with '','' (map json_element (map (stringify_opt ns) vs)) @ '']'')"
| "stringify_opt ns (JObj ps) =
     Some (''{'' @ join_with '','' (json_members (map (map_prod id (stringify_opt ns)) ps)) @ ''}'')"
| "stringify_opt ns (JBytes bs) = Some (''{'' @ join_with '','' (stringify_bytes 0 bs) @ ''}'')"

text \<open>On a value that is not \<open>undefined\<close> the result is a string.\<close>

definition stringify :: "(rat \<Rightarrow> string) \<Rightarrow> jsval \<Rightarrow> string" where
  "stringify ns v = (case stringify_opt ns v of None \<Rightarrow> ''undefined'' | Some s \<Rightarrow> s)"

end
