(* ===== verification/ApiClient.thy ===== *)
theory ApiClient
  imports JsJson KioskTypes
begin

text \<open>
  The HTTP client of \<open>apps/kiosk/src/state/apiClient.ts\<close> with its response cache and its table of
  requests in flight, and the retry policy of \<open>queryClient.ts\<close>. \<open>request\<close> is split at its
  \<open>await\<close>: \<open>request_start\<close> answers from the cache, joins a request in flight or sends a new one;
  \<open>request_settle\<close> runs when \<open>fetch\<close> has settled.
\<close>

section \<open>Configuration and cache\<close>

record RequestConfig =
  timeoutMs :: ms
  deduplicate :: bool
  cacheTtlMs :: ms

definition DEFAULT_CONFIG :: RequestConfig where
  "DEFAULT_CONFIG = \<lparr>timeoutMs = 10000, deduplicate = False, cacheTtlMs = 0\<rparr>"
definition READ_CONFIG :: RequestConfig where
  "READ_CONFIG = \<lparr>timeoutMs = 15000, deduplicate = True, cacheTtlMs = 30000\<rparr>"
definition MUTATE_CONFIG :: RequestConfig where
  "MUTATE_CONFIG = \<lparr>timeoutMs = 20000, deduplicate = False, cacheTtlMs = 0\<rparr>"
definition HEALTH_CONFIG :: RequestConfig where
  "HEALTH_CONFIG = \<lparr>timeoutMs = 5000, deduplicate = False, cacheTtlMs = 0\<rparr>"
definition MENU_CONFIG :: RequestConfig where
  "MENU_CONFIG = \<lparr>timeoutMs = 20000, deduplicate = True, cacheTtlMs = 60000\<rparr>"

record CacheEntry =
  cacheData :: jsval
  expiresAt :: ms

type_synonym cache = "(string, CacheEntry) js_map"

definition cacheKey :: "string \<Rightarrow> string \<Rightarrow> string option \<Rightarrow> string" where
  "cacheKey meth endpoint body =
     meth @ '':'' @ endpoint @
     (case body of None \<Rightarrow> [] | Some b \<Rightarrow> if b = [] then [] else '':'' @ b)"

definition getCached :: "ms \<Rightarrow> string \<Rightarrow> cache \<Rightarrow> jsval option \<times> cache" where
  "getCached now key m =
     (case map_of m key of
        None \<Rightarrow> (None, m)
      | Some e \<Rightarrow> if now > expiresAt e then (None, AList.delete key m) else (Some (cacheData e), m))"

definition setCache :: "ms \<Rightarrow> string \<Rightarrow> jsval \<Rightarrow> ms \<Rightarrow> cache \<Rightarrow> cache" where
  "setCache now key data ttl m =
     (if ttl \<le> 0 then m else AList.update key \<lparr>cacheData = data, expiresAt = now + ttl\<rparr> m)"

definition api_error :: "string \<Rightarrow> int \<Rightarrow> string \<Rightarrow> int option \<Rightarrow> thrown" where
  "api_error msg st code retryAfter =
     ThrownError \<lparr>errKind = ApiErr, errMessage = msg, errStatus = Some st, errCode = Some code,
       errRetryAfterMs = retryAfter\<rparr>"

section \<open>Requests\<close>

record Request =
  endpoint :: string
  method_opt :: "string option"
  bodyStr :: "string option"
  extraHeaders :: "(string \<times> string) list"
  config :: RequestConfig

record HttpRequest =
  url :: string
  httpMethod :: string
  headers :: "(string, string) js_map"
  httpBody :: "string option"

record Client =
  baseUrl :: string
  authToken :: "string option"
  responseCache :: cache
  inflightRequests :: "(string, nat) js_map"
  live :: "(nat \<times> Request) list"
  nextRequest :: nat

definition new_client :: "string option \<Rightarrow> string option \<Rightarrow> Client" where
  "new_client gatewayUrl jwt =
     \<lparr>baseUrl = (case gatewayUrl of None \<Rightarrow> ''http://localhost:8080'' | Some u \<Rightarrow> u), authToken = jwt,
      responseCache = [], inflightRequests = [], live = [], nextRequest = 0\<rparr>"

definition setAuthToken :: "string \<Rightarrow> Client \<Rightarrow> Client" where
  "setAuthToken t c = c\<lparr>authToken := Some t\<rparr>"

definition clearAuthToken :: "Client \<Rightarrow> Client" where
  "clearAuthToken c = c\<lparr>authToken := None\<rparr>"

definition request_method :: "Request \<Rightarrow> string" where
  "request_method r = to_upper (case method_opt r of None \<Rightarrow> ''GET'' | Some m \<Rightarrow> m)"

definition request_key :: "Request \<Rightarrow> string" where
  "request_key r = cacheKey (request_method r) (endpoint r) (bodyStr r)"

definition request_headers :: "Client \<Rightarrow> Request \<Rightarrow> (string, string) js_map" where
  "request_headers c r =
     (let base = [(''Content-Type'', ''application/json''), (''Accept-Encoding'', ''gzip, br'')];
          auth = (case authToken c of
                    None \<Rightarrow> base
                  | Some t \<Rightarrow> if t = [] then base else AList.update ''Authorization'' (''Bearer '' @ t) base)
      in foldl (\<lambda>h (k, v). AList.update k v h) auth (extraHeaders r))"

datatype started = FromCache jsval | Joined nat | Sent nat HttpRequest

definition request_start :: "ms \<Rightarrow> Request \<Rightarrow> Client \<Rightarrow> started \<times> Client" where
  "request_start now r c =
     (let ck = request_key r;
          (hit, m) = (if request_method r = ''GET'' \<and> cacheTtlMs (config r) > 0
                      then getCached now ck (responseCache c) else (None, responseCache c));
          c1 = c\<lparr>responseCache := m\<rparr>;
          send = (Sent (nextRequest c)
                    \<lparr>url = baseUrl c @ endpoint r, httpMethod = request_method r,
                     headers = request_headers c r, httpBody = bodyStr r\<rparr>,
                  c1\<lparr>nextRequest := nextRequest c + 1, live := (nextRequest c, r) # live c,
                     inflightRequests :=
                       (if deduplicate (config r) then AList.update ck (nextRequest c) (inflightRequests c)
                        else inflightRequests c)\<rparr>)
      in case hit of
           Some data \<Rightarrow> if truthy data then (FromCache data, c1)
             else (case (if deduplicate (config r) then map_of (inflightRequests c) ck else None) of
                     Some i \<Rightarrow> (Joined i, c1) | None \<Rightarrow> send)
         | None \<Rightarrow>
             (case (if deduplicate (config r) then map_of (inflightRequests c) ck else None) of
                Some i \<Rightarrow> (Joined i, c1) | None \<Rightarrow> send))"

text \<open>
  How \<open>fetch\<close> and the reading of its body end, which for an error status may fail too; its \<open>errorData\<close>
  is then \<open>{}\<close>. The code and the message of an error body are taken to be texts or absent. A \<open>Retry-After\<close> header that is not a number gives \<open>NaN\<close>, which is no hint, as
  \<open>undefined\<close> is none.
\<close>

datatype fetch_outcome =
    FetchOk "thrown + jsval"
  | FetchStatus int string "string option" "thrown + jsval"
  | FetchThrew thrown

definition nullish_str :: "jsval \<Rightarrow> string \<Rightarrow> string" where
  "nullish_str v dflt = (case v of JUndefined \<Rightarrow> dflt | JNull \<Rightarrow> dflt | _ \<Rightarrow> str_of v)"

definition num_opt :: "jsval \<Rightarrow> int option" where
  "num_opt v = (case v of JNum q \<Rightarrow> Some \<lfloor>q\<rfloor> | _ \<Rightarrow> None)"

definition error_of_response :: "int \<Rightarrow> string \<Rightarrow> string option \<Rightarrow> thrown + jsval \<Rightarrow> thrown" where
  "error_of_response st statusText retryAfterRaw body =
     (let errorData = (case body of Inl _ \<Rightarrow> JObj [] | Inr v \<Rightarrow> v) in
      if errorData = JNull then
        ThrownError ((mk_error ''Cannot read properties of null (reading 'code')'')\<lparr>errKind := TypeErr\<rparr>)
      else
        api_error
          (nullish_str (getProp errorData ''message'')
             (''API request failed: '' @ int_digits st @ '' '' @ statusText))
          st
          (nullish_str (getProp errorData ''code'') ''UNKNOWN_ERROR'')
          (case retryAfterRaw of
             Some raw \<Rightarrow> if raw = [] then num_opt (getProp errorData ''retryAfterMs'')
                         else map_option (\<lambda>n. n * 1000) (parseInt 10 raw)
           | None \<Rightarrow> num_opt (getProp errorData ''retryAfterMs'')))"

definition is_timeout_exception :: "thrown \<Rightarrow> bool" where
  "is_timeout_exception e = (case e of ThrownError err \<Rightarrow> errKind err = DomErr ''TimeoutError'' | _ \<Rightarrow> False)"

definition request_error :: "Request \<Rightarrow> thrown \<Rightarrow> thrown" where
  "request_error r e =
     (if is_timeout_exception e then
        api_error (''Request timed out after '' @ int_digits (timeoutMs (config r)) @ ''ms: '' @
          request_method r @ '' '' @ endpoint r) 0 ''TIMEOUT'' None
      else e)"

definition request_settle :: "ms \<Rightarrow> nat \<Rightarrow> Request \<Rightarrow> fetch_outcome \<Rightarrow> Client \<Rightarrow> (thrown + jsval) \<times> Client" where
  "request_settle now i r outcome c =
     (let ck = request_key r;
          c1 = c\<lparr>live := filter (\<lambda>x. fst x \<noteq> i) (live c),
                 inflightRequests := (if deduplicate (config r) then AList.delete ck (inflightRequests c)
                                      else inflightRequests c)\<rparr>
      in case outcome of
           FetchOk (Inr data) \<Rightarrow>
             (Inr data, c1\<lparr>responseCache := (if cacheTtlMs (config r) > 0
                                             then setCache now ck data (cacheTtlMs (config r)) (responseCache c)
                                             else responseCache c)\<rparr>)
         | FetchOk (Inl e) \<Rightarrow> (Inl (request_error r e), c1)
         | FetchStatus st txt ra body \<Rightarrow> (Inl (request_error r (error_of_response st txt ra body)), c1)
         | FetchThrew e \<Rightarrow> (Inl (request_error r e), c1))"

section \<open>Endpoints\<close>

definition get_request :: "string \<Rightarrow> RequestConfig \<Rightarrow> Request" where
  "get_request path cfg =
     \<lparr>endpoint = path, method_opt = None, bodyStr = None, extraHeaders = [], config = cfg\<rparr>"

definition send_request :: "(rat \<Rightarrow> string) \<Rightarrow> string \<Rightarrow> string \<Rightarrow> (string \<times> jsval) list \<Rightarrow> RequestConfig \<Rightarrow> Request" where
  "send_request ns meth path body cfg =
     \<lparr>endpoint = path, method_opt = Some meth, bodyStr = Some (stringify ns (JObj body)),
      extraHeaders = [], config = cfg\<rparr>"

definition opt_str :: "string option \<Rightarrow> jsval" where
  "opt_str s = (case s of None \<Rightarrow> JUndefined | Some x \<Rightarrow> JStr x)"

definition opt_int :: "int option \<Rightarrow> jsval" where
  "opt_int s = (case s of None \<Rightarrow> JUndefined | Some x \<Rightarrow> JNum (of_int x))"

definition JInt :: "int \<Rightarrow> jsval" where
  "JInt n = JNum (of_int n)"

fun payment_method_name :: "PaymentMethod \<Rightarrow> string" where
  "payment_method_name credit_debit = ''credit_debit''"
| "payment_method_name nfc_apple_pay = ''nfc_apple_pay''"
| "payment_method_name nfc_google_pay = ''nfc_google_pay''"
| "payment_method_name qr_code = ''qr_code''"
| "payment_method_name cash_recycler = ''cash_recycler''"

definition checkHealth_req :: Request where
  "checkHealth_req = get_request ''/health'' HEALTH_CONFIG"

definition getMenuCatalog_req :: Request where
  "getMenuCatalog_req = get_request ''/v1/menu'' MENU_CONFIG"

definition getCart_req :: "string \<Rightarrow> Request" where
  "getCart_req cid = get_request (''/v1/carts/'' @ cid) READ_CONFIG"

definition createCart_req :: "(rat \<Rightarrow> string) \<Rightarrow> string \<Rightarrow> string \<Rightarrow> string \<Rightarrow> string option \<Rightarrow> Request" where
  "createCart_req ns sid kid sess phone =
     send_request ns ''POST'' ''/v1/carts''
       [(''storeId'', JStr sid), (''kioskId'', JStr kid), (''sessionId'', JStr sess), (''customerPhone'', opt_str phone)]
       MUTATE_CONFIG"

definition proto_modifier :: "ModifierSelection \<Rightarrow> jsval" where
  "proto_modifier m =
     JObj [(''modifierOptionId'', JStr (ModifierSelection.modifierId m)),
           (''optionId'', JStr (ModifierSelection.optionId m)),
           (''priceDeltaCentsSnapshot'', JInt (ModifierSelection.priceDeltaCents m))]"

text \<open>The name, the price, the notes and the weight of the arguments are not sent.\<close>

definition addItemToCart_req ::
  "(rat \<Rightarrow> string) \<Rightarrow> string \<Rightarrow> string \<Rightarrow> string \<Rightarrow> cents \<Rightarrow> int \<Rightarrow> ModifierSelection list \<Rightarrow> string option \<Rightarrow> int option \<Rightarrow> Request" where
  "addItemToCart_req ns cid menuItem nm unitPrice q mods nts grams =
     send_request ns ''POST'' (''/v1/carts/'' @ cid @ ''/items'')
       [(''menuItemId'', JStr menuItem), (''quantity'', JInt q), (''modifiers'', JArr (map proto_modifier mods))]
       MUTATE_CONFIG"

definition updateCart_req :: "(rat \<Rightarrow> string) \<Rightarrow> string \<Rightarrow> (string \<times> jsval) list \<Rightarrow> Request" where
  "updateCart_req ns cid updates = send_request ns ''PUT'' (''/v1/carts/'' @ cid) updates MUTATE_CONFIG"

definition PAYMENT_REQUEST_CONFIG :: RequestConfig where
  "PAYMENT_REQUEST_CONFIG = \<lparr>timeoutMs = 30000, deduplicate = False, cacheTtlMs = 0\<rparr>"

definition checkoutCart_req :: "(rat \<Rightarrow> string) \<Rightarrow> string \<Rightarrow> PaymentMethod \<Rightarrow> string \<Rightarrow> Request" where
  "checkoutCart_req ns cid pm cur =
     send_request ns ''POST'' (''/v1/carts/'' @ cid @ ''/checkout'')
       [(''method'', JStr (payment_method_name pm)), (''currency'', JStr cur)] PAYMENT_REQUEST_CONFIG"

definition processPayment_req :: "(rat \<Rightarrow> string) \<Rightarrow> string \<Rightarrow> string \<Rightarrow> cents \<Rightarrow> string \<Rightarrow> PaymentMethod \<Rightarrow> Request" where
  "processPayment_req ns cid intent amount cur pm =
     send_request ns ''POST'' ''/v1/payments''
       [(''cartId'', JStr cid), (''paymentIntentId'', JStr intent), (''amountCents'', JInt amount),
        (''currency'', JStr cur), (''method'', JStr (payment_method_name pm))] PAYMENT_REQUEST_CONFIG"

definition getOrder_req :: "string \<Rightarrow> Request" where
  "getOrder_req oid = get_request (''/v1/orders/'' @ oid) READ_CONFIG"

definition createOrder_req :: "(rat \<Rightarrow> string) \<Rightarrow> string \<Rightarrow> string \<Rightarrow> Request" where
  "createOrder_req ns cid pid =
     send_request ns ''POST'' ''/v1/orders'' [(''cartId'', JStr cid), (''paymentId'', JStr pid)] MUTATE_CONFIG"

definition HEARTBEAT_CONFIG :: RequestConfig where
  "HEARTBEAT_CONFIG = \<lparr>timeoutMs = 5000, deduplicate = True, cacheTtlMs = 0\<rparr>"

definition sendKioskHeartbeat_req ::
  "(rat \<Rightarrow> string) \<Rightarrow> string \<Rightarrow> string \<Rightarrow> string \<Rightarrow> int option \<Rightarrow> int option \<Rightarrow> Request" where
  "sendKioskHeartbeat_req ns kid sid st peers depth =
     send_request ns ''POST'' (''/v1/kiosks/'' @ kid @ ''/heartbeat'')
       [(''kioskId'', JStr kid), (''storeId'', JStr sid), (''syncStatus'', JStr st),
        (''peerCount'', opt_int peers), (''queueDepth'', opt_int depth)] HEARTBEAT_CONFIG"

definition getAnnouncements_req :: Request where
  "getAnnouncements_req = get_request ''/v1/announcements'' READ_CONFIG"

definition adminLogin_req :: "(rat \<Rightarrow> string) \<Rightarrow> string \<Rightarrow> string \<Rightarrow> Request" where
  "adminLogin_req ns user pw =
     send_request ns ''POST'' ''/v1/admin/auth/login'' [(''username'', JStr user), (''password'', JStr pw)] MUTATE_CONFIG"

definition getAdminDashboard_req :: Request where
  "getAdminDashboard_req = get_request ''/v1/admin/dashboard'' READ_CONFIG"

definition p2pSync_req :: "(rat \<Rightarrow> string) \<Rightarrow> string \<Rightarrow> string \<Rightarrow> jsval list \<Rightarrow> (string \<times> int) list \<Rightarrow> Request" where
  "p2pSync_req ns kid sid events vc =
     send_request ns ''POST'' ''/v1/p2p/sync''
       [(''kioskId'', JStr kid), (''storeId'', JStr sid), (''events'', JArr events),
        (''vectorClock'', JObj (map (\<lambda>(k, n). (k, JInt n)) vc))] MUTATE_CONFIG"

definition getDebugInfo_req :: Request where
  "getDebugInfo_req = get_request ''/v1/debug/info'' READ_CONFIG"

text \<open>\<open>getMenuCatalog\<close> falls back to the built-in menu in development.\<close>

definition getMenuCatalog :: "bool \<Rightarrow> jsval \<Rightarrow> thrown + jsval \<Rightarrow> thrown + jsval" where
  "getMenuCatalog isDev mockMenuResponse outcome =
     (case outcome of Inr v \<Rightarrow> Inr v | Inl e \<Rightarrow> if \<not> isDev then Inl e else Inr mockMenuResponse)"

section \<open>Query retries\<close>

definition query_shouldRetry :: "nat \<Rightarrow> js_error \<Rightarrow> bool" where
  "query_shouldRetry failureCount error =
     (if failureCount \<ge> 3 then False
      else if errKind error = ApiErr then
        (if errStatus error = Some 429 \<and> errRetryAfterMs error \<noteq> None \<and> errRetryAfterMs error \<noteq> Some 0 then True
         else if errStatus error = Some 0 then True
         else if (case errStatus error of None \<Rightarrow> False | Some st \<Rightarrow> st < 500) then False
         else True)
      else True)"

definition query_retryDelay :: "nat \<Rightarrow> ms" where
  "query_retryDelay failureCount = min (1000 * 2 ^ failureCount) 15000"

section \<open>Runs of the client\<close>

datatype client_event = Start ms Request | Settle ms nat fetch_outcome

fun client_step :: "client_event \<Rightarrow> Client \<Rightarrow> Client" where
  "client_step (Start now r) c = snd (request_start now r c)"
| "client_step (Settle now i outcome) c =
     (case map_of (live c) i of None \<Rightarrow> c | Some r \<Rightarrow> snd (request_settle now i r outcome c))"

definition client_inv :: "Client \<Rightarrow> bool" where
  "client_inv c \<longleftrightarrow>
     distinct (map fst (live c)) \<and>
     (\<forall>(i, r) \<in> set (live c). i < nextRequest c \<and>
        (deduplicate (config r) \<longrightarrow> map_of (inflightRequests c) (request_key r) = Some i)) \<and>
     (\<forall>k i. map_of (inflightRequests c) k = Some i \<longrightarrow>
        (\<exists>r. (i, r) \<in> set (live c) \<and> deduplicate (config r) \<and> request_key r = k))"

text \<open>The three ways \<open>request_start\<close> can go, and what it changes.\<close>

definition dedup_hit :: "Request \<Rightarrow> Client \<Rightarrow> nat option" where
  "dedup_hit r c = (if deduplicate (config r) then map_of (inflightRequests c) (request_key r) else None)"

definition cache_lookup :: "ms \<Rightarrow> Request \<Rightarrow> Client \<Rightarrow> jsval option \<times> cache" where
  "cache_lookup now r c =
     (if request_method r = ''GET'' \<and> cacheTtlMs (config r) > 0
      then getCached now (request_key r) (responseCache c) else (None, responseCache c))"

definition cache_hit :: "ms \<Rightarrow> Request \<Rightarrow> Client \<Rightarrow> jsval option" where
  "cache_hit now r c = (case fst (cache_lookup now r c) of None \<Rightarrow> None | Some d \<Rightarrow> if truthy d then Some d else None)"

definition sent_request :: "Request \<Rightarrow> Client \<Rightarrow> started" where
  "sent_request r c =
     Sent (nextRequest c)
       \<lparr>url = baseUrl c @ endpoint r, httpMethod = request_method r, headers = request_headers c r,
        httpBody = bodyStr r\<rparr>"

definition after_send :: "Request \<Rightarrow> Client \<Rightarrow> Client" where
  "after_send r c =
     c\<lparr>nextRequest := nextRequest c + 1, live := (nextRequest c, r) # live c,
       inflightRequests :=
         (if deduplicate (config r) then AList.update (request_key r) (nextRequest c) (inflightRequests c)
          else inflightRequests c)\<rparr>"

lemma request_start_cases:
  "request_start now r c =
     (let c1 = c\<lparr>responseCache := snd (cache_lookup now r c)\<rparr> in
      case cache_hit now r c of
        Some d \<Rightarrow> (FromCache d, c1)
      | None \<Rightarrow> (case dedup_hit r c of Some i \<Rightarrow> (Joined i, c1) | None \<Rightarrow> (sent_request r c, after_send r c1)))"
  by (simp add: request_start_def cache_hit_def cache_lookup_def dedup_hit_def sent_request_def
      after_send_def Let_def split: prod.splits option.splits)

lemma client_inv_cache: "client_inv (c\<lparr>responseCache := m\<rparr>) = client_inv c"
  by (simp add: client_inv_def)

lemma client_invD:
  assumes "client_inv c"
  shows "distinct (map fst (live c))" "(i, r) \<in> set (live c) \<Longrightarrow> i < nextRequest c"
    "(i, r) \<in> set (live c) \<Longrightarrow> deduplicate (config r) \<Longrightarrow> map_of (inflightRequests c) (request_key r) = Some i"
    "map_of (inflightRequests c) k = Some i \<Longrightarrow>
       \<exists>r. (i, r) \<in> set (live c) \<and> deduplicate (config r) \<and> request_key r = k"
  using assms unfolding client_inv_def by blast+

lemma client_invI:
  assumes "distinct (map fst (live c))" "\<And>i r. (i, r) \<in> set (live c) \<Longrightarrow> i < nextRequest c"
    "\<And>i r. (i, r) \<in> set (live c) \<Longrightarrow> deduplicate (config r) \<Longrightarrow>
       map_of (inflightRequests c) (request_key r) = Some i"
    "\<And>k i. map_of (inflightRequests c) k = Some i \<Longrightarrow>
       \<exists>r. (i, r) \<in> set (live c) \<and> deduplicate (config r) \<and> request_key r = k"
  shows "client_inv c"
  using assms unfolding client_inv_def by blast

lemma after_send_inv:
  assumes inv: "client_inv c" and none: "dedup_hit r c = None"
  shows "client_inv (after_send r c)"
proof (rule client_invI)
  have fresh: "nextRequest c \<notin> fst ` set (live c)" using client_invD(2) [OF inv] by fastforce
  then show "distinct (map fst (live (after_send r c)))"
    using client_invD(1) [OF inv] by (simp add: after_send_def)
  show "i < nextRequest (after_send r c)" if "(i, q) \<in> set (live (after_send r c))" for i q
    using that client_invD(2) [OF inv] by (auto simp: after_send_def less_Suc_eq)
  show "map_of (inflightRequests (after_send r c)) (request_key q) = Some i"
    if "(i, q) \<in> set (live (after_send r c))" "deduplicate (config q)" for i q
  proof (cases "(i, q) \<in> set (live c)")
    case True
    then have "map_of (inflightRequests c) (request_key q) = Some i"
      using client_invD(3) [OF inv] that(2) by blast
    moreover from this none have "deduplicate (config r) \<Longrightarrow> request_key q \<noteq> request_key r"
      by (auto simp: dedup_hit_def)
    ultimately show ?thesis by (simp add: after_send_def update_conv')
  next
    case False
    with that show ?thesis by (auto simp: after_send_def update_conv')
  qed
  show "\<exists>q. (i, q) \<in> set (live (after_send r c)) \<and> deduplicate (config q) \<and> request_key q = k"
    if "map_of (inflightRequests (after_send r c)) k = Some i" for k i
    using that client_invD(4) [OF inv, of k i]
    by (auto simp: after_send_def update_conv' split: if_splits)
qed

lemma request_start_inv: "client_inv c \<Longrightarrow> client_inv (snd (request_start now r c))"
  unfolding request_start_cases
  by (auto simp: Let_def client_inv_cache dedup_hit_def intro!: after_send_inv split: option.splits)

lemma request_settle_state:
  "live (snd (request_settle now i r oc c)) = filter (\<lambda>x. fst x \<noteq> i) (live c)"
  "inflightRequests (snd (request_settle now i r oc c)) =
     (if deduplicate (config r) then AList.delete (request_key r) (inflightRequests c) else inflightRequests c)"
  "nextRequest (snd (request_settle now i r oc c)) = nextRequest c"
  by (simp_all add: request_settle_def Let_def split: fetch_outcome.splits sum.splits)

lemma request_settle_inv:
  assumes inv: "client_inv c" and r: "map_of (live c) i = Some r"
  shows "client_inv (snd (request_settle now i r oc c))" (is "client_inv ?c'")
proof (rule client_invI)
  from r have mem: "(i, r) \<in> set (live c)" by (rule map_of_SomeD)
  have uniq: "q = r" if "(i, q) \<in> set (live c)" for q
    using that mem client_invD(1) [OF inv] by (meson eq_key_imp_eq_value)
  show "distinct (map fst (live ?c'))"
    using client_invD(1) [OF inv] by (simp add: request_settle_state distinct_map_filter)
  show "j < nextRequest ?c'" if "(j, q) \<in> set (live ?c')" for j q
    using that client_invD(2) [OF inv] by (auto simp: request_settle_state)
  show "map_of (inflightRequests ?c') (request_key q) = Some j"
    if q: "(j, q) \<in> set (live ?c')" "deduplicate (config q)" for j q
  proof -
    from q have j: "(j, q) \<in> set (live c)" "j \<noteq> i" by (auto simp: request_settle_state)
    have "map_of (inflightRequests c) (request_key q) = Some j" by (rule client_invD(3) [OF inv j(1) q(2)])
    moreover have "deduplicate (config r) \<Longrightarrow> request_key q \<noteq> request_key r"
      using client_invD(3) [OF inv mem] j calculation by auto
    ultimately show ?thesis by (simp add: request_settle_state delete_conv')
  qed
  show "\<exists>q. (j, q) \<in> set (live ?c') \<and> deduplicate (config q) \<and> request_key q = k"
    if k: "map_of (inflightRequests ?c') k = Some j" for k j
  proof -
    from k have "map_of (inflightRequests c) k = Some j" "deduplicate (config r) \<Longrightarrow> k \<noteq> request_key r"
      by (auto simp: request_settle_state delete_conv' split: if_splits)
    with client_invD(4) [OF inv] obtain q where
      q: "(j, q) \<in> set (live c)" "deduplicate (config q)" "request_key q = k" by blast
    moreover have "j \<noteq> i" using uniq q \<open>deduplicate (config r) \<Longrightarrow> _\<close> by auto
    ultimately show ?thesis by (auto simp: request_settle_state)
  qed
qed

lemma client_step_inv: "client_inv c \<Longrightarrow> client_inv (client_step e c)"
  by (cases e) (simp_all add: request_start_inv request_settle_inv split: option.splits)

interpretation clients: free_event_system client_step client_inv
  by unfold_locales (rule client_step_inv)

lemma new_client_inv: "client_inv (new_client u t)"
  by (simp add: new_client_def client_inv_def)

lemma cache_hit_Some:
  assumes "cache_hit now r c = Some d"
  shows "request_method r = ''GET''" "cacheTtlMs (config r) > 0" "truthy d"
    "\<exists>e. map_of (responseCache c) (request_key r) = Some e \<and> cacheData e = d \<and> now \<le> expiresAt e"
  using assms
  by (auto simp: cache_hit_def cache_lookup_def getCached_def split: if_splits option.splits)

lemma cache_hit_stored:
  assumes "map_of (responseCache c) (request_key r) = Some e" and "request_method r = ''GET''"
    and "cacheTtlMs (config r) > 0" and "truthy (cacheData e)"
  shows "cache_hit now r c = (if now \<le> expiresAt e then Some (cacheData e) else None)"
  using assms by (simp add: cache_hit_def cache_lookup_def getCached_def)

lemma fst_request_start:
  "fst (request_start now r c) =
     (case cache_hit now r c of
        Some d \<Rightarrow> FromCache d
      | None \<Rightarrow> (case dedup_hit r c of Some i \<Rightarrow> Joined i | None \<Rightarrow> sent_request r c))"
  unfolding request_start_cases by (simp add: Let_def split: option.splits)

lemma settle_cache:
  "responseCache (snd (request_settle now i r oc c)) =
     (case oc of
        FetchOk (Inr d) \<Rightarrow> if cacheTtlMs (config r) > 0
                           then setCache now (request_key r) d (cacheTtlMs (config r)) (responseCache c)
                           else responseCache c
      | _ \<Rightarrow> responseCache c)"
  by (simp add: request_settle_def Let_def split: fetch_outcome.splits sum.splits)

lemma start_cache_other:
  "k \<noteq> request_key r \<Longrightarrow> map_of (responseCache (snd (request_start now r c))) k = map_of (responseCache c) k"
  unfolding request_start_cases
  by (auto simp: Let_def cache_lookup_def getCached_def after_send_def delete_conv' split: option.splits)

section \<open>Properties\<close>

text \<open>
  C19. Identical reads share one fetch. After any sequence of requests and responses, at most one
  deduplicated request per key is on the wire; a caller that joins gets the promise of a request
  that is still running and has its own key (method, path and body), never that of a settled one;
  and a caller is told to wait only when such a request exists, otherwise its own is sent.
\<close>

theorem requests_deduplicated:
  fixes es u t
  defines "c \<equiv> fold client_step es (new_client u t)"
  shows "(\<forall>i j q r. (i, q) \<in> set (live c) \<and> (j, r) \<in> set (live c) \<and> deduplicate (config q) \<and>
        deduplicate (config r) \<and> request_key q = request_key r \<longrightarrow> i = j) \<and>
    (\<forall>now r i. fst (request_start now r c) = Joined i \<longrightarrow>
        (\<exists>q. (i, q) \<in> set (live c) \<and> request_key q = request_key r \<and> deduplicate (config q))) \<and>
    (\<forall>now r. deduplicate (config r) \<and> (\<forall>d. fst (request_start now r c) \<noteq> FromCache d) \<and>
        (\<exists>(i, q) \<in> set (live c). request_key q = request_key r \<and> deduplicate (config q)) \<longrightarrow>
        (\<exists>i. fst (request_start now r c) = Joined i))"
proof -
  have inv: "client_inv c" unfolding c_def by (rule clients.run [OF new_client_inv])
  have one: "i = j" if "(i, q) \<in> set (live c)" "(j, r) \<in> set (live c)" "deduplicate (config q)"
    "deduplicate (config r)" "request_key q = request_key r" for i j q r
    using client_invD(3) [OF inv that(1,3)] client_invD(3) [OF inv that(2,4)] that(5) by simp
  have join: "\<exists>q. (i, q) \<in> set (live c) \<and> request_key q = request_key r \<and> deduplicate (config q)"
    if "fst (request_start now r c) = Joined i" for now r i
    using that client_invD(4) [OF inv, of "request_key r" i]
    by (auto simp: fst_request_start dedup_hit_def sent_request_def split: option.splits if_splits)
  have wait: "\<exists>i. fst (request_start now r c) = Joined i"
    if "deduplicate (config r)" "\<forall>d. fst (request_start now r c) \<noteq> FromCache d"
      "(i, q) \<in> set (live c)" "request_key q = request_key r" "deduplicate (config q)" for now r i q
    using that client_invD(3) [OF inv that(3,5)]
    by (auto simp: fst_request_start dedup_hit_def split: option.splits)
  from one join wait show ?thesis by blast
qed

definition menu_requested :: Client where
  "menu_requested = fold client_step [Start 0 getMenuCatalog_req] (new_client None None)"

lemma menu_requested_state:
  "live menu_requested = [(0, getMenuCatalog_req)]" "responseCache menu_requested = []"
  by (simp_all add: menu_requested_def request_start_cases cache_hit_def cache_lookup_def getCached_def
      dedup_hit_def new_client_def after_send_def Let_def)

theorem requests_deduplicated_witness:
  "fst (request_start 5 getMenuCatalog_req menu_requested) = Joined 0 \<and> length (live menu_requested) = 1"
proof -
  note req = requests_deduplicated [of "[Start 0 getMenuCatalog_req]" None None, folded menu_requested_def]
  have d: "deduplicate (config getMenuCatalog_req)"
    by (simp add: getMenuCatalog_req_def get_request_def MENU_CONFIG_def)
  have "\<forall>d. fst (request_start 5 getMenuCatalog_req menu_requested) \<noteq> FromCache d"
    by (simp add: fst_request_start cache_hit_def cache_lookup_def getCached_def menu_requested_state
        sent_request_def split: option.splits)
  moreover have "\<exists>(i, q) \<in> set (live menu_requested).
      request_key q = request_key getMenuCatalog_req \<and> deduplicate (config q)"
    using d by (simp add: menu_requested_state)
  ultimately obtain i where i: "fst (request_start 5 getMenuCatalog_req menu_requested) = Joined i"
    using req d by blast
  with req have "\<exists>q. (i, q) \<in> set (live menu_requested)" by blast
  then have "i = 0" by (simp add: menu_requested_state)
  with i show ?thesis by (simp add: menu_requested_state)
qed

text \<open>
  The response cache answers only fresh reads. A request is answered from the cache only if its
  method is \<open>GET\<close>, its configuration allows caching, and the entry under its own key has not
  expired; a response stored at time \<open>t\<close> is served until \<open>t\<close> plus its time to live and not a
  millisecond longer; failures are never stored.
\<close>

theorem cache_serves_fresh_reads:
  "(fst (request_start now r c) = FromCache d \<longrightarrow>
      request_method r = ''GET'' \<and> cacheTtlMs (config r) > 0 \<and>
      (\<exists>e. map_of (responseCache c) (request_key r) = Some e \<and> cacheData e = d \<and> now \<le> expiresAt e)) \<and>
   (request_method r = ''GET'' \<and> cacheTtlMs (config r) > 0 \<and> truthy v \<longrightarrow>
      (let c' = snd (request_settle t i r (FetchOk (Inr v)) c) in
       fst (request_start now r c') = FromCache v \<longleftrightarrow> now \<le> t + cacheTtlMs (config r))) \<and>
   (\<forall>e. fst (request_settle t i r oc c) = Inl e \<longrightarrow>
      responseCache (snd (request_settle t i r oc c)) = responseCache c)"
proof -
  have "request_method r = ''GET'' \<and> cacheTtlMs (config r) > 0 \<and>
      (\<exists>e. map_of (responseCache c) (request_key r) = Some e \<and> cacheData e = d \<and> now \<le> expiresAt e)"
    if "fst (request_start now r c) = FromCache d"
    using that cache_hit_Some [of now r c d]
    by (auto simp: fst_request_start sent_request_def split: option.splits)
  moreover have "fst (request_start now r (snd (request_settle t i r (FetchOk (Inr v)) c))) = FromCache v \<longleftrightarrow>
      now \<le> t + cacheTtlMs (config r)"
    if "request_method r = ''GET''" "cacheTtlMs (config r) > 0" "truthy v"
  proof -
    let ?c = "snd (request_settle t i r (FetchOk (Inr v)) c)"
    have "map_of (responseCache ?c) (request_key r) = Some \<lparr>cacheData = v, expiresAt = t + cacheTtlMs (config r)\<rparr>"
      using that(2) by (simp add: settle_cache setCache_def update_conv')
    from cache_hit_stored [OF this that(1,2), of now] that(3) show ?thesis
      by (auto simp: fst_request_start sent_request_def split: option.splits)
  qed
  moreover have "fst (request_settle t i r oc c) = Inl e \<Longrightarrow>
      responseCache (snd (request_settle t i r oc c)) = responseCache c" for e
    by (simp add: settle_cache request_settle_def Let_def split: fetch_outcome.splits sum.splits)
  ultimately show ?thesis by (simp add: Let_def)
qed

theorem cache_serves_fresh_reads_witness:
  "fst (request_start 60000 getMenuCatalog_req
     (snd (request_settle 0 0 getMenuCatalog_req (FetchOk (Inr (JStr ''m''))) (new_client None None)))) =
   FromCache (JStr ''m'')"
  using cache_serves_fresh_reads [where r = getMenuCatalog_req and v = "JStr ''m''" and t = 0 and i = 0
      and c = "new_client None None" and now = 60000]
  by (simp add: Let_def getMenuCatalog_req_def get_request_def MENU_CONFIG_def request_method_def to_upper_def)

text \<open>
  A mutation does not invalidate the cached cart: within 30 seconds of a successful
  \<open>getCart\<close>, the same call after a successful \<open>addItemToCart\<close> returns the cart from before the
  addition, without asking the server; the read at the end of the cart client's \<open>updateCart\<close> is
  such a call.
\<close>

theorem getCart_stale_after_addItem:
  assumes "truthy old" and "t \<le> now" and "now \<le> t + 30000"
  shows "let c1 = snd (request_settle t i (getCart_req cid) (FetchOk (Inr old)) c);
             add = addItemToCart_req ns cid m nm p q mods nts g;
             c2 = snd (request_start t' add c1);
             c3 = snd (request_settle t'' j add (FetchOk (Inr new)) c2)
         in fst (request_start now (getCart_req cid) c3) = FromCache old"
proof -
  let ?g = "getCart_req cid" and ?add = "addItemToCart_req ns cid m nm p q mods nts g"
  let ?c1 = "snd (request_settle t i ?g (FetchOk (Inr old)) c)"
  let ?c2 = "snd (request_start t' ?add ?c1)"
  let ?c3 = "snd (request_settle t'' j ?add (FetchOk (Inr new)) ?c2)"
  have g: "request_method ?g = ''GET''" "cacheTtlMs (config ?g) = 30000"
    by (simp_all add: getCart_req_def get_request_def READ_CONFIG_def request_method_def to_upper_def)
  have ttl: "cacheTtlMs (config ?add) = 0"
    by (simp add: addItemToCart_req_def send_request_def MUTATE_CONFIG_def)
  have "hd (request_key ?g) = CHR ''G''" "hd (request_key ?add) = CHR ''P''"
    by (simp_all add: request_key_def cacheKey_def request_method_def to_upper_def getCart_req_def
        get_request_def addItemToCart_req_def send_request_def)
  then have key: "request_key ?g \<noteq> request_key ?add" by auto
  have "map_of (responseCache ?c3) (request_key ?g) = Some \<lparr>cacheData = old, expiresAt = t + 30000\<rparr>"
    using start_cache_other [OF key, of t' ?c1] by (simp add: settle_cache ttl g setCache_def update_conv')
  from cache_hit_stored [OF this g(1), of now] g(2) assms show ?thesis
    by (simp add: Let_def fst_request_start)
qed

theorem getCart_stale_after_addItem_witness:
  "let c1 = snd (request_settle 0 0 (getCart_req ''x'') (FetchOk (Inr (JStr ''old''))) (new_client None None));
       add = addItemToCart_req (\<lambda>_. ''1'') ''x'' ''m'' ''Tea'' 250 1 [] None None;
       c2 = snd (request_start 5 add c1);
       c3 = snd (request_settle 9 1 add (FetchOk (Inr (JStr ''new''))) c2)
   in fst (request_start 10 (getCart_req ''x'') c3) = FromCache (JStr ''old'')"
  by (rule getCart_stale_after_addItem) simp_all

text \<open>A text of an error body, or what stands for it when it is absent.\<close>

definition text_or_default :: "jsval \<Rightarrow> string \<Rightarrow> string \<Rightarrow> bool" where
  "text_or_default v dflt s \<longleftrightarrow> v = JStr s \<or> (v = JUndefined \<or> v = JNull) \<and> s = dflt"

text \<open>The hint: the header in seconds when it is not empty, else the field of the body in milliseconds.\<close>

definition retry_hint :: "string option \<Rightarrow> jsval \<Rightarrow> int option \<Rightarrow> bool" where
  "retry_hint raw field hint \<longleftrightarrow>
     (case raw of
        Some (c # cs) \<Rightarrow> (case parseInt 10 (c # cs) of Some n \<Rightarrow> hint = Some (n * 1000) | None \<Rightarrow> hint = None)
      | _ \<Rightarrow> (\<exists>n. field = JNum (of_int n) \<and> hint = Some n) \<or> (field = JUndefined \<or> field = JNull) \<and> hint = None)"



end
