(* ===== verification/UpdateManifest.thy ===== *)
theory UpdateManifest
  imports JsJson "HOL-Library.Word" "HOL-Library.Multiset"
begin

text \<open>
  The data of the over-the-air updates of \<open>apps/kiosk/src/updater\<close>: \<open>types.ts\<close>, the checks of
  \<open>manifest.ts\<close>, the canonical form, checksums and byte comparison of \<open>crypto.ts\<close>, and the version
  comparison of \<open>updater.ts\<close>. The signature scheme, the hash and the base64 decoder of the
  platform are parameters. Bytes are 8-bit words.
\<close>

section \<open>Types\<close>

record Artifact =
  artUrl :: string
  checksum :: string
  platforms :: "string list"

text \<open>\<open>releasedAt\<close> and \<open>rollout\<close> are not checked at run time and stay raw JSON.\<close>

record Manifest =
  manVersion :: string
  channel :: string
  releasedAt :: jsval
  artifacts :: "(string \<times> Artifact) list"
  rollout :: jsval
  signature :: string

datatype UpdateState =
  U_idle | U_checking | U_downloading | U_pending | U_applying | U_healthy | U_rolled_back

section \<open>Shape of a fetched manifest\<close>

definition validateManifestShape :: "jsval \<Rightarrow> thrown + unit" where
  "validateManifestShape data =
     (if \<not> typeof_object data \<or> data = JNull then Inl (new_Error ''manifest is not an object'')
      else if \<not> is_str (getProp data ''version'') \<or> getProp data ''version'' = JStr [] then
        Inl (new_Error ''manifest.version is required'')
      else if \<not> is_str (getProp data ''channel'') then Inl (new_Error ''manifest.channel is required'')
      else if \<not> is_str (getProp data ''signature'') \<or> getProp data ''signature'' = JStr [] then
        Inl (new_Error ''manifest.signature is required'')
      else if \<not> typeof_object (getProp data ''artifacts'') \<or> getProp data ''artifacts'' = JNull then
        Inl (new_Error ''manifest.artifacts is required'')
      else Inr ())"

datatype manifest_response = ManifestStatus int string | ManifestBody "thrown + jsval" | ManifestThrew thrown

definition fetchManifest :: "manifest_response \<Rightarrow> thrown + jsval" where
  "fetchManifest resp =
     (case resp of
        ManifestThrew e \<Rightarrow> Inl e
      | ManifestStatus st txt \<Rightarrow> Inl (new_Error (''manifest fetch failed: '' @ int_digits st @ '' '' @ txt))
      | ManifestBody (Inl e) \<Rightarrow> Inl e
      | ManifestBody (Inr data) \<Rightarrow> (case validateManifestShape data of Inl e \<Rightarrow> Inl e | Inr _ \<Rightarrow> Inr data))"

section \<open>Canonical form\<close>

text \<open>
  \<open>Object.keys(...).sort()\<close> on the artifacts. Artifact names are not array indices, so that the
  objects enumerate their properties in insertion order.
\<close>

definition artifact_json :: "Artifact \<Rightarrow> jsval" where
  "artifact_json a =
     JObj [(''url'', JStr (artUrl a)), (''checksum'', JStr (checksum a)),
           (''platforms'', JArr (map JStr (sort (platforms a))))]"

definition sortedArtifacts :: "(string \<times> Artifact) list \<Rightarrow> (string \<times> jsval) list" where
  "sortedArtifacts as =
     List.map_filter (\<lambda>n. map_option (\<lambda>a. (n, artifact_json a)) (map_of as n)) (sort (map fst as))"

definition canonicalizeManifest :: "(rat \<Rightarrow> string) \<Rightarrow> Manifest \<Rightarrow> string" where
  "canonicalizeManifest ns m =
     stringify ns (JObj [(''version'', JStr (manVersion m)), (''channel'', JStr (channel m)),
       (''releasedAt'', releasedAt m), (''artifacts'', JObj (sortedArtifacts (artifacts m))),
       (''rollout'', rollout m)])"

section \<open>Checksums\<close>

unbundle bit_operations_syntax

text \<open>A number stored into a \<open>Uint8Array\<close>: reduced modulo 256, \<open>NaN\<close> as 0.\<close>

definition to_uint8 :: "int option \<Rightarrow> 8 word" where
  "to_uint8 v = (case v of None \<Rightarrow> 0 | Some n \<Rightarrow> word_of_int n)"

fun hex_bytes :: "string \<Rightarrow> 8 word list" where
  "hex_bytes (c # d # cs) = to_uint8 (parseInt 16 [c, d]) # hex_bytes cs"
| "hex_bytes _ = []"

definition parseChecksum :: "string \<Rightarrow> thrown + (string \<times> 8 word list)" where
  "parseChecksum cs =
     (case split_on CHR '':'' cs of
        [algorithmPart, hex] \<Rightarrow>
          if length hex mod 2 \<noteq> 0 then
            Inl (new_Error (''invalid checksum hex length: '' @ nat_digits (length hex)))
          else Inr (to_lower algorithmPart, hex_bytes hex)
      | _ \<Rightarrow> Inl (new_Error (''invalid checksum format: '' @ cs)))"

fun diff_loop :: "8 word \<Rightarrow> 8 word list \<Rightarrow> 8 word list \<Rightarrow> 8 word" where
  "diff_loop diff (a # as) (b # bs) = diff_loop (diff OR (a XOR b)) as bs"
| "diff_loop diff _ _ = diff"

definition constantTimeEqual :: "8 word list \<Rightarrow> 8 word list \<Rightarrow> bool" where
  "constantTimeEqual a b \<longleftrightarrow> (if length a \<noteq> length b then False else diff_loop 0 a b = 0)"

definition SUPPORTED_ALGORITHMS :: "string list" where
  "SUPPORTED_ALGORITHMS = [''sha256'']"

definition verifyBlobChecksum :: "(8 word list \<Rightarrow> 8 word list) \<Rightarrow> 8 word list \<Rightarrow> string \<Rightarrow> thrown + bool" where
  "verifyBlobChecksum sha256 blob expected =
     (case parseChecksum expected of
        Inl e \<Rightarrow> Inl e
      | Inr (algorithm, hash) \<Rightarrow>
          if algorithm \<notin> set SUPPORTED_ALGORITHMS then
            Inl (new_Error (''unsupported checksum algorithm: '' @ algorithm))
          else Inr (constantTimeEqual (sha256 blob) hash))"

datatype download_response = DownloadStatus int string | DownloadBody "8 word list" | DownloadThrew thrown

definition downloadAndVerifyArtifact ::
  "(8 word list \<Rightarrow> 8 word list) \<Rightarrow> Artifact \<Rightarrow> download_response \<Rightarrow> thrown + 8 word list" where
  "downloadAndVerifyArtifact sha256 artifact resp =
     (case resp of
        DownloadThrew e \<Rightarrow> Inl e
      | DownloadStatus st txt \<Rightarrow> Inl (new_Error (''artifact download failed: '' @ int_digits st @ '' '' @ txt))
      | DownloadBody blob \<Rightarrow>
          (case verifyBlobChecksum sha256 blob (checksum artifact) of
             Inl e \<Rightarrow> Inl e
           | Inr valid \<Rightarrow> if \<not> valid then Inl (new_Error ''artifact checksum mismatch'') else Inr blob))"

text \<open>
  The signature check: \<open>atob\<close> decodes the signature (or throws), \<open>utf8\<close> encodes the message,
  \<open>verify\<close> is Ed25519; any exception means \<open>false\<close>.
\<close>

record crypto =
  atob :: "string \<Rightarrow> 8 word list option"
  utf8 :: "string \<Rightarrow> 8 word list"
  verify :: "8 word list \<Rightarrow> 8 word list \<Rightarrow> 8 word list \<Rightarrow> bool option"
  sha256 :: "8 word list \<Rightarrow> 8 word list"
  numStr :: "rat \<Rightarrow> string"

definition verifyManifestSignature :: "crypto \<Rightarrow> Manifest \<Rightarrow> 8 word list \<Rightarrow> bool" where
  "verifyManifestSignature cr m publicKey =
     (case atob cr (signature m) of
        None \<Rightarrow> False
      | Some sig \<Rightarrow>
          (case verify cr sig (utf8 cr (canonicalizeManifest (numStr cr) m)) publicKey of
             None \<Rightarrow> False | Some b \<Rightarrow> b))"

section \<open>Versions\<close>

text \<open>JavaScript numbers as far as a version segment can denote them.\<close>

datatype js_number = NaN | MInfinity | Fin int | PInfinity

fun num_less :: "js_number \<Rightarrow> js_number \<Rightarrow> bool" where
  "num_less NaN _ = False"
| "num_less _ NaN = False"
| "num_less (Fin a) (Fin b) = (a < b)"
| "num_less MInfinity b = (b \<noteq> MInfinity)"
| "num_less a PInfinity = (a \<noteq> PInfinity)"
| "num_less _ _ = False"

datatype segment = SegNum int | SegStr string

text \<open>\<open>Number(s)\<close> of a string that \<open>parseInt\<close> does not read: blank, infinite, or \<open>NaN\<close>.\<close>

definition seg_number :: "segment \<Rightarrow> js_number" where
  "seg_number g =
     (case g of
        SegNum n \<Rightarrow> Fin n
      | SegStr s \<Rightarrow>
          if trim s = [] then Fin 0
          else if trim s = ''Infinity'' \<or> trim s = ''+Infinity'' then PInfinity
          else if trim s = ''-Infinity'' then MInfinity
          else NaN)"

text \<open>The operator \<open><\<close>: strings by code unit, otherwise as numbers.\<close>

definition seg_less :: "segment \<Rightarrow> segment \<Rightarrow> bool" where
  "seg_less a b =
     (case (a, b) of (SegStr s, SegStr t) \<Rightarrow> s < t | _ \<Rightarrow> num_less (seg_number a) (seg_number b))"

definition normalize_version :: "string \<Rightarrow> segment list" where
  "normalize_version v =
     map (\<lambda>part. case parseInt 10 part of None \<Rightarrow> SegStr part | Some n \<Rightarrow> SegNum n)
       (split_on CHR ''.''
         (case v of c # cs \<Rightarrow> if c = CHR ''v'' \<or> c = CHR ''V'' then cs else v | [] \<Rightarrow> []))"

definition at_or_zero :: "segment list \<Rightarrow> nat \<Rightarrow> segment" where
  "at_or_zero xs i = (if i < length xs then xs ! i else SegNum 0)"

fun compare_loop :: "segment list \<Rightarrow> segment list \<Rightarrow> nat list \<Rightarrow> int" where
  "compare_loop a b [] = 0"
| "compare_loop a b (i # is) =
     (if seg_less (at_or_zero a i) (at_or_zero b i) then -1
      else if seg_less (at_or_zero b i) (at_or_zero a i) then 1
      else compare_loop a b is)"

definition compareVersions :: "string \<Rightarrow> string \<Rightarrow> int" where
  "compareVersions current next =
     (let a = normalize_version current; b = normalize_version next in
      compare_loop a b [0..<max (length a) (length b)])"

section \<open>Lemmas\<close>

lemma diff_loop_zero:
  "length as = length bs \<Longrightarrow> diff_loop d as bs = 0 \<longleftrightarrow> d = 0 \<and> as = bs"
proof (induction as bs arbitrary: d rule: list_induct2)
  case (Cons a as b bs)
  have "d OR (a XOR b) = 0 \<longleftrightarrow> d = 0 \<and> a = b"
    by (simp add: or_eq_0_iff) (auto simp: bit_eq_iff bit_xor_iff)
  with Cons show ?case by auto
qed simp

lemma constantTimeEqual_iff: "constantTimeEqual a b \<longleftrightarrow> a = b"
  by (auto simp: constantTimeEqual_def diff_loop_zero)

text \<open>The hexadecimal text of bytes, as checksums are written.\<close>

definition hex_of :: "8 word list \<Rightarrow> string" where
  "hex_of bs = concat (map (\<lambda>b. [hex_digit (unat b div 16), hex_digit (unat b mod 16)]) bs)"

lemma hex_digits_checked:
  "list_all (\<lambda>n. is_hex (hex_digit n) \<and> hex_val (hex_digit n) = n \<and> \<not> is_space (hex_digit n) \<and>
     hex_digit n \<notin> set ''-+xX:'') [0..<16]"
  by code_simp

lemma hex_digit_facts:
  assumes "n < 16"
  shows "is_hex (hex_digit n)" "hex_val (hex_digit n) = n" "\<not> is_space (hex_digit n)"
    "hex_digit n \<noteq> CHR ''-''" "hex_digit n \<noteq> CHR ''+''" "hex_digit n \<noteq> CHR ''x''" "hex_digit n \<noteq> CHR ''X''"
    "hex_digit n \<noteq> CHR '':''"
  using hex_digits_checked assms by (auto simp: list_all_iff)

lemma parse_hex_byte:
  assumes "a < 16" "b < 16"
  shows "parseInt 16 [hex_digit a, hex_digit b] = Some (int (16 * a + b))"
  using hex_digit_facts [OF assms(1)] hex_digit_facts [OF assms(2)]
  by (simp add: parseInt_def parse_unsigned_def radix_digit_def digits_value_def)

lemma hex_bytes_hex_of: "hex_bytes (hex_of bs) = bs"
proof (induction bs)
  case (Cons b bs)
  have "unat b < 256" using unsigned_less [of b, where ?'a = nat] by simp
  then have "unat b div 16 < 16" "unat b mod 16 < 16" by auto
  then have "parseInt 16 [hex_digit (unat b div 16), hex_digit (unat b mod 16)] = Some (int (unat b))"
    using parse_hex_byte [of "unat b div 16" "unat b mod 16"] by (simp only: mult_div_mod_eq)
  with Cons show ?case by (simp add: hex_of_def to_uint8_def)
qed (simp add: hex_of_def)

lemma length_hex_of: "length (hex_of bs) = 2 * length bs"
  by (induction bs) (simp_all add: hex_of_def)

lemma colon_notin_hex: "CHR '':'' \<notin> set (hex_of bs)"
proof -
  have "hex_digit (unat b div 16) \<noteq> CHR '':'' \<and> hex_digit (unat b mod 16) \<noteq> CHR '':''" for b :: "8 word"
  proof -
    have "unat b < 256" using unsigned_less [of b, where ?'a = nat] by simp
    then have "unat b div 16 < 16" "unat b mod 16 < 16" by auto
    then show ?thesis using hex_digit_facts(8) by blast
  qed
  then show ?thesis by (fastforce simp: hex_of_def dest: sym)
qed

lemma split_on_notin: "sep \<notin> set s \<Longrightarrow> split_on sep s = [s]"
  by (induction s) auto

lemma split_on_append: "sep \<notin> set s \<Longrightarrow> split_on sep (s @ sep # t) = s # split_on sep t"
  by (induction s) auto

lemma parseChecksum_hex: "parseChecksum (''sha256:'' @ hex_of bs) = Inr (''sha256'', bs)"
proof -
  have "split_on CHR '':'' (''sha256'' @ CHR '':'' # hex_of bs) = [''sha256'', hex_of bs]"
    using colon_notin_hex by (subst split_on_append) (simp_all add: split_on_notin)
  moreover have "to_lower ''sha256'' = ''sha256''" by (simp add: to_lower_def less_eq_char_def)
  ultimately show ?thesis by (simp add: parseChecksum_def length_hex_of hex_bytes_hex_of)
qed

subsection \<open>Canonical form\<close>

lemma sort_mset_eq: "mset xs = mset ys \<Longrightarrow> sort xs = sort ys"
  by (metis properties_for_sort sorted_sort mset_sort)

definition same_artifact :: "Artifact \<Rightarrow> Artifact \<Rightarrow> bool" where
  "same_artifact a b \<longleftrightarrow> artUrl a = artUrl b \<and> checksum a = checksum b \<and> mset (platforms a) = mset (platforms b)"

lemma artifact_json_same: "same_artifact a b \<Longrightarrow> artifact_json a = artifact_json b"
  by (auto simp: same_artifact_def artifact_json_def dest: sort_mset_eq)

lemma sortedArtifacts_same:
  assumes "mset (map fst as) = mset (map fst bs)"
    and "\<And>n. rel_option same_artifact (map_of as n) (map_of bs n)"
  shows "sortedArtifacts as = sortedArtifacts bs"
proof -
  have "map_option (\<lambda>a. (n, artifact_json a)) (map_of as n) = map_option (\<lambda>a. (n, artifact_json a)) (map_of bs n)" for n
    using assms(2) [of n] by (cases rule: option.rel_cases) (auto simp: artifact_json_same)
  with sort_mset_eq [OF assms(1)] show ?thesis by (simp add: sortedArtifacts_def)
qed

subsection \<open>Version order\<close>

fun numeric :: "segment \<Rightarrow> bool" where
  "numeric (SegNum _) = True"
| "numeric (SegStr _) = False"

fun seg_int :: "segment \<Rightarrow> int" where
  "seg_int (SegNum n) = n"
| "seg_int (SegStr _) = 0"

lemma seg_less_numeric: "numeric a \<Longrightarrow> numeric b \<Longrightarrow> seg_less a b \<longleftrightarrow> seg_int a < seg_int b"
  by (cases a; cases b) (simp_all add: seg_less_def seg_number_def)

lemma at_or_zero_numeric: "list_all numeric xs \<Longrightarrow> numeric (at_or_zero xs i)"
  by (simp add: at_or_zero_def list_all_length)

lemma compare_loop_equal:
  assumes "list_all numeric a" "list_all numeric b"
  shows "compare_loop a b is = 0 \<longleftrightarrow> (\<forall>i \<in> set is. seg_int (at_or_zero a i) = seg_int (at_or_zero b i))"
  using assms by (induction "is") (auto simp: seg_less_numeric at_or_zero_numeric)

text \<open>The comparison as a lexicographic order on the padded integer sequences.\<close>

definition lex_sign :: "int list \<Rightarrow> int list \<Rightarrow> int" where
  "lex_sign xs ys = (if xs = ys then 0 else if xs < ys then -1 else 1)"

lemma compare_loop_lex:
  assumes "list_all numeric a" "list_all numeric b"
  shows "compare_loop a b is =
    lex_sign (map (seg_int \<circ> at_or_zero a) is) (map (seg_int \<circ> at_or_zero b) is)"
  using assms by (induction "is") (auto simp: seg_less_numeric at_or_zero_numeric lex_sign_def)

lemma lex_sign_append: "length xs = length ys \<Longrightarrow> lex_sign (xs @ zs) (ys @ zs) = lex_sign xs ys"
  by (induction xs ys rule: list_induct2) (auto simp: lex_sign_def split: if_splits)

definition padded :: "nat \<Rightarrow> string \<Rightarrow> int list" where
  "padded n v = map (seg_int \<circ> at_or_zero (normalize_version v)) [0..<n]"

definition numeric_version :: "string \<Rightarrow> bool" where
  "numeric_version v \<longleftrightarrow> list_all numeric (normalize_version v)"

lemma compareVersions_padded:
  assumes "numeric_version u" "numeric_version v"
    and "max (length (normalize_version u)) (length (normalize_version v)) \<le> n"
  shows "compareVersions u v = lex_sign (padded n u) (padded n v)"
proof -
  let ?m = "max (length (normalize_version u)) (length (normalize_version v))"
  have "compareVersions u v = lex_sign (padded ?m u) (padded ?m v)"
    using assms(1,2) by (simp add: compareVersions_def Let_def compare_loop_lex numeric_version_def padded_def)
  moreover have "padded n w = padded ?m w @ replicate (n - ?m) 0" if "w = u \<or> w = v" for w
  proof -
    have "[0..<n] = [0..<?m] @ [?m..<n]" using assms(3) using upt_add_eq_append [of 0 ?m "n - ?m"] by simp
    moreover have "map (seg_int \<circ> at_or_zero (normalize_version w)) [?m..<n] = replicate (n - ?m) 0"
      using that by (intro nth_equalityI) (auto simp: at_or_zero_def)
    ultimately show ?thesis by (simp add: padded_def)
  qed
  moreover have "length (padded ?m u) = length (padded ?m v)" by (simp add: padded_def)
  then have "lex_sign (padded ?m u @ zs) (padded ?m v @ zs) = lex_sign (padded ?m u) (padded ?m v)" for zs
    by (rule lex_sign_append)
  ultimately show ?thesis by simp
qed

section \<open>Properties\<close>

text \<open>
  C33. An artifact is accepted exactly when its hash is the one in the manifest. For a checksum
  written \<open>sha256:\<close> followed by the hexadecimal digits of a hash (the round trip of
  \<open>parseChecksum\<close>), the check answers whether the blob's digest is that hash, the constant-time
  comparison being equality of byte sequences; a download is returned only if it passed the check,
  whatever the form of the checksum, and every other branch is an error.
\<close>

theorem artifact_accepted_iff_hash_matches:
  "parseChecksum (''sha256:'' @ hex_of h) = Inr (''sha256'', h) \<and>
   verifyBlobChecksum sha blob (''sha256:'' @ hex_of h) = Inr (sha blob = h) \<and>
   (constantTimeEqual a b \<longleftrightarrow> a = b) \<and>
   (downloadAndVerifyArtifact sha art resp = Inr blob \<longleftrightarrow>
      resp = DownloadBody blob \<and> parseChecksum (checksum art) = Inr (''sha256'', sha blob))"
proof -
  note p = parseChecksum_hex [of h]
  have "verifyBlobChecksum sha blob (''sha256:'' @ hex_of h) = Inr (sha blob = h)"
    unfolding verifyBlobChecksum_def p by (simp add: SUPPORTED_ALGORITHMS_def constantTimeEqual_iff)
  moreover have "downloadAndVerifyArtifact sha art resp = Inr blob \<longleftrightarrow>
      resp = DownloadBody blob \<and> parseChecksum (checksum art) = Inr (''sha256'', sha blob)"
    by (auto simp: verifyBlobChecksum_def SUPPORTED_ALGORITHMS_def constantTimeEqual_iff
        downloadAndVerifyArtifact_def split: download_response.splits sum.splits prod.splits if_splits)
  ultimately show ?thesis using p constantTimeEqual_iff by blast
qed

text \<open>
  The signature does not depend on how the server orders its JSON: two manifests with the same
  fields whose artifacts are listed in another order, and whose platform lists are permuted, have
  the same canonical form, so one is accepted under a key if and only if the other is.
\<close>

theorem signature_independent_of_order:
  assumes "manVersion m = manVersion m'" "channel m = channel m'" "releasedAt m = releasedAt m'"
    "rollout m = rollout m'" "signature m = signature m'"
    and "mset (map fst (artifacts m)) = mset (map fst (artifacts m'))"
    and "\<And>n. rel_option same_artifact (map_of (artifacts m) n) (map_of (artifacts m') n)"
  shows "canonicalizeManifest ns m = canonicalizeManifest ns m' \<and>
    verifyManifestSignature cr m key = verifyManifestSignature cr m' key"
proof -
  have eq: "canonicalizeManifest ns m = canonicalizeManifest ns m'" for ns
    using sortedArtifacts_same [OF assms(6,7)] assms(1-4) by (simp add: canonicalizeManifest_def)
  then show ?thesis unfolding verifyManifestSignature_def assms(5) eq by simp
qed

definition sample_artifact :: "string list \<Rightarrow> Artifact" where
  "sample_artifact ps = \<lparr>artUrl = ''u'', checksum = ''sha256:00'', platforms = ps\<rparr>"

definition sample_manifest :: "(string \<times> Artifact) list \<Rightarrow> Manifest" where
  "sample_manifest as =
     \<lparr>manVersion = ''v1.2.0'', channel = ''stable'', releasedAt = JStr ''2024'', artifacts = as,
      rollout = JObj [(''healthCheckSeconds'', JNum 30)], signature = ''s''\<rparr>"

theorem signature_independent_of_order_witness:
  "canonicalizeManifest (\<lambda>_. ''30'') (sample_manifest [(''b'', sample_artifact [''x'', ''y'']), (''a'', sample_artifact [''any''])]) =
   canonicalizeManifest (\<lambda>_. ''30'') (sample_manifest [(''a'', sample_artifact [''any'']), (''b'', sample_artifact [''y'', ''x''])])"
proof -
  let ?m = "sample_manifest [(''b'', sample_artifact [''x'', ''y'']), (''a'', sample_artifact [''any''])]"
  let ?n = "sample_manifest [(''a'', sample_artifact [''any'']), (''b'', sample_artifact [''y'', ''x''])]"
  have "canonicalizeManifest (\<lambda>_. ''30'') ?m = canonicalizeManifest (\<lambda>_. ''30'') ?n \<and>
      verifyManifestSignature cr ?m [] = verifyManifestSignature cr ?n []" for cr
    by (rule signature_independent_of_order)
      (auto simp: sample_manifest_def sample_artifact_def same_artifact_def)
  then show ?thesis by blast
qed

text \<open>
  On versions made of numbers, \<open>compareVersions\<close> is a total preorder: it is the lexicographic
  comparison of the number sequences padded with zeros. It is 0 exactly for equal padded
  sequences, changes sign when its arguments are swapped, and is transitive; and it is negative
  when the second argument, the candidate, is the newer one.
\<close>

theorem compareVersions_numeric_order:
  assumes "numeric_version u" "numeric_version v" "numeric_version w"
  shows "compareVersions u v \<in> {-1, 0, 1} \<and> compareVersions v u = - compareVersions u v \<and>
    compareVersions u u = 0 \<and>
    (compareVersions u v \<le> 0 \<and> compareVersions v w \<le> 0 \<longrightarrow> compareVersions u w \<le> 0) \<and>
    (compareVersions u v < 0 \<and> compareVersions v w \<le> 0 \<longrightarrow> compareVersions u w < 0) \<and>
    (let n = max (length (normalize_version u)) (length (normalize_version v)) in
      (compareVersions u v < 0 \<longleftrightarrow> padded n u < padded n v) \<and>
      (compareVersions u v = 0 \<longleftrightarrow> padded n u = padded n v))"
proof -
  define n where "n = max (length (normalize_version u)) (max (length (normalize_version v)) (length (normalize_version w)))"
  have eq: "compareVersions x y = lex_sign (padded n x) (padded n y)" if "x \<in> {u, v, w}" "y \<in> {u, v, w}" for x y
    by (rule compareVersions_padded) (use assms that in \<open>auto simp: n_def\<close>)
  let ?k = "max (length (normalize_version u)) (length (normalize_version v))"
  have "compareVersions u v = lex_sign (padded ?k u) (padded ?k v)"
    by (rule compareVersions_padded) (use assms in auto)
  then have "(compareVersions u v < 0 \<longleftrightarrow> padded ?k u < padded ?k v) \<and>
      (compareVersions u v = 0 \<longleftrightarrow> padded ?k u = padded ?k v)"
    by (auto simp: lex_sign_def)
  then show ?thesis unfolding Let_def by (auto simp: eq lex_sign_def split: if_splits)
qed

theorem compareVersions_numeric_order_witness:
  "compareVersions ''v1.2.0'' ''1.10'' < 0 \<and> compareVersions ''1.10'' ''v1.2.0'' = - compareVersions ''v1.2.0'' ''1.10''"
proof -
  have "numeric_version ''v1.2.0''" "numeric_version ''1.10''" "compareVersions ''v1.2.0'' ''1.10'' = -1" by code_simp+
  with compareVersions_numeric_order [of "''v1.2.0''" "''1.10''" "''1.10''"] show ?thesis by simp
qed

text \<open>
  With a non-numeric segment it is no order. A number and a word are neither less nor greater,
  so a word equals every number while words differ among themselves, and the suffix of a
  pre-release is dropped: an update from a pre-release to its release is never offered.
\<close>

theorem compareVersions_mixed_not_transitive:
  "compareVersions ''1.a'' ''1.5'' = 0 \<and> compareVersions ''1.5'' ''1.b'' = 0 \<and>
   compareVersions ''1.a'' ''1.b'' = -1 \<and> compareVersions ''1.2.3-beta'' ''1.2.3'' = 0"
  by code_simp

end
