(* ===== verification/Updater.thy ===== *)
theory Updater
  imports UpdateManifest
begin

text \<open>
  The updater of \<open>apps/kiosk/src/updater/updater.ts\<close> as a state machine. \<open>check\<close> and
  \<open>applyWhenIdle\<close> are cut at their \<open>await\<close>s; each running call is a numbered continuation, so that
  calls may overlap as the code allows. The callbacks \<open>onApply\<close> and \<open>onRollback\<close> are recorded in
  the order in which they are called.
\<close>

section \<open>State\<close>

record UpdaterConfig =
  publicKey :: "8 word list"
  platform :: string
  artifactName :: string
  hasHealthCheck :: bool

datatype check_phase =
    AwaitManifest
  | AwaitSignature Manifest Artifact
  | AwaitDownload Manifest Artifact

datatype callback = OnApply Manifest "8 word list" | OnRollback string

text \<open>\<open>timers\<close> holds the pending health checks with the version to roll back to and the delay.\<close>

record Updater =
  currentVersion :: string
  ustate :: UpdateState
  pendingManifest :: "Manifest option"
  pendingBlob :: "8 word list option"
  polling :: bool
  rollbackTimer :: "nat option"
  checks :: "(nat \<times> check_phase) list"
  applies :: "(nat \<times> string \<times> Manifest) list"
  timers :: "(nat \<times> string \<times> rat) list"
  calls :: "callback list"
  nextId :: nat

definition new_Updater :: "string \<Rightarrow> Updater" where
  "new_Updater v =
     \<lparr>currentVersion = v, ustate = U_idle, pendingManifest = None, pendingBlob = None, polling = False,
      rollbackTimer = None, checks = [], applies = [], timers = [], calls = [], nextId = 1\<rparr>"

definition selectArtifact :: "UpdaterConfig \<Rightarrow> Manifest \<Rightarrow> Artifact option" where
  "selectArtifact cfg m =
     (case map_of (artifacts m) (artifactName cfg) of
        None \<Rightarrow> None
      | Some a \<Rightarrow> if platform cfg \<in> set (platforms a) \<or> ''any'' \<in> set (platforms a) then Some a else None)"

section \<open>Checking for updates\<close>

definition setState :: "UpdateState \<Rightarrow> Updater \<Rightarrow> Updater" where
  "setState st u = u\<lparr>ustate := st\<rparr>"

definition drop_check :: "nat \<Rightarrow> Updater \<Rightarrow> Updater" where
  "drop_check i u = u\<lparr>checks := filter (\<lambda>x. fst x \<noteq> i) (checks u)\<rparr>"

definition put_check :: "nat \<Rightarrow> check_phase \<Rightarrow> Updater \<Rightarrow> Updater" where
  "put_check i p u = (drop_check i u)\<lparr>checks := (i, p) # checks (drop_check i u)\<rparr>"

definition check :: "Updater \<Rightarrow> Updater" where
  "check u =
     (if ustate u = U_checking \<or> ustate u = U_downloading then u
      else (put_check (nextId u) AwaitManifest (setState U_checking u))\<lparr>nextId := nextId u + 1\<rparr>)"

definition check_failed :: "nat \<Rightarrow> Updater \<Rightarrow> Updater" where
  "check_failed i u = setState U_idle (drop_check i u)"

definition manifest_fetched :: "UpdaterConfig \<Rightarrow> nat \<Rightarrow> thrown + Manifest \<Rightarrow> Updater \<Rightarrow> Updater" where
  "manifest_fetched cfg i resp u =
     (case resp of
        Inl _ \<Rightarrow> check_failed i u
      | Inr m \<Rightarrow>
          if compareVersions (currentVersion u) (manVersion m) \<ge> 0 then setState U_idle (drop_check i u)
          else (case selectArtifact cfg m of
                  None \<Rightarrow> check_failed i u
                | Some a \<Rightarrow> put_check i (AwaitSignature m a) u))"

definition signature_checked :: "crypto \<Rightarrow> UpdaterConfig \<Rightarrow> nat \<Rightarrow> Manifest \<Rightarrow> Artifact \<Rightarrow> Updater \<Rightarrow> Updater" where
  "signature_checked cr cfg i m a u =
     (if \<not> verifyManifestSignature cr m (publicKey cfg) then check_failed i u
      else put_check i (AwaitDownload m a) (setState U_downloading u))"

definition artifact_downloaded :: "crypto \<Rightarrow> nat \<Rightarrow> Manifest \<Rightarrow> Artifact \<Rightarrow> download_response \<Rightarrow> Updater \<Rightarrow> Updater" where
  "artifact_downloaded cr i m a resp u =
     (case downloadAndVerifyArtifact (sha256 cr) a resp of
        Inl _ \<Rightarrow> check_failed i u
      | Inr blob \<Rightarrow>
          setState U_pending ((drop_check i u)\<lparr>pendingManifest := Some m, pendingBlob := Some blob\<rparr>))"

section \<open>Applying\<close>

definition applyWhenIdle :: "Updater \<Rightarrow> Updater" where
  "applyWhenIdle u =
     (case (pendingManifest u, pendingBlob u) of
        (Some m, Some blob) \<Rightarrow>
          if ustate u \<noteq> U_pending then u
          else (setState U_applying u)
                 \<lparr>calls := calls u @ [OnApply m blob],
                  applies := (nextId u, currentVersion u, m) # applies u, nextId := nextId u + 1\<rparr>
      | _ \<Rightarrow> u)"

text \<open>
  \<open>manifest.rollout.healthCheckSeconds\<close>: reading a property of \<open>undefined\<close> or \<open>null\<close> throws; a value
  that is not a number makes the delay \<open>NaN\<close>, with which the timer fires at once.
\<close>

definition health_seconds :: "Manifest \<Rightarrow> rat option" where
  "health_seconds m =
     (if rollout m = JUndefined \<or> rollout m = JNull then None
      else Some (case getProp (rollout m) ''healthCheckSeconds'' of JNum q \<Rightarrow> q | _ \<Rightarrow> 0))"

definition scheduleRollbackCheck :: "UpdaterConfig \<Rightarrow> string \<Rightarrow> rat \<Rightarrow> Updater \<Rightarrow> Updater" where
  "scheduleRollbackCheck cfg prev secs u =
     (let delaySeconds = (if hasHealthCheck cfg then max 0 secs else 300)
      in u\<lparr>timers := (nextId u, prev, delaySeconds * 1000) # timers u, rollbackTimer := Some (nextId u),
           nextId := nextId u + 1\<rparr>)"

definition apply_settled :: "UpdaterConfig \<Rightarrow> nat \<Rightarrow> bool \<Rightarrow> Updater \<Rightarrow> Updater" where
  "apply_settled cfg i ok u =
     (case map_of (applies u) i of
        None \<Rightarrow> u
      | Some (prev, m) \<Rightarrow>
          let u1 = u\<lparr>applies := filter (\<lambda>x. fst x \<noteq> i) (applies u)\<rparr> in
          if ok then
            (case health_seconds m of
               Some secs \<Rightarrow>
                 scheduleRollbackCheck cfg prev secs
                   (setState U_healthy (u1\<lparr>currentVersion := manVersion m, pendingManifest := None, pendingBlob := None\<rparr>))
             | None \<Rightarrow>
                 (setState U_rolled_back (u1\<lparr>currentVersion := manVersion m\<rparr>))\<lparr>calls := calls u1 @ [OnRollback prev]\<rparr>)
          else (setState U_rolled_back u1)\<lparr>calls := calls u1 @ [OnRollback prev]\<rparr>)"

text \<open>The timer's callback; without a configured health check the update counts as healthy.\<close>

definition health_timer :: "UpdaterConfig \<Rightarrow> nat \<Rightarrow> bool \<Rightarrow> Updater \<Rightarrow> Updater" where
  "health_timer cfg i healthy u =
     (case map_of (timers u) i of
        None \<Rightarrow> u
      | Some (prev, _) \<Rightarrow>
          let u1 = u\<lparr>timers := filter (\<lambda>x. fst x \<noteq> i) (timers u)\<rparr> in
          if hasHealthCheck cfg \<and> \<not> healthy
          then (setState U_rolled_back u1)\<lparr>calls := calls u1 @ [OnRollback prev]\<rparr>
          else u1)"

definition start :: "Updater \<Rightarrow> Updater" where
  "start u = (if polling u then u else (check u)\<lparr>polling := True\<rparr>)"

definition stop :: "Updater \<Rightarrow> Updater" where
  "stop u =
     u\<lparr>polling := False, rollbackTimer := None,
       timers := (case rollbackTimer u of None \<Rightarrow> timers u | Some i \<Rightarrow> filter (\<lambda>x. fst x \<noteq> i) (timers u))\<rparr>"

definition verifyPendingArtifact :: "crypto \<Rightarrow> UpdaterConfig \<Rightarrow> Updater \<Rightarrow> thrown + bool" where
  "verifyPendingArtifact cr cfg u =
     (case (pendingManifest u, pendingBlob u) of
        (Some m, Some blob) \<Rightarrow>
          (case selectArtifact cfg m of
             None \<Rightarrow> Inr False | Some a \<Rightarrow> verifyBlobChecksum (sha256 cr) blob (checksum a))
      | _ \<Rightarrow> Inr False)"

section \<open>Steps\<close>

datatype update_event =
    Check
  | ManifestArrives nat "thrown + Manifest"
  | SignatureDone nat
  | DownloadDone nat download_response
  | ApplyWhenIdle
  | ApplySettles nat bool
  | HealthTimer nat bool
  | StartPolling
  | StopPolling

text \<open>A continuation only runs if its call is waiting at that point.\<close>

fun update_step :: "crypto \<Rightarrow> UpdaterConfig \<Rightarrow> update_event \<Rightarrow> Updater \<Rightarrow> Updater" where
  "update_step cr cfg Check u = check u"
| "update_step cr cfg (ManifestArrives i resp) u =
     (case map_of (checks u) i of Some AwaitManifest \<Rightarrow> manifest_fetched cfg i resp u | _ \<Rightarrow> u)"
| "update_step cr cfg (SignatureDone i) u =
     (case map_of (checks u) i of Some (AwaitSignature m a) \<Rightarrow> signature_checked cr cfg i m a u | _ \<Rightarrow> u)"
| "update_step cr cfg (DownloadDone i resp) u =
     (case map_of (checks u) i of Some (AwaitDownload m a) \<Rightarrow> artifact_downloaded cr i m a resp u | _ \<Rightarrow> u)"
| "update_step cr cfg ApplyWhenIdle u = applyWhenIdle u"
| "update_step cr cfg (ApplySettles i ok) u = apply_settled cfg i ok u"
| "update_step cr cfg (HealthTimer i healthy) u = health_timer cfg i healthy u"
| "update_step cr cfg StartPolling u = start u"
| "update_step cr cfg StopPolling u = stop u"

section \<open>The invariant\<close>

text \<open>An update the kiosk may apply: signed, for this platform, and with the hash of the manifest.\<close>

definition selected_and_signed :: "crypto \<Rightarrow> UpdaterConfig \<Rightarrow> Manifest \<Rightarrow> Artifact \<Rightarrow> bool" where
  "selected_and_signed cr cfg m a \<longleftrightarrow>
     verifyManifestSignature cr m (publicKey cfg) \<and> selectArtifact cfg m = Some a"

definition genuine :: "crypto \<Rightarrow> UpdaterConfig \<Rightarrow> Manifest \<Rightarrow> 8 word list \<Rightarrow> bool" where
  "genuine cr cfg m blob \<longleftrightarrow>
     (\<exists>a. selected_and_signed cr cfg m a \<and> parseChecksum (checksum a) = Inr (''sha256'', sha256 cr blob))"

fun phase_ok :: "crypto \<Rightarrow> UpdaterConfig \<Rightarrow> check_phase \<Rightarrow> bool" where
  "phase_ok cr cfg AwaitManifest = True"
| "phase_ok cr cfg (AwaitSignature m a) = (selectArtifact cfg m = Some a)"
| "phase_ok cr cfg (AwaitDownload m a) = selected_and_signed cr cfg m a"

definition update_inv :: "crypto \<Rightarrow> UpdaterConfig \<Rightarrow> Updater \<Rightarrow> bool" where
  "update_inv cr cfg u \<longleftrightarrow>
     (\<forall>x \<in> set (checks u). phase_ok cr cfg (snd x)) \<and>
     (\<forall>m blob. pendingManifest u = Some m \<and> pendingBlob u = Some blob \<longrightarrow> genuine cr cfg m blob) \<and>
     (\<forall>m blob. OnApply m blob \<in> set (calls u) \<longrightarrow> genuine cr cfg m blob)"

lemmas updater_defs = check_def check_failed_def manifest_fetched_def signature_checked_def
  artifact_downloaded_def applyWhenIdle_def apply_settled_def health_timer_def start_def stop_def
  setState_def drop_check_def put_check_def scheduleRollbackCheck_def

lemma download_genuine:
  "selected_and_signed cr cfg m a \<Longrightarrow> downloadAndVerifyArtifact (sha256 cr) a resp = Inr blob \<Longrightarrow>
   genuine cr cfg m blob"
  by (auto simp: genuine_def downloadAndVerifyArtifact_def verifyBlobChecksum_def SUPPORTED_ALGORITHMS_def
      constantTimeEqual_iff split: download_response.splits sum.splits prod.splits if_splits)

lemma check_inv: "update_inv cr cfg u \<Longrightarrow> update_inv cr cfg (check u)"
  by (auto simp: update_inv_def check_def put_check_def drop_check_def setState_def)

lemma manifest_fetched_inv: "update_inv cr cfg u \<Longrightarrow> update_inv cr cfg (manifest_fetched cfg i resp u)"
  by (auto simp: update_inv_def updater_defs split: sum.splits option.splits)

lemma signature_checked_inv:
  "update_inv cr cfg u \<Longrightarrow> selectArtifact cfg m = Some a \<Longrightarrow> update_inv cr cfg (signature_checked cr cfg i m a u)"
  by (auto simp: update_inv_def updater_defs selected_and_signed_def)

lemma artifact_downloaded_inv:
  "update_inv cr cfg u \<Longrightarrow> selected_and_signed cr cfg m a \<Longrightarrow> update_inv cr cfg (artifact_downloaded cr i m a resp u)"
  using download_genuine [of cr cfg m a resp]
  by (auto simp: update_inv_def updater_defs split: sum.splits)

lemma applyWhenIdle_inv: "update_inv cr cfg u \<Longrightarrow> update_inv cr cfg (applyWhenIdle u)"
  by (auto simp: update_inv_def applyWhenIdle_def setState_def split: option.splits)

lemma apply_settled_inv: "update_inv cr cfg u \<Longrightarrow> update_inv cr cfg (apply_settled cfg i ok u)"
  by (auto simp: update_inv_def apply_settled_def setState_def scheduleRollbackCheck_def Let_def
      split: option.splits)

lemma health_timer_inv: "update_inv cr cfg u \<Longrightarrow> update_inv cr cfg (health_timer cfg i h u)"
  by (auto simp: update_inv_def health_timer_def setState_def Let_def split: option.splits)

lemma update_phase: "update_inv cr cfg u \<Longrightarrow> map_of (checks u) i = Some p \<Longrightarrow> phase_ok cr cfg p"
  unfolding update_inv_def by (metis map_of_SomeD snd_conv)

lemma update_step_inv:
  assumes "update_inv cr cfg u" shows "update_inv cr cfg (update_step cr cfg ev u)"
proof (cases ev)
  case (SignatureDone i)
  with assms update_phase [OF assms, of i] show ?thesis
    by (auto intro: signature_checked_inv split: option.splits check_phase.splits)
next
  case (DownloadDone i resp)
  with assms update_phase [OF assms, of i] show ?thesis
    by (auto intro: artifact_downloaded_inv split: option.splits check_phase.splits)
next
  case StopPolling
  with assms show ?thesis by (simp add: update_inv_def stop_def)
next
  case StartPolling
  with check_inv [OF assms] assms show ?thesis by (simp add: update_inv_def start_def)
qed (use assms in \<open>auto simp: check_inv manifest_fetched_inv applyWhenIdle_inv apply_settled_inv health_timer_inv
      split: option.splits check_phase.splits\<close>)

interpretation updates: free_event_system "update_step cr cfg" "update_inv cr cfg" for cr cfg
  by unfold_locales (rule update_step_inv)

lemma new_Updater_inv: "update_inv cr cfg (new_Updater v)"
  by (simp add: update_inv_def new_Updater_def)

section \<open>Properties\<close>

text \<open>
  C5. Only genuine updates are installed. However checks, downloads, installations, health checks
  and failures interleave, whenever the updater calls \<open>onApply\<close> with a manifest and a blob, the
  manifest's Ed25519 signature verified under the configured key, the manifest lists the
  configured artifact for this platform (or for any), and the blob's SHA-256 digest is the one
  in the manifest; the same holds of whatever is pending, so re-verification always succeeds.
\<close>

theorem only_genuine_updates_applied:
  fixes cr cfg evs v
  defines "u \<equiv> fold (update_step cr cfg) evs (new_Updater v)"
  shows "(\<forall>m blob. OnApply m blob \<in> set (calls u) \<longrightarrow>
      verifyManifestSignature cr m (publicKey cfg) \<and>
      (\<exists>a. selectArtifact cfg m = Some a \<and>
         (platform cfg \<in> set (platforms a) \<or> ''any'' \<in> set (platforms a)) \<and>
         parseChecksum (checksum a) = Inr (''sha256'', sha256 cr blob))) \<and>
    (pendingManifest u \<noteq> None \<and> pendingBlob u \<noteq> None \<longrightarrow> verifyPendingArtifact cr cfg u = Inr True)"
proof -
  have inv: "update_inv cr cfg u" unfolding u_def by (rule updates.run [OF new_Updater_inv])
  have "verifyManifestSignature cr m (publicKey cfg) \<and>
      (\<exists>a. selectArtifact cfg m = Some a \<and>
         (platform cfg \<in> set (platforms a) \<or> ''any'' \<in> set (platforms a)) \<and>
         parseChecksum (checksum a) = Inr (''sha256'', sha256 cr blob))"
    if "genuine cr cfg m blob" for m blob
    using that
    by (auto simp: genuine_def selected_and_signed_def selectArtifact_def split: option.splits if_splits)
  moreover have "verifyPendingArtifact cr cfg u = Inr True"
    if "pendingManifest u \<noteq> None" "pendingBlob u \<noteq> None"
  proof -
    from that obtain m blob where p: "pendingManifest u = Some m" "pendingBlob u = Some blob" by auto
    with inv have "genuine cr cfg m blob" unfolding update_inv_def by blast
    then obtain a where "selectArtifact cfg m = Some a" "parseChecksum (checksum a) = Inr (''sha256'', sha256 cr blob)"
      unfolding genuine_def selected_and_signed_def by blast
    with p show ?thesis
      by (simp add: verifyPendingArtifact_def verifyBlobChecksum_def SUPPORTED_ALGORITHMS_def constantTimeEqual_iff)
  qed
  ultimately show ?thesis using inv unfolding update_inv_def by blast
qed

text \<open>A toy signature scheme and hash to run the updater on: every signature verifies.\<close>

definition toy_crypto :: crypto where
  "toy_crypto =
     \<lparr>atob = (\<lambda>_. Some []), utf8 = (\<lambda>_. []), verify = (\<lambda>_ _ _. Some True), sha256 = (\<lambda>_. [0]), numStr = (\<lambda>_. [])\<rparr>"

definition toy_config :: UpdaterConfig where
  "toy_config = \<lparr>publicKey = [], platform = ''linux/arm64'', artifactName = ''kiosk-shell'', hasHealthCheck = True\<rparr>"

definition toy_manifest :: Manifest where
  "toy_manifest = sample_manifest [(''kiosk-shell'', sample_artifact [''any''])]"

definition toy_install :: "update_event list" where
  "toy_install =
     [Check, ManifestArrives 1 (Inr toy_manifest), SignatureDone 1, DownloadDone 1 (DownloadBody []),
      ApplyWhenIdle, ApplySettles 2 True]"

definition toy_updater :: Updater where
  "toy_updater = fold (update_step toy_crypto toy_config) toy_install (new_Updater ''v1.0.0'')"

lemma toy_version: "compareVersions ''v1.0.0'' ''v1.2.0'' = -1" by code_simp

lemma toy_checksum: "parseChecksum ''sha256:00'' = Inr (''sha256'', [0])" by code_simp

lemma toy_select: "selectArtifact toy_config toy_manifest = Some (sample_artifact [''any''])"
  by (simp add: selectArtifact_def toy_config_def toy_manifest_def sample_manifest_def sample_artifact_def)

lemma toy_download:
  "downloadAndVerifyArtifact (sha256 toy_crypto) (sample_artifact [''any'']) (DownloadBody []) = Inr []"
  by (simp add: downloadAndVerifyArtifact_def verifyBlobChecksum_def sample_artifact_def toy_checksum
      SUPPORTED_ALGORITHMS_def constantTimeEqual_iff toy_crypto_def)

lemma toy_signed: "verifyManifestSignature toy_crypto toy_manifest (publicKey toy_config)"
  by (simp add: verifyManifestSignature_def toy_crypto_def)

lemma toy_health: "health_seconds toy_manifest = Some 30" "manVersion toy_manifest = ''v1.2.0''"
  by (simp_all add: health_seconds_def toy_manifest_def sample_manifest_def)

lemma toy_updater_state:
  "calls toy_updater = [OnApply toy_manifest []]" "currentVersion toy_updater = ''v1.2.0''"
  "timers toy_updater = [(3, ''v1.0.0'', 30000)]" "ustate toy_updater = U_healthy"
  by (simp_all add: toy_updater_def toy_install_def new_Updater_def updater_defs toy_version toy_select
      toy_download toy_signed toy_health toy_config_def [symmetric] Let_def)
    (simp_all add: toy_config_def)

theorem only_genuine_updates_applied_witness:
  "OnApply toy_manifest [] \<in> set (calls toy_updater) \<and>
   verifyManifestSignature toy_crypto toy_manifest (publicKey toy_config)"
  using only_genuine_updates_applied [of toy_crypto toy_config toy_install "''v1.0.0''"]
  unfolding toy_updater_def [symmetric] by (simp add: toy_updater_state)

text \<open>
  A failed health check rolls the kiosk back but not the updater's version: \<open>onRollback\<close> is
  called with the previous version, yet \<open>currentVersion\<close> keeps naming the version that was just
  removed, so that the next check takes the same manifest for no newer than the running one and
  stays idle. When \<open>onApply\<close> itself fails, the version is the previous one.
\<close>

theorem rollback_keeps_new_version:
  assumes "hasHealthCheck cfg" and "map_of (timers u) i = Some (prev, d)"
    and "compareVersions (currentVersion u) (manVersion m) = 0"
  shows "let u' = health_timer cfg i False u in
    ustate u' = U_rolled_back \<and> calls u' = calls u @ [OnRollback prev] \<and>
    currentVersion u' = currentVersion u \<and>
    ustate (manifest_fetched cfg (nextId u') (Inr m) (check u')) = U_idle \<and>
    calls (manifest_fetched cfg (nextId u') (Inr m) (check u')) = calls u' \<and>
    (\<forall>j w pv. map_of (applies w) j = Some (pv, m) \<longrightarrow>
       currentVersion (apply_settled cfg j False w) = currentVersion w \<and>
       calls (apply_settled cfg j False w) = calls w @ [OnRollback pv])"
  using assms by (simp add: updater_defs Let_def)

theorem rollback_keeps_new_version_witness:
  "let u' = health_timer toy_config 3 False toy_updater in
   calls u' = [OnApply toy_manifest [], OnRollback ''v1.0.0''] \<and> currentVersion u' = ''v1.2.0''"
proof -
  have "compareVersions (currentVersion toy_updater) (manVersion toy_manifest) = 0"
    unfolding toy_updater_state toy_health by code_simp
  moreover have "hasHealthCheck toy_config" by (simp add: toy_config_def)
  ultimately show ?thesis
    using rollback_keeps_new_version [of toy_config toy_updater 3 "''v1.0.0''" 30000 toy_manifest]
    by (simp add: toy_updater_state Let_def)
qed

end
