(* ===== verification/RemoteModules.thy ===== *)
theory RemoteModules
  imports UpdateManifest
begin

text \<open>
  The manager of federated remotes of \<open>apps/kiosk/src/updater/remote-modules.ts\<close>. A registration is an object that the
  map refers to and that a running swap holds on to, so states live in a list and are named by their place in it.
  \<open>swapVersion\<close> is split at its awaits: the health probe, the initialisation of the share scope inside
  \<open>tryMount\<close>, and the entry script; other operations may happen in between. The network is a
  parameter: what a base URL answers to the probe, and how loading an entry script
  ends. Notifications of \<open>onVersionChange\<close>, an observer that does not throw, are recorded in order.
\<close>

section \<open>State\<close>

record SharedDependency =
  depName :: string
  requiredVersion :: string

record RemoteDefinition =
  remName :: string
  baseUrl :: string
  remVersion :: string
  timeoutMs :: ms
  fallbackUrl :: string
  sharedDeps :: "SharedDependency list"

datatype RemoteStatus = R_mounting | R_mounted | R_failed | R_rolled_back

record RemoteState =
  definition_of :: RemoteDefinition
  remStatus :: RemoteStatus
  lastError :: "string option"
  mountedAt :: "ms option"

record Manager =
  objects :: "RemoteState list"
  remotes :: "(string, nat) js_map"
  versionChanges :: "(string \<times> string \<times> string) list"

definition new_manager :: Manager where
  "new_manager = \<lparr>objects = [], remotes = [], versionChanges = []\<rparr>"

definition register :: "RemoteDefinition \<Rightarrow> Manager \<Rightarrow> Manager" where
  "register def mg =
     mg\<lparr>objects := objects mg @ [\<lparr>definition_of = def, remStatus = R_mounting, lastError = None, mountedAt = None\<rparr>],
        remotes := AList.update (remName def) (length (objects mg)) (remotes mg)\<rparr>"

text \<open>The object of a name with its place; every entry of the map has one.\<close>

definition lookup :: "string \<Rightarrow> Manager \<Rightarrow> (nat \<times> RemoteState) option" where
  "lookup nm mg =
     (case map_of (remotes mg) nm of
        None \<Rightarrow> None
      | Some i \<Rightarrow> if i < length (objects mg) then Some (i, objects mg ! i) else None)"

definition get :: "string \<Rightarrow> Manager \<Rightarrow> RemoteState option" where
  "get nm mg = map_option snd (lookup nm mg)"

definition list_remotes :: "Manager \<Rightarrow> RemoteState list" where
  "list_remotes mg = map (\<lambda>e. objects mg ! snd e) (remotes mg)"

text \<open>\<open>probe\<close>: the response to the version file, if one came in time and was a success.\<close>

record net =
  probe :: "string \<Rightarrow> (string option) option"
  mount :: "string \<Rightarrow> thrown + bool"
  shareScope :: "string \<Rightarrow> bool"
  clock :: ms

record RemoteHealth =
  healthOk :: bool
  healthVersion :: string

definition checkRemoteHealth :: "net \<Rightarrow> string \<Rightarrow> RemoteHealth" where
  "checkRemoteHealth n base =
     (case probe n (base @ ''/astra-version.json'') of
        None \<Rightarrow> \<lparr>healthOk = False, healthVersion = ''0.0.0''\<rparr>
      | Some v \<Rightarrow> \<lparr>healthOk = True, healthVersion = (case v of None \<Rightarrow> ''0.0.0'' | Some s \<Rightarrow> s)\<rparr>)"

definition checkSharedDependencies :: "net \<Rightarrow> SharedDependency list \<Rightarrow> string list" where
  "checkSharedDependencies n deps =
     map (\<lambda>d. depName d @ ''@'' @ requiredVersion d @ '' (not shared)'')
       (filter (\<lambda>d. \<not> shareScope n (depName d)) deps)"

section \<open>Swapping a version\<close>

definition set_object :: "nat \<Rightarrow> RemoteState \<Rightarrow> Manager \<Rightarrow> Manager" where
  "set_object i st mg = mg\<lparr>objects := (objects mg)[i := st]\<rparr>"

definition swapped :: "string \<Rightarrow> string \<Rightarrow> RemoteState \<Rightarrow> RemoteState" where
  "swapped newBaseUrl newVersion st =
     st\<lparr>definition_of := (definition_of st)
          \<lparr>fallbackUrl := baseUrl (definition_of st), baseUrl := newBaseUrl, remVersion := newVersion\<rparr>\<rparr>"

definition rolled_back :: "string \<Rightarrow> string \<Rightarrow> RemoteState \<Rightarrow> RemoteState" where
  "rolled_back oldFallback oldVersion st =
     st\<lparr>definition_of := (definition_of st)
          \<lparr>baseUrl := fallbackUrl (definition_of st), fallbackUrl := oldFallback, remVersion := oldVersion\<rparr>,
        remStatus := R_rolled_back\<rparr>"

text \<open>The variables of a call, and the await it stands at; \<open>mountObject\<close> is the \<open>state\<close> of its \<open>tryMount\<close>.\<close>

record Swap =
  swapName :: string
  swapObject :: nat
  newBaseUrl :: string
  newVersion :: string
  oldVersion :: string
  oldFallback :: string
  mountObject :: nat

datatype progress = Finished "thrown + bool" | Waiting Swap

text \<open>Up to the health probe.\<close>

definition swap_begin :: "string \<Rightarrow> string \<Rightarrow> string \<Rightarrow> Manager \<Rightarrow> progress" where
  "swap_begin nm base v mg =
     (case lookup nm mg of
        None \<Rightarrow> Finished (Inl (new_Error (''unknown remote: '' @ nm)))
      | Some (i, st) \<Rightarrow>
          if remVersion (definition_of st) = v then Finished (Inr True)
          else Waiting \<lparr>swapName = nm, swapObject = i, newBaseUrl = base, newVersion = v,
                 oldVersion = remVersion (definition_of st), oldFallback = [], mountObject = i\<rparr>)"

definition swap_rollback :: "Swap \<Rightarrow> Manager \<Rightarrow> Manager" where
  "swap_rollback sw mg =
     set_object (swapObject sw) (rolled_back (oldFallback sw) (oldVersion sw) (objects mg ! swapObject sw)) mg"

text \<open>
  From the answer of the probe to the start of \<open>tryMount\<close>. There unmet dependencies are only logged.
\<close>

definition swap_checked :: "RemoteHealth \<Rightarrow> Swap \<Rightarrow> Manager \<Rightarrow> progress \<times> Manager" where
  "swap_checked health sw mg =
     (let i = swapObject sw; st = objects mg ! i in
      if \<not> healthOk health then
        (Finished (Inr False), set_object i
           (st\<lparr>remStatus := R_failed,
               lastError := Some (''pre-flight health check failed for '' @ swapName sw @ ''@'' @ newVersion sw)\<rparr>) mg)
      else
        let sw1 = sw\<lparr>oldFallback := fallbackUrl (definition_of st)\<rparr>;
            mg1 = (set_object i (swapped (newBaseUrl sw) (newVersion sw) st) mg)
                    \<lparr>versionChanges := versionChanges mg @ [(swapName sw, oldVersion sw, newVersion sw)]\<rparr>
        in (case lookup (swapName sw) mg1 of
              None \<Rightarrow> (Finished (Inr False), swap_rollback sw1 mg1)
            | Some (j, _) \<Rightarrow> (Waiting (sw1\<lparr>mountObject := j\<rparr>), mg1)))"

text \<open>When the share scope is ready, or has failed to be, the script of the URL is loaded.\<close>

definition tryMount_url :: "Swap \<Rightarrow> Manager \<Rightarrow> string" where
  "tryMount_url sw mg = baseUrl (definition_of (objects mg ! mountObject sw)) @ ''/remoteEntry.js''"

text \<open>From the end of \<open>tryMount\<close>.\<close>

definition swap_mounted :: "ms \<Rightarrow> thrown + bool \<Rightarrow> Swap \<Rightarrow> Manager \<Rightarrow> (thrown + bool) \<times> Manager" where
  "swap_mounted now mounted sw mg =
     (case mounted of
        Inr True \<Rightarrow>
          (Inr True, set_object (swapObject sw)
             ((objects mg ! swapObject sw)\<lparr>remStatus := R_mounted, mountedAt := Some now\<rparr>) mg)
      | _ \<Rightarrow> (Inr False, swap_rollback sw mg))"

text \<open>A whole call; \<open>between\<close> says what else happens to the manager during its first, second and third await.\<close>

definition swap_run ::
  "net \<Rightarrow> (nat \<Rightarrow> Manager \<Rightarrow> Manager) \<Rightarrow> string \<Rightarrow> string \<Rightarrow> string \<Rightarrow> Manager \<Rightarrow> (thrown + bool) \<times> Manager" where
  "swap_run n between nm base v mg =
     (case swap_begin nm base v mg of
        Finished r \<Rightarrow> (r, mg)
      | Waiting sw \<Rightarrow>
          (case swap_checked (checkRemoteHealth n base) sw (between 1 mg) of
             (Finished r, mg1) \<Rightarrow> (r, mg1)
           | (Waiting sw1, mg1) \<Rightarrow>
               let mg2 = between 2 mg1
               in swap_mounted (clock n) (mount n (tryMount_url sw1 mg2)) sw1 (between 3 mg2)))"

definition swapVersion :: "net \<Rightarrow> string \<Rightarrow> string \<Rightarrow> string \<Rightarrow> Manager \<Rightarrow> (thrown + bool) \<times> Manager" where
  "swapVersion n = swap_run n (\<lambda>_ mg. mg)"

section \<open>Manifests, rollback and URLs\<close>

text \<open>The loop of \<open>applyManifest\<close>; the new base URL is the manifest's version.\<close>

fun apply_artifacts :: "net \<Rightarrow> string \<Rightarrow> string list \<Rightarrow> (string \<times> bool) list \<Rightarrow> Manager \<Rightarrow> (thrown + (string \<times> bool) list) \<times> Manager" where
  "apply_artifacts n v [] results mg = (Inr results, mg)"
| "apply_artifacts n v (a # as) results mg =
     (case lookup a mg of
        None \<Rightarrow> apply_artifacts n v as results mg
      | Some _ \<Rightarrow>
          (case swapVersion n a v v mg of
             (Inl e, mg') \<Rightarrow> (Inl e, mg')
           | (Inr ok, mg') \<Rightarrow> apply_artifacts n v as (AList.update a ok results) mg'))"

definition applyManifest :: "net \<Rightarrow> Manifest \<Rightarrow> Manager \<Rightarrow> (thrown + (string \<times> bool) list) \<times> Manager" where
  "applyManifest n m mg = apply_artifacts n (manVersion m) (map fst (artifacts m)) [] mg"

definition rollback_state :: "RemoteState \<Rightarrow> RemoteState" where
  "rollback_state st =
     (if baseUrl (definition_of st) \<noteq> fallbackUrl (definition_of st)
      then st\<lparr>definition_of := (definition_of st)\<lparr>baseUrl := fallbackUrl (definition_of st)\<rparr>,
              remStatus := R_rolled_back, lastError := Some ''rolled back via rollbackAll()''\<rparr>
      else st)"

text \<open>Each object that the map refers to.\<close>

definition rollbackAll :: "Manager \<Rightarrow> Manager" where
  "rollbackAll mg =
     mg\<lparr>objects := map (\<lambda>i. if i \<in> snd ` set (remotes mg) then rollback_state (objects mg ! i) else objects mg ! i)
          [0..<length (objects mg)]\<rparr>"

definition strip_slashes :: "string \<Rightarrow> string" where
  "strip_slashes s = rev (dropWhile (\<lambda>c. c = CHR ''/'') (rev s))"

definition strip_v :: "string \<Rightarrow> string" where
  "strip_v v = (case v of c # cs \<Rightarrow> if c = CHR ''v'' then cs else v | [] \<Rightarrow> [])"

definition versionedRemoteUrl :: "string \<Rightarrow> string \<Rightarrow> string" where
  "versionedRemoteUrl base v = strip_slashes base @ ''/v'' @ strip_v v"

section \<open>Lemmas\<close>

text \<open>Registrations are objects of their own.\<close>

definition manager_wf :: "Manager \<Rightarrow> bool" where
  "manager_wf mg \<longleftrightarrow>
     distinct (map snd (remotes mg)) \<and> (\<forall>i \<in> snd ` set (remotes mg). i < length (objects mg))"

lemma set_update_values: "snd ` set (AList.update k v m) \<subseteq> insert v (snd ` set m)"
  by (induction m) auto

lemma distinct_update_values:
  "distinct (map snd m) \<Longrightarrow> v \<notin> snd ` set m \<Longrightarrow> distinct (map snd (AList.update k v m))"
proof (induction m)
  case (Cons e m)
  have "snd ` set (AList.update k v m) \<subseteq> insert v (snd ` set m)" by (rule set_update_values)
  with Cons show ?case by (cases e) auto
qed simp

lemma register_wf: assumes "manager_wf mg" shows "manager_wf (register def mg)"
proof -
  have "length (objects mg) \<notin> snd ` set (remotes mg)" "distinct (map snd (remotes mg))"
    using assms by (auto simp: manager_wf_def)
  then have "distinct (map snd (remotes (register def mg)))" by (simp add: register_def distinct_update_values)
  moreover have "k < length (objects (register def mg))" if "k \<in> snd ` set (remotes (register def mg))" for k
  proof -
    from that have "k \<in> insert (length (objects mg)) (snd ` set (remotes mg))"
      using set_update_values [of "remName def" "length (objects mg)" "remotes mg"] by (auto simp: register_def)
    then show ?thesis using assms by (auto simp: manager_wf_def register_def)
  qed
  ultimately show ?thesis by (simp add: manager_wf_def)
qed

lemma set_object_wf [simp]: "manager_wf (set_object i st mg) = manager_wf mg"
  by (simp add: manager_wf_def set_object_def)

lemma log_wf [simp]: "manager_wf (mg\<lparr>versionChanges := l\<rparr>) = manager_wf mg"
  by (simp add: manager_wf_def)

text \<open>Every operation, and every step of a swap, keeps it.\<close>

lemma manager_wf_kept:
  "manager_wf new_manager"
  "manager_wf mg \<Longrightarrow> manager_wf (register def mg)"
  "manager_wf mg \<Longrightarrow> manager_wf (rollbackAll mg)"
  "manager_wf mg \<Longrightarrow> manager_wf (snd (swap_checked h sw mg))"
  "manager_wf mg \<Longrightarrow> manager_wf (snd (swap_mounted now r sw mg))"
proof -
  show "manager_wf new_manager" by (simp add: manager_wf_def new_manager_def)
  show "manager_wf mg \<Longrightarrow> manager_wf (register def mg)" by (rule register_wf)
  show "manager_wf mg \<Longrightarrow> manager_wf (rollbackAll mg)" by (simp add: manager_wf_def rollbackAll_def)
  show "manager_wf mg \<Longrightarrow> manager_wf (snd (swap_checked h sw mg))"
    by (simp add: swap_checked_def swap_rollback_def Let_def split: option.split prod.split)
  show "manager_wf mg \<Longrightarrow> manager_wf (snd (swap_mounted now r sw mg))"
    by (simp add: swap_mounted_def swap_rollback_def split: sum.split bool.split)
qed

lemma lookup_log [simp]: "lookup x (mg\<lparr>versionChanges := l\<rparr>) = lookup x mg"
  by (cases "map_of (remotes mg) x") (simp_all add: lookup_def)

lemma lookup_set_object:
  "lookup x (set_object i st mg) = map_option (\<lambda>(j, s). (j, if j = i then st else s)) (lookup x mg)"
  by (simp add: lookup_def set_object_def split: option.split)

lemma lookup_place: "lookup nm mg = Some (i, st) \<Longrightarrow> i < length (objects mg) \<and> objects mg ! i = st"
  by (auto simp: lookup_def split: option.splits if_splits)

lemma lookup_distinct:
  assumes "manager_wf mg" "lookup x mg = Some (j, s)" "lookup nm mg = Some (i, st)" "x \<noteq> nm"
  shows "j \<noteq> i"
proof -
  have "(x, j) \<in> set (remotes mg)" "(nm, i) \<in> set (remotes mg)"
    using assms(2,3) by (auto simp: lookup_def split: option.splits if_splits dest: map_of_SomeD)
  then show ?thesis using assms(1,4) by (fastforce simp: manager_wf_def distinct_map inj_on_def)
qed

text \<open>A failed mount puts the definition back exactly.\<close>

lemma rolled_back_swapped:
  "rolled_back (fallbackUrl (definition_of st)) (remVersion (definition_of st)) (swapped b v st) = st\<lparr>remStatus := R_rolled_back\<rparr>"
  by (simp add: rolled_back_def swapped_def)

lemma rollback_state_idem: "rollback_state (rollback_state st) = rollback_state st"
  by (simp add: rollback_state_def)

lemma strip_slashes_snoc: "strip_slashes (s @ ''/'') = strip_slashes s"
  by (simp add: strip_slashes_def)

lemma strip_slashes_idem: "strip_slashes (strip_slashes s) = strip_slashes s"
  by (simp add: strip_slashes_def dropWhile_idem)

text \<open>What happens during an await leaves the object of a remote and its registration alone.\<close>

definition leaves :: "string \<Rightarrow> nat \<Rightarrow> (Manager \<Rightarrow> Manager) \<Rightarrow> bool" where
  "leaves nm i f \<longleftrightarrow> (\<forall>mg st. lookup nm mg = Some (i, st) \<longrightarrow> lookup nm (f mg) = Some (i, st))"

lemma leavesD: "leaves nm i f \<Longrightarrow> lookup nm mg = Some (i, st) \<Longrightarrow> lookup nm (f mg) = Some (i, st)"
  by (simp add: leaves_def)

lemma leaves_id [simp]: "leaves nm i (\<lambda>mg. mg)"
  by (simp add: leaves_def)

lemma swap_started:
  "lookup nm mg = Some (i, st) \<Longrightarrow> remVersion (definition_of st) \<noteq> v \<Longrightarrow>
   swap_begin nm b v mg = Waiting \<lparr>swapName = nm, swapObject = i, newBaseUrl = b, newVersion = v,
     oldVersion = remVersion (definition_of st), oldFallback = [], mountObject = i\<rparr>"
  by (simp add: swap_begin_def)

text \<open>The course of a swap in which the remote is left alone, as one expression.\<close>

lemma swap_course:
  fixes b :: string
  assumes "lookup nm mg = Some (i, st)" "remVersion (definition_of st) \<noteq> v"
    and "leaves nm i (between 1)" "leaves nm i (between 2)" "leaves nm i (between 3)"
  defines "mg1 \<equiv> (set_object i (swapped b v st) (between 1 mg))
      \<lparr>versionChanges := versionChanges (between 1 mg) @ [(nm, remVersion (definition_of st), v)]\<rparr>"
  shows "swap_run n between nm b v mg =
    (if \<not> healthOk (checkRemoteHealth n b) then
       (Inr False, set_object i (st\<lparr>remStatus := R_failed,
          lastError := Some (''pre-flight health check failed for '' @ nm @ ''@'' @ v)\<rparr>) (between 1 mg))
     else if mount n (b @ ''/remoteEntry.js'') = Inr True then
       (Inr True, set_object i ((swapped b v st)\<lparr>remStatus := R_mounted, mountedAt := Some (clock n)\<rparr>) (between 3 (between 2 mg1)))
     else (Inr False, set_object i (st\<lparr>remStatus := R_rolled_back\<rparr>) (between 3 (between 2 mg1))))"
proof -
  let ?sw = "\<lparr>swapName = nm, swapObject = i, newBaseUrl = b, newVersion = v, oldVersion = remVersion (definition_of st),
    oldFallback = fallbackUrl (definition_of st), mountObject = i\<rparr>"
  note l1 = leavesD [OF assms(3,1)]
  have "lookup nm mg1 = Some (i, swapped b v st)" using l1 by (simp add: mg1_def lookup_set_object)
  note l2 = leavesD [OF assms(4) this] and l3 = leavesD [OF assms(5) leavesD [OF assms(4) this]]
  have "swap_checked (checkRemoteHealth n b) \<lparr>swapName = nm, swapObject = i, newBaseUrl = b, newVersion = v,
      oldVersion = remVersion (definition_of st), oldFallback = [], mountObject = i\<rparr> (between 1 mg) =
    (if \<not> healthOk (checkRemoteHealth n b) then
       (Finished (Inr False), set_object i (st\<lparr>remStatus := R_failed,
          lastError := Some (''pre-flight health check failed for '' @ nm @ ''@'' @ v)\<rparr>) (between 1 mg))
     else (Waiting ?sw, mg1))"
    using lookup_place [OF l1] l1 by (simp add: swap_checked_def Let_def lookup_set_object mg1_def)
  moreover have "tryMount_url ?sw (between 2 mg1) = b @ ''/remoteEntry.js''"
    using lookup_place [OF l2] by (simp add: tryMount_url_def swapped_def)
  moreover have "swap_mounted (clock n) r ?sw (between 3 (between 2 mg1)) =
      (if r = Inr True then
         (Inr True, set_object i ((swapped b v st)\<lparr>remStatus := R_mounted, mountedAt := Some (clock n)\<rparr>) (between 3 (between 2 mg1)))
       else (Inr False, set_object i (st\<lparr>remStatus := R_rolled_back\<rparr>) (between 3 (between 2 mg1))))" for r
    using lookup_place [OF l3] by (simp add: swap_mounted_def swap_rollback_def rolled_back_swapped split: sum.split bool.split)
  ultimately show ?thesis
    by (simp add: swap_run_def swap_started [OF assms(1,2)] Let_def)
qed

section \<open>Properties\<close>

text \<open>
  C32. Swapping a remote to a new version is atomic if nothing else touches the remote meanwhile. Whatever happens to other
  remotes during the three awaits, \<open>swapVersion\<close> of an unknown remote is an error and changes nothing, and of a remote that is
  on the version already is \<open>true\<close> and changes nothing. Otherwise its result is \<open>true\<close> exactly when the
  health probe of the new URL succeeds and the entry script of that URL loads. Then the remote is wholly on the new version,
  with its former URL as fallback, and mounted. When the probe fails nothing of it changes but the status and the error; when
  the script fails nothing but the status, which is \<open>rolled_back\<close>. Observers hear of the change
  exactly when the probe succeeded. Every other remote that nothing else touches is as it was.
\<close>

theorem swapVersion_atomic:
  assumes "manager_wf mg"
  shows "case swap_run n between nm b v mg of (r, mg') \<Rightarrow>
    (get nm mg = None \<longrightarrow> r = Inl (new_Error (''unknown remote: '' @ nm)) \<and> mg' = mg) \<and>
    (lookup nm mg = Some (i, st) \<and> remVersion (definition_of st) = v \<longrightarrow> r = Inr True \<and> mg' = mg) \<and>
    (lookup nm mg = Some (i, st) \<and> remVersion (definition_of st) \<noteq> v \<and>
       leaves nm i (between 1) \<and> leaves nm i (between 2) \<and> leaves nm i (between 3) \<longrightarrow>
       (if probe n (b @ ''/astra-version.json'') = None then
          r = Inr False \<and> versionChanges mg' = versionChanges (between 1 mg) \<and>
          get nm mg' = Some (st\<lparr>remStatus := R_failed,
            lastError := Some (''pre-flight health check failed for '' @ nm @ ''@'' @ v)\<rparr>)
        else
          (\<exists>mg1. versionChanges mg1 = versionChanges (between 1 mg) @ [(nm, remVersion (definition_of st), v)] \<and>
             versionChanges mg' = versionChanges (between 3 (between 2 mg1))) \<and>
          (if mount n (b @ ''/remoteEntry.js'') = Inr True then
             r = Inr True \<and> get nm mg' = Some (st\<lparr>definition_of := (definition_of st)
               \<lparr>fallbackUrl := baseUrl (definition_of st), baseUrl := b, remVersion := v\<rparr>,
               remStatus := R_mounted, mountedAt := Some (clock n)\<rparr>)
           else r = Inr False \<and> get nm mg' = Some (st\<lparr>remStatus := R_rolled_back\<rparr>))) \<and>
       (x \<noteq> nm \<and> lookup x mg = Some (j, s) \<and> leaves x j (between 1) \<and> leaves x j (between 2) \<and> leaves x j (between 3) \<longrightarrow>
          get x mg' = Some s))"
proof -
  obtain r mg' where run: "swap_run n between nm b v mg = (r, mg')" by force
  have ok: "healthOk (checkRemoteHealth n b) \<longleftrightarrow> probe n (b @ ''/astra-version.json'') \<noteq> None"
    by (simp add: checkRemoteHealth_def split: option.split)
  have unknown: "r = Inl (new_Error (''unknown remote: '' @ nm)) \<and> mg' = mg" if "get nm mg = None"
    using that run by (simp add: swap_run_def swap_begin_def get_def)
  have same: "r = Inr True \<and> mg' = mg" if "lookup nm mg = Some (i, st)" "remVersion (definition_of st) = v"
    using that run by (simp add: swap_run_def swap_begin_def)
  {
    assume at: "lookup nm mg = Some (i, st)" "remVersion (definition_of st) \<noteq> v"
      and alone: "leaves nm i (between 1)" "leaves nm i (between 2)" "leaves nm i (between 3)"
    define mg1 where "mg1 = (set_object i (swapped b v st) (between 1 mg))
      \<lparr>versionChanges := versionChanges (between 1 mg) @ [(nm, remVersion (definition_of st), v)]\<rparr>"
    note course = swap_course [OF at alone, of n b, unfolded run, folded mg1_def]
    have l1: "lookup nm (between 1 mg) = Some (i, st)" by (rule leavesD [OF alone(1) at(1)])
    then have "lookup nm mg1 = Some (i, swapped b v st)" by (simp add: mg1_def lookup_set_object)
    then have l3: "lookup nm (between 3 (between 2 mg1)) = Some (i, swapped b v st)"
      by (intro leavesD [OF alone(3)] leavesD [OF alone(2)])
    have log: "versionChanges mg1 = versionChanges (between 1 mg) @ [(nm, remVersion (definition_of st), v)]"
      by (simp add: mg1_def)
    have keeps: "versionChanges (set_object k u m) = versionChanges m" for k u m by (simp add: set_object_def)
    have "if probe n (b @ ''/astra-version.json'') = None then
        r = Inr False \<and> versionChanges mg' = versionChanges (between 1 mg) \<and>
        get nm mg' = Some (st\<lparr>remStatus := R_failed,
          lastError := Some (''pre-flight health check failed for '' @ nm @ ''@'' @ v)\<rparr>)
      else
        (\<exists>mg1. versionChanges mg1 = versionChanges (between 1 mg) @ [(nm, remVersion (definition_of st), v)] \<and>
           versionChanges mg' = versionChanges (between 3 (between 2 mg1))) \<and>
        (if mount n (b @ ''/remoteEntry.js'') = Inr True then
           r = Inr True \<and> get nm mg' = Some (st\<lparr>definition_of := (definition_of st)
             \<lparr>fallbackUrl := baseUrl (definition_of st), baseUrl := b, remVersion := v\<rparr>,
             remStatus := R_mounted, mountedAt := Some (clock n)\<rparr>)
         else r = Inr False \<and> get nm mg' = Some (st\<lparr>remStatus := R_rolled_back\<rparr>))"
      using course ok log l1 l3 by (auto simp: get_def lookup_set_object swapped_def keeps intro!: exI [of _ mg1])
    moreover have "get x mg' = Some s"
      if "x \<noteq> nm" "lookup x mg = Some (j, s)" "leaves x j (between 1)" "leaves x j (between 2)" "leaves x j (between 3)"
    proof -
      have ne: "j \<noteq> i" by (rule lookup_distinct [OF assms that(2) at(1) that(1)])
      have x1: "lookup x (between 1 mg) = Some (j, s)" by (rule leavesD [OF that(3,2)])
      then have "lookup x mg1 = Some (j, s)" using ne by (simp add: mg1_def lookup_set_object)
      then have "lookup x (between 3 (between 2 mg1)) = Some (j, s)"
        by (intro leavesD [OF that(5)] leavesD [OF that(4)])
      with x1 ne course show ?thesis by (auto simp: get_def lookup_set_object split: if_splits)
    qed
    ultimately have "(if probe n (b @ ''/astra-version.json'') = None then
        r = Inr False \<and> versionChanges mg' = versionChanges (between 1 mg) \<and>
        get nm mg' = Some (st\<lparr>remStatus := R_failed,
          lastError := Some (''pre-flight health check failed for '' @ nm @ ''@'' @ v)\<rparr>)
      else
        (\<exists>mg1. versionChanges mg1 = versionChanges (between 1 mg) @ [(nm, remVersion (definition_of st), v)] \<and>
           versionChanges mg' = versionChanges (between 3 (between 2 mg1))) \<and>
        (if mount n (b @ ''/remoteEntry.js'') = Inr True then
           r = Inr True \<and> get nm mg' = Some (st\<lparr>definition_of := (definition_of st)
             \<lparr>fallbackUrl := baseUrl (definition_of st), baseUrl := b, remVersion := v\<rparr>,
             remStatus := R_mounted, mountedAt := Some (clock n)\<rparr>)
         else r = Inr False \<and> get nm mg' = Some (st\<lparr>remStatus := R_rolled_back\<rparr>))) \<and>
      (x \<noteq> nm \<and> lookup x mg = Some (j, s) \<and> leaves x j (between 1) \<and> leaves x j (between 2) \<and> leaves x j (between 3) \<longrightarrow>
         get x mg' = Some s)"
      by blast }
  note other = this
  show ?thesis
    unfolding run prod.case
    by (rule conjI, use unknown in blast, rule conjI, use same in blast, use other in blast)
qed

text \<open>
  A rolled back swap is still announced: observers are told of the change to the new version
  before the mount is attempted and are not told of the way back, so that after a failed mount
  the last announced version is one the remote does not run.
\<close>

theorem failed_mount_announced:
  assumes "get nm mg = Some st" and "remVersion (definition_of st) \<noteq> v"
    and "probe n (b @ ''/astra-version.json'') \<noteq> None" and "mount n (b @ ''/remoteEntry.js'') = Inr False"
  shows "let mg' = snd (swapVersion n nm b v mg) in
    last (versionChanges mg') = (nm, remVersion (definition_of st), v) \<and>
    (\<exists>st'. get nm mg' = Some st' \<and> remVersion (definition_of st') = remVersion (definition_of st) \<and>
       remVersion (definition_of st') \<noteq> v)"
proof -
  obtain i where at: "lookup nm mg = Some (i, st)" using assms(1) by (auto simp: get_def)
  have "healthOk (checkRemoteHealth n b)" using assms(3) by (auto simp: checkRemoteHealth_def)
  with swap_course [OF at assms(2), where between = "\<lambda>_ mg. mg" and n = n and b = b] assms(4)
  show ?thesis using assms(2) by (auto simp: swapVersion_def get_def lookup_set_object at) (simp add: set_object_def)
qed

definition sample_remote :: RemoteDefinition where
  "sample_remote =
     \<lparr>remName = ''astra_menu'', baseUrl = ''https://cdn/menu'', remVersion = ''1.0.0'', timeoutMs = 5000,
      fallbackUrl = ''https://cdn/old'', sharedDeps = []\<rparr>"

definition sample_net :: net where
  "sample_net = \<lparr>probe = (\<lambda>_. Some None), mount = (\<lambda>_. Inr False), shareScope = (\<lambda>_. True), clock = 0\<rparr>"

definition accepting_net :: net where
  "accepting_net = \<lparr>probe = (\<lambda>_. Some None), mount = (\<lambda>_. Inr True), shareScope = (\<lambda>_. True), clock = 0\<rparr>"

definition other_remote :: RemoteDefinition where
  "other_remote = sample_remote\<lparr>remName := ''astra_cart''\<rparr>"

lemma sample_registered:
  "manager_wf (register sample_remote new_manager)"
  "lookup ''astra_menu'' (register sample_remote new_manager) =
     Some (0, \<lparr>definition_of = sample_remote, remStatus = R_mounting, lastError = None, mountedAt = None\<rparr>)"
  by (simp_all add: manager_wf_def lookup_def register_def new_manager_def sample_remote_def)

theorem failed_mount_announced_witness:
  "last (versionChanges (snd (swapVersion sample_net ''astra_menu'' ''https://cdn/menu2'' ''2.0.0'' (register sample_remote new_manager)))) =
     (''astra_menu'', ''1.0.0'', ''2.0.0'')"
proof -
  let ?st = "\<lparr>definition_of = sample_remote, remStatus = R_mounting, lastError = None, mountedAt = None\<rparr>"
  have "get ''astra_menu'' (register sample_remote new_manager) = Some ?st" by (simp add: get_def sample_registered)
  moreover have "remVersion (definition_of ?st) = ''1.0.0''" by (simp add: sample_remote_def)
  ultimately show ?thesis
    using failed_mount_announced [of "''astra_menu''" "register sample_remote new_manager" ?st "''2.0.0''" sample_net "''https://cdn/menu2''"]
    by (simp add: sample_net_def Let_def)
qed

text \<open>A remote that is registered, and another that is registered while its swap waits for the probe.\<close>

theorem swapVersion_atomic_witness:
  "case swap_run accepting_net (\<lambda>k mg. if k = 1 then register other_remote mg else mg)
       ''astra_menu'' ''https://cdn/menu2'' ''2.0.0'' (register sample_remote new_manager) of (r, mg') \<Rightarrow>
     r = Inr True \<and> map_option remStatus (get ''astra_menu'' mg') = Some R_mounted \<and>
     map_option (baseUrl \<circ> definition_of) (get ''astra_menu'' mg') = Some ''https://cdn/menu2''"
proof -
  let ?st = "\<lparr>definition_of = sample_remote, remStatus = R_mounting, lastError = None, mountedAt = None\<rparr>"
  have "leaves ''astra_menu'' 0 (register other_remote)"
    by (auto simp: leaves_def lookup_def register_def other_remote_def update_conv' nth_append split: option.splits if_splits)
  then show ?thesis
    using swapVersion_atomic [OF sample_registered(1), where n = accepting_net and nm = "''astra_menu''" and b = "''https://cdn/menu2''"
        and v = "''2.0.0''" and i = 0 and st = ?st and between = "\<lambda>k mg. if k = 1 then register other_remote mg else mg"]
      sample_registered(2)
    by (auto simp: sample_remote_def accepting_net_def split: prod.splits)
qed

text \<open>
  Two swaps of one remote that overlap are not atomic. While the script of the first loads, a second swap runs and reports success;
  then the script of the first fails, and its rollback takes the fallback of the second for its own: the remote is left on the URL
  whose script failed, under the version from before both.
\<close>

theorem overlapping_swaps_mix:
  "let mg0 = register sample_remote new_manager;
       second = swapVersion accepting_net ''astra_menu'' ''https://cdn/menu3'' ''3.0.0''
   in (case swap_run sample_net (\<lambda>k mg. if k = 3 then snd (second mg) else mg) ''astra_menu'' ''https://cdn/menu2'' ''2.0.0'' mg0 of
         (r, mg') \<Rightarrow> r = Inr False \<and>
           map_option (\<lambda>st. (baseUrl (definition_of st), remVersion (definition_of st), remStatus st)) (get ''astra_menu'' mg') =
             Some (''https://cdn/menu2'', ''1.0.0'', R_rolled_back))"
  by (simp add: Let_def swap_run_def swapVersion_def swap_begin_def swap_checked_def swap_mounted_def swap_rollback_def tryMount_url_def
      checkRemoteHealth_def lookup_def set_object_def get_def register_def new_manager_def sample_remote_def sample_net_def
      accepting_net_def swapped_def rolled_back_def)

text \<open>
  \<open>rollbackAll\<close> puts every remote on its fallback URL and doing it twice changes nothing more,
  but it keeps the version string of the release it removed, so that a later swap to that version
  is taken for done. \<open>versionedRemoteUrl\<close> is insensitive to trailing slashes of the base and to the
  prefix \<open>v\<close> of the version.
\<close>

theorem rollbackAll_and_urls:
  "rollbackAll (rollbackAll mg) = rollbackAll mg \<and>
   get nm (rollbackAll mg) = map_option rollback_state (get nm mg) \<and>
   baseUrl (definition_of (rollback_state st)) = fallbackUrl (definition_of st) \<and>
   remVersion (definition_of (rollback_state st)) = remVersion (definition_of st) \<and>
   (get nm mg = Some st \<longrightarrow> fst (swapVersion n nm b (remVersion (definition_of st)) (rollbackAll mg)) = Inr True) \<and>
   versionedRemoteUrl (base @ ''/'') v = versionedRemoteUrl base v \<and>
   versionedRemoteUrl base (CHR ''v'' # v) = strip_slashes base @ ''/v'' @ v"
proof -
  have "rollbackAll (rollbackAll mg) = rollbackAll mg"
    by (auto simp: rollbackAll_def rollback_state_idem intro!: nth_equalityI)
  moreover have "k \<in> snd ` set (remotes mg)" if "map_of (remotes mg) nm = Some k" for k
    using map_of_SomeD [OF that] by force
  then have rolled: "get nm (rollbackAll mg) = map_option rollback_state (get nm mg)"
    by (auto simp: rollbackAll_def get_def lookup_def split: option.split)
  moreover have ver: "remVersion (definition_of (rollback_state st)) = remVersion (definition_of st)"
    by (simp add: rollback_state_def)
  moreover have "fst (swapVersion n nm b (remVersion (definition_of st)) (rollbackAll mg)) = Inr True" if "get nm mg = Some st"
    using that rolled by (auto simp: swapVersion_def swap_run_def swap_begin_def get_def ver split: option.splits)
  ultimately show ?thesis
    by (simp add: rollback_state_def versionedRemoteUrl_def strip_slashes_snoc strip_v_def)
qed

text \<open>
  An update manifest moves every remote it names to a base URL that is the manifest's version
  string: whichever swaps succeed, the remote's entry is then looked up under that string, which
  is no URL of the release.
\<close>

theorem applyManifest_uses_version_as_url:
  assumes "artifacts m = [(nm, a)]" and "get nm mg = Some st" and "remVersion (definition_of st) \<noteq> manVersion m"
    and "fst (applyManifest n m mg) = Inr [(nm, True)]"
  shows "\<exists>st'. get nm (snd (applyManifest n m mg)) = Some st' \<and>
    baseUrl (definition_of st') = manVersion m \<and> remVersion (definition_of st') = manVersion m"
proof -
  obtain i where at: "lookup nm mg = Some (i, st)" using assms(2) by (auto simp: get_def)
  obtain r mg' where sw: "swapVersion n nm (manVersion m) (manVersion m) mg = (r, mg')" by force
  from assms(1,4) at sw have "r = Inr True" "snd (applyManifest n m mg) = mg'"
    by (auto simp: applyManifest_def split: sum.splits)
  moreover from this(1) sw swap_course [OF at assms(3), where between = "\<lambda>_ mg. mg" and n = n and b = "manVersion m"]
  have "lookup nm mg' = Some (i, (swapped (manVersion m) (manVersion m) st)\<lparr>remStatus := R_mounted, mountedAt := Some (clock n)\<rparr>)"
    by (auto simp: swapVersion_def lookup_set_object at split: if_splits)
  ultimately show ?thesis by (simp add: get_def swapped_def)
qed

theorem applyManifest_uses_version_as_url_witness:
  "\<exists>st'. get ''astra_menu'' (snd (applyManifest accepting_net
      (sample_manifest [(''astra_menu'', sample_artifact [''any''])]) (register sample_remote new_manager))) = Some st' \<and>
    baseUrl (definition_of st') = ''v1.2.0''"
proof -
  let ?m = "sample_manifest [(''astra_menu'', sample_artifact [''any''])]"
  let ?mg = "register sample_remote new_manager"
  let ?st = "\<lparr>definition_of = sample_remote, remStatus = R_mounting, lastError = None, mountedAt = None\<rparr>"
  have "artifacts ?m = [(''astra_menu'', sample_artifact [''any''])]" "manVersion ?m = ''v1.2.0''"
    by (simp_all add: sample_manifest_def)
  moreover have "get ''astra_menu'' ?mg = Some ?st" "remVersion (definition_of ?st) \<noteq> ''v1.2.0''"
    by (simp_all add: get_def sample_registered) (simp add: sample_remote_def)
  moreover have "fst (applyManifest accepting_net ?m ?mg) = Inr [(''astra_menu'', True)]"
    by (simp add: applyManifest_def sample_manifest_def register_def new_manager_def sample_remote_def
        swapVersion_def swap_run_def swap_begin_def swap_checked_def swap_mounted_def tryMount_url_def lookup_def set_object_def
        checkRemoteHealth_def accepting_net_def swapped_def Let_def)
  ultimately show ?thesis
    using applyManifest_uses_version_as_url [of ?m "''astra_menu''" "sample_artifact [''any'']" ?mg ?st accepting_net]
    by auto
qed

end
