(* ===== verification/JsParse.thy ===== *)
theory JsParse
  imports JsJson
begin

text \<open>
  \<open>JSON.parse\<close>, \<open>btoa\<close> and \<open>atob\<close> of the language's library, with their round trips. Strings of the
  model are sequences of code units below 256: an escape \<open>\u\<close> of a larger code unit has no value
  here, and \<open>btoa\<close>, which throws on larger code units, never does; where the code catches that, wider texts are
  modelled (\<open>GhostCart\<close>). The value of a number's text is a
  parameter, as its text is in \<open>stringify\<close>.
\<close>

section \<open>Parsing JSON\<close>

definition is_json_space :: "char \<Rightarrow> bool" where
  "is_json_space c \<longleftrightarrow> (let n = (of_char c :: nat) in n = 32 \<or> n = 9 \<or> n = 10 \<or> n = 13)"

definition skip_ws :: "string \<Rightarrow> string" where
  "skip_ws = dropWhile is_json_space"

definition unescape_char :: "char \<Rightarrow> char option" where
  "unescape_char c =
     map_of [(CHR 0x22, CHR 0x22), (CHR 0x5C, CHR 0x5C), (CHR ''/'', CHR ''/''), (CHR ''b'', CHR 0x08),
       (CHR ''f'', CHR 0x0C), (CHR ''n'', CHR 0x0A), (CHR ''r'', CHR 0x0D), (CHR ''t'', CHR 0x09)] c"

text \<open>The rest of a string literal after its opening quote.\<close>

fun parse_string :: "string \<Rightarrow> (string \<times> string) option" where
  "parse_string [] = None"
| "parse_string (c # cs) =
     (if c = CHR 0x22 then Some ([], cs)
      else if of_char c < (32::nat) then None
      else if c \<noteq> CHR 0x5C then map_option (map_prod (Cons c) id) (parse_string cs)
      else (case cs of
              [] \<Rightarrow> None
            | e # ds \<Rightarrow>
                if e = CHR ''u'' then
                  (case ds of
                     w # x # y # z # rest \<Rightarrow>
                       if list_all is_hex [w, x, y, z] \<and> parse_hex [w, x, y, z] < 256
                       then map_option (map_prod (Cons (char_of (parse_hex [w, x, y, z]))) id) (parse_string rest)
                       else None
                   | _ \<Rightarrow> None)
                else (case unescape_char e of
                        None \<Rightarrow> None
                      | Some d \<Rightarrow> map_option (map_prod (Cons d) id) (parse_string ds))))"

text \<open>The grammar of numbers: a sign, an integer part without leading zeros, fraction and exponent.\<close>

definition number_char :: "char \<Rightarrow> bool" where
  "number_char c \<longleftrightarrow> is_digit c \<or> c \<in> set ''+-.eE''"

definition json_exponent :: "string \<Rightarrow> bool" where
  "json_exponent s =
     (case s of
        [] \<Rightarrow> True
      | c # cs \<Rightarrow>
          c \<in> set ''eE'' \<and>
          (let ds = (case cs of d # ds' \<Rightarrow> if d \<in> set ''+-'' then ds' else cs | [] \<Rightarrow> [])
           in ds \<noteq> [] \<and> list_all is_digit ds))"

definition json_fraction :: "string \<Rightarrow> bool" where
  "json_fraction s =
     (case s of
        c # cs \<Rightarrow>
          if c = CHR ''.''
          then takeWhile is_digit cs \<noteq> [] \<and> json_exponent (dropWhile is_digit cs)
          else json_exponent s
      | [] \<Rightarrow> True)"

definition json_number :: "string \<Rightarrow> bool" where
  "json_number s =
     (let u = (case s of c # cs \<Rightarrow> if c = CHR ''-'' then cs else s | [] \<Rightarrow> []);
          ds = takeWhile is_digit u
      in ds \<noteq> [] \<and> (hd ds = CHR ''0'' \<longrightarrow> length ds = 1) \<and> json_fraction (dropWhile is_digit u))"

definition parse_number :: "(string \<Rightarrow> rat) \<Rightarrow> string \<Rightarrow> (jsval \<times> string) option" where
  "parse_number rn s =
     (let t = takeWhile number_char s
      in if json_number t then Some (JNum (rn t), dropWhile number_char s) else None)"

definition starts_with :: "string \<Rightarrow> string \<Rightarrow> bool" where
  "starts_with p s \<longleftrightarrow> take (length p) s = p"

text \<open>A repeated key keeps its place and takes the later value.\<close>

definition object_of :: "(string \<times> jsval) list \<Rightarrow> jsval" where
  "object_of ps = JObj (foldl (\<lambda>o' (k, v). AList.update k v o') [] ps)"

text \<open>
  The recursive descent, with fuel: every nested call consumes at least one character of the text,
  so the length of the text bounds the depth.
\<close>

fun parse_value :: "(string \<Rightarrow> rat) \<Rightarrow> nat \<Rightarrow> string \<Rightarrow> (jsval \<times> string) option"
  and parse_elements :: "(string \<Rightarrow> rat) \<Rightarrow> nat \<Rightarrow> string \<Rightarrow> (jsval list \<times> string) option"
  and parse_members :: "(string \<Rightarrow> rat) \<Rightarrow> nat \<Rightarrow> string \<Rightarrow> ((string \<times> jsval) list \<times> string) option"
where
  "parse_value rn 0 s = None"
| "parse_value rn (Suc f) s =
     (case skip_ws s of
        [] \<Rightarrow> None
      | c # cs \<Rightarrow>
          if c = CHR 0x22 then map_option (map_prod JStr id) (parse_string cs)
          else if c = CHR ''{'' then
            (if starts_with ''}'' (skip_ws cs) then Some (JObj [], tl (skip_ws cs))
             else map_option (map_prod object_of id) (parse_members rn f cs))
          else if c = CHR ''['' then
            (if starts_with '']'' (skip_ws cs) then Some (JArr [], tl (skip_ws cs))
             else map_option (map_prod JArr id) (parse_elements rn f cs))
          else if starts_with ''null'' (c # cs) then Some (JNull, drop 4 (c # cs))
          else if starts_with ''true'' (c # cs) then Some (JBool True, drop 4 (c # cs))
          else if starts_with ''false'' (c # cs) then Some (JBool False, drop 5 (c # cs))
          else parse_number rn (c # cs))"
| "parse_elements rn 0 s = None"
| "parse_elements rn (Suc f) s =
     (case parse_value rn f s of
        None \<Rightarrow> None
      | Some (v, r) \<Rightarrow>
          (case skip_ws r of
             [] \<Rightarrow> None
           | c # cs \<Rightarrow>
               if c = CHR '','' then map_option (map_prod (Cons v) id) (parse_elements rn f cs)
               else if c = CHR '']'' then Some ([v], cs)
               else None))"
| "parse_members rn 0 s = None"
| "parse_members rn (Suc f) s =
     (case skip_ws s of
        [] \<Rightarrow> None
      | q # qs \<Rightarrow>
          if q \<noteq> CHR 0x22 then None
          else (case parse_string qs of
                  None \<Rightarrow> None
                | Some (k, r) \<Rightarrow>
                    (case skip_ws r of
                       [] \<Rightarrow> None
                     | c # cs \<Rightarrow>
                         if c \<noteq> CHR '':'' then None
                         else (case parse_value rn f cs of
                                 None \<Rightarrow> None
                               | Some (v, r') \<Rightarrow>
                                   (case skip_ws r' of
                                      [] \<Rightarrow> None
                                    | d # ds \<Rightarrow>
                                        if d = CHR '','' then map_option (map_prod (Cons (k, v)) id) (parse_members rn f ds)
                                        else if d = CHR ''}'' then Some ([(k, v)], ds)
                                        else None)))))"

definition json_parse :: "(string \<Rightarrow> rat) \<Rightarrow> string \<Rightarrow> jsval option" where
  "json_parse rn s =
     (case parse_value rn (Suc (length s)) s of
        None \<Rightarrow> None
      | Some (v, r) \<Rightarrow> if skip_ws r = [] then Some v else None)"

section \<open>Round trip of JSON\<close>

lemma hex_digit_reads:
  assumes "n < 16"
  shows "hex_val (hex_digit n) = n" and "is_hex (hex_digit n)"
  using assms
  by (auto simp: hex_val_def hex_digit_def is_hex_def is_lower_hex_def is_digit_def less_eq_char_def)

lemma hex_escape_reads:
  assumes "n < 32"
  shows "parse_hex [CHR ''0'', CHR ''0'', hex_digit (n div 16), hex_digit (n mod 16)] = n"
    and "list_all is_hex [CHR ''0'', CHR ''0'', hex_digit (n div 16), hex_digit (n mod 16)]"
proof -
  have "hex_val (CHR ''0'') = 0" "is_hex (CHR ''0'')"
    by (simp_all add: hex_val_def is_hex_def is_lower_hex_def is_digit_def less_eq_char_def)
  with hex_digit_reads [of "n div 16"] hex_digit_reads [of "n mod 16"] assms
  show "parse_hex [CHR ''0'', CHR ''0'', hex_digit (n div 16), hex_digit (n mod 16)] = n"
    and "list_all is_hex [CHR ''0'', CHR ''0'', hex_digit (n div 16), hex_digit (n mod 16)]"
    by (simp_all add: parse_hex_def)
qed

lemma escaped_chars:
  "char_of (8::nat) = CHR 0x08" "char_of (9::nat) = CHR 0x09" "char_of (10::nat) = CHR 0x0A"
  "char_of (12::nat) = CHR 0x0C" "char_of (13::nat) = CHR 0x0D" "char_of (34::nat) = CHR 0x22"
  "char_of (92::nat) = CHR 0x5C"
  by code_simp+

lemma parse_string_escape:
  "parse_string (escape_char c @ s) = map_option (map_prod (Cons c) id) (parse_string s)"
proof -
  define n where "n = (of_char c :: nat)"
  then have c: "c = char_of n" by simp
  show ?thesis
  proof (cases "n < 32")
    case True
    let ?h = "[CHR ''0'', CHR ''0'', hex_digit (n div 16), hex_digit (n mod 16)]"
    note h = hex_escape_reads [OF True]
    consider "n \<in> {8, 9, 10, 12, 13}" | "n \<notin> {8, 9, 10, 12, 13}" by blast
    then show ?thesis
    proof cases
      case 1
      then show ?thesis unfolding c by (auto simp: escape_char_def escaped_chars unescape_char_def)
    next
      case 2
      with True have "escape_char c = [CHR 0x5C, CHR ''u''] @ ?h"
        by (simp add: escape_char_def n_def [symmetric])
      with True h c show ?thesis by simp
    qed
  next
    case False
    consider "c = CHR 0x22" | "c = CHR 0x5C" | "c \<noteq> CHR 0x22" "c \<noteq> CHR 0x5C" by blast
    then show ?thesis
    proof cases
      case 3
      then have "n \<noteq> 34" "n \<noteq> 92" using c escaped_chars by auto
      with 3 False show ?thesis by (simp add: escape_char_def n_def)
    qed (simp_all add: escape_char_def unescape_char_def)
  qed
qed

lemma parse_string_quoted:
  "parse_string (concat (map escape_char t) @ CHR 0x22 # r) = Some (t, r)"
  by (induction t) (auto simp: parse_string_escape)

text \<open>
  The values that survive: nothing \<open>undefined\<close>, no byte arrays, no key twice, and numbers whose text
  is a JSON number that reads back.
\<close>

primrec json_plain :: "(string \<Rightarrow> rat) \<Rightarrow> (rat \<Rightarrow> string) \<Rightarrow> jsval \<Rightarrow> bool" where
  "json_plain rn ns JUndefined = False"
| "json_plain rn ns JNull = True"
| "json_plain rn ns (JBool b) = True"
| "json_plain rn ns (JNum q) = (json_number (ns q) \<and> list_all number_char (ns q) \<and> rn (ns q) = q)"
| "json_plain rn ns (JStr s) = True"
| "json_plain rn ns (JArr vs) = list_all id (map (json_plain rn ns) vs)"
| "json_plain rn ns (JObj ps) =
     (distinct (map fst ps) \<and> list_all snd (map (map_prod id (json_plain rn ns)) ps))"
| "json_plain rn ns (JBytes bs) = False"

lemma plain_stringify:
  "json_plain rn ns v \<Longrightarrow> stringify_opt ns v = Some (stringify ns v)"
  by (cases v) (auto simp: stringify_def)

lemma stringify_array:
  assumes "json_plain rn ns (JArr vs)"
  shows "stringify ns (JArr vs) = ''['' @ join_with '','' (map (stringify ns) vs) @ '']''"
proof -
  have "map json_element (map (stringify_opt ns) vs) = map (stringify ns) vs"
    using assms plain_stringify [of rn ns] by (induction vs) (auto simp: json_element_def)
  then have "stringify_opt ns (JArr vs) = Some (''['' @ join_with '','' (map (stringify ns) vs) @ '']'')"
    by (simp only: stringify_opt.simps)
  then show ?thesis by (simp add: stringify_def)
qed

definition member_text :: "(rat \<Rightarrow> string) \<Rightarrow> string \<times> jsval \<Rightarrow> string" where
  "member_text ns p = quote (fst p) @ '':'' @ stringify ns (snd p)"

lemma stringify_object:
  assumes "json_plain rn ns (JObj ps)"
  shows "stringify ns (JObj ps) = ''{'' @ join_with '','' (map (member_text ns) ps) @ ''}''"
proof -
  have "json_members (map (map_prod id (stringify_opt ns)) ps) = map (member_text ns) ps"
    using assms plain_stringify [of rn ns]
    by (induction ps) (auto simp: json_members_def json_element_def member_text_def)
  then show ?thesis by (simp add: stringify_def)
qed

lemma object_of_distinct: "distinct (map fst ps) \<Longrightarrow> object_of ps = JObj ps"
proof -
  have "distinct (map fst (qs @ ps)) \<Longrightarrow> foldl (\<lambda>o' (k, v). AList.update k v o') qs ps = qs @ ps" for qs :: "(string \<times> jsval) list"
  proof (induction ps arbitrary: qs)
    case (Cons p ps)
    obtain k v where p: "p = (k, v)" by force
    with Cons.prems have "AList.update k v qs = qs @ [(k, v)]" by (induction qs) auto
    with Cons.IH [of "qs @ [p]"] Cons.prems p show ?case by simp
  qed simp
  from this [of "[]"] show "distinct (map fst ps) \<Longrightarrow> object_of ps = JObj ps" by (simp add: object_of_def)
qed


text \<open>What may follow a value: the end of the text or a character no number continues with.\<close>

definition ends_value :: "string \<Rightarrow> bool" where
  "ends_value r \<longleftrightarrow> (case r of [] \<Rightarrow> True | c # _ \<Rightarrow> \<not> number_char c)"

lemma ends_value_simps [simp]:
  "ends_value []" "ends_value (CHR '','' # r)" "ends_value (CHR '']'' # r)" "ends_value (CHR ''}'' # r)"
  by (auto simp: ends_value_def number_char_def is_digit_def less_eq_char_def)

lemma skip_ws_Cons [simp]: "skip_ws (c # cs) = (if is_json_space c then skip_ws cs else c # cs)"
  by (simp add: skip_ws_def)

lemma json_marks [simp]:
  "\<not> is_json_space (CHR '','')" "\<not> is_json_space (CHR '':'')" "\<not> is_json_space (CHR ''['')"
  "\<not> is_json_space (CHR '']'')" "\<not> is_json_space (CHR ''{'')" "\<not> is_json_space (CHR ''}'')"
  "\<not> is_json_space (CHR 0x22)" "\<not> is_json_space (CHR ''n'')" "\<not> is_json_space (CHR ''t'')"
  "\<not> is_json_space (CHR ''f'')"
  by code_simp+

lemma number_char_not_mark:
  "number_char c \<Longrightarrow> \<not> is_json_space c \<and> c \<notin> set ''{[]}nft'' \<and> c \<noteq> CHR 0x22"
  by (auto simp: number_char_def is_digit_def is_json_space_def Let_def less_eq_char_def)

lemma json_number_head: "json_number t \<Longrightarrow> list_all number_char t \<Longrightarrow> \<exists>c cs. t = c # cs \<and> number_char c"
  by (cases t) (auto simp: json_number_def)

lemma parse_value_number:
  assumes "json_number t" "list_all number_char t" "ends_value r"
  shows "parse_value rn (Suc f) (t @ r) = Some (JNum (rn t), r)"
proof -
  obtain c cs where t: "t = c # cs" "number_char c" using json_number_head [OF assms(1,2)] by blast
  have "takeWhile number_char (t @ r) = t" "dropWhile number_char (t @ r) = r"
    using assms(2,3) by (auto simp: list_all_iff ends_value_def takeWhile_append2 dropWhile_append2 split: list.splits)
  then have "parse_number rn (t @ r) = Some (JNum (rn t), r)" using assms(1) by (simp add: parse_number_def)
  moreover have "c \<notin> set ''{[nft''" "c \<noteq> CHR 0x22" "\<not> is_json_space c"
    using number_char_not_mark [OF t(2)] by auto
  ultimately show ?thesis by (simp add: starts_with_def t(1))
qed

declare parse_value.simps [simp del] parse_elements.simps [simp del] parse_members.simps [simp del]

text \<open>The first character of a value's text, which is no white space and closes nothing.\<close>

lemma stringify_head:
  assumes "json_plain rn ns v"
  shows "\<exists>c cs. stringify ns v = c # cs \<and> \<not> is_json_space c \<and> c \<notin> set '']}''"
proof (cases v)
  case (JNum q)
  with assms obtain c cs where "ns q = c # cs" "number_char c" using json_number_head [of "ns q"] by auto
  moreover from JNum have "stringify ns v = ns q" by (simp add: stringify_def)
  ultimately show ?thesis using number_char_not_mark [of c] by simp
next
  case (JArr vs)
  then show ?thesis using stringify_array [of rn ns vs] assms by simp
next
  case (JObj ps)
  then show ?thesis using stringify_object [of rn ns ps] assms by simp
qed (use assms in \<open>auto simp: stringify_def quote_def\<close>)


lemma parse_elements_steps:
  "parse_value rn f (t @ CHR '']'' # s) = Some (v, CHR '']'' # s) \<Longrightarrow>
     parse_elements rn (Suc f) (t @ CHR '']'' # s) = Some ([v], s)"
  "parse_value rn f (t @ CHR '','' # s) = Some (v, CHR '','' # s) \<Longrightarrow> parse_elements rn f s = Some (vs, r) \<Longrightarrow>
     parse_elements rn (Suc f) (t @ CHR '','' # s) = Some (v # vs, r)"
  by (simp_all add: parse_elements.simps)

lemma parse_members_steps:
  "parse_value rn f (t @ CHR ''}'' # s) = Some (v, CHR ''}'' # s) \<Longrightarrow>
     parse_members rn (Suc f) (quote k @ CHR '':'' # t @ CHR ''}'' # s) = Some ([(k, v)], s)"
  "parse_value rn f (t @ CHR '','' # s) = Some (v, CHR '','' # s) \<Longrightarrow> parse_members rn f s = Some (ps, r) \<Longrightarrow>
     parse_members rn (Suc f) (quote k @ CHR '':'' # t @ CHR '','' # s) = Some ((k, v) # ps, r)"
  by (simp_all add: parse_members.simps quote_def parse_string_quoted)

lemma parse_elements_join:
  assumes "vs \<noteq> []" and "length (join_with '','' (map (stringify ns) vs)) + 2 \<le> f"
    and "\<And>v r g. v \<in> set vs \<Longrightarrow> length (stringify ns v) \<le> g \<Longrightarrow> ends_value r \<Longrightarrow>
           parse_value rn (Suc g) (stringify ns v @ r) = Some (v, r)"
  shows "parse_elements rn f (join_with '','' (map (stringify ns) vs) @ CHR '']'' # r) = Some (vs, r)"
  using assms
proof (induction vs arbitrary: f)
  case (Cons v vs)
  obtain g where f: "f = Suc (Suc g)" using Cons.prems(2) by (cases f; cases "f - 1") auto
  have v: "parse_value rn (Suc g) (stringify ns v @ t) = Some (v, t)" if "ends_value t" for t
    using Cons.prems(2) Cons.prems(3) [of v g] f that by (cases vs) auto
  show ?case
  proof (cases vs)
    case Nil
    then show ?thesis using f parse_elements_steps(1) [OF v] by simp
  next
    case (Cons w ws)
    let ?rest = "join_with '','' (map (stringify ns) vs) @ CHR '']'' # r"
    have "parse_elements rn (Suc g) ?rest = Some (vs, r)"
      using Cons.IH [of "Suc g"] Cons.prems f Cons by simp
    then show ?thesis using f Cons parse_elements_steps(2) [OF v] by simp
  qed
qed simp

lemma parse_members_join:
  assumes "ps \<noteq> []" and "length (join_with '','' (map (member_text ns) ps)) + 2 \<le> f"
    and "\<And>p r g. p \<in> set ps \<Longrightarrow> length (stringify ns (snd p)) \<le> g \<Longrightarrow> ends_value r \<Longrightarrow>
           parse_value rn (Suc g) (stringify ns (snd p) @ r) = Some (snd p, r)"
  shows "parse_members rn f (join_with '','' (map (member_text ns) ps) @ CHR ''}'' # r) = Some (ps, r)"
  using assms
proof (induction ps arbitrary: f)
  case (Cons p ps)
  obtain k v where p: "p = (k, v)" by force
  obtain g where f: "f = Suc (Suc g)" using Cons.prems(2) by (cases f; cases "f - 1") auto
  have v: "parse_value rn (Suc g) (stringify ns v @ t) = Some (v, t)" if "ends_value t" for t
    using Cons.prems(2) Cons.prems(3) [of p g] f p that by (cases ps) (auto simp: member_text_def)
  show ?case
  proof (cases ps)
    case Nil
    then show ?thesis using f p parse_members_steps(1) [OF v] by (simp add: member_text_def)
  next
    case (Cons q qs)
    let ?rest = "join_with '','' (map (member_text ns) ps) @ CHR ''}'' # r"
    have "parse_members rn (Suc g) ?rest = Some (ps, r)"
      using Cons.IH [of "Suc g"] Cons.prems f Cons by simp
    moreover have "join_with '','' (map (member_text ns) (p # ps)) @ CHR ''}'' # r =
        quote k @ CHR '':'' # stringify ns v @ CHR '','' # ?rest"
      using p Cons by (simp add: member_text_def)
    ultimately show ?thesis using f p parse_members_steps(2) [OF v] by simp
  qed
qed simp

lemma parse_value_stringify:
  assumes "json_plain rn ns v" and "length (stringify ns v) \<le> f" and "ends_value r"
  shows "parse_value rn (Suc f) (stringify ns v @ r) = Some (v, r)"
  using assms
proof (induction v arbitrary: f r)
  case (JNum q)
  then show ?case by (simp add: stringify_def parse_value_number)
next
  case (JArr vs)
  show ?case
  proof (cases vs)
    case (Cons w ws)
    let ?t = "join_with '','' (map (stringify ns) vs)"
    obtain c cs where "stringify ns w = c # cs" "\<not> is_json_space c" "c \<notin> set '']}''"
      using stringify_head [of rn ns w] JArr.prems(1) Cons by auto
    then have "\<not> starts_with '']'' (skip_ws (?t @ CHR '']'' # r))"
      using Cons by (cases ws) (auto simp: starts_with_def)
    moreover have "parse_elements rn f (?t @ CHR '']'' # r) = Some (vs, r)"
      using JArr Cons stringify_array [OF JArr.prems(1)] by (intro parse_elements_join) (auto simp: list_all_iff)
    ultimately show ?thesis using stringify_array [OF JArr.prems(1)] by (simp add: parse_value.simps)
  qed (simp add: stringify_def parse_value.simps starts_with_def)
next
  case (JObj ps)
  show ?case
  proof (cases ps)
    case (Cons w ws)
    let ?t = "join_with '','' (map (member_text ns) ps)"
    have "\<not> starts_with ''}'' (skip_ws (?t @ CHR ''}'' # r))"
      using Cons by (cases ws) (auto simp: starts_with_def member_text_def quote_def)
    moreover have "parse_value rn (Suc g) (stringify ns (snd p) @ t) = Some (snd p, t)"
      if "p \<in> set ps" "length (stringify ns (snd p)) \<le> g" "ends_value t" for p t g
      using that JObj.prems(1) JObj.IH [OF that(1), of "snd p" g t]
      by (auto simp: list_all_iff snds.simps)
    then have "parse_members rn f (?t @ CHR ''}'' # r) = Some (ps, r)"
      using JObj.prems(2) Cons stringify_object [OF JObj.prems(1)] by (intro parse_members_join) auto
    moreover have "object_of ps = JObj ps" using JObj.prems(1) by (simp add: object_of_distinct)
    ultimately show ?thesis using stringify_object [OF JObj.prems(1)] by (simp add: parse_value.simps)
  qed (simp add: stringify_def json_members_def parse_value.simps starts_with_def)
qed (auto simp: stringify_def parse_value.simps quote_def parse_string_quoted starts_with_def)

lemma json_parse_stringify:
  assumes "json_plain rn ns v"
  shows "json_parse rn (stringify ns v) = Some v"
  using parse_value_stringify [OF assms order_refl, of "[]"] by (simp add: json_parse_def skip_ws_def)

section \<open>Base64\<close>

definition b64_char :: "nat \<Rightarrow> char" where
  "b64_char n =
     (if n < 26 then char_of (65 + n) else if n < 52 then char_of (71 + n)
      else if n < 62 then char_of (n - 4) else if n = 62 then CHR ''+'' else CHR ''/'')"

definition b64_val :: "char \<Rightarrow> nat option" where
  "b64_val c =
     (let n = of_char c in
      if 65 \<le> n \<and> n \<le> 90 then Some (n - 65) else if 97 \<le> n \<and> n \<le> 122 then Some (n - 71)
      else if 48 \<le> n \<and> n \<le> 57 then Some (n + 4) else if n = 43 then Some 62
      else if n = 47 then Some 63 else None)"

fun btoa_bytes :: "nat list \<Rightarrow> string" where
  "btoa_bytes [] = []"
| "btoa_bytes [a] = [b64_char (a div 4), b64_char (a mod 4 * 16), CHR ''='', CHR ''='']"
| "btoa_bytes [a, b] =
     [b64_char (a div 4), b64_char (a mod 4 * 16 + b div 16), b64_char (b mod 16 * 4), CHR ''='']"
| "btoa_bytes (a # b # c # r) =
     b64_char (a div 4) # b64_char (a mod 4 * 16 + b div 16) # b64_char (b mod 16 * 4 + c div 64) #
     b64_char (c mod 64) # btoa_bytes r"

definition btoa :: "string \<Rightarrow> string" where
  "btoa s = btoa_bytes (map of_char s)"

fun atob_bytes :: "nat list \<Rightarrow> nat list" where
  "atob_bytes (w # x # y # z # r) =
     (w * 4 + x div 16) # (x mod 16 * 16 + y div 4) # (y mod 4 * 64 + z) # atob_bytes r"
| "atob_bytes [x, y, z] = [x * 4 + y div 16, y mod 16 * 16 + z div 4]"
| "atob_bytes [x, y] = [x * 4 + y div 16]"
| "atob_bytes _ = []"

definition drop_padding :: "string \<Rightarrow> string" where
  "drop_padding s =
     (if length s mod 4 \<noteq> 0 \<or> s = [] \<or> last s \<noteq> CHR ''='' then s
      else if butlast s \<noteq> [] \<and> last (butlast s) = CHR ''='' then butlast (butlast s) else butlast s)"

definition is_ascii_space :: "char \<Rightarrow> bool" where
  "is_ascii_space c \<longleftrightarrow> (let n = (of_char c :: nat) in n \<in> {9, 10, 12, 13, 32})"

text \<open>Decoding is forgiving: white space and missing padding are accepted. \<open>None\<close> is the exception.\<close>

definition atob :: "string \<Rightarrow> string option" where
  "atob s =
     (let t = drop_padding (filter (\<lambda>c. \<not> is_ascii_space c) s) in
      if length t mod 4 = 1 \<or> list_ex (\<lambda>c. b64_val c = None) t then None
      else Some (map char_of (atob_bytes (map (the \<circ> b64_val) t))))"

text \<open>The alphabet reads back, and no character of it is white space, padding or \<open>#\<close>.\<close>

lemma b64_char_reads: "n < 64 \<Longrightarrow> b64_val (b64_char n) = Some n"
  by (auto simp: b64_char_def b64_val_def Let_def)

lemma b64_char_codes:
  assumes "n < 64"
  shows "(of_char (b64_char n) :: nat) \<in> {43, 47} \<union> {48..57} \<union> {65..90} \<union> {97..122}"
  using assms by (auto simp: b64_char_def)

lemma b64_char_other:
  assumes "n < 64"
  shows "\<not> is_ascii_space (b64_char n)" "b64_char n \<noteq> CHR ''=''" "b64_char n \<noteq> CHR ''#''"
proof -
  have "(of_char (b64_char n) :: nat) \<notin> {9, 10, 12, 13, 32, 35, 61}" using b64_char_codes [OF assms] by auto
  then show "\<not> is_ascii_space (b64_char n)" "b64_char n \<noteq> CHR ''=''" "b64_char n \<noteq> CHR ''#''"
    by (auto simp: is_ascii_space_def)
qed

text \<open>The six-bit digits of an encoding, without its padding.\<close>

fun sextets :: "nat list \<Rightarrow> nat list" where
  "sextets [] = []"
| "sextets [a] = [a div 4, a mod 4 * 16]"
| "sextets [a, b] = [a div 4, a mod 4 * 16 + b div 16, b mod 16 * 4]"
| "sextets (a # b # c # r) =
     a div 4 # (a mod 4 * 16 + b div 16) # (b mod 16 * 4 + c div 64) # c mod 64 # sextets r"

fun padding :: "nat list \<Rightarrow> nat" where
  "padding [] = 0"
| "padding [a] = 2"
| "padding [a, b] = 1"
| "padding (a # b # c # r) = padding r"

lemma btoa_bytes_sextets: "btoa_bytes bs = map b64_char (sextets bs) @ replicate (padding bs) (CHR ''='')"
  by (induction bs rule: btoa_bytes.induct) (simp_all add: numeral_2_eq_2)

lemma sextets_less: "list_all (\<lambda>b. b < 256) bs \<Longrightarrow> list_all (\<lambda>x. x < 64) (sextets bs)"
  by (induction bs rule: sextets.induct) auto

lemma byte_quotients:
  fixes b :: nat
  assumes "b < 256"
  shows "b div 16 div 16 = 0" "b div 16 mod 16 = b div 16" "b div 64 div 4 = 0" "b div 64 mod 4 = b div 64"
  using assms by (simp_all add: less_mult_imp_div_less)

lemma atob_bytes_sextets: "list_all (\<lambda>b. b < 256) bs \<Longrightarrow> atob_bytes (sextets bs) = bs"
  by (induction bs rule: sextets.induct) (simp_all add: byte_quotients)

lemma sextets_padding: "padding bs \<le> 2 \<and> (length (sextets bs) + padding bs) mod 4 = 0"
proof (induction bs rule: sextets.induct)
  case (4 a b c r)
  then have "(4 + (length (sextets r) + padding r)) mod 4 = 0" by presburger
  with 4 show ?case by simp
qed simp_all

lemma padded_length: "p \<le> 2 \<Longrightarrow> (n + p) mod 4 = 0 \<Longrightarrow> n mod 4 \<noteq> 1" for n p :: nat
  by presburger

lemma drop_padding_replicate:
  assumes "p \<le> 2" "(length t + p) mod 4 = 0" "CHR ''='' \<notin> set t"
  shows "drop_padding (t @ replicate p (CHR ''='')) = t"
proof -
  have "p = 0 \<or> p = 1 \<or> p = 2" using assms(1) by auto
  moreover have "t \<noteq> [] \<Longrightarrow> last t \<noteq> CHR ''=''" using assms(3) last_in_set by metis
  ultimately show ?thesis
    using assms(2) by (auto simp: drop_padding_def numeral_2_eq_2 butlast_append)
qed

lemma atob_btoa: "atob (btoa s) = Some s"
proof -
  let ?bs = "map of_char s :: nat list" and ?t = "map b64_char (sextets (map of_char s))"
  have bytes: "list_all (\<lambda>b. b < 256) ?bs" by (auto simp: list_all_iff)
  have small: "x < 64" if "x \<in> set (sextets ?bs)" for x using sextets_less [OF bytes] that by (auto simp: list_all_iff)
  have "filter (\<lambda>c. \<not> is_ascii_space c) (btoa s) = btoa s"
    using small b64_char_other by (auto simp: btoa_def btoa_bytes_sextets filter_id_conv is_ascii_space_def)
  moreover have "drop_padding (btoa s) = ?t"
    unfolding btoa_def btoa_bytes_sextets
    by (rule drop_padding_replicate) (use sextets_padding [of ?bs] small b64_char_other(2) in \<open>force+\<close>)
  moreover have "length ?t mod 4 \<noteq> 1" using sextets_padding [of ?bs] padded_length by auto
  moreover have "map (the \<circ> b64_val) ?t = sextets ?bs" using small b64_char_reads by (auto intro: map_idI)
  moreover have "\<not> list_ex (\<lambda>c. b64_val c = None) ?t" using small b64_char_reads by (auto simp: list_ex_iff)
  ultimately show ?thesis by (simp add: atob_def atob_bytes_sextets [OF bytes] comp_def)
qed

lemma btoa_no_hash: "CHR ''#'' \<notin> set (btoa s)"
proof -
  have "list_all (\<lambda>x. x < 64) (sextets (map of_char s))"
    by (rule sextets_less) (auto simp: list_all_iff)
  then show ?thesis using b64_char_other(3) by (force simp: btoa_def btoa_bytes_sextets list_all_iff)
qed

end
