(* ===== verification/GhostCart.thy ===== *)
theory GhostCart
  imports JsParse
begin

text \<open>
  The ghost cart of \<open>apps/kiosk/src/ghost-cart\<close>: the signaling envelope that travels through a QR
  code or an NFC tag (\<open>qrSignaling.ts\<close>, \<open>nfcFallback.ts\<close>), and the session over a WebRTC data
  channel (\<open>dataChannel.ts\<close>) with its handshake timeout, outbound queue and liveness check. The
  browser's part (the peer connection, the channel, the NFC reader) acts through events.
\<close>

section \<open>Signaling envelopes\<close>

datatype envelope_type = Offer | Answer

record QrSignalingEnvelope =
  envType :: envelope_type
  sdp :: string
  envKioskId :: string

text \<open>The object literal that is serialised, and the type test on a parsed value.\<close>

definition envelope_value :: "QrSignalingEnvelope \<Rightarrow> jsval" where
  "envelope_value e =
     JObj [(''type'', JStr (case envType e of Offer \<Rightarrow> ''offer'' | Answer \<Rightarrow> ''answer'')),
           (''sdp'', JStr (sdp e)), (''kioskId'', JStr (envKioskId e))]"

definition isEnvelope :: "jsval \<Rightarrow> bool" where
  "isEnvelope v \<longleftrightarrow>
     truthy v \<and> typeof_object v \<and>
     (getProp v ''type'' = JStr ''offer'' \<or> getProp v ''type'' = JStr ''answer'') \<and>
     is_str (getProp v ''sdp'') \<and> is_str (getProp v ''kioskId'')"

text \<open>A value that passed the test, read through the interface \<open>QrSignalingEnvelope\<close>.\<close>

definition envelope_of :: "jsval \<Rightarrow> QrSignalingEnvelope" where
  "envelope_of v =
     \<lparr>envType = (if getProp v ''type'' = JStr ''offer'' then Offer else Answer),
      sdp = str_of (getProp v ''sdp''), envKioskId = str_of (getProp v ''kioskId'')\<rparr>"

datatype GhostCartSignalingError = GhostCartSignalingError string

definition validateQrSignalingEnvelope :: "jsval \<Rightarrow> GhostCartSignalingError + QrSignalingEnvelope" where
  "validateQrSignalingEnvelope v =
     (if isEnvelope v then Inr (envelope_of v) else Inl (GhostCartSignalingError ''Invalid ghost-cart envelope''))"

definition parseEnvelope :: "(string \<Rightarrow> rat) \<Rightarrow> string \<Rightarrow> GhostCartSignalingError + QrSignalingEnvelope" where
  "parseEnvelope rn json =
     (case json_parse rn json of
        None \<Rightarrow> Inl (GhostCartSignalingError ''Malformed ghost-cart payload'')
      | Some v \<Rightarrow> validateQrSignalingEnvelope v)"

definition qr_url :: "(rat \<Rightarrow> string) \<Rightarrow> QrSignalingEnvelope \<Rightarrow> string" where
  "qr_url ns e = ''astra://ghost-cart#'' @ btoa (stringify ns (envelope_value e))"

text \<open>
  What the browser hands over is a description whose texts are sequences of UTF-16 code units, of any size. \<open>JSON.stringify\<close> keeps a
  code unit of 256 and more, except for half of a surrogate pair that stands alone, which it escapes; \<open>btoa\<close> throws on the
  first one it meets. The QR encoder is a third-party library, the parameter \<open>toDataURL\<close>.
\<close>

record WideEnvelope =
  wideType :: envelope_type
  wideSdp :: "nat list"
  wideKioskId :: "nat list"

definition units :: "string \<Rightarrow> nat list" where
  "units = map of_char"

definition high_surrogate :: "nat \<Rightarrow> bool" where
  "high_surrogate u \<longleftrightarrow> 0xD800 \<le> u \<and> u \<le> 0xDBFF"

definition low_surrogate :: "nat \<Rightarrow> bool" where
  "low_surrogate u \<longleftrightarrow> 0xDC00 \<le> u \<and> u \<le> 0xDFFF"

definition escape_unit :: "nat \<Rightarrow> nat list" where
  "escape_unit u =
     (if u < 256 then units (escape_char (char_of u))
      else if high_surrogate u \<or> low_surrogate u then
        units ([CHR 0x5C, CHR ''u''] @ map (\<lambda>k. hex_digit (u div 16 ^ k mod 16)) [3, 2, 1, 0])
      else [u])"

fun escape_units :: "nat list \<Rightarrow> nat list" where
  "escape_units [] = []"
| "escape_units [u] = escape_unit u"
| "escape_units (u # v # us) =
     (if high_surrogate u \<and> low_surrogate v then u # v # escape_units us else escape_unit u @ escape_units (v # us))"

definition quote_units :: "nat list \<Rightarrow> nat list" where
  "quote_units us = units [CHR 0x22] @ escape_units us @ units [CHR 0x22]"

definition envelope_json :: "WideEnvelope \<Rightarrow> nat list" where
  "envelope_json e =
     units (''{'' @ quote ''type'' @ '':'' @ quote (case wideType e of Offer \<Rightarrow> ''offer'' | Answer \<Rightarrow> ''answer'') @ '','' @
       quote ''sdp'' @ '':'') @ quote_units (wideSdp e) @ units ('','' @ quote ''kioskId'' @ '':'') @ quote_units (wideKioskId e) @
     units ''}''"

definition btoa_units :: "nat list \<Rightarrow> string option" where
  "btoa_units us = (if list_all (\<lambda>u. u < 256) us then Some (btoa (map char_of us)) else None)"

definition generateQrDataUrl :: "(string \<Rightarrow> 'r) \<Rightarrow> WideEnvelope \<Rightarrow> GhostCartSignalingError + 'r" where
  "generateQrDataUrl toDataURL e =
     (case btoa_units (envelope_json e) of
        None \<Rightarrow> Inl (GhostCartSignalingError ''Failed to encode ghost-cart offer'')
      | Some payload \<Rightarrow> Inr (toDataURL (''astra://ghost-cart#'' @ payload)))"

text \<open>An envelope whose texts have code units below 256, as the rest of the model has them.\<close>

definition widen :: "QrSignalingEnvelope \<Rightarrow> WideEnvelope" where
  "widen e = \<lparr>wideType = envType e, wideSdp = units (sdp e), wideKioskId = units (envKioskId e)\<rparr>"

definition parseQrPayload :: "(string \<Rightarrow> rat) \<Rightarrow> string \<Rightarrow> GhostCartSignalingError + QrSignalingEnvelope" where
  "parseQrPayload rn raw =
     (let payload = (case findIndex (\<lambda>c. c = CHR ''#'') raw of None \<Rightarrow> raw | Some i \<Rightarrow> drop (Suc i) raw) in
      case atob payload of
        None \<Rightarrow> Inl (GhostCartSignalingError ''Invalid ghost-cart QR encoding'')
      | Some decoded \<Rightarrow> parseEnvelope rn decoded)"

section \<open>NFC fallback\<close>

text \<open>
  A record of an NDEF message. The text encoder and decoder (UTF-8) are arguments; the reader's
  availability is an argument too.
\<close>

record ndef_record =
  mediaType :: "string option"
  ndefData :: "nat list option"

definition GHOST_MIME :: string where
  "GHOST_MIME = ''application/vnd.astra.ghost-cart+json''"

definition writeNdefOffer :: "bool \<Rightarrow> (string \<Rightarrow> nat list) \<Rightarrow> (rat \<Rightarrow> string) \<Rightarrow> QrSignalingEnvelope \<Rightarrow>
    thrown + ndef_record list" where
  "writeNdefOffer isNfcAvailable enc ns e =
     (if \<not> isNfcAvailable then Inl (new_Error ''NFC not available on this device'')
      else Inr [\<lparr>mediaType = Some GHOST_MIME, ndefData = Some (enc (stringify ns (envelope_value e)))\<rparr>])"

text \<open>
  The promise of \<open>readNdefAnswer\<close>: the listeners stay registered until it settles, and its first
  settlement is the one the caller sees.
\<close>

datatype nfc_result =
    NfcEnvelope QrSignalingEnvelope
  | NfcSignalingError GhostCartSignalingError
  | NfcSyntaxError
  | NfcError js_error

record NfcRead =
  nfcSettled :: bool
  nfcListening :: bool
  nfcResult :: "nfc_result option"

definition readNdefAnswer :: "bool \<Rightarrow> thrown + NfcRead" where
  "readNdefAnswer isNfcAvailable =
     (if \<not> isNfcAvailable then Inl (new_Error ''NFC not available on this device'')
      else Inr \<lparr>nfcSettled = False, nfcListening = True, nfcResult = None\<rparr>)"

definition nfc_finish :: "nfc_result \<Rightarrow> NfcRead \<Rightarrow> NfcRead" where
  "nfc_finish r s =
     s\<lparr>nfcSettled := True, nfcListening := False,
       nfcResult := (case nfcResult s of None \<Rightarrow> Some r | Some r' \<Rightarrow> Some r')\<rparr>"

definition onReading :: "(string \<Rightarrow> rat) \<Rightarrow> (nat list \<Rightarrow> string) \<Rightarrow> ndef_record list \<Rightarrow> NfcRead \<Rightarrow> NfcRead" where
  "onReading rn dec records s =
     (case List.find (\<lambda>r. mediaType r = Some GHOST_MIME) records of
        None \<Rightarrow> s
      | Some r \<Rightarrow>
          (case ndefData r of
             None \<Rightarrow> s
           | Some bytes \<Rightarrow>
               (case json_parse rn (dec bytes) of
                  None \<Rightarrow> nfc_finish NfcSyntaxError s
                | Some v \<Rightarrow>
                    (case validateQrSignalingEnvelope v of
                       Inl e \<Rightarrow> nfc_finish (NfcSignalingError e) s
                     | Inr env \<Rightarrow> nfc_finish (NfcEnvelope env) s))))"

definition nfc_onError :: "string option \<Rightarrow> NfcRead \<Rightarrow> NfcRead" where
  "nfc_onError message s =
     (if nfcSettled s then s
      else nfc_finish (NfcError (mk_error (case message of Some m \<Rightarrow> m | None \<Rightarrow> ''NFC read error''))) s)"

definition nfc_onAbort :: "NfcRead \<Rightarrow> NfcRead" where
  "nfc_onAbort s =
     (if nfcSettled s then s
      else nfc_finish (NfcError ((mk_error ''NFC read aborted'')\<lparr>errKind := DomErr ''AbortError''\<rparr>)) s)"

definition nfc_scan_failed :: "thrown \<Rightarrow> NfcRead \<Rightarrow> NfcRead" where
  "nfc_scan_failed err s = (if nfcSettled s then s else nfc_finish (NfcError (as_error err)) s)"

text \<open>Events of the reader reach only registered listeners; a failed \<open>scan()\<close> is a promise of its own.\<close>

datatype nfc_event = NfcReading "ndef_record list" | NfcErrorEvent "string option" | NfcAbort | NfcScanFailed thrown

fun nfc_step :: "(string \<Rightarrow> rat) \<Rightarrow> (nat list \<Rightarrow> string) \<Rightarrow> nfc_event \<Rightarrow> NfcRead \<Rightarrow> NfcRead" where
  "nfc_step rn dec (NfcReading rs) s = (if nfcListening s then onReading rn dec rs s else s)"
| "nfc_step rn dec (NfcErrorEvent m) s = (if nfcListening s then nfc_onError m s else s)"
| "nfc_step rn dec NfcAbort s = (if nfcListening s then nfc_onAbort s else s)"
| "nfc_step rn dec (NfcScanFailed e) s = nfc_scan_failed e s"

section \<open>Round trips of the signaling\<close>

lemma envelope_plain: "json_plain rn ns (envelope_value e)"
  by (simp add: envelope_value_def)

lemma envelope_reads: "validateQrSignalingEnvelope (envelope_value e) = Inr e"
  by (cases "envType e") (simp_all add: validateQrSignalingEnvelope_def isEnvelope_def envelope_value_def envelope_of_def)

lemma findIndex_hash: "CHR ''#'' \<notin> set p \<Longrightarrow> findIndex (\<lambda>c. c = CHR ''#'') (p @ CHR ''#'' # s) = Some (length p)"
  by (induction p) auto

lemma findIndex_no_hash: "CHR ''#'' \<notin> set s \<Longrightarrow> findIndex (\<lambda>c. c = CHR ''#'') s = None"
  by (induction s) auto

lemma units_below [simp]: "list_all (\<lambda>u. u < 256) (units s)"
  by (simp add: units_def list_all_iff of_char_of)

lemma map_char_of_units [simp]: "map char_of (units s) = s"
  by (simp add: units_def comp_def)

lemma units_append [simp]: "units (s @ t) = units s @ units t"
  by (simp add: units_def)

lemma units_simps [simp]: "units [] = []" "units (c # s) = of_char c # units s"
  by (simp_all add: units_def)

lemma unit_below: "(of_char c :: nat) < 256"
  using units_below [of "[c]"] by simp

lemma escape_unit_narrow: "escape_unit (of_char c) = units (escape_char c)" "\<not> high_surrogate (of_char c)"
  using unit_below [of c] by (simp add: escape_unit_def) (use unit_below [of c] in \<open>simp only: high_surrogate_def, linarith\<close>)

lemma escape_units_narrow: "escape_units (units s) = units (concat (map escape_char s))"
  by (induction s rule: induct_list012) (simp_all add: escape_unit_narrow)

lemma envelope_json_narrow: "envelope_json (widen e) = units (stringify ns (envelope_value e))"
  by (cases "envType e")
    (simp_all add: envelope_json_def widen_def quote_units_def escape_units_narrow quote_def [of "sdp e"] quote_def [of "envKioskId e"]
      stringify_def envelope_value_def json_members_def json_element_def)

lemma generate_narrow: "generateQrDataUrl toDataURL (widen e) = Inr (toDataURL (qr_url ns e))"
  by (simp add: generateQrDataUrl_def btoa_units_def envelope_json_narrow [of e ns] qr_url_def)

lemma escape_units_keep:
  "u \<in> set us \<Longrightarrow> 256 \<le> u \<Longrightarrow> \<not> high_surrogate u \<Longrightarrow> \<not> low_surrogate u \<Longrightarrow> u \<in> set (escape_units us)"
  by (induction us rule: escape_units.induct) (auto simp: escape_unit_def)

lemma generate_wide:
  assumes "u \<in> set (wideSdp e) \<union> set (wideKioskId e)" "256 \<le> u" "\<not> high_surrogate u" "\<not> low_surrogate u"
  shows "generateQrDataUrl toDataURL e = Inl (GhostCartSignalingError ''Failed to encode ghost-cart offer'')"
proof -
  have "u \<in> set (envelope_json e)"
    using assms(1) escape_units_keep [OF _ assms(2-4)] by (auto simp: envelope_json_def quote_units_def)
  then have "\<not> list_all (\<lambda>u. u < 256) (envelope_json e)" using assms(2) by (auto simp: list_all_iff not_less)
  then show ?thesis by (simp add: generateQrDataUrl_def btoa_units_def)
qed

lemma parse_payload:
  assumes "raw = q \<and> CHR ''#'' \<notin> set q \<or> raw = p @ ''#'' @ q \<and> CHR ''#'' \<notin> set p"
  shows "parseQrPayload rn raw =
    (case atob q of
       None \<Rightarrow> Inl (GhostCartSignalingError ''Invalid ghost-cart QR encoding'')
     | Some decoded \<Rightarrow> parseEnvelope rn decoded)"
  using assms findIndex_hash [of p q] findIndex_no_hash [of q] by (auto simp: parseQrPayload_def simp del: findIndex_None)

text \<open>
  C29. What the kiosk shows as a QR code, the phone reads: for every session description and kiosk identifier whose code units
  are below 256, whatever they are, a URL is generated and scanning it returns the very envelope, with or without the URL's
  prefix. A description with a larger code unit that is no surrogate is refused with the error of the encoding. Of any text
  with or without a prefix, what is no base64, what is no JSON and what is JSON of another shape is refused, each with its
  own error; a JSON object is accepted exactly when its type is \<open>offer\<close> or \<open>answer\<close> and its description and kiosk
  identifier are texts, and then these are the fields of the envelope. JSON texts are those of the model's parser, whose escapes
  are below 256.
\<close>

theorem qr_signaling_roundtrip:
  "generateQrDataUrl toDataURL (widen e) = Inr (toDataURL (qr_url ns e)) \<and>
   parseQrPayload rn (qr_url ns e) = Inr e \<and>
   parseQrPayload rn (btoa (stringify ns (envelope_value e))) = Inr e \<and>
   ((\<exists>u \<in> set (wideSdp we) \<union> set (wideKioskId we). 256 \<le> u \<and> \<not> (0xD800 \<le> u \<and> u \<le> 0xDFFF)) \<longrightarrow>
      generateQrDataUrl toDataURL we = Inl (GhostCartSignalingError ''Failed to encode ghost-cart offer'')) \<and>
   (raw = q \<and> CHR ''#'' \<notin> set q \<or> raw = p @ ''#'' @ q \<and> CHR ''#'' \<notin> set p \<longrightarrow>
      (atob q = None \<longrightarrow> parseQrPayload rn raw = Inl (GhostCartSignalingError ''Invalid ghost-cart QR encoding'')) \<and>
      (atob q = Some json \<and> json_parse rn json = None \<longrightarrow>
         parseQrPayload rn raw = Inl (GhostCartSignalingError ''Malformed ghost-cart payload'')) \<and>
      (atob q = Some json \<and> json_parse rn json = Some v \<and> (\<forall>ps. v \<noteq> JObj ps) \<longrightarrow>
         parseQrPayload rn raw = Inl (GhostCartSignalingError ''Invalid ghost-cart envelope'')) \<and>
      (atob q = Some json \<and> json_parse rn json = Some (JObj ps) \<longrightarrow>
         parseQrPayload rn raw =
           (case (getProp (JObj ps) ''type'', getProp (JObj ps) ''sdp'', getProp (JObj ps) ''kioskId'') of
              (JStr t, JStr d, JStr k) \<Rightarrow>
                if t = ''offer'' then Inr \<lparr>envType = Offer, sdp = d, envKioskId = k\<rparr>
                else if t = ''answer'' then Inr \<lparr>envType = Answer, sdp = d, envKioskId = k\<rparr>
                else Inl (GhostCartSignalingError ''Invalid ghost-cart envelope'')
            | _ \<Rightarrow> Inl (GhostCartSignalingError ''Invalid ghost-cart envelope''))))"
  (is "_ \<and> ?url \<and> ?bare \<and> ?wide \<and> ?rest")
proof (intro conjI)
  have *: "parseEnvelope rn (stringify ns (envelope_value e)) = Inr e"
    by (simp add: parseEnvelope_def json_parse_stringify [OF envelope_plain] envelope_reads)
  have "qr_url ns e = ''astra://ghost-cart'' @ ''#'' @ btoa (stringify ns (envelope_value e))"
    by (simp add: qr_url_def)
  with * parse_payload [of "qr_url ns e" "btoa (stringify ns (envelope_value e))" "''astra://ghost-cart''" rn]
  show ?url by (simp add: atob_btoa)
  show ?bare
    using * parse_payload [of "btoa (stringify ns (envelope_value e))" "btoa (stringify ns (envelope_value e))" "[]" rn] btoa_no_hash
    by (simp add: atob_btoa)
  show ?wide
  proof
    assume "\<exists>u \<in> set (wideSdp we) \<union> set (wideKioskId we). 256 \<le> u \<and> \<not> (0xD800 \<le> u \<and> u \<le> 0xDFFF)"
    then obtain u where u: "u \<in> set (wideSdp we) \<union> set (wideKioskId we)" "256 \<le> u" "\<not> (0xD800 \<le> u \<and> u \<le> 0xDFFF)"
      by blast
    moreover from u(3) have "\<not> high_surrogate u" "\<not> low_surrogate u"
      unfolding high_surrogate_def low_surrogate_def by linarith+
    ultimately show "generateQrDataUrl toDataURL we = Inl (GhostCartSignalingError ''Failed to encode ghost-cart offer'')"
      by (intro generate_wide) simp_all
  qed
  have shape: "validateQrSignalingEnvelope (JObj ps) =
      (case (getProp (JObj ps) ''type'', getProp (JObj ps) ''sdp'', getProp (JObj ps) ''kioskId'') of
         (JStr t, JStr d, JStr k) \<Rightarrow>
           if t = ''offer'' then Inr \<lparr>envType = Offer, sdp = d, envKioskId = k\<rparr>
           else if t = ''answer'' then Inr \<lparr>envType = Answer, sdp = d, envKioskId = k\<rparr>
           else Inl (GhostCartSignalingError ''Invalid ghost-cart envelope'')
       | _ \<Rightarrow> Inl (GhostCartSignalingError ''Invalid ghost-cart envelope''))"
    by (auto simp: validateQrSignalingEnvelope_def isEnvelope_def envelope_of_def simp del: getProp.simps split: jsval.split)
  have other: "validateQrSignalingEnvelope v = Inl (GhostCartSignalingError ''Invalid ghost-cart envelope'')"
    if "\<forall>ps. v \<noteq> JObj ps"
    using that by (cases v) (simp_all add: validateQrSignalingEnvelope_def isEnvelope_def)
  show ?rest
    using parse_payload [of raw q p rn] shape other by (auto simp: parseEnvelope_def simp del: getProp.simps)
qed (rule generate_narrow)

theorem qr_signaling_roundtrip_witness:
  "parseQrPayload (\<lambda>_. 0) (qr_url (\<lambda>_. []) \<lparr>envType = Offer, sdp = ''v=0'', envKioskId = ''k1''\<rparr>) =
     Inr \<lparr>envType = Offer, sdp = ''v=0'', envKioskId = ''k1''\<rparr> \<and>
   parseQrPayload (\<lambda>_. 0) ''a'' = Inl (GhostCartSignalingError ''Invalid ghost-cart QR encoding'') \<and>
   generateQrDataUrl id \<lparr>wideType = Offer, wideSdp = [0x20AC], wideKioskId = []\<rparr> =
     Inl (GhostCartSignalingError ''Failed to encode ghost-cart offer'')"
proof -
  have "atob ''a'' = None" by code_simp
  with qr_signaling_roundtrip [where rn = "\<lambda>_. 0" and ns = "\<lambda>_. []" and e = "\<lparr>envType = Offer, sdp = ''v=0'', envKioskId = ''k1''\<rparr>"
      and raw = "''a''" and q = "''a''" and toDataURL = "id :: string \<Rightarrow> string"
      and we = "\<lparr>wideType = Offer, wideSdp = [0x20AC], wideKioskId = []\<rparr>" and p = "[]" and json = "[]" and v = JNull and ps = "[]"]
  show ?thesis by simp
qed

section \<open>The data channel session\<close>

datatype channel_state = ChConnecting | ChOpen | ChClosing | ChClosed
datatype pc_state = PcNew | PcConnecting | PcConnected | PcDisconnected | PcFailed | PcClosed
datatype ghost_type = CartSnapshot | CartOp | Ping | Pong

record GhostCartMessage =
  ghostType :: ghost_type
  ghostPayload :: jsval

fun ghost_type_name :: "ghost_type \<Rightarrow> string" where
  "ghost_type_name CartSnapshot = ''cart_snapshot''"
| "ghost_type_name CartOp = ''cart_op''"
| "ghost_type_name Ping = ''ping''"
| "ghost_type_name Pong = ''pong''"

text \<open>
  What is outside the module: which texts the channel refuses to send, which application handlers
  throw, and the library's conversion of numbers.
\<close>

record ghost_env =
  sendThrows :: "string \<Rightarrow> bool"
  handlerThrows :: "nat \<Rightarrow> jsval \<Rightarrow> bool"
  stateHandlerThrows :: "nat \<Rightarrow> pc_state \<Rightarrow> bool"
  numText :: "rat \<Rightarrow> string"
  numValue :: "string \<Rightarrow> rat"

text \<open>
  The closure's variables, the states of the channel and the connection, and what the session did
  so far: \<open>wire\<close> the texts sent, \<open>delivered\<close> and \<open>notified\<close> the calls of message and state handlers.
  A timer is armed or not; the channel opens once, so each is set once.
\<close>

record GhostCartSession =
  readyState :: channel_state
  connectionState :: pc_state
  ghostClosed :: bool
  lastSeen :: ms
  pingTimer :: bool
  staleTimer :: bool
  handshakeTimer :: bool
  outboundQueue :: "GhostCartMessage list"
  messageHandlers :: "nat list"
  stateHandlers :: "nat list"
  wire :: "string list"
  delivered :: "(nat \<times> jsval) list"
  notified :: "(nat \<times> pc_state) list"

definition HANDSHAKE_TIMEOUT_MS :: ms where "HANDSHAKE_TIMEOUT_MS = 30000"
definition PING_INTERVAL_MS :: ms where "PING_INTERVAL_MS = 5000"
definition STALE_TIMEOUT_MS :: ms where "STALE_TIMEOUT_MS = 15000"
definition MAX_QUEUED_MESSAGES :: nat where "MAX_QUEUED_MESSAGES = 64"

definition createGhostCartSession :: "ms \<Rightarrow> GhostCartSession" where
  "createGhostCartSession now =
     \<lparr>readyState = ChConnecting, connectionState = PcNew, ghostClosed = False, lastSeen = now,
      pingTimer = False, staleTimer = False, handshakeTimer = True, outboundQueue = [],
      messageHandlers = [], stateHandlers = [], wire = [], delivered = [], notified = []\<rparr>"

definition message_text :: "ghost_env \<Rightarrow> GhostCartMessage \<Rightarrow> string" where
  "message_text env m =
     stringify (numText env) (JObj [(''type'', JStr (ghost_type_name (ghostType m))), (''payload'', ghostPayload m)])"

text \<open>\<open>channel.send\<close> inside \<open>try\<close>: what it throws is ignored.\<close>

definition try_send :: "ghost_env \<Rightarrow> GhostCartMessage \<Rightarrow> GhostCartSession \<Rightarrow> GhostCartSession" where
  "try_send env m s =
     (let t = message_text env m in if sendThrows env t then s else s\<lparr>wire := wire s @ [t]\<rparr>)"

definition markSeen :: "ms \<Rightarrow> GhostCartSession \<Rightarrow> GhostCartSession" where
  "markSeen now s = s\<lparr>lastSeen := now\<rparr>"

definition flushQueue :: "ghost_env \<Rightarrow> GhostCartSession \<Rightarrow> GhostCartSession" where
  "flushQueue env s =
     (if readyState s \<noteq> ChOpen then s else fold (try_send env) (outboundQueue s) (s\<lparr>outboundQueue := []\<rparr>))"

definition clearTimers :: "GhostCartSession \<Rightarrow> GhostCartSession" where
  "clearTimers s = s\<lparr>pingTimer := False, staleTimer := False, handshakeTimer := False\<rparr>"

text \<open>Closing the channel starts its closing procedure; a closed connection fires no more events.\<close>

definition ghost_close :: "GhostCartSession \<Rightarrow> GhostCartSession" where
  "ghost_close s =
     (if ghostClosed s then s
      else (clearTimers (s\<lparr>ghostClosed := True\<rparr>))
             \<lparr>readyState := (if readyState s = ChClosed then ChClosed else ChClosing), connectionState := PcClosed\<rparr>)"

definition startKeepalive :: "GhostCartSession \<Rightarrow> GhostCartSession" where
  "startKeepalive s = s\<lparr>pingTimer := True, staleTimer := True\<rparr>"

definition ping_tick :: "ghost_env \<Rightarrow> GhostCartSession \<Rightarrow> GhostCartSession" where
  "ping_tick env s =
     (if readyState s = ChOpen then try_send env \<lparr>ghostType = Ping, ghostPayload = JNull\<rparr> s else s)"

definition stale_tick :: "ms \<Rightarrow> GhostCartSession \<Rightarrow> GhostCartSession" where
  "stale_tick now s = (if now - lastSeen s > STALE_TIMEOUT_MS then ghost_close s else s)"

text \<open>\<open>Set.prototype.forEach\<close> over handlers: an exception ends the iteration.\<close>

fun called :: "(nat \<Rightarrow> bool) \<Rightarrow> nat list \<Rightarrow> nat list" where
  "called throws [] = []"
| "called throws (h # hs) = h # (if throws h then [] else called throws hs)"

definition on_message :: "ghost_env \<Rightarrow> ms \<Rightarrow> string \<Rightarrow> GhostCartSession \<Rightarrow> GhostCartSession" where
  "on_message env now text s =
     (case json_parse (numValue env) text of
        None \<Rightarrow> s
      | Some parsed \<Rightarrow>
          let s1 = markSeen now s in
          if parsed = JNull then s1
          else if getProp parsed ''type'' = JStr ''ping'' then
            (if readyState s1 = ChOpen then try_send env \<lparr>ghostType = Pong, ghostPayload = JNull\<rparr> s1 else s1)
          else s1\<lparr>delivered := delivered s1 @
                   map (\<lambda>h. (h, parsed)) (called (\<lambda>h. handlerThrows env h parsed) (messageHandlers s1))\<rparr>)"

definition notify_state :: "ghost_env \<Rightarrow> GhostCartSession \<Rightarrow> GhostCartSession" where
  "notify_state env s =
     s\<lparr>notified := notified s @
         map (\<lambda>h. (h, connectionState s)) (called (\<lambda>h. stateHandlerThrows env h (connectionState s)) (stateHandlers s))\<rparr>"

definition on_open :: "ghost_env \<Rightarrow> ms \<Rightarrow> GhostCartSession \<Rightarrow> GhostCartSession" where
  "on_open env now s =
     notify_state env (startKeepalive (flushQueue env ((markSeen now s)\<lparr>handshakeTimer := False\<rparr>)))"

definition on_connectionstatechange :: "ghost_env \<Rightarrow> GhostCartSession \<Rightarrow> GhostCartSession" where
  "on_connectionstatechange env s =
     (let s1 = (if connectionState s = PcConnected then s\<lparr>handshakeTimer := False\<rparr> else s) in
      if connectionState s = PcFailed then ghost_close s1 else notify_state env s1)"

definition handshake_timeout :: "GhostCartSession \<Rightarrow> GhostCartSession" where
  "handshake_timeout s = (if \<not> ghostClosed s then ghost_close s else s)"

definition ghost_send :: "ghost_env \<Rightarrow> GhostCartMessage \<Rightarrow> GhostCartSession \<Rightarrow> GhostCartSession" where
  "ghost_send env m s =
     (if readyState s = ChOpen then try_send env m s
      else if ghostClosed s then s
      else if length (outboundQueue s) < MAX_QUEUED_MESSAGES then s\<lparr>outboundQueue := outboundQueue s @ [m]\<rparr>
      else s)"

definition set_add :: "nat \<Rightarrow> nat list \<Rightarrow> nat list" where
  "set_add h hs = (if h \<in> set hs then hs else hs @ [h])"

definition ghost_onMessage :: "nat \<Rightarrow> GhostCartSession \<Rightarrow> GhostCartSession" where
  "ghost_onMessage h s = s\<lparr>messageHandlers := set_add h (messageHandlers s)\<rparr>"

definition ghost_onStateChange :: "nat \<Rightarrow> GhostCartSession \<Rightarrow> GhostCartSession" where
  "ghost_onStateChange h s = s\<lparr>stateHandlers := set_add h (stateHandlers s)\<rparr>"

definition ghost_unsubscribe :: "nat \<Rightarrow> GhostCartSession \<Rightarrow> GhostCartSession" where
  "ghost_unsubscribe h s =
     s\<lparr>messageHandlers := filter (\<lambda>x. x \<noteq> h) (messageHandlers s), stateHandlers := filter (\<lambda>x. x \<noteq> h) (stateHandlers s)\<rparr>"

text \<open>
  The events of a session, each under the condition under which the browser fires it: the channel
  opens only from \<open>connecting\<close>, messages arrive while it is open, a closed connection changes no
  more, and only armed timers fire.
\<close>

datatype ghost_event =
    GSend GhostCartMessage
  | GClose
  | GMessage ms string
  | GOpen ms
  | GChannelClosed
  | GState pc_state
  | GHandshakeTimer
  | GPingTimer
  | GStaleTimer ms
  | GOnMessage nat
  | GOnStateChange nat
  | GUnsubscribe nat

fun ghost_step :: "ghost_env \<Rightarrow> ghost_event \<Rightarrow> GhostCartSession \<Rightarrow> GhostCartSession" where
  "ghost_step env (GSend m) s = ghost_send env m s"
| "ghost_step env GClose s = ghost_close s"
| "ghost_step env (GMessage now t) s = (if readyState s = ChOpen then on_message env now t s else s)"
| "ghost_step env (GOpen now) s =
     (if readyState s = ChConnecting then on_open env now (s\<lparr>readyState := ChOpen\<rparr>) else s)"
| "ghost_step env GChannelClosed s = s\<lparr>readyState := ChClosed\<rparr>"
| "ghost_step env (GState st) s =
     (if connectionState s = PcClosed then s else on_connectionstatechange env (s\<lparr>connectionState := st\<rparr>))"
| "ghost_step env GHandshakeTimer s = (if handshakeTimer s then handshake_timeout s else s)"
| "ghost_step env GPingTimer s = (if pingTimer s then ping_tick env s else s)"
| "ghost_step env (GStaleTimer now) s = (if staleTimer s then stale_tick now s else s)"
| "ghost_step env (GOnMessage h) s = ghost_onMessage h s"
| "ghost_step env (GOnStateChange h) s = ghost_onStateChange h s"
| "ghost_step env (GUnsubscribe h) s = ghost_unsubscribe h s"

section \<open>Properties of the session\<close>

lemmas ghost_defs = ghost_send_def ghost_close_def clearTimers_def on_message_def on_open_def
  on_connectionstatechange_def handshake_timeout_def ping_tick_def stale_tick_def markSeen_def
  startKeepalive_def notify_state_def ghost_onMessage_def ghost_onStateChange_def ghost_unsubscribe_def

lemma flush_sends:
  "fold (try_send env) ms s =
     s\<lparr>wire := wire s @ filter (\<lambda>t. \<not> sendThrows env t) (map (message_text env) ms)\<rparr>"
  by (induction ms arbitrary: s) (simp_all add: try_send_def Let_def)

lemma flushQueue_open:
  "readyState s = ChOpen \<Longrightarrow> flushQueue env s =
     s\<lparr>outboundQueue := [], wire := wire s @ filter (\<lambda>t. \<not> sendThrows env t) (map (message_text env) (outboundQueue s))\<rparr>"
  by (simp add: flushQueue_def flush_sends)

text \<open>
  The invariant: the queue is bounded and empty while the channel is open; nothing is sent or
  delivered before it opens; an open channel is watched; a closed session has no timer, no open
  channel and no live connection.
\<close>

definition ghost_inv :: "GhostCartSession \<Rightarrow> bool" where
  "ghost_inv s \<longleftrightarrow>
     length (outboundQueue s) \<le> MAX_QUEUED_MESSAGES \<and> pingTimer s = staleTimer s \<and>
     (readyState s = ChOpen \<longrightarrow> outboundQueue s = [] \<and> pingTimer s \<and> staleTimer s) \<and>
     (readyState s = ChConnecting \<longrightarrow> wire s = [] \<and> delivered s = []) \<and>
     (ghostClosed s \<longrightarrow> \<not> pingTimer s \<and> \<not> staleTimer s \<and> \<not> handshakeTimer s \<and>
        readyState s \<notin> {ChConnecting, ChOpen} \<and> connectionState s = PcClosed)"

lemma try_send_frame:
  "readyState (try_send env m s) = readyState s" "outboundQueue (try_send env m s) = outboundQueue s"
  "pingTimer (try_send env m s) = pingTimer s" "staleTimer (try_send env m s) = staleTimer s"
  "handshakeTimer (try_send env m s) = handshakeTimer s" "ghostClosed (try_send env m s) = ghostClosed s"
  "connectionState (try_send env m s) = connectionState s" "delivered (try_send env m s) = delivered s"
  "lastSeen (try_send env m s) = lastSeen s" "notified (try_send env m s) = notified s"
  by (simp_all add: try_send_def Let_def)

lemma ghost_inv_step: "ghost_inv s \<Longrightarrow> ghost_inv (ghost_step env e s)"
  by (cases e)
    (auto simp: ghost_inv_def ghost_defs flushQueue_open try_send_frame Let_def MAX_QUEUED_MESSAGES_def
      split: option.splits)

interpretation ghost_sessions: free_event_system "ghost_step env" ghost_inv for env
  by unfold_locales (rule ghost_inv_step)

lemma ghost_inv_new: "ghost_inv (createGhostCartSession now)"
  by (simp add: ghost_inv_def createGhostCartSession_def)

lemma closed_session_silent:
  assumes "ghost_inv s" "ghostClosed s"
  shows "ghostClosed (ghost_step env e s) \<and> wire (ghost_step env e s) = wire s \<and>
    delivered (ghost_step env e s) = delivered s \<and> notified (ghost_step env e s) = notified s"
  using assms by (cases e) (auto simp: ghost_inv_def ghost_defs Let_def)

interpretation closed_sessions: free_event_system "ghost_step env" "\<lambda>s. ghost_inv s \<and> ghostClosed s" for env
  by unfold_locales (simp add: ghost_inv_step closed_session_silent)

lemma closed_run_silent:
  assumes "ghost_inv s" "ghostClosed s"
  shows "ghostClosed (fold (ghost_step env) es s) \<and> wire (fold (ghost_step env) es s) = wire s \<and>
    delivered (fold (ghost_step env) es s) = delivered s \<and> notified (fold (ghost_step env) es s) = notified s"
  using assms closed_sessions.run [of s env es] closed_session_silent
    closed_sessions.frame [of "\<lambda>s. (wire s, delivered s, notified s)" env s es]
  by simp

lemma queued_sends:
  assumes "readyState s = ChConnecting" "\<not> ghostClosed s" "length (outboundQueue s) \<le> 64"
  shows "fold (\<lambda>m. ghost_step env (GSend m)) ms s = s\<lparr>outboundQueue := take 64 (outboundQueue s @ ms)\<rparr>"
  using assms
proof (induction ms arbitrary: s)
  case (Cons m ms)
  show ?case
  proof (cases "length (outboundQueue s) < 64")
    case True
    then show ?thesis
      using Cons.IH [of "s\<lparr>outboundQueue := outboundQueue s @ [m]\<rparr>"] Cons.prems
      by (simp add: ghost_send_def MAX_QUEUED_MESSAGES_def)
  next
    case False
    then show ?thesis using Cons by (simp add: ghost_send_def MAX_QUEUED_MESSAGES_def)
  qed
qed simp

text \<open>
  C31. The outbound queue loses no order and no more than it must. Whatever happens in a session, at
  most 64 messages wait, none waits while the channel is open and nothing is sent before it opens;
  messages sent before the channel opens leave in their order when it opens, the first 64 of them
  except those the channel itself refuses, and later ones are sent at once, after them.
\<close>

theorem ghost_queue_in_order:
  fixes env now t ms ms'
  defines "opened \<equiv> ghost_step env (GOpen t) (fold (\<lambda>m. ghost_step env (GSend m)) ms (createGhostCartSession now))"
  shows "(let s = fold (ghost_step env) es (createGhostCartSession now) in
      length (outboundQueue s) \<le> 64 \<and> (readyState s = ChOpen \<longrightarrow> outboundQueue s = []) \<and>
      (readyState s = ChConnecting \<longrightarrow> wire s = [])) \<and>
    wire (fold (\<lambda>m. ghost_step env (GSend m)) ms' opened) =
      filter (\<lambda>t. \<not> sendThrows env t) (map (message_text env) (take 64 ms @ ms')) \<and>
    outboundQueue (fold (\<lambda>m. ghost_step env (GSend m)) ms' opened) = []"
proof -
  let ?s = "fold (ghost_step env) es (createGhostCartSession now)"
  have "ghost_inv ?s" by (rule ghost_sessions.run [OF ghost_inv_new])
  moreover have q: "fold (\<lambda>m. ghost_step env (GSend m)) ms (createGhostCartSession now) =
      (createGhostCartSession now)\<lparr>outboundQueue := take 64 ms\<rparr>"
    by (subst queued_sends) (simp_all add: createGhostCartSession_def)
  moreover have "fold (\<lambda>m. ghost_step env (GSend m)) ms' s = fold (try_send env) ms' s" if "readyState s = ChOpen" for s
    using that by (induction ms' arbitrary: s) (simp_all add: ghost_send_def try_send_frame)
  moreover have "readyState opened = ChOpen" "outboundQueue opened = []"
    "wire opened = filter (\<lambda>t. \<not> sendThrows env t) (map (message_text env) (take 64 ms))"
    unfolding opened_def q
    by (simp_all add: createGhostCartSession_def on_open_def flushQueue_open markSeen_def startKeepalive_def notify_state_def)
  ultimately show ?thesis by (simp add: ghost_inv_def MAX_QUEUED_MESSAGES_def flush_sends)
qed

theorem ghost_queue_in_order_witness:
  "wire (fold (\<lambda>m. ghost_step \<lparr>sendThrows = (\<lambda>_. False), handlerThrows = (\<lambda>_ _. False),
       stateHandlerThrows = (\<lambda>_ _. False), numText = (\<lambda>_. []), numValue = (\<lambda>_. 0)\<rparr> (GSend m))
     [\<lparr>ghostType = CartOp, ghostPayload = JNull\<rparr>]
     (ghost_step \<lparr>sendThrows = (\<lambda>_. False), handlerThrows = (\<lambda>_ _. False),
       stateHandlerThrows = (\<lambda>_ _. False), numText = (\<lambda>_. []), numValue = (\<lambda>_. 0)\<rparr> (GOpen 5) (createGhostCartSession 0))) \<noteq> []"
  using ghost_queue_in_order [of "\<lparr>sendThrows = (\<lambda>_. False), handlerThrows = (\<lambda>_ _. False),
       stateHandlerThrows = (\<lambda>_ _. False), numText = (\<lambda>_. []), numValue = (\<lambda>_. 0)\<rparr>" "[]" 0
     "[\<lparr>ghostType = CartOp, ghostPayload = JNull\<rparr>]" 5 "[]"]
  by simp

text \<open>A quiet environment: nothing throws.\<close>

definition quiet_env :: ghost_env where
  "quiet_env = \<lparr>sendThrows = (\<lambda>_. False), handlerThrows = (\<lambda>_ _. False),
     stateHandlerThrows = (\<lambda>_ _. False), numText = (\<lambda>_. []), numValue = (\<lambda>_. 0)\<rparr>"

definition ghost_watched :: "GhostCartSession \<Rightarrow> bool" where
  "ghost_watched s \<longleftrightarrow> ghostClosed s \<or> handshakeTimer s \<or> staleTimer s"

lemma ghost_watched_step:
  "ghost_inv s \<Longrightarrow> ghost_watched s \<Longrightarrow> e \<noteq> GState PcConnected \<Longrightarrow> ghost_watched (ghost_step env e s)"
  by (cases e)
    (auto simp: ghost_inv_def ghost_watched_def ghost_defs flushQueue_open try_send_frame Let_def split: option.splits)

text \<open>A session without a watch is one whose connection was reported \<open>connected\<close> before its channel had opened.\<close>

lemma unwatched_after_connected:
  assumes "\<not> ghost_watched (fold (ghost_step env) es (createGhostCartSession start))"
  shows "\<exists>es1 es2. es = es1 @ GState PcConnected # es2 \<and>
    (let r = fold (ghost_step env) es1 (createGhostCartSession start) in \<not> ghostClosed r \<and> \<not> staleTimer r)"
  using assms
proof (induction es rule: rev_induct)
  case Nil
  then show ?case by (simp add: ghost_watched_def createGhostCartSession_def)
next
  case (snoc e es)
  let ?r = "fold (ghost_step env) es (createGhostCartSession start)"
  have inv: "ghost_inv ?r" by (rule ghost_sessions.run [OF ghost_inv_new])
  show ?case
  proof (cases "ghost_watched ?r")
    case True
    with snoc.prems ghost_watched_step [OF inv True, of e env] have e: "e = GState PcConnected" by auto
    have "staleTimer (ghost_step env (GState PcConnected) ?r) = staleTimer ?r"
      "ghostClosed (ghost_step env (GState PcConnected) ?r) = ghostClosed ?r"
      by (simp_all add: on_connectionstatechange_def notify_state_def)
    with snoc.prems e have "\<not> ghostClosed ?r \<and> \<not> staleTimer ?r" by (simp add: ghost_watched_def)
    with e show ?thesis by (intro exI [of _ es] exI [of _ "[]"]) (simp add: Let_def)
  next
    case False
    then obtain es1 es2 where "es = es1 @ GState PcConnected # es2"
        "let r = fold (ghost_step env) es1 (createGhostCartSession start) in \<not> ghostClosed r \<and> \<not> staleTimer r"
      using snoc.IH by blast
    then show ?thesis by (intro exI [of _ es1] exI [of _ "es2 @ [e]"]) simp
  qed
qed



text \<open>
  The three automatic closings notify nobody: a failed connection, a handshake timeout and a silent
  peer close the session without a call of a state handler, so that the application that waits for
  one keeps showing its prompt; the module's comment promises a notification of each.
\<close>

theorem ghost_autoclose_not_notified:
  assumes "\<not> ghostClosed s" "connectionState s \<noteq> PcClosed" "handshakeTimer s" "staleTimer r" "\<not> ghostClosed r"
    "now - lastSeen r > 15000"
  shows "let failed = ghost_step env (GState PcFailed) s; timeout = ghost_step env GHandshakeTimer s;
             silent = ghost_step env (GStaleTimer now) r in
    ghostClosed failed \<and> notified failed = notified s \<and> ghostClosed timeout \<and> notified timeout = notified s \<and>
    ghostClosed silent \<and> notified silent = notified r"
  using assms by (simp add: ghost_defs STALE_TIMEOUT_MS_def)

theorem ghost_autoclose_not_notified_witness:
  "notified (ghost_step quiet_env GHandshakeTimer (ghost_onStateChange 1 (createGhostCartSession 0))) = []"
  using ghost_autoclose_not_notified [of "ghost_onStateChange 1 (createGhostCartSession 0)"
      "ghost_step quiet_env (GOpen 0) (createGhostCartSession 0)" 20000 quiet_env]
  by (simp add: createGhostCartSession_def on_open_def flushQueue_open markSeen_def startKeepalive_def
      notify_state_def ghost_onStateChange_def Let_def)

text \<open>
  A session whose connection is established but whose channel never opens is not bounded: the
  report \<open>connected\<close> disarms the handshake timer, the liveness check starts only when the channel
  opens, and no timer is left to close it.
\<close>

theorem ghost_connected_not_watched:
  "let s = ghost_step env (GState PcConnected) (createGhostCartSession now) in
   \<not> ghostClosed s \<and> \<not> handshakeTimer s \<and> \<not> pingTimer s \<and> \<not> staleTimer s \<and>
   (\<forall>es. set es \<subseteq> {GHandshakeTimer, GPingTimer} \<union> range GStaleTimer \<longrightarrow> fold (ghost_step env) es s = s)"
proof -
  let ?s = "ghost_step env (GState PcConnected) (createGhostCartSession now)"
  have off: "\<not> ghostClosed ?s \<and> \<not> handshakeTimer ?s \<and> \<not> pingTimer ?s \<and> \<not> staleTimer ?s"
    by (simp add: createGhostCartSession_def on_connectionstatechange_def notify_state_def)
  have "fold (ghost_step env) es ?s = ?s" if "set es \<subseteq> {GHandshakeTimer, GPingTimer} \<union> range GStaleTimer" for es
    using that off by (induction es) auto
  with off show ?thesis by (simp add: Let_def)
qed

theorem ghost_connected_not_watched_witness:
  "fold (ghost_step quiet_env) [GStaleTimer 1000000] (ghost_step quiet_env (GState PcConnected) (createGhostCartSession 0)) =
     ghost_step quiet_env (GState PcConnected) (createGhostCartSession 0)"
  using ghost_connected_not_watched [of quiet_env 0] by (auto simp: Let_def)

section \<open>Reading an answer from a tag, and gathering candidates\<close>

definition nfc_settled_once :: "NfcRead \<Rightarrow> bool" where
  "nfc_settled_once s \<longleftrightarrow>
     (nfcSettled s \<longleftrightarrow> nfcResult s \<noteq> None) \<and> (nfcListening s \<longleftrightarrow> nfcResult s = None)"

lemmas nfc_defs = onReading_def nfc_onError_def nfc_onAbort_def nfc_scan_failed_def nfc_finish_def

lemma nfc_step_settled:
  assumes "nfc_settled_once s"
  shows "nfc_settled_once (nfc_step rn dec e s) \<and> (nfcResult s \<noteq> None \<longrightarrow> nfc_step rn dec e s = s)"
  using assms
  by (cases e) (auto simp: nfc_settled_once_def nfc_defs split: option.splits sum.splits)

interpretation nfc_reads: free_event_system "nfc_step rn dec" nfc_settled_once for rn dec
  by unfold_locales (simp add: nfc_step_settled)

lemma nfc_run_settled:
  assumes "nfc_settled_once s"
  shows "nfc_settled_once (fold (nfc_step rn dec) es s) \<and>
    (nfcResult s \<noteq> None \<longrightarrow> fold (nfc_step rn dec) es s = s)"
proof -
  have "fold (nfc_step rn dec) es s = s" if "nfcResult s \<noteq> None"
    using that assms by (induction es) (auto simp: nfc_step_settled)
  then show ?thesis using nfc_reads.run [OF assms] by blast
qed

text \<open>
  An NFC tag carries an envelope as a QR code does, and the read settles once. With a text decoder
  that inverts the encoder, reading a tag that \<open>writeNdefOffer\<close> wrote answers the very envelope; a
  tag without a ghost-cart record changes nothing; and after any sequence of readings, reader errors, an
  abort and a failed scan, the listeners are removed exactly when there is a result, and the result
  never changes afterwards. Without NFC both operations throw.
\<close>

theorem nfc_signaling_roundtrip:
  assumes "\<And>t. dec (enc t) = t" and "readNdefAnswer True = Inr s0" and "writeNdefOffer True enc ns env = Inr records"
  shows "nfcResult (nfc_step rn dec (NfcReading records) s0) = Some (NfcEnvelope env) \<and>
    (\<forall>rs. list_all (\<lambda>r. mediaType r \<noteq> Some GHOST_MIME) rs \<longrightarrow> nfc_step rn dec (NfcReading rs) s0 = s0) \<and>
    (let s = fold (nfc_step rn dec) es s0 in
      (nfcListening s \<longleftrightarrow> nfcResult s = None) \<and>
      (nfcResult s \<noteq> None \<longrightarrow> fold (nfc_step rn dec) es' s = s)) \<and>
    readNdefAnswer False = Inl (new_Error ''NFC not available on this device'') \<and>
    writeNdefOffer False enc ns env = Inl (new_Error ''NFC not available on this device'')"
proof -
  have s0: "s0 = \<lparr>nfcSettled = False, nfcListening = True, nfcResult = None\<rparr>"
    using assms(2) by (simp add: readNdefAnswer_def)
  then have inv: "nfc_settled_once s0" by (simp add: nfc_settled_once_def)
  have "records = [\<lparr>mediaType = Some GHOST_MIME, ndefData = Some (enc (stringify ns (envelope_value env)))\<rparr>]"
    using assms(3) by (simp add: writeNdefOffer_def)
  then have "nfcResult (nfc_step rn dec (NfcReading records) s0) = Some (NfcEnvelope env)"
    by (simp add: s0 onReading_def assms(1) json_parse_stringify [OF envelope_plain] envelope_reads nfc_finish_def)
  moreover have "List.find (\<lambda>r. mediaType r = Some GHOST_MIME) rs = None"
    if "list_all (\<lambda>r. mediaType r \<noteq> Some GHOST_MIME) rs" for rs :: "ndef_record list"
    using that by (auto simp: find_None_iff list_all_iff)
  moreover have "let s = fold (nfc_step rn dec) es s0 in
      (nfcListening s \<longleftrightarrow> nfcResult s = None) \<and>
      (nfcResult s \<noteq> None \<longrightarrow> fold (nfc_step rn dec) es' s = s)"
    using nfc_run_settled [OF inv, of rn dec es] nfc_run_settled [of "fold (nfc_step rn dec) es s0" rn dec es']
    by (auto simp: Let_def nfc_settled_once_def)
  ultimately show ?thesis
    by (simp add: onReading_def s0 readNdefAnswer_def writeNdefOffer_def)
qed

theorem nfc_signaling_roundtrip_witness:
  "\<exists>records. nfcResult (nfc_step (\<lambda>_. 0) (map char_of) (NfcReading records)
     \<lparr>nfcSettled = False, nfcListening = True, nfcResult = None\<rparr>) =
     Some (NfcEnvelope \<lparr>envType = Answer, sdp = ''v=0'', envKioskId = ''k''\<rparr>)"
proof -
  let ?env = "\<lparr>envType = Answer, sdp = ''v=0'', envKioskId = ''k''\<rparr>"
  have d: "map char_of (map of_char t :: nat list) = t" for t by (simp add: comp_def)
  have r: "readNdefAnswer True = Inr \<lparr>nfcSettled = False, nfcListening = True, nfcResult = None\<rparr>"
    by (simp add: readNdefAnswer_def)
  obtain records where w: "writeNdefOffer True (map of_char) (\<lambda>_. []) ?env = Inr records"
    by (simp add: writeNdefOffer_def)
  show ?thesis using nfc_signaling_roundtrip [OF d r w, of "\<lambda>_. 0" "[]" "[]"] by blast
qed

text \<open>Waiting for candidates: the promise resolves on completion or after five seconds.\<close>

record IceWait =
  iceSettled :: bool
  iceListening :: bool
  iceTimer :: bool
  iceResolved :: nat

definition waitForIceGathering :: "bool \<Rightarrow> IceWait" where
  "waitForIceGathering done_now =
     (if done_now then \<lparr>iceSettled = False, iceListening = False, iceTimer = False, iceResolved = 1\<rparr>
      else \<lparr>iceSettled = False, iceListening = True, iceTimer = True, iceResolved = 0\<rparr>)"

definition ice_finish :: "IceWait \<Rightarrow> IceWait" where
  "ice_finish w =
     (if iceSettled w then w
      else w\<lparr>iceSettled := True, iceListening := False, iceTimer := False, iceResolved := iceResolved w + 1\<rparr>)"

datatype ice_event = IceGatheringChange bool | IceTimeout

fun ice_step :: "ice_event \<Rightarrow> IceWait \<Rightarrow> IceWait" where
  "ice_step (IceGatheringChange done_now) w = (if iceListening w \<and> done_now then ice_finish w else w)"
| "ice_step IceTimeout w = (if iceTimer w then ice_finish w else w)"

definition createOffer_result :: "'d \<Rightarrow> 'd option \<Rightarrow> 'd" where
  "createOffer_result offer localDescription = (case localDescription of Some d \<Rightarrow> d | None \<Rightarrow> offer)"

text \<open>
  Whatever the gathering does, the wait resolves at most once, it has resolved as soon as the five
  second timer has fired, and nothing stays registered afterwards.
\<close>

theorem ice_wait_resolves:
  "let w = fold ice_step es (waitForIceGathering done_now) in
   iceResolved w \<le> 1 \<and> iceResolved (ice_step IceTimeout w) = 1 \<and>
   \<not> iceTimer (ice_step IceTimeout w) \<and> \<not> iceListening (ice_step IceTimeout w)"
proof -
  define ok where "ok w \<longleftrightarrow> (iceResolved w = 1 \<and> \<not> iceTimer w \<and> \<not> iceListening w) \<or>
    (iceResolved w = 0 \<and> iceTimer w \<and> \<not> iceSettled w)" for w :: IceWait
  have step: "ok w \<Longrightarrow> ok (ice_step e w)" for e w
    by (cases e) (auto simp: ok_def ice_finish_def)
  have "ok w \<Longrightarrow> ok (fold ice_step es w)" for w using step by (induction es arbitrary: w) auto
  moreover have "ok (waitForIceGathering done_now)" by (simp add: ok_def waitForIceGathering_def)
  ultimately have "ok (fold ice_step es (waitForIceGathering done_now))" by blast
  then show ?thesis by (auto simp: ok_def Let_def ice_finish_def)
qed

end
