(* ===== verification/Produce.thy ===== *)
theory Produce
  imports KioskTypes
begin

text \<open>
  Produce recognition: \<open>packages/cart-engine/src/produceRecognition.ts\<close> (the PLU table, the
  recognizer around a WASM module, the match against the catalog) and the camera hook
  \<open>apps/kiosk/src/produce/useProduceScanner.ts\<close>. The WASM module, the camera and the browser's
  animation frames are parameters or events.
\<close>

section \<open>PLU lookup and catalog match\<close>

text \<open>A field that may be \<open>undefined\<close> at run time is an option.\<close>

record ProduceMatch =
  matchItemId :: "string option"
  matchPlu :: string
  matchName :: "string option"
  confidence :: rat

record ProduceRecognitionResult =
  matches :: "ProduceMatch list"
  bestMatch :: "ProduceMatch option"

definition CONFIDENCE_THRESHOLD :: rat where
  "CONFIDENCE_THRESHOLD = 75 / 100"

definition PLU_CATALOG :: "(string \<times> string \<times> string) list" where
  "PLU_CATALOG =
     [(''4011'', ''prod-banana'', ''Bananas''), (''4013'', ''prod-apple-gala'', ''Gala Apples''),
      (''4062'', ''prod-avocado'', ''Avocados''), (''4087'', ''prod-tomato-roma'', ''Roma Tomatoes''),
      (''4405'', ''prod-lemon'', ''Lemons''), (''4899'', ''prod-cucumber'', ''Cucumbers'')]"

text \<open>
  An object literal inherits the properties of \<open>Object.prototype\<close>: the functions with their
  \<open>name\<close>, and \<open>__proto__\<close>, an object without one. None of them has an \<open>itemId\<close>.
\<close>

definition object_prototype :: "(string \<times> string option) list" where
  "object_prototype =
     (''constructor'', Some ''Object'') # (''__proto__'', None) #
     map (\<lambda>k. (k, Some k))
       [''toString'', ''toLocaleString'', ''valueOf'', ''hasOwnProperty'', ''isPrototypeOf'',
        ''propertyIsEnumerable'', ''__defineGetter__'', ''__defineSetter__'', ''__lookupGetter__'', ''__lookupSetter__'']"

definition lookupByPlu :: "string \<Rightarrow> ProduceMatch option" where
  "lookupByPlu code =
     (let normalized = trim code in
      case map_of PLU_CATALOG normalized of
        Some (item, nm) \<Rightarrow>
          Some \<lparr>matchItemId = Some item, matchPlu = normalized, matchName = Some nm, confidence = 1\<rparr>
      | None \<Rightarrow>
          (case map_of object_prototype normalized of
             Some nm \<Rightarrow> Some \<lparr>matchItemId = None, matchPlu = normalized, matchName = nm, confidence = 1\<rparr>
           | None \<Rightarrow> None))"

definition matchToMenuItem :: "ProduceMatch \<Rightarrow> MenuItem list \<Rightarrow> MenuItem option" where
  "matchToMenuItem mt catalog =
     List.find (\<lambda>it. Item.plu it = Some (matchPlu mt) \<or> Some (Item.itemId it) = matchItemId mt) catalog"

section \<open>The recognizer\<close>

text \<open>
  \<open>loading\<close> is the promise of the first load; \<open>imports\<close> counts how often the module was requested.
  What \<open>import(moduleUrl)\<close> gives is an argument: it rejects, or yields a module that has or lacks
  an \<open>infer\<close> function.
\<close>

datatype wasm_import = ImportRejects thrown | ImportNoInfer | ImportModule

record Recognizer =
  moduleUrl :: "string option"
  recModule :: bool
  loading :: "(thrown + unit) option"
  imports_done :: nat

definition createOnnxProduceRecognizer :: "string option \<Rightarrow> Recognizer" where
  "createOnnxProduceRecognizer url = \<lparr>moduleUrl = url, recModule = False, loading = None, imports_done = 0\<rparr>"

text \<open>An absent and an empty URL are both falsy.\<close>

definition load :: "wasm_import \<Rightarrow> Recognizer \<Rightarrow> Recognizer" where
  "load imp r =
     (if recModule r then r\<lparr>loading := Some (Inr ())\<rparr>
      else if moduleUrl r = None \<or> moduleUrl r = Some [] then
        r\<lparr>loading := Some (Inl (new_Error ''VITE_PRODUCE_WASM_URL is not configured''))\<rparr>
      else
        (let r1 = r\<lparr>imports_done := imports_done r + 1\<rparr> in
         case imp of
           ImportRejects e \<Rightarrow> r1\<lparr>loading := Some (Inl e)\<rparr>
         | ImportNoInfer \<Rightarrow>
             r1\<lparr>loading := Some (Inl (new_Error ''Produce WASM module must export an infer function''))\<rparr>
         | ImportModule \<Rightarrow> r1\<lparr>recModule := True, loading := Some (Inr ())\<rparr>))"

definition isReady :: "Recognizer \<Rightarrow> bool" where
  "isReady r = recModule r"

definition recognition_of :: "ProduceMatch list \<Rightarrow> ProduceRecognitionResult" where
  "recognition_of ms =
     \<lparr>matches = ms,
      bestMatch = (case ms of [] \<Rightarrow> None | m # _ \<Rightarrow> if confidence m \<ge> CONFIDENCE_THRESHOLD then Some m else None)\<rparr>"

definition recognize :: "wasm_import \<Rightarrow> thrown + ProduceMatch list \<Rightarrow> Recognizer \<Rightarrow>
    (thrown + ProduceRecognitionResult) \<times> Recognizer" where
  "recognize imp inferred r =
     (let r1 = (if loading r = None then load imp r else r) in
      case loading r1 of
        Some (Inl e) \<Rightarrow> (Inl e, r1)
      | _ \<Rightarrow>
          if \<not> recModule r1 then (Inr \<lparr>matches = [], bestMatch = None\<rparr>, r1)
          else (case inferred of Inl e \<Rightarrow> (Inl e, r1) | Inr ms \<Rightarrow> (Inr (recognition_of ms), r1)))"

text \<open>The recognizer of tests and local development.\<close>

definition test_recognize :: "ProduceRecognitionResult" where
  "test_recognize = \<lparr>matches = [], bestMatch = None\<rparr>"

fun recognize_all :: "(wasm_import \<times> (thrown + ProduceMatch list)) list \<Rightarrow> Recognizer \<Rightarrow>
    (thrown + ProduceRecognitionResult) list \<times> Recognizer" where
  "recognize_all [] r = ([], r)"
| "recognize_all ((imp, inferred) # qs) r =
     (case recognize imp inferred r of
        (x, r') \<Rightarrow> (case recognize_all qs r' of (xs, r'') \<Rightarrow> (x # xs, r'')))"

lemma trim_idem_digits: "list_all (\<lambda>c. \<not> is_space c) s \<Longrightarrow> trim (replicate m (CHR '' '') @ s @ replicate n (CHR '' '')) = s"
proof -
  assume s: "list_all (\<lambda>c. \<not> is_space c) s"
  have sp: "is_space (CHR '' '')" by (simp add: is_space_def)
  have drop: "dropWhile is_space (replicate k (CHR '' '') @ t) = dropWhile is_space t" for k t
    using sp by (induction k) auto
  have keep: "dropWhile is_space (t @ u) = t @ u" if "list_all (\<lambda>c. \<not> is_space c) t" "t \<noteq> []" for t u
    using that by (cases t) auto
  show ?thesis
  proof (cases "s = []")
    case True
    moreover have "dropWhile is_space (replicate m (CHR '' '') @ replicate n (CHR '' '')) = []"
      using drop [of m] drop [of n "[]"] by simp
    ultimately show ?thesis by (simp only: trim_def append_Nil dropWhile.simps rev.simps)
  next
    case False
    then show ?thesis
      using s keep [of s] keep [of "rev s" "[]"] by (simp add: trim_def drop rev_append list_all_rev)
  qed
qed

text \<open>
  Manual PLU entry finds exactly the table's codes. Blanks around a code are ignored; a code of
  the table is answered with its own item at full confidence; every other text is answered with
  \<open>null\<close>, except the names of the inherited properties of an object literal, which are answered
  with a match that has no item. The catalog item returned for a match carries its code or its item
  identifier.
\<close>

theorem lookupByPlu_finds_catalog:
  assumes "list_all (\<lambda>c. \<not> is_space c) code"
  shows "let found = lookupByPlu (replicate m (CHR '' '') @ code @ replicate n (CHR '' '')) in
    (\<forall>item nm. (code, item, nm) \<in> set PLU_CATALOG \<longrightarrow>
       found = Some \<lparr>matchItemId = Some item, matchPlu = code, matchName = Some nm, confidence = 1\<rparr>) \<and>
    (found = None \<longleftrightarrow> code \<notin> fst ` set PLU_CATALOG \<and> code \<notin> fst ` set object_prototype) \<and>
    (\<forall>mt catalog it. found = Some mt \<and> matchToMenuItem mt catalog = Some it \<longrightarrow>
       it \<in> set catalog \<and> (Item.plu it = Some code \<or> Some (Item.itemId it) = matchItemId mt))"
proof -
  let ?found = "lookupByPlu (replicate m (CHR '' '') @ code @ replicate n (CHR '' ''))"
  have t: "trim (replicate m (CHR '' '') @ code @ replicate n (CHR '' '')) = code"
    by (rule trim_idem_digits [OF assms])
  have d: "distinct (map fst PLU_CATALOG)" by (simp add: PLU_CATALOG_def)
  have "map_of PLU_CATALOG code = Some (item, nm)" if "(code, item, nm) \<in> set PLU_CATALOG" for item nm
    using that d by simp
  then have "\<forall>item nm. (code, item, nm) \<in> set PLU_CATALOG \<longrightarrow>
      ?found = Some \<lparr>matchItemId = Some item, matchPlu = code, matchName = Some nm, confidence = 1\<rparr>"
    by (simp add: lookupByPlu_def t)
  moreover have "?found = None \<longleftrightarrow> map_of PLU_CATALOG code = None \<and> map_of object_prototype code = None"
    by (auto simp: lookupByPlu_def t split: option.splits)
  moreover have "?found = Some mt \<Longrightarrow> matchPlu mt = code" for mt
    by (auto simp: lookupByPlu_def t split: option.splits)
  ultimately show ?thesis
    by (auto simp: Let_def map_of_eq_None_iff matchToMenuItem_def find_Some_iff)
qed

theorem lookupByPlu_finds_catalog_witness:
  "lookupByPlu '' 4011 '' = Some \<lparr>matchItemId = Some ''prod-banana'', matchPlu = ''4011'', matchName = Some ''Bananas'', confidence = 1\<rparr>
   \<and> lookupByPlu ''constructor'' \<noteq> None"
proof -
  have "list_all (\<lambda>c. \<not> is_space c) ''4011''" "list_all (\<lambda>c. \<not> is_space c) ''constructor''"
    by (simp_all add: is_space_def)
  from lookupByPlu_finds_catalog [OF this(1), of 1 1] lookupByPlu_finds_catalog [OF this(2), of 0 0]
  show ?thesis by (simp add: Let_def PLU_CATALOG_def object_prototype_def)
qed

lemma load_sets_loading: "\<exists>l. loading (load imp r) = Some l"
  by (auto simp: load_def Let_def split: wasm_import.splits)

lemma recognize_loaded:
  "loading r \<noteq> None \<Longrightarrow> snd (recognize imp inferred r) = r"
  by (auto simp: recognize_def Let_def split: option.splits sum.splits)

lemma recognize_state:
  "snd (recognize imp inferred r) = (if loading r = None then load imp r else r)"
  by (auto simp: recognize_def Let_def split: option.splits sum.splits)

lemma recognize_all_loaded: "loading r \<noteq> None \<Longrightarrow> snd (recognize_all qs r) = r"
proof (induction qs)
  case (Cons q qs)
  obtain imp inferred where "q = (imp, inferred)" by force
  with Cons recognize_loaded [of r imp inferred] show ?case by (simp add: split_beta)
qed simp

lemma recognize_all_failed:
  assumes "loading r = Some (Inl e)"
  shows "set (fst (recognize_all qs r)) \<subseteq> {Inl e}"
proof (induction qs)
  case (Cons q qs)
  obtain imp inferred where q: "q = (imp, inferred)" by force
  have "fst (recognize imp inferred r) = Inl e" "snd (recognize imp inferred r) = r"
    using assms recognize_loaded [of r] by (auto simp: recognize_def Let_def)
  with Cons q show ?case by (simp add: split_beta)
qed simp

text \<open>
  The recognizer only ever reports a best match it is confident of: it is the model's first match and
  its confidence is at least 0.75, otherwise there is none and the caller falls back to manual entry.
  The module is requested at most once, however many images are recognized; and when that request
  fails, every later recognition fails with the same error without asking again.
\<close>

theorem recognizer_confident_and_loaded_once:
  "(\<forall>res m. fst (recognize imp inferred r) = Inr res \<and> bestMatch res = Some m \<longrightarrow>
      confidence m \<ge> 75 / 100 \<and> (\<exists>ms. matches res = m # ms \<and> inferred = Inr (m # ms)) \<and>
      isReady (snd (recognize imp inferred r))) \<and>
   imports_done (snd (recognize_all qs (createOnnxProduceRecognizer url))) \<le> 1 \<and>
   (\<forall>e. loading (snd (recognize imp inferred r)) = Some (Inl e) \<longrightarrow>
      fst (recognize imp inferred r) = Inl e \<and>
      set (fst (recognize_all qs (snd (recognize imp inferred r)))) \<subseteq> {Inl e} \<and>
      snd (recognize_all qs (snd (recognize imp inferred r))) = snd (recognize imp inferred r))"
proof (intro conjI allI impI)
  fix res m assume *: "fst (recognize imp inferred r) = Inr res \<and> bestMatch res = Some m"
  then show "confidence m \<ge> 75 / 100" and "\<exists>ms. matches res = m # ms \<and> inferred = Inr (m # ms)"
    and "isReady (snd (recognize imp inferred r))"
    by (auto simp: recognize_def Let_def recognition_of_def CONFIDENCE_THRESHOLD_def isReady_def
        split: option.splits sum.splits if_splits list.splits)
next
  show "imports_done (snd (recognize_all qs (createOnnxProduceRecognizer url))) \<le> 1"
  proof (cases qs)
    case (Cons q qs')
    obtain imp inferred where q: "q = (imp, inferred)" by force
    let ?r = "load imp (createOnnxProduceRecognizer url)"
    have "snd (recognize_all qs (createOnnxProduceRecognizer url)) = ?r"
      using Cons q recognize_all_loaded [of ?r qs'] load_sets_loading [of imp]
      by (auto simp: recognize_state split_beta createOnnxProduceRecognizer_def)
    then show ?thesis by (auto simp: load_def Let_def createOnnxProduceRecognizer_def split: wasm_import.splits)
  qed (simp add: createOnnxProduceRecognizer_def)
next
  fix e assume *: "loading (snd (recognize imp inferred r)) = Some (Inl e)"
  then show "fst (recognize imp inferred r) = Inl e"
    by (auto simp: recognize_def Let_def split: option.splits sum.splits if_splits)
  show "set (fst (recognize_all qs (snd (recognize imp inferred r)))) \<subseteq> {Inl e}"
    by (rule recognize_all_failed [OF *])
  show "snd (recognize_all qs (snd (recognize imp inferred r))) = snd (recognize imp inferred r)"
    by (rule recognize_all_loaded) (simp add: *)
qed

theorem recognizer_confident_and_loaded_once_witness:
  "fst (recognize_all [(ImportModule, Inr [])] (snd (recognize ImportNoInfer (Inr []) (createOnnxProduceRecognizer (Some ''u'')))))
     = [Inl (new_Error ''Produce WASM module must export an infer function'')]"
  using recognizer_confident_and_loaded_once [of ImportNoInfer "Inr []" "createOnnxProduceRecognizer (Some ''u'')"
      "[(ImportModule, Inr [])]" None]
  by (auto simp: createOnnxProduceRecognizer_def recognize_state load_def split_beta)

section \<open>The camera hook\<close>

text \<open>
  The hook's references and state, and what it has running outside: the camera streams whose
  tracks are live, the animation frames requested and not cancelled, the calls of
  \<open>captureAndRecognize\<close> that wait for a recognition, and the calls of \<open>startScanning\<close> that wait for
  the camera or for playback. Identifiers count up from 1.
\<close>

record ScannerHook =
  isScanning :: bool
  scanError :: "string option"
  lastMatch :: "ProduceMatch option"
  streamRef :: "nat option"
  rafRef :: "nat option"
  liveStreams :: "nat list"
  frames :: "nat list"
  capturing :: nat
  awaitingCamera :: nat
  awaitingPlay :: nat
  nextHandle :: nat

definition new_scanner :: ScannerHook where
  "new_scanner = \<lparr>isScanning = False, scanError = None, lastMatch = None, streamRef = None, rafRef = None,
     liveStreams = [], frames = [], capturing = 0, awaitingCamera = 0, awaitingPlay = 0, nextHandle = 1\<rparr>"

definition requestFrame :: "ScannerHook \<Rightarrow> ScannerHook" where
  "requestFrame h = h\<lparr>rafRef := Some (nextHandle h), frames := frames h @ [nextHandle h], nextHandle := nextHandle h + 1\<rparr>"

definition stopScanning :: "ScannerHook \<Rightarrow> ScannerHook" where
  "stopScanning h =
     (let h1 = (case rafRef h of None \<Rightarrow> h | Some i \<Rightarrow> h\<lparr>frames := removeAll i (frames h), rafRef := None\<rparr>);
          h2 = (case streamRef h1 of None \<Rightarrow> h1 | Some i \<Rightarrow> h1\<lparr>liveStreams := removeAll i (liveStreams h1)\<rparr>)
      in h2\<lparr>streamRef := None, isScanning := False\<rparr>)"

text \<open>\<open>captureAndRecognize\<close> up to its first \<open>await\<close>; \<open>ready\<close> says that the video has a frame and a recognizer exists.\<close>

definition capture_frame :: "bool \<Rightarrow> ScannerHook \<Rightarrow> ScannerHook" where
  "capture_frame ready h = (if \<not> ready then requestFrame h else h\<lparr>capturing := capturing h + 1\<rparr>)"

definition error_text :: "string \<Rightarrow> thrown \<Rightarrow> string" where
  "error_text fallback e = (case e of ThrownError err \<Rightarrow> errMessage err | ThrownOther _ \<Rightarrow> fallback)"

definition capture_settled :: "thrown + ProduceRecognitionResult \<Rightarrow> ScannerHook \<Rightarrow> ScannerHook" where
  "capture_settled res h =
     requestFrame
       ((case res of
           Inr r \<Rightarrow> (if bestMatch r \<noteq> None then h\<lparr>lastMatch := bestMatch r\<rparr> else h)
         | Inl e \<Rightarrow> h\<lparr>scanError := Some (error_text ''Produce recognition failed.'' e)\<rparr>)
        \<lparr>capturing := capturing h - 1\<rparr>)"

definition startScanning :: "ScannerHook \<Rightarrow> ScannerHook" where
  "startScanning h = h\<lparr>isScanning := True, scanError := None, lastMatch := None, awaitingCamera := awaitingCamera h + 1\<rparr>"

text \<open>\<open>getUserMedia\<close> settles; with a video element in place the call goes on to wait for playback.\<close>

definition camera_settled :: "bool \<Rightarrow> (thrown + unit) \<Rightarrow> ScannerHook \<Rightarrow> ScannerHook" where
  "camera_settled hasVideo res h =
     (let h1 = h\<lparr>awaitingCamera := awaitingCamera h - 1\<rparr> in
      case res of
        Inl e \<Rightarrow> h1\<lparr>isScanning := False, scanError := Some (error_text ''Camera unavailable.'' e)\<rparr>
      | Inr _ \<Rightarrow>
          let h2 = h1\<lparr>streamRef := Some (nextHandle h1), liveStreams := liveStreams h1 @ [nextHandle h1],
                     nextHandle := nextHandle h1 + 1\<rparr>
          in if hasVideo then h2\<lparr>awaitingPlay := awaitingPlay h2 + 1\<rparr> else requestFrame h2)"

definition play_settled :: "(thrown + unit) \<Rightarrow> ScannerHook \<Rightarrow> ScannerHook" where
  "play_settled res h =
     (let h1 = h\<lparr>awaitingPlay := awaitingPlay h - 1\<rparr> in
      case res of
        Inl e \<Rightarrow> h1\<lparr>isScanning := False, scanError := Some (error_text ''Camera unavailable.'' e)\<rparr>
      | Inr _ \<Rightarrow> requestFrame h1)"

definition submitPlu :: "string \<Rightarrow> MenuItem list \<Rightarrow> ScannerHook \<Rightarrow> MenuItem option \<times> ScannerHook" where
  "submitPlu code catalog h =
     (case lookupByPlu code of
        None \<Rightarrow> (None, h)
      | Some mt \<Rightarrow> (matchToMenuItem mt catalog, h\<lparr>lastMatch := Some mt\<rparr>))"

datatype scan_event =
    ScanStart
  | ScanStop
  | ScanCamera bool "thrown + unit"
  | ScanPlay "thrown + unit"
  | ScanFrame bool
  | ScanRecognized "thrown + ProduceRecognitionResult"
  | ScanPlu string "MenuItem list"

text \<open>An answer is possible only when a call waits for it; a frame fires only when one is requested.\<close>

fun scan_step :: "scan_event \<Rightarrow> ScannerHook \<Rightarrow> ScannerHook" where
  "scan_step ScanStart h = startScanning h"
| "scan_step ScanStop h = stopScanning h"
| "scan_step (ScanCamera v res) h = (if awaitingCamera h > 0 then camera_settled v res h else h)"
| "scan_step (ScanPlay res) h = (if awaitingPlay h > 0 then play_settled res h else h)"
| "scan_step (ScanFrame ready) h =
     (case frames h of [] \<Rightarrow> h | i # js \<Rightarrow> capture_frame ready (h\<lparr>frames := js\<rparr>))"
| "scan_step (ScanRecognized res) h = (if capturing h > 0 then capture_settled res h else h)"
| "scan_step (ScanPlu code cat) h = snd (submitPlu code cat h)"

section \<open>When the camera is released\<close>

definition scan_waiting :: "ScannerHook \<Rightarrow> bool" where
  "scan_waiting h \<longleftrightarrow> capturing h > 0 \<or> awaitingCamera h > 0 \<or> awaitingPlay h > 0"

fun scan_ok :: "scan_event \<Rightarrow> ScannerHook \<Rightarrow> bool" where
  "scan_ok ScanStart h = (\<not> scan_waiting h \<and> frames h = [] \<and> streamRef h = None)"
| "scan_ok ScanStop h = (\<not> scan_waiting h)"
| "scan_ok _ h = True"

text \<open>Scanning starts when the scanner is at rest and stops while no call waits for an answer.\<close>

abbreviation scan_disciplined :: "scan_event list \<Rightarrow> ScannerHook \<Rightarrow> bool" where
  "scan_disciplined \<equiv> admissible scan_ok scan_step"

definition scan_inv :: "ScannerHook \<Rightarrow> bool" where
  "scan_inv h \<longleftrightarrow>
     liveStreams h = (case streamRef h of None \<Rightarrow> [] | Some i \<Rightarrow> [i]) \<and>
     length (frames h) + capturing h + awaitingCamera h + awaitingPlay h \<le> 1 \<and>
     (frames h \<noteq> [] \<longrightarrow> rafRef h = Some (hd (frames h))) \<and>
     (awaitingCamera h > 0 \<longrightarrow> streamRef h = None)"

lemmas scan_defs = startScanning_def stopScanning_def camera_settled_def play_settled_def capture_frame_def
  capture_settled_def submitPlu_def requestFrame_def Let_def

lemma scan_inv_waiting:
  assumes "scan_inv h" "scan_waiting h"
  shows "frames h = []" and "capturing h + awaitingCamera h + awaitingPlay h = 1"
proof -
  have "length (frames h) + capturing h + awaitingCamera h + awaitingPlay h \<le> 1"
    using assms(1) by (simp add: scan_inv_def)
  then show "frames h = []" "capturing h + awaitingCamera h + awaitingPlay h = 1"
    using assms(2) by (cases "frames h"; auto simp: scan_waiting_def)+
qed

lemma scan_inv_step:
  assumes "scan_inv h" and "scan_ok e h"
  shows "scan_inv (scan_step e h)"
proof (cases e)
  case (ScanFrame ready)
  show ?thesis
  proof (cases "frames h")
    case (Cons i js)
    then have "js = [] \<and> capturing h = 0 \<and> awaitingCamera h = 0 \<and> awaitingPlay h = 0"
      using assms(1) by (auto simp: scan_inv_def)
    then show ?thesis using assms(1) ScanFrame Cons by (simp add: scan_inv_def scan_defs)
  qed (use assms(1) ScanFrame in simp)
next
  case ScanStop
  have "frames h = [] \<or> frames h = [the (rafRef h)] \<and> rafRef h \<noteq> None"
    using assms(1) by (cases "frames h") (auto simp: scan_inv_def)
  then show ?thesis
    using assms ScanStop by (auto simp: scan_inv_def scan_waiting_def scan_defs split: option.splits)
qed (use assms scan_inv_waiting [OF assms(1)] in
    \<open>auto simp: scan_inv_def scan_waiting_def scan_defs split: option.splits sum.splits\<close>)

interpretation scans: event_system scan_step scan_ok scan_inv
  by unfold_locales (rule scan_inv_step)

lemma scan_inv_new: "scan_inv new_scanner"
  by (simp add: scan_inv_def new_scanner_def)

lemma rest_is_silent:
  assumes "frames h = []" "\<not> scan_waiting h" "e \<noteq> ScanStart"
  shows "liveStreams (scan_step e h) = liveStreams h \<or> e = ScanStop"
    and "frames (scan_step e h) = []" "\<not> scan_waiting (scan_step e h)"
  using assms by (cases e; auto simp: scan_waiting_def scan_defs split: option.splits)+

text \<open>
  A scanner that is started at rest and stopped between recognitions owns at most one camera
  stream and one pass of its loop: in every such run the live streams are exactly the one it
  refers to, at most one frame, recognition or camera request is pending, and stopping releases the camera
  and cancels the frame, so that nothing runs any more.
\<close>

theorem scanner_stop_releases_camera:
  assumes "scan_disciplined es new_scanner"
  defines "h \<equiv> fold scan_step es new_scanner"
  shows "length (liveStreams h) \<le> 1 \<and> length (frames h) + capturing h + awaitingCamera h + awaitingPlay h \<le> 1 \<and>
    (\<not> scan_waiting h \<longrightarrow>
      (let s = scan_step ScanStop h in
       liveStreams s = [] \<and> frames s = [] \<and> \<not> isScanning s \<and>
       (\<forall>e. e \<noteq> ScanStart \<longrightarrow> liveStreams (scan_step e s) = [] \<and> frames (scan_step e s) = [])))"
proof -
  have inv: "scan_inv h" unfolding h_def by (rule scans.inv_run [OF scan_inv_new assms(1)])
  have stop: "liveStreams (stopScanning h) = [] \<and> frames (stopScanning h) = [] \<and> \<not> isScanning (stopScanning h) \<and>
      \<not> scan_waiting (stopScanning h) \<and> streamRef (stopScanning h) = None" if "\<not> scan_waiting h"
  proof -
    have "frames h = [] \<or> frames h = [the (rafRef h)] \<and> rafRef h \<noteq> None"
      using inv by (cases "frames h") (auto simp: scan_inv_def)
    then show ?thesis
      using inv that by (auto simp: scan_inv_def scan_waiting_def scan_defs split: option.splits)
  qed
  have "liveStreams (scan_step e (stopScanning h)) = [] \<and> frames (scan_step e (stopScanning h)) = []"
    if "\<not> scan_waiting h" "e \<noteq> ScanStart" for e
    using rest_is_silent [of "stopScanning h" e] stop [OF that(1)] that(2)
    by (auto simp: stopScanning_def [of "stopScanning h"] Let_def split: option.splits)
  with stop inv show ?thesis
    by (auto simp: scan_inv_def Let_def split: option.splits)
qed

theorem scanner_stop_releases_camera_witness:
  "liveStreams (fold scan_step [ScanStart, ScanCamera True (Inr ()), ScanPlay (Inr ()), ScanFrame False] new_scanner) = [1] \<and>
   liveStreams (scan_step ScanStop
     (fold scan_step [ScanStart, ScanCamera True (Inr ()), ScanPlay (Inr ()), ScanFrame False] new_scanner)) = []"
  using scanner_stop_releases_camera [of "[ScanStart, ScanCamera True (Inr ()), ScanPlay (Inr ()), ScanFrame False]"]
  by (simp add: new_scanner_def scan_waiting_def scan_defs)

text \<open>
  Stopping while something is awaited does not stop it. A recognition that finishes after
  \<open>stopScanning\<close> requests another frame, and while the video is gone every frame requests the next
  one, so the loop never ends; a camera that is granted after \<open>stopScanning\<close>, also the one of the
  unmount, stays on although the hook is not scanning.
\<close>

theorem scanner_stop_in_flight:
  "(capturing h > 0 \<longrightarrow>
      frames (fold scan_step (replicate n (ScanFrame False)) (scan_step (ScanRecognized res) (scan_step ScanStop h))) \<noteq> []) \<and>
   (awaitingCamera h > 0 \<longrightarrow>
      liveStreams (scan_step (ScanCamera v (Inr ())) (scan_step ScanStop h)) \<noteq> [] \<and>
      \<not> isScanning (scan_step (ScanCamera v (Inr ())) (scan_step ScanStop h)))"
proof -
  have loop: "frames g \<noteq> [] \<Longrightarrow> frames (fold scan_step (replicate n (ScanFrame False)) g) \<noteq> []" for g
    by (induction n arbitrary: g) (auto simp: scan_defs split: list.splits)
  have "capturing (stopScanning h) = capturing h" "awaitingCamera (stopScanning h) = awaitingCamera h"
    "\<not> isScanning (stopScanning h)"
    by (simp_all add: stopScanning_def Let_def split: option.splits)
  moreover have "frames (capture_settled res g) \<noteq> []" for g by (simp add: capture_settled_def requestFrame_def)
  ultimately show ?thesis
    using loop by (simp add: camera_settled_def requestFrame_def Let_def)
qed

theorem scanner_stop_in_flight_witness:
  "liveStreams (scan_step (ScanCamera False (Inr ())) (scan_step ScanStop (scan_step ScanStart new_scanner))) \<noteq> []"
  using scanner_stop_in_flight [of "scan_step ScanStart new_scanner" 0 "Inl (ThrownOther [])" False]
  by (simp add: new_scanner_def startScanning_def)

end
