(* ===== verification/AdminRoles.thy ===== *)
theory AdminRoles
  imports Prelude
begin

text \<open>
  Access control of the admin console, \<open>apps/kiosk-admin/src/lib/roles.ts\<close>: the roles in their
  hierarchy, as a linear order, and the permissions of each.
\<close>

datatype AdminRole = readonly | cashier | supervisor | manager | admin

datatype PermissionAction = view | create | update | delete

record Permission =
  resource :: string
  action_of :: PermissionAction

definition perm :: "string \<Rightarrow> PermissionAction \<Rightarrow> Permission" where
  "perm r a = \<lparr>resource = r, action_of = a\<rparr>"

fun ROLE_PERMISSIONS :: "AdminRole \<Rightarrow> Permission list" where
  "ROLE_PERMISSIONS admin = [perm ''*'' view, perm ''*'' create, perm ''*'' update, perm ''*'' delete]"
| "ROLE_PERMISSIONS manager =
     [perm ''dashboard'' view, perm ''locations'' view, perm ''lanes'' view, perm ''kiosks'' view,
      perm ''menu'' view, perm ''menu'' update, perm ''inventory'' view, perm ''inventory'' update,
      perm ''orders'' view, perm ''orders'' update, perm ''payments'' view, perm ''refunds'' create,
      perm ''employees'' view, perm ''audit'' view]"
| "ROLE_PERMISSIONS supervisor =
     [perm ''dashboard'' view, perm ''kiosks'' view, perm ''orders'' view, perm ''orders'' update,
      perm ''payments'' view, perm ''refunds'' create, perm ''inventory'' view]"
| "ROLE_PERMISSIONS cashier = [perm ''dashboard'' view, perm ''orders'' view, perm ''payments'' view]"
| "ROLE_PERMISSIONS readonly = [perm ''dashboard'' view, perm ''kiosks'' view, perm ''orders'' view]"

definition canAccess :: "AdminRole \<Rightarrow> string \<Rightarrow> PermissionAction \<Rightarrow> bool" where
  "canAccess role res act \<longleftrightarrow>
     list_ex (\<lambda>p. (resource p = ''*'' \<or> resource p = res) \<and> action_of p = act) (ROLE_PERMISSIONS role)"

definition hierarchy :: "AdminRole list" where
  "hierarchy = [readonly, cashier, supervisor, manager, admin]"

text \<open>\<open>indexOf\<close>, with \<open>-1\<close> for an absent element.\<close>

definition indexOf :: "'a list \<Rightarrow> 'a \<Rightarrow> int" where
  "indexOf xs x = (case findIndex (\<lambda>y. y = x) xs of None \<Rightarrow> - 1 | Some i \<Rightarrow> int i)"

definition requiresRole :: "AdminRole \<Rightarrow> AdminRole \<Rightarrow> bool" where
  "requiresRole role minRole \<longleftrightarrow> indexOf hierarchy role \<ge> indexOf hierarchy minRole"

fun rank :: "AdminRole \<Rightarrow> nat" where
  "rank readonly = 0" | "rank cashier = 1" | "rank supervisor = 2" | "rank manager = 3" | "rank admin = 4"

lemma rank_inj: "rank r = rank r' \<Longrightarrow> r = r'"
  by (cases r; cases r') simp_all

instantiation AdminRole :: linorder
begin

definition less_eq_AdminRole :: "AdminRole \<Rightarrow> AdminRole \<Rightarrow> bool" where
  "less_eq_AdminRole r r' \<longleftrightarrow> rank r \<le> rank r'"

definition less_AdminRole :: "AdminRole \<Rightarrow> AdminRole \<Rightarrow> bool" where
  "less_AdminRole r r' \<longleftrightarrow> rank r < rank r'"

instance
  by standard (auto simp: less_eq_AdminRole_def less_AdminRole_def intro: rank_inj)

end

lemma indexOf_hierarchy: "indexOf hierarchy r = int (rank r)"
  by (cases r) (simp_all add: indexOf_def hierarchy_def)

text \<open>
  The permissions grow along the hierarchy from cashier up: every listed permission of a role is
  held by each higher one.
\<close>

lemma permissions_grow:
  "list_all (\<lambda>p. canAccess r' (resource p) (action_of p)) (ROLE_PERMISSIONS r)" if "r \<le> r'" "r \<noteq> readonly"
  using that by (cases r; cases r') (simp_all add: canAccess_def perm_def less_eq_AdminRole_def)

lemma readonly_permissions:
  "canAccess readonly res act \<longleftrightarrow> act = view \<and> res \<in> {''dashboard'', ''kiosks'', ''orders''}"
  by (auto simp: canAccess_def perm_def)

lemma cashier_permissions:
  "canAccess cashier res act \<longleftrightarrow> act = view \<and> res \<in> {''dashboard'', ''orders'', ''payments''}"
  by (auto simp: canAccess_def perm_def)

lemma admin_permissions: "canAccess admin res act"
  by (cases act) (simp_all add: canAccess_def perm_def)

lemma canAccess_mono:
  assumes "r \<le> r'" "r \<noteq> readonly" "canAccess r res act"
  shows "canAccess r' res act"
proof (cases "r' = admin")
  case False
  then have "r \<noteq> admin" using assms(1) by (cases r') (auto simp: less_eq_AdminRole_def)
  then have "list_all (\<lambda>p. resource p \<noteq> ''*'') (ROLE_PERMISSIONS r)" by (cases r) (simp_all add: perm_def)
  with assms(3) obtain p where p: "p \<in> set (ROLE_PERMISSIONS r)" "resource p = res" "action_of p = act"
    by (auto simp: canAccess_def list_ex_iff list_all_iff)
  with permissions_grow [OF assms(1,2)] show ?thesis by (auto simp: list_all_iff)
qed (simp add: admin_permissions)

text \<open>
  The hierarchy of the console is the linear order of its roles, and access follows it with one
  exception: whatever a role may do, every role that satisfies a requirement for it may do too,
  except that a cashier may not view the kiosks, which a read-only account may. An administrator
  may do everything, and only administrators may delete.
\<close>

theorem access_follows_hierarchy:
  "(requiresRole r' r \<longleftrightarrow> r \<le> r') \<and>
   (r \<le> r' \<and> canAccess r res act \<longrightarrow>
      (canAccess r' res act \<longleftrightarrow> \<not> (r = readonly \<and> r' = cashier \<and> res = ''kiosks''))) \<and>
   canAccess admin res act \<and> (canAccess r res delete \<longrightarrow> r = admin)"
proof -
  have "requiresRole r' r \<longleftrightarrow> r \<le> r'" by (simp add: requiresRole_def indexOf_hierarchy less_eq_AdminRole_def)
  moreover have "canAccess r' res act \<longleftrightarrow> \<not> (r = readonly \<and> r' = cashier \<and> res = ''kiosks'')"
    if "r \<le> r'" "canAccess r res act"
  proof (cases "r = readonly")
    case True
    with that(2) have "act = view" "res \<in> {''dashboard'', ''kiosks'', ''orders''}" by (auto simp: readonly_permissions)
    with True show ?thesis by (cases r') (auto simp: canAccess_def perm_def)
  qed (use canAccess_mono that in auto)
  moreover have "canAccess r res delete \<longrightarrow> r = admin" by (cases r) (simp_all add: canAccess_def perm_def)
  ultimately show ?thesis by (simp add: admin_permissions)
qed

theorem access_follows_hierarchy_witness:
  "requiresRole supervisor cashier \<and> canAccess manager ''orders'' update \<and>
   canAccess readonly ''kiosks'' view \<and> \<not> canAccess cashier ''kiosks'' view"
  using access_follows_hierarchy [of supervisor cashier "''orders''" view]
    access_follows_hierarchy [of manager supervisor "''orders''" update]
    access_follows_hierarchy [of cashier readonly "''kiosks''" view]
  by (simp add: canAccess_def perm_def less_eq_AdminRole_def)

end
