(* ===== verification/Ids.thy ===== *)
theory Ids
  imports JsValues
begin

text \<open>
  The UUID v7 helpers of \<open>packages/shared-types/src/ids.ts\<close>. The generator itself comes from a
  package; here are the format test, the guarded conversion and the embedded time stamp.
\<close>

section \<open>Format\<close>

definition is_7 :: "char \<Rightarrow> bool" where "is_7 c \<longleftrightarrow> c = CHR ''7''"
definition is_dash :: "char \<Rightarrow> bool" where "is_dash c \<longleftrightarrow> c = CHR ''-''"
definition is_variant :: "char \<Rightarrow> bool" where "is_variant c \<longleftrightarrow> c \<in> set ''89abAB''"

text \<open>The regular expression, position by position; its flag \<open>i\<close> admits both cases.\<close>

definition UUID_V7_REGEX :: "(char \<Rightarrow> bool) list" where
  "UUID_V7_REGEX =
     replicate 8 is_hex @ [is_dash] @ replicate 4 is_hex @ [is_dash, is_7] @ replicate 3 is_hex @
     [is_dash, is_variant] @ replicate 3 is_hex @ [is_dash] @ replicate 12 is_hex"

definition regex_test :: "(char \<Rightarrow> bool) list \<Rightarrow> string \<Rightarrow> bool" where
  "regex_test re s \<longleftrightarrow> list_all2 (\<lambda>p c. p c) re s"

definition isValidId :: "jsval \<Rightarrow> bool" where
  "isValidId v = (case v of JStr s \<Rightarrow> regex_test UUID_V7_REGEX s | _ \<Rightarrow> False)"

definition invalid_id :: "string \<Rightarrow> thrown" where
  "invalid_id s = new_Error (''Invalid UUID v7: '' @ [CHR 0x22] @ s @ [CHR 0x22])"

definition idFromString :: "string \<Rightarrow> thrown + string" where
  "idFromString s = (if \<not> isValidId (JStr s) then Inl (invalid_id s) else Inr s)"

text \<open>The milliseconds of the date, from the first 48 bits.\<close>

definition extractTimestampFromId :: "string \<Rightarrow> thrown + nat" where
  "extractTimestampFromId s =
     (if \<not> isValidId (JStr s) then Inl (invalid_id s)
      else Inr (parse_hex (take 12 (filter (\<lambda>c. c \<noteq> CHR ''-'') s))))"

section \<open>Shape of an identifier\<close>

lemma regex_test_append:
  "regex_test (ps @ qs) s \<longleftrightarrow>
     regex_test ps (take (length ps) s) \<and> regex_test qs (drop (length ps) s)"
  unfolding regex_test_def by (auto simp: list_all2_append1 dest: list_all2_lengthD intro: list_all2_appendI)
    (metis append_eq_conv_conj list_all2_lengthD append_take_drop_id)+

lemma regex_test_replicate: "regex_test (replicate n p) s \<longleftrightarrow> length s = n \<and> list_all p s"
  by (auto simp: regex_test_def list_all2_conv_all_nth list_all_length)

lemma regex_test_Cons: "regex_test (p # ps) s \<longleftrightarrow> (\<exists>c cs. s = c # cs \<and> p c \<and> regex_test ps cs)"
  by (auto simp: regex_test_def list_all2_Cons1)

lemma valid_id_shape:
  assumes "isValidId (JStr s)"
  obtains a b r where "s = a @ CHR ''-'' # b @ CHR ''-'' # r" "length a = 8" "length b = 4"
    "list_all is_hex a" "list_all is_hex b"
proof -
  have "regex_test UUID_V7_REGEX s" using assms by (simp add: isValidId_def)
  then have "regex_test (replicate 8 is_hex) (take 8 s)" "regex_test [is_dash] (take 1 (drop 8 s))"
    "regex_test (replicate 4 is_hex) (take 4 (drop 9 s))" "regex_test [is_dash, is_7] (take 2 (drop 13 s))"
    unfolding UUID_V7_REGEX_def regex_test_append by (simp_all add: numeral_2_eq_2)
  then obtain c where a: "length (take 8 s) = 8" "list_all is_hex (take 8 s)" "take 1 (drop 8 s) = ''-''"
    "length (take 4 (drop 9 s)) = 4" "list_all is_hex (take 4 (drop 9 s))" "take 2 (drop 13 s) = [CHR ''-'', c]"
    unfolding regex_test_replicate by (auto simp: regex_test_Cons is_dash_def regex_test_def [of "[]"])
  have "s = take 8 s @ take 1 (drop 8 s) @ take 4 (drop 9 s) @ take 2 (drop 13 s) @ drop 15 s"
    using append_take_drop_id [of 8 s] append_take_drop_id [of 1 "drop 8 s"] append_take_drop_id [of 4 "drop 9 s"]
      append_take_drop_id [of 2 "drop 13 s"]
    by (simp add: drop_drop [symmetric] del: drop_drop append_take_drop_id) (simp add: drop_drop)
  with a that [of "take 8 s" "take 4 (drop 9 s)" "c # drop 15 s"] show thesis by simp
qed

section \<open>Identifiers sort by time\<close>

lemma append_less_iff:
  fixes a a' x x' :: string
  assumes "length a = length a'"
  shows "a @ x < a' @ x' \<longleftrightarrow> a < a' \<or> a = a' \<and> x < x'"
  using assms by (induction a a' rule: list_induct2) auto

lemma parse_hex_Cons: "parse_hex (c # s) = hex_val c * 16 ^ length s + parse_hex s"
proof (induction s rule: rev_induct)
  case (snoc d s)
  have "parse_hex (c # s @ [d]) = 16 * parse_hex (c # s) + hex_val d" using parse_hex_snoc [of "c # s" d] by simp
  with snoc show ?case by (simp add: parse_hex_snoc)
qed (simp add: parse_hex_def)

lemma hex_val_mono: "is_lower_hex c \<Longrightarrow> is_lower_hex d \<Longrightarrow> c < d \<Longrightarrow> hex_val c < hex_val d"
  by (auto simp: is_lower_hex_def is_digit_def hex_val_def less_eq_char_def less_char_def)

lemma parse_hex_mono:
  assumes "length a = length a'" "list_all is_lower_hex a" "list_all is_lower_hex a'" "a < a'"
  shows "parse_hex a < parse_hex a'"
  using assms
proof (induction a a' rule: list_induct2)
  case (Cons c s d t)
  show ?case
  proof (cases "c = d")
    case False
    with Cons.prems have "c < d" by auto
    then have "Suc (hex_val c) \<le> hex_val d" using hex_val_mono [of c d] Cons.prems by auto
    then have "Suc (hex_val c) * 16 ^ length s \<le> hex_val d * 16 ^ length t"
      unfolding Cons.hyps by (rule mult_le_mono1)
    moreover have "parse_hex s < 16 ^ length s"
      using Cons.prems by (intro parse_hex_less) (auto simp: list_all_iff is_hex_def)
    ultimately show ?thesis by (simp add: parse_hex_Cons algebra_simps)
  qed (use Cons in \<open>auto simp: parse_hex_Cons\<close>)
qed simp

lemma dash_not_hex: "\<not> is_hex (CHR ''-'')"
  by code_simp

lemma hex_no_dash: "list_all is_hex a \<Longrightarrow> filter (\<lambda>c. c \<noteq> CHR ''-'') a = a"
  using dash_not_hex by (auto simp: filter_id_conv list_all_iff)

lemma timestamp_of_shape:
  assumes "isValidId (JStr s)" "s = a @ CHR ''-'' # b @ CHR ''-'' # r" "length a = 8" "length b = 4"
    "list_all is_hex a" "list_all is_hex b"
  shows "extractTimestampFromId s = Inr (parse_hex (a @ b))"
  using assms by (simp add: extractTimestampFromId_def hex_no_dash)

definition lower_id :: "string \<Rightarrow> bool" where
  "lower_id s \<longleftrightarrow> list_all (\<lambda>c. is_lower_hex c \<or> c = CHR ''-'') s"

lemma hex_is_lower:
  assumes "list_all is_hex a" "lower_id (a @ t)"
  shows "list_all is_lower_hex a"
  using assms dash_not_hex by (auto simp: lower_id_def list_all_iff)

text \<open>
  Identifiers sort by the time they were made. Every well-formed identifier carries a time stamp
  of 48 bits; of two identifiers in lower case, as the generator writes them, the one with the
  earlier time stamp is the smaller string, so that ordering by identifier never goes back in
  time. A string that is no UUID v7 is refused by both conversions, a well-formed one is returned
  unchanged.
\<close>

theorem ids_sort_by_time:
  assumes "isValidId (JStr s)" "isValidId (JStr t)" "lower_id s" "lower_id t"
  shows "\<exists>m n. extractTimestampFromId s = Inr m \<and> extractTimestampFromId t = Inr n \<and> m < 2 ^ 48 \<and>
    (m < n \<longrightarrow> s < t) \<and> (s < t \<longrightarrow> m \<le> n) \<and> idFromString s = Inr s \<and>
    (\<not> isValidId (JStr u) \<longrightarrow> idFromString u = Inl (invalid_id u) \<and> extractTimestampFromId u = Inl (invalid_id u))"
proof -
  obtain a b r where s: "s = a @ CHR ''-'' # b @ CHR ''-'' # r" "length a = 8" "length b = 4"
    "list_all is_hex a" "list_all is_hex b" by (rule valid_id_shape [OF assms(1)])
  obtain c d q where t: "t = c @ CHR ''-'' # d @ CHR ''-'' # q" "length c = 8" "length d = 4"
    "list_all is_hex c" "list_all is_hex d" by (rule valid_id_shape [OF assms(2)])
  let ?m = "parse_hex (a @ b)" and ?n = "parse_hex (c @ d)"
  have low: "list_all is_lower_hex (a @ b)" "list_all is_lower_hex (c @ d)"
    using assms(3,4) hex_is_lower [OF s(4)] hex_is_lower [OF t(4)] hex_is_lower [OF s(5)] hex_is_lower [OF t(5)] s(1) t(1)
    by (auto simp: lower_id_def)
  have eq: "s < t \<longleftrightarrow> a @ b < c @ d \<or> a @ b = c @ d \<and> r < q"
    using s(1-3) t(1-3) by (auto simp: append_less_iff)
  have "a @ b < c @ d \<Longrightarrow> ?m < ?n" "c @ d < a @ b \<Longrightarrow> ?n < ?m"
    using parse_hex_mono [OF _ low] parse_hex_mono [OF _ low(2,1)] s(2,3) t(2,3) by auto
  then have "?m < ?n \<longrightarrow> s < t" "s < t \<longrightarrow> ?m \<le> ?n"
    using eq linorder_cases [of "a @ b" "c @ d"] by force+
  moreover have "?m < 2 ^ 48"
    using parse_hex_less [of "a @ b"] s(2-5) by (simp add: list_all_append)
  ultimately show ?thesis
    using timestamp_of_shape [OF assms(1) s] timestamp_of_shape [OF assms(2) t] assms(1)
    by (auto simp: idFromString_def extractTimestampFromId_def)
qed

theorem ids_sort_by_time_witness:
  "(\<exists>m n. extractTimestampFromId ''01890a5d-ac96-774b-bcce-b302099a8057'' = Inr m \<and>
     extractTimestampFromId ''01890a5d-ac97-774b-8cce-b302099a8057'' = Inr n \<and> m < 2 ^ 48 \<and> m \<le> n) \<and>
   idFromString ''x'' = Inl (invalid_id ''x'')"
proof -
  have v: "isValidId (JStr ''01890a5d-ac96-774b-bcce-b302099a8057'')"
      "isValidId (JStr ''01890a5d-ac97-774b-8cce-b302099a8057'')"
      "lower_id ''01890a5d-ac96-774b-bcce-b302099a8057''" "lower_id ''01890a5d-ac97-774b-8cce-b302099a8057''"
      "\<not> isValidId (JStr ''x'')" "''01890a5d-ac96-774b-bcce-b302099a8057'' < ''01890a5d-ac97-774b-8cce-b302099a8057''"
    by code_simp+
  from ids_sort_by_time [OF v(1-4), of "''x''"] v(5,6) show ?thesis by blast
qed

end
