(* ===== verification/PaymentBridge.thy ===== *)
theory PaymentBridge
  imports KioskMachine
begin

text \<open>
  The payment micro-frontend \<open>apps/kiosk-payment/src\<close>: the bridge to the local payment sidecar
  with its offline tokens (\<open>verifoneBridge.ts\<close>), and the phases of \<open>PaymentApp.tsx\<close> around it. The
  sidecar, the sync daemon and the HMAC are parameters.
\<close>

section \<open>The bridge\<close>

record InitiatePaymentRequest =
  reqCartId :: string
  reqAmountCents :: cents
  reqMethod :: PaymentMethod
  idempotencyKey :: string

text \<open>
  What \<open>fetch\<close> and the reading of its body come to: no answer (also the expiry of the request's signal), or a
  status with a body that may be unreadable.
\<close>

datatype 'a fetched = FetchFailed thrown | Fetched int "thrown + 'a"

definition res_ok :: "int \<Rightarrow> bool" where
  "res_ok st \<longleftrightarrow> 200 \<le> st \<and> st \<le> 299"

datatype PaymentBridgeError = PaymentBridgeError string "thrown option"

definition initiatePayment :: "PaymentAuthorizationResult fetched \<Rightarrow> PaymentBridgeError + PaymentAuthorizationResult" where
  "initiatePayment ans =
     (case ans of
        FetchFailed e \<Rightarrow> Inl (PaymentBridgeError ''Verifone sidecar unreachable'' (Some e))
      | Fetched st body \<Rightarrow>
          if \<not> res_ok st then Inl (PaymentBridgeError (''Sidecar returned '' @ int_digits st) None)
          else (case body of
                  Inl e \<Rightarrow> Inl (PaymentBridgeError ''Verifone sidecar unreachable'' (Some e))
                | Inr r \<Rightarrow> Inr r))"

text \<open>\<open>b.toString(16).padStart(2, "0")\<close> of each byte.\<close>

definition lower_hex_digit :: "nat \<Rightarrow> char" where
  "lower_hex_digit n = (if n < 10 then char_of (48 + n) else char_of (87 + n))"

definition byte_hex :: "nat \<Rightarrow> string" where
  "byte_hex b = [lower_hex_digit (b div 16), lower_hex_digit (b mod 16)]"

definition hmacSha256Hex :: "(string \<Rightarrow> nat list) \<Rightarrow> string \<Rightarrow> string" where
  "hmacSha256Hex sign message = concat (map byte_hex (sign message))"

record token_params =
  parCartId :: string
  parKioskId :: string
  parAmountCents :: cents
  parMethod :: PaymentMethod
  parOpaqueToken :: string

definition OFFLINE_SLA_MS :: ms where
  "OFFLINE_SLA_MS = 48 * 60 * 60 * 1000"

definition canonical_token :: "string \<Rightarrow> token_params \<Rightarrow> string" where
  "canonical_token tid p =
     tid @ ''|'' @ parCartId p @ ''|'' @ int_digits (parAmountCents p) @ ''|'' @ parOpaqueToken p"

definition buildOfflineToken :: "(string \<Rightarrow> nat list) \<Rightarrow> string \<Rightarrow> ms \<Rightarrow> token_params \<Rightarrow> OfflinePaymentToken" where
  "buildOfflineToken sign newId now p =
     OfflinePaymentToken.make newId (parKioskId p) (parCartId p) (parAmountCents p) ''USD'' (parMethod p)
       (parOpaqueToken p) now (now + OFFLINE_SLA_MS) (hmacSha256Hex sign (canonical_token newId p)) False"

section \<open>The payment app\<close>

datatype UiPhase = select_method | awaiting_terminal | queued_offline | declined

text \<open>
  The phase, the pending attempts, the tokens handed to the daemon and the calls of \<open>onResult\<close>. An attempt
  has a number, its request, and the kiosk of the cart snapshot its callback closes over.
\<close>

record PaymentApp =
  phase :: UiPhase
  appDeclineReason :: "string option"
  attempts :: "(nat \<times> InitiatePaymentRequest \<times> string) list"
  enqueued :: "OfflinePaymentToken list"
  onResults :: "PaymentAuthorizationResult list"
  nextAttempt :: nat

definition new_PaymentApp :: PaymentApp where
  "new_PaymentApp = \<lparr>phase = select_method, appDeclineReason = None, attempts = [], enqueued = [],
     onResults = [], nextAttempt = 0\<rparr>"

text \<open>
  What surrounds the settling of an attempt: the build's key and flag, the daemon's answer to a request for the key
  (the body's \<open>key\<close> may be absent), the signature of Web Crypto, the generated identifiers and the clock, what
  the daemon answers to the token and whether the consumer of a result throws. The two requests to the
  daemon are one step with the settling.
\<close>

record pay_env =
  keyFromEnv :: "string option"
  isDevBuild :: bool
  keyFromDaemon :: "string option fetched"
  signWith :: "string \<Rightarrow> string \<Rightarrow> nat list"
  newTokenId :: string
  newOpaqueId :: string
  nowMs :: ms
  enqueueAnswer :: "unit fetched"
  consumerThrows :: "PaymentAuthorizationResult \<Rightarrow> bool"

definition fetchSyncKeyFromDaemon :: "string option fetched \<Rightarrow> string option" where
  "fetchSyncKeyFromDaemon ans =
     (case ans of
        FetchFailed _ \<Rightarrow> None
      | Fetched st body \<Rightarrow> if \<not> res_ok st then None else (case body of Inl _ \<Rightarrow> None | Inr key \<Rightarrow> key))"

definition NO_SYNC_KEY :: string where
  "NO_SYNC_KEY = ''No sync key available. Ensure VITE_PAYMENT_SYNC_KEY is set in development '' @
     ''or the syncd daemon IPC is reachable in production.''"

definition importDevSyncKey :: "pay_env \<Rightarrow> thrown + string" where
  "importDevSyncKey env =
     (let encoded =
        (case keyFromEnv env of
           Some k \<Rightarrow> Some k
         | None \<Rightarrow> if isDevBuild env then fetchSyncKeyFromDaemon (keyFromDaemon env) else None)
      in case encoded of
           None \<Rightarrow> Inl (new_Error NO_SYNC_KEY)
         | Some k \<Rightarrow> if k = [] then Inl (new_Error NO_SYNC_KEY) else Inr k)"

text \<open>The daemon takes a token when it answers with success; the app does not look at the answer.\<close>

definition token_taken :: "unit fetched \<Rightarrow> bool" where
  "token_taken ans = (case ans of FetchFailed _ \<Rightarrow> False | Fetched st _ \<Rightarrow> res_ok st)"

definition select_payment_method :: "InitiatePaymentRequest \<Rightarrow> string \<Rightarrow> PaymentApp \<Rightarrow> PaymentApp" where
  "select_payment_method rq kiosk a =
     a\<lparr>phase := awaiting_terminal, attempts := attempts a @ [(nextAttempt a, rq, kiosk)], nextAttempt := nextAttempt a + 1\<rparr>"

definition offline_token :: "pay_env \<Rightarrow> string \<Rightarrow> InitiatePaymentRequest \<Rightarrow> string \<Rightarrow> OfflinePaymentToken" where
  "offline_token env key rq kiosk =
     buildOfflineToken (signWith env key) (newTokenId env) (nowMs env)
       \<lparr>parCartId = reqCartId rq, parKioskId = kiosk, parAmountCents = reqAmountCents rq, parMethod = reqMethod rq,
        parOpaqueToken = ''offline-pending-'' @ newOpaqueId env\<rparr>"

definition offline_result :: "OfflinePaymentToken \<Rightarrow> InitiatePaymentRequest \<Rightarrow> PaymentAuthorizationResult" where
  "offline_result tok rq =
     PaymentAuthorizationResult.make (tokenId tok) PS_queued_offline (reqMethod rq) (reqAmountCents rq) None None None None None"

text \<open>Queueing: without a key the promise rejects after the phase has changed, and nothing more happens.\<close>

definition queueOffline :: "pay_env \<Rightarrow> InitiatePaymentRequest \<Rightarrow> string \<Rightarrow> PaymentApp \<Rightarrow> PaymentApp" where
  "queueOffline env rq kiosk a =
     (let a1 = a\<lparr>phase := queued_offline\<rparr> in
      case importDevSyncKey env of
        Inl _ \<Rightarrow> a1
      | Inr key \<Rightarrow>
          let tok = offline_token env key rq kiosk in
          a1\<lparr>enqueued := enqueued a1 @ (if token_taken (enqueueAnswer env) then [tok] else []),
             onResults := onResults a1 @ [offline_result tok rq]\<rparr>)"

definition attempt_settled :: "pay_env \<Rightarrow> nat \<Rightarrow> PaymentAuthorizationResult fetched \<Rightarrow> PaymentApp \<Rightarrow> PaymentApp" where
  "attempt_settled env i ans a =
     (case map_of (attempts a) i of
        None \<Rightarrow> a
      | Some (rq, kiosk) \<Rightarrow>
          let a1 = a\<lparr>attempts := filter (\<lambda>x. fst x \<noteq> i) (attempts a)\<rparr> in
          case initiatePayment ans of
            Inr r \<Rightarrow>
              if status r = PS_declined then
                a1\<lparr>appDeclineReason :=
                     Some (case declineReason r of Some d \<Rightarrow> d | None \<Rightarrow> ''Card declined. Please try another method.''),
                   phase := declined\<rparr>
              else
                let a2 = a1\<lparr>onResults := onResults a1 @ [r]\<rparr> in
                if consumerThrows env r then
                  a2\<lparr>appDeclineReason := Some ''An unexpected error occurred. Please try again.'', phase := declined\<rparr>
                else a2
          | Inl _ \<Rightarrow> queueOffline env rq kiosk a1)"

definition try_another :: "PaymentApp \<Rightarrow> PaymentApp" where
  "try_another a = a\<lparr>phase := select_method\<rparr>"

section \<open>What a token's signature covers\<close>

lemma minus_not_digit: "\<not> is_digit (CHR ''-'')" "\<not> is_digit (CHR ''|'')"
  by code_simp+

lemma int_digits_inj:
  assumes "int_digits i = int_digits j"
  shows "i = j"
proof -
  have "nat_digits n \<noteq> CHR ''-'' # s" for n s
    using nat_digits_not [OF minus_not_digit(1), of n] by (metis list.set_intros(1))
  then show ?thesis using assms by (auto simp: int_digits_def split: if_splits dest!: nat_digits_inj) (metis+)?
qed

lemma int_digits_no_bar: "CHR ''|'' \<notin> set (int_digits i)"
  using nat_digits_not [OF minus_not_digit(2)] by (simp add: int_digits_def)

lemma split_at_bar:
  assumes "CHR ''|'' \<notin> set a" "CHR ''|'' \<notin> set b" "a @ ''|'' @ x = b @ ''|'' @ y"
  shows "a = b \<and> x = y"
  using assms
proof (induction a arbitrary: b)
  case Nil
  then show ?case by (cases b) auto
next
  case (Cons c a)
  then show ?case by (cases b) auto
qed

definition no_bar :: "string \<Rightarrow> token_params \<Rightarrow> bool" where
  "no_bar tid p \<longleftrightarrow> CHR ''|'' \<notin> set tid \<and> CHR ''|'' \<notin> set (parCartId p)"



section \<open>What becomes of a payment attempt\<close>

datatype pay_event =
    SelectMethod InitiatePaymentRequest string
  | AttemptSettled pay_env nat "PaymentAuthorizationResult fetched"
  | TryAnother

fun pay_step :: "pay_event \<Rightarrow> PaymentApp \<Rightarrow> PaymentApp" where
  "pay_step (SelectMethod rq kiosk) a = select_payment_method rq kiosk a"
| "pay_step (AttemptSettled env i ans) a = attempt_settled env i ans a"
| "pay_step TryAnother a = try_another a"

definition pay_inv :: "PaymentApp \<Rightarrow> bool" where
  "pay_inv a \<longleftrightarrow>
     distinct (map fst (attempts a)) \<and> (\<forall>i \<in> fst ` set (attempts a). i < nextAttempt a) \<and>
     length (onResults a) + length (attempts a) \<le> nextAttempt a \<and>
     length (enqueued a) \<le> length (onResults a)"

lemma length_filter_fst:
  assumes "distinct (map fst xs)" "map_of xs i = Some v"
  shows "Suc (length (filter (\<lambda>x. fst x \<noteq> i) xs)) = length xs"
  using assms
proof (induction xs)
  case (Cons x xs)
  show ?case
  proof (cases "fst x = i")
    case True
    then have "filter (\<lambda>x. fst x \<noteq> i) xs = xs" using Cons.prems(1) by (intro filter_True) (metis distinct.simps(2) image_eqI list.map(2) list.set_map)
    with True show ?thesis by simp
  qed (use Cons in \<open>auto split: if_splits\<close>)
qed simp

lemma pay_inv_step:
  assumes "pay_inv a"
  shows "pay_inv (pay_step e a)"
proof (cases e)
  case (AttemptSettled env i ans)
  show ?thesis
  proof (cases "map_of (attempts a) i")
    case (Some v)
    obtain rq kiosk where v: "v = (rq, kiosk)" by force
    let ?a1 = "a\<lparr>attempts := filter (\<lambda>x. fst x \<noteq> i) (attempts a)\<rparr>"
    have "distinct (map fst (attempts ?a1))" "\<forall>j \<in> fst ` set (attempts ?a1). j < nextAttempt a"
      "Suc (length (onResults a) + length (attempts ?a1)) \<le> nextAttempt a"
      using assms length_filter_fst [OF _ Some] by (auto simp: pay_inv_def distinct_map_filter)
    then show ?thesis
      using assms AttemptSettled Some v
      by (auto simp: pay_inv_def attempt_settled_def queueOffline_def Let_def split: sum.splits)
  qed (use assms AttemptSettled in \<open>simp add: attempt_settled_def\<close>)
qed (use assms in \<open>auto simp: pay_inv_def select_payment_method_def try_another_def\<close>)

interpretation payments: free_event_system pay_step pay_inv
  by unfold_locales (rule pay_inv_step)


text \<open>A kiosk in production without a key in its environment.\<close>

definition keyless_env :: pay_env where
  "keyless_env =
     \<lparr>keyFromEnv = None, isDevBuild = False, keyFromDaemon = Fetched 200 (Inr (Some ''secret'')),
      signWith = (\<lambda>_ _. []), newTokenId = ''t1'', newOpaqueId = ''o1'', nowMs = 0, enqueueAnswer = Fetched 200 (Inr ()),
      consumerThrows = (\<lambda>_. False)\<rparr>"

definition one_attempt :: PaymentApp where
  "one_attempt = fold pay_step
     [SelectMethod \<lparr>reqCartId = ''c1'', reqAmountCents = 500, reqMethod = qr_code, idempotencyKey = ''a1''\<rparr> ''k1''] new_PaymentApp"


end
