(* ===== verification/MenuScreens.thy ===== *)
theory MenuScreens
  imports KioskMachine
begin

text \<open>
  Browsing: the debounced callback \<open>apps/kiosk/src/hooks/useDebouncedCallback.ts\<close>, the menu screen
  \<open>apps/kiosk/src/routes/MenuScreen.tsx\<close> with its pages, tabs and search, and the rows of the menu
  micro-frontend \<open>apps/kiosk-menu/src/MenuApp.tsx\<close>. An effect runs after the render that changed one of
  its dependencies and closes over that render's state; the markup decides which events a customer can cause.
\<close>

section \<open>The debounced callback\<close>

text \<open>The reference to the latest timer, the timers that have not fired, and the calls of the callback.\<close>

record 'a Debounce =
  debRef :: "nat option"
  debTimers :: "(nat \<times> ms \<times> 'a) list"
  debNext :: nat
  debCalls :: "'a list"

definition new_Debounce :: "'a Debounce" where
  "new_Debounce = \<lparr>debRef = None, debTimers = [], debNext = 0, debCalls = []\<rparr>"

definition deb_clear :: "'a Debounce \<Rightarrow> 'a Debounce" where
  "deb_clear d =
     (case debRef d of
        None \<Rightarrow> d
      | Some i \<Rightarrow> d\<lparr>debTimers := filter (\<lambda>t. fst t \<noteq> i) (debTimers d)\<rparr>)"

definition debounced :: "ms \<Rightarrow> ms \<Rightarrow> 'a \<Rightarrow> 'a Debounce \<Rightarrow> 'a Debounce" where
  "debounced delayMs now args d =
     (let d1 = deb_clear d in
      d1\<lparr>debRef := Some (debNext d1), debTimers := debTimers d1 @ [(debNext d1, now + delayMs, args)],
         debNext := debNext d1 + 1\<rparr>)"

text \<open>The clock reaches \<open>now\<close> and the timer \<open>i\<close> fires if it is due.\<close>

definition deb_fire :: "nat \<Rightarrow> ms \<Rightarrow> 'a Debounce \<Rightarrow> 'a Debounce" where
  "deb_fire i now d =
     (case map_of (debTimers d) i of
        None \<Rightarrow> d
      | Some (due, args) \<Rightarrow>
          if now < due then d
          else d\<lparr>debTimers := filter (\<lambda>t. fst t \<noteq> i) (debTimers d), debCalls := debCalls d @ [args]\<rparr>)"

definition deb_unmount :: "'a Debounce \<Rightarrow> 'a Debounce" where
  "deb_unmount d = deb_clear d"

definition deb_inv :: "'a Debounce \<Rightarrow> bool" where
  "deb_inv d \<longleftrightarrow> debTimers d = [] \<or> (\<exists>i due args. debTimers d = [(i, due, args)] \<and> debRef d = Some i)"

lemma deb_clear_empty: "deb_inv d \<Longrightarrow> debTimers (deb_clear d) = []"
  by (auto simp: deb_inv_def deb_clear_def split: option.splits)

lemma debounced_timers:
  "deb_inv d \<Longrightarrow> debTimers (debounced delayMs now args d) = [(debNext d, now + delayMs, args)] \<and>
     debRef (debounced delayMs now args d) = Some (debNext d) \<and> debCalls (debounced delayMs now args d) = debCalls d"
  by (auto simp: debounced_def Let_def deb_clear_empty) (auto simp: deb_clear_def split: option.splits)

lemma deb_inv_steps:
  assumes "deb_inv d"
  shows "deb_inv (debounced delayMs now args d)" "deb_inv (deb_fire i now d)" "deb_inv (deb_unmount d)"
proof -
  show "deb_inv (debounced delayMs now args d)" using debounced_timers [OF assms] by (auto simp: deb_inv_def)
  show "deb_inv (deb_fire i now d)" using assms by (auto simp: deb_inv_def deb_fire_def split: option.splits if_splits)
  show "deb_inv (deb_unmount d)" using deb_clear_empty [OF assms] by (simp add: deb_inv_def deb_unmount_def)
qed

datatype 'a deb_event = DebCall ms ms 'a | DebFire nat ms | DebUnmount

fun deb_step :: "'a deb_event \<Rightarrow> 'a Debounce \<Rightarrow> 'a Debounce" where
  "deb_step (DebCall delayMs now args) d = debounced delayMs now args d"
| "deb_step (DebFire i now) d = deb_fire i now d"
| "deb_step DebUnmount d = deb_unmount d"

interpretation debounces: free_event_system deb_step deb_inv
proof
  show "deb_inv d \<Longrightarrow> deb_inv (deb_step e d)" for e :: "'a deb_event" and d by (cases e) (auto intro: deb_inv_steps)
qed

text \<open>
  A burst of calls of the debounced callback comes to one call with the latest arguments. After any
  earlier use, a call leaves exactly one timer, due \<open>delayMs\<close> after this call; whatever was pending before
  never fires. The timer fires the callback once with this call's arguments, not before it is due and not a second
  time, and not at all after the component has been unmounted.
\<close>

theorem debounce_latest_call:
  fixes es :: "'a deb_event list" and delayMs now :: ms and args :: 'a
  defines "d \<equiv> fold deb_step es new_Debounce"
  defines "d' \<equiv> debounced delayMs now args d"
  shows "(\<exists>i. debTimers d' = [(i, now + delayMs, args)] \<and> debCalls d' = debCalls d \<and>
      (\<forall>t < now + delayMs. deb_fire i t d' = d') \<and>
      (\<forall>t \<ge> now + delayMs. debCalls (deb_fire i t d') = debCalls d @ [args] \<and> debTimers (deb_fire i t d') = []) \<and>
      (\<forall>j t. j \<noteq> i \<longrightarrow> deb_fire j t d' = d')) \<and>
    (\<forall>j t. debCalls (deb_fire j t (deb_unmount d')) = debCalls d)"
proof -
  have inv: "deb_inv d" unfolding d_def by (rule debounces.run) (simp add: deb_inv_def new_Debounce_def)
  note d' = debounced_timers [OF inv, of delayMs now args, folded d'_def]
  have "debTimers (deb_unmount d') = []" "debCalls (deb_unmount d') = debCalls d'"
    using deb_clear_empty [OF deb_inv_steps(1) [OF inv]] by (simp_all add: deb_unmount_def d'_def)
      (simp add: deb_clear_def split: option.splits)
  then show ?thesis using d' by (auto simp: deb_fire_def)
qed

theorem debounce_latest_call_witness:
  "debCalls (deb_fire 1 250 (debounced 200 50 ''b'' (debounced 200 0 ''a'' new_Debounce))) = [''b''] \<and>
   debCalls (deb_fire 1 249 (debounced 200 50 ''b'' (debounced 200 0 ''a'' new_Debounce))) = []"
proof -
  have "(let d = fold deb_step [DebCall 200 0 ''a''] new_Debounce; d' = debounced 200 50 ''b'' d in
      debTimers d' = [(1, 250, ''b'')] \<and> debCalls d = [])"
    by (simp add: Let_def debounced_def deb_clear_def new_Debounce_def)
  then show ?thesis
    using debounce_latest_call [where es = "[DebCall 200 0 ''a'']" and delayMs = 200 and now = 50 and args = "''b''"] by (auto simp: Let_def)
qed

section \<open>The menu screen\<close>

definition ITEMS_PER_PAGE :: nat where
  "ITEMS_PER_PAGE = 20"

text \<open>
  The state hooks, the request of the first effect while it is open, and the timers of \<open>loadMoreItems\<close>
  with the page and the items their callback closes over.
\<close>

record MenuState =
  allItems :: "MenuItem list"
  menuCategories :: "Category list"
  displayedItems :: "MenuItem list"
  page :: nat
  isLoading :: bool
  isApiError :: bool
  searchQuery :: string
  searchFocused :: bool
  isSearching :: bool
  activeCategory :: string
  fetching :: bool
  loadTimers :: "(nat \<times> MenuItem list) list"

definition filteredMenuItems :: "MenuState \<Rightarrow> MenuItem list" where
  "filteredMenuItems s =
     (if activeCategory s = ''all'' then allItems s
      else filter (\<lambda>item. Item.categoryId item = activeCategory s) (allItems s))"

text \<open>\<open>loadMoreItems\<close> of the render with state \<open>r\<close>, called while the state is \<open>s\<close>.\<close>

definition loadMoreItems :: "MenuState \<Rightarrow> MenuState \<Rightarrow> MenuState" where
  "loadMoreItems r s =
     (if isLoading r \<or> isSearching r then s
      else s\<lparr>isLoading := True, loadTimers := loadTimers s @ [(page r, filteredMenuItems r)]\<rparr>)"

text \<open>\<open>s.includes(q)\<close>.\<close>

definition includes_text :: "string \<Rightarrow> string \<Rightarrow> bool" where
  "includes_text q s \<longleftrightarrow> list_ex (\<lambda>i. take (length q) (drop i s) = q) [0..<Suc (length s)]"

definition search_matches :: "(string \<Rightarrow> string) \<Rightarrow> string \<Rightarrow> MenuItem \<Rightarrow> bool" where
  "search_matches toLowerCase q item \<longleftrightarrow>
     includes_text (toLowerCase q) (toLowerCase (Item.name item)) \<or>
     includes_text (toLowerCase q)
       (toLowerCase (case Item.description item of None \<Rightarrow> [] | Some d \<Rightarrow> d))"

text \<open>The effect on \<open>[searchQuery, filteredMenuItems]\<close>, of the render with state \<open>r\<close>, run while the state is \<open>s\<close>.\<close>

definition search_effect :: "(string \<Rightarrow> string) \<Rightarrow> MenuState \<Rightarrow> MenuState \<Rightarrow> MenuState" where
  "search_effect toLowerCase r s =
     (if searchQuery r \<noteq> [] then
        s\<lparr>isSearching := True,
          displayedItems := filter (search_matches toLowerCase (searchQuery r)) (filteredMenuItems r)\<rparr>
      else loadMoreItems r (s\<lparr>isSearching := False\<rparr>))"

text \<open>Mounting: the request starts, and both other effects find the screen loading.\<close>

definition new_MenuScreen :: MenuState where
  "new_MenuScreen = \<lparr>allItems = [], menuCategories = [], displayedItems = [], page = 1, isLoading = True,
     isApiError = False, searchQuery = [], searchFocused = False, isSearching = False,
     activeCategory = ''all'', fetching = True, loadTimers = []\<rparr>"

definition mount_MenuScreen :: "(string \<Rightarrow> string) \<Rightarrow> MenuState" where
  "mount_MenuScreen toLowerCase =
     search_effect toLowerCase new_MenuScreen (loadMoreItems new_MenuScreen new_MenuScreen)"

definition menu_fetched :: "(string \<Rightarrow> string) \<Rightarrow> (thrown + MenuItem list \<times> Category list) \<Rightarrow> MenuState \<Rightarrow> MenuState" where
  "menu_fetched toLowerCase res s =
     (if \<not> fetching s then s
      else case res of
        Inl _ \<Rightarrow> s\<lparr>fetching := False, isApiError := True, isLoading := False\<rparr>
      | Inr (items, cats) \<Rightarrow>
          let s1 = s\<lparr>fetching := False, allItems := items, menuCategories := cats, isLoading := False\<rparr>
          in search_effect toLowerCase s1 s1)"

definition handleCategoryChange :: "(string \<Rightarrow> string) \<Rightarrow> string \<Rightarrow> MenuState \<Rightarrow> MenuState" where
  "handleCategoryChange toLowerCase cid s =
     (let s1 = s\<lparr>activeCategory := cid, displayedItems := [], page := 1\<rparr> in
      if cid = activeCategory s then s1 else search_effect toLowerCase s1 s1)"

text \<open>\<open>setSearchQuery\<close>, by typing or by the button that clears the field.\<close>

definition set_searchQuery :: "(string \<Rightarrow> string) \<Rightarrow> string \<Rightarrow> MenuState \<Rightarrow> MenuState" where
  "set_searchQuery toLowerCase q s =
     (if q = searchQuery s then s else let s1 = s\<lparr>searchQuery := q\<rparr> in search_effect toLowerCase s1 s1)"

definition page_slice :: "nat \<Rightarrow> MenuItem list \<Rightarrow> MenuItem list" where
  "page_slice p items = take ITEMS_PER_PAGE (drop ((p - 1) * ITEMS_PER_PAGE) items)"

definition load_timer_fires :: "nat \<Rightarrow> MenuState \<Rightarrow> MenuState" where
  "load_timer_fires i s =
     (if i < length (loadTimers s) then
        let (p, items) = loadTimers s ! i; newItems = page_slice p items in
        s\<lparr>loadTimers := splice_at i (loadTimers s),
          displayedItems := (if p = 1 then newItems else displayedItems s @ newItems),
          page := page s + 1, isLoading := False\<rparr>
      else s)"

text \<open>The debounced scroll handler; its reference always holds the latest render's callback.\<close>

definition menu_handleScroll :: "bool \<Rightarrow> MenuState \<Rightarrow> MenuState" where
  "menu_handleScroll atThreshold s =
     (if atThreshold \<and> \<not> isLoading s \<and> \<not> isSearching s then loadMoreItems s s else s)"

definition handleSearchFocus :: "MenuState \<Rightarrow> MenuState" where
  "handleSearchFocus s = s\<lparr>searchFocused := True\<rparr>"

definition handleSearchBlur :: "MenuState \<Rightarrow> MenuState" where
  "handleSearchBlur s = (if searchQuery s = [] then s\<lparr>searchFocused := False\<rparr> else s)"

datatype menu_event =
    MenuFetched "thrown + MenuItem list \<times> Category list"
  | TapTab string
  | LoadTimer nat
  | Scrolled bool
  | SearchFocus
  | SearchBlur
  | SearchInput string

fun menu_step :: "(string \<Rightarrow> string) \<Rightarrow> menu_event \<Rightarrow> MenuState \<Rightarrow> MenuState" where
  "menu_step lower (MenuFetched res) s = menu_fetched lower res s"
| "menu_step lower (TapTab cid) s = handleCategoryChange lower cid s"
| "menu_step lower (LoadTimer i) s = load_timer_fires i s"
| "menu_step lower (Scrolled atThreshold) s = menu_handleScroll atThreshold s"
| "menu_step lower SearchFocus s = handleSearchFocus s"
| "menu_step lower SearchBlur s = handleSearchBlur s"
| "menu_step lower (SearchInput q) s = set_searchQuery lower q s"

text \<open>
  Which events the markup admits: while loading and after an error neither tabs nor search field are
  rendered, and the field only exists while it is focused or has a text.
\<close>

fun menu_offered :: "menu_event \<Rightarrow> MenuState \<Rightarrow> bool" where
  "menu_offered (TapTab _) s \<longleftrightarrow> \<not> isLoading s \<and> \<not> isApiError s"
| "menu_offered SearchFocus s \<longleftrightarrow> \<not> isLoading s \<and> \<not> isApiError s \<and> (searchFocused s \<or> searchQuery s \<noteq> [])"
| "menu_offered SearchBlur s \<longleftrightarrow> \<not> isLoading s \<and> \<not> isApiError s \<and> (searchFocused s \<or> searchQuery s \<noteq> [])"
| "menu_offered (SearchInput _) s \<longleftrightarrow> \<not> isLoading s \<and> \<not> isApiError s \<and> (searchFocused s \<or> searchQuery s \<noteq> [])"
| "menu_offered _ s \<longleftrightarrow> True"

section \<open>Pages of the menu\<close>

definition menu_inv :: "MenuState \<Rightarrow> bool" where
  "menu_inv s \<longleftrightarrow>
     searchQuery s = [] \<and> \<not> searchFocused s \<and> \<not> isSearching s \<and> page s \<ge> 1 \<and>
     displayedItems s = take ((page s - 1) * ITEMS_PER_PAGE) (filteredMenuItems s) \<and>
     (if fetching s then allItems s = [] \<and> page s = 1 \<and> isLoading s \<and> loadTimers s = []
      else loadTimers s = (if isLoading s then [(page s, filteredMenuItems s)] else []))"

lemma take_next_page:
  assumes "p \<ge> 1"
  shows "take ((p - 1) * ITEMS_PER_PAGE) xs @ page_slice p xs = take (p * ITEMS_PER_PAGE) xs"
proof -
  have "p * ITEMS_PER_PAGE = (p - 1) * ITEMS_PER_PAGE + ITEMS_PER_PAGE" using assms by (cases p) auto
  then show ?thesis by (simp add: page_slice_def take_add)
qed

lemma filtered_frame [simp]:
  "filteredMenuItems (s\<lparr>displayedItems := d\<rparr>) = filteredMenuItems s"
  "filteredMenuItems (s\<lparr>page := p\<rparr>) = filteredMenuItems s"
  "filteredMenuItems (s\<lparr>isLoading := b\<rparr>) = filteredMenuItems s"
  "filteredMenuItems (s\<lparr>isSearching := b\<rparr>) = filteredMenuItems s"
  "filteredMenuItems (s\<lparr>isApiError := b\<rparr>) = filteredMenuItems s"
  "filteredMenuItems (s\<lparr>searchFocused := b\<rparr>) = filteredMenuItems s"
  "filteredMenuItems (s\<lparr>fetching := b\<rparr>) = filteredMenuItems s"
  "filteredMenuItems (s\<lparr>menuCategories := c\<rparr>) = filteredMenuItems s"
  "filteredMenuItems (s\<lparr>loadTimers := t\<rparr>) = filteredMenuItems s"
  by (simp_all add: filteredMenuItems_def)

lemma load_timer_next_page:
  assumes "menu_inv s" "i < length (loadTimers s)"
  shows "load_timer_fires i s =
      s\<lparr>loadTimers := [], displayedItems := take (page s * ITEMS_PER_PAGE) (filteredMenuItems s), page := page s + 1, isLoading := False\<rparr>
    \<and> \<not> fetching s"
proof -
  have t: "loadTimers s = [(page s, filteredMenuItems s)]" "i = 0" "\<not> fetching s"
    using assms by (auto simp: menu_inv_def split: if_splits)
  have next_page: "(if page s = 1 then page_slice (page s) (filteredMenuItems s)
      else displayedItems s @ page_slice (page s) (filteredMenuItems s)) = take (page s * ITEMS_PER_PAGE) (filteredMenuItems s)"
    using take_next_page [of "page s" "filteredMenuItems s"] assms(1) by (auto simp: menu_inv_def)
  show ?thesis
    using t unfolding load_timer_fires_def Let_def by (simp only: next_page) (simp add: splice_at_def next_page [simplified])
qed

lemma load_timer_inv:
  assumes "menu_inv s"
  shows "menu_inv (load_timer_fires i s)"
proof (cases "i < length (loadTimers s)")
  case True
  then show ?thesis using load_timer_next_page [OF assms True] assms by (simp add: menu_inv_def)
qed (use assms in \<open>simp add: load_timer_fires_def\<close>)

text \<open>What the search effect does while the field is empty and nothing is searched or loaded.\<close>

lemma search_effect_idle:
  assumes "searchQuery s = []" "\<not> isSearching s" "\<not> isLoading s"
  shows "search_effect lower s s = s\<lparr>isLoading := True, loadTimers := loadTimers s @ [(page s, filteredMenuItems s)]\<rparr>"
  using assms by (simp add: search_effect_def loadMoreItems_def)

lemma menu_fetched_inv:
  assumes "menu_inv s"
  shows "menu_inv (menu_fetched lower res s)"
proof (cases "fetching s")
  case f: True
  then have nil: "allItems s = []" "loadTimers s = []" "searchQuery s = []" "\<not> isSearching s" "\<not> searchFocused s" "page s = 1"
      "displayedItems s = []"
    using assms by (auto simp: menu_inv_def)
  show ?thesis
  proof (cases res)
    case (Inl e)
    then show ?thesis using f nil by (simp add: menu_fetched_def menu_inv_def)
  next
    case (Inr p)
    then show ?thesis
      using f nil by (cases p) (simp add: menu_fetched_def Let_def search_effect_idle menu_inv_def)
  qed
qed (use assms in \<open>simp add: menu_fetched_def\<close>)

lemma menu_step_inv:
  assumes "menu_inv s" "menu_offered e s"
  shows "menu_inv (menu_step lower e s)"
proof (cases e)
  case (MenuFetched res)
  then show ?thesis using menu_fetched_inv [OF assms(1)] by simp
next
  case (TapTab cid)
  then have idle: "\<not> isLoading s" "\<not> fetching s" using assms by (auto simp: menu_inv_def)
  show ?thesis
  proof (cases "cid = activeCategory s")
    case True
    then show ?thesis using assms(1) idle TapTab by (simp add: menu_inv_def handleCategoryChange_def)
  next
    case False
    then show ?thesis
      using assms(1) idle TapTab by (simp add: menu_inv_def handleCategoryChange_def search_effect_idle)
  qed
next
  case (LoadTimer i)
  then show ?thesis using load_timer_inv [OF assms(1)] by simp
next
  case (Scrolled b)
  then show ?thesis using assms(1) by (auto simp: menu_inv_def menu_handleScroll_def loadMoreItems_def)
qed (use assms in \<open>simp_all add: menu_inv_def\<close>)

interpretation menus: event_system "menu_step lower" menu_offered menu_inv for lower
  by unfold_locales (rule menu_step_inv)

lemma mount_inv: "menu_inv (mount_MenuScreen lower)"
  by (simp add: mount_MenuScreen_def search_effect_def loadMoreItems_def new_MenuScreen_def menu_inv_def filteredMenuItems_def)

text \<open>
  C24. The menu is shown page by page without gap or repetition. However the customer taps the tabs
  that are on the screen and scrolls, and whenever the request and the timers settle, the items shown
  are the first \<open>(page - 1) * 20\<close> of the active category in the catalog's order, at most one page is being loaded,
  and a loaded page advances the page by one, so that after as many pages as the category fills every item of it is
  shown. The search field is never on the screen: it is rendered only while it is focused or holds a
  text, and only a rendered field can be focused or typed into.
\<close>

theorem menu_pages_complete:
  fixes es :: "menu_event list" and lower :: "string \<Rightarrow> string"
  defines "s \<equiv> fold (menu_step lower) es (mount_MenuScreen lower)"
  assumes "admissible menu_offered (menu_step lower) es (mount_MenuScreen lower)"
  shows "displayedItems s = take ((page s - 1) * 20) (filteredMenuItems s) \<and>
    length (loadTimers s) \<le> 1 \<and>
    (i < length (loadTimers s) \<longrightarrow> page (load_timer_fires i s) = page s + 1 \<and> \<not> isLoading (load_timer_fires i s)) \<and>
    (length (filteredMenuItems s) \<le> (page s - 1) * 20 \<longrightarrow> displayedItems s = filteredMenuItems s) \<and>
    searchQuery s = [] \<and> \<not> isSearching s \<and>
    (\<forall>q. \<not> menu_offered (SearchInput q) s) \<and> \<not> menu_offered SearchFocus s"
proof -
  have inv: "menu_inv s" unfolding s_def by (rule menus.inv_run [OF mount_inv assms(2)])
  then have "i < length (loadTimers s) \<longrightarrow> page (load_timer_fires i s) = page s + 1 \<and> \<not> isLoading (load_timer_fires i s)"
    using load_timer_next_page [OF inv, of i] by simp
  with inv show ?thesis by (auto simp: menu_inv_def ITEMS_PER_PAGE_def split: if_splits)
qed

theorem menu_pages_complete_witness:
  "displayedItems (fold (menu_step (\<lambda>q. q)) [MenuFetched (Inr ([], [])), LoadTimer 0] (mount_MenuScreen (\<lambda>q. q))) = [] \<and>
   \<not> menu_offered SearchFocus (fold (menu_step (\<lambda>q. q)) [MenuFetched (Inr ([], [])), LoadTimer 0] (mount_MenuScreen (\<lambda>q. q)))"
proof -
  have "admissible menu_offered (menu_step (\<lambda>q. q)) [MenuFetched (Inr ([], [])), LoadTimer 0] (mount_MenuScreen (\<lambda>q. q))"
    by simp
  from menu_pages_complete [OF this] show ?thesis
    by (simp add: mount_MenuScreen_def search_effect_def loadMoreItems_def new_MenuScreen_def menu_fetched_def Let_def
        load_timer_fires_def page_slice_def filteredMenuItems_def)
qed

text \<open>
  Two defects that the markup hides or shows. Tapping the tab that is already active empties the list,
  and nothing loads it again before the customer scrolls. If a search were possible, clearing it would leave the
  list as filtered: the effect's closure still sees \<open>isSearching\<close>.
\<close>

lemma active_tab_empties_list:
  assumes "menu_inv s" "\<not> isLoading s"
  shows "let s' = handleCategoryChange lower (activeCategory s) s in
    displayedItems s' = [] \<and> loadTimers s' = [] \<and> \<not> isLoading s' \<and> filteredMenuItems s' = filteredMenuItems s"
  using assms by (auto simp: handleCategoryChange_def menu_inv_def filteredMenuItems_def Let_def split: if_splits)

lemma cleared_search_keeps_filter:
  assumes "isSearching s" "searchQuery s \<noteq> []"
  shows "displayedItems (set_searchQuery lower [] s) = displayedItems s \<and>
    loadTimers (set_searchQuery lower [] s) = loadTimers s \<and> \<not> isSearching (set_searchQuery lower [] s)"
  using assms by (simp add: set_searchQuery_def search_effect_def loadMoreItems_def Let_def)

section \<open>Rows of the menu micro-frontend\<close>

definition GRID_COLUMNS :: nat where
  "GRID_COLUMNS = 2"

definition menu_items :: "LaneMode \<Rightarrow> string option \<Rightarrow> MenuItem list option \<Rightarrow> MenuItem list" where
  "menu_items lane activeCategoryId data =
     (let all_items = (case data of None \<Rightarrow> [] | Some items \<Rightarrow> items);
          filtered = (if activeCategoryId = None \<or> activeCategoryId = Some [] then all_items
                      else filter (\<lambda>i. Some (Item.categoryId i) = activeCategoryId) all_items)
      in if lane = express then take 12 filtered else filtered)"

text \<open>The loop over \<open>i\<close>, from index \<open>i\<close> on.\<close>

function row_chunks :: "nat \<Rightarrow> 'a list \<Rightarrow> 'a list list" where
  "row_chunks i items =
     (if i < length items then take GRID_COLUMNS (drop i items) # row_chunks (i + GRID_COLUMNS) items else [])"
  by pat_completeness auto
termination by (relation "measure (\<lambda>(i, items). length items - i)") (auto simp: GRID_COLUMNS_def)

declare row_chunks.simps [simp del]

definition menu_rows :: "'a list \<Rightarrow> 'a list list" where
  "menu_rows items = row_chunks 0 items"

lemma row_chunks_concat: "concat (row_chunks i items) = drop i items"
proof (induction i items rule: row_chunks.induct)
  case (1 i items)
  show ?case
  proof (cases "i < length items")
    case True
    then have "concat (row_chunks i items) = take GRID_COLUMNS (drop i items) @ drop (i + GRID_COLUMNS) items"
      using 1 by (subst row_chunks.simps) simp
    then show ?thesis using append_take_drop_id [of GRID_COLUMNS "drop i items"] by (simp add: add.commute)
  qed (simp add: row_chunks.simps [of i])
qed

lemma row_chunks_lengths: "r \<in> set (row_chunks i items) \<Longrightarrow> r \<noteq> [] \<and> length r \<le> GRID_COLUMNS"
proof (induction i items rule: row_chunks.induct)
  case (1 i items)
  then show ?case
    by (cases "i < length items") (auto simp: row_chunks.simps [of i] GRID_COLUMNS_def)
qed

lemma row_chunks_length: "length (row_chunks i items) = (length items - i + 1) div 2"
proof (induction i items rule: row_chunks.induct)
  case (1 i items)
  show ?case
  proof (cases "i < length items")
    case True
    then have "length (row_chunks i items) = Suc ((length items - (i + GRID_COLUMNS) + 1) div 2)"
      using 1 by (subst row_chunks.simps) simp
    also have "\<dots> = (length items - i + 1) div 2" using True unfolding GRID_COLUMNS_def by presburger
    finally show ?thesis .
  qed (simp add: row_chunks.simps [of i])
qed

text \<open>
  The rows of the virtualized grid hold exactly the items of the menu. Their concatenation is the
  item list, no row is empty or wider than two, and there are half as many rows as items, rounded up; an
  express lane shows at most the first twelve items of the chosen category.
\<close>

theorem menu_rows_partition:
  "concat (menu_rows items) = items \<and> list_all (\<lambda>r. r \<noteq> [] \<and> length r \<le> 2) (menu_rows items) \<and>
   length (menu_rows items) = (length items + 1) div 2 \<and>
   length (menu_items express c data) \<le> 12 \<and>
   menu_items express c data = take 12 (menu_items full c data)"
  using row_chunks_lengths [of _ 0 items]
  by (auto simp: menu_rows_def row_chunks_concat row_chunks_length list_all_iff menu_items_def Let_def GRID_COLUMNS_def)

end
