(* ===== verification/ItemModal.thy ===== *)
theory ItemModal
  imports CartService CartEngine KioskMachine
begin

text \<open>
  The item sheet of \<open>apps/kiosk/src/routes/ItemModal.tsx\<close>: the default choice of modifiers, the
  toggling of options and of the quantity, the price shown, the validity test, and what
  \<open>handleAdd\<close> puts into the cart. The markup is left out.
\<close>

section \<open>Choices\<close>

text \<open>An object from group identifiers to arrays of option identifiers.\<close>

type_synonym selections = "(string \<times> string list) list"

abbreviation groupId :: "MenuModifierGroup \<Rightarrow> string" where
  "groupId g \<equiv> ModifierGroup.modifierGroupId g"

text \<open>\<open>arr.slice(0, n)\<close>, where a negative \<open>n\<close> counts from the end.\<close>

definition slice_to :: "int \<Rightarrow> 'a list \<Rightarrow> 'a list" where
  "slice_to n xs = take (nat (if n < 0 then int (length xs) + n else n)) xs"

definition preselected :: "MenuModifierGroup \<Rightarrow> string list" where
  "preselected g = slice_to (ModifierGroup.maxSelect g) (map modifierOptionId (filter isDefault (options g)))"

definition initializeSelections :: "MenuItem option \<Rightarrow> selections" where
  "initializeSelections it =
     (case it of
        None \<Rightarrow> []
      | Some i \<Rightarrow> foldl (\<lambda>d g. AList.update (groupId g) (preselected g) d) [] (modifierGroups i))"

definition selected_of :: "selections \<Rightarrow> string \<Rightarrow> string list" where
  "selected_of sel gid = (case map_of sel gid of None \<Rightarrow> [] | Some s \<Rightarrow> s)"

definition toggled :: "string \<Rightarrow> int \<Rightarrow> string list \<Rightarrow> string list" where
  "toggled oid maxSel current =
     (case findIndex (\<lambda>x. x = oid) current of
        Some idx \<Rightarrow> splice_at idx current
      | None \<Rightarrow> if int (length current) < maxSel then current @ [oid] else current)"

definition toggleOption :: "string \<Rightarrow> ModifierOption \<Rightarrow> int \<Rightarrow> selections \<Rightarrow> selections" where
  "toggleOption gid opt maxSel prev =
     AList.update gid (toggled (modifierOptionId opt) maxSel (selected_of prev gid)) prev"

definition group_modifiers :: "selections \<Rightarrow> MenuModifierGroup \<Rightarrow> ModifierSelection list" where
  "group_modifiers sel g =
     List.map_filter
       (\<lambda>oid. map_option
          (\<lambda>opt. \<lparr>modifierId = groupId g, optionId = oid, priceDeltaCents = ModifierOption.priceDeltaCents opt\<rparr>)
          (List.find (\<lambda>opt. modifierOptionId opt = oid) (options g)))
       (selected_of sel (groupId g))"

definition buildModifierSelections :: "MenuItem \<Rightarrow> selections \<Rightarrow> ModifierSelection list" where
  "buildModifierSelections it sel = concat (map (group_modifiers sel) (modifierGroups it))"

section \<open>The sheet\<close>

record ItemSheet =
  sheetItem :: "MenuItem option"
  selections :: selections
  sheetQuantity :: int

definition open_sheet :: "MenuItem option \<Rightarrow> ItemSheet" where
  "open_sheet it = \<lparr>sheetItem = it, selections = initializeSelections it, sheetQuantity = 1\<rparr>"

definition group_delta :: "selections \<Rightarrow> MenuModifierGroup \<Rightarrow> cents" where
  "group_delta sel g =
     foldl (\<lambda>d opt. d + ModifierOption.priceDeltaCents opt) 0
       (filter (\<lambda>opt. modifierOptionId opt \<in> set (selected_of sel (groupId g))) (options g))"

definition shown_total :: "ItemSheet \<Rightarrow> cents" where
  "shown_total s =
     (case sheetItem s of
        None \<Rightarrow> 0
      | Some i \<Rightarrow>
          (Item.priceCents i + foldl (\<lambda>sum g. sum + group_delta (selections s) g) 0 (modifierGroups i)) * sheetQuantity s)"

definition isValid :: "ItemSheet \<Rightarrow> bool" where
  "isValid s =
     (case sheetItem s of
        None \<Rightarrow> False
      | Some i \<Rightarrow>
          list_all (\<lambda>g. let n = int (length (selected_of (selections s) (groupId g)))
                        in n \<ge> ModifierGroup.minSelect g \<and> n \<le> ModifierGroup.maxSelect g) (modifierGroups i))"

text \<open>The line that \<open>cartService.addItem\<close> receives; it sets the identifier and the time itself.\<close>

definition sheet_line :: "MenuItem \<Rightarrow> ItemSheet \<Rightarrow> CartLineItem" where
  "sheet_line i s =
     \<lparr>lineId = [], menuItemId = Item.itemId i, nameSnapshot = Item.name i,
      unitPriceCentsSnapshot = Item.priceCents i, quantity = sheetQuantity s,
      modifiers = buildModifierSelections i (selections s), lineNotes = None, weightGrams = None, addedAtMs = 0\<rparr>"

text \<open>The button: the line goes to the cart service and the machine is told, or nothing happens.\<close>

definition handleAdd :: "machine_env \<Rightarrow> string \<Rightarrow> ms \<Rightarrow> ms \<Rightarrow> ItemSheet \<Rightarrow> CartService \<times> Kiosk \<Rightarrow> CartService \<times> Kiosk" where
  "handleAdd env newId added now s w =
     (case sheetItem s of
        None \<Rightarrow> w
      | Some i \<Rightarrow>
          if \<not> isValid s then w
          else (cs_addItem newId added now (sheet_line i s) (fst w), send env ADD_TO_CART (snd w)))"

definition handleClose :: "machine_env \<Rightarrow> Kiosk \<Rightarrow> Kiosk" where
  "handleClose env k = send env CLOSE_ITEM_DETAIL k"

definition handleDragEnd :: "machine_env \<Rightarrow> int \<Rightarrow> Kiosk \<Rightarrow> Kiosk" where
  "handleDragEnd env offsetY k = (if offsetY > 80 then handleClose env k else k)"

text \<open>The customer's taps; the buttons of the sheet belong to the item's groups and options.\<close>

datatype sheet_event = TapOption MenuModifierGroup ModifierOption | TapMinus | TapPlus

fun sheet_step :: "sheet_event \<Rightarrow> ItemSheet \<Rightarrow> ItemSheet" where
  "sheet_step (TapOption g opt) s =
     s\<lparr>selections := toggleOption (groupId g) opt (ModifierGroup.maxSelect g) (selections s)\<rparr>"
| "sheet_step TapMinus s = s\<lparr>sheetQuantity := max 1 (sheetQuantity s - 1)\<rparr>"
| "sheet_step TapPlus s = s\<lparr>sheetQuantity := sheetQuantity s + 1\<rparr>"

fun on_sheet :: "sheet_event \<Rightarrow> ItemSheet \<Rightarrow> bool" where
  "on_sheet (TapOption g opt) s =
     (case sheetItem s of None \<Rightarrow> False | Some i \<Rightarrow> g \<in> set (modifierGroups i) \<and> opt \<in> set (options g))"
| "on_sheet _ s = True"

section \<open>What the sheet keeps\<close>

text \<open>A menu item as the catalog delivers it: groups and the options of a group are told apart by their identifiers.\<close>

definition wf_item :: "MenuItem \<Rightarrow> bool" where
  "wf_item i \<longleftrightarrow>
     distinct (map groupId (modifierGroups i)) \<and>
     list_all (\<lambda>g. distinct (map modifierOptionId (options g)) \<and> 0 \<le> ModifierGroup.maxSelect g) (modifierGroups i)"

definition good_choice :: "MenuModifierGroup \<Rightarrow> string list \<Rightarrow> bool" where
  "good_choice g ch \<longleftrightarrow>
     distinct ch \<and> set ch \<subseteq> modifierOptionId ` set (options g) \<and> int (length ch) \<le> ModifierGroup.maxSelect g"

definition sheet_inv :: "MenuItem \<Rightarrow> ItemSheet \<Rightarrow> bool" where
  "sheet_inv i s \<longleftrightarrow>
     sheetItem s = Some i \<and> sheetQuantity s \<ge> 1 \<and>
     (\<forall>g \<in> set (modifierGroups i). good_choice g (selected_of (selections s) (groupId g)))"

lemma selected_of_update:
  "selected_of (AList.update gid ch sel) gid' = (if gid' = gid then ch else selected_of sel gid')"
  by (simp add: selected_of_def js_simps)

lemma preselected_good:
  assumes "distinct (map modifierOptionId (options g))" "0 \<le> ModifierGroup.maxSelect g"
  shows "good_choice g (preselected g)"
proof -
  have "distinct (map modifierOptionId (filter isDefault (options g)))"
    using assms(1) by (simp add: distinct_map_filter)
  moreover have "set (preselected g) \<subseteq> modifierOptionId ` set (options g)"
    unfolding preselected_def slice_to_def by (rule order_trans [OF set_take_subset]) auto
  ultimately show ?thesis using assms(2) by (simp add: good_choice_def preselected_def slice_to_def)
qed

lemma toggled_good:
  assumes "good_choice g ch" "opt \<in> set (options g)"
  shows "good_choice g (toggled (modifierOptionId opt) (ModifierGroup.maxSelect g) ch)"
proof (cases "findIndex (\<lambda>x. x = modifierOptionId opt) ch")
  case None
  then have "modifierOptionId opt \<notin> set ch" by auto
  with None assms show ?thesis by (auto simp: good_choice_def toggled_def simp del: findIndex_None)
next
  case (Some idx)
  then have "idx < length ch" using findIndex_Some_nth [OF Some] by simp
  with Some assms show ?thesis
    using length_splice_at [of idx ch] set_splice_at [of idx ch] distinct_splice_at [of ch idx]
    by (auto simp: good_choice_def toggled_def)
qed

lemma initial_selection:
  assumes "distinct (map groupId gs)" "g \<in> set gs"
  shows "selected_of (foldl (\<lambda>d g. AList.update (groupId g) (preselected g) d) d0 gs) (groupId g) = preselected g"
proof -
  have other: "selected_of (foldl (\<lambda>d g. AList.update (groupId g) (preselected g) d) d gs') gid = selected_of d gid"
    if "gid \<notin> groupId ` set gs'" for d gs' gid
    using that by (induction gs' arbitrary: d) (auto simp: selected_of_update)
  show ?thesis
    using assms
  proof (induction gs arbitrary: d0)
    case (Cons h gs)
    show ?case
    proof (cases "g = h")
      case True
      with Cons.prems other [of "groupId g" gs] show ?thesis by (auto simp: selected_of_update)
    qed (use Cons in auto)
  qed simp
qed

lemma sheet_inv_open:
  assumes "wf_item i"
  shows "sheet_inv i (open_sheet (Some i))"
  using assms preselected_good
  by (auto simp: sheet_inv_def open_sheet_def initializeSelections_def initial_selection wf_item_def list_all_iff)

lemma sheet_inv_step:
  assumes "wf_item i" "sheet_inv i s" "on_sheet e s"
  shows "sheet_inv i (sheet_step e s)"
proof (cases e)
  case (TapOption g opt)
  then have g: "g \<in> set (modifierGroups i)" "opt \<in> set (options g)"
    using assms(2,3) by (auto simp: sheet_inv_def)
  have "good_choice h (selected_of (toggleOption (groupId g) opt (ModifierGroup.maxSelect g) (selections s)) (groupId h))"
    if h: "h \<in> set (modifierGroups i)" for h
  proof (cases "groupId h = groupId g")
    case True
    then have "h = g" using assms(1) h g(1) by (auto simp: wf_item_def distinct_map dest: inj_onD)
    then show ?thesis using toggled_good [OF _ g(2)] assms(2) g(1) by (simp add: toggleOption_def selected_of_update sheet_inv_def)
  next
    case False
    then show ?thesis using assms(2) h by (simp add: toggleOption_def selected_of_update sheet_inv_def)
  qed
  then show ?thesis using assms(2) TapOption by (simp add: sheet_inv_def)
qed (use assms(2) in \<open>auto simp: sheet_inv_def\<close>)

interpretation sheets: event_system sheet_step on_sheet "\<lambda>s. wf_item i \<and> sheet_inv i s" for i
  by unfold_locales (simp add: sheet_inv_step)

section \<open>The price shown is the price charged\<close>

lemma find_option:
  assumes "distinct (map modifierOptionId opts)" "opt \<in> set opts"
  shows "List.find (\<lambda>x. modifierOptionId x = modifierOptionId opt) opts = Some opt"
  using assms by (induction opts) auto

text \<open>On a choice of existing options, the loop of \<open>buildModifierSelections\<close> finds each of them.\<close>

lemma group_modifiers_map:
  assumes "set ch \<subseteq> modifierOptionId ` set opts"
  shows "List.map_filter (\<lambda>oid. map_option (f oid) (List.find (\<lambda>x. modifierOptionId x = oid) opts)) ch =
    map (\<lambda>oid. f oid (the (List.find (\<lambda>x. modifierOptionId x = oid) opts))) ch"
  using assms
proof (induction ch)
  case (Cons oid ch)
  then have "List.find (\<lambda>x. modifierOptionId x = oid) opts \<noteq> None" by (auto simp: find_None_iff)
  with Cons show ?case by (auto simp: map_filter_simps)
qed (simp add: map_filter_simps)

lemma choice_sum:
  fixes price :: "ModifierOption \<Rightarrow> int"
  assumes "distinct (map modifierOptionId opts)" "distinct ch" "set ch \<subseteq> modifierOptionId ` set opts"
  shows "(\<Sum>oid\<leftarrow>ch. price (the (List.find (\<lambda>x. modifierOptionId x = oid) opts))) =
    (\<Sum>opt\<leftarrow>filter (\<lambda>opt. modifierOptionId opt \<in> set ch) opts. price opt)"
proof -
  let ?get = "\<lambda>oid. the (List.find (\<lambda>x. modifierOptionId x = oid) opts)"
  have get: "?get (modifierOptionId opt) = opt" if "opt \<in> set opts" for opt
    using find_option [OF assms(1) that] by simp
  have "(\<Sum>oid\<leftarrow>ch. price (?get oid)) = (\<Sum>oid \<in> set ch. price (?get oid))"
    using assms(2) by (simp add: sum_list_distinct_conv_sum_set)
  also have "\<dots> = (\<Sum>opt \<in> {opt \<in> set opts. modifierOptionId opt \<in> set ch}. price opt)"
  proof (rule sum.reindex_bij_witness [where i = modifierOptionId and j = ?get])
    fix oid assume "oid \<in> set ch"
    then obtain opt where "opt \<in> set opts" "oid = modifierOptionId opt" using assms(3) by auto
    then show "modifierOptionId (?get oid) = oid" "?get oid \<in> {opt \<in> set opts. modifierOptionId opt \<in> set ch}"
      "price (?get oid) = price (?get oid)" using get \<open>oid \<in> set ch\<close> by auto
  qed (use get in auto)
  also have "\<dots> = (\<Sum>opt\<leftarrow>filter (\<lambda>opt. modifierOptionId opt \<in> set ch) opts. price opt)"
    using assms(1) by (simp add: sum_list_distinct_conv_sum_set distinct_map)
  finally show ?thesis .
qed

lemma group_delta_choice:
  assumes "distinct (map modifierOptionId (options g))" "good_choice g (selected_of sel (groupId g))"
  shows "(\<Sum>m\<leftarrow>group_modifiers sel g. ModifierSelection.priceDeltaCents m) = group_delta sel g"
    and "length (group_modifiers sel g) = length (selected_of sel (groupId g))"
    and "m \<in> set (group_modifiers sel g) \<Longrightarrow> modifierId m = groupId g \<and>
      (\<exists>opt \<in> set (options g). modifierOptionId opt = optionId m \<and>
         ModifierOption.priceDeltaCents opt = ModifierSelection.priceDeltaCents m)"
proof -
  let ?ch = "selected_of sel (groupId g)"
  have ch: "distinct ?ch" "set ?ch \<subseteq> modifierOptionId ` set (options g)" using assms(2) by (auto simp: good_choice_def)
  have eq: "group_modifiers sel g = map (\<lambda>oid. \<lparr>modifierId = groupId g, optionId = oid,
      priceDeltaCents = ModifierOption.priceDeltaCents (the (List.find (\<lambda>x. modifierOptionId x = oid) (options g)))\<rparr>) ?ch"
    unfolding group_modifiers_def by (rule group_modifiers_map [OF ch(2)])
  show "(\<Sum>m\<leftarrow>group_modifiers sel g. ModifierSelection.priceDeltaCents m) = group_delta sel g"
    using choice_sum [OF assms(1) ch, of ModifierOption.priceDeltaCents]
    by (simp add: eq comp_def group_delta_def foldl_sum)
  show "length (group_modifiers sel g) = length ?ch" by (simp add: eq)
  assume "m \<in> set (group_modifiers sel g)"
  then obtain oid where "oid \<in> set ?ch" and m: "m = \<lparr>modifierId = groupId g, optionId = oid,
      priceDeltaCents = ModifierOption.priceDeltaCents (the (List.find (\<lambda>x. modifierOptionId x = oid) (options g)))\<rparr>"
    by (auto simp: eq)
  then obtain opt where "opt \<in> set (options g)" "oid = modifierOptionId opt" using ch(2) by auto
  then show "modifierId m = groupId g \<and> (\<exists>opt \<in> set (options g). modifierOptionId opt = optionId m \<and>
      ModifierOption.priceDeltaCents opt = ModifierSelection.priceDeltaCents m)"
    using find_option [OF assms(1)] m by auto
qed

lemma modifiers_delta:
  assumes "wf_item i" "sheet_inv i s"
  shows "modifiersTotal (sheet_line i s) = (\<Sum>g\<leftarrow>modifierGroups i. group_delta (selections s) g)"
proof -
  have "(\<Sum>m\<leftarrow>concat (map (group_modifiers (selections s)) gs). ModifierSelection.priceDeltaCents m) =
      (\<Sum>g\<leftarrow>gs. group_delta (selections s) g)" if "set gs \<subseteq> set (modifierGroups i)" for gs
    using that
  proof (induction gs)
    case (Cons g gs)
    then have "distinct (map modifierOptionId (options g))" "good_choice g (selected_of (selections s) (groupId g))"
      using assms by (auto simp: wf_item_def list_all_iff sheet_inv_def)
    with Cons show ?case by (simp add: group_delta_choice)
  qed simp
  then show ?thesis by (simp add: modifiersTotal_def foldl_sum sheet_line_def buildModifierSelections_def)
qed

lemma group_filter:
  assumes "wf_item i" "sheet_inv i s" "g \<in> set (modifierGroups i)"
  shows "filter (\<lambda>m. modifierId m = groupId g) (buildModifierSelections i (selections s)) = group_modifiers (selections s) g"
proof -
  have own: "filter (\<lambda>m. modifierId m = gid) (group_modifiers sel h) = (if groupId h = gid then group_modifiers sel h else [])"
    for sel h gid
    by (auto simp: group_modifiers_def map_filter_def filter_id_conv filter_empty_conv)
  have none: "concat (map (\<lambda>h. if groupId h = groupId g then group_modifiers sel h else []) gs) = []"
    if "groupId g \<notin> groupId ` set gs" for gs sel
    using that by (induction gs) auto
  have "concat (map (\<lambda>h. if groupId h = groupId g then group_modifiers sel h else []) gs) = group_modifiers sel g"
    if "distinct (map groupId gs)" "g \<in> set gs" for gs sel
    using that
  proof (induction gs)
    case (Cons h gs)
    then show ?case using none [of gs sel] by (cases "h = g") auto
  qed simp
  then show ?thesis
    using assms(1,3) by (simp add: buildModifierSelections_def filter_concat comp_def own wf_item_def)
qed

lemma cs_addItem_lines:
  "CartState.lines (csCart (cs_addItem newId added now l cs)) =
     CartState.lines (csCart cs) @ [l\<lparr>lineId := newId, addedAtMs := added\<rparr>]"
  by (simp add: cs_addItem_def markDirty_def scheduleSync_def set_lines_def setTimeout_def clearTimeout_def Let_def
      split: option.splits)

lemma send_add:
  "stageOf k = ITEM_DETAIL \<Longrightarrow> stageOf (send env ADD_TO_CART k) = MENU \<and> cartHasItems (context_of (send env ADD_TO_CART k))"
  by (simp add: send_def on_ITEM_DETAIL_def enter_def run_actions_def goto_def)

text \<open>
  C23. The price on the sheet is the price that is charged. However the customer taps options and
  quantity, every group keeps a choice of its own options, none twice and never more than it
  allows; when the button is enabled, the line that \<open>handleAdd\<close> puts into the cart costs what the
  sheet showed, has a positive quantity, carries for every group between its minimum and its
  maximum of modifiers at the catalog's prices, and the kiosk returns to the menu with a non-empty
  cart; when it is not, nothing happens.
\<close>

theorem sheet_price_is_charged:
  assumes "wf_item i" and "admissible on_sheet sheet_step es (open_sheet (Some i))"
  defines "s \<equiv> fold sheet_step es (open_sheet (Some i))"
  shows "sheet_inv i s \<and>
    (\<not> isValid s \<longrightarrow> handleAdd env newId added now s w = w) \<and>
    (isValid s \<longrightarrow>
      (let l = (sheet_line i s)\<lparr>lineId := newId, addedAtMs := added\<rparr>; w' = handleAdd env newId added now s w in
       CartState.lines (csCart (fst w')) = CartState.lines (csCart (fst w)) @ [l] \<and>
       line_cents l = shown_total s \<and> CartLineItem.quantity l \<ge> 1 \<and>
       (\<forall>g \<in> set (modifierGroups i).
          let ms = filter (\<lambda>m. modifierId m = groupId g) (modifiers l) in
          ModifierGroup.minSelect g \<le> int (length ms) \<and> int (length ms) \<le> ModifierGroup.maxSelect g \<and>
          (\<forall>m \<in> set ms. \<exists>opt \<in> set (options g). modifierOptionId opt = optionId m \<and>
             ModifierOption.priceDeltaCents opt = ModifierSelection.priceDeltaCents m)) \<and>
       (stageOf (snd w) = ITEM_DETAIL \<longrightarrow>
          stageOf (snd w') = MENU \<and> cartHasItems (context_of (snd w')))))"
proof -
  have inv: "sheet_inv i s"
    using sheets.inv_run [of i "open_sheet (Some i)" es] assms(1,2) sheet_inv_open [OF assms(1)] by (simp add: s_def)
  then have it: "sheetItem s = Some i" and q: "sheetQuantity s \<ge> 1" by (auto simp: sheet_inv_def)
  let ?l = "(sheet_line i s)\<lparr>lineId := newId, addedAtMs := added\<rparr>"
  have price: "line_cents ?l = shown_total s"
  proof -
    have "modifiersTotal ?l = modifiersTotal (sheet_line i s)" by (simp add: modifiersTotal_def)
    then show ?thesis
      using modifiers_delta [OF assms(1) inv] it
      by (simp add: line_cents_def shown_total_def foldl_sum sheet_line_def algebra_simps)
  qed
  have mods: "filter (\<lambda>m. modifierId m = groupId g) (modifiers ?l) = group_modifiers (selections s) g"
    if "g \<in> set (modifierGroups i)" for g
    using group_filter [OF assms(1) inv that] by (simp add: sheet_line_def)
  have choice: "distinct (map modifierOptionId (options g))" "good_choice g (selected_of (selections s) (groupId g))"
    if "g \<in> set (modifierGroups i)" for g
    using assms(1) inv that by (auto simp: wf_item_def list_all_iff sheet_inv_def)
  have groups: "let ms = filter (\<lambda>m. modifierId m = groupId g) (modifiers ?l) in
      ModifierGroup.minSelect g \<le> int (length ms) \<and> int (length ms) \<le> ModifierGroup.maxSelect g \<and>
      (\<forall>m \<in> set ms. \<exists>opt \<in> set (options g). modifierOptionId opt = optionId m \<and>
         ModifierOption.priceDeltaCents opt = ModifierSelection.priceDeltaCents m)"
    if "g \<in> set (modifierGroups i)" "isValid s" for g
    using that it group_delta_choice(2,3) [OF choice [OF that(1)]]
    unfolding Let_def mods [OF that(1)] by (auto simp: isValid_def list_all_iff Let_def)
  show ?thesis
    using inv it q price groups
    by (auto simp: handleAdd_def Let_def cs_addItem_lines sheet_line_def [of i s] send_add)
qed

definition latte_option :: "string \<Rightarrow> cents \<Rightarrow> bool \<Rightarrow> ModifierOption" where
  "latte_option oid p d = ModifierOption.make oid ''size'' oid p d 0 True [] [] None"

definition latte_group :: MenuModifierGroup where
  "latte_group =
     ModifierGroup.extend (ModifierGroup.make ''size'' [] ''Size'' None 1 1 0 True [] [] None)
       (MenuModifierGroup.fields [latte_option ''small'' 0 True, latte_option ''large'' 75 False])"

definition latte_item :: MenuItem where
  "latte_item =
     Item.extend
       (Item.make ''latte'' [] [] ''Latte'' None 350 None None None None None None Tax_standard False None True None [] [] None)
       (MenuItem.fields [latte_group] None)"

text \<open>Two large lattes: deselect small, select large, one more.\<close>

definition sample_taps :: "sheet_event list" where
  "sample_taps = [TapOption latte_group (latte_option ''small'' 0 True),
     TapOption latte_group (latte_option ''large'' 75 False), TapPlus]"

lemmas sample_defs = latte_item_def latte_group_def latte_option_def sample_taps_def
  ModifierOption.defs ModifierGroup.defs MenuModifierGroup.defs Item.defs MenuItem.defs

theorem sheet_price_is_charged_witness:
  "isValid (fold sheet_step sample_taps (open_sheet (Some latte_item))) \<and>
   shown_total (fold sheet_step sample_taps (open_sheet (Some latte_item))) = 850 \<and>
   line_cents ((sheet_line latte_item (fold sheet_step sample_taps (open_sheet (Some latte_item))))
     \<lparr>lineId := ''l1'', addedAtMs := 5\<rparr>) = 850"
proof -
  let ?s = "fold sheet_step sample_taps (open_sheet (Some latte_item))"
  have wf: "wf_item latte_item" by (simp add: wf_item_def sample_defs)
  have ad: "admissible on_sheet sheet_step sample_taps (open_sheet (Some latte_item))"
    by (simp add: sample_defs open_sheet_def)
  have "isValid ?s" "shown_total ?s = 850" by code_simp+
  with sheet_price_is_charged [OF wf ad, of undefined "''l1''" 5 0 undefined] show ?thesis by (simp add: Let_def)
qed

end
