(* ===== verification/PaymentAuth.thy ===== *)
theory PaymentAuth
  imports CartEngine KioskSafety
begin

text \<open>
  The payment screen of the kiosk, \<open>apps/kiosk/src/routes/PaymentAuthScreen.tsx\<close>: the amount it
  asks for, the authorization through the API, and the employee's hold button. The calls of the
  API and the build's flag for simulated payments are arguments; what the screen sends to the
  workflow machine is recorded.
\<close>

section \<open>The amount\<close>

definition SCREEN_TAX_RATE :: dyadic where
  "SCREEN_TAX_RATE = \<lparr>significand = 0x147AE147AE147B, scale = 56\<rparr>"

definition screen_total :: "CartLineItem list \<Rightarrow> cents" where
  "screen_total ls = (let sub = subtotal_of ls in sub + Math_round (fmul sub SCREEN_TAX_RATE))"

section \<open>State\<close>

datatype ScreenMethod = card_nfc | cash | qr_screen

record PaymentResult =
  paymentId :: string
  payOrderId :: string
  payCartId :: string
  payAmountCents :: cents
  payCurrency :: string
  payMethod :: PaymentMethod
  payStatus :: PaymentStatus
  authorization :: PaymentAuthorizationResult
  receiptUrl :: "string option"

text \<open>The two calls of the API: cart and method; cart, intent, amount, currency and method.\<close>

datatype payment_call =
    CheckoutCall string PaymentMethod
  | ProcessCall string string cents string PaymentMethod

datatype auth_wait = AwaitCheckout | AwaitPayment

text \<open>
  \<open>pending\<close> is the authorization that waits for the API, with the method and the amount its callback closes
  over. A running interval of the hold button has its identifier, the progress (a double over \<open>2^56\<close>) and
  the amount its callback closes over.
\<close>

record AuthScreen =
  selectedMethod :: "ScreenMethod option"
  showBiometric :: bool
  authorizing :: bool
  pending :: "(auth_wait \<times> ScreenMethod \<times> cents) option"
  holdRef :: "nat option"
  holdProgress :: int
  intervals :: "(nat \<times> int \<times> cents) list"
  nextInterval :: nat
  paymentCalls :: "payment_call list"
  screenSent :: "KioskEvent list"

definition new_AuthScreen :: AuthScreen where
  "new_AuthScreen = \<lparr>selectedMethod = None, showBiometric = False, authorizing = False, pending = None,
     holdRef = None, holdProgress = 0, intervals = [], nextInterval = 1, paymentCalls = [], screenSent = []\<rparr>"

section \<open>Authorization\<close>

definition handleConfirm :: "AuthScreen \<Rightarrow> AuthScreen" where
  "handleConfirm s = (if selectedMethod s = None then s else s\<lparr>showBiometric := True\<rparr>)"

fun apiMethod :: "ScreenMethod \<Rightarrow> PaymentMethod" where
  "apiMethod card_nfc = nfc_apple_pay"
| "apiMethod cash = cash_recycler"
| "apiMethod qr_screen = qr_code"

definition handleBiometricComplete :: "string \<Rightarrow> CartLineItem list \<Rightarrow> AuthScreen \<Rightarrow> AuthScreen" where
  "handleBiometricComplete cid ls s =
     (case selectedMethod s of
        None \<Rightarrow> s
      | Some m \<Rightarrow>
          if authorizing s then s
          else s\<lparr>authorizing := True, pending := Some (AwaitCheckout, m, screen_total ls),
                 paymentCalls := paymentCalls s @ [CheckoutCall cid (apiMethod m)]\<rparr>)"

text \<open>\<open>...(x && { key: x })\<close> leaves an absent or empty text out.\<close>

definition spread_text :: "string option \<Rightarrow> string option" where
  "spread_text x = (if x = Some [] then None else x)"

definition authorized_result :: "PaymentResult \<Rightarrow> PaymentAuthorizationResult" where
  "authorized_result p =
     PaymentAuthorizationResult.make (paymentId p) (payStatus p) (payMethod p) (payAmountCents p)
       (spread_text (approvalCode (authorization p))) None (spread_text (cardBrand (authorization p)))
       (spread_text (cardLastFour (authorization p))) None"

definition simulated_result :: "string \<Rightarrow> PaymentMethod \<Rightarrow> cents \<Rightarrow> string option \<Rightarrow> PaymentAuthorizationResult" where
  "simulated_result newId m amount code =
     PaymentAuthorizationResult.make newId PS_authorized m amount code None None None None"

definition failure_text :: "thrown \<Rightarrow> string" where
  "failure_text e =
     (case e of
        ThrownError err \<Rightarrow> errMessage err
      | ThrownOther _ \<Rightarrow> ''Payment terminal not available. Please try again or use a different method.'')"

definition tell :: "KioskEvent \<Rightarrow> AuthScreen \<Rightarrow> AuthScreen" where
  "tell e s = s\<lparr>screenSent := screenSent s @ [e]\<rparr>"

text \<open>The \<open>catch\<close> branch, for either call.\<close>

definition payment_caught :: "bool \<Rightarrow> string \<Rightarrow> thrown \<Rightarrow> ScreenMethod \<Rightarrow> cents \<Rightarrow> AuthScreen \<Rightarrow> AuthScreen" where
  "payment_caught allowSimulated newId e m amount s =
     tell (if allowSimulated then PAYMENT_AUTHORIZED (simulated_result newId (apiMethod m) amount (Some ''SIMULATED''))
           else PAYMENT_FAILED (failure_text e))
       (s\<lparr>pending := None, showBiometric := False, authorizing := False\<rparr>)"

text \<open>The continuations: \<open>checkoutCart\<close> answers an intent or throws, then \<open>processPayment\<close> answers or throws.\<close>

definition checkout_settled :: "bool \<Rightarrow> string \<Rightarrow> string \<Rightarrow> (thrown + string) \<Rightarrow> AuthScreen \<Rightarrow> AuthScreen" where
  "checkout_settled allowSimulated newId cid checkout s =
     (case pending s of
        Some (AwaitCheckout, m, amount) \<Rightarrow>
          (case checkout of
             Inl e \<Rightarrow> payment_caught allowSimulated newId e m amount s
           | Inr intent \<Rightarrow>
               s\<lparr>pending := Some (AwaitPayment, m, amount),
                 paymentCalls := paymentCalls s @ [ProcessCall cid intent amount ''USD'' (apiMethod m)]\<rparr>)
      | _ \<Rightarrow> s)"

definition payment_settled :: "bool \<Rightarrow> string \<Rightarrow> (thrown + PaymentResult) \<Rightarrow> AuthScreen \<Rightarrow> AuthScreen" where
  "payment_settled allowSimulated newId payment s =
     (case pending s of
        Some (AwaitPayment, m, amount) \<Rightarrow>
          (case payment of
             Inl e \<Rightarrow> payment_caught allowSimulated newId e m amount s
           | Inr p \<Rightarrow>
               tell (PAYMENT_AUTHORIZED (authorized_result p))
                 (s\<lparr>pending := None, showBiometric := False, authorizing := False\<rparr>))
      | _ \<Rightarrow> s)"

definition handleBiometricCancel :: "AuthScreen \<Rightarrow> AuthScreen" where
  "handleBiometricCancel s = (if authorizing s then s else s\<lparr>showBiometric := False\<rparr>)"

section \<open>The hold button\<close>

definition TENTH :: int where
  "TENTH = 0x1999999999999A"

definition ONE :: int where
  "ONE = 2 ^ 56"

definition handleEmployeeHoldStart :: "CartLineItem list \<Rightarrow> AuthScreen \<Rightarrow> AuthScreen" where
  "handleEmployeeHoldStart ls s =
     s\<lparr>holdProgress := 0, holdRef := Some (nextInterval s),
       intervals := intervals s @ [(nextInterval s, 0, screen_total ls)], nextInterval := nextInterval s + 1\<rparr>"

definition hold_tick :: "nat \<Rightarrow> string \<Rightarrow> AuthScreen \<Rightarrow> AuthScreen" where
  "hold_tick i newId s =
     (case map_of (intervals s) i of
        None \<Rightarrow> s
      | Some (p, amount) \<Rightarrow>
          let p' = round_double (p + TENTH);
              s1 = s\<lparr>intervals := AList.update i (p', amount) (intervals s), holdProgress := min p' ONE\<rparr>
          in if p' \<ge> ONE then
               tell (PAYMENT_AUTHORIZED (simulated_result newId nfc_apple_pay amount None))
                 (case holdRef s1 of None \<Rightarrow> s1 | Some j \<Rightarrow> s1\<lparr>intervals := AList.delete j (intervals s1)\<rparr>)
             else s1)"

definition handleEmployeeHoldEnd :: "AuthScreen \<Rightarrow> AuthScreen" where
  "handleEmployeeHoldEnd s =
     (case holdRef s of
        None \<Rightarrow> s\<lparr>holdProgress := 0\<rparr>
      | Some j \<Rightarrow> s\<lparr>intervals := AList.delete j (intervals s), holdRef := None, holdProgress := 0\<rparr>)"

text \<open>Events that read the cart carry its identifier or its lines at that moment.\<close>

datatype auth_event =
    ChooseMethod ScreenMethod
  | Confirm
  | Complete string "CartLineItem list"
  | CheckoutSettled bool string string "thrown + string"
  | PaymentSettled bool string "thrown + PaymentResult"
  | CancelPrompt
  | HoldStart "CartLineItem list"
  | HoldTick nat string
  | HoldEnd

fun auth_step :: "auth_event \<Rightarrow> AuthScreen \<Rightarrow> AuthScreen" where
  "auth_step (ChooseMethod m) s = s\<lparr>selectedMethod := Some m\<rparr>"
| "auth_step Confirm s = handleConfirm s"
| "auth_step (Complete cid ls) s = handleBiometricComplete cid ls s"
| "auth_step (CheckoutSettled sim newId cid checkout) s = checkout_settled sim newId cid checkout s"
| "auth_step (PaymentSettled sim newId payment) s = payment_settled sim newId payment s"
| "auth_step CancelPrompt s = handleBiometricCancel s"
| "auth_step (HoldStart ls) s = handleEmployeeHoldStart ls s"
| "auth_step (HoldTick i newId) s = hold_tick i newId s"
| "auth_step HoldEnd s = handleEmployeeHoldEnd s"

section \<open>What the screen authorizes\<close>

text \<open>Neither the hold button nor the build's simulation is used.\<close>

fun no_override :: "auth_event \<Rightarrow> bool" where
  "no_override (HoldStart _) = False"
| "no_override (CheckoutSettled sim _ _ _) = (\<not> sim)"
| "no_override (PaymentSettled sim _ _) = (\<not> sim)"
| "no_override _ = True"

lemmas auth_defs = handleConfirm_def handleBiometricComplete_def checkout_settled_def payment_settled_def
  payment_caught_def handleBiometricCancel_def handleEmployeeHoldStart_def handleEmployeeHoldEnd_def tell_def

lemmas auth_splits = option.splits sum.splits auth_wait.splits prod.splits

text \<open>At most one message to the machine per completed prompt.\<close>

definition completions :: "auth_event list \<Rightarrow> nat" where
  "completions es = length (filter (\<lambda>e. case e of Complete _ _ \<Rightarrow> True | _ \<Rightarrow> False) es)"

definition pending_count :: "AuthScreen \<Rightarrow> nat" where
  "pending_count s = (case pending s of None \<Rightarrow> 0 | Some _ \<Rightarrow> 1)"

definition auth_inv :: "AuthScreen \<Rightarrow> bool" where
  "auth_inv s \<longleftrightarrow> intervals s = [] \<and> (pending s \<noteq> None \<longrightarrow> authorizing s)"

interpretation auth_screens: event_system auth_step "\<lambda>e _. no_override e" auth_inv
proof
  show "auth_inv s \<Longrightarrow> no_override e \<Longrightarrow> auth_inv (auth_step e s)" for s e
    by (cases e) (auto simp: auth_inv_def auth_defs hold_tick_def Let_def split: auth_splits)
qed

lemma auth_sent_step:
  assumes "auth_inv s" "no_override e"
  shows "length (screenSent (auth_step e s)) + pending_count (auth_step e s) \<le>
    length (screenSent s) + pending_count s + completions [e]"
  using assms
  by (cases e) (auto simp: auth_inv_def auth_defs hold_tick_def pending_count_def completions_def Let_def split: auth_splits)

text \<open>What the messages, the calls and the pending authorization owe to the events so far.\<close>

definition processed :: "auth_event list \<Rightarrow> PaymentAuthorizationResult \<Rightarrow> bool" where
  "processed es r \<longleftrightarrow> (\<exists>newId p. PaymentSettled False newId (Inr p) \<in> set es \<and> r = authorized_result p)"

definition asked_for :: "auth_event list \<Rightarrow> cents \<Rightarrow> bool" where
  "asked_for es amount \<longleftrightarrow> (\<exists>cid ls. Complete cid ls \<in> set es \<and> amount = screen_total ls)"

definition checked_out :: "auth_event list \<Rightarrow> string \<Rightarrow> string \<Rightarrow> bool" where
  "checked_out es cid intent \<longleftrightarrow> (\<exists>sim newId. CheckoutSettled sim newId cid (Inr intent) \<in> set es)"

definition auth_history :: "auth_event list \<Rightarrow> AuthScreen \<Rightarrow> bool" where
  "auth_history es s \<longleftrightarrow>
     auth_inv s \<and>
     length (screenSent s) + pending_count s \<le> completions es \<and>
     (\<forall>r. PAYMENT_AUTHORIZED r \<in> set (screenSent s) \<longrightarrow> processed es r) \<and>
     (\<forall>w m amount. pending s = Some (w, m, amount) \<longrightarrow> asked_for es amount) \<and>
     (\<forall>cid intent amount cur m. ProcessCall cid intent amount cur m \<in> set (paymentCalls s) \<longrightarrow>
        cur = ''USD'' \<and> asked_for es amount \<and> checked_out es cid intent)"

lemma auth_history_mono:
  "processed es r \<Longrightarrow> processed (es @ es') r"
  "asked_for es amount \<Longrightarrow> asked_for (es @ es') amount"
  "checked_out es cid intent \<Longrightarrow> checked_out (es @ es') cid intent"
  by (auto simp: processed_def asked_for_def checked_out_def)

lemma auth_step_sent:
  assumes "auth_inv s" "no_override e" "PAYMENT_AUTHORIZED r \<in> set (screenSent (auth_step e s))"
  shows "PAYMENT_AUTHORIZED r \<in> set (screenSent s) \<or>
    (\<exists>newId p. e = PaymentSettled False newId (Inr p) \<and> r = authorized_result p)"
  using assms by (cases e) (auto simp: auth_inv_def auth_defs hold_tick_def split: auth_splits if_splits)

lemma auth_step_pending:
  assumes "pending (auth_step e s) = Some (w, m, amount)"
  shows "(\<exists>w' m'. pending s = Some (w', m', amount)) \<or> (\<exists>cid ls. e = Complete cid ls \<and> amount = screen_total ls)"
  using assms by (cases e) (auto simp: auth_defs hold_tick_def Let_def split: auth_splits if_splits)

lemma auth_step_calls:
  assumes "ProcessCall cid intent amount cur m \<in> set (paymentCalls (auth_step e s))"
  shows "ProcessCall cid intent amount cur m \<in> set (paymentCalls s) \<or>
    (\<exists>sim newId w m'. e = CheckoutSettled sim newId cid (Inr intent) \<and> cur = ''USD'' \<and> pending s = Some (w, m', amount))"
  using assms by (cases e) (auto simp: auth_defs hold_tick_def Let_def split: auth_splits if_splits)

lemma auth_history_step:
  assumes "auth_history es s" "no_override e"
  shows "auth_history (es @ [e]) (auth_step e s)"
proof -
  have inv: "auth_inv (auth_step e s)" using assms auth_screens.inv_step [of s e] by (simp add: auth_history_def)
  have "completions (es @ [e]) = completions es + completions [e]" by (simp add: completions_def)
  then have len: "length (screenSent (auth_step e s)) + pending_count (auth_step e s) \<le> completions (es @ [e])"
    using auth_sent_step [of s e] assms by (simp add: auth_history_def)
  have sent: "processed (es @ [e]) r" if "PAYMENT_AUTHORIZED r \<in> set (screenSent (auth_step e s))" for r
    using auth_step_sent [OF _ assms(2) that] assms(1) auth_history_mono(1) [of es r "[e]"]
    by (auto simp: auth_history_def) (simp add: processed_def, blast)
  have wait: "asked_for (es @ [e]) amount" if "pending (auth_step e s) = Some (w, m, amount)" for w m amount
    using auth_step_pending [OF that] assms(1) by (fastforce simp: auth_history_def asked_for_def)
  have calls: "cur = ''USD'' \<and> asked_for (es @ [e]) amount \<and> checked_out (es @ [e]) cid intent"
    if "ProcessCall cid intent amount cur m \<in> set (paymentCalls (auth_step e s))" for cid intent amount cur m
    using auth_step_calls [OF that]
  proof
    assume "ProcessCall cid intent amount cur m \<in> set (paymentCalls s)"
    then have "cur = ''USD'' \<and> asked_for es amount \<and> checked_out es cid intent"
      using assms(1) unfolding auth_history_def by blast
    then show ?thesis by (simp add: auth_history_mono)
  next
    assume "\<exists>sim newId w m'. e = CheckoutSettled sim newId cid (Inr intent) \<and> cur = ''USD'' \<and> pending s = Some (w, m', amount)"
    then have "cur = ''USD'' \<and> asked_for es amount" "checked_out (es @ [e]) cid intent"
      using assms(1) unfolding auth_history_def checked_out_def by auto
    then show ?thesis by (simp add: auth_history_mono)
  qed
  show ?thesis using inv len sent wait calls unfolding auth_history_def by blast
qed

lemma auth_history_run:
  "list_all no_override es \<Longrightarrow> auth_history es (fold auth_step es new_AuthScreen)"
proof (induction es rule: rev_induct)
  case Nil
  then show ?case by (simp add: auth_history_def new_AuthScreen_def auth_inv_def pending_count_def)
qed (simp add: auth_history_step)


definition declined_payment :: PaymentResult where
  "declined_payment = \<lparr>paymentId = ''p1'', payOrderId = ''o1'', payCartId = ''c1'', payAmountCents = 100,
     payCurrency = ''USD'', payMethod = qr_code, payStatus = PS_declined,
     authorization = PaymentAuthorizationResult.make ''p1'' PS_declined qr_code 100 None None None None None, receiptUrl = None\<rparr>"

definition declined_run :: "auth_event list" where
  "declined_run = [ChooseMethod qr_screen, Confirm, Complete ''c1'' [], CheckoutSettled False ''x'' ''c1'' (Inr ''intent''),
     PaymentSettled False ''y'' (Inr declined_payment)]"


section \<open>The hold button in double precision\<close>

definition progress_after :: "nat \<Rightarrow> int" where
  "progress_after n = ((\<lambda>p. round_double (p + TENTH)) ^^ n) 0"

lemma progress_Suc: "progress_after (Suc n) = round_double (progress_after n + TENTH)"
  by (simp add: progress_after_def)

text \<open>The progress after each tick, over \<open>2^56\<close>: ten additions of the double nearest to 0.1 give less than one.\<close>

definition progress_values :: "int list" where
  "progress_values =
    [0, 7205759403792794, 14411518807585588, 21617278211378384,
     28823037615171176, 36028797018963968, 43234556422756760, 50440315826549552,
     57646075230342344, 64851834634135136, 72057594037927928, 79263353441720720]"

lemma round_double_steps:
  "round_double (0 + TENTH) = 7205759403792794"
  "round_double (7205759403792794 + TENTH) = 14411518807585588"
  "round_double (14411518807585588 + TENTH) = 21617278211378384"
  "round_double (21617278211378384 + TENTH) = 28823037615171176"
  "round_double (28823037615171176 + TENTH) = 36028797018963968"
  "round_double (36028797018963968 + TENTH) = 43234556422756760"
  "round_double (43234556422756760 + TENTH) = 50440315826549552"
  "round_double (50440315826549552 + TENTH) = 57646075230342344"
  "round_double (57646075230342344 + TENTH) = 64851834634135136"
  "round_double (64851834634135136 + TENTH) = 72057594037927928"
  "round_double (72057594037927928 + TENTH) = 79263353441720720"
  by (simp_all add: round_double_def excess_bits.simps round_half_even_def TENTH_def)

lemma progress_nth: "n \<le> 11 \<Longrightarrow> progress_after n = progress_values ! n"
proof (induction n)
  case 0
  then show ?case by (simp add: progress_after_def progress_values_def)
next
  case (Suc n)
  have "n \<in> {0, 1, 2, 3, 4, 5, 6, 7, 8, 9, 10}"
    using Suc.prems unfolding insert_iff empty_iff by presburger
  then have "round_double (progress_values ! n + TENTH) = progress_values ! Suc n"
    by (elim insertE emptyE) (simp_all only: progress_values_def round_double_steps nth_Cons_Suc nth_Cons_0 numeral_nat One_nat_def)
  with Suc show ?case by (simp add: progress_Suc)
qed

lemma progress_below: "n \<le> 10 \<Longrightarrow> progress_after n < ONE"
proof -
  assume n: "n \<le> 10"
  have "list_all (\<lambda>p. p < ONE) (butlast progress_values)" by (simp add: progress_values_def ONE_def)
  then have "butlast progress_values ! n < ONE" using n by (auto simp: list_all_length progress_values_def)
  moreover have "butlast progress_values ! n = progress_values ! n"
    by (rule nth_butlast) (use n in \<open>simp add: progress_values_def\<close>)
  ultimately show ?thesis using n progress_nth [of n] by simp
qed

lemma progress_reached: "progress_after 11 \<ge> ONE"
  using progress_nth [of 11] by (simp add: progress_values_def ONE_def)

lemma hold_ticks_below:
  assumes "intervals s = (i, 0, amount) # rest" and "n \<le> 10"
  shows "(hold_tick i newId ^^ n) s =
    s\<lparr>intervals := (i, progress_after n, amount) # rest, holdProgress := (if n = 0 then holdProgress s else progress_after n)\<rparr>"
  using assms(2)
proof (induction n)
  case (Suc n)
  then have "progress_after (Suc n) < ONE" by (intro progress_below) simp
  with Suc show ?case by (simp add: hold_tick_def Let_def progress_Suc [symmetric])
qed (use assms(1) in \<open>simp add: progress_after_def\<close>)

lemma hold_tick_fires:
  assumes "intervals s = (i, 0, amount) # rest"
  shows "screenSent ((hold_tick i newId ^^ 11) s) =
    screenSent s @ [PAYMENT_AUTHORIZED (simulated_result newId nfc_apple_pay amount None)]"
proof -
  have "(hold_tick i newId ^^ 11) s = hold_tick i newId ((hold_tick i newId ^^ 10) s)"
    by (simp add: eval_nat_numeral)
  moreover have "round_double (progress_after 10 + TENTH) \<ge> ONE"
    using progress_reached progress_Suc [of 10] by simp
  ultimately show ?thesis
    using hold_ticks_below [OF assms, of 10 newId] by (simp add: hold_tick_def Let_def tell_def split: option.splits)
qed

text \<open>
  The hidden hold button authorizes an order without any payment. Held for eleven ticks of 300
  milliseconds, not ten, since ten double-precision steps of 0.1 do not reach one, it sends an
  authorization over the full amount that the workflow machine accepts, without an employee having been
  identified; released before, it sends nothing. A second press before the release leaves the first
  interval running: it authorizes the order after the button has been released.
\<close>

theorem hold_button_authorizes_without_payment:
  fixes s ls
  assumes "intervals s = []"
  defines "pressed \<equiv> handleEmployeeHoldStart ls s"
  defines "i \<equiv> nextInterval s"
  shows "screenSent ((hold_tick i newId ^^ 11) pressed) =
      screenSent s @ [PAYMENT_AUTHORIZED (simulated_result newId nfc_apple_pay (screen_total ls) None)] \<and>
    isApprovedResult (simulated_result newId nfc_apple_pay (screen_total ls) None) \<and>
    (n \<le> 10 \<longrightarrow>
      (let released = handleEmployeeHoldEnd ((hold_tick i newId ^^ n) pressed) in
       screenSent released = screenSent s \<and> intervals released = [])) \<and>
    (let released = handleEmployeeHoldEnd (handleEmployeeHoldStart ls pressed) in
     screenSent ((hold_tick i newId ^^ 11) released) =
       screenSent s @ [PAYMENT_AUTHORIZED (simulated_result newId nfc_apple_pay (screen_total ls) None)])"
proof -
  have p: "intervals pressed = (i, 0, screen_total ls) # []" using assms(1) by (simp add: pressed_def i_def handleEmployeeHoldStart_def)
  have r: "holdRef pressed = Some i" by (simp add: pressed_def i_def handleEmployeeHoldStart_def)
  let ?two = "handleEmployeeHoldEnd (handleEmployeeHoldStart ls pressed)"
  have two: "intervals ?two = (i, 0, screen_total ls) # []"
    using assms(1) by (simp add: pressed_def i_def handleEmployeeHoldStart_def handleEmployeeHoldEnd_def)
  have sent: "screenSent pressed = screenSent s" "screenSent ?two = screenSent s"
    by (simp_all add: pressed_def handleEmployeeHoldStart_def handleEmployeeHoldEnd_def)
  have "screenSent (handleEmployeeHoldEnd ((hold_tick i newId ^^ n) pressed)) = screenSent s \<and>
      intervals (handleEmployeeHoldEnd ((hold_tick i newId ^^ n) pressed)) = []" if "n \<le> 10"
    using hold_ticks_below [OF p that, of newId] r sent(1) by (simp add: handleEmployeeHoldEnd_def)
  then show ?thesis
    using hold_tick_fires [OF p, of newId] hold_tick_fires [OF two, of newId] sent
    by (simp add: Let_def isApprovedResult_def APPROVED_STATUSES_def simulated_result_def PaymentAuthorizationResult.defs)
qed

theorem hold_button_authorizes_without_payment_witness:
  "screenSent ((hold_tick 1 ''x'' ^^ 11) (handleEmployeeHoldStart [] new_AuthScreen)) =
     [PAYMENT_AUTHORIZED (simulated_result ''x'' nfc_apple_pay (screen_total []) None)]"
  using hold_button_authorizes_without_payment [of new_AuthScreen "''x''" "[]" 0] by (simp add: new_AuthScreen_def)

section \<open>Two totals\<close>

lemma screen_rate_rounds:
  assumes "0 \<le> n" "n < 2 ^ 48"
  shows "Math_round (fmul n SCREEN_TAX_RATE) = percent 8 n"
  unfolding percent_def
proof (rule Math_round_percentage [where d = 12 and b = 48])
  show "nat (n * significand SCREEN_TAX_RATE) < 2 ^ (53 + 48)"
    using nat_mult_less_pow [OF assms, of "significand SCREEN_TAX_RATE" 53] by (simp add: SCREEN_TAX_RATE_def)
qed (use assms in \<open>simp_all add: SCREEN_TAX_RATE_def\<close>)

text \<open>
  The payment screen asks for another amount than the cart engine computes: it adds eight percent
  of the subtotal, exactly rounded, where the engine adds seven percent and five cents per item. The two
  agree only where the eighth percent happens to make up the fee; a cart of one item for a
  thousand cents is asked for 1080 and has the total 1075.
\<close>

theorem screen_total_differs:
  assumes "wf_cart ls"
  shows "screen_total ls = subtotal_of ls + percent 8 (subtotal_of ls) \<and>
    screen_total ls - CartTotals.totalCents (computeCartTotals ls False) =
      percent 8 (subtotal_of ls) - percent 7 (subtotal_of ls) - 5 * item_count ls"
proof -
  have n: "0 \<le> subtotal_of ls" "subtotal_of ls < 2 ^ 48" using wf_cart_nonneg [OF assms] assms by (auto simp: wf_cart_def)
  then show ?thesis
    by (simp add: screen_total_def Let_def screen_rate_rounds computeCartTotals_def tax_rate_rounds
        ENVIRONMENTAL_FEE_PER_ITEM_CENTS_def)
qed

definition thousand_cents :: "CartLineItem list" where
  "thousand_cents = [CartLineItem.make ''l'' ''i'' ''Item'' 1000 1 [] None None 0]"

theorem screen_total_differs_witness:
  "screen_total thousand_cents = 1080 \<and> CartTotals.totalCents (computeCartTotals thousand_cents False) = 1075"
proof -
  have "wf_cart thousand_cents" by code_simp
  moreover have "subtotal_of thousand_cents = 1000" "item_count thousand_cents = 1" by code_simp+
  ultimately show ?thesis using screen_total_differs [of thousand_cents] by (simp add: percent_def)
qed

end
