(* ===== verification/KioskScreens.thy ===== *)
theory KioskScreens
  imports ItemModal PaymentAuth KioskHooks
begin

text \<open>
  The screens of the kiosk put together: the router \<open>apps/kiosk/src/routes/WorkflowRouter.tsx\<close>, the
  attract screen \<open>routes/AttractScreen.tsx\<close>, the cart screens \<open>routes/CartReviewScreen.tsx\<close> and
  \<open>apps/kiosk-cart/src/CartApp.tsx\<close>, the summary bar \<open>components/CartSummary.tsx\<close>, and the buttons of
  \<open>routes/LanguageSelectScreen.tsx\<close>, \<open>ProcessingScreen.tsx\<close>, \<open>ReceiptScreen.tsx\<close> and \<open>AdminScreen.tsx\<close>,
  acting on the cart service and the workflow machine. A screen is replaced at once when the stage changes; the
  quarter of a second in which the old one fades out is not modelled.
\<close>

section \<open>The attract screen\<close>

record Attract =
  reveal :: bool
  tapHandled :: bool
  revealTimerRef :: "nat option"
  revealTimers :: "nat list"
  nextReveal :: nat

definition new_Attract :: Attract where
  "new_Attract = \<lparr>reveal = False, tapHandled = False, revealTimerRef = None, revealTimers = [], nextReveal = 0\<rparr>"

text \<open>The touched point only places the animation.\<close>

definition startReveal :: "Attract \<Rightarrow> Attract" where
  "startReveal a =
     (if tapHandled a then a
      else
        let kept = (case revealTimerRef a of None \<Rightarrow> revealTimers a | Some i \<Rightarrow> filter (\<lambda>j. j \<noteq> i) (revealTimers a))
        in a\<lparr>reveal := True, revealTimers := kept @ [nextReveal a], revealTimerRef := Some (nextReveal a),
             nextReveal := nextReveal a + 1\<rparr>)"

definition handlePointerDown :: "int \<Rightarrow> Attract \<Rightarrow> Attract" where
  "handlePointerDown button a = (if button \<noteq> 0 \<and> button \<noteq> -1 then a else startReveal a)"

definition handleClick :: "Attract \<Rightarrow> Attract" where
  "handleClick a = (if tapHandled a then a else startReveal a)"

definition handleTouchStart :: "nat \<Rightarrow> Attract \<Rightarrow> Attract" where
  "handleTouchStart touches a = (if tapHandled a then a else if touches > 0 then startReveal a else a)"

section \<open>The application\<close>

record Front =
  frontService :: CartService
  frontKiosk :: Kiosk
  frontAttract :: Attract

abbreviation front_lines :: "Front \<Rightarrow> CartLineItem list" where
  "front_lines f \<equiv> lines (csCart (frontService f))"

abbreviation front_stage :: "Front \<Rightarrow> stage" where
  "front_stage f \<equiv> stageOf (frontKiosk f)"

text \<open>The configuration of the build: the kiosk, and the proxy's cart when the machine's module was loaded.\<close>

record build =
  useRemote :: bool
  KIOSK_ID :: string
  bootCart :: string

definition front_env :: "build \<Rightarrow> CartService \<Rightarrow> machine_env" where
  "front_env b s = \<lparr>proxyCartId = CartState.cartId (csCart s), bootCartId = bootCart b\<rparr>"

definition front_send :: "build \<Rightarrow> KioskEvent \<Rightarrow> Front \<Rightarrow> Front" where
  "front_send b e f = f\<lparr>frontKiosk := send (front_env b (frontService f)) e (frontKiosk f)\<rparr>"

definition on_service :: "(CartService \<Rightarrow> CartService) \<Rightarrow> Front \<Rightarrow> Front" where
  "on_service g f = f\<lparr>frontService := g (frontService f)\<rparr>"

definition on_attract :: "(Attract \<Rightarrow> Attract) \<Rightarrow> Front \<Rightarrow> Front" where
  "on_attract g f = f\<lparr>frontAttract := g (frontAttract f)\<rparr>"

text \<open>Assignments to the cart proxy that do not go through the cart service.\<close>

definition on_proxy :: "(CartState \<Rightarrow> CartState) \<Rightarrow> Front \<Rightarrow> Front" where
  "on_proxy g f = on_service (\<lambda>s. s\<lparr>csCart := g (csCart s)\<rparr>) f"

text \<open>The generated identifiers and the time of a new session.\<close>

record session_ids =
  newProxyCart :: string
  newProxySession :: string
  newSession :: string
  startedAt :: ms

definition beginSession :: "build \<Rightarrow> session_ids \<Rightarrow> Front \<Rightarrow> Front" where
  "beginSession b ids f =
     (if tapHandled (frontAttract f) then f
      else
        front_send b (START_SESSION (newSession ids) None)
          (on_proxy (resetCart (newProxyCart ids) (newProxySession ids) (startedAt ids) (startedAt ids) (KIOSK_ID b))
            (on_attract (\<lambda>a. a\<lparr>tapHandled := True\<rparr>) f)))"

definition reveal_timer_fires :: "build \<Rightarrow> nat \<Rightarrow> session_ids \<Rightarrow> Front \<Rightarrow> Front" where
  "reveal_timer_fires b i ids f =
     (if i \<in> set (revealTimers (frontAttract f))
      then beginSession b ids (on_attract (\<lambda>a. a\<lparr>revealTimers := filter (\<lambda>j. j \<noteq> i) (revealTimers a)\<rparr>) f)
      else f)"

definition handleKeyDown :: "build \<Rightarrow> string \<Rightarrow> session_ids \<Rightarrow> Front \<Rightarrow> Front" where
  "handleKeyDown b key ids f =
     (if key = ''Enter'' \<or> key = '' '' then beginSession b ids (on_attract (\<lambda>a. a\<lparr>reveal := True\<rparr>) f) else f)"

section \<open>The cart screens\<close>

text \<open>
  The review's tax rate, \<open>TAX_RATE\<close>, is read from \<open>VITE_TAX_RATE\<close> and is 0.08 when the build does not set it; the payment
  screen always takes 0.08. \<open>parse\<close> is \<open>Number.parseFloat\<close>, \<open>None\<close> its \<open>NaN\<close>.
\<close>

definition review_tax_rate :: "(string \<Rightarrow> dyadic option) \<Rightarrow> string option \<Rightarrow> dyadic option" where
  "review_tax_rate parse VITE_TAX_RATE = parse (case VITE_TAX_RATE of None \<Rightarrow> ''0.08'' | Some t \<Rightarrow> t)"

definition lineTotalCents :: "CartLineItem \<Rightarrow> cents" where
  "lineTotalCents l = quantity l * (unitPriceCentsSnapshot l + foldl (\<lambda>m md. m + priceDeltaCents md) 0 (modifiers l))"

definition review_subtotal :: "CartLineItem list \<Rightarrow> cents" where
  "review_subtotal ls = foldl (\<lambda>sum l. sum + lineTotalCents l) 0 ls"

definition review_total :: "dyadic \<Rightarrow> CartLineItem list \<Rightarrow> cents" where
  "review_total TAX_RATE ls = review_subtotal ls + Math_round (fmul (review_subtotal ls) TAX_RATE)"

definition handleQuantityChange :: "ms \<Rightarrow> string \<Rightarrow> int \<Rightarrow> CartService \<Rightarrow> CartService" where
  "handleQuantityChange now lid delta s =
     (case List.find (\<lambda>l. lineId l = lid) (lines (csCart s)) of
        None \<Rightarrow> s
      | Some line \<Rightarrow>
          let next_q = quantity line + delta in
          if next_q \<le> 0 then cs_removeItem now lid s else cs_updateQuantity now lid next_q s)"

definition handleItemTap :: "build \<Rightarrow> MenuItem list option \<Rightarrow> string \<Rightarrow> Front \<Rightarrow> Front" where
  "handleItemTap b cached mid f =
     (case cached of
        None \<Rightarrow> f
      | Some items \<Rightarrow>
          (case List.find (\<lambda>i. Item.itemId i = mid) items of
             None \<Rightarrow> f
           | Some item \<Rightarrow> front_send b (SELECT_ITEM item) f))"

text \<open>The summary bar on the menu is there while the cart counts an item.\<close>

definition summary_shown :: "CartLineItem list \<Rightarrow> bool" where
  "summary_shown ls \<longleftrightarrow> foldl (\<lambda>sum l. sum + quantity l) 0 ls \<noteq> 0"

section \<open>Events of the screens\<close>

datatype ui_event =
    PickLanguage LocaleCode
  | PointerDown int
  | Click
  | TouchStart nat
  | KeyDown string session_ids
  | RevealTimer nat session_ids
  | CloseAdmin
  | PickItem MenuItem
  | SummaryTap
  | SheetAdd ItemSheet string ms ms
  | SheetClose
  | ReviewQuantity ms string int
  | ReviewItemTap "MenuItem list option" string
  | ReviewBack
  | ReviewPay
  | AppQuantity ms string int
  | AppRemove ms string
  | AppBack
  | AppCheckout
  | PaymentSends KioskEvent
  | ProcessingRetry
  | ProcessingCancel
  | ReceiptAck
  | IdleReturn
  | NetworkChange bool
  | OrderSettles nat "thrown + Order"
  | ServiceEvent cs_event

fun ui_handler :: "build \<Rightarrow> ui_event \<Rightarrow> Front \<Rightarrow> Front" where
  "ui_handler b (PickLanguage l) f = front_send b (SET_LANGUAGE l) f"
| "ui_handler b (PointerDown button) f = on_attract (handlePointerDown button) f"
| "ui_handler b Click f = on_attract handleClick f"
| "ui_handler b (TouchStart n) f = on_attract (handleTouchStart n) f"
| "ui_handler b (KeyDown key ids) f = handleKeyDown b key ids f"
| "ui_handler b (RevealTimer i ids) f = reveal_timer_fires b i ids f"
| "ui_handler b CloseAdmin f = front_send b CLOSE_ADMIN f"
| "ui_handler b (PickItem item) f = front_send b (SELECT_ITEM item) f"
| "ui_handler b SummaryTap f = front_send b GO_TO_CART f"
| "ui_handler b (SheetAdd s newId added now) f =
     (let w = handleAdd (front_env b (frontService f)) newId added now s (frontService f, frontKiosk f)
      in f\<lparr>frontService := fst w, frontKiosk := snd w\<rparr>)"
| "ui_handler b SheetClose f = f\<lparr>frontKiosk := handleClose (front_env b (frontService f)) (frontKiosk f)\<rparr>"
| "ui_handler b (ReviewQuantity now lid delta) f = on_service (handleQuantityChange now lid delta) f"
| "ui_handler b (ReviewItemTap cached mid) f = handleItemTap b cached mid f"
| "ui_handler b ReviewBack f = front_send b BACK_TO_MENU f"
| "ui_handler b ReviewPay f = front_send b PROCEED_TO_PAYMENT f"
| "ui_handler b (AppQuantity now lid q) f = on_proxy (updateLineQuantity now lid q) f"
| "ui_handler b (AppRemove now lid) f = on_proxy (removeLineItem now lid) f"
| "ui_handler b AppBack f = front_send b BACK_TO_MENU f"
| "ui_handler b AppCheckout f = front_send b PROCEED_TO_PAYMENT f"
| "ui_handler b (PaymentSends e) f = front_send b e f"
| "ui_handler b ProcessingRetry f = front_send b RETRY f"
| "ui_handler b ProcessingCancel f = front_send b CANCEL_PAYMENT f"
| "ui_handler b ReceiptAck f = front_send b RECEIPT_ACKNOWLEDGED f"
| "ui_handler b IdleReturn f = front_send b RETURN_TO_ATTRACT f"
| "ui_handler b (NetworkChange up) f = front_send b (if up then NETWORK_ONLINE else NETWORK_OFFLINE) f"
| "ui_handler b (OrderSettles n outcome) f =
     f\<lparr>frontKiosk := settle (front_env b (frontService f)) n outcome (frontKiosk f)\<rparr>"
| "ui_handler b (ServiceEvent e) f = on_service (cs_step e) f"

text \<open>The router's key is the stage: another stage mounts its screen anew.\<close>

definition ui_step :: "build \<Rightarrow> ui_event \<Rightarrow> Front \<Rightarrow> Front" where
  "ui_step b e f =
     (let f' = ui_handler b e f
      in if front_stage f' = front_stage f then f' else f'\<lparr>frontAttract := new_Attract\<rparr>)"

section \<open>What the customer can do\<close>

text \<open>\<open>state.can(event)\<close>.\<close>

definition machine_can :: "Kiosk \<Rightarrow> KioskEvent \<Rightarrow> bool" where
  "machine_can k e =
     (case kioskMachine (stageOf k) e of
        None \<Rightarrow> False
      | Some tr \<Rightarrow> (case guardOf tr of None \<Rightarrow> True | Some g \<Rightarrow> guard_holds g (context_of k) e))"

text \<open>\<open>ProcessingScreen.tsx\<close>: the error view with its two buttons, and the cancel button otherwise.\<close>

definition showsError :: "Kiosk \<Rightarrow> bool" where
  "showsError k \<longleftrightarrow> stageOf k = PROCESSING_ERROR"

definition showCancel :: "Kiosk \<Rightarrow> bool" where
  "showCancel k \<longleftrightarrow> machine_can k CANCEL_PAYMENT"

text \<open>\<open>CartApp.tsx\<close>: an empty cart has no checkout button; each line steps its own quantity by one.\<close>

definition cartApp_filled :: "CartLineItem list \<Rightarrow> bool" where
  "cartApp_filled ls \<longleftrightarrow> ls \<noteq> []"

definition cartApp_steps :: "string \<Rightarrow> int \<Rightarrow> CartLineItem list \<Rightarrow> bool" where
  "cartApp_steps lid q ls \<longleftrightarrow> list_ex (\<lambda>l. lineId l = lid \<and> (q = quantity l - 1 \<or> q = quantity l + 1)) ls"

fun payment_event :: "KioskEvent \<Rightarrow> bool" where
  "payment_event (PAYMENT_AUTHORIZED _) = True"
| "payment_event (PAYMENT_FAILED _) = True"
| "payment_event _ = False"

fun background_event :: "cs_event \<Rightarrow> bool" where
  "background_event (TimerFires _) = True"
| "background_event (SyncSettles _ _ _) = True"
| "background_event Online = True"
| "background_event Offline = True"
| "background_event (Initialized _ _) = True"
| "background_event CheckoutStarts = True"
| "background_event (CheckoutSettles _) = True"
| "background_event _ = False"

text \<open>
  The events that the markup of the shown screen offers, and those that come from outside. A late answer
  or a running interval of the payment screen may send after the screen has gone.
\<close>

definition on_screen :: "build \<Rightarrow> ui_event \<Rightarrow> Front \<Rightarrow> bool" where
  "on_screen b e f =
     (let sc = baseScreen (useRemote b) (front_stage f); k = frontKiosk f; ls = front_lines f in
      case e of
        PickLanguage _ \<Rightarrow> sc = LanguageSelectScreen
      | PointerDown _ \<Rightarrow> sc = AttractScreen
      | Click \<Rightarrow> sc = AttractScreen
      | TouchStart _ \<Rightarrow> sc = AttractScreen
      | KeyDown _ _ \<Rightarrow> sc = AttractScreen
      | RevealTimer _ _ \<Rightarrow> sc = AttractScreen
      | CloseAdmin \<Rightarrow> sc = AdminScreen
      | PickItem _ \<Rightarrow> sc = MenuApp \<or> sc = MenuScreen
      | SummaryTap \<Rightarrow> sc = MenuScreen \<and> summary_shown ls
      | SheetAdd s _ _ _ \<Rightarrow> showsItemModal (stageOf k) \<and> sheetItem s = selectedItem (context_of k)
      | SheetClose \<Rightarrow> showsItemModal (stageOf k)
      | ReviewQuantity _ lid delta \<Rightarrow> sc = CartReviewScreen \<and> (delta = 1 \<or> delta = -1)
      | ReviewItemTap _ _ \<Rightarrow> sc = CartReviewScreen
      | ReviewBack \<Rightarrow> sc = CartReviewScreen
      | ReviewPay \<Rightarrow> sc = CartReviewScreen
      | AppQuantity _ lid q \<Rightarrow> sc = CartApp \<and> cartApp_steps lid q ls
      | AppRemove _ lid \<Rightarrow> sc = CartApp \<and> list_ex (\<lambda>l. lineId l = lid) ls
      | AppBack \<Rightarrow> sc = CartApp
      | AppCheckout \<Rightarrow> sc = CartApp \<and> cartApp_filled ls
      | PaymentSends e' \<Rightarrow> payment_event e'
      | ProcessingRetry \<Rightarrow> sc = ProcessingScreen \<and> showsError k
      | ProcessingCancel \<Rightarrow> sc = ProcessingScreen \<and> (showsError k \<or> showCancel k)
      | ReceiptAck \<Rightarrow> sc = ReceiptScreen
      | IdleReturn \<Rightarrow> stageOf k \<notin> set IMMUNE_STAGES
      | NetworkChange _ \<Rightarrow> True
      | OrderSettles _ _ \<Rightarrow> True
      | ServiceEvent e' \<Rightarrow> background_event e')"

lemmas on_screen_defs = on_screen_def showsItemModal_def cartApp_steps_def cartApp_filled_def showsError_def
  showCancel_def IMMUNE_STAGES_def Let_def

definition initial_front :: "build \<Rightarrow> CartService \<Rightarrow> Front" where
  "initial_front b s = \<lparr>frontService = s, frontKiosk = initial_kiosk (bootCart b), frontAttract = new_Attract\<rparr>"

section \<open>Facts about steps\<close>

lemmas front_defs = front_send_def on_service_def on_attract_def on_proxy_def

lemma front_frames [simp]:
  "frontService (front_send b e f) = frontService f" "frontAttract (front_send b e f) = frontAttract f"
  "frontKiosk (front_send b e f) = send (front_env b (frontService f)) e (frontKiosk f)"
  "frontService (on_service g f) = g (frontService f)" "frontAttract (on_service g f) = frontAttract f"
  "frontKiosk (on_service g f) = frontKiosk f"
  "frontService (on_attract h f) = frontService f" "frontAttract (on_attract h f) = h (frontAttract f)"
  "frontKiosk (on_attract h f) = frontKiosk f"
  "csCart (frontService (on_proxy p f)) = p (csCart (frontService f))" "frontKiosk (on_proxy p f) = frontKiosk f"
  "frontAttract (on_proxy p f) = frontAttract f"
  by (simp_all add: front_defs)

lemma ui_step_frames:
  "frontService (ui_step b e f) = frontService (ui_handler b e f)"
  "frontKiosk (ui_step b e f) = frontKiosk (ui_handler b e f)"
  by (simp_all add: ui_step_def Let_def)

text \<open>The stage after one event, where the markup offers it: nothing but the machine's own moves.\<close>

lemma background_cart:
  assumes "background_event e"
  shows "lines (csCart (cs_step e s)) = lines (csCart s) \<and>
    ((\<forall>st a. e \<noteq> Initialized st a) \<longrightarrow> csCart (cs_step e s) = csCart s)"
  using assms
  by (cases e) (auto simp: cs_defs Let_def split: option.splits timer_kind.splits)

section \<open>What the screens send\<close>

text \<open>
  The events that reach the machine from the screens of a build, at the stage in question. \<open>RETRY\<close>,
  \<open>CANCEL_PAYMENT\<close>, \<open>OPEN_ADMIN\<close>, \<open>CART_UPDATED\<close>, \<open>PAYMENT_DECLINED\<close> and the rest are never sent.
\<close>

definition may_send :: "build \<Rightarrow> stage \<Rightarrow> KioskEvent \<Rightarrow> bool" where
  "may_send b st ev =
     (case ev of
        SET_LANGUAGE _ \<Rightarrow> st = LANGUAGE_SELECT
      | START_SESSION _ lane \<Rightarrow> st = ATTRACT \<or> st = PROCESSING_ERROR
      | SELECT_ITEM _ \<Rightarrow> st = MENU \<or> st = ITEM_DETAIL \<or> st = CART
      | CLOSE_ITEM_DETAIL \<Rightarrow> st = ITEM_DETAIL
      | ADD_TO_CART \<Rightarrow> st = ITEM_DETAIL
      | GO_TO_CART \<Rightarrow> \<not> useRemote b \<and> (st = MENU \<or> st = ITEM_DETAIL)
      | BACK_TO_MENU \<Rightarrow> st = CART
      | PROCEED_TO_PAYMENT \<Rightarrow> st = CART
      | PAYMENT_AUTHORIZED _ \<Rightarrow> True
      | PAYMENT_FAILED _ \<Rightarrow> True
      | RECEIPT_ACKNOWLEDGED \<Rightarrow> st = RECEIPT
      | RETURN_TO_ATTRACT \<Rightarrow> st \<notin> {ATTRACT, PAYMENT, PROCESSING, RECEIPT}
      | CLOSE_ADMIN \<Rightarrow> st = ADMIN
      | NETWORK_OFFLINE \<Rightarrow> True
      | NETWORK_ONLINE \<Rightarrow> True
      | _ \<Rightarrow> False)"

lemma baseScreen_simps [simp]:
  "baseScreen r st = LanguageSelectScreen \<longleftrightarrow> st = LANGUAGE_SELECT"
  "baseScreen r st = AttractScreen \<longleftrightarrow> st = ATTRACT \<or> st = PROCESSING_ERROR"
  "baseScreen r st = AdminScreen \<longleftrightarrow> st = ADMIN"
  "baseScreen r st = MenuApp \<longleftrightarrow> r \<and> (st = MENU \<or> st = ITEM_DETAIL)"
  "baseScreen r st = MenuScreen \<longleftrightarrow> \<not> r \<and> (st = MENU \<or> st = ITEM_DETAIL)"
  "baseScreen r st = CartApp \<longleftrightarrow> r \<and> st = CART"
  "baseScreen r st = CartReviewScreen \<longleftrightarrow> \<not> r \<and> st = CART"
  "baseScreen r st = PaymentAuthScreen \<longleftrightarrow> st = PAYMENT"
  "baseScreen r st = ProcessingScreen \<longleftrightarrow> st = PROCESSING"
  "baseScreen r st = ReceiptScreen \<longleftrightarrow> st = RECEIPT"
  by (cases st; simp add: baseScreen_def)+

lemma cs_addItem_cart [simp]: "csCart (cs_addItem newId added now item s) = addLineItem newId added now item (csCart s)"
  by (simp add: cs_addItem_def markDirty_def set_lines_def addLineItem_def)

lemma front_env_cart: "csCart s = c \<Longrightarrow> CartState.cartId (csCart t) = CartState.cartId c \<Longrightarrow> front_env b t = front_env b s"
  by (simp add: front_env_def)

lemma machine_can_CANCEL: "stageOf k = PROCESSING \<Longrightarrow> \<not> machine_can k CANCEL_PAYMENT"
  by (simp add: machine_can_def config_defs)

text \<open>A step leaves the machine alone, or the running order settles, or one such event is sent.\<close>

lemma ui_sends:
  assumes "on_screen b e f"
  shows "frontKiosk (ui_step b e f) = frontKiosk f \<or>
    (\<exists>n r. e = OrderSettles n r \<and> frontKiosk (ui_step b e f) = settle (front_env b (frontService f)) n r (frontKiosk f)) \<or>
    (\<exists>ev. frontKiosk (ui_step b e f) = send (front_env b (frontService (ui_step b e f))) ev (frontKiosk f) \<and>
       may_send b (front_stage f) ev \<and>
       ((\<forall>key ids. e \<noteq> KeyDown key ids) \<and> (\<forall>i ids. e \<noteq> RevealTimer i ids) \<longrightarrow> (\<forall>sid lane. ev \<noteq> START_SESSION sid lane)))"
proof (cases e)
  case (SheetAdd sh newId added now)
  show ?thesis
  proof (cases "isValid sh")
    case True
    then obtain i where i: "sheetItem sh = Some i" by (auto simp: isValid_def split: option.splits)
    have k: "frontKiosk (ui_step b e f) = send (front_env b (frontService f)) ADD_TO_CART (frontKiosk f)"
      and "frontService (ui_step b e f) = cs_addItem newId added now (sheet_line i sh) (frontService f)"
      using SheetAdd True i by (simp_all add: ui_step_frames handleAdd_def Let_def)
    then have "front_env b (frontService (ui_step b e f)) = front_env b (frontService f)"
      by (simp add: front_env_def addLineItem_def)
    moreover have "may_send b (front_stage f) ADD_TO_CART"
      using assms SheetAdd by (simp add: on_screen_defs may_send_def Let_def)
    ultimately show ?thesis using k by (metis KioskEvent.distinct(1) KioskEvent.simps)
  qed (use SheetAdd in \<open>simp add: ui_step_frames handleAdd_def Let_def split: option.splits\<close>)
next
  case (ReviewItemTap cached mid)
  then show ?thesis
    using assms by (auto simp: ui_step_frames handleItemTap_def on_screen_defs may_send_def split: option.splits)
next
  case (PaymentSends ev)
  then show ?thesis using assms by (cases ev) (auto simp: ui_step_frames on_screen_defs may_send_def)
next
  case ProcessingCancel
  then show ?thesis using assms machine_can_CANCEL by (auto simp: on_screen_defs Let_def)
next
  case (RevealTimer i ids)
  then show ?thesis using assms by (auto simp: ui_step_frames on_screen_defs may_send_def reveal_timer_fires_def beginSession_def)
qed (use assms in \<open>auto simp: ui_step_frames on_screen_defs may_send_def handleKeyDown_def beginSession_def handleClose_def Let_def\<close>)

section \<open>The production build\<close>

definition browsing :: "stage set" where
  "browsing = {LANGUAGE_SELECT, ATTRACT, MENU, ITEM_DETAIL}"

lemma send_stays_browsing:
  assumes "stageOf k \<in> browsing" "ev \<noteq> GO_TO_CART" "ev \<noteq> OPEN_ADMIN"
  shows "stageOf (send env ev k) \<in> browsing"
  using assms by (cases "stageOf k"; cases ev) (simp_all add: browsing_def send_defs config_defs)

lemma settle_send:
  "settle env n r k = k \<or> (\<exists>ev. settle env n r k = send env ev k \<and> ((\<exists>o'. ev = FINALIZE_DONE o') \<or> (\<exists>t. ev = FINALIZE_ERROR t)))"
  by (auto simp: settle_def split: option.splits sum.splits)

lemma remote_step_browsing:
  assumes "useRemote b" "front_stage f \<in> browsing" "on_screen b e f"
  shows "front_stage (ui_step b e f) \<in> browsing"
  using ui_sends [OF assms(3)]
proof (elim disjE exE conjE)
  fix n r assume "frontKiosk (ui_step b e f) = settle (front_env b (frontService f)) n r (frontKiosk f)"
  then show ?thesis
    using settle_send [of "front_env b (frontService f)" n r "frontKiosk f"] assms(2) send_stays_browsing [OF assms(2)]
    by auto
next
  fix ev assume "frontKiosk (ui_step b e f) = send (front_env b (frontService (ui_step b e f))) ev (frontKiosk f)"
    and "may_send b (front_stage f) ev"
  moreover from this(2) assms(1) have "ev \<noteq> GO_TO_CART" "ev \<noteq> OPEN_ADMIN" by (auto simp: may_send_def)
  ultimately show ?thesis using send_stays_browsing [OF assms(2)] by simp
qed (use assms(2) in simp)

interpretation remote_fronts: event_system "ui_step b" "on_screen b" "\<lambda>f. useRemote b \<and> front_stage f \<in> browsing" for b
  by unfold_locales (auto intro: remote_step_browsing)

text \<open>
  C25. In the production build no customer can reach the cart. With the remote screens, whatever the
  customer does on the screens and whatever the network, the timers and the services do, the kiosk
  stays between language choice, attract screen, menu and item sheet: the menu micro-frontend offers no
  way to the cart, and the summary bar that does belongs to the local menu screen only. No payment is asked
  for and no order is created.
\<close>

theorem production_cart_unreachable:
  fixes es :: "ui_event list" and s :: CartService
  assumes "useRemote b" "admissible (on_screen b) (ui_step b) es (initial_front b s)"
  defines "f \<equiv> fold (ui_step b) es (initial_front b s)"
  shows "front_stage f \<in> {LANGUAGE_SELECT, ATTRACT, MENU, ITEM_DETAIL} \<and>
    (\<forall>e. on_screen b e f \<longrightarrow> front_stage (ui_step b e f) \<notin> {CART, PAYMENT, PROCESSING, RECEIPT, ADMIN})"
proof -
  have "front_stage (initial_front b s) \<in> browsing" by (simp add: initial_front_def initial_kiosk_def browsing_def)
  then have f: "front_stage f \<in> browsing"
    using remote_fronts.inv_run [of b "initial_front b s" es] assms by simp
  have "front_stage (ui_step b e f) \<notin> {CART, PAYMENT, PROCESSING, RECEIPT, ADMIN}" if "on_screen b e f" for e
    using remote_step_browsing [OF assms(1) f that] by (auto simp: browsing_def)
  then show ?thesis using f by (simp add: browsing_def)
qed

definition remote_build :: build where
  "remote_build = \<lparr>useRemote = True, KIOSK_ID = ''kiosk-local'', bootCart = ''c0''\<rparr>"

definition first_session :: session_ids where
  "first_session = \<lparr>newProxyCart = ''c1'', newProxySession = ''s1'', newSession = ''m1'', startedAt = 5\<rparr>"

text \<open>
  The customer picks a language and taps; the tap is seen as a pointer, a touch and a click event.
\<close>

definition tap_run :: "ui_event list" where
  "tap_run = [PickLanguage L_en, PointerDown 0, TouchStart 1, Click, RevealTimer 2 first_session]"

lemma tap_run_effect:
  "admissible (on_screen b) (ui_step b) tap_run (initial_front b s) \<and>
   front_stage (fold (ui_step b) tap_run (initial_front b s)) = MENU"
  by (simp add: tap_run_def initial_front_def initial_kiosk_def on_screen_defs ui_step_def Let_def send_defs config_defs
      new_Attract_def handlePointerDown_def handleTouchStart_def handleClick_def startReveal_def reveal_timer_fires_def
      beginSession_def front_defs)

theorem production_cart_unreachable_witness:
  "front_stage (fold (ui_step remote_build) tap_run (initial_front remote_build sample_service)) = MENU \<and>
   \<not> on_screen remote_build SummaryTap (fold (ui_step remote_build) tap_run (initial_front remote_build sample_service)) \<and>
   front_stage (ui_step remote_build IdleReturn (fold (ui_step remote_build) tap_run (initial_front remote_build sample_service))) \<noteq> CART"
proof -
  note run = tap_run_effect [of remote_build sample_service]
  have "useRemote remote_build" by (simp add: remote_build_def)
  note * = production_cart_unreachable [OF this, of tap_run sample_service]
  let ?f = "fold (ui_step remote_build) tap_run (initial_front remote_build sample_service)"
  have "\<not> on_screen remote_build SummaryTap ?f" by (simp add: on_screen_defs Let_def remote_build_def)
  moreover have "on_screen remote_build IdleReturn ?f" using run by (simp add: on_screen_defs Let_def)
  ultimately show ?thesis using * run by blast
qed

section \<open>The cart on the screen is the cart that is ordered\<close>

definition ordering_stages :: "stage set" where
  "ordering_stages = {MENU, ITEM_DETAIL, CART, PAYMENT, PROCESSING, RECEIPT}"

text \<open>The cart service's first request, which renames the proxy's cart, settles before a session begins.\<close>

fun early_init :: "ui_event \<Rightarrow> Front \<Rightarrow> bool" where
  "early_init (ServiceEvent (Initialized _ _)) f \<longleftrightarrow> front_stage f = LANGUAGE_SELECT \<or> front_stage f = ATTRACT"
| "early_init _ f \<longleftrightarrow> True"

definition front_inv :: "Front \<Rightarrow> bool" where
  "front_inv f \<longleftrightarrow>
     kiosk_inv (frontKiosk f) \<and>
     (front_stage f \<in> ordering_stages \<longrightarrow>
        KioskContext.cartId (context_of (frontKiosk f)) = CartState.cartId (csCart (frontService f)) \<and>
        (front_lines f \<noteq> [] \<longrightarrow> cartHasItems (context_of (frontKiosk f))))"

lemma send_keeps_cart:
  assumes "may_send b (stageOf k) ev \<or> (\<exists>o'. ev = FINALIZE_DONE o') \<or> (\<exists>t. ev = FINALIZE_ERROR t)"
    and "stageOf (send env ev k) \<in> ordering_stages" and "\<forall>sid lane. ev \<noteq> START_SESSION sid lane"
  shows "stageOf k \<in> ordering_stages \<and>
    KioskContext.cartId (context_of (send env ev k)) = KioskContext.cartId (context_of k) \<and>
    (cartHasItems (context_of k) \<longrightarrow> cartHasItems (context_of (send env ev k)))"
  using assms
  by (cases "stageOf k"; cases ev) (simp_all add: ordering_stages_def may_send_def send_defs config_defs split: if_splits)

lemma send_START_SESSION:
  "stageOf k = ATTRACT \<Longrightarrow> stageOf (send env (START_SESSION sid lane) k) = MENU \<and>
     KioskContext.cartId (context_of (send env (START_SESSION sid lane) k)) = proxyCartId env"
  "stageOf k = PROCESSING_ERROR \<Longrightarrow> send env (START_SESSION sid lane) k = k"
  by (simp_all add: send_defs config_defs)

lemma remove_shrinks: "lines (removeLineItem now lid c) \<noteq> [] \<Longrightarrow> lines c \<noteq> []"
  by (auto simp: removeLineItem_def splice_at_def split: option.splits)

lemma update_shrinks: "lines (updateLineQuantity now lid q c) \<noteq> [] \<Longrightarrow> lines c \<noteq> []"
  by (auto simp: updateLineQuantity_def removeLineItem_def splice_at_def split: option.splits if_splits)

lemma cart_ids [simp]:
  "CartState.cartId (removeLineItem now lid c) = CartState.cartId c"
  "CartState.cartId (updateLineQuantity now lid q c) = CartState.cartId c"
  by (simp_all add: removeLineItem_def updateLineQuantity_def split: option.splits)

text \<open>The review screen does to the cart what the proxy's own operations do.\<close>

lemma handleQuantityChange_cart:
  "csCart (handleQuantityChange now lid delta s) =
     (case List.find (\<lambda>l. lineId l = lid) (lines (csCart s)) of
        None \<Rightarrow> csCart s
      | Some l \<Rightarrow> updateLineQuantity now lid (quantity l + delta) (csCart s))"
  by (auto simp: handleQuantityChange_def cs_removeItem_def cs_updateQuantity_def updateLineQuantity_def removeLineItem_def
      markDirty_def set_lines_def Let_def simp del: findIndex_None split: option.splits)

lemma other_events_cart:
  assumes "on_screen b e f" "early_init e f"
    and "\<forall>key ids. e \<noteq> KeyDown key ids" "\<forall>i ids. e \<noteq> RevealTimer i ids" "\<forall>sh i a n. e \<noteq> SheetAdd sh i a n"
  shows "(front_stage f \<in> ordering_stages \<longrightarrow>
      CartState.cartId (csCart (frontService (ui_step b e f))) = CartState.cartId (csCart (frontService f))) \<and>
    (front_lines (ui_step b e f) \<noteq> [] \<longrightarrow> front_lines f \<noteq> [])"
proof (cases e)
  case (ServiceEvent ce)
  then have "background_event ce" using assms(1) by (simp add: on_screen_defs Let_def)
  then show ?thesis
    using background_cart [of ce "frontService f"] assms(2) ServiceEvent
    by (cases ce) (auto simp: ui_step_frames ordering_stages_def)
next
  case (ReviewQuantity now lid delta)
  then show ?thesis
    using update_shrinks by (auto simp: ui_step_frames handleQuantityChange_cart split: option.splits)
next
  case (ReviewItemTap cached mid)
  then show ?thesis by (auto simp: ui_step_frames handleItemTap_def split: option.splits)
next
  case (AppQuantity now lid q)
  then show ?thesis using update_shrinks by (auto simp: ui_step_frames)
next
  case (AppRemove now lid)
  then show ?thesis using remove_shrinks by (auto simp: ui_step_frames)
qed (use assms(3-5) in \<open>simp_all add: ui_step_frames\<close>)

lemma beginSession_cart:
  assumes "front_stage f = ATTRACT \<or> front_stage f = PROCESSING_ERROR" "front_stage (beginSession b ids f) \<in> ordering_stages"
  shows "front_lines (beginSession b ids f) = [] \<and>
    KioskContext.cartId (context_of (frontKiosk (beginSession b ids f))) =
      CartState.cartId (csCart (frontService (beginSession b ids f)))"
proof (cases "tapHandled (frontAttract f) \<or> front_stage f = PROCESSING_ERROR")
  case True
  then show ?thesis using assms by (auto simp: beginSession_def send_START_SESSION(2) ordering_stages_def)
next
  case False
  then show ?thesis using assms by (auto simp: beginSession_def send_START_SESSION(1) front_env_def resetCart_def)
qed

lemma machine_step:
  assumes "on_screen b e f" "\<forall>key ids. e \<noteq> KeyDown key ids" "\<forall>i ids. e \<noteq> RevealTimer i ids"
  shows "frontKiosk (ui_step b e f) = frontKiosk f \<or>
    (\<exists>env ev. frontKiosk (ui_step b e f) = send env ev (frontKiosk f) \<and>
       (may_send b (front_stage f) ev \<or> (\<exists>o'. ev = FINALIZE_DONE o') \<or> (\<exists>t. ev = FINALIZE_ERROR t)) \<and>
       (\<forall>sid lane. ev \<noteq> START_SESSION sid lane))"
  using ui_sends [OF assms(1)]
proof (elim disjE exE conjE)
  fix n r assume "frontKiosk (ui_step b e f) = settle (front_env b (frontService f)) n r (frontKiosk f)"
  then show ?thesis using settle_send [of "front_env b (frontService f)" n r "frontKiosk f"] by auto
qed (use assms(2,3) in blast)+

lemma front_inv_step:
  assumes "front_inv f" "on_screen b e f" "early_init e f"
  shows "front_inv (ui_step b e f)"
proof -
  have inv: "kiosk_inv (frontKiosk (ui_step b e f))"
    using ui_sends [OF assms(2)] assms(1) by (auto simp: front_inv_def intro: send_inv settle_inv)
  have "KioskContext.cartId (context_of (frontKiosk (ui_step b e f))) = CartState.cartId (csCart (frontService (ui_step b e f))) \<and>
      (front_lines (ui_step b e f) \<noteq> [] \<longrightarrow> cartHasItems (context_of (frontKiosk (ui_step b e f))))"
    if st: "front_stage (ui_step b e f) \<in> ordering_stages"
  proof -
    consider (key) key ids where "e = KeyDown key ids" | (timer) i ids where "e = RevealTimer i ids"
      | (add) sh i a n where "e = SheetAdd sh i a n"
      | (other) "\<forall>key ids. e \<noteq> KeyDown key ids" "\<forall>i ids. e \<noteq> RevealTimer i ids" "\<forall>sh i a n. e \<noteq> SheetAdd sh i a n"
      by metis
    then show ?thesis
    proof cases
      case key
      then have at: "front_stage f = ATTRACT \<or> front_stage f = PROCESSING_ERROR" using assms(2) by (simp add: on_screen_defs Let_def)
      then show ?thesis
        using st key beginSession_cart [of "on_attract (\<lambda>a. a\<lparr>reveal := True\<rparr>) f" b ids]
        by (auto simp: ui_step_frames handleKeyDown_def ordering_stages_def)
    next
      case timer
      then have at: "front_stage f = ATTRACT \<or> front_stage f = PROCESSING_ERROR" using assms(2) by (simp add: on_screen_defs Let_def)
      then show ?thesis
        using st timer
          beginSession_cart [of "on_attract (\<lambda>a. a\<lparr>revealTimers := filter (\<lambda>j. j \<noteq> i) (revealTimers a)\<rparr>) f" b ids]
        by (auto simp: ui_step_frames reveal_timer_fires_def ordering_stages_def)
    next
      case add
      then have at: "front_stage f = ITEM_DETAIL" using assms(2) by (simp add: on_screen_defs Let_def)
      show ?thesis
      proof (cases "isValid sh")
        case True
        then obtain it where "sheetItem sh = Some it" by (auto simp: isValid_def split: option.splits)
        then show ?thesis
          using add True at assms(1)
          by (simp add: ui_step_frames handleAdd_def Let_def send_defs config_defs front_inv_def ordering_stages_def addLineItem_def)
      next
        case False
        then have "handleAdd env i a n sh w = w" for env w by (simp add: handleAdd_def split: option.splits)
        then show ?thesis using add st assms(1) by (simp add: ui_step_frames Let_def front_inv_def)
      qed
    next
      case other
      note cart = other_events_cart [OF assms(2,3) other]
      consider (same) "frontKiosk (ui_step b e f) = frontKiosk f"
        | (sent) env ev where "frontKiosk (ui_step b e f) = send env ev (frontKiosk f)"
            "may_send b (front_stage f) ev \<or> (\<exists>o'. ev = FINALIZE_DONE o') \<or> (\<exists>t. ev = FINALIZE_ERROR t)"
            "\<forall>sid lane. ev \<noteq> START_SESSION sid lane"
        using machine_step [OF assms(2) other(1,2)] by blast
      then show ?thesis
      proof cases
        case same
        then show ?thesis using cart st assms(1) by (simp add: front_inv_def)
      next
        case sent
        then show ?thesis
          using send_keeps_cart [OF sent(2) _ sent(3), of env] cart st assms(1) by (simp add: front_inv_def)
      qed
    qed
  qed
  with inv show ?thesis by (simp add: front_inv_def)
qed

text \<open>Only where the router shows the attract screen for a failed order can a tap have been handled already.\<close>

definition taps_inv :: "Front \<Rightarrow> bool" where
  "taps_inv f \<longleftrightarrow> (tapHandled (frontAttract f) \<longrightarrow> front_stage f = PROCESSING_ERROR)"

lemma startReveal_tap [simp]: "tapHandled (startReveal a) = tapHandled a"
  by (simp add: startReveal_def Let_def)

lemma taps_inv_step:
  assumes "taps_inv f" "on_screen b e f"
  shows "taps_inv (ui_step b e f)"
proof (cases "front_stage (ui_handler b e f) = front_stage f")
  case same: True
  have begins: "taps_inv (beginSession b ids g)"
    if "front_stage g = ATTRACT \<or> front_stage g = PROCESSING_ERROR" "taps_inv g" "front_stage (beginSession b ids g) = front_stage g" for g ids
    using that by (auto simp: beginSession_def taps_inv_def send_START_SESSION split: if_splits)
  have "taps_inv (ui_handler b e f)"
  proof (cases e)
    case (KeyDown key ids)
    then show ?thesis
      using assms same begins [of "on_attract (\<lambda>a. a\<lparr>reveal := True\<rparr>) f" ids]
      by (auto simp: handleKeyDown_def on_screen_defs taps_inv_def Let_def)
  next
    case (RevealTimer i ids)
    then show ?thesis
      using assms same begins [of "on_attract (\<lambda>a. a\<lparr>revealTimers := filter (\<lambda>j. j \<noteq> i) (revealTimers a)\<rparr>) f" ids]
      by (auto simp: reveal_timer_fires_def on_screen_defs taps_inv_def Let_def)
  next
    case (ReviewItemTap cached mid)
    then show ?thesis using assms same by (auto simp: handleItemTap_def taps_inv_def split: option.splits)
  qed (use assms(1) same in \<open>auto simp: taps_inv_def handlePointerDown_def handleClick_def handleTouchStart_def Let_def\<close>)
  then show ?thesis using same by (simp add: ui_step_def)
next
  case False
  then show ?thesis by (simp add: ui_step_def Let_def taps_inv_def new_Attract_def)
qed

interpretation fronts: event_system "ui_step b" "\<lambda>e f. on_screen b e f \<and> early_init e f" "\<lambda>f. front_inv f \<and> taps_inv f" for b
  by unfold_locales (auto intro: front_inv_step taps_inv_step)

lemma initial_front_inv: "front_inv (initial_front b s) \<and> taps_inv (initial_front b s)"
  by (simp add: front_inv_def initial_front_def taps_inv_def new_Attract_def kiosk_inv_initial)
    (simp add: initial_kiosk_def ordering_stages_def)

lemma review_total_agrees: "review_total SCREEN_TAX_RATE ls = screen_total ls"
proof -
  have "review_subtotal ls = subtotal_of ls"
    by (simp add: review_subtotal_def subtotal_of_def line_cents_def lineTotalCents_def modifiersTotal_def)
  then show ?thesis by (simp add: review_total_def screen_total_def Let_def)
qed

lemma front_run_inv:
  assumes "admissible (\<lambda>e f. on_screen b e f \<and> early_init e f) (ui_step b) es (initial_front b s)"
  shows "front_inv (fold (ui_step b) es (initial_front b s)) \<and> taps_inv (fold (ui_step b) es (initial_front b s))"
  using fronts.inv_run [OF initial_front_inv assms] .

text \<open>The rate that the build leaves at its default is the payment screen's.\<close>

lemma default_tax_rate:
  "parse ''0.08'' = Some SCREEN_TAX_RATE \<Longrightarrow> review_tax_rate parse None = Some r \<Longrightarrow> r = SCREEN_TAX_RATE"
  by (simp add: review_tax_rate_def)

lemma summary_reaches_payment:
  assumes "front_inv f" "front_stage f = MENU" "on_screen b SummaryTap f"
  shows "front_stage (ui_step b SummaryTap f) = CART \<and> on_screen b ReviewPay (ui_step b SummaryTap f) \<and>
    front_stage (ui_step b ReviewPay (ui_step b SummaryTap f)) = PAYMENT"
proof -
  have shown: "\<not> useRemote b" "summary_shown (front_lines f)" using assms(3) by (simp_all add: on_screen_defs Let_def)
  then have "front_lines f \<noteq> []" by (auto simp: summary_shown_def)
  then have "cartHasItems (context_of (frontKiosk f))" using assms(1,2) by (simp add: front_inv_def ordering_stages_def)
  then have at: "front_stage (ui_step b SummaryTap f) = CART \<and> front_stage (ui_step b ReviewPay (ui_step b SummaryTap f)) = PAYMENT"
    using assms(2) by (simp add: ui_step_frames send_defs config_defs)
  with shown(1) show ?thesis by (simp add: on_screen_def)
qed

lemma init_separates_ids:
  assumes "front_inv f" "front_stage f \<in> ordering_stages"
  shows "let f' = ui_step b (ServiceEvent (Initialized st a)) f in
    KioskContext.cartId (context_of (frontKiosk f')) = CartState.cartId (csCart (frontService f')) \<longleftrightarrow>
    CartState.cartId st = CartState.cartId (csCart (frontService f))"
  using assms by (auto simp: Let_def ui_step_frames initializeCart_def front_inv_def)

text \<open>
  C2. The order is for the cart on the screen. In every state that the screens can bring about, when the first request of the
  cart service settles before a session begins, the cart that the machine will order in the stages from menu to receipt, and the
  cart of a running order call, is the cart in the proxy, whose lines the screens show. The condition is needed: should the
  request settle during a session, the two agree afterwards only when it brings the identifier that the proxy has already. A
  session begins with an empty cart under a fresh identifier. Where the summary bar is shown, that is on the menu of the local
  build for a cart with items, it leads to the cart, whose pay button leads to the payment. When the build does not set
  \<open>VITE_TAX_RATE\<close>, the total that the review shows is the one that the payment screen asks for.
\<close>

theorem order_is_for_shown_cart:
  fixes es :: "ui_event list" and s :: CartService
  assumes "admissible (\<lambda>e f. on_screen b e f \<and> early_init e f) (ui_step b) es (initial_front b s)"
    and "parse ''0.08'' = Some SCREEN_TAX_RATE"
  defines "f \<equiv> fold (ui_step b) es (initial_front b s)"
  shows "(front_stage f \<in> {MENU, ITEM_DETAIL, CART, PAYMENT, PROCESSING, RECEIPT} \<longrightarrow>
      KioskContext.cartId (context_of (frontKiosk f)) = CartState.cartId (csCart (frontService f)) \<and>
      (let f' = ui_step b (ServiceEvent (Initialized st a)) f in
       KioskContext.cartId (context_of (frontKiosk f')) = CartState.cartId (csCart (frontService f')) \<longleftrightarrow>
       CartState.cartId st = CartState.cartId (csCart (frontService f)))) \<and>
    (\<forall>n i. actor (frontKiosk f) = Some (n, i) \<longrightarrow> inCartId i = CartState.cartId (csCart (frontService f))) \<and>
    (front_stage f = ATTRACT \<longrightarrow>
      (let f' = ui_step b (KeyDown ''Enter'' ids) f in
       front_stage f' = MENU \<and> front_lines f' = [] \<and> CartState.cartId (csCart (frontService f')) = newProxyCart ids)) \<and>
    (front_stage f = MENU \<and> on_screen b SummaryTap f \<longrightarrow>
      front_stage (ui_step b SummaryTap f) = CART \<and> on_screen b ReviewPay (ui_step b SummaryTap f) \<and>
      front_stage (ui_step b ReviewPay (ui_step b SummaryTap f)) = PAYMENT) \<and>
    (front_stage f = MENU \<longrightarrow> (on_screen b SummaryTap f \<longleftrightarrow> \<not> useRemote b \<and> summary_shown (front_lines f))) \<and>
    (review_tax_rate parse None = Some r \<longrightarrow> review_total r (front_lines f) = screen_total (front_lines f))"
proof -
  have inv: "front_inv f" and taps: "taps_inv f" using front_run_inv [OF assms(1)] by (simp_all add: f_def)
  have ids: "KioskContext.cartId (context_of (frontKiosk f)) = CartState.cartId (csCart (frontService f))"
    if "front_stage f \<in> {MENU, ITEM_DETAIL, CART, PAYMENT, PROCESSING, RECEIPT}"
    using inv that unfolding front_inv_def ordering_stages_def by blast
  have "inCartId i = CartState.cartId (csCart (frontService f))" if "actor (frontKiosk f) = Some (n, i)" for n i
  proof -
    have "actor_inv (frontKiosk f)" using inv by (simp add: front_inv_def kiosk_inv_def)
    then have "front_stage f = PROCESSING" "i = finalize_input (context_of (frontKiosk f))" using that by (simp_all add: actor_inv_def)
    then show ?thesis using ids by (simp add: finalize_input_def)
  qed
  moreover have "front_stage (ui_step b (KeyDown ''Enter'' ids) f) = MENU \<and> front_lines (ui_step b (KeyDown ''Enter'' ids) f) = [] \<and>
      CartState.cartId (csCart (frontService (ui_step b (KeyDown ''Enter'' ids) f))) = newProxyCart ids" if "front_stage f = ATTRACT"
    using taps that
    by (simp add: ui_step_frames handleKeyDown_def beginSession_def taps_inv_def send_START_SESSION(1) resetCart_def)
  moreover have "on_screen b SummaryTap f \<longleftrightarrow> \<not> useRemote b \<and> summary_shown (front_lines f)" if "front_stage f = MENU"
    using that by (simp add: on_screen_def Let_def)
  moreover have "review_total r (front_lines f) = screen_total (front_lines f)" if "review_tax_rate parse None = Some r"
    using default_tax_rate [OF assms(2) that] review_total_agrees by simp
  ultimately show ?thesis
    using ids summary_reaches_payment [OF inv] init_separates_ids [OF inv] unfolding Let_def ordering_stages_def by blast
qed

definition local_build :: build where
  "local_build = \<lparr>useRemote = False, KIOSK_ID = ''kiosk-local'', bootCart = ''c0''\<rparr>"

theorem order_is_for_shown_cart_witness:
  "let f = fold (ui_step local_build) tap_run (initial_front local_build sample_service) in
   front_stage f = MENU \<and> KioskContext.cartId (context_of (frontKiosk f)) = CartState.cartId (csCart (frontService f)) \<and>
   review_total SCREEN_TAX_RATE (front_lines f) = screen_total (front_lines f)"
proof -
  have "early_init e f" if "e \<in> set tap_run" for e f using that by (auto simp: tap_run_def)
  then have "admissible (\<lambda>e f. on_screen local_build e f \<and> early_init e f) (ui_step local_build) tap_run
      (initial_front local_build sample_service)"
    using tap_run_effect [of local_build sample_service] by (simp add: tap_run_def)
  from order_is_for_shown_cart [OF this, where ids = first_session and parse = "\<lambda>_. Some SCREEN_TAX_RATE" and r = SCREEN_TAX_RATE]
  show ?thesis
    using tap_run_effect [of local_build sample_service] by (simp add: Let_def review_tax_rate_def)
qed

text \<open>
  A cart service that is initialized late renames the proxy's cart in the middle of a session; the machine
  keeps the old identifier and orders under it, while the payment screen checks out the new one.
\<close>

lemma late_init_separates_ids:
  assumes "front_stage f = PAYMENT" "front_inv f" "CartState.cartId st \<noteq> CartState.cartId (csCart (frontService f))"
  shows "let f' = ui_step b (ServiceEvent (Initialized st a)) f in
    front_stage f' = PAYMENT \<and> KioskContext.cartId (context_of (frontKiosk f')) \<noteq> CartState.cartId (csCart (frontService f'))"
  using assms by (simp add: ui_step_frames initializeCart_def front_inv_def ordering_stages_def Let_def)

section \<open>The emptied cart\<close>

text \<open>
  A customer who empties the cart on the review screen can still order it. The machine's flag that
  the cart has items is only ever set by adding one, and no screen sends \<open>CART_UPDATED\<close>, so after the last
  line has been removed the pay button leads to the payment screen, which asks for nothing, and an
  authorization of it starts the order of the empty cart.
\<close>

theorem emptied_cart_still_ordered:
  fixes now :: ms
  assumes "kiosk_reachable (frontKiosk f)" "\<not> useRemote b" "front_stage f = CART"
    and "front_lines f = [l]" "quantity l = 1" "isApprovedResult r"
  defines "f1 \<equiv> ui_step b (ReviewQuantity now (lineId l) (-1)) f"
  defines "f2 \<equiv> ui_step b ReviewPay f1"
  shows "on_screen b (ReviewQuantity now (lineId l) (-1)) f \<and> front_lines f1 = [] \<and> front_stage f1 = CART \<and>
    on_screen b ReviewPay f1 \<and> front_stage f2 = PAYMENT \<and> screen_total (front_lines f2) = 0 \<and>
    front_stage (ui_step b (PaymentSends (PAYMENT_AUTHORIZED r)) f2) = PROCESSING \<and>
    front_lines (ui_step b (PaymentSends (PAYMENT_AUTHORIZED r)) f2) = []"
proof -
  have flag: "cartHasItems (context_of (frontKiosk f))"
    using reachable_inv [OF assms(1)] assms(3) by (simp add: kiosk_inv_def context_inv_def checkout_stages_def)
  have lines1: "front_lines f1 = []"
    using assms(4,5) by (simp add: f1_def ui_step_frames handleQuantityChange_cart updateLineQuantity_def removeLineItem_def splice_at_def)
  have k1: "frontKiosk f1 = frontKiosk f" by (simp add: f1_def ui_step_frames)
  then have k2: "front_stage f2 = PAYMENT" and "frontService f2 = frontService f1"
    using flag assms(3) by (simp_all add: f2_def ui_step_frames send_defs config_defs)
  then have lines2: "front_lines f2 = []" using lines1 by simp
  have zero: "screen_total [] = 0"
    by (simp add: screen_total_def subtotal_of_def Let_def screen_rate_rounds percent_def)
  show ?thesis
    using lines1 lines2 k1 k2 zero assms(2,3,6)
    by (simp add: on_screen_defs Let_def ui_step_frames send_defs config_defs isApprovedResult_def)
qed

definition reviewing_kiosk :: Kiosk where
  "reviewing_kiosk = send_all sample_env (butlast to_payment) (initial_kiosk ''cart0'')"

definition reviewing_front :: Front where
  "reviewing_front =
     \<lparr>frontService = cs_addItem ''l1'' 0 0 (sample_cart_line\<lparr>quantity := 1\<rparr>) sample_service, frontKiosk = reviewing_kiosk, frontAttract = new_Attract\<rparr>"

theorem emptied_cart_still_ordered_witness:
  "front_lines reviewing_front \<noteq> [] \<and>
   front_lines (ui_step local_build (ReviewQuantity 0 ''l1'' (-1)) reviewing_front) = [] \<and>
   front_stage (ui_step local_build ReviewPay (ui_step local_build (ReviewQuantity 0 ''l1'' (-1)) reviewing_front)) = PAYMENT"
proof -
  have lines: "front_lines reviewing_front = [sample_cart_line\<lparr>quantity := 1, lineId := ''l1'', addedAtMs := 0\<rparr>]"
    by (simp add: reviewing_front_def addLineItem_def sample_service_def new_CartService_def sample_cart_def initial_cart_def)
  have "kiosk_reachable (frontKiosk reviewing_front)"
    unfolding reviewing_front_def reviewing_kiosk_def to_payment_def by (simp add: reachable_send_all kiosk_reachable.boot)
  moreover have "front_stage reviewing_front = CART"
    by (simp add: reviewing_front_def reviewing_kiosk_def sample_run_defs)
  moreover have "quantity (sample_cart_line\<lparr>quantity := 1, lineId := ''l1'', addedAtMs := 0\<rparr>) = 1" by simp
  moreover have "isApprovedResult (sample_payment PS_captured)" by (simp add: sample_run_defs)
  ultimately show ?thesis
    using emptied_cart_still_ordered [of reviewing_front local_build _ "sample_payment PS_captured" 0] lines
    by (simp add: local_build_def)
qed

section \<open>The failed order\<close>

text \<open>
  A customer whose order failed after the payment was approved has no way to retry or to cancel. For
  the stage \<open>PROCESSING_ERROR\<close> the router shows the attract screen: the buttons that send \<open>RETRY\<close> and
  \<open>CANCEL_PAYMENT\<close> belong to a screen that is not shown then, so every event that can occur leaves the kiosk in
  this stage or, by the idle timer or the overlay, drops the approved authorization with the session. A tap
  on the attract screen empties the cart, and the session it should start is ignored.
\<close>

theorem failed_order_dead_end:
  assumes "kiosk_reachable (frontKiosk f)" "front_stage f = PROCESSING_ERROR"
  shows "approved_payment (context_of (frontKiosk f)) \<and>
    baseScreen (useRemote b) (front_stage f) = AttractScreen \<and>
    \<not> on_screen b ProcessingRetry f \<and> \<not> on_screen b ProcessingCancel f \<and>
    (on_screen b e f \<longrightarrow>
       front_stage (ui_step b e f) = PROCESSING_ERROR \<or>
       front_stage (ui_step b e f) = ATTRACT \<and> no_customer (context_of (frontKiosk (ui_step b e f)))) \<and>
    (\<not> tapHandled (frontAttract f) \<longrightarrow>
       (let f' = ui_step b (KeyDown ''Enter'' ids) f in
        front_stage f' = PROCESSING_ERROR \<and> front_lines f' = [] \<and> tapHandled (frontAttract f')))"
proof -
  have inv: "kiosk_inv (frontKiosk f)" by (rule reachable_inv [OF assms(1)])
  have "front_stage (ui_step b e f) = PROCESSING_ERROR \<or>
      front_stage (ui_step b e f) = ATTRACT \<and> no_customer (context_of (frontKiosk (ui_step b e f)))" if "on_screen b e f"
    using ui_sends [OF that]
  proof (elim disjE exE conjE)
    fix n r assume "frontKiosk (ui_step b e f) = settle (front_env b (frontService f)) n r (frontKiosk f)"
    then show ?thesis using settle_stopped [of "frontKiosk f"] inv assms(2) by (simp add: kiosk_inv_def)
  next
    fix ev assume "frontKiosk (ui_step b e f) = send (front_env b (frontService (ui_step b e f))) ev (frontKiosk f)"
      and "may_send b (front_stage f) ev"
    then show ?thesis
      using assms(2) by (cases ev) (simp_all add: may_send_def send_defs config_defs no_customer_def)
  qed (use assms(2) in simp)
  moreover have "let f' = ui_step b (KeyDown ''Enter'' ids) f in
      front_stage f' = PROCESSING_ERROR \<and> front_lines f' = [] \<and> tapHandled (frontAttract f')" if "\<not> tapHandled (frontAttract f)"
    using that assms(2)
    by (simp add: Let_def ui_step_def handleKeyDown_def beginSession_def send_START_SESSION(2) resetCart_def)
  ultimately show ?thesis
    using inv assms(2) by (simp add: kiosk_inv_def context_inv_def paid_stages_def on_screen_defs Let_def)
qed

theorem failed_order_dead_end_witness:
  "let f = \<lparr>frontService = sample_service, frontKiosk = failed_kiosk, frontAttract = new_Attract\<rparr> in
   front_stage (ui_step local_build (KeyDown ''Enter'' first_session) f) = PROCESSING_ERROR \<and>
   front_stage (ui_step local_build IdleReturn f) \<in> {PROCESSING_ERROR, ATTRACT}"
proof -
  let ?f = "\<lparr>frontService = sample_service, frontKiosk = failed_kiosk, frontAttract = new_Attract\<rparr>"
  have "kiosk_reachable (frontKiosk ?f)" "front_stage ?f = PROCESSING_ERROR"
    by (simp_all add: failed_kiosk_reachable failed_kiosk_stage)
  note * = failed_order_dead_end [OF this, where b = local_build and e = IdleReturn and ids = first_session]
  have "on_screen local_build IdleReturn ?f" by (simp add: on_screen_defs Let_def failed_kiosk_stage)
  then show ?thesis using * by (auto simp: Let_def new_Attract_def)
qed

text \<open>
  The quantity buttons of the cart micro-frontend change the proxy behind the cart service's back: no sync
  is scheduled, so the server's cart keeps the old quantity.
\<close>

lemma cart_app_edit_not_synced:
  "timers (frontService (ui_step b (AppQuantity now lid q) f)) = timers (frontService f) \<and>
   sent (frontService (ui_step b (AppQuantity now lid q) f)) = sent (frontService f)"
  by (simp add: ui_step_frames on_proxy_def)

end
