(* ===== verification/AdminConsole.thy ===== *)
theory AdminConsole
  imports AdminRoles JsValues
begin

text \<open>
  The admin console around its roles: the session of \<open>apps/kiosk-admin/src/components/AuthProvider.tsx\<close>, the guards of
  \<open>RouteGuard.tsx\<close>, the entries of \<open>Nav.tsx\<close>, the routes of \<open>App.tsx\<close>, and the links of the mesh graph that
  \<open>MeshTopologyGraph.tsx\<close> draws.
\<close>

section \<open>Session and guards\<close>

record AuthContext =
  role :: AdminRole
  employeeId :: "string option"

definition AuthProvider :: "AdminRole option \<Rightarrow> AuthContext" where
  "AuthProvider initialRole =
     \<lparr>role = (case initialRole of None \<Rightarrow> readonly | Some r \<Rightarrow> r), employeeId = None\<rparr>"

definition setRole :: "AdminRole \<Rightarrow> AuthContext \<Rightarrow> AuthContext" where
  "setRole r c = c\<lparr>role := r\<rparr>"

definition setEmployeeId :: "string option \<Rightarrow> AuthContext \<Rightarrow> AuthContext" where
  "setEmployeeId i c = c\<lparr>employeeId := i\<rparr>"

text \<open>What a guard renders: its children, its fallback, or a redirection to the dashboard.\<close>

datatype 'a rendered = Rendered 'a | NavigateHome

definition RouteGuard :: "AuthContext \<Rightarrow> string \<Rightarrow> PermissionAction option \<Rightarrow> 'a option \<Rightarrow> 'a \<Rightarrow> 'a rendered" where
  "RouteGuard c res act fallback children =
     (if \<not> canAccess (role c) res (case act of None \<Rightarrow> view | Some a \<Rightarrow> a)
      then (case fallback of Some f \<Rightarrow> Rendered f | None \<Rightarrow> NavigateHome)
      else Rendered children)"

definition RoleGuard :: "AuthContext \<Rightarrow> AdminRole \<Rightarrow> 'a \<Rightarrow> 'a rendered" where
  "RoleGuard c minRole children =
     (if indexOf [readonly, cashier, supervisor, manager, admin] (role c) <
         indexOf [readonly, cashier, supervisor, manager, admin] minRole
      then NavigateHome else Rendered children)"

section \<open>Navigation and routes\<close>

datatype admin_page =
  Dashboard | Locations | Lanes | Kiosks | MenuPage | Inventory | Orders | PaymentsRefunds | EmployeesRoles | AuditLogs

text \<open>An entry has its path, its label and the resource it shows.\<close>

definition NAV_ITEMS :: "(string \<times> string \<times> string) list" where
  "NAV_ITEMS =
     [(''/'', ''Dashboard'', ''dashboard''), (''/locations'', ''Locations'', ''locations''),
      (''/lanes'', ''Lanes'', ''lanes''), (''/kiosks'', ''Kiosks'', ''kiosks''), (''/menu'', ''Menu'', ''menu''),
      (''/inventory'', ''Inventory'', ''inventory''), (''/orders'', ''Orders'', ''orders''),
      (''/payments'', ''Payments / Refunds'', ''payments''), (''/employees'', ''Employees / Roles'', ''employees''),
      (''/audit'', ''Audit Logs'', ''audit'')]"

definition Nav :: "AuthContext \<Rightarrow> string list" where
  "Nav c = map fst (filter (\<lambda>it. canAccess (role c) (snd (snd it)) view) NAV_ITEMS)"

text \<open>The route of a path: the resource its guard asks for, if it has a guard, and the page.\<close>

definition AdminRoutes :: "(string \<times> string option \<times> admin_page) list" where
  "AdminRoutes =
     [(''/'', None, Dashboard), (''/locations'', Some ''locations'', Locations), (''/lanes'', Some ''lanes'', Lanes),
      (''/kiosks'', Some ''kiosks'', Kiosks), (''/menu'', Some ''menu'', MenuPage),
      (''/inventory'', Some ''inventory'', Inventory), (''/orders'', Some ''orders'', Orders),
      (''/payments'', Some ''payments'', PaymentsRefunds), (''/employees'', Some ''employees'', EmployeesRoles),
      (''/audit'', Some ''audit'', AuditLogs)]"

text \<open>The page at a path, after the redirection to the dashboard if there is one.\<close>

definition page_at :: "AuthContext \<Rightarrow> string \<Rightarrow> admin_page" where
  "page_at c path =
     (case map_of AdminRoutes path of
        None \<Rightarrow> Dashboard
      | Some (None, p) \<Rightarrow> p
      | Some (Some res, p) \<Rightarrow> (case RouteGuard c res None None p of Rendered q \<Rightarrow> q | NavigateHome \<Rightarrow> Dashboard))"

text \<open>\<open>App\<close> starts the session with the highest role; nothing in the console signs anybody in.\<close>

definition app_session :: AuthContext where
  "app_session = AuthProvider (Some admin)"

lemma items_distinct: "distinct (map fst NAV_ITEMS)"
  by (simp add: NAV_ITEMS_def)

lemma nav_offered:
  assumes "(path, lab, res) \<in> set NAV_ITEMS"
  shows "path \<in> set (Nav c) \<longleftrightarrow> canAccess (role c) res view"
  using assms items_distinct by (force simp: Nav_def distinct_map inj_on_def)

lemma routes_of_items:
  "list_all (\<lambda>(path, lab, res). path \<noteq> ''/'' \<longrightarrow> (\<exists>p. p \<noteq> Dashboard \<and> map_of AdminRoutes path = Some (Some res, p))) NAV_ITEMS"
  by (simp add: NAV_ITEMS_def AdminRoutes_def)

lemma page_of_item:
  assumes "(path, lab, res) \<in> set NAV_ITEMS" "path \<noteq> ''/''"
  shows "\<exists>p. p \<noteq> Dashboard \<and> map_of AdminRoutes path = Some (Some res, p)"
  using routes_of_items assms by (auto simp: list_all_iff)

lemma no_other_route: "path \<notin> fst ` set NAV_ITEMS \<Longrightarrow> map_of AdminRoutes path = None"
  by (simp add: map_of_eq_None_iff NAV_ITEMS_def AdminRoutes_def)

text \<open>
  The console shows a page exactly to the roles that may view its resource. A path of the
  navigation leads to a page of its own, is offered exactly to the roles that may view its
  resource, and everybody else who enters it lands on the dashboard, as does every unknown path; the
  role guard admits exactly the roles not below the required one. The session that the application
  starts with may view every page.
\<close>

theorem console_pages_by_role:
  "(\<forall>(path, lab, res) \<in> set NAV_ITEMS.
      (path \<in> set (Nav c) \<longleftrightarrow> canAccess (role c) res view) \<and>
      (path \<noteq> ''/'' \<longrightarrow> (page_at c path \<noteq> Dashboard \<longleftrightarrow> canAccess (role c) res view))) \<and>
   (path \<notin> fst ` set NAV_ITEMS \<longrightarrow> page_at c path = Dashboard) \<and>
   distinct (map (page_at app_session) (map fst NAV_ITEMS)) \<and>
   (RoleGuard c minRole x = Rendered x \<longleftrightarrow> minRole \<le> role c)"
proof -
  have nav: "path \<in> set (Nav c) \<longleftrightarrow> canAccess (role c) res view" if "(path, lab, res) \<in> set NAV_ITEMS" for path lab res
    using nav_offered [OF that] .
  have pages: "page_at c path \<noteq> Dashboard \<longleftrightarrow> canAccess (role c) res view"
    if "(path, lab, res) \<in> set NAV_ITEMS" "path \<noteq> ''/''" for path lab res
    using page_of_item [OF that] by (auto simp: page_at_def RouteGuard_def split: if_splits)
  have unknown: "page_at c path = Dashboard" if "path \<notin> fst ` set NAV_ITEMS"
    using that no_other_route [of path] by (simp add: page_at_def)
  have all_pages: "distinct (map (page_at app_session) (map fst NAV_ITEMS))"
    by (simp add: NAV_ITEMS_def page_at_def AdminRoutes_def RouteGuard_def app_session_def AuthProvider_def admin_permissions)
  have guard: "RoleGuard c minRole x = Rendered x \<longleftrightarrow> minRole \<le> role c"
    using indexOf_hierarchy [of "role c"] indexOf_hierarchy [of minRole]
    by (simp add: RoleGuard_def hierarchy_def less_eq_AdminRole_def not_less)
  have "\<forall>(path, lab, res) \<in> set NAV_ITEMS.
      (path \<in> set (Nav c) \<longleftrightarrow> canAccess (role c) res view) \<and>
      (path \<noteq> ''/'' \<longrightarrow> (page_at c path \<noteq> Dashboard \<longleftrightarrow> canAccess (role c) res view))"
    using nav pages by fast
  then show ?thesis using unknown all_pages guard by blast
qed

theorem console_pages_by_role_witness:
  "Nav (AuthProvider None) = [''/'', ''/kiosks'', ''/orders''] \<and> page_at (AuthProvider None) ''/payments'' = Dashboard \<and>
   page_at app_session ''/payments'' = PaymentsRefunds"
proof -
  have "(''/payments'', ''Payments / Refunds'', ''payments'') \<in> set NAV_ITEMS" "\<not> canAccess (role (AuthProvider None)) ''payments'' view"
    by (simp_all add: NAV_ITEMS_def AuthProvider_def readonly_permissions)
  then have "page_at (AuthProvider None) ''/payments'' = Dashboard"
    using console_pages_by_role [of "AuthProvider None" undefined undefined undefined] by fastforce
  moreover have "Nav (AuthProvider None) = [''/'', ''/kiosks'', ''/orders'']"
    by (simp add: Nav_def NAV_ITEMS_def AuthProvider_def readonly_permissions)
  moreover have "page_at app_session ''/payments'' = PaymentsRefunds"
    by (simp add: page_at_def AdminRoutes_def RouteGuard_def app_session_def AuthProvider_def admin_permissions)
  ultimately show ?thesis by simp
qed

section \<open>The mesh graph\<close>

datatype NodeHealth = healthy | degraded | circuit_open | offline

record KioskNode =
  nodeKioskId :: string
  nodeStoreId :: string
  health :: NodeHealth
  isLeader :: bool
  syncLagMs :: ms
  paymentSuccessRate :: rat
  meshPeers :: "string list"

text \<open>\<open>[a, b].sort().join("-")\<close>.\<close>

definition link_key :: "string \<Rightarrow> string \<Rightarrow> string" where
  "link_key a b = (if a \<le> b then a @ ''-'' @ b else b @ ''-'' @ a)"

definition pair_key :: "string \<times> string \<Rightarrow> string" where
  "pair_key pr = link_key (fst pr) (snd pr)"

text \<open>The body of the inner loop, on the keys seen and the links so far.\<close>

definition mesh_link :: "string list \<Rightarrow> string \<times> string \<Rightarrow> string list \<times> (string \<times> string) list \<Rightarrow> string list \<times> (string \<times> string) list" where
  "mesh_link known pr st =
     (if pair_key pr \<in> set (fst st) then st
      else (fst st @ [pair_key pr], if snd pr \<in> set known then snd st @ [pr] else snd st))"

definition reported_pairs :: "KioskNode list \<Rightarrow> (string \<times> string) list" where
  "reported_pairs nodes = concat (map (\<lambda>n. map (Pair (nodeKioskId n)) (meshPeers n)) nodes)"

definition mesh_links :: "KioskNode list \<Rightarrow> (string \<times> string) list" where
  "mesh_links nodes = snd (fold (mesh_link (map nodeKioskId nodes)) (reported_pairs nodes) ([], []))"

definition links_inv :: "string list \<Rightarrow> (string \<times> string) list \<Rightarrow> string list \<times> (string \<times> string) list \<Rightarrow> bool" where
  "links_inv known ps st \<longleftrightarrow>
     set (fst st) = pair_key ` set ps \<and>
     set (snd st) \<subseteq> {pr \<in> set ps. snd pr \<in> set known} \<and>
     distinct (map (pair_key) (snd st)) \<and>
     (\<forall>pr \<in> set ps. \<exists>q \<in> set ps. pair_key q = pair_key pr \<and> (snd q \<in> set known \<longrightarrow> q \<in> set (snd st)))"

lemma links_inv_step:
  assumes "links_inv known ps st"
  shows "links_inv known (ps @ [pr]) (mesh_link known pr st)"
proof -
  have seen: "set (fst st) = pair_key ` set ps" and sub: "set (snd st) \<subseteq> {pr \<in> set ps. snd pr \<in> set known}"
    and dist: "distinct (map pair_key (snd st))"
    and first: "\<forall>p \<in> set ps. \<exists>q \<in> set ps. pair_key q = pair_key p \<and> (snd q \<in> set known \<longrightarrow> q \<in> set (snd st))"
    using assms by (simp_all add: links_inv_def)
  show ?thesis
  proof (cases "pair_key pr \<in> set (fst st)")
    case True
    then obtain p where "p \<in> set ps" "pair_key p = pair_key pr" using seen by auto
    with first obtain q where "q \<in> set ps" "pair_key q = pair_key pr" "snd q \<in> set known \<longrightarrow> q \<in> set (snd st)" by metis
    moreover have "mesh_link known pr st = st" using True by (simp add: mesh_link_def)
    ultimately show ?thesis using seen sub dist first True by (simp add: links_inv_def insert_absorb) blast
  next
    case False
    then have "pair_key pr \<notin> pair_key ` set (snd st)" using seen sub by blast
    moreover have "mesh_link known pr st = (fst st @ [pair_key pr], if snd pr \<in> set known then snd st @ [pr] else snd st)"
      using False by (simp add: mesh_link_def)
    moreover have "\<exists>q \<in> insert pr (set ps). pair_key q = pair_key p \<and> (snd q \<in> set known \<longrightarrow> q \<in> insert pr (set (snd st)))"
      if "p \<in> set ps" for p using first that by blast
    ultimately show ?thesis using seen sub dist first by (simp add: links_inv_def) blast
  qed
qed

lemma links_inv_run: "links_inv known ps (fold (mesh_link known) ps ([], []))"
  by (induction ps rule: rev_induct) (simp_all add: links_inv_step, simp add: links_inv_def)

text \<open>Without a dash in the identifiers, a key determines its two ends.\<close>

lemma dash_split:
  assumes "CHR ''-'' \<notin> set a" "CHR ''-'' \<notin> set c" "a @ ''-'' @ b = c @ ''-'' @ d"
  shows "a = c \<and> b = d"
  using assms
proof (induction a arbitrary: c)
  case Nil
  then show ?case by (cases c) auto
next
  case (Cons x a)
  then show ?case by (cases c) auto
qed

lemma link_key_ends:
  assumes "CHR ''-'' \<notin> set a" "CHR ''-'' \<notin> set b" "CHR ''-'' \<notin> set c" "CHR ''-'' \<notin> set d" "link_key a b = link_key c d"
  shows "(c, d) = (a, b) \<or> (c, d) = (b, a)"
  using assms dash_split [of a c b d] dash_split [of a d b c] dash_split [of b c a d] dash_split [of b d a c]
  by (auto simp: link_key_def split: if_splits)

text \<open>
  The mesh graph has one link for each pair of kiosks that know each other. A link joins two kiosks of the
  snapshot of which the first reports the second, no pair is linked twice, and, when no identifier
  contains a dash, every reported pair of known kiosks is linked in one of the two directions.
\<close>

theorem mesh_links_sound_and_complete:
  fixes nodes :: "KioskNode list"
  defines "ids \<equiv> nodeKioskId ` set nodes"
  assumes "\<forall>n \<in> set nodes. CHR ''-'' \<notin> set (nodeKioskId n) \<and> (\<forall>p \<in> set (meshPeers n). CHR ''-'' \<notin> set p)"
  shows "set (mesh_links nodes) \<subseteq> set (reported_pairs nodes) \<inter> (ids \<times> ids) \<and>
    distinct (map (pair_key) (mesh_links nodes)) \<and>
    (\<forall>(a, b) \<in> set (reported_pairs nodes). b \<in> ids \<longrightarrow> (a, b) \<in> set (mesh_links nodes) \<or> (b, a) \<in> set (mesh_links nodes))"
proof -
  let ?ps = "reported_pairs nodes" and ?known = "map nodeKioskId nodes"
  have inv: "links_inv ?known ?ps (fold (mesh_link ?known) ?ps ([], []))" by (rule links_inv_run)
  have ends: "fst pr \<in> ids \<and> CHR ''-'' \<notin> set (fst pr) \<and> CHR ''-'' \<notin> set (snd pr)" if "pr \<in> set ?ps" for pr
    using that assms(2) by (auto simp: reported_pairs_def ids_def)
  have known: "set ?known = ids" by (simp add: ids_def)
  have sub: "set (mesh_links nodes) \<subseteq> set ?ps \<inter> (ids \<times> ids)"
  proof
    fix pr assume "pr \<in> set (mesh_links nodes)"
    then have "pr \<in> set ?ps" "snd pr \<in> ids" using inv known unfolding links_inv_def mesh_links_def by auto
    then show "pr \<in> set ?ps \<inter> (ids \<times> ids)" using ends [of pr] by (simp add: mem_Times_iff)
  qed
  have "(a, b) \<in> set (mesh_links nodes) \<or> (b, a) \<in> set (mesh_links nodes)" if ab: "(a, b) \<in> set ?ps" "b \<in> ids" for a b
  proof -
    obtain q where q: "q \<in> set ?ps" "pair_key q = pair_key (a, b)" "snd q \<in> ids \<longrightarrow> q \<in> set (mesh_links nodes)"
      using inv ab(1) known unfolding links_inv_def mesh_links_def by force
    have "q = (a, b) \<or> q = (b, a)"
      using link_key_ends [of a b "fst q" "snd q"] ends [OF ab(1)] ends [OF q(1)] q(2) by (auto simp: pair_key_def)
    then show ?thesis using q(3) ends [OF ab(1)] ab(2) by auto
  qed
  with sub inv show ?thesis unfolding links_inv_def mesh_links_def by auto
qed

definition sample_node :: "string \<Rightarrow> string list \<Rightarrow> KioskNode" where
  "sample_node i peers = KioskNode.make i ''store'' healthy False 0 1 peers"

theorem mesh_links_sound_and_complete_witness:
  "(''b'', ''a'') \<notin> set (mesh_links [sample_node ''a'' [''b''], sample_node ''b'' [''a'', ''c'']]) \<and>
   (''a'', ''b'') \<in> set (mesh_links [sample_node ''a'' [''b''], sample_node ''b'' [''a'', ''c'']])"
proof -
  let ?n = "[sample_node ''a'' [''b''], sample_node ''b'' [''a'', ''c'']]"
  have "(''a'', ''b'') \<in> set (mesh_links ?n) \<or> (''b'', ''a'') \<in> set (mesh_links ?n)"
    using mesh_links_sound_and_complete [of ?n] by (simp add: reported_pairs_def sample_node_def KioskNode.defs)
  moreover have "(''b'', ''a'') \<notin> set (mesh_links ?n)" by code_simp
  ultimately show ?thesis by simp
qed

text \<open>With dashes two pairs can share a key, and the second is lost: identifiers in this system contain dashes.\<close>

lemma mesh_link_lost: "mesh_links [sample_node ''a'' [''b-c''], sample_node ''a-b'' [''c''], sample_node ''c'' []] = []"
  by code_simp

end
