(* ===== verification/Controls.thy ===== *)
theory Controls
  imports JsValues
begin

text \<open>
  Controls with timers of their own: the category tabs \<open>apps/kiosk/src/components/CategoryTabs.tsx\<close> and the two
  quantity steppers, \<open>apps/kiosk/src/components/QuantityStepper.tsx\<close> and
  \<open>packages/design-system/src/components/QuantityStepper.tsx\<close>. A callback closes over the value of the
  render in which it was created; the parent is assumed to show the value it was last told.
\<close>

section \<open>Category tabs\<close>

definition TAP_DEBOUNCE_MS :: ms where
  "TAP_DEBOUNCE_MS = 400"

text \<open>The time of the last tap that counted, the highlighted tab, and the calls of \<open>onSelectCategory\<close> with their times.\<close>

record CategoryTabs =
  lastTap :: ms
  pressedId :: "string option"
  selectedTabs :: "(ms \<times> string) list"

definition new_CategoryTabs :: CategoryTabs where
  "new_CategoryTabs = \<lparr>lastTap = 0, pressedId = None, selectedTabs = []\<rparr>"

definition tab_handleSelect :: "ms \<Rightarrow> string \<Rightarrow> CategoryTabs \<Rightarrow> CategoryTabs" where
  "tab_handleSelect now cid s =
     (if now - lastTap s < TAP_DEBOUNCE_MS then s
      else s\<lparr>lastTap := now, pressedId := Some cid, selectedTabs := selectedTabs s @ [(now, cid)]\<rparr>)"

definition tab_unpressed :: "string \<Rightarrow> CategoryTabs \<Rightarrow> CategoryTabs" where
  "tab_unpressed cid s = (if pressedId s = Some cid then s\<lparr>pressedId := None\<rparr> else s)"

definition tab_handlePointerDown :: "ms \<Rightarrow> int \<Rightarrow> string \<Rightarrow> CategoryTabs \<Rightarrow> CategoryTabs" where
  "tab_handlePointerDown now button cid s = (if button \<noteq> 0 \<and> button \<noteq> -1 then s else tab_handleSelect now cid s)"

definition tab_handleClick :: "ms \<Rightarrow> string \<Rightarrow> CategoryTabs \<Rightarrow> CategoryTabs" where
  "tab_handleClick now cid s = tab_handleSelect now cid s"

definition tab_handleKeyDown :: "ms \<Rightarrow> string \<Rightarrow> string \<Rightarrow> CategoryTabs \<Rightarrow> CategoryTabs" where
  "tab_handleKeyDown now key cid s = (if key = ''Enter'' \<or> key = '' '' then tab_handleSelect now cid s else s)"

datatype tab_event =
    TabPointer ms int string
  | TabClick ms string
  | TabKey ms string string
  | TabUnpress string

fun tab_step :: "tab_event \<Rightarrow> CategoryTabs \<Rightarrow> CategoryTabs" where
  "tab_step (TabPointer now button cid) s = tab_handlePointerDown now button cid s"
| "tab_step (TabClick now cid) s = tab_handleClick now cid s"
| "tab_step (TabKey now key cid) s = tab_handleKeyDown now key cid s"
| "tab_step (TabUnpress cid) s = tab_unpressed cid s"

definition tabs_inv :: "CategoryTabs \<Rightarrow> bool" where
  "tabs_inv s \<longleftrightarrow>
     sorted_wrt (\<lambda>x y. fst x + TAP_DEBOUNCE_MS \<le> fst y) (selectedTabs s) \<and>
     (\<forall>x \<in> set (selectedTabs s). fst x \<le> lastTap s)"

lemma tab_handleSelect_inv: "tabs_inv s \<Longrightarrow> tabs_inv (tab_handleSelect now cid s)"
  by (force simp: tabs_inv_def tab_handleSelect_def sorted_wrt_append TAP_DEBOUNCE_MS_def)

interpretation tabs: free_event_system tab_step tabs_inv
proof
  show "tabs_inv s \<Longrightarrow> tabs_inv (tab_step e s)" for s e
  proof (cases e)
    case (TabUnpress cid)
    then show "tabs_inv s \<Longrightarrow> tabs_inv (tab_step e s)" by (simp add: tab_unpressed_def tabs_inv_def)
  qed (simp_all add: tab_handlePointerDown_def tab_handleClick_def tab_handleKeyDown_def tab_handleSelect_inv)
qed

text \<open>
  A tap on a category counts once. Any two selections are at least 400 milliseconds apart, whatever
  events the browser sends; in particular the click that follows a pointer event within this time, on the same or
  another tab, selects nothing more.
\<close>

theorem tab_selections_apart:
  fixes es :: "tab_event list"
  defines "s \<equiv> fold tab_step es new_CategoryTabs"
  assumes "lastTap s + 400 \<le> t" "t \<le> t'" "t' < t + 400"
  shows "sorted_wrt (\<lambda>x y. fst x + 400 \<le> fst y) (selectedTabs s) \<and>
    selectedTabs (tab_handleClick t' cid' (tab_handlePointerDown t 0 cid s)) = selectedTabs s @ [(t, cid)]"
proof -
  have "tabs_inv s" unfolding s_def by (rule tabs.run) (simp add: tabs_inv_def new_CategoryTabs_def)
  then show ?thesis
    using assms(2-4)
    by (simp add: tabs_inv_def TAP_DEBOUNCE_MS_def tab_handleClick_def tab_handlePointerDown_def tab_handleSelect_def)
qed

theorem tab_selections_apart_witness:
  "selectedTabs (tab_handleClick 1300 ''drinks'' (tab_handlePointerDown 1000 0 ''drinks'' new_CategoryTabs)) = [(1000, ''drinks'')]"
  using tab_selections_apart [of "[]" 1000 1300 "''drinks''" "''drinks''"] by (simp add: new_CategoryTabs_def)

section \<open>The kiosk's quantity stepper\<close>

datatype press = decrement | increment

record StepperProps =
  stepMin :: int
  stepMax :: int
  stepDisabled :: bool

text \<open>
  The value of the parent, the refs and states of the component, the pending timers and the running
  intervals, each with the direction and the value its callback closes over.
\<close>

record Stepper =
  stepValue :: int
  lastChangeTime :: ms
  acceleration :: rat
  pressCount :: nat
  pressTimerRef :: "nat option"
  intervalRef :: "nat option"
  pressTimers :: "(nat \<times> press \<times> int) list"
  stepIntervals :: "(nat \<times> press \<times> int) list"
  nextHandle :: nat

definition new_Stepper :: "int \<Rightarrow> Stepper" where
  "new_Stepper v = \<lparr>stepValue = v, lastChangeTime = 0, acceleration = 1, pressCount = 0, pressTimerRef = None,
     intervalRef = None, pressTimers = [], stepIntervals = [], nextHandle = 1\<rparr>"

text \<open>\<open>handleDecrement\<close> and \<open>handleIncrement\<close> of a render with value \<open>v\<close>.\<close>

definition step_change :: "StepperProps \<Rightarrow> press \<Rightarrow> int \<Rightarrow> Stepper \<Rightarrow> Stepper" where
  "step_change p d v s =
     (case d of
        decrement \<Rightarrow> if v > stepMin p then s\<lparr>stepValue := v - 1\<rparr> else s
      | increment \<Rightarrow> if v < stepMax p then s\<lparr>stepValue := v + 1\<rparr> else s)"

definition handlePress :: "StepperProps \<Rightarrow> ms \<Rightarrow> press \<Rightarrow> int \<Rightarrow> Stepper \<Rightarrow> Stepper" where
  "handlePress p now d v s =
     (if stepDisabled p then s
      else
        let acc = (if now - lastChangeTime s < 500 then min (acceleration s * (3/2)) 4 else 1)
        in step_change p d v (s\<lparr>acceleration := acc, lastChangeTime := now\<rparr>))"

definition handleMouseDown :: "StepperProps \<Rightarrow> ms \<Rightarrow> press \<Rightarrow> Stepper \<Rightarrow> Stepper" where
  "handleMouseDown p now d s =
     (let v = stepValue s; s1 = handlePress p now d v s in
      s1\<lparr>pressTimerRef := Some (nextHandle s1), pressTimers := pressTimers s1 @ [(nextHandle s1, d, v)],
         nextHandle := nextHandle s1 + 1\<rparr>)"

definition press_timer_fires :: "nat \<Rightarrow> Stepper \<Rightarrow> Stepper" where
  "press_timer_fires i s =
     (case map_of (pressTimers s) i of
        None \<Rightarrow> s
      | Some (d, v) \<Rightarrow>
          s\<lparr>pressTimers := filter (\<lambda>t. fst t \<noteq> i) (pressTimers s), pressCount := 1,
            intervalRef := Some (nextHandle s), stepIntervals := stepIntervals s @ [(nextHandle s, d, v)],
            nextHandle := nextHandle s + 1\<rparr>)"

definition interval_ticks :: "StepperProps \<Rightarrow> ms \<Rightarrow> nat \<Rightarrow> Stepper \<Rightarrow> Stepper" where
  "interval_ticks p now i s =
     (case map_of (stepIntervals s) i of
        None \<Rightarrow> s
      | Some (d, v) \<Rightarrow> let s1 = handlePress p now d v s in s1\<lparr>pressCount := pressCount s1 + 1\<rparr>)"

definition handleMouseUp :: "Stepper \<Rightarrow> Stepper" where
  "handleMouseUp s =
     (let s1 = (case pressTimerRef s of
                  None \<Rightarrow> s
                | Some i \<Rightarrow> s\<lparr>pressTimers := filter (\<lambda>t. fst t \<noteq> i) (pressTimers s), pressTimerRef := None\<rparr>);
          s2 = (case intervalRef s1 of
                  None \<Rightarrow> s1
                | Some i \<Rightarrow> s1\<lparr>stepIntervals := filter (\<lambda>t. fst t \<noteq> i) (stepIntervals s1), intervalRef := None\<rparr>)
      in s2\<lparr>pressCount := 0, acceleration := 1\<rparr>)"

definition stepper_key :: "StepperProps \<Rightarrow> string \<Rightarrow> Stepper \<Rightarrow> Stepper" where
  "stepper_key p key s =
     (if stepDisabled p then s
      else if key = ''ArrowDown'' \<or> key = ''a'' then step_change p decrement (stepValue s) s
      else if key = ''ArrowUp'' \<or> key = ''d'' then step_change p increment (stepValue s) s
      else s)"

datatype step_event =
    MouseDown ms press
  | PressTimer nat
  | IntervalTick ms nat
  | MouseUp
  | StepKey string

fun stepper_step :: "StepperProps \<Rightarrow> step_event \<Rightarrow> Stepper \<Rightarrow> Stepper" where
  "stepper_step p (MouseDown now d) s = handleMouseDown p now d s"
| "stepper_step p (PressTimer i) s = press_timer_fires i s"
| "stepper_step p (IntervalTick now i) s = interval_ticks p now i s"
| "stepper_step p MouseUp s = handleMouseUp s"
| "stepper_step p (StepKey key) s = stepper_key p key s"

text \<open>
  The value and every value a callback closes over are in range, and every handle was given out by the browser.
\<close>

definition in_range :: "StepperProps \<Rightarrow> int \<Rightarrow> bool" where
  "in_range p v \<longleftrightarrow> stepMin p \<le> v \<and> v \<le> stepMax p"

definition stepper_inv :: "StepperProps \<Rightarrow> Stepper \<Rightarrow> bool" where
  "stepper_inv p s \<longleftrightarrow>
     in_range p (stepValue s) \<and>
     (\<forall>t \<in> set (pressTimers s @ stepIntervals s). fst t < nextHandle s \<and> in_range p (snd (snd t)))"

lemma step_change_value:
  "stepValue (step_change p d v s) =
     (case d of decrement \<Rightarrow> if v > stepMin p then v - 1 else stepValue s
              | increment \<Rightarrow> if v < stepMax p then v + 1 else stepValue s)"
  by (simp add: step_change_def split: press.split)

lemma step_change_frame [simp]:
  "pressTimers (step_change p d v s) = pressTimers s" "stepIntervals (step_change p d v s) = stepIntervals s"
  "nextHandle (step_change p d v s) = nextHandle s"
  by (simp_all add: step_change_def split: press.split)

lemma handlePress_frame [simp]:
  "pressTimers (handlePress p now d v s) = pressTimers s" "stepIntervals (handlePress p now d v s) = stepIntervals s"
  "nextHandle (handlePress p now d v s) = nextHandle s"
  by (simp_all add: handlePress_def Let_def)

lemma handlePress_value:
  "stepValue (handlePress p now d v s) = (if stepDisabled p then stepValue s else stepValue (step_change p d v s))"
  by (simp add: handlePress_def step_change_value Let_def split: press.split)

lemma step_change_in_range:
  "in_range p v \<Longrightarrow> in_range p (stepValue s) \<Longrightarrow> in_range p (stepValue (step_change p d v s))"
  by (auto simp: step_change_value in_range_def split: press.split)

lemma handlePress_in_range:
  "in_range p v \<Longrightarrow> in_range p (stepValue s) \<Longrightarrow> in_range p (stepValue (handlePress p now d v s))"
  by (simp add: handlePress_value step_change_in_range)

lemma handleMouseDown_inv: "stepper_inv p s \<Longrightarrow> stepper_inv p (handleMouseDown p now d s)"
  by (auto simp: stepper_inv_def handleMouseDown_def Let_def intro: handlePress_in_range less_SucI)

lemma captured_in_range:
  "stepper_inv p s \<Longrightarrow> map_of (pressTimers s) i = Some (d, v) \<or> map_of (stepIntervals s) i = Some (d, v) \<Longrightarrow> in_range p v"
  by (force simp: stepper_inv_def dest: map_of_SomeD)

lemma press_timer_fires_inv:
  assumes "stepper_inv p s"
  shows "stepper_inv p (press_timer_fires i s)"
proof (cases "map_of (pressTimers s) i")
  case None
  then show ?thesis using assms by (simp add: press_timer_fires_def)
next
  case (Some e)
  then show ?thesis
    using assms captured_in_range [OF assms, of i "fst e" "snd e"]
    by (cases e) (force simp: stepper_inv_def press_timer_fires_def)
qed

lemma interval_ticks_inv:
  assumes "stepper_inv p s"
  shows "stepper_inv p (interval_ticks p now i s)"
proof (cases "map_of (stepIntervals s) i")
  case None
  then show ?thesis using assms by (simp add: interval_ticks_def)
next
  case (Some e)
  then show ?thesis
    using assms captured_in_range [OF assms, of i "fst e" "snd e"]
    by (cases e) (simp add: stepper_inv_def interval_ticks_def Let_def handlePress_in_range)
qed

lemma handleMouseUp_inv: "stepper_inv p s \<Longrightarrow> stepper_inv p (handleMouseUp s)"
  by (fastforce simp: stepper_inv_def handleMouseUp_def Let_def split: option.split)

lemma stepper_key_inv: "stepper_inv p s \<Longrightarrow> stepper_inv p (stepper_key p key s)"
  by (simp add: stepper_inv_def stepper_key_def step_change_in_range)

lemmas stepper_invs =
  handleMouseDown_inv press_timer_fires_inv interval_ticks_inv handleMouseUp_inv stepper_key_inv

interpretation steppers: free_event_system "stepper_step p" "stepper_inv p" for p
proof
  show "stepper_inv p s \<Longrightarrow> stepper_inv p (stepper_step p e s)" for s e
    by (cases e) (simp_all add: stepper_invs)
qed

text \<open>
  The quantity shown never leaves its range, whatever presses, timers, intervals and keys the browser
  reports and in whatever order.
\<close>

theorem stepper_in_range:
  assumes "stepMin p \<le> v" "v \<le> stepMax p"
  shows "stepMin p \<le> stepValue (fold (stepper_step p) es (new_Stepper v)) \<and>
    stepValue (fold (stepper_step p) es (new_Stepper v)) \<le> stepMax p"
proof -
  have "stepper_inv p (new_Stepper v)" using assms by (simp add: stepper_inv_def new_Stepper_def in_range_def)
  then have "stepper_inv p (fold (stepper_step p) es (new_Stepper v))" by (rule steppers.run)
  then show ?thesis by (simp add: stepper_inv_def in_range_def)
qed

definition one_to_nine :: StepperProps where
  "one_to_nine = \<lparr>stepMin = 1, stepMax = 9, stepDisabled = False\<rparr>"

theorem stepper_in_range_witness:
  "stepValue (fold (stepper_step one_to_nine) [MouseDown 0 increment, PressTimer 1, IntervalTick 600 2] (new_Stepper 9)) \<le> 9"
  using stepper_in_range [of one_to_nine 9 "[MouseDown 0 increment, PressTimer 1, IntervalTick 600 2]"]
  by (simp add: one_to_nine_def)

text \<open>
  Holding a button down moves the value once. The interval repeats the press of the render in which
  the button went down, so every tick reports the same value again: after any number of ticks the quantity is
  where the first press put it, although the comment of the file promises that a long press accelerates.
\<close>

lemma interval_repeats_same_value:
  assumes "map_of (stepIntervals s) i = Some (d, v)" and "stepValue s = stepValue (handlePress p t d v s')"
    and "stepValue s' = v"
  shows "stepValue (fold (\<lambda>now. interval_ticks p now i) ts s) = stepValue (handlePress p t d v s')"
  using assms(1,2)
proof (induction ts arbitrary: s)
  case (Cons now ts)
  have "stepValue (interval_ticks p now i s) = stepValue (handlePress p t d v s')"
    using Cons.prems assms(3)
    by (simp add: interval_ticks_def Let_def handlePress_value step_change_value split: press.split)
  then show ?case using Cons by (simp add: interval_ticks_def Let_def)
qed simp

lemma map_of_fresh_append:
  fixes n :: nat
  assumes "\<forall>t \<in> set xs. fst t < n"
  shows "map_of (xs @ [(n, y)]) n = Some y"
  using assms by (induction xs) auto

theorem held_stepper_moves_once:
  fixes es :: "step_event list" and p :: StepperProps and v :: int
  defines "s \<equiv> fold (stepper_step p) es (new_Stepper v)"
  assumes "stepMin p \<le> v" "v \<le> stepMax p"
  shows "stepValue (fold (\<lambda>now. interval_ticks p now (nextHandle s + 1)) ts
      (press_timer_fires (nextHandle s) (handleMouseDown p t d s))) = stepValue (handleMouseDown p t d s)"
proof -
  have inv: "stepper_inv p s"
    unfolding s_def by (rule steppers.run) (use assms(2,3) in \<open>simp add: stepper_inv_def new_Stepper_def in_range_def\<close>)
  define u where "u = handleMouseDown p t d s"
  have timer: "map_of (pressTimers u) (nextHandle s) = Some (d, stepValue s)"
    using inv map_of_fresh_append [of "pressTimers s" "nextHandle s" "(d, stepValue s)"]
    by (auto simp: u_def handleMouseDown_def Let_def stepper_inv_def)
  have fired: "map_of (stepIntervals (press_timer_fires (nextHandle s) u)) (nextHandle s + 1) = Some (d, stepValue s)"
  proof -
    have "stepIntervals u = stepIntervals s" "nextHandle u = nextHandle s + 1"
      by (simp_all add: u_def handleMouseDown_def Let_def)
    moreover have "\<forall>t \<in> set (stepIntervals s). fst t < nextHandle s + 1" using inv by (auto simp: stepper_inv_def less_SucI)
    ultimately show ?thesis
      using timer map_of_fresh_append [of "stepIntervals s" "nextHandle s + 1" "(d, stepValue s)"]
      by (simp add: press_timer_fires_def)
  qed
  have "stepValue (press_timer_fires (nextHandle s) u) = stepValue (handlePress p t d (stepValue s) s)"
    using timer by (simp add: press_timer_fires_def u_def handleMouseDown_def Let_def)
  from interval_repeats_same_value [OF fired this refl]
  show ?thesis by (simp add: u_def handleMouseDown_def Let_def)
qed

theorem held_stepper_moves_once_witness:
  "stepValue (fold (\<lambda>now. interval_ticks one_to_nine now 2) [600, 700, 800, 900]
      (press_timer_fires 1 (handleMouseDown one_to_nine 0 increment (new_Stepper 3)))) = 4"
  using held_stepper_moves_once [where es = "[]" and v = 3 and p = one_to_nine and ts = "[600, 700, 800, 900]" and t = 0
      and d = increment]
  by (simp add: one_to_nine_def new_Stepper_def handleMouseDown_def handlePress_def step_change_def eval_nat_numeral)

section \<open>The design system's quantity stepper\<close>

text \<open>
  \<open>DsStepper\<close> has the parent's value, the pressed marks, the two refs and the live timers with the value
  their callback closes over. The properties are the same range as above; the button is never disabled as a whole.
\<close>

record DsStepper =
  dsValue :: int
  decrementing :: bool
  incrementing :: bool
  dsIntervalRef :: "nat option"
  dsTimeoutRef :: "nat option"
  dsTimeouts :: "(nat \<times> press \<times> int) list"
  dsIntervals :: "(nat \<times> press \<times> int) list"
  dsNextHandle :: nat

definition new_DsStepper :: "int \<Rightarrow> DsStepper" where
  "new_DsStepper v = \<lparr>dsValue = v, decrementing = False, incrementing = False, dsIntervalRef = None,
     dsTimeoutRef = None, dsTimeouts = [], dsIntervals = [], dsNextHandle = 1\<rparr>"

definition clear_handle :: "nat option \<Rightarrow> (nat \<times> 'a) list \<Rightarrow> (nat \<times> 'a) list" where
  "clear_handle r ts = (case r of None \<Rightarrow> ts | Some i \<Rightarrow> filter (\<lambda>t. fst t \<noteq> i) ts)"

definition ds_clearTimers :: "DsStepper \<Rightarrow> DsStepper" where
  "ds_clearTimers s = s\<lparr>dsIntervals := clear_handle (dsIntervalRef s) (dsIntervals s), dsIntervalRef := None,
     dsTimeouts := clear_handle (dsTimeoutRef s) (dsTimeouts s), dsTimeoutRef := None\<rparr>"

text \<open>\<open>decrement\<close> and \<open>increment\<close> of a render with value \<open>v\<close>.\<close>

definition ds_press :: "StepperProps \<Rightarrow> press \<Rightarrow> int \<Rightarrow> DsStepper \<Rightarrow> DsStepper" where
  "ds_press p d v s =
     (case d of
        decrement \<Rightarrow> if v > stepMin p then s\<lparr>dsValue := v - 1\<rparr> else s
      | increment \<Rightarrow> if v < stepMax p then s\<lparr>dsValue := v + 1\<rparr> else s)"

definition startRepeating :: "StepperProps \<Rightarrow> press \<Rightarrow> DsStepper \<Rightarrow> DsStepper" where
  "startRepeating p d s =
     (let v = dsValue s; s1 = ds_press p d v (ds_clearTimers s) in
      s1\<lparr>dsTimeoutRef := Some (dsNextHandle s1), dsTimeouts := dsTimeouts s1 @ [(dsNextHandle s1, d, v)],
         dsNextHandle := dsNextHandle s1 + 1\<rparr>)"

definition ds_timeout_fires :: "nat \<Rightarrow> DsStepper \<Rightarrow> DsStepper" where
  "ds_timeout_fires i s =
     (case map_of (dsTimeouts s) i of
        None \<Rightarrow> s
      | Some (d, v) \<Rightarrow>
          s\<lparr>dsTimeouts := filter (\<lambda>t. fst t \<noteq> i) (dsTimeouts s), dsIntervalRef := Some (dsNextHandle s),
            dsIntervals := dsIntervals s @ [(dsNextHandle s, d, v)], dsNextHandle := dsNextHandle s + 1\<rparr>)"

definition ds_interval_ticks :: "StepperProps \<Rightarrow> nat \<Rightarrow> DsStepper \<Rightarrow> DsStepper" where
  "ds_interval_ticks p i s = (case map_of (dsIntervals s) i of None \<Rightarrow> s | Some (d, v) \<Rightarrow> ds_press p d v s)"

definition ds_handlePointerDown :: "StepperProps \<Rightarrow> press \<Rightarrow> DsStepper \<Rightarrow> DsStepper" where
  "ds_handlePointerDown p d s =
     startRepeating p d
       (case d of decrement \<Rightarrow> s\<lparr>decrementing := True\<rparr> | increment \<Rightarrow> s\<lparr>incrementing := True\<rparr>)"

definition ds_handlePointerUp :: "DsStepper \<Rightarrow> DsStepper" where
  "ds_handlePointerUp s = (ds_clearTimers s)\<lparr>decrementing := False, incrementing := False\<rparr>"

text \<open>A click calls the function of the current render; a disabled button (\<open>atMin\<close>, \<open>atMax\<close>) gets neither event.\<close>

definition ds_enabled :: "StepperProps \<Rightarrow> press \<Rightarrow> DsStepper \<Rightarrow> bool" where
  "ds_enabled p d s \<longleftrightarrow> (case d of decrement \<Rightarrow> \<not> dsValue s \<le> stepMin p | increment \<Rightarrow> \<not> dsValue s \<ge> stepMax p)"

definition ds_click :: "StepperProps \<Rightarrow> press \<Rightarrow> DsStepper \<Rightarrow> DsStepper" where
  "ds_click p d s = (if ds_enabled p d s then ds_press p d (dsValue s) s else s)"

datatype ds_event =
    DsPointerDown press
  | DsTimeout nat
  | DsTick nat
  | DsPointerUp
  | DsClick press

fun ds_step :: "StepperProps \<Rightarrow> ds_event \<Rightarrow> DsStepper \<Rightarrow> DsStepper" where
  "ds_step p (DsPointerDown d) s = (if ds_enabled p d s then ds_handlePointerDown p d s else s)"
| "ds_step p (DsTimeout i) s = ds_timeout_fires i s"
| "ds_step p (DsTick i) s = ds_interval_ticks p i s"
| "ds_step p DsPointerUp s = ds_handlePointerUp s"
| "ds_step p (DsClick d) s = ds_click p d s"

text \<open>Every live timer is the one its ref names, and a pending timeout excludes a running interval.\<close>

definition ds_inv :: "StepperProps \<Rightarrow> DsStepper \<Rightarrow> bool" where
  "ds_inv p s \<longleftrightarrow>
     in_range p (dsValue s) \<and>
     (\<forall>t \<in> set (dsTimeouts s). dsTimeoutRef s = Some (fst t) \<and> in_range p (snd (snd t))) \<and>
     (\<forall>t \<in> set (dsIntervals s). dsIntervalRef s = Some (fst t) \<and> in_range p (snd (snd t))) \<and>
     (dsTimeouts s \<noteq> [] \<longrightarrow> dsIntervals s = [])"

lemma clear_handle_referenced: "\<forall>t \<in> set ts. r = Some (fst t) \<Longrightarrow> clear_handle r ts = []"
  by (cases ts) (auto simp: clear_handle_def filter_empty_conv split: option.split)

lemma ds_clearTimers_clears:
  assumes "ds_inv p s"
  shows "dsTimeouts (ds_clearTimers s) = []" "dsIntervals (ds_clearTimers s) = []"
  using assms by (simp_all add: ds_inv_def ds_clearTimers_def clear_handle_referenced)

lemma ds_clearTimers_frame [simp]: "dsValue (ds_clearTimers s) = dsValue s" "dsNextHandle (ds_clearTimers s) = dsNextHandle s"
  by (simp_all add: ds_clearTimers_def)

lemma ds_press_frame [simp]:
  "dsTimeouts (ds_press p d v s) = dsTimeouts s" "dsIntervals (ds_press p d v s) = dsIntervals s"
  "dsTimeoutRef (ds_press p d v s) = dsTimeoutRef s" "dsIntervalRef (ds_press p d v s) = dsIntervalRef s"
  "dsNextHandle (ds_press p d v s) = dsNextHandle s"
  by (simp_all add: ds_press_def split: press.split)

lemma ds_press_in_range:
  "in_range p v \<Longrightarrow> in_range p (dsValue s) \<Longrightarrow> in_range p (dsValue (ds_press p d v s))"
  by (auto simp: ds_press_def in_range_def split: press.split)

lemma startRepeating_inv: "ds_inv p s \<Longrightarrow> ds_inv p (startRepeating p d s)"
  by (frule ds_clearTimers_clears(1), frule ds_clearTimers_clears(2))
    (simp add: ds_inv_def startRepeating_def Let_def ds_press_in_range)

lemma ds_handlePointerDown_inv: "ds_inv p s \<Longrightarrow> ds_inv p (ds_handlePointerDown p d s)"
  unfolding ds_handlePointerDown_def by (rule startRepeating_inv) (simp add: ds_inv_def split: press.split)

lemma ds_timeout_fires_inv:
  assumes "ds_inv p s"
  shows "ds_inv p (ds_timeout_fires i s)"
proof (cases "map_of (dsTimeouts s) i")
  case None
  then show ?thesis using assms by (simp add: ds_timeout_fires_def)
next
  case (Some e)
  obtain d v where e: "e = (d, v)" by (cases e)
  from Some e have "(i, d, v) \<in> set (dsTimeouts s)" by (simp add: map_of_SomeD)
  moreover from this have "dsTimeoutRef s = Some i" using assms by (force simp: ds_inv_def)
  then have "\<forall>t \<in> set (dsTimeouts s). fst t = i" using assms by (simp add: ds_inv_def)
  ultimately show ?thesis
    using assms Some e by (auto simp: ds_inv_def ds_timeout_fires_def filter_empty_conv)
qed

lemma ds_interval_ticks_inv:
  assumes "ds_inv p s"
  shows "ds_inv p (ds_interval_ticks p i s)"
proof (cases "map_of (dsIntervals s) i")
  case None
  then show ?thesis using assms by (simp add: ds_interval_ticks_def)
next
  case (Some e)
  then have "in_range p (snd e)" using assms map_of_SomeD [OF Some] by (fastforce simp: ds_inv_def)
  then show ?thesis using assms Some by (cases e) (simp add: ds_inv_def ds_interval_ticks_def ds_press_in_range)
qed

lemma ds_handlePointerUp_inv: "ds_inv p s \<Longrightarrow> ds_inv p (ds_handlePointerUp s)"
  by (frule ds_clearTimers_clears(1), frule ds_clearTimers_clears(2)) (simp add: ds_inv_def ds_handlePointerUp_def)

lemma ds_click_inv: "ds_inv p s \<Longrightarrow> ds_inv p (ds_click p d s)"
  by (simp add: ds_inv_def ds_click_def ds_press_in_range)

interpretation ds_steppers: free_event_system "ds_step p" "ds_inv p" for p
proof
  show "ds_inv p s \<Longrightarrow> ds_inv p (ds_step p e s)" for s e
    by (cases e)
      (simp_all add: ds_handlePointerDown_inv ds_timeout_fires_inv ds_interval_ticks_inv ds_handlePointerUp_inv ds_click_inv)
qed

text \<open>
  The design system's stepper keeps the quantity in its range, and once the pointer is up no timer of it
  is alive: a late timeout or tick changes nothing.
\<close>

theorem ds_stepper_settles:
  fixes es :: "ds_event list" and p :: StepperProps and v :: int
  defines "s \<equiv> fold (ds_step p) es (new_DsStepper v)"
  assumes "stepMin p \<le> v" "v \<le> stepMax p"
  shows "stepMin p \<le> dsValue s \<and> dsValue s \<le> stepMax p \<and>
    ds_timeout_fires i (ds_handlePointerUp s) = ds_handlePointerUp s \<and>
    ds_interval_ticks p i (ds_handlePointerUp s) = ds_handlePointerUp s"
proof -
  have inv: "ds_inv p s"
    unfolding s_def by (rule ds_steppers.run) (use assms(2,3) in \<open>simp add: ds_inv_def new_DsStepper_def in_range_def\<close>)
  then show ?thesis
    using ds_clearTimers_clears [OF inv]
    by (simp add: ds_inv_def in_range_def ds_timeout_fires_def ds_interval_ticks_def ds_handlePointerUp_def)
qed

theorem ds_stepper_settles_witness:
  "ds_interval_ticks one_to_nine 2
     (ds_handlePointerUp (fold (ds_step one_to_nine) [DsPointerDown increment, DsTimeout 1, DsTick 2] (new_DsStepper 3))) =
   ds_handlePointerUp (fold (ds_step one_to_nine) [DsPointerDown increment, DsTimeout 1, DsTick 2] (new_DsStepper 3))"
  using ds_stepper_settles [where p = one_to_nine and v = 3 and es = "[DsPointerDown increment, DsTimeout 1, DsTick 2]"
      and i = 2]
  by (simp add: one_to_nine_def)

text \<open>
  One tap of it counts twice: the pointer going down changes the quantity and the click that ends
  the tap changes it again, from the value already changed.
\<close>

theorem ds_tap_counts_twice:
  assumes "dsValue s + 2 \<le> stepMax p"
  shows "dsValue (fold (ds_step p) [DsPointerDown increment, DsPointerUp, DsClick increment] s) = dsValue s + 2"
  using assms
  by (simp add: ds_enabled_def ds_handlePointerDown_def startRepeating_def Let_def ds_press_def ds_handlePointerUp_def
      ds_click_def)

theorem ds_tap_counts_twice_witness:
  "dsValue (fold (ds_step one_to_nine) [DsPointerDown increment, DsPointerUp, DsClick increment] (new_DsStepper 1)) = 3"
  using ds_tap_counts_twice [of "new_DsStepper 1" one_to_nine] by (simp add: one_to_nine_def new_DsStepper_def)

end
