(* ===== verification/Shell.thy ===== *)
theory Shell
  imports KioskHooks
begin

text \<open>
  The shell around the screens (\<open>apps/kiosk/src/App.tsx\<close>) with its idle warning and offline mark, the offline banner
  (\<open>components/OfflineBanner.tsx\<close>), the receipt screen (\<open>routes/ReceiptScreen.tsx\<close>) and the languages
  (\<open>i18n/index.ts\<close>, \<open>routes/LanguageSelectScreen.tsx\<close>).
\<close>

section \<open>The idle warning\<close>

definition IDLE_WARNING_BEFORE_MS :: ms where
  "IDLE_WARNING_BEFORE_MS = 15000"

text \<open>
  \<open>idle\<close> is the state of \<open>useIdleReclaim\<close> with the machine. \<open>warnSinceMs\<close> is the \<open>lastInteractionMs\<close> of the running
  effect, if the stage has one; \<open>offlineTimer\<close> says that the five-minute timer is pending.
\<close>

record Shell =
  idle :: IdleReclaim
  warnSinceMs :: "ms option"
  showIdleWarning :: bool
  offlineLong :: bool
  offlineTimer :: bool

abbreviation shell_stage :: "Shell \<Rightarrow> stage" where
  "shell_stage s \<equiv> stageOf (kiosk (idle s))"

definition warning_effect :: "ms \<Rightarrow> Shell \<Rightarrow> Shell" where
  "warning_effect now s =
     (if shell_stage s \<in> {ATTRACT, PAYMENT, PROCESSING, RECEIPT} then s\<lparr>warnSinceMs := None, showIdleWarning := False\<rparr>
      else s\<lparr>warnSinceMs := Some now\<rparr>)"

text \<open>The effect runs when the component appears and whenever \<open>state.value\<close> has changed.\<close>

definition with_idle :: "ms \<Rightarrow> IdleReclaim \<Rightarrow> Shell \<Rightarrow> Shell" where
  "with_idle now h s =
     (if stageOf (kiosk h) = shell_stage s then s\<lparr>idle := h\<rparr> else warning_effect now (s\<lparr>idle := h\<rparr>))"

definition mount_Shell :: "ms \<Rightarrow> bool \<Rightarrow> Kiosk \<Rightarrow> Shell" where
  "mount_Shell now is_online k =
     warning_effect now
       \<lparr>idle = \<lparr>lastInteractionAtMs = now, kiosk = k\<rparr>, warnSinceMs = None, showIdleWarning = False, offlineLong = False,
        offlineTimer = \<not> is_online\<rparr>"

text \<open>A touch or a key: the listener of \<open>useIdleReclaim\<close>, and \<open>record\<close> of the running effect.\<close>

definition shell_record :: "ms \<Rightarrow> Shell \<Rightarrow> Shell" where
  "shell_record now s =
     (let s1 = s\<lparr>idle := recordInteraction now (idle s)\<rparr> in
      if warnSinceMs s1 = None then s1 else s1\<lparr>warnSinceMs := Some now, showIdleWarning := False\<rparr>)"

definition warning_interval :: "ms \<Rightarrow> Shell \<Rightarrow> Shell" where
  "warning_interval now s =
     (case warnSinceMs s of
        None \<Rightarrow> s
      | Some lastInteractionMs \<Rightarrow>
          s\<lparr>showIdleWarning := now - lastInteractionMs \<ge> IDLE_TIMEOUT_MS - IDLE_WARNING_BEFORE_MS\<rparr>)"

definition reclaim_interval :: "machine_env \<Rightarrow> ms \<Rightarrow> Shell \<Rightarrow> Shell" where
  "reclaim_interval env now s = with_idle now (idle_tick env now (idle s)) s"

definition handleIdleContinue :: "Shell \<Rightarrow> Shell" where
  "handleIdleContinue s = s\<lparr>showIdleWarning := False\<rparr>"

definition handleIdleReset :: "machine_env \<Rightarrow> ms \<Rightarrow> Shell \<Rightarrow> Shell" where
  "handleIdleReset env now s =
     with_idle now ((idle s)\<lparr>kiosk := send env RETURN_TO_ATTRACT (kiosk (idle s))\<rparr>) (s\<lparr>showIdleWarning := False\<rparr>)"

text \<open>The machine moves for a reason of its own: an event of a screen, or its order actor.\<close>

definition machine_moves :: "ms \<Rightarrow> Kiosk \<Rightarrow> Shell \<Rightarrow> Shell" where
  "machine_moves now k s = with_idle now ((idle s)\<lparr>kiosk := k\<rparr>) s"

text \<open>The offline mark: \<open>network.online\<close> changes, or the timer of five minutes fires.\<close>

definition online_effect :: "bool \<Rightarrow> Shell \<Rightarrow> Shell" where
  "online_effect is_online s =
     (if is_online then s\<lparr>offlineLong := False, offlineTimer := False\<rparr> else s\<lparr>offlineTimer := True\<rparr>)"

definition offline_timer_fires :: "Shell \<Rightarrow> Shell" where
  "offline_timer_fires s = (if offlineTimer s then s\<lparr>offlineLong := True, offlineTimer := False\<rparr> else s)"

datatype shell_event =
    ShellTouched ms
  | WarningInterval ms
  | ReclaimInterval ms
  | IdleContinue
  | IdleReset ms
  | MachineMoves ms Kiosk
  | OnlineChanges bool
  | OfflineTimer

fun shell_step :: "machine_env \<Rightarrow> shell_event \<Rightarrow> Shell \<Rightarrow> Shell" where
  "shell_step env (ShellTouched now) s = shell_record now s"
| "shell_step env (WarningInterval now) s = warning_interval now s"
| "shell_step env (ReclaimInterval now) s = reclaim_interval env now s"
| "shell_step env IdleContinue s = handleIdleContinue s"
| "shell_step env (IdleReset now) s = handleIdleReset env now s"
| "shell_step env (MachineMoves now k) s = machine_moves now k s"
| "shell_step env (OnlineChanges is_online) s = online_effect is_online s"
| "shell_step env OfflineTimer s = offline_timer_fires s"

text \<open>The effect runs exactly in the stages that are not immune, and only there a warning is shown.\<close>

definition shell_inv :: "Shell \<Rightarrow> bool" where
  "shell_inv s \<longleftrightarrow>
     (warnSinceMs s = None \<longleftrightarrow> shell_stage s \<in> {ATTRACT, PAYMENT, PROCESSING, RECEIPT}) \<and>
     \<not> (showIdleWarning s \<and> warnSinceMs s = None)"

lemma warning_effect_inv: "shell_inv (warning_effect now s)"
  by (simp add: shell_inv_def warning_effect_def)

lemma with_idle_inv: "shell_inv s \<Longrightarrow> shell_inv (with_idle now h s)"
  by (auto simp: with_idle_def warning_effect_inv shell_inv_def [of "_\<lparr>idle := _\<rparr>"]) (auto simp: shell_inv_def)

interpretation shells: free_event_system "shell_step env" shell_inv for env
proof
  show "shell_inv s \<Longrightarrow> shell_inv (shell_step env e s)" for s e
  proof (cases e)
    case (IdleReset now)
    have "shell_inv s \<Longrightarrow> shell_inv (s\<lparr>showIdleWarning := False\<rparr>)" by (simp add: shell_inv_def)
    then show "shell_inv s \<Longrightarrow> shell_inv (shell_step env e s)"
      by (simp add: IdleReset handleIdleReset_def with_idle_inv)
  qed (auto simp: reclaim_interval_def machine_moves_def with_idle_inv, auto simp: shell_inv_def shell_record_def Let_def
      recordInteraction_def warning_interval_def handleIdleContinue_def online_effect_def offline_timer_fires_def
      split: option.split)
qed

text \<open>Until the time of the reclaim the two intervals leave the machine and the start of the idle time alone.\<close>

lemma ticks_before_timeout:
  assumes "lastInteractionAtMs (idle s) = t" "list_all (\<lambda>u. u \<le> t + 90000) us"
  shows "idle (fold (\<lambda>u. reclaim_interval env u \<circ> warning_interval u) us s) = idle s \<and>
    warnSinceMs (fold (\<lambda>u. reclaim_interval env u \<circ> warning_interval u) us s) = warnSinceMs s"
  using assms
proof (induction us arbitrary: s)
  case (Cons u us)
  let ?s = "reclaim_interval env u (warning_interval u s)"
  have "idle (warning_interval u s) = idle s" "warnSinceMs (warning_interval u s) = warnSinceMs s"
    by (simp_all add: warning_interval_def split: option.split)
  moreover have "idle_tick env u (idle s) = idle s"
    using Cons.prems by (simp add: idle_tick_def IDLE_TIMEOUT_MS_def)
  ultimately have "idle ?s = idle s" "warnSinceMs ?s = warnSinceMs s"
    by (simp_all add: reclaim_interval_def with_idle_def)
  with Cons.IH [of ?s] Cons.prems show ?case by simp
qed simp

text \<open>A touch at time \<open>t\<close>, and after it perhaps a move of the machine to another stage that nobody's touch brought about.\<close>

definition touched_then_moved :: "ms \<Rightarrow> (ms \<times> Kiosk) option \<Rightarrow> Shell \<Rightarrow> Shell" where
  "touched_then_moved t move s =
     (case move of None \<Rightarrow> shell_record t s | Some (u, k) \<Rightarrow> machine_moves u k (shell_record t s))"

lemma shell_record_inv: "shell_inv s \<Longrightarrow> shell_inv (shell_record t s)"
  using shells.preserved [of _ _ "ShellTouched t"] by simp

lemma touched_then_moved_clocks:
  assumes "shell_inv s" "shell_stage (touched_then_moved t move s) \<in> {MENU, ITEM_DETAIL, CART, PROCESSING_ERROR, ADMIN}"
    and "\<forall>u k. move = Some (u, k) \<longrightarrow> stageOf k \<noteq> shell_stage s"
  shows "lastInteractionAtMs (idle (touched_then_moved t move s)) = t"
    and "warnSinceMs (touched_then_moved t move s) = Some (case move of None \<Rightarrow> t | Some (u, _) \<Rightarrow> u)"
    and "shell_inv (touched_then_moved t move s)"
proof -
  have recorded: "idle (shell_record t s) = recordInteraction t (idle s)" by (simp add: shell_record_def Let_def)
  have same: "shell_stage (shell_record t s) = shell_stage s" by (simp add: recorded recordInteraction_def)
  show "lastInteractionAtMs (idle (touched_then_moved t move s)) = t"
    by (auto simp: touched_then_moved_def machine_moves_def with_idle_def warning_effect_def recorded recordInteraction_def
        split: option.split)
  show "shell_inv (touched_then_moved t move s)"
    using shell_record_inv [OF assms(1)] shells.preserved [of "shell_record t s" _ "MachineMoves _ _"]
    by (simp add: touched_then_moved_def split: option.split)
  show "warnSinceMs (touched_then_moved t move s) = Some (case move of None \<Rightarrow> t | Some (u, _) \<Rightarrow> u)"
  proof (cases move)
    case None
    then show ?thesis
      using shell_record_inv [OF assms(1), of t] assms(2)
      by (auto simp: touched_then_moved_def shell_inv_def shell_record_def Let_def split: if_splits)
  next
    case (Some p)
    obtain u k where p: "p = (u, k)" by force
    with Some assms(3) have "stageOf k \<noteq> shell_stage (shell_record t s)" by (simp add: same)
    with assms(2) Some p show ?thesis
      by (auto simp: touched_then_moved_def machine_moves_def with_idle_def warning_effect_def split: if_splits)
  qed
qed

text \<open>
  C20. When a session is reclaimed and whether it is announced. In a shopping stage, after a touch at time \<open>t\<close> and perhaps a
  move of the machine at \<open>w\<close> that no touch brought about (an order that failed), the session stays while the intervals run up
  to \<open>t + 90 s\<close>, and the first tick of the reclaim after that ends it and takes the warning away. The ticks of the warning
  show it exactly from \<open>w + 75 s\<close> on, where \<open>w\<close> is \<open>t\<close> without such a move: so the session is announced by \<open>t + 90 s\<close> exactly
  when \<open>w\<close> is at most \<open>t + 15 s\<close>, always when nothing moved but the customer, and a customer whose order fails more than
  fifteen seconds after the last touch can lose the session unannounced. In no state that any events lead to is the warning
  shown on the attract screen or during payment, processing and receipt. The language screen is the exception of
  \<open>end_session_button_dead\<close>.
\<close>

theorem idle_reclaim_announced:
  fixes es es' :: "shell_event list" and env :: machine_env and k :: Kiosk and t now :: ms and is_online :: bool
    and us :: "ms list" and move :: "(ms \<times> Kiosk) option"
  defines "s0 \<equiv> fold (shell_step env) es (mount_Shell now is_online k)"
  defines "s \<equiv> touched_then_moved t move s0"
  defines "s' \<equiv> fold (\<lambda>u. reclaim_interval env u \<circ> warning_interval u) us s"
  defines "w \<equiv> (case move of None \<Rightarrow> t | Some (u, _) \<Rightarrow> u)"
  assumes stage: "shell_stage s \<in> {MENU, ITEM_DETAIL, CART, PROCESSING_ERROR, ADMIN}"
    and move: "\<forall>u k'. move = Some (u, k') \<longrightarrow> stageOf k' \<noteq> shell_stage s0"
    and us: "list_all (\<lambda>u. u \<le> t + 90000) us" and v: "v > t + 90000"
  shows "idle s' = idle s \<and> (showIdleWarning (warning_interval u s') \<longleftrightarrow> w + 75000 \<le> u) \<and>
    ((\<exists>u \<le> t + 90000. showIdleWarning (warning_interval u s')) \<longleftrightarrow> w \<le> t + 15000) \<and>
    shell_stage (reclaim_interval env v s') = ATTRACT \<and> \<not> showIdleWarning (reclaim_interval env v s') \<and>
    \<not> (showIdleWarning (fold (shell_step env) es' s') \<and>
       shell_stage (fold (shell_step env) es' s') \<in> {ATTRACT, PAYMENT, PROCESSING, RECEIPT})"
proof -
  have inv: "shell_inv (fold (shell_step env) es0 s1)" if "shell_inv s1" for es0 s1
    using that by (rule shells.run)
  have "shell_inv s0" unfolding s0_def by (rule inv) (simp add: mount_Shell_def warning_effect_inv)
  note clocks = touched_then_moved_clocks [OF this stage [unfolded s_def] move, folded s_def w_def]
  from ticks_before_timeout [OF clocks(1) us, of env]
  have same: "idle s' = idle s" "warnSinceMs s' = warnSinceMs s" by (simp_all add: s'_def)
  with clocks(2) have shown: "showIdleWarning (warning_interval u s') \<longleftrightarrow> w + 75000 \<le> u" for u
    by (auto simp: warning_interval_def IDLE_TIMEOUT_MS_def IDLE_WARNING_BEFORE_MS_def)
  then have announced: "(\<exists>u \<le> t + 90000. showIdleWarning (warning_interval u s')) \<longleftrightarrow> w \<le> t + 15000"
    by (auto intro: exI [of _ "t + 90000"])
  have "stageOf (kiosk (idle_tick env v (idle s))) = ATTRACT"
    using stage v clocks(1)
    by (auto simp: idle_tick_def IMMUNE_STAGES_def IDLE_TIMEOUT_MS_def send_RETURN_TO_ATTRACT enter_def)
  then have reclaimed: "shell_stage (reclaim_interval env v s') = ATTRACT" "\<not> showIdleWarning (reclaim_interval env v s')"
    using stage same by (auto simp: reclaim_interval_def with_idle_def warning_effect_def)
  have "fold (\<lambda>u. reclaim_interval env u \<circ> warning_interval u) us s1 =
      fold (shell_step env) (concat (map (\<lambda>u. [WarningInterval u, ReclaimInterval u]) us)) s1" for s1
    by (induction us arbitrary: s1) simp_all
  then have "shell_inv s'" unfolding s'_def using inv [OF clocks(3)] by simp
  from inv [OF this, of es'] show ?thesis using same(1) shown announced reclaimed by (auto simp: shell_inv_def)
qed

text \<open>A touch at one second, the order fails at thirty: at 91 seconds the session is gone, the warning would come at 105.\<close>

theorem idle_reclaim_announced_witness:
  "let s = touched_then_moved 1000 (Some (30000, failed_kiosk)) (mount_Shell 0 True processing_kiosk)
   in \<not> showIdleWarning (warning_interval 91000 s) \<and> shell_stage (reclaim_interval sample_env 91001 s) = ATTRACT \<and>
      showIdleWarning (warning_interval 105000 s)"
proof -
  have "shell_stage (touched_then_moved 1000 (Some (30000, failed_kiosk)) (mount_Shell 0 True processing_kiosk)) = PROCESSING_ERROR"
    by (simp add: touched_then_moved_def machine_moves_def with_idle_def warning_effect_def failed_kiosk_stage)
  note announced = idle_reclaim_announced [where es = "[]" and us = "[]" and t = 1000 and v = 91001 and now = 0
      and k = processing_kiosk and is_online = True and env = sample_env and es' = "[]" and move = "Some (30000, failed_kiosk)"]
  show ?thesis
    using announced [of 91000] announced [of 105000] \<open>shell_stage _ = PROCESSING_ERROR\<close>
    by (simp add: Let_def mount_Shell_def warning_effect_def processing_kiosk_stage failed_kiosk_stage)
qed

text \<open>
  A tap on \<open>End session\<close>: the pointer going down reaches the listeners of the window first; the button is there for
  the click that follows only if the warning is still shown.
\<close>

definition tap_end_session :: "machine_env \<Rightarrow> ms \<Rightarrow> Shell \<Rightarrow> Shell" where
  "tap_end_session env now s =
     (let s1 = shell_record now s in if showIdleWarning s1 then handleIdleReset env now s1 else s1)"

text \<open>
  The button cannot be used: in every state that events lead to, touching it takes the warning away before the
  click, so the session goes on. On the language screen the warning comes although there is nothing to reclaim: the
  machine ignores \<open>RETURN_TO_ATTRACT\<close> there, and the warning is back at every tick until somebody touches the screen.
\<close>

theorem end_session_button_dead:
  fixes es :: "shell_event list" and env :: machine_env and k :: Kiosk and now :: ms and is_online :: bool
  defines "s \<equiv> fold (shell_step env) es (mount_Shell now is_online k)"
  shows "kiosk (idle (tap_end_session env t s)) = kiosk (idle s)"
    and "shell_stage s = LANGUAGE_SELECT \<Longrightarrow> shell_stage (reclaim_interval env t s) = LANGUAGE_SELECT"
    and "shell_stage s = LANGUAGE_SELECT \<Longrightarrow> shell_stage (handleIdleReset env t s) = LANGUAGE_SELECT"
proof -
  have "shell_inv s"
    unfolding s_def by (rule shells.run) (simp add: mount_Shell_def warning_effect_inv)
  then have "\<not> showIdleWarning (shell_record t s)"
    by (auto simp: shell_inv_def shell_record_def Let_def recordInteraction_def)
  then show "kiosk (idle (tap_end_session env t s)) = kiosk (idle s)"
    by (simp add: tap_end_session_def Let_def) (simp add: shell_record_def Let_def recordInteraction_def)
  have "send env RETURN_TO_ATTRACT q = q" if "stageOf q = LANGUAGE_SELECT" for q
    using that by (simp add: send_defs config_defs)
  then show "shell_stage s = LANGUAGE_SELECT \<Longrightarrow> shell_stage (reclaim_interval env t s) = LANGUAGE_SELECT"
    "shell_stage s = LANGUAGE_SELECT \<Longrightarrow> shell_stage (handleIdleReset env t s) = LANGUAGE_SELECT"
    by (simp_all add: reclaim_interval_def handleIdleReset_def with_idle_def warning_effect_def idle_tick_def)
qed

section \<open>The offline banner\<close>

definition AUTO_DISMISS_MS :: ms where
  "AUTO_DISMISS_MS = 3000"

text \<open>The state \<open>dismissed\<close>, the value of \<open>isOffline\<close> the effect has seen, and the time at which its timer fires.\<close>

record OfflineBanner =
  dismissed :: bool
  seenOffline :: bool
  dismissAt :: "ms option"

definition isOffline :: "KioskContext \<Rightarrow> bool" where
  "isOffline c \<longleftrightarrow> isOfflineMode c \<or> apiStatus c = Api_offline"

definition banner_effect :: "ms \<Rightarrow> bool \<Rightarrow> OfflineBanner \<Rightarrow> OfflineBanner" where
  "banner_effect now is_offline b =
     (if \<not> is_offline then b\<lparr>dismissed := False, seenOffline := False, dismissAt := None\<rparr>
      else b\<lparr>seenOffline := True, dismissAt := Some (now + AUTO_DISMISS_MS)\<rparr>)"

definition mount_OfflineBanner :: "ms \<Rightarrow> bool \<Rightarrow> OfflineBanner" where
  "mount_OfflineBanner now is_offline =
     banner_effect now is_offline \<lparr>dismissed = False, seenOffline = is_offline, dismissAt = None\<rparr>"

definition render_banner :: "ms \<Rightarrow> KioskContext \<Rightarrow> OfflineBanner \<Rightarrow> OfflineBanner" where
  "render_banner now c b = (if isOffline c = seenOffline b then b else banner_effect now (isOffline c) b)"

definition dismiss_timer :: "ms \<Rightarrow> OfflineBanner \<Rightarrow> OfflineBanner" where
  "dismiss_timer now b =
     (case dismissAt b of
        Some t \<Rightarrow> if t \<le> now then b\<lparr>dismissed := True, dismissAt := None\<rparr> else b
      | None \<Rightarrow> b)"

definition banner_visible :: "OfflineBanner \<Rightarrow> bool" where
  "banner_visible b \<longleftrightarrow> seenOffline b \<and> \<not> dismissed b"

datatype banner_event = BannerRender ms KioskContext | BannerTimer ms | BannerDismiss

fun banner_step :: "banner_event \<Rightarrow> OfflineBanner \<Rightarrow> OfflineBanner" where
  "banner_step (BannerRender now c) b = render_banner now c b"
| "banner_step (BannerTimer now) b = dismiss_timer now b"
| "banner_step BannerDismiss b = (if banner_visible b then b\<lparr>dismissed := True\<rparr> else b)"

definition banner_inv :: "OfflineBanner \<Rightarrow> bool" where
  "banner_inv b \<longleftrightarrow> (\<not> seenOffline b \<longrightarrow> \<not> dismissed b \<and> dismissAt b = None) \<and> (banner_visible b \<longrightarrow> dismissAt b \<noteq> None)"

interpretation banners: free_event_system banner_step banner_inv
proof
  show "banner_inv b \<Longrightarrow> banner_inv (banner_step e b)" for b e
    by (cases e) (auto simp: banner_inv_def render_banner_def banner_effect_def dismiss_timer_def banner_visible_def
        split: option.split)
qed

text \<open>
  Each outage is announced once: the banner shows when the kiosk goes offline, it goes away when its timer
  fires three seconds later or when the kiosk is online again, and while it shows this timer is pending.
\<close>

theorem banner_once_per_outage:
  fixes es :: "banner_event list" and is_offline :: bool and now :: ms
  defines "b \<equiv> fold banner_step es (mount_OfflineBanner now is_offline)"
  shows "\<not> (banner_visible b \<and> dismissAt b = None)"
    and "\<not> isOffline c \<Longrightarrow> \<not> banner_visible (render_banner t c b)"
    and "isOffline c \<Longrightarrow> \<not> seenOffline b \<Longrightarrow>
      banner_visible (dismiss_timer u (render_banner t c b)) \<longleftrightarrow> u < t + 3000"
    and "isOffline c \<Longrightarrow> dismissed b \<Longrightarrow> \<not> banner_visible (render_banner t c b)"
proof -
  have inv: "banner_inv b"
    unfolding b_def by (rule banners.run) (simp add: mount_OfflineBanner_def banner_effect_def banner_inv_def banner_visible_def)
  then show "\<not> (banner_visible b \<and> dismissAt b = None)" by (simp add: banner_inv_def)
  show "\<not> isOffline c \<Longrightarrow> \<not> banner_visible (render_banner t c b)"
    by (auto simp: render_banner_def banner_effect_def banner_visible_def)
  show "isOffline c \<Longrightarrow> \<not> seenOffline b \<Longrightarrow> banner_visible (dismiss_timer u (render_banner t c b)) \<longleftrightarrow> u < t + 3000"
    using inv by (auto simp: render_banner_def banner_effect_def banner_visible_def dismiss_timer_def banner_inv_def
        AUTO_DISMISS_MS_def)
  show "isOffline c \<Longrightarrow> dismissed b \<Longrightarrow> \<not> banner_visible (render_banner t c b)"
    using inv by (auto simp: render_banner_def banner_visible_def banner_inv_def)
qed

section \<open>The receipt screen\<close>

definition AUTO_RETURN_TO_ATTRACT_MS :: ms where
  "AUTO_RETURN_TO_ATTRACT_MS = 10000"

definition PRIMARY_DELAY_MS :: ms where
  "PRIMARY_DELAY_MS = 3000"

text \<open>The timers that take a message away again, and the requests with the order they name.\<close>

datatype receipt_timer = ClearConfirmation | ClearPrinterFailed | ClearEmailSent

datatype receipt_message = PrintingReceipt | EmailSent

datatype receipt_request = PrintReceipt string | EmailReceipt string

record Receipt =
  showPrimary :: bool
  printerFailed :: bool
  printLoading :: bool
  emailLoading :: bool
  emailSent :: bool
  confirmation :: "receipt_message option"
  receiptTimers :: "(receipt_timer \<times> ms) list"
  receiptRequests :: "receipt_request list"
  primaryAt :: "ms option"
  returnAt :: ms

text \<open>The states of the first render, and the timers of the mount effect.\<close>

definition mount_Receipt :: "ms \<Rightarrow> Receipt" where
  "mount_Receipt now = \<lparr>showPrimary = False, printerFailed = False, printLoading = False, emailLoading = False,
     emailSent = False, confirmation = None, receiptTimers = [], receiptRequests = [],
     primaryAt = Some (now + PRIMARY_DELAY_MS), returnAt = now + AUTO_RETURN_TO_ATTRACT_MS\<rparr>"

definition shown_orderNumber :: "KioskContext \<Rightarrow> string" where
  "shown_orderNumber c = (case order c of Some ord \<Rightarrow> orderNumber ord | None \<Rightarrow> ''A-7842'')"

text \<open>\<open>orderId ?? crypto.randomUUID()\<close>.\<close>

definition receipt_order :: "KioskContext \<Rightarrow> string \<Rightarrow> string" where
  "receipt_order c randomId = (case order c of Some ord \<Rightarrow> Order.orderId ord | None \<Rightarrow> randomId)"

definition handlePrint :: "KioskContext \<Rightarrow> string \<Rightarrow> Receipt \<Rightarrow> Receipt" where
  "handlePrint c randomId r =
     (if printLoading r then r
      else r\<lparr>printLoading := True, receiptRequests := receiptRequests r @ [PrintReceipt (receipt_order c randomId)]\<rparr>)"

text \<open>The request settles; an answer with an error status is an answer.\<close>

definition print_settled :: "ms \<Rightarrow> thrown + int \<Rightarrow> Receipt \<Rightarrow> Receipt" where
  "print_settled now answer r =
     (case answer of
        Inr _ \<Rightarrow> r\<lparr>confirmation := Some PrintingReceipt, receiptTimers := receiptTimers r @ [(ClearConfirmation, now + 4000)],
                 printLoading := False\<rparr>
      | Inl _ \<Rightarrow> r\<lparr>printerFailed := True, receiptTimers := receiptTimers r @ [(ClearPrinterFailed, now + 4000)],
                 printLoading := False\<rparr>)"

definition handleEmail :: "KioskContext \<Rightarrow> string \<Rightarrow> Receipt \<Rightarrow> Receipt" where
  "handleEmail c randomId r =
     (if emailLoading r then r
      else r\<lparr>emailLoading := True, receiptRequests := receiptRequests r @ [EmailReceipt (receipt_order c randomId)]\<rparr>)"

definition email_settled :: "ms \<Rightarrow> thrown + int \<Rightarrow> Receipt \<Rightarrow> Receipt" where
  "email_settled now answer r =
     (case answer of
        Inr _ \<Rightarrow> r\<lparr>emailSent := True, confirmation := Some EmailSent,
                 receiptTimers := receiptTimers r @ [(ClearEmailSent, now + 3000), (ClearConfirmation, now + 4000)],
                 emailLoading := False\<rparr>
      | Inl _ \<Rightarrow> r\<lparr>emailLoading := False\<rparr>)"

definition message_timer :: "nat \<Rightarrow> Receipt \<Rightarrow> Receipt" where
  "message_timer i r =
     (if i \<ge> length (receiptTimers r) then r
      else
        let r1 = r\<lparr>receiptTimers := splice_at i (receiptTimers r)\<rparr>
        in case fst (receiptTimers r ! i) of
             ClearConfirmation \<Rightarrow> r1\<lparr>confirmation := None\<rparr>
           | ClearPrinterFailed \<Rightarrow> r1\<lparr>printerFailed := False\<rparr>
           | ClearEmailSent \<Rightarrow> r1\<lparr>emailSent := False\<rparr>)"

definition primary_timer :: "ms \<Rightarrow> Receipt \<Rightarrow> Receipt" where
  "primary_timer now r =
     (case primaryAt r of
        Some t \<Rightarrow> if t \<le> now then r\<lparr>showPrimary := True, primaryAt := None\<rparr> else r
      | None \<Rightarrow> r)"

definition handleStartNewOrder :: "machine_env \<Rightarrow> Kiosk \<Rightarrow> Kiosk" where
  "handleStartNewOrder env k = send env RECEIPT_ACKNOWLEDGED k"

definition return_timer :: "machine_env \<Rightarrow> ms \<Rightarrow> Receipt \<Rightarrow> Kiosk \<Rightarrow> Kiosk" where
  "return_timer env now r k = (if returnAt r \<le> now then send env RECEIPT_ACKNOWLEDGED k else k)"

datatype receipt_event =
    PrintTapped string
  | PrintSettled ms "thrown + int"
  | EmailTapped string
  | EmailSettled ms "thrown + int"
  | MessageTimer nat
  | PrimaryTimer ms
  | StartNewTapped
  | ReturnTimer ms
  | NetworkChanges bool

text \<open>
  A request settles only while it is in flight; the button that starts a new order is there once \<open>showPrimary\<close> is set.
  The screen and the machine change together, and nothing happens on a screen that the machine has left.
\<close>

fun receipt_handle :: "machine_env \<Rightarrow> receipt_event \<Rightarrow> Receipt \<Rightarrow> Kiosk \<Rightarrow> Receipt \<times> Kiosk" where
  "receipt_handle env (PrintTapped randomId) r k = (handlePrint (context_of k) randomId r, k)"
| "receipt_handle env (PrintSettled now answer) r k = (if printLoading r then print_settled now answer r else r, k)"
| "receipt_handle env (EmailTapped randomId) r k = (handleEmail (context_of k) randomId r, k)"
| "receipt_handle env (EmailSettled now answer) r k = (if emailLoading r then email_settled now answer r else r, k)"
| "receipt_handle env (MessageTimer i) r k = (message_timer i r, k)"
| "receipt_handle env (PrimaryTimer now) r k = (primary_timer now r, k)"
| "receipt_handle env StartNewTapped r k = (r, if showPrimary r then handleStartNewOrder env k else k)"
| "receipt_handle env (ReturnTimer now) r k = (r, return_timer env now r k)"
| "receipt_handle env (NetworkChanges is_online) r k = (r, send env (if is_online then NETWORK_ONLINE else NETWORK_OFFLINE) k)"

definition receipt_step :: "machine_env \<Rightarrow> receipt_event \<Rightarrow> Receipt \<times> Kiosk \<Rightarrow> Receipt \<times> Kiosk" where
  "receipt_step env e s = (if stageOf (snd s) = RECEIPT then receipt_handle env e (fst s) (snd s) else s)"

text \<open>The button has appeared, and the time of the automatic return has come.\<close>

definition primary_shown :: "ms \<Rightarrow> receipt_event list \<Rightarrow> bool" where
  "primary_shown t es \<longleftrightarrow> (\<exists>u. PrimaryTimer u \<in> set es \<and> t + 3000 \<le> u)"

definition return_due :: "ms \<Rightarrow> receipt_event list \<Rightarrow> bool" where
  "return_due t es \<longleftrightarrow> (\<exists>u. ReturnTimer u \<in> set es \<and> t + 10000 \<le> u)"

lemma due_snoc [simp]:
  "primary_shown t (es @ [e]) \<longleftrightarrow> primary_shown t es \<or> (\<exists>u. e = PrimaryTimer u \<and> t + 3000 \<le> u)"
  "return_due t (es @ [e]) \<longleftrightarrow> return_due t es \<or> (\<exists>u. e = ReturnTimer u \<and> t + 10000 \<le> u)"
  "\<not> primary_shown t []" "\<not> return_due t []"
  by (auto simp: primary_shown_def return_due_def)

text \<open>What holds of the screen alone, and of the machine with it.\<close>

definition screen_inv :: "Order \<Rightarrow> ms \<Rightarrow> Receipt \<Rightarrow> bool" where
  "screen_inv ord t r \<longleftrightarrow>
     returnAt r = t + 10000 \<and> (primaryAt r = (if showPrimary r then None else Some (t + 3000))) \<and>
     set (receiptRequests r) \<subseteq> {PrintReceipt (Order.orderId ord), EmailReceipt (Order.orderId ord)} \<and>
     (printLoading r \<longrightarrow> PrintReceipt (Order.orderId ord) \<in> set (receiptRequests r)) \<and>
     (emailLoading r \<longrightarrow> EmailReceipt (Order.orderId ord) \<in> set (receiptRequests r))"

definition receipt_inv :: "Order \<Rightarrow> ms \<Rightarrow> receipt_event list \<Rightarrow> Receipt \<times> Kiosk \<Rightarrow> bool" where
  "receipt_inv ord t es s \<longleftrightarrow> screen_inv ord t (fst s) \<and>
     (if stageOf (snd s) = RECEIPT then order (context_of (snd s)) = Some ord \<and> (showPrimary (fst s) \<longleftrightarrow> primary_shown t es)
      else stageOf (snd s) = ATTRACT \<and> no_customer (context_of (snd s)) \<and>
        (return_due t es \<or> StartNewTapped \<in> set es \<and> primary_shown t es))"

lemma message_timer_frame [simp]:
  "receiptRequests (message_timer i r) = receiptRequests r" "returnAt (message_timer i r) = returnAt r"
  "primaryAt (message_timer i r) = primaryAt r" "showPrimary (message_timer i r) = showPrimary r"
  "printLoading (message_timer i r) = printLoading r" "emailLoading (message_timer i r) = emailLoading r"
  by (simp_all add: message_timer_def Let_def split: receipt_timer.split)

lemma settled_frame [simp]:
  "receiptRequests (print_settled now a r) = receiptRequests r" "returnAt (print_settled now a r) = returnAt r"
  "primaryAt (print_settled now a r) = primaryAt r" "showPrimary (print_settled now a r) = showPrimary r"
  "\<not> printLoading (print_settled now a r)" "emailLoading (print_settled now a r) = emailLoading r"
  "receiptRequests (email_settled now a r) = receiptRequests r" "returnAt (email_settled now a r) = returnAt r"
  "primaryAt (email_settled now a r) = primaryAt r" "showPrimary (email_settled now a r) = showPrimary r"
  "\<not> emailLoading (email_settled now a r)" "printLoading (email_settled now a r) = printLoading r"
  by (simp_all add: print_settled_def email_settled_def split: sum.split)

lemma receipt_acknowledged:
  "stageOf k = RECEIPT \<Longrightarrow>
   stageOf (send env RECEIPT_ACKNOWLEDGED k) = ATTRACT \<and> no_customer (context_of (send env RECEIPT_ACKNOWLEDGED k))"
  by (simp add: send_defs config_defs no_customer_def)

lemma receipt_network:
  "stageOf k = RECEIPT \<Longrightarrow> e \<in> {NETWORK_ONLINE, NETWORK_OFFLINE} \<Longrightarrow>
   stageOf (send env e k) = RECEIPT \<and> order (context_of (send env e k)) = order (context_of k)"
  by (auto simp: send_defs config_defs)

lemmas receipt_handlers = handlePrint_def handleEmail_def receipt_order_def primary_timer_def handleStartNewOrder_def return_timer_def

lemma screen_inv_step:
  "screen_inv ord t r \<Longrightarrow> order (context_of k) = Some ord \<Longrightarrow> screen_inv ord t (fst (receipt_handle env e r k))"
  by (cases e) (auto simp: screen_inv_def receipt_handlers)

lemma receipt_inv_step:
  assumes "receipt_inv ord t es s" shows "receipt_inv ord t (es @ [e]) (receipt_step env e s)"
proof (cases "stageOf (snd s) = RECEIPT")
  case True
  note inv = assms [unfolded receipt_inv_def, simplified True, simplified]
  have screen: "screen_inv ord t (fst (receipt_step env e s))"
    using True inv screen_inv_step [of ord t "fst s" "snd s" env e] by (simp add: receipt_step_def)
  show ?thesis
    using True inv screen receipt_acknowledged [OF True, of env] receipt_network [OF True, of _ env]
    by (cases e) (auto simp: receipt_inv_def receipt_step_def receipt_handlers screen_inv_def)
next
  case False
  then show ?thesis using assms by (auto simp: receipt_inv_def receipt_step_def)
qed

lemma receipt_run:
  assumes "order (context_of k) = Some ord" "stageOf k = RECEIPT"
  shows "receipt_inv ord t es (fold (receipt_step env) es (mount_Receipt t, k))"
proof (induction es rule: rev_induct)
  case Nil
  show ?case
    using assms by (simp add: receipt_inv_def screen_inv_def mount_Receipt_def AUTO_RETURN_TO_ATTRACT_MS_def PRIMARY_DELAY_MS_def)
next
  case (snoc e es)
  then show ?case by (simp add: receipt_inv_step)
qed

text \<open>
  C10. The receipt screen is about the finished order and gives the kiosk back. The number shown is that of the order paid, and
  each print and mail request, whatever is tapped and answered, names this order, never the random identifier. While the
  screen is there, a tap on print or mail sends exactly one request unless one of its kind is in flight, nothing else sends
  one, and an answer of any kind makes the button live again. The screen is left exactly in two ways, both to an attract
  screen without the customer's data: by its timer ten seconds after it appeared, not earlier, and by the button that starts
  a new order, which is there from the timer of the third second on.
\<close>

theorem receipt_names_order_and_returns:
  assumes "kiosk_reachable k" "stageOf k = RECEIPT" and "s = fold (receipt_step env) es (mount_Receipt t, k)"
  shows "\<exists>ord. order (context_of k) = Some ord \<and> shown_orderNumber (context_of k) = orderNumber ord \<and>
      set (receiptRequests (fst s)) \<subseteq> {PrintReceipt (Order.orderId ord), EmailReceipt (Order.orderId ord)} \<and>
      (stageOf (snd s) = RECEIPT \<longrightarrow>
        shown_orderNumber (context_of (snd s)) = orderNumber ord \<and>
        receiptRequests (fst (receipt_step env e s)) = receiptRequests (fst s) @
          (case e of
             PrintTapped _ \<Rightarrow> if printLoading (fst s) then [] else [PrintReceipt (Order.orderId ord)]
           | EmailTapped _ \<Rightarrow> if emailLoading (fst s) then [] else [EmailReceipt (Order.orderId ord)]
           | _ \<Rightarrow> []) \<and>
        \<not> printLoading (fst (receipt_step env (PrintSettled u answer) s)) \<and>
        \<not> emailLoading (fst (receipt_step env (EmailSettled u answer) s)) \<and>
        stageOf (snd (receipt_step env e s)) =
          (case e of
             StartNewTapped \<Rightarrow> if \<exists>v. PrimaryTimer v \<in> set es \<and> t + 3000 \<le> v then ATTRACT else RECEIPT
           | ReturnTimer v \<Rightarrow> if t + 10000 \<le> v then ATTRACT else RECEIPT
           | _ \<Rightarrow> RECEIPT)) \<and>
      (stageOf (snd s) \<noteq> RECEIPT \<longrightarrow>
        stageOf (snd s) = ATTRACT \<and> no_customer (context_of (snd s)) \<and>
        ((\<exists>v. ReturnTimer v \<in> set es \<and> t + 10000 \<le> v) \<or>
         StartNewTapped \<in> set es \<and> (\<exists>v. PrimaryTimer v \<in> set es \<and> t + 3000 \<le> v)))"
proof -
  have "order (context_of k) \<noteq> None"
    using reachable_context_inv [OF assms(1)] assms(2) by (auto simp: context_inv_def)
  then obtain ord where ord: "order (context_of k) = Some ord" by blast
  note inv = receipt_run [OF ord assms(2), of t es env, folded assms(3), unfolded receipt_inv_def screen_inv_def]
  have shown: "shown_orderNumber c = orderNumber ord" if "order c = Some ord" for c
    using that by (simp add: shown_orderNumber_def)
  have requests: "receiptRequests (fst (receipt_step env e s)) = receiptRequests (fst s) @
      (case e of
         PrintTapped _ \<Rightarrow> if printLoading (fst s) then [] else [PrintReceipt (Order.orderId ord)]
       | EmailTapped _ \<Rightarrow> if emailLoading (fst s) then [] else [EmailReceipt (Order.orderId ord)]
       | _ \<Rightarrow> [])" if "stageOf (snd s) = RECEIPT"
    using that inv by (cases e) (simp_all add: receipt_step_def receipt_handlers split: option.split)
  have moves: "stageOf (snd (receipt_step env e s)) =
      (case e of
         StartNewTapped \<Rightarrow> if primary_shown t es then ATTRACT else RECEIPT
       | ReturnTimer v \<Rightarrow> if t + 10000 \<le> v then ATTRACT else RECEIPT
       | _ \<Rightarrow> RECEIPT)" if "stageOf (snd s) = RECEIPT"
    using that inv receipt_acknowledged [OF that, of env] receipt_network [OF that, of _ env]
    by (cases e) (simp_all add: receipt_step_def receipt_handlers)
  have settled: "\<not> printLoading (fst (receipt_step env (PrintSettled u answer) s))"
    "\<not> emailLoading (fst (receipt_step env (EmailSettled u answer) s))" if "stageOf (snd s) = RECEIPT"
    using that by (simp_all add: receipt_step_def)
  show ?thesis
    unfolding primary_shown_def [symmetric] return_due_def [symmetric]
    by (rule exI [of _ ord], cases "stageOf (snd s) = RECEIPT")
      (use ord shown inv requests moves settled in simp_all)
qed

theorem receipt_names_order_and_returns_witness:
  "let s = fold (receipt_step sample_env) [PrintTapped ''x'', PrimaryTimer 3000] (mount_Receipt 0, receipt_kiosk)
   in length (receiptRequests (fst s)) = 1 \<and> stageOf (snd (receipt_step sample_env (ReturnTimer 9999) s)) = RECEIPT \<and>
      stageOf (snd (receipt_step sample_env StartNewTapped s)) = ATTRACT"
proof -
  let ?es = "[PrintTapped ''x'', PrimaryTimer 3000]"
  let ?s = "fold (receipt_step sample_env) ?es (mount_Receipt 0, receipt_kiosk)"
  have s: "stageOf (snd ?s) = RECEIPT" "length (receiptRequests (fst ?s)) = 1"
    by (simp_all add: receipt_step_def receipt_kiosk_stage mount_Receipt_def receipt_handlers PRIMARY_DELAY_MS_def)
  have at: "stageOf (snd (receipt_step sample_env e ?s)) =
      (case e of
         StartNewTapped \<Rightarrow> if \<exists>v. PrimaryTimer v \<in> set ?es \<and> 0 + 3000 \<le> v then ATTRACT else RECEIPT
       | ReturnTimer v \<Rightarrow> if 0 + 10000 \<le> v then ATTRACT else RECEIPT
       | _ \<Rightarrow> RECEIPT)" for e
    using receipt_names_order_and_returns [OF receipt_kiosk_reachable receipt_kiosk_stage refl, of sample_env ?es 0 e 0 "Inr 200"] s(1)
    by blast
  show ?thesis using s(2) at [of "ReturnTimer 9999"] at [of StartNewTapped] by (simp add: Let_def)
qed

text \<open>
  Two gaps in its messages: a printer service that answers with an error is confirmed like a success, and the timer of
  one message takes away the next one.
\<close>

lemma receipt_error_status_confirmed:
  "confirmation (print_settled now (Inr 500) r) = Some PrintingReceipt \<and>
   printerFailed (print_settled now (Inr 500) r) = printerFailed r"
  by (simp add: print_settled_def)

lemma receipt_message_cut_short:
  assumes "receiptTimers r = []"
  shows "confirmation (message_timer 0 (email_settled u (Inr 200) (print_settled t (Inr 200) r))) = None"
  using assms by (simp add: email_settled_def print_settled_def message_timer_def)

end
