(* ===== verification/Languages.thy ===== *)
theory Languages
  imports KioskSafety
begin

text \<open>
  The languages of the kiosk: table, store and texts of \<open>apps/kiosk/src/i18n/index.ts\<close>, the language screen
  (\<open>routes/LanguageSelectScreen.tsx\<close>) and the effect of \<open>App.tsx\<close> that carries the machine's language to the store.
  The tables of texts (\<open>i18n/locales\<close>) are an argument.
\<close>

section \<open>Languages\<close>

datatype text_dir = ltr | rtl

text \<open>The name in the language itself is left out: it is only shown.\<close>

record LanguageInfo =
  code :: LocaleCode
  nameEn :: string
  dir :: text_dir
  isMain :: bool

definition LANGUAGES :: "LanguageInfo list" where
  "LANGUAGES =
     [\<lparr>code = L_en, nameEn = ''English'', dir = ltr, isMain = True\<rparr>,
      \<lparr>code = L_es, nameEn = ''Spanish'', dir = ltr, isMain = True\<rparr>,
      \<lparr>code = L_zh_CN, nameEn = ''Chinese (Simplified)'', dir = ltr, isMain = True\<rparr>,
      \<lparr>code = L_fr, nameEn = ''French'', dir = ltr, isMain = True\<rparr>,
      \<lparr>code = L_ja, nameEn = ''Japanese'', dir = ltr, isMain = False\<rparr>,
      \<lparr>code = L_ko, nameEn = ''Korean'', dir = ltr, isMain = False\<rparr>,
      \<lparr>code = L_hi, nameEn = ''Hindi'', dir = ltr, isMain = False\<rparr>,
      \<lparr>code = L_ar, nameEn = ''Arabic'', dir = rtl, isMain = False\<rparr>,
      \<lparr>code = L_pt, nameEn = ''Portuguese'', dir = ltr, isMain = False\<rparr>,
      \<lparr>code = L_ru, nameEn = ''Russian'', dir = ltr, isMain = False\<rparr>,
      \<lparr>code = L_bn, nameEn = ''Bengali'', dir = ltr, isMain = False\<rparr>,
      \<lparr>code = L_de, nameEn = ''German'', dir = ltr, isMain = False\<rparr>,
      \<lparr>code = L_ur, nameEn = ''Urdu'', dir = rtl, isMain = False\<rparr>,
      \<lparr>code = L_tr, nameEn = ''Turkish'', dir = ltr, isMain = False\<rparr>,
      \<lparr>code = L_zh_TW, nameEn = ''Chinese (Traditional)'', dir = ltr, isMain = False\<rparr>,
      \<lparr>code = L_vi, nameEn = ''Vietnamese'', dir = ltr, isMain = False\<rparr>,
      \<lparr>code = L_th, nameEn = ''Thai'', dir = ltr, isMain = False\<rparr>]"

definition MAIN_LANGUAGES :: "LanguageInfo list" where
  "MAIN_LANGUAGES = filter isMain LANGUAGES"

definition FEATURE_LANGUAGES :: "LanguageInfo list" where
  "FEATURE_LANGUAGES = filter (\<lambda>l. \<not> isMain l) LANGUAGES"

record LocaleState =
  storeLocale :: LocaleCode
  storeDir :: text_dir

definition initial_LocaleState :: LocaleState where
  "initial_LocaleState = \<lparr>storeLocale = L_en, storeDir = ltr\<rparr>"

definition setLocale :: "LocaleCode \<Rightarrow> LocaleState \<Rightarrow> LocaleState" where
  "setLocale loc s =
     (let lang = find (\<lambda>l. code l = loc) LANGUAGES
      in s\<lparr>storeLocale := loc, storeDir := (case lang of None \<Rightarrow> ltr | Some l \<Rightarrow> dir l)\<rparr>)"

section \<open>Texts\<close>

text \<open>The first occurrence of a text: what is before and after it.\<close>

fun split_first :: "string \<Rightarrow> string \<Rightarrow> (string \<times> string) option" where
  "split_first pat [] = (if pat = [] then Some ([], []) else None)"
| "split_first pat (c # cs) =
     (if take (length pat) (c # cs) = pat then Some ([], drop (length pat) (c # cs))
      else map_option (\<lambda>r. (c # fst r, snd r)) (split_first pat cs))"

text \<open>The patterns of a replacement text of \<open>String.replace\<close>: \<open>$$\<close>, \<open>$&\<close>, and the text before and after the match.\<close>

fun expand_replacement :: "string \<Rightarrow> string \<Rightarrow> string \<Rightarrow> string \<Rightarrow> string" where
  "expand_replacement m b a (c # d # r) =
     (if c \<noteq> CHR ''$'' then c # expand_replacement m b a (d # r)
      else if d = CHR ''$'' then CHR ''$'' # expand_replacement m b a r
      else if d = CHR ''&'' then m @ expand_replacement m b a r
      else if d = CHR 0x60 then b @ expand_replacement m b a r
      else if d = CHR 0x27 then a @ expand_replacement m b a r
      else c # expand_replacement m b a (d # r))"
| "expand_replacement m b a [c] = [c]"
| "expand_replacement m b a [] = []"

definition js_replace :: "string \<Rightarrow> string \<Rightarrow> string \<Rightarrow> string" where
  "js_replace pat rep s =
     (case split_first pat s of
        None \<Rightarrow> s
      | Some ba \<Rightarrow> fst ba @ expand_replacement pat (fst ba) (snd ba) rep @ snd ba)"

type_synonym TranslationMap = "(string \<times> string) list"
type_synonym registry = "(LocaleCode \<times> TranslationMap) list"

text \<open>The texts of a language, English where the registry has none.\<close>

definition translations_of :: "registry \<Rightarrow> LocaleCode \<Rightarrow> TranslationMap option" where
  "translations_of reg loc = (case map_of reg loc of Some tr \<Rightarrow> Some tr | None \<Rightarrow> map_of reg L_en)"

definition text_of :: "registry \<Rightarrow> LocaleCode \<Rightarrow> string \<Rightarrow> string" where
  "text_of reg loc key =
     (case Option.bind (translations_of reg loc) (\<lambda>tr. map_of tr key) of
        Some v \<Rightarrow> v
      | None \<Rightarrow> (case Option.bind (map_of reg L_en) (\<lambda>tr. map_of tr key) of Some v \<Rightarrow> v | None \<Rightarrow> key))"

definition translate :: "registry \<Rightarrow> LocaleState \<Rightarrow> string \<Rightarrow> (string \<times> string) list \<Rightarrow> string" where
  "translate reg s key params =
     fold (\<lambda>kv txt. js_replace (''{'' @ fst kv @ ''}'') (snd kv) txt) params (text_of reg (storeLocale s) key)"

section \<open>The language screen\<close>

definition VISIBLE_FEATURE_COUNT :: nat where
  "VISIBLE_FEATURE_COUNT = 6"

definition visibleFeatureLanguages :: "bool \<Rightarrow> LanguageInfo list" where
  "visibleFeatureLanguages showAll = (if showAll then FEATURE_LANGUAGES else take VISIBLE_FEATURE_COUNT FEATURE_LANGUAGES)"

definition shows_all_button :: "bool \<Rightarrow> bool" where
  "shows_all_button showAll \<longleftrightarrow> \<not> showAll \<and> length FEATURE_LANGUAGES > VISIBLE_FEATURE_COUNT"

definition language_handleSelect :: "machine_env \<Rightarrow> LocaleCode \<Rightarrow> Kiosk \<Rightarrow> Kiosk" where
  "language_handleSelect env loc k = send env (SET_LANGUAGE loc) k"

text \<open>The effect of the shell after a render.\<close>

definition locale_effect :: "Kiosk \<Rightarrow> LocaleState \<Rightarrow> LocaleState" where
  "locale_effect k s = setLocale (uiLocale (context_of k)) s"

section \<open>Properties\<close>

lemma all_languages: "loc \<in> code ` set LANGUAGES"
  by (cases loc) (simp_all add: LANGUAGES_def)

text \<open>
  Every language can be chosen and is shown the way it is written. The screen offers each language of the program
  exactly once, six of the further ones at first and all after one tap; a choice on the language
  screen reaches the machine and, with the next effect, the store; its direction is right to left exactly for Arabic
  and Urdu.
\<close>

theorem language_choice_reaches_store:
  "distinct (map code (MAIN_LANGUAGES @ visibleFeatureLanguages True)) \<and>
   set (map code (MAIN_LANGUAGES @ visibleFeatureLanguages True)) = UNIV \<and>
   visibleFeatureLanguages False = take 6 (visibleFeatureLanguages True) \<and> shows_all_button False \<and>
   \<not> shows_all_button True \<and>
   (\<lambda>k'. (stageOf k', uiLocale (context_of k'))) (language_handleSelect env loc (k\<lparr>stageOf := LANGUAGE_SELECT\<rparr>)) =
     (ATTRACT, loc) \<and>
   locale_effect (language_handleSelect env loc (k\<lparr>stageOf := LANGUAGE_SELECT\<rparr>)) s =
     \<lparr>storeLocale = loc, storeDir = (if loc \<in> {L_ar, L_ur} then rtl else ltr)\<rparr>"
proof -
  have UNIV: "set (map code (MAIN_LANGUAGES @ visibleFeatureLanguages True)) = UNIV"
  proof -
    have "loc \<in> set (map code (MAIN_LANGUAGES @ visibleFeatureLanguages True))" for loc
      by (cases loc) (simp_all add: MAIN_LANGUAGES_def FEATURE_LANGUAGES_def visibleFeatureLanguages_def LANGUAGES_def)
    then show ?thesis by blast
  qed
  have selected: "stageOf (language_handleSelect env loc (k\<lparr>stageOf := LANGUAGE_SELECT\<rparr>)) = ATTRACT"
    "uiLocale (context_of (language_handleSelect env loc (k\<lparr>stageOf := LANGUAGE_SELECT\<rparr>))) = loc"
    by (simp_all add: language_handleSelect_def send_defs config_defs)
  have "setLocale loc s = \<lparr>storeLocale = loc, storeDir = (if loc \<in> {L_ar, L_ur} then rtl else ltr)\<rparr>"
    by (cases s; cases loc) (simp_all add: setLocale_def LANGUAGES_def)
  with UNIV selected show ?thesis
    by (simp add: locale_effect_def)
      (simp add: MAIN_LANGUAGES_def FEATURE_LANGUAGES_def visibleFeatureLanguages_def LANGUAGES_def
        VISIBLE_FEATURE_COUNT_def shows_all_button_def)
qed

text \<open>A replacement text without a pattern stands for itself.\<close>

fun plain_replacement :: "string \<Rightarrow> bool" where
  "plain_replacement (c # d # r) \<longleftrightarrow>
     \<not> (c = CHR ''$'' \<and> d \<in> {CHR ''$'', CHR ''&'', CHR 0x60, CHR 0x27}) \<and> plain_replacement (d # r)"
| "plain_replacement _ \<longleftrightarrow> True"

lemma expand_plain: "plain_replacement v \<Longrightarrow> expand_replacement m b a v = v"
  by (induction v rule: plain_replacement.induct) auto

lemma split_first_placeholder:
  assumes "CHR ''{'' \<notin> set a"
  shows "split_first (''{'' @ k @ ''}'') (a @ ''{'' @ k @ ''}'' @ b) = Some (a, b)"
  using assms by (induction a) auto

text \<open>
  A text is the one of the chosen language, else the English one, else its key; and the first placeholder of a
  text is filled with the value given for it as it is, unless the value has a replacement pattern.
\<close>

theorem translate_fills_placeholder:
  assumes "text_of reg (storeLocale s) key = a @ ''{'' @ k @ ''}'' @ b" "CHR ''{'' \<notin> set a" "plain_replacement v"
  shows "translate reg s key [(k, v)] = a @ v @ b \<and>
    text_of reg loc key' =
      (case map_of reg loc of
         None \<Rightarrow> (case Option.bind (map_of reg L_en) (\<lambda>tr. map_of tr key') of None \<Rightarrow> key' | Some txt \<Rightarrow> txt)
       | Some tr \<Rightarrow>
           (case map_of tr key' of
              Some txt \<Rightarrow> txt
            | None \<Rightarrow> (case Option.bind (map_of reg L_en) (\<lambda>tr. map_of tr key') of None \<Rightarrow> key' | Some txt \<Rightarrow> txt)))"
  using assms split_first_placeholder [OF assms(2), of k b]
  by (auto simp: translate_def js_replace_def expand_plain text_of_def translations_of_def split: option.split)

theorem translate_fills_placeholder_witness:
  "translate [(L_en, [(''receipt.orderNumber'', ''Order {number}'')])] initial_LocaleState ''receipt.orderNumber''
     [(''number'', ''A-17'')] = ''Order A-17''"
proof -
  have "text_of [(L_en, [(''receipt.orderNumber'', ''Order {number}'')])] (storeLocale initial_LocaleState)
      ''receipt.orderNumber'' = ''Order '' @ ''{'' @ ''number'' @ ''}'' @ []"
    by (simp add: text_of_def translations_of_def initial_LocaleState_def)
  from translate_fills_placeholder [OF this] show ?thesis by simp
qed

text \<open>
  The language is chosen once. After the language screen no step of the machine leads back to it or changes the
  language: the choice of whoever touched the kiosk first holds for every later customer, since
  \<open>resetContext\<close> keeps it and no other stage accepts \<open>SET_LANGUAGE\<close>.
\<close>

lemma language_kept_by_step:
  assumes "kiosk_step k k'" "stageOf k \<noteq> LANGUAGE_SELECT"
  shows "stageOf k' \<noteq> LANGUAGE_SELECT \<and> uiLocale (context_of k') = uiLocale (context_of k)"
  using assms(1)
proof (cases rule: kiosk_step.cases)
  case (user_event e env)
  with assms(2) show ?thesis
    by (cases "stageOf k"; cases e) (simp_all add: send_defs config_defs split: if_splits)
next
  case (actor_settles n input env createOrder)
  with assms(2) show ?thesis
    by (cases "stageOf k"; cases "finalizeOrder createOrder input")
      (simp_all add: settle_def send_defs config_defs split: if_splits)
qed

theorem language_chosen_once:
  assumes "kiosk_step\<^sup>*\<^sup>* k k'" "stageOf k \<noteq> LANGUAGE_SELECT"
  shows "stageOf k' \<noteq> LANGUAGE_SELECT \<and> uiLocale (context_of k') = uiLocale (context_of k)"
  using assms
proof (induction rule: rtranclp_induct)
  case (step y z)
  then show ?case using language_kept_by_step by metis
qed simp

end
