(* ===== verification/CrdtWorker.thy ===== *)
theory CrdtWorker
  imports Produce "HOL-Library.Word" "HOL-Library.Multiset"
begin

text \<open>
  The merge worker \<open>apps/kiosk/src/workers/crdtWorker.ts\<close>: requests are answered after the WASM module has been
  loaded. The module is a parameter: whether its import and its start succeed, and its two functions.
\<close>

section \<open>Definitions\<close>

type_synonym bytes = "8 word list"

text \<open>\<open>CrdtWasmModule\<close>; a call may throw. \<open>transfer_ok\<close> is the outcome of transferring a result's buffer.\<close>

record CrdtWasmModule =
  merge_cart_ops :: "bytes \<Rightarrow> bytes \<Rightarrow> thrown + bytes"
  hash_event_chain :: "string \<Rightarrow> bytes \<Rightarrow> thrown + string"
  transfer_ok :: "bytes \<Rightarrow> thrown + unit"

datatype CrdtWorkerRequest =
    MergeCart (requestId: string) bytes bytes
  | HashEvent (requestId: string) string bytes

datatype CrdtWorkerResponse =
    MergeCartResult (responseId: string) bytes
  | HashEventResult (responseId: string) string
  | WorkerError (responseId: string) string

text \<open>Where a call of \<open>handleMessage\<close> waits: for the import, for \<open>mod.default()\<close>, or with the module at hand.\<close>

datatype load_stage = Importing | Starting | ModuleReady

record CrdtWorker =
  wasmLoaded :: bool
  waitingCalls :: "(nat \<times> CrdtWorkerRequest \<times> load_stage) list"
  nextCall :: nat
  importsStarted :: nat
  posted :: "CrdtWorkerResponse list"

definition new_CrdtWorker :: CrdtWorker where
  "new_CrdtWorker = \<lparr>wasmLoaded = False, waitingCalls = [], nextCall = 0, importsStarted = 0, posted = []\<rparr>"

definition worker_error :: "CrdtWorkerRequest \<Rightarrow> thrown \<Rightarrow> CrdtWorkerResponse" where
  "worker_error msg e = WorkerError (requestId msg) (error_text ''Unknown CRDT worker error'' e)"

text \<open>The rest of \<open>handleMessage\<close> with the module loaded.\<close>

definition wasm_answer :: "CrdtWasmModule \<Rightarrow> CrdtWorkerRequest \<Rightarrow> CrdtWorkerResponse" where
  "wasm_answer wasm msg =
     (case msg of
        MergeCart i localState remoteOps \<Rightarrow>
          (case merge_cart_ops wasm localState remoteOps of
             Inl e \<Rightarrow> worker_error msg e
           | Inr mergedState \<Rightarrow>
               (case transfer_ok wasm mergedState of Inl e \<Rightarrow> worker_error msg e | Inr _ \<Rightarrow> MergeCartResult i mergedState))
      | HashEvent i previousHash payload \<Rightarrow>
          (case hash_event_chain wasm previousHash payload of
             Inl e \<Rightarrow> worker_error msg e
           | Inr hash \<Rightarrow> HashEventResult i hash))"

definition answer_call :: "nat \<Rightarrow> CrdtWorkerResponse \<Rightarrow> CrdtWorker \<Rightarrow> CrdtWorker" where
  "answer_call k r w = w\<lparr>waitingCalls := filter (\<lambda>c. fst c \<noteq> k) (waitingCalls w), posted := posted w @ [r]\<rparr>"

definition to_stage :: "nat \<Rightarrow> load_stage \<Rightarrow> CrdtWorker \<Rightarrow> CrdtWorker" where
  "to_stage k st w =
     w\<lparr>waitingCalls := map (\<lambda>c. if fst c = k then (k, fst (snd c), st) else c) (waitingCalls w)\<rparr>"

text \<open>\<open>handleMessage\<close> up to its first \<open>await\<close>, with \<open>ensureWasmLoaded\<close> up to its own.\<close>

definition worker_message :: "CrdtWorkerRequest \<Rightarrow> CrdtWorker \<Rightarrow> CrdtWorker" where
  "worker_message msg w =
     w\<lparr>waitingCalls := waitingCalls w @ [(nextCall w, msg, if wasmLoaded w then ModuleReady else Importing)],
       importsStarted := (if wasmLoaded w then importsStarted w else importsStarted w + 1),
       nextCall := nextCall w + 1\<rparr>"

text \<open>The promise a call waits for settles: the import, the start of the module, or the loaded module.\<close>

definition call_settled :: "CrdtWasmModule \<Rightarrow> nat \<Rightarrow> thrown + unit \<Rightarrow> CrdtWorker \<Rightarrow> CrdtWorker" where
  "call_settled wasm k outcome w =
     (case map_of (waitingCalls w) k of
        None \<Rightarrow> w
      | Some c \<Rightarrow>
          (case snd c of
             ModuleReady \<Rightarrow> answer_call k (wasm_answer wasm (fst c)) w
           | Importing \<Rightarrow>
               (case outcome of Inl e \<Rightarrow> answer_call k (worker_error (fst c) e) w | Inr _ \<Rightarrow> to_stage k Starting w)
           | Starting \<Rightarrow>
               (case outcome of
                  Inl e \<Rightarrow> answer_call k (worker_error (fst c) e) w
                | Inr _ \<Rightarrow> (to_stage k ModuleReady w)\<lparr>wasmLoaded := True\<rparr>)))"

datatype worker_event = WorkerMessage CrdtWorkerRequest | CallSettled nat "thrown + unit"

fun crdt_worker_step :: "CrdtWasmModule \<Rightarrow> worker_event \<Rightarrow> CrdtWorker \<Rightarrow> CrdtWorker" where
  "crdt_worker_step wasm (WorkerMessage msg) w = worker_message msg w"
| "crdt_worker_step wasm (CallSettled k outcome) w = call_settled wasm k outcome w"

section \<open>One answer for each request\<close>

definition waiting_ids :: "CrdtWorker \<Rightarrow> string multiset" where
  "waiting_ids w = image_mset (\<lambda>c. requestId (fst (snd c))) (mset (waitingCalls w))"

text \<open>The requests of a sequence of events.\<close>

fun messages :: "worker_event list \<Rightarrow> CrdtWorkerRequest list" where
  "messages [] = []"
| "messages (WorkerMessage msg # es) = msg # messages es"
| "messages (CallSettled _ _ # es) = messages es"

definition answers :: "CrdtWasmModule \<Rightarrow> CrdtWorkerRequest \<Rightarrow> CrdtWorkerResponse \<Rightarrow> bool" where
  "answers wasm msg r \<longleftrightarrow> r = wasm_answer wasm msg \<or> (\<exists>e. r = worker_error msg e)"

definition worker_inv :: "CrdtWasmModule \<Rightarrow> CrdtWorkerRequest list \<Rightarrow> CrdtWorker \<Rightarrow> bool" where
  "worker_inv wasm ms w \<longleftrightarrow>
     distinct (map fst (waitingCalls w)) \<and> (\<forall>k \<in> set (map fst (waitingCalls w)). k < nextCall w) \<and>
     set (map (fst \<circ> snd) (waitingCalls w)) \<subseteq> set ms \<and>
     (\<forall>r \<in> set (posted w). \<exists>msg \<in> set ms. answers wasm msg r) \<and>
     mset (map responseId (posted w)) + waiting_ids w = mset (map requestId ms)"

lemma answer_has_id [simp]: "responseId (worker_error msg e) = requestId msg" "responseId (wasm_answer wasm msg) = requestId msg"
  by (simp_all add: worker_error_def wasm_answer_def split: CrdtWorkerRequest.split sum.split)

lemma answers_id: "answers wasm msg r \<Longrightarrow> responseId r = requestId msg"
  by (auto simp: answers_def)

lemma remove_waiting:
  assumes "distinct (map fst cs)" "map_of cs k = Some c"
  shows "image_mset (\<lambda>c. requestId (fst (snd c))) (mset cs) =
    add_mset (requestId (fst c)) (image_mset (\<lambda>c. requestId (fst (snd c))) (mset (filter (\<lambda>c. fst c \<noteq> k) cs)))"
  using assms
proof (induction cs)
  case (Cons d cs)
  show ?case
  proof (cases "fst d = k")
    case True
    then have "k \<notin> fst ` set cs" using Cons.prems(1) by simp
    then have "\<forall>c \<in> set cs. fst c \<noteq> k" by blast
    then have "filter (\<lambda>c. fst c \<noteq> k) cs = cs" by (simp add: filter_id_conv)
    with True Cons.prems(2) show ?thesis by (cases d) simp
  next
    case False
    with Cons show ?thesis by (cases d) (simp add: add_mset_commute)
  qed
qed simp

lemma answer_call_inv:
  assumes inv: "worker_inv wasm ms w" and k: "map_of (waitingCalls w) k = Some c" and r: "answers wasm (fst c) r"
  shows "worker_inv wasm ms (answer_call k r w)"
proof -
  have "(k, c) \<in> set (waitingCalls w)" using k by (rule map_of_SomeD)
  then have "fst c \<in> set ms" using inv by (force simp: worker_inv_def)
  then show ?thesis
    using inv r answers_id [OF r] remove_waiting [OF _ k]
    by (auto simp: worker_inv_def answer_call_def waiting_ids_def intro: distinct_map_filter)
qed

lemma to_stage_frame:
  "map fst (waitingCalls (to_stage k st w)) = map fst (waitingCalls w)"
  "map (fst \<circ> snd) (waitingCalls (to_stage k st w)) = map (fst \<circ> snd) (waitingCalls w)"
  "nextCall (to_stage k st w) = nextCall w" "posted (to_stage k st w) = posted w"
  by (auto simp: to_stage_def)

lemma waiting_ids_map: "waiting_ids w = mset (map requestId (map (fst \<circ> snd) (waitingCalls w)))"
  by (simp add: waiting_ids_def multiset.map_comp comp_def)

lemma to_stage_inv: "worker_inv wasm ms w \<Longrightarrow> worker_inv wasm ms (to_stage k st w)"
  unfolding worker_inv_def waiting_ids_map to_stage_frame .

lemma loaded_inv: "worker_inv wasm ms w \<Longrightarrow> worker_inv wasm ms (w\<lparr>wasmLoaded := b\<rparr>)"
  by (simp add: worker_inv_def waiting_ids_def)

lemma worker_message_inv: "worker_inv wasm ms w \<Longrightarrow> worker_inv wasm (ms @ [msg]) (worker_message msg w)"
  by (auto simp: worker_inv_def worker_message_def waiting_ids_def less_SucI)

lemma call_settled_inv: "worker_inv wasm ms w \<Longrightarrow> worker_inv wasm ms (call_settled wasm k outcome w)"
  by (auto simp: call_settled_def answers_def intro!: answer_call_inv to_stage_inv loaded_inv
      split: option.split load_stage.split sum.split)

lemma worker_run_inv: "worker_inv wasm ms w \<Longrightarrow> worker_inv wasm (ms @ messages es) (fold (crdt_worker_step wasm) es w)"
proof (induction es arbitrary: ms w rule: messages.induct)
  case (2 msg es)
  from 2(1) [OF worker_message_inv [OF 2(2)]] show ?case by simp
next
  case (3 k outcome es)
  from 3(1) [OF call_settled_inv [OF 3(2)]] show ?case by simp
qed simp

text \<open>The settlements that a call still needs.\<close>

fun settlements_left :: "load_stage \<Rightarrow> nat" where
  "settlements_left Importing = 3"
| "settlements_left Starting = 2"
| "settlements_left ModuleReady = 1"

lemma settlements_left_bounds: "settlements_left st \<noteq> 0" "settlements_left st \<le> 3"
  by (cases st; simp)+

lemma map_of_answered: "map_of (waitingCalls (answer_call k r w)) k = None"
  by (force simp: answer_call_def map_of_eq_None_iff)

lemma map_of_staged:
  "map_of (waitingCalls (to_stage k st w)) k = map_option (\<lambda>c. (fst c, st)) (map_of (waitingCalls w) k)"
proof -
  have "map_of (map (\<lambda>c. if fst c = k then (k, fst (snd c), st) else c) cs) k = map_option (\<lambda>c. (fst c, st)) (map_of cs k)"
    for cs :: "(nat \<times> CrdtWorkerRequest \<times> load_stage) list"
    by (induction cs) auto
  then show ?thesis by (simp add: to_stage_def)
qed

lemma settlement_progresses:
  assumes "map_of (waitingCalls w) k = Some c"
  shows "case map_of (waitingCalls (call_settled wasm k outcome w)) k of
      None \<Rightarrow> True
    | Some d \<Rightarrow> settlements_left (snd d) < settlements_left (snd c)"
  using assms
  by (auto simp: call_settled_def map_of_answered map_of_staged split: load_stage.split sum.split)

lemma enough_settlements:
  assumes "case map_of (waitingCalls w) k of None \<Rightarrow> True | Some c \<Rightarrow> settlements_left (snd c) \<le> length outs"
  shows "map_of (waitingCalls (fold (call_settled wasm k) outs w)) k = None"
  using assms
proof (induction outs arbitrary: w)
  case Nil
  then show ?case by (cases "map_of (waitingCalls w) k") (simp_all add: settlements_left_bounds)
next
  case (Cons outcome outs)
  have "case map_of (waitingCalls (call_settled wasm k outcome w)) k of
      None \<Rightarrow> True | Some d \<Rightarrow> settlements_left (snd d) \<le> length outs"
  proof (cases "map_of (waitingCalls w) k")
    case None
    then show ?thesis by (simp add: call_settled_def)
  next
    case (Some c)
    with settlement_progresses [OF Some, of wasm outcome] Cons.prems show ?thesis by (auto split: option.splits)
  qed
  from Cons.IH [OF this] show ?case by simp
qed

text \<open>
  Every request gets one answer under its own identifier. At any time the identifiers answered
  and those still waiting are together those of the requests; an answer is what the module computes for the
  request, or an error; three settled promises answer a call, whatever they bring; a module that is
  loaded is not imported again, and after a failure the next request imports it again.
\<close>

theorem worker_answers_each_request:
  fixes es :: "worker_event list" and wasm :: CrdtWasmModule
  defines "w \<equiv> fold (crdt_worker_step wasm) es new_CrdtWorker"
  shows "mset (map responseId (posted w)) + waiting_ids w = mset (map requestId (messages es)) \<and>
    list_all (\<lambda>r. list_ex (\<lambda>msg. answers wasm msg r) (messages es)) (posted w) \<and>
    map_of (waitingCalls (fold (call_settled wasm k) [o1, o2, o3] w)) k = None \<and>
    importsStarted (worker_message msg w) = importsStarted w + (if wasmLoaded w then 0 else 1)"
proof -
  have "worker_inv wasm [] new_CrdtWorker" by (simp add: worker_inv_def new_CrdtWorker_def waiting_ids_def)
  from worker_run_inv [OF this, of es] have inv: "worker_inv wasm (messages es) w" by (simp add: w_def)
  have "case map_of (waitingCalls w) k of None \<Rightarrow> True | Some c \<Rightarrow> settlements_left (snd c) \<le> length [o1, o2, o3]"
    using settlements_left_bounds(2) by (simp add: eval_nat_numeral split: option.split)
  from enough_settlements [OF this] inv show ?thesis
    by (auto simp: worker_inv_def list_all_iff list_ex_iff worker_message_def)
qed

end
