(* ===== verification/EmployeeAuth.thy ===== *)
theory EmployeeAuth
  imports PaymentBridge JsParse "HOL-Library.Word"
begin

text \<open>
  Employee authentication: the ceremony of the kiosk (\<open>apps/kiosk/src/webauthn/employeeAuth.ts\<close>) and the hook of the payment
  micro-frontend (\<open>apps/kiosk-payment/src/useWebAuthnEmployeeAuth.ts\<close>), with their base64url texts. What the browser's
  authenticator answers and SHA-256 are arguments.
\<close>

section \<open>The ceremony of the kiosk\<close>

record PublicKeyCredential =
  rawId :: "8 word list"
  assertionData :: "8 word list"
  assertionClientData :: "8 word list"
  assertionSignature :: "8 word list"
  assertionUserHandle :: "8 word list option"

record EmployeeAuthenticationResult =
  credentialId :: string
  authenticatorData :: string
  clientDataJSON :: string
  signature_text :: string
  userHandle :: "string option"

text \<open>The loop over the bytes, and the three replacements.\<close>

definition binary_string :: "8 word list \<Rightarrow> string" where
  "binary_string bs = map (\<lambda>b. char_of (unat b)) bs"

definition replace_all :: "char \<Rightarrow> char \<Rightarrow> string \<Rightarrow> string" where
  "replace_all c d s = map (\<lambda>x. if x = c then d else x) s"

definition strip_trailing :: "char \<Rightarrow> string \<Rightarrow> string" where
  "strip_trailing c s = rev (dropWhile (\<lambda>x. x = c) (rev s))"

definition arrayBufferToBase64Url :: "8 word list \<Rightarrow> string" where
  "arrayBufferToBase64Url buffer =
     strip_trailing (CHR ''='') (replace_all (CHR ''/'') (CHR ''_'') (replace_all (CHR ''+'') (CHR ''-'')
       (btoa (binary_string buffer))))"

text \<open>The property of the window object: no window, property absent, present with a falsy or a truthy value.\<close>

datatype window_property = NoWindow | Absent | Falsy | Truthy

definition isWebAuthnAvailable :: "window_property \<Rightarrow> bool" where
  "isWebAuthnAvailable w \<longleftrightarrow> w = Truthy"

text \<open>The engine's error for an undeclared variable.\<close>

definition window_missing :: thrown where
  "window_missing = new_Error ''window is not defined''"

definition authenticateEmployee ::
    "window_property \<Rightarrow> thrown + PublicKeyCredential option \<Rightarrow> thrown + EmployeeAuthenticationResult" where
  "authenticateEmployee w answer =
     (if w = NoWindow then Inl window_missing
      else if w = Absent then Inl (new_Error ''WebAuthn is not supported on this device'')
      else case answer of
        Inl e \<Rightarrow> Inl e
      | Inr None \<Rightarrow> Inl (new_Error ''Employee authentication was cancelled or failed'')
      | Inr (Some c) \<Rightarrow>
          Inr \<lparr>credentialId = arrayBufferToBase64Url (rawId c),
               authenticatorData = arrayBufferToBase64Url (assertionData c),
               clientDataJSON = arrayBufferToBase64Url (assertionClientData c),
               signature_text = arrayBufferToBase64Url (assertionSignature c),
               userHandle = map_option arrayBufferToBase64Url (assertionUserHandle c)\<rparr>)"

section \<open>The hook of the payment micro-frontend\<close>

definition bufferToBase64Url :: "8 word list \<Rightarrow> string" where
  "bufferToBase64Url buffer =
     strip_trailing (CHR ''='') (replace_all (CHR ''/'') (CHR ''_'') (replace_all (CHR ''+'') (CHR ''-'')
       (btoa (binary_string buffer))))"

definition base64UrlToBuffer :: "string \<Rightarrow> thrown + 8 word list" where
  "base64UrlToBuffer base64Url =
     (let base64 = replace_all (CHR ''_'') (CHR ''/'') (replace_all (CHR ''-'') (CHR ''+'') base64Url);
          padded = base64 @ replicate ((4 - length base64 mod 4) mod 4) (CHR ''='')
      in case atob padded of
           None \<Rightarrow> Inl (ThrownError ((mk_error ''The string to be decoded is not correctly encoded.'')
                     \<lparr>errKind := DomErr ''InvalidCharacterError''\<rparr>))
         | Some binary \<Rightarrow> Inr (map (\<lambda>c. of_nat (of_char c)) binary))"

definition sha256Hex :: "(8 word list \<Rightarrow> 8 word list) \<Rightarrow> 8 word list \<Rightarrow> string" where
  "sha256Hex sha256 buffer = concat (map (\<lambda>b. byte_hex (unat b)) (sha256 buffer))"

record EmployeeAuthResult =
  employeeIdHash :: string
  authCredentialId :: string

text \<open>
  A call of \<open>authenticate\<close> waits for the authenticator or for the digest. The state has the two states of
  the hook, the waiting calls, the challenges handed to the authenticator and the settled results.
\<close>

datatype employee_wait = AwaitCredential | AwaitDigest "8 word list"

record EmployeeHook =
  isAuthenticating :: bool
  authError :: "string option"
  employeeCalls :: "(nat \<times> employee_wait) list"
  nextEmployeeCall :: nat
  challenges :: "8 word list list"
  employeeResults :: "(nat \<times> (thrown + EmployeeAuthResult)) list"

definition new_EmployeeHook :: EmployeeHook where
  "new_EmployeeHook = \<lparr>isAuthenticating = False, authError = None, employeeCalls = [], nextEmployeeCall = 0,
     challenges = [], employeeResults = []\<rparr>"

text \<open>The \<open>catch\<close> and \<open>finally\<close> of a call, and its normal end.\<close>

definition employee_failed :: "nat \<Rightarrow> thrown \<Rightarrow> EmployeeHook \<Rightarrow> EmployeeHook" where
  "employee_failed k e h =
     h\<lparr>authError := Some (case e of ThrownError err \<Rightarrow> errMessage err | ThrownOther _ \<Rightarrow> ''Unknown WebAuthn error''),
       isAuthenticating := False, employeeCalls := filter (\<lambda>c. fst c \<noteq> k) (employeeCalls h),
       employeeResults := employeeResults h @ [(k, Inl e)]\<rparr>"

definition employee_done :: "nat \<Rightarrow> EmployeeAuthResult \<Rightarrow> EmployeeHook \<Rightarrow> EmployeeHook" where
  "employee_done k r h =
     h\<lparr>isAuthenticating := False, employeeCalls := filter (\<lambda>c. fst c \<noteq> k) (employeeCalls h),
       employeeResults := employeeResults h @ [(k, Inr r)]\<rparr>"

definition authenticate :: "bool \<Rightarrow> string \<Rightarrow> EmployeeHook \<Rightarrow> EmployeeHook" where
  "authenticate supported challengeFromServer h =
     (let k = nextEmployeeCall h;
          h1 = h\<lparr>isAuthenticating := True, authError := None, nextEmployeeCall := k + 1\<rparr>
      in if \<not> supported then employee_failed k (new_Error ''WebAuthn not supported on this kiosk browser build'') h1
         else case base64UrlToBuffer challengeFromServer of
           Inl e \<Rightarrow> employee_failed k e h1
         | Inr challenge \<Rightarrow>
             h1\<lparr>employeeCalls := employeeCalls h1 @ [(k, AwaitCredential)], challenges := challenges h1 @ [challenge]\<rparr>)"

text \<open>The authenticator answers with nothing, with a credential that has no \<open>rawId\<close>, or with one that has.\<close>

definition credential_answered ::
    "nat \<Rightarrow> thrown + 8 word list option option \<Rightarrow> EmployeeHook \<Rightarrow> EmployeeHook" where
  "credential_answered k answer h =
     (if map_of (employeeCalls h) k \<noteq> Some AwaitCredential then h
      else case answer of
        Inl e \<Rightarrow> employee_failed k e h
      | Inr (Some (Some raw)) \<Rightarrow>
          h\<lparr>employeeCalls := map (\<lambda>c. if fst c = k then (k, AwaitDigest raw) else c) (employeeCalls h)\<rparr>
      | Inr _ \<Rightarrow> employee_failed k (new_Error ''Authentication cancelled or failed'') h)"

definition digest_settled ::
    "(8 word list \<Rightarrow> 8 word list) \<Rightarrow> nat \<Rightarrow> thrown option \<Rightarrow> EmployeeHook \<Rightarrow> EmployeeHook" where
  "digest_settled sha256 k failure h =
     (case map_of (employeeCalls h) k of
        Some (AwaitDigest raw) \<Rightarrow>
          (case failure of
             Some e \<Rightarrow> employee_failed k e h
           | None \<Rightarrow>
               employee_done k \<lparr>employeeIdHash = sha256Hex sha256 raw, authCredentialId = bufferToBase64Url raw\<rparr> h)
      | _ \<Rightarrow> h)"

datatype employee_event =
    Authenticate bool string
  | CredentialAnswered nat "thrown + 8 word list option option"
  | DigestSettled nat "thrown option"

fun employee_step :: "(8 word list \<Rightarrow> 8 word list) \<Rightarrow> employee_event \<Rightarrow> EmployeeHook \<Rightarrow> EmployeeHook" where
  "employee_step sha256 (Authenticate supported challenge) h = authenticate supported challenge h"
| "employee_step sha256 (CredentialAnswered k answer) h = credential_answered k answer h"
| "employee_step sha256 (DigestSettled k failure) h = digest_settled sha256 k failure h"

section \<open>The texts\<close>

definition url_safe :: "char \<Rightarrow> bool" where
  "url_safe c \<longleftrightarrow> (let n = (of_char c :: nat) in n \<in> {45, 95} \<union> {48..57} \<union> {65..90} \<union> {97..122})"

definition byte_values :: "8 word list \<Rightarrow> nat list" where
  "byte_values bs = map unat bs"

lemma byte_less: "unat w < 256" for w :: "8 word"
  using unsigned_less [of w, where ?'a = nat] by simp

lemma byte_char: "of_char (char_of (unat w)) = unat w" for w :: "8 word"
  using byte_less [of w] by (simp add: of_char_of)

lemma byte_values_less: "list_all (\<lambda>b. b < 256) (byte_values bs)"
  by (simp add: byte_values_def list_all_iff byte_less)

lemma sextets_of_bytes: "x \<in> set (sextets (byte_values bs)) \<Longrightarrow> x < 64"
  using sextets_less [OF byte_values_less] by (auto simp: list_all_iff)

lemma btoa_binary: "btoa (binary_string bs) = btoa_bytes (byte_values bs)"
  by (simp add: btoa_def binary_string_def byte_values_def comp_def byte_char del: of_char_of)

lemma strip_trailing_replicate:
  assumes "c \<notin> set t"
  shows "strip_trailing c (t @ replicate n c) = t"
proof -
  have "dropWhile (\<lambda>x. x = c) (rev t) = rev t" using assms by (cases "rev t") (force dest: arg_cong [of _ _ set])+
  moreover have "dropWhile (\<lambda>x. x = c) (replicate n c @ rev t) = dropWhile (\<lambda>x. x = c) (rev t)"
    by (induction n) simp_all
  ultimately show ?thesis by (simp add: strip_trailing_def)
qed

lemma base64url_sextets:
  "arrayBufferToBase64Url bs =
     replace_all (CHR ''/'') (CHR ''_'') (replace_all (CHR ''+'') (CHR ''-'') (map b64_char (sextets (byte_values bs))))"
proof -
  let ?t = "map b64_char (sextets (byte_values bs))"
  have "CHR ''='' \<notin> set ?t" using sextets_of_bytes b64_char_other(2) by fastforce
  then have "CHR ''='' \<notin> set (replace_all (CHR ''/'') (CHR ''_'') (replace_all (CHR ''+'') (CHR ''-'') ?t))"
    by (auto simp: replace_all_def)
  moreover have "replace_all c d (u @ v) = replace_all c d u @ replace_all c d v" for c d u v
    by (simp add: replace_all_def)
  moreover have "replace_all c d (replicate n (CHR ''='')) = replicate n (CHR ''='')" if "c \<noteq> CHR ''=''" for c d n
    using that by (simp add: replace_all_def)
  ultimately show ?thesis
    by (simp add: arrayBufferToBase64Url_def btoa_binary btoa_bytes_sextets strip_trailing_replicate)
qed

lemma replace_back:
  assumes "CHR ''_'' \<notin> set t" "CHR ''-'' \<notin> set t"
  shows "replace_all (CHR ''_'') (CHR ''/'') (replace_all (CHR ''-'') (CHR ''+'')
    (replace_all (CHR ''/'') (CHR ''_'') (replace_all (CHR ''+'') (CHR ''-'') t))) = t"
  using assms by (auto simp: replace_all_def intro!: map_idI)

lemma b64_not_url:
  assumes "n < 64"
  shows "b64_char n \<noteq> CHR ''_''" "b64_char n \<noteq> CHR ''-''"
proof -
  have "(of_char (b64_char n) :: nat) \<notin> {45, 95}" using b64_char_codes [OF assms] by auto
  then show "b64_char n \<noteq> CHR ''_''" "b64_char n \<noteq> CHR ''-''" by auto
qed

lemma padding_of_length:
  fixes n p :: nat
  assumes "p \<le> 2" "(n + p) mod 4 = 0"
  shows "(4 - n mod 4) mod 4 = p"
proof -
  define r where "r = n mod 4"
  have "(r + p) mod 4 = 0" using assms(2) by (simp add: r_def mod_add_left_eq)
  moreover have "r + p < 6" using assms(1) by (simp add: r_def)
  ultimately have "r + p = 0 \<or> r + p = 4" by presburger
  then have "(4 - r) mod 4 = p" using assms(1) by auto
  then show ?thesis by (simp add: r_def)
qed

lemma base64url_decodes: "base64UrlToBuffer (arrayBufferToBase64Url bs) = Inr bs"
proof -
  let ?t = "map b64_char (sextets (byte_values bs))"
  have "CHR ''_'' \<notin> set ?t" "CHR ''-'' \<notin> set ?t" using sextets_of_bytes b64_not_url by fastforce+
  then have undone: "replace_all (CHR ''_'') (CHR ''/'') (replace_all (CHR ''-'') (CHR ''+'') (arrayBufferToBase64Url bs)) = ?t"
    unfolding base64url_sextets by (rule replace_back)
  have "(4 - length ?t mod 4) mod 4 = padding (byte_values bs)"
    using sextets_padding [of "byte_values bs"] by (intro padding_of_length) simp_all
  then have padded: "?t @ replicate ((4 - length ?t mod 4) mod 4) (CHR ''='') = btoa (binary_string bs)"
    by (simp only: btoa_binary btoa_bytes_sextets)
  have "of_nat (of_char (char_of (unat w))) = w" for w :: "8 word" by (simp add: byte_char del: of_char_of)
  then show ?thesis
    unfolding base64UrlToBuffer_def Let_def undone padded atob_btoa by (simp add: binary_string_def comp_def)
qed

lemma same_encoding: "bufferToBase64Url = arrayBufferToBase64Url"
  by (rule ext) (simp add: bufferToBase64Url_def arrayBufferToBase64Url_def)

lemma url_char_safe:
  assumes "n < 64" and "d = (if b64_char n = CHR ''+'' then CHR ''-'' else b64_char n)"
  shows "url_safe (if d = CHR ''/'' then CHR ''_'' else d)"
proof (cases "b64_char n = CHR ''/'' \<or> b64_char n = CHR ''+''")
  case False
  then have "(of_char (b64_char n) :: nat) \<noteq> 47 \<and> (of_char (b64_char n) :: nat) \<noteq> 43"
    using of_char_eq_iff [where ?'a = nat, of "b64_char n" "CHR ''/''"]
      of_char_eq_iff [where ?'a = nat, of "b64_char n" "CHR ''+''"] by simp
  with b64_char_codes [OF assms(1)] False assms(2) show ?thesis unfolding url_safe_def Let_def by simp
qed (use assms(2) in \<open>auto simp: url_safe_def\<close>)

lemma base64url_safe: "list_all url_safe (arrayBufferToBase64Url bs)"
proof -
  have "url_safe x" if "x \<in> set (arrayBufferToBase64Url bs)" for x
  proof -
    from that obtain n where n: "n \<in> set (sextets (byte_values bs))"
      and x: "x = (let d = (if b64_char n = CHR ''+'' then CHR ''-'' else b64_char n) in if d = CHR ''/'' then CHR ''_'' else d)"
      unfolding base64url_sextets replace_all_def set_map Let_def by blast
    show ?thesis unfolding x Let_def by (rule url_char_safe [OF sextets_of_bytes [OF n] refl])
  qed
  then show ?thesis by (simp add: list_all_iff)
qed

text \<open>
  What the employee's authenticator signed reaches the receiver unchanged. A result carries each buffer of
  the credential as text of the URL alphabet that decodes to the buffer, so no two credentials look alike; there is a result
  exactly when the browser gave a credential, and the three ways to fail have their own errors.
\<close>

theorem employee_assertion_roundtrip:
  "(case authenticateEmployee w answer of
      Inr r \<Rightarrow>
        (\<exists>c. answer = Inr (Some c) \<and>
           base64UrlToBuffer (credentialId r) = Inr (rawId c) \<and>
           base64UrlToBuffer (authenticatorData r) = Inr (assertionData c) \<and>
           base64UrlToBuffer (clientDataJSON r) = Inr (assertionClientData c) \<and>
           base64UrlToBuffer (signature_text r) = Inr (assertionSignature c) \<and>
           map_option base64UrlToBuffer (userHandle r) = map_option Inr (assertionUserHandle c) \<and>
           list_all url_safe (credentialId r @ authenticatorData r @ clientDataJSON r @ signature_text r))
    | Inl e \<Rightarrow>
        (if isWebAuthnAvailable w
         then e = (case answer of Inl e' \<Rightarrow> e' | Inr _ \<Rightarrow> new_Error ''Employee authentication was cancelled or failed'') \<and>
              (\<forall>c. answer \<noteq> Inr (Some c))
         else w = Falsy \<or> e = window_missing \<or> e = new_Error ''WebAuthn is not supported on this device''))"
  by (cases w) (auto simp: authenticateEmployee_def isWebAuthnAvailable_def base64url_decodes base64url_safe option.map_comp comp_def
      split: sum.split option.split)

section \<open>The hook\<close>

text \<open>Every call has an identifier of its own, waits or has settled, and a result is what a credential gives.\<close>

definition employee_inv :: "(8 word list \<Rightarrow> 8 word list) \<Rightarrow> EmployeeHook \<Rightarrow> bool" where
  "employee_inv sha256 h \<longleftrightarrow>
     distinct (map fst (employeeCalls h) @ map fst (employeeResults h)) \<and>
     set (map fst (employeeCalls h) @ map fst (employeeResults h)) = {..<nextEmployeeCall h} \<and>
     (employeeCalls h = [] \<longrightarrow> \<not> isAuthenticating h) \<and>
     (\<forall>k r. (k, Inr r) \<in> set (employeeResults h) \<longrightarrow>
        (\<exists>raw. base64UrlToBuffer (authCredentialId r) = Inr raw \<and> employeeIdHash r = sha256Hex sha256 raw))"

lemma settled_ids:
  assumes "distinct (map fst cs @ map fst rs)" "k \<in> fst ` set cs"
  shows "distinct (map fst (filter (\<lambda>c. fst c \<noteq> k) cs) @ map fst (rs @ [(k, x)]))"
    "set (map fst (filter (\<lambda>c. fst c \<noteq> k) cs) @ map fst (rs @ [(k, x)])) = set (map fst cs @ map fst rs)"
  using assms by (auto simp: distinct_map_filter)

lemma employee_failed_inv:
  assumes "employee_inv sha256 h" "k \<in> fst ` set (employeeCalls h)"
  shows "employee_inv sha256 (employee_failed k e h)"
  using assms settled_ids [of "employeeCalls h" "employeeResults h" k "Inl e"]
  by (simp add: employee_inv_def employee_failed_def)

lemma employee_done_inv:
  assumes "employee_inv sha256 h" "k \<in> fst ` set (employeeCalls h)"
    and "base64UrlToBuffer (authCredentialId r) = Inr raw" "employeeIdHash r = sha256Hex sha256 raw"
  shows "employee_inv sha256 (employee_done k r h)"
  using assms settled_ids [of "employeeCalls h" "employeeResults h" k "Inr r"]
  by (auto simp: employee_inv_def employee_done_def)

lemma waiting_call: "map_of cs k = Some w \<Longrightarrow> k \<in> fst ` set cs"
  by (force dest: map_of_SomeD)

lemma credential_answered_inv:
  assumes "employee_inv sha256 h"
  shows "employee_inv sha256 (credential_answered k answer h)"
proof -
  have ids: "map fst (map (\<lambda>c. if fst c = k then (k, AwaitDigest raw) else c) cs) = map fst cs"
    for raw and cs :: "(nat \<times> employee_wait) list" by simp
  have "employee_inv sha256
      (h\<lparr>employeeCalls := map (\<lambda>c. if fst c = k then (k, AwaitDigest raw) else c) (employeeCalls h)\<rparr>)" for raw
    using assms unfolding employee_inv_def by (simp add: ids del: map_map set_map)
  then show ?thesis
    using assms waiting_call [of "employeeCalls h" k]
    by (auto simp: credential_answered_def intro: employee_failed_inv split: sum.split option.split)
qed

lemma digest_settled_inv:
  assumes "employee_inv sha256 h"
  shows "employee_inv sha256 (digest_settled sha256 k failure h)"
  using assms waiting_call [of "employeeCalls h" k] base64url_decodes
  by (auto simp: digest_settled_def same_encoding intro: employee_failed_inv employee_done_inv
      split: option.split employee_wait.split)

lemma authenticate_inv:
  assumes "employee_inv sha256 h"
  shows "employee_inv sha256 (authenticate supported challenge h)"
proof -
  have ids: "set (map fst (employeeCalls h) @ map fst (employeeResults h)) = {..<nextEmployeeCall h}"
    using assms by (simp add: employee_inv_def)
  then have fresh: "nextEmployeeCall h \<notin> fst ` set (employeeCalls h)" "nextEmployeeCall h \<notin> fst ` set (employeeResults h)"
    by auto
  from fresh(1) have "filter (\<lambda>c. fst c \<noteq> nextEmployeeCall h) (employeeCalls h) = employeeCalls h"
    by (auto simp: filter_id_conv image_iff)
  with assms fresh ids show ?thesis
    by (auto simp: authenticate_def Let_def employee_inv_def employee_failed_def lessThan_Suc split: sum.split)
qed

interpretation employee_hook: free_event_system "employee_step sha256" "employee_inv sha256" for sha256
proof
  show "employee_inv sha256 h \<Longrightarrow> employee_inv sha256 (employee_step sha256 e h)" for h e
    by (cases e) (simp_all add: authenticate_inv credential_answered_inv digest_settled_inv)
qed

text \<open>
  Every call of the hook settles at most once, and only a credential of the authenticator lets it
  succeed: calls that wait and calls that have settled are together the calls made, none twice; a result
  names the credential, with the digest of just this credential; once no call waits the busy mark is off.
  A challenge reaches the authenticator as the bytes that were encoded, and a text that is not base64url is
  refused before it.
\<close>

theorem employee_calls_settle_once:
  fixes es :: "employee_event list" and sha256 :: "8 word list \<Rightarrow> 8 word list"
  defines "h \<equiv> fold (employee_step sha256) es new_EmployeeHook"
  shows "distinct (map fst (employeeCalls h) @ map fst (employeeResults h)) \<and>
    set (map fst (employeeCalls h) @ map fst (employeeResults h)) = {..<nextEmployeeCall h} \<and>
    list_all (\<lambda>x. case snd x of
        Inl e \<Rightarrow> True
      | Inr r \<Rightarrow> (\<exists>raw. base64UrlToBuffer (authCredentialId r) = Inr raw \<and> employeeIdHash r = sha256Hex sha256 raw))
      (employeeResults h) \<and>
    \<not> (isAuthenticating h \<and> employeeCalls h = []) \<and>
    challenges (authenticate True (bufferToBase64Url challenge) h) = challenges h @ [challenge]"
proof -
  have "employee_inv sha256 new_EmployeeHook" by (simp add: employee_inv_def new_EmployeeHook_def)
  then have inv: "employee_inv sha256 h" unfolding h_def by (rule employee_hook.run)
  have "list_all (\<lambda>x. case snd x of
        Inl e \<Rightarrow> True
      | Inr r \<Rightarrow> (\<exists>raw. base64UrlToBuffer (authCredentialId r) = Inr raw \<and> employeeIdHash r = sha256Hex sha256 raw))
      (employeeResults h)"
    using inv by (auto simp: employee_inv_def list_all_iff split: sum.split)
  with inv show ?thesis
    by (simp add: employee_inv_def authenticate_def Let_def same_encoding base64url_decodes) blast
qed

lemma employee_hook_example:
  "employeeResults (fold (employee_step (\<lambda>b. b))
     [Authenticate True ''AQI'', CredentialAnswered 0 (Inr (Some (Some [255]))), DigestSettled 0 None] new_EmployeeHook) =
   [(0, Inr \<lparr>employeeIdHash = ''ff'', authCredentialId = ''_w''\<rparr>)]"
  by code_simp

end
