(* ===== verification/Tables.thy ===== *)
theory Tables
  imports Prelude "HOL-Library.Multiset"
begin

text \<open>
  The tables of the database, as \<open>database/schemas/drizzle.ts\<close> declares them to the drizzle package: enumerations,
  columns with the chain of their modifiers, constraints and relations, each one value. The last section
  says when such declarations fit together and proves that these do.
\<close>

section \<open>The language of the declarations\<close>

datatype columnType =
    Uuid | Varchar nat | TextType | Integer | BigintNumber | Boolean | Decimal nat nat | TimestampTz | Jsonb | Inet
  | CustomType string
  | EnumType string "string list"

datatype columnDefault = DefaultText string | DefaultBool bool | DefaultInt int | DefaultSql string

text \<open>\<open>references(() => t.c, { onDelete })\<close> names the exported table and the key of its column.\<close>

datatype modifier =
    PrimaryKey | DefaultRandom | DefaultNow | NotNull | UniqueColumn
  | Default columnDefault
  | References string string "string option"

datatype Column = Column (colKey: string) (colName: string) (colType: columnType) (modifiers: "modifier list")

datatype sql = SqlText string | SqlColumn string

text \<open>Name, columns, access method and condition of an index.\<close>

datatype constraint =
    UniqueOn string "string list"
  | IndexOn string "string list" "string option" "sql list"
  | UniqueIndexOn string "string list" "sql list"
  | PrimaryKeyOn "string list"

record Table =
  tableName :: string
  columns :: "Column list"
  constraints :: "constraint list"

text \<open>Name, target, fields and references as table and key, and relation name.\<close>

datatype relation =
    One string string "(string \<times> string) list" "(string \<times> string) list" "string option"
  | Many string string "string option"

definition quoted :: "string \<Rightarrow> string" where
  "quoted t = CHR 0x27 # t @ [CHR 0x27]"

section \<open>The declarations\<close>

definition bytea :: columnType where
  "bytea = CustomType ''bytea''"

definition tenantPlanEnum :: columnType where
  "tenantPlanEnum = EnumType ''tenant_plan''
     [''standard'', ''enterprise'']"

definition kioskSyncStatusEnum :: columnType where
  "kioskSyncStatusEnum = EnumType ''kiosk_sync_status''
     [''online'', ''offline'', ''degraded'', ''maintenance'']"

definition itemTaxCategoryEnum :: columnType where
  "itemTaxCategoryEnum = EnumType ''item_tax_category''
     [''standard'', ''exempt'', ''reduced'']"

definition weightUnitEnum :: columnType where
  "weightUnitEnum = EnumType ''weight_unit''
     [''g'', ''kg'', ''lb'', ''oz'']"

definition cartStatusEnum :: columnType where
  "cartStatusEnum = EnumType ''cart_status''
     [''active'', ''finalized'', ''abandoned'', ''expired'']"

definition orderStatusEnum :: columnType where
  "orderStatusEnum = EnumType ''order_status''
     [''pending'', ''paid'', ''fulfilled'', ''cancelled'', ''refunded'']"

definition paymentMethodEnum :: columnType where
  "paymentMethodEnum = EnumType ''payment_method''
     [''credit_debit'', ''nfc_apple_pay'', ''nfc_google_pay'', ''qr_code'', ''cash_recycler'']"

definition paymentStatusEnum :: columnType where
  "paymentStatusEnum = EnumType ''payment_status''
     [''pending'', ''authorized'', ''captured'', ''declined'', ''voided'', ''refunded'']"

definition employeeRoleEnum :: columnType where
  "employeeRoleEnum = EnumType ''employee_role''
     [''cashier'', ''supervisor'', ''manager'', ''admin'']"

definition auditEventTypeEnum :: columnType where
  "auditEventTypeEnum = EnumType ''audit_event_type''
     [''order_created'', ''order_paid'', ''order_refunded'', ''payment_processed'', ''inventory_adjusted'',
      ''employee_login'', ''employee_logout'', ''system_boot'', ''system_shutdown'', ''sync_event'',
      ''security_event'']"

definition inventoryTransactionTypeEnum :: columnType where
  "inventoryTransactionTypeEnum = EnumType ''inventory_transaction_type''
     [''sale'', ''restock'', ''adjustment'', ''reserved'', ''released'', ''waste'', ''return'']"

definition syncEventTypeEnum :: columnType where
  "syncEventTypeEnum = EnumType ''sync_event_type''
     [''inventory_update'', ''cart_merge'', ''transaction_batch'', ''analytics_batch'']"

definition refundStatusEnum :: columnType where
  "refundStatusEnum = EnumType ''refund_status''
     [''pending'', ''completed'', ''failed'']"

definition tenants_table :: Table where
  "tenants_table = \<lparr>tableName = ''tenants'',
     columns =
      [Column ''tenantId'' ''tenant_id'' Uuid [PrimaryKey, DefaultRandom],
       Column ''slug'' ''slug'' (Varchar 64) [NotNull, UniqueColumn],
       Column ''name'' ''name'' (Varchar 255) [NotNull],
       Column ''billingEmail'' ''billing_email'' (Varchar 255) [NotNull],
       Column ''plan'' ''plan'' tenantPlanEnum [NotNull, Default (DefaultText ''standard'')],
       Column ''isActive'' ''is_active'' Boolean [NotNull, Default (DefaultBool True)],
       Column ''createdAt'' ''created_at'' TimestampTz [NotNull, DefaultNow],
       Column ''updatedAt'' ''updated_at'' TimestampTz [NotNull, DefaultNow],
       Column ''deletedAt'' ''deleted_at'' TimestampTz []],
     constraints =
      [IndexOn ''idx_tenants_slug'' [''slug''] None [SqlColumn ''deletedAt'', SqlText '' IS NULL'']]\<rparr>"

definition locations_table :: Table where
  "locations_table = \<lparr>tableName = ''locations'',
     columns =
      [Column ''locationId'' ''location_id'' Uuid [PrimaryKey, DefaultRandom],
       Column ''tenantId'' ''tenant_id'' Uuid [NotNull, References ''tenants'' ''tenantId'' None],
       Column ''slug'' ''slug'' (Varchar 64) [NotNull],
       Column ''name'' ''name'' (Varchar 255) [NotNull],
       Column ''address'' ''address'' TextType [],
       Column ''timezone'' ''timezone'' (Varchar 64) [NotNull, Default (DefaultText ''UTC'')],
       Column ''currency'' ''currency'' (Varchar 3) [NotNull, Default (DefaultText ''USD'')],
       Column ''taxRate'' ''tax_rate'' (Decimal 5 4) [NotNull, Default (DefaultText ''0.0000'')],
       Column ''createdAt'' ''created_at'' TimestampTz [NotNull, DefaultNow],
       Column ''updatedAt'' ''updated_at'' TimestampTz [NotNull, DefaultNow],
       Column ''deletedAt'' ''deleted_at'' TimestampTz []],
     constraints =
      [UniqueOn ''locations_tenant_slug_unique'' [''tenantId'', ''slug''],
       IndexOn ''idx_locations_tenant'' [''tenantId'', ''deletedAt''] None [SqlColumn ''deletedAt'', SqlText '' IS NULL'']]\<rparr>"

definition lanes_table :: Table where
  "lanes_table = \<lparr>tableName = ''lanes'',
     columns =
      [Column ''laneId'' ''lane_id'' Uuid [PrimaryKey, DefaultRandom],
       Column ''locationId'' ''location_id'' Uuid [NotNull, References ''locations'' ''locationId'' None],
       Column ''displayName'' ''display_name'' (Varchar 64) [NotNull],
       Column ''laneNumber'' ''lane_number'' Integer [NotNull],
       Column ''isActive'' ''is_active'' Boolean [NotNull, Default (DefaultBool True)],
       Column ''createdAt'' ''created_at'' TimestampTz [NotNull, DefaultNow],
       Column ''updatedAt'' ''updated_at'' TimestampTz [NotNull, DefaultNow],
       Column ''deletedAt'' ''deleted_at'' TimestampTz []],
     constraints =
      [UniqueOn ''lanes_location_number_unique'' [''locationId'', ''laneNumber''],
       IndexOn ''idx_lanes_location'' [''locationId'', ''deletedAt''] None [SqlColumn ''deletedAt'', SqlText '' IS NULL'']]\<rparr>"

definition stores_table :: Table where
  "stores_table = \<lparr>tableName = ''stores'',
     columns =
      [Column ''storeId'' ''store_id'' Uuid [PrimaryKey, DefaultRandom],
       Column ''tenantId'' ''tenant_id'' Uuid [References ''tenants'' ''tenantId'' None],
       Column ''locationId'' ''location_id'' Uuid [References ''locations'' ''locationId'' None],
       Column ''name'' ''name'' (Varchar 255) [NotNull],
       Column ''address'' ''address'' TextType [],
       Column ''timezone'' ''timezone'' (Varchar 64) [NotNull, Default (DefaultText ''UTC'')],
       Column ''currency'' ''currency'' (Varchar 3) [NotNull, Default (DefaultText ''USD'')],
       Column ''taxRate'' ''tax_rate'' (Decimal 5 4) [NotNull, Default (DefaultText ''0.0000'')],
       Column ''createdAt'' ''created_at'' TimestampTz [NotNull, DefaultNow],
       Column ''updatedAt'' ''updated_at'' TimestampTz [NotNull, DefaultNow],
       Column ''deletedAt'' ''deleted_at'' TimestampTz []],
     constraints =
      [IndexOn ''idx_stores_deleted_at'' [''deletedAt''] None [SqlColumn ''deletedAt'', SqlText '' IS NULL''],
       IndexOn ''idx_stores_tenant'' [''tenantId'', ''deletedAt''] None [SqlColumn ''deletedAt'', SqlText '' IS NULL''],
       IndexOn ''idx_stores_location'' [''locationId'', ''deletedAt''] None [SqlColumn ''deletedAt'', SqlText '' IS NULL'']]\<rparr>"

definition kiosks_table :: Table where
  "kiosks_table = \<lparr>tableName = ''kiosks'',
     columns =
      [Column ''kioskId'' ''kiosk_id'' Uuid [PrimaryKey, DefaultRandom],
       Column ''storeId'' ''store_id'' Uuid [NotNull, References ''stores'' ''storeId'' None],
       Column ''laneId'' ''lane_id'' Uuid [References ''lanes'' ''laneId'' None],
       Column ''tenantId'' ''tenant_id'' Uuid [References ''tenants'' ''tenantId'' None],
       Column ''hardwareId'' ''hardware_id'' (Varchar 64) [NotNull, UniqueColumn],
       Column ''displayName'' ''display_name'' (Varchar 64) [NotNull],
       Column ''ipAddress'' ''ip_address'' Inet [],
       Column ''lastSeenAt'' ''last_seen_at'' TimestampTz [],
       Column ''syncStatus'' ''sync_status'' kioskSyncStatusEnum [NotNull, Default (DefaultText ''online'')],
       Column ''isLeader'' ''is_leader'' Boolean [NotNull, Default (DefaultBool False)],
       Column ''signingKeyHash'' ''signing_key_hash'' (Varchar 64) [NotNull],
       Column ''firmwareVersion'' ''firmware_version'' (Varchar 32) [],
       Column ''createdAt'' ''created_at'' TimestampTz [NotNull, DefaultNow],
       Column ''updatedAt'' ''updated_at'' TimestampTz [NotNull, DefaultNow],
       Column ''deletedAt'' ''deleted_at'' TimestampTz []],
     constraints =
      [IndexOn ''idx_kiosks_store'' [''storeId'', ''deletedAt''] None [SqlColumn ''deletedAt'', SqlText '' IS NULL''],
       IndexOn ''idx_kiosks_leader'' [''storeId'', ''isLeader''] None [SqlColumn ''isLeader'', SqlText '' = TRUE AND '', SqlColumn ''deletedAt'', SqlText '' IS NULL''],
       UniqueIndexOn ''idx_kiosks_one_leader_per_store'' [''storeId''] [SqlColumn ''isLeader'', SqlText '' = TRUE AND '', SqlColumn ''deletedAt'', SqlText '' IS NULL''],
       IndexOn ''idx_kiosks_lane'' [''laneId'', ''deletedAt''] None [SqlColumn ''deletedAt'', SqlText '' IS NULL''],
       IndexOn ''idx_kiosks_tenant'' [''tenantId'', ''deletedAt''] None [SqlColumn ''deletedAt'', SqlText '' IS NULL'']]\<rparr>"

definition categories_table :: Table where
  "categories_table = \<lparr>tableName = ''categories'',
     columns =
      [Column ''categoryId'' ''category_id'' Uuid [PrimaryKey, DefaultRandom],
       Column ''storeId'' ''store_id'' Uuid [NotNull, References ''stores'' ''storeId'' None],
       Column ''parentId'' ''parent_id'' Uuid [References ''categories'' ''categoryId'' None],
       Column ''name'' ''name'' (Varchar 128) [NotNull],
       Column ''description'' ''description'' TextType [],
       Column ''displayOrder'' ''display_order'' Integer [NotNull, Default (DefaultInt 0)],
       Column ''imageUrl'' ''image_url'' (Varchar 512) [],
       Column ''blurhash'' ''blurhash'' (Varchar 32) [],
       Column ''isActive'' ''is_active'' Boolean [NotNull, Default (DefaultBool True)],
       Column ''createdAt'' ''created_at'' TimestampTz [NotNull, DefaultNow],
       Column ''updatedAt'' ''updated_at'' TimestampTz [NotNull, DefaultNow],
       Column ''deletedAt'' ''deleted_at'' TimestampTz []],
     constraints =
      [IndexOn ''idx_categories_store'' [''storeId'', ''displayOrder'', ''isActive''] None [SqlColumn ''deletedAt'', SqlText '' IS NULL'']]\<rparr>"

definition items_table :: Table where
  "items_table = \<lparr>tableName = ''items'',
     columns =
      [Column ''itemId'' ''item_id'' Uuid [PrimaryKey, DefaultRandom],
       Column ''storeId'' ''store_id'' Uuid [NotNull, References ''stores'' ''storeId'' None],
       Column ''categoryId'' ''category_id'' Uuid [NotNull, References ''categories'' ''categoryId'' None],
       Column ''name'' ''name'' (Varchar 255) [NotNull],
       Column ''description'' ''description'' TextType [],
       Column ''priceCents'' ''price_cents'' Integer [NotNull],
       Column ''costCents'' ''cost_cents'' Integer [],
       Column ''plu'' ''plu'' (Varchar 16) [],
       Column ''barcode'' ''barcode'' (Varchar 32) [],
       Column ''sku'' ''sku'' (Varchar 64) [],
       Column ''imageUrl'' ''image_url'' (Varchar 512) [],
       Column ''blurhash'' ''blurhash'' (Varchar 32) [],
       Column ''taxCategory'' ''tax_category'' itemTaxCategoryEnum [NotNull, Default (DefaultText ''standard'')],
       Column ''isWeightBased'' ''is_weight_based'' Boolean [NotNull, Default (DefaultBool False)],
       Column ''weightUnit'' ''weight_unit'' weightUnitEnum [],
       Column ''isActive'' ''is_active'' Boolean [NotNull, Default (DefaultBool True)],
       Column ''metadata'' ''metadata'' Jsonb [],
       Column ''createdAt'' ''created_at'' TimestampTz [NotNull, DefaultNow],
       Column ''updatedAt'' ''updated_at'' TimestampTz [NotNull, DefaultNow],
       Column ''deletedAt'' ''deleted_at'' TimestampTz []],
     constraints =
      [IndexOn ''idx_items_store_category'' [''storeId'', ''categoryId'', ''isActive''] None [SqlColumn ''deletedAt'', SqlText '' IS NULL''],
       IndexOn ''idx_items_barcode'' [''barcode''] None [SqlColumn ''barcode'', SqlText '' IS NOT NULL AND '', SqlColumn ''deletedAt'', SqlText '' IS NULL''],
       IndexOn ''idx_items_plu'' [''plu''] None [SqlColumn ''plu'', SqlText '' IS NOT NULL AND '', SqlColumn ''deletedAt'', SqlText '' IS NULL''],
       IndexOn ''idx_items_name_trgm'' [''name''] (Some ''gin'') []]\<rparr>"

definition modifierGroups_table :: Table where
  "modifierGroups_table = \<lparr>tableName = ''modifier_groups'',
     columns =
      [Column ''modifierGroupId'' ''modifier_group_id'' Uuid [PrimaryKey, DefaultRandom],
       Column ''storeId'' ''store_id'' Uuid [NotNull, References ''stores'' ''storeId'' None],
       Column ''name'' ''name'' (Varchar 128) [NotNull],
       Column ''description'' ''description'' TextType [],
       Column ''minSelect'' ''min_select'' Integer [NotNull, Default (DefaultInt 0)],
       Column ''maxSelect'' ''max_select'' Integer [NotNull, Default (DefaultInt 1)],
       Column ''displayOrder'' ''display_order'' Integer [NotNull, Default (DefaultInt 0)],
       Column ''isActive'' ''is_active'' Boolean [NotNull, Default (DefaultBool True)],
       Column ''createdAt'' ''created_at'' TimestampTz [NotNull, DefaultNow],
       Column ''updatedAt'' ''updated_at'' TimestampTz [NotNull, DefaultNow],
       Column ''deletedAt'' ''deleted_at'' TimestampTz []],
     constraints =
      []\<rparr>"

definition modifierOptions_table :: Table where
  "modifierOptions_table = \<lparr>tableName = ''modifier_options'',
     columns =
      [Column ''modifierOptionId'' ''modifier_option_id'' Uuid [PrimaryKey, DefaultRandom],
       Column ''modifierGroupId'' ''modifier_group_id'' Uuid [NotNull, References ''modifierGroups'' ''modifierGroupId'' None],
       Column ''name'' ''name'' (Varchar 128) [NotNull],
       Column ''priceDeltaCents'' ''price_delta_cents'' Integer [NotNull, Default (DefaultInt 0)],
       Column ''isDefault'' ''is_default'' Boolean [NotNull, Default (DefaultBool False)],
       Column ''displayOrder'' ''display_order'' Integer [NotNull, Default (DefaultInt 0)],
       Column ''isActive'' ''is_active'' Boolean [NotNull, Default (DefaultBool True)],
       Column ''createdAt'' ''created_at'' TimestampTz [NotNull, DefaultNow],
       Column ''updatedAt'' ''updated_at'' TimestampTz [NotNull, DefaultNow],
       Column ''deletedAt'' ''deleted_at'' TimestampTz []],
     constraints =
      []\<rparr>"

definition itemModifierGroups_table :: Table where
  "itemModifierGroups_table = \<lparr>tableName = ''item_modifier_groups'',
     columns =
      [Column ''itemId'' ''item_id'' Uuid [NotNull, References ''items'' ''itemId'' None],
       Column ''modifierGroupId'' ''modifier_group_id'' Uuid [NotNull, References ''modifierGroups'' ''modifierGroupId'' None],
       Column ''createdAt'' ''created_at'' TimestampTz [NotNull, DefaultNow]],
     constraints =
      [PrimaryKeyOn [''itemId'', ''modifierGroupId'']]\<rparr>"

definition inventory_table :: Table where
  "inventory_table = \<lparr>tableName = ''inventory'',
     columns =
      [Column ''inventoryId'' ''inventory_id'' Uuid [PrimaryKey, DefaultRandom],
       Column ''storeId'' ''store_id'' Uuid [NotNull, References ''stores'' ''storeId'' None],
       Column ''itemId'' ''item_id'' Uuid [NotNull, References ''items'' ''itemId'' None],
       Column ''quantityAvailable'' ''quantity_available'' Integer [NotNull, Default (DefaultInt 0)],
       Column ''quantityReserved'' ''quantity_reserved'' Integer [NotNull, Default (DefaultInt 0)],
       Column ''quantityOnOrder'' ''quantity_on_order'' Integer [NotNull, Default (DefaultInt 0)],
       Column ''reorderPoint'' ''reorder_point'' Integer [NotNull, Default (DefaultInt 0)],
       Column ''reorderQuantity'' ''reorder_quantity'' Integer [NotNull, Default (DefaultInt 0)],
       Column ''location'' ''location'' (Varchar 64) [],
       Column ''lastCountedAt'' ''last_counted_at'' TimestampTz [],
       Column ''updatedAt'' ''updated_at'' TimestampTz [NotNull, DefaultNow]],
     constraints =
      [UniqueOn ''inventory_store_item_unique'' [''storeId'', ''itemId''],
       IndexOn ''idx_inventory_store'' [''storeId''] None [],
       IndexOn ''idx_inventory_low_stock'' [''storeId'', ''quantityAvailable''] None [SqlColumn ''quantityAvailable'', SqlText '' <= '', SqlColumn ''reorderPoint'']]\<rparr>"

definition inventoryTransactions_table :: Table where
  "inventoryTransactions_table = \<lparr>tableName = ''inventory_transactions'',
     columns =
      [Column ''transactionId'' ''transaction_id'' Uuid [PrimaryKey, DefaultRandom],
       Column ''storeId'' ''store_id'' Uuid [NotNull, References ''stores'' ''storeId'' None],
       Column ''itemId'' ''item_id'' Uuid [NotNull, References ''items'' ''itemId'' None],
       Column ''transactionType'' ''transaction_type'' inventoryTransactionTypeEnum [NotNull],
       Column ''quantityDelta'' ''quantity_delta'' Integer [NotNull],
       Column ''runningBalance'' ''running_balance'' Integer [NotNull],
       Column ''referenceId'' ''reference_id'' Uuid [],
       Column ''referenceType'' ''reference_type'' (Varchar 32) [],
       Column ''kioskId'' ''kiosk_id'' Uuid [References ''kiosks'' ''kioskId'' None],
       Column ''employeeId'' ''employee_id'' Uuid [References ''employees'' ''employeeId'' None],
       Column ''notes'' ''notes'' (Varchar 500) [],
       Column ''createdAt'' ''created_at'' TimestampTz [NotNull, DefaultNow]],
     constraints =
      [IndexOn ''idx_inventory_transactions_store_item'' [''storeId'', ''itemId'', ''createdAt''] None [],
       IndexOn ''idx_inventory_transactions_reference'' [''referenceType'', ''referenceId''] None []]\<rparr>"

definition inventoryReservations_table :: Table where
  "inventoryReservations_table = \<lparr>tableName = ''inventory_reservations'',
     columns =
      [Column ''reservationId'' ''reservation_id'' Uuid [PrimaryKey, DefaultRandom],
       Column ''storeId'' ''store_id'' Uuid [NotNull, References ''stores'' ''storeId'' None],
       Column ''kioskId'' ''kiosk_id'' Uuid [NotNull, References ''kiosks'' ''kioskId'' None],
       Column ''itemId'' ''item_id'' Uuid [NotNull, References ''items'' ''itemId'' None],
       Column ''cartId'' ''cart_id'' Uuid [NotNull, References ''carts'' ''cartId'' None],
       Column ''quantity'' ''quantity'' Integer [NotNull],
       Column ''expiresAtMs'' ''expires_at_ms'' BigintNumber [NotNull],
       Column ''createdAtMs'' ''created_at_ms'' BigintNumber [NotNull]],
     constraints =
      [IndexOn ''idx_inventory_reservations_item'' [''itemId'', ''expiresAtMs''] None [],
       IndexOn ''idx_inventory_reservations_cart'' [''cartId''] None [],
       IndexOn ''idx_inventory_reservations_expires'' [''expiresAtMs''] None []]\<rparr>"

definition carts_table :: Table where
  "carts_table = \<lparr>tableName = ''carts'',
     columns =
      [Column ''cartId'' ''cart_id'' Uuid [PrimaryKey, DefaultRandom],
       Column ''storeId'' ''store_id'' Uuid [NotNull, References ''stores'' ''storeId'' None],
       Column ''kioskId'' ''kiosk_id'' Uuid [NotNull, References ''kiosks'' ''kioskId'' None],
       Column ''sessionId'' ''session_id'' Uuid [NotNull],
       Column ''customerPhone'' ''customer_phone'' (Varchar 16) [],
       Column ''status'' ''status'' cartStatusEnum [NotNull, Default (DefaultText ''active'')],
       Column ''finalized'' ''finalized'' Boolean [NotNull, Default (DefaultBool False)],
       Column ''version'' ''version'' Integer [NotNull, Default (DefaultInt 0)],
       Column ''totalCents'' ''total_cents'' Integer [NotNull, Default (DefaultInt 0)],
       Column ''taxCents'' ''tax_cents'' Integer [NotNull, Default (DefaultInt 0)],
       Column ''discountCents'' ''discount_cents'' Integer [NotNull, Default (DefaultInt 0)],
       Column ''finalTotalCents'' ''final_total_cents'' Integer [NotNull, Default (DefaultInt 0)],
       Column ''itemsJson'' ''items_json'' Jsonb [NotNull, Default (DefaultText ''[]'')],
       Column ''reservedInventory'' ''reserved_inventory'' Boolean [NotNull, Default (DefaultBool False)],
       Column ''expiresAt'' ''expires_at'' TimestampTz [NotNull, Default (DefaultSql (''NOW() + INTERVAL '' @ quoted ''10 minutes''))],
       Column ''createdAt'' ''created_at'' TimestampTz [NotNull, DefaultNow],
       Column ''updatedAt'' ''updated_at'' TimestampTz [NotNull, DefaultNow],
       Column ''createdAtMs'' ''created_at_ms'' BigintNumber [NotNull, Default (DefaultSql ''(EXTRACT(EPOCH FROM NOW()) * 1000)::BIGINT'')],
       Column ''updatedAtMs'' ''updated_at_ms'' BigintNumber [NotNull, Default (DefaultSql ''(EXTRACT(EPOCH FROM NOW()) * 1000)::BIGINT'')]],
     constraints =
      [IndexOn ''idx_carts_store_kiosk'' [''storeId'', ''kioskId'', ''status''] None [SqlColumn ''status'', SqlText ('' = '' @ quoted ''active'')],
       IndexOn ''idx_carts_session'' [''sessionId'', ''status''] None [SqlColumn ''status'', SqlText ('' = '' @ quoted ''active'')],
       IndexOn ''idx_carts_expires'' [''expiresAt''] None [SqlColumn ''status'', SqlText ('' = '' @ quoted ''active'')]]\<rparr>"

definition cartLines_table :: Table where
  "cartLines_table = \<lparr>tableName = ''cart_lines'',
     columns =
      [Column ''lineId'' ''line_id'' Uuid [PrimaryKey, DefaultRandom],
       Column ''cartId'' ''cart_id'' Uuid [NotNull, References ''carts'' ''cartId'' (Some ''cascade'')],
       Column ''menuItemId'' ''menu_item_id'' Uuid [NotNull, References ''items'' ''itemId'' None],
       Column ''nameSnapshot'' ''name_snapshot'' (Varchar 255) [NotNull],
       Column ''unitPriceCentsSnapshot'' ''unit_price_cents_snapshot'' Integer [NotNull],
       Column ''quantity'' ''quantity'' Integer [NotNull],
       Column ''modifiers'' ''modifiers'' Jsonb [NotNull, Default (DefaultText ''[]'')],
       Column ''addedAtMs'' ''added_at_ms'' BigintNumber [NotNull]],
     constraints =
      [IndexOn ''idx_cart_lines_cart'' [''cartId''] None []]\<rparr>"

definition orders_table :: Table where
  "orders_table = \<lparr>tableName = ''orders'',
     columns =
      [Column ''orderId'' ''order_id'' Uuid [PrimaryKey, DefaultRandom],
       Column ''storeId'' ''store_id'' Uuid [NotNull, References ''stores'' ''storeId'' None],
       Column ''kioskId'' ''kiosk_id'' Uuid [NotNull, References ''kiosks'' ''kioskId'' None],
       Column ''cartId'' ''cart_id'' Uuid [NotNull, References ''carts'' ''cartId'' None],
       Column ''orderNumber'' ''order_number'' (Varchar 16) [NotNull, UniqueColumn],
       Column ''status'' ''status'' orderStatusEnum [NotNull, Default (DefaultText ''pending'')],
       Column ''subtotalCents'' ''subtotal_cents'' Integer [NotNull, Default (DefaultInt 0)],
       Column ''taxCents'' ''tax_cents'' Integer [NotNull, Default (DefaultInt 0)],
       Column ''discountCents'' ''discount_cents'' Integer [NotNull, Default (DefaultInt 0)],
       Column ''totalCents'' ''total_cents'' Integer [NotNull, Default (DefaultInt 0)],
       Column ''itemsJson'' ''items_json'' Jsonb [NotNull, Default (DefaultText ''[]'')],
       Column ''taxBreakdownJson'' ''tax_breakdown_json'' Jsonb [],
       Column ''metadata'' ''metadata'' Jsonb [],
       Column ''paidAt'' ''paid_at'' TimestampTz [],
       Column ''fulfilledAt'' ''fulfilled_at'' TimestampTz [],
       Column ''cancelledAt'' ''cancelled_at'' TimestampTz [],
       Column ''createdAt'' ''created_at'' TimestampTz [NotNull, DefaultNow]],
     constraints =
      [IndexOn ''idx_orders_store'' [''storeId'', ''createdAt''] None [],
       IndexOn ''idx_orders_kiosk'' [''kioskId'', ''createdAt''] None [],
       IndexOn ''idx_orders_number'' [''orderNumber''] None [],
       IndexOn ''idx_orders_status'' [''storeId'', ''status'', ''createdAt''] None []]\<rparr>"

definition orderItems_table :: Table where
  "orderItems_table = \<lparr>tableName = ''order_items'',
     columns =
      [Column ''orderItemId'' ''order_item_id'' Uuid [PrimaryKey, DefaultRandom],
       Column ''orderId'' ''order_id'' Uuid [NotNull, References ''orders'' ''orderId'' None],
       Column ''itemId'' ''item_id'' Uuid [NotNull, References ''items'' ''itemId'' None],
       Column ''nameSnapshot'' ''name_snapshot'' (Varchar 255) [NotNull],
       Column ''priceCentsSnapshot'' ''price_cents_snapshot'' Integer [NotNull],
       Column ''quantity'' ''quantity'' Integer [NotNull],
       Column ''modifiersJson'' ''modifiers_json'' Jsonb [NotNull, Default (DefaultText ''[]'')],
       Column ''lineTotalCents'' ''line_total_cents'' Integer [NotNull],
       Column ''createdAt'' ''created_at'' TimestampTz [NotNull, DefaultNow]],
     constraints =
      [IndexOn ''idx_order_items_order'' [''orderId''] None []]\<rparr>"

definition payments_table :: Table where
  "payments_table = \<lparr>tableName = ''payments'',
     columns =
      [Column ''paymentId'' ''payment_id'' Uuid [PrimaryKey, DefaultRandom],
       Column ''orderId'' ''order_id'' Uuid [NotNull, References ''orders'' ''orderId'' None],
       Column ''kioskId'' ''kiosk_id'' Uuid [NotNull, References ''kiosks'' ''kioskId'' None],
       Column ''idempotencyKey'' ''idempotency_key'' Uuid [NotNull, UniqueColumn],
       Column ''amountCents'' ''amount_cents'' Integer [NotNull],
       Column ''currency'' ''currency'' (Varchar 3) [NotNull, Default (DefaultText ''USD'')],
       Column ''method'' ''method'' paymentMethodEnum [NotNull],
       Column ''status'' ''status'' paymentStatusEnum [NotNull, Default (DefaultText ''pending'')],
       Column ''verifoneToken'' ''verifone_token'' (Varchar 255) [],
       Column ''verifoneAuthCode'' ''verifone_auth_code'' (Varchar 16) [],
       Column ''cardBrand'' ''card_brand'' (Varchar 16) [],
       Column ''cardLastFour'' ''card_last_four'' (Varchar 4) [],
       Column ''declineReason'' ''decline_reason'' (Varchar 255) [],
       Column ''receiptText'' ''receipt_text'' TextType [],
       Column ''isOfflineToken'' ''is_offline_token'' Boolean [NotNull, Default (DefaultBool False)],
       Column ''offlineTokenHmac'' ''offline_token_hmac'' (Varchar 64) [],
       Column ''syncedAt'' ''synced_at'' TimestampTz [],
       Column ''createdAt'' ''created_at'' TimestampTz [NotNull, DefaultNow],
       Column ''updatedAt'' ''updated_at'' TimestampTz [NotNull, DefaultNow]],
     constraints =
      [IndexOn ''idx_payments_order'' [''orderId''] None [],
       IndexOn ''idx_payments_kiosk'' [''kioskId'', ''createdAt''] None [],
       IndexOn ''idx_payments_offline'' [''isOfflineToken'', ''syncedAt''] None [SqlColumn ''isOfflineToken'', SqlText '' = TRUE AND '', SqlColumn ''syncedAt'', SqlText '' IS NULL''],
       IndexOn ''idx_payments_idempotency'' [''idempotencyKey''] None []]\<rparr>"

definition refunds_table :: Table where
  "refunds_table = \<lparr>tableName = ''refunds'',
     columns =
      [Column ''refundId'' ''refund_id'' Uuid [PrimaryKey, DefaultRandom],
       Column ''paymentId'' ''payment_id'' Uuid [NotNull, References ''payments'' ''paymentId'' None],
       Column ''orderId'' ''order_id'' Uuid [NotNull, References ''orders'' ''orderId'' None],
       Column ''kioskId'' ''kiosk_id'' Uuid [NotNull, References ''kiosks'' ''kioskId'' None],
       Column ''amountCents'' ''amount_cents'' Integer [NotNull],
       Column ''currency'' ''currency'' (Varchar 3) [NotNull, Default (DefaultText ''USD'')],
       Column ''reason'' ''reason'' (Varchar 255) [NotNull],
       Column ''status'' ''status'' refundStatusEnum [NotNull, Default (DefaultText ''pending'')],
       Column ''verifoneReference'' ''verifone_reference'' (Varchar 255) [],
       Column ''processedBy'' ''processed_by'' Uuid [References ''employees'' ''employeeId'' None],
       Column ''createdAt'' ''created_at'' TimestampTz [NotNull, DefaultNow],
       Column ''updatedAt'' ''updated_at'' TimestampTz [NotNull, DefaultNow]],
     constraints =
      [IndexOn ''idx_refunds_payment'' [''paymentId''] None [],
       IndexOn ''idx_refunds_order'' [''orderId'', ''createdAt''] None []]\<rparr>"

definition offlineTokens_table :: Table where
  "offlineTokens_table = \<lparr>tableName = ''offline_tokens'',
     columns =
      [Column ''tokenId'' ''token_id'' Uuid [PrimaryKey, DefaultRandom],
       Column ''storeId'' ''store_id'' Uuid [NotNull, References ''stores'' ''storeId'' None],
       Column ''kioskId'' ''kiosk_id'' Uuid [NotNull, References ''kiosks'' ''kioskId'' None],
       Column ''cartId'' ''cart_id'' Uuid [NotNull],
       Column ''amountCents'' ''amount_cents'' Integer [NotNull],
       Column ''currency'' ''currency'' (Varchar 3) [NotNull, Default (DefaultText ''USD'')],
       Column ''method'' ''method'' (Varchar 16) [NotNull],
       Column ''verifoneOpaqueToken'' ''verifone_opaque_token'' (Varchar 255) [NotNull],
       Column ''hmacSignature'' ''hmac_signature'' (Varchar 64) [NotNull],
       Column ''expiresAt'' ''expires_at'' TimestampTz [NotNull],
       Column ''settledAt'' ''settled_at'' TimestampTz [],
       Column ''settlementResult'' ''settlement_result'' Jsonb [],
       Column ''createdAt'' ''created_at'' TimestampTz [NotNull, DefaultNow],
       Column ''updatedAt'' ''updated_at'' TimestampTz [NotNull, DefaultNow]],
     constraints =
      [IndexOn ''idx_offline_tokens_store'' [''storeId'', ''settledAt''] None [SqlColumn ''settledAt'', SqlText '' IS NULL''],
       IndexOn ''idx_offline_tokens_expires'' [''expiresAt''] None [SqlColumn ''settledAt'', SqlText '' IS NULL'']]\<rparr>"

definition employees_table :: Table where
  "employees_table = \<lparr>tableName = ''employees'',
     columns =
      [Column ''employeeId'' ''employee_id'' Uuid [PrimaryKey, DefaultRandom],
       Column ''storeId'' ''store_id'' Uuid [NotNull, References ''stores'' ''storeId'' None],
       Column ''name'' ''name'' (Varchar 128) [NotNull],
       Column ''email'' ''email'' (Varchar 255) [NotNull],
       Column ''role'' ''role'' employeeRoleEnum [NotNull, Default (DefaultText ''cashier'')],
       Column ''biometricHash'' ''biometric_hash'' (Varchar 64) [],
       Column ''webauthnCredentialId'' ''webauthn_credential_id'' (Varchar 255) [],
       Column ''webauthnPublicKey'' ''webauthn_public_key'' bytea [],
       Column ''isActive'' ''is_active'' Boolean [NotNull, Default (DefaultBool True)],
       Column ''lastLoginAt'' ''last_login_at'' TimestampTz [],
       Column ''createdAt'' ''created_at'' TimestampTz [NotNull, DefaultNow],
       Column ''updatedAt'' ''updated_at'' TimestampTz [NotNull, DefaultNow],
       Column ''deletedAt'' ''deleted_at'' TimestampTz []],
     constraints =
      [IndexOn ''idx_employees_store'' [''storeId'', ''isActive''] None [SqlColumn ''deletedAt'', SqlText '' IS NULL''],
       UniqueIndexOn ''idx_employees_email'' [''email''] [SqlColumn ''deletedAt'', SqlText '' IS NULL'']]\<rparr>"

definition roles_table :: Table where
  "roles_table = \<lparr>tableName = ''roles'',
     columns =
      [Column ''roleId'' ''role_id'' Uuid [PrimaryKey, DefaultRandom],
       Column ''tenantId'' ''tenant_id'' Uuid [NotNull, References ''tenants'' ''tenantId'' None],
       Column ''name'' ''name'' (Varchar 64) [NotNull],
       Column ''description'' ''description'' TextType [],
       Column ''isSystem'' ''is_system'' Boolean [NotNull, Default (DefaultBool False)],
       Column ''createdAt'' ''created_at'' TimestampTz [NotNull, DefaultNow],
       Column ''updatedAt'' ''updated_at'' TimestampTz [NotNull, DefaultNow]],
     constraints =
      [UniqueOn ''roles_tenant_name_unique'' [''tenantId'', ''name''],
       IndexOn ''idx_roles_tenant'' [''tenantId''] None []]\<rparr>"

definition permissions_table :: Table where
  "permissions_table = \<lparr>tableName = ''permissions'',
     columns =
      [Column ''permissionId'' ''permission_id'' Uuid [PrimaryKey, DefaultRandom],
       Column ''resource'' ''resource'' (Varchar 64) [NotNull],
       Column ''action'' ''action'' (Varchar 64) [NotNull],
       Column ''description'' ''description'' TextType []],
     constraints =
      [UniqueOn ''permissions_resource_action_unique'' [''resource'', ''action'']]\<rparr>"

definition rolePermissions_table :: Table where
  "rolePermissions_table = \<lparr>tableName = ''role_permissions'',
     columns =
      [Column ''roleId'' ''role_id'' Uuid [NotNull, References ''roles'' ''roleId'' (Some ''cascade'')],
       Column ''permissionId'' ''permission_id'' Uuid [NotNull, References ''permissions'' ''permissionId'' (Some ''cascade'')],
       Column ''createdAt'' ''created_at'' TimestampTz [NotNull, DefaultNow]],
     constraints =
      [PrimaryKeyOn [''roleId'', ''permissionId'']]\<rparr>"

definition users_table :: Table where
  "users_table = \<lparr>tableName = ''users'',
     columns =
      [Column ''userId'' ''user_id'' Uuid [PrimaryKey, DefaultRandom],
       Column ''tenantId'' ''tenant_id'' Uuid [NotNull, References ''tenants'' ''tenantId'' None],
       Column ''email'' ''email'' (Varchar 255) [NotNull],
       Column ''name'' ''name'' (Varchar 128) [NotNull],
       Column ''roleId'' ''role_id'' Uuid [NotNull, References ''roles'' ''roleId'' None],
       Column ''isActive'' ''is_active'' Boolean [NotNull, Default (DefaultBool True)],
       Column ''webauthnCredentialId'' ''webauthn_credential_id'' (Varchar 255) [],
       Column ''webauthnPublicKey'' ''webauthn_public_key'' bytea [],
       Column ''lastLoginAt'' ''last_login_at'' TimestampTz [],
       Column ''createdAt'' ''created_at'' TimestampTz [NotNull, DefaultNow],
       Column ''updatedAt'' ''updated_at'' TimestampTz [NotNull, DefaultNow],
       Column ''deletedAt'' ''deleted_at'' TimestampTz []],
     constraints =
      [UniqueOn ''users_tenant_email_unique'' [''tenantId'', ''email''],
       IndexOn ''idx_users_tenant'' [''tenantId'', ''deletedAt''] None [SqlColumn ''deletedAt'', SqlText '' IS NULL''],
       IndexOn ''idx_users_role'' [''roleId''] None []]\<rparr>"

definition auditLogs_table :: Table where
  "auditLogs_table = \<lparr>tableName = ''audit_logs'',
     columns =
      [Column ''auditId'' ''audit_id'' BigintNumber [NotNull],
       Column ''storeId'' ''store_id'' Uuid [NotNull, References ''stores'' ''storeId'' None],
       Column ''tenantId'' ''tenant_id'' Uuid [References ''tenants'' ''tenantId'' None],
       Column ''laneId'' ''lane_id'' Uuid [References ''lanes'' ''laneId'' None],
       Column ''kioskId'' ''kiosk_id'' Uuid [References ''kiosks'' ''kioskId'' None],
       Column ''employeeId'' ''employee_id'' Uuid [References ''employees'' ''employeeId'' None],
       Column ''userId'' ''user_id'' Uuid [References ''users'' ''userId'' None],
       Column ''eventType'' ''event_type'' auditEventTypeEnum [NotNull],
       Column ''entityType'' ''entity_type'' (Varchar 32) [NotNull],
       Column ''entityId'' ''entity_id'' Uuid [NotNull],
       Column ''payloadJson'' ''payload_json'' Jsonb [NotNull],
       Column ''previousHash'' ''previous_hash'' (Varchar 64) [NotNull],
       Column ''currentHash'' ''current_hash'' (Varchar 64) [NotNull],
       Column ''createdAt'' ''created_at'' TimestampTz [NotNull, DefaultNow]],
     constraints =
      [PrimaryKeyOn [''auditId'', ''createdAt''],
       IndexOn ''idx_audit_logs_store'' [''storeId'', ''createdAt''] None [],
       IndexOn ''idx_audit_logs_entity'' [''entityType'', ''entityId'', ''createdAt''] None [],
       IndexOn ''idx_audit_logs_event'' [''eventType'', ''createdAt''] None []]\<rparr>"

definition eventStore_table :: Table where
  "eventStore_table = \<lparr>tableName = ''event_store'',
     columns =
      [Column ''eventId'' ''event_id'' Uuid [PrimaryKey, DefaultRandom],
       Column ''eventSchema'' ''event_schema'' (Varchar 64) [NotNull],
       Column ''aggregateType'' ''aggregate_type'' (Varchar 64) [NotNull],
       Column ''aggregateId'' ''aggregate_id'' Uuid [NotNull],
       Column ''sequenceNumber'' ''sequence_number'' BigintNumber [NotNull],
       Column ''payload'' ''payload'' Jsonb [NotNull],
       Column ''metadata'' ''metadata'' Jsonb [NotNull, Default (DefaultText ''{}'')],
       Column ''occurredAt'' ''occurred_at'' TimestampTz [NotNull, DefaultNow],
       Column ''recordedAt'' ''recorded_at'' TimestampTz [NotNull, DefaultNow]],
     constraints =
      [UniqueOn ''event_store_aggregate_unique'' [''aggregateType'', ''aggregateId'', ''sequenceNumber''],
       IndexOn ''idx_event_store_aggregate'' [''aggregateType'', ''aggregateId'', ''sequenceNumber''] None [],
       IndexOn ''idx_event_store_occurred'' [''occurredAt''] None []]\<rparr>"

definition outboxEvents_table :: Table where
  "outboxEvents_table = \<lparr>tableName = ''outbox_events'',
     columns =
      [Column ''eventId'' ''event_id'' Uuid [PrimaryKey, DefaultRandom],
       Column ''aggregateType'' ''aggregate_type'' (Varchar 64) [NotNull],
       Column ''aggregateId'' ''aggregate_id'' Uuid [NotNull],
       Column ''eventType'' ''event_type'' (Varchar 128) [NotNull],
       Column ''payload'' ''payload'' Jsonb [NotNull],
       Column ''occurredAtMs'' ''occurred_at_ms'' BigintNumber [NotNull],
       Column ''published'' ''published'' Boolean [NotNull, Default (DefaultBool False)],
       Column ''publishedAtMs'' ''published_at_ms'' BigintNumber [],
       Column ''createdAt'' ''created_at'' TimestampTz [NotNull, DefaultNow]],
     constraints =
      [IndexOn ''idx_outbox_unpublished'' [''published'', ''occurredAtMs''] None [SqlColumn ''published'', SqlText '' = FALSE''],
       IndexOn ''idx_outbox_aggregate'' [''aggregateType'', ''aggregateId'', ''occurredAtMs''] None []]\<rparr>"

definition syncEvents_table :: Table where
  "syncEvents_table = \<lparr>tableName = ''sync_events'',
     columns =
      [Column ''syncEventId'' ''sync_event_id'' Uuid [PrimaryKey, DefaultRandom],
       Column ''storeId'' ''store_id'' Uuid [NotNull, References ''stores'' ''storeId'' None],
       Column ''kioskId'' ''kiosk_id'' Uuid [NotNull, References ''kiosks'' ''kioskId'' None],
       Column ''eventType'' ''event_type'' syncEventTypeEnum [NotNull],
       Column ''payloadJson'' ''payload_json'' Jsonb [NotNull],
       Column ''vectorClock'' ''vector_clock'' Jsonb [NotNull],
       Column ''processedAt'' ''processed_at'' TimestampTz [],
       Column ''createdAt'' ''created_at'' TimestampTz [NotNull, DefaultNow]],
     constraints =
      [IndexOn ''idx_sync_events_store'' [''storeId'', ''createdAt''] None [],
       IndexOn ''idx_sync_events_unprocessed'' [''storeId'', ''processedAt''] None [SqlColumn ''processedAt'', SqlText '' IS NULL'']]\<rparr>"

definition analyticsEvents_table :: Table where
  "analyticsEvents_table = \<lparr>tableName = ''analytics_events'',
     columns =
      [Column ''analyticsId'' ''analytics_id'' BigintNumber [NotNull],
       Column ''storeId'' ''store_id'' Uuid [NotNull, References ''stores'' ''storeId'' None],
       Column ''kioskId'' ''kiosk_id'' Uuid [References ''kiosks'' ''kioskId'' None],
       Column ''eventType'' ''event_type'' (Varchar 32) [NotNull],
       Column ''sessionId'' ''session_id'' Uuid [],
       Column ''customerHash'' ''customer_hash'' (Varchar 64) [],
       Column ''itemId'' ''item_id'' Uuid [References ''items'' ''itemId'' None],
       Column ''categoryId'' ''category_id'' Uuid [References ''categories'' ''categoryId'' None],
       Column ''quantity'' ''quantity'' Integer [],
       Column ''amountCents'' ''amount_cents'' Integer [],
       Column ''durationMs'' ''duration_ms'' Integer [],
       Column ''metadata'' ''metadata'' Jsonb [],
       Column ''createdAt'' ''created_at'' TimestampTz [NotNull, DefaultNow]],
     constraints =
      [PrimaryKeyOn [''analyticsId'', ''createdAt''],
       IndexOn ''idx_analytics_store'' [''storeId'', ''eventType'', ''createdAt''] None [],
       IndexOn ''idx_analytics_item'' [''itemId'', ''createdAt''] None [SqlColumn ''itemId'', SqlText '' IS NOT NULL'']]\<rparr>"

definition tenantsRelations :: "string \<times> relation list" where
  "tenantsRelations = (''tenants'',
     [Many ''locations'' ''locations'' None,
      Many ''stores'' ''stores'' None,
      Many ''kiosks'' ''kiosks'' None,
      Many ''roles'' ''roles'' None,
      Many ''users'' ''users'' None])"

definition locationsRelations :: "string \<times> relation list" where
  "locationsRelations = (''locations'',
     [One ''tenant'' ''tenants'' [(''locations'', ''tenantId'')] [(''tenants'', ''tenantId'')] None,
      Many ''lanes'' ''lanes'' None,
      Many ''stores'' ''stores'' None])"

definition lanesRelations :: "string \<times> relation list" where
  "lanesRelations = (''lanes'',
     [One ''location'' ''locations'' [(''lanes'', ''locationId'')] [(''locations'', ''locationId'')] None,
      Many ''kiosks'' ''kiosks'' None])"

definition storesRelations :: "string \<times> relation list" where
  "storesRelations = (''stores'',
     [One ''tenant'' ''tenants'' [(''stores'', ''tenantId'')] [(''tenants'', ''tenantId'')] None,
      One ''location'' ''locations'' [(''stores'', ''locationId'')] [(''locations'', ''locationId'')] None,
      Many ''kiosks'' ''kiosks'' None,
      Many ''categories'' ''categories'' None,
      Many ''items'' ''items'' None,
      Many ''inventory'' ''inventory'' None,
      Many ''carts'' ''carts'' None,
      Many ''orders'' ''orders'' None,
      Many ''employees'' ''employees'' None,
      Many ''offlineTokens'' ''offlineTokens'' None,
      Many ''syncEvents'' ''syncEvents'' None,
      Many ''analyticsEvents'' ''analyticsEvents'' None])"

definition kiosksRelations :: "string \<times> relation list" where
  "kiosksRelations = (''kiosks'',
     [One ''store'' ''stores'' [(''kiosks'', ''storeId'')] [(''stores'', ''storeId'')] None,
      One ''lane'' ''lanes'' [(''kiosks'', ''laneId'')] [(''lanes'', ''laneId'')] None,
      One ''tenant'' ''tenants'' [(''kiosks'', ''tenantId'')] [(''tenants'', ''tenantId'')] None,
      Many ''carts'' ''carts'' None,
      Many ''orders'' ''orders'' None,
      Many ''payments'' ''payments'' None,
      Many ''refunds'' ''refunds'' None,
      Many ''inventoryTransactions'' ''inventoryTransactions'' None,
      Many ''inventoryReservations'' ''inventoryReservations'' None,
      Many ''syncEvents'' ''syncEvents'' None,
      Many ''analyticsEvents'' ''analyticsEvents'' None,
      Many ''offlineTokens'' ''offlineTokens'' None])"

definition categoriesRelations :: "string \<times> relation list" where
  "categoriesRelations = (''categories'',
     [One ''store'' ''stores'' [(''categories'', ''storeId'')] [(''stores'', ''storeId'')] None,
      One ''parent'' ''categories'' [(''categories'', ''parentId'')] [(''categories'', ''categoryId'')] (Some ''category_parent''),
      Many ''children'' ''categories'' (Some ''category_parent''),
      Many ''items'' ''items'' None,
      Many ''analyticsEvents'' ''analyticsEvents'' None])"

definition itemsRelations :: "string \<times> relation list" where
  "itemsRelations = (''items'',
     [One ''store'' ''stores'' [(''items'', ''storeId'')] [(''stores'', ''storeId'')] None,
      One ''category'' ''categories'' [(''items'', ''categoryId'')] [(''categories'', ''categoryId'')] None,
      Many ''inventory'' ''inventory'' None,
      Many ''inventoryTransactions'' ''inventoryTransactions'' None,
      Many ''inventoryReservations'' ''inventoryReservations'' None,
      Many ''orderItems'' ''orderItems'' None,
      Many ''cartLines'' ''cartLines'' None,
      Many ''modifierGroups'' ''itemModifierGroups'' None,
      Many ''analyticsEvents'' ''analyticsEvents'' None])"

definition modifierGroupsRelations :: "string \<times> relation list" where
  "modifierGroupsRelations = (''modifierGroups'',
     [One ''store'' ''stores'' [(''modifierGroups'', ''storeId'')] [(''stores'', ''storeId'')] None,
      Many ''options'' ''modifierOptions'' None,
      Many ''items'' ''itemModifierGroups'' None])"

definition modifierOptionsRelations :: "string \<times> relation list" where
  "modifierOptionsRelations = (''modifierOptions'',
     [One ''modifierGroup'' ''modifierGroups'' [(''modifierOptions'', ''modifierGroupId'')] [(''modifierGroups'', ''modifierGroupId'')] None])"

definition itemModifierGroupsRelations :: "string \<times> relation list" where
  "itemModifierGroupsRelations = (''itemModifierGroups'',
     [One ''item'' ''items'' [(''itemModifierGroups'', ''itemId'')] [(''items'', ''itemId'')] None,
      One ''modifierGroup'' ''modifierGroups'' [(''itemModifierGroups'', ''modifierGroupId'')] [(''modifierGroups'', ''modifierGroupId'')] None])"

definition inventoryRelations :: "string \<times> relation list" where
  "inventoryRelations = (''inventory'',
     [One ''store'' ''stores'' [(''inventory'', ''storeId'')] [(''stores'', ''storeId'')] None,
      One ''item'' ''items'' [(''inventory'', ''itemId'')] [(''items'', ''itemId'')] None,
      Many ''transactions'' ''inventoryTransactions'' None,
      Many ''reservations'' ''inventoryReservations'' None])"

definition inventoryTransactionsRelations :: "string \<times> relation list" where
  "inventoryTransactionsRelations = (''inventoryTransactions'',
     [One ''store'' ''stores'' [(''inventoryTransactions'', ''storeId'')] [(''stores'', ''storeId'')] None,
      One ''item'' ''items'' [(''inventoryTransactions'', ''itemId'')] [(''items'', ''itemId'')] None,
      One ''kiosk'' ''kiosks'' [(''inventoryTransactions'', ''kioskId'')] [(''kiosks'', ''kioskId'')] None,
      One ''employee'' ''employees'' [(''inventoryTransactions'', ''employeeId'')] [(''employees'', ''employeeId'')] None])"

definition inventoryReservationsRelations :: "string \<times> relation list" where
  "inventoryReservationsRelations = (''inventoryReservations'',
     [One ''store'' ''stores'' [(''inventoryReservations'', ''storeId'')] [(''stores'', ''storeId'')] None,
      One ''kiosk'' ''kiosks'' [(''inventoryReservations'', ''kioskId'')] [(''kiosks'', ''kioskId'')] None,
      One ''item'' ''items'' [(''inventoryReservations'', ''itemId'')] [(''items'', ''itemId'')] None,
      One ''cart'' ''carts'' [(''inventoryReservations'', ''cartId'')] [(''carts'', ''cartId'')] None])"

definition cartsRelations :: "string \<times> relation list" where
  "cartsRelations = (''carts'',
     [One ''store'' ''stores'' [(''carts'', ''storeId'')] [(''stores'', ''storeId'')] None,
      One ''kiosk'' ''kiosks'' [(''carts'', ''kioskId'')] [(''kiosks'', ''kioskId'')] None,
      Many ''lines'' ''cartLines'' None,
      Many ''orders'' ''orders'' None,
      Many ''inventoryReservations'' ''inventoryReservations'' None])"

definition cartLinesRelations :: "string \<times> relation list" where
  "cartLinesRelations = (''cartLines'',
     [One ''cart'' ''carts'' [(''cartLines'', ''cartId'')] [(''carts'', ''cartId'')] None,
      One ''menuItem'' ''items'' [(''cartLines'', ''menuItemId'')] [(''items'', ''itemId'')] None])"

definition ordersRelations :: "string \<times> relation list" where
  "ordersRelations = (''orders'',
     [One ''store'' ''stores'' [(''orders'', ''storeId'')] [(''stores'', ''storeId'')] None,
      One ''kiosk'' ''kiosks'' [(''orders'', ''kioskId'')] [(''kiosks'', ''kioskId'')] None,
      One ''cart'' ''carts'' [(''orders'', ''cartId'')] [(''carts'', ''cartId'')] None,
      Many ''items'' ''orderItems'' None,
      Many ''payments'' ''payments'' None,
      Many ''refunds'' ''refunds'' None])"

definition orderItemsRelations :: "string \<times> relation list" where
  "orderItemsRelations = (''orderItems'',
     [One ''order'' ''orders'' [(''orderItems'', ''orderId'')] [(''orders'', ''orderId'')] None,
      One ''item'' ''items'' [(''orderItems'', ''itemId'')] [(''items'', ''itemId'')] None])"

definition paymentsRelations :: "string \<times> relation list" where
  "paymentsRelations = (''payments'',
     [One ''order'' ''orders'' [(''payments'', ''orderId'')] [(''orders'', ''orderId'')] None,
      One ''kiosk'' ''kiosks'' [(''payments'', ''kioskId'')] [(''kiosks'', ''kioskId'')] None,
      Many ''refunds'' ''refunds'' None])"

definition refundsRelations :: "string \<times> relation list" where
  "refundsRelations = (''refunds'',
     [One ''payment'' ''payments'' [(''refunds'', ''paymentId'')] [(''payments'', ''paymentId'')] None,
      One ''order'' ''orders'' [(''refunds'', ''orderId'')] [(''orders'', ''orderId'')] None,
      One ''kiosk'' ''kiosks'' [(''refunds'', ''kioskId'')] [(''kiosks'', ''kioskId'')] None,
      One ''processor'' ''employees'' [(''refunds'', ''processedBy'')] [(''employees'', ''employeeId'')] None])"

definition offlineTokensRelations :: "string \<times> relation list" where
  "offlineTokensRelations = (''offlineTokens'',
     [One ''store'' ''stores'' [(''offlineTokens'', ''storeId'')] [(''stores'', ''storeId'')] None,
      One ''kiosk'' ''kiosks'' [(''offlineTokens'', ''kioskId'')] [(''kiosks'', ''kioskId'')] None])"

definition employeesRelations :: "string \<times> relation list" where
  "employeesRelations = (''employees'',
     [One ''store'' ''stores'' [(''employees'', ''storeId'')] [(''stores'', ''storeId'')] None,
      Many ''inventoryTransactions'' ''inventoryTransactions'' None,
      Many ''refunds'' ''refunds'' None,
      Many ''auditLogs'' ''auditLogs'' None])"

definition rolesRelations :: "string \<times> relation list" where
  "rolesRelations = (''roles'',
     [One ''tenant'' ''tenants'' [(''roles'', ''tenantId'')] [(''tenants'', ''tenantId'')] None,
      Many ''permissions'' ''rolePermissions'' None,
      Many ''users'' ''users'' None])"

definition permissionsRelations :: "string \<times> relation list" where
  "permissionsRelations = (''permissions'',
     [Many ''roles'' ''rolePermissions'' None])"

definition rolePermissionsRelations :: "string \<times> relation list" where
  "rolePermissionsRelations = (''rolePermissions'',
     [One ''role'' ''roles'' [(''rolePermissions'', ''roleId'')] [(''roles'', ''roleId'')] None,
      One ''permission'' ''permissions'' [(''rolePermissions'', ''permissionId'')] [(''permissions'', ''permissionId'')] None])"

definition usersRelations :: "string \<times> relation list" where
  "usersRelations = (''users'',
     [One ''tenant'' ''tenants'' [(''users'', ''tenantId'')] [(''tenants'', ''tenantId'')] None,
      One ''role'' ''roles'' [(''users'', ''roleId'')] [(''roles'', ''roleId'')] None,
      Many ''auditLogs'' ''auditLogs'' None])"

definition auditLogsRelations :: "string \<times> relation list" where
  "auditLogsRelations = (''auditLogs'',
     [One ''store'' ''stores'' [(''auditLogs'', ''storeId'')] [(''stores'', ''storeId'')] None,
      One ''tenant'' ''tenants'' [(''auditLogs'', ''tenantId'')] [(''tenants'', ''tenantId'')] None,
      One ''lane'' ''lanes'' [(''auditLogs'', ''laneId'')] [(''lanes'', ''laneId'')] None,
      One ''kiosk'' ''kiosks'' [(''auditLogs'', ''kioskId'')] [(''kiosks'', ''kioskId'')] None,
      One ''employee'' ''employees'' [(''auditLogs'', ''employeeId'')] [(''employees'', ''employeeId'')] None,
      One ''user'' ''users'' [(''auditLogs'', ''userId'')] [(''users'', ''userId'')] None])"

definition eventStoreRelations :: "string \<times> relation list" where
  "eventStoreRelations = (''eventStore'',
     [])"

definition outboxEventsRelations :: "string \<times> relation list" where
  "outboxEventsRelations = (''outboxEvents'',
     [])"

definition syncEventsRelations :: "string \<times> relation list" where
  "syncEventsRelations = (''syncEvents'',
     [One ''store'' ''stores'' [(''syncEvents'', ''storeId'')] [(''stores'', ''storeId'')] None,
      One ''kiosk'' ''kiosks'' [(''syncEvents'', ''kioskId'')] [(''kiosks'', ''kioskId'')] None])"

definition analyticsEventsRelations :: "string \<times> relation list" where
  "analyticsEventsRelations = (''analyticsEvents'',
     [One ''store'' ''stores'' [(''analyticsEvents'', ''storeId'')] [(''stores'', ''storeId'')] None,
      One ''kiosk'' ''kiosks'' [(''analyticsEvents'', ''kioskId'')] [(''kiosks'', ''kioskId'')] None,
      One ''item'' ''items'' [(''analyticsEvents'', ''itemId'')] [(''items'', ''itemId'')] None,
      One ''category'' ''categories'' [(''analyticsEvents'', ''categoryId'')] [(''categories'', ''categoryId'')] None])"

text \<open>What the module exports, by name.\<close>

definition drizzle_tables :: "(string \<times> Table) list" where
  "drizzle_tables =
     [(''tenants'', tenants_table),
      (''locations'', locations_table),
      (''lanes'', lanes_table),
      (''stores'', stores_table),
      (''kiosks'', kiosks_table),
      (''categories'', categories_table),
      (''items'', items_table),
      (''modifierGroups'', modifierGroups_table),
      (''modifierOptions'', modifierOptions_table),
      (''itemModifierGroups'', itemModifierGroups_table),
      (''inventory'', inventory_table),
      (''inventoryTransactions'', inventoryTransactions_table),
      (''inventoryReservations'', inventoryReservations_table),
      (''carts'', carts_table),
      (''cartLines'', cartLines_table),
      (''orders'', orders_table),
      (''orderItems'', orderItems_table),
      (''payments'', payments_table),
      (''refunds'', refunds_table),
      (''offlineTokens'', offlineTokens_table),
      (''employees'', employees_table),
      (''roles'', roles_table),
      (''permissions'', permissions_table),
      (''rolePermissions'', rolePermissions_table),
      (''users'', users_table),
      (''auditLogs'', auditLogs_table),
      (''eventStore'', eventStore_table),
      (''outboxEvents'', outboxEvents_table),
      (''syncEvents'', syncEvents_table),
      (''analyticsEvents'', analyticsEvents_table)]"

definition drizzle_relations :: "(string \<times> relation list) list" where
  "drizzle_relations =
     [tenantsRelations, locationsRelations, lanesRelations, storesRelations, kiosksRelations,
      categoriesRelations, itemsRelations, modifierGroupsRelations, modifierOptionsRelations,
      itemModifierGroupsRelations, inventoryRelations, inventoryTransactionsRelations,
      inventoryReservationsRelations, cartsRelations, cartLinesRelations, ordersRelations,
      orderItemsRelations, paymentsRelations, refundsRelations, offlineTokensRelations, employeesRelations,
      rolesRelations, permissionsRelations, rolePermissionsRelations, usersRelations, auditLogsRelations,
      eventStoreRelations, outboxEventsRelations, syncEventsRelations, analyticsEventsRelations]"

lemmas table_defs =
  tenants_table_def locations_table_def lanes_table_def stores_table_def
  kiosks_table_def categories_table_def items_table_def modifierGroups_table_def
  modifierOptions_table_def itemModifierGroups_table_def inventory_table_def inventoryTransactions_table_def
  inventoryReservations_table_def carts_table_def cartLines_table_def orders_table_def
  orderItems_table_def payments_table_def refunds_table_def offlineTokens_table_def
  employees_table_def roles_table_def permissions_table_def rolePermissions_table_def
  users_table_def auditLogs_table_def eventStore_table_def outboxEvents_table_def
  syncEvents_table_def analyticsEvents_table_def

lemmas enum_defs =
  tenantPlanEnum_def kioskSyncStatusEnum_def itemTaxCategoryEnum_def weightUnitEnum_def
  cartStatusEnum_def orderStatusEnum_def paymentMethodEnum_def paymentStatusEnum_def
  employeeRoleEnum_def auditEventTypeEnum_def inventoryTransactionTypeEnum_def syncEventTypeEnum_def
  refundStatusEnum_def bytea_def

lemmas relation_defs =
  tenantsRelations_def locationsRelations_def lanesRelations_def storesRelations_def
  kiosksRelations_def categoriesRelations_def itemsRelations_def modifierGroupsRelations_def
  modifierOptionsRelations_def itemModifierGroupsRelations_def inventoryRelations_def inventoryTransactionsRelations_def
  inventoryReservationsRelations_def cartsRelations_def cartLinesRelations_def ordersRelations_def
  orderItemsRelations_def paymentsRelations_def refundsRelations_def offlineTokensRelations_def
  employeesRelations_def rolesRelations_def permissionsRelations_def rolePermissionsRelations_def
  usersRelations_def auditLogsRelations_def eventStoreRelations_def outboxEventsRelations_def
  syncEventsRelations_def analyticsEventsRelations_def

section \<open>Well-formed declarations\<close>

definition is_primary :: "Column \<Rightarrow> bool" where
  "is_primary c \<longleftrightarrow> PrimaryKey \<in> set (modifiers c)"

text \<open>A primary key is not null.\<close>

definition not_null :: "Column \<Rightarrow> bool" where
  "not_null c \<longleftrightarrow> PrimaryKey \<in> set (modifiers c) \<or> NotNull \<in> set (modifiers c)"

fun modifier_refs :: "modifier \<Rightarrow> (string \<times> string) list" where
  "modifier_refs (References t k d) = [(t, k)]"
| "modifier_refs _ = []"

definition column_refs :: "Column \<Rightarrow> (string \<times> string) list" where
  "column_refs c = concat (map modifier_refs (modifiers c))"

definition find_column :: "Table \<Rightarrow> string \<Rightarrow> Column option" where
  "find_column t k = find (\<lambda>c. colKey c = k) (columns t)"

text \<open>The primary keys of single columns, by table and key, with their types.\<close>

definition key_types :: "(string \<times> Table) list \<Rightarrow> ((string \<times> string) \<times> columnType) list" where
  "key_types ts = concat (map (\<lambda>t. map (\<lambda>c. ((fst t, colKey c), colType c)) (filter is_primary (columns (snd t)))) ts)"

text \<open>The target of a reference is a primary key of the same type.\<close>

definition ref_resolves :: "((string \<times> string) \<times> columnType) list \<Rightarrow> columnType \<Rightarrow> string \<times> string \<Rightarrow> bool" where
  "ref_resolves keys ty r \<longleftrightarrow> map_of keys r = Some ty"

text \<open>
  A default is a value of the column's type. A decimal text has digits before the point, at most as many without leading zeros as the
  precision leaves, and if there is a point digits after it, at most the scale. Of the expressions in SQL two have a known type: the
  milliseconds since the epoch, cast to \<open>BIGINT\<close>, and the time in ten minutes.
\<close>

definition is_digits :: "string \<Rightarrow> bool" where
  "is_digits t \<longleftrightarrow> t \<noteq> [] \<and> list_all (\<lambda>c. c \<in> set ''0123456789'') t"

definition decimal_fits :: "nat \<Rightarrow> nat \<Rightarrow> string \<Rightarrow> bool" where
  "decimal_fits p s t \<longleftrightarrow>
     (let whole = takeWhile (\<lambda>c. c \<noteq> CHR ''.'') t; rest = dropWhile (\<lambda>c. c \<noteq> CHR ''.'') t
      in is_digits whole \<and> length (dropWhile (\<lambda>c. c = CHR ''0'') whole) + s \<le> p \<and>
         (rest = [] \<or> is_digits (tl rest) \<and> length (tl rest) \<le> s))"

definition epoch_millis :: string where
  "epoch_millis = ''(EXTRACT(EPOCH FROM NOW()) * 1000)::BIGINT''"

definition in_ten_minutes :: string where
  "in_ten_minutes = ''NOW() + INTERVAL '' @ quoted ''10 minutes''"

fun default_fits :: "columnType \<Rightarrow> modifier \<Rightarrow> bool" where
  "default_fits ty DefaultRandom = (ty = Uuid)"
| "default_fits ty DefaultNow = (ty = TimestampTz)"
| "default_fits (Varchar n) (Default (DefaultText t)) = (length t \<le> n)"
| "default_fits (EnumType _ vs) (Default (DefaultText t)) = (t \<in> set vs)"
| "default_fits (Decimal p s) (Default (DefaultText t)) = decimal_fits p s t"
| "default_fits Jsonb (Default (DefaultText t)) = (t \<in> {''[]'', ''{}''})"
| "default_fits ty (Default (DefaultText t)) = False"
| "default_fits ty (Default (DefaultInt i)) = (ty = Integer \<and> - (2 ^ 31) \<le> i \<and> i < 2 ^ 31)"
| "default_fits ty (Default (DefaultBool b)) = (ty = Boolean)"
| "default_fits ty (Default (DefaultSql t)) =
     (ty = BigintNumber \<and> t = epoch_millis \<or> ty = TimestampTz \<and> t = in_ten_minutes)"
| "default_fits ty _ = True"

fun sql_column :: "sql \<Rightarrow> string list" where
  "sql_column (SqlColumn c) = [c]"
| "sql_column (SqlText _) = []"

fun constraint_columns :: "constraint \<Rightarrow> string list" where
  "constraint_columns (UniqueOn n cs) = cs"
| "constraint_columns (IndexOn n cs u w) = cs @ concat (map sql_column w)"
| "constraint_columns (UniqueIndexOn n cs w) = cs @ concat (map sql_column w)"
| "constraint_columns (PrimaryKeyOn cs) = cs"

fun constraint_name :: "constraint \<Rightarrow> string option" where
  "constraint_name (UniqueOn n cs) = Some n"
| "constraint_name (IndexOn n cs u w) = Some n"
| "constraint_name (UniqueIndexOn n cs w) = Some n"
| "constraint_name (PrimaryKeyOn cs) = None"

fun composite_key :: "constraint \<Rightarrow> string list list" where
  "composite_key (PrimaryKeyOn cs) = [cs]"
| "composite_key _ = []"

text \<open>The primary keys of a table, those of columns and those of its constraints.\<close>

definition primary_keys :: "Table \<Rightarrow> string list list" where
  "primary_keys t =
     map (\<lambda>c. [colKey c]) (filter is_primary (columns t)) @ concat (map composite_key (constraints t))"

definition key_not_null :: "Table \<Rightarrow> string \<Rightarrow> bool" where
  "key_not_null t k = (case find_column t k of None \<Rightarrow> False | Some c \<Rightarrow> not_null c)"

definition wf_table :: "((string \<times> string) \<times> columnType) list \<Rightarrow> Table \<Rightarrow> bool" where
  "wf_table keys t \<longleftrightarrow>
     distinct (map colKey (columns t)) \<and> distinct (map colName (columns t)) \<and>
     list_all (\<lambda>c. list_all (ref_resolves keys (colType c)) (column_refs c)) (columns t) \<and>
     list_all (\<lambda>c. list_all (default_fits (colType c)) (modifiers c)) (columns t) \<and>
     list_all (\<lambda>x. list_all (\<lambda>k. find_column t k \<noteq> None) (constraint_columns x)) (constraints t) \<and>
     length (primary_keys t) = 1 \<and> list_all (list_all (key_not_null t)) (primary_keys t)"

definition index_names :: "string list" where
  "index_names = List.map_filter constraint_name (concat (map (constraints \<circ> snd) drizzle_tables))"

lemma key_index:
  "key_types drizzle_tables =
     [((''tenants'', ''tenantId''), Uuid),
      ((''locations'', ''locationId''), Uuid),
      ((''lanes'', ''laneId''), Uuid),
      ((''stores'', ''storeId''), Uuid),
      ((''kiosks'', ''kioskId''), Uuid),
      ((''categories'', ''categoryId''), Uuid),
      ((''items'', ''itemId''), Uuid),
      ((''modifierGroups'', ''modifierGroupId''), Uuid),
      ((''modifierOptions'', ''modifierOptionId''), Uuid),
      ((''inventory'', ''inventoryId''), Uuid),
      ((''inventoryTransactions'', ''transactionId''), Uuid),
      ((''inventoryReservations'', ''reservationId''), Uuid),
      ((''carts'', ''cartId''), Uuid),
      ((''cartLines'', ''lineId''), Uuid),
      ((''orders'', ''orderId''), Uuid),
      ((''orderItems'', ''orderItemId''), Uuid),
      ((''payments'', ''paymentId''), Uuid),
      ((''refunds'', ''refundId''), Uuid),
      ((''offlineTokens'', ''tokenId''), Uuid),
      ((''employees'', ''employeeId''), Uuid),
      ((''roles'', ''roleId''), Uuid),
      ((''permissions'', ''permissionId''), Uuid),
      ((''users'', ''userId''), Uuid),
      ((''eventStore'', ''eventId''), Uuid),
      ((''outboxEvents'', ''eventId''), Uuid),
      ((''syncEvents'', ''syncEventId''), Uuid)]"
  by code_simp

text \<open>
  C36. The declarations of the database fit together. Exported and database names of the tables are distinct, and so are the names of
  indexes and unique constraints; in every table the columns have distinct names, each reference leads to a primary key of the
  same type, each default is a value of its column (a text within its length, a member of its enumeration, a decimal within
  precision and scale, an integer of 32 bits, one of two SQL expressions of the column's type), constraints and conditions of indexes name columns of
  the table, and there is exactly one primary key, of columns that cannot be null.
\<close>

theorem tables_well_formed:
  "distinct (map fst drizzle_tables) \<and> distinct (map (tableName \<circ> snd) drizzle_tables) \<and> distinct index_names \<and>
   list_all (wf_table (key_types drizzle_tables) \<circ> snd) drizzle_tables"
proof (intro conjI)
  show "distinct (map fst drizzle_tables)" "distinct (map (tableName \<circ> snd) drizzle_tables)" "distinct index_names"
    by code_simp+
  show "list_all (wf_table (key_types drizzle_tables) \<circ> snd) drizzle_tables"
    unfolding key_index by code_simp
qed

section \<open>Foreign keys\<close>

text \<open>Which table refers to which other table.\<close>

definition table_refs :: "Table \<Rightarrow> string list" where
  "table_refs t = concat (map (map fst \<circ> column_refs) (columns t))"

definition refers_to :: "(string \<times> string) list" where
  "refers_to = concat (map (\<lambda>t. map (Pair (fst t)) (filter (\<lambda>u. u \<noteq> fst t) (table_refs (snd t)))) drizzle_tables)"

text \<open>An order in which the tables can be created and filled.\<close>

definition creation_order :: "string list" where
  "creation_order =
     [''tenants'', ''locations'', ''lanes'', ''stores'', ''kiosks'', ''categories'', ''items'', ''modifierGroups'',
      ''modifierOptions'', ''itemModifierGroups'', ''employees'', ''carts'', ''inventory'', ''inventoryTransactions'',
      ''inventoryReservations'', ''cartLines'', ''orders'', ''orderItems'', ''payments'', ''refunds'', ''offlineTokens'',
      ''roles'', ''permissions'', ''rolePermissions'', ''users'', ''auditLogs'', ''eventStore'', ''outboxEvents'',
      ''syncEvents'', ''analyticsEvents'']"

fun position :: "string \<Rightarrow> string list \<Rightarrow> nat" where
  "position x [] = 0"
| "position x (y # ys) = (if x = y then 0 else Suc (position x ys))"

lemma ranked_acyclic:
  fixes rank :: "'a \<Rightarrow> nat"
  assumes "\<And>x y. (x, y) \<in> r \<Longrightarrow> rank y < rank x"
  shows "acyclic r"
proof (rule acyclicI, intro allI notI)
  fix x
  assume "(x, x) \<in> r\<^sup>+"
  moreover have "rank y < rank x" if "(x, y) \<in> r\<^sup>+" for x y
    using that by (induction rule: trancl_induct) (auto dest: assms)
  ultimately show False by blast
qed

lemma references_point_back:
  "list_all (\<lambda>r. position (snd r) creation_order < position (fst r) creation_order) refers_to"
  by code_simp

text \<open>
  The tables can be created and filled in an order: apart from the parent of a category, references between tables have no
  cycle; the given order has every table once, each after the tables it refers to. The order in which the
  module declares them is not such an order, for exactly three references.
\<close>

theorem foreign_keys_acyclic:
  "acyclic (set refers_to) \<and> mset creation_order = mset (map fst drizzle_tables) \<and>
   list_all (\<lambda>r. position (snd r) creation_order < position (fst r) creation_order) refers_to \<and>
   filter (\<lambda>r. position (fst r) (map fst drizzle_tables) < position (snd r) (map fst drizzle_tables)) refers_to =
     [(''inventoryTransactions'', ''employees''), (''inventoryReservations'', ''carts''), (''refunds'', ''employees'')]"
proof (intro conjI references_point_back)
  show "acyclic (set refers_to)"
    by (rule ranked_acyclic [where rank = "\<lambda>t. position t creation_order"])
      (use references_point_back in \<open>auto simp: list_all_iff\<close>)
  show "mset creation_order = mset (map fst drizzle_tables)"
  proof -
    have "sort creation_order = sort (map fst drizzle_tables)" by code_simp
    then show ?thesis by (metis mset_sort)
  qed
  show "filter (\<lambda>r. position (fst r) (map fst drizzle_tables) < position (snd r) (map fst drizzle_tables)) refers_to =
     [(''inventoryTransactions'', ''employees''), (''inventoryReservations'', ''carts''), (''refunds'', ''employees'')]"
    by code_simp
qed

section \<open>Relations\<close>

text \<open>A relation to one row follows a foreign key of its table: the columns and what they refer to.\<close>

definition follows_key :: "string \<times> Table \<Rightarrow> relation \<Rightarrow> bool" where
  "follows_key t r =
     (case r of
        One n u fs rs nm \<Rightarrow>
          (case (fs, rs) of
             ([f], [k]) \<Rightarrow>
               fst f = fst t \<and> fst k = u \<and>
               (case find_column (snd t) (snd f) of None \<Rightarrow> False | Some c \<Rightarrow> k \<in> set (column_refs c))
           | _ \<Rightarrow> False)
      | Many n u nm \<Rightarrow> True)"

text \<open>The foreign keys that the relations to one row of a table follow.\<close>

definition followed_keys :: "relation list \<Rightarrow> (string \<times> (string \<times> string)) list" where
  "followed_keys rs =
     concat (map (\<lambda>r. case r of One n u fs ks nm \<Rightarrow> zip (map snd fs) ks | Many n u nm \<Rightarrow> []) rs)"

definition foreign_keys :: "Table \<Rightarrow> (string \<times> (string \<times> string)) list" where
  "foreign_keys t = concat (map (\<lambda>c. map (Pair (colKey c)) (column_refs c)) (columns t))"

fun one_target :: "relation \<Rightarrow> (string \<times> string option) list" where
  "one_target (One n u fs ks nm) = [(u, nm)]"
| "one_target (Many n u nm) = []"

text \<open>A relation to many rows needs a relation back to one, under the same relation name if it has one.\<close>

definition has_inverse :: "string \<Rightarrow> relation \<Rightarrow> bool" where
  "has_inverse t r =
     (case r of
        One n u fs ks nm \<Rightarrow> True
      | Many n u nm \<Rightarrow>
          (case map_of drizzle_relations u of
             None \<Rightarrow> False
           | Some rs \<Rightarrow> (t, nm) \<in> set (concat (map one_target rs))))"

fun relation_name :: "relation \<Rightarrow> string" where
  "relation_name (One n u fs ks nm) = n"
| "relation_name (Many n u nm) = n"

text \<open>
  The relations that queries use agree with the foreign keys. Every table has relations, every relation to one row follows a foreign
  key, every foreign key is followed by one, and every relation to many rows has its inverse, except two of the inventory:
  its transactions and reservations refer to store and item, not to it.
\<close>

theorem relations_follow_foreign_keys:
  "map fst drizzle_relations = map fst drizzle_tables \<and>
   list_all2 (\<lambda>r t. list_all (follows_key t) (snd r)) drizzle_relations drizzle_tables \<and>
   list_all2 (\<lambda>r t. list_all (\<lambda>k. k \<in> set (followed_keys (snd r))) (foreign_keys (snd t)))
     drizzle_relations drizzle_tables \<and>
   concat (map (\<lambda>r. map (\<lambda>x. (fst r, relation_name x)) (filter (\<lambda>x. \<not> has_inverse (fst r) x) (snd r))) drizzle_relations) =
     [(''inventory'', ''transactions''), (''inventory'', ''reservations'')]"
  by (intro conjI; code_simp)

end
