(* ===== verification/Schemas.thy ===== *)
theory Schemas
  imports Ids
begin

text \<open>
  The schemas that \<open>packages/shared-types/src/schemas/zod.ts\<close> and \<open>api.ts\<close> declare to the zod package, each one value of
  the language of these declarations.
\<close>

section \<open>The language of the schemas\<close>

text \<open>The regular expressions are predicates; \<open>ZIsoDatetime\<close> has the option \<open>offset\<close>,
  \<open>ZRefine\<close> the function that is given to \<open>refine\<close>.\<close>

datatype zodCheck =
    Min rat | Max rat | Length nat | IntCheck | Nonnegative | Positive
  | Regex "string \<Rightarrow> bool"

datatype zod =
    ZString "zodCheck list" | ZNumber "zodCheck list" | ZBoolean | ZUnknown | ZIsoDatetime bool
  | ZUrl "zodCheck list" | ZEmail "zodCheck list" | ZUuid | ZCoerceNumber "zodCheck list"
  | ZEnum "string list"
  | ZInstanceof string | ZCustom string
  | ZArray zod | ZRecord zod zod | ZNullable zod | ZOptional zod | ZReadonly zod
  | ZDefault zod jsval
  | ZObject "(string \<times> zod) list"
  | ZRefine zod "jsval \<Rightarrow> bool" string

section \<open>Expressions and refinements\<close>

text \<open>\<open>/^[a-f0-9]{64}$/i\<close>.\<close>

definition hex64_regex :: "string \<Rightarrow> bool" where
  "hex64_regex t \<longleftrightarrow> length t = 64 \<and> list_all is_hex t"

text \<open>The parts of a text between the occurrences of a character.\<close>

fun split_at :: "char \<Rightarrow> string \<Rightarrow> string list" where
  "split_at c [] = [[]]"
| "split_at c (x # xs) =
     (if x = c then [] # split_at c xs else (x # hd (split_at c xs)) # tl (split_at c xs))"

text \<open>\<open>/^(\d{1,3}\.){3}\d{1,3}$/\<close>.\<close>

definition ip_regex :: "string \<Rightarrow> bool" where
  "ip_regex t \<longleftrightarrow>
     (let groups = split_at (CHR ''.'') t in
      length groups = 4 \<and> list_all (\<lambda>g. 1 \<le> length g \<and> length g \<le> 3 \<and> list_all is_digit g) groups)"

text \<open>\<open>/^[^\s@]+@[^\s@]+\.[^\s@]+$/\<close>: one at sign, no white space, and after the sign a dot with text on both sides.\<close>

definition email_regex :: "string \<Rightarrow> bool" where
  "email_regex t \<longleftrightarrow>
     (case split_at (CHR ''@'') t of
        [user, host] \<Rightarrow>
          list_all (\<lambda>c. \<not> is_space c) t \<and> user \<noteq> [] \<and>
          list_ex (\<lambda>i. host ! i = CHR ''.'' \<and> 0 < i \<and> i + 1 < length host) [0..<length host]
      | _ \<Rightarrow> False)"

text \<open>The identifier schema of \<open>ids.ts\<close>.\<close>

definition UuidSchema :: zod where
  "UuidSchema = ZString [Regex (regex_test UUID_V7_REGEX)]"

fun js_num :: "jsval \<Rightarrow> rat" where
  "js_num (JNum q) = q"
| "js_num _ = 0"

text \<open>The functions given to \<open>refine\<close>.\<close>

definition max_at_least_min :: "jsval \<Rightarrow> bool" where
  "max_at_least_min g \<longleftrightarrow> js_num (getProp g ''maxSelect'') \<ge> js_num (getProp g ''minSelect'')"

definition finalized_has_lines :: "jsval \<Rightarrow> bool" where
  "finalized_has_lines cart \<longleftrightarrow>
     \<not> (getProp cart ''status'' = JStr ''finalized'' \<or> truthy (getProp cart ''finalized'')) \<or>
     (case getProp cart ''itemsJson'' of JArr xs \<Rightarrow> length xs > 0 | _ \<Rightarrow> False)"

section \<open>The schemas\<close>

definition IsoTimestampSchema :: zod where
  "IsoTimestampSchema = ZIsoDatetime True"

definition CurrencySchema :: zod where
  "CurrencySchema = ZString [Length 3]"

definition EmailSchema :: zod where
  "EmailSchema = ZEmail [Max 255, Regex email_regex]"

definition HexHash64Schema :: zod where
  "HexHash64Schema = ZString [Regex hex64_regex]"

definition TenantPlanSchema :: zod where
  "TenantPlanSchema = ZEnum [''standard'', ''enterprise'']"

definition KioskSyncStatusSchema :: zod where
  "KioskSyncStatusSchema = ZEnum [''online'', ''offline'', ''degraded'', ''maintenance'']"

definition ItemTaxCategorySchema :: zod where
  "ItemTaxCategorySchema = ZEnum [''standard'', ''exempt'', ''reduced'']"

definition WeightUnitSchema :: zod where
  "WeightUnitSchema = ZEnum [''g'', ''kg'', ''lb'', ''oz'']"

definition CartStatusSchema :: zod where
  "CartStatusSchema = ZEnum [''active'', ''finalized'', ''abandoned'', ''expired'']"

definition OrderStatusSchema :: zod where
  "OrderStatusSchema = ZEnum [''pending'', ''paid'', ''fulfilled'', ''cancelled'', ''refunded'']"

definition PaymentMethodSchema :: zod where
  "PaymentMethodSchema = ZEnum [''credit_debit'', ''nfc_apple_pay'', ''nfc_google_pay'', ''qr_code'', ''cash_recycler'']"

definition PaymentStatusSchema :: zod where
  "PaymentStatusSchema = ZEnum [''pending'', ''authorized'', ''captured'', ''declined'', ''voided'', ''refunded'']"

definition EmployeeRoleSchema :: zod where
  "EmployeeRoleSchema = ZEnum [''cashier'', ''supervisor'', ''manager'', ''admin'']"

definition AuditEventTypeSchema :: zod where
  "AuditEventTypeSchema = ZEnum [''order_created'', ''order_paid'', ''order_refunded'', ''payment_processed'', ''inventory_adjusted'',
      ''employee_login'', ''employee_logout'', ''system_boot'', ''system_shutdown'', ''sync_event'',
      ''security_event'']"

definition InventoryTransactionTypeSchema :: zod where
  "InventoryTransactionTypeSchema = ZEnum [''sale'', ''restock'', ''adjustment'', ''reserved'', ''released'', ''waste'', ''return'']"

definition SyncEventTypeSchema :: zod where
  "SyncEventTypeSchema = ZEnum [''inventory_update'', ''cart_merge'', ''transaction_batch'', ''analytics_batch'']"

definition RefundStatusSchema :: zod where
  "RefundStatusSchema = ZEnum [''pending'', ''completed'', ''failed'']"

definition TenantSchema :: zod where
  "TenantSchema = ZObject
      [(''tenantId'', UuidSchema),
       (''slug'', ZString [Min 1, Max 64]),
       (''name'', ZString [Min 1, Max 255]),
       (''billingEmail'', EmailSchema),
       (''plan'', TenantPlanSchema),
       (''isActive'', ZBoolean),
       (''createdAt'', IsoTimestampSchema),
       (''updatedAt'', IsoTimestampSchema),
       (''deletedAt'', ZNullable IsoTimestampSchema)]"

definition LocationSchema :: zod where
  "LocationSchema = ZObject
      [(''locationId'', UuidSchema),
       (''tenantId'', UuidSchema),
       (''slug'', ZString [Min 1, Max 64]),
       (''name'', ZString [Min 1, Max 255]),
       (''address'', ZNullable (ZString [])),
       (''timezone'', ZString [Min 1, Max 64]),
       (''currency'', CurrencySchema),
       (''taxRate'', ZNumber [Min 0, Max 1]),
       (''createdAt'', IsoTimestampSchema),
       (''updatedAt'', IsoTimestampSchema),
       (''deletedAt'', ZNullable IsoTimestampSchema)]"

definition LaneSchema :: zod where
  "LaneSchema = ZObject
      [(''laneId'', UuidSchema),
       (''locationId'', UuidSchema),
       (''displayName'', ZString [Min 1, Max 64]),
       (''laneNumber'', ZNumber [IntCheck]),
       (''isActive'', ZBoolean),
       (''createdAt'', IsoTimestampSchema),
       (''updatedAt'', IsoTimestampSchema),
       (''deletedAt'', ZNullable IsoTimestampSchema)]"

definition StoreSchema :: zod where
  "StoreSchema = ZObject
      [(''storeId'', UuidSchema),
       (''tenantId'', ZNullable UuidSchema),
       (''locationId'', ZNullable UuidSchema),
       (''name'', ZString [Min 1, Max 255]),
       (''address'', ZNullable (ZString [])),
       (''timezone'', ZString [Min 1, Max 64]),
       (''currency'', CurrencySchema),
       (''taxRate'', ZNumber [Min 0, Max 1]),
       (''createdAt'', IsoTimestampSchema),
       (''updatedAt'', IsoTimestampSchema),
       (''deletedAt'', ZNullable IsoTimestampSchema)]"

definition KioskSchema :: zod where
  "KioskSchema = ZObject
      [(''kioskId'', UuidSchema),
       (''storeId'', UuidSchema),
       (''laneId'', ZNullable UuidSchema),
       (''tenantId'', ZNullable UuidSchema),
       (''hardwareId'', ZString [Min 1, Max 64]),
       (''displayName'', ZString [Min 1, Max 64]),
       (''ipAddress'', ZNullable (ZString [Regex ip_regex])),
       (''lastSeenAt'', ZNullable IsoTimestampSchema),
       (''syncStatus'', KioskSyncStatusSchema),
       (''isLeader'', ZBoolean),
       (''signingKeyHash'', HexHash64Schema),
       (''firmwareVersion'', ZNullable (ZString [Max 32])),
       (''createdAt'', IsoTimestampSchema),
       (''updatedAt'', IsoTimestampSchema),
       (''deletedAt'', ZNullable IsoTimestampSchema)]"

definition CategorySchema :: zod where
  "CategorySchema = ZObject
      [(''categoryId'', UuidSchema),
       (''storeId'', UuidSchema),
       (''parentId'', ZNullable UuidSchema),
       (''name'', ZString [Min 1, Max 128]),
       (''description'', ZNullable (ZString [])),
       (''displayOrder'', ZNumber [IntCheck]),
       (''imageUrl'', ZNullable (ZUrl [Max 512])),
       (''blurhash'', ZNullable (ZString [Max 32])),
       (''isActive'', ZBoolean),
       (''createdAt'', IsoTimestampSchema),
       (''updatedAt'', IsoTimestampSchema),
       (''deletedAt'', ZNullable IsoTimestampSchema)]"

definition ItemSchema :: zod where
  "ItemSchema = ZObject
      [(''itemId'', UuidSchema),
       (''storeId'', UuidSchema),
       (''categoryId'', UuidSchema),
       (''name'', ZString [Min 1, Max 255]),
       (''description'', ZNullable (ZString [])),
       (''priceCents'', ZNumber [IntCheck, Nonnegative]),
       (''costCents'', ZNullable (ZNumber [IntCheck, Nonnegative])),
       (''plu'', ZNullable (ZString [Max 16])),
       (''barcode'', ZNullable (ZString [Max 32])),
       (''sku'', ZNullable (ZString [Max 64])),
       (''imageUrl'', ZNullable (ZUrl [Max 512])),
       (''blurhash'', ZNullable (ZString [Max 32])),
       (''taxCategory'', ItemTaxCategorySchema),
       (''isWeightBased'', ZBoolean),
       (''weightUnit'', ZNullable WeightUnitSchema),
       (''isActive'', ZBoolean),
       (''metadata'', ZNullable (ZRecord (ZString []) ZUnknown)),
       (''createdAt'', IsoTimestampSchema),
       (''updatedAt'', IsoTimestampSchema),
       (''deletedAt'', ZNullable IsoTimestampSchema)]"

definition ModifierGroupSchema :: zod where
  "ModifierGroupSchema = ZRefine
     (ZObject
      [(''modifierGroupId'', UuidSchema),
       (''storeId'', UuidSchema),
       (''name'', ZString [Min 1, Max 128]),
       (''description'', ZNullable (ZString [])),
       (''minSelect'', ZNumber [IntCheck, Nonnegative]),
       (''maxSelect'', ZNumber [IntCheck, Nonnegative]),
       (''displayOrder'', ZNumber [IntCheck]),
       (''isActive'', ZBoolean),
       (''createdAt'', IsoTimestampSchema),
       (''updatedAt'', IsoTimestampSchema),
       (''deletedAt'', ZNullable IsoTimestampSchema)])
     max_at_least_min ''maxSelect must be greater than or equal to minSelect''"

definition ModifierOptionSchema :: zod where
  "ModifierOptionSchema = ZObject
      [(''modifierOptionId'', UuidSchema),
       (''modifierGroupId'', UuidSchema),
       (''name'', ZString [Min 1, Max 128]),
       (''priceDeltaCents'', ZDefault (ZNumber [IntCheck]) (JNum 0)),
       (''isDefault'', ZBoolean),
       (''displayOrder'', ZNumber [IntCheck]),
       (''isActive'', ZBoolean),
       (''createdAt'', IsoTimestampSchema),
       (''updatedAt'', IsoTimestampSchema),
       (''deletedAt'', ZNullable IsoTimestampSchema)]"

definition ItemModifierGroupSchema :: zod where
  "ItemModifierGroupSchema = ZObject
      [(''itemId'', UuidSchema),
       (''modifierGroupId'', UuidSchema),
       (''createdAt'', IsoTimestampSchema)]"

definition InventorySchema :: zod where
  "InventorySchema = ZObject
      [(''inventoryId'', UuidSchema),
       (''storeId'', UuidSchema),
       (''itemId'', UuidSchema),
       (''quantityAvailable'', ZNumber [IntCheck]),
       (''quantityReserved'', ZNumber [IntCheck]),
       (''quantityOnOrder'', ZNumber [IntCheck]),
       (''reorderPoint'', ZNumber [IntCheck, Nonnegative]),
       (''reorderQuantity'', ZNumber [IntCheck, Nonnegative]),
       (''location'', ZNullable (ZString [Max 64])),
       (''lastCountedAt'', ZNullable IsoTimestampSchema),
       (''updatedAt'', IsoTimestampSchema)]"

definition InventoryTransactionSchema :: zod where
  "InventoryTransactionSchema = ZObject
      [(''transactionId'', UuidSchema),
       (''storeId'', UuidSchema),
       (''itemId'', UuidSchema),
       (''transactionType'', InventoryTransactionTypeSchema),
       (''quantityDelta'', ZNumber [IntCheck]),
       (''runningBalance'', ZNumber [IntCheck]),
       (''referenceId'', ZNullable UuidSchema),
       (''referenceType'', ZNullable (ZString [Max 32])),
       (''kioskId'', ZNullable UuidSchema),
       (''employeeId'', ZNullable UuidSchema),
       (''notes'', ZNullable (ZString [Max 500])),
       (''createdAt'', IsoTimestampSchema)]"

definition InventoryReservationSchema :: zod where
  "InventoryReservationSchema = ZObject
      [(''reservationId'', UuidSchema),
       (''storeId'', UuidSchema),
       (''kioskId'', UuidSchema),
       (''itemId'', UuidSchema),
       (''cartId'', UuidSchema),
       (''quantity'', ZNumber [IntCheck, Positive]),
       (''expiresAtMs'', ZNumber [IntCheck, Positive]),
       (''createdAtMs'', ZNumber [IntCheck, Positive])]"

definition CartLineSchema :: zod where
  "CartLineSchema = ZObject
      [(''lineId'', UuidSchema),
       (''cartId'', UuidSchema),
       (''menuItemId'', UuidSchema),
       (''nameSnapshot'', ZString [Min 1, Max 255]),
       (''unitPriceCentsSnapshot'', ZNumber [IntCheck, Nonnegative]),
       (''quantity'', ZNumber [IntCheck, Positive]),
       (''modifiers'', ZReadonly (ZArray (ZRecord (ZString []) ZUnknown))),
       (''addedAtMs'', ZNumber [IntCheck, Positive])]"

definition CartSchema :: zod where
  "CartSchema = ZRefine
     (ZObject
      [(''cartId'', UuidSchema),
       (''storeId'', UuidSchema),
       (''kioskId'', UuidSchema),
       (''sessionId'', UuidSchema),
       (''customerPhone'', ZNullable (ZString [Max 16])),
       (''status'', CartStatusSchema),
       (''finalized'', ZBoolean),
       (''version'', ZNumber [IntCheck, Nonnegative]),
       (''totalCents'', ZNumber [IntCheck, Nonnegative]),
       (''taxCents'', ZNumber [IntCheck, Nonnegative]),
       (''discountCents'', ZNumber [IntCheck, Nonnegative]),
       (''finalTotalCents'', ZNumber [IntCheck, Nonnegative]),
       (''itemsJson'', ZReadonly (ZArray CartLineSchema)),
       (''reservedInventory'', ZBoolean),
       (''expiresAt'', IsoTimestampSchema),
       (''createdAt'', IsoTimestampSchema),
       (''updatedAt'', IsoTimestampSchema),
       (''createdAtMs'', ZNumber [IntCheck, Positive]),
       (''updatedAtMs'', ZNumber [IntCheck, Positive])])
     finalized_has_lines ''Finalized carts must contain at least one line item''"

definition OrderItemModifierSchema :: zod where
  "OrderItemModifierSchema = ZObject
      [(''modifierGroupId'', UuidSchema),
       (''optionId'', UuidSchema),
       (''name'', ZString [Min 1, Max 128]),
       (''priceDeltaCents'', ZNumber [IntCheck])]"

definition OrderItemSchema :: zod where
  "OrderItemSchema = ZObject
      [(''orderItemId'', UuidSchema),
       (''orderId'', UuidSchema),
       (''itemId'', UuidSchema),
       (''nameSnapshot'', ZString [Min 1, Max 255]),
       (''priceCentsSnapshot'', ZNumber [IntCheck, Nonnegative]),
       (''quantity'', ZNumber [IntCheck, Positive]),
       (''modifiersJson'', ZReadonly (ZArray OrderItemModifierSchema)),
       (''lineTotalCents'', ZNumber [IntCheck, Nonnegative]),
       (''createdAt'', IsoTimestampSchema)]"

definition TaxBreakdownEntrySchema :: zod where
  "TaxBreakdownEntrySchema = ZObject
      [(''label'', ZString [Min 1]),
       (''amountCents'', ZNumber [IntCheck]),
       (''rate'', ZNumber [Min 0, Max 1])]"

definition OrderSchema :: zod where
  "OrderSchema = ZObject
      [(''orderId'', UuidSchema),
       (''storeId'', UuidSchema),
       (''kioskId'', UuidSchema),
       (''cartId'', UuidSchema),
       (''orderNumber'', ZString [Min 1, Max 16]),
       (''status'', OrderStatusSchema),
       (''subtotalCents'', ZNumber [IntCheck, Nonnegative]),
       (''taxCents'', ZNumber [IntCheck, Nonnegative]),
       (''discountCents'', ZNumber [IntCheck, Nonnegative]),
       (''totalCents'', ZNumber [IntCheck, Nonnegative]),
       (''itemsJson'', ZReadonly (ZArray OrderItemSchema)),
       (''taxBreakdownJson'', ZNullable (ZReadonly (ZArray TaxBreakdownEntrySchema))),
       (''metadata'', ZNullable (ZRecord (ZString []) ZUnknown)),
       (''paidAt'', ZNullable IsoTimestampSchema),
       (''fulfilledAt'', ZNullable IsoTimestampSchema),
       (''cancelledAt'', ZNullable IsoTimestampSchema),
       (''createdAt'', IsoTimestampSchema)]"

definition PaymentSchema :: zod where
  "PaymentSchema = ZObject
      [(''paymentId'', UuidSchema),
       (''orderId'', UuidSchema),
       (''kioskId'', UuidSchema),
       (''idempotencyKey'', UuidSchema),
       (''amountCents'', ZNumber [IntCheck, Positive]),
       (''currency'', CurrencySchema),
       (''method'', PaymentMethodSchema),
       (''status'', PaymentStatusSchema),
       (''verifoneToken'', ZNullable (ZString [Max 255])),
       (''verifoneAuthCode'', ZNullable (ZString [Max 16])),
       (''cardBrand'', ZNullable (ZString [Max 16])),
       (''cardLastFour'', ZNullable (ZString [Length 4])),
       (''declineReason'', ZNullable (ZString [Max 255])),
       (''receiptText'', ZNullable (ZString [])),
       (''isOfflineToken'', ZBoolean),
       (''offlineTokenHmac'', ZNullable HexHash64Schema),
       (''syncedAt'', ZNullable IsoTimestampSchema),
       (''createdAt'', IsoTimestampSchema),
       (''updatedAt'', IsoTimestampSchema)]"

definition RefundSchema :: zod where
  "RefundSchema = ZObject
      [(''refundId'', UuidSchema),
       (''paymentId'', UuidSchema),
       (''orderId'', UuidSchema),
       (''kioskId'', UuidSchema),
       (''amountCents'', ZNumber [IntCheck, Positive]),
       (''currency'', CurrencySchema),
       (''reason'', ZString [Min 1, Max 255]),
       (''status'', RefundStatusSchema),
       (''verifoneReference'', ZNullable (ZString [Max 255])),
       (''processedBy'', ZNullable UuidSchema),
       (''createdAt'', IsoTimestampSchema),
       (''updatedAt'', IsoTimestampSchema)]"

definition OfflineTokenSchema :: zod where
  "OfflineTokenSchema = ZObject
      [(''tokenId'', UuidSchema),
       (''storeId'', UuidSchema),
       (''kioskId'', UuidSchema),
       (''cartId'', UuidSchema),
       (''amountCents'', ZNumber [IntCheck, Positive]),
       (''currency'', CurrencySchema),
       (''method'', ZString [Min 1, Max 16]),
       (''verifoneOpaqueToken'', ZString [Min 1, Max 255]),
       (''hmacSignature'', HexHash64Schema),
       (''expiresAt'', IsoTimestampSchema),
       (''settledAt'', ZNullable IsoTimestampSchema),
       (''settlementResult'', ZNullable (ZRecord (ZString []) ZUnknown)),
       (''createdAt'', IsoTimestampSchema),
       (''updatedAt'', IsoTimestampSchema)]"

definition EmployeeSchema :: zod where
  "EmployeeSchema = ZObject
      [(''employeeId'', UuidSchema),
       (''storeId'', UuidSchema),
       (''name'', ZString [Min 1, Max 128]),
       (''email'', EmailSchema),
       (''role'', EmployeeRoleSchema),
       (''biometricHash'', ZNullable HexHash64Schema),
       (''webauthnCredentialId'', ZNullable (ZString [Max 255])),
       (''webauthnPublicKey'', ZNullable (ZInstanceof ''Uint8Array'')),
       (''isActive'', ZBoolean),
       (''lastLoginAt'', ZNullable IsoTimestampSchema),
       (''createdAt'', IsoTimestampSchema),
       (''updatedAt'', IsoTimestampSchema),
       (''deletedAt'', ZNullable IsoTimestampSchema)]"

definition RoleSchema :: zod where
  "RoleSchema = ZObject
      [(''roleId'', UuidSchema),
       (''tenantId'', UuidSchema),
       (''name'', ZString [Min 1, Max 64]),
       (''description'', ZNullable (ZString [Max 500])),
       (''isSystem'', ZBoolean),
       (''createdAt'', IsoTimestampSchema),
       (''updatedAt'', IsoTimestampSchema)]"

definition PermissionSchema :: zod where
  "PermissionSchema = ZObject
      [(''permissionId'', UuidSchema),
       (''resource'', ZString [Min 1, Max 64]),
       (''action'', ZString [Min 1, Max 64]),
       (''description'', ZNullable (ZString [Max 500]))]"

definition RolePermissionSchema :: zod where
  "RolePermissionSchema = ZObject
      [(''roleId'', UuidSchema),
       (''permissionId'', UuidSchema),
       (''createdAt'', IsoTimestampSchema)]"

definition UserSchema :: zod where
  "UserSchema = ZObject
      [(''userId'', UuidSchema),
       (''tenantId'', UuidSchema),
       (''email'', EmailSchema),
       (''name'', ZString [Min 1, Max 128]),
       (''roleId'', UuidSchema),
       (''isActive'', ZBoolean),
       (''webauthnCredentialId'', ZNullable (ZString [Max 255])),
       (''webauthnPublicKey'', ZNullable (ZInstanceof ''Uint8Array'')),
       (''lastLoginAt'', ZNullable IsoTimestampSchema),
       (''createdAt'', IsoTimestampSchema),
       (''updatedAt'', IsoTimestampSchema),
       (''deletedAt'', ZNullable IsoTimestampSchema)]"

definition AuditLogSchema :: zod where
  "AuditLogSchema = ZObject
      [(''auditId'', ZNumber [IntCheck, Nonnegative]),
       (''storeId'', UuidSchema),
       (''tenantId'', ZNullable UuidSchema),
       (''laneId'', ZNullable UuidSchema),
       (''kioskId'', ZNullable UuidSchema),
       (''employeeId'', ZNullable UuidSchema),
       (''userId'', ZNullable UuidSchema),
       (''eventType'', AuditEventTypeSchema),
       (''entityType'', ZString [Min 1, Max 32]),
       (''entityId'', UuidSchema),
       (''payloadJson'', ZRecord (ZString []) ZUnknown),
       (''previousHash'', HexHash64Schema),
       (''currentHash'', HexHash64Schema),
       (''createdAt'', IsoTimestampSchema)]"

definition EventStoreRecordSchema :: zod where
  "EventStoreRecordSchema = ZObject
      [(''eventId'', UuidSchema),
       (''eventSchema'', ZString [Min 1, Max 64]),
       (''aggregateType'', ZString [Min 1, Max 64]),
       (''aggregateId'', UuidSchema),
       (''sequenceNumber'', ZNumber [IntCheck, Nonnegative]),
       (''payload'', ZRecord (ZString []) ZUnknown),
       (''metadata'', ZRecord (ZString []) ZUnknown),
       (''occurredAt'', IsoTimestampSchema),
       (''recordedAt'', IsoTimestampSchema)]"

definition OutboxEventSchema :: zod where
  "OutboxEventSchema = ZObject
      [(''eventId'', UuidSchema),
       (''aggregateType'', ZString [Min 1, Max 64]),
       (''aggregateId'', UuidSchema),
       (''eventType'', ZString [Min 1, Max 128]),
       (''payload'', ZRecord (ZString []) ZUnknown),
       (''occurredAtMs'', ZNumber [IntCheck, Positive]),
       (''published'', ZBoolean),
       (''publishedAtMs'', ZNullable (ZNumber [IntCheck, Positive])),
       (''createdAt'', IsoTimestampSchema)]"

definition SyncEventSchema :: zod where
  "SyncEventSchema = ZObject
      [(''syncEventId'', UuidSchema),
       (''storeId'', UuidSchema),
       (''kioskId'', UuidSchema),
       (''eventType'', SyncEventTypeSchema),
       (''payloadJson'', ZRecord (ZString []) ZUnknown),
       (''vectorClock'', ZRecord (ZString []) (ZNumber [IntCheck, Nonnegative])),
       (''processedAt'', ZNullable IsoTimestampSchema),
       (''createdAt'', IsoTimestampSchema)]"

definition AnalyticsEventSchema :: zod where
  "AnalyticsEventSchema = ZObject
      [(''analyticsId'', ZNumber [IntCheck, Nonnegative]),
       (''storeId'', UuidSchema),
       (''kioskId'', ZNullable UuidSchema),
       (''eventType'', ZString [Min 1, Max 32]),
       (''sessionId'', ZNullable UuidSchema),
       (''customerHash'', ZNullable (ZString [Max 64])),
       (''itemId'', ZNullable UuidSchema),
       (''categoryId'', ZNullable UuidSchema),
       (''quantity'', ZNullable (ZNumber [IntCheck, Positive])),
       (''amountCents'', ZNullable (ZNumber [IntCheck, Positive])),
       (''durationMs'', ZNullable (ZNumber [IntCheck, Nonnegative])),
       (''metadata'', ZNullable (ZRecord (ZString []) ZUnknown)),
       (''createdAt'', IsoTimestampSchema)]"

definition CreateCartRequestSchema :: zod where
  "CreateCartRequestSchema = ZObject
      [(''storeId'', UuidSchema),
       (''kioskId'', UuidSchema),
       (''sessionId'', UuidSchema),
       (''customerPhone'', ZOptional (ZString [Max 16]))]"

definition AddItemRequestSchema :: zod where
  "AddItemRequestSchema = ZObject
      [(''cartId'', UuidSchema),
       (''menuItemId'', UuidSchema),
       (''nameSnapshot'', ZString [Min 1, Max 255]),
       (''unitPriceCentsSnapshot'', ZNumber [IntCheck, Nonnegative]),
       (''quantity'', ZNumber [IntCheck, Positive, Max 99]),
       (''modifiers'', ZDefault (ZReadonly (ZArray (ZObject
      [(''modifierId'', UuidSchema),
       (''optionId'', UuidSchema),
       (''priceDeltaCents'', ZNumber [IntCheck])]))) (JArr [])),
       (''notes'', ZOptional (ZString [Max 280])),
       (''weightGrams'', ZOptional (ZNumber [Nonnegative]))]"

definition UpdateCartRequestSchema :: zod where
  "UpdateCartRequestSchema = ZObject
      [(''cartId'', UuidSchema),
       (''sessionId'', ZOptional UuidSchema),
       (''customerPhone'', ZOptional (ZString [Max 16])),
       (''lines'', ZOptional (ZReadonly (ZArray CartLineSchema))),
       (''version'', ZOptional (ZNumber [IntCheck, Nonnegative]))]"

definition CheckoutRequestSchema :: zod where
  "CheckoutRequestSchema = ZObject
      [(''cartId'', UuidSchema),
       (''method'', PaymentMethodSchema),
       (''currency'', ZDefault CurrencySchema (JStr ''USD''))]"

definition CartResponseSchema :: zod where
  "CartResponseSchema = ZObject
      [(''cartId'', UuidSchema),
       (''storeId'', UuidSchema),
       (''kioskId'', UuidSchema),
       (''sessionId'', UuidSchema),
       (''lines'', ZReadonly (ZArray CartLineSchema)),
       (''totals'', ZCustom ''CartTotals''),
       (''version'', ZNumber [IntCheck, Nonnegative]),
       (''expiresAt'', IsoTimestampSchema)]"

definition PaymentResultSchema :: zod where
  "PaymentResultSchema = ZObject
      [(''paymentId'', UuidSchema),
       (''orderId'', UuidSchema),
       (''cartId'', UuidSchema),
       (''amountCents'', ZNumber [IntCheck, Positive]),
       (''currency'', CurrencySchema),
       (''method'', PaymentMethodSchema),
       (''status'', PaymentStatusSchema),
       (''authorization'', ZCustom ''PaymentAuthorizationResult''),
       (''receiptUrl'', ZOptional (ZUrl []))]"

definition RefundRequestSchema :: zod where
  "RefundRequestSchema = ZObject
      [(''paymentId'', UuidSchema),
       (''amountCents'', ZNumber [IntCheck, Positive]),
       (''reason'', ZString [Min 1, Max 255])]"

definition MenuResponseSchema :: zod where
  "MenuResponseSchema = ZObject
      [(''storeId'', UuidSchema),
       (''currency'', CurrencySchema),
       (''taxRate'', ZNumber [Min 0, Max 1]),
       (''categories'', ZReadonly (ZArray (ZCustom ''Category''))),
       (''items'', ZReadonly (ZArray (ZCustom ''MenuItem''))),
       (''staleAt'', ZOptional IsoTimestampSchema)]"

definition OrderResponseSchema :: zod where
  "OrderResponseSchema = OrderSchema"

definition CreateOrderRequestSchema :: zod where
  "CreateOrderRequestSchema = ZObject
      [(''cartId'', UuidSchema),
       (''paymentId'', UuidSchema)]"

definition KioskHeartbeatRequestSchema :: zod where
  "KioskHeartbeatRequestSchema = ZObject
      [(''kioskId'', UuidSchema),
       (''storeId'', UuidSchema),
       (''firmwareVersion'', ZOptional (ZString [Max 32])),
       (''syncStatus'', ZOptional (ZEnum [''online'', ''offline'', ''degraded'', ''maintenance''])),
       (''peerCount'', ZOptional (ZNumber [IntCheck, Nonnegative])),
       (''queueDepth'', ZOptional (ZNumber [IntCheck, Nonnegative]))]"

definition KioskHeartbeatResponseSchema :: zod where
  "KioskHeartbeatResponseSchema = ZObject
      [(''kioskId'', UuidSchema),
       (''accepted'', ZBoolean),
       (''leaderKioskId'', ZNullable UuidSchema),
       (''configVersion'', ZNumber [IntCheck, Nonnegative])]"

definition SyncBatchRequestSchema :: zod where
  "SyncBatchRequestSchema = ZObject
      [(''kioskId'', UuidSchema),
       (''storeId'', UuidSchema),
       (''events'', ZReadonly (ZArray (ZRecord (ZString []) ZUnknown))),
       (''vectorClock'', ZRecord (ZString []) (ZNumber [IntCheck, Nonnegative]))]"

definition SyncBatchResponseSchema :: zod where
  "SyncBatchResponseSchema = ZObject
      [(''accepted'', ZBoolean),
       (''conflicts'', ZNumber [IntCheck, Nonnegative]),
       (''vectorClock'', ZRecord (ZString []) (ZNumber [IntCheck, Nonnegative]))]"

lemmas schema_defs =
  UuidSchema_def IsoTimestampSchema_def CurrencySchema_def EmailSchema_def
  HexHash64Schema_def TenantPlanSchema_def KioskSyncStatusSchema_def ItemTaxCategorySchema_def
  WeightUnitSchema_def CartStatusSchema_def OrderStatusSchema_def PaymentMethodSchema_def
  PaymentStatusSchema_def EmployeeRoleSchema_def AuditEventTypeSchema_def InventoryTransactionTypeSchema_def
  SyncEventTypeSchema_def RefundStatusSchema_def TenantSchema_def LocationSchema_def
  LaneSchema_def StoreSchema_def KioskSchema_def CategorySchema_def
  ItemSchema_def ModifierGroupSchema_def ModifierOptionSchema_def ItemModifierGroupSchema_def
  InventorySchema_def InventoryTransactionSchema_def InventoryReservationSchema_def CartLineSchema_def
  CartSchema_def OrderItemModifierSchema_def OrderItemSchema_def TaxBreakdownEntrySchema_def
  OrderSchema_def PaymentSchema_def RefundSchema_def OfflineTokenSchema_def
  EmployeeSchema_def RoleSchema_def PermissionSchema_def RolePermissionSchema_def
  UserSchema_def AuditLogSchema_def EventStoreRecordSchema_def OutboxEventSchema_def
  SyncEventSchema_def AnalyticsEventSchema_def CreateCartRequestSchema_def AddItemRequestSchema_def
  UpdateCartRequestSchema_def CheckoutRequestSchema_def CartResponseSchema_def PaymentResultSchema_def
  RefundRequestSchema_def MenuResponseSchema_def OrderResponseSchema_def CreateOrderRequestSchema_def
  KioskHeartbeatRequestSchema_def KioskHeartbeatResponseSchema_def SyncBatchRequestSchema_def SyncBatchResponseSchema_def

end
