(* ===== verification/DomainTypes.thy ===== *)
theory DomainTypes
  imports Prelude
begin

text \<open>
  The domain types of \<open>packages/shared-types/src/types/domain.ts\<close>, as values of a small language of TypeScript's types. All
  properties and arrays there are \<open>readonly\<close>, which is left out.
\<close>

section \<open>Types\<close>

datatype ts =
    TsString | TsNumber | TsBoolean | TsNull | TsUndefined | TsUnknown
  | TsLit string | TsInstance string
  | TsArray ts | TsRecord ts
  | TsUnion "ts list"
  | TsObject "(string \<times> ts) list"

section \<open>The types of the domain\<close>

definition TenantPlan_type :: ts where
  "TenantPlan_type =
     TsUnion [TsLit ''standard'', TsLit ''enterprise'']"

definition KioskSyncStatus_type :: ts where
  "KioskSyncStatus_type =
     TsUnion [TsLit ''online'', TsLit ''offline'', TsLit ''degraded'', TsLit ''maintenance'']"

definition ItemTaxCategory_type :: ts where
  "ItemTaxCategory_type =
     TsUnion [TsLit ''standard'', TsLit ''exempt'', TsLit ''reduced'']"

definition WeightUnit_type :: ts where
  "WeightUnit_type =
     TsUnion [TsLit ''g'', TsLit ''kg'', TsLit ''lb'', TsLit ''oz'']"

definition CartStatus_type :: ts where
  "CartStatus_type =
     TsUnion [TsLit ''active'', TsLit ''finalized'', TsLit ''abandoned'', TsLit ''expired'']"

definition OrderStatus_type :: ts where
  "OrderStatus_type =
     TsUnion [TsLit ''pending'', TsLit ''paid'', TsLit ''fulfilled'', TsLit ''cancelled'', TsLit ''refunded'']"

definition PaymentMethod_type :: ts where
  "PaymentMethod_type =
     TsUnion [TsLit ''credit_debit'', TsLit ''nfc_apple_pay'', TsLit ''nfc_google_pay'', TsLit ''qr_code'',
      TsLit ''cash_recycler'']"

definition PaymentStatus_type :: ts where
  "PaymentStatus_type =
     TsUnion [TsLit ''pending'', TsLit ''authorized'', TsLit ''captured'', TsLit ''queued_offline'',
      TsLit ''declined'', TsLit ''voided'', TsLit ''refunded'']"

definition EmployeeRole_type :: ts where
  "EmployeeRole_type =
     TsUnion [TsLit ''cashier'', TsLit ''supervisor'', TsLit ''manager'', TsLit ''admin'']"

definition AuditEventType_type :: ts where
  "AuditEventType_type =
     TsUnion [TsLit ''order_created'', TsLit ''order_paid'', TsLit ''order_refunded'', TsLit ''payment_processed'',
      TsLit ''inventory_adjusted'', TsLit ''employee_login'', TsLit ''employee_logout'',
      TsLit ''system_boot'', TsLit ''system_shutdown'', TsLit ''sync_event'', TsLit ''security_event'']"

definition InventoryTransactionType_type :: ts where
  "InventoryTransactionType_type =
     TsUnion [TsLit ''sale'', TsLit ''restock'', TsLit ''adjustment'', TsLit ''reserved'', TsLit ''released'',
      TsLit ''waste'', TsLit ''return'']"

definition SyncEventType_type :: ts where
  "SyncEventType_type =
     TsUnion [TsLit ''inventory_update'', TsLit ''cart_merge'', TsLit ''transaction_batch'',
      TsLit ''analytics_batch'']"

definition RefundStatus_type :: ts where
  "RefundStatus_type =
     TsUnion [TsLit ''pending'', TsLit ''completed'', TsLit ''failed'']"

definition Tenant_type :: ts where
  "Tenant_type = TsObject
     [(''tenantId'', TsString),
      (''slug'', TsString),
      (''name'', TsString),
      (''billingEmail'', TsString),
      (''plan'', TenantPlan_type),
      (''isActive'', TsBoolean),
      (''createdAt'', TsString),
      (''updatedAt'', TsString),
      (''deletedAt'', TsUnion [TsString, TsNull])]"

definition Location_type :: ts where
  "Location_type = TsObject
     [(''locationId'', TsString),
      (''tenantId'', TsString),
      (''slug'', TsString),
      (''name'', TsString),
      (''address'', TsUnion [TsString, TsNull]),
      (''timezone'', TsString),
      (''currency'', TsString),
      (''taxRate'', TsNumber),
      (''createdAt'', TsString),
      (''updatedAt'', TsString),
      (''deletedAt'', TsUnion [TsString, TsNull])]"

definition Lane_type :: ts where
  "Lane_type = TsObject
     [(''laneId'', TsString),
      (''locationId'', TsString),
      (''displayName'', TsString),
      (''laneNumber'', TsNumber),
      (''isActive'', TsBoolean),
      (''createdAt'', TsString),
      (''updatedAt'', TsString),
      (''deletedAt'', TsUnion [TsString, TsNull])]"

definition Store_type :: ts where
  "Store_type = TsObject
     [(''storeId'', TsString),
      (''tenantId'', TsUnion [TsString, TsNull]),
      (''locationId'', TsUnion [TsString, TsNull]),
      (''name'', TsString),
      (''address'', TsUnion [TsString, TsNull]),
      (''timezone'', TsString),
      (''currency'', TsString),
      (''taxRate'', TsNumber),
      (''createdAt'', TsString),
      (''updatedAt'', TsString),
      (''deletedAt'', TsUnion [TsString, TsNull])]"

definition Kiosk_type :: ts where
  "Kiosk_type = TsObject
     [(''kioskId'', TsString),
      (''storeId'', TsString),
      (''laneId'', TsUnion [TsString, TsNull]),
      (''tenantId'', TsUnion [TsString, TsNull]),
      (''hardwareId'', TsString),
      (''displayName'', TsString),
      (''ipAddress'', TsUnion [TsString, TsNull]),
      (''lastSeenAt'', TsUnion [TsString, TsNull]),
      (''syncStatus'', KioskSyncStatus_type),
      (''isLeader'', TsBoolean),
      (''signingKeyHash'', TsString),
      (''firmwareVersion'', TsUnion [TsString, TsNull]),
      (''createdAt'', TsString),
      (''updatedAt'', TsString),
      (''deletedAt'', TsUnion [TsString, TsNull])]"

definition Category_type :: ts where
  "Category_type = TsObject
     [(''categoryId'', TsString),
      (''storeId'', TsString),
      (''parentId'', TsUnion [TsString, TsNull]),
      (''name'', TsString),
      (''description'', TsUnion [TsString, TsNull]),
      (''displayOrder'', TsNumber),
      (''imageUrl'', TsUnion [TsString, TsNull]),
      (''blurhash'', TsUnion [TsString, TsNull]),
      (''isActive'', TsBoolean),
      (''createdAt'', TsString),
      (''updatedAt'', TsString),
      (''deletedAt'', TsUnion [TsString, TsNull])]"

definition Item_type :: ts where
  "Item_type = TsObject
     [(''itemId'', TsString),
      (''storeId'', TsString),
      (''categoryId'', TsString),
      (''name'', TsString),
      (''description'', TsUnion [TsString, TsNull]),
      (''priceCents'', TsNumber),
      (''costCents'', TsUnion [TsNumber, TsNull]),
      (''plu'', TsUnion [TsString, TsNull]),
      (''barcode'', TsUnion [TsString, TsNull]),
      (''sku'', TsUnion [TsString, TsNull]),
      (''imageUrl'', TsUnion [TsString, TsNull]),
      (''blurhash'', TsUnion [TsString, TsNull]),
      (''taxCategory'', ItemTaxCategory_type),
      (''isWeightBased'', TsBoolean),
      (''weightUnit'', TsUnion [WeightUnit_type, TsNull]),
      (''isActive'', TsBoolean),
      (''metadata'', TsUnion [TsRecord TsUnknown, TsNull]),
      (''createdAt'', TsString),
      (''updatedAt'', TsString),
      (''deletedAt'', TsUnion [TsString, TsNull])]"

definition ModifierGroup_type :: ts where
  "ModifierGroup_type = TsObject
     [(''modifierGroupId'', TsString),
      (''storeId'', TsString),
      (''name'', TsString),
      (''description'', TsUnion [TsString, TsNull]),
      (''minSelect'', TsNumber),
      (''maxSelect'', TsNumber),
      (''displayOrder'', TsNumber),
      (''isActive'', TsBoolean),
      (''createdAt'', TsString),
      (''updatedAt'', TsString),
      (''deletedAt'', TsUnion [TsString, TsNull])]"

definition ModifierOption_type :: ts where
  "ModifierOption_type = TsObject
     [(''modifierOptionId'', TsString),
      (''modifierGroupId'', TsString),
      (''name'', TsString),
      (''priceDeltaCents'', TsNumber),
      (''isDefault'', TsBoolean),
      (''displayOrder'', TsNumber),
      (''isActive'', TsBoolean),
      (''createdAt'', TsString),
      (''updatedAt'', TsString),
      (''deletedAt'', TsUnion [TsString, TsNull])]"

definition ItemModifierGroup_type :: ts where
  "ItemModifierGroup_type = TsObject
     [(''itemId'', TsString),
      (''modifierGroupId'', TsString),
      (''createdAt'', TsString)]"

definition Inventory_type :: ts where
  "Inventory_type = TsObject
     [(''inventoryId'', TsString),
      (''storeId'', TsString),
      (''itemId'', TsString),
      (''quantityAvailable'', TsNumber),
      (''quantityReserved'', TsNumber),
      (''quantityOnOrder'', TsNumber),
      (''reorderPoint'', TsNumber),
      (''reorderQuantity'', TsNumber),
      (''location'', TsUnion [TsString, TsNull]),
      (''lastCountedAt'', TsUnion [TsString, TsNull]),
      (''updatedAt'', TsString)]"

definition InventoryTransaction_type :: ts where
  "InventoryTransaction_type = TsObject
     [(''transactionId'', TsString),
      (''storeId'', TsString),
      (''itemId'', TsString),
      (''transactionType'', InventoryTransactionType_type),
      (''quantityDelta'', TsNumber),
      (''runningBalance'', TsNumber),
      (''referenceId'', TsUnion [TsString, TsNull]),
      (''referenceType'', TsUnion [TsString, TsNull]),
      (''kioskId'', TsUnion [TsString, TsNull]),
      (''employeeId'', TsUnion [TsString, TsNull]),
      (''notes'', TsUnion [TsString, TsNull]),
      (''createdAt'', TsString)]"

definition InventoryReservation_type :: ts where
  "InventoryReservation_type = TsObject
     [(''reservationId'', TsString),
      (''storeId'', TsString),
      (''kioskId'', TsString),
      (''itemId'', TsString),
      (''cartId'', TsString),
      (''quantity'', TsNumber),
      (''expiresAtMs'', TsNumber),
      (''createdAtMs'', TsNumber)]"

definition CartLine_type :: ts where
  "CartLine_type = TsObject
     [(''lineId'', TsString),
      (''cartId'', TsString),
      (''menuItemId'', TsString),
      (''nameSnapshot'', TsString),
      (''unitPriceCentsSnapshot'', TsNumber),
      (''quantity'', TsNumber),
      (''modifiers'', TsArray TsUnknown),
      (''addedAtMs'', TsNumber)]"

definition Cart_type :: ts where
  "Cart_type = TsObject
     [(''cartId'', TsString),
      (''storeId'', TsString),
      (''kioskId'', TsString),
      (''sessionId'', TsString),
      (''customerPhone'', TsUnion [TsString, TsNull]),
      (''status'', CartStatus_type),
      (''finalized'', TsBoolean),
      (''version'', TsNumber),
      (''totalCents'', TsNumber),
      (''taxCents'', TsNumber),
      (''discountCents'', TsNumber),
      (''finalTotalCents'', TsNumber),
      (''itemsJson'', TsArray CartLine_type),
      (''reservedInventory'', TsBoolean),
      (''expiresAt'', TsString),
      (''createdAt'', TsString),
      (''updatedAt'', TsString),
      (''createdAtMs'', TsNumber),
      (''updatedAtMs'', TsNumber)]"

definition OrderItemModifier_type :: ts where
  "OrderItemModifier_type = TsObject
     [(''modifierGroupId'', TsString),
      (''optionId'', TsString),
      (''name'', TsString),
      (''priceDeltaCents'', TsNumber)]"

definition OrderItem_type :: ts where
  "OrderItem_type = TsObject
     [(''orderItemId'', TsString),
      (''orderId'', TsString),
      (''itemId'', TsString),
      (''nameSnapshot'', TsString),
      (''priceCentsSnapshot'', TsNumber),
      (''quantity'', TsNumber),
      (''modifiersJson'', TsArray OrderItemModifier_type),
      (''lineTotalCents'', TsNumber),
      (''createdAt'', TsString)]"

definition TaxBreakdownEntry_type :: ts where
  "TaxBreakdownEntry_type = TsObject
     [(''label'', TsString),
      (''amountCents'', TsNumber),
      (''rate'', TsNumber)]"

definition Order_type :: ts where
  "Order_type = TsObject
     [(''orderId'', TsString),
      (''storeId'', TsString),
      (''kioskId'', TsString),
      (''cartId'', TsString),
      (''orderNumber'', TsString),
      (''status'', OrderStatus_type),
      (''subtotalCents'', TsNumber),
      (''taxCents'', TsNumber),
      (''discountCents'', TsNumber),
      (''totalCents'', TsNumber),
      (''itemsJson'', TsArray OrderItem_type),
      (''taxBreakdownJson'', TsUnion [TsArray TaxBreakdownEntry_type, TsNull]),
      (''metadata'', TsUnion [TsRecord TsUnknown, TsNull]),
      (''paidAt'', TsUnion [TsString, TsNull]),
      (''fulfilledAt'', TsUnion [TsString, TsNull]),
      (''cancelledAt'', TsUnion [TsString, TsNull]),
      (''createdAt'', TsString)]"

definition Payment_type :: ts where
  "Payment_type = TsObject
     [(''paymentId'', TsString),
      (''orderId'', TsString),
      (''kioskId'', TsString),
      (''idempotencyKey'', TsString),
      (''amountCents'', TsNumber),
      (''currency'', TsString),
      (''method'', PaymentMethod_type),
      (''status'', PaymentStatus_type),
      (''verifoneToken'', TsUnion [TsString, TsNull]),
      (''verifoneAuthCode'', TsUnion [TsString, TsNull]),
      (''cardBrand'', TsUnion [TsString, TsNull]),
      (''cardLastFour'', TsUnion [TsString, TsNull]),
      (''declineReason'', TsUnion [TsString, TsNull]),
      (''receiptText'', TsUnion [TsString, TsNull]),
      (''isOfflineToken'', TsBoolean),
      (''offlineTokenHmac'', TsUnion [TsString, TsNull]),
      (''syncedAt'', TsUnion [TsString, TsNull]),
      (''createdAt'', TsString),
      (''updatedAt'', TsString)]"

definition Refund_type :: ts where
  "Refund_type = TsObject
     [(''refundId'', TsString),
      (''paymentId'', TsString),
      (''orderId'', TsString),
      (''kioskId'', TsString),
      (''amountCents'', TsNumber),
      (''currency'', TsString),
      (''reason'', TsString),
      (''status'', RefundStatus_type),
      (''verifoneReference'', TsUnion [TsString, TsNull]),
      (''processedBy'', TsUnion [TsString, TsNull]),
      (''createdAt'', TsString),
      (''updatedAt'', TsString)]"

definition OfflineToken_type :: ts where
  "OfflineToken_type = TsObject
     [(''tokenId'', TsString),
      (''storeId'', TsString),
      (''kioskId'', TsString),
      (''cartId'', TsString),
      (''amountCents'', TsNumber),
      (''currency'', TsString),
      (''method'', TsString),
      (''verifoneOpaqueToken'', TsString),
      (''hmacSignature'', TsString),
      (''expiresAt'', TsString),
      (''settledAt'', TsUnion [TsString, TsNull]),
      (''settlementResult'', TsUnion [TsRecord TsUnknown, TsNull]),
      (''createdAt'', TsString),
      (''updatedAt'', TsString)]"

definition Employee_type :: ts where
  "Employee_type = TsObject
     [(''employeeId'', TsString),
      (''storeId'', TsString),
      (''name'', TsString),
      (''email'', TsString),
      (''role'', EmployeeRole_type),
      (''biometricHash'', TsUnion [TsString, TsNull]),
      (''webauthnCredentialId'', TsUnion [TsString, TsNull]),
      (''webauthnPublicKey'', TsUnion [TsInstance ''Uint8Array'', TsNull]),
      (''isActive'', TsBoolean),
      (''lastLoginAt'', TsUnion [TsString, TsNull]),
      (''createdAt'', TsString),
      (''updatedAt'', TsString),
      (''deletedAt'', TsUnion [TsString, TsNull])]"

definition Role_type :: ts where
  "Role_type = TsObject
     [(''roleId'', TsString),
      (''tenantId'', TsString),
      (''name'', TsString),
      (''description'', TsUnion [TsString, TsNull]),
      (''isSystem'', TsBoolean),
      (''createdAt'', TsString),
      (''updatedAt'', TsString)]"

definition Permission_type :: ts where
  "Permission_type = TsObject
     [(''permissionId'', TsString),
      (''resource'', TsString),
      (''action'', TsString),
      (''description'', TsUnion [TsString, TsNull])]"

definition RolePermission_type :: ts where
  "RolePermission_type = TsObject
     [(''roleId'', TsString),
      (''permissionId'', TsString),
      (''createdAt'', TsString)]"

definition User_type :: ts where
  "User_type = TsObject
     [(''userId'', TsString),
      (''tenantId'', TsString),
      (''email'', TsString),
      (''name'', TsString),
      (''roleId'', TsString),
      (''isActive'', TsBoolean),
      (''webauthnCredentialId'', TsUnion [TsString, TsNull]),
      (''webauthnPublicKey'', TsUnion [TsInstance ''Uint8Array'', TsNull]),
      (''lastLoginAt'', TsUnion [TsString, TsNull]),
      (''createdAt'', TsString),
      (''updatedAt'', TsString),
      (''deletedAt'', TsUnion [TsString, TsNull])]"

definition AuditLog_type :: ts where
  "AuditLog_type = TsObject
     [(''auditId'', TsNumber),
      (''storeId'', TsString),
      (''tenantId'', TsUnion [TsString, TsNull]),
      (''laneId'', TsUnion [TsString, TsNull]),
      (''kioskId'', TsUnion [TsString, TsNull]),
      (''employeeId'', TsUnion [TsString, TsNull]),
      (''userId'', TsUnion [TsString, TsNull]),
      (''eventType'', AuditEventType_type),
      (''entityType'', TsString),
      (''entityId'', TsString),
      (''payloadJson'', TsRecord TsUnknown),
      (''previousHash'', TsString),
      (''currentHash'', TsString),
      (''createdAt'', TsString)]"

definition EventStoreRecord_type :: ts where
  "EventStoreRecord_type = TsObject
     [(''eventId'', TsString),
      (''eventSchema'', TsString),
      (''aggregateType'', TsString),
      (''aggregateId'', TsString),
      (''sequenceNumber'', TsNumber),
      (''payload'', TsRecord TsUnknown),
      (''metadata'', TsRecord TsUnknown),
      (''occurredAt'', TsString),
      (''recordedAt'', TsString)]"

definition OutboxEvent_type :: ts where
  "OutboxEvent_type = TsObject
     [(''eventId'', TsString),
      (''aggregateType'', TsString),
      (''aggregateId'', TsString),
      (''eventType'', TsString),
      (''payload'', TsRecord TsUnknown),
      (''occurredAtMs'', TsNumber),
      (''published'', TsBoolean),
      (''publishedAtMs'', TsUnion [TsNumber, TsNull]),
      (''createdAt'', TsString)]"

definition SyncEvent_type :: ts where
  "SyncEvent_type = TsObject
     [(''syncEventId'', TsString),
      (''storeId'', TsString),
      (''kioskId'', TsString),
      (''eventType'', SyncEventType_type),
      (''payloadJson'', TsRecord TsUnknown),
      (''vectorClock'', TsRecord TsNumber),
      (''processedAt'', TsUnion [TsString, TsNull]),
      (''createdAt'', TsString)]"

definition AnalyticsEvent_type :: ts where
  "AnalyticsEvent_type = TsObject
     [(''analyticsId'', TsNumber),
      (''storeId'', TsString),
      (''kioskId'', TsUnion [TsString, TsNull]),
      (''eventType'', TsString),
      (''sessionId'', TsUnion [TsString, TsNull]),
      (''customerHash'', TsUnion [TsString, TsNull]),
      (''itemId'', TsUnion [TsString, TsNull]),
      (''categoryId'', TsUnion [TsString, TsNull]),
      (''quantity'', TsUnion [TsNumber, TsNull]),
      (''amountCents'', TsUnion [TsNumber, TsNull]),
      (''durationMs'', TsUnion [TsNumber, TsNull]),
      (''metadata'', TsUnion [TsRecord TsUnknown, TsNull]),
      (''createdAt'', TsString)]"

lemmas domain_defs =
  TenantPlan_type_def KioskSyncStatus_type_def ItemTaxCategory_type_def WeightUnit_type_def
  CartStatus_type_def OrderStatus_type_def PaymentMethod_type_def PaymentStatus_type_def
  EmployeeRole_type_def AuditEventType_type_def InventoryTransactionType_type_def SyncEventType_type_def
  RefundStatus_type_def Tenant_type_def Location_type_def Lane_type_def
  Store_type_def Kiosk_type_def Category_type_def Item_type_def
  ModifierGroup_type_def ModifierOption_type_def ItemModifierGroup_type_def Inventory_type_def
  InventoryTransaction_type_def InventoryReservation_type_def CartLine_type_def Cart_type_def
  OrderItemModifier_type_def OrderItem_type_def TaxBreakdownEntry_type_def Order_type_def
  Payment_type_def Refund_type_def OfflineToken_type_def Employee_type_def
  Role_type_def Permission_type_def RolePermission_type_def User_type_def
  AuditLog_type_def EventStoreRecord_type_def OutboxEvent_type_def SyncEvent_type_def
  AnalyticsEvent_type_def

end
