(* ===== verification/SchemaAgreement.thy ===== *)
theory SchemaAgreement
  imports Tables Schemas DomainTypes
begin

text \<open>
  The three declarations of the same data against each other: the domain types of \<open>types/domain.ts\<close>, the schemas of
  \<open>schemas/zod.ts\<close> and the tables of \<open>database/schemas/drizzle.ts\<close>. What zod infers and accepts and what PostgreSQL admits
  are parameters; their documented behaviour is a named hypothesis.
\<close>

section \<open>Which schema, type and table belong together\<close>

definition domain_schemas :: "(string \<times> zod \<times> ts) list" where
  "domain_schemas =
     [(''Tenant'', TenantSchema, Tenant_type),
      (''Location'', LocationSchema, Location_type),
      (''Lane'', LaneSchema, Lane_type),
      (''Store'', StoreSchema, Store_type),
      (''Kiosk'', KioskSchema, Kiosk_type),
      (''Category'', CategorySchema, Category_type),
      (''Item'', ItemSchema, Item_type),
      (''ModifierGroup'', ModifierGroupSchema, ModifierGroup_type),
      (''ModifierOption'', ModifierOptionSchema, ModifierOption_type),
      (''ItemModifierGroup'', ItemModifierGroupSchema, ItemModifierGroup_type),
      (''Inventory'', InventorySchema, Inventory_type),
      (''InventoryTransaction'', InventoryTransactionSchema, InventoryTransaction_type),
      (''InventoryReservation'', InventoryReservationSchema, InventoryReservation_type),
      (''CartLine'', CartLineSchema, CartLine_type),
      (''Cart'', CartSchema, Cart_type),
      (''OrderItemModifier'', OrderItemModifierSchema, OrderItemModifier_type),
      (''OrderItem'', OrderItemSchema, OrderItem_type),
      (''TaxBreakdownEntry'', TaxBreakdownEntrySchema, TaxBreakdownEntry_type),
      (''Order'', OrderSchema, Order_type),
      (''Payment'', PaymentSchema, Payment_type),
      (''Refund'', RefundSchema, Refund_type),
      (''OfflineToken'', OfflineTokenSchema, OfflineToken_type),
      (''Employee'', EmployeeSchema, Employee_type),
      (''Role'', RoleSchema, Role_type),
      (''Permission'', PermissionSchema, Permission_type),
      (''RolePermission'', RolePermissionSchema, RolePermission_type),
      (''User'', UserSchema, User_type),
      (''AuditLog'', AuditLogSchema, AuditLog_type),
      (''EventStoreRecord'', EventStoreRecordSchema, EventStoreRecord_type),
      (''OutboxEvent'', OutboxEventSchema, OutboxEvent_type),
      (''SyncEvent'', SyncEventSchema, SyncEvent_type),
      (''AnalyticsEvent'', AnalyticsEventSchema, AnalyticsEvent_type)]"

definition stored_types :: "(string \<times> zod \<times> ts \<times> Table) list" where
  "stored_types =
     [(''Tenant'', TenantSchema, Tenant_type, tenants_table),
      (''Location'', LocationSchema, Location_type, locations_table),
      (''Lane'', LaneSchema, Lane_type, lanes_table),
      (''Store'', StoreSchema, Store_type, stores_table),
      (''Kiosk'', KioskSchema, Kiosk_type, kiosks_table),
      (''Category'', CategorySchema, Category_type, categories_table),
      (''Item'', ItemSchema, Item_type, items_table),
      (''ModifierGroup'', ModifierGroupSchema, ModifierGroup_type, modifierGroups_table),
      (''ModifierOption'', ModifierOptionSchema, ModifierOption_type, modifierOptions_table),
      (''ItemModifierGroup'', ItemModifierGroupSchema, ItemModifierGroup_type, itemModifierGroups_table),
      (''Inventory'', InventorySchema, Inventory_type, inventory_table),
      (''InventoryTransaction'', InventoryTransactionSchema, InventoryTransaction_type, inventoryTransactions_table),
      (''InventoryReservation'', InventoryReservationSchema, InventoryReservation_type, inventoryReservations_table),
      (''Cart'', CartSchema, Cart_type, carts_table),
      (''CartLine'', CartLineSchema, CartLine_type, cartLines_table),
      (''Order'', OrderSchema, Order_type, orders_table),
      (''OrderItem'', OrderItemSchema, OrderItem_type, orderItems_table),
      (''Payment'', PaymentSchema, Payment_type, payments_table),
      (''Refund'', RefundSchema, Refund_type, refunds_table),
      (''OfflineToken'', OfflineTokenSchema, OfflineToken_type, offlineTokens_table),
      (''Employee'', EmployeeSchema, Employee_type, employees_table),
      (''Role'', RoleSchema, Role_type, roles_table),
      (''Permission'', PermissionSchema, Permission_type, permissions_table),
      (''RolePermission'', RolePermissionSchema, RolePermission_type, rolePermissions_table),
      (''User'', UserSchema, User_type, users_table),
      (''AuditLog'', AuditLogSchema, AuditLog_type, auditLogs_table),
      (''EventStoreRecord'', EventStoreRecordSchema, EventStoreRecord_type, eventStore_table),
      (''OutboxEvent'', OutboxEventSchema, OutboxEvent_type, outboxEvents_table),
      (''SyncEvent'', SyncEventSchema, SyncEvent_type, syncEvents_table),
      (''AnalyticsEvent'', AnalyticsEventSchema, AnalyticsEvent_type, analyticsEvents_table)]"

section \<open>Types of the schemas\<close>

text \<open>What \<open>z.infer\<close> is documented to be, for the schemas the source uses; \<open>readonly\<close> is left out, as in the types.\<close>

definition infer_documented :: "(zod \<Rightarrow> ts) \<Rightarrow> bool" where
  "infer_documented infer \<longleftrightarrow>
     (\<forall>cs. infer (ZString cs) = TsString \<and> infer (ZUrl cs) = TsString \<and> infer (ZEmail cs) = TsString \<and> infer (ZNumber cs) = TsNumber) \<and>
     infer ZBoolean = TsBoolean \<and> infer ZUnknown = TsUnknown \<and> (\<forall>b. infer (ZIsoDatetime b) = TsString) \<and>
     (\<forall>vs. infer (ZEnum vs) = TsUnion (map TsLit vs)) \<and> (\<forall>c. infer (ZInstanceof c) = TsInstance c) \<and>
     (\<forall>z. infer (ZArray z) = TsArray (infer z)) \<and> (\<forall>cs z. infer (ZRecord (ZString cs) z) = TsRecord (infer z)) \<and>
     (\<forall>z. infer (ZNullable z) = TsUnion [infer z, TsNull]) \<and> (\<forall>z. infer (ZOptional z) = TsUnion [infer z, TsUndefined]) \<and>
     (\<forall>z. infer (ZReadonly z) = infer z) \<and> (\<forall>z d. infer (ZDefault z d) = infer z) \<and> (\<forall>z f m. infer (ZRefine z f m) = infer z) \<and>
     (\<forall>ps. infer (ZObject ps) = TsObject (map (map_prod id infer) ps))"

text \<open>The relation of assignability of TypeScript on these types: unions part by part, arrays and records by their
  elements, objects by the properties of the target.\<close>

fun union_parts :: "ts \<Rightarrow> ts list option" where
  "union_parts (TsUnion ts) = Some ts"
| "union_parts _ = None"

fun element_types :: "ts \<Rightarrow> ts \<Rightarrow> (ts \<times> ts) option" where
  "element_types (TsArray a) (TsArray b) = Some (a, b)"
| "element_types (TsRecord a) (TsRecord b) = Some (a, b)"
| "element_types _ _ = None"

fun properties :: "ts \<Rightarrow> (string \<times> ts) list option" where
  "properties (TsObject ps) = Some ps"
| "properties _ = None"

fun literal_of_string :: "ts \<Rightarrow> ts \<Rightarrow> bool" where
  "literal_of_string (TsLit _) TsString = True"
| "literal_of_string _ _ = False"

function assignable :: "ts \<Rightarrow> ts \<Rightarrow> bool" where
  "assignable a b =
     (if b = TsUnknown \<or> a = b \<or> literal_of_string a b then True
      else case union_parts a of
        Some xs \<Rightarrow> list_all (\<lambda>x. assignable x b) xs
      | None \<Rightarrow>
       (case union_parts b of
          Some ys \<Rightarrow> list_ex (\<lambda>y. assignable a y) ys
        | None \<Rightarrow>
         (case element_types a b of
            Some (x, y) \<Rightarrow> assignable x y
          | None \<Rightarrow>
           (case (properties a, properties b) of
              (Some ps, Some qs) \<Rightarrow> list_all (\<lambda>q. list_ex (\<lambda>p. fst p = fst q \<and> assignable (snd p) (snd q)) ps) qs
            | _ \<Rightarrow> False))))"
  by pat_completeness auto

lemma size_part: "union_parts a = Some xs \<Longrightarrow> x \<in> set xs \<Longrightarrow> size x < size a"
  by (cases a) (auto simp: less_Suc_eq_le intro: size_list_estimation')

lemma size_element: "element_types a b = Some (x, y) \<Longrightarrow> size x < size a \<and> size y < size b"
  by (cases "(a, b)" rule: element_types.cases) auto

lemma size_property: "Some ps = properties a \<Longrightarrow> (k, x) \<in> set ps \<Longrightarrow> size x < size a"
proof (cases a)
  case (TsObject qs)
  assume "Some ps = properties a" "(k, x) \<in> set ps"
  then have "(k, x) \<in> set qs" using TsObject by simp
  then have "size x < Suc (size_list (size_prod (\<lambda>_. 0) size) qs)"
    by (induction qs) (auto split: prod.splits)
  then show ?thesis using TsObject by simp
qed simp_all

termination assignable
  by (relation "measure (\<lambda>p. size (fst p) + size (snd p))")
    (auto dest: size_part size_element size_property intro!: add_strict_mono)

declare assignable.simps [simp del]

lemma assignable_refl [simp]: "assignable a a"
  by (simp add: assignable.simps [of a a])

lemma assignable_unknown [simp]: "assignable a TsUnknown"
  by (simp add: assignable.simps [of a])

lemma assignable_base [simp]:
  "\<not> assignable TsUnknown (TsRecord a)" "\<not> assignable TsUnknown TsString"
  "assignable (TsLit s) (TsUnion ts) \<longleftrightarrow> list_ex (assignable (TsLit s)) ts"
  "assignable (TsLit s) (TsLit t) \<longleftrightarrow> s = t"
  "assignable (TsUnion ts) b \<longleftrightarrow> b = TsUnknown \<or> b = TsUnion ts \<or> list_all (\<lambda>x. assignable x b) ts"
  "assignable (TsArray a) (TsArray b) \<longleftrightarrow> a = b \<or> assignable a b"
  "assignable (TsRecord a) (TsRecord b) \<longleftrightarrow> a = b \<or> assignable a b"
  "assignable (TsObject ps) (TsObject qs) \<longleftrightarrow>
     ps = qs \<or> list_all (\<lambda>q. list_ex (\<lambda>p. fst p = fst q \<and> assignable (snd p) (snd q)) ps) qs"
  by (auto simp: assignable.simps [of TsUnknown] assignable.simps [of "TsLit s"] assignable.simps [of "TsUnion ts"]
      assignable.simps [of "TsArray a"] assignable.simps [of "TsRecord a"] assignable.simps [of "TsObject ps"])

lemma infer_simps:
  assumes "infer_documented infer"
  shows "infer (ZString cs) = TsString" "infer (ZUrl cs) = TsString" "infer (ZEmail cs) = TsString"
    "infer (ZNumber cs) = TsNumber" "infer ZBoolean = TsBoolean" "infer ZUnknown = TsUnknown"
    "infer (ZIsoDatetime b) = TsString" "infer (ZEnum vs) = TsUnion (map TsLit vs)" "infer (ZInstanceof c) = TsInstance c"
    "infer (ZArray z) = TsArray (infer z)" "infer (ZRecord (ZString cs) z) = TsRecord (infer z)"
    "infer (ZNullable z) = TsUnion [infer z, TsNull]" "infer (ZReadonly z) = infer z" "infer (ZDefault z d) = infer z"
    "infer (ZRefine z f m) = infer z" "infer (ZObject ps) = TsObject (map (map_prod id infer) ps)"
  using assms by (simp_all add: infer_documented_def)

text \<open>Most schemas infer their domain type itself. A line's modifiers are objects there and unknown values here, and the
  schema of payments lacks one status.\<close>

lemma infers_domain_type:
  assumes "infer_documented infer"
  shows "infer TenantSchema = Tenant_type"
    "infer LocationSchema = Location_type"
    "infer LaneSchema = Lane_type"
    "infer StoreSchema = Store_type"
    "infer KioskSchema = Kiosk_type"
    "infer CategorySchema = Category_type"
    "infer ItemSchema = Item_type"
    "infer ModifierGroupSchema = ModifierGroup_type"
    "infer ModifierOptionSchema = ModifierOption_type"
    "infer ItemModifierGroupSchema = ItemModifierGroup_type"
    "infer InventorySchema = Inventory_type"
    "infer InventoryTransactionSchema = InventoryTransaction_type"
    "infer InventoryReservationSchema = InventoryReservation_type"
    "infer OrderItemModifierSchema = OrderItemModifier_type"
    "infer OrderItemSchema = OrderItem_type"
    "infer TaxBreakdownEntrySchema = TaxBreakdownEntry_type"
    "infer OrderSchema = Order_type"
    "infer RefundSchema = Refund_type"
    "infer OfflineTokenSchema = OfflineToken_type"
    "infer EmployeeSchema = Employee_type"
    "infer RoleSchema = Role_type"
    "infer PermissionSchema = Permission_type"
    "infer RolePermissionSchema = RolePermission_type"
    "infer UserSchema = User_type"
    "infer AuditLogSchema = AuditLog_type"
    "infer EventStoreRecordSchema = EventStoreRecord_type"
    "infer OutboxEventSchema = OutboxEvent_type"
    "infer SyncEventSchema = SyncEvent_type"
    "infer AnalyticsEventSchema = AnalyticsEvent_type"
  by (simp_all add: infer_simps [OF assms] schema_defs domain_defs)

lemma infers_narrower_type:
  assumes "infer_documented infer"
  shows "assignable (infer CartLineSchema) CartLine_type" "\<not> assignable CartLine_type (infer CartLineSchema)"
    "assignable (infer CartSchema) Cart_type" "\<not> assignable Cart_type (infer CartSchema)"
    "assignable (infer PaymentSchema) Payment_type" "\<not> assignable Payment_type (infer PaymentSchema)"
  by (simp_all add: infer_simps [OF assms] schema_defs domain_defs)

text \<open>
  C14. The type that zod infers for each of the 32 schemas of \<open>zod.ts\<close> can be assigned to its domain type, and the other way
  round for all but three: a line and a cart may hold unknown modifiers, and a payment the status \<open>queued_offline\<close>.
\<close>

theorem schemas_infer_domain_types:
  assumes "infer_documented infer"
  shows "list_all (\<lambda>(n, z, t). assignable (infer z) t) domain_schemas \<and>
    map fst (filter (\<lambda>(n, z, t). \<not> assignable t (infer z)) domain_schemas) = [''CartLine'', ''Cart'', ''Payment'']"
  by (simp add: domain_schemas_def infers_domain_type [OF assms] infers_narrower_type [OF assms])

text \<open>The documented inference as a function, with an unknown type where the source asks for none.\<close>

fun infer_zod :: "zod \<Rightarrow> ts" where
  "infer_zod (ZString _) = TsString"
| "infer_zod (ZUrl _) = TsString"
| "infer_zod (ZEmail _) = TsString"
| "infer_zod ZUuid = TsString"
| "infer_zod (ZCoerceNumber _) = TsNumber"
| "infer_zod (ZIsoDatetime _) = TsString"
| "infer_zod (ZNumber _) = TsNumber"
| "infer_zod ZBoolean = TsBoolean"
| "infer_zod ZUnknown = TsUnknown"
| "infer_zod (ZEnum vs) = TsUnion (map TsLit vs)"
| "infer_zod (ZInstanceof c) = TsInstance c"
| "infer_zod (ZCustom _) = TsUnknown"
| "infer_zod (ZArray z) = TsArray (infer_zod z)"
| "infer_zod (ZRecord _ z) = TsRecord (infer_zod z)"
| "infer_zod (ZNullable z) = TsUnion [infer_zod z, TsNull]"
| "infer_zod (ZOptional z) = TsUnion [infer_zod z, TsUndefined]"
| "infer_zod (ZReadonly z) = infer_zod z"
| "infer_zod (ZDefault z _) = infer_zod z"
| "infer_zod (ZRefine z _ _) = infer_zod z"
| "infer_zod (ZObject ps) = TsObject (map (map_prod id infer_zod) ps)"

lemma infer_zod_documented: "infer_documented infer_zod"
  by (simp add: infer_documented_def)

theorem schemas_infer_domain_types_witness:
  "infer_documented infer_zod \<and> list_all (\<lambda>(n, z, t). assignable (infer_zod z) t) domain_schemas"
  using schemas_infer_domain_types [OF infer_zod_documented] infer_zod_documented by blast

section \<open>Types and tables\<close>

text \<open>How the value of a column is written in the domain: identifiers, texts and times are strings.\<close>

fun column_ts :: "columnType \<Rightarrow> ts" where
  "column_ts (EnumType _ vs) = TsUnion (map TsLit vs)"
| "column_ts Integer = TsNumber"
| "column_ts BigintNumber = TsNumber"
| "column_ts (Decimal _ _) = TsNumber"
| "column_ts Boolean = TsBoolean"
| "column_ts Jsonb = TsUnknown"
| "column_ts (CustomType c) = (if c = ''bytea'' then TsInstance ''Uint8Array'' else TsUnknown)"
| "column_ts _ = TsString"

text \<open>A value of JSON is not unknown in the domain, so only its column's side is compared.\<close>

fun without_null :: "ts \<Rightarrow> ts" where
  "without_null (TsUnion [t, TsNull]) = t"
| "without_null t = t"

definition mirrors_column :: "string \<times> ts \<Rightarrow> Column \<Rightarrow> bool" where
  "mirrors_column p c \<longleftrightarrow>
     fst p = colKey c \<and> snd p = (if not_null c then without_null (snd p) else TsUnion [without_null (snd p), TsNull]) \<and>
     (colType c = Jsonb \<or> without_null (snd p) = column_ts (colType c))"

definition mirrors :: "ts \<Rightarrow> Table \<Rightarrow> bool" where
  "mirrors d t = (case d of TsObject ps \<Rightarrow> list_all2 mirrors_column ps (columns t) | _ \<Rightarrow> False)"

text \<open>
  The domain types mirror the tables, as the comment in \<open>domain.ts\<close> says: the same keys in the same order, nullable where the
  column is, each of the type its column is written in; except for the payments, whose status has one more value.
\<close>

theorem domain_mirrors_tables:
  "map fst (filter (\<lambda>(n, z, d, t). \<not> mirrors d t) stored_types) = [''Payment''] \<and>
   list_all (\<lambda>(n, z, d, t). map fst (case d of TsObject ps \<Rightarrow> ps | _ \<Rightarrow> []) = map colKey (columns t)) stored_types \<and>
   map (snd \<circ> snd \<circ> snd) stored_types = map snd drizzle_tables"
proof (intro conjI)
  show "map fst (filter (\<lambda>(n, z, d, t). \<not> mirrors d t) stored_types) = [''Payment'']" by code_simp
  show "list_all (\<lambda>(n, z, d, t). map fst (case d of TsObject ps \<Rightarrow> ps | _ \<Rightarrow> []) = map colKey (columns t)) stored_types"
    by code_simp
  show "map (snd \<circ> snd \<circ> snd) stored_types = map snd drizzle_tables"
    by (simp add: stored_types_def drizzle_tables_def)
qed

section \<open>What a schema accepts and a column admits\<close>

definition safe_integer :: "rat \<Rightarrow> bool" where
  "safe_integer q \<longleftrightarrow> q = of_int \<lfloor>q\<rfloor> \<and> \<bar>q\<bar> \<le> 2 ^ 53 - 1"

fun text_check :: "string \<Rightarrow> zodCheck \<Rightarrow> bool" where
  "text_check s (Min q) = (q \<le> of_nat (length s))"
| "text_check s (Max q) = (of_nat (length s) \<le> q)"
| "text_check s (Length n) = (length s = n)"
| "text_check s (Regex p) = p s"
| "text_check s _ = True"

fun number_check :: "rat \<Rightarrow> zodCheck \<Rightarrow> bool" where
  "number_check q (Min r) = (r \<le> q)"
| "number_check q (Max r) = (q \<le> r)"
| "number_check q IntCheck = safe_integer q"
| "number_check q Nonnegative = (0 \<le> q)"
| "number_check q Positive = (0 < q)"
| "number_check q _ = True"

text \<open>
  What zod is documented to accept: \<open>accepts z v\<close> says that \<open>v\<close> is a result of parsing with \<open>z\<close>. Texts that are times,
  addresses or emails for zod are left to it; \<open>timestamp\<close> are the times.
\<close>

definition zod_documented :: "(string \<Rightarrow> bool) \<Rightarrow> (zod \<Rightarrow> jsval \<Rightarrow> bool) \<Rightarrow> bool" where
  "zod_documented timestamp accepts \<longleftrightarrow>
     (\<forall>cs v. accepts (ZString cs) v \<longleftrightarrow> (\<exists>s. v = JStr s \<and> list_all (text_check s) cs)) \<and>
     (\<forall>cs v. accepts (ZUrl cs) v \<longrightarrow> (\<exists>s. v = JStr s \<and> list_all (text_check s) cs)) \<and>
     (\<forall>cs v. accepts (ZEmail cs) v \<longrightarrow> (\<exists>s. v = JStr s \<and> list_all (text_check s) cs)) \<and>
     (\<forall>cs v. accepts (ZNumber cs) v \<longleftrightarrow> (\<exists>q. v = JNum q \<and> list_all (number_check q) cs)) \<and>
     (\<forall>v. accepts ZBoolean v \<longleftrightarrow> (\<exists>b. v = JBool b)) \<and>
     (\<forall>v. accepts (ZIsoDatetime True) v \<longleftrightarrow> (\<exists>s. v = JStr s \<and> timestamp s)) \<and>
     (\<forall>vs v. accepts (ZEnum vs) v \<longleftrightarrow> (\<exists>s. v = JStr s \<and> s \<in> set vs)) \<and>
     (\<forall>v. accepts (ZInstanceof ''Uint8Array'') v \<longleftrightarrow> (\<exists>bs. v = JBytes bs)) \<and>
     (\<forall>z v. accepts (ZArray z) v \<longleftrightarrow> (\<exists>xs. v = JArr xs \<and> list_all (accepts z) xs)) \<and>
     (\<forall>k z v. accepts (ZRecord k z) v \<longrightarrow> (\<exists>ps. v = JObj ps)) \<and>
     (\<forall>z v. accepts (ZNullable z) v \<longleftrightarrow> v = JNull \<or> accepts z v) \<and>
     (\<forall>z v. accepts (ZReadonly z) v \<longleftrightarrow> accepts z v) \<and>
     (\<forall>z d v. accepts (ZDefault z d) v \<longleftrightarrow> accepts z v \<or> v = d) \<and>
     (\<forall>z f m v. accepts (ZRefine z f m) v \<longleftrightarrow> accepts z v \<and> f v) \<and>
     (\<forall>ps v. accepts (ZObject ps) v \<longrightarrow> (\<exists>xs. v = JObj xs) \<and> list_all (\<lambda>p. accepts (snd p) (getProp v (fst p))) ps)"

text \<open>The shape of every identifier, whatever its version.\<close>

definition uuid_text :: "string \<Rightarrow> bool" where
  "uuid_text s \<longleftrightarrow>
     regex_test (replicate 8 is_hex @ [is_dash] @ replicate 4 is_hex @ [is_dash] @ replicate 4 is_hex @ [is_dash] @
       replicate 4 is_hex @ [is_dash] @ replicate 12 is_hex) s"

definition no_nul :: "string \<Rightarrow> bool" where
  "no_nul s \<longleftrightarrow> list_all (\<lambda>c. c \<noteq> CHR 0x00) s"

text \<open>No text inside the value has the character that PostgreSQL does not store.\<close>

fun json_no_nul :: "jsval \<Rightarrow> bool" where
  "json_no_nul (JStr s) = no_nul s"
| "json_no_nul (JArr xs) = list_all json_no_nul xs"
| "json_no_nul (JObj ps) = list_all (\<lambda>p. no_nul (fst p) \<and> json_no_nul (snd p)) ps"
| "json_no_nul _ = True"

definition decimal_value :: "string \<Rightarrow> nat" where
  "decimal_value s = foldl (\<lambda>n c. 10 * n + (of_char c - 48)) 0 s"

definition octets :: "string \<Rightarrow> bool" where
  "octets s \<longleftrightarrow> list_all (\<lambda>g. decimal_value g \<le> 255) (split_at (CHR ''.'') s)"

text \<open>A year after 0000, at most 64 characters, and universal time or a displacement of less than 16 hours.\<close>

definition pg_time :: "string \<Rightarrow> bool" where
  "pg_time s \<longleftrightarrow>
     take 4 s \<noteq> ''0000'' \<and> length s \<le> 64 \<and>
     (s \<noteq> [] \<and> last s = CHR ''Z'' \<or>
      (case drop (length s - 6) s of
         [sign, h1, h2, _, _, _] \<Rightarrow> sign \<in> set ''+-'' \<and> (h1 = CHR ''0'' \<or> h1 = CHR ''1'' \<and> h2 \<in> set ''012345'')
       | _ \<Rightarrow> False))"

text \<open>The values among those that the schemas accept which a type of column has room for.\<close>

fun storable :: "columnType \<Rightarrow> jsval \<Rightarrow> bool" where
  "storable (Varchar n) v = (case v of JStr s \<Rightarrow> no_nul s | _ \<Rightarrow> True)"
| "storable TextType v = (case v of JStr s \<Rightarrow> no_nul s | _ \<Rightarrow> True)"
| "storable Integer v = (case v of JNum q \<Rightarrow> - (2 ^ 31) \<le> q \<and> q < 2 ^ 31 | _ \<Rightarrow> True)"
| "storable TimestampTz v = (case v of JStr s \<Rightarrow> pg_time s | _ \<Rightarrow> True)"
| "storable Inet v = (case v of JStr s \<Rightarrow> octets s | _ \<Rightarrow> True)"
| "storable Jsonb v = json_no_nul v"
| "storable _ v = True"

text \<open>What PostgreSQL is documented to admit: \<open>adm ty v\<close> says that a column of the type stores the value.\<close>

definition pg_documented :: "(string \<Rightarrow> bool) \<Rightarrow> (columnType \<Rightarrow> jsval \<Rightarrow> bool) \<Rightarrow> bool" where
  "pg_documented timestamp adm \<longleftrightarrow>
     (\<forall>s. uuid_text s \<longrightarrow> adm Uuid (JStr s)) \<and>
     (\<forall>n s. length s \<le> n \<and> no_nul s \<longrightarrow> adm (Varchar n) (JStr s)) \<and>
     (\<forall>s. no_nul s \<longrightarrow> adm TextType (JStr s)) \<and>
     (\<forall>q. adm Integer (JNum q) \<longleftrightarrow> q = of_int \<lfloor>q\<rfloor> \<and> - (2 ^ 31) \<le> q \<and> q < 2 ^ 31) \<and>
     (\<forall>q. adm BigintNumber (JNum q) \<longleftrightarrow> q = of_int \<lfloor>q\<rfloor> \<and> - (2 ^ 63) \<le> q \<and> q < 2 ^ 63) \<and>
     (\<forall>b. adm Boolean (JBool b)) \<and>
     (\<forall>p s q. s \<le> p \<and> \<bar>q\<bar> \<le> 10 ^ (p - s) - 1 \<longrightarrow> adm (Decimal p s) (JNum q)) \<and>
     (\<forall>s. timestamp s \<and> pg_time s \<longrightarrow> adm TimestampTz (JStr s)) \<and>
     (\<forall>s. ip_regex s \<longrightarrow> (adm Inet (JStr s) \<longleftrightarrow> octets s)) \<and>
     (\<forall>v. json_no_nul v \<and> typeof_object v \<longrightarrow> adm Jsonb v) \<and>
     (\<forall>bs. adm (CustomType ''bytea'') (JBytes bs)) \<and>
     (\<forall>n vs s. adm (EnumType n vs) (JStr s) \<longleftrightarrow> s \<in> set vs)"

text \<open>A missing value and \<open>null\<close> are stored as null.\<close>

definition admits_column :: "(columnType \<Rightarrow> jsval \<Rightarrow> bool) \<Rightarrow> Column \<Rightarrow> jsval \<Rightarrow> bool" where
  "admits_column adm c v \<longleftrightarrow> (if v = JNull \<or> v = JUndefined then \<not> not_null c else adm (colType c) v)"

section \<open>Schemas that fit columns\<close>

fun max_length :: "zodCheck list \<Rightarrow> nat \<Rightarrow> bool" where
  "max_length [] n = False"
| "max_length (Max q # cs) n = (q \<le> of_nat n \<or> max_length cs n)"
| "max_length (Length m # cs) n = (m \<le> n \<or> max_length cs n)"
| "max_length (_ # cs) n = max_length cs n"

inductive fits :: "zod \<Rightarrow> columnType \<Rightarrow> bool" where
  uuid: "Regex p \<in> set cs \<Longrightarrow> (\<And>s. p s \<Longrightarrow> uuid_text s) \<Longrightarrow> fits (ZString cs) Uuid"
| varchar: "max_length cs n \<Longrightarrow> fits (ZString cs) (Varchar n)"
| pattern: "Regex p \<in> set cs \<Longrightarrow> (\<And>s. p s \<Longrightarrow> length s \<le> n) \<Longrightarrow> fits (ZString cs) (Varchar n)"
| url: "max_length cs n \<Longrightarrow> fits (ZUrl cs) (Varchar n)"
| email: "max_length cs n \<Longrightarrow> fits (ZEmail cs) (Varchar n)"
| unbounded: "fits (ZString cs) TextType"
| inet: "Regex p \<in> set cs \<Longrightarrow> (\<And>s. p s \<Longrightarrow> ip_regex s) \<Longrightarrow> fits (ZString cs) Inet"
| integer: "IntCheck \<in> set cs \<Longrightarrow> fits (ZNumber cs) Integer"
| bigint: "IntCheck \<in> set cs \<Longrightarrow> fits (ZNumber cs) BigintNumber"
| decimal: "Min a \<in> set cs \<Longrightarrow> Max b \<in> set cs \<Longrightarrow> s \<le> p \<Longrightarrow> 1 - 10 ^ (p - s) \<le> a \<Longrightarrow> b \<le> 10 ^ (p - s) - 1 \<Longrightarrow>
    fits (ZNumber cs) (Decimal p s)"
| boolean: "fits ZBoolean Boolean"
| enumeration: "list_all (\<lambda>v. v \<in> set ws) vs \<Longrightarrow> fits (ZEnum vs) (EnumType n ws)"
| datetime: "fits (ZIsoDatetime True) TimestampTz"
| bytes: "fits (ZInstanceof ''Uint8Array'') (CustomType ''bytea'')"
| array: "fits (ZArray z) Jsonb"
| rec: "fits (ZRecord k z) Jsonb"
| readonly: "fits z ty \<Longrightarrow> fits (ZReadonly z) ty"
| refined: "fits z ty \<Longrightarrow> fits (ZRefine z f m) ty"
| defaulted: "fits z Integer \<Longrightarrow> q = of_int \<lfloor>q\<rfloor> \<Longrightarrow> fits (ZDefault z (JNum q)) Integer"

lemma zod_simps:
  assumes "zod_documented timestamp accepts"
  shows "accepts (ZString cs) v \<longleftrightarrow> (\<exists>s. v = JStr s \<and> list_all (text_check s) cs)"
    "accepts (ZNumber cs) v \<longleftrightarrow> (\<exists>q. v = JNum q \<and> list_all (number_check q) cs)"
    "accepts ZBoolean v \<longleftrightarrow> (\<exists>b. v = JBool b)"
    "accepts (ZIsoDatetime True) v \<longleftrightarrow> (\<exists>s. v = JStr s \<and> timestamp s)"
    "accepts (ZEnum vs) v \<longleftrightarrow> (\<exists>s. v = JStr s \<and> s \<in> set vs)"
    "accepts (ZInstanceof ''Uint8Array'') v \<longleftrightarrow> (\<exists>bs. v = JBytes bs)"
    "accepts (ZArray z) v \<longleftrightarrow> (\<exists>xs. v = JArr xs \<and> list_all (accepts z) xs)"
    "accepts (ZNullable z) v \<longleftrightarrow> v = JNull \<or> accepts z v"
    "accepts (ZReadonly z) v \<longleftrightarrow> accepts z v"
    "accepts (ZRefine z f m) v \<longleftrightarrow> accepts z v \<and> f v"
    "accepts (ZDefault z d) v \<longleftrightarrow> accepts z v \<or> v = d"
  using assms by (simp_all add: zod_documented_def)

lemma zod_dests:
  assumes "zod_documented timestamp accepts"
  shows "accepts (ZUrl cs) v \<Longrightarrow> \<exists>s. v = JStr s \<and> list_all (text_check s) cs"
    "accepts (ZEmail cs) v \<Longrightarrow> \<exists>s. v = JStr s \<and> list_all (text_check s) cs"
    "accepts (ZRecord k z) v \<Longrightarrow> \<exists>ps. v = JObj ps"
    "accepts (ZObject ps) v \<Longrightarrow> (\<exists>o'. v = JObj o') \<and> list_all (\<lambda>p. accepts (snd p) (getProp v (fst p))) ps"
  using assms by (simp_all add: zod_documented_def)

lemma pg_rules:
  assumes "pg_documented timestamp adm"
  shows "uuid_text s \<Longrightarrow> adm Uuid (JStr s)"
    "length s \<le> n \<Longrightarrow> no_nul s \<Longrightarrow> adm (Varchar n) (JStr s)"
    "no_nul s \<Longrightarrow> adm TextType (JStr s)"
    "adm Integer (JNum q) \<longleftrightarrow> q = of_int \<lfloor>q\<rfloor> \<and> - (2 ^ 31) \<le> q \<and> q < 2 ^ 31"
    "adm BigintNumber (JNum q) \<longleftrightarrow> q = of_int \<lfloor>q\<rfloor> \<and> - (2 ^ 63) \<le> q \<and> q < 2 ^ 63"
    "adm Boolean (JBool b)"
    "sc \<le> p \<Longrightarrow> \<bar>q\<bar> \<le> 10 ^ (p - sc) - 1 \<Longrightarrow> adm (Decimal p sc) (JNum q)"
    "timestamp s \<Longrightarrow> pg_time s \<Longrightarrow> adm TimestampTz (JStr s)"
    "ip_regex s \<Longrightarrow> adm Inet (JStr s) \<longleftrightarrow> octets s"
    "json_no_nul v \<Longrightarrow> typeof_object v \<Longrightarrow> adm Jsonb v"
    "adm (CustomType ''bytea'') (JBytes bs)"
    "adm (EnumType en vs) (JStr s) \<longleftrightarrow> s \<in> set vs"
  using assms by (simp_all add: pg_documented_def)

lemma max_length_sound:
  "max_length cs n \<Longrightarrow> list_all (text_check s) cs \<Longrightarrow> length s \<le> n"
  by (induction cs n rule: max_length.induct) auto

lemma regex_in: "Regex p \<in> set cs \<Longrightarrow> list_all (text_check s) cs \<Longrightarrow> p s"
  by (auto simp: list_all_iff)

lemma int_in: "IntCheck \<in> set cs \<Longrightarrow> list_all (number_check q) cs \<Longrightarrow> safe_integer q"
  by (auto simp: list_all_iff)

lemma bounds_in:
  "Min a \<in> set cs \<Longrightarrow> Max b \<in> set cs \<Longrightarrow> list_all (number_check q) cs \<Longrightarrow> a \<le> q \<and> q \<le> b"
  by (auto simp: list_all_iff)

lemma fits_sound:
  assumes zd: "zod_documented timestamp accepts" and pg: "pg_documented timestamp adm"
  shows "fits z ty \<Longrightarrow> accepts z v \<Longrightarrow> v \<noteq> JNull \<and> v \<noteq> JUndefined \<and> (storable ty v \<longrightarrow> adm ty v)"
proof (induction z ty rule: fits.induct)
  case (bigint cs)
  then obtain q where "v = JNum q" "safe_integer q" by (auto simp: zod_simps [OF zd] dest: int_in)
  then show ?case by (auto simp: pg_rules [OF pg] safe_integer_def)
next
  case (decimal a cs b s p)
  then obtain q where "v = JNum q" "a \<le> q" "q \<le> b" by (auto simp: zod_simps [OF zd] dest: bounds_in)
  with decimal show ?case by (auto simp: abs_le_iff intro!: pg_rules(7) [OF pg])
next
  case (integer cs)
  then obtain q where "v = JNum q" "safe_integer q" by (auto simp: zod_simps [OF zd] dest: int_in)
  then show ?case by (auto simp: pg_rules [OF pg] safe_integer_def)
next
  case (enumeration ws vs n)
  then show ?case by (auto simp: zod_simps [OF zd] pg_rules [OF pg] list_all_iff)
next
  case (rec k z)
  then show ?case by (auto dest!: zod_dests(3) [OF zd] intro: pg_rules(10) [OF pg])
next
  case (url cs n)
  then show ?case by (auto dest!: zod_dests(1) [OF zd] max_length_sound intro: pg_rules(2) [OF pg])
next
  case (email cs n)
  then show ?case by (auto dest!: zod_dests(2) [OF zd] max_length_sound intro: pg_rules(2) [OF pg])
next
  case (defaulted z q)
  then show ?case by (auto simp: zod_simps [OF zd] pg_rules(4) [OF pg])
next
  case (array z)
  then show ?case by (auto simp: zod_simps [OF zd] intro: pg_rules(10) [OF pg])
qed (auto simp: zod_simps [OF zd] pg_rules(9) [OF pg] dest: max_length_sound regex_in intro!: pg_rules(1-3,6,8,11) [OF pg])

fun shape_of :: "zod \<Rightarrow> (string \<times> zod) list" where
  "shape_of (ZObject ps) = ps"
| "shape_of (ZRefine z f m) = shape_of z"
| "shape_of _ = []"

fun nullable :: "zod \<Rightarrow> zod option" where
  "nullable (ZNullable z) = Some z"
| "nullable _ = None"

definition column_fits :: "zod \<Rightarrow> Column \<Rightarrow> bool" where
  "column_fits z c \<longleftrightarrow>
     (case nullable z of None \<Rightarrow> fits z (colType c) | Some y \<Rightarrow> \<not> not_null c \<and> fits y (colType c))"

definition row_fits :: "zod \<Rightarrow> Table \<Rightarrow> bool" where
  "row_fits z t \<longleftrightarrow>
     map fst (shape_of z) = map colKey (columns t) \<and> list_all2 (\<lambda>p c. column_fits (snd p) c) (shape_of z) (columns t)"

lemma column_fits_sound:
  assumes zd: "zod_documented timestamp accepts" and pg: "pg_documented timestamp adm"
    and "column_fits z c" "accepts z v" "storable (colType c) v"
  shows "admits_column adm c v"
proof (cases "nullable z")
  case None
  with assms(3) fits_sound [OF zd pg _ assms(4)] assms(5) show ?thesis
    by (auto simp: column_fits_def admits_column_def)
next
  case (Some y)
  then have z: "z = ZNullable y" by (cases z) auto
  with Some assms(3-5) fits_sound [OF zd pg, of y "colType c" v] show ?thesis
    by (auto simp: column_fits_def admits_column_def zod_simps [OF zd])
qed

lemma accepts_property:
  assumes zd: "zod_documented timestamp accepts" and "accepts z v" "p \<in> set (shape_of z)"
  shows "accepts (snd p) (getProp v (fst p))"
  using assms(2,3)
proof (induction z rule: shape_of.induct)
  case (1 ps)
  then show ?case using zod_dests(4) [OF zd 1(1)] by (auto simp: list_all_iff simp del: getProp.simps)
qed (auto simp: zod_simps [OF zd])

lemma row_fits_sound:
  assumes zd: "zod_documented timestamp accepts" and pg: "pg_documented timestamp adm"
    and "row_fits z t" "accepts z v" "c \<in> set (columns t)" "storable (colType c) (getProp v (colKey c))"
  shows "admits_column adm c (getProp v (colKey c))"
proof -
  from assms(5) obtain i where i: "i < length (columns t)" "c = columns t ! i" by (auto simp: in_set_conv_nth)
  let ?p = "shape_of z ! i"
  from assms(3) have len: "length (shape_of z) = length (columns t)" and "column_fits (snd ?p) c"
    using i by (auto simp: row_fits_def list_all2_conv_all_nth)
  moreover have "fst ?p = colKey c"
    using assms(3) i len nth_map [of i "shape_of z" fst] nth_map [of i "columns t" colKey] by (simp add: row_fits_def)
  moreover have "accepts (snd ?p) (getProp v (fst ?p))"
    by (rule accepts_property [OF zd assms(4)]) (use i len in simp)
  ultimately show ?thesis using column_fits_sound [OF zd pg _ _ assms(6)] by metis
qed

section \<open>The schemas fit their tables\<close>

lemma regex_weaken:
  assumes "list_all2 (\<lambda>q p. \<forall>c. p c \<longrightarrow> q c) re' re" "regex_test re s"
  shows "regex_test re' s"
  using assms unfolding regex_test_def by (simp add: list_all2_conv_all_nth)

lemma hex_positions: "is_7 c \<Longrightarrow> is_hex c" "is_variant c \<Longrightarrow> is_hex c"
  by (auto simp: is_7_def is_variant_def is_hex_def is_lower_hex_def is_digit_def less_eq_char_def)

lemma uuid_v7_text: "regex_test UUID_V7_REGEX s \<Longrightarrow> uuid_text s"
  unfolding uuid_text_def
  by (erule regex_weaken [rotated]) (simp add: UUID_V7_REGEX_def numeral_eq_Suc hex_positions)

lemma nullable_closed [simp]: "nullable UuidSchema = None" "nullable HexHash64Schema = None"
  by (simp_all add: UuidSchema_def HexHash64Schema_def)

lemma fits_uuid [simp]: "fits UuidSchema Uuid"
  unfolding UuidSchema_def by (rule fits.uuid [of "regex_test UUID_V7_REGEX"]) (auto intro: uuid_v7_text)

lemma fits_hash [simp]: "fits HexHash64Schema (Varchar 64)"
  unfolding HexHash64Schema_def by (rule fits.pattern [of hex64_regex]) (auto simp: hex64_regex_def)

lemma fits_address [simp]: "fits (ZString [Regex ip_regex]) Inet"
  by (rule fits.inet [of ip_regex]) auto

lemma fits_simps [simp]:
  "max_length cs n \<Longrightarrow> fits (ZString cs) (Varchar n)" "max_length cs n \<Longrightarrow> fits (ZUrl cs) (Varchar n)"
  "max_length cs n \<Longrightarrow> fits (ZEmail cs) (Varchar n)" "fits (ZString cs) TextType"
  "IntCheck \<in> set cs \<Longrightarrow> fits (ZNumber cs) Integer" "IntCheck \<in> set cs \<Longrightarrow> fits (ZNumber cs) BigintNumber"
  "fits (ZNumber [Min 0, Max 1]) (Decimal 5 4)" "fits ZBoolean Boolean"
  "list_all (\<lambda>v. v \<in> set ws) vs \<Longrightarrow> fits (ZEnum vs) (EnumType en ws)"
  "fits (ZIsoDatetime True) TimestampTz" "fits (ZInstanceof ''Uint8Array'') (CustomType ''bytea'')"
  "fits (ZArray z) Jsonb" "fits (ZRecord k z) Jsonb" "fits z ty \<Longrightarrow> fits (ZReadonly z) ty"
  "fits z Integer \<Longrightarrow> fits (ZDefault z (JNum 0)) Integer"
  by (auto intro: fits.intros)

text \<open>All schemas but those of identifiers and hashes, which the rules above treat as they are.\<close>

lemmas open_schemas =
  IsoTimestampSchema_def CurrencySchema_def EmailSchema_def TenantPlanSchema_def
  KioskSyncStatusSchema_def ItemTaxCategorySchema_def WeightUnitSchema_def CartStatusSchema_def
  OrderStatusSchema_def PaymentMethodSchema_def PaymentStatusSchema_def EmployeeRoleSchema_def
  AuditEventTypeSchema_def InventoryTransactionTypeSchema_def SyncEventTypeSchema_def RefundStatusSchema_def
  TenantSchema_def LocationSchema_def LaneSchema_def StoreSchema_def
  KioskSchema_def CategorySchema_def ItemSchema_def ModifierGroupSchema_def
  ModifierOptionSchema_def ItemModifierGroupSchema_def InventorySchema_def InventoryTransactionSchema_def
  InventoryReservationSchema_def CartLineSchema_def CartSchema_def OrderItemModifierSchema_def
  OrderItemSchema_def TaxBreakdownEntrySchema_def OrderSchema_def PaymentSchema_def
  RefundSchema_def OfflineTokenSchema_def EmployeeSchema_def RoleSchema_def
  PermissionSchema_def RolePermissionSchema_def UserSchema_def AuditLogSchema_def
  EventStoreRecordSchema_def OutboxEventSchema_def SyncEventSchema_def AnalyticsEventSchema_def
  CreateCartRequestSchema_def AddItemRequestSchema_def UpdateCartRequestSchema_def CheckoutRequestSchema_def
  CartResponseSchema_def PaymentResultSchema_def RefundRequestSchema_def MenuResponseSchema_def
  OrderResponseSchema_def CreateOrderRequestSchema_def KioskHeartbeatRequestSchema_def KioskHeartbeatResponseSchema_def
  SyncBatchRequestSchema_def SyncBatchResponseSchema_def

text \<open>Every schema has the columns of its table, in their order, and each fits.\<close>

lemma stored_schemas_fit: "list_all (\<lambda>(n, z, d, t). row_fits z t) stored_types"
  by (simp add: stored_types_def row_fits_def column_fits_def not_null_def open_schemas table_defs enum_defs)

text \<open>
  C13. A value that a schema accepts goes into the table of its name, column by column, when the column has room for it: an
  integer of 32 bits, a text without the character zero, an address of octets, a time that PostgreSQL reads.
\<close>

theorem accepted_values_can_be_stored:
  assumes "zod_documented timestamp accepts" "pg_documented timestamp adm"
    and "(n, z, d, t) \<in> set stored_types" "accepts z v"
    and "c \<in> set (columns t)" "storable (colType c) (getProp v (colKey c))"
  shows "admits_column adm c (getProp v (colKey c))"
proof -
  have "row_fits z t" using stored_schemas_fit assms(3) by (auto simp: list_all_iff)
  from row_fits_sound [OF assms(1,2) this assms(4-6)] show ?thesis .
qed

text \<open>No schema keeps an integer column within its 32 bits.\<close>

fun takes :: "zod \<Rightarrow> rat \<Rightarrow> bool" where
  "takes (ZNumber cs) q = list_all (number_check q) cs"
| "takes (ZNullable z) q = takes z q"
| "takes (ZDefault z d) q = takes z q"
| "takes _ q = False"

lemma takes_accepts: "zod_documented timestamp accepts \<Longrightarrow> takes z q \<Longrightarrow> accepts z (JNum q)"
  by (induction z q rule: takes.induct) (auto simp: zod_simps)

lemma safe_large: "safe_integer (2 ^ 31)"
proof -
  have "(2::rat) ^ 31 = of_int (2 ^ 31)" by simp
  then have "\<lfloor>(2::rat) ^ 31\<rfloor> = 2 ^ 31" using floor_of_int [of "2 ^ 31", where ?'a = rat] by metis
  then show ?thesis by (simp add: safe_integer_def)
qed

lemma integer_columns_take_large:
  "list_all (\<lambda>(n, z, d, t). list_all2 (\<lambda>p c. colType c = Integer \<longrightarrow> takes (snd p) (2 ^ 31)) (shape_of z) (columns t))
     stored_types"
  using safe_large by (simp add: stored_types_def open_schemas table_defs enum_defs bytea_def)

lemma zip_maps_eq: "map f xs = map g ys \<Longrightarrow> (x, y) \<in> set (zip xs ys) \<Longrightarrow> f x = g y"
  by (induction xs ys rule: list_induct2') auto

theorem integers_may_overflow_their_column:
  assumes "zod_documented timestamp accepts" "pg_documented timestamp adm"
    and "(n, z, d, t) \<in> set stored_types" "(p, c) \<in> set (zip (shape_of z) (columns t))" "colType c = Integer"
  shows "fst p = colKey c \<and> accepts (snd p) (JNum (2 ^ 31)) \<and> \<not> admits_column adm c (JNum (2 ^ 31))"
proof -
  have "list_all2 (\<lambda>p c. colType c = Integer \<longrightarrow> takes (snd p) (2 ^ 31)) (shape_of z) (columns t)"
    using integer_columns_take_large assms(3) unfolding list_all_iff by blast
  then have "takes (snd p) (2 ^ 31)"
    using assms(4,5) unfolding list_all2_iff by blast
  moreover have "map fst (shape_of z) = map colKey (columns t)"
    using stored_schemas_fit assms(3) unfolding list_all_iff row_fits_def by blast
  then have "fst p = colKey c" using assms(4) by (rule zip_maps_eq)
  ultimately show ?thesis
    by (simp add: takes_accepts [OF assms(1)] admits_column_def assms(5) pg_rules(4) [OF assms(2)])
qed

text \<open>
  \<open>defaultRandom()\<close> is \<open>gen_random_uuid()\<close>, which PostgreSQL documents as version 4: its fifteenth character is a 4. The
  schemas ask for version 7.
\<close>

lemma default_ids_are_uuids:
  "list_all (\<lambda>(n, z, d, t). list_all2 (\<lambda>p c. DefaultRandom \<in> set (modifiers c) \<longrightarrow> snd p = UuidSchema) (shape_of z) (columns t))
     stored_types"
  by (simp add: stored_types_def open_schemas table_defs)

lemma zip_partner: "length xs = length ys \<Longrightarrow> y \<in> set ys \<Longrightarrow> \<exists>x. (x, y) \<in> set (zip xs ys)"
  by (induction xs ys rule: list_induct2) auto

lemma uuid_v7_version:
  assumes "regex_test UUID_V7_REGEX s"
  shows "s ! 14 = CHR ''7''"
proof -
  have "length UUID_V7_REGEX = 36" by (simp add: UUID_V7_REGEX_def)
  moreover have "UUID_V7_REGEX ! 14 = is_7"
    unfolding UUID_V7_REGEX_def by (simp add: numeral_eq_Suc)
  ultimately show ?thesis
    using list_all2_nthD [OF assms [unfolded regex_test_def], of 14] by (simp add: is_7_def)
qed

theorem default_identifiers_are_refused:
  assumes "zod_documented timestamp accepts"
    and "(n, z, d, t) \<in> set stored_types" "c \<in> set (columns t)" "DefaultRandom \<in> set (modifiers c)"
    and "getProp v (colKey c) = JStr s" "s ! 14 = CHR ''4''"
  shows "\<not> accepts z v"
proof
  assume acc: "accepts z v"
  have all2: "list_all2 (\<lambda>p c. DefaultRandom \<in> set (modifiers c) \<longrightarrow> snd p = UuidSchema) (shape_of z) (columns t)"
    using default_ids_are_uuids assms(2) unfolding list_all_iff by blast
  then obtain p where p: "(p, c) \<in> set (zip (shape_of z) (columns t))"
    using zip_partner [OF list_all2_lengthD [OF all2] assms(3)] by blast
  with all2 assms(4) have "snd p = UuidSchema" unfolding list_all2_iff by blast
  moreover have "map fst (shape_of z) = map colKey (columns t)"
    using stored_schemas_fit assms(2) unfolding list_all_iff row_fits_def by blast
  then have "fst p = colKey c" using p by (rule zip_maps_eq)
  moreover have "p \<in> set (shape_of z)" using p by (rule set_zip_leftD)
  then have "accepts (snd p) (getProp v (fst p))" by (rule accepts_property [OF assms(1) acc])
  ultimately have "accepts UuidSchema (JStr s)" using assms(5) by simp
  then have "regex_test UUID_V7_REGEX s" by (simp add: UuidSchema_def zod_simps(1) [OF assms(1)])
  with assms(6) show False using uuid_v7_version by fastforce
qed

text \<open>
  The pattern of addresses bounds the digits of a number, not the number.
\<close>

theorem address_pattern_wider_than_inet:
  assumes "zod_documented timestamp accepts" "pg_documented timestamp adm"
  shows "accepts (ZString [Regex ip_regex]) (JStr ''192.168.1.256'') \<and> \<not> adm Inet (JStr ''192.168.1.256'')"
proof -
  have "ip_regex ''192.168.1.256''" "\<not> octets ''192.168.1.256''" by code_simp+
  then show ?thesis by (simp add: zod_simps(1) [OF assms(1)] pg_rules(9) [OF assms(2)])
qed

section \<open>Instances of the parameters\<close>

text \<open>Functions with the documented behaviour; one time stands for all.\<close>

definition one_time :: "string \<Rightarrow> bool" where
  "one_time s \<longleftrightarrow> s = ''2026-01-01T00:00:00Z''"

fun accepts_zod :: "zod \<Rightarrow> jsval \<Rightarrow> bool" where
  "accepts_zod (ZString cs) v = (case v of JStr s \<Rightarrow> list_all (text_check s) cs | _ \<Rightarrow> False)"
| "accepts_zod (ZUrl cs) v = (case v of JStr s \<Rightarrow> list_all (text_check s) cs | _ \<Rightarrow> False)"
| "accepts_zod (ZEmail cs) v = (case v of JStr s \<Rightarrow> list_all (text_check s) cs | _ \<Rightarrow> False)"
| "accepts_zod ZUuid v = (case v of JStr s \<Rightarrow> uuid_text s | _ \<Rightarrow> False)"
| "accepts_zod (ZCoerceNumber cs) v = (case v of JNum q \<Rightarrow> list_all (number_check q) cs | _ \<Rightarrow> False)"
| "accepts_zod (ZIsoDatetime _) v = (case v of JStr s \<Rightarrow> one_time s | _ \<Rightarrow> False)"
| "accepts_zod (ZNumber cs) v = (case v of JNum q \<Rightarrow> list_all (number_check q) cs | _ \<Rightarrow> False)"
| "accepts_zod ZBoolean v = (case v of JBool _ \<Rightarrow> True | _ \<Rightarrow> False)"
| "accepts_zod ZUnknown v = True"
| "accepts_zod (ZEnum vs) v = (case v of JStr s \<Rightarrow> s \<in> set vs | _ \<Rightarrow> False)"
| "accepts_zod (ZInstanceof c) v = (case v of JBytes _ \<Rightarrow> c = ''Uint8Array'' | _ \<Rightarrow> False)"
| "accepts_zod (ZCustom _) v = True"
| "accepts_zod (ZArray z) v = (case v of JArr xs \<Rightarrow> list_all (accepts_zod z) xs | _ \<Rightarrow> False)"
| "accepts_zod (ZRecord _ z) v = (case v of JObj ps \<Rightarrow> list_all (\<lambda>p. accepts_zod z (snd p)) ps | _ \<Rightarrow> False)"
| "accepts_zod (ZNullable z) v = (v = JNull \<or> accepts_zod z v)"
| "accepts_zod (ZOptional z) v = (v = JUndefined \<or> accepts_zod z v)"
| "accepts_zod (ZReadonly z) v = accepts_zod z v"
| "accepts_zod (ZDefault z d) v = (accepts_zod z v \<or> v = d)"
| "accepts_zod (ZRefine z f _) v = (accepts_zod z v \<and> f v)"
| "accepts_zod (ZObject ps) v =
     ((case v of JObj _ \<Rightarrow> True | _ \<Rightarrow> False) \<and> list_all (\<lambda>p. accepts_zod (snd p) (getProp v (fst p))) ps)"

lemma accepts_zod_documented: "zod_documented one_time accepts_zod"
  by (auto simp: zod_documented_def split: jsval.splits)

fun admits_pg :: "columnType \<Rightarrow> jsval \<Rightarrow> bool" where
  "admits_pg Uuid v = (case v of JStr s \<Rightarrow> uuid_text s | _ \<Rightarrow> False)"
| "admits_pg (Varchar n) v = (case v of JStr s \<Rightarrow> length s \<le> n \<and> no_nul s | _ \<Rightarrow> False)"
| "admits_pg TextType v = (case v of JStr s \<Rightarrow> no_nul s | _ \<Rightarrow> False)"
| "admits_pg Integer v = (case v of JNum q \<Rightarrow> q = of_int \<lfloor>q\<rfloor> \<and> - (2 ^ 31) \<le> q \<and> q < 2 ^ 31 | _ \<Rightarrow> False)"
| "admits_pg BigintNumber v = (case v of JNum q \<Rightarrow> q = of_int \<lfloor>q\<rfloor> \<and> - (2 ^ 63) \<le> q \<and> q < 2 ^ 63 | _ \<Rightarrow> False)"
| "admits_pg Boolean v = (case v of JBool _ \<Rightarrow> True | _ \<Rightarrow> False)"
| "admits_pg (Decimal p s) v = (case v of JNum q \<Rightarrow> \<bar>q\<bar> \<le> 10 ^ (p - s) - 1 | _ \<Rightarrow> False)"
| "admits_pg TimestampTz v = (case v of JStr s \<Rightarrow> one_time s \<and> pg_time s | _ \<Rightarrow> False)"
| "admits_pg Inet v = (case v of JStr s \<Rightarrow> ip_regex s \<and> octets s | _ \<Rightarrow> False)"
| "admits_pg Jsonb v = (json_no_nul v \<and> typeof_object v)"
| "admits_pg (CustomType c) v = (case v of JBytes _ \<Rightarrow> c = ''bytea'' | _ \<Rightarrow> False)"
| "admits_pg (EnumType _ vs) v = (case v of JStr s \<Rightarrow> s \<in> set vs | _ \<Rightarrow> False)"

lemma admits_pg_documented: "pg_documented one_time admits_pg"
  by (auto simp: pg_documented_def)

definition grant_id :: string where
  "grant_id = ''01890a5d-ac96-774b-bcce-b302099a8057''"

definition sample_grant :: jsval where
  "sample_grant = JObj [(''roleId'', JStr grant_id), (''permissionId'', JStr grant_id),
     (''createdAt'', JStr ''2026-01-01T00:00:00Z'')]"

lemma sample_grant_accepted: "accepts_zod RolePermissionSchema sample_grant"
proof -
  have "regex_test UUID_V7_REGEX grant_id" by code_simp
  then show ?thesis
    by (simp add: RolePermissionSchema_def UuidSchema_def IsoTimestampSchema_def sample_grant_def one_time_def)
qed

theorem accepted_values_can_be_stored_witness:
  "accepts_zod RolePermissionSchema sample_grant \<and>
   admits_column admits_pg (Column ''createdAt'' ''created_at'' TimestampTz [NotNull, DefaultNow])
     (getProp sample_grant ''createdAt'')"
proof -
  have "storable TimestampTz (getProp sample_grant ''createdAt'')"
    by (simp add: sample_grant_def pg_time_def)
  then show ?thesis
    using accepted_values_can_be_stored [OF accepts_zod_documented admits_pg_documented,
        of "''RolePermission''" RolePermissionSchema RolePermission_type rolePermissions_table sample_grant
           "Column ''createdAt'' ''created_at'' TimestampTz [NotNull, DefaultNow]"]
      sample_grant_accepted
    by (simp add: stored_types_def rolePermissions_table_def)
qed

theorem integers_may_overflow_their_column_witness:
  "accepts_zod (ZNumber [IntCheck]) (JNum (2 ^ 31)) \<and>
   \<not> admits_column admits_pg (Column ''laneNumber'' ''lane_number'' Integer [NotNull]) (JNum (2 ^ 31))"
  using integers_may_overflow_their_column [OF accepts_zod_documented admits_pg_documented,
      of "''Lane''" LaneSchema Lane_type lanes_table "(''laneNumber'', ZNumber [IntCheck])"
         "Column ''laneNumber'' ''lane_number'' Integer [NotNull]"]
  by (simp add: stored_types_def lanes_table_def LaneSchema_def)

theorem default_identifiers_are_refused_witness:
  "\<not> accepts_zod PermissionSchema
     (JObj [(''permissionId'', JStr ''5f0c7a52-3b6e-4d18-9a41-77c0de3b9f11''), (''resource'', JStr ''menu''),
        (''action'', JStr ''read''), (''description'', JNull)])"
  by (rule default_identifiers_are_refused [OF accepts_zod_documented,
      where n = "''Permission''" and d = Permission_type and t = permissions_table
        and c = "Column ''permissionId'' ''permission_id'' Uuid [PrimaryKey, DefaultRandom]"
        and s = "''5f0c7a52-3b6e-4d18-9a41-77c0de3b9f11''"])
    (simp_all add: stored_types_def permissions_table_def)

theorem address_pattern_wider_than_inet_witness:
  "accepts_zod (ZString [Regex ip_regex]) (JStr ''192.168.1.256'') \<and> \<not> admits_pg Inet (JStr ''192.168.1.256'')"
  by (rule address_pattern_wider_than_inet [OF accepts_zod_documented admits_pg_documented])

end
