(* ===== verification/JsConvert.thy ===== *)
theory JsConvert
  imports JsJson JsNumber
begin

text \<open>
  The conversions of the language between texts and numbers that the Andino sources lean on, and the arithmetic of a price:
  \<open>String(v)\<close>, \<open>parseFloat\<close>, the number a comparison makes of a value, the product of two doubles and \<open>Math.round\<close>. The
  text of a number and the double that a decimal text denotes are parameters (\<open>ns\<close> and \<open>rn\<close>), as they are for JSON. Infinity
  is not a value of the model.
\<close>

section \<open>Texts\<close>

text \<open>An object has the text of \<open>Object.prototype.toString\<close>; inside an array \<open>null\<close> and \<open>undefined\<close> are empty.\<close>

fun to_text :: "(rat \<Rightarrow> string) \<Rightarrow> jsval \<Rightarrow> string" where
  "to_text ns JUndefined = ''undefined''"
| "to_text ns JNull = ''null''"
| "to_text ns (JBool b) = (if b then ''true'' else ''false'')"
| "to_text ns (JNum q) = ns q"
| "to_text ns (JStr s) = s"
| "to_text ns (JArr xs) = join_with '','' (map (\<lambda>x. if x = JNull \<or> x = JUndefined then [] else to_text ns x) xs)"
| "to_text ns (JObj ps) = ''[object Object]''"
| "to_text ns (JBytes bs) = join_with '','' (map nat_digits bs)"

section \<open>Numbers\<close>

text \<open>The exponent of a decimal literal at the head of a text, empty when there is none.\<close>

definition exponent_prefix :: "string \<Rightarrow> string" where
  "exponent_prefix s =
     (case s of
        e # cs \<Rightarrow>
          if e \<in> set ''eE'' then
            let sign = (case cs of c # _ \<Rightarrow> if c \<in> set ''+-'' then [c] else [] | [] \<Rightarrow> []);
                ds = takeWhile is_digit (drop (length sign) cs)
            in if ds = [] then [] else e # sign @ ds
          else []
      | [] \<Rightarrow> [])"

text \<open>The longest prefix that is a decimal literal: a sign, digits with a point among or before them, an exponent.\<close>

definition decimal_prefix :: "string \<Rightarrow> string" where
  "decimal_prefix s =
     (let sign = (case s of c # _ \<Rightarrow> if c \<in> set ''+-'' then [c] else [] | [] \<Rightarrow> []);
          t = drop (length sign) s;
          whole = takeWhile is_digit t;
          u = drop (length whole) t;
          frac = (case u of c # cs \<Rightarrow> if c = CHR ''.'' then c # takeWhile is_digit cs else [] | [] \<Rightarrow> []);
          mantissa = (if whole = [] \<and> length frac \<le> 1 then [] else whole @ frac)
      in if mantissa = [] then [] else sign @ mantissa @ exponent_prefix (drop (length mantissa) t))"

text \<open>\<open>None\<close> is \<open>NaN\<close>.\<close>

definition parseFloat :: "(string \<Rightarrow> rat) \<Rightarrow> string \<Rightarrow> rat option" where
  "parseFloat rn s =
     (let d = decimal_prefix (dropWhile is_space s) in if d = [] then None else Some (rn d))"

definition number_of_text :: "(string \<Rightarrow> rat) \<Rightarrow> string \<Rightarrow> rat option" where
  "number_of_text rn s =
     (let t = trim s in
      if t = [] then Some 0
      else if take 2 t \<in> {''0x'', ''0X''} then
        (if drop 2 t \<noteq> [] \<and> list_all is_hex (drop 2 t) then Some (of_nat (parse_hex (drop 2 t))) else None)
      else if decimal_prefix t = t then Some (rn t) else None)"

text \<open>The number that \<open><\<close> and \<open><=\<close> compare when the other side is a number.\<close>

fun to_number :: "(rat \<Rightarrow> string) \<Rightarrow> (string \<Rightarrow> rat) \<Rightarrow> jsval \<Rightarrow> rat option" where
  "to_number ns rn JUndefined = None"
| "to_number ns rn JNull = Some 0"
| "to_number ns rn (JBool b) = Some (if b then 1 else 0)"
| "to_number ns rn (JNum q) = Some q"
| "to_number ns rn v = number_of_text rn (to_text ns v)"

section \<open>Doubles\<close>

text \<open>
  The product of two doubles. Their exact product is a fraction over a power of two, of which the numerator is rounded to 53
  bits; sizes beyond the range of exponents are left out.
\<close>

definition fl_times :: "rat \<Rightarrow> rat \<Rightarrow> rat" where
  "fl_times a b = (let (n, d) = quotient_of (a * b) in of_int (round_double n) / of_int d)"

definition round_half_up :: "rat \<Rightarrow> int" where
  "round_half_up x = \<lfloor>x + 1 / 2\<rfloor>"

lemma round_half_even_error:
  assumes "0 < u"
  shows "2 * \<bar>round_half_even p u - p\<bar> \<le> u"
proof -
  have m: "0 \<le> p mod u" "p mod u < u" and down: "p div u * u - p = - (p mod u)"
    using assms by (simp_all add: minus_mod_eq_div_mult [symmetric])
  show ?thesis
  proof (cases rule: round_half_even_cases [OF assms, of p])
    case 1
    with down m show ?thesis by simp
  next
    case 2
    then have "round_half_even p u - p = u - p mod u" using down by (simp add: distrib_right)
    with 2 m show ?thesis by simp
  qed
qed

lemma excess_bits_unit: "2 ^ 53 \<le> p \<Longrightarrow> 2 ^ excess_bits p * 2 ^ 52 \<le> p"
proof (induction p rule: excess_bits.induct)
  case (1 p)
  have step: "excess_bits p = Suc (excess_bits (p div 2))" using "1.prems" by (simp add: excess_bits.simps [of p])
  show ?case
  proof (cases "2 ^ 53 \<le> p div 2")
    case True
    with "1.IH" "1.prems" have "2 ^ excess_bits (p div 2) * 2 ^ 52 \<le> p div 2" by simp
    then show ?thesis unfolding step by simp
  next
    case False
    then have "excess_bits (p div 2) = 0" by (simp add: excess_bits.simps [of "p div 2"])
    with "1.prems" show ?thesis unfolding step by simp
  qed
qed

lemma half_unit: "u * 2 ^ 52 \<le> b \<Longrightarrow> 2 * a \<le> u \<Longrightarrow> 2 ^ 53 * a \<le> b" for a b u :: int
  by simp

lemma round_double_error: "2 ^ 53 * \<bar>round_double p - p\<bar> \<le> \<bar>p\<bar>"
proof (cases "\<bar>p\<bar> < 2 ^ 53")
  case True
  then show ?thesis by (simp add: round_double_exact)
next
  case False
  let ?u = "2 ^ excess_bits (nat \<bar>p\<bar>) :: int"
  have "2 ^ excess_bits (nat \<bar>p\<bar>) * 2 ^ 52 \<le> nat \<bar>p\<bar>"
    by (rule excess_bits_unit) (use False in \<open>simp add: le_nat_iff\<close>)
  then have "?u * 2 ^ 52 \<le> \<bar>p\<bar>" by (simp add: le_nat_iff)
  moreover have "2 * \<bar>round_half_even p ?u - p\<bar> \<le> ?u" by (rule round_half_even_error) simp
  ultimately have "2 ^ 53 * \<bar>round_half_even p ?u - p\<bar> \<le> \<bar>p\<bar>" by (intro half_unit)
  then show ?thesis unfolding round_double_def .
qed

lemma fl_times_error: "\<bar>fl_times a b - a * b\<bar> \<le> \<bar>a * b\<bar> / 2 ^ 53"
proof -
  obtain n d where q: "quotient_of (a * b) = (n, d)" by force
  have d: "0 < d" by (rule quotient_of_denom_pos [OF q])
  have ab: "a * b = of_int n / of_int d" by (rule quotient_of_div [OF q])
  have "2 ^ 53 * \<bar>round_double n - n\<bar> \<le> \<bar>n\<bar>" by (rule round_double_error)
  then have "of_int (2 ^ 53 * \<bar>round_double n - n\<bar>) \<le> (of_int \<bar>n\<bar> :: rat)" by (simp only: of_int_le_iff)
  then have "2 ^ 53 * \<bar>of_int (round_double n) - of_int n\<bar> \<le> (\<bar>of_int n\<bar> :: rat)" by simp
  then have "2 ^ 53 * \<bar>of_int (round_double n) - of_int n\<bar> / of_int d \<le> (\<bar>of_int n\<bar> / of_int d :: rat)"
    using d by (intro divide_right_mono) simp_all
  moreover have "fl_times a b - a * b = (of_int (round_double n) - of_int n) / of_int d"
    by (simp add: fl_times_def q) (simp add: ab diff_divide_distrib)
  ultimately show ?thesis using d by (simp add: ab abs_divide field_simps)
qed

lemma round_half_up_near: "\<bar>x - of_int n\<bar> < 1 / 2 \<Longrightarrow> round_half_up x = n"
  unfolding round_half_up_def abs_less_iff by (rule floor_unique) (simp_all add: field_simps)

text \<open>
  A price of \<open>n\<close> cents, written as a decimal text that denotes the double next to it, is read back as \<open>n\<close> cents, up to more
  than ten thousand billions.
\<close>

lemma price_cents_exact:
  assumes near: "\<bar>x - of_int n / 100\<bar> \<le> of_int n / 100 / 2 ^ 53" and n: "0 \<le> n" "n < 2 ^ 50"
  shows "round_half_up (fl_times x 100) = n"
proof (rule round_half_up_near)
  have x: "\<bar>x * 100 - of_int n\<bar> \<le> of_int n / 2 ^ 53"
  proof -
    have "\<bar>x * 100 - of_int n\<bar> = 100 * \<bar>x - of_int n / 100\<bar>" by (simp add: abs_if field_simps)
    with near show ?thesis by simp
  qed
  moreover have "(of_int n :: rat) < 2 ^ 50" using n(2) by (metis of_int_less_iff of_int_numeral of_int_power)
  moreover have "(0::rat) \<le> of_int n" using n(1) by simp
  moreover have "\<bar>x * 100\<bar> \<le> of_int n + of_int n / 2 ^ 53" 
    using x n(1) abs_triangle_ineq2 [of "x * 100" "of_int n"] by simp
  moreover note fl_times_error [of x 100]
  ultimately show "\<bar>fl_times x 100 - of_int n\<bar> < 1 / 2" by (simp add: abs_if field_simps split: if_splits)
qed

section \<open>Quotients\<close>

text \<open>
  The double next to a quotient. The numerator is scaled until the integer quotient has at least 54 bits, and rounded to a
  multiple of the divisor that leaves 53.
\<close>

definition fl_div :: "rat \<Rightarrow> rat \<Rightarrow> rat" where
  "fl_div a b =
     (let (n, d) = quotient_of (a / b);
          s = 54 + excess_bits (nat d * 2 ^ 53);
          p = n * 2 ^ s;
          u = d * 2 ^ excess_bits (nat (\<bar>p\<bar> div d))
      in of_int (round_half_even p u) / of_int (d * 2 ^ s))"

text \<open>The double next to a number.\<close>

definition fl :: "rat \<Rightarrow> rat" where
  "fl x = fl_div x 1"

lemma excess_bits_covers: "p < 2 ^ (53 + excess_bits p)"
proof (induction p rule: excess_bits.induct)
  case (1 p)
  show ?case
  proof (cases "p < 2 ^ 53")
    case False
    with "1.IH" have "p div 2 < 2 ^ (53 + excess_bits (p div 2))" by simp
    then have "p < 2 * 2 ^ (53 + excess_bits (p div 2))" by simp
    moreover have "excess_bits p = Suc (excess_bits (p div 2))" using False by (simp add: excess_bits.simps [of p])
    ultimately show ?thesis by (metis add_Suc_right power_Suc)
  qed (simp add: excess_bits.simps [of p])
qed

text \<open>A number that 53 bits over a power of two express is a double.\<close>

lemma fl_exact:
  assumes q: "quotient_of x = (n, 2 ^ i)" and n: "\<bar>n\<bar> < 2 ^ 53"
  shows "fl x = x"
proof -
  define s where "s = 54 + excess_bits (nat (2 ^ i) * 2 ^ 53)"
  define e where "e = excess_bits (nat (\<bar>n * 2 ^ s\<bar> div 2 ^ i))"
  have "nat (2 ^ i) * 2 ^ 53 = (2 ^ (53 + i) :: nat)" by (simp add: nat_power_eq power_add)
  then have "(2::nat) ^ (53 + i) < 2 ^ (53 + (s - 54))" using excess_bits_covers [of "nat (2 ^ i) * 2 ^ 53"] by (simp add: s_def)
  then have "i < s" by (simp add: s_def)
  then have s: "(2::int) ^ s = 2 ^ i * 2 ^ (s - i)" by (simp flip: power_add)
  have "\<bar>n * 2 ^ s\<bar> div 2 ^ i = \<bar>n\<bar> * 2 ^ (s - i)" by (simp add: s abs_mult)
  moreover have "nat (\<bar>n\<bar> * 2 ^ (s - i)) < 2 ^ (53 + (s - i))"
    using mult_strict_right_mono [OF n, of "2 ^ (s - i)"] by (simp add: power_add nat_less_iff)
  ultimately have e: "e \<le> s - i" unfolding e_def by (intro excess_bits_bound) simp
  then have "(2::int) ^ (s - i) = 2 ^ (s - i - e) * 2 ^ e" by (simp flip: power_add)
  then have "n * 2 ^ s = (n * 2 ^ (s - i - e)) * (2 ^ i * 2 ^ e)" by (simp add: s)
  then have "round_half_even (n * 2 ^ s) (2 ^ i * 2 ^ e) = n * 2 ^ s"
    using round_half_even_exact [of "2 ^ i * 2 ^ e" "n * 2 ^ (s - i - e)"] by (metis mult_pos_pos zero_less_numeral zero_less_power)
  moreover have "x = of_int n / of_int (2 ^ i)" by (rule quotient_of_div [OF q])
  moreover have "fl x = of_int (round_half_even (n * 2 ^ s) (2 ^ i * 2 ^ e)) / of_int (2 ^ i * 2 ^ s)"
    by (simp only: fl_def fl_div_def div_by_1 q Let_def prod.case s_def e_def)
  ultimately show ?thesis by simp
qed

end
