(* ===== verification/AndinoProxy.thy ===== *)
theory AndinoProxy
  imports JsConvert JsParse SchemaAgreement "HOL-Library.Word"
begin

unbundle bit_operations_syntax

text \<open>
  The proxy between the kiosk and the Andino API, \<open>packages/andino-kiosk/proxy/server.js\<close>: its handlers, what each sends
  upstream and writes to Redis, and the menu it makes of Andino's products. The replies of Andino and Redis, SHA-1, the clock
  and the texts of numbers are parameters.
\<close>

section \<open>Identifiers\<close>

definition uuid_namespace :: string where
  "uuid_namespace = ''6ba7b810-9dad-11d1-80b4-00c04fd430c8''"

definition digest_hex :: "nat \<Rightarrow> string" where
  "digest_hex b = [hex_digit (b div 16), hex_digit (b mod 16)]"

definition slice :: "nat \<Rightarrow> nat \<Rightarrow> 'a list \<Rightarrow> 'a list" where
  "slice i j xs = take (j - i) (drop i xs)"

definition uuidV5 :: "(string \<Rightarrow> nat list) \<Rightarrow> string \<Rightarrow> string" where
  "uuidV5 sha1 name =
     (let h0 = sha1 (uuid_namespace @ name);
          h1 = h0[6 := (h0 ! 6 AND 0x0f) OR 0x50];
          h = h1[8 := (h1 ! 8 AND 0x3f) OR 0x80];
          hex = concat (map digest_hex h)
      in slice 0 8 hex @ ''-'' @ slice 8 12 hex @ ''-'' @ slice 12 16 hex @ ''-'' @ slice 16 20 hex @ ''-'' @ slice 20 32 hex)"

section \<open>Configuration, requests and replies\<close>

text \<open>The constants of the module, with their defaults; a variable that is unset or empty takes the default.\<close>

record settings =
  ANDINO_BASE :: string
  ANDINO_TOKEN :: string
  SCHOOL_ID :: string
  CACHE_TTL :: "int option"

definition or_else :: "string option \<Rightarrow> string \<Rightarrow> string" where
  "or_else v d = (case v of Some (c # cs) \<Rightarrow> c # cs | _ \<Rightarrow> d)"

definition load_settings :: "(string \<Rightarrow> string option) \<Rightarrow> settings" where
  "load_settings env =
     \<lparr>ANDINO_BASE = or_else (env ''ANDINO_BASE_URL'') ''https://andinoapp.com'',
      ANDINO_TOKEN = or_else (env ''ANDINO_ACCESS_TOKEN'') '''',
      SCHOOL_ID = or_else (env ''ANDINO_SCHOOL_ID'') ''9'',
      CACHE_TTL = parseInt 10 (or_else (env ''CACHE_TTL'') ''300'')\<rparr>"

text \<open>\<open>retryStrategy\<close>.\<close>

definition retryStrategy :: "int \<Rightarrow> int" where
  "retryStrategy n = min (n * 100) 3000"

record upstream =
  verb :: string
  url :: string
  authorization :: string
  upstreamBody :: "string option"

text \<open>\<open>fetch\<close> rejects with a message, or there is a reply, whose body \<open>json()\<close> parses or rejects.\<close>

datatype reply = Rejected string | Reply (replyStatus: nat) (replyJson: "string + jsval")

definition ok :: "nat \<Rightarrow> bool" where
  "ok st \<longleftrightarrow> 200 \<le> st \<and> st < 300"

text \<open>
  What the handlers meet: Andino's reply to a request, Redis' answer to a read (\<open>None\<close> when it throws, \<open>Some None\<close> when the key
  is absent), when the reply to a page settles, and the conversions of numbers.
\<close>

record outside =
  cfg :: settings
  answer :: "upstream \<Rightarrow> reply"
  redisGet :: "string \<Rightarrow> string option option"
  settlesAt :: "nat \<Rightarrow> nat"
  numText :: "rat \<Rightarrow> string"
  textNum :: "string \<Rightarrow> rat"

text \<open>What a handler does: requests sent in order, values written to the cache, and the response.\<close>

record response =
  httpStatus :: nat
  xCache :: "string option"
  jsonBody :: jsval

type_synonym cache_write = "string \<times> int option \<times> string"

definition bearer :: "outside \<Rightarrow> string" where
  "bearer w = ''Bearer '' @ ANDINO_TOKEN (cfg w)"

definition andino_get :: "outside \<Rightarrow> string \<Rightarrow> upstream" where
  "andino_get w path =
     \<lparr>verb = ''GET'', url = ANDINO_BASE (cfg w) @ path, authorization = bearer w, upstreamBody = None\<rparr>"

definition cacheGet :: "outside \<Rightarrow> string \<Rightarrow> jsval" where
  "cacheGet w key =
     (case redisGet w key of
        Some (Some val) \<Rightarrow>
          if val = [] then JNull else (case json_parse (textNum w) val of None \<Rightarrow> JNull | Some v \<Rightarrow> v)
      | _ \<Rightarrow> JNull)"

definition cacheSet :: "outside \<Rightarrow> string \<Rightarrow> jsval \<Rightarrow> cache_write" where
  "cacheSet w key data = (key, CACHE_TTL (cfg w), stringify (numText w) data)"

text \<open>A property read from a value that may be \<open>null\<close>, which throws.\<close>

definition read_prop :: "jsval \<Rightarrow> string \<Rightarrow> string + jsval" where
  "read_prop v k =
     (if v = JNull then Inl (''Cannot read properties of null (reading '' @ [CHR 0x27] @ k @ [CHR 0x27] @ '')'')
      else if v = JUndefined then
        Inl (''Cannot read properties of undefined (reading '' @ [CHR 0x27] @ k @ [CHR 0x27] @ '')'')
      else Inr (getProp v k))"

definition or_value :: "jsval \<Rightarrow> jsval \<Rightarrow> jsval" where
  "or_value v d = (if truthy v then v else d)"

section \<open>The products\<close>

definition products_key :: "outside \<Rightarrow> string" where
  "products_key w = ''andino:products:'' @ SCHOOL_ID (cfg w)"

definition page_request :: "outside \<Rightarrow> nat \<Rightarrow> upstream" where
  "page_request w p = andino_get w (''/api/pos/products?page='' @ nat_digits p)"

text \<open>\<open>.then((r) => r.json()).then((j) => j.data || [])\<close>, without a look at the status.\<close>

definition page_data :: "outside \<Rightarrow> nat \<Rightarrow> string + jsval" where
  "page_data w p =
     (case answer w (page_request w p) of
        Rejected m \<Rightarrow> Inl m
      | Reply st (Inl m) \<Rightarrow> Inl m
      | Reply st (Inr j) \<Rightarrow> map_sum id (\<lambda>d. or_value d (JArr [])) (read_prop j ''data''))"

text \<open>\<open>for (let p = 2; p <= totalPages; p++)\<close>, when \<open>totalPages > 1\<close>.\<close>

definition more_pages :: "outside \<Rightarrow> jsval \<Rightarrow> nat list option" where
  "more_pages w totalPages =
     (case to_number (numText w) (textNum w) totalPages of
        None \<Rightarrow> None
      | Some q \<Rightarrow> if q > 1 then Some [2..<Suc (nat \<lfloor>q\<rfloor>)] else None)"

text \<open>\<open>Promise.all\<close>: the values in order, or the rejection that settles first.\<close>

fun first_rejection :: "(nat \<Rightarrow> nat) \<Rightarrow> (nat \<Rightarrow> string + jsval) \<Rightarrow> nat list \<Rightarrow> (nat \<times> string) option" where
  "first_rejection time f [] = None"
| "first_rejection time f (p # ps) =
     (case (f p, first_rejection time f ps) of
        (Inl m, None) \<Rightarrow> Some (p, m)
      | (Inl m, Some (q, n)) \<Rightarrow> if time p \<le> time q then Some (p, m) else Some (q, n)
      | (Inr _, r) \<Rightarrow> r)"

fun fulfilled :: "(string + jsval) list \<Rightarrow> jsval list" where
  "fulfilled [] = []"
| "fulfilled (Inr v # rs) = v # fulfilled rs"
| "fulfilled (Inl _ # rs) = fulfilled rs"

definition promise_all :: "(nat \<Rightarrow> nat) \<Rightarrow> (nat \<Rightarrow> string + jsval) \<Rightarrow> nat list \<Rightarrow> string + jsval list" where
  "promise_all time f ps =
     (case first_rejection time f ps of Some (_, m) \<Rightarrow> Inl m | None \<Rightarrow> Inr (fulfilled (map f ps)))"

text \<open>\<open>all.concat(...results)\<close>, which an array and a text have.\<close>

fun spread :: "jsval \<Rightarrow> jsval list" where
  "spread (JArr xs) = xs"
| "spread v = [v]"

definition js_concat :: "(rat \<Rightarrow> string) \<Rightarrow> jsval \<Rightarrow> jsval list \<Rightarrow> string + jsval" where
  "js_concat ns all rs =
     (case all of
        JArr xs \<Rightarrow> Inr (JArr (xs @ concat (map spread rs)))
      | JStr s \<Rightarrow> Inr (JStr (s @ concat (map (to_text ns) rs)))
      | _ \<Rightarrow> Inl ''all.concat is not a function'')"

text \<open>
  The part that fetches, which \<open>GET /api/products\<close> has in its \<open>try\<close> and \<open>doFetchAllProducts\<close> repeats: requests sent, and the
  products or the message of the error.
\<close>

definition fetch_pages :: "outside \<Rightarrow> upstream list \<times> (string + jsval)" where
  "fetch_pages w =
     (case answer w (page_request w 1) of
        Rejected m \<Rightarrow> ([page_request w 1], Inl m)
      | Reply st body \<Rightarrow>
          if \<not> ok st then ([page_request w 1], Inl (''Andino API: '' @ nat_digits st))
          else (case body of
            Inl m \<Rightarrow> ([page_request w 1], Inl m)
          | Inr firstJson \<Rightarrow>
              (case read_prop firstJson ''last_page'' of
                 Inl m \<Rightarrow> ([page_request w 1], Inl m)
               | Inr lp \<Rightarrow>
                   let all = or_value (getProp firstJson ''data'') (JArr [])
                   in (case more_pages w (or_value lp (JNum 1)) of
                         None \<Rightarrow> ([page_request w 1], Inr all)
                       | Some ps \<Rightarrow>
                           (page_request w 1 # map (page_request w) ps,
                            case promise_all (settlesAt w) (page_data w) ps of
                              Inl m \<Rightarrow> Inl m
                            | Inr rs \<Rightarrow> js_concat (numText w) all rs)))))"

text \<open>\<open>doFetchAllProducts\<close>.\<close>

definition doFetchAllProducts :: "outside \<Rightarrow> upstream list \<times> cache_write list \<times> (string + jsval)" where
  "doFetchAllProducts w =
     (let cached = cacheGet w (products_key w) in
      if truthy cached then ([], [], Inr cached)
      else (case fetch_pages w of
              (sent, Inl m) \<Rightarrow> (sent, [], Inl m)
            | (sent, Inr all) \<Rightarrow> (sent, [cacheSet w (products_key w) all], Inr all)))"

definition hit :: "jsval \<Rightarrow> response" where
  "hit v = \<lparr>httpStatus = 200, xCache = Some ''HIT'', jsonBody = v\<rparr>"

definition miss :: "jsval \<Rightarrow> response" where
  "miss v = \<lparr>httpStatus = 200, xCache = Some ''MISS'', jsonBody = v\<rparr>"

definition stale :: "jsval \<Rightarrow> response" where
  "stale v = \<lparr>httpStatus = 200, xCache = Some ''STALE'', jsonBody = v\<rparr>"

definition unavailable :: "string option \<Rightarrow> response" where
  "unavailable m =
     \<lparr>httpStatus = 502, xCache = None,
      jsonBody = JObj ((''error'', JStr ''Andino API unavailable'') # (case m of None \<Rightarrow> [] | Some t \<Rightarrow> [(''message'', JStr t)]))\<rparr>"

type_synonym outcome = "upstream list \<times> cache_write list \<times> response"

text \<open>\<open>GET /api/products\<close>.\<close>

definition products_handler :: "outside \<Rightarrow> outcome" where
  "products_handler w =
     (let cached = cacheGet w (products_key w) in
      if truthy cached then ([], [], hit cached)
      else (case fetch_pages w of
              (sent, Inr all) \<Rightarrow> (sent, [cacheSet w (products_key w) all], miss all)
            | (sent, Inl m) \<Rightarrow> (sent, [], if truthy cached then stale cached else unavailable (Some m))))"

text \<open>The second handler registered for the same path.\<close>

definition legacy_products_handler :: "outside \<Rightarrow> outcome" where
  "legacy_products_handler w =
     (let cached = cacheGet w (products_key w) in
      if truthy cached then ([], [], hit cached)
      else (case doFetchAllProducts w of
              (sent, writes, Inr all) \<Rightarrow> (sent, writes, miss all)
            | (sent, writes, Inl m) \<Rightarrow> (sent, writes, if truthy cached then stale cached else unavailable (Some m))))"

section \<open>Users\<close>

text \<open>\<open>GET /api/user/profile\<close>: the key of the cache names the user, the request does not.\<close>

definition profile_handler :: "outside \<Rightarrow> jsval \<Rightarrow> outcome" where
  "profile_handler w userId =
     (if \<not> truthy userId then
        ([], [], \<lparr>httpStatus = 400, xCache = None, jsonBody = JObj [(''error'', JStr ''userId required'')]\<rparr>)
      else
        let key = ''andino:user:'' @ to_text (numText w) userId;
            cached = cacheGet w key;
            req = andino_get w ''/api/auth/user'';
            failed = ([req], [], if truthy cached then stale cached else unavailable None)
        in if truthy cached then ([], [], hit cached)
           else (case answer w req of
                   Rejected m \<Rightarrow> failed
                 | Reply st body \<Rightarrow>
                     if \<not> ok st then failed
                     else (case body of Inl m \<Rightarrow> failed | Inr data \<Rightarrow> ([req], [cacheSet w key data], miss data))))"

text \<open>A reply passed on with its own status.\<close>

definition forward :: "outside \<Rightarrow> upstream \<Rightarrow> outcome" where
  "forward w req =
     ([req], [],
      case answer w req of
        Reply st (Inr v) \<Rightarrow> \<lparr>httpStatus = st, xCache = None, jsonBody = v\<rparr>
      | _ \<Rightarrow> unavailable None)"

text \<open>\<open>POST /api/auth/verify-pin\<close> and \<open>GET /api/user/balance\<close>.\<close>

definition verify_pin_handler :: "outside \<Rightarrow> jsval \<Rightarrow> outcome" where
  "verify_pin_handler w body =
     forward w \<lparr>verb = ''POST'', url = ANDINO_BASE (cfg w) @ ''/api/auth/verify-pin'', authorization = bearer w,
       upstreamBody = stringify_opt (numText w) body\<rparr>"

definition balance_handler :: "outside \<Rightarrow> jsval \<Rightarrow> outcome" where
  "balance_handler w userId =
     forward w (andino_get w (''/api/user/balance?userId='' @ to_text (numText w) userId))"

section \<open>The menu\<close>

definition default_store :: jsval where
  "default_store = JStr ''andino-school-9''"

definition category_of :: "jsval \<Rightarrow> jsval" where
  "category_of p = or_value (getProp p ''category'') (JObj [])"

definition category_name :: "jsval \<Rightarrow> jsval" where
  "category_name c = or_value (getProp c ''name'') (JStr ''Uncategorized'')"

definition category_id :: "(string \<Rightarrow> nat list) \<Rightarrow> (rat \<Rightarrow> string) \<Rightarrow> jsval \<Rightarrow> string" where
  "category_id sha1 ns c =
     (if truthy (getProp c ''id'') then uuidV5 sha1 (''andino-cat-'' @ to_text ns (category_name c))
      else uuidV5 sha1 ''andino-cat-Uncategorized'')"

text \<open>\<open>clock i j\<close> is the time that the \<open>j\<close>-th \<open>new Date()\<close> reads at product \<open>i\<close>.\<close>

definition category_entry :: "(nat \<Rightarrow> string) \<Rightarrow> jsval \<Rightarrow> string \<Rightarrow> nat \<Rightarrow> jsval \<Rightarrow> jsval" where
  "category_entry now storeId catId size_before c =
     JObj [(''categoryId'', JStr catId), (''storeId'', storeId), (''parentId'', JNull), (''name'', category_name c),
       (''description'', or_value (getProp c ''description'') JNull), (''displayOrder'', JNum (of_nat (size_before + 1))),
       (''imageUrl'', or_value (getProp c ''image'') JNull), (''blurhash'', JNull), (''isActive'', JBool True),
       (''createdAt'', JStr (now 0)), (''updatedAt'', JStr (now 1)), (''deletedAt'', JNull)]"

text \<open>\<open>Math.round(parseFloat(p.price) * 100)\<close>; \<open>NaN\<close> is sent as \<open>null\<close>.\<close>

definition price_cents :: "(rat \<Rightarrow> string) \<Rightarrow> (string \<Rightarrow> rat) \<Rightarrow> jsval \<Rightarrow> jsval" where
  "price_cents ns rn price =
     (case parseFloat rn (to_text ns price) of
        None \<Rightarrow> JNull
      | Some x \<Rightarrow> JNum (of_int (round_half_up (fl_times x 100))))"

definition item_id :: "(string \<Rightarrow> nat list) \<Rightarrow> (rat \<Rightarrow> string) \<Rightarrow> jsval \<Rightarrow> string" where
  "item_id sha1 ns p = uuidV5 sha1 (''andino-item-'' @ to_text ns (getProp p ''id''))"

definition item_entry ::
  "(string \<Rightarrow> nat list) \<Rightarrow> (rat \<Rightarrow> string) \<Rightarrow> (string \<Rightarrow> rat) \<Rightarrow> (nat \<Rightarrow> string) \<Rightarrow> jsval \<Rightarrow> string \<Rightarrow> jsval \<Rightarrow> jsval" where
  "item_entry sha1 ns rn now storeId catId p =
     JObj [(''itemId'', JStr (item_id sha1 ns p)), (''storeId'', storeId), (''categoryId'', JStr catId),
       (''name'', getProp p ''name''), (''description'', or_value (getProp p ''description'') JNull),
       (''priceCents'', price_cents ns rn (getProp p ''price'')), (''costCents'', JNull), (''plu'', JNull),
       (''barcode'', JNull), (''sku'', JNull), (''imageUrl'', or_value (getProp p ''image'') JNull), (''blurhash'', JNull),
       (''taxCategory'', JStr ''standard''), (''isWeightBased'', JBool False), (''weightUnit'', JNull),
       (''isActive'', JBool (getProp p ''status'' = JNum 1)), (''metadata'', JNull), (''modifierGroups'', JArr []),
       (''createdAt'', or_value (getProp p ''created_at'') (JStr (now 2))),
       (''updatedAt'', or_value (getProp p ''updated_at'') (JStr (now 3))), (''deletedAt'', JNull)]"

text \<open>The loop over the products: \<open>categoryMap\<close> by key, and \<open>items\<close>.\<close>

fun menu_loop ::
  "(string \<Rightarrow> nat list) \<Rightarrow> (rat \<Rightarrow> string) \<Rightarrow> (string \<Rightarrow> rat) \<Rightarrow> (nat \<Rightarrow> nat \<Rightarrow> string) \<Rightarrow> jsval \<Rightarrow> nat \<Rightarrow> jsval list \<Rightarrow>
   (string, jsval) js_map \<times> jsval list \<Rightarrow> (string, jsval) js_map \<times> jsval list" where
  "menu_loop sha1 ns rn clock storeId i [] s = s"
| "menu_loop sha1 ns rn clock storeId i (p # ps) (cats, items) =
     menu_loop sha1 ns rn clock storeId (Suc i) ps
       (if \<not> truthy p \<or> \<not> truthy (getProp p ''id'') then (cats, items)
        else
          let c = category_of p; catId = category_id sha1 ns c
          in (if map_of cats catId \<noteq> None then cats
              else cats @ [(catId, category_entry (clock i) storeId catId (length cats) c)],
              items @ [item_entry sha1 ns rn (clock i) storeId catId p]))"

text \<open>What \<open>for (const p of products)\<close> visits.\<close>

definition iterate :: "jsval \<Rightarrow> string + jsval list" where
  "iterate v =
     (case v of
        JArr xs \<Rightarrow> Inr xs
      | JStr s \<Rightarrow> Inr (map (\<lambda>c. JStr [c]) s)
      | _ \<Rightarrow> Inl ''products is not iterable'')"

definition menu_body :: "jsval \<Rightarrow> (string, jsval) js_map \<times> jsval list \<Rightarrow> jsval" where
  "menu_body storeId s =
     JObj [(''storeId'', storeId), (''currency'', JStr ''USD''), (''taxRate'', JNum 0),
       (''categories'', JArr (map snd (fst s))), (''items'', JArr (snd s))]"

text \<open>\<open>GET /v1/menu\<close>.\<close>

definition menu_handler ::
  "(string \<Rightarrow> nat list) \<Rightarrow> (nat \<Rightarrow> nat \<Rightarrow> string) \<Rightarrow> outside \<Rightarrow> jsval \<Rightarrow> outcome" where
  "menu_handler sha1 clock w store_id =
     (let storeId = or_value store_id default_store in
      case doFetchAllProducts w of
        (sent, writes, Inl m) \<Rightarrow> (sent, writes, unavailable (Some m))
      | (sent, writes, Inr products) \<Rightarrow>
          (sent, writes,
           case iterate products of
             Inl m \<Rightarrow> unavailable (Some m)
           | Inr ps \<Rightarrow>
               \<lparr>httpStatus = 200, xCache = None,
                jsonBody = menu_body storeId (menu_loop sha1 (numText w) (textNum w) clock storeId 0 ps ([], []))\<rparr>))"

section \<open>Routes\<close>

datatype handler = Products | Profile | VerifyPin | Balance | Menu | LegacyProducts | Health

text \<open>The registrations in the order of the file, of which the first that matches answers.\<close>

definition routes :: "((string \<times> string) \<times> handler) list" where
  "routes =
     [((''GET'', ''/api/products''), Products),
      ((''GET'', ''/api/user/profile''), Profile),
      ((''POST'', ''/api/auth/verify-pin''), VerifyPin),
      ((''GET'', ''/api/user/balance''), Balance),
      ((''GET'', ''/v1/menu''), Menu),
      ((''GET'', ''/api/products''), LegacyProducts),
      ((''GET'', ''/health''), Health)]"

record inbound =
  httpMethod :: string
  path :: string
  userIdQuery :: jsval
  storeIdQuery :: jsval
  requestBody :: jsval

definition health_handler :: "rat \<Rightarrow> outcome" where
  "health_handler uptime =
     ([], [], \<lparr>httpStatus = 200, xCache = None,
       jsonBody = JObj [(''ok'', JBool True), (''service'', JStr ''andino-proxy''), (''uptime'', JNum uptime)]\<rparr>)"

text \<open>The middleware answers \<open>OPTIONS\<close> itself; \<open>None\<close> leaves the request to the framework.\<close>

definition serve :: "(string \<Rightarrow> nat list) \<Rightarrow> (nat \<Rightarrow> nat \<Rightarrow> string) \<Rightarrow> rat \<Rightarrow> outside \<Rightarrow> inbound \<Rightarrow> outcome option" where
  "serve sha1 clock uptime w r =
     (if httpMethod r = ''OPTIONS'' then Some ([], [], \<lparr>httpStatus = 200, xCache = None, jsonBody = JStr ''OK''\<rparr>)
      else map_option
        (\<lambda>h. case h of
           Products \<Rightarrow> products_handler w
         | Profile \<Rightarrow> profile_handler w (userIdQuery r)
         | VerifyPin \<Rightarrow> verify_pin_handler w (requestBody r)
         | Balance \<Rightarrow> balance_handler w (userIdQuery r)
         | Menu \<Rightarrow> menu_handler sha1 clock w (storeIdQuery r)
         | LegacyProducts \<Rightarrow> legacy_products_handler w
         | Health \<Rightarrow> health_handler uptime)
        (map_of routes (httpMethod r, path r)))"

section \<open>Identifiers: facts\<close>

text \<open>SHA-1 is documented to give twenty bytes.\<close>

definition digest_documented :: "(string \<Rightarrow> nat list) \<Rightarrow> bool" where
  "digest_documented sha1 \<longleftrightarrow> (\<forall>t. length (sha1 t) = 20 \<and> list_all (\<lambda>b. b < 256) (sha1 t))"

definition uuid_v5_pattern :: "(char \<Rightarrow> bool) list" where
  "uuid_v5_pattern =
     replicate 8 is_lower_hex @ [is_dash] @ replicate 4 is_lower_hex @ [is_dash, \<lambda>c. c = CHR ''5''] @
     replicate 3 is_lower_hex @ [is_dash, \<lambda>c. c \<in> set ''89ab''] @ replicate 3 is_lower_hex @ [is_dash] @
     replicate 12 is_lower_hex"

lemma hex_digit_lower: "n < 16 \<Longrightarrow> is_lower_hex (hex_digit n)"
proof -
  have "list_all (\<lambda>n. is_lower_hex (hex_digit n)) [0..<16]" by code_simp
  then show "n < 16 \<Longrightarrow> is_lower_hex (hex_digit n)" by (simp add: list_all_iff)
qed

lemma digest_hex_lower:
  "b < 256 \<Longrightarrow> is_lower_hex (hex_digit (b div 16))" "is_lower_hex (hex_digit (b mod 16))"
  by (simp_all add: hex_digit_lower less_mult_imp_div_less)

text \<open>The high digits of the two bytes that are overwritten.\<close>

lemma high_digit:
  fixes b m k :: nat
  shows "((b AND m) OR k) div 16 = (b div 16 AND m div 16) OR k div 16"
  using drop_bit_or [of 4 "b AND m" k] drop_bit_and [of 4 b m] by (simp add: drop_bit_eq_div)

lemma hex_digits:
  "hex_digit 5 = CHR ''5''" "hex_digit 8 = CHR ''8''" "hex_digit 9 = CHR ''9''" "hex_digit 10 = CHR ''a''"
  "hex_digit 11 = CHR ''b''"
  by code_simp+

lemma version_byte: "hex_digit (((b AND 0x0f) OR 0x50) div 16) = CHR ''5''"
  unfolding high_digit by (simp add: hex_digits)

lemma variant_byte: "hex_digit (((b AND 0x3f) OR 0x80) div 16) \<in> set ''89ab''"
proof -
  have "b div 16 AND 3 = (b div 16) mod 4"
    using take_bit_eq_mask [of 2 "b div 16"] by (simp add: take_bit_eq_mod mask_eq_exp_minus_1)
  moreover have "(b div 16) mod 4 < 4" by simp
  ultimately consider "b div 16 AND 3 = 0" | "b div 16 AND 3 = 1" | "b div 16 AND 3 = 2" | "b div 16 AND 3 = 3" by linarith
  then show ?thesis unfolding high_digit by cases (simp_all add: hex_digits)
qed

lemma replicates:
  "replicate 3 x = [x, x, x]" "replicate 4 x = [x, x, x, x]" "replicate 8 x = [x, x, x, x, x, x, x, x]"
  "replicate 12 x = [x, x, x, x, x, x, x, x, x, x, x, x]"
  by (simp_all add: numeral_eq_Suc)

lemma twenty_bytes:
  assumes "length bs = 20"
  obtains b0 b1 b2 b3 b4 b5 b6 b7 b8 b9 c0 c1 c2 c3 c4 c5 c6 c7 c8 c9
  where "bs = [b0, b1, b2, b3, b4, b5, b6, b7, b8, b9, c0, c1, c2, c3, c4, c5, c6, c7, c8, c9]"
  using assms that by (auto simp: numeral_eq_Suc length_Suc_conv)

theorem uuidV5_shape:
  assumes "digest_documented sha1"
  shows "regex_test uuid_v5_pattern (uuidV5 sha1 name)"
proof -
  let ?bs = "sha1 (uuid_namespace @ name)"
  have len: "length ?bs = 20" and bytes: "list_all (\<lambda>b. b < 256) ?bs"
    using assms by (simp_all add: digest_documented_def)
  from len obtain b0 b1 b2 b3 b4 b5 b6 b7 b8 b9 c0 c1 c2 c3 c4 c5 c6 c7 c8 c9
    where bs: "?bs = [b0, b1, b2, b3, b4, b5, b6, b7, b8, b9, c0, c1, c2, c3, c4, c5, c6, c7, c8, c9]"
    by (rule twenty_bytes)
  show ?thesis
    using bytes version_byte [of b6] variant_byte [of b8]
    by (simp add: uuidV5_def Let_def bs slice_def digest_hex_def regex_test_def uuid_v5_pattern_def is_dash_def
        replicates digest_hex_lower)
qed

lemma uuidV5_version:
  assumes "digest_documented sha1"
  shows "uuidV5 sha1 name ! 14 = CHR ''5''"
proof -
  have "length uuid_v5_pattern = 36" "uuid_v5_pattern ! 14 = (\<lambda>c. c = CHR ''5'')"
    by (simp_all add: uuid_v5_pattern_def replicates)
  with list_all2_nthD [OF uuidV5_shape [OF assms, of name, unfolded regex_test_def], of 14] show ?thesis by simp
qed

lemma uuidV5_not_v7: "digest_documented sha1 \<Longrightarrow> \<not> regex_test UUID_V7_REGEX (uuidV5 sha1 name)"
  using uuid_v7_version uuidV5_version by fastforce

section \<open>Products: facts\<close>

lemma truthy_or_value: "truthy d \<Longrightarrow> truthy (or_value v d)"
  by (simp add: or_value_def)

lemma first_rejection_None: "list_all (\<lambda>p. f p = Inr (g p)) ps \<Longrightarrow> first_rejection time f ps = None"
  by (induction ps) auto

lemma promise_all_fulfilled:
  assumes "list_all (\<lambda>p. f p = Inr (g p)) ps"
  shows "promise_all time f ps = Inr (map g ps)"
proof -
  have "fulfilled (map f ps) = map g ps" using assms by (induction ps) auto
  with assms show ?thesis by (simp add: promise_all_def first_rejection_None)
qed

text \<open>What a page contributes: its array of data, nothing when there is none.\<close>

definition page_contents :: "jsval \<Rightarrow> jsval list" where
  "page_contents j = spread (or_value (getProp j ''data'') (JArr []))"

lemma fetch_pages_all:
  assumes first: "answer w (page_request w 1) = Reply st (Inr (JObj b))" "ok st"
    and lp: "getProp (JObj b) ''last_page'' = JNum (of_nat n)" "1 < n"
    and data: "or_value (getProp (JObj b) ''data'') (JArr []) = JArr xs"
    and rest: "list_all (\<lambda>p. answer w (page_request w p) = Reply (sts p) (Inr (JObj (bs p)))) [2..<Suc n]"
  shows "fetch_pages w =
    (map (page_request w) [1..<Suc n], Inr (JArr (xs @ concat (map (\<lambda>p. page_contents (JObj (bs p))) [2..<Suc n]))))"
proof -
  have pages: "list_all (\<lambda>p. page_data w p = Inr (or_value (getProp (JObj (bs p)) ''data'') (JArr []))) [2..<Suc n]"
    using rest by (auto simp: list_all_iff page_data_def read_prop_def simp del: getProp.simps)
  have "more_pages w (or_value (getProp (JObj b) ''last_page'') (JNum 1)) = Some [2..<Suc n]"
    using lp by (simp add: more_pages_def or_value_def del: getProp.simps)
  moreover have "[1..<Suc n] = 1 # [2..<Suc n]" using lp(2) upt_conv_Cons [of 1 "Suc n"] by (simp add: numeral_2_eq_2)
  ultimately show ?thesis
    using first data promise_all_fulfilled [OF pages, of "settlesAt w"]
    by (simp add: fetch_pages_def read_prop_def js_concat_def page_contents_def comp_def del: getProp.simps upt_Suc)
qed

text \<open>What the reply to a later page amounts to: an error with its message, or the page's contents, whatever its status.\<close>

definition page_reply :: "outside \<Rightarrow> nat \<Rightarrow> string + jsval list" where
  "page_reply w p =
     (case answer w (page_request w p) of
        Rejected m \<Rightarrow> Inl m
      | Reply _ (Inl m) \<Rightarrow> Inl m
      | Reply _ (Inr j) \<Rightarrow> (case read_prop j ''data'' of Inl m \<Rightarrow> Inl m | Inr _ \<Rightarrow> Inr (page_contents j)))"

lemma page_reply_data: "page_reply w p = map_sum id spread (page_data w p)"
  by (simp add: page_reply_def page_data_def page_contents_def read_prop_def split: reply.split sum.split)

lemma first_rejection_earliest:
  "(case first_rejection time f ps of
      None \<Rightarrow> \<forall>p \<in> set ps. \<exists>v. f p = Inr v
    | Some (p, m) \<Rightarrow> p \<in> set ps \<and> f p = Inl m \<and> (\<forall>q \<in> set ps. \<forall>m'. f q = Inl m' \<longrightarrow> time p \<le> time q))"
proof (induction ps)
  case (Cons p ps)
  then show ?case by (cases "f p"; cases "first_rejection time f ps") (auto split: prod.splits)
qed simp

lemma fulfilled_spread:
  "\<forall>p \<in> set ps. \<exists>v. f p = Inr v \<Longrightarrow> map spread (fulfilled (map f ps)) = map (\<lambda>p. projr (map_sum id spread (f p))) ps"
  by (induction ps) auto

lemma fetch_pages_first:
  assumes first: "answer w (page_request w 1) = Reply st (Inr j)" "ok st" "j \<noteq> JNull" "j \<noteq> JUndefined"
    and lp: "to_number (numText w) (textNum w) (or_value (getProp j ''last_page'') (JNum 1)) = Some (of_nat n)"
    and data: "or_value (getProp j ''data'') (JArr []) = JArr xs"
  shows "fetch_pages w = (map (page_request w) (1 # [2..<Suc n]),
    case promise_all (settlesAt w) (page_data w) [2..<Suc n] of
      Inl m \<Rightarrow> Inl m | Inr rs \<Rightarrow> Inr (JArr (xs @ concat (map spread rs))))"
proof (cases "1 < n")
  case True
  then have "more_pages w (or_value (getProp j ''last_page'') (JNum 1)) = Some [2..<Suc n]"
    using lp by (simp add: more_pages_def)
  then show ?thesis using first data by (simp add: fetch_pages_def read_prop_def js_concat_def del: upt_Suc split: sum.split)
next
  case False
  then have "more_pages w (or_value (getProp j ''last_page'') (JNum 1)) = None" using lp by (simp add: more_pages_def)
  moreover have "[2..<Suc n] = []" using False by simp
  ultimately show ?thesis using first data by (simp add: fetch_pages_def read_prop_def promise_all_def del: upt_Suc)
qed

text \<open>
  C15. A request for the products. A cached list answers it without a request upstream. On a miss the first page is requested; when
  that fails, has an error status or a body that is not JSON, the answer is 502 with the message and nothing is cached. When
  its body is a value other than \<open>null\<close> with an array of data, or none, and \<open>last_page\<close> is or converts to the
  number \<open>n\<close> (one when it is missing), one request per page up to \<open>n\<close> goes out. If each of the later ones has a JSON body
  other than \<open>null\<close>, the contents of all pages in their order are answered with status 200 and cached, also for a single
  page; otherwise the answer is 502 with the message of the page that failed first, and nothing is cached. The status of a
  later page counts for nothing: one that answers an error as JSON without \<open>data\<close> is an empty page.
\<close>

theorem products_of_all_pages:
  "(truthy (cacheGet w (products_key w)) \<longrightarrow> products_handler w = ([], [], hit (cacheGet w (products_key w)))) \<and>
   (\<not> truthy (cacheGet w (products_key w)) \<longrightarrow>
     (answer w (page_request w 1) = Rejected m \<or>
        answer w (page_request w 1) = Reply st (Inl m) \<and> ok st \<or>
        answer w (page_request w 1) = Reply st body \<and> \<not> ok st \<and> m = ''Andino API: '' @ nat_digits st \<longrightarrow>
      products_handler w = ([page_request w 1], [], unavailable (Some m))) \<and>
     (answer w (page_request w 1) = Reply st (Inr j) \<and> ok st \<and> j \<noteq> JNull \<and> j \<noteq> JUndefined \<and>
        to_number (numText w) (textNum w) (or_value (getProp j ''last_page'') (JNum 1)) = Some (of_nat n) \<and>
        or_value (getProp j ''data'') (JArr []) = JArr xs \<longrightarrow>
      fst (products_handler w) = map (page_request w) (1 # [2..<Suc n]) \<and>
      (if \<forall>p \<in> {2..n}. isl (page_reply w p) = False
       then (let all = JArr (xs @ concat (map (\<lambda>p. projr (page_reply w p)) [2..<Suc n]))
             in snd (products_handler w) = ([cacheSet w (products_key w) all], miss all))
       else \<exists>p \<in> {2..n}. isl (page_reply w p) \<and> (\<forall>q \<in> {2..n}. isl (page_reply w q) \<longrightarrow> settlesAt w p \<le> settlesAt w q) \<and>
         snd (products_handler w) = ([], unavailable (Some (projl (page_reply w p)))))))"
proof (intro conjI impI)
  assume absent: "\<not> truthy (cacheGet w (products_key w))"
  show "products_handler w = ([page_request w 1], [], unavailable (Some m))"
    if "answer w (page_request w 1) = Rejected m \<or>
        answer w (page_request w 1) = Reply st (Inl m) \<and> ok st \<or>
        answer w (page_request w 1) = Reply st body \<and> \<not> ok st \<and> m = ''Andino API: '' @ nat_digits st"
    using that absent by (auto simp: products_handler_def fetch_pages_def)
  assume "answer w (page_request w 1) = Reply st (Inr j) \<and> ok st \<and> j \<noteq> JNull \<and> j \<noteq> JUndefined \<and>
      to_number (numText w) (textNum w) (or_value (getProp j ''last_page'') (JNum 1)) = Some (of_nat n) \<and>
      or_value (getProp j ''data'') (JArr []) = JArr xs"
  then have fetched: "fetch_pages w = (map (page_request w) (1 # [2..<Suc n]),
      case promise_all (settlesAt w) (page_data w) [2..<Suc n] of
        Inl m \<Rightarrow> Inl m | Inr rs \<Rightarrow> Inr (JArr (xs @ concat (map spread rs))))"
    by (intro fetch_pages_first) blast+
  then show "fst (products_handler w) = map (page_request w) (1 # [2..<Suc n])"
    using absent by (simp add: products_handler_def split: sum.split)
  have range: "set [2..<Suc n] = {2..n}" by auto
  have fails: "isl (page_reply w p) \<longleftrightarrow> (\<exists>m. page_data w p = Inl m)" for p
    by (cases "page_data w p") (simp_all add: page_reply_data)
  note earliest = first_rejection_earliest [where time = "settlesAt w" and f = "page_data w" and ps = "[2..<Suc n]", unfolded range]
  show "if \<forall>p \<in> {2..n}. isl (page_reply w p) = False
      then (let all = JArr (xs @ concat (map (\<lambda>p. projr (page_reply w p)) [2..<Suc n]))
            in snd (products_handler w) = ([cacheSet w (products_key w) all], miss all))
      else \<exists>p \<in> {2..n}. isl (page_reply w p) \<and> (\<forall>q \<in> {2..n}. isl (page_reply w q) \<longrightarrow> settlesAt w p \<le> settlesAt w q) \<and>
        snd (products_handler w) = ([], unavailable (Some (projl (page_reply w p))))"
  proof (cases "first_rejection (settlesAt w) (page_data w) [2..<Suc n]")
    case None
    then have good: "\<forall>p \<in> {2..n}. \<exists>v. page_data w p = Inr v" using earliest by simp
    then have "map spread (fulfilled (map (page_data w) [2..<Suc n])) = map (\<lambda>p. projr (page_reply w p)) [2..<Suc n]"
      using fulfilled_spread [of "[2..<Suc n]" "page_data w"] unfolding page_reply_data range by blast
    then have "snd (products_handler w) =
        (let all = JArr (xs @ concat (map (\<lambda>p. projr (page_reply w p)) [2..<Suc n]))
         in ([cacheSet w (products_key w) all], miss all))"
      using None fetched absent by (simp add: products_handler_def promise_all_def Let_def del: upt_Suc)
    moreover have "\<forall>p \<in> {2..n}. isl (page_reply w p) = False" using good fails by fastforce
    ultimately show ?thesis by (simp add: Let_def)
  next
    case (Some pm)
    obtain p m' where pm: "pm = (p, m')" by force
    then have p: "p \<in> {2..n}" "page_data w p = Inl m'"
      "\<forall>q \<in> {2..n}. \<forall>m'. page_data w q = Inl m' \<longrightarrow> settlesAt w p \<le> settlesAt w q"
      using earliest Some by simp_all
    have "snd (products_handler w) = ([], unavailable (Some m'))"
      using Some pm fetched absent by (simp add: products_handler_def promise_all_def del: upt_Suc)
    then show ?thesis using p fails by (auto simp: page_reply_data intro!: bexI [of _ p])
  qed
qed (simp add: products_handler_def)

text \<open>
  A page that fails is missing in the answer, which has status 200 and is cached for everyone.
\<close>

theorem failed_page_is_cached_as_empty:
  assumes "\<not> truthy (cacheGet w (products_key w))"
    and "answer w (page_request w 1) = Reply 200 (Inr (JObj [(''last_page'', JNum 2), (''data'', JArr xs)]))"
    and "answer w (page_request w 2) = Reply 500 (Inr (JObj [(''message'', JStr m)]))"
  shows "snd (products_handler w) = ([cacheSet w (products_key w) (JArr xs)], miss (JArr xs))"
proof -
  have "list_all (\<lambda>p. answer w (page_request w p) = Reply 500 (Inr (JObj [(''message'', JStr m)]))) [2..<Suc 2]"
    using assms(3) by simp
  from fetch_pages_all [OF assms(2) _ _ _ _ this] assms(1) show ?thesis
    by (simp add: products_handler_def ok_def or_value_def page_contents_def)
qed

lemma fetch_pages_truthy:
  assumes "fetch_pages w = (sent, Inr all)"
  shows "truthy all"
proof (cases "answer w (page_request w 1)")
  case (Reply st body)
  then obtain j where "body = Inr j" using assms by (auto simp: fetch_pages_def split: if_splits sum.splits)
  moreover have "or_value v (JArr []) \<noteq> JStr []" for v using truthy_or_value [of "JArr []" v] by auto
  ultimately show ?thesis
    using Reply assms by (auto simp: fetch_pages_def js_concat_def truthy_or_value Let_def split: if_splits sum.splits option.splits jsval.splits)
qed (use assms in \<open>simp add: fetch_pages_def\<close>)


lemma cacheGet_written:
  assumes "redisGet w key = Some (Some (stringify (numText w) v))" "json_plain (textNum w) (numText w) v"
  shows "cacheGet w key = v"
proof -
  have "json_parse (textNum w) (stringify (numText w) v) = Some v" by (rule json_parse_stringify [OF assms(2)])
  moreover from this have "stringify (numText w) v \<noteq> []"
    by (auto simp: json_parse_def parse_value.simps skip_ws_def)
  ultimately show ?thesis using assms(1) by (simp add: cacheGet_def)
qed

text \<open>
  What a miss has written, the next request answers from the cache, the same value without a request upstream, as long as Redis
  returns the text.
\<close>

theorem miss_then_hit:
  assumes "products_handler w = (sent, [(key, ttl, text)], r)" "r = miss v" "json_plain (textNum w) (numText w) v"
    and "redisGet w' (products_key w) = Some (Some text)" "cfg w' = cfg w" "textNum w' = textNum w" "numText w' = numText w"
  shows "products_handler w' = ([], [], hit v)"
proof -
  have miss: "\<not> truthy (cacheGet w (products_key w))" "fetch_pages w = (sent, Inr v)" "text = stringify (numText w) v"
    using assms(1,2) by (auto simp: products_handler_def cacheSet_def miss_def hit_def Let_def
        split: if_splits prod.splits sum.splits)
  have key: "products_key w' = products_key w" by (simp add: products_key_def assms(5))
  have "cacheGet w' (products_key w') = v"
    by (rule cacheGet_written) (use assms(3,4,6,7) miss(3) key in simp_all)
  then show ?thesis using fetch_pages_truthy [OF miss(2)] by (simp add: products_handler_def)
qed

text \<open>
  The branches that serve a stale value are never taken: a value in the cache has been answered before.
\<close>

theorem stale_never_served:
  "xCache (snd (snd (products_handler w))) \<noteq> Some ''STALE'' \<and>
   xCache (snd (snd (legacy_products_handler w))) \<noteq> Some ''STALE'' \<and>
   xCache (snd (snd (profile_handler w userId))) \<noteq> Some ''STALE''"
  by (auto simp: products_handler_def legacy_products_handler_def profile_handler_def hit_def miss_def unavailable_def Let_def
      split: prod.splits sum.splits reply.splits)

text \<open>
  The handler registered twice would answer the same, and only the first registration is reached.
\<close>

theorem legacy_products_equivalent:
  "legacy_products_handler w = products_handler w \<and>
   serve sha1 clock uptime w \<lparr>httpMethod = ''GET'', path = ''/api/products'', userIdQuery = u, storeIdQuery = s, requestBody = b\<rparr> =
     Some (products_handler w)"
  by (auto simp: products_handler_def legacy_products_handler_def doFetchAllProducts_def Let_def serve_def routes_def
      split: prod.splits sum.splits)

text \<open>
  The statuses of the two routes of products, and no request when the cache answers.
\<close>

theorem products_status:
  "httpStatus (snd (snd (products_handler w))) \<in> {200, 502} \<and>
   (if truthy (cacheGet w (products_key w)) then products_handler w = ([], [], hit (cacheGet w (products_key w)))
    else fst (products_handler w) = fst (fetch_pages w) \<and>
      (fst (snd (products_handler w)) = [] \<longleftrightarrow> isl (snd (fetch_pages w))))"
  by (auto simp: products_handler_def hit_def miss_def stale_def unavailable_def Let_def split: prod.splits sum.splits)

section \<open>Users: facts\<close>

text \<open>
  On a miss the profile that is answered, and cached under the user, does not depend on the user: it is that of the
  holder of the proxy's token.
\<close>

theorem profile_ignores_user:
  assumes "truthy u" "truthy v"
    and "\<not> truthy (cacheGet w (''andino:user:'' @ to_text (numText w) u))"
    and "\<not> truthy (cacheGet w (''andino:user:'' @ to_text (numText w) v))"
  shows "fst (profile_handler w u) = fst (profile_handler w v) \<and> snd (snd (profile_handler w u)) = snd (snd (profile_handler w v)) \<and>
    map snd (fst (snd (profile_handler w u))) = map snd (fst (snd (profile_handler w v)))"
  using assms by (auto simp: profile_handler_def Let_def cacheSet_def split: reply.splits sum.splits)

text \<open>Whoever calls, every request upstream carries the proxy's own token and goes to the configured service.\<close>

definition own_request :: "outside \<Rightarrow> upstream \<Rightarrow> bool" where
  "own_request w q \<longleftrightarrow>
     authorization q = ''Bearer '' @ ANDINO_TOKEN (cfg w) \<and> take (length (ANDINO_BASE (cfg w))) (url q) = ANDINO_BASE (cfg w)"

lemma own_andino_get [simp]: "own_request w (andino_get w p)" "own_request w (page_request w n)"
  by (simp_all add: own_request_def andino_get_def page_request_def bearer_def)

lemma own_fetch_pages: "list_all (own_request w) (fst (fetch_pages w))"
  by (auto simp: fetch_pages_def list_all_iff Let_def split: reply.splits sum.splits option.splits)

theorem requests_carry_the_token:
  "list_all (\<lambda>o'. list_all (own_request w) (fst o')) (case serve sha1 clock uptime w r of None \<Rightarrow> [] | Some o' \<Rightarrow> [o'])"
proof -
  have "list_all (own_request w) (fst (products_handler w))" "list_all (own_request w) (fst (doFetchAllProducts w))"
    using own_fetch_pages [of w]
    by (auto simp: products_handler_def doFetchAllProducts_def Let_def split: prod.splits sum.splits)
  then have "list_all (own_request w) (fst (menu_handler sha1 clock w s))"
    and "list_all (own_request w) (fst (legacy_products_handler w))" and "list_all (own_request w) (fst (products_handler w))" for s
    by (auto simp: menu_handler_def legacy_products_handler_def Let_def split: prod.splits sum.splits)
  moreover have "list_all (own_request w) (fst (profile_handler w u))" for u
    by (auto simp: profile_handler_def Let_def split: reply.splits sum.splits)
  moreover have "list_all (own_request w) (fst (verify_pin_handler w b))" "list_all (own_request w) (fst (balance_handler w b))" for b
    by (simp_all add: verify_pin_handler_def balance_handler_def forward_def)
      (simp add: own_request_def bearer_def)
  ultimately show ?thesis by (auto simp: serve_def health_handler_def split: option.splits handler.splits)
qed

section \<open>The menu: facts\<close>

text \<open>The products that the loop takes: those that are there and have an identifier.\<close>

definition taken :: "jsval \<Rightarrow> bool" where
  "taken p \<longleftrightarrow> truthy p \<and> truthy (getProp p ''id'')"

definition consistent_menu :: "(string, jsval) js_map \<times> jsval list \<Rightarrow> bool" where
  "consistent_menu s \<longleftrightarrow>
     distinct (map fst (fst s)) \<and>
     map (\<lambda>e. getProp (snd e) ''categoryId'') (fst s) = map (JStr \<circ> fst) (fst s) \<and>
     map (\<lambda>e. getProp (snd e) ''displayOrder'') (fst s) = map (\<lambda>i. JNum (of_nat (Suc i))) [0..<length (fst s)] \<and>
     list_all (\<lambda>it. list_ex (\<lambda>e. getProp it ''categoryId'' = JStr (fst e)) (fst s)) (snd s)"

lemma consistent_menu_category:
  assumes "consistent_menu (cats, items)" "map_of cats k = None"
  shows "consistent_menu (cats @ [(k, category_entry now storeId k (length cats) c)], items)"
  using assms by (auto simp: consistent_menu_def category_entry_def map_of_eq_None_iff list_all_iff)

lemma consistent_menu_item:
  assumes "consistent_menu (cats, items)" "k \<in> fst ` set cats" "getProp it ''categoryId'' = JStr k"
  shows "consistent_menu (cats, items @ [it])"
  using assms by (auto simp: consistent_menu_def list_ex_iff)

lemma item_entry_category [simp]: "getProp (item_entry sha1 ns rn now storeId k p) ''categoryId'' = JStr k"
  by (simp add: item_entry_def)

lemma menu_loop_inv: "consistent_menu s \<Longrightarrow> consistent_menu (menu_loop sha1 ns rn clock storeId i ps s)"
proof (induction sha1 ns rn clock storeId i ps s rule: menu_loop.induct)
  case (2 sha1 ns rn clock storeId i p ps cats items)
  show ?case
  proof (cases "truthy p \<and> truthy (getProp p ''id'')")
    case True
    let ?k = "category_id sha1 ns (category_of p)"
    let ?cats = "if map_of cats ?k \<noteq> None then cats
      else cats @ [(?k, category_entry (clock i) storeId ?k (length cats) (category_of p))]"
    have "consistent_menu (?cats, items)" using 2(2) consistent_menu_category by simp
    moreover have "?k \<in> fst ` set ?cats" by (auto simp: map_of_eq_None_iff)
    ultimately have "consistent_menu (?cats, items @ [item_entry sha1 ns rn (clock i) storeId ?k p])"
      by (rule consistent_menu_item) simp
    with 2(1) True show ?thesis by (simp add: Let_def)
  next
    case False
    with 2 show ?thesis by (auto simp: Let_def)
  qed
qed simp

lemma menu_loop_items:
  "map (\<lambda>it. getProp it ''itemId'') (snd (menu_loop sha1 ns rn clock storeId i ps s)) =
   map (\<lambda>it. getProp it ''itemId'') (snd s) @ map (JStr \<circ> item_id sha1 ns) (filter taken ps)"
  by (induction sha1 ns rn clock storeId i ps s rule: menu_loop.induct)
    (auto simp: Let_def taken_def item_entry_def)

text \<open>
  C16. The menu that the loop makes: the categories have distinct identifiers and the places 1, 2, and so on; every item belongs to one
  of them; and there is one item per product that is taken, in order.
\<close>

theorem menu_is_consistent:
  "consistent_menu (menu_loop sha1 ns rn clock storeId 0 ps ([], [])) \<and>
   map (\<lambda>it. getProp it ''itemId'') (snd (menu_loop sha1 ns rn clock storeId 0 ps ([], []))) =
     map (JStr \<circ> item_id sha1 ns) (filter taken ps)"
  by (simp add: menu_loop_items menu_loop_inv consistent_menu_def [of "([], [])"])

text \<open>Two decimals after a point.\<close>

definition price_text :: "nat \<Rightarrow> string" where
  "price_text n = nat_digits (n div 100) @ ''.'' @ [char_of (48 + n mod 100 div 10), char_of (48 + n mod 10)]"

lemma digit_char: "k < 10 \<Longrightarrow> is_digit (char_of (48 + k :: nat))"
  by (simp add: is_digit_def less_eq_char_def)

lemma takeWhile_digits: "list_all is_digit ds \<Longrightarrow> \<not> is_digit c \<Longrightarrow> takeWhile is_digit (ds @ c # r) = ds"
  by (induction ds) auto

lemma digit_not_mark: "is_digit c \<Longrightarrow> c \<notin> set ''+-.'' \<and> \<not> is_space c"
  by (auto simp: is_digit_def is_space_def less_eq_char_def)

lemma decimal_prefix_price: "decimal_prefix (price_text n) = price_text n"
proof -
  let ?w = "nat_digits (n div 100)" and ?f = "[char_of (48 + n mod 100 div 10), char_of (48 + n mod 10)]"
  obtain c cs where w: "?w = c # cs" "is_digit c" using nat_digits_reads [of "n div 100"] by (cases ?w) auto
  have "is_digit (char_of (48 + n mod 100 div 10))" "is_digit (char_of (48 + n mod 10))"
    by (simp_all add: digit_char less_mult_imp_div_less)
  moreover have "takeWhile is_digit (?w @ CHR ''.'' # ?f) = ?w"
    by (rule takeWhile_digits) (use nat_digits_reads in \<open>simp_all add: is_digit_def\<close>)
  moreover have "c \<notin> set ''+-''" using digit_not_mark [OF w(2)] by auto
  ultimately show ?thesis
    using w(1) by (simp add: decimal_prefix_def price_text_def exponent_prefix_def Let_def)
qed

text \<open>
  C28. A price with two decimals is read back to the cent, when its text denotes a double within half a unit of the last place, below
  \<open>2^50\<close> cents.
\<close>

theorem menu_price_exact:
  assumes "\<bar>rn (price_text n) - of_nat n / 100\<bar> \<le> of_nat n / 100 / 2 ^ 53" "n < 2 ^ 50"
  shows "price_cents ns rn (JStr (price_text n)) = JNum (of_nat n)"
proof -
  obtain c cs where "nat_digits (n div 100) = c # cs" "is_digit c"
    using nat_digits_reads [of "n div 100"] by (cases "nat_digits (n div 100)") auto
  then have "dropWhile is_space (price_text n) = price_text n" "price_text n \<noteq> []"
    using digit_not_mark by (simp_all add: price_text_def)
  then have "parseFloat rn (price_text n) = Some (rn (price_text n))"
    by (simp add: parseFloat_def decimal_prefix_price)
  moreover have "round_half_up (fl_times (rn (price_text n)) 100) = int n"
    by (rule price_cents_exact) (use assms in simp_all)
  ultimately show ?thesis by (simp add: price_cents_def)
qed

text \<open>
  The identifiers of the menu are not those that the shared schemas accept, and neither is its default store.
\<close>

theorem menu_refused_by_schemas:
  assumes zd: "zod_documented timestamp accepts" and sha: "digest_documented sha1"
  shows "\<not> accepts ItemSchema (item_entry sha1 ns rn now storeId catId p) \<and>
    \<not> accepts CategorySchema (category_entry now storeId (category_id sha1 ns c) k c) \<and>
    \<not> accepts MenuResponseSchema (menu_body default_store s)"
proof -
  have uuid: "accepts UuidSchema v \<longleftrightarrow> (\<exists>t. v = JStr t \<and> regex_test UUID_V7_REGEX t)" for v
    by (simp add: UuidSchema_def zod_simps(1) [OF zd])
  have "(''itemId'', UuidSchema) \<in> set (shape_of ItemSchema)" "(''categoryId'', UuidSchema) \<in> set (shape_of CategorySchema)"
    "(''storeId'', UuidSchema) \<in> set (shape_of MenuResponseSchema)"
    by (simp_all add: ItemSchema_def CategorySchema_def MenuResponseSchema_def)
  note fields = this [THEN accepts_property [OF zd, rotated]]
  have "\<not> regex_test UUID_V7_REGEX ''andino-school-9''" by code_simp
  then show ?thesis
    using fields(1) [of "item_entry sha1 ns rn now storeId catId p"] uuidV5_not_v7 [OF sha]
      fields(2) [of "category_entry now storeId (category_id sha1 ns c) k c"] fields(3) [of "menu_body default_store s"]
    by (auto simp: uuid item_entry_def category_entry_def menu_body_def default_store_def item_id_def category_id_def
        split: if_splits)
qed

text \<open>
  A category without an identifier takes the key of the uncategorized, but brings its own name: the next one without is merged
  into it, under that name.
\<close>

theorem categories_without_id_merge:
  assumes "truthy i" "truthy j" "n \<noteq> []"
  shows "map (\<lambda>e. getProp (snd e) ''name'')
      (fst (menu_loop sha1 ns rn clock storeId 0
        [JObj [(''id'', i), (''category'', JObj [(''name'', JStr n)])], JObj [(''id'', j), (''category'', JObj [(''name'', JStr m)])]]
        ([], []))) = [JStr n]"
  using assms by (simp add: category_of_def or_value_def category_id_def category_entry_def category_name_def Let_def)

section \<open>Instances\<close>

text \<open>Andino with two pages of one product each, and an empty cache.\<close>

definition sample_product :: "string \<Rightarrow> jsval" where
  "sample_product i = JObj [(''id'', JStr i), (''name'', JStr ''Empanada''), (''price'', JStr ''2.50'')]"

definition sample_page :: "string \<Rightarrow> (string \<times> jsval) list" where
  "sample_page i = [(''last_page'', JNum 2), (''data'', JArr [sample_product i])]"

definition sample_outside :: outside where
  "sample_outside =
     \<lparr>cfg = load_settings (\<lambda>_. None),
      answer = (\<lambda>q. Reply 200 (Inr (JObj (if last (url q) = CHR ''1'' then sample_page ''7'' else sample_page ''8'')))),
      redisGet = (\<lambda>_. Some None), settlesAt = id, numText = (\<lambda>_. ''0''), textNum = (\<lambda>_. 0)\<rparr>"

lemma sample_simps:
  "cacheGet sample_outside k = JNull"
  "answer sample_outside (page_request sample_outside 1) = Reply 200 (Inr (JObj (sample_page ''7'')))"
  "answer sample_outside (page_request sample_outside 2) = Reply 200 (Inr (JObj (sample_page ''8'')))"
proof -
  have "nat_digits 1 = ''1''" "nat_digits 2 = ''2''" by code_simp+
  then show "cacheGet sample_outside k = JNull"
    "answer sample_outside (page_request sample_outside 1) = Reply 200 (Inr (JObj (sample_page ''7'')))"
    "answer sample_outside (page_request sample_outside 2) = Reply 200 (Inr (JObj (sample_page ''8'')))"
    by (simp_all add: sample_outside_def cacheGet_def page_request_def andino_get_def)
qed

definition sample_products :: jsval where
  "sample_products = JArr [sample_product ''7'', sample_product ''8'']"

lemma sample_fetch: "snd (fetch_pages sample_outside) = Inr sample_products"
proof -
  have rest: "list_all (\<lambda>p. answer sample_outside (page_request sample_outside p) = Reply 200 (Inr (JObj (sample_page ''8'')))) [2..<Suc 2]"
    by (simp add: sample_simps(3))
  show ?thesis
    using fetch_pages_all [OF sample_simps(2) _ _ _ _ rest]
    by (simp add: ok_def sample_page_def or_value_def page_contents_def sample_products_def)
qed

theorem products_of_all_pages_witness:
  "snd (products_handler sample_outside) =
     ([cacheSet sample_outside (products_key sample_outside) sample_products], miss sample_products)"
proof -
  have pages: "[2..<Suc 2] = [2::nat]" "{2..2} = {2::nat}" by auto
  have "page_reply sample_outside 2 = Inr [sample_product ''8'']"
    by (simp add: page_reply_def sample_simps(3) read_prop_def page_contents_def sample_page_def or_value_def)
  then show ?thesis
    using products_of_all_pages [of sample_outside "[]" 200 "Inl []" "JObj (sample_page ''7'')" 2 "[sample_product ''7'']"]
      sample_simps(2)
    by (simp add: sample_simps(1) pages ok_def sample_page_def or_value_def sample_products_def Let_def del: upt_Suc)
qed

definition cached_outside :: outside where
  "cached_outside = sample_outside\<lparr>redisGet := (\<lambda>_. Some (Some (stringify (numText sample_outside) sample_products)))\<rparr>"

theorem miss_then_hit_witness:
  "products_handler cached_outside = ([], [], hit sample_products)"
proof -
  obtain sent where "fetch_pages sample_outside = (sent, Inr sample_products)"
    using sample_fetch by (metis prod.collapse)
  then have "products_handler sample_outside =
      (sent, [cacheSet sample_outside (products_key sample_outside) sample_products], miss sample_products)"
    by (simp add: products_handler_def sample_simps(1))
  moreover have "json_plain (textNum sample_outside) (numText sample_outside) sample_products"
    by (simp add: sample_products_def sample_product_def)
  ultimately show ?thesis
    by (intro miss_then_hit [OF _ refl]) (auto simp: cacheSet_def cached_outside_def)
qed

definition zero_digest :: "string \<Rightarrow> nat list" where
  "zero_digest t = replicate 20 0"

lemma zero_digest_documented: "digest_documented zero_digest"
  by (simp add: digest_documented_def zero_digest_def list_all_iff)

theorem uuidV5_shape_witness: "regex_test uuid_v5_pattern (uuidV5 zero_digest ''andino-item-7'')"
  by (rule uuidV5_shape [OF zero_digest_documented])

theorem menu_price_exact_witness:
  "price_cents (\<lambda>_. ''0'') (\<lambda>_. 1999 / 100) (JStr ''19.99'') = JNum 1999"
proof -
  have "price_text 1999 = ''19.99''" by code_simp
  then show ?thesis using menu_price_exact [of "\<lambda>_. 1999 / 100" 1999 "\<lambda>_. ''0''"] by simp
qed

theorem menu_refused_by_schemas_witness:
  "\<not> accepts_zod MenuResponseSchema (menu_body default_store ([], []))"
  using menu_refused_by_schemas [OF accepts_zod_documented zero_digest_documented, where s = "([], [])"] by blast

end
