(* ===== verification/AndinoSync.thy ===== *)
theory AndinoSync
  imports AndinoProxy
begin

text \<open>
  The script that turns Andino's products into SQL for the service's database, \<open>packages/andino-kiosk/proxy/sync-andino-to-db.js\<close>,
  against what a reader of that SQL takes from it.
\<close>

section \<open>Fetching\<close>

text \<open>
  \<open>fetchAll\<close>: page after page, without a look at any status; the constants and the reply to a request are those of the proxy.
\<close>

definition data_of :: "outside \<Rightarrow> nat \<Rightarrow> string + jsval" where
  "data_of w p =
     (case answer w (page_request w p) of
        Rejected m \<Rightarrow> Inl m
      | Reply st body \<Rightarrow> body)"

fun fetch_rest :: "outside \<Rightarrow> nat list \<Rightarrow> jsval \<Rightarrow> string + jsval" where
  "fetch_rest w [] all = Inr all"
| "fetch_rest w (p # ps) all =
     (case data_of w p of
        Inl m \<Rightarrow> Inl m
      | Inr d \<Rightarrow>
          (case read_prop d ''data'' of
             Inl m \<Rightarrow> Inl m
           | Inr v \<Rightarrow>
               (case js_concat (numText w) all [or_value v (JArr [])] of
                  Inl m \<Rightarrow> Inl m
                | Inr all' \<Rightarrow> fetch_rest w ps all')))"

definition page_range :: "outside \<Rightarrow> jsval \<Rightarrow> nat list" where
  "page_range w total' =
     (case to_number (numText w) (textNum w) total' of
        None \<Rightarrow> []
      | Some q \<Rightarrow> [2..<Suc (nat \<lfloor>q\<rfloor>)])"

definition fetchAll :: "outside \<Rightarrow> string + jsval" where
  "fetchAll w =
     (case data_of w 1 of
        Inl m \<Rightarrow> Inl m
      | Inr fj \<Rightarrow>
          (case read_prop fj ''last_page'' of
             Inl m \<Rightarrow> Inl m
           | Inr lp \<Rightarrow>
               fetch_rest w (page_range w (or_value lp (JNum 1))) (or_value (getProp fj ''data'') (JArr []))))"

section \<open>The script\<close>

definition quote_char :: char where
  "quote_char = CHR 0x27"

text \<open>\<open>replace(/'/g, "''")\<close>.\<close>

definition escape_quotes :: "string \<Rightarrow> string" where
  "escape_quotes s = concat (map (\<lambda>c. if c = quote_char then [c, c] else [c]) s)"

text \<open>\<open>replace(/\\\//g, "/")\<close>: a backslash before a slash goes.\<close>

fun unescape_slashes :: "string \<Rightarrow> string" where
  "unescape_slashes (c # d # cs) =
     (if c = CHR 0x5C \<and> d = CHR ''/'' then d # unescape_slashes cs else c # unescape_slashes (d # cs))"
| "unescape_slashes s = s"

text \<open>A text between quotes in a template, which are not doubled in it.\<close>

definition in_quotes :: "string \<Rightarrow> string" where
  "in_quotes s = [quote_char] @ s @ [quote_char]"

definition store_id :: string where
  "store_id = ''550e8400-e29b-41d4-a716-446655440000''"

text \<open>\<open>.replace\<close> is a method of texts only.\<close>

definition need_text :: "jsval \<Rightarrow> string \<Rightarrow> string + string" where
  "need_text v name = (case v of JStr s \<Rightarrow> Inr s | _ \<Rightarrow> Inl (name @ ''.replace is not a function''))"

definition cat_name :: "jsval \<Rightarrow> jsval" where
  "cat_name p =
     (let c = getProp p ''category'' in
      or_value (if truthy c then getProp c ''name'' else c) (JStr ''Uncategorized''))"

definition cents_text :: "(rat \<Rightarrow> string) \<Rightarrow> (string \<Rightarrow> rat) \<Rightarrow> jsval \<Rightarrow> string" where
  "cents_text ns rn price =
     (case parseFloat rn (to_text ns (or_value price (JStr ''0''))) of
        None \<Rightarrow> ''NaN''
      | Some x \<Rightarrow> ns (of_int (round_half_up (fl_times x 100))))"

definition commas :: "string list \<Rightarrow> string" where
  "commas = join_with '',''"

text \<open>One line of the \<open>VALUES\<close> of \<open>items\<close>.\<close>

definition item_line ::
  "(string \<Rightarrow> nat list) \<Rightarrow> (rat \<Rightarrow> string) \<Rightarrow> (string \<Rightarrow> rat) \<Rightarrow> jsval \<Rightarrow> string + string" where
  "item_line sha1 ns rn p =
     (case need_text (or_value (getProp p ''image'') (JStr [])) ''(p.image || '' of
        Inl m \<Rightarrow> Inl m
      | Inr imageUrl \<Rightarrow>
        (case need_text (getProp p ''name'') ''p.name'' of
           Inl m \<Rightarrow> Inl m
         | Inr name \<Rightarrow>
           (case need_text (or_value (getProp p ''description'') (JStr [])) ''(p.description || '' of
              Inl m \<Rightarrow> Inl m
            | Inr desc \<Rightarrow>
                Inr (''('' @ commas
                  [in_quotes (item_id sha1 ns p), in_quotes store_id,
                   in_quotes (uuidV5 sha1 (''andino-cat-'' @ to_text ns (cat_name p))),
                   in_quotes (escape_quotes name), in_quotes (escape_quotes desc),
                   cents_text ns rn (getProp p ''price''), in_quotes (unescape_slashes imageUrl)] @ '')''))))"

text \<open>
  The object \<open>catIds\<close>: its keys in the order of \<open>Object.entries\<close>, numbers first and ascending. Assigning a text to \<open>__proto__\<close> does
  nothing.
\<close>

definition array_index :: "string \<Rightarrow> bool" where
  "array_index k \<longleftrightarrow>
     k \<noteq> [] \<and> list_all is_digit k \<and> (k = ''0'' \<or> hd k \<noteq> CHR ''0'') \<and> digits_value 10 k < 2 ^ 32 - 1"

definition set_property :: "string \<Rightarrow> string \<Rightarrow> (string, string) js_map \<Rightarrow> (string, string) js_map" where
  "set_property k v m = (if k = ''__proto__'' then m else AList.update k v m)"

definition object_entries :: "(string, string) js_map \<Rightarrow> (string, string) js_map" where
  "object_entries m =
     sort_key (\<lambda>e. digits_value 10 (fst e)) (filter (\<lambda>e. array_index (fst e)) m) @ filter (\<lambda>e. \<not> array_index (fst e)) m"

fun generate_loop ::
  "(string \<Rightarrow> nat list) \<Rightarrow> (rat \<Rightarrow> string) \<Rightarrow> (string \<Rightarrow> rat) \<Rightarrow> jsval list \<Rightarrow> (string, string) js_map \<times> string list \<Rightarrow>
   string + (string, string) js_map \<times> string list" where
  "generate_loop sha1 ns rn [] s = Inr s"
| "generate_loop sha1 ns rn (p # ps) (catIds, lines) =
     (if \<not> truthy p \<or> \<not> truthy (getProp p ''id'') \<or> \<not> truthy (getProp p ''name'') then
        generate_loop sha1 ns rn ps (catIds, lines)
      else
        let catName = to_text ns (cat_name p);
            catIds' = set_property catName (uuidV5 sha1 (''andino-cat-'' @ catName)) catIds
        in (case item_line sha1 ns rn p of
              Inl m \<Rightarrow> Inl m
            | Inr l \<Rightarrow> generate_loop sha1 ns rn ps (catIds', lines @ [l])))"

definition category_line :: "nat \<Rightarrow> string \<times> string \<Rightarrow> string" where
  "category_line i e =
     ''('' @ commas [in_quotes (snd e), in_quotes store_id, ''NULL'', in_quotes (escape_quotes (fst e)), in_quotes [],
       nat_digits (i + 1)] @ '')''"

definition newline :: string where
  "newline = [CHR 0x0A]"

text \<open>\<open>lines.map((l) => `'${l.split("'")[3]}'`).join(",")\<close>.\<close>

definition fourth_piece :: "string \<Rightarrow> string" where
  "fourth_piece l = (let ps = split_on quote_char l in if 3 < length ps then ps ! 3 else ''undefined'')"

definition deleted_names :: "string list \<Rightarrow> string" where
  "deleted_names ls = commas (map (\<lambda>l. in_quotes (fourth_piece l)) ls)"

definition sql_text :: "(string, string) js_map \<times> string list \<Rightarrow> string" where
  "sql_text s =
     (let entries = object_entries (fst s);
          cats = map (\<lambda>(i, e). category_line i e) (enumerate 0 entries)
      in newline @ ''DELETE FROM inventory WHERE store_id = '' @ in_quotes store_id @ '';'' @ newline @
         ''DELETE FROM item_modifier_groups WHERE item_id IN (SELECT item_id FROM items WHERE store_id = '' @
         in_quotes store_id @ '' AND name IN ('' @ deleted_names (snd s) @ ''));'' @ newline @
         ''DELETE FROM items WHERE store_id = '' @ in_quotes store_id @ '' AND item_id LIKE '' @ in_quotes ''%-%'' @ '';'' @
         newline @ newline @
         ''INSERT INTO categories (category_id, store_id, parent_id, name, description, display_order) VALUES'' @ newline @
         join_with ('','' @ newline) cats @ newline @
         ''ON CONFLICT (category_id) DO UPDATE SET name = EXCLUDED.name, description = EXCLUDED.description;'' @
         newline @ newline @
         ''INSERT INTO items (item_id, store_id, category_id, name, description, price_cents, image_url) VALUES'' @ newline @
         join_with ('','' @ newline) (snd s) @ newline @
         ''ON CONFLICT (item_id) DO UPDATE SET name = EXCLUDED.name, price_cents = EXCLUDED.price_cents, image_url = EXCLUDED.image_url;'' @
         newline @ newline @
         ''INSERT INTO inventory (store_id, item_id, quantity_available, reorder_point, reorder_quantity)'' @ newline @
         ''SELECT '' @ in_quotes store_id @ '', item_id, 100, 10, 50 FROM items WHERE store_id = '' @ in_quotes store_id @ newline @
         ''ON CONFLICT (store_id, item_id) DO UPDATE SET quantity_available = 100;'' @ newline)"

definition generateSQL ::
  "(string \<Rightarrow> nat list) \<Rightarrow> (rat \<Rightarrow> string) \<Rightarrow> (string \<Rightarrow> rat) \<Rightarrow> jsval \<Rightarrow> string + string" where
  "generateSQL sha1 ns rn products =
     (case iterate products of
        Inl m \<Rightarrow> Inl m
      | Inr ps \<Rightarrow> map_sum id sql_text (generate_loop sha1 ns rn ps ([], [])))"

text \<open>\<open>main\<close>: the text that is written to the file, or the error it exits with.\<close>

definition main :: "(string \<Rightarrow> nat list) \<Rightarrow> outside \<Rightarrow> string + string" where
  "main sha1 w = (case fetchAll w of Inl m \<Rightarrow> Inl m | Inr products \<Rightarrow> generateSQL sha1 (numText w) (textNum w) products)"

section \<open>Fetching: facts\<close>

lemma map_sum_Inr: "map_sum f g x = Inr v \<longleftrightarrow> (\<exists>u. x = Inr u \<and> v = g u)"
  by (cases x) auto

lemma page_data_read:
  "page_data w p = Inr v \<Longrightarrow> \<exists>d u. data_of w p = Inr d \<and> read_prop d ''data'' = Inr u \<and> v = or_value u (JArr [])"
  by (auto simp: page_data_def data_of_def map_sum_Inr split: reply.splits sum.splits)

lemma first_rejection_head: "f p = Inl m \<Longrightarrow> first_rejection time f (p # ps) \<noteq> None"
  by (auto split: option.splits)

lemma promise_all_Inr:
  assumes "promise_all time f ps = Inr vs"
  shows "list_all2 (\<lambda>p v. f p = Inr v) ps vs"
proof -
  have none: "first_rejection time f ps = None" using assms by (auto simp: promise_all_def split: option.splits prod.splits)
  have "list_all2 (\<lambda>p v. f p = Inr v) ps (fulfilled (map f ps))" if "first_rejection time f ps = None"
    using that
  proof (induction ps)
    case (Cons p ps)
    from Cons.prems obtain v where "f p = Inr v" by (cases "f p") (auto split: option.splits if_splits)
    with Cons show ?case by simp
  qed simp
  with none assms show ?thesis by (simp add: promise_all_def)
qed

lemma js_concat_steps:
  assumes "js_concat ns all (v # vs) = Inr r"
  shows "\<exists>all'. js_concat ns all [v] = Inr all' \<and> js_concat ns all' vs = Inr r"
  using assms by (cases all) (auto simp: js_concat_def)

lemma js_concat_Nil: "js_concat ns all [] = Inr r \<Longrightarrow> r = all"
  by (auto simp: js_concat_def split: jsval.splits)

lemma fetch_rest_concat:
  assumes "list_all2 (\<lambda>p v. page_data w p = Inr v) ps vs" "js_concat (numText w) all vs = Inr r"
  shows "fetch_rest w ps all = Inr r"
  using assms
proof (induction ps vs arbitrary: all rule: list_all2_induct)
  case Nil
  then show ?case using js_concat_Nil by fastforce
next
  case (Cons p ps v vs)
  from js_concat_steps [OF Cons.prems] obtain all'
    where "js_concat (numText w) all [v] = Inr all'" "js_concat (numText w) all' vs = Inr r" by blast
  moreover from page_data_read [OF Cons.hyps(1)] obtain d u
    where "data_of w p = Inr d" "read_prop d ''data'' = Inr u" "v = or_value u (JArr [])" by blast
  ultimately show ?case using Cons.IH by simp
qed

lemma more_pages_range: "more_pages w v = Some ps \<Longrightarrow> page_range w v = ps"
  by (auto simp: more_pages_def page_range_def split: option.splits if_splits)

lemma no_more_pages:
  assumes "more_pages w v = None"
  shows "page_range w v = []"
proof (cases "to_number (numText w) (textNum w) v")
  case (Some q)
  with assms have "q \<le> 1" by (simp add: more_pages_def split: if_splits)
  then have "\<lfloor>q\<rfloor> < 2" by (simp add: floor_less_iff)
  then have "nat \<lfloor>q\<rfloor> < 2" by linarith
  with Some show ?thesis by (simp add: page_range_def)
qed (simp add: page_range_def)

text \<open>
  What the proxy fetches from the pages together, the script fetches one after another.
\<close>

theorem fetchAll_agrees_with_proxy:
  assumes "snd (fetch_pages w) = Inr v"
  shows "fetchAll w = Inr v"
proof (cases "answer w (page_request w 1)")
  case (Rejected m)
  with assms show ?thesis by (simp add: fetch_pages_def)
next
  case (Reply st body)
  with assms obtain j where j: "body = Inr j" by (auto simp: fetch_pages_def split: if_splits sum.splits)
  with Reply assms obtain lp where lp: "read_prop j ''last_page'' = Inr lp"
    by (auto simp: fetch_pages_def split: if_splits sum.splits)
  have first: "data_of w 1 = Inr j" using Reply j by (simp add: data_of_def)
  let ?all = "or_value (getProp j ''data'') (JArr [])" and ?total = "or_value lp (JNum 1)"
  have "fetch_rest w (page_range w ?total) ?all = Inr v"
  proof (cases "more_pages w ?total")
    case None
    with Reply j lp assms show ?thesis by (simp add: fetch_pages_def no_more_pages split: if_splits)
  next
    case (Some ps)
    with Reply j lp assms obtain vs
      where "promise_all (settlesAt w) (page_data w) ps = Inr vs" "js_concat (numText w) ?all vs = Inr v"
      by (auto simp: fetch_pages_def split: if_splits sum.splits)
    with promise_all_Inr fetch_rest_concat more_pages_range [OF Some] show ?thesis by metis
  qed
  with first lp show ?thesis by (simp add: fetchAll_def)
qed

text \<open>
  The status that the proxy looks at the script does not: a refused token leaves no products, and the script that is written
  deletes the store's inventory and items and then has nothing to insert.
\<close>

theorem refused_token_clears_store:
  assumes "answer w (page_request w 1) = Reply 401 (Inr (JObj [(''message'', JStr m)]))"
  shows "main sha1 w = Inr (sql_text ([], [])) \<and> snd (fetch_pages w) = Inl ''Andino API: 401'' \<and>
    take (Suc (length (''DELETE FROM inventory WHERE store_id = '' @ in_quotes store_id))) (sql_text ([], [])) =
      newline @ ''DELETE FROM inventory WHERE store_id = '' @ in_quotes store_id"
proof (intro conjI)
  have "data_of w 1 = Inr (JObj [(''message'', JStr m)])" using assms by (simp add: data_of_def)
  moreover have "page_range w (JNum 1) = []" by (simp add: page_range_def)
  ultimately have "fetchAll w = Inr (JArr [])" by (simp add: fetchAll_def read_prop_def or_value_def)
  then show "main sha1 w = Inr (sql_text ([], []))" by (simp add: main_def generateSQL_def iterate_def)
  have "nat_digits 401 = ''401''" by code_simp
  with assms show "snd (fetch_pages w) = Inl ''Andino API: 401''" by (simp add: fetch_pages_def ok_def)
  show "take (Suc (length (''DELETE FROM inventory WHERE store_id = '' @ in_quotes store_id))) (sql_text ([], [])) =
      newline @ ''DELETE FROM inventory WHERE store_id = '' @ in_quotes store_id"
    by (simp add: sql_text_def newline_def in_quotes_def store_id_def Let_def)
qed

section \<open>Literals and tuples: facts\<close>

text \<open>A reader of SQL after the opening quote of a literal: two quotes are one, one quote ends it.\<close>

fun read_literal :: "string \<Rightarrow> (string \<times> string) option" where
  "read_literal [] = None"
| "read_literal (c # cs) =
     (if c \<noteq> quote_char then map_option (map_prod (Cons c) id) (read_literal cs)
      else case cs of
        d # ds \<Rightarrow> if d = quote_char then map_option (map_prod (Cons c) id) (read_literal ds) else Some ([], cs)
      | [] \<Rightarrow> Some ([], []))"

definition no_quote_next :: "string \<Rightarrow> bool" where
  "no_quote_next r \<longleftrightarrow> (case r of [] \<Rightarrow> True | c # _ \<Rightarrow> c \<noteq> quote_char)"

lemma escape_quotes_simps [simp]:
  "escape_quotes [] = []"
  "escape_quotes (c # cs) = (if c = quote_char then [c, c] else [c]) @ escape_quotes cs"
  by (simp_all add: escape_quotes_def)

lemma read_escaped: "no_quote_next r \<Longrightarrow> read_literal (escape_quotes s @ quote_char # r) = Some (s, r)"
  by (induction s) (auto simp: no_quote_next_def split: list.splits)

lemma escape_quotes_id: "quote_char \<notin> set s \<Longrightarrow> escape_quotes s = s"
  by (induction s) auto

lemma read_quoted: "no_quote_next r \<Longrightarrow> quote_char \<notin> set s \<Longrightarrow> read_literal (s @ quote_char # r) = Some (s, r)"
  using read_escaped [of r s] by (simp add: escape_quotes_id)

text \<open>A field is a literal or a bare word; a tuple is read up to its closing parenthesis, and the rest is returned.\<close>

datatype field = Literal string | Bare string

definition ends_word :: "char \<Rightarrow> bool" where
  "ends_word c \<longleftrightarrow> c = CHR '','' \<or> c = CHR '')''"

definition read_field :: "string \<Rightarrow> (field \<times> string) option" where
  "read_field s =
     (case s of
        c # cs \<Rightarrow>
          if c = quote_char then map_option (map_prod Literal id) (read_literal cs)
          else Some (Bare (takeWhile (\<lambda>c. \<not> ends_word c) s), dropWhile (\<lambda>c. \<not> ends_word c) s)
      | [] \<Rightarrow> None)"

fun read_fields :: "nat \<Rightarrow> string \<Rightarrow> (field list \<times> string) option" where
  "read_fields 0 s = None"
| "read_fields (Suc n) s =
     (case read_field s of
        Some (f, c # r) \<Rightarrow>
          if c = CHR '','' then map_option (map_prod (Cons f) id) (read_fields n r)
          else if c = CHR '')'' then Some ([f], r) else None
      | _ \<Rightarrow> None)"

definition read_tuple :: "string \<Rightarrow> (field list \<times> string) option" where
  "read_tuple s = (case s of c # cs \<Rightarrow> if c = CHR ''('' then read_fields (length s) cs else None | [] \<Rightarrow> None)"

lemma marks_no_quote [simp]: "no_quote_next (CHR '','' # r)" "no_quote_next (CHR '')'' # r)"
  by (simp_all add: no_quote_next_def quote_char_def)

lemma read_field_literal:
  assumes "no_quote_next r"
  shows "read_field (in_quotes (escape_quotes s) @ r) = Some (Literal s, r)"
  using read_escaped [OF assms, of s] by (simp add: read_field_def in_quotes_def)

lemma read_field_plain:
  assumes "no_quote_next r" "quote_char \<notin> set s"
  shows "read_field (in_quotes s @ r) = Some (Literal s, r)"
  using read_field_literal [OF assms(1), of s] by (simp add: escape_quotes_id [OF assms(2)])

lemma read_field_bare:
  assumes "s \<noteq> []" "list_all (\<lambda>c. \<not> ends_word c \<and> c \<noteq> quote_char) s" "ends_word m"
  shows "read_field (s @ m # r) = Some (Bare s, m # r)"
proof -
  have "takeWhile (\<lambda>c. \<not> ends_word c) (s @ m # r) = s" "dropWhile (\<lambda>c. \<not> ends_word c) (s @ m # r) = m # r"
    using assms(2,3) by (induction s) auto
  with assms(1,2) show ?thesis by (cases s) (auto simp: read_field_def)
qed

lemma read_fields_step:
  "read_field s = Some (f, CHR '','' # r) \<Longrightarrow> read_fields (Suc n) s = map_option (map_prod (Cons f) id) (read_fields n r)"
  "read_field s = Some (f, CHR '')'' # r) \<Longrightarrow> read_fields (Suc n) s = Some ([f], r)"
  by simp_all

text \<open>Identifiers have no quotes, and neither has what is left of a text without them.\<close>

lemma pattern_no_quote:
  assumes "regex_test re s" "list_all (\<lambda>p. \<not> p quote_char) re"
  shows "quote_char \<notin> set s"
  using assms unfolding regex_test_def by (induction re s rule: list_all2_induct) auto

lemma uuidV5_no_quote: "digest_documented sha1 \<Longrightarrow> quote_char \<notin> set (uuidV5 sha1 name)"
  by (rule pattern_no_quote [OF uuidV5_shape])
    (simp_all add: uuid_v5_pattern_def replicates is_lower_hex_def is_digit_def is_dash_def quote_char_def less_eq_char_def)

lemma unescape_slashes_subset: "set (unescape_slashes s) \<subseteq> set s"
  by (induction s rule: unescape_slashes.induct) auto

lemma store_id_no_quote: "quote_char \<notin> set store_id"
  by (simp add: store_id_def quote_char_def)

definition plain_word :: "string \<Rightarrow> bool" where
  "plain_word s \<longleftrightarrow> s \<noteq> [] \<and> list_all (\<lambda>c. \<not> ends_word c \<and> c \<noteq> quote_char) s"

lemma cents_text_plain:
  assumes "\<forall>i. plain_word (ns (of_int i))"
  shows "plain_word (cents_text ns rn v)"
  using assms by (auto simp: cents_text_def plain_word_def ends_word_def quote_char_def split: option.splits)

text \<open>The first six fields of a line are read back, and the reader goes on with the address of the image.\<close>

lemma item_line_rest:
  assumes sha: "digest_documented sha1" and ns: "\<forall>i. plain_word (ns (of_int i))"
    and texts: "or_value (getProp p ''image'') (JStr []) = JStr pic" "getProp p ''name'' = JStr name"
      "or_value (getProp p ''description'') (JStr []) = JStr desc"
    and l: "item_line sha1 ns rn p = Inr l"
  obtains k where "read_tuple (l @ r) = map_option (map_prod (\<lambda>fs.
    [Literal (item_id sha1 ns p), Literal store_id, Literal (uuidV5 sha1 (''andino-cat-'' @ to_text ns (cat_name p))),
      Literal name, Literal desc, Bare (cents_text ns rn (getProp p ''price''))] @ fs) id)
    (read_fields (Suc k) (in_quotes (unescape_slashes pic) @ CHR '')'' # r))"
proof -
  let ?i = "in_quotes (item_id sha1 ns p)" and ?s = "in_quotes store_id"
    and ?c = "in_quotes (uuidV5 sha1 (''andino-cat-'' @ to_text ns (cat_name p)))"
    and ?n = "in_quotes (escape_quotes name)" and ?d = "in_quotes (escape_quotes desc)"
    and ?b = "cents_text ns rn (getProp p ''price'')" and ?p = "in_quotes (unescape_slashes pic)"
  have l': "l @ r = CHR ''('' # ?i @ CHR '','' # ?s @ CHR '','' # ?c @ CHR '','' # ?n @ CHR '','' # ?d @ CHR '','' #
      ?b @ CHR '','' # ?p @ CHR '')'' # r"
    using l texts by (simp add: item_line_def need_text_def commas_def)
  obtain k where k: "length (l @ r) = Suc (Suc (Suc (Suc (Suc (Suc (Suc k))))))"
    using that [of "length (l @ r) - 7"] by (simp add: l' in_quotes_def)
  have b: "plain_word ?b" by (rule cents_text_plain [OF ns])
  note fields = read_field_plain [OF marks_no_quote(1) uuidV5_no_quote [OF sha]] read_field_literal [OF marks_no_quote(1)]
    read_field_plain [OF marks_no_quote(1) store_id_no_quote]
    read_field_bare [OF b [unfolded plain_word_def, THEN conjunct1] b [unfolded plain_word_def, THEN conjunct2], of "CHR '',''"]
  have "read_tuple (l @ r) = map_option (map_prod (\<lambda>fs.
    [Literal (item_id sha1 ns p), Literal store_id, Literal (uuidV5 sha1 (''andino-cat-'' @ to_text ns (cat_name p))),
      Literal name, Literal desc, Bare ?b] @ fs) id) (read_fields (Suc k) (?p @ CHR '')'' # r))"
    unfolding read_tuple_def k unfolding l'
    by (cases "read_fields (Suc k) (?p @ CHR '')'' # r)")
      (auto simp: read_fields_step fields item_id_def ends_word_def simp del: read_fields.simps)
  then show thesis by (rule that)
qed

lemma item_line_fields:
  assumes "digest_documented sha1" and "\<forall>i. plain_word (ns (of_int i))"
    and "or_value (getProp p ''image'') (JStr []) = JStr pic" "getProp p ''name'' = JStr name"
      "or_value (getProp p ''description'') (JStr []) = JStr desc"
    and "item_line sha1 ns rn p = Inr l"
    and last: "read_field (in_quotes (unescape_slashes pic) @ CHR '')'' # r) = Some (Literal x, CHR '')'' # y)"
  shows "read_tuple (l @ r) =
    Some ([Literal (item_id sha1 ns p), Literal store_id, Literal (uuidV5 sha1 (''andino-cat-'' @ to_text ns (cat_name p))),
      Literal name, Literal desc, Bare (cents_text ns rn (getProp p ''price'')), Literal x], y)"
  using item_line_rest [OF assms(1-6), of r] read_fields_step(2) [OF last] by (metis (no_types, lifting) append_Cons append_Nil map_prod_simp option.simps(9) id_apply)

text \<open>What a literal reads is what its text escapes to; the address of the image stands there as it is.\<close>

lemma read_literal_escaped: "read_literal t = Some (s, r) \<Longrightarrow> t = escape_quotes s @ quote_char # r"
  by (induction t arbitrary: s r rule: read_literal.induct) (auto split: if_splits list.splits)

lemma length_escape_quotes: "quote_char \<in> set s \<Longrightarrow> length s < length (escape_quotes s)"
proof (induction s)
  case (Cons c s)
  have "length s \<le> length (escape_quotes s)" by (induction s) auto
  with Cons show ?case by auto
qed simp

lemma read_fields_one:
  assumes "read_fields (Suc k) (in_quotes u @ CHR '')'' # r) = Some ([Literal u], r)"
  shows "quote_char \<notin> set u"
proof -
  have nonempty: "read_fields n t \<noteq> Some ([], r')" for n t r' by (cases n) (auto split: option.splits list.splits if_splits)
  from assms have "read_literal (u @ quote_char # CHR '')'' # r) = Some (u, CHR '')'' # r)"
    using nonempty by (auto simp: read_field_def in_quotes_def split: option.splits list.splits if_splits)
  from read_literal_escaped [OF this] have "escape_quotes u = u" by simp
  then show ?thesis using length_escape_quotes [of u] by auto
qed

lemma unescape_keeps_quotes: "quote_char \<in> set (unescape_slashes s) \<longleftrightarrow> quote_char \<in> set s"
  by (induction s rule: unescape_slashes.induct) (auto simp: quote_char_def)

text \<open>
  C27. The line of a product that has one (its name is a text, its image and description are texts or missing), followed by
  anything, reads back as the tuple it was made of, quotes in name and description included, with the rest left over, exactly
  when the address of the image has no quote: that address, alone of the three texts, is not escaped. The texts of whole
  numbers are taken to have neither quote, comma nor closing parenthesis, and the digest twenty bytes.
\<close>

theorem item_line_reads_back:
  assumes "digest_documented sha1" "\<forall>i. plain_word (ns (of_int i))" "item_line sha1 ns rn p = Inr l"
  shows "\<exists>pic name desc. or_value (getProp p ''image'') (JStr []) = JStr pic \<and> getProp p ''name'' = JStr name \<and>
    or_value (getProp p ''description'') (JStr []) = JStr desc \<and>
    (read_tuple (l @ r) =
      Some ([Literal (item_id sha1 ns p), Literal store_id, Literal (uuidV5 sha1 (''andino-cat-'' @ to_text ns (cat_name p))),
        Literal name, Literal desc, Bare (cents_text ns rn (getProp p ''price'')), Literal (unescape_slashes pic)], r)
     \<longleftrightarrow> quote_char \<notin> set pic)"
proof -
  from assms(3) obtain pic name desc where texts: "or_value (getProp p ''image'') (JStr []) = JStr pic"
      "getProp p ''name'' = JStr name" "or_value (getProp p ''description'') (JStr []) = JStr desc"
    by (auto simp: item_line_def need_text_def split: sum.splits jsval.splits)
  obtain k where read: "read_tuple (l @ r) = map_option (map_prod (\<lambda>fs.
    [Literal (item_id sha1 ns p), Literal store_id, Literal (uuidV5 sha1 (''andino-cat-'' @ to_text ns (cat_name p))),
      Literal name, Literal desc, Bare (cents_text ns rn (getProp p ''price''))] @ fs) id)
    (read_fields (Suc k) (in_quotes (unescape_slashes pic) @ CHR '')'' # r))"
    by (rule item_line_rest [OF assms(1,2) texts assms(3)])
  have "read_fields (Suc k) (in_quotes (unescape_slashes pic) @ CHR '')'' # r) = Some ([Literal (unescape_slashes pic)], r)
      \<longleftrightarrow> quote_char \<notin> set pic"
    using read_fields_one [of k "unescape_slashes pic" r] unescape_keeps_quotes [of pic]
      read_fields_step(2) [OF read_field_plain [OF marks_no_quote(2), of "unescape_slashes pic" r]] by auto
  then show ?thesis
    by (intro exI [of _ pic] exI [of _ name] exI [of _ desc] conjI texts)
      (auto simp: read map_option_case simp del: read_fields.simps split: option.splits)
qed

text \<open>
  The address of the image is not escaped. With a quote in it the tuple ends where the address says, and the rest of the
  address is left to the reader as SQL.
\<close>

theorem image_escapes_its_literal:
  assumes "digest_documented sha1" "\<forall>i. plain_word (ns (of_int i))"
    and "or_value (getProp p ''image'') (JStr []) = JStr pic" "unescape_slashes pic = x @ quote_char # CHR '')'' # sql"
    and "quote_char \<notin> set x" "getProp p ''name'' = JStr name"
    and "or_value (getProp p ''description'') (JStr []) = JStr desc" "item_line sha1 ns rn p = Inr l"
  shows "read_tuple l =
    Some ([Literal (item_id sha1 ns p), Literal store_id, Literal (uuidV5 sha1 (''andino-cat-'' @ to_text ns (cat_name p))),
      Literal name, Literal desc, Bare (cents_text ns rn (getProp p ''price'')), Literal x], sql @ quote_char # '')'')"
proof -
  have "read_field (in_quotes (unescape_slashes pic) @ CHR '')'' # []) = Some (Literal x, CHR '')'' # sql @ quote_char # '')'')"
    using read_field_plain [of "CHR '')'' # sql @ quote_char # '')''" x] assms(5) by (simp add: assms(4) in_quotes_def)
  from item_line_fields [OF assms(1-3,6-8) this] show ?thesis by simp
qed

section \<open>The loop: facts\<close>

lemma split_on_quoted:
  assumes "quote_char \<notin> set s"
  shows "split_on quote_char (s @ quote_char # r) = s # split_on quote_char r"
  using assms by (induction s) (auto split: list.splits)

lemma item_line_pieces:
  assumes sha: "digest_documented sha1" and l: "item_line sha1 ns rn p = Inr l"
  shows "fourth_piece l = store_id"
proof -
  from l obtain pic name desc
    where "l = ''('' @ commas [in_quotes (item_id sha1 ns p), in_quotes store_id,
      in_quotes (uuidV5 sha1 (''andino-cat-'' @ to_text ns (cat_name p))), in_quotes (escape_quotes name),
      in_quotes (escape_quotes desc), cents_text ns rn (getProp p ''price''), in_quotes (unescape_slashes pic)] @ '')''"
    by (auto simp: item_line_def split: sum.splits)
  then obtain r where l': "l = ''('' @ quote_char # item_id sha1 ns p @ quote_char # '','' @ quote_char # store_id @ quote_char # r"
    by (simp add: commas_def in_quotes_def)
  have plain: "quote_char \<notin> set ''(''" "quote_char \<notin> set '',''" by (simp_all add: quote_char_def)
  have "split_on quote_char l = ''('' # item_id sha1 ns p # '','' # store_id # split_on quote_char r"
    unfolding l' using split_on_quoted [OF plain(1)] split_on_quoted [OF plain(2)]
      split_on_quoted [OF uuidV5_no_quote [OF sha]] split_on_quoted [OF store_id_no_quote]
    by (simp add: item_id_def del: split_on.simps)
  then show ?thesis by (simp add: fourth_piece_def)
qed

definition sync_inv :: "(string \<Rightarrow> nat list) \<Rightarrow> (string, string) js_map \<times> string list \<Rightarrow> bool" where
  "sync_inv sha1 s \<longleftrightarrow>
     distinct (map fst (fst s)) \<and> list_all (\<lambda>e. snd e = uuidV5 sha1 (''andino-cat-'' @ fst e)) (fst s) \<and>
     list_all (\<lambda>l. fourth_piece l = store_id) (snd s)"

lemma set_property_keys:
  "distinct (map fst m) \<Longrightarrow> distinct (map fst (set_property k v m))"
  by (simp add: set_property_def distinct_update)

lemma set_property_entries: "set (set_property k v m) \<subseteq> insert (k, v) (set m)"
  by (induction m) (auto simp: set_property_def split: if_splits)

lemma sync_inv_step:
  assumes "digest_documented sha1" "item_line sha1 ns rn p = Inr l" "sync_inv sha1 (m, ls)"
  shows "sync_inv sha1 (set_property k (uuidV5 sha1 (''andino-cat-'' @ k)) m, ls @ [l])"
  using assms(3) item_line_pieces [OF assms(1,2)] set_property_entries [of k "uuidV5 sha1 (''andino-cat-'' @ k)" m]
  by (auto simp: sync_inv_def set_property_keys list_all_iff)

lemma generate_loop_inv:
  assumes sha: "digest_documented sha1"
  shows "generate_loop sha1 ns rn ps s = Inr s' \<Longrightarrow> sync_inv sha1 s \<Longrightarrow> sync_inv sha1 s'"
proof (induction ps arbitrary: s)
  case (Cons p ps)
  obtain m ls where s: "s = (m, ls)" by force
  show ?case
  proof (cases "truthy p \<and> truthy (getProp p ''id'') \<and> truthy (getProp p ''name'')")
    case True
    with Cons.prems(1) s obtain l where "item_line sha1 ns rn p = Inr l"
      and "generate_loop sha1 ns rn ps (set_property (to_text ns (cat_name p))
        (uuidV5 sha1 (''andino-cat-'' @ to_text ns (cat_name p))) m, ls @ [l]) = Inr s'"
      by (auto simp: Let_def split: sum.splits)
    with Cons.IH sync_inv_step [OF sha] Cons.prems(2) s show ?thesis by blast
  next
    case False
    then have "generate_loop sha1 ns rn (p # ps) s = generate_loop sha1 ns rn ps s" using s by auto
    with Cons show ?thesis by simp
  qed
qed simp

text \<open>
  The names in the second statement are read off the lines at the wrong place: whatever the products, each is the store's
  identifier, so no modifier group of an item is deleted by its name.
\<close>

theorem deleted_names_are_the_store:
  assumes "digest_documented sha1" "generate_loop sha1 ns rn ps ([], []) = Inr (m, ls)"
  shows "deleted_names ls = commas (replicate (length ls) (in_quotes store_id))"
proof -
  have "sync_inv sha1 (m, ls)" by (rule generate_loop_inv [OF assms]) (simp add: sync_inv_def)
  then have "map (\<lambda>l. in_quotes (fourth_piece l)) ls = replicate (length ls) (in_quotes store_id)"
    by (induction ls) (auto simp: sync_inv_def)
  then show ?thesis by (simp add: deleted_names_def)
qed

lemma object_entries_mset: "mset (object_entries m) = mset m"
proof -
  have "mset (object_entries m) = mset (filter (\<lambda>e. array_index (fst e)) m) + mset (filter (\<lambda>e. \<not> array_index (fst e)) m)"
    by (simp add: object_entries_def)
  also have "\<dots> = mset m" by (metis mset_filter multiset_partition)
  finally show ?thesis .
qed

lemma generate_loop_keeps:
  "generate_loop sha1 ns rn ps (m, ls) = Inr (m', ls') \<Longrightarrow> fst ` set m \<subseteq> fst ` set m'"
proof (induction ps arbitrary: m ls)
  case (Cons p ps)
  let ?step = "\<lambda>l. (set_property (to_text ns (cat_name p)) (uuidV5 sha1 (''andino-cat-'' @ to_text ns (cat_name p))) m, ls @ [l])"
  show ?case
  proof (cases "truthy p \<and> truthy (getProp p ''id'') \<and> truthy (getProp p ''name'')")
    case True
    with Cons.prems obtain l where "generate_loop sha1 ns rn ps (?step l) = Inr (m', ls')"
      by (auto simp: Let_def split: sum.splits)
    from Cons.IH [OF this] show ?thesis by (auto simp: set_property_def dom_update split: if_splits)
  next
    case False
    with Cons show ?thesis by auto
  qed
qed simp

text \<open>The products that the script takes.\<close>

definition synced :: "jsval \<Rightarrow> bool" where
  "synced p \<longleftrightarrow> truthy p \<and> truthy (getProp p ''id'') \<and> truthy (getProp p ''name'')"

lemma generate_loop_covers:
  assumes "generate_loop sha1 ns rn ps (m, ls) = Inr (m', ls')" "p \<in> set ps" "synced p"
    and "to_text ns (cat_name p) \<noteq> ''__proto__''"
  shows "to_text ns (cat_name p) \<in> fst ` set m'"
  using assms(1,2)
proof (induction ps arbitrary: m ls)
  case (Cons q ps)
  let ?k = "to_text ns (cat_name q)"
  show ?case
  proof (cases "synced q")
    case True
    with Cons.prems(1) obtain l
      where rec: "generate_loop sha1 ns rn ps (set_property ?k (uuidV5 sha1 (''andino-cat-'' @ ?k)) m, ls @ [l]) = Inr (m', ls')"
      by (auto simp: synced_def Let_def split: sum.splits)
    show ?thesis
    proof (cases "p = q")
      case True
      then have "?k \<in> fst ` set (set_property ?k (uuidV5 sha1 (''andino-cat-'' @ ?k)) m)"
        using assms(4) by (simp add: set_property_def dom_update)
      with generate_loop_keeps [OF rec] True show ?thesis by blast
    qed (use Cons rec in auto)
  next
    case False
    then have "generate_loop sha1 ns rn (q # ps) (m, ls) = generate_loop sha1 ns rn ps (m, ls)" by (auto simp: synced_def)
    with Cons False assms(3) show ?thesis by auto
  qed
qed simp

text \<open>
  Each category that a line of \<open>items\<close> refers to is inserted, once, with the identifier the line has and the place of its key
  among the keys: unless its name is \<open>__proto__\<close>.
\<close>

theorem synced_categories_inserted:
  assumes "digest_documented sha1" "generate_loop sha1 ns rn ps ([], []) = Inr (m, ls)"
    and "p \<in> set ps" "synced p" "to_text ns (cat_name p) \<noteq> ''__proto__''"
  shows "distinct (map fst (object_entries m)) \<and>
    (to_text ns (cat_name p), uuidV5 sha1 (''andino-cat-'' @ to_text ns (cat_name p))) \<in> set (object_entries m)"
proof -
  have inv: "sync_inv sha1 (m, ls)" by (rule generate_loop_inv [OF assms(1,2)]) (simp add: sync_inv_def)
  have perm: "mset (map fst (object_entries m)) = mset (map fst m)" "set (object_entries m) = set m"
    using object_entries_mset [of m] by (simp_all add: mset_map) (metis set_mset_mset)
  have "distinct (map fst (object_entries m))"
    using inv mset_eq_imp_distinct_iff [OF perm(1)] by (simp add: sync_inv_def)
  moreover have "to_text ns (cat_name p) \<in> fst ` set m" by (rule generate_loop_covers [OF assms(2-5)])
  then have "(to_text ns (cat_name p), uuidV5 sha1 (''andino-cat-'' @ to_text ns (cat_name p))) \<in> set m"
    using inv by (fastforce simp: sync_inv_def list_all_iff)
  ultimately show ?thesis using perm(2) by simp
qed

section \<open>Instances\<close>

theorem fetchAll_agrees_with_proxy_witness: "fetchAll sample_outside = Inr sample_products"
  by (rule fetchAll_agrees_with_proxy [OF sample_fetch])

definition quoted_product :: jsval where
  "quoted_product =
     JObj [(''id'', JStr ''7''), (''name'', JStr (''Chef'' @ quote_char # ''s'')), (''price'', JStr ''2.50''), (''image'', JStr ''a.png'')]"

theorem item_line_reads_back_witness:
  "map_option (\<lambda>x. (nth (fst x) 3, nth (fst x) 6, snd x))
     (read_tuple (case_sum id id (item_line zero_digest (\<lambda>_. ''250'') (\<lambda>_. 5 / 2) quoted_product) @ '','')) =
   Some (Literal (''Chef'' @ quote_char # ''s''), Literal ''a.png'', '','')"
proof -
  obtain l where l: "item_line zero_digest (\<lambda>_. ''250'') (\<lambda>_. 5 / 2) quoted_product = Inr l"
    by (simp add: item_line_def need_text_def quoted_product_def or_value_def)
  have "\<forall>i::int. plain_word ((\<lambda>_. ''250'') (of_int i :: rat))"
    by (simp add: plain_word_def ends_word_def quote_char_def)
  from item_line_reads_back [OF zero_digest_documented this l, of "'',''"] obtain pic name desc
    where "or_value (getProp quoted_product ''image'') (JStr []) = JStr pic" "getProp quoted_product ''name'' = JStr name"
      and read: "quote_char \<notin> set pic \<Longrightarrow> \<exists>i s c d b. read_tuple (l @ '','') =
        Some ([i, s, c, Literal name, d, b, Literal (unescape_slashes pic)], '','')"
    by blast
  then have "pic = ''a.png''" "name = ''Chef'' @ quote_char # ''s''" by (simp_all add: quoted_product_def or_value_def)
  moreover have "unescape_slashes ''a.png'' = ''a.png''" "quote_char \<notin> set ''a.png''" by code_simp+
  ultimately show ?thesis using read unfolding l by auto
qed

end
