(* ===== verification/Environment.thy ===== *)
theory Environment
  imports SchemaAgreement
begin

text \<open>
  The environment of kiosk and services, \<open>packages/shared-types/src/env.ts\<close>: its schema, the objects it is merged from, and
  what parsing makes of it. The parser of zod is a parameter with its documented behaviour as a hypothesis.
\<close>

section \<open>Schema and sources\<close>

definition envSchema :: zod where
  "envSchema = ZObject
      [(''NODE_ENV'', ZDefault (ZEnum [''development'', ''production'', ''test'']) (JStr ''development'')),
       (''ASTRA_ENVIRONMENT'', ZDefault (ZString [Min 1]) (JStr ''development'')),
       (''ASTRA_SERVICE_NAME'', ZDefault (ZString [Min 1]) (JStr ''astra-service'')),
       (''ASTRA_API_URL'', ZDefault (ZUrl []) (JStr ''http://localhost:3000'')),
       (''ASTRA_WEBSOCKET_URL'', ZDefault (ZUrl []) (JStr ''ws://localhost:3001'')),
       (''ASTRA_OTLP_ENDPOINT'', ZOptional (ZUrl [])),
       (''ASTRA_KIOSK_ID'', ZOptional ZUuid),
       (''ASTRA_STORE_ID'', ZOptional ZUuid),
       (''ASTRA_LANE_ID'', ZOptional ZUuid),
       (''ASTRA_TENANT_ID'', ZOptional ZUuid),
       (''ASTRA_OFFLINE_TOKEN_TTL_HOURS'', ZDefault (ZCoerceNumber [IntCheck, Min 1, Max 72]) (JNum 48)),
       (''ASTRA_CURRENCY'', ZDefault (ZString [Length 3]) (JStr ''USD'')),
       (''ASTRA_TRACE_SAMPLE_RATIO'', ZDefault (ZCoerceNumber [Min 0, Max 1]) (JNum 1))]"

text \<open>\<open>None\<close> is a runtime without \<open>window\<close>.\<close>

definition readBrowserEnv :: "jsval option \<Rightarrow> jsval" where
  "readBrowserEnv win = (case win of None \<Rightarrow> JUndefined | Some v \<Rightarrow> getProp v ''__ENV__'')"

text \<open>The operator \<open>in\<close>, for own properties of an object.\<close>

fun has_property :: "jsval \<Rightarrow> string \<Rightarrow> bool" where
  "has_property (JObj ps) k = (k \<in> fst ` set ps)"
| "has_property _ k = False"

definition readNodeEnv :: "jsval \<Rightarrow> jsval" where
  "readNodeEnv process =
     (if \<not> typeof_object process \<or> process = JNull \<or> \<not> has_property process ''env'' then JObj []
      else getProp process ''env'')"

text \<open>What \<open>...\<close> copies into an object.\<close>

fun own_entries :: "jsval \<Rightarrow> (string \<times> jsval) list" where
  "own_entries (JObj ps) = ps"
| "own_entries (JArr xs) = map (\<lambda>(i, x). (nat_digits i, x)) (enumerate 0 xs)"
| "own_entries (JStr s) = map (\<lambda>(i, c). (nat_digits i, JStr [c])) (enumerate 0 s)"
| "own_entries _ = []"

definition spread_into :: "(string \<times> jsval) list \<Rightarrow> jsval \<Rightarrow> (string \<times> jsval) list" where
  "spread_into m v = foldl (\<lambda>o' p. AList.update (fst p) (snd p) o') m (own_entries v)"

definition merged_env :: "jsval \<Rightarrow> jsval option \<Rightarrow> jsval \<Rightarrow> jsval" where
  "merged_env process win raw =
     JObj (spread_into (spread_into (spread_into [] (readNodeEnv process)) (readBrowserEnv win)) raw)"

definition parseEnv :: "(zod \<Rightarrow> jsval \<Rightarrow> string + jsval) \<Rightarrow> jsval \<Rightarrow> jsval option \<Rightarrow> jsval \<Rightarrow> string + jsval" where
  "parseEnv parse process win raw = parse envSchema (merged_env process win raw)"

text \<open>The module's \<open>env\<close>.\<close>

definition env :: "(zod \<Rightarrow> jsval \<Rightarrow> string + jsval) \<Rightarrow> jsval \<Rightarrow> jsval option \<Rightarrow> string + jsval" where
  "env parse process win = parseEnv parse process win (JObj [])"

section \<open>What parsing is documented to do\<close>

text \<open>The identifiers of \<open>z.uuid()\<close> have any of the versions 1 to 8 of the standard.\<close>

definition rfc_uuid :: "string \<Rightarrow> bool" where
  "rfc_uuid s \<longleftrightarrow> uuid_text s \<and> s ! 14 \<in> set ''12345678'' \<and> s ! 19 \<in> set ''89abAB''"

definition parse_documented :: "(jsval \<Rightarrow> rat option) \<Rightarrow> (zod \<Rightarrow> jsval \<Rightarrow> string + jsval) \<Rightarrow> bool" where
  "parse_documented number parse \<longleftrightarrow>
     (\<forall>z d v. parse (ZDefault z d) v = (if v = JUndefined then Inr d else parse z v)) \<and>
     (\<forall>z v. parse (ZOptional z) v = (if v = JUndefined then Inr JUndefined else parse z v)) \<and>
     (\<forall>vs s. s \<in> set vs \<longrightarrow> parse (ZEnum vs) (JStr s) = Inr (JStr s)) \<and>
     (\<forall>s. rfc_uuid s \<longrightarrow> parse ZUuid (JStr s) = Inr (JStr s)) \<and>
     (\<forall>cs v r. parse (ZCoerceNumber cs) v = Inr r \<longrightarrow>
        (\<exists>q. number v = Some q \<and> r = JNum q \<and> list_all (number_check q) cs)) \<and>
     (\<forall>ps v. distinct (map fst ps) \<longrightarrow>
        (case v of
           JObj _ \<Rightarrow>
             if list_ex (\<lambda>p. isl (parse (snd p) (getProp v (fst p)))) ps then isl (parse (ZObject ps) v)
             else (case parse (ZObject ps) v of
                     Inl _ \<Rightarrow> False
                   | Inr r \<Rightarrow> list_all (\<lambda>p. parse (snd p) (getProp v (fst p)) = Inr (getProp r (fst p))) ps)
         | _ \<Rightarrow> isl (parse (ZObject ps) v)))"

text \<open>A parser with the documented behaviour, so that the hypothesis can be met.\<close>

fun plain_number :: "jsval \<Rightarrow> rat option" where
  "plain_number (JNum q) = Some q"
| "plain_number _ = None"

fun plain_parse :: "zod \<Rightarrow> jsval \<Rightarrow> string + jsval" where
  "plain_parse (ZDefault z d) v = (if v = JUndefined then Inr d else plain_parse z v)"
| "plain_parse (ZOptional z) v = (if v = JUndefined then Inr JUndefined else plain_parse z v)"
| "plain_parse ZUuid v = (case v of JStr s \<Rightarrow> if rfc_uuid s then Inr v else Inl ''Invalid UUID'' | _ \<Rightarrow> Inl ''Invalid UUID'')"
| "plain_parse (ZCoerceNumber cs) v =
     (case plain_number v of
        Some q \<Rightarrow> if list_all (number_check q) cs then Inr (JNum q) else Inl ''Invalid number''
      | None \<Rightarrow> Inl ''Invalid number'')"
| "plain_parse (ZObject ps) v =
     (case v of
        JObj _ \<Rightarrow>
          (let fields = map (\<lambda>p. (fst p, plain_parse (snd p) (getProp v (fst p)))) ps in
           if list_ex (isl \<circ> snd) fields then Inl ''Invalid object''
           else Inr (JObj (map (\<lambda>(k, r). (k, projr r)) fields)))
      | _ \<Rightarrow> Inl ''Expected object'')"
| "plain_parse z v = (if accepts_zod z v then Inr v else Inl ''Invalid input'')"

lemma getProp_fields:
  "distinct (map fst ps) \<Longrightarrow> p \<in> set ps \<Longrightarrow> getProp (JObj (map (\<lambda>p. (fst p, f p)) ps)) (fst p) = f p"
  by (induction ps) (force split: option.splits)+

lemma plain_parse_documented: "parse_documented plain_number plain_parse"
  unfolding parse_documented_def
proof (intro conjI allI impI)
  fix ps :: "(string \<times> zod) list" and v assume d: "distinct (map fst ps)"
  show "case v of
      JObj _ \<Rightarrow>
        if list_ex (\<lambda>p. isl (plain_parse (snd p) (getProp v (fst p)))) ps then isl (plain_parse (ZObject ps) v)
        else (case plain_parse (ZObject ps) v of
                Inl _ \<Rightarrow> False
              | Inr r \<Rightarrow> list_all (\<lambda>p. plain_parse (snd p) (getProp v (fst p)) = Inr (getProp r (fst p))) ps)
    | _ \<Rightarrow> isl (plain_parse (ZObject ps) v)"
    by (cases v) (auto simp: list_all_iff list_ex_iff Let_def comp_def getProp_fields [OF d] simp del: getProp.simps)
qed (auto split: option.splits if_splits)

lemma parse_rules:
  assumes "parse_documented number parse"
  shows "parse (ZDefault z d) v = (if v = JUndefined then Inr d else parse z v)"
    "parse (ZOptional z) v = (if v = JUndefined then Inr JUndefined else parse z v)"
    "s \<in> set vs \<Longrightarrow> parse (ZEnum vs) (JStr s) = Inr (JStr s)"
    "rfc_uuid s \<Longrightarrow> parse ZUuid (JStr s) = Inr (JStr s)"
    "parse (ZCoerceNumber cs) v = Inr r \<Longrightarrow> \<exists>q. number v = Some q \<and> r = JNum q \<and> list_all (number_check q) cs"
  using assms by (simp_all add: parse_documented_def)

lemma object_law:
  assumes "parse_documented number parse" "distinct (map fst ps)"
  shows "if list_ex (\<lambda>p. isl (parse (snd p) (getProp (JObj m) (fst p)))) ps then isl (parse (ZObject ps) (JObj m))
    else (case parse (ZObject ps) (JObj m) of
       Inl _ \<Rightarrow> False
     | Inr r \<Rightarrow> list_all (\<lambda>p. parse (snd p) (getProp (JObj m) (fst p)) = Inr (getProp r (fst p))) ps)"
  using assms unfolding parse_documented_def by (elim conjE) (erule allE [of _ ps], erule allE [of _ "JObj m"], simp)

lemma parse_object:
  assumes "parse_documented number parse" "distinct (map fst ps)" "parse (ZObject ps) (JObj m) = Inr r" "p \<in> set ps"
  shows "parse (snd p) (getProp (JObj m) (fst p)) = Inr (getProp r (fst p))"
  using object_law [OF assms(1,2), of m] assms(3,4) by (simp add: list_all_iff split: if_splits)

lemma parse_object_succeeds:
  assumes "parse_documented number parse" "distinct (map fst ps)"
    "list_all (\<lambda>p. \<not> isl (parse (snd p) (getProp (JObj m) (fst p)))) ps"
  obtains r where "parse (ZObject ps) (JObj m) = Inr r"
  using object_law [OF assms(1,2), of m] assms(3) that by (auto simp: list_ex_iff list_all_iff split: sum.splits)

text \<open>The fields of the schema.\<close>

fun object_fields :: "zod \<Rightarrow> (string \<times> zod) list" where
  "object_fields (ZObject ps) = ps"
| "object_fields _ = []"

lemma envSchema_object: "envSchema = ZObject (object_fields envSchema)" "distinct (map fst (object_fields envSchema))"
  by (simp_all add: envSchema_def)

lemma env_object: "\<exists>m. merged_env process win raw = JObj m"
  by (simp add: merged_env_def)

lemma parsed_field:
  assumes "parse_documented number parse" "parseEnv parse process win raw = Inr e" "map_of (object_fields envSchema) k = Some z"
  shows "parse z (getProp (merged_env process win raw) k) = Inr (getProp e k)"
proof -
  obtain m where m: "merged_env process win raw = JObj m" using env_object by blast
  have "parse (ZObject (object_fields envSchema)) (JObj m) = Inr e"
    using assms(2) by (simp add: parseEnv_def m flip: envSchema_object(1))
  from parse_object [OF assms(1) envSchema_object(2) this map_of_SomeD [OF assms(3)]] show ?thesis by (simp add: m)
qed

section \<open>Precedence and values\<close>

lemma map_of_updates:
  "map_of (foldl (\<lambda>o' p. AList.update (fst p) (snd p) o') m ps) = map_of m ++ map_of (rev ps)"
  by (induction ps rule: rev_induct) (auto simp: update_conv' map_add_def fun_eq_iff split: option.splits)

lemma map_of_rev: "distinct (map fst ps) \<Longrightarrow> map_of (rev ps) = map_of ps"
  by (subst map_of_inject_set) (simp_all flip: rev_map)

text \<open>
  A variable comes from the argument, else from \<open>window.__ENV__\<close>, else from \<open>process.env\<close>.
\<close>

theorem env_precedence:
  assumes "distinct (map fst ps)" "distinct (map fst bs)" "distinct (map fst ns)"
  shows "getProp (merged_env (JObj [(''env'', JObj ns)]) (Some (JObj [(''__ENV__'', JObj bs)])) (JObj ps)) k =
    (case map_of ps k of Some v \<Rightarrow> v | None \<Rightarrow>
      (case map_of bs k of Some v \<Rightarrow> v | None \<Rightarrow>
        (case map_of ns k of Some v \<Rightarrow> v | None \<Rightarrow> JUndefined)))"
  using assms by (simp add: merged_env_def spread_into_def readNodeEnv_def readBrowserEnv_def map_of_updates map_of_rev
      map_add_def split: option.splits)

text \<open>The lifetime of offline tokens that the environment allows is a whole number of hours, at most three days.\<close>

theorem offline_token_ttl_bounded:
  assumes "parse_documented number parse" "parseEnv parse process win raw = Inr e"
  shows "\<exists>h::nat. getProp e ''ASTRA_OFFLINE_TOKEN_TTL_HOURS'' = JNum (of_nat h) \<and> 1 \<le> h \<and> h \<le> 72"
proof -
  define v where "v = getProp (merged_env process win raw) ''ASTRA_OFFLINE_TOKEN_TTL_HOURS''"
  have parsed: "parse (ZDefault (ZCoerceNumber [IntCheck, Min 1, Max 72]) (JNum 48)) v =
      Inr (getProp e ''ASTRA_OFFLINE_TOKEN_TTL_HOURS'')"
    unfolding v_def by (rule parsed_field [OF assms]) (simp add: envSchema_def)
  show ?thesis
  proof (cases "v = JUndefined")
    case True
    with parsed show ?thesis by (intro exI [of _ 48]) (simp add: parse_rules(1) [OF assms(1)])
  next
    case False
    with parsed obtain q where q: "getProp e ''ASTRA_OFFLINE_TOKEN_TTL_HOURS'' = JNum q" "safe_integer q" "1 \<le> q" "q \<le> 72"
      by (auto simp: parse_rules(1) [OF assms(1)] dest: parse_rules(5) [OF assms(1)])
    from q(2) obtain i where i: "q = of_int i" by (auto simp: safe_integer_def elim!: Ints_cases)
    with q show ?thesis by (intro exI [of _ "nat i"]) (auto simp: of_nat_nat)
  qed
qed

text \<open>The share of traces is between nothing and everything.\<close>

theorem sample_ratio_bounded:
  assumes "parse_documented number parse" "parseEnv parse process win raw = Inr e"
  shows "\<exists>q. getProp e ''ASTRA_TRACE_SAMPLE_RATIO'' = JNum q \<and> 0 \<le> q \<and> q \<le> 1"
proof -
  have "parse (ZDefault (ZCoerceNumber [Min 0, Max 1]) (JNum 1))
      (getProp (merged_env process win raw) ''ASTRA_TRACE_SAMPLE_RATIO'') = Inr (getProp e ''ASTRA_TRACE_SAMPLE_RATIO'')"
    by (rule parsed_field [OF assms]) (simp add: envSchema_def)
  then have "JNum 1 = getProp e ''ASTRA_TRACE_SAMPLE_RATIO'' \<or>
      (\<exists>v. parse (ZCoerceNumber [Min 0, Max 1]) v = Inr (getProp e ''ASTRA_TRACE_SAMPLE_RATIO''))"
    unfolding parse_rules(1) [OF assms(1)] by (metis sum.inject(2))
  then show ?thesis
  proof (elim disjE exE)
    assume "JNum 1 = getProp e ''ASTRA_TRACE_SAMPLE_RATIO''"
    then show ?thesis by (intro exI [of _ 1]) simp
  next
    fix v assume "parse (ZCoerceNumber [Min 0, Max 1]) v = Inr (getProp e ''ASTRA_TRACE_SAMPLE_RATIO'')"
    from parse_rules(5) [OF assms(1) this] show ?thesis by auto
  qed
qed

section \<open>Defaults\<close>

lemma env_default:
  assumes "parse_documented number parse" "parseEnv parse process win raw = Inr e"
    "map_of (object_fields envSchema) k = Some (ZDefault z d)" "getProp (merged_env process win raw) k = JUndefined"
  shows "getProp e k = d"
  using parsed_field [OF assms(1-3)] assms(4) by (simp add: parse_rules(1) [OF assms(1)])

text \<open>
  The comments call both addresses required in production and promise a sample ratio of a tenth there; the schema is the
  same in every environment, so a production kiosk with nothing else set starts, talks to its own port 3000 and samples
  every trace.
\<close>

theorem production_needs_nothing:
  assumes "parse_documented number parse"
  shows "\<exists>e. env parse (JObj [(''env'', JObj [(''NODE_ENV'', JStr ''production'')])]) None = Inr e \<and>
    getProp e ''NODE_ENV'' = JStr ''production'' \<and>
    getProp e ''ASTRA_API_URL'' = JStr ''http://localhost:3000'' \<and>
    getProp e ''ASTRA_WEBSOCKET_URL'' = JStr ''ws://localhost:3001'' \<and>
    getProp e ''ASTRA_KIOSK_ID'' = JUndefined \<and>
    getProp e ''ASTRA_TRACE_SAMPLE_RATIO'' = JNum 1"
proof -
  let ?process = "JObj [(''env'', JObj [(''NODE_ENV'', JStr ''production'')])]"
  have merged: "merged_env ?process None (JObj []) = JObj [(''NODE_ENV'', JStr ''production'')]"
    by (simp add: merged_env_def spread_into_def readNodeEnv_def readBrowserEnv_def)
  have "list_all (\<lambda>p. \<not> isl (parse (snd p) (getProp (JObj [(''NODE_ENV'', JStr ''production'')]) (fst p)))) (object_fields envSchema)"
    by (simp add: envSchema_def parse_rules [OF assms])
  from parse_object_succeeds [OF assms envSchema_object(2) this]
  obtain e where "parse (ZObject (object_fields envSchema)) (JObj [(''NODE_ENV'', JStr ''production'')]) = Inr e" .
  then have e: "parseEnv parse ?process None (JObj []) = Inr e"
    by (simp add: parseEnv_def merged flip: envSchema_object(1))
  note field = parsed_field [OF assms e, unfolded merged]
  have "map_of (object_fields envSchema) ''NODE_ENV'' =
        Some (ZDefault (ZEnum [''development'', ''production'', ''test'']) (JStr ''development''))"
    "map_of (object_fields envSchema) ''ASTRA_API_URL'' = Some (ZDefault (ZUrl []) (JStr ''http://localhost:3000''))"
    "map_of (object_fields envSchema) ''ASTRA_WEBSOCKET_URL'' = Some (ZDefault (ZUrl []) (JStr ''ws://localhost:3001''))"
    "map_of (object_fields envSchema) ''ASTRA_KIOSK_ID'' = Some (ZOptional ZUuid)"
    "map_of (object_fields envSchema) ''ASTRA_TRACE_SAMPLE_RATIO'' = Some (ZDefault (ZCoerceNumber [Min 0, Max 1]) (JNum 1))"
    by (simp_all add: envSchema_def)
  from this [THEN field] e show ?thesis by (simp add: env_def parse_rules [OF assms])
qed

text \<open>An identifier of the kiosk of any version is taken, not of version 7 only.\<close>

theorem kiosk_id_of_any_version:
  assumes "parse_documented number parse"
  shows "parse ZUuid (JStr ''3f2504e0-4f89-41d3-9a0c-0305e82c3301'') = Inr (JStr ''3f2504e0-4f89-41d3-9a0c-0305e82c3301'') \<and>
    \<not> regex_test UUID_V7_REGEX ''3f2504e0-4f89-41d3-9a0c-0305e82c3301''"
proof
  have "rfc_uuid ''3f2504e0-4f89-41d3-9a0c-0305e82c3301''" by code_simp
  then show "parse ZUuid (JStr ''3f2504e0-4f89-41d3-9a0c-0305e82c3301'') = Inr (JStr ''3f2504e0-4f89-41d3-9a0c-0305e82c3301'')"
    by (rule parse_rules(4) [OF assms])
  show "\<not> regex_test UUID_V7_REGEX ''3f2504e0-4f89-41d3-9a0c-0305e82c3301''" by code_simp
qed

text \<open>The hypothesis of these theorems can be met.\<close>

corollary plain_production:
  "\<exists>e. env plain_parse (JObj [(''env'', JObj [(''NODE_ENV'', JStr ''production'')])]) None = Inr e \<and>
     getProp e ''ASTRA_TRACE_SAMPLE_RATIO'' = JNum 1"
  using production_needs_nothing [OF plain_parse_documented] by blast

end
