(* ===== verification/AdminQueries.thy ===== *)
theory AdminQueries
  imports DomainTypes JsValues
begin

text \<open>
  The documents of the admin console, \<open>apps/kiosk-admin/src/graphql/queries.ts\<close>, the types their answers are read with,
  \<open>graphql/types.ts\<close>, and the agreement of the two: what a document requests, what an answer to it contains, and which fields a
  type promises that its document does not request.
\<close>

section \<open>Documents\<close>

text \<open>A field has its arguments, each with the variable it takes, and its own selection; a spread names a fragment.\<close>

datatype selection =
    Field string "(string \<times> string) list" "selection list"
  | FragmentSpread string

datatype gql_definition =
    Fragment (fragmentName: string) (onType: string) (fragmentFields: "selection list")
  | QueryDef (queryName: string) (variableDefs: "(string \<times> string \<times> nat) list") (queryFields: "selection list")

text \<open>A template that embeds a document has its definitions.\<close>

type_synonym document = "gql_definition list"

abbreviation leaf :: "string \<Rightarrow> selection" where
  "leaf k \<equiv> Field k [] []"

abbreviation node :: "string \<Rightarrow> selection list \<Rightarrow> selection" where
  "node k fs \<equiv> Field k [] fs"

definition CORE_LOCATION_FIELDS :: document where
  "CORE_LOCATION_FIELDS =
     [Fragment ''CoreLocationFields'' ''Location''
        [leaf ''locationId'', leaf ''tenantId'', leaf ''slug'', leaf ''name'', leaf ''address'', leaf ''timezone'',
         leaf ''currency'', leaf ''taxRate'', leaf ''createdAt'', leaf ''updatedAt'', leaf ''deletedAt'']]"

definition CORE_LANE_FIELDS :: document where
  "CORE_LANE_FIELDS =
     [Fragment ''CoreLaneFields'' ''Lane''
        [leaf ''laneId'', leaf ''locationId'', leaf ''displayName'', leaf ''laneNumber'', leaf ''isActive'',
         leaf ''createdAt'', leaf ''updatedAt'', leaf ''deletedAt'']]"

definition DASHBOARD_KPIS :: document where
  "DASHBOARD_KPIS =
     [QueryDef ''DashboardKpis'' []
        [node ''dashboardKpis''
           [leaf ''totalRevenueCents'', leaf ''orderCount'', leaf ''activeKiosks'', leaf ''alerts'', leaf ''revenueTrend'',
            leaf ''orderTrend'']]]"

definition LIST_LOCATIONS :: document where
  "LIST_LOCATIONS =
     CORE_LOCATION_FIELDS @ CORE_LANE_FIELDS @
     [QueryDef ''ListLocations'' []
        [node ''locations''
           [node ''items'' [FragmentSpread ''CoreLocationFields'', node ''lanes'' [FragmentSpread ''CoreLaneFields'']],
            leaf ''totalCount'']]]"

definition LIST_LANES :: document where
  "LIST_LANES =
     CORE_LANE_FIELDS @
     [QueryDef ''ListLanes'' []
        [node ''lanes'' [node ''items'' [FragmentSpread ''CoreLaneFields''], leaf ''totalCount'']]]"

definition LIST_KIOSK_HEALTH :: document where
  "LIST_KIOSK_HEALTH =
     [QueryDef ''ListKioskHealth'' []
        [node ''kiosks''
           [node ''items''
              [leaf ''kioskId'', leaf ''displayName'', leaf ''syncStatus'', leaf ''lastSeenAt'', leaf ''isLeader''],
            leaf ''totalCount'']]]"

definition LIST_MENU :: document where
  "LIST_MENU =
     [QueryDef ''ListMenu'' []
        [node ''menu''
           [node ''categories''
              [leaf ''categoryId'', leaf ''storeId'', leaf ''parentId'', leaf ''name'', leaf ''description'',
               leaf ''displayOrder'', leaf ''imageUrl'', leaf ''isActive'',
               node ''items''
                 [leaf ''itemId'', leaf ''storeId'', leaf ''categoryId'', leaf ''name'', leaf ''description'',
                  leaf ''priceCents'', leaf ''costCents'', leaf ''plu'', leaf ''barcode'', leaf ''sku'', leaf ''imageUrl'',
                  leaf ''taxCategory'', leaf ''isWeightBased'', leaf ''weightUnit'', leaf ''isActive'']],
            node ''modifierGroups''
              [leaf ''modifierGroupId'', leaf ''storeId'', leaf ''name'', leaf ''description'', leaf ''minSelect'',
               leaf ''maxSelect'', leaf ''displayOrder'', leaf ''isActive'',
               node ''options''
                 [leaf ''modifierOptionId'', leaf ''modifierGroupId'', leaf ''name'', leaf ''priceDeltaCents'',
                  leaf ''isDefault'', leaf ''displayOrder'', leaf ''isActive'']]]]]"

definition LIST_INVENTORY :: document where
  "LIST_INVENTORY =
     [QueryDef ''ListInventory'' []
        [node ''inventory''
           [node ''items''
              [leaf ''inventoryId'', leaf ''storeId'', leaf ''itemId'', leaf ''itemName'', leaf ''itemSku'',
               leaf ''quantityAvailable'', leaf ''quantityReserved'', leaf ''quantityOnOrder'', leaf ''reorderPoint'',
               leaf ''reorderQuantity'', leaf ''location'', leaf ''lastCountedAt'', leaf ''updatedAt''],
            leaf ''totalCount'']]]"

definition page_variables :: "nat \<Rightarrow> (string \<times> string \<times> nat) list" where
  "page_variables n = [(''limit'', ''Int'', n), (''offset'', ''Int'', 0)]"

definition page_arguments :: "(string \<times> string) list" where
  "page_arguments = [(''limit'', ''limit''), (''offset'', ''offset'')]"

definition LIST_ORDERS :: document where
  "LIST_ORDERS =
     [QueryDef ''ListOrders'' (page_variables 50)
        [Field ''orders'' page_arguments
           [node ''items''
              [leaf ''orderId'', leaf ''storeId'', leaf ''kioskId'', leaf ''cartId'', leaf ''orderNumber'', leaf ''status'',
               leaf ''subtotalCents'', leaf ''taxCents'', leaf ''discountCents'', leaf ''totalCents'', leaf ''paidAt'',
               leaf ''fulfilledAt'', leaf ''createdAt'', leaf ''kioskDisplayName''],
            leaf ''totalCount'']]]"

definition LIST_PAYMENTS_AND_REFUNDS :: document where
  "LIST_PAYMENTS_AND_REFUNDS =
     [QueryDef ''ListPaymentsAndRefunds'' (page_variables 50)
        [Field ''payments'' page_arguments
           [node ''items''
              [leaf ''paymentId'', leaf ''orderId'', leaf ''kioskId'', leaf ''amountCents'', leaf ''currency'',
               leaf ''method'', leaf ''status'', leaf ''cardBrand'', leaf ''cardLastFour'', leaf ''declineReason'',
               leaf ''createdAt'', leaf ''orderNumber''],
            leaf ''totalCount''],
         Field ''refunds'' page_arguments
           [node ''items''
              [leaf ''refundId'', leaf ''paymentId'', leaf ''orderId'', leaf ''kioskId'', leaf ''amountCents'',
               leaf ''currency'', leaf ''reason'', leaf ''status'', leaf ''processedBy'', leaf ''createdAt'',
               leaf ''paymentAmountCents''],
            leaf ''totalCount'']]]"

definition LIST_EMPLOYEES_AND_ROLES :: document where
  "LIST_EMPLOYEES_AND_ROLES =
     [QueryDef ''ListEmployeesAndRoles'' []
        [node ''employees''
           [node ''items''
              [leaf ''employeeId'', leaf ''storeId'', leaf ''name'', leaf ''email'', leaf ''role'', leaf ''isActive'',
               leaf ''lastLoginAt'', leaf ''createdAt'', leaf ''roleName''],
            leaf ''totalCount''],
         node ''roles''
           [node ''items''
              [leaf ''roleId'', leaf ''tenantId'', leaf ''name'', leaf ''description'', leaf ''isSystem'',
               leaf ''createdAt'', leaf ''updatedAt''],
            leaf ''totalCount'']]]"

definition LIST_AUDIT_LOGS :: document where
  "LIST_AUDIT_LOGS =
     [QueryDef ''ListAuditLogs'' (page_variables 100)
        [Field ''auditLogs'' page_arguments
           [node ''items''
              [leaf ''auditId'', leaf ''storeId'', leaf ''tenantId'', leaf ''laneId'', leaf ''kioskId'', leaf ''employeeId'',
               leaf ''userId'', leaf ''eventType'', leaf ''entityType'', leaf ''entityId'', leaf ''payloadJson'',
               leaf ''previousHash'', leaf ''currentHash'', leaf ''createdAt'', leaf ''actorName''],
            leaf ''totalCount'']]]"

section \<open>The types of the answers\<close>

text \<open>\<open>interface B extends A\<close>.\<close>

fun extends_with :: "ts \<Rightarrow> (string \<times> ts) list \<Rightarrow> ts" where
  "extends_with (TsObject ps) qs = TsObject (ps @ qs)"
| "extends_with t qs = t"

definition DashboardKpis_type :: ts where
  "DashboardKpis_type = TsObject
     [(''totalRevenueCents'', TsNumber), (''orderCount'', TsNumber), (''activeKiosks'', TsNumber), (''alerts'', TsNumber),
      (''revenueTrend'', TsNumber), (''orderTrend'', TsNumber)]"

definition LocationWithLanes_type :: ts where
  "LocationWithLanes_type = extends_with Location_type [(''lanes'', TsArray Lane_type)]"

definition KioskHealth_type :: ts where
  "KioskHealth_type = TsObject
     [(''kioskId'', TsString), (''displayName'', TsString), (''syncStatus'', TsString),
      (''lastSeenAt'', TsUnion [TsString, TsNull]), (''isLeader'', TsBoolean)]"

definition MenuCategory_type :: ts where
  "MenuCategory_type = extends_with Category_type [(''items'', TsArray Item_type)]"

definition MenuModifierGroup_type :: ts where
  "MenuModifierGroup_type = extends_with ModifierGroup_type [(''options'', TsArray ModifierOption_type)]"

definition FullMenu_type :: ts where
  "FullMenu_type = TsObject
     [(''categories'', TsArray MenuCategory_type), (''modifierGroups'', TsArray MenuModifierGroup_type)]"

definition InventoryWithItem_type :: ts where
  "InventoryWithItem_type = extends_with Inventory_type [(''itemName'', TsString), (''itemSku'', TsUnion [TsString, TsNull])]"

definition OrderWithKiosk_type :: ts where
  "OrderWithKiosk_type = extends_with Order_type [(''kioskDisplayName'', TsString)]"

definition PaymentWithOrder_type :: ts where
  "PaymentWithOrder_type = extends_with Payment_type [(''orderNumber'', TsString)]"

definition RefundWithPayment_type :: ts where
  "RefundWithPayment_type = extends_with Refund_type [(''paymentAmountCents'', TsNumber)]"

definition EmployeeWithRole_type :: ts where
  "EmployeeWithRole_type = extends_with Employee_type [(''roleName'', TsString)]"

definition AuditLogWithActor_type :: ts where
  "AuditLogWithActor_type = extends_with AuditLog_type [(''actorName'', TsUnion [TsString, TsNull])]"

definition AdminListResponse_type :: "ts \<Rightarrow> ts" where
  "AdminListResponse_type t = TsObject [(''items'', TsArray t), (''totalCount'', TsNumber)]"

text \<open>The type argument that each page gives \<open>useQuery\<close>, beside the document.\<close>

definition page_queries :: "(string \<times> document \<times> ts) list" where
  "page_queries =
     [(''Dashboard'', DASHBOARD_KPIS, TsObject [(''dashboardKpis'', DashboardKpis_type)]),
      (''Locations'', LIST_LOCATIONS, TsObject [(''locations'', AdminListResponse_type LocationWithLanes_type)]),
      (''Lanes'', LIST_LANES, TsObject [(''lanes'', AdminListResponse_type Lane_type)]),
      (''Kiosks'', LIST_KIOSK_HEALTH, TsObject [(''kiosks'', AdminListResponse_type KioskHealth_type)]),
      (''Menu'', LIST_MENU, TsObject [(''menu'', FullMenu_type)]),
      (''Inventory'', LIST_INVENTORY, TsObject [(''inventory'', AdminListResponse_type InventoryWithItem_type)]),
      (''Orders'', LIST_ORDERS, TsObject [(''orders'', AdminListResponse_type OrderWithKiosk_type)]),
      (''PaymentsRefunds'', LIST_PAYMENTS_AND_REFUNDS,
         TsObject [(''payments'', AdminListResponse_type PaymentWithOrder_type),
                   (''refunds'', AdminListResponse_type RefundWithPayment_type)]),
      (''EmployeesRoles'', LIST_EMPLOYEES_AND_ROLES,
         TsObject [(''employees'', AdminListResponse_type EmployeeWithRole_type),
                   (''roles'', AdminListResponse_type Role_type)]),
      (''AuditLogs'', LIST_AUDIT_LOGS, TsObject [(''auditLogs'', AdminListResponse_type AuditLogWithActor_type)])]"

section \<open>What a document requests\<close>

datatype shape = Leaf | Node "(string \<times> shape) list"

definition fragment :: "document \<Rightarrow> string \<Rightarrow> selection list option" where
  "fragment d f = map_of (concat (map (\<lambda>x. case x of Fragment n _ fs \<Rightarrow> [(n, fs)] | QueryDef _ _ _ \<Rightarrow> []) d)) f"

text \<open>
  The selection with its fragments expanded. A chain of fragments is no longer than the document, which bounds the
  expansion.
\<close>

fun requested :: "nat \<Rightarrow> document \<Rightarrow> selection list \<Rightarrow> (string \<times> shape) list" where
  "requested n d [] = []"
| "requested n d (Field k as fs # ss) = (k, if fs = [] then Leaf else Node (requested n d fs)) # requested n d ss"
| "requested 0 d (FragmentSpread f # ss) = requested 0 d ss"
| "requested (Suc n) d (FragmentSpread f # ss) =
     (case fragment d f of None \<Rightarrow> [] | Some fs \<Rightarrow> requested n d fs) @ requested (Suc n) d ss"

definition operations :: "document \<Rightarrow> gql_definition list" where
  "operations d = filter (\<lambda>x. case x of QueryDef _ _ _ \<Rightarrow> True | Fragment _ _ _ \<Rightarrow> False) d"

definition document_shape :: "document \<Rightarrow> shape" where
  "document_shape d = Node (requested (length d) d (concat (map queryFields (operations d))))"

section \<open>Validity\<close>

fun spreads :: "selection list \<Rightarrow> string list" where
  "spreads [] = []"
| "spreads (Field _ _ fs # ss) = spreads fs @ spreads ss"
| "spreads (FragmentSpread f # ss) = f # spreads ss"

fun used_variables :: "selection list \<Rightarrow> string list" where
  "used_variables [] = []"
| "used_variables (Field _ as fs # ss) = map snd as @ used_variables fs @ used_variables ss"
| "used_variables (FragmentSpread _ # ss) = used_variables ss"

fun distinct_fields :: "shape \<Rightarrow> bool" where
  "distinct_fields Leaf = True"
| "distinct_fields (Node fs) = (distinct (map fst fs) \<and> list_all (\<lambda>p. distinct_fields (snd p)) fs)"

fun fragment_names :: "document \<Rightarrow> string list" where
  "fragment_names [] = []"
| "fragment_names (Fragment n _ _ # ds) = n # fragment_names ds"
| "fragment_names (QueryDef _ _ _ # ds) = fragment_names ds"

text \<open>
  The rules for documents that do not need the server's schema: one operation, fragments with names of their own, each of
  them defined where it is spread and spread where it is defined, without spreads of their own, variables declared and used,
  and no field twice.
\<close>

definition document_valid :: "document \<Rightarrow> bool" where
  "document_valid d \<longleftrightarrow>
     (case operations d of
        [QueryDef n vs fs] \<Rightarrow>
          distinct (fragment_names d) \<and> set (fragment_names d) = set (spreads fs) \<and>
          list_all (\<lambda>x. case x of Fragment _ _ gs \<Rightarrow> spreads gs = [] \<and> used_variables gs = [] | _ \<Rightarrow> True) d \<and>
          distinct (map fst vs) \<and> set (map fst vs) = set (used_variables fs) \<and>
          distinct_fields (document_shape d)
      | _ \<Rightarrow> False)"

lemma LIST_MENU_valid: "document_valid LIST_MENU"
  by code_simp

lemma documents_valid: "list_all (\<lambda>(n, d, t). document_valid d) page_queries"
  by code_simp

section \<open>Answers\<close>

text \<open>
  The values of a type. An object has the declared properties and, as Apollo adds it to every selection, the name of its
  type.
\<close>

lemma size_declared: "p \<in> set ps \<Longrightarrow> size (snd p) < Suc (size_list (size_prod (\<lambda>_. 0) size) ps)"
  by (induction ps) auto

function conforms :: "ts \<Rightarrow> jsval \<Rightarrow> bool" where
  "conforms TsString v = (case v of JStr _ \<Rightarrow> True | _ \<Rightarrow> False)"
| "conforms TsNumber v = (case v of JNum _ \<Rightarrow> True | _ \<Rightarrow> False)"
| "conforms TsBoolean v = (case v of JBool _ \<Rightarrow> True | _ \<Rightarrow> False)"
| "conforms TsNull v = (v = JNull)"
| "conforms TsUndefined v = (v = JUndefined)"
| "conforms TsUnknown v = True"
| "conforms (TsLit l) v = (v = JStr l)"
| "conforms (TsInstance c) v = (case v of JBytes _ \<Rightarrow> c = ''Uint8Array'' | _ \<Rightarrow> False)"
| "conforms (TsArray t) v = (case v of JArr xs \<Rightarrow> list_all (conforms t) xs | _ \<Rightarrow> False)"
| "conforms (TsRecord t) v = (case v of JObj ps \<Rightarrow> list_all (\<lambda>p. conforms t (snd p)) ps | _ \<Rightarrow> False)"
| "conforms (TsUnion us) v = list_ex (\<lambda>u. conforms u v) us"
| "conforms (TsObject ps) v =
     (case v of
        JObj qs \<Rightarrow>
          list_all (\<lambda>q. fst q \<in> set (map fst ps) \<or> fst q = ''__typename'') qs \<and>
          list_all (\<lambda>p. conforms (snd p) (getProp v (fst p))) ps
      | _ \<Rightarrow> False)"
  by pat_completeness auto
termination
  by (relation "measure (size \<circ> fst)") (auto simp: size_declared less_Suc_eq_le size_list_estimation')

text \<open>The part of a type that is left when a selection decides which fields there are.\<close>

function selected :: "shape \<Rightarrow> ts \<Rightarrow> ts" where
  "selected Leaf t = t"
| "selected (Node fs) (TsArray t) = TsArray (selected (Node fs) t)"
| "selected (Node fs) (TsObject ps) =
     TsObject (map (\<lambda>p. (fst p, case map_of ps (fst p) of None \<Rightarrow> TsUnknown | Some t \<Rightarrow> selected (snd p) t)) fs)"
| "selected (Node fs) TsString = TsString"
| "selected (Node fs) TsNumber = TsNumber"
| "selected (Node fs) TsBoolean = TsBoolean"
| "selected (Node fs) TsNull = TsNull"
| "selected (Node fs) TsUndefined = TsUndefined"
| "selected (Node fs) TsUnknown = TsUnknown"
| "selected (Node fs) (TsLit l) = TsLit l"
| "selected (Node fs) (TsInstance c) = TsInstance c"
| "selected (Node fs) (TsRecord t) = TsRecord t"
| "selected (Node fs) (TsUnion us) = TsUnion (map (selected (Node fs)) us)"
  by pat_completeness auto
termination
  by (relation "measure (size \<circ> snd)")
    (auto simp: less_Suc_eq_le size_list_estimation' dest!: map_of_SomeD size_declared)

text \<open>The fields a type promises and the selection leaves out, and those it selects beyond the type, as paths.\<close>

function left_out :: "shape \<Rightarrow> ts \<Rightarrow> string list list" where
  "left_out Leaf t = []"
| "left_out (Node fs) (TsArray t) = left_out (Node fs) t"
| "left_out (Node fs) (TsUnion us) = concat (map (left_out (Node fs)) us)"
| "left_out (Node fs) (TsObject ps) =
     concat (map (\<lambda>p. case map_of fs (fst p) of
        None \<Rightarrow> [[fst p]]
      | Some s \<Rightarrow> map (Cons (fst p)) (left_out s (snd p))) ps)"
| "left_out (Node fs) TsString = []"
| "left_out (Node fs) TsNumber = []"
| "left_out (Node fs) TsBoolean = []"
| "left_out (Node fs) TsNull = []"
| "left_out (Node fs) TsUndefined = []"
| "left_out (Node fs) TsUnknown = []"
| "left_out (Node fs) (TsLit l) = []"
| "left_out (Node fs) (TsInstance c) = []"
| "left_out (Node fs) (TsRecord t) = []"
  by pat_completeness auto
termination
  by (relation "measure (size \<circ> snd)")
    (auto simp: less_Suc_eq_le size_list_estimation' dest!: size_declared)

fun undeclared :: "ts \<Rightarrow> shape \<Rightarrow> string list list" where
  "undeclared t Leaf = []"
| "undeclared t (Node fs) =
     (case t of
        TsArray u \<Rightarrow>
          (case u of
             TsObject ps \<Rightarrow>
               concat (map (\<lambda>p. case map_of ps (fst p) of
                  None \<Rightarrow> [[fst p]]
                | Some w \<Rightarrow> map (Cons (fst p)) (undeclared w (snd p))) fs)
           | _ \<Rightarrow> map (\<lambda>p. [fst p]) fs)
      | TsObject ps \<Rightarrow>
          concat (map (\<lambda>p. case map_of ps (fst p) of
             None \<Rightarrow> [[fst p]]
           | Some w \<Rightarrow> map (Cons (fst p)) (undeclared w (snd p))) fs)
      | _ \<Rightarrow> map (\<lambda>p. [fst p]) fs)"

end
