(* ===== verification/AdminFormat.thy ===== *)
theory AdminFormat
  imports JsConvert
begin

text \<open>
  The texts of the admin console, \<open>apps/kiosk-admin/src/lib/format.ts\<close>, with the parts of the language they use: 
  \<open>toFixed\<close>, and the reads of a page that throw when a value is missing. The texts of amounts and dates are the
  browser's (\<open>Intl\<close>, \<open>toLocaleString\<close>) and are parameters.
\<close>

section \<open>Reads that throw\<close>

definition type_error :: "string \<Rightarrow> thrown" where
  "type_error m = ThrownError ((mk_error m)\<lparr>errKind := TypeErr\<rparr>)"

definition missing_read :: "jsval \<Rightarrow> string \<Rightarrow> thrown" where
  "missing_read v k =
     type_error (''Cannot read properties of '' @ (if v = JNull then ''null'' else ''undefined'') @ '' (reading '' @
       [CHR 0x27] @ k @ [CHR 0x27] @ '')'')"

definition nullish :: "jsval \<Rightarrow> bool" where
  "nullish v \<longleftrightarrow> v = JNull \<or> v = JUndefined"

text \<open>\<open>v.k\<close>, \<open>v.length\<close>, \<open>v.slice(i, j)\<close>, and what \<open>map\<close> runs over.\<close>

definition member :: "jsval \<Rightarrow> string \<Rightarrow> thrown + jsval" where
  "member v k = (if nullish v then Inl (missing_read v k) else Inr (getProp v k))"

definition js_length :: "jsval \<Rightarrow> thrown + jsval" where
  "js_length v =
     (if nullish v then Inl (missing_read v ''length'')
      else case v of
        JArr xs \<Rightarrow> Inr (JNum (of_nat (length xs)))
      | JStr s \<Rightarrow> Inr (JNum (of_nat (length s)))
      | _ \<Rightarrow> Inr (getProp v ''length''))"

definition js_slice :: "nat \<Rightarrow> jsval \<Rightarrow> thrown + jsval" where
  "js_slice n v =
     (if nullish v then Inl (missing_read v ''slice'')
      else case v of
        JStr s \<Rightarrow> Inr (JStr (take n s))
      | JArr xs \<Rightarrow> Inr (JArr (take n xs))
      | JBytes bs \<Rightarrow> Inr (JBytes (take n bs))
      | _ \<Rightarrow> Inl (type_error ''slice is not a function''))"

definition js_elements :: "jsval \<Rightarrow> thrown + jsval list" where
  "js_elements v =
     (if nullish v then Inl (missing_read v ''map'')
      else case v of JArr xs \<Rightarrow> Inr xs | _ \<Rightarrow> Inl (type_error ''map is not a function''))"

definition nullish_else :: "jsval \<Rightarrow> jsval \<Rightarrow> jsval" where
  "nullish_else v d = (if nullish v then d else v)"

text \<open>An expression after another, and \<open>map\<close> with a function that may throw.\<close>

definition and_then :: "'e + 'a \<Rightarrow> ('a \<Rightarrow> 'e + 'b) \<Rightarrow> 'e + 'b" where
  "and_then r f = (case r of Inl e \<Rightarrow> Inl e | Inr x \<Rightarrow> f x)"

fun each :: "('a \<Rightarrow> 'e + 'b) \<Rightarrow> 'a list \<Rightarrow> 'e + 'b list" where
  "each f [] = Inr []"
| "each f (x # xs) = and_then (f x) (\<lambda>y. and_then (each f xs) (\<lambda>ys. Inr (y # ys)))"

named_theorems throws "when an expression throws and what it returns"

lemma and_then_simps [simp, throws]:
  "and_then (Inl e) f = Inl e" "and_then (Inr x) f = f x"
  by (simp_all add: and_then_def)

lemma isl_and_then: "isl (and_then r f) \<longleftrightarrow> isl r \<or> (\<exists>x. r = Inr x \<and> isl (f x))"
  by (cases r) simp_all

lemma isl_each: "isl (each f xs) \<longleftrightarrow> list_ex (\<lambda>x. isl (f x)) xs"
proof (induction xs)
  case (Cons x xs)
  then show ?case by (cases "f x"; cases "each f xs") auto
qed simp

lemma and_then_cong [fundef_cong]: "r = r' \<Longrightarrow> (\<And>x. r' = Inr x \<Longrightarrow> f x = g x) \<Longrightarrow> and_then r f = and_then r' g"
  by (cases r') simp_all

lemma each_cong [fundef_cong]: "xs = ys \<Longrightarrow> (\<And>x. x \<in> set ys \<Longrightarrow> f x = g x) \<Longrightarrow> each f xs = each g ys"
  by (induction ys arbitrary: xs) auto

lemma each_first_throw: "f x = Inl e \<Longrightarrow> each f (x # xs) = Inl e"
  by simp

lemma each_Inr: "(\<And>x. x \<in> set xs \<Longrightarrow> f x = Inr (g x)) \<Longrightarrow> each f xs = Inr (map g xs)"
  by (induction xs) simp_all

lemma nullish_simps [simp, throws]:
  "nullish JNull" "nullish JUndefined" "\<not> nullish (JStr s)" "\<not> nullish (JNum q)" "\<not> nullish (JBool b)"
  "\<not> nullish (JObj ps)" "\<not> nullish (JArr xs)" "\<not> nullish (JBytes bs)"
  by (simp_all add: nullish_def)

lemma member_object [simp, throws]: "member (JObj ps) k = Inr (getProp (JObj ps) k)"
  by (simp add: member_def)

lemma js_length_simps [simp, throws]:
  "js_length (JArr xs) = Inr (JNum (of_nat (length xs)))" "js_length (JStr s) = Inr (JNum (of_nat (length s)))"
  "js_length JUndefined = Inl (missing_read JUndefined ''length'')"
  by (simp_all add: js_length_def)

lemma js_slice_simps [simp, throws]: "js_slice n (JStr s) = Inr (JStr (take n s))"
  by (simp add: js_slice_def)

lemma js_elements_simps [simp, throws]: "js_elements (JArr xs) = Inr xs"
  by (simp add: js_elements_def)

section \<open>Fixed digits\<close>

text \<open>
  \<open>toFixed\<close>: the multiple of a power of ten next to the number, the greater one of two, with the sign in front; a number of
  22 digits and more has its usual text. \<open>None\<close> is \<open>NaN\<close>.
\<close>

definition fixed_units :: "nat \<Rightarrow> rat \<Rightarrow> nat" where
  "fixed_units f x = nat (round_half_up (x * 10 ^ f))"

definition fixed_text :: "nat \<Rightarrow> nat \<Rightarrow> string" where
  "fixed_text f n =
     (let ds = nat_digits n; padded = replicate (Suc f - length ds) (CHR ''0'') @ ds; k = length padded - f
      in if f = 0 then ds else take k padded @ ''.'' @ drop k padded)"

definition toFixed :: "(rat \<Rightarrow> string) \<Rightarrow> nat \<Rightarrow> rat option \<Rightarrow> string" where
  "toFixed ns f v =
     (case v of
        None \<Rightarrow> ''NaN''
      | Some x \<Rightarrow>
          if 10 ^ 21 \<le> \<bar>x\<bar> then ns x
          else if x < 0 then CHR ''-'' # fixed_text f (fixed_units f (- x))
          else fixed_text f (fixed_units f x))"

section \<open>The formats\<close>

text \<open>
  What the browser formats: an amount in a currency, \<open>None\<close> for \<open>NaN\<close>, and a date; with the texts and values of numbers. The
  amount is the exact quotient, and taking its double belongs to the parameter.
\<close>

record intl =
  moneyText :: "string \<Rightarrow> rat option \<Rightarrow> string"
  dateText :: "jsval \<Rightarrow> string"
  numberText :: "rat \<Rightarrow> string"
  numberOf :: "string \<Rightarrow> rat"

text \<open>A currency code of three letters is well formed; \<open>Intl.NumberFormat\<close> throws a \<open>RangeError\<close> at any other.\<close>

definition latin_letter :: "char \<Rightarrow> bool" where
  "latin_letter c \<longleftrightarrow> (CHR ''A'' \<le> c \<and> c \<le> CHR ''Z'') \<or> (CHR ''a'' \<le> c \<and> c \<le> CHR ''z'')"

definition currency_code :: "string \<Rightarrow> bool" where
  "currency_code s \<longleftrightarrow> length s = 3 \<and> list_all latin_letter s"

definition formatCents :: "intl \<Rightarrow> jsval \<Rightarrow> jsval \<Rightarrow> thrown + string" where
  "formatCents b cents currency =
     (let code = (if currency = JUndefined then ''USD'' else to_text (numberText b) currency) in
      if \<not> currency_code code then Inl (ThrownError (mk_error (''Invalid currency code : '' @ code)))
      else Inr (moneyText b code (map_option (\<lambda>q. q / 100) (to_number (numberText b) (numberOf b) cents))))"

definition formatDate :: "intl \<Rightarrow> jsval \<Rightarrow> string" where
  "formatDate b date = dateText b date"

definition formatPercent :: "intl \<Rightarrow> nat \<Rightarrow> rat option \<Rightarrow> string" where
  "formatPercent b digits v = toFixed (numberText b) digits (map_option (\<lambda>q. fl_times q 100) v) @ ''%''"

definition formatDuration :: "intl \<Rightarrow> rat \<Rightarrow> string" where
  "formatDuration b ms =
     (if ms < 1000 then numberText b ms @ ''ms''
      else if ms < 60000 then toFixed (numberText b) 1 (Some (fl_div ms 1000)) @ ''s''
      else toFixed (numberText b) 1 (Some (fl_div ms 60000)) @ ''m'')"

lemma formatCents_default [simp, throws]: "formatCents b (JNum q) JUndefined = Inr (moneyText b ''USD'' (Some (q / 100)))"
  by (simp add: formatCents_def currency_code_def latin_letter_def)

lemma isl_formatCents [throws]: "isl (formatCents b v (JStr code)) \<longleftrightarrow> \<not> currency_code code"
  by (simp add: formatCents_def Let_def)

section \<open>What fixed digits say\<close>

lemma round_half_up_error: "\<bar>of_int (round_half_up x) - x\<bar> \<le> 1 / 2"
  unfolding round_half_up_def by linarith

lemma fixed_units_near:
  assumes "0 \<le> x"
  shows "\<bar>of_nat (fixed_units f x) / 10 ^ f - x\<bar> \<le> 1 / (2 * 10 ^ f)"
proof -
  have "0 \<le> round_half_up (x * 10 ^ f)" using assms by (simp add: round_half_up_def)
  then have "of_nat (fixed_units f x) = (of_int (round_half_up (x * 10 ^ f)) :: rat)" by (simp add: fixed_units_def)
  then have "\<bar>of_nat (fixed_units f x) - x * 10 ^ f\<bar> \<le> 1 / 2" using round_half_up_error [of "x * 10 ^ f"] by simp
  then have "\<bar>of_nat (fixed_units f x) - x * 10 ^ f\<bar> / 10 ^ f \<le> 1 / 2 / 10 ^ f" by (intro divide_right_mono) simp_all
  moreover have "of_nat (fixed_units f x) / 10 ^ f - x = (of_nat (fixed_units f x) - x * 10 ^ f) / 10 ^ f"
    by (simp add: diff_divide_distrib)
  ultimately show ?thesis by (simp add: abs_divide)
qed

lemma zeros_read: "digits_value 10 (replicate k (CHR ''0'') @ ds) = digits_value 10 ds"
  by (induction k) (simp_all add: digits_value_def hex_val_def is_digit_def)

lemma fixed_text_reads:
  assumes "0 < f"
  shows "\<exists>whole frac. fixed_text f n = whole @ ''.'' @ frac \<and> length frac = f \<and> whole \<noteq> [] \<and>
    list_all is_digit (whole @ frac) \<and> digits_value 10 (whole @ frac) = n"
proof -
  let ?p = "replicate (Suc f - length (nat_digits n)) (CHR ''0'') @ nat_digits n"
  have len: "f < length ?p" by simp
  have "list_all is_digit ?p" using nat_digits_reads [of n] by (auto simp: list_all_iff is_digit_def)
  moreover have "digits_value 10 ?p = n" using nat_digits_reads [of n] by (simp add: zeros_read)
  moreover have "fixed_text f n = take (length ?p - f) ?p @ ''.'' @ drop (length ?p - f) ?p"
    using assms by (simp add: fixed_text_def Let_def)
  moreover have "take (length ?p - f) ?p \<noteq> []" "length (drop (length ?p - f) ?p) = f" using len by auto
  ultimately show ?thesis by (metis append_take_drop_id)
qed

text \<open>
  A text of fixed digits is a decimal numeral with as many decimals as asked for, and its value is the number to within half a
  unit of the last of them.
\<close>

theorem toFixed_close:
  assumes "\<bar>x\<bar> < 10 ^ 21" "0 < f"
  shows "\<exists>whole frac. toFixed ns f (Some x) = (if x < 0 then ''-'' else []) @ whole @ ''.'' @ frac \<and>
    length frac = f \<and> whole \<noteq> [] \<and> list_all is_digit (whole @ frac) \<and>
    \<bar>of_nat (digits_value 10 (whole @ frac)) / 10 ^ f - \<bar>x\<bar>\<bar> \<le> 1 / (2 * 10 ^ f)"
proof -
  obtain whole frac where t: "fixed_text f (fixed_units f \<bar>x\<bar>) = whole @ ''.'' @ frac" "length frac = f" "whole \<noteq> []"
    "list_all is_digit (whole @ frac)" "digits_value 10 (whole @ frac) = fixed_units f \<bar>x\<bar>"
    using fixed_text_reads [OF assms(2)] by blast
  moreover have "toFixed ns f (Some x) = (if x < 0 then ''-'' else []) @ fixed_text f (fixed_units f \<bar>x\<bar>)"
    using assms(1) by (simp add: toFixed_def)
  moreover have "\<bar>of_nat (fixed_units f \<bar>x\<bar>) / 10 ^ f - \<bar>x\<bar>\<bar> \<le> 1 / (2 * 10 ^ f)"
    by (rule fixed_units_near) simp
  ultimately show ?thesis by metis
qed

end
