(* ===== verification/AdminPages.thy ===== *)
theory AdminPages
  imports AdminQueries AdminFormat AdminConsole
begin

text \<open>
  The pages of the admin console, \<open>apps/kiosk-admin/src/routes\<close>: what each makes of the answer to its document
  (\<open>AdminQueries\<close>), or the exception it throws, with the components they are made of (\<open>DataTable.tsx\<close>, \<open>StatusBadge.tsx\<close>,
  \<open>KpiCard.tsx\<close>, \<open>CircuitBreakerList.tsx\<close>, \<open>ErrorBoundary.tsx\<close>) and the fleet's health (\<open>hooks/useFleetHealth.ts\<close>).
  Apollo and React Query are parameters: their results are arguments.
\<close>

section \<open>Components\<close>

text \<open>The marks outside ASCII that the pages use, in UTF-8.\<close>

definition em_dash :: string where
  "em_dash = [CHR 0xE2, CHR 0x80, CHR 0x94]"

definition en_dash :: string where
  "en_dash = [CHR 0xE2, CHR 0x80, CHR 0x93]"

definition ellipsis :: string where
  "ellipsis = [CHR 0xE2, CHR 0x80, CHR 0xA6]"

text \<open>The text of a child in React, which refuses objects.\<close>

fun react_text :: "intl \<Rightarrow> jsval \<Rightarrow> thrown + string" where
  "react_text b (JStr s) = Inr s"
| "react_text b (JNum q) = Inr (numberText b q)"
| "react_text b (JObj ps) = Inl (new_Error ''Objects are not valid as a React child'')"
| "react_text b (JArr xs) = and_then (each (react_text b) xs) (\<lambda>ts. Inr (concat ts))"
| "react_text b (JBytes bs) = Inr (concat (map nat_digits bs))"
| "react_text b JUndefined = Inr []"
| "react_text b JNull = Inr []"
| "react_text b (JBool _) = Inr []"

definition STYLES :: "(string \<times> string) list" where
  "STYLES =
     [(''healthy'', ''bg-emerald-100 text-emerald-800 dark:bg-emerald-900 dark:text-emerald-200''),
      (''degraded'', ''bg-amber-100 text-amber-800 dark:bg-amber-900 dark:text-amber-200''),
      (''offline'', ''bg-slate-200 text-slate-700 dark:bg-slate-700 dark:text-slate-200''),
      (''circuit_open'', ''bg-rose-100 text-rose-800 dark:bg-rose-900 dark:text-rose-200''),
      (''closed'', ''bg-emerald-100 text-emerald-800 dark:bg-emerald-900 dark:text-emerald-200''),
      (''half_open'', ''bg-amber-100 text-amber-800 dark:bg-amber-900 dark:text-amber-200''),
      (''open'', ''bg-rose-100 text-rose-800 dark:bg-rose-900 dark:text-rose-200''),
      (''warning'', ''bg-amber-100 text-amber-800 dark:bg-amber-900 dark:text-amber-200'')]"

datatype cell = Text string | Badge (badgeStyle: "string option") (badgeText: string)

text \<open>\<open>s.replace("_", " ")\<close>, which replaces the first one, and \<open>replace(/_/g, " ")\<close>.\<close>

fun replace_underscore :: "string \<Rightarrow> string" where
  "replace_underscore [] = []"
| "replace_underscore (c # cs) = (if c = CHR ''_'' then CHR '' '' # cs else c # replace_underscore cs)"

definition replace_underscores :: "string \<Rightarrow> string" where
  "replace_underscores = map (\<lambda>c. if c = CHR ''_'' then CHR '' '' else c)"

definition StatusBadge :: "string \<Rightarrow> string option \<Rightarrow> cell" where
  "StatusBadge st children =
     Badge (map_of STYLES st) (case children of Some t \<Rightarrow> t | None \<Rightarrow> replace_underscore st)"

record column =
  colKey :: string
  header :: string
  render :: "jsval \<Rightarrow> thrown + cell"

record table =
  headers :: "string list"
  body :: "(string \<times> cell list) list"
  emptyRow :: "string option"

definition DataTable :: "jsval list \<Rightarrow> column list \<Rightarrow> (jsval \<Rightarrow> thrown + string) \<Rightarrow> thrown + table" where
  "DataTable rows columns keyExtractor =
     (if rows = [] then
        Inr \<lparr>headers = map header columns, body = [], emptyRow = Some ''No data available.''\<rparr>
      else
        and_then
          (each (\<lambda>row. and_then (keyExtractor row) (\<lambda>k. and_then (each (\<lambda>col. render col row) columns) (\<lambda>cs. Inr (k, cs)))) rows)
          (\<lambda>rs. Inr \<lparr>headers = map header columns, body = rs, emptyRow = None\<rparr>))"

datatype trendDirection = up | down | neutral | warn

record kpi_card =
  kpiTitle :: string
  kpiValue :: string
  kpiTrend :: "(string \<times> string) option"

text \<open>The trend has its colour.\<close>

definition KpiCard :: "string \<Rightarrow> string \<Rightarrow> string option \<Rightarrow> trendDirection \<Rightarrow> kpi_card" where
  "KpiCard t v trend dir =
     \<lparr>kpiTitle = t, kpiValue = v,
      kpiTrend = (case trend of
         Some (c # cs) \<Rightarrow>
           Some (c # cs, case dir of up \<Rightarrow> ''text-success'' | down \<Rightarrow> ''text-error'' | _ \<Rightarrow> ''text-ink-muted'')
       | _ \<Rightarrow> None)\<rparr>"

section \<open>The fleet\<close>

datatype circuitState = cs_closed | cs_half_open | cs_open

record PaymentLaneHealth =
  laneId :: string
  laneCircuit :: circuitState
  consecutiveFailures :: int
  lastFailureReason :: "string option"

record FleetHealthSnapshot =
  nodes :: "KioskNode list"
  paymentLanes :: "PaymentLaneHealth list"
  generatedAtMs :: ms

fun circuit_text :: "circuitState \<Rightarrow> string" where
  "circuit_text cs_closed = ''closed''"
| "circuit_text cs_half_open = ''half_open''"
| "circuit_text cs_open = ''open''"

text \<open>The request and what it settles with; the body is read as a snapshot without a check.\<close>

definition fleet_url :: "(string \<Rightarrow> string option) \<Rightarrow> string" where
  "fleet_url env = (case env ''VITE_API_GATEWAY_URL'' of Some u \<Rightarrow> u | None \<Rightarrow> ''http://localhost:8080'') @ ''/v1/admin/fleet-health''"

definition fleet_query :: "nat \<Rightarrow> thrown + FleetHealthSnapshot \<Rightarrow> thrown + FleetHealthSnapshot" where
  "fleet_query st json =
     (if 200 \<le> st \<and> st < 300 then json else Inl (new_Error (''Fleet health fetch failed: '' @ nat_digits st)))"

definition CircuitBreakerList :: "PaymentLaneHealth list \<Rightarrow> (string \<times> cell \<times> string option) list" where
  "CircuitBreakerList lanes =
     map (\<lambda>l. (laneId l,
        StatusBadge (circuit_text (laneCircuit l)) (Some (replace_underscore (circuit_text (laneCircuit l)))),
        if 0 < consecutiveFailures l then Some (int_digits (consecutiveFailures l) @ '' failures'') else None)) lanes"

section \<open>The list pages\<close>

text \<open>What a query hook returns.\<close>

record query_result =
  queryData :: jsval
  queryLoading :: bool
  queryFailed :: bool

record admin_view =
  viewTitle :: string
  spinner :: "string option"
  alert :: "string option"
  sections :: "(string option \<times> table) list"

definition list_view :: "string \<Rightarrow> string \<Rightarrow> string \<Rightarrow> query_result \<Rightarrow> (jsval \<Rightarrow> thrown + (string option \<times> table) list) \<Rightarrow> thrown + admin_view" where
  "list_view t busy err q content =
     and_then (if truthy (queryData q) then content (queryData q) else Inr []) (\<lambda>ss.
       Inr \<lparr>viewTitle = t, spinner = (if queryLoading q then Some busy else None),
            alert = (if queryFailed q then Some err else None), sections = ss\<rparr>)"

definition rows_of :: "jsval \<Rightarrow> string \<Rightarrow> thrown + jsval list" where
  "rows_of d k = and_then (member d k) (\<lambda>l. and_then (member l ''items'') js_elements)"

definition one_table :: "(string option) \<Rightarrow> thrown + table \<Rightarrow> thrown + (string option \<times> table) list" where
  "one_table heading t = and_then t (\<lambda>t. Inr [(heading, t)])"

definition key_of :: "string \<Rightarrow> jsval \<Rightarrow> thrown + string" where
  "key_of k row = map_sum id str_of (member row k)"

definition child :: "intl \<Rightarrow> jsval \<Rightarrow> thrown + cell" where
  "child b v = map_sum id Text (react_text b v)"

definition col :: "string \<Rightarrow> string \<Rightarrow> (jsval \<Rightarrow> thrown + cell) \<Rightarrow> column" where
  "col k h r = \<lparr>colKey = k, header = h, render = r\<rparr>"

text \<open>\<open>row.f\<close>, \<open>row.f ?? d\<close>, \<open>formatDate(row.f)\<close>, \<open>row.f ? formatDate(row.f) : "Never"\<close>, \<open>formatCents(row.f)\<close>.\<close>

definition field_cell :: "intl \<Rightarrow> string \<Rightarrow> jsval \<Rightarrow> thrown + cell" where
  "field_cell b k row = and_then (member row k) (child b)"

definition field_or :: "intl \<Rightarrow> string \<Rightarrow> string \<Rightarrow> jsval \<Rightarrow> thrown + cell" where
  "field_or b k d row = and_then (member row k) (\<lambda>v. child b (nullish_else v (JStr d)))"

definition date_cell :: "intl \<Rightarrow> string \<Rightarrow> jsval \<Rightarrow> thrown + cell" where
  "date_cell b k row = and_then (member row k) (\<lambda>v. Inr (Text (formatDate b v)))"

definition date_or_never :: "intl \<Rightarrow> string \<Rightarrow> jsval \<Rightarrow> thrown + cell" where
  "date_or_never b k row =
     and_then (member row k) (\<lambda>v. Inr (Text (if truthy v then formatDate b v else ''Never'')))"

definition money_cell :: "intl \<Rightarrow> string \<Rightarrow> jsval \<Rightarrow> thrown + cell" where
  "money_cell b k row = and_then (member row k) (\<lambda>v. map_sum id Text (formatCents b v JUndefined))"

definition currency_cell :: "intl \<Rightarrow> jsval \<Rightarrow> thrown + cell" where
  "currency_cell b row =
     and_then (member row ''amountCents'') (\<lambda>v. and_then (member row ''currency'') (\<lambda>c. map_sum id Text (formatCents b v c)))"

definition active_cell :: "jsval \<Rightarrow> thrown + cell" where
  "active_cell row =
     and_then (member row ''isActive'') (\<lambda>v.
       Inr (StatusBadge (if truthy v then ''healthy'' else ''offline'') (Some (if truthy v then ''Active'' else ''Inactive''))))"

text \<open>A badge whose colour depends on a text: green for one, grey for another, amber for the rest.\<close>

definition state_cell :: "string \<Rightarrow> string \<Rightarrow> jsval \<Rightarrow> thrown + cell" where
  "state_cell good bad row =
     and_then (member row ''status'') (\<lambda>v.
       Inr (StatusBadge (if v = JStr good then ''healthy'' else if v = JStr bad then ''offline'' else ''warning'') (Some (str_of v))))"

definition Locations_view :: "intl \<Rightarrow> query_result \<Rightarrow> thrown + admin_view" where
  "Locations_view b q = list_view ''Locations'' ''Loading locations'' ''Failed to load locations.'' q (\<lambda>d.
     and_then (rows_of d ''locations'') (\<lambda>rows. one_table None (DataTable rows
       [col ''name'' ''Name'' (field_cell b ''name''),
        col ''address'' ''Address'' (field_or b ''address'' em_dash),
        col ''timezone'' ''Timezone'' (field_cell b ''timezone''),
        col ''currency'' ''Currency'' (field_cell b ''currency''),
        col ''taxRate'' ''Tax Rate'' (\<lambda>row. and_then (member row ''taxRate'') (\<lambda>v.
          Inr (Text (toFixed (numberText b) 2 (map_option (\<lambda>x. fl_times x 100) (to_number (numberText b) (numberOf b) v)) @ ''%'')))),
        col ''lanes'' ''Lanes'' (\<lambda>row. and_then (member row ''lanes'') (\<lambda>v. and_then (js_length v) (child b)))]
       (key_of ''locationId''))))"

text \<open>The last column has \<open>new Date(row.updatedAt).toLocaleString()\<close>, in the browser's own format.\<close>

definition Lanes_view :: "intl \<Rightarrow> (jsval \<Rightarrow> string) \<Rightarrow> query_result \<Rightarrow> thrown + admin_view" where
  "Lanes_view b ownDate q = list_view ''Lanes'' ''Loading lanes'' ''Failed to load lanes.'' q (\<lambda>d.
     and_then (rows_of d ''lanes'') (\<lambda>rows. one_table None (DataTable rows
       [col ''displayName'' ''Lane'' (field_cell b ''displayName''),
        col ''laneNumber'' ''Number'' (field_cell b ''laneNumber''),
        col ''status'' ''Status'' active_cell,
        col ''updated'' ''Last Updated'' (\<lambda>row. and_then (member row ''updatedAt'') (\<lambda>v. Inr (Text (ownDate v))))]
       (key_of ''laneId''))))"

definition mesh_peer_count :: "FleetHealthSnapshot option \<Rightarrow> jsval \<Rightarrow> nat" where
  "mesh_peer_count fleet kiosk =
     (case fleet of
        None \<Rightarrow> 0
      | Some f \<Rightarrow> (case List.find (\<lambda>n. JStr (nodeKioskId n) = kiosk) (nodes f) of None \<Rightarrow> 0 | Some n \<Rightarrow> length (meshPeers n)))"

definition Kiosks_view :: "intl \<Rightarrow> FleetHealthSnapshot option \<Rightarrow> query_result \<Rightarrow> thrown + admin_view" where
  "Kiosks_view b fleet q = list_view ''Kiosks'' ''Loading kiosks'' ''Failed to load kiosk list.'' q (\<lambda>d.
     and_then (rows_of d ''kiosks'') (\<lambda>rows. one_table None (DataTable rows
       [col ''displayName'' ''Kiosk'' (field_cell b ''displayName''),
        col ''health'' ''Health'' (\<lambda>row. and_then (member row ''syncStatus'') (\<lambda>v.
          Inr (StatusBadge
            (if v = JStr ''online'' then ''healthy'' else if v = JStr ''degraded'' then ''degraded'' else ''offline'')
            (Some (str_of v))))),
        col ''role'' ''Role'' (\<lambda>row. and_then (member row ''isLeader'') (\<lambda>v.
          Inr (Text (if truthy v then ''Leader'' else ''Follower'')))),
        col ''lastSeen'' ''Last Seen'' (date_or_never b ''lastSeenAt''),
        col ''mesh'' ''Mesh Peers'' (\<lambda>row. and_then (member row ''kioskId'') (\<lambda>v.
          Inr (Text (nat_digits (mesh_peer_count fleet v)))))]
       (key_of ''kioskId''))))"

definition option_text :: "intl \<Rightarrow> jsval \<Rightarrow> thrown + string" where
  "option_text b o' =
     and_then (member o' ''name'') (\<lambda>n. and_then (member o' ''priceDeltaCents'') (\<lambda>p.
       if truthy p then and_then (formatCents b p JUndefined) (\<lambda>m. Inr (to_text (numberText b) n @ '' (+'' @ m @ '')''))
       else Inr (to_text (numberText b) n)))"

text \<open>\<open>{ ...item, categoryName: category.name }\<close>.\<close>

definition menu_item_row :: "jsval \<Rightarrow> jsval \<Rightarrow> jsval" where
  "menu_item_row name item = (case item of JObj ps \<Rightarrow> JObj (AList.update ''categoryName'' name ps) | _ \<Rightarrow> JObj [(''categoryName'', name)])"

definition menu_item_rows :: "jsval \<Rightarrow> thrown + jsval list" where
  "menu_item_rows menu =
     and_then (member menu ''categories'') (\<lambda>cs. and_then (js_elements cs) (\<lambda>cs.
       and_then (each (\<lambda>c. and_then (member c ''items'') (\<lambda>is'. and_then (js_elements is') (\<lambda>is'.
         and_then (member c ''name'') (\<lambda>n. Inr (map (menu_item_row n) is'))))) cs) (\<lambda>rss. Inr (concat rss))))"

definition Menu_view :: "intl \<Rightarrow> query_result \<Rightarrow> thrown + admin_view" where
  "Menu_view b q = list_view ''Menu'' ''Loading menu'' ''Failed to load menu.'' q (\<lambda>d.
     and_then (member d ''menu'') (\<lambda>menu. and_then (menu_item_rows menu) (\<lambda>items.
     and_then (DataTable items
       [col ''name'' ''Item'' (field_cell b ''name''),
        col ''category'' ''Category'' (field_cell b ''categoryName''),
        col ''price'' ''Price'' (money_cell b ''priceCents''),
        col ''status'' ''Status'' active_cell,
        col ''sku'' ''SKU / PLU'' (\<lambda>row. and_then (member row ''sku'') (\<lambda>s. and_then (member row ''plu'') (\<lambda>p.
          child b (nullish_else s (nullish_else p (JStr em_dash))))))]
       (key_of ''itemId'')) (\<lambda>t1.
     and_then (and_then (member menu ''modifierGroups'') js_elements) (\<lambda>groups.
     and_then (DataTable groups
       [col ''name'' ''Group'' (field_cell b ''name''),
        col ''select'' ''Selection'' (\<lambda>row. and_then (member row ''minSelect'') (\<lambda>lo. and_then (member row ''maxSelect'') (\<lambda>hi.
          Inr (Text (to_text (numberText b) lo @ en_dash @ to_text (numberText b) hi))))),
        col ''options'' ''Options'' (\<lambda>row. and_then (and_then (member row ''options'') js_elements) (\<lambda>os.
          and_then (each (option_text b) os) (\<lambda>ts. Inr (Text (join_with '', '' ts))))),
        col ''status'' ''Status'' active_cell]
       (key_of ''modifierGroupId'')) (\<lambda>t2.
     Inr [(Some ''Categories & Items'', t1), (Some ''Modifier Groups'', t2)]))))))"

definition at_most :: "rat option \<Rightarrow> rat option \<Rightarrow> bool" where
  "at_most a b = (case (a, b) of (Some x, Some y) \<Rightarrow> x \<le> y | _ \<Rightarrow> False)"

definition Inventory_view :: "intl \<Rightarrow> query_result \<Rightarrow> thrown + admin_view" where
  "Inventory_view b q = list_view ''Inventory'' ''Loading inventory'' ''Failed to load inventory.'' q (\<lambda>d.
     and_then (rows_of d ''inventory'') (\<lambda>rows. one_table None (DataTable rows
       [col ''item'' ''Item'' (field_cell b ''itemName''),
        col ''sku'' ''SKU'' (field_or b ''itemSku'' em_dash),
        col ''available'' ''Available'' (field_cell b ''quantityAvailable''),
        col ''reserved'' ''Reserved'' (field_cell b ''quantityReserved''),
        col ''onOrder'' ''On Order'' (field_cell b ''quantityOnOrder''),
        col ''status'' ''Status'' (\<lambda>row. and_then (member row ''quantityAvailable'') (\<lambda>a. and_then (member row ''reorderPoint'') (\<lambda>r.
          let num = to_number (numberText b) (numberOf b); low = at_most (num a) (num r) in
          Inr (StatusBadge (if low then ''degraded'' else ''healthy'') (Some (if low then ''Low Stock'' else ''OK'')))))),
        col ''location'' ''Location'' (field_or b ''location'' em_dash)]
       (key_of ''inventoryId''))))"

definition Orders_view :: "intl \<Rightarrow> query_result \<Rightarrow> thrown + admin_view" where
  "Orders_view b q = list_view ''Orders'' ''Loading orders'' ''Failed to load orders.'' q (\<lambda>d.
     and_then (rows_of d ''orders'') (\<lambda>rows. one_table None (DataTable rows
       [col ''orderNumber'' ''Order'' (field_cell b ''orderNumber''),
        col ''kiosk'' ''Kiosk'' (field_cell b ''kioskDisplayName''),
        col ''status'' ''Status'' (state_cell ''paid'' ''cancelled''),
        col ''total'' ''Total'' (money_cell b ''totalCents''),
        col ''items'' ''Items'' (\<lambda>row. and_then (member row ''itemsJson'') (\<lambda>v. and_then (js_length v) (child b))),
        col ''created'' ''Created'' (date_cell b ''createdAt'')]
       (key_of ''orderId''))))"

definition card_cell :: "intl \<Rightarrow> jsval \<Rightarrow> thrown + cell" where
  "card_cell b row =
     and_then (member row ''cardBrand'') (\<lambda>brand. and_then (member row ''cardLastFour'') (\<lambda>four.
       let txt = trim (to_text (numberText b) (nullish_else brand (JStr [])) @ '' '' @ to_text (numberText b) (nullish_else four (JStr [])))
       in Inr (Text (if txt = [] then em_dash else txt))))"

definition PaymentsRefunds_view :: "intl \<Rightarrow> query_result \<Rightarrow> thrown + admin_view" where
  "PaymentsRefunds_view b q = list_view ''Payments / Refunds'' ''Loading payments'' ''Failed to load payments.'' q (\<lambda>d.
     and_then (rows_of d ''payments'') (\<lambda>payments.
     and_then (DataTable payments
       [col ''order'' ''Order'' (field_cell b ''orderNumber''),
        col ''method'' ''Method'' (\<lambda>row. and_then (member row ''method'') (\<lambda>v. Inr (Text (replace_underscores (str_of v))))),
        col ''amount'' ''Amount'' (currency_cell b),
        col ''status'' ''Status'' (state_cell ''captured'' ''declined''),
        col ''card'' ''Card'' (card_cell b),
        col ''created'' ''Created'' (date_cell b ''createdAt'')]
       (key_of ''paymentId'')) (\<lambda>t1.
     and_then (rows_of d ''refunds'') (\<lambda>refunds.
     and_then (DataTable refunds
       [col ''order'' ''Order'' (\<lambda>row. and_then (member row ''orderId'') (\<lambda>v. and_then (js_slice 8 v) (child b))),
        col ''amount'' ''Amount'' (currency_cell b),
        col ''status'' ''Status'' (state_cell ''completed'' ''failed''),
        col ''reason'' ''Reason'' (field_cell b ''reason''),
        col ''processedBy'' ''Processed By'' (field_or b ''processedBy'' em_dash),
        col ''created'' ''Created'' (date_cell b ''createdAt'')]
       (key_of ''refundId'')) (\<lambda>t2.
     Inr [(Some ''Payments'', t1), (Some ''Refunds'', t2)])))))"

definition EmployeesRoles_view :: "intl \<Rightarrow> query_result \<Rightarrow> thrown + admin_view" where
  "EmployeesRoles_view b q = list_view ''Employees / Roles'' ''Loading employees'' ''Failed to load employees.'' q (\<lambda>d.
     and_then (rows_of d ''employees'') (\<lambda>employees.
     and_then (DataTable employees
       [col ''name'' ''Name'' (field_cell b ''name''),
        col ''email'' ''Email'' (field_cell b ''email''),
        col ''role'' ''Role'' (field_cell b ''roleName''),
        col ''status'' ''Status'' active_cell,
        col ''lastLogin'' ''Last Login'' (date_or_never b ''lastLoginAt'')]
       (key_of ''employeeId'')) (\<lambda>t1.
     and_then (rows_of d ''roles'') (\<lambda>roles.
     and_then (DataTable roles
       [col ''name'' ''Role'' (field_cell b ''name''),
        col ''description'' ''Description'' (field_or b ''description'' em_dash),
        col ''system'' ''System'' (\<lambda>row. and_then (member row ''isSystem'') (\<lambda>v.
          Inr (StatusBadge (if truthy v then ''healthy'' else ''offline'') (Some (if truthy v then ''System'' else ''Custom''))))),
        col ''updated'' ''Updated'' (date_cell b ''updatedAt'')]
       (key_of ''roleId'')) (\<lambda>t2.
     Inr [(Some ''Employees'', t1), (Some ''Roles'', t2)])))))"

definition AuditLogs_view :: "intl \<Rightarrow> query_result \<Rightarrow> thrown + admin_view" where
  "AuditLogs_view b q = list_view ''Audit Logs'' ''Loading audit logs'' ''Failed to load audit logs.'' q (\<lambda>d.
     and_then (rows_of d ''auditLogs'') (\<lambda>rows. one_table None (DataTable rows
       [col ''time'' ''Time'' (date_cell b ''createdAt''),
        col ''event'' ''Event'' (field_cell b ''eventType''),
        col ''entity'' ''Entity'' (\<lambda>row. and_then (member row ''entityType'') (\<lambda>t. and_then (member row ''entityId'') (\<lambda>i.
          and_then (js_slice 8 i) (\<lambda>i. Inr (Text (to_text (numberText b) t @ '':'' @ to_text (numberText b) i)))))),
        col ''actor'' ''Actor'' (\<lambda>row. and_then (member row ''actorName'') (\<lambda>a. and_then (member row ''employeeId'') (\<lambda>e.
          and_then (member row ''userId'') (\<lambda>u. child b (nullish_else a (nullish_else e (nullish_else u (JStr ''system''))))))))
        ,
        col ''kiosk'' ''Kiosk'' (field_or b ''kioskId'' em_dash),
        col ''hash'' ''Hash'' (\<lambda>row. and_then (member row ''currentHash'') (\<lambda>h. and_then (js_slice 12 h) (\<lambda>h.
          and_then (react_text b h) (\<lambda>t. Inr (Text (t @ ellipsis))))))]
       (\<lambda>row. map_sum id (to_text (numberText b)) (member row ''auditId'')))))"

section \<open>The dashboard and the choice of a page\<close>

record dashboard =
  dashBusy :: bool
  dashError :: bool
  cards :: "kpi_card list"
  topology :: "(string \<times> string) list option"
  breakers :: "(string \<times> cell \<times> string option) list option"

record fleet_result =
  fleetData :: "FleetHealthSnapshot option"
  fleetLoading :: bool
  fleetError :: bool

definition trend_sign :: "rat option \<Rightarrow> string" where
  "trend_sign v = (case v of Some x \<Rightarrow> if 0 \<le> x then ''+'' else [] | None \<Rightarrow> [])"

definition healthyCount :: "FleetHealthSnapshot option \<Rightarrow> nat" where
  "healthyCount fleet = (case fleet of None \<Rightarrow> 0 | Some f \<Rightarrow> length (filter (\<lambda>n. health n = healthy) (nodes f)))"

definition totalNodes :: "FleetHealthSnapshot option \<Rightarrow> nat" where
  "totalNodes fleet = (case fleet of None \<Rightarrow> 0 | Some f \<Rightarrow> length (nodes f))"

definition fleet_card :: "intl \<Rightarrow> FleetHealthSnapshot option \<Rightarrow> kpi_card" where
  "fleet_card b fleet =
     (let h = healthyCount fleet; n = totalNodes fleet in
      KpiCard ''Fleet Health'' (if 0 < n then nat_digits h @ ''/'' @ nat_digits n else em_dash)
        (if 0 < n then Some (formatPercent b 1 (Some (fl_div (of_nat h) (of_nat n))) @ '' healthy'') else None)
        (if h = n then up else warn))"

definition Dashboard_view :: "intl \<Rightarrow> fleet_result \<Rightarrow> query_result \<Rightarrow> thrown + dashboard" where
  "Dashboard_view b fleet q =
     (let kpis = (if nullish (queryData q) then JUndefined else getProp (queryData q) ''dashboardKpis'');
          shown = truthy kpis; num = (\<lambda>k. to_number (numberText b) (numberOf b) (getProp kpis k));
          txt = (\<lambda>k. to_text (numberText b) (getProp kpis k));
          dir = (\<lambda>k. if shown \<and> trend_sign (num k) \<noteq> [] then up else neutral) in
      and_then (if shown then formatCents b (getProp kpis ''totalRevenueCents'') JUndefined else Inr em_dash) (\<lambda>revenue. Inr
        \<lparr>dashBusy = queryLoading q \<or> fleetLoading fleet, dashError = queryFailed q \<or> fleetError fleet,
         cards =
           [KpiCard ''Revenue'' revenue
              (if shown then Some (trend_sign (num ''revenueTrend'') @
                 formatPercent b 1 (map_option (\<lambda>x. fl_div x 100) (num ''revenueTrend'')) @ '' vs last hour'') else None)
              (dir ''revenueTrend''),
            KpiCard ''Orders'' (if shown then txt ''orderCount'' else em_dash)
              (if shown then Some (trend_sign (num ''orderTrend'') @ txt ''orderTrend'' @ '' vs last hour'') else None)
              (dir ''orderTrend''),
            KpiCard ''Active Kiosks'' (if shown then txt ''activeKiosks'' else em_dash) None neutral,
            fleet_card b (fleetData fleet)],
         topology = (case fleetData fleet of Some f \<Rightarrow> if nodes f \<noteq> [] then Some (mesh_links (nodes f)) else None | None \<Rightarrow> None),
         breakers = (case fleetData fleet of
            Some f \<Rightarrow> if paymentLanes f \<noteq> [] then Some (CircuitBreakerList (paymentLanes f)) else None
          | None \<Rightarrow> None)\<rparr>))"

datatype shown_screen = DashboardScreen dashboard | ListScreen admin_view

record page_context =
  intlOf :: intl
  ownDate :: "jsval \<Rightarrow> string"
  fleetOf :: fleet_result

definition admin_screen :: "page_context \<Rightarrow> string \<Rightarrow> query_result \<Rightarrow> thrown + shown_screen" where
  "admin_screen c n q =
     (let b = intlOf c in
      if n = ''Dashboard'' then map_sum id DashboardScreen (Dashboard_view b (fleetOf c) q)
      else map_sum id ListScreen
        (if n = ''Locations'' then Locations_view b q
         else if n = ''Lanes'' then Lanes_view b (ownDate c) q
         else if n = ''Kiosks'' then Kiosks_view b (fleetData (fleetOf c)) q
         else if n = ''Menu'' then Menu_view b q
         else if n = ''Inventory'' then Inventory_view b q
         else if n = ''Orders'' then Orders_view b q
         else if n = ''PaymentsRefunds'' then PaymentsRefunds_view b q
         else if n = ''EmployeesRoles'' then EmployeesRoles_view b q
         else AuditLogs_view b q))"

section \<open>When a page throws\<close>

text \<open>The answer of a document is read with this type.\<close>

definition answer_type :: "document \<Rightarrow> ts \<Rightarrow> ts" where
  "answer_type d t = selected (document_shape d) t"

text \<open>
  How a page uses a value: as a child of an element, as a text, as an array, as a row or an array of rows of which it uses
  fields; or the value is not in the answer.
\<close>

datatype usage = Child | Textual | Listed | Missing | Row "(string \<times> usage) list" | Rows "(string \<times> usage) list"

fun scalar :: "ts \<Rightarrow> bool" where
  "scalar TsString = True"
| "scalar TsNumber = True"
| "scalar TsBoolean = True"
| "scalar TsNull = True"
| "scalar (TsLit l) = True"
| "scalar (TsUnion us) = list_all scalar us"
| "scalar t = False"

fun usable :: "usage \<Rightarrow> ts option \<Rightarrow> bool" where
  "usable Child t = (case t of Some t \<Rightarrow> scalar t | None \<Rightarrow> False)"
| "usable Textual t = (t = Some TsString)"
| "usable Listed t = (case t of Some (TsArray _) \<Rightarrow> True | _ \<Rightarrow> False)"
| "usable Missing t = (t = None)"
| "usable (Row us) t =
     (case t of
        Some (TsObject ps) \<Rightarrow> list_all (\<lambda>u. fst u \<noteq> ''__typename'' \<and> usable (snd u) (map_of ps (fst u))) us
      | _ \<Rightarrow> False)"
| "usable (Rows us) t =
     (case t of
        Some (TsArray (TsObject ps)) \<Rightarrow> list_all (\<lambda>u. fst u \<noteq> ''__typename'' \<and> usable (snd u) (map_of ps (fst u))) us
      | _ \<Rightarrow> False)"

fun used_well :: "usage \<Rightarrow> jsval \<Rightarrow> bool" where
  "used_well Child v = (case v of JStr _ \<Rightarrow> True | JNum _ \<Rightarrow> True | JBool _ \<Rightarrow> True | JNull \<Rightarrow> True | _ \<Rightarrow> False)"
| "used_well Textual v = (case v of JStr _ \<Rightarrow> True | _ \<Rightarrow> False)"
| "used_well Listed v = (case v of JArr _ \<Rightarrow> True | _ \<Rightarrow> False)"
| "used_well Missing v = (v = JUndefined)"
| "used_well (Row us) v =
     (case v of JObj _ \<Rightarrow> list_all (\<lambda>u. used_well (snd u) (getProp v (fst u))) us | _ \<Rightarrow> False)"
| "used_well (Rows us) v =
     (case v of
        JArr xs \<Rightarrow> list_all (\<lambda>r. case r of JObj _ \<Rightarrow> list_all (\<lambda>u. used_well (snd u) (getProp r (fst u))) us | _ \<Rightarrow> False) xs
      | _ \<Rightarrow> False)"

lemma scalar_child: "scalar t \<Longrightarrow> conforms t v \<Longrightarrow> used_well Child v"
proof (induction t arbitrary: v rule: scalar.induct)
  case (6 us)
  then show ?case by (auto simp: list_ex_iff list_all_iff)
qed (auto split: jsval.splits)

lemma conforms_object:
  assumes "conforms (TsObject ps) v"
  shows "\<exists>qs. v = JObj qs" "map_of ps k = Some t \<Longrightarrow> conforms t (getProp v k)"
    "map_of ps k = None \<Longrightarrow> k \<noteq> ''__typename'' \<Longrightarrow> getProp v k = JUndefined"
proof -
  obtain qs where v: "v = JObj qs" using assms by (simp split: jsval.splits)
  then show "\<exists>qs. v = JObj qs" by simp
  show "conforms t (getProp v k)" if "map_of ps k = Some t"
    using assms map_of_SomeD [OF that] v by (auto simp: list_all_iff)
  show "getProp v k = JUndefined" if "map_of ps k = None" "k \<noteq> ''__typename''"
  proof -
    have "k \<notin> fst ` set ps" using that(1) by (simp add: map_of_eq_None_iff)
    then have "k \<notin> fst ` set qs" using assms v that(2) by (auto simp: list_all_iff)
    then show ?thesis using v by (simp add: map_of_eq_None_iff [THEN iffD2])
  qed
qed

definition good_row :: "(string \<times> usage) list \<Rightarrow> jsval \<Rightarrow> bool" where
  "good_row us r \<longleftrightarrow> (\<exists>qs. r = JObj qs) \<and> list_all (\<lambda>u. used_well (snd u) (getProp r (fst u))) us"

lemma row_case:
  "(\<lambda>r. case r of JObj _ \<Rightarrow> list_all (\<lambda>u. used_well (snd u) (getProp r (fst u))) us | _ \<Rightarrow> False) = good_row us"
  by (rule ext) (simp add: good_row_def split: jsval.split)

lemma used_well_rows:
  "used_well (Row us) r \<longleftrightarrow> good_row us r"
  "used_well (Rows us) v \<longleftrightarrow> (\<exists>rows. v = JArr rows \<and> list_all (good_row us) rows)"
  unfolding used_well.simps row_case by (simp_all add: good_row_def split: jsval.split)

lemma good_rowI:
  assumes "conforms (TsObject ps) r"
    and "\<And>u t v. u \<in> snd ` set us \<Longrightarrow> conforms t v \<Longrightarrow> usable u (Some t) \<Longrightarrow> used_well u v"
    and "list_all (\<lambda>u. fst u \<noteq> ''__typename'' \<and> usable (snd u) (map_of ps (fst u))) us"
  shows "good_row us r"
proof -
  have "used_well u (getProp r k)" if ku: "(k, u) \<in> set us" for k u
  proof (cases "map_of ps k")
    case None
    have "usable u None" "k \<noteq> ''__typename''" using ku assms(3) None by (auto simp: list_all_iff)
    then show ?thesis using conforms_object(3) [OF assms(1) None] by (cases u) auto
  next
    case (Some t)
    then have "usable u (Some t)" using ku assms(3) by (auto simp: list_all_iff)
    then show ?thesis using assms(2) [OF _ conforms_object(2) [OF assms(1) Some]] ku by force
  qed
  then show ?thesis using conforms_object(1) [OF assms(1)] by (auto simp: good_row_def list_all_iff)
qed

lemma usable_used_well: "conforms t v \<Longrightarrow> usable u (Some t) \<Longrightarrow> used_well u v"
proof (induction u arbitrary: t v)
  case (Row us)
  then obtain ps where t: "t = TsObject ps" by (auto split: ts.splits)
  have "good_row us v"
    by (rule good_rowI [OF Row.prems(1) [unfolded t]]) (use Row t in \<open>force split: ts.splits\<close>)+
  then show ?case by (simp only: used_well_rows)
next
  case (Rows us)
  then obtain ps where t: "t = TsArray (TsObject ps)" by (auto split: ts.splits)
  with Rows.prems(1) obtain xs where v: "v = JArr xs" "list_all (conforms (TsObject ps)) xs" by (auto split: jsval.splits)
  have "good_row us x" if "x \<in> set xs" for x
    by (rule good_rowI [of ps]) (use Rows t v that in \<open>force simp: list_all_iff split: ts.splits\<close>)+
  then show ?case by (simp only: used_well_rows) (simp add: v list_all_iff)
next
  case Child
  then show ?case using scalar_child by simp
qed (auto split: jsval.splits ts.splits)

lemma used_well_throws [throws]:
  "used_well Child v \<Longrightarrow> \<not> isl (react_text b v)"
  "used_well Textual v \<Longrightarrow> \<exists>s. v = JStr s"
  "used_well Listed v \<Longrightarrow> \<exists>xs. v = JArr xs"
  by (auto split: jsval.splits)

lemma isl_map_sum [simp, throws]: "isl (map_sum f g r) \<longleftrightarrow> isl r"
  by (cases r) simp_all

lemma isl_DataTable:
  "isl (DataTable rows cols key) \<longleftrightarrow> list_ex (\<lambda>r. isl (key r) \<or> list_ex (\<lambda>c. isl (render c r)) cols) rows"
proof -
  have some: "isl r \<or> (\<exists>x. r = Inr x) \<and> P \<longleftrightarrow> isl r \<or> P" for r :: "thrown + string" and P by (cases r) simp_all
  show ?thesis by (cases "rows = []") (simp_all add: DataTable_def isl_and_then isl_each some)
qed

lemma isl_list_view [throws]:
  "isl (list_view t busy err q content) \<longleftrightarrow> truthy (queryData q) \<and> isl (content (queryData q))"
  by (simp add: list_view_def isl_and_then)

lemma isl_one_table [throws]: "isl (one_table h t) \<longleftrightarrow> isl t"
  by (simp add: one_table_def isl_and_then)

definition page_type :: "string \<Rightarrow> ts" where
  "page_type n = (case map_of page_queries n of Some (d, t) \<Rightarrow> answer_type d t | None \<Rightarrow> TsUnknown)"

text \<open>The rows an answer has under a name.\<close>

definition list_of :: "jsval \<Rightarrow> string \<Rightarrow> jsval list" where
  "list_of v k = (case getProp (getProp v k) ''items'' of JArr xs \<Rightarrow> xs | _ \<Rightarrow> [])"

definition list_usage :: "string \<Rightarrow> (string \<times> usage) list \<Rightarrow> string \<times> usage" where
  "list_usage k us = (k, Row [(''items'', Rows us)])"

lemma answer_rows:
  assumes "conforms t v" "usable (Row ls) (Some t)" "list_usage k us \<in> set ls"
  shows "rows_of v k = Inr (list_of v k)" "list_all (good_row us) (list_of v k)" "truthy v"
proof -
  have "good_row ls v" using usable_used_well [OF assms(1,2)] by (simp only: used_well_rows)
  then obtain qs where v: "v = JObj qs" and l: "used_well (Row [(''items'', Rows us)]) (getProp v k)"
    using assms(3) by (auto simp: good_row_def list_usage_def list_all_iff simp del: used_well.simps)
  from l obtain rs rows where r: "getProp v k = JObj rs" "getProp (getProp v k) ''items'' = JArr rows" "list_all (good_row us) rows"
    unfolding used_well_rows good_row_def [of "[(''items'', Rows us)]"]
    by (auto simp: used_well_rows simp del: used_well.simps)
  then show "rows_of v k = Inr (list_of v k)" "list_all (good_row us) (list_of v k)" "truthy v"
    using v by (simp_all add: rows_of_def list_of_def)
qed

text \<open>What the cells of a row throw.\<close>

lemma good_row_member [throws]: "good_row us r \<Longrightarrow> member r k = Inr (getProp r k)"
  by (auto simp: good_row_def)

lemma good_row_used: "good_row us r \<Longrightarrow> (k, u) \<in> set us \<Longrightarrow> used_well u (getProp r k)"
  by (auto simp: good_row_def list_all_iff)

lemma good_row_text: "good_row us r \<Longrightarrow> (k, Textual) \<in> set us \<Longrightarrow> \<exists>s. getProp r k = JStr s"
  using good_row_used used_well_throws(2) by blast

lemma text_or_child: "used_well Child v \<Longrightarrow> \<not> isl (react_text b (nullish_else v (JStr d)))"
  by (auto simp: nullish_else_def split: jsval.splits)

lemma cells_throw [throws]:
  assumes "good_row us r"
  shows "(k, Child) \<in> set us \<Longrightarrow> \<not> isl (field_cell b k r)"
    "(k, Child) \<in> set us \<Longrightarrow> \<not> isl (field_or b k d r)"
    "\<not> isl (date_cell b k r)" "\<not> isl (date_or_never b k r)" "\<not> isl (active_cell r)" "\<not> isl (state_cell good bad r)"
    "\<not> isl (key_of k r)" "\<not> isl (money_cell b k r)"
  using good_row_member [OF assms] good_row_used [OF assms, of k Child]
  by (simp_all add: field_cell_def field_or_def date_cell_def date_or_never_def active_cell_def state_cell_def key_of_def
      money_cell_def child_def used_well_throws text_or_child formatCents_def Let_def currency_code_def latin_letter_def
      del: react_text.simps used_well.simps)

lemma good_rows_throw:
  assumes "list_all (good_row us) rows" "\<And>r. good_row us r \<Longrightarrow> \<not> isl (key r) \<and> list_all (\<lambda>c. \<not> isl (render c r)) cols"
  shows "\<not> isl (DataTable rows cols key)"
  using assms by (auto simp: isl_DataTable list_ex_iff list_all_iff)

lemma isl_rows:
  assumes "list_all (good_row us) rows"
    and "\<And>r. good_row us r \<Longrightarrow> isl (key r) \<or> list_ex (\<lambda>c. isl (render c r)) cols \<longleftrightarrow> bad r"
  shows "isl (DataTable rows cols key) \<longleftrightarrow> list_ex bad rows"
  using assms by (auto simp: isl_DataTable list_ex_iff list_all_iff)

lemma isl_two_tables:
  "isl (and_then t1 (\<lambda>x. and_then t2 (\<lambda>y. Inr (f x y)))) \<longleftrightarrow> isl t1 \<or> isl t2" for t1 t2 :: "thrown + table"
  by (cases t1; cases t2) simp_all

lemma render_col [simp, throws]: "render (col k h r) = r"
  by (simp add: col_def)

lemma read_cell [throws]: "good_row us r \<Longrightarrow> isl (and_then (member r k) f) \<longleftrightarrow> isl (f (getProp r k))"
  by (simp add: good_row_member)

lemma length_cell [throws]:
  "good_row us r \<Longrightarrow> (k, Listed) \<in> set us \<Longrightarrow> \<not> isl (and_then (js_length (getProp r k)) (child b))"
  using good_row_used [of us r k Listed] used_well_throws(3) [of "getProp r k"] by (auto simp: child_def)

lemma slice_cell [throws]:
  assumes "good_row us r" "(k, Textual) \<in> set us"
  shows "isl (and_then (js_slice n (getProp r k)) f) \<longleftrightarrow> isl (f (JStr (take n (str_of (getProp r k)))))"
  using good_row_text [OF assms] by auto

lemma chosen_cell [throws]:
  "good_row us r \<Longrightarrow> (k, Child) \<in> set us \<Longrightarrow> \<not> isl (child b v) \<Longrightarrow> \<not> isl (child b (nullish_else (getProp r k) v))"
  "\<not> isl (child b (JStr s))"
  using used_well_throws(1) [OF good_row_used [of us r k Child]] by (simp_all add: child_def nullish_else_def)

lemma text_then [throws]: "and_then (react_text b (JStr s)) f = f s"
  by simp

lemma Locations_renders:
  assumes "conforms (page_type ''Locations'') (queryData q)"
  shows "\<not> isl (Locations_view b q)"
proof -
  have "usable (Row [list_usage ''locations'' [(''name'', Child), (''address'', Child), (''timezone'', Child), (''currency'', Child), (''lanes'', Listed)]])
      (Some (page_type ''Locations''))" by code_simp
  note rows = answer_rows [OF assms this, simplified, OF refl]
  show ?thesis
    unfolding Locations_view_def isl_list_view isl_one_table
    by (simp add: rows isl_one_table, rule good_rows_throw [OF rows(2)]) (simp add: throws)
qed

lemma Lanes_renders:
  assumes "conforms (page_type ''Lanes'') (queryData q)"
  shows "\<not> isl (Lanes_view b od q)"
proof -
  have "usable (Row [list_usage ''lanes'' [(''displayName'', Child), (''laneNumber'', Child)]])
      (Some (page_type ''Lanes''))" by code_simp
  note rows = answer_rows [OF assms this, simplified, OF refl]
  show ?thesis
    unfolding Lanes_view_def isl_list_view isl_one_table
    by (simp add: rows isl_one_table, rule good_rows_throw [OF rows(2)]) (simp add: throws)
qed

lemma Kiosks_renders:
  assumes "conforms (page_type ''Kiosks'') (queryData q)"
  shows "\<not> isl (Kiosks_view b fleet q)"
proof -
  have "usable (Row [list_usage ''kiosks'' [(''displayName'', Child)]])
      (Some (page_type ''Kiosks''))" by code_simp
  note rows = answer_rows [OF assms this, simplified, OF refl]
  show ?thesis
    unfolding Kiosks_view_def isl_list_view isl_one_table
    by (simp add: rows isl_one_table, rule good_rows_throw [OF rows(2)]) (simp add: throws)
qed

lemma Inventory_renders:
  assumes "conforms (page_type ''Inventory'') (queryData q)"
  shows "\<not> isl (Inventory_view b q)"
proof -
  have "usable (Row [list_usage ''inventory'' [(''itemName'', Child), (''itemSku'', Child), (''quantityAvailable'', Child), (''quantityReserved'', Child), (''quantityOnOrder'', Child), (''location'', Child)]])
      (Some (page_type ''Inventory''))" by code_simp
  note rows = answer_rows [OF assms this, simplified, OF refl]
  show ?thesis
    unfolding Inventory_view_def isl_list_view isl_one_table
    by (simp add: rows isl_one_table, rule good_rows_throw [OF rows(2)]) (simp add: throws Let_def)
qed

lemma AuditLogs_renders:
  assumes "conforms (page_type ''AuditLogs'') (queryData q)"
  shows "\<not> isl (AuditLogs_view b q)"
proof -
  have "usable (Row [list_usage ''auditLogs''
      [(''eventType'', Child), (''actorName'', Child), (''employeeId'', Child), (''userId'', Child), (''kioskId'', Child),
       (''entityId'', Textual), (''currentHash'', Textual)]]) (Some (page_type ''AuditLogs''))" by code_simp
  note rows = answer_rows [OF assms this, simplified, OF refl]
  show ?thesis
    unfolding AuditLogs_view_def isl_list_view isl_one_table
    by (simp add: rows isl_one_table, rule good_rows_throw [OF rows(2)]) (simp add: throws)
qed

lemma EmployeesRoles_renders:
  assumes "conforms (page_type ''EmployeesRoles'') (queryData q)"
  shows "\<not> isl (EmployeesRoles_view b q)"
proof -
  have "usable (Row [list_usage ''employees'' [(''name'', Child), (''email'', Child), (''roleName'', Child)],
      list_usage ''roles'' [(''name'', Child), (''description'', Child)]]) (Some (page_type ''EmployeesRoles''))" by code_simp
  note rows = answer_rows [OF assms this]
  note es = rows [of "''employees''", simplified, OF disjI1, OF refl] and rs = rows [of "''roles''", simplified, OF disjI2, OF refl]
  show ?thesis
    unfolding EmployeesRoles_view_def isl_list_view
    by (simp add: es rs isl_two_tables)
      (intro impI conjI, rule good_rows_throw [OF es(2)], simp add: throws, rule good_rows_throw [OF rs(2)], simp add: throws)
qed

text \<open>The amounts throw at a code that is none.\<close>

definition bad_currency :: "jsval \<Rightarrow> bool" where
  "bad_currency r \<longleftrightarrow> \<not> currency_code (str_of (getProp r ''currency''))"

lemma currency_cell_throws [throws]:
  assumes "good_row us r" "(''currency'', Textual) \<in> set us"
  shows "isl (currency_cell b r) \<longleftrightarrow> bad_currency r"
  using good_row_text [OF assms] by (auto simp: currency_cell_def good_row_member [OF assms(1)] bad_currency_def isl_formatCents)

lemma card_cell_throws [throws]: "good_row us r \<Longrightarrow> \<not> isl (card_cell b r)"
  by (simp add: card_cell_def good_row_member Let_def)

lemma PaymentsRefunds_throws:
  assumes "conforms (page_type ''PaymentsRefunds'') (queryData q)"
  shows "isl (PaymentsRefunds_view b q) \<longleftrightarrow>
    list_ex bad_currency (list_of (queryData q) ''payments'') \<or> list_ex bad_currency (list_of (queryData q) ''refunds'')"
proof -
  let ?ps = "[(''orderNumber'', Child), (''currency'', Textual)]"
    and ?rs = "[(''orderId'', Textual), (''currency'', Textual), (''reason'', Child), (''processedBy'', Child)]"
  have "usable (Row [list_usage ''payments'' ?ps, list_usage ''refunds'' ?rs]) (Some (page_type ''PaymentsRefunds''))" by code_simp
  note rows = answer_rows [OF assms this]
  note ps = rows [of "''payments''", simplified, OF disjI1, OF refl] and rs = rows [of "''refunds''", simplified, OF disjI2, OF refl]
  show ?thesis
    unfolding PaymentsRefunds_view_def isl_list_view
    by (simp add: ps rs isl_two_tables)
      (intro arg_cong2 [of _ _ _ _ "(\<or>)"], rule isl_rows [OF ps(2)], simp add: throws, rule isl_rows [OF rs(2)], simp add: throws)
qed

text \<open>The count of items is read from a field that the document does not request.\<close>

lemma Orders_throws:
  assumes "conforms (page_type ''Orders'') (queryData q)"
  shows "Orders_view b q = Inl (missing_read JUndefined ''length'') \<longleftrightarrow> list_of (queryData q) ''orders'' \<noteq> []"
    and "isl (Orders_view b q) \<longleftrightarrow> list_of (queryData q) ''orders'' \<noteq> []"
proof -
  let ?us = "[(''orderNumber'', Child), (''kioskDisplayName'', Child), (''itemsJson'', Missing)]"
  have "usable (Row [list_usage ''orders'' ?us]) (Some (page_type ''Orders''))" by code_simp
  note rows = answer_rows [OF assms this, simplified, OF refl]
  have row: "and_then (key_of ''orderId'' r) (\<lambda>k. and_then
      (each (\<lambda>col. render col r)
        [col ''orderNumber'' ''Order'' (field_cell b ''orderNumber''),
         col ''kiosk'' ''Kiosk'' (field_cell b ''kioskDisplayName''),
         col ''status'' ''Status'' (state_cell ''paid'' ''cancelled''),
         col ''total'' ''Total'' (money_cell b ''totalCents''),
         col ''items'' ''Items'' (\<lambda>row. and_then (member row ''itemsJson'') (\<lambda>v. and_then (js_length v) (child b))),
         col ''created'' ''Created'' (date_cell b ''createdAt'')]) (\<lambda>cs. Inr (k, cs))) =
      Inl (missing_read JUndefined ''length'')" if r: "good_row ?us r" for r
  proof -
    have "\<not> isl (key_of ''orderId'' r)" "\<not> isl (field_cell b ''orderNumber'' r)" "\<not> isl (field_cell b ''kioskDisplayName'' r)"
      "\<not> isl (state_cell ''paid'' ''cancelled'' r)" "\<not> isl (money_cell b ''totalCents'' r)"
      using cells_throw [OF r] by simp_all
    then obtain k a c d e where "key_of ''orderId'' r = Inr k" "field_cell b ''orderNumber'' r = Inr a"
      "field_cell b ''kioskDisplayName'' r = Inr c" "state_cell ''paid'' ''cancelled'' r = Inr d"
      "money_cell b ''totalCents'' r = Inr e"
      by (metis isl_def sum.exhaust_sel)
    moreover have "getProp r ''itemsJson'' = JUndefined" using good_row_used [OF r, of "''itemsJson''" Missing] by simp
    ultimately show ?thesis by (simp add: good_row_member [OF r])
  qed
  show "Orders_view b q = Inl (missing_read JUndefined ''length'') \<longleftrightarrow> list_of (queryData q) ''orders'' \<noteq> []"
    "isl (Orders_view b q) \<longleftrightarrow> list_of (queryData q) ''orders'' \<noteq> []"
    using rows row by (cases "list_of (queryData q) ''orders''";
      simp add: Orders_view_def list_view_def one_table_def DataTable_def del: each.simps(2); simp)+
qed

lemma good_row_rows:
  "good_row us r \<Longrightarrow> (k, Rows vs) \<in> set us \<Longrightarrow> \<exists>rows. getProp r k = JArr rows \<and> list_all (good_row vs) rows"
  using good_row_used used_well_rows(2) by blast

lemma good_row_row: "good_row us r \<Longrightarrow> (k, Row vs) \<in> set us \<Longrightarrow> good_row vs (getProp r k)"
  using good_row_used used_well_rows(1) by blast

text \<open>The menu's rows are the items of all categories, each with the name of its category.\<close>

definition item_usage :: "(string \<times> usage) list" where
  "item_usage = [(''name'', Child), (''sku'', Child), (''plu'', Child)]"

definition menu_usage :: "(string \<times> usage) list" where
  "menu_usage =
     [(''menu'', Row
        [(''categories'', Rows [(''name'', Child), (''items'', Rows item_usage)]),
         (''modifierGroups'', Rows [(''name'', Child), (''options'', Rows [(''name'', Child)])])])]"

lemma getProp_update: "getProp (JObj (AList.update k v ps)) j = (if j = k then v else getProp (JObj ps) j)"
  by (simp add: update_conv')

lemma menu_item_row_good:
  assumes "good_row item_usage r" "used_well Child n"
  shows "good_row ((''categoryName'', Child) # item_usage) (menu_item_row n r)"
proof -
  from assms(1) obtain ps where r: "r = JObj ps" by (auto simp: good_row_def)
  then show ?thesis
    using assms unfolding good_row_def menu_item_row_def item_usage_def by (simp add: getProp_update del: getProp.simps used_well.simps)
qed

lemma category_items:
  assumes "good_row [(''name'', Child), (''items'', Rows item_usage)] c"
  obtains rows where "and_then (member c ''items'') (\<lambda>is'. and_then (js_elements is') (\<lambda>is'.
      and_then (member c ''name'') (\<lambda>n. Inr (map (menu_item_row n) is')))) = Inr rows"
    "list_all (good_row ((''categoryName'', Child) # item_usage)) rows"
proof -
  have n: "used_well Child (getProp c ''name'')" by (rule good_row_used [OF assms]) simp
  obtain is' where is': "getProp c ''items'' = JArr is'" "list_all (good_row item_usage) is'"
    using good_row_rows [OF assms, of "''items''" item_usage] by auto
  have "list_all (good_row ((''categoryName'', Child) # item_usage)) (map (menu_item_row (getProp c ''name'')) is')"
    using is'(2) menu_item_row_good [OF _ n] by (simp add: list_all_iff)
  with that is' show thesis by (simp add: good_row_member [OF assms])
qed

lemma each_blocks:
  assumes "list_all p xs" "\<And>x. p x \<Longrightarrow> \<exists>ys. f x = Inr ys \<and> list_all g ys"
  shows "\<exists>yss. each f xs = Inr yss \<and> list_all g (concat yss)"
  using assms(1)
proof (induction xs)
  case (Cons x xs)
  then obtain ys yss where "f x = Inr ys" "list_all g ys" "each f xs = Inr yss" "list_all g (concat yss)"
    using assms(2) [of x] by auto
  then show ?case by simp
qed simp

lemma menu_item_rows_good:
  assumes "good_row [(''categories'', Rows [(''name'', Child), (''items'', Rows item_usage)])] menu"
  obtains rows where "menu_item_rows menu = Inr rows" "list_all (good_row ((''categoryName'', Child) # item_usage)) rows"
proof -
  obtain cs where cs: "getProp menu ''categories'' = JArr cs"
    "list_all (good_row [(''name'', Child), (''items'', Rows item_usage)]) cs"
    using good_row_rows [OF assms, of "''categories''" "[(''name'', Child), (''items'', Rows item_usage)]"] by auto
  have "\<exists>rss. each (\<lambda>c. and_then (member c ''items'') (\<lambda>is'. and_then (js_elements is') (\<lambda>is'.
      and_then (member c ''name'') (\<lambda>n. Inr (map (menu_item_row n) is'))))) cs = Inr rss \<and>
      list_all (good_row ((''categoryName'', Child) # item_usage)) (concat rss)"
    by (rule each_blocks [OF cs(2)], erule category_items, blast)
  with that cs show thesis by (auto simp: menu_item_rows_def good_row_member [OF assms])
qed

lemma option_text_total: "good_row us o' \<Longrightarrow> \<not> isl (option_text b o')"
  by (simp add: option_text_def good_row_member isl_and_then formatCents_def Let_def currency_code_def latin_letter_def)

lemma options_cell [throws]:
  assumes "good_row us r" "(k, Rows os) \<in> set us"
  shows "\<not> isl (and_then (js_elements (getProp r k)) (\<lambda>os. and_then (each (option_text b) os) (\<lambda>ts. Inr (f ts))))"
proof -
  from good_row_rows [OF assms] obtain xs where "getProp r k = JArr xs" "list_all (good_row os) xs" by blast
  then show ?thesis
    by (simp add: good_row_member [OF assms(1)] isl_and_then isl_each list_ex_iff list_all_iff)
      (meson option_text_total)
qed

lemma good_row_weaken: "good_row us r \<Longrightarrow> set vs \<subseteq> set us \<Longrightarrow> good_row vs r"
  by (auto simp: good_row_def list_all_iff)

lemma Menu_renders:
  assumes "conforms (page_type ''Menu'') (queryData q)"
  shows "\<not> isl (Menu_view b q)"
proof -
  let ?gs = "[(''name'', Child), (''options'', Rows [(''name'', Child)])]"
  have "usable (Row menu_usage) (Some (page_type ''Menu''))" by code_simp
  with assms have d: "good_row menu_usage (queryData q)" using usable_used_well used_well_rows(1) by blast
  let ?menu = "getProp (queryData q) ''menu''"
  have m: "good_row [(''categories'', Rows [(''name'', Child), (''items'', Rows item_usage)]), (''modifierGroups'', Rows ?gs)] ?menu"
    by (rule good_row_row [OF d]) (simp add: menu_usage_def)
  obtain items where items: "menu_item_rows ?menu = Inr items"
    "list_all (good_row ((''categoryName'', Child) # item_usage)) items"
    by (rule menu_item_rows_good [OF good_row_weaken [OF m]]) simp
  obtain groups where groups: "getProp ?menu ''modifierGroups'' = JArr groups" "list_all (good_row ?gs) groups"
    using good_row_rows [OF m, of "''modifierGroups''" ?gs] by auto
  show ?thesis
    unfolding Menu_view_def isl_list_view
    by (simp add: good_row_member [OF d] good_row_member [OF m] items groups isl_two_tables)
      (intro impI conjI, rule good_rows_throw [OF items(2)], simp add: throws item_usage_def,
       rule good_rows_throw [OF groups(2)], simp add: throws)
qed

lemma Dashboard_renders: "\<not> isl (Dashboard_view b fleet q)"
  by (simp add: Dashboard_view_def Let_def formatCents_def currency_code_def latin_letter_def)

section \<open>Which pages survive their answers\<close>

text \<open>The answers at which a page throws.\<close>

definition page_fails_at :: "string \<Rightarrow> jsval \<Rightarrow> bool" where
  "page_fails_at n v \<longleftrightarrow>
     n = ''Orders'' \<and> list_of v ''orders'' \<noteq> [] \<or>
     n = ''PaymentsRefunds'' \<and> (list_ex bad_currency (list_of v ''payments'') \<or> list_ex bad_currency (list_of v ''refunds''))"

text \<open>
  C37. Every page of the console shows every answer its document can have, with two exceptions: the payments page throws at an
  amount whose currency is no code, and the orders page throws as soon as there is one order, because it counts a field,
  \<open>itemsJson\<close>, that the document does not request.
\<close>

theorem admin_pages_render:
  assumes "n \<in> fst ` set page_queries" "conforms (page_type n) (queryData q)"
  shows "isl (admin_screen c n q) \<longleftrightarrow> page_fails_at n (queryData q)"
proof -
  have "n \<in> set (map fst page_queries)" using assms(1) by simp
  then have n: "n \<in> set [''Dashboard'', ''Locations'', ''Lanes'', ''Kiosks'', ''Menu'', ''Inventory'', ''Orders'',
      ''PaymentsRefunds'', ''EmployeesRoles'', ''AuditLogs'']"
    by (simp add: page_queries_def)
  then show ?thesis
    using assms(2) unfolding list.set
    by (elim insertE emptyE)
      (simp_all add: admin_screen_def page_fails_at_def Dashboard_renders Locations_renders Lanes_renders Kiosks_renders
        Menu_renders Inventory_renders Orders_throws PaymentsRefunds_throws EmployeesRoles_renders AuditLogs_renders)
qed

text \<open>An answer with one order, as the document requests it.\<close>

definition sample_orders :: jsval where
  "sample_orders = JObj [(''orders'', JObj
     [(''items'', JArr [JObj
        [(''__typename'', JStr ''Order''), (''orderId'', JStr ''o1''), (''storeId'', JStr ''s1''), (''kioskId'', JStr ''k1''),
         (''cartId'', JStr ''c1''), (''orderNumber'', JStr ''A-1''), (''status'', JStr ''paid''), (''subtotalCents'', JNum 1000),
         (''taxCents'', JNum 70), (''discountCents'', JNum 0), (''totalCents'', JNum 1070),
         (''paidAt'', JStr ''2026-01-01T00:00:00Z''), (''fulfilledAt'', JNull), (''createdAt'', JStr ''2026-01-01T00:00:00Z''),
         (''kioskDisplayName'', JStr ''Lane 1'')]]),
      (''totalCount'', JNum 1)])]"

definition answered :: "jsval \<Rightarrow> query_result" where
  "answered v = \<lparr>queryData = v, queryLoading = False, queryFailed = False\<rparr>"

definition plain_context :: page_context where
  "plain_context =
     \<lparr>intlOf = \<lparr>moneyText = \<lambda>code q. code, dateText = \<lambda>v. str_of v, numberText = \<lambda>q. [], numberOf = \<lambda>s. 0\<rparr>,
      ownDate = str_of, fleetOf = \<lparr>fleetData = None, fleetLoading = False, fleetError = False\<rparr>\<rparr>"

lemma sample_orders_conform: "conforms (page_type ''Orders'') sample_orders"
  by code_simp

theorem admin_pages_render_witness: "isl (admin_screen plain_context ''Orders'' (answered sample_orders))"
proof -
  have "''Orders'' \<in> fst ` set page_queries" "page_fails_at ''Orders'' sample_orders"
    by (simp_all add: page_queries_def) code_simp
  then show ?thesis
    using admin_pages_render [of "''Orders''" "answered sample_orders" plain_context] sample_orders_conform
    by (simp add: answered_def)
qed

section \<open>The boundary around the console\<close>

text \<open>
  \<open>ErrorBoundary.tsx\<close>: what it keeps and shows for what its children do, and \<open>Retry\<close>, after which the children are rendered
  anew. It is around the whole application, navigation included.
\<close>

datatype 'a boundary_view = Fallback string | Shown 'a

fun thrown_message :: "thrown \<Rightarrow> string" where
  "thrown_message (ThrownError e) = errMessage e"
| "thrown_message (ThrownOther _) = []"

definition ErrorBoundary :: "thrown option \<Rightarrow> thrown + 'a \<Rightarrow> thrown option \<times> 'a boundary_view" where
  "ErrorBoundary err children =
     (case err of
        Some e \<Rightarrow> (Some e, Fallback (thrown_message e))
      | None \<Rightarrow>
          (case children of
             Inl e \<Rightarrow> (Some e, Fallback (thrown_message e))
           | Inr x \<Rightarrow> (None, Shown x)))"

definition boundary_retry :: "thrown option \<Rightarrow> thrown option" where
  "boundary_retry err = None"

text \<open>A session at one path: the first rendering, and one after each \<open>Retry\<close>, with the answer the page then has.\<close>

fun boundary_session :: "thrown option \<Rightarrow> (thrown + 'a) list \<Rightarrow> 'a boundary_view list" where
  "boundary_session err [] = []"
| "boundary_session err (r # rs) =
     (let (err', v) = ErrorBoundary err r in v # boundary_session (boundary_retry err') rs)"

lemma boundary_session_views: "boundary_session None rs = map (\<lambda>r. snd (ErrorBoundary None r)) rs"
  by (induction rs) (simp_all add: boundary_retry_def split: prod.split)

lemma orders_fail: "conforms (page_type ''Orders'') (queryData q) \<Longrightarrow> list_of (queryData q) ''orders'' \<noteq> [] \<Longrightarrow>
    admin_screen c ''Orders'' q = Inl (missing_read JUndefined ''length'')"
  using Orders_throws(1) [of q "intlOf c"] by (simp add: admin_screen_def)

text \<open>
  With an order in the shop, the path of the orders shows the boundary's fallback in place of the console, and shows it again
  after every \<open>Retry\<close>.
\<close>

theorem orders_page_never_recovers:
  assumes "list_all (\<lambda>q. conforms (page_type ''Orders'') (queryData q) \<and> list_of (queryData q) ''orders'' \<noteq> []) qs"
  shows "boundary_session None (map (admin_screen c ''Orders'') qs) =
    replicate (length qs)
      (Fallback (''Cannot read properties of undefined (reading '' @ [CHR 0x27] @ ''length'' @ [CHR 0x27] @ '')''))"
proof -
  have "snd (ErrorBoundary None (admin_screen c ''Orders'' q)) =
      Fallback (''Cannot read properties of undefined (reading '' @ [CHR 0x27] @ ''length'' @ [CHR 0x27] @ '')'')"
    if "q \<in> set qs" for q
    using assms that by (simp add: list_all_iff orders_fail ErrorBoundary_def missing_read_def type_error_def mk_error_def)
  then show ?thesis
    unfolding boundary_session_views by (simp add: map_replicate_const [symmetric] comp_def cong: map_cong)
qed

section \<open>What the documents keep to themselves\<close>

fun shape_fields :: "shape \<Rightarrow> string list" where
  "shape_fields Leaf = []"
| "shape_fields (Node fs) = concat (map (\<lambda>p. fst p # shape_fields (snd p)) fs)"

text \<open>
  Every field that a document requests is one its type declares, and no document requests a credential: the biometric hash and
  the key of an employee, the token and the authorization of a payment, or the signature of an offline token.
\<close>

theorem documents_request_declared_fields:
  "list_all (\<lambda>(n, d, t).
     document_valid d \<and> undeclared t (document_shape d) = [] \<and>
     list_all (\<lambda>k. k \<notin> set [''biometricHash'', ''webauthnCredentialId'', ''webauthnPublicKey'', ''verifoneToken'',
       ''verifoneAuthCode'', ''offlineTokenHmac'']) (shape_fields (document_shape d))) page_queries"
  by code_simp

text \<open>
  The fields that the types of the answers promise and the documents leave out; the only one that a page reads is the first
  of the orders'.
\<close>

theorem promised_fields_left_out:
  "left_out (document_shape LIST_ORDERS) (TsObject [(''orders'', AdminListResponse_type OrderWithKiosk_type)]) =
     map (\<lambda>k. [''orders'', ''items'', k]) [''itemsJson'', ''taxBreakdownJson'', ''metadata'', ''cancelledAt'']"
  "left_out (document_shape LIST_EMPLOYEES_AND_ROLES)
     (TsObject [(''employees'', AdminListResponse_type EmployeeWithRole_type), (''roles'', AdminListResponse_type Role_type)]) =
     map (\<lambda>k. [''employees'', ''items'', k])
       [''biometricHash'', ''webauthnCredentialId'', ''webauthnPublicKey'', ''updatedAt'', ''deletedAt'']"
  by code_simp+

section \<open>The health of the fleet\<close>

text \<open>The card is green exactly when every node is healthy, and counts no more healthy nodes than there are.\<close>

theorem fleet_card_colour:
  assumes "fleet = Some f" "nodes f \<noteq> []"
  shows "healthyCount fleet \<le> totalNodes fleet \<and>
    kpiValue (fleet_card b fleet) = nat_digits (healthyCount fleet) @ ''/'' @ nat_digits (totalNodes fleet) \<and>
    (snd (the (kpiTrend (fleet_card b fleet))) = ''text-success'' \<longleftrightarrow> (\<forall>n \<in> set (nodes f). health n = healthy))"
proof -
  let ?h = "filter (\<lambda>n. health n = healthy) (nodes f)"
  have n: "0 < totalNodes fleet" using assms by (simp add: totalNodes_def)
  have "length ?h = length (nodes f) \<longleftrightarrow> (\<forall>n \<in> set (nodes f). health n = healthy)"
    by (metis (mono_tags, lifting) filter_True filter_id_conv length_filter_less linorder_neq_iff)
  moreover obtain c cs where "formatPercent b 1 (Some (fl_div (of_nat (healthyCount fleet)) (of_nat (totalNodes fleet)))) @ '' healthy'' = c # cs"
    by (cases "formatPercent b 1 (Some (fl_div (of_nat (healthyCount fleet)) (of_nat (totalNodes fleet))))") auto
  ultimately show ?thesis
    using n assms by (simp add: fleet_card_def Let_def KpiCard_def healthyCount_def totalNodes_def)
qed

end
