(* ===== verification/AdminShell.thy ===== *)
theory AdminShell
  imports AdminConsole
begin

text \<open>
  What surrounds the pages of the admin console: the sidebar of \<open>components/Layout.tsx\<close>, the theme of
  \<open>hooks/useTheme.ts\<close> with the buttons of \<open>components/ThemeToggle.tsx\<close>, and the headers of \<open>lib/apollo.ts\<close>. The hook is mounted
  with its buttons, which are in the sidebar.
\<close>

section \<open>The theme\<close>

datatype Theme = Light | Dark | System

fun theme_text :: "Theme \<Rightarrow> string" where
  "theme_text Light = ''light''"
| "theme_text Dark = ''dark''"
| "theme_text System = ''system''"

text \<open>The theme that the buttons have; \<open>darkMedia\<close> is what the media query for a dark scheme answers.\<close>

definition resolveTheme :: "bool \<Rightarrow> Theme \<Rightarrow> string" where
  "resolveTheme darkMedia t = (if t = System then if darkMedia then ''dark'' else ''light'' else theme_text t)"

definition stored_theme :: "string option \<Rightarrow> Theme" where
  "stored_theme stored =
     (if stored = Some ''light'' then Light else if stored = Some ''dark'' then Dark else System)"

text \<open>
  The state: the entry \<open>astra-admin-theme\<close> of the local storage, the system's preference, the sidebar, the theme of the mounted
  buttons, whether the hook listens to the system, and the class and the attribute of the document.
\<close>

record console_shell =
  saved :: "string option"
  darkMedia :: bool
  sidebar :: bool
  theme :: "Theme option"
  listening :: bool
  darkClass :: bool
  dataTheme :: "string option"

definition paint :: "string \<Rightarrow> console_shell \<Rightarrow> console_shell" where
  "paint resolved s = s\<lparr>darkClass := resolved = ''dark'', dataTheme := Some resolved\<rparr>"

text \<open>Both effects of the hook, after the theme was set or the hook mounted.\<close>

definition theme_effects :: "Theme \<Rightarrow> console_shell \<Rightarrow> console_shell" where
  "theme_effects t s =
     (paint (resolveTheme (darkMedia s) t) s)\<lparr>saved := Some (theme_text t), listening := t = System\<rparr>"

definition mount_toggle :: "console_shell \<Rightarrow> console_shell" where
  "mount_toggle s = (let t = stored_theme (saved s) in theme_effects t (s\<lparr>theme := Some t\<rparr>))"

text \<open>On leaving, the hook stops listening.\<close>

definition unmount_toggle :: "console_shell \<Rightarrow> console_shell" where
  "unmount_toggle s = s\<lparr>theme := None, listening := False\<rparr>"

definition setTheme :: "Theme \<Rightarrow> console_shell \<Rightarrow> console_shell" where
  "setTheme t s =
     (case theme s of
        None \<Rightarrow> s
      | Some cur \<Rightarrow> if t = cur then s else theme_effects t (s\<lparr>theme := Some t\<rparr>))"

definition media_changed :: "bool \<Rightarrow> console_shell \<Rightarrow> console_shell" where
  "media_changed dark s =
     (let s' = s\<lparr>darkMedia := dark\<rparr> in
      if listening s then paint (if dark then ''dark'' else ''light'') s' else s')"

section \<open>The layout\<close>

text \<open>The button of the sidebar, which mounts the theme buttons with it.\<close>

definition toggle_sidebar :: "console_shell \<Rightarrow> console_shell" where
  "toggle_sidebar s =
     (if sidebar s then unmount_toggle (s\<lparr>sidebar := False\<rparr>) else mount_toggle (s\<lparr>sidebar := True\<rparr>))"

text \<open>Each page has a layout of its own, which starts open.\<close>

definition open_page :: "console_shell \<Rightarrow> console_shell" where
  "open_page s = mount_toggle ((unmount_toggle s)\<lparr>sidebar := True\<rparr>)"

text \<open>The entries of the navigation, while the sidebar is open.\<close>

definition sidebar_entries :: "AuthContext \<Rightarrow> console_shell \<Rightarrow> string list" where
  "sidebar_entries c s = (if sidebar s then Nav c else [])"

datatype console_event = SetTheme Theme | MediaChanged bool | ToggleSidebar | OpenPage

fun console_step :: "console_event \<Rightarrow> console_shell \<Rightarrow> console_shell" where
  "console_step (SetTheme t) s = setTheme t s"
| "console_step (MediaChanged dark) s = media_changed dark s"
| "console_step ToggleSidebar s = toggle_sidebar s"
| "console_step OpenPage s = open_page s"

definition console_start :: "string option \<Rightarrow> bool \<Rightarrow> console_shell" where
  "console_start stored dark =
     mount_toggle \<lparr>saved = stored, darkMedia = dark, sidebar = True, theme = None, listening = False,
       darkClass = False, dataTheme = None\<rparr>"

text \<open>
  The theme is saved; the class and the attribute of the document agree; and while the sidebar is open they show the chosen
  theme under the current preference of the system.
\<close>

definition console_inv :: "console_shell \<Rightarrow> bool" where
  "console_inv s \<longleftrightarrow>
     (let t = stored_theme (saved s) in
      saved s = Some (theme_text t) \<and> (listening s \<longleftrightarrow> theme s = Some System) \<and>
      dataTheme s = Some (if darkClass s then ''dark'' else ''light'') \<and>
      theme s = (if sidebar s then Some t else None) \<and>
      (sidebar s \<or> t \<noteq> System \<longrightarrow> dataTheme s = Some (resolveTheme (darkMedia s) t)))"

lemma stored_theme_text [simp]: "stored_theme (Some (theme_text t)) = t"
  by (cases t) (simp_all add: stored_theme_def)

lemma resolved_dark: "resolveTheme d t = (if resolveTheme d t = ''dark'' then ''dark'' else ''light'')"
  by (cases t) (simp_all add: resolveTheme_def)

lemma effects_inv: "sidebar s \<Longrightarrow> console_inv (theme_effects t (s\<lparr>theme := Some t\<rparr>))"
  using resolved_dark [of "darkMedia s" t] by (simp add: console_inv_def theme_effects_def paint_def Let_def)

lemma mount_toggle_inv: "sidebar s \<Longrightarrow> console_inv (mount_toggle s)"
  by (simp add: mount_toggle_def Let_def effects_inv)

lemma mounted_open: "console_inv s \<Longrightarrow> theme s = Some t \<Longrightarrow> sidebar s"
  by (auto simp: console_inv_def Let_def split: if_splits)

lemma setTheme_inv: "console_inv s \<Longrightarrow> console_inv (setTheme t s)"
  using mounted_open by (auto simp: setTheme_def effects_inv split: option.split)

lemma media_changed_inv: "console_inv s \<Longrightarrow> console_inv (media_changed d s)"
  by (cases "listening s")
    (auto simp: media_changed_def paint_def console_inv_def Let_def resolveTheme_def split: if_splits)

lemma close_inv: "console_inv s \<Longrightarrow> console_inv (unmount_toggle (s\<lparr>sidebar := False\<rparr>))"
  by (auto simp: unmount_toggle_def console_inv_def Let_def)

interpretation consoles: free_event_system console_step console_inv
proof
  show "console_inv s \<Longrightarrow> console_inv (console_step e s)" for s e
    by (cases e) (simp_all add: setTheme_inv media_changed_inv close_inv mount_toggle_inv toggle_sidebar_def open_page_def)
qed

text \<open>
  However themes are chosen, the system's preference changes, the sidebar is closed and opened and pages are visited: while the
  sidebar is open the document has the theme that the buttons show as chosen, followed by the system's preference, and that
  theme is the saved one, which the next start takes over.
\<close>

theorem document_shows_chosen_theme:
  fixes es :: "console_event list" and stored :: "string option" and dark :: bool
  defines "s \<equiv> fold console_step es (console_start stored dark)"
  assumes "sidebar s"
  shows "\<exists>t. theme s = Some t \<and> dataTheme s = Some (resolveTheme (darkMedia s) t) \<and>
    (darkClass s \<longleftrightarrow> resolveTheme (darkMedia s) t = ''dark'') \<and> theme (console_start (saved s) d) = Some t"
proof -
  have "console_inv (console_start stored dark)" by (simp add: console_start_def mount_toggle_inv)
  then have "console_inv s" unfolding s_def by (rule consoles.run)
  then show ?thesis
    using assms(2) resolved_dark [of "darkMedia s" "stored_theme (saved s)"]
    by (simp add: console_inv_def Let_def console_start_def mount_toggle_def theme_effects_def paint_def split: if_splits)
qed

text \<open>
  With the sidebar closed the hook is gone, and a system that turns dark leaves the document light, though the chosen theme is
  the system's.
\<close>

theorem closed_sidebar_ignores_system:
  "dataTheme (fold console_step [ToggleSidebar, MediaChanged True] (console_start (Some ''system'') False)) = Some ''light'' \<and>
   saved (fold console_step [ToggleSidebar, MediaChanged True] (console_start (Some ''system'') False)) = Some ''system'' \<and>
   dataTheme (fold console_step [ToggleSidebar, MediaChanged True, ToggleSidebar] (console_start (Some ''system'') False)) =
     Some ''dark''"
  by code_simp

section \<open>The headers of a request\<close>

definition admin_uri :: "(string \<Rightarrow> string option) \<Rightarrow> string" where
  "admin_uri env = (case env ''VITE_ADMIN_GRAPHQL_URL'' of Some u \<Rightarrow> u | None \<Rightarrow> ''http://localhost:8080/v1/admin/graphql'')"

text \<open>\<open>authLink\<close>: the headers of the context, with the stored token or an empty authorization.\<close>

definition auth_headers :: "(string \<Rightarrow> string option) \<Rightarrow> (string \<times> string) list \<Rightarrow> (string \<times> string) list" where
  "auth_headers storage hs =
     AList.update ''authorization''
       (case storage ''astra-admin-token'' of
          Some (c # cs) \<Rightarrow> ''Bearer '' @ c # cs
        | _ \<Rightarrow> []) hs"

text \<open>The token is sent when there is one, and no other header changes.\<close>

lemma auth_headers_token:
  "map_of (auth_headers storage hs) k =
     (if k = ''authorization''
      then Some (case storage ''astra-admin-token'' of Some (c # cs) \<Rightarrow> ''Bearer '' @ c # cs | _ \<Rightarrow> [])
      else map_of hs k)"
  by (simp add: auth_headers_def update_conv')

end
