(* ===== verification/Accessibility.thy ===== *)
theory Accessibility
  imports JsValues
begin

text \<open>
  The keyboard and screen-reader support of the design system, \<open>packages/design-system/src/utils/a11y.ts\<close>: the announcer and
  the focus trap, with the dialog that is built on it (\<open>components/Modal.tsx\<close>) and the toast that announces itself
  (\<open>components/Toast.tsx\<close>). The order in which the browser moves the focus is a parameter.
\<close>

section \<open>Announcements\<close>

datatype priority = polite | assertive

text \<open>The live region once it exists, and the texts that wait for the next frame.\<close>

record announcer =
  region :: "(priority \<times> string) option"
  frames :: "string list"

definition announce :: "string \<Rightarrow> priority \<Rightarrow> announcer \<Rightarrow> announcer" where
  "announce message p a =
     (let r = (case region a of None \<Rightarrow> (p, '''') | Some r \<Rightarrow> r) in
      \<lparr>region = Some (fst r, ''''), frames = frames a @ [message]\<rparr>)"

text \<open>A frame runs the callbacks in order.\<close>

definition next_frame :: "announcer \<Rightarrow> announcer" where
  "next_frame a =
     (case region a of
        None \<Rightarrow> a\<lparr>frames := []\<rparr>
      | Some r \<Rightarrow> \<lparr>region = Some (fst r, if frames a = [] then snd r else last (frames a)), frames = []\<rparr>)"

text \<open>A frame shows the last text announced before it, at the priority of the very first announcement.\<close>

theorem first_priority_stays:
  "next_frame (fold (\<lambda>(msg, p). announce msg p) ((m, p) # ms) \<lparr>region = None, frames = []\<rparr>) =
     \<lparr>region = Some (p, last (map fst ((m, p) # ms))), frames = []\<rparr>"
proof -
  have all: "fold (\<lambda>(msg, p). announce msg p) ms \<lparr>region = Some (p, ''''), frames = fs\<rparr> =
      \<lparr>region = Some (p, ''''), frames = fs @ map fst ms\<rparr>" for fs
  proof (induction ms arbitrary: fs)
    case (Cons a ms)
    then show ?case by (cases a) (simp add: announce_def)
  qed simp
  show ?thesis by (simp add: announce_def all next_frame_def)
qed

section \<open>The focus trap\<close>

text \<open>
  An element of the dialog; \<open>tabIndex\<close> is the property, which the attribute of the same name may set, and \<open>displayed\<close> says
  whether the browser lets the element have the focus, which it does not when the style sheet hides it.
\<close>

record element =
  elementId :: nat
  tag :: string
  tabIndex :: int
  attributes :: "(string \<times> string) list"
  displayed :: bool

definition getAttribute :: "element \<Rightarrow> string \<Rightarrow> string option" where
  "getAttribute el k = map_of (attributes el) k"

text \<open>\<open>FOCUSABLE_SELECTOR\<close>.\<close>

definition matches_selector :: "element \<Rightarrow> bool" where
  "matches_selector el \<longleftrightarrow>
     tag el \<in> set [''button'', ''input'', ''select'', ''textarea''] \<or> getAttribute el ''href'' \<noteq> None \<or>
     (getAttribute el ''tabindex'' \<noteq> None \<and> getAttribute el ''tabindex'' \<noteq> Some ''-1'')"

text \<open>
  A trap: the descendants of its element in the order of the document, the attributes it sets on the element, whether it
  listens, the element with the focus, and the calls of \<open>onEscape\<close> so far, where the option names the callback.
\<close>

record focus_trap =
  content :: "element list"
  roleAttr :: "string option"
  modalAttr :: "string option"
  active :: bool
  focused :: "nat option"
  onEscape :: "nat option"
  initialFocus :: "nat option"
  escapeCalls :: "nat list"

definition getFocusable :: "focus_trap \<Rightarrow> element list" where
  "getFocusable t =
     filter (\<lambda>el. 0 \<le> tabIndex el \<and> getAttribute el ''disabled'' = None \<and> getAttribute el ''aria-hidden'' \<noteq> Some ''true'')
       (filter matches_selector (content t))"

record key_event =
  key :: string
  shiftKey :: bool

text \<open>The method \<open>focus()\<close> of an element.\<close>

definition give_focus :: "nat \<Rightarrow> focus_trap \<Rightarrow> focus_trap" where
  "give_focus i t = 
     (case find (\<lambda>el. elementId el = i) (content t) of
        None \<Rightarrow> t\<lparr>focused := Some i\<rparr>
      | Some el \<Rightarrow> if displayed el then t\<lparr>focused := Some i\<rparr> else t)"

text \<open>What the handler does, and whether it prevents the browser's own reaction.\<close>

definition onKeyDown :: "key_event \<Rightarrow> focus_trap \<Rightarrow> bool \<times> focus_trap" where
  "onKeyDown e t =
     (case (if key e = ''Escape'' then onEscape t else None) of
        Some cb \<Rightarrow> (True, t\<lparr>escapeCalls := escapeCalls t @ [cb]\<rparr>)
      | None \<Rightarrow>
          if key e \<noteq> ''Tab'' then (False, t)
          else
            (let fs = map elementId (getFocusable t) in
             if fs = [] then (True, t)
             else if shiftKey e \<and> focused t = Some (hd fs) then (True, give_focus (last fs) t)
             else if \<not> shiftKey e \<and> focused t = Some (last fs) then (True, give_focus (hd fs) t)
             else (False, t)))"

definition activate :: "focus_trap \<Rightarrow> focus_trap" where
  "activate t =
     (if active t then t
      else
        (let target = (case initialFocus t of
             Some i \<Rightarrow> Some i
           | None \<Rightarrow> (case getFocusable t of [] \<Rightarrow> None | el # _ \<Rightarrow> Some (elementId el)))
         in (case target of None \<Rightarrow> (\<lambda>t. t) | Some i \<Rightarrow> give_focus i)
              (t\<lparr>active := True, roleAttr := Some ''dialog'', modalAttr := Some ''true''\<rparr>)))"

definition deactivate :: "focus_trap \<Rightarrow> focus_trap" where
  "deactivate t = (if \<not> active t then t else t\<lparr>active := False, roleAttr := None, modalAttr := None\<rparr>)"

text \<open>
  A key: the event reaches the handler from inside the element, and what it does not prevent the browser does, which moves the
  focus for the tabulator key.
\<close>

definition press_key :: "(bool \<Rightarrow> nat option \<Rightarrow> nat option) \<Rightarrow> key_event \<Rightarrow> focus_trap \<Rightarrow> focus_trap" where
  "press_key move e t =
     (let inside = focused t \<in> Some ` elementId ` set (content t);
          r = (if active t \<and> inside then onKeyDown e t else (False, t)) in
      if \<not> fst r \<and> key e = ''Tab'' then (snd r)\<lparr>focused := move (shiftKey e) (focused t)\<rparr> else snd r)"

definition tab_key :: "bool \<Rightarrow> key_event" where
  "tab_key shift = \<lparr>key = ''Tab'', shiftKey = shift\<rparr>"

text \<open>
  Where the browser itself takes the focus: forth and back in the order of the page's stops of the tabulator key, and past the
  ends of it into the browser's own bars.
\<close>

definition tab_to :: "nat list \<Rightarrow> bool \<Rightarrow> nat option \<Rightarrow> nat option" where
  "tab_to page shift f =
     (case f of
        None \<Rightarrow> None
      | Some i \<Rightarrow> if shift then map_of (zip (tl page) page) i else map_of (zip page (tl page)) i)"

definition press_tabs :: "nat list \<Rightarrow> bool list \<Rightarrow> focus_trap \<Rightarrow> focus_trap" where
  "press_tabs page shifts t = fold (\<lambda>shift. press_key (tab_to page) (tab_key shift)) shifts t"

definition turn :: "nat \<Rightarrow> bool \<Rightarrow> nat \<Rightarrow> nat" where
  "turn n shift i = (if shift then (if i = 0 then n - 1 else i - 1) else (if Suc i = n then 0 else Suc i))"

lemma turn_less: "i < n \<Longrightarrow> turn n shift i < n"
  by (auto simp: turn_def)

lemma tab_to_next:
  assumes "distinct page" "i < length page"
  shows "tab_to page False (Some (page ! i)) = (if Suc i < length page then Some (page ! Suc i) else None)"
proof (cases "Suc i < length page")
  case True
  have "length (tl page) = length page - 1" by simp
  then have "(page ! i, page ! Suc i) \<in> set (zip page (tl page))"
    using True by (auto simp: in_set_conv_nth nth_tl intro!: exI [of _ i])
  moreover have "distinct (map fst (zip page (tl page)))"
    using assms(1) by (simp add: map_fst_zip_take)
  ultimately show ?thesis using True by (simp add: tab_to_def)
next
  case False
  have "page ! i \<notin> fst ` set (zip page (tl page))"
  proof
    assume "page ! i \<in> fst ` set (zip page (tl page))"
    then obtain j where "j < length page - 1" "page ! j = page ! i" by (auto simp: in_set_conv_nth)
    with False assms show False by (auto simp: nth_eq_iff_index_eq)
  qed
  then show ?thesis using False by (simp add: tab_to_def map_of_eq_None_iff)
qed

lemma tab_to_previous:
  assumes "distinct page" "i < length page"
  shows "tab_to page True (Some (page ! i)) = (if 0 < i then Some (page ! (i - 1)) else None)"
proof (cases "0 < i")
  case True
  then have "(page ! i, page ! (i - 1)) \<in> set (zip (tl page) page)"
    using assms(2) by (auto simp: in_set_conv_nth nth_tl intro!: exI [of _ "i - 1"])
  moreover have "distinct (map fst (zip (tl page) page))"
    using assms(1) by (simp add: map_fst_zip_take distinct_tl)
  ultimately show ?thesis using True by (simp add: tab_to_def)
next
  case False
  have "page ! 0 \<notin> fst ` set (zip (tl page) page)"
  proof
    assume "page ! 0 \<in> fst ` set (zip (tl page) page)"
    then obtain j where "j < length page - 1" "page ! Suc j = page ! 0" by (auto simp: in_set_conv_nth nth_tl)
    then have "Suc j < length page" "page ! Suc j = page ! 0" by simp_all
    moreover have "0 < length page" using assms(2) by (rule le_less_trans [OF le0])
    ultimately show False using nth_eq_iff_index_eq [OF assms(1), of "Suc j" 0] by simp
  qed
  then show ?thesis using False by (simp add: tab_to_def map_of_eq_None_iff)
qed

text \<open>
  The page: the stops of the tabulator key before the dialog, in it and after it. Those in the dialog are elements that are
  displayed, and of the elements that the trap counts all that are displayed are stops.
\<close>

definition dialog_stops :: "nat list \<Rightarrow> nat list \<Rightarrow> nat list \<Rightarrow> focus_trap \<Rightarrow> bool" where
  "dialog_stops before stops after t \<longleftrightarrow>
     distinct (before @ stops @ after) \<and> distinct (map elementId (content t)) \<and>
     list_all (\<lambda>i. i \<in> elementId ` set (filter displayed (content t))) stops \<and>
     list_all (\<lambda>el. displayed el \<longrightarrow> elementId el \<in> set stops) (getFocusable t)"

abbreviation counted :: "focus_trap \<Rightarrow> nat list" where
  "counted t \<equiv> map elementId (getFocusable t)"

lemma give_focus_frame [simp]:
  "content (give_focus i t) = content t" "active (give_focus i t) = active t" "escapeCalls (give_focus i t) = escapeCalls t"
  "roleAttr (give_focus i t) = roleAttr t" "modalAttr (give_focus i t) = modalAttr t" "onEscape (give_focus i t) = onEscape t"
  "initialFocus (give_focus i t) = initialFocus t"
  by (simp_all add: give_focus_def split: option.split)

lemma press_key_frame [simp]:
  "content (press_key move e t) = content t" "active (press_key move e t) = active t"
  by (simp_all add: press_key_def onKeyDown_def Let_def split: option.split)

lemma getFocusable_frame [simp]:
  "getFocusable (press_key move e t) = getFocusable t" "getFocusable (give_focus i t) = getFocusable t"
  by (simp_all add: getFocusable_def)

lemma dialog_stops_frame [simp]:
  "dialog_stops before stops after (press_key move e t) = dialog_stops before stops after t"
  by (simp add: dialog_stops_def)

lemma find_element:
  "distinct (map elementId els) \<Longrightarrow> el \<in> set els \<Longrightarrow> find (\<lambda>e. elementId e = elementId el) els = Some el"
  by (induction els) (auto simp: image_iff)

lemma give_focus_stop:
  assumes "dialog_stops before stops after t" "i \<in> set stops \<or> i \<in> set (counted t)"
  shows "focused (give_focus i t) = (if i \<in> set stops then Some i else focused t)"
proof -
  have "\<exists>el \<in> set (content t). elementId el = i \<and> (displayed el \<longleftrightarrow> i \<in> set stops)"
  proof (cases "i \<in> set stops")
    case False
    with assms obtain el where el: "el \<in> set (getFocusable t)" "elementId el = i" by auto
    then have "el \<in> set (content t)" by (simp add: getFocusable_def)
    moreover have "\<not> displayed el" using assms(1) el False by (auto simp: dialog_stops_def list_all_iff)
    ultimately show ?thesis using el False by blast
  qed (use assms(1) in \<open>auto simp: dialog_stops_def list_all_iff\<close>)
  then obtain el where "el \<in> set (content t)" "elementId el = i" "displayed el \<longleftrightarrow> i \<in> set stops" by blast
  moreover have "distinct (map elementId (content t))" using assms(1) by (simp add: dialog_stops_def)
  ultimately show ?thesis using find_element [of "content t" el] by (auto simp: give_focus_def)
qed

lemma tab_within:
  assumes "distinct (before @ stops @ after)" "i < length stops"
  shows "Suc i < length stops \<Longrightarrow> tab_to (before @ stops @ after) False (Some (stops ! i)) = Some (stops ! Suc i)"
    and "0 < i \<Longrightarrow> tab_to (before @ stops @ after) True (Some (stops ! i)) = Some (stops ! (i - 1))"
    and "Suc i = length stops \<Longrightarrow> tab_to (before @ stops @ after) False (Some (stops ! i)) \<notin> Some ` set stops"
    and "i = 0 \<Longrightarrow> tab_to (before @ stops @ after) True (Some (stops ! i)) \<notin> Some ` set stops"
proof -
  let ?page = "before @ stops @ after"
  have at: "?page ! (length before + j) = stops ! j" if "j < length stops" for j
    using that by (simp add: nth_append)
  have bound: "length before + i < length ?page" using assms(2) by simp
  note fwd = tab_to_next [OF assms(1) bound, unfolded at [OF assms(2)]]
    and bwd = tab_to_previous [OF assms(1) bound, unfolded at [OF assms(2)]]
  show "tab_to ?page False (Some (stops ! i)) = Some (stops ! Suc i)" if "Suc i < length stops"
    using fwd at [OF that] that by (simp add: trans_less_add1)
  show "tab_to ?page True (Some (stops ! i)) = Some (stops ! (i - 1))" if "0 < i"
    using bwd at [of "i - 1"] that assms(2) by simp
  have "?page ! Suc (length before + i) \<in> set after" if "Suc i = length stops" "after \<noteq> []"
    using that by (simp add: nth_append hd_conv_nth flip: that(1))
  with fwd show "tab_to ?page False (Some (stops ! i)) \<notin> Some ` set stops" if "Suc i = length stops"
    using that assms(1) by (cases "after = []") auto
  have "?page ! (length before - 1) \<in> set before" if "before \<noteq> []"
    using that by (simp add: nth_append)
  with bwd show "tab_to ?page True (Some (stops ! i)) \<notin> Some ` set stops" if "i = 0"
    using that assms(1) by (cases "before = []") auto
qed

lemma press_tab:
  assumes "dialog_stops before stops after t" "active t" "getFocusable t \<noteq> []" "i < length stops" "focused t = Some (stops ! i)"
  shows "focused (press_key move (tab_key shift) t) =
    (if shift \<and> stops ! i = hd (counted t) then (if last (counted t) \<in> set stops then Some (last (counted t)) else focused t)
     else if \<not> shift \<and> stops ! i = last (counted t) then (if hd (counted t) \<in> set stops then Some (hd (counted t)) else focused t)
     else move shift (focused t))"
proof -
  have "stops ! i \<in> elementId ` set (content t)"
    using assms(1,4) nth_mem [OF assms(4)] by (fastforce simp: dialog_stops_def list_all_iff)
  then have inside: "focused t \<in> Some ` elementId ` set (content t)" using assms(5) by simp
  have ne: "counted t \<noteq> []" using assms(3) by simp
  have "hd (counted t) \<in> set (counted t)" "last (counted t) \<in> set (counted t)" using ne by (rule hd_in_set, rule last_in_set)
  then have give: "focused (give_focus (hd (counted t)) t) = (if hd (counted t) \<in> set stops then Some (hd (counted t)) else focused t)"
    "focused (give_focus (last (counted t)) t) = (if last (counted t) \<in> set stops then Some (last (counted t)) else focused t)"
    using give_focus_stop [OF assms(1)] by blast+
  show ?thesis
    using inside assms(2,5) ne give by (simp add: press_key_def onKeyDown_def tab_key_def Let_def del: list.map_disc_iff)
qed

text \<open>Pressed often enough, the key leaves the dialog when no element that the trap watches lies ahead.\<close>

lemma leaves_forward:
  assumes "dialog_stops before stops after t" "active t" "getFocusable t \<noteq> []" "i < length stops" "focused t = Some (stops ! i)"
    "last (counted t) \<notin> set (drop i stops)"
  shows "\<exists>shifts. focused (press_tabs (before @ stops @ after) shifts t) \<notin> Some ` set stops"
  using assms
proof (induction "length stops - i" arbitrary: i t)
  case (Suc n)
  let ?t = "press_key (tab_to (before @ stops @ after)) (tab_key False) t"
  have page: "distinct (before @ stops @ after)" using Suc.prems(1) by (simp add: dialog_stops_def)
  have "stops ! i \<in> set (drop i stops)" using Suc.prems(4) by (auto simp: in_set_conv_nth intro!: exI [of _ 0])
  with Suc.prems(6) have "focused ?t = tab_to (before @ stops @ after) False (Some (stops ! i))"
    using press_tab [OF Suc.prems(1-5), of "tab_to (before @ stops @ after)" False] Suc.prems(5) by auto
  note moved = this tab_within [OF page Suc.prems(4)]
  show ?case
  proof (cases "Suc i < length stops")
    case True
    have "set (drop (Suc i) stops) \<subseteq> set (drop i stops)" by (simp add: set_drop_subset_set_drop)
    then have "\<exists>shifts. focused (press_tabs (before @ stops @ after) shifts ?t) \<notin> Some ` set stops"
      using True Suc.prems moved(1,2) Suc.hyps(2) by (intro Suc.hyps(1) [of "Suc i"]) auto
    then obtain shifts where "focused (press_tabs (before @ stops @ after) shifts ?t) \<notin> Some ` set stops" ..
    then show ?thesis by (intro exI [of _ "False # shifts"]) (simp add: press_tabs_def)
  next
    case False
    with moved Suc.prems(4) have "focused ?t \<notin> Some ` set stops" by simp
    then show ?thesis by (intro exI [of _ "[False]"]) (simp add: press_tabs_def)
  qed
qed simp

lemma leaves_backward:
  assumes "dialog_stops before stops after t" "active t" "getFocusable t \<noteq> []" "i < length stops" "focused t = Some (stops ! i)"
    "hd (counted t) \<notin> set stops"
  shows "\<exists>shifts. focused (press_tabs (before @ stops @ after) shifts t) \<notin> Some ` set stops"
  using assms
proof (induction i arbitrary: t)
  case 0
  let ?t = "press_key (tab_to (before @ stops @ after)) (tab_key True) t"
  have page: "distinct (before @ stops @ after)" using 0(1) by (simp add: dialog_stops_def)
  have "stops ! 0 \<noteq> hd (counted t)" using 0(4,6) nth_mem by metis
  then have "focused ?t = tab_to (before @ stops @ after) True (Some (stops ! 0))"
    using press_tab [OF 0(1-5), of "tab_to (before @ stops @ after)" True] 0(5) by auto
  with tab_within(4) [OF page 0(4)] show ?case by (intro exI [of _ "[True]"]) (simp add: press_tabs_def)
next
  case (Suc i)
  let ?t = "press_key (tab_to (before @ stops @ after)) (tab_key True) t"
  have page: "distinct (before @ stops @ after)" using Suc.prems(1) by (simp add: dialog_stops_def)
  have "stops ! Suc i \<noteq> hd (counted t)" using Suc.prems(4,6) nth_mem by metis
  then have "focused ?t = Some (stops ! i)"
    using press_tab [OF Suc.prems(1-5), of "tab_to (before @ stops @ after)" True] Suc.prems(5)
      tab_within(2) [OF page Suc.prems(4)] by auto
  with Suc.prems have "\<exists>shifts. focused (press_tabs (before @ stops @ after) shifts ?t) \<notin> Some ` set stops"
    by (intro Suc.IH) auto
  then obtain shifts where "focused (press_tabs (before @ stops @ after) shifts ?t) \<notin> Some ` set stops" ..
  then show ?case by (intro exI [of _ "True # shifts"]) (simp add: press_tabs_def)
qed

lemma goes_round:
  assumes "dialog_stops before stops after t" "active t" "getFocusable t \<noteq> []"
    "a \<le> b" "b < length stops" "stops ! a = hd (counted t)" "stops ! b = last (counted t)"
    "k < Suc b - a" "focused t = Some (stops ! (a + k))"
  shows "focused (press_tabs (before @ stops @ after) shifts t) = Some (stops ! (a + fold (turn (Suc b - a)) shifts k))"
  using assms
proof (induction shifts arbitrary: t k)
  case (Cons shift shifts)
  let ?t = "press_key (tab_to (before @ stops @ after)) (tab_key shift) t" and ?k = "turn (Suc b - a) shift k"
  have page: "distinct (before @ stops @ after)" using Cons.prems(1) by (simp add: dialog_stops_def)
  have i: "a + k < length stops" using Cons.prems(5,8) by simp
  have same: "stops ! (a + k) = stops ! j \<longleftrightarrow> a + k = j" if "j < length stops" for j
    using page i that by (simp add: nth_eq_iff_index_eq)
  have ends: "hd (counted t) = stops ! a" "last (counted t) = stops ! b" "a < length stops"
    using Cons.prems(4-7) by simp_all
  note ends = ends nth_mem [OF ends(3)] nth_mem [OF Cons.prems(5)]
  have "focused ?t = Some (stops ! (a + ?k))"
    using press_tab [OF Cons.prems(1-3) i Cons.prems(9), of "tab_to (before @ stops @ after)" shift, unfolded ends(1,2)]
      tab_within(1,2) [OF page i] same ends(3-) Cons.prems(4,5,8,9)
    by (cases shift) (auto simp: turn_def)
  then show ?case using Cons.IH [of ?t ?k] Cons.prems turn_less by (simp add: press_tabs_def)
qed (simp add: press_tabs_def)

lemma activate_frame [simp]:
  "content (activate t) = content t" "getFocusable (activate t) = getFocusable t" "active (activate t)"
  "dialog_stops before stops after (activate t) = dialog_stops before stops after t"
  by (simp_all add: activate_def getFocusable_def dialog_stops_def Let_def split: option.split list.split)

lemma activate_focus:
  assumes "dialog_stops before stops after t" "\<not> active t" "initialFocus t = None" "getFocusable t \<noteq> []"
  shows "focused (activate t) = (if hd (counted t) \<in> set stops then Some (hd (counted t)) else focused t)"
proof -
  let ?t = "t\<lparr>active := True, roleAttr := Some ''dialog'', modalAttr := Some ''true''\<rparr>"
  have t: "dialog_stops before stops after ?t" "counted ?t = counted t"
    using assms(1) by (simp_all add: dialog_stops_def getFocusable_def)
  have "hd (counted t) \<in> set (counted t)" using assms(4) by (intro hd_in_set) simp
  then have "focused (give_focus (hd (counted t)) ?t) = (if hd (counted t) \<in> set stops then Some (hd (counted t)) else focused ?t)"
    using give_focus_stop [OF t(1), of "hd (counted t)"] t(2) by simp
  moreover have "activate t = give_focus (hd (counted t)) ?t"
    using assms(2-4) by (simp add: activate_def Let_def list.map_sel(1) split: list.split)
  ultimately show ?thesis by simp
qed

text \<open>
  C40. A trap that is activated keeps the focus in its dialog, however often the tabulator key is pressed, with or without shift,
  exactly when the first and the last of the elements it counts are among the dialog's stops of that key, in this order. Then
  the focus goes round the stops from the one to the other, beginning at the first. So it does when the browser's stops are the
  elements counted; it does not when the first or the last of these is hidden, or comes in the other order by a positive index.
  The trap counts something, is given no element to begin with, and each of the elements counted is a stop if displayed.
\<close>

theorem focus_stays_in_trap:
  assumes "dialog_stops before stops after t" "\<not> active t" "initialFocus t = None" "getFocusable t \<noteq> []"
  defines "press \<equiv> \<lambda>shifts. press_tabs (before @ stops @ after) shifts (activate t)"
  shows "((\<forall>shifts. focused (press shifts) \<in> Some ` set stops) \<longleftrightarrow>
      (\<exists>a b. a \<le> b \<and> b < length stops \<and> stops ! a = hd (counted t) \<and> stops ! b = last (counted t))) \<and>
    (\<forall>a b shifts. a \<le> b \<and> b < length stops \<and> stops ! a = hd (counted t) \<and> stops ! b = last (counted t) \<longrightarrow>
      focused (press shifts) = Some (stops ! (a + fold (turn (Suc b - a)) shifts 0)))"
proof -
  have t: "dialog_stops before stops after (activate t)" "active (activate t)" "getFocusable (activate t) \<noteq> []"
    using assms(1,4) by simp_all
  have round: "focused (press shifts) = Some (stops ! (a + fold (turn (Suc b - a)) shifts 0))"
    if ab: "a \<le> b" "b < length stops" "stops ! a = hd (counted t)" "stops ! b = last (counted t)" for a b shifts
  proof -
    have "hd (counted t) \<in> set stops" using ab nth_mem [of a stops] by simp
    then show ?thesis
      unfolding press_def using activate_focus [OF assms(1-4)] ab by (intro goes_round [OF t]) simp_all
  qed
  have within: "a + fold (turn (Suc b - a)) shifts 0 < length stops" if "a \<le> b" "b < length stops" for a b shifts
  proof -
    have "fold (turn n) shifts k < n" if "k < n" for n k
      using that by (induction shifts arbitrary: k) (simp_all add: turn_less)
    from this [of 0 "Suc b - a"] that show ?thesis by simp
  qed
  have "\<exists>a b. a \<le> b \<and> b < length stops \<and> stops ! a = hd (counted t) \<and> stops ! b = last (counted t)"
    if stays: "\<forall>shifts. focused (press shifts) \<in> Some ` set stops"
  proof -
    from stays [rule_format, of "[]"] obtain p where p: "p < length stops" "focused (activate t) = Some (stops ! p)"
      by (auto simp: press_def press_tabs_def in_set_conv_nth)
    have "hd (counted t) \<in> set stops"
      using leaves_backward [OF t p] stays by (auto simp: press_def)
    moreover from this obtain a where a: "a < length stops" "stops ! a = hd (counted t)" by (auto simp: in_set_conv_nth)
    ultimately have "focused (activate t) = Some (stops ! a)" using activate_focus [OF assms(1-4)] by simp
    with leaves_forward [OF t a(1)] stays have "last (counted t) \<in> set (drop a stops)" by (auto simp: press_def)
    then obtain j where "j < length stops - a" "stops ! (a + j) = last (counted t)" by (auto simp: in_set_conv_nth)
    with a show ?thesis by (intro exI [of _ a] exI [of _ "a + j"]) simp
  qed
  with round within show ?thesis by (auto intro!: imageI nth_mem)
qed

definition sample_button :: "nat \<Rightarrow> element" where
  "sample_button i = \<lparr>elementId = i, tag = ''button'', tabIndex = 0, attributes = [], displayed = True\<rparr>"

definition sample_trap :: "element list \<Rightarrow> focus_trap" where
  "sample_trap els =
     \<lparr>content = els, roleAttr = None, modalAttr = None, active = False, focused = Some 9, onEscape = Some 0, initialFocus = None,
      escapeCalls = []\<rparr>"

text \<open>Of three buttons, and of three whose last is hidden.\<close>

theorem focus_stays_in_trap_witness:
  fixes two :: "element list"
  defines "two \<equiv> [sample_button 1, sample_button 2]"
  shows "focused (press_tabs [9, 1, 2, 3, 8] [True, False, False] (activate (sample_trap (two @ [sample_button 3])))) = Some 2 \<and>
    \<not> (\<forall>shifts. focused (press_tabs [9, 1, 2, 8] shifts (activate (sample_trap (two @ [(sample_button 3)\<lparr>displayed := False\<rparr>])))) \<in> Some ` set [1, 2])"
proof -
  let ?t = "sample_trap (two @ [sample_button 3])" and ?h = "sample_trap (two @ [(sample_button 3)\<lparr>displayed := False\<rparr>])"
  have counted: "counted ?t = [1, 2, 3]" "counted ?h = [1, 2, 3]" unfolding two_def by code_simp+
  have t: "dialog_stops [9] [1, 2, 3] [8] ?t" "\<not> active ?t" "initialFocus ?t = None" "getFocusable ?t \<noteq> []"
    unfolding two_def by code_simp+
  have h: "dialog_stops [9] [1, 2] [8] ?h" "\<not> active ?h" "initialFocus ?h = None" "getFocusable ?h \<noteq> []"
    unfolding two_def by code_simp+
  have round: "fold (turn (Suc 2 - 0)) [True, False, False] 0 = 1" by code_simp
  have "focused (press_tabs [9, 1, 2, 3, 8] [True, False, False] (activate ?t)) = Some 2"
    using focus_stays_in_trap [OF t, THEN conjunct2, rule_format, of 0 2 "[True, False, False]", unfolded round]
    by (simp add: counted)
  moreover have "\<not> (\<exists>a b. a \<le> b \<and> b < length [1::nat, 2] \<and> [1, 2] ! a = hd (counted ?h) \<and> [1, 2] ! b = last (counted ?h))"
    by (auto simp: counted nth_Cons split: nat.splits)
  ultimately show ?thesis using focus_stays_in_trap [OF h, THEN conjunct1] by simp
qed

text \<open>The trap counts what the style sheet hides: with its last button hidden, the second tabulator key leaves the dialog.\<close>

theorem hidden_last_element_leaks:
  "focused (press_tabs [9, 1, 2, 8] [False, False]
     (activate (sample_trap [sample_button 1, sample_button 2, (sample_button 3)\<lparr>displayed := False\<rparr>]))) = Some 8"
  by code_simp

section \<open>The dialog\<close>

text \<open>
  \<open>Modal\<close>: the props of the last rendering, where \<open>closer\<close> names the function given as \<open>onClose\<close>, the trap of the effect, the
  element that has the focus, and the calls of \<open>onClose\<close>. The button that closes the dialog is its first element.
\<close>

record modal =
  isOpen :: bool
  closer :: nat
  trapRef :: "focus_trap option"
  docFocus :: "nat option"
  closeCalls :: "nat list"

definition close_button :: element where
  "close_button = \<lparr>elementId = 0, tag = ''button'', tabIndex = 0, attributes = [(''aria-label'', ''Close dialog'')], displayed = True\<rparr>"

definition new_trap :: "element list \<Rightarrow> nat \<Rightarrow> nat option \<Rightarrow> focus_trap" where
  "new_trap kids onClose f =
     \<lparr>content = close_button # kids, roleAttr = Some ''dialog'', modalAttr = Some ''true'', active = False, focused = f,
      onEscape = Some onClose, initialFocus = None, escapeCalls = []\<rparr>"

text \<open>A rendering and, when \<open>open\<close> or \<open>onClose\<close> changed, the effect's clean-up and the effect.\<close>

definition render_modal :: "bool \<Rightarrow> nat \<Rightarrow> element list \<Rightarrow> modal \<Rightarrow> modal" where
  "render_modal opens onClose kids m =
     (if isOpen m = opens \<and> closer m = onClose then
        m\<lparr>trapRef := map_option (\<lambda>t. t\<lparr>content := close_button # kids\<rparr>) (trapRef m)\<rparr>
      else
        (let inside = (case trapRef m of None \<Rightarrow> False | Some t \<Rightarrow> docFocus m \<in> Some ` elementId ` set (content t));
             m1 = m\<lparr>isOpen := opens, closer := onClose, trapRef := None\<rparr> in
         if opens then
           (let t = activate (new_trap kids onClose (docFocus m)) in m1\<lparr>trapRef := Some t, docFocus := focused t\<rparr>)
         else m1\<lparr>docFocus := if inside then None else docFocus m\<rparr>))"

datatype modal_event =
    RenderModal bool nat "element list"
  | ModalKey key_event
  | BackdropClick bool
  | CloseButton
  | FocusElement "nat option"

definition modal_key :: "(bool \<Rightarrow> nat option \<Rightarrow> nat option) \<Rightarrow> key_event \<Rightarrow> modal \<Rightarrow> modal" where
  "modal_key move e m =
     (case trapRef m of
        None \<Rightarrow> if key e = ''Tab'' then m\<lparr>docFocus := move (shiftKey e) (docFocus m)\<rparr> else m
      | Some t \<Rightarrow>
          (let t' = press_key move e (t\<lparr>focused := docFocus m, escapeCalls := []\<rparr>) in
           m\<lparr>docFocus := focused t', closeCalls := closeCalls m @ escapeCalls t'\<rparr>))"

text \<open>A click on the backdrop counts when it hits the backdrop itself.\<close>

fun modal_step :: "(bool \<Rightarrow> nat option \<Rightarrow> nat option) \<Rightarrow> modal_event \<Rightarrow> modal \<Rightarrow> modal" where
  "modal_step move (RenderModal opens onClose kids) m = render_modal opens onClose kids m"
| "modal_step move (ModalKey e) m = modal_key move e m"
| "modal_step move (BackdropClick self) m =
     (if isOpen m \<and> self then m\<lparr>closeCalls := closeCalls m @ [closer m]\<rparr> else m)"
| "modal_step move CloseButton m = (if isOpen m then m\<lparr>closeCalls := closeCalls m @ [closer m]\<rparr> else m)"
| "modal_step move (FocusElement f) m = m\<lparr>docFocus := f\<rparr>"

definition closed_modal :: "nat option \<Rightarrow> modal" where
  "closed_modal f = \<lparr>isOpen = False, closer = 0, trapRef = None, docFocus = f, closeCalls = []\<rparr>"

definition modal_inv :: "modal \<Rightarrow> bool" where
  "modal_inv m \<longleftrightarrow>
     (case trapRef m of
        None \<Rightarrow> \<not> isOpen m
      | Some t \<Rightarrow>
          isOpen m \<and> active t \<and> onEscape t = Some (closer m) \<and> roleAttr t = Some ''dialog'' \<and> modalAttr t = Some ''true'' \<and>
          content t \<noteq> [] \<and> hd (content t) = close_button)"

lemma activate_new_trap:
  "activate (new_trap kids c f) = (new_trap kids c f)\<lparr>active := True, focused := Some 0\<rparr>"
  by (simp add: activate_def give_focus_def new_trap_def getFocusable_def matches_selector_def close_button_def getAttribute_def)

interpretation modals: free_event_system "modal_step move" modal_inv for move
proof
  show "modal_inv m \<Longrightarrow> modal_inv (modal_step move e m)" for m e
    by (cases e)
      (auto simp: modal_inv_def render_modal_def modal_key_def activate_new_trap Let_def split: option.splits,
       auto simp: new_trap_def)
qed

text \<open>
  In every state that renderings, keys, clicks and moves of the focus lead to: while the dialog is open its trap is active with
  the attributes of a modal dialog, and Escape from inside calls the function of the last rendering, once; while it is closed
  there is no trap and nothing is called.
\<close>

theorem modal_escape_calls_current_closer:
  fixes es :: "modal_event list" and f :: "nat option" and move :: "bool \<Rightarrow> nat option \<Rightarrow> nat option"
  defines "m \<equiv> fold (modal_step move) es (closed_modal f)"
  shows "case trapRef m of
      None \<Rightarrow> \<not> isOpen m \<and> closeCalls (modal_key move \<lparr>key = ''Escape'', shiftKey = sh\<rparr> m) = closeCalls m
    | Some t \<Rightarrow> isOpen m \<and> active t \<and> roleAttr t = Some ''dialog'' \<and> modalAttr t = Some ''true'' \<and>
        closeCalls (modal_key move \<lparr>key = ''Escape'', shiftKey = sh\<rparr> m) =
          closeCalls m @ (if docFocus m \<in> Some ` elementId ` set (content t) then [closer m] else [])"
proof -
  have "modal_inv (closed_modal f)" by (simp add: modal_inv_def closed_modal_def)
  then have "modal_inv m" unfolding m_def by (rule modals.run)
  then show ?thesis
    by (auto simp: modal_inv_def modal_key_def press_key_def onKeyDown_def Let_def split: option.splits)
qed

text \<open>
  A function made anew in a rendering takes the focus from where the customer was and gives it to the close button, though
  nothing else changed.
\<close>

theorem new_closer_steals_focus:
  assumes "isOpen m" "closer m \<noteq> c"
  shows "docFocus (render_modal True c kids m) = Some 0"
  using assms by (simp add: render_modal_def Let_def activate_new_trap)

section \<open>The toast of the design system\<close>

datatype react_node = TextNode string | ElementNode | NodeList "react_node list" | NoNode

fun to_array :: "react_node \<Rightarrow> react_node list" where
  "to_array (NodeList ns) = concat (map to_array ns)"
| "to_array NoNode = []"
| "to_array n = [n]"

definition toPlainText :: "react_node \<Rightarrow> string" where
  "toPlainText n = trim (join_with '' '' (map (\<lambda>c. case c of TextNode s \<Rightarrow> s | _ \<Rightarrow> []) (to_array n)))"

record toast_props =
  toastOpen :: bool
  toastMessage :: react_node
  toastVariant :: string
  toastClose :: "nat option"
  duration :: int

record ds_toast =
  lastProps :: "toast_props option"
  timer :: "(int \<times> nat) option"
  clock :: int
  toastCalls :: "(int \<times> nat) list"
  spoken :: "string list"

text \<open>The effect runs when one of the props changed; its clean-up clears the timer.\<close>

definition render_toast :: "toast_props \<Rightarrow> ds_toast \<Rightarrow> ds_toast" where
  "render_toast p s =
     (if lastProps s = Some p then s
      else
        (let s1 = s\<lparr>lastProps := Some p, timer := None\<rparr> in
         if \<not> toastOpen p then s1
         else
           (let s2 = s1\<lparr>spoken := spoken s @ [toPlainText (toastMessage p)]\<rparr> in
            case toastClose p of
              Some c \<Rightarrow> if 0 < duration p then s2\<lparr>timer := Some (clock s + duration p, c)\<rparr> else s2
            | None \<Rightarrow> s2)))"

definition pass_time :: "nat \<Rightarrow> ds_toast \<Rightarrow> ds_toast" where
  "pass_time dt s =
     (let now = clock s + int dt in
      case timer s of
        Some (due, c) \<Rightarrow>
          if due \<le> now then s\<lparr>clock := now, timer := None, toastCalls := toastCalls s @ [(due, c)]\<rparr> else s\<lparr>clock := now\<rparr>
      | None \<Rightarrow> s\<lparr>clock := now\<rparr>)"

text \<open>Renderings with the same props while the toast is shown, and time.\<close>

definition quiet_time :: "toast_props \<Rightarrow> nat list \<Rightarrow> ds_toast \<Rightarrow> ds_toast" where
  "quiet_time p dts s = fold (\<lambda>dt s. pass_time dt (render_toast p s)) dts s"

lemma quiet_time_over:
  "lastProps s = Some p \<Longrightarrow> timer s = None \<Longrightarrow> toastCalls (quiet_time p dts s) = toastCalls s"
  by (induction dts arbitrary: s) (simp_all add: quiet_time_def render_toast_def pass_time_def Let_def)

lemma quiet_time_waiting:
  assumes "lastProps s = Some p" "timer s = Some (due, c)"
  shows "toastCalls (quiet_time p dts s) = toastCalls s @ (if dts \<noteq> [] \<and> due \<le> clock s + int (sum_list dts) then [(due, c)] else [])"
  using assms
proof (induction dts arbitrary: s)
  case (Cons dt dts)
  show ?case
  proof (cases "due \<le> clock s + int dt")
    case True
    then have "toastCalls (quiet_time p dts (pass_time dt s)) = toastCalls s @ [(due, c)]"
      using Cons.prems by (subst quiet_time_over) (simp_all add: pass_time_def Let_def)
    then show ?thesis using True Cons.prems by (simp add: quiet_time_def render_toast_def)
  next
    case False
    then have "toastCalls (quiet_time p dts (pass_time dt s)) =
        toastCalls s @ (if dts \<noteq> [] \<and> due \<le> clock s + int dt + int (sum_list dts) then [(due, c)] else [])"
      using Cons.prems by (subst Cons.IH) (simp_all add: pass_time_def Let_def)
    then show ?thesis using False Cons.prems by (cases dts) (simp_all add: quiet_time_def render_toast_def add.assoc)
  qed
qed (simp add: quiet_time_def)

text \<open>
  A toast whose props do not change announces its message once and calls \<open>onClose\<close> once, when its duration is over and not
  before.
\<close>

theorem toast_closes_once:
  assumes "toastOpen p" "toastClose p = Some c" "0 < duration p" "lastProps s \<noteq> Some p" "dts \<noteq> []"
  shows "toastCalls (quiet_time p dts (render_toast p s)) =
      toastCalls s @ (if duration p \<le> int (sum_list dts) then [(clock s + duration p, c)] else []) \<and>
    spoken (render_toast p s) = spoken s @ [toPlainText (toastMessage p)]"
  using assms by (subst quiet_time_waiting [of _ p "clock s + duration p" c]) (simp_all add: render_toast_def Let_def)

text \<open>
  When each rendering brings a function made anew, the timer starts again with each and the message is announced again: with
  renderings at shorter intervals than the duration the toast never closes.
\<close>

definition restless_toast :: "toast_props \<Rightarrow> (nat \<times> nat) list \<Rightarrow> ds_toast \<Rightarrow> ds_toast" where
  "restless_toast p cs s = fold (\<lambda>(c, dt) s. pass_time dt (render_toast (p\<lparr>toastClose := Some c\<rparr>) s)) cs s"

theorem restless_toast_never_closes:
  assumes "toastOpen p" "0 < duration p" "list_all (\<lambda>(c, dt). int dt < duration p) cs" "distinct (map fst cs)"
    "\<forall>q. lastProps s = Some q \<longrightarrow> toastClose q \<notin> Some ` fst ` set cs"
  shows "toastCalls (restless_toast p cs s) = toastCalls s \<and>
    spoken (restless_toast p cs s) = spoken s @ replicate (length cs) (toPlainText (toastMessage p))"
  using assms(3-5)
proof (induction cs arbitrary: s)
  case (Cons x cs)
  obtain c dt where x: "x = (c, dt)" by force
  let ?p = "p\<lparr>toastClose := Some c\<rparr>"
  let ?s = "pass_time dt (render_toast ?p s)"
  have new: "lastProps s \<noteq> Some ?p" using Cons.prems(3) x by auto
  have "int dt < duration p" using Cons.prems(1) x by simp
  with new assms(1,2) have s': "lastProps ?s = Some ?p" "toastCalls ?s = toastCalls s"
    "spoken ?s = spoken s @ [toPlainText (toastMessage p)]"
    by (simp_all add: render_toast_def pass_time_def Let_def)
  have "toastCalls (restless_toast p cs ?s) = toastCalls ?s \<and>
      spoken (restless_toast p cs ?s) = spoken ?s @ replicate (length cs) (toPlainText (toastMessage p))"
    by (rule Cons.IH) (use Cons.prems x s'(1) in auto)
  then show ?case using s' by (simp add: restless_toast_def x)
qed (simp add: restless_toast_def)

end
