(* ===== verification/Widgets.thy ===== *)
theory Widgets
  imports JsConvert
begin

text \<open>
  Components of the kiosk with a state of their own (\<open>apps/kiosk/src/components\<close>): the toast (\<open>Toast.tsx\<close>), the dialog of
  \<open>ConfirmDialog.tsx\<close>, the bottom sheet, the printer's message (\<open>ThermalPrinterFeedback.tsx\<close>), the viewport
  (\<open>ViewportLock.tsx\<close>), the error boundary (\<open>KioskErrorBoundary.tsx\<close>), the status bar, and the progress of
  \<open>routes/ProcessingScreen.tsx\<close>.
\<close>

section \<open>The toast\<close>

text \<open>Its effect starts an interval of 50 ms unless the duration, in milliseconds, is infinite (\<open>None\<close>).\<close>

record kiosk_toast =
  isVisible :: bool
  progress :: rat
  running :: bool
  onCloseCalls :: nat

definition mount_toast :: "rat option \<Rightarrow> kiosk_toast" where
  "mount_toast duration = \<lparr>isVisible = True, progress = 100, running = duration \<noteq> None, onCloseCalls = 0\<rparr>"

definition toast_step :: "rat \<Rightarrow> rat" where
  "toast_step duration = fl_times 100 (fl_div 100 duration)"

definition toast_tick :: "rat \<Rightarrow> kiosk_toast \<Rightarrow> kiosk_toast" where
  "toast_tick duration s =
     (if \<not> running s then s
      else if progress s \<le> 0 then
        s\<lparr>running := False, isVisible := False, onCloseCalls := onCloseCalls s + 1, progress := 0\<rparr>
      else s\<lparr>progress := fl (progress s - toast_step duration)\<rparr>)"

definition TOAST_INTERVAL_MS :: nat where
  "TOAST_INTERVAL_MS = 50"

definition default_duration :: rat where
  "default_duration = 4000"

lemma hundred_over_duration: "fl_div 100 4000 = 3602879701896397 / 2 ^ 57"
proof -
  have q: "quotient_of (100 / 4000) = (1, 40)" by code_simp
  have a: "excess_bits (nat 40 * 2 ^ 53) = 6" by (simp add: excess_bits.simps)
  have b: "excess_bits (nat (\<bar>1 * 2 ^ (54 + 6)\<bar> div 40)) = 2" by (simp add: excess_bits.simps)
  have c: "round_half_even (1 * 2 ^ (54 + 6)) (40 * 2 ^ 2) = 1152921504606847040" by (simp add: round_half_even_def)
  show ?thesis unfolding fl_div_def q Let_def prod.case a b c by simp
qed

lemma toast_step_default: "toast_step 4000 = 5 / 2"
proof -
  have q: "quotient_of (100 * (3602879701896397 / 2 ^ 57)) = (90071992547409925, 2 ^ 55)" by code_simp
  have e: "excess_bits (nat \<bar>90071992547409925\<bar>) = 4" by (simp add: excess_bits.simps)
  show ?thesis
    unfolding toast_step_def hundred_over_duration fl_times_def q Let_def prod.case round_double_def e
    by (simp add: round_half_even_def)
qed

lemma progress_exact: "k \<le> 40 \<Longrightarrow> fl (100 - 5 / 2 * of_nat k) = 100 - 5 / 2 * of_nat k"
proof -
  assume "k \<le> 40"
  define n where "n = 200 - 5 * int k"
  have x: "100 - 5 / 2 * of_nat k = (of_int n / of_int 2 :: rat)" by (simp add: n_def field_simps)
  have n: "0 \<le> n" "n \<le> 200" using \<open>k \<le> 40\<close> by (simp_all add: n_def)
  show ?thesis
  proof (cases "even n")
    case True
    then obtain m where m: "n = 2 * m" by blast
    then have "quotient_of (of_int n / of_int 2) = (m, 2 ^ 0)" by (simp add: quotient_of_int)
    then show ?thesis unfolding x by (rule fl_exact) (use n m in simp)
  next
    case False
    then have "coprime n 2" by simp
    then have "quotient_of (Fract n 2) = (n, 2 ^ 1)" by (simp add: quotient_of_Fract normalize_stable)
    then have "quotient_of (of_int n / of_int 2) = (n, 2 ^ 1)" unfolding Fract_of_int_quotient .
    then show ?thesis unfolding x by (rule fl_exact) (use n in simp)
  qed
qed

lemma toast_ticks:
  "k \<le> 40 \<Longrightarrow> (toast_tick 4000 ^^ k) (mount_toast (Some 4000)) =
     \<lparr>isVisible = True, progress = 100 - 5 / 2 * of_nat k, running = True, onCloseCalls = 0\<rparr>"
proof (induction k)
  case (Suc k)
  have "(of_nat k :: rat) < 40" using Suc.prems by simp
  then have "\<not> 100 - 5 / 2 * of_nat k \<le> (0 :: rat)" by simp
  moreover have "100 - 5 / 2 * of_nat k - 5 / 2 = (100 - 5 / 2 * of_nat (Suc k) :: rat)" by (simp add: field_simps)
  ultimately show ?case using Suc progress_exact [OF Suc.prems] by (simp add: toast_tick_def toast_step_default)
qed (simp add: mount_toast_def)

text \<open>
  The toast is documented to go after four seconds. With the default duration it is visible for forty ticks and goes with the
  next, after 2050 milliseconds, and \<open>onClose\<close> is called once.
\<close>

theorem toast_goes_after_half_its_time:
  "isVisible ((toast_tick default_duration ^^ k) (mount_toast (Some default_duration))) \<longleftrightarrow> k * TOAST_INTERVAL_MS < 2050"
  "onCloseCalls ((toast_tick default_duration ^^ k) (mount_toast (Some default_duration))) =
     (if k * TOAST_INTERVAL_MS < 2050 then 0 else 1)"
proof -
  let ?gone = "\<lparr>isVisible = False, progress = 0, running = False, onCloseCalls = 1\<rparr>"
  have gone: "(toast_tick 4000 ^^ (41 + j)) (mount_toast (Some 4000)) = ?gone" for j
  proof (induction j)
    case 0
    have "(toast_tick 4000 ^^ 41) (mount_toast (Some 4000)) = toast_tick 4000 ((toast_tick 4000 ^^ 40) (mount_toast (Some 4000)))"
      by (simp add: eval_nat_numeral)
    also have "\<dots> = ?gone" unfolding toast_ticks [OF order_refl] by (simp add: toast_tick_def)
    finally show ?case by simp
  next
    case (Suc j)
    have "toast_tick 4000 ?gone = ?gone" by (simp add: toast_tick_def)
    with Suc show ?case by (simp only: add_Suc_right funpow.simps comp_apply)
  qed
  have "k \<le> 40 \<or> (\<exists>j. k = 41 + j)" by presburger
  then show "isVisible ((toast_tick default_duration ^^ k) (mount_toast (Some default_duration))) \<longleftrightarrow> k * TOAST_INTERVAL_MS < 2050"
    "onCloseCalls ((toast_tick default_duration ^^ k) (mount_toast (Some default_duration))) =
       (if k * TOAST_INTERVAL_MS < 2050 then 0 else 1)"
    by (auto simp: default_duration_def TOAST_INTERVAL_MS_def toast_ticks gone simp del: funpow.simps)
qed

section \<open>The confirmation\<close>

text \<open>
  The dialog listens to keys at the document while it is open. A key comes with the button that has the focus, which the browser
  clicks on Enter. The calls of its two functions are kept in order.
\<close>

datatype dialog_call = Closed | Confirmed

datatype dialog_focus = CancelFocused | ConfirmFocused | ElsewhereFocused

record confirm_dialog =
  dialogOpen :: bool
  keysHeard :: bool
  bodyOverflow :: string
  dialogCalls :: "dialog_call list"

definition call_dialog :: "dialog_call \<Rightarrow> confirm_dialog \<Rightarrow> confirm_dialog" where
  "call_dialog c d = d\<lparr>dialogCalls := dialogCalls d @ [c]\<rparr>"

text \<open>The effect after a rendering, its clean-up included.\<close>

definition render_dialog :: "bool \<Rightarrow> confirm_dialog \<Rightarrow> confirm_dialog" where
  "render_dialog opens d =
     d\<lparr>dialogOpen := opens, keysHeard := opens, bodyOverflow := if opens then ''hidden'' else ''unset''\<rparr>"

definition unmount_dialog :: "confirm_dialog \<Rightarrow> confirm_dialog" where
  "unmount_dialog d = d\<lparr>dialogOpen := False, keysHeard := False, bodyOverflow := ''unset''\<rparr>"

definition handleBackdropClick :: "bool \<Rightarrow> confirm_dialog \<Rightarrow> confirm_dialog" where
  "handleBackdropClick self d = (if dialogOpen d \<and> self then call_dialog Closed d else d)"

definition click_button :: "dialog_focus \<Rightarrow> confirm_dialog \<Rightarrow> confirm_dialog" where
  "click_button f d =
     (if \<not> dialogOpen d then d
      else case f of CancelFocused \<Rightarrow> call_dialog Closed d | ConfirmFocused \<Rightarrow> call_dialog Confirmed d | ElsewhereFocused \<Rightarrow> d)"

text \<open>The handler, and then the browser's click on the focused button, which nothing prevents.\<close>

definition dialog_key :: "string \<Rightarrow> dialog_focus \<Rightarrow> confirm_dialog \<Rightarrow> confirm_dialog" where
  "dialog_key k f d =
     (let d1 = (if \<not> keysHeard d then d
                else if k = ''Escape'' then call_dialog Closed d
                else if k = ''Enter'' then call_dialog Confirmed d
                else d)
      in if k = ''Enter'' then click_button f d1 else d1)"

datatype dialog_event = RenderDialog bool | UnmountDialog | DialogKey string dialog_focus | DialogBackdrop bool | DialogButton dialog_focus

fun dialog_step :: "dialog_event \<Rightarrow> confirm_dialog \<Rightarrow> confirm_dialog" where
  "dialog_step (RenderDialog opens) d = render_dialog opens d"
| "dialog_step UnmountDialog d = unmount_dialog d"
| "dialog_step (DialogKey k f) d = dialog_key k f d"
| "dialog_step (DialogBackdrop self) d = handleBackdropClick self d"
| "dialog_step (DialogButton f) d = click_button f d"

definition dialog_inv :: "confirm_dialog \<Rightarrow> bool" where
  "dialog_inv d \<longleftrightarrow> keysHeard d = dialogOpen d \<and> bodyOverflow d = (if dialogOpen d then ''hidden'' else ''unset'')"

lemma dialog_call_frame [simp]:
  "dialogOpen (call_dialog c d) = dialogOpen d" "keysHeard (call_dialog c d) = keysHeard d"
  "bodyOverflow (call_dialog c d) = bodyOverflow d" "dialogCalls (call_dialog c d) = dialogCalls d @ [c]"
  by (simp_all add: call_dialog_def)

interpretation dialogs: free_event_system dialog_step dialog_inv
proof
  show "dialog_inv d \<Longrightarrow> dialog_inv (dialog_step e d)" for d e
    by (cases e)
      (auto simp: dialog_inv_def render_dialog_def unmount_dialog_def dialog_key_def click_button_def handleBackdropClick_def
        Let_def split: dialog_focus.splits)
qed

definition closed_dialog :: confirm_dialog where
  "closed_dialog = \<lparr>dialogOpen = False, keysHeard = False, bodyOverflow = ''unset'', dialogCalls = []\<rparr>"

text \<open>
  A closed dialog reacts to nothing and leaves the page scrollable; an open one holds the page still. Whatever happened before,
  Enter on the cancel button confirms as well as closes, and Enter on the confirm button confirms twice.
\<close>

theorem dialog_enter_confirms_anyway:
  fixes es :: "dialog_event list"
  defines "d \<equiv> fold dialog_step es closed_dialog"
  shows "bodyOverflow d = (if dialogOpen d then ''hidden'' else ''unset'') \<and>
    dialogCalls (dialog_key ''Escape'' f d) = dialogCalls d @ (if dialogOpen d then [Closed] else []) \<and>
    dialogCalls (dialog_key ''Enter'' CancelFocused d) = dialogCalls d @ (if dialogOpen d then [Confirmed, Closed] else []) \<and>
    dialogCalls (dialog_key ''Enter'' ConfirmFocused d) = dialogCalls d @ (if dialogOpen d then [Confirmed, Confirmed] else [])"
proof -
  have "dialog_inv closed_dialog" by (simp add: dialog_inv_def closed_dialog_def)
  then have "dialog_inv d" unfolding d_def by (rule dialogs.run)
  then show ?thesis by (simp add: dialog_inv_def dialog_key_def click_button_def Let_def)
qed

section \<open>The bottom sheet\<close>

definition DRAG_THRESHOLD :: rat where
  "DRAG_THRESHOLD = 80"

text \<open>Whether \<open>onClose\<close> is called: by a tap on the backdrop, or by a drag that ends far enough below.\<close>

datatype sheet_gesture = SheetBackdrop | DragEnd rat

fun sheet_closes :: "bool \<Rightarrow> sheet_gesture \<Rightarrow> bool" where
  "sheet_closes opens SheetBackdrop = opens"
| "sheet_closes opens (DragEnd y) = (opens \<and> DRAG_THRESHOLD < y)"

section \<open>The printer's message\<close>

text \<open>It appears with \<open>isVisible\<close> and goes two seconds after it.\<close>

record printer_message =
  printerVisible :: "bool option"
  shouldShow :: bool
  hideAt :: "nat option"
  printerClock :: nat

definition HIDE_DELAY_MS :: nat where
  "HIDE_DELAY_MS = 2000"

definition render_printer :: "bool \<Rightarrow> printer_message \<Rightarrow> printer_message" where
  "render_printer v s =
     (if printerVisible s = Some v then s
      else if v then s\<lparr>printerVisible := Some True, shouldShow := True, hideAt := None\<rparr>
      else s\<lparr>printerVisible := Some False, hideAt := Some (printerClock s + HIDE_DELAY_MS)\<rparr>)"

definition printer_time :: "nat \<Rightarrow> printer_message \<Rightarrow> printer_message" where
  "printer_time dt s =
     (let now = printerClock s + dt in
      case hideAt s of
        Some t \<Rightarrow> if t \<le> now then s\<lparr>printerClock := now, hideAt := None, shouldShow := False\<rparr> else s\<lparr>printerClock := now\<rparr>
      | None \<Rightarrow> s\<lparr>printerClock := now\<rparr>)"

datatype printer_event = RenderPrinter bool | PrinterTime nat

fun printer_step :: "printer_event \<Rightarrow> printer_message \<Rightarrow> printer_message" where
  "printer_step (RenderPrinter v) s = render_printer v s"
| "printer_step (PrinterTime dt) s = printer_time dt s"

definition new_printer :: printer_message where
  "new_printer = \<lparr>printerVisible = None, shouldShow = False, hideAt = None, printerClock = 0\<rparr>"

text \<open>When the message was last visible, after a run.\<close>

fun last_visible :: "printer_event list \<Rightarrow> nat \<Rightarrow> bool \<Rightarrow> nat option \<Rightarrow> nat option" where
  "last_visible [] now v l = (if v then Some now else l)"
| "last_visible (RenderPrinter w # es) now v l = last_visible es now w (if v then Some now else l)"
| "last_visible (PrinterTime dt # es) now v l = last_visible es (now + dt) v (if v then Some (now + dt) else l)"

text \<open>Two seconds have not passed since.\<close>

definition lingers :: "nat option \<Rightarrow> nat \<Rightarrow> bool" where
  "lingers l now \<longleftrightarrow> (case l of None \<Rightarrow> False | Some t \<Rightarrow> now < t + HIDE_DELAY_MS)"

definition printer_inv :: "nat option \<Rightarrow> printer_message \<Rightarrow> bool" where
  "printer_inv l s \<longleftrightarrow>
     (case printerVisible s of
        None \<Rightarrow> l = None \<and> \<not> shouldShow s \<and> hideAt s = None
      | Some True \<Rightarrow> shouldShow s \<and> hideAt s = None
      | Some False \<Rightarrow>
          (case l of
             None \<Rightarrow> \<not> shouldShow s
           | Some t \<Rightarrow>
               (shouldShow s \<longleftrightarrow> printerClock s < t + HIDE_DELAY_MS) \<and>
               (shouldShow s \<longrightarrow> hideAt s = Some (t + HIDE_DELAY_MS))))"

lemma printer_run:
  assumes "printer_inv l s"
  shows "shouldShow (fold printer_step es s) \<longleftrightarrow>
    lingers (last_visible es (printerClock s) (printerVisible s = Some True) l) (printerClock (fold printer_step es s))"
  using assms
proof (induction es arbitrary: s l)
  case Nil
  then show ?case by (auto simp: printer_inv_def HIDE_DELAY_MS_def lingers_def split: option.splits bool.splits)
next
  case (Cons e es)
  let ?l = "if printerVisible s = Some True then Some (printerClock (printer_step e s)) else l"
  have clock: "printerClock (render_printer v s) = printerClock s" "printerClock (printer_time dt s) = printerClock s + dt"
    "printerVisible (render_printer v s) = Some v" "printerVisible (printer_time dt s) = printerVisible s" for v dt
    by (auto simp: render_printer_def printer_time_def Let_def split: option.split)
  have "printer_inv ?l (printer_step e s)"
    using Cons.prems
    by (cases e)
      (auto simp: printer_inv_def render_printer_def printer_time_def HIDE_DELAY_MS_def Let_def split: option.splits bool.splits if_splits)
  note IH = Cons.IH [OF this]
  show ?case
  proof (cases e)
    case (RenderPrinter v)
    then show ?thesis using IH by (cases v) (simp_all add: clock)
  next
    case (PrinterTime dt)
    then show ?thesis using IH by (simp add: clock)
  qed
qed

text \<open>
  The message is shown exactly while \<open>isVisible\<close> holds and for two seconds after it last held, however often it is turned on and
  off.
\<close>

theorem printer_message_lingers:
  "shouldShow (fold printer_step es new_printer) \<longleftrightarrow>
     lingers (last_visible es 0 False None) (printerClock (fold printer_step es new_printer))"
  using printer_run [of None new_printer es] by (simp add: printer_inv_def new_printer_def)

section \<open>The viewport\<close>

text \<open>
  The scale is computed from the panel's size at every change of it. The canvas fills the panel and is not transformed, so that
  a point \<open>px\<close> of it is drawn \<open>px\<close> from its left edge, whatever the scale.
\<close>

definition LOGICAL_WIDTH :: rat where
  "LOGICAL_WIDTH = 1080"

definition LOGICAL_HEIGHT :: rat where
  "LOGICAL_HEIGHT = 1920"

definition recompute :: "rat \<Rightarrow> rat \<Rightarrow> rat" where
  "recompute innerWidth innerHeight = min (fl_div innerWidth LOGICAL_WIDTH) (fl_div innerHeight LOGICAL_HEIGHT)"

definition logicalPoint :: "rat \<Rightarrow> (rat \<times> rat) option \<Rightarrow> rat \<times> rat \<Rightarrow> rat \<times> rat" where
  "logicalPoint s canvas p =
     (if s = 0 then p
      else case canvas of
        None \<Rightarrow> (fl_div (fst p) s, fl_div (snd p) s)
      | Some rect \<Rightarrow> (fl_div (fl (fst p - fst rect)) s, fl_div (fl (snd p - snd rect)) s))"

definition drawn_at :: "rat \<times> rat \<Rightarrow> rat \<times> rat \<Rightarrow> rat \<times> rat" where
  "drawn_at rect q = (fst rect + fst q, snd rect + snd q)"

lemma fl_div_quotient: "fl_div a b = fl (a / b)"
  by (simp add: fl_def fl_div_def)

lemma fl_nat: "n < 2 ^ 53 \<Longrightarrow> fl (of_nat n) = of_nat n"
proof (rule fl_exact [where n = "int n" and i = 0])
  show "quotient_of (of_nat n) = (int n, 2 ^ 0)" using quotient_of_rat_of_int [of "int n"] by (simp only: of_int_of_nat_eq power_0)
  show "n < 2 ^ 53 \<Longrightarrow> \<bar>int n\<bar> < 2 ^ 53" by simp
qed

lemma fl_div_nat: "0 < k \<Longrightarrow> n < 2 ^ 53 \<Longrightarrow> fl_div (of_nat (k * n)) (of_nat k) = of_nat n"
  by (simp add: fl_div_quotient fl_nat)

text \<open>
  On a panel of the size of the design every touch is read back where it was, and what is drawn there lies under the finger. On
  a panel \<open>k\<close> times as large a touch at \<open>(k x, k y)\<close> is read as \<open>(x, y)\<close> and drawn there.
\<close>

theorem viewport_reads_scaled_draws_unscaled:
  assumes "0 < k" "k < 2 ^ 10" "x < 2 ^ 40" "y < 2 ^ 40"
  defines "s \<equiv> recompute (of_nat (k * 1080)) (of_nat (k * 1920))"
  defines "q \<equiv> logicalPoint s (Some (0, 0)) (of_nat (k * x), of_nat (k * y))"
  shows "s = of_nat k" "drawn_at (0, 0) q = (of_nat x, of_nat y)"
proof -
  have "fl_div (of_nat (k * m)) (of_nat m) = of_nat k" if "0 < m" for m
    using fl_div_nat [OF that, of k] assms(2) by (simp add: mult.commute)
  from this [of 1080] this [of 1920] show s: "s = of_nat k"
    by (simp add: s_def recompute_def LOGICAL_WIDTH_def LOGICAL_HEIGHT_def del: of_nat_mult)
  have "k * n < 2 ^ 53" if "n < 2 ^ 40" for n
  proof -
    have "k * n < 2 ^ 10 * 2 ^ 40" using assms(2) that by (rule mult_strict_mono) simp_all
    then show ?thesis by (simp flip: power_add)
  qed
  then show "drawn_at (0, 0) q = (of_nat x, of_nat y)"
    using assms(1,3,4) by (simp add: q_def s logicalPoint_def drawn_at_def fl_nat fl_div_nat del: of_nat_mult)
qed

section \<open>The error boundary\<close>

text \<open>
  A child's error is kept, and shown below the message in development. The restart button reloads the page at the pointer's
  press and again at the click; \<open>reloads\<close> counts the calls.
\<close>

record kiosk_boundary =
  kbError :: "string option"
  kbLogged :: "string list"
  reloads :: nat

datatype boundary_event = ChildThrows string | RestartPointerDown | RestartClick

definition shows_children :: "kiosk_boundary \<Rightarrow> bool" where
  "shows_children b \<longleftrightarrow> kbError b = None"

definition shown_details :: "bool \<Rightarrow> kiosk_boundary \<Rightarrow> string option" where
  "shown_details dev b = (if dev then kbError b else None)"

fun boundary_step :: "boundary_event \<Rightarrow> kiosk_boundary \<Rightarrow> kiosk_boundary" where
  "boundary_step (ChildThrows e) b =
     (if shows_children b then b\<lparr>kbError := Some e, kbLogged := kbLogged b @ [e]\<rparr> else b)"
| "boundary_step RestartPointerDown b = (if shows_children b then b else b\<lparr>reloads := reloads b + 1\<rparr>)"
| "boundary_step RestartClick b = (if shows_children b then b else b\<lparr>reloads := reloads b + 1\<rparr>)"

definition new_boundary :: kiosk_boundary where
  "new_boundary = \<lparr>kbError = None, kbLogged = [], reloads = 0\<rparr>"

definition boundary_inv :: "kiosk_boundary \<Rightarrow> bool" where
  "boundary_inv b \<longleftrightarrow> kbLogged b = (case kbError b of None \<Rightarrow> [] | Some e \<Rightarrow> [e]) \<and> (shows_children b \<longrightarrow> reloads b = 0)"

interpretation boundaries: free_event_system boundary_step boundary_inv
proof
  show "boundary_inv b \<Longrightarrow> boundary_inv (boundary_step e b)" for b e
    by (cases e) (auto simp: boundary_inv_def shows_children_def split: option.splits)
qed

lemma error_stays: "\<not> shows_children b \<Longrightarrow> kbError (fold boundary_step es b) = kbError b"
proof (induction es arbitrary: b)
  case (Cons e es)
  then have "kbError (boundary_step e b) = kbError b" "\<not> shows_children (boundary_step e b)"
    by (cases e; simp add: shows_children_def)+
  then show ?case using Cons.IH by simp
qed simp

text \<open>
  After an error nothing that happens on the page shows the children again; the error is logged once, a tap of the button
  reloads twice, and a customer's screen keeps the details to itself.
\<close>

theorem boundary_waits_for_reload:
  fixes es fs :: "boundary_event list" and m :: string
  defines "b \<equiv> fold boundary_step (es @ ChildThrows m # fs) new_boundary"
  shows "\<not> shows_children b \<and> (\<exists>e. kbLogged b = [e] \<and> shown_details True b = Some e) \<and> shown_details False b = None \<and>
    reloads (fold boundary_step [RestartPointerDown, RestartClick] b) = reloads b + 2"
proof -
  have "boundary_inv new_boundary" by (simp add: boundary_inv_def new_boundary_def shows_children_def)
  then have inv: "boundary_inv b" unfolding b_def by (rule boundaries.run)
  let ?c = "boundary_step (ChildThrows m) (fold boundary_step es new_boundary)"
  have c: "\<not> shows_children ?c" by (simp add: shows_children_def)
  have "b = fold boundary_step fs ?c" by (simp add: b_def)
  then have "\<not> shows_children b" using error_stays [OF c] c by (simp add: shows_children_def)
  then show ?thesis using inv by (auto simp: boundary_inv_def shows_children_def shown_details_def)
qed

end
