(* ===== verification/StatusViews.thy ===== *)
theory StatusViews
  imports KioskState KioskMachine Produce
begin

text \<open>
  What the kiosk shows of the work going on: the status bar (\<open>components/StatusBar.tsx\<close>), the stages of
  \<open>routes/ProcessingScreen.tsx\<close> and the panel \<open>produce/ProduceScanner.tsx\<close> around the scanner's hook.
\<close>

section \<open>The status bar\<close>

datatype p2p_color = Moss | Amber | Stone

definition p2pColor :: "NetworkStatus \<Rightarrow> p2p_color" where
  "p2pColor n = (if KioskState.online n then Moss else if 0 < meshPeerCount n then Amber else Stone)"

definition p2pLabel :: "NetworkStatus \<Rightarrow> string" where
  "p2pLabel n =
     (if p2pColor n = Moss then ''status.synced'' else if p2pColor n = Amber then ''status.syncing'' else ''status.offline'')"

definition dot_color :: "NetworkStatus \<Rightarrow> string" where
  "dot_color n =
     (if p2pColor n = Moss then ''var(--color-moss, #5A7A5C)''
      else if p2pColor n = Amber then ''var(--color-amber, #B87E6B)''
      else ''var(--color-stone, #6B6862)'')"

text \<open>The two icons: a class, a label, and what is drawn.\<close>

datatype drawing = Circle nat nat nat | Line nat nat nat nat | Path string

record icon =
  iconClass :: string
  iconLabel :: string
  drawn :: "drawing list"

definition api_icon :: "apiStatusKind \<Rightarrow> icon" where
  "api_icon st =
     \<lparr>iconClass = (if st = Api_online then ''text-moss'' else if st = Api_degraded then ''text-amber'' else ''text-stone''),
      iconLabel = (if st = Api_online then ''status.apiOnline'' else if st = Api_degraded then ''status.apiDegraded''
        else ''status.apiOffline''),
      drawn =
        (if st = Api_online then [Circle 12 12 10, Path ''M12 8v4'', Path ''M12 16v.01'']
         else if st = Api_degraded then [Circle 12 12 10, Path ''M12 8v4'', Path ''M8 12h8'']
         else [Circle 12 12 10, Path ''M12 8v4'', Path ''M8 8l8 8'', Path ''M16 8l-8 8''])\<rparr>"

definition network_icon :: "NetworkStatus \<Rightarrow> icon" where
  "network_icon n =
     \<lparr>iconClass = (if KioskState.online n then ''text-moss'' else ''text-stone''),
      iconLabel = (if KioskState.online n then ''status.networkConnected'' else ''status.networkDisconnected''),
      drawn =
        (if KioskState.online n
         then [Path ''M22.61 16.95A5 5 0 0 0 18 10h-1.26a8 8 0 0 0-7.05-6M5 5a8 8 0 0 0 4 15h9a5 5 0 0 0 1.7-.3'', Line 1 1 23 23]
         else [Path ''M2 20h20'', Path ''M5 17a9 9 0 0 1 14 0'', Path ''M8 13a5 5 0 0 1 8 0''])\<rparr>"

text \<open>
  The sheet: the four rows, and one dot for this kiosk and one for each peer (\<open>Array.from\<close> of a negative length is empty).
\<close>

record mesh_sheet =
  onlineRow :: string
  peersRow :: int
  lagRow :: int
  roleRow :: string
  dots :: "p2p_color list"

definition mesh_sheet_of :: "NetworkStatus \<Rightarrow> mesh_sheet" where
  "mesh_sheet_of n =
     \<lparr>onlineRow = p2pLabel n, peersRow = meshPeerCount n, lagRow = syncLagMs n,
      roleRow = (if isLeader n then ''status.leader'' else ''status.peer''),
      dots = Moss # replicate (nat (meshPeerCount n)) Amber\<rparr>"

text \<open>The state of the bar itself: the time shown, the sheet and the background.\<close>

record status_bar =
  barNow :: nat
  meshOpen :: bool
  bgVisible :: bool

datatype bar_event = ClockInterval nat | TapStatus | CloseSheet | ScrollSpring rat

fun bar_step :: "bar_event \<Rightarrow> status_bar \<Rightarrow> status_bar" where
  "bar_step (ClockInterval now) b = b\<lparr>barNow := now\<rparr>"
| "bar_step TapStatus b = b\<lparr>meshOpen := True\<rparr>"
| "bar_step CloseSheet b = b\<lparr>meshOpen := False\<rparr>"
| "bar_step (ScrollSpring v) b = b\<lparr>bgVisible := 100 < v\<rparr>"

text \<open>
  The dot and the label go together, and tell apart the three situations but for one: a kiosk that is online counts as synced
  with however many peers and however great a lag. The connected network is drawn as a cloud that is struck out, and the line
  through it goes when the network does.
\<close>

theorem status_bar_reads_network:
  "p2pLabel n = ''status.synced'' \<longleftrightarrow> KioskState.online n"
  "p2pLabel n = ''status.syncing'' \<longleftrightarrow> \<not> KioskState.online n \<and> 1 < length (dots (mesh_sheet_of n))"
  "dot_color n = dot_color n' \<longleftrightarrow> p2pLabel n = p2pLabel n'"
  "Line 1 1 23 23 \<in> set (drawn (network_icon n)) \<longleftrightarrow> iconLabel (network_icon n) = ''status.networkConnected''"
  by (simp_all add: p2pLabel_def p2pColor_def dot_color_def mesh_sheet_of_def network_icon_def)

section \<open>The stages of the payment\<close>

text \<open>
  \<open>STAGES\<close> is memoised on \<open>t\<close>, which is another function with every rendering, so that each rendering starts the
  timer of the current stage anew. A strict rendering runs the first effect's clean-up once, and \<open>mountedRef\<close> is not set again.
\<close>

definition stage_durations :: "nat list" where
  "stage_durations = [1000, 2000, 2500, 1500]"

definition stage_labels :: "string list" where
  "stage_labels = [''processing.connecting'', ''processing.waitingForCard'', ''processing.authorizing'', ''processing.finalizingStage'']"

record processing_view =
  stageIndex :: nat
  dotsFilled :: nat
  stageTimer :: "nat option"
  mountedRef :: bool
  buzzes :: nat

definition start_stage :: "processing_view \<Rightarrow> processing_view" where
  "start_stage v = v\<lparr>stageTimer := if length stage_durations \<le> stageIndex v then None else Some (stage_durations ! stageIndex v)\<rparr>"

definition mount_processing :: "bool \<Rightarrow> processing_view" where
  "mount_processing strict =
     start_stage \<lparr>stageIndex = 0, dotsFilled = 0, stageTimer = None, mountedRef = \<not> strict, buzzes = 0\<rparr>"

definition currentStage :: "processing_view \<Rightarrow> string" where
  "currentStage v = stage_labels ! min (stageIndex v) (length stage_labels - 1)"

definition rerender :: "processing_view \<Rightarrow> processing_view" where
  "rerender = start_stage"

text \<open>The timer's callback; the rendering that it causes starts the next stage, and a new label makes the device vibrate.\<close>

definition stage_over :: "processing_view \<Rightarrow> processing_view" where
  "stage_over v =
     (if \<not> mountedRef v then v\<lparr>stageTimer := None\<rparr>
      else
        let w = v\<lparr>stageIndex := stageIndex v + 1, dotsFilled := min (dotsFilled v + 1) (length stage_durations)\<rparr>
        in start_stage (if currentStage w \<noteq> currentStage v then w\<lparr>buzzes := buzzes v + 1\<rparr> else w))"

definition stage_ms :: "processing_view \<Rightarrow> processing_view" where
  "stage_ms v =
     (case stageTimer v of
        None \<Rightarrow> v
      | Some n \<Rightarrow> if n \<le> 1 then stage_over v else v\<lparr>stageTimer := Some (n - 1)\<rparr>)"

lemma stage_waits:
  "stageTimer v = Some n \<Longrightarrow> k < n \<Longrightarrow> (stage_ms ^^ k) v = v\<lparr>stageTimer := Some (n - k)\<rparr>"
proof (induction k)
  case (Suc k)
  then have "\<not> n - k \<le> 1" by simp
  with Suc show ?case by (simp add: stage_ms_def)
qed simp

lemma stage_ends:
  assumes "stageTimer v = Some n" "0 < n"
  shows "(stage_ms ^^ n) v = stage_over v"
proof -
  obtain k where n: "n = Suc k" using assms(2) by (cases n) auto
  have "stage_over (v\<lparr>stageTimer := t\<rparr>) = stage_over v" for t
    by (simp add: stage_over_def start_stage_def currentStage_def Let_def)
  then show ?thesis using stage_waits [OF assms(1), of k] by (simp add: n stage_ms_def)
qed

text \<open>
  Left alone, the view goes through its four stages in seven seconds and stays at the last label with all four dots filled and
  three vibrations.
\<close>

definition staged :: "nat \<Rightarrow> nat" where
  "staged ms = (if ms < 1000 then 0 else if ms < 3000 then 1 else if ms < 5500 then 2 else if ms < 7000 then 3 else 4)"

lemma processing_runs:
  assumes "ms < n" "(stage_ms ^^ m) (mount_processing False) =
    \<lparr>stageIndex = i, dotsFilled = i, stageTimer = Some n, mountedRef = True, buzzes = b\<rparr>"
  shows "(stage_ms ^^ (ms + m)) (mount_processing False) =
    \<lparr>stageIndex = i, dotsFilled = i, stageTimer = Some (n - ms), mountedRef = True, buzzes = b\<rparr>"
  using stage_waits [OF _ assms(1)] by (simp add: funpow_add assms(2))

lemma strict_mount_stuck:
  assumes "\<not> mountedRef v"
  shows "\<not> mountedRef (stage_ms v)" "stageIndex (stage_ms v) = stageIndex v"
    "\<not> mountedRef (rerender v)" "stageIndex (rerender v) = stageIndex v"
  using assms by (auto simp: stage_ms_def stage_over_def rerender_def start_stage_def split: option.split)

lemma restless_stage:
  assumes "stageIndex v = 0" "stageTimer v = Some 1000" "g < 1000"
  shows "stageIndex (rerender ((stage_ms ^^ g) v)) = 0" "stageTimer (rerender ((stage_ms ^^ g) v)) = Some 1000"
  using stage_waits [OF assms(2,3)] assms(1) by (simp_all add: rerender_def start_stage_def stage_durations_def)

text \<open>Each moment of the run is so many milliseconds into one of the stages.\<close>

lemma stage_at:
  "(stage_ms ^^ 1000) (mount_processing False) =
     \<lparr>stageIndex = 1, dotsFilled = 1, stageTimer = Some 2000, mountedRef = True, buzzes = 1\<rparr>"
  "(stage_ms ^^ 3000) (mount_processing False) =
     \<lparr>stageIndex = 2, dotsFilled = 2, stageTimer = Some 2500, mountedRef = True, buzzes = 2\<rparr>"
  "(stage_ms ^^ 5500) (mount_processing False) =
     \<lparr>stageIndex = 3, dotsFilled = 3, stageTimer = Some 1500, mountedRef = True, buzzes = 3\<rparr>"
  "(stage_ms ^^ 7000) (mount_processing False) =
     \<lparr>stageIndex = 4, dotsFilled = 4, stageTimer = None, mountedRef = True, buzzes = 3\<rparr>"
proof -
  let ?m = "mount_processing False"
  have next_stage: "(stage_ms ^^ (n + m)) ?m = stage_over w" if "(stage_ms ^^ m) ?m = w" "stageTimer w = Some n" "0 < n" for m n w
    using stage_ends [OF that(2,3)] by (simp add: funpow_add that(1))
  show a: "(stage_ms ^^ 1000) ?m = \<lparr>stageIndex = 1, dotsFilled = 1, stageTimer = Some 2000, mountedRef = True, buzzes = 1\<rparr>"
    using next_stage [of 0, OF refl, of 1000]
    by (simp add: mount_processing_def stage_over_def start_stage_def currentStage_def stage_labels_def stage_durations_def)
  show b: "(stage_ms ^^ 3000) ?m = \<lparr>stageIndex = 2, dotsFilled = 2, stageTimer = Some 2500, mountedRef = True, buzzes = 2\<rparr>"
    using next_stage [OF a, of 2000]
    by (simp add: stage_over_def start_stage_def currentStage_def stage_labels_def stage_durations_def numeral_2_eq_2)
  show c: "(stage_ms ^^ 5500) ?m = \<lparr>stageIndex = 3, dotsFilled = 3, stageTimer = Some 1500, mountedRef = True, buzzes = 3\<rparr>"
    using next_stage [OF b, of 2500]
    by (simp add: stage_over_def start_stage_def currentStage_def stage_labels_def stage_durations_def numeral_2_eq_2 numeral_3_eq_3)
  show "(stage_ms ^^ 7000) ?m = \<lparr>stageIndex = 4, dotsFilled = 4, stageTimer = None, mountedRef = True, buzzes = 3\<rparr>"
    using next_stage [OF c, of 1500]
    by (simp add: stage_over_def start_stage_def currentStage_def stage_labels_def stage_durations_def numeral_2_eq_2 numeral_3_eq_3)
qed

theorem processing_shows_stages:
  "stageIndex ((stage_ms ^^ ms) (mount_processing False)) = staged ms"
  "dotsFilled ((stage_ms ^^ ms) (mount_processing False)) = staged ms"
  "buzzes ((stage_ms ^^ ms) (mount_processing False)) = min (staged ms) 3"
proof -
  let ?v = "(stage_ms ^^ ms) (mount_processing False)"
  have "stageIndex ?v = staged ms \<and> dotsFilled ?v = staged ms \<and> buzzes ?v = min (staged ms) 3"
  proof -
    have start: "(stage_ms ^^ 0) (mount_processing False) =
        \<lparr>stageIndex = 0, dotsFilled = 0, stageTimer = Some 1000, mountedRef = True, buzzes = 0\<rparr>"
      by (simp add: mount_processing_def start_stage_def stage_durations_def)
    consider "ms < 1000" | "1000 \<le> ms" "ms < 3000" | "3000 \<le> ms" "ms < 5500" | "5500 \<le> ms" "ms < 7000" | "7000 \<le> ms"
      by linarith
    then show ?thesis
    proof cases
      case 1
      then show ?thesis using processing_runs [OF _ start, of ms] by (simp add: staged_def)
    next
      case 2
      then show ?thesis using processing_runs [OF _ stage_at(1), of "ms - 1000"] by (simp add: staged_def)
    next
      case 3
      then show ?thesis using processing_runs [OF _ stage_at(2), of "ms - 3000"] by (simp add: staged_def)
    next
      case 4
      then show ?thesis using processing_runs [OF _ stage_at(3), of "ms - 5500"] by (simp add: staged_def)
    next
      case 5
      have "(stage_ms ^^ k) w = w" if "stageTimer w = None" for k w
        using that by (induction k) (simp_all add: stage_ms_def)
      then have "(stage_ms ^^ (ms - 7000 + 7000)) (mount_processing False) =
          \<lparr>stageIndex = 4, dotsFilled = 4, stageTimer = None, mountedRef = True, buzzes = 3\<rparr>"
        by (simp only: funpow_add comp_apply stage_at(4)) simp
      then show ?thesis using 5 by (simp add: staged_def)
    qed
  qed
  then show "stageIndex ?v = staged ms" "dotsFilled ?v = staged ms" "buzzes ?v = min (staged ms) 3" by simp_all
qed

text \<open>
  A view that is rendered again at least once a second never leaves its first stage, and under a strict rendering no view does,
  however often it is rendered.
\<close>

theorem restless_processing_stands_still:
  "\<forall>g \<in> set gaps. g < 1000 \<Longrightarrow> stageIndex (fold (\<lambda>g v. rerender ((stage_ms ^^ g) v)) gaps (mount_processing False)) = 0"
proof -
  have "stageIndex v = 0 \<Longrightarrow> stageTimer v = Some 1000 \<Longrightarrow> \<forall>g \<in> set gaps. g < 1000 \<Longrightarrow>
      stageIndex (fold (\<lambda>g v. rerender ((stage_ms ^^ g) v)) gaps v) = 0" for v
    by (induction gaps arbitrary: v) (simp_all add: restless_stage)
  from this [of "mount_processing False"] show "\<forall>g \<in> set gaps. g < 1000 \<Longrightarrow> ?thesis"
    by (simp add: mount_processing_def start_stage_def stage_durations_def)
qed

theorem strict_processing_stands_still:
  "stageIndex (fold (\<lambda>again v. if again then rerender v else stage_ms v) es (mount_processing True)) = 0"
proof -
  have "\<not> mountedRef v \<Longrightarrow> stageIndex (fold (\<lambda>again v. if again then rerender v else stage_ms v) es v) = stageIndex v" for v
    by (induction es arbitrary: v) (simp_all add: strict_mount_stuck)
  then show ?thesis by (simp add: mount_processing_def start_stage_def)
qed

section \<open>The scanner's panel\<close>

text \<open>The panel keeps the code typed, of four characters at most, and a message; \<open>picked\<close> are the calls of \<open>onSelectItem\<close>.\<close>

record produce_panel =
  scanner :: ScannerHook
  pluTyped :: string
  pluError :: "string option"
  picked :: "MenuItem list"
  panelClosed :: nat

definition plu_not_found :: "string \<Rightarrow> string" where
  "plu_not_found code = ''PLU \"'' @ code @ ''\" not found. Try 4011, 4013, 4062.''"

definition type_plu :: "string \<Rightarrow> produce_panel \<Rightarrow> produce_panel" where
  "type_plu s p = p\<lparr>pluTyped := take 4 s, pluError := None\<rparr>"

definition close_panel :: "produce_panel \<Rightarrow> produce_panel" where
  "close_panel p = p\<lparr>scanner := stopScanning (scanner p), panelClosed := panelClosed p + 1\<rparr>"

definition handlePluSubmit :: "(string \<Rightarrow> MenuItem option) \<Rightarrow> produce_panel \<Rightarrow> produce_panel" where
  "handlePluSubmit onLookupPlu p =
     (if pluTyped p = [] then p
      else case onLookupPlu (pluTyped p) of
        Some item \<Rightarrow> p\<lparr>scanner := stopScanning (scanner p), picked := picked p @ [item]\<rparr>
      | None \<Rightarrow>
          p\<lparr>scanner := snd (submitPlu (pluTyped p) [] (scanner p)), pluError := Some (plu_not_found (pluTyped p))\<rparr>)"

text \<open>What the panel says: the hook's error, the match with its confidence before a per cent sign, and the message.\<close>

definition panel_says :: "(rat \<Rightarrow> string) \<Rightarrow> produce_panel \<Rightarrow> string list" where
  "panel_says num p =
     (case scanError (scanner p) of Some e \<Rightarrow> if e = [] then [] else [e] | None \<Rightarrow> []) @
     (case lastMatch (scanner p) of
        None \<Rightarrow> []
      | Some mt \<Rightarrow> [''Detected: '' @ case_option [] id (matchName mt) @ '' ('' @ num (confidence mt) @ ''%)'']) @
     (case pluError p of None \<Rightarrow> [] | Some e \<Rightarrow> [e])"

definition new_panel :: "produce_panel" where
  "new_panel = \<lparr>scanner = new_scanner, pluTyped = [], pluError = None, picked = [], panelClosed = 0\<rparr>"

text \<open>
  A code of the produce table that the menu does not have is reported as detected, at one per cent, and as not found. One that
  neither has is only reported as not found, and one that the menu has is picked, with the camera released.
\<close>

theorem panel_answers_code:
  fixes p :: produce_panel and onMenu :: "string \<Rightarrow> MenuItem option"
  assumes "pluTyped p \<noteq> []" "scanError (scanner p) = None" "lastMatch (scanner p) = None"
  defines "q \<equiv> handlePluSubmit onMenu p"
  shows "case onMenu (pluTyped p) of
      Some item \<Rightarrow> picked q = picked p @ [item] \<and> \<not> isScanning (scanner q)
    | None \<Rightarrow> picked q = picked p \<and> panel_says num q =
        (case lookupByPlu (pluTyped p) of
           None \<Rightarrow> []
         | Some mt \<Rightarrow> [''Detected: '' @ case_option [] id (matchName mt) @ '' ('' @ num 1 @ ''%)'']) @
        [plu_not_found (pluTyped p)]"
proof -
  have one: "lookupByPlu c = Some mt \<Longrightarrow> confidence mt = 1" for c mt
    by (auto simp: lookupByPlu_def Let_def split: option.splits)
  show ?thesis
    using assms(1-3)
    by (auto simp: q_def handlePluSubmit_def panel_says_def submitPlu_def stopScanning_def Let_def one split: option.splits)
qed

lemma panel_answers_code_witness:
  "panel_says (\<lambda>_. ''1'') (handlePluSubmit (\<lambda>_. None) (type_plu ''4011'' new_panel)) =
     [''Detected: Bananas (1%)'', ''PLU \"4011\" not found. Try 4011, 4013, 4062.'']"
proof -
  have "lookupByPlu ''4011'' =
      Some \<lparr>matchItemId = Some ''prod-banana'', matchPlu = ''4011'', matchName = Some ''Bananas'', confidence = 1\<rparr>"
    by code_simp
  then show ?thesis
    using panel_answers_code [of "type_plu ''4011'' new_panel" "\<lambda>_. None" "\<lambda>_. ''1''"]
    by (simp add: type_plu_def new_panel_def new_scanner_def plu_not_found_def)
qed

end
