(* ===== verification/Logging.thy ===== *)
theory Logging
  imports JsParse Produce
begin

text \<open>
  The kiosk's logger (\<open>utils/logger.ts\<close>): which calls write a line, and the line they write. The time of a call and the
  environment's \<open>VITE_LOG_LEVEL\<close> are arguments.
\<close>

datatype LogLevel = Debug | Info | Warn | Err

definition level_name :: "LogLevel \<Rightarrow> string" where
  "level_name l = (case l of Debug \<Rightarrow> ''debug'' | Info \<Rightarrow> ''info'' | Warn \<Rightarrow> ''warn'' | Err \<Rightarrow> ''error'')"

definition LOG_LEVELS :: "(string \<times> nat) list" where
  "LOG_LEVELS = [(''debug'', 0), (''info'', 1), (''warn'', 2), (''error'', 3)]"

text \<open>
  The property access finds what the table inherits from \<open>Object.prototype\<close> as well, a function or an object, with which no
  number compares: \<open>None\<close>.
\<close>

definition currentLevel :: "string option \<Rightarrow> nat option" where
  "currentLevel env =
     (let raw = (case env of None \<Rightarrow> ''warn'' | Some s \<Rightarrow> s) in
      case map_of LOG_LEVELS raw of
        Some n \<Rightarrow> Some n
      | None \<Rightarrow> if map_of object_prototype raw \<noteq> None then None else map_of LOG_LEVELS ''warn'')"

record Logger =
  loggerName :: string
  loggerLevel :: "nat option"

definition new_Logger :: "string option \<Rightarrow> string \<Rightarrow> Logger" where
  "new_Logger env nm = \<lparr>loggerName = nm, loggerLevel = currentLevel env\<rparr>"

definition childLogger :: "string option \<Rightarrow> Logger \<Rightarrow> string \<Rightarrow> Logger" where
  "childLogger env lg nm = new_Logger env (loggerName lg @ '':'' @ nm)"

definition shouldLog :: "Logger \<Rightarrow> LogLevel \<Rightarrow> bool" where
  "shouldLog lg l =
     (case loggerLevel lg of None \<Rightarrow> False | Some n \<Rightarrow> n \<le> the (map_of LOG_LEVELS (level_name l)))"

text \<open>An error as it is thrown: an \<open>Error\<close>, or another value with its text and whether it is truthy.\<close>

datatype error_value = IsError string string "string option" | NotError bool string

definition serializeError :: "error_value \<Rightarrow> (string \<times> jsval) list" where
  "serializeError e =
     (case e of
        IsError nm msg stack \<Rightarrow>
          [(''name'', JStr nm), (''message'', JStr msg), (''stack'', case stack of None \<Rightarrow> JUndefined | Some s \<Rightarrow> JStr s)]
      | NotError _ s \<Rightarrow> [(''message'', JStr s)])"

definition truthy_error :: "error_value \<Rightarrow> bool" where
  "truthy_error e = (case e of IsError _ _ _ \<Rightarrow> True | NotError b _ \<Rightarrow> b)"

datatype console_call = ConsoleError string | ConsoleWarn string

definition entry_of :: "string \<Rightarrow> LogLevel \<Rightarrow> string \<Rightarrow> string \<Rightarrow> (string \<times> jsval) list option \<Rightarrow> jsval" where
  "entry_of now l nm message context =
     JObj ([(''timestamp'', JStr now), (''level'', JStr (level_name l)), (''logger'', JStr nm), (''message'', JStr message)] @
       (case context of None \<Rightarrow> [] | Some c \<Rightarrow> [(''context'', JObj c)]))"

definition log_line :: "(rat \<Rightarrow> string) \<Rightarrow> string \<Rightarrow> Logger \<Rightarrow> LogLevel \<Rightarrow> string \<Rightarrow> (string \<times> jsval) list option \<Rightarrow>
    console_call list" where
  "log_line ns now lg l message context =
     (if \<not> shouldLog lg l then []
      else
        let line = stringify ns (entry_of now l (loggerName lg) message context)
        in [if l = Err then ConsoleError line else ConsoleWarn line])"

definition log_error :: "(rat \<Rightarrow> string) \<Rightarrow> string \<Rightarrow> Logger \<Rightarrow> string \<Rightarrow> error_value option \<Rightarrow>
    (string \<times> jsval) list option \<Rightarrow> console_call list" where
  "log_error ns now lg message e context =
     (let spread = case_option [] id context;
          merged = (case e of
             None \<Rightarrow> spread
           | Some v \<Rightarrow> if truthy_error v then AList.update ''error'' (JObj (serializeError v)) spread else spread)
      in log_line ns now lg Err message (Some merged))"

text \<open>The levels are ordered, and a name that is none of the four counts as \<open>warn\<close>, unless every object has it.\<close>

fun level_rank :: "LogLevel \<Rightarrow> nat" where
  "level_rank Debug = 0"
| "level_rank Info = 1"
| "level_rank Warn = 2"
| "level_rank Err = 3"

lemma level_rank_table: "map_of LOG_LEVELS (level_name l) = Some (level_rank l)"
  by (cases l) (simp_all add: LOG_LEVELS_def level_name_def)

theorem logger_writes_from_its_level:
  "shouldLog (new_Logger (Some (level_name m)) nm) l \<longleftrightarrow> level_rank m \<le> level_rank l"
  "shouldLog (new_Logger None nm) l \<longleftrightarrow> l = Warn \<or> l = Err"
  "s \<notin> level_name ` UNIV \<Longrightarrow>
     shouldLog (new_Logger (Some s) nm) l \<longleftrightarrow> (l = Warn \<or> l = Err) \<and> s \<notin> fst ` set object_prototype"
  "shouldLog (childLogger env (new_Logger env nm) k) l \<longleftrightarrow> shouldLog (new_Logger env nm) l"
proof -
  have warn: "2 \<le> level_rank l \<longleftrightarrow> l = Warn \<or> l = Err" by (cases l) simp_all
  note defs = shouldLog_def new_Logger_def currentLevel_def
  show "shouldLog (new_Logger (Some (level_name m)) nm) l \<longleftrightarrow> level_rank m \<le> level_rank l"
    by (simp add: defs level_rank_table)
  show "shouldLog (new_Logger None nm) l \<longleftrightarrow> l = Warn \<or> l = Err"
  proof -
    have "map_of LOG_LEVELS ''warn'' = Some 2" by (simp add: LOG_LEVELS_def)
    then show ?thesis by (simp add: defs level_rank_table warn)
  qed
  show "shouldLog (new_Logger (Some s) nm) l \<longleftrightarrow> (l = Warn \<or> l = Err) \<and> s \<notin> fst ` set object_prototype"
    if "s \<notin> level_name ` UNIV"
  proof -
    have "set (map fst LOG_LEVELS) \<subseteq> level_name ` UNIV"
      unfolding LOG_LEVELS_def by (simp add: image_iff) (metis LogLevel.simps(13-16) level_name_def)
    then have "map_of LOG_LEVELS s = None" using that by (auto simp: map_of_eq_None_iff)
    moreover have "map_of LOG_LEVELS ''warn'' = Some 2" by (simp add: LOG_LEVELS_def)
    moreover have "map_of object_prototype s = None \<longleftrightarrow> s \<notin> fst ` set object_prototype" by (rule map_of_eq_None_iff)
    ultimately show ?thesis by (auto simp: defs level_rank_table warn split: option.split)
  qed
  show "shouldLog (childLogger env (new_Logger env nm) k) l \<longleftrightarrow> shouldLog (new_Logger env nm) l"
    by (simp add: shouldLog_def childLogger_def new_Logger_def)
qed

text \<open>
  A line can be read back. Whatever the context holds, what an error call writes has the error's own data at \<open>error\<close>, and the
  rest of the context; it always has a context, if an empty one.
\<close>

definition plain_error :: "error_value \<Rightarrow> bool" where
  "plain_error e = (case e of IsError _ _ stack \<Rightarrow> stack \<noteq> None | NotError b _ \<Rightarrow> b)"

theorem error_line_reads_back:
  assumes "json_plain rn ns (JObj c)" "plain_error e" "shouldLog lg Err"
  shows "\<exists>line entry. log_error ns now lg message (Some e) (Some c) = [ConsoleError line] \<and> json_parse rn line = Some entry \<and>
    getProp entry ''logger'' = JStr (loggerName lg) \<and> getProp entry ''message'' = JStr message \<and>
    getProp (getProp entry ''context'') ''error'' = JObj (serializeError e) \<and>
    (\<forall>k. k \<noteq> ''error'' \<longrightarrow> getProp (getProp entry ''context'') k = getProp (JObj c) k)"
proof -
  let ?m = "AList.update ''error'' (JObj (serializeError e)) c"
  let ?e = "entry_of now Err (loggerName lg) message (Some ?m)"
  have t: "truthy_error e" using assms(2) by (cases e) (simp_all add: truthy_error_def plain_error_def)
  have s: "json_plain rn ns (JObj (serializeError e))"
    using assms(2) by (cases e) (auto simp: serializeError_def plain_error_def)
  have "\<forall>p \<in> set (AList.update k v ps). json_plain rn ns (snd p)"
    if "\<forall>p \<in> set ps. json_plain rn ns (snd p)" "json_plain rn ns v" for k v and ps :: "(string \<times> jsval) list"
    using that by (induction ps) auto
  moreover have "\<forall>p \<in> set c. json_plain rn ns (snd p)" "distinct (map fst c)"
    using assms(1) by (simp_all add: list_all_iff)
  ultimately have "\<forall>p \<in> set ?m. json_plain rn ns (snd p)" "distinct (map fst ?m)"
    using s by (blast, simp add: distinct_update)
  then have "json_plain rn ns (JObj ?m)" by (simp add: list_all_iff)
  then have plain: "json_plain rn ns ?e" by (simp add: entry_of_def)
  have "log_error ns now lg message (Some e) (Some c) = [ConsoleError (stringify ns ?e)]"
    by (simp add: log_error_def t log_line_def assms(3))
  moreover have "json_parse rn (stringify ns ?e) = Some ?e" by (rule json_parse_stringify [OF plain])
  moreover have "getProp (getProp ?e ''context'') k = getProp (JObj ?m) k" for k by (simp add: entry_of_def)
  ultimately show ?thesis by (auto simp: entry_of_def update_conv)
qed

end
