(* ===== verification/UnroutedScreens.thy ===== *)
theory UnroutedScreens
  imports Controls KioskSafety
begin

text \<open>
  Two screens of the kiosk that no route leads to, \<open>routes/CartScreen.tsx\<close> and \<open>routes/PaymentScreen.tsx\<close> with its
  \<open>components/BiometricAuthPrompt.tsx\<close>. Both show fixed data. Time passes in steps of a millisecond.
\<close>

section \<open>The cart screen\<close>

record mock_item =
  mockId :: string
  mockName :: string
  mockPrice :: string
  mockQuantity :: int
  mockModifiers :: "(string \<times> string) list"

definition MOCK_CART_ITEMS :: "mock_item list" where
  "MOCK_CART_ITEMS =
     [\<lparr>mockId = ''cart-item-1'', mockName = ''Artisan Burrito'', mockPrice = ''$12.99'', mockQuantity = 1,
       mockModifiers = [(''Protein'', ''Chicken''), (''Rice'', ''Brown'')]\<rparr>,
      \<lparr>mockId = ''cart-item-2'', mockName = ''Farm Fresh Salad'', mockPrice = ''$9.99'', mockQuantity = 2, mockModifiers = []\<rparr>]"

text \<open>
  A timer's callback keeps the \<open>dwellCount\<close> of the rendering in which it was started; a timer is given by its due time. The
  first effect clears the timer that \<open>setDwellTimer\<close> replaces, the second starts the timer that ends the pulse.
\<close>

record cart_screen =
  cartExpanded :: bool
  dwellTimer :: "(nat \<times> nat) option"
  dwellCount :: nat
  pulseTimer :: "nat option"
  cartClock :: nat
  cartSends :: "KioskEvent list"

definition new_cart_screen :: cart_screen where
  "new_cart_screen =
     \<lparr>cartExpanded = False, dwellTimer = None, dwellCount = 0, pulseTimer = None, cartClock = 0, cartSends = []\<rparr>"

definition handleItemPress :: "cart_screen \<Rightarrow> cart_screen" where
  "handleItemPress s = s\<lparr>dwellTimer := Some (cartClock s + 40000, dwellCount s)\<rparr>"

definition handleItemRelease :: "cart_screen \<Rightarrow> cart_screen" where
  "handleItemRelease s = s\<lparr>dwellTimer := None\<rparr>"

definition cartscreen_handleQuantityChange :: "int \<Rightarrow> cart_screen \<Rightarrow> cart_screen" where
  "cartscreen_handleQuantityChange newQuantity s =
     (if newQuantity = 0 then s\<lparr>cartSends := cartSends s @ [CART_UPDATED (1 < length MOCK_CART_ITEMS)]\<rparr> else s)"

definition pulse_effect :: "cart_screen \<Rightarrow> cart_screen" where
  "pulse_effect s = s\<lparr>pulseTimer := if dwellCount s = 0 then None else Some (cartClock s + 5000)\<rparr>"

definition dwell_fires :: "nat \<Rightarrow> cart_screen \<Rightarrow> cart_screen" where
  "dwell_fires captured s =
     pulse_effect (s\<lparr>dwellTimer := None, dwellCount := dwellCount s + 1, cartExpanded := cartExpanded s \<or> 2 \<le> captured\<rparr>)"

definition pulse_fires :: "cart_screen \<Rightarrow> cart_screen" where
  "pulse_fires s = pulse_effect (s\<lparr>dwellCount := 0\<rparr>)"

definition cart_ms :: "cart_screen \<Rightarrow> cart_screen" where
  "cart_ms s =
     (let s1 = s\<lparr>cartClock := cartClock s + 1\<rparr>;
          s2 = (case dwellTimer s1 of Some (due, c) \<Rightarrow> if due \<le> cartClock s1 then dwell_fires c s1 else s1 | None \<Rightarrow> s1)
      in case pulseTimer s2 of Some due \<Rightarrow> if due \<le> cartClock s2 then pulse_fires s2 else s2 | None \<Rightarrow> s2)"

datatype cart_event = ItemPress | ItemRelease | QuantityChange int | ToggleSummary | BackTap | PayTap | CartMs

fun cart_step :: "cart_event \<Rightarrow> cart_screen \<Rightarrow> cart_screen" where
  "cart_step ItemPress s = handleItemPress s"
| "cart_step ItemRelease s = handleItemRelease s"
| "cart_step (QuantityChange q) s = cartscreen_handleQuantityChange q s"
| "cart_step ToggleSummary s = s\<lparr>cartExpanded := \<not> cartExpanded s\<rparr>"
| "cart_step BackTap s = s\<lparr>cartSends := cartSends s @ [BACK_TO_MENU]\<rparr>"
| "cart_step PayTap s = s\<lparr>cartSends := cartSends s @ [PROCEED_TO_PAYMENT]\<rparr>"
| "cart_step CartMs s = cart_ms s"

text \<open>The highlight of the first item and the pulse of the pay button.\<close>

definition pulses :: "cart_screen \<Rightarrow> bool" where
  "pulses s \<longleftrightarrow> 1 < dwellCount s"

definition cart_screen_inv :: "cart_screen \<Rightarrow> bool" where
  "cart_screen_inv s \<longleftrightarrow>
     dwellCount s \<le> 1 \<and>
     (\<forall>due c. dwellTimer s = Some (due, c) \<longrightarrow> cartClock s < due \<and> c \<le> 1) \<and>
     (dwellCount s = 0 \<longrightarrow> pulseTimer s = None) \<and>
     (dwellCount s = 1 \<longrightarrow>
        (\<exists>p. pulseTimer s = Some p \<and> cartClock s < p \<and> p \<le> cartClock s + 5000 \<and> (\<forall>due c. dwellTimer s = Some (due, c) \<longrightarrow> p < due)))"

lemma cart_ms_inv:
  assumes "cart_screen_inv s"
  shows "cart_screen_inv (cart_ms s)"
proof (cases "dwellCount s = 0")
  case True
  then show ?thesis
    using assms
    by (auto simp: cart_screen_inv_def cart_ms_def dwell_fires_def pulse_effect_def Let_def split: option.splits prod.splits)
next
  case False
  then have one: "dwellCount s = 1" using assms by (simp add: cart_screen_inv_def)
  then obtain p where p: "pulseTimer s = Some p" "cartClock s < p" "p \<le> cartClock s + 5000"
      "\<And>due c. dwellTimer s = Some (due, c) \<Longrightarrow> p < due"
    using assms by (auto simp: cart_screen_inv_def)
  then have "\<And>due c. dwellTimer s = Some (due, c) \<Longrightarrow> \<not> due \<le> Suc (cartClock s)" by fastforce
  then show ?thesis
    using assms one p
    by (auto simp: cart_screen_inv_def cart_ms_def pulse_fires_def pulse_effect_def Let_def split: option.splits prod.splits)
qed

interpretation cart_screens: free_event_system cart_step cart_screen_inv
proof
  show "cart_screen_inv s \<Longrightarrow> cart_screen_inv (cart_step e s)" for e s
    by (cases e)
      (auto simp: cart_ms_inv, auto simp: cart_screen_inv_def handleItemPress_def handleItemRelease_def cartscreen_handleQuantityChange_def)
qed

text \<open>
  The file promises a gentle pulse after forty seconds of dwelling. Whatever is pressed and for however long, the count is back
  at 0 before it can reach 2: nothing ever pulses, and no dwelling opens the summary.
\<close>

theorem dwell_assist_never_pulses:
  fixes es :: "cart_event list"
  defines "s \<equiv> fold cart_step es new_cart_screen"
  shows "\<not> pulses s \<and> (e \<noteq> ToggleSummary \<longrightarrow> cartExpanded (cart_step e s) = cartExpanded s)"
proof -
  have "cart_screen_inv new_cart_screen" by (simp add: cart_screen_inv_def new_cart_screen_def)
  then have inv: "cart_screen_inv s" unfolding s_def by (rule cart_screens.run)
  then have "cartExpanded (cart_ms s) = cartExpanded s"
    by (auto simp: cart_screen_inv_def cart_ms_def dwell_fires_def pulse_fires_def pulse_effect_def Let_def split: option.splits prod.splits)
  then show ?thesis
    using inv by (cases e) (simp_all add: cart_screen_inv_def pulses_def handleItemPress_def handleItemRelease_def cartscreen_handleQuantityChange_def)
qed

text \<open>Its steppers run from 1 to 10 and never report a 0, so that no change of a quantity tells the machine of an empty cart.\<close>

definition cart_stepper :: StepperProps where
  "cart_stepper = \<lparr>stepMin = 1, stepMax = 10, stepDisabled = False\<rparr>"

theorem cart_steppers_tell_nothing:
  assumes "item \<in> set MOCK_CART_ITEMS"
  shows "cartscreen_handleQuantityChange (stepValue (fold (stepper_step cart_stepper) es (new_Stepper (mockQuantity item)))) s = s"
proof -
  have "1 \<le> mockQuantity item \<and> mockQuantity item \<le> 10" using assms by (auto simp: MOCK_CART_ITEMS_def)
  then have "stepper_inv cart_stepper (new_Stepper (mockQuantity item))"
    by (simp add: stepper_inv_def new_Stepper_def in_range_def cart_stepper_def)
  then have "stepper_inv cart_stepper (fold (stepper_step cart_stepper) es (new_Stepper (mockQuantity item)))"
    by (rule steppers.run)
  then show ?thesis by (simp add: stepper_inv_def in_range_def cart_stepper_def cartscreen_handleQuantityChange_def)
qed

section \<open>The payment screen\<close>

record method_option =
  methodKind :: PaymentMethod
  methodName :: string
  methodText :: string
  methodSelected :: bool

definition PAYMENT_METHODS :: "method_option list" where
  "PAYMENT_METHODS =
     [\<lparr>methodKind = credit_debit, methodName = ''Card / NFC'', methodText = ''Visa, Mastercard, Amex'', methodSelected = True\<rparr>,
      \<lparr>methodKind = cash_recycler, methodName = ''Cash'', methodText = ''Exact change accepted'', methodSelected = False\<rparr>,
      \<lparr>methodKind = qr_code, methodName = ''QR Code'', methodText = ''Scan to pay'', methodSelected = False\<rparr>]"

text \<open>Timers are kept with the time left; the one that authorises has closed over the method. The list of methods is the module's.\<close>

datatype pay_timer = ShowPrompt nat | Authorize nat PaymentMethod

record payment_screen =
  methods :: "method_option list"
  selectedMethod :: PaymentMethod
  showBiometricAuth :: bool
  isProcessingTerminal :: bool
  payTimers :: "pay_timer list"
  paySends :: "KioskEvent list"

definition mount_payment :: "method_option list \<Rightarrow> payment_screen" where
  "mount_payment ms =
     \<lparr>methods = ms, selectedMethod = methodKind (hd ms), showBiometricAuth = False, isProcessingTerminal = False,
      payTimers = [], paySends = []\<rparr>"

definition handleMethodSelect :: "method_option \<Rightarrow> payment_screen \<Rightarrow> payment_screen" where
  "handleMethodSelect mt s =
     s\<lparr>selectedMethod := methodKind mt,
       methods := map (\<lambda>x. x\<lparr>methodSelected := methodKind x = methodKind mt\<rparr>) (methods s)\<rparr>"

definition handleConfirmPayment :: "payment_screen \<Rightarrow> payment_screen" where
  "handleConfirmPayment s = s\<lparr>isProcessingTerminal := True, payTimers := payTimers s @ [ShowPrompt 1000]\<rparr>"

definition handleBiometricAuth :: "payment_screen \<Rightarrow> payment_screen" where
  "handleBiometricAuth s =
     s\<lparr>showBiometricAuth := False, isProcessingTerminal := True, payTimers := payTimers s @ [Authorize 2000 (selectedMethod s)]\<rparr>"

definition pay_send :: "KioskEvent \<Rightarrow> payment_screen \<Rightarrow> payment_screen" where
  "pay_send e s = s\<lparr>paySends := paySends s @ [e]\<rparr>"

definition handleBiometricAuthClose :: "payment_screen \<Rightarrow> payment_screen" where
  "handleBiometricAuthClose s = pay_send CANCEL_PAYMENT (s\<lparr>showBiometricAuth := False, isProcessingTerminal := False\<rparr>)"

definition terminal_result :: "PaymentMethod \<Rightarrow> PaymentAuthorizationResult" where
  "terminal_result m =
     \<lparr>authorizationId = ''auth-terminal-123'', status = PS_authorized, paymentMethod = m, amountCents = 1299,
      approvalCode = None, declineReason = None, cardBrand = None, cardLastFour = None, receiptText = None\<rparr>"

fun timer_ends :: "pay_timer \<Rightarrow> payment_screen \<Rightarrow> payment_screen" where
  "timer_ends (ShowPrompt _) s = s\<lparr>showBiometricAuth := True\<rparr>"
| "timer_ends (Authorize _ m) s = pay_send (PAYMENT_AUTHORIZED (terminal_result m)) s"

fun timer_left :: "pay_timer \<Rightarrow> nat" where
  "timer_left (ShowPrompt n) = n"
| "timer_left (Authorize n _) = n"

fun timer_down :: "pay_timer \<Rightarrow> pay_timer" where
  "timer_down (ShowPrompt n) = ShowPrompt (n - 1)"
| "timer_down (Authorize n m) = Authorize (n - 1) m"

definition pay_ms :: "payment_screen \<Rightarrow> payment_screen" where
  "pay_ms s =
     fold timer_ends (filter (\<lambda>t. timer_left t \<le> 1) (payTimers s))
       (s\<lparr>payTimers := map timer_down (filter (\<lambda>t. \<not> timer_left t \<le> 1) (payTimers s))\<rparr>)"

datatype payscreen_event = SelectMethod nat | ConfirmTap | VerifyTap | PromptCancelTap | CancelTap | EditTap | StaffTap | PayMs

text \<open>One button per method; the prompt is only there while it is open, and the confirm button is disabled while the terminal works.\<close>

fun payscreen_step :: "payscreen_event \<Rightarrow> payment_screen \<Rightarrow> payment_screen" where
  "payscreen_step (SelectMethod i) s = (if i < length (methods s) then handleMethodSelect (methods s ! i) s else s)"
| "payscreen_step ConfirmTap s = (if isProcessingTerminal s then s else handleConfirmPayment s)"
| "payscreen_step VerifyTap s = (if showBiometricAuth s then handleBiometricAuth s else s)"
| "payscreen_step PromptCancelTap s = (if showBiometricAuth s then handleBiometricAuthClose s else s)"
| "payscreen_step CancelTap s = pay_send CANCEL_PAYMENT s"
| "payscreen_step EditTap s = pay_send GO_TO_CART s"
| "payscreen_step StaffTap s = pay_send OPEN_ADMIN s"
| "payscreen_step PayMs s = pay_ms s"

definition is_authorized :: "KioskEvent \<Rightarrow> bool" where
  "is_authorized e \<longleftrightarrow> (case e of PAYMENT_AUTHORIZED _ \<Rightarrow> True | _ \<Rightarrow> False)"

definition authorizations :: "payment_screen \<Rightarrow> KioskEvent list" where
  "authorizations s = filter is_authorized (paySends s)"

text \<open>The screen waits for a choice, for the prompt, for the answer to it, or for the authorisation, or has it.\<close>

definition payscreen_inv :: "payment_screen \<Rightarrow> bool" where
  "payscreen_inv s \<longleftrightarrow>
     (authorizations s = [] \<and>
        (payTimers s = [] \<and> isProcessingTerminal s = showBiometricAuth s \<or>
         (\<exists>n. payTimers s = [ShowPrompt n]) \<and> isProcessingTerminal s \<and> \<not> showBiometricAuth s \<or>
         (\<exists>n m. payTimers s = [Authorize n m]) \<and> isProcessingTerminal s \<and> \<not> showBiometricAuth s)) \<or>
     ((\<exists>m. authorizations s = [PAYMENT_AUTHORIZED (terminal_result m)]) \<and> payTimers s = [] \<and>
        isProcessingTerminal s \<and> \<not> showBiometricAuth s)"

lemma pay_send_simps [simp]:
  "payTimers (pay_send e s) = payTimers s" "showBiometricAuth (pay_send e s) = showBiometricAuth s"
  "isProcessingTerminal (pay_send e s) = isProcessingTerminal s" "selectedMethod (pay_send e s) = selectedMethod s"
  "authorizations (pay_send e s) = authorizations s @ (if is_authorized e then [e] else [])"
  by (simp_all add: pay_send_def authorizations_def)

lemma is_authorized_simps [simp]:
  "is_authorized (PAYMENT_AUTHORIZED r)" "\<not> is_authorized CANCEL_PAYMENT" "\<not> is_authorized GO_TO_CART" "\<not> is_authorized OPEN_ADMIN"
  by (simp_all add: is_authorized_def)

lemma authorizations_frame [simp]:
  "authorizations (s\<lparr>payTimers := ts\<rparr>) = authorizations s" "authorizations (s\<lparr>showBiometricAuth := b\<rparr>) = authorizations s"
  "authorizations (s\<lparr>isProcessingTerminal := b\<rparr>) = authorizations s" "authorizations (s\<lparr>methods := ms\<rparr>) = authorizations s"
  "authorizations (s\<lparr>selectedMethod := m\<rparr>) = authorizations s"
  by (simp_all add: authorizations_def)

lemmas pay_defs = handleMethodSelect_def handleConfirmPayment_def handleBiometricAuth_def handleBiometricAuthClose_def pay_ms_def

interpretation payscreens: free_event_system payscreen_step payscreen_inv
proof
  show "payscreen_inv s \<Longrightarrow> payscreen_inv (payscreen_step e s)" for e s
    unfolding payscreen_inv_def by (elim disjE conjE exE; cases e) (auto simp: pay_defs)
qed

lemma payscreen_inv_mount: "payscreen_inv (mount_payment ms)"
  by (simp add: payscreen_inv_def mount_payment_def authorizations_def)

text \<open>One visit authorises at most once, and always the same amount, whatever the cart holds.\<close>

theorem payment_screen_authorizes_once:
  fixes es :: "payscreen_event list" and ms :: "method_option list"
  defines "s \<equiv> fold payscreen_step es (mount_payment ms)"
  shows "authorizations s = [] \<or> (\<exists>m. authorizations s = [PAYMENT_AUTHORIZED (terminal_result m)])"
  using payscreens.run [OF payscreen_inv_mount] unfolding s_def payscreen_inv_def by blast

text \<open>
  Once verified, the payment is authorised with the method chosen then, two seconds later: no tap in between, on cancel or any
  other button, stops it.
\<close>

lemma authorize_pending:
  assumes "payTimers s = [Authorize n m]" "isProcessingTerminal s" "\<not> showBiometricAuth s" "authorizations s = []"
    and "n \<le> length (filter (\<lambda>e. e = PayMs) es)" "0 < n"
  shows "authorizations (fold payscreen_step es s) = [PAYMENT_AUTHORIZED (terminal_result m)]"
  using assms
proof (induction es arbitrary: s n)
  case (Cons e es)
  show ?case
  proof (cases "e = PayMs \<and> n = 1")
    case True
    let ?t = "payscreen_step e s"
    have t: "payTimers ?t = []" "isProcessingTerminal ?t" "\<not> showBiometricAuth ?t"
      "authorizations ?t = [PAYMENT_AUTHORIZED (terminal_result m)]"
      using Cons.prems True by (simp_all add: pay_ms_def)
    have "payTimers u = [] \<and> isProcessingTerminal u \<and> \<not> showBiometricAuth u \<Longrightarrow>
        authorizations (fold payscreen_step es u) = authorizations u" for u
    proof (induction es arbitrary: u)
      case (Cons e es)
      have "payTimers (payscreen_step e u) = [] \<and> isProcessingTerminal (payscreen_step e u) \<and> \<not> showBiometricAuth (payscreen_step e u) \<and>
          authorizations (payscreen_step e u) = authorizations u"
        using Cons.prems by (cases e) (simp_all add: pay_defs)
      with Cons.IH show ?case by simp
    qed simp
    with t show ?thesis by simp
  next
    case False
    let ?n = "if e = PayMs then n - 1 else n"
    have "payTimers (payscreen_step e s) = [Authorize ?n m] \<and> isProcessingTerminal (payscreen_step e s) \<and>
        \<not> showBiometricAuth (payscreen_step e s) \<and> authorizations (payscreen_step e s) = []"
      using Cons.prems False by (cases e) (auto simp: pay_defs)
    moreover have "?n \<le> length (filter (\<lambda>e. e = PayMs) es)" "0 < ?n" using Cons.prems False by (auto split: if_splits)
    ultimately show ?thesis using Cons.IH [of "payscreen_step e s" ?n] by simp
  qed
qed simp

theorem verified_payment_not_cancelled:
  fixes es fs :: "payscreen_event list" and ms :: "method_option list"
  defines "s \<equiv> fold payscreen_step es (mount_payment ms)"
  assumes "showBiometricAuth s" "2000 \<le> length (filter (\<lambda>e. e = PayMs) fs)"
  shows "authorizations (fold payscreen_step (VerifyTap # fs) s) = [PAYMENT_AUTHORIZED (terminal_result (selectedMethod s))]"
proof -
  have "payscreen_inv s" unfolding s_def by (rule payscreens.run [OF payscreen_inv_mount])
  then have "payTimers s = []" "authorizations s = []" using assms(2) by (auto simp: payscreen_inv_def)
  then show ?thesis
    using authorize_pending [of "payscreen_step VerifyTap s" 2000 "selectedMethod s" fs] assms(2,3)
    by (simp add: handleBiometricAuth_def)
qed

text \<open>
  Were the screen routed: the edit button asks for something that the machine does not do while it waits for the payment, and
  an authorisation that comes after its payment was cancelled approves the next one.
\<close>

theorem payment_screen_on_machine:
  assumes "stageOf k = PAYMENT" "cartHasItems (context_of k)"
  shows "send env GO_TO_CART k = k"
    and "stageOf (fold (send env) [CANCEL_PAYMENT, PROCEED_TO_PAYMENT, PAYMENT_AUTHORIZED (terminal_result m)] k) = PROCESSING"
  using assms by (simp_all add: send_defs config_defs terminal_result_def isApprovedResult_def APPROVED_STATUSES_def)

end
