(* ===== verification/PeerBridge.thy ===== *)
theory PeerBridge
  imports JsParse
begin

text \<open>
  The peer-to-peer bridge of the kiosk (\<open>utils/WebRTCBridge.ts\<close>), which no other module uses. The browser's connections, data
  channels and sockets report events in any order; what the bridge asks of them is kept in order.
\<close>

record rtc_env =
  kioskIdVar :: "string option"
  signalingServerVar :: "string option"
  turnUrlVar :: "string option"
  turnUsernameVar :: "string option"
  turnCredentialVar :: "string option"

record ice_server =
  serverUrls :: string
  serverUsername :: "string option"
  serverCredential :: "string option"

definition filled :: "string option \<Rightarrow> bool" where
  "filled v \<longleftrightarrow> v \<noteq> None \<and> v \<noteq> Some []"

definition iceServers :: "rtc_env \<Rightarrow> ice_server list" where
  "iceServers env =
     \<lparr>serverUrls = ''stun:stun.l.google.com:19302'', serverUsername = None, serverCredential = None\<rparr> #
     (if filled (turnUrlVar env) \<and> filled (turnCredentialVar env)
      then [\<lparr>serverUrls = the (turnUrlVar env),
             serverUsername = (if filled (turnUsernameVar env) then turnUsernameVar env else None),
             serverCredential = turnCredentialVar env\<rparr>]
      else [])"

datatype ice_state = IceNew | Checking | Connected | Completed | Disconnected | Failed | IceClosed

datatype bridge_channel = Connecting | ChannelOpen | ChannelClosed

text \<open>What is asked of connection \<open>i\<close>, of socket \<open>i\<close>, of the channel and of the server.\<close>

datatype rtc_call =
    CreateChannel nat string
  | SetRemote nat jsval
  | CreateAnswer nat
  | SetLocal nat string
  | AddCandidate nat jsval
  | ChannelSend string
  | SocketOpen nat string
  | SocketSend nat jsval
  | PostTransfer string jsval
  | CloseChannel
  | ClosePeer nat

record bridge =
  bridgeKioskId :: string
  signalingUrl :: "string option"
  peers :: "ice_state list"
  peerConnection :: "nat option"
  channels :: "bridge_channel list"
  dataChannel :: "nat option"
  isConnected :: bool
  bridgeCallbacks :: "nat list"
  sockets :: nat
  rtcCalls :: "rtc_call list"
  delivered :: "(nat \<times> jsval) list"

definition new_bridge :: "rtc_env \<Rightarrow> string option \<Rightarrow> bridge" where
  "new_bridge env kid =
     \<lparr>bridgeKioskId = (case kid of Some k \<Rightarrow> k | None \<Rightarrow> case_option ''kiosk-local'' id (kioskIdVar env)),
      signalingUrl = signalingServerVar env, peers = [], peerConnection = None, channels = [], dataChannel = None, isConnected = False,
      bridgeCallbacks = [], sockets = 0, rtcCalls = [], delivered = []\<rparr>"

definition onGhostCart :: "nat \<Rightarrow> bridge \<Rightarrow> bridge" where
  "onGhostCart cb b = b\<lparr>bridgeCallbacks := (if cb \<in> set (bridgeCallbacks b) then bridgeCallbacks b else bridgeCallbacks b @ [cb])\<rparr>"

definition offGhostCart :: "nat \<Rightarrow> bridge \<Rightarrow> bridge" where
  "offGhostCart cb b = b\<lparr>bridgeCallbacks := removeAll cb (bridgeCallbacks b)\<rparr>"

definition asks :: "rtc_call \<Rightarrow> bridge \<Rightarrow> bridge" where
  "asks c b = b\<lparr>rtcCalls := rtcCalls b @ [c]\<rparr>"

definition ASTRA_NAMESPACE :: string where
  "ASTRA_NAMESPACE = ''astra-kiosk-p2p''"

definition createOffer :: "bridge \<Rightarrow> bridge" where
  "createOffer b =
     (case peerConnection b of
        None \<Rightarrow> b
      | Some i \<Rightarrow> asks (CreateChannel i ASTRA_NAMESPACE)
        (b\<lparr>channels := channels b @ [Connecting], dataChannel := Some (length (channels b))\<rparr>))"

text \<open>The socket is opened; its listeners follow once it is open, within ten seconds, or the call rejects.\<close>

definition connectViaSignaling :: "string \<Rightarrow> bridge \<Rightarrow> bridge" where
  "connectViaSignaling url b =
     asks (SocketOpen (sockets b) (url @ ''?kioskId='' @ bridgeKioskId b)) (b\<lparr>sockets := sockets b + 1\<rparr>)"

definition connect :: "bridge \<Rightarrow> bridge" where
  "connect b =
     (if isConnected b then b
      else
        let b1 = b\<lparr>peers := peers b @ [IceNew], peerConnection := Some (length (peers b))\<rparr>
        in if filled (signalingUrl b) then connectViaSignaling (the (signalingUrl b)) b1 else createOffer b1)"

text \<open>A connection's state changes; the listener looks at the bridge's present connection.\<close>

definition ice_changes :: "nat \<Rightarrow> ice_state \<Rightarrow> bridge \<Rightarrow> bridge" where
  "ice_changes i st b =
     (let b1 = b\<lparr>peers := (peers b)[i := st]\<rparr>
      in if i < length (peers b)
         then b1\<lparr>isConnected := (case peerConnection b of None \<Rightarrow> False | Some j \<Rightarrow> peers b1 ! j = Connected)\<rparr>
         else b)"

definition ice_candidate :: "nat \<Rightarrow> bool \<Rightarrow> jsval option \<Rightarrow> bridge \<Rightarrow> bridge" where
  "ice_candidate w open_socket c b =
     (case c of
        Some v \<Rightarrow>
          if open_socket then asks (SocketSend w (JObj [(''type'', JStr ''ice-candidate''), (''candidate'', v)])) b else b
      | None \<Rightarrow> b)"

definition handleGhostCartPayload :: "(nat \<Rightarrow> jsval \<Rightarrow> bool) \<Rightarrow> jsval \<Rightarrow> bridge \<Rightarrow> bridge" where
  "handleGhostCartPayload throws v b =
     (let reached = takeWhile (\<lambda>cb. \<not> throws cb v) (bridgeCallbacks b);
          tried = take (length reached + 1) (bridgeCallbacks b)
      in b\<lparr>delivered := delivered b @ map (\<lambda>cb. (cb, v)) tried\<rparr>)"

text \<open>A message of the socket: text that does not parse rejects the listener; an answer is the local description's text.\<close>

definition socket_message :: "(string \<Rightarrow> rat) \<Rightarrow> (nat \<Rightarrow> jsval \<Rightarrow> bool) \<Rightarrow> nat \<Rightarrow> string \<Rightarrow> string \<Rightarrow> bridge \<Rightarrow> bridge" where
  "socket_message rn throws w answer text b =
     (case json_parse rn text of
        None \<Rightarrow> b
      | Some msg \<Rightarrow>
          if msg = JNull then b
          else if getProp msg ''type'' = JStr ''offer'' then
            (case peerConnection b of
               None \<Rightarrow> b
             | Some i \<Rightarrow>
                 fold asks
                   [SetRemote i (getProp msg ''offer''), CreateAnswer i, SetLocal i answer,
                    SocketSend w (JObj [(''type'', JStr ''answer''), (''answer'', JStr answer)])] b)
          else if getProp msg ''type'' = JStr ''ice-candidate'' then
            (case peerConnection b of None \<Rightarrow> b | Some i \<Rightarrow> asks (AddCandidate i (getProp msg ''candidate'')) b)
          else handleGhostCartPayload throws (getProp msg ''payload'') b)"

text \<open>A channel keeps its listeners when \<open>connect\<close> puts another in its place.\<close>

definition channel_opens :: "nat \<Rightarrow> bridge \<Rightarrow> bridge" where
  "channel_opens i b =
     (if i < length (channels b) \<and> channels b ! i = Connecting
      then b\<lparr>channels := (channels b)[i := ChannelOpen], isConnected := True\<rparr> else b)"

definition channel_message :: "(string \<Rightarrow> rat) \<Rightarrow> (nat \<Rightarrow> jsval \<Rightarrow> bool) \<Rightarrow> string \<Rightarrow> bridge \<Rightarrow> bridge" where
  "channel_message rn throws text b =
     (case json_parse rn text of None \<Rightarrow> b | Some v \<Rightarrow> handleGhostCartPayload throws v b)"

definition channel_ready :: "bridge \<Rightarrow> bool" where
  "channel_ready b \<longleftrightarrow> (case dataChannel b of None \<Rightarrow> False | Some i \<Rightarrow> channels b ! i = ChannelOpen)"

text \<open>Whatever the server answers the call returns nothing and does not throw.\<close>

definition transferGhostCart :: "(rat \<Rightarrow> string) \<Rightarrow> jsval \<Rightarrow> bridge \<Rightarrow> bridge" where
  "transferGhostCart ns v b =
     (let b1 = (if channel_ready b then asks (ChannelSend (stringify ns v)) b else b)
      in if filled (signalingUrl b1)
         then asks (PostTransfer (the (signalingUrl b1) @ ''/transfer'')
                (JObj [(''from'', JStr (bridgeKioskId b1)), (''payload'', v)])) b1
         else b1)"

definition disconnect :: "bridge \<Rightarrow> bridge" where
  "disconnect b =
     (let b1 = (case dataChannel b of
                  None \<Rightarrow> b
                | Some i \<Rightarrow> (asks CloseChannel b)\<lparr>channels := (channels b)[i := ChannelClosed]\<rparr>);
          b2 = (case peerConnection b1 of None \<Rightarrow> b1 | Some i \<Rightarrow> (asks (ClosePeer i) b1)\<lparr>peers := (peers b1)[i := IceClosed]\<rparr>)
      in b2\<lparr>peerConnection := None, dataChannel := None, isConnected := False\<rparr>)"

datatype bridge_event =
    Subscribe nat
  | Unsubscribe nat
  | Connect
  | IceChanges nat ice_state
  | IceCandidate nat bool "jsval option"
  | SocketMessage nat string string
  | ChannelOpens nat
  | ChannelMessage string
  | Transfer jsval
  | Disconnect

fun bridge_step :: "(string \<Rightarrow> rat) \<Rightarrow> (rat \<Rightarrow> string) \<Rightarrow> (nat \<Rightarrow> jsval \<Rightarrow> bool) \<Rightarrow> bridge_event \<Rightarrow> bridge \<Rightarrow> bridge" where
  "bridge_step rn ns throws (Subscribe cb) b = onGhostCart cb b"
| "bridge_step rn ns throws (Unsubscribe cb) b = offGhostCart cb b"
| "bridge_step rn ns throws Connect b = connect b"
| "bridge_step rn ns throws (IceChanges i st) b = ice_changes i st b"
| "bridge_step rn ns throws (IceCandidate w opened c) b = ice_candidate w opened c b"
| "bridge_step rn ns throws (SocketMessage w answer s) b = socket_message rn throws w answer s b"
| "bridge_step rn ns throws (ChannelOpens i) b = channel_opens i b"
| "bridge_step rn ns throws (ChannelMessage s) b = channel_message rn throws s b"
| "bridge_step rn ns throws (Transfer v) b = transferGhostCart ns v b"
| "bridge_step rn ns throws Disconnect b = disconnect b"

definition bridge_inv :: "bridge \<Rightarrow> bool" where
  "bridge_inv b \<longleftrightarrow>
     (\<forall>i. peerConnection b = Some i \<longrightarrow> i < length (peers b)) \<and>
     (\<forall>i. dataChannel b = Some i \<longrightarrow> i < length (channels b)) \<and>
     (filled (signalingUrl b) \<longrightarrow> channels b = [] \<and> (\<forall>s. ChannelSend s \<notin> set (rtcCalls b))) \<and>
     (\<not> filled (signalingUrl b) \<longrightarrow> (\<forall>u v. PostTransfer u v \<notin> set (rtcCalls b))) \<and>
     distinct (bridgeCallbacks b)"

lemma asks_simps [simp]:
  "peerConnection (asks c b) = peerConnection b" "peers (asks c b) = peers b" "signalingUrl (asks c b) = signalingUrl b"
  "dataChannel (asks c b) = dataChannel b" "channels (asks c b) = channels b" "isConnected (asks c b) = isConnected b"
  "bridgeCallbacks (asks c b) = bridgeCallbacks b" "rtcCalls (asks c b) = rtcCalls b @ [c]" "delivered (asks c b) = delivered b"
  "bridgeKioskId (asks c b) = bridgeKioskId b"
  by (simp_all add: asks_def)

lemmas bridge_defs = onGhostCart_def offGhostCart_def connect_def connectViaSignaling_def createOffer_def ice_changes_def
  ice_candidate_def handleGhostCartPayload_def socket_message_def channel_opens_def channel_message_def transferGhostCart_def
  disconnect_def

interpretation bridges: free_event_system "bridge_step rn ns throws" bridge_inv for rn ns throws
proof
  show "bridge_inv b \<Longrightarrow> bridge_inv (bridge_step rn ns throws e b)" for e b
    by (cases e) (auto simp: bridge_inv_def bridge_defs channel_ready_def Let_def distinct_removeAll split: option.splits)
qed

lemma bridge_inv_new: "bridge_inv (new_bridge env kid)"
  by (simp add: bridge_inv_def new_bridge_def)

lemma bridge_url_fixed:
  "signalingUrl (bridge_step rn ns throws e b) = signalingUrl b" "bridgeKioskId (bridge_step rn ns throws e b) = bridgeKioskId b"
  by (cases e; simp add: bridge_defs asks_def Let_def split: option.split)+

text \<open>
  Over a run, a transfer goes one way only: with a signalling server it is posted there and never sent on a channel, since none
  is ever created; without, it is sent if the latest channel is open, and otherwise lost without a word.
\<close>

theorem bridge_transfers_one_way:
  fixes es :: "bridge_event list" and env :: rtc_env and kid :: "string option" and rn :: "string \<Rightarrow> rat"
    and ns :: "rat \<Rightarrow> string" and throws :: "nat \<Rightarrow> jsval \<Rightarrow> bool"
  defines "b \<equiv> fold (bridge_step rn ns throws) es (new_bridge env kid)"
  shows "rtcCalls (transferGhostCart ns v b) = rtcCalls b @
    (case signalingServerVar env of
       Some (c # cs) \<Rightarrow>
         [PostTransfer ((c # cs) @ ''/transfer'')
            (JObj [(''from'', JStr (bridgeKioskId (new_bridge env kid))), (''payload'', v)])]
     | _ \<Rightarrow> if channel_ready b then [ChannelSend (stringify ns v)] else [])"
proof -
  have inv: "bridge_inv b" unfolding b_def by (rule bridges.run [OF bridge_inv_new])
  have url: "signalingUrl b = signalingServerVar env"
    unfolding b_def by (subst bridges.frame [OF bridge_url_fixed(1) bridge_inv_new]) (simp add: new_bridge_def)
  have kid: "bridgeKioskId b = bridgeKioskId (new_bridge env kid)"
    unfolding b_def by (rule bridges.frame [OF bridge_url_fixed(2) bridge_inv_new])
  show ?thesis
  proof (cases "filled (signalingServerVar env)")
    case True
    then have "\<not> channel_ready b"
      using inv by (auto simp: bridge_inv_def url channel_ready_def split: option.split)
    moreover obtain c cs where "signalingServerVar env = Some (c # cs)"
      using True by (cases "signalingServerVar env") (auto simp: filled_def neq_Nil_conv)
    ultimately show ?thesis by (simp add: transferGhostCart_def url kid filled_def)
  next
    case False
    then show ?thesis by (auto simp: transferGhostCart_def url filled_def Let_def split: option.split list.split)
  qed
qed

text \<open>
  A message of a type that the bridge does not know reaches every listener that does not throw, as \<open>undefined\<close> when it has
  no payload. A connection whose checks are complete does not count as connected. The channel of a connection that a second
  \<open>connect\<close> replaced outlives \<open>disconnect\<close>, and the bridge is connected again when it opens.
\<close>

theorem bridge_surprises:
  "json_parse rn text = Some (JObj [(''type'', JStr ''ping'')]) \<Longrightarrow> \<forall>cb v. \<not> throws cb v \<Longrightarrow>
     delivered (socket_message rn throws w answer text b) = delivered b @ map (\<lambda>cb. (cb, JUndefined)) (bridgeCallbacks b)"
  "peerConnection b = Some i \<Longrightarrow> i < length (peers b) \<Longrightarrow> \<not> isConnected (ice_changes i Completed b)"
  "\<not> filled (signalingServerVar env) \<Longrightarrow>
     isConnected (fold (bridge_step rn ns throws) [Connect, Connect, Disconnect, ChannelOpens 0] (new_bridge env kid))"
proof -
  show "delivered (socket_message rn throws w answer text b) = delivered b @ map (\<lambda>cb. (cb, JUndefined)) (bridgeCallbacks b)"
    if "json_parse rn text = Some (JObj [(''type'', JStr ''ping'')])" "\<forall>cb v. \<not> throws cb v"
  proof -
    have all: "takeWhile (\<lambda>_. True) cbs = cbs" for cbs :: "nat list" by (induction cbs) simp_all
    show ?thesis using that by (simp add: all socket_message_def handleGhostCartPayload_def Let_def)
  qed
  show "\<not> isConnected (ice_changes i Completed b)" if "peerConnection b = Some i" "i < length (peers b)"
    using that by (simp add: ice_changes_def Let_def)
  show "isConnected (fold (bridge_step rn ns throws) [Connect, Connect, Disconnect, ChannelOpens 0] (new_bridge env kid))"
    if "\<not> filled (signalingServerVar env)"
    using that by (simp add: new_bridge_def connect_def createOffer_def channel_opens_def disconnect_def Let_def)
qed

end
