(* ===== verification/MainTexts.thy ===== *)
theory MainTexts
  imports Languages
begin

text \<open>
  Tables of texts of the kiosk: \<open>en.ts\<close>, \<open>es.ts\<close>, \<open>zh-CN.ts\<close>, \<open>fr.ts\<close> of \<open>apps/kiosk/src/i18n/locales\<close>. A text is
  given by its bytes in UTF-8.
\<close>

definition texts_en_1 :: TranslationMap where
  "texts_en_1 =
     [(''language.select'', ''Select your language''),
      (''language.mainLanguages'', ''Main Languages''),
      (''language.moreLanguages'', ''More Languages''),
      (''language.continue'', ''Continue''),
      (''language.showAll'', ''Show all ({count})''),
      (''attract.title'', ''Astra''),
      (''attract.touchToBegin'', ''Touch to begin''),
      (''attract.laneInfo'', ''Self-checkout '' @ [CHR 0xE2, CHR 0x80, CHR 0xA2] @ '' Lane {lane}''),
      (''attract.screenReader'', ''Attract screen. Touch to begin shopping.''),
      (''menu.title'', ''Menu''),
      (''menu.search'', ''Search menu...''),
      (''menu.noItems'', ''No items found''),
      (''menu.noItemsHint'', ''Try a different search term or check all categories''),
      (''menu.backToMenu'', ''Back to menu''),
      (''menu.viewCart'', ''View Cart ({count})''),
      (''menu.itemAdded'', ''Item added''),
      (''menu.categoriesLabel'', ''Menu categories''),
      (''menu.categories.all'', ''All''),
      (''menu.categories.mains'', ''Mains''),
      (''menu.categories.drinks'', ''Drinks''),
      (''menu.clearSearch'', ''Clear search''),
      (''menu.itemsInCart'', ''{count} items in cart''),
      (''item.addToCart'', ''Add to cart''),
      (''item.quantity'', ''Quantity''),
      (''item.modifiers'', ''Customize''),
      (''item.price'', ''Price''),
      (''item.description'', ''Description''),
      (''item.included'', ''Included''),
      (''item.chooseCount'', ''Choose {count}''),
      (''item.chooseRange'', ''Choose {min}-{max}''),
      (''item.closeLabel'', ''Close item details''),
      (''item.decreaseQuantity'', ''Decrease quantity''),
      (''item.increaseQuantity'', ''Increase quantity''),
      (''item.quantityLabel'', ''Quantity: {count}''),
      (''item.addToCartLabel'', ''Add {name} to cart '' @ [CHR 0xE2, CHR 0x80, CHR 0x94] @ '' {amount}''),
      (''item.priceAddition'', ''+{amount}''),
      (''item.customizeLabel'', ''Customize {name}''),
      (''item.modifierSingular'', ''{count} modifier''),
      (''item.modifierPlural'', ''{count} modifiers''),
      (''cart.title'', ''Your Cart''),
      (''cart.empty'', ''Your cart is empty''),
      (''cart.subtotal'', ''Subtotal''),
      (''cart.tax'', ''Tax''),
      (''cart.total'', ''Total''),
      (''cart.backToMenu'', ''Back to menu''),
      (''cart.proceedToPayment'', ''Ready to pay''),
      (''cart.removeItem'', ''Remove''),
      (''cart.itemCount'', ''{count} items''),
      (''cart.itemSingular'', ''{count} item''),
      (''cart.summary'', ''Order Summary''),
      (''cart.tapToEdit'', ''Tap an item to edit''),
      (''cart.itemsLabel'', ''Cart items''),
      (''cart.pay'', ''Pay {amount}''),
      (''cart.editItem'', ''Edit {name}. Quantity: {quantity}. Price: {amount}''),
      (''cart.decreaseQuantity'', ''Decrease quantity of {name}''),
      (''cart.increaseQuantity'', ''Increase quantity of {name}''),
      (''cart.quantityLabel'', ''Quantity: {count}''),
      (''cart.priceLabel'', ''Price: {amount}''),
      (''payment.title'', ''Payment''),
      (''payment.confirm'', ''Confirm Payment''),
      (''payment.cancel'', ''Cancel''),
      (''payment.processing'', ''Processing payment...''),
      (''payment.selectMethod'', ''Select payment method''),
      (''payment.card'', ''Card''),
      (''payment.cardNfc'', ''Card / NFC''),
      (''payment.cash'', ''Cash''),
      (''payment.mobile'', ''Mobile Wallet''),
      (''payment.qrCode'', ''QR Code''),
      (''payment.biometric'', ''Biometric''),
      (''payment.employeeOverride'', ''Employee Override''),
      (''payment.employeeOverrideHint'', ''Employee override. Hold for 3 seconds.''),
      (''payment.insertCard'', ''Insert or tap card''),
      (''payment.scanQR'', ''Scan QR code''),
      (''payment.tapPhone'', ''Tap your phone''),
      (''payment.amount'', ''Amount''),
      (''payment.verifyToComplete'', ''Verify to complete''),
      (''payment.pinPadInstruction'', ''Please use the PIN pad or present your card to the terminal.''),
      (''payment.terminalStatus'', ''Terminal: {status}''),
      (''payment.authorizing'', ''Authorizing...''),
      (''payment.authorize'', ''Authorize''),
      (''payment.authorized'', ''Authorized''),
      (''payment.connected'', ''Connected''),
      (''payment.cartSummary'', ''Cart summary: {count} items, total {amount}. Tap to {action}.''),
      (''payment.expand'', ''expand''),
      (''payment.collapse'', ''collapse''),
      (''payment.cancelPayment'', ''Cancel payment''),
      (''payment.confirmPayment'', ''Pay {amount}''),
      (''processing.title'', ''Processing''),
      (''processing.pleaseWait'', ''Please wait...''),
      (''processing.finalizing'', ''Finalizing your order''),
      (''processing.redirecting'', ''Redirecting to receipt''),
      (''processing.connecting'', ''Connecting to terminal...''),
      (''processing.waitingForCard'', ''Waiting for card...''),
      (''processing.authorizing'', ''Authorizing...''),
      (''processing.finalizingStage'', ''Finalizing...''),
      (''processing.default'', ''Processing...''),
      (''processing.terminalStatus'', ''Terminal: {label}''),
      (''processing.orderFailed'', ''Order could not be completed''),
      (''processing.orderFailedMessage'', ''We couldn'' @ [CHR 0x27] @ ''t complete your order. Please try again.''),
      (''processing.retry'', ''Try again''),
      (''processing.cancelReturn'', ''Cancel and return to cart'')]"

definition texts_en_2 :: TranslationMap where
  "texts_en_2 =
     [(''receipt.title'', ''Thank You''),
      (''receipt.orderNumber'', ''Order #{number}''),
      (''receipt.print'', ''Print receipt''),
      (''receipt.email'', ''Email receipt''),
      (''receipt.startNew'', ''Start new order''),
      (''receipt.thankYouMessage'', ''Thank you for your purchase!''),
      (''receipt.printing'', ''Printing...''),
      (''receipt.emailSending'', ''Sending...''),
      (''receipt.emailSent'', ''Sent!''),
      (''receipt.printerUnavailable'', ''Printer unavailable. Receipt saved.''),
      (''receipt.srComplete'', ''Order complete. Tap start new order to continue.''),
      (''receipt.srReady'', ''Receipt ready.''),
      (''receipt.printLabel'', ''Print receipt''),
      (''receipt.emailLabel'', ''Email receipt''),
      (''receipt.startNewLabel'', ''Start new order''),
      (''status.offline'', ''Offline''),
      (''status.online'', ''Online''),
      (''status.connecting'', ''Connecting...''),
      (''status.network'', ''Network''),
      (''status.synced'', ''Synced''),
      (''status.syncing'', ''Syncing''),
      (''status.p2pStatus'', ''P2P sync status: {label}. Tap for mesh details.''),
      (''status.kioskStatus'', ''Kiosk status''),
      (''status.p2pTitle'', ''P2P mesh sync''),
      (''status.meshDescription'', ''This kiosk shares cart and order state with nearby peers over a local mesh so orders survive network drops.''),
      (''status.connectedPeers'', ''Connected peers''),
      (''status.syncLag'', ''Sync lag''),
      (''status.role'', ''Role''),
      (''status.leader'', ''Leader''),
      (''status.peer'', ''Peer''),
      (''status.thisKiosk'', ''This kiosk''),
      (''status.apiOnline'', ''API online''),
      (''status.apiDegraded'', ''API degraded''),
      (''status.apiOffline'', ''API offline''),
      (''status.networkConnected'', ''Connected to network''),
      (''status.networkDisconnected'', ''No network connection''),
      (''idle.warning'', ''Still shopping?''),
      (''idle.continue'', ''Continue''),
      (''idle.endSession'', ''End session''),
      (''idle.timeoutWarning'', ''Session will end soon due to inactivity.''),
      (''idle.message'', ''Tap below to continue, or this kiosk will reset for the next customer.''),
      (''idle.continueLabel'', ''I am still here''),
      (''idle.endSessionLabel'', ''Start over''),
      (''idle.ariaLabel'', ''Idle timeout warning''),
      (''offline.banner'', ''You'' @ [CHR 0x27] @ ''re offline. Some features may be unavailable.''),
      (''offline.reconnecting'', ''Reconnecting...''),
      (''offline.longOffline'', ''No network connection for an extended period.''),
      (''offline.workingOffline'', ''Working offline. Your cart is secure.''),
      (''offline.dismiss'', ''Dismiss offline notice''),
      (''error.generic'', ''Something went wrong''),
      (''error.restart'', ''Restart kiosk''),
      (''error.retry'', ''Retry''),
      (''error.paymentDeclined'', ''Payment declined. Try another method.''),
      (''error.paymentFailed'', ''Payment failed. Please try again.''),
      (''error.sessionExpired'', ''Session expired. Please start again.''),
      (''error.connectionLost'', ''Connection lost. Checking network...''),
      (''error.helpMessage'', ''Please ask a staff member for help. We apologise for the inconvenience.''),
      (''admin.title'', ''Admin Panel''),
      (''admin.close'', ''Close''),
      (''admin.dashboard'', ''Dashboard''),
      (''admin.kioskStatus'', ''Kiosk Status''),
      (''admin.session'', ''Session''),
      (''admin.laneMode'', ''Lane Mode''),
      (''admin.apiStatus'', ''API Status''),
      (''admin.cartHasItems'', ''Cart Has Items''),
      (''admin.actions'', ''Actions''),
      (''admin.simulateOnline'', ''Simulate Online''),
      (''admin.simulateOffline'', ''Simulate Offline''),
      (''admin.errors'', ''Errors''),
      (''admin.closeLabel'', ''Close admin panel''),
      (''general.confirm'', ''Confirm''),
      (''general.cancel'', ''Cancel''),
      (''general.back'', ''Back''),
      (''general.next'', ''Next''),
      (''general.done'', ''Done''),
      (''general.loading'', ''Loading...''),
      (''general.save'', ''Save''),
      (''general.delete'', ''Delete''),
      (''general.edit'', ''Edit''),
      (''general.search'', ''Search''),
      (''general.close'', ''Close''),
      (''general.yes'', ''Yes''),
      (''general.no'', ''No''),
      (''a11y.closeModal'', ''Close modal''),
      (''a11y.navigateBack'', ''Navigate back'')]"

definition texts_en :: TranslationMap where
  "texts_en = texts_en_1 @ texts_en_2"

definition texts_es_1 :: TranslationMap where
  "texts_es_1 =
     [(''language.select'', ''Selecciona tu idioma''),
      (''language.mainLanguages'', ''Idiomas Principales''),
      (''language.moreLanguages'', ''M'' @ [CHR 0xC3, CHR 0xA1] @ ''s Idiomas''),
      (''language.continue'', ''Continuar''),
      (''attract.title'', ''Astra''),
      (''attract.touchToBegin'', ''Toca para empezar''),
      (''attract.laneInfo'', ''Autopago '' @ [CHR 0xE2, CHR 0x80, CHR 0xA2] @ '' Carril {lane}''),
      (''attract.screenReader'', ''Pantalla de inicio. Toca para empezar a comprar.''),
      (''menu.title'', ''Men'' @ [CHR 0xC3, CHR 0xBA]),
      (''menu.search'', ''Buscar en el men'' @ [CHR 0xC3, CHR 0xBA] @ ''...''),
      (''menu.noItems'', ''No se encontraron productos''),
      (''menu.backToMenu'', ''Volver al men'' @ [CHR 0xC3, CHR 0xBA]),
      (''menu.viewCart'', ''Ver Carrito ({count})''),
      (''menu.itemAdded'', ''Producto agregado''),
      (''menu.categories.all'', ''Todos''),
      (''item.addToCart'', ''Agregar al carrito''),
      (''item.quantity'', ''Cantidad''),
      (''item.modifiers'', ''Personalizar''),
      (''item.price'', ''Precio''),
      (''item.description'', ''Descripci'' @ [CHR 0xC3, CHR 0xB3] @ ''n''),
      (''cart.title'', ''Tu Carrito''),
      (''cart.empty'', ''Tu carrito est'' @ [CHR 0xC3, CHR 0xA1] @ '' vac'' @ [CHR 0xC3, CHR 0xAD] @ ''o''),
      (''cart.subtotal'', ''Subtotal''),
      (''cart.tax'', ''Impuesto''),
      (''cart.total'', ''Total''),
      (''cart.backToMenu'', ''Volver al men'' @ [CHR 0xC3, CHR 0xBA]),
      (''cart.proceedToPayment'', ''Listo para pagar''),
      (''cart.removeItem'', ''Eliminar''),
      (''cart.itemCount'', ''{count} art'' @ [CHR 0xC3, CHR 0xAD] @ ''culos''),
      (''cart.summary'', ''Resumen del Pedido''),
      (''payment.title'', ''Pago''),
      (''payment.confirm'', ''Confirmar Pago''),
      (''payment.cancel'', ''Cancelar''),
      (''payment.processing'', ''Procesando pago...''),
      (''payment.selectMethod'', ''Selecciona m'' @ [CHR 0xC3, CHR 0xA9] @ ''todo de pago''),
      (''payment.card'', ''Tarjeta''),
      (''payment.cash'', ''Efectivo''),
      (''payment.mobile'', ''Billetera M'' @ [CHR 0xC3, CHR 0xB3] @ ''vil''),
      (''payment.biometric'', ''Biom'' @ [CHR 0xC3, CHR 0xA9] @ ''trico''),
      (''payment.employeeOverride'', ''Autorizaci'' @ [CHR 0xC3, CHR 0xB3] @ ''n de Empleado''),
      (''payment.insertCard'', ''Inserta o pasa la tarjeta''),
      (''payment.scanQR'', ''Escanear c'' @ [CHR 0xC3, CHR 0xB3] @ ''digo QR''),
      (''payment.tapPhone'', ''Acerca tu tel'' @ [CHR 0xC3, CHR 0xA9] @ ''fono''),
      (''payment.amount'', ''Monto''),
      (''processing.title'', ''Procesando''),
      (''processing.pleaseWait'', ''Por favor espera...''),
      (''processing.finalizing'', ''Finalizando tu pedido''),
      (''processing.redirecting'', ''Redirigiendo al recibo''),
      (''receipt.title'', ''Gracias''),
      (''receipt.orderNumber'', ''Pedido #{number}''),
      (''receipt.print'', ''Imprimir recibo''),
      (''receipt.email'', ''Enviar recibo por correo''),
      (''receipt.startNew'', ''Nuevo pedido''),
      (''receipt.thankYouMessage'', [CHR 0xC2, CHR 0xA1] @ ''Gracias por tu compra!''),
      (''status.offline'', ''Desconectado''),
      (''status.online'', ''Conectado''),
      (''status.connecting'', ''Conectando...''),
      (''status.network'', ''Red''),
      (''idle.warning'', [CHR 0xC2, CHR 0xBF] @ ''Sigues comprando?''),
      (''idle.continue'', ''Continuar''),
      (''idle.endSession'', ''Finalizar sesi'' @ [CHR 0xC3, CHR 0xB3] @ ''n''),
      (''idle.timeoutWarning'', ''La sesi'' @ [CHR 0xC3, CHR 0xB3] @ ''n finalizar'' @ [CHR 0xC3, CHR 0xA1] @ '' pronto por inactividad.''),
      (''offline.banner'', ''Est'' @ [CHR 0xC3, CHR 0xA1] @ ''s desconectado. Algunas funciones pueden no estar disponibles.''),
      (''offline.reconnecting'', ''Reconectando...''),
      (''offline.longOffline'', ''Sin conexi'' @ [CHR 0xC3, CHR 0xB3] @ ''n de red por un per'' @ [CHR 0xC3, CHR 0xAD] @ ''odo prolongado.''),
      (''error.generic'', ''Algo sali'' @ [CHR 0xC3, CHR 0xB3] @ '' mal''),
      (''error.restart'', ''Reiniciar kiosco''),
      (''error.retry'', ''Reintentar''),
      (''error.paymentDeclined'', ''Pago rechazado. Prueba otro m'' @ [CHR 0xC3, CHR 0xA9] @ ''todo.''),
      (''error.paymentFailed'', ''Pago fallido. Intenta de nuevo.''),
      (''error.sessionExpired'', ''Sesi'' @ [CHR 0xC3, CHR 0xB3] @ ''n expirada. Por favor empieza de nuevo.''),
      (''error.connectionLost'', ''Conexi'' @ [CHR 0xC3, CHR 0xB3] @ ''n perdida. Verificando red...''),
      (''admin.title'', ''Panel de Administraci'' @ [CHR 0xC3, CHR 0xB3] @ ''n''),
      (''admin.close'', ''Cerrar''),
      (''admin.dashboard'', ''Panel''),
      (''general.confirm'', ''Confirmar''),
      (''general.cancel'', ''Cancelar''),
      (''general.back'', ''Atr'' @ [CHR 0xC3, CHR 0xA1] @ ''s''),
      (''general.next'', ''Siguiente''),
      (''general.done'', ''Hecho''),
      (''general.loading'', ''Cargando...''),
      (''general.save'', ''Guardar''),
      (''general.delete'', ''Eliminar''),
      (''general.edit'', ''Editar''),
      (''general.search'', ''Buscar''),
      (''general.close'', ''Cerrar''),
      (''general.yes'', ''S'' @ [CHR 0xC3, CHR 0xAD]),
      (''general.no'', ''No''),
      (''a11y.closeModal'', ''Cerrar modal''),
      (''a11y.navigateBack'', ''Navegar atr'' @ [CHR 0xC3, CHR 0xA1] @ ''s''),
      (''menu.noItemsHint'', ''Try a different search term or check all categories''),
      (''menu.categoriesLabel'', ''Menu categories''),
      (''menu.categories.mains'', ''Mains''),
      (''menu.categories.drinks'', ''Drinks''),
      (''menu.clearSearch'', ''Clear search''),
      (''menu.itemsInCart'', ''{count} items in cart'')]"

definition texts_es_2 :: TranslationMap where
  "texts_es_2 =
     [(''item.included'', ''Included''),
      (''item.chooseCount'', ''Choose {count}''),
      (''item.chooseRange'', ''Choose {min}-{max}''),
      (''item.closeLabel'', ''Close item details''),
      (''item.decreaseQuantity'', ''Decrease quantity''),
      (''item.increaseQuantity'', ''Increase quantity''),
      (''item.quantityLabel'', ''Quantity: {count}''),
      (''item.addToCartLabel'', ''Add {name} to cart '' @ [CHR 0xE2, CHR 0x80, CHR 0x94] @ '' {amount}''),
      (''item.priceAddition'', ''+{amount}''),
      (''item.customizeLabel'', ''Customize {name}''),
      (''cart.itemSingular'', ''{count} item''),
      (''cart.tapToEdit'', ''Tap an item to edit''),
      (''cart.itemsLabel'', ''Cart items''),
      (''cart.pay'', ''Pay {amount}''),
      (''cart.editItem'', ''Edit {name}. Quantity: {quantity}. Price: {amount}''),
      (''cart.decreaseQuantity'', ''Decrease quantity of {name}''),
      (''cart.increaseQuantity'', ''Increase quantity of {name}''),
      (''cart.quantityLabel'', ''Quantity: {count}''),
      (''cart.priceLabel'', ''Price: {amount}''),
      (''payment.cardNfc'', ''Card / NFC''),
      (''payment.qrCode'', ''QR Code''),
      (''payment.verifyToComplete'', ''Verify to complete''),
      (''payment.pinPadInstruction'', ''Please use the PIN pad or present your card to the terminal.''),
      (''payment.terminalStatus'', ''Terminal: {status}''),
      (''payment.authorizing'', ''Authorizing...''),
      (''payment.authorize'', ''Authorize''),
      (''payment.authorized'', ''Authorized''),
      (''payment.connected'', ''Connected''),
      (''payment.cartSummary'', ''Cart summary: {count} items, total {amount}. Tap to {action}.''),
      (''payment.expand'', ''expand''),
      (''payment.collapse'', ''collapse''),
      (''payment.employeeOverrideHint'', ''Employee override. Hold for 3 seconds.''),
      (''payment.cancelPayment'', ''Cancel payment''),
      (''payment.confirmPayment'', ''Pay {amount}''),
      (''processing.connecting'', ''Connecting to terminal...''),
      (''processing.waitingForCard'', ''Waiting for card...''),
      (''processing.authorizing'', ''Authorizing...''),
      (''processing.finalizingStage'', ''Finalizing...''),
      (''processing.default'', ''Processing...''),
      (''processing.terminalStatus'', ''Terminal: {label}''),
      (''processing.orderFailed'', ''Order could not be completed''),
      (''processing.orderFailedMessage'', ''We couldn'' @ [CHR 0x27] @ ''t complete your order. Please try again.''),
      (''processing.retry'', ''Try again''),
      (''processing.cancelReturn'', ''Cancel and return to cart''),
      (''receipt.printing'', ''Printing...''),
      (''receipt.emailSending'', ''Sending...''),
      (''receipt.emailSent'', ''Sent!''),
      (''receipt.printerUnavailable'', ''Printer unavailable. Receipt saved.''),
      (''receipt.srComplete'', ''Order complete. Tap start new order to continue.''),
      (''receipt.srReady'', ''Receipt ready.''),
      (''receipt.printLabel'', ''Print receipt''),
      (''receipt.emailLabel'', ''Email receipt''),
      (''receipt.startNewLabel'', ''Start new order''),
      (''status.synced'', ''Synced''),
      (''status.syncing'', ''Syncing''),
      (''status.p2pStatus'', ''P2P sync status: {label}. Tap for mesh details.''),
      (''status.kioskStatus'', ''Kiosk status''),
      (''status.p2pTitle'', ''P2P mesh sync''),
      (''status.meshDescription'', ''This kiosk shares cart and order state with nearby peers over a local mesh so orders survive network drops.''),
      (''status.connectedPeers'', ''Connected peers''),
      (''status.syncLag'', ''Sync lag''),
      (''status.role'', ''Role''),
      (''status.leader'', ''Leader''),
      (''status.peer'', ''Peer''),
      (''status.thisKiosk'', ''This kiosk''),
      (''status.apiOnline'', ''API online''),
      (''status.apiDegraded'', ''API degraded''),
      (''status.apiOffline'', ''API offline''),
      (''status.networkConnected'', ''Connected to network''),
      (''status.networkDisconnected'', ''No network connection''),
      (''idle.message'', ''Tap below to continue, or this kiosk will reset for the next customer.''),
      (''idle.continueLabel'', ''I am still here''),
      (''idle.endSessionLabel'', ''Start over''),
      (''idle.ariaLabel'', ''Idle timeout warning''),
      (''offline.workingOffline'', ''Working offline. Your cart is secure.''),
      (''offline.dismiss'', ''Dismiss offline notice''),
      (''error.helpMessage'', ''Please ask a staff member for help. We apologise for the inconvenience.''),
      (''admin.kioskStatus'', ''Kiosk Status''),
      (''admin.session'', ''Session''),
      (''admin.laneMode'', ''Lane Mode''),
      (''admin.apiStatus'', ''API Status''),
      (''admin.cartHasItems'', ''Cart Has Items''),
      (''admin.actions'', ''Actions''),
      (''admin.simulateOnline'', ''Simulate Online''),
      (''admin.simulateOffline'', ''Simulate Offline''),
      (''admin.errors'', ''Errors''),
      (''admin.closeLabel'', ''Close admin panel''),
      (''item.modifierSingular'', ''{count} modifier''),
      (''item.modifierPlural'', ''{count} modifiers'')]"

definition texts_es :: TranslationMap where
  "texts_es = texts_es_1 @ texts_es_2"

definition texts_zh_CN_1 :: TranslationMap where
  "texts_zh_CN_1 =
     [(''language.select'', [CHR 0xE9, CHR 0x80, CHR 0x89, CHR 0xE6, CHR 0x8B, CHR 0xA9, CHR 0xE6, CHR 0x82, CHR 0xA8, CHR 0xE7, CHR 0x9A, CHR 0x84, CHR 0xE8, CHR 0xAF, CHR 0xAD, CHR 0xE8, CHR 0xA8, CHR 0x80]),
      (''language.mainLanguages'', [CHR 0xE4, CHR 0xB8, CHR 0xBB, CHR 0xE8, CHR 0xA6, CHR 0x81, CHR 0xE8, CHR 0xAF, CHR 0xAD, CHR 0xE8, CHR 0xA8, CHR 0x80]),
      (''language.moreLanguages'', [CHR 0xE6, CHR 0x9B, CHR 0xB4, CHR 0xE5, CHR 0xA4, CHR 0x9A, CHR 0xE8, CHR 0xAF, CHR 0xAD, CHR 0xE8, CHR 0xA8, CHR 0x80]),
      (''language.continue'', [CHR 0xE7, CHR 0xBB, CHR 0xA7, CHR 0xE7, CHR 0xBB, CHR 0xAD]),
      (''attract.title'', ''Astra''),
      (''attract.touchToBegin'', [CHR 0xE7, CHR 0x82, CHR 0xB9, CHR 0xE5, CHR 0x87, CHR 0xBB, CHR 0xE5, CHR 0xBC, CHR 0x80, CHR 0xE5, CHR 0xA7, CHR 0x8B]),
      (''attract.laneInfo'', [CHR 0xE8, CHR 0x87, CHR 0xAA, CHR 0xE5, CHR 0x8A, CHR 0xA9, CHR 0xE7, CHR 0xBB, CHR 0x93, CHR 0xE8, CHR 0xB4, CHR 0xA6] @ '' '' @ [CHR 0xE2, CHR 0x80, CHR 0xA2] @ '' '' @ [CHR 0xE9, CHR 0x80, CHR 0x9A, CHR 0xE9, CHR 0x81, CHR 0x93] @ '' {lane}''),
      (''attract.screenReader'', [CHR 0xE6, CHR 0xAC, CHR 0xA2, CHR 0xE8, CHR 0xBF, CHR 0x8E, CHR 0xE5, CHR 0xB1, CHR 0x8F, CHR 0xE5, CHR 0xB9, CHR 0x95, CHR 0xE3, CHR 0x80, CHR 0x82, CHR 0xE7, CHR 0x82, CHR 0xB9, CHR 0xE5, CHR 0x87, CHR 0xBB, CHR 0xE5, CHR 0xBC, CHR 0x80, CHR 0xE5, CHR 0xA7, CHR 0x8B, CHR 0xE8, CHR 0xB4, CHR 0xAD, CHR 0xE7, CHR 0x89, CHR 0xA9, CHR 0xE3, CHR 0x80, CHR 0x82]),
      (''menu.title'', [CHR 0xE8, CHR 0x8F, CHR 0x9C, CHR 0xE5, CHR 0x8D, CHR 0x95]),
      (''menu.search'', [CHR 0xE6, CHR 0x90, CHR 0x9C, CHR 0xE7, CHR 0xB4, CHR 0xA2, CHR 0xE8, CHR 0x8F, CHR 0x9C, CHR 0xE5, CHR 0x8D, CHR 0x95] @ ''...''),
      (''menu.noItems'', [CHR 0xE6, CHR 0x9C, CHR 0xAA, CHR 0xE6, CHR 0x89, CHR 0xBE, CHR 0xE5, CHR 0x88, CHR 0xB0, CHR 0xE5, CHR 0x95, CHR 0x86, CHR 0xE5, CHR 0x93, CHR 0x81]),
      (''menu.backToMenu'', [CHR 0xE8, CHR 0xBF, CHR 0x94, CHR 0xE5, CHR 0x9B, CHR 0x9E, CHR 0xE8, CHR 0x8F, CHR 0x9C, CHR 0xE5, CHR 0x8D, CHR 0x95]),
      (''menu.viewCart'', [CHR 0xE6, CHR 0x9F, CHR 0xA5, CHR 0xE7, CHR 0x9C, CHR 0x8B, CHR 0xE8, CHR 0xB4, CHR 0xAD, CHR 0xE7, CHR 0x89, CHR 0xA9, CHR 0xE8, CHR 0xBD, CHR 0xA6] @ '' ({count})''),
      (''menu.itemAdded'', [CHR 0xE5, CHR 0x95, CHR 0x86, CHR 0xE5, CHR 0x93, CHR 0x81, CHR 0xE5, CHR 0xB7, CHR 0xB2, CHR 0xE6, CHR 0xB7, CHR 0xBB, CHR 0xE5, CHR 0x8A, CHR 0xA0]),
      (''menu.categories.all'', [CHR 0xE5, CHR 0x85, CHR 0xA8, CHR 0xE9, CHR 0x83, CHR 0xA8]),
      (''item.addToCart'', [CHR 0xE5, CHR 0x8A, CHR 0xA0, CHR 0xE5, CHR 0x85, CHR 0xA5, CHR 0xE8, CHR 0xB4, CHR 0xAD, CHR 0xE7, CHR 0x89, CHR 0xA9, CHR 0xE8, CHR 0xBD, CHR 0xA6]),
      (''item.quantity'', [CHR 0xE6, CHR 0x95, CHR 0xB0, CHR 0xE9, CHR 0x87, CHR 0x8F]),
      (''item.modifiers'', [CHR 0xE8, CHR 0x87, CHR 0xAA, CHR 0xE5, CHR 0xAE, CHR 0x9A, CHR 0xE4, CHR 0xB9, CHR 0x89]),
      (''item.price'', [CHR 0xE4, CHR 0xBB, CHR 0xB7, CHR 0xE6, CHR 0xA0, CHR 0xBC]),
      (''item.description'', [CHR 0xE6, CHR 0x8F, CHR 0x8F, CHR 0xE8, CHR 0xBF, CHR 0xB0]),
      (''cart.title'', [CHR 0xE6, CHR 0x82, CHR 0xA8, CHR 0xE7, CHR 0x9A, CHR 0x84, CHR 0xE8, CHR 0xB4, CHR 0xAD, CHR 0xE7, CHR 0x89, CHR 0xA9, CHR 0xE8, CHR 0xBD, CHR 0xA6]),
      (''cart.empty'', [CHR 0xE8, CHR 0xB4, CHR 0xAD, CHR 0xE7, CHR 0x89, CHR 0xA9, CHR 0xE8, CHR 0xBD, CHR 0xA6, CHR 0xE6, CHR 0x98, CHR 0xAF, CHR 0xE7, CHR 0xA9, CHR 0xBA, CHR 0xE7, CHR 0x9A, CHR 0x84]),
      (''cart.subtotal'', [CHR 0xE5, CHR 0xB0, CHR 0x8F, CHR 0xE8, CHR 0xAE, CHR 0xA1]),
      (''cart.tax'', [CHR 0xE7, CHR 0xA8, CHR 0x8E, CHR 0xE8, CHR 0xB4, CHR 0xB9]),
      (''cart.total'', [CHR 0xE6, CHR 0x80, CHR 0xBB, CHR 0xE8, CHR 0xAE, CHR 0xA1]),
      (''cart.backToMenu'', [CHR 0xE8, CHR 0xBF, CHR 0x94, CHR 0xE5, CHR 0x9B, CHR 0x9E, CHR 0xE8, CHR 0x8F, CHR 0x9C, CHR 0xE5, CHR 0x8D, CHR 0x95]),
      (''cart.proceedToPayment'', [CHR 0xE5, CHR 0x87, CHR 0x86, CHR 0xE5, CHR 0xA4, CHR 0x87, CHR 0xE4, CHR 0xBB, CHR 0x98, CHR 0xE6, CHR 0xAC, CHR 0xBE]),
      (''cart.removeItem'', [CHR 0xE7, CHR 0xA7, CHR 0xBB, CHR 0xE9, CHR 0x99, CHR 0xA4]),
      (''cart.itemCount'', ''{count} '' @ [CHR 0xE4, CHR 0xBB, CHR 0xB6, CHR 0xE5, CHR 0x95, CHR 0x86, CHR 0xE5, CHR 0x93, CHR 0x81]),
      (''cart.summary'', [CHR 0xE8, CHR 0xAE, CHR 0xA2, CHR 0xE5, CHR 0x8D, CHR 0x95, CHR 0xE6, CHR 0x91, CHR 0x98, CHR 0xE8, CHR 0xA6, CHR 0x81]),
      (''payment.title'', [CHR 0xE6, CHR 0x94, CHR 0xAF, CHR 0xE4, CHR 0xBB, CHR 0x98]),
      (''payment.confirm'', [CHR 0xE7, CHR 0xA1, CHR 0xAE, CHR 0xE8, CHR 0xAE, CHR 0xA4, CHR 0xE6, CHR 0x94, CHR 0xAF, CHR 0xE4, CHR 0xBB, CHR 0x98]),
      (''payment.cancel'', [CHR 0xE5, CHR 0x8F, CHR 0x96, CHR 0xE6, CHR 0xB6, CHR 0x88]),
      (''payment.processing'', [CHR 0xE6, CHR 0xAD, CHR 0xA3, CHR 0xE5, CHR 0x9C, CHR 0xA8, CHR 0xE5, CHR 0xA4, CHR 0x84, CHR 0xE7, CHR 0x90, CHR 0x86, CHR 0xE6, CHR 0x94, CHR 0xAF, CHR 0xE4, CHR 0xBB, CHR 0x98] @ ''...''),
      (''payment.selectMethod'', [CHR 0xE9, CHR 0x80, CHR 0x89, CHR 0xE6, CHR 0x8B, CHR 0xA9, CHR 0xE6, CHR 0x94, CHR 0xAF, CHR 0xE4, CHR 0xBB, CHR 0x98, CHR 0xE6, CHR 0x96, CHR 0xB9, CHR 0xE5, CHR 0xBC, CHR 0x8F]),
      (''payment.card'', [CHR 0xE9, CHR 0x93, CHR 0xB6, CHR 0xE8, CHR 0xA1, CHR 0x8C, CHR 0xE5, CHR 0x8D, CHR 0xA1]),
      (''payment.cash'', [CHR 0xE7, CHR 0x8E, CHR 0xB0, CHR 0xE9, CHR 0x87, CHR 0x91]),
      (''payment.mobile'', [CHR 0xE6, CHR 0x89, CHR 0x8B, CHR 0xE6, CHR 0x9C, CHR 0xBA, CHR 0xE9, CHR 0x92, CHR 0xB1, CHR 0xE5, CHR 0x8C, CHR 0x85]),
      (''payment.biometric'', [CHR 0xE7, CHR 0x94, CHR 0x9F, CHR 0xE7, CHR 0x89, CHR 0xA9, CHR 0xE8, CHR 0xAF, CHR 0x86, CHR 0xE5, CHR 0x88, CHR 0xAB]),
      (''payment.employeeOverride'', [CHR 0xE5, CHR 0x91, CHR 0x98, CHR 0xE5, CHR 0xB7, CHR 0xA5, CHR 0xE6, CHR 0x8E, CHR 0x88, CHR 0xE6, CHR 0x9D, CHR 0x83]),
      (''payment.insertCard'', [CHR 0xE6, CHR 0x8F, CHR 0x92, CHR 0xE5, CHR 0x85, CHR 0xA5, CHR 0xE6, CHR 0x88, CHR 0x96, CHR 0xE8, CHR 0xBD, CHR 0xBB, CHR 0xE8, CHR 0xA7, CHR 0xA6, CHR 0xE5, CHR 0x8D, CHR 0xA1, CHR 0xE7, CHR 0x89, CHR 0x87]),
      (''payment.scanQR'', [CHR 0xE6, CHR 0x89, CHR 0xAB, CHR 0xE6, CHR 0x8F, CHR 0x8F, CHR 0xE4, CHR 0xBA, CHR 0x8C, CHR 0xE7, CHR 0xBB, CHR 0xB4, CHR 0xE7, CHR 0xA0, CHR 0x81]),
      (''payment.tapPhone'', [CHR 0xE8, CHR 0xBD, CHR 0xBB, CHR 0xE8, CHR 0xA7, CHR 0xA6, CHR 0xE6, CHR 0x82, CHR 0xA8, CHR 0xE7, CHR 0x9A, CHR 0x84, CHR 0xE6, CHR 0x89, CHR 0x8B, CHR 0xE6, CHR 0x9C, CHR 0xBA]),
      (''payment.amount'', [CHR 0xE9, CHR 0x87, CHR 0x91, CHR 0xE9, CHR 0xA2, CHR 0x9D]),
      (''processing.title'', [CHR 0xE5, CHR 0xA4, CHR 0x84, CHR 0xE7, CHR 0x90, CHR 0x86, CHR 0xE4, CHR 0xB8, CHR 0xAD]),
      (''processing.pleaseWait'', [CHR 0xE8, CHR 0xAF, CHR 0xB7, CHR 0xE7, CHR 0xA8, CHR 0x8D, CHR 0xE5, CHR 0x80, CHR 0x99] @ ''...''),
      (''processing.finalizing'', [CHR 0xE6, CHR 0xAD, CHR 0xA3, CHR 0xE5, CHR 0x9C, CHR 0xA8, CHR 0xE5, CHR 0xAE, CHR 0x8C, CHR 0xE6, CHR 0x88, CHR 0x90, CHR 0xE6, CHR 0x82, CHR 0xA8, CHR 0xE7, CHR 0x9A, CHR 0x84, CHR 0xE8, CHR 0xAE, CHR 0xA2, CHR 0xE5, CHR 0x8D, CHR 0x95]),
      (''processing.redirecting'', [CHR 0xE6, CHR 0xAD, CHR 0xA3, CHR 0xE5, CHR 0x9C, CHR 0xA8, CHR 0xE8, CHR 0xB7, CHR 0xB3, CHR 0xE8, CHR 0xBD, CHR 0xAC, CHR 0xE5, CHR 0x88, CHR 0xB0, CHR 0xE6, CHR 0x94, CHR 0xB6, CHR 0xE6, CHR 0x8D, CHR 0xAE]),
      (''receipt.title'', [CHR 0xE8, CHR 0xB0, CHR 0xA2, CHR 0xE8, CHR 0xB0, CHR 0xA2]),
      (''receipt.orderNumber'', [CHR 0xE8, CHR 0xAE, CHR 0xA2, CHR 0xE5, CHR 0x8D, CHR 0x95] @ '' #{number}''),
      (''receipt.print'', [CHR 0xE6, CHR 0x89, CHR 0x93, CHR 0xE5, CHR 0x8D, CHR 0xB0, CHR 0xE6, CHR 0x94, CHR 0xB6, CHR 0xE6, CHR 0x8D, CHR 0xAE]),
      (''receipt.email'', [CHR 0xE5, CHR 0x8F, CHR 0x91, CHR 0xE9, CHR 0x80, CHR 0x81, CHR 0xE6, CHR 0x94, CHR 0xB6, CHR 0xE6, CHR 0x8D, CHR 0xAE, CHR 0xE8, CHR 0x87, CHR 0xB3, CHR 0xE9, CHR 0x82, CHR 0xAE, CHR 0xE7, CHR 0xAE, CHR 0xB1]),
      (''receipt.startNew'', [CHR 0xE5, CHR 0xBC, CHR 0x80, CHR 0xE5, CHR 0xA7, CHR 0x8B, CHR 0xE6, CHR 0x96, CHR 0xB0, CHR 0xE8, CHR 0xAE, CHR 0xA2, CHR 0xE5, CHR 0x8D, CHR 0x95]),
      (''receipt.thankYouMessage'', [CHR 0xE6, CHR 0x84, CHR 0x9F, CHR 0xE8, CHR 0xB0, CHR 0xA2, CHR 0xE6, CHR 0x82, CHR 0xA8, CHR 0xE7, CHR 0x9A, CHR 0x84, CHR 0xE8, CHR 0xB4, CHR 0xAD, CHR 0xE4, CHR 0xB9, CHR 0xB0, CHR 0xEF, CHR 0xBC, CHR 0x81]),
      (''status.offline'', [CHR 0xE7, CHR 0xA6, CHR 0xBB, CHR 0xE7, CHR 0xBA, CHR 0xBF]),
      (''status.online'', [CHR 0xE5, CHR 0x9C, CHR 0xA8, CHR 0xE7, CHR 0xBA, CHR 0xBF]),
      (''status.connecting'', [CHR 0xE8, CHR 0xBF, CHR 0x9E, CHR 0xE6, CHR 0x8E, CHR 0xA5, CHR 0xE4, CHR 0xB8, CHR 0xAD] @ ''...''),
      (''status.network'', [CHR 0xE7, CHR 0xBD, CHR 0x91, CHR 0xE7, CHR 0xBB, CHR 0x9C]),
      (''idle.warning'', [CHR 0xE8, CHR 0xBF, CHR 0x98, CHR 0xE5, CHR 0x9C, CHR 0xA8, CHR 0xE8, CHR 0xB4, CHR 0xAD, CHR 0xE7, CHR 0x89, CHR 0xA9, CHR 0xE5, CHR 0x90, CHR 0x97, CHR 0xEF, CHR 0xBC, CHR 0x9F]),
      (''idle.continue'', [CHR 0xE7, CHR 0xBB, CHR 0xA7, CHR 0xE7, CHR 0xBB, CHR 0xAD]),
      (''idle.endSession'', [CHR 0xE7, CHR 0xBB, CHR 0x93, CHR 0xE6, CHR 0x9D, CHR 0x9F, CHR 0xE4, CHR 0xBC, CHR 0x9A, CHR 0xE8, CHR 0xAF, CHR 0x9D]),
      (''idle.timeoutWarning'', [CHR 0xE7, CHR 0x94, CHR 0xB1, CHR 0xE4, CHR 0xBA, CHR 0x8E, CHR 0xE9, CHR 0x95, CHR 0xBF, CHR 0xE6, CHR 0x97, CHR 0xB6, CHR 0xE9, CHR 0x97, CHR 0xB4, CHR 0xE6, CHR 0x9C, CHR 0xAA, CHR 0xE6, CHR 0x93, CHR 0x8D, CHR 0xE4, CHR 0xBD, CHR 0x9C, CHR 0xEF, CHR 0xBC, CHR 0x8C, CHR 0xE4, CHR 0xBC, CHR 0x9A, CHR 0xE8, CHR 0xAF, CHR 0x9D, CHR 0xE5, CHR 0x8D, CHR 0xB3, CHR 0xE5, CHR 0xB0, CHR 0x86, CHR 0xE7, CHR 0xBB, CHR 0x93, CHR 0xE6, CHR 0x9D, CHR 0x9F, CHR 0xE3, CHR 0x80, CHR 0x82]),
      (''offline.banner'', [CHR 0xE6, CHR 0x82, CHR 0xA8, CHR 0xE5, CHR 0xB7, CHR 0xB2, CHR 0xE7, CHR 0xA6, CHR 0xBB, CHR 0xE7, CHR 0xBA, CHR 0xBF, CHR 0xE3, CHR 0x80, CHR 0x82, CHR 0xE6, CHR 0x9F, CHR 0x90, CHR 0xE4, CHR 0xBA, CHR 0x9B, CHR 0xE5, CHR 0x8A, CHR 0x9F, CHR 0xE8, CHR 0x83, CHR 0xBD, CHR 0xE5, CHR 0x8F, CHR 0xAF, CHR 0xE8, CHR 0x83, CHR 0xBD, CHR 0xE4, CHR 0xB8, CHR 0x8D, CHR 0xE5, CHR 0x8F, CHR 0xAF, CHR 0xE7, CHR 0x94, CHR 0xA8, CHR 0xE3, CHR 0x80, CHR 0x82]),
      (''offline.reconnecting'', [CHR 0xE9, CHR 0x87, CHR 0x8D, CHR 0xE6, CHR 0x96, CHR 0xB0, CHR 0xE8, CHR 0xBF, CHR 0x9E, CHR 0xE6, CHR 0x8E, CHR 0xA5, CHR 0xE4, CHR 0xB8, CHR 0xAD] @ ''...''),
      (''offline.longOffline'', [CHR 0xE9, CHR 0x95, CHR 0xBF, CHR 0xE6, CHR 0x97, CHR 0xB6, CHR 0xE9, CHR 0x97, CHR 0xB4, CHR 0xE6, CHR 0x97, CHR 0xA0, CHR 0xE7, CHR 0xBD, CHR 0x91, CHR 0xE7, CHR 0xBB, CHR 0x9C, CHR 0xE8, CHR 0xBF, CHR 0x9E, CHR 0xE6, CHR 0x8E, CHR 0xA5, CHR 0xE3, CHR 0x80, CHR 0x82]),
      (''error.generic'', [CHR 0xE5, CHR 0x87, CHR 0xBA, CHR 0xE4, CHR 0xBA, CHR 0x86, CHR 0xE7, CHR 0x82, CHR 0xB9, CHR 0xE9, CHR 0x97, CHR 0xAE, CHR 0xE9, CHR 0xA2, CHR 0x98]),
      (''error.restart'', [CHR 0xE9, CHR 0x87, CHR 0x8D, CHR 0xE6, CHR 0x96, CHR 0xB0, CHR 0xE5, CHR 0x90, CHR 0xAF, CHR 0xE5, CHR 0x8A, CHR 0xA8, CHR 0xE8, CHR 0x87, CHR 0xAA, CHR 0xE5, CHR 0x8A, CHR 0xA9, CHR 0xE6, CHR 0x9C, CHR 0xBA]),
      (''error.retry'', [CHR 0xE9, CHR 0x87, CHR 0x8D, CHR 0xE8, CHR 0xAF, CHR 0x95]),
      (''error.paymentDeclined'', [CHR 0xE6, CHR 0x94, CHR 0xAF, CHR 0xE4, CHR 0xBB, CHR 0x98, CHR 0xE8, CHR 0xA2, CHR 0xAB, CHR 0xE6, CHR 0x8B, CHR 0x92, CHR 0xE7, CHR 0xBB, CHR 0x9D, CHR 0xE3, CHR 0x80, CHR 0x82, CHR 0xE8, CHR 0xAF, CHR 0xB7, CHR 0xE5, CHR 0xB0, CHR 0x9D, CHR 0xE8, CHR 0xAF, CHR 0x95, CHR 0xE5, CHR 0x85, CHR 0xB6, CHR 0xE4, CHR 0xBB, CHR 0x96, CHR 0xE6, CHR 0x96, CHR 0xB9, CHR 0xE5, CHR 0xBC, CHR 0x8F, CHR 0xE3, CHR 0x80, CHR 0x82]),
      (''error.paymentFailed'', [CHR 0xE6, CHR 0x94, CHR 0xAF, CHR 0xE4, CHR 0xBB, CHR 0x98, CHR 0xE5, CHR 0xA4, CHR 0xB1, CHR 0xE8, CHR 0xB4, CHR 0xA5, CHR 0xE3, CHR 0x80, CHR 0x82, CHR 0xE8, CHR 0xAF, CHR 0xB7, CHR 0xE9, CHR 0x87, CHR 0x8D, CHR 0xE8, CHR 0xAF, CHR 0x95, CHR 0xE3, CHR 0x80, CHR 0x82]),
      (''error.sessionExpired'', [CHR 0xE4, CHR 0xBC, CHR 0x9A, CHR 0xE8, CHR 0xAF, CHR 0x9D, CHR 0xE5, CHR 0xB7, CHR 0xB2, CHR 0xE8, CHR 0xBF, CHR 0x87, CHR 0xE6, CHR 0x9C, CHR 0x9F, CHR 0xE3, CHR 0x80, CHR 0x82, CHR 0xE8, CHR 0xAF, CHR 0xB7, CHR 0xE9, CHR 0x87, CHR 0x8D, CHR 0xE6, CHR 0x96, CHR 0xB0, CHR 0xE5, CHR 0xBC, CHR 0x80, CHR 0xE5, CHR 0xA7, CHR 0x8B, CHR 0xE3, CHR 0x80, CHR 0x82]),
      (''error.connectionLost'', [CHR 0xE8, CHR 0xBF, CHR 0x9E, CHR 0xE6, CHR 0x8E, CHR 0xA5, CHR 0xE6, CHR 0x96, CHR 0xAD, CHR 0xE5, CHR 0xBC, CHR 0x80, CHR 0xE3, CHR 0x80, CHR 0x82, CHR 0xE6, CHR 0xAD, CHR 0xA3, CHR 0xE5, CHR 0x9C, CHR 0xA8, CHR 0xE6, CHR 0xA3, CHR 0x80, CHR 0xE6, CHR 0x9F, CHR 0xA5, CHR 0xE7, CHR 0xBD, CHR 0x91, CHR 0xE7, CHR 0xBB, CHR 0x9C] @ ''...''),
      (''admin.title'', [CHR 0xE7, CHR 0xAE, CHR 0xA1, CHR 0xE7, CHR 0x90, CHR 0x86, CHR 0xE9, CHR 0x9D, CHR 0xA2, CHR 0xE6, CHR 0x9D, CHR 0xBF]),
      (''admin.close'', [CHR 0xE5, CHR 0x85, CHR 0xB3, CHR 0xE9, CHR 0x97, CHR 0xAD]),
      (''admin.dashboard'', [CHR 0xE4, CHR 0xBB, CHR 0xAA, CHR 0xE8, CHR 0xA1, CHR 0xA8, CHR 0xE7, CHR 0x9B, CHR 0x98]),
      (''general.confirm'', [CHR 0xE7, CHR 0xA1, CHR 0xAE, CHR 0xE8, CHR 0xAE, CHR 0xA4]),
      (''general.cancel'', [CHR 0xE5, CHR 0x8F, CHR 0x96, CHR 0xE6, CHR 0xB6, CHR 0x88]),
      (''general.back'', [CHR 0xE8, CHR 0xBF, CHR 0x94, CHR 0xE5, CHR 0x9B, CHR 0x9E]),
      (''general.next'', [CHR 0xE4, CHR 0xB8, CHR 0x8B, CHR 0xE4, CHR 0xB8, CHR 0x80, CHR 0xE6, CHR 0xAD, CHR 0xA5]),
      (''general.done'', [CHR 0xE5, CHR 0xAE, CHR 0x8C, CHR 0xE6, CHR 0x88, CHR 0x90]),
      (''general.loading'', [CHR 0xE5, CHR 0x8A, CHR 0xA0, CHR 0xE8, CHR 0xBD, CHR 0xBD, CHR 0xE4, CHR 0xB8, CHR 0xAD] @ ''...''),
      (''general.save'', [CHR 0xE4, CHR 0xBF, CHR 0x9D, CHR 0xE5, CHR 0xAD, CHR 0x98]),
      (''general.delete'', [CHR 0xE5, CHR 0x88, CHR 0xA0, CHR 0xE9, CHR 0x99, CHR 0xA4]),
      (''general.edit'', [CHR 0xE7, CHR 0xBC, CHR 0x96, CHR 0xE8, CHR 0xBE, CHR 0x91]),
      (''general.search'', [CHR 0xE6, CHR 0x90, CHR 0x9C, CHR 0xE7, CHR 0xB4, CHR 0xA2]),
      (''general.close'', [CHR 0xE5, CHR 0x85, CHR 0xB3, CHR 0xE9, CHR 0x97, CHR 0xAD]),
      (''general.yes'', [CHR 0xE6, CHR 0x98, CHR 0xAF]),
      (''general.no'', [CHR 0xE5, CHR 0x90, CHR 0xA6]),
      (''a11y.closeModal'', [CHR 0xE5, CHR 0x85, CHR 0xB3, CHR 0xE9, CHR 0x97, CHR 0xAD, CHR 0xE5, CHR 0xBC, CHR 0xB9, CHR 0xE7, CHR 0xAA, CHR 0x97]),
      (''a11y.navigateBack'', [CHR 0xE8, CHR 0xBF, CHR 0x94, CHR 0xE5, CHR 0x9B, CHR 0x9E, CHR 0xE5, CHR 0xAF, CHR 0xBC, CHR 0xE8, CHR 0x88, CHR 0xAA]),
      (''menu.noItemsHint'', ''Try a different search term or check all categories''),
      (''menu.categoriesLabel'', ''Menu categories''),
      (''menu.categories.mains'', ''Mains''),
      (''menu.categories.drinks'', ''Drinks''),
      (''menu.clearSearch'', ''Clear search''),
      (''menu.itemsInCart'', ''{count} items in cart'')]"

definition texts_zh_CN_2 :: TranslationMap where
  "texts_zh_CN_2 =
     [(''item.included'', ''Included''),
      (''item.chooseCount'', ''Choose {count}''),
      (''item.chooseRange'', ''Choose {min}-{max}''),
      (''item.closeLabel'', ''Close item details''),
      (''item.decreaseQuantity'', ''Decrease quantity''),
      (''item.increaseQuantity'', ''Increase quantity''),
      (''item.quantityLabel'', ''Quantity: {count}''),
      (''item.addToCartLabel'', ''Add {name} to cart '' @ [CHR 0xE2, CHR 0x80, CHR 0x94] @ '' {amount}''),
      (''item.priceAddition'', ''+{amount}''),
      (''item.customizeLabel'', ''Customize {name}''),
      (''cart.itemSingular'', ''{count} item''),
      (''cart.tapToEdit'', ''Tap an item to edit''),
      (''cart.itemsLabel'', ''Cart items''),
      (''cart.pay'', ''Pay {amount}''),
      (''cart.editItem'', ''Edit {name}. Quantity: {quantity}. Price: {amount}''),
      (''cart.decreaseQuantity'', ''Decrease quantity of {name}''),
      (''cart.increaseQuantity'', ''Increase quantity of {name}''),
      (''cart.quantityLabel'', ''Quantity: {count}''),
      (''cart.priceLabel'', ''Price: {amount}''),
      (''payment.cardNfc'', ''Card / NFC''),
      (''payment.qrCode'', ''QR Code''),
      (''payment.verifyToComplete'', ''Verify to complete''),
      (''payment.pinPadInstruction'', ''Please use the PIN pad or present your card to the terminal.''),
      (''payment.terminalStatus'', ''Terminal: {status}''),
      (''payment.authorizing'', ''Authorizing...''),
      (''payment.authorize'', ''Authorize''),
      (''payment.authorized'', ''Authorized''),
      (''payment.connected'', ''Connected''),
      (''payment.cartSummary'', ''Cart summary: {count} items, total {amount}. Tap to {action}.''),
      (''payment.expand'', ''expand''),
      (''payment.collapse'', ''collapse''),
      (''payment.employeeOverrideHint'', ''Employee override. Hold for 3 seconds.''),
      (''payment.cancelPayment'', ''Cancel payment''),
      (''payment.confirmPayment'', ''Pay {amount}''),
      (''processing.connecting'', ''Connecting to terminal...''),
      (''processing.waitingForCard'', ''Waiting for card...''),
      (''processing.authorizing'', ''Authorizing...''),
      (''processing.finalizingStage'', ''Finalizing...''),
      (''processing.default'', ''Processing...''),
      (''processing.terminalStatus'', ''Terminal: {label}''),
      (''processing.orderFailed'', ''Order could not be completed''),
      (''processing.orderFailedMessage'', ''We couldn'' @ [CHR 0x27] @ ''t complete your order. Please try again.''),
      (''processing.retry'', ''Try again''),
      (''processing.cancelReturn'', ''Cancel and return to cart''),
      (''receipt.printing'', ''Printing...''),
      (''receipt.emailSending'', ''Sending...''),
      (''receipt.emailSent'', ''Sent!''),
      (''receipt.printerUnavailable'', ''Printer unavailable. Receipt saved.''),
      (''receipt.srComplete'', ''Order complete. Tap start new order to continue.''),
      (''receipt.srReady'', ''Receipt ready.''),
      (''receipt.printLabel'', ''Print receipt''),
      (''receipt.emailLabel'', ''Email receipt''),
      (''receipt.startNewLabel'', ''Start new order''),
      (''status.synced'', ''Synced''),
      (''status.syncing'', ''Syncing''),
      (''status.p2pStatus'', ''P2P sync status: {label}. Tap for mesh details.''),
      (''status.kioskStatus'', ''Kiosk status''),
      (''status.p2pTitle'', ''P2P mesh sync''),
      (''status.meshDescription'', ''This kiosk shares cart and order state with nearby peers over a local mesh so orders survive network drops.''),
      (''status.connectedPeers'', ''Connected peers''),
      (''status.syncLag'', ''Sync lag''),
      (''status.role'', ''Role''),
      (''status.leader'', ''Leader''),
      (''status.peer'', ''Peer''),
      (''status.thisKiosk'', ''This kiosk''),
      (''status.apiOnline'', ''API online''),
      (''status.apiDegraded'', ''API degraded''),
      (''status.apiOffline'', ''API offline''),
      (''status.networkConnected'', ''Connected to network''),
      (''status.networkDisconnected'', ''No network connection''),
      (''idle.message'', ''Tap below to continue, or this kiosk will reset for the next customer.''),
      (''idle.continueLabel'', ''I am still here''),
      (''idle.endSessionLabel'', ''Start over''),
      (''idle.ariaLabel'', ''Idle timeout warning''),
      (''offline.workingOffline'', ''Working offline. Your cart is secure.''),
      (''offline.dismiss'', ''Dismiss offline notice''),
      (''error.helpMessage'', ''Please ask a staff member for help. We apologise for the inconvenience.''),
      (''admin.kioskStatus'', ''Kiosk Status''),
      (''admin.session'', ''Session''),
      (''admin.laneMode'', ''Lane Mode''),
      (''admin.apiStatus'', ''API Status''),
      (''admin.cartHasItems'', ''Cart Has Items''),
      (''admin.actions'', ''Actions''),
      (''admin.simulateOnline'', ''Simulate Online''),
      (''admin.simulateOffline'', ''Simulate Offline''),
      (''admin.errors'', ''Errors''),
      (''admin.closeLabel'', ''Close admin panel''),
      (''item.modifierSingular'', ''{count} modifier''),
      (''item.modifierPlural'', ''{count} modifiers'')]"

definition texts_zh_CN :: TranslationMap where
  "texts_zh_CN = texts_zh_CN_1 @ texts_zh_CN_2"

definition texts_fr_1 :: TranslationMap where
  "texts_fr_1 =
     [(''language.select'', ''Choisissez votre langue''),
      (''language.mainLanguages'', ''Langues Principales''),
      (''language.moreLanguages'', ''Plus de Langues''),
      (''language.continue'', ''Continuer''),
      (''attract.title'', ''Astra''),
      (''attract.touchToBegin'', ''Touchez pour commencer''),
      (''attract.laneInfo'', ''Libre-service '' @ [CHR 0xE2, CHR 0x80, CHR 0xA2] @ '' Voie {lane}''),
      (''attract.screenReader'', [CHR 0xC3, CHR 0x89] @ ''cran d'' @ [CHR 0x27] @ ''accueil. Touchez pour commencer vos achats.''),
      (''menu.title'', ''Menu''),
      (''menu.search'', ''Rechercher au menu...''),
      (''menu.noItems'', ''Aucun article trouv'' @ [CHR 0xC3, CHR 0xA9]),
      (''menu.backToMenu'', ''Retour au menu''),
      (''menu.viewCart'', ''Voir le panier ({count})''),
      (''menu.itemAdded'', ''Article ajout'' @ [CHR 0xC3, CHR 0xA9]),
      (''menu.categories.all'', ''Tout''),
      (''item.addToCart'', ''Ajouter au panier''),
      (''item.quantity'', ''Quantit'' @ [CHR 0xC3, CHR 0xA9]),
      (''item.modifiers'', ''Personnaliser''),
      (''item.price'', ''Prix''),
      (''item.description'', ''Description''),
      (''cart.title'', ''Votre Panier''),
      (''cart.empty'', ''Votre panier est vide''),
      (''cart.subtotal'', ''Sous-total''),
      (''cart.tax'', ''TVA''),
      (''cart.total'', ''Total''),
      (''cart.backToMenu'', ''Retour au menu''),
      (''cart.proceedToPayment'', ''Pr'' @ [CHR 0xC3, CHR 0xAA] @ ''t '' @ [CHR 0xC3, CHR 0xA0] @ '' payer''),
      (''cart.removeItem'', ''Supprimer''),
      (''cart.itemCount'', ''{count} articles''),
      (''cart.summary'', ''R'' @ [CHR 0xC3, CHR 0xA9] @ ''capitulatif''),
      (''payment.title'', ''Paiement''),
      (''payment.confirm'', ''Confirmer le Paiement''),
      (''payment.cancel'', ''Annuler''),
      (''payment.processing'', ''Traitement du paiement...''),
      (''payment.selectMethod'', ''Choisissez un mode de paiement''),
      (''payment.card'', ''Carte''),
      (''payment.cash'', ''Esp'' @ [CHR 0xC3, CHR 0xA8] @ ''ces''),
      (''payment.mobile'', ''Porte-monnaie mobile''),
      (''payment.biometric'', ''Biom'' @ [CHR 0xC3, CHR 0xA9] @ ''trie''),
      (''payment.employeeOverride'', ''Autorisation employ'' @ [CHR 0xC3, CHR 0xA9]),
      (''payment.insertCard'', ''Ins'' @ [CHR 0xC3, CHR 0xA9] @ ''rez ou tapotez la carte''),
      (''payment.scanQR'', ''Scannez le code QR''),
      (''payment.tapPhone'', ''Tapotez votre t'' @ [CHR 0xC3, CHR 0xA9] @ ''l'' @ [CHR 0xC3, CHR 0xA9] @ ''phone''),
      (''payment.amount'', ''Montant''),
      (''processing.title'', ''Traitement''),
      (''processing.pleaseWait'', ''Veuillez patienter...''),
      (''processing.finalizing'', ''Finalisation de votre commande''),
      (''processing.redirecting'', ''Redirection vers le re'' @ [CHR 0xC3, CHR 0xA7] @ ''u''),
      (''receipt.title'', ''Merci''),
      (''receipt.orderNumber'', ''Commande #{number}''),
      (''receipt.print'', ''Imprimer le re'' @ [CHR 0xC3, CHR 0xA7] @ ''u''),
      (''receipt.email'', ''Recevoir par email''),
      (''receipt.startNew'', ''Nouvelle commande''),
      (''receipt.thankYouMessage'', ''Merci pour votre achat !''),
      (''status.offline'', ''Hors ligne''),
      (''status.online'', ''En ligne''),
      (''status.connecting'', ''Connexion...''),
      (''status.network'', ''R'' @ [CHR 0xC3, CHR 0xA9] @ ''seau''),
      (''idle.warning'', ''Encore l'' @ [CHR 0xC3, CHR 0xA0] @ '' ?''),
      (''idle.continue'', ''Continuer''),
      (''idle.endSession'', ''Terminer la session''),
      (''idle.timeoutWarning'', ''La session va expirer bient'' @ [CHR 0xC3, CHR 0xB4] @ ''t en raison d'' @ [CHR 0x27] @ ''inactivit'' @ [CHR 0xC3, CHR 0xA9] @ ''.''),
      (''offline.banner'', ''Vous '' @ [CHR 0xC3, CHR 0xAA] @ ''tes hors ligne. Certaines fonctionnalit'' @ [CHR 0xC3, CHR 0xA9] @ ''s peuvent '' @ [CHR 0xC3, CHR 0xAA] @ ''tre indisponibles.''),
      (''offline.reconnecting'', ''Reconnexion...''),
      (''offline.longOffline'', ''Absence de connexion r'' @ [CHR 0xC3, CHR 0xA9] @ ''seau prolong'' @ [CHR 0xC3, CHR 0xA9] @ ''e.''),
      (''error.generic'', ''Une erreur est survenue''),
      (''error.restart'', ''Red'' @ [CHR 0xC3, CHR 0xA9] @ ''marrer le kiosque''),
      (''error.retry'', ''R'' @ [CHR 0xC3, CHR 0xA9] @ ''essayer''),
      (''error.paymentDeclined'', ''Paiement refus'' @ [CHR 0xC3, CHR 0xA9] @ ''. Essayez un autre moyen.''),
      (''error.paymentFailed'', [CHR 0xC3, CHR 0x89] @ ''chec du paiement. Veuillez r'' @ [CHR 0xC3, CHR 0xA9] @ ''essayer.''),
      (''error.sessionExpired'', ''Session expir'' @ [CHR 0xC3, CHR 0xA9] @ ''e. Veuillez recommencer.''),
      (''error.connectionLost'', ''Connexion perdue. V'' @ [CHR 0xC3, CHR 0xA9] @ ''rification du r'' @ [CHR 0xC3, CHR 0xA9] @ ''seau...''),
      (''admin.title'', ''Panneau d'' @ [CHR 0x27] @ ''Administration''),
      (''admin.close'', ''Fermer''),
      (''admin.dashboard'', ''Tableau de bord''),
      (''general.confirm'', ''Confirmer''),
      (''general.cancel'', ''Annuler''),
      (''general.back'', ''Retour''),
      (''general.next'', ''Suivant''),
      (''general.done'', ''Termin'' @ [CHR 0xC3, CHR 0xA9]),
      (''general.loading'', ''Chargement...''),
      (''general.save'', ''Enregistrer''),
      (''general.delete'', ''Supprimer''),
      (''general.edit'', ''Modifier''),
      (''general.search'', ''Rechercher''),
      (''general.close'', ''Fermer''),
      (''general.yes'', ''Oui''),
      (''general.no'', ''Non''),
      (''a11y.closeModal'', ''Fermer la fen'' @ [CHR 0xC3, CHR 0xAA] @ ''tre modale''),
      (''a11y.navigateBack'', ''Revenir en arri'' @ [CHR 0xC3, CHR 0xA8] @ ''re''),
      (''menu.noItemsHint'', ''Try a different search term or check all categories''),
      (''menu.categoriesLabel'', ''Menu categories''),
      (''menu.categories.mains'', ''Mains''),
      (''menu.categories.drinks'', ''Drinks''),
      (''menu.clearSearch'', ''Clear search''),
      (''menu.itemsInCart'', ''{count} items in cart'')]"

definition texts_fr_2 :: TranslationMap where
  "texts_fr_2 =
     [(''item.included'', ''Included''),
      (''item.chooseCount'', ''Choose {count}''),
      (''item.chooseRange'', ''Choose {min}-{max}''),
      (''item.closeLabel'', ''Close item details''),
      (''item.decreaseQuantity'', ''Decrease quantity''),
      (''item.increaseQuantity'', ''Increase quantity''),
      (''item.quantityLabel'', ''Quantity: {count}''),
      (''item.addToCartLabel'', ''Add {name} to cart '' @ [CHR 0xE2, CHR 0x80, CHR 0x94] @ '' {amount}''),
      (''item.priceAddition'', ''+{amount}''),
      (''item.customizeLabel'', ''Customize {name}''),
      (''cart.itemSingular'', ''{count} item''),
      (''cart.tapToEdit'', ''Tap an item to edit''),
      (''cart.itemsLabel'', ''Cart items''),
      (''cart.pay'', ''Pay {amount}''),
      (''cart.editItem'', ''Edit {name}. Quantity: {quantity}. Price: {amount}''),
      (''cart.decreaseQuantity'', ''Decrease quantity of {name}''),
      (''cart.increaseQuantity'', ''Increase quantity of {name}''),
      (''cart.quantityLabel'', ''Quantity: {count}''),
      (''cart.priceLabel'', ''Price: {amount}''),
      (''payment.cardNfc'', ''Card / NFC''),
      (''payment.qrCode'', ''QR Code''),
      (''payment.verifyToComplete'', ''Verify to complete''),
      (''payment.pinPadInstruction'', ''Please use the PIN pad or present your card to the terminal.''),
      (''payment.terminalStatus'', ''Terminal: {status}''),
      (''payment.authorizing'', ''Authorizing...''),
      (''payment.authorize'', ''Authorize''),
      (''payment.authorized'', ''Authorized''),
      (''payment.connected'', ''Connected''),
      (''payment.cartSummary'', ''Cart summary: {count} items, total {amount}. Tap to {action}.''),
      (''payment.expand'', ''expand''),
      (''payment.collapse'', ''collapse''),
      (''payment.employeeOverrideHint'', ''Employee override. Hold for 3 seconds.''),
      (''payment.cancelPayment'', ''Cancel payment''),
      (''payment.confirmPayment'', ''Pay {amount}''),
      (''processing.connecting'', ''Connecting to terminal...''),
      (''processing.waitingForCard'', ''Waiting for card...''),
      (''processing.authorizing'', ''Authorizing...''),
      (''processing.finalizingStage'', ''Finalizing...''),
      (''processing.default'', ''Processing...''),
      (''processing.terminalStatus'', ''Terminal: {label}''),
      (''processing.orderFailed'', ''Order could not be completed''),
      (''processing.orderFailedMessage'', ''We couldn'' @ [CHR 0x27] @ ''t complete your order. Please try again.''),
      (''processing.retry'', ''Try again''),
      (''processing.cancelReturn'', ''Cancel and return to cart''),
      (''receipt.printing'', ''Printing...''),
      (''receipt.emailSending'', ''Sending...''),
      (''receipt.emailSent'', ''Sent!''),
      (''receipt.printerUnavailable'', ''Printer unavailable. Receipt saved.''),
      (''receipt.srComplete'', ''Order complete. Tap start new order to continue.''),
      (''receipt.srReady'', ''Receipt ready.''),
      (''receipt.printLabel'', ''Print receipt''),
      (''receipt.emailLabel'', ''Email receipt''),
      (''receipt.startNewLabel'', ''Start new order''),
      (''status.synced'', ''Synced''),
      (''status.syncing'', ''Syncing''),
      (''status.p2pStatus'', ''P2P sync status: {label}. Tap for mesh details.''),
      (''status.kioskStatus'', ''Kiosk status''),
      (''status.p2pTitle'', ''P2P mesh sync''),
      (''status.meshDescription'', ''This kiosk shares cart and order state with nearby peers over a local mesh so orders survive network drops.''),
      (''status.connectedPeers'', ''Connected peers''),
      (''status.syncLag'', ''Sync lag''),
      (''status.role'', ''Role''),
      (''status.leader'', ''Leader''),
      (''status.peer'', ''Peer''),
      (''status.thisKiosk'', ''This kiosk''),
      (''status.apiOnline'', ''API online''),
      (''status.apiDegraded'', ''API degraded''),
      (''status.apiOffline'', ''API offline''),
      (''status.networkConnected'', ''Connected to network''),
      (''status.networkDisconnected'', ''No network connection''),
      (''idle.message'', ''Tap below to continue, or this kiosk will reset for the next customer.''),
      (''idle.continueLabel'', ''I am still here''),
      (''idle.endSessionLabel'', ''Start over''),
      (''idle.ariaLabel'', ''Idle timeout warning''),
      (''offline.workingOffline'', ''Working offline. Your cart is secure.''),
      (''offline.dismiss'', ''Dismiss offline notice''),
      (''error.helpMessage'', ''Please ask a staff member for help. We apologise for the inconvenience.''),
      (''admin.kioskStatus'', ''Kiosk Status''),
      (''admin.session'', ''Session''),
      (''admin.laneMode'', ''Lane Mode''),
      (''admin.apiStatus'', ''API Status''),
      (''admin.cartHasItems'', ''Cart Has Items''),
      (''admin.actions'', ''Actions''),
      (''admin.simulateOnline'', ''Simulate Online''),
      (''admin.simulateOffline'', ''Simulate Offline''),
      (''admin.errors'', ''Errors''),
      (''admin.closeLabel'', ''Close admin panel''),
      (''item.modifierSingular'', ''{count} modifier''),
      (''item.modifierPlural'', ''{count} modifiers'')]"

definition texts_fr :: TranslationMap where
  "texts_fr = texts_fr_1 @ texts_fr_2"

end
