(* ===== verification/EuropeanTexts.thy ===== *)
theory EuropeanTexts
  imports Languages
begin

text \<open>
  Tables of texts of the kiosk: \<open>pt.ts\<close>, \<open>ru.ts\<close>, \<open>de.ts\<close>, \<open>tr.ts\<close> of \<open>apps/kiosk/src/i18n/locales\<close>. A text is
  given by its bytes in UTF-8.
\<close>

definition texts_pt_1 :: TranslationMap where
  "texts_pt_1 =
     [(''language.select'', ''Selecione seu idioma''),
      (''language.mainLanguages'', ''Idiomas Principais''),
      (''language.moreLanguages'', ''Mais Idiomas''),
      (''language.continue'', ''Continuar''),
      (''attract.title'', ''Astra''),
      (''attract.touchToBegin'', ''Toque para come'' @ [CHR 0xC3, CHR 0xA7] @ ''ar''),
      (''attract.laneInfo'', ''Autoatendimento '' @ [CHR 0xE2, CHR 0x80, CHR 0xA2] @ '' Linha {lane}''),
      (''attract.screenReader'', ''Tela inicial. Toque para come'' @ [CHR 0xC3, CHR 0xA7] @ ''ar a comprar.''),
      (''menu.title'', ''Card'' @ [CHR 0xC3, CHR 0xA1] @ ''pio''),
      (''menu.search'', ''Pesquisar no card'' @ [CHR 0xC3, CHR 0xA1] @ ''pio...''),
      (''menu.noItems'', ''Nenhum item encontrado''),
      (''menu.backToMenu'', ''Voltar ao card'' @ [CHR 0xC3, CHR 0xA1] @ ''pio''),
      (''menu.viewCart'', ''Ver Carrinho ({count})''),
      (''menu.itemAdded'', ''Item adicionado''),
      (''menu.categories.all'', ''Todos''),
      (''item.addToCart'', ''Adicionar ao carrinho''),
      (''item.quantity'', ''Quantidade''),
      (''item.modifiers'', ''Personalizar''),
      (''item.price'', ''Pre'' @ [CHR 0xC3, CHR 0xA7] @ ''o''),
      (''item.description'', ''Descri'' @ [CHR 0xC3, CHR 0xA7, CHR 0xC3, CHR 0xA3] @ ''o''),
      (''cart.title'', ''Seu Carrinho''),
      (''cart.empty'', ''Seu carrinho est'' @ [CHR 0xC3, CHR 0xA1] @ '' vazio''),
      (''cart.subtotal'', ''Subtotal''),
      (''cart.tax'', ''Imposto''),
      (''cart.total'', ''Total''),
      (''cart.backToMenu'', ''Voltar ao card'' @ [CHR 0xC3, CHR 0xA1] @ ''pio''),
      (''cart.proceedToPayment'', ''Pronto para pagar''),
      (''cart.removeItem'', ''Remover''),
      (''cart.itemCount'', ''{count} itens''),
      (''cart.summary'', ''Resumo do Pedido''),
      (''payment.title'', ''Pagamento''),
      (''payment.confirm'', ''Confirmar Pagamento''),
      (''payment.cancel'', ''Cancelar''),
      (''payment.processing'', ''Processando pagamento...''),
      (''payment.selectMethod'', ''Selecione o m'' @ [CHR 0xC3, CHR 0xA9] @ ''todo de pagamento''),
      (''payment.card'', ''Cart'' @ [CHR 0xC3, CHR 0xA3] @ ''o''),
      (''payment.cash'', ''Dinheiro''),
      (''payment.mobile'', ''Carteira Digital''),
      (''payment.biometric'', ''Biom'' @ [CHR 0xC3, CHR 0xA9] @ ''trico''),
      (''payment.employeeOverride'', ''Autoriza'' @ [CHR 0xC3, CHR 0xA7, CHR 0xC3, CHR 0xA3] @ ''o do Funcion'' @ [CHR 0xC3, CHR 0xA1] @ ''rio''),
      (''payment.insertCard'', ''Insira ou aproxime o cart'' @ [CHR 0xC3, CHR 0xA3] @ ''o''),
      (''payment.scanQR'', ''Escanear c'' @ [CHR 0xC3, CHR 0xB3] @ ''digo QR''),
      (''payment.tapPhone'', ''Aproxime seu celular''),
      (''payment.amount'', ''Valor''),
      (''processing.title'', ''Processando''),
      (''processing.pleaseWait'', ''Aguarde...''),
      (''processing.finalizing'', ''Finalizando seu pedido''),
      (''processing.redirecting'', ''Redirecionando para o recibo''),
      (''receipt.title'', ''Obrigado''),
      (''receipt.orderNumber'', ''Pedido #{number}''),
      (''receipt.print'', ''Imprimir recibo''),
      (''receipt.email'', ''Enviar por email''),
      (''receipt.startNew'', ''Iniciar novo pedido''),
      (''receipt.thankYouMessage'', ''Obrigado pela sua compra!''),
      (''status.offline'', ''Offline''),
      (''status.online'', ''Online''),
      (''status.connecting'', ''Conectando...''),
      (''status.network'', ''Rede''),
      (''idle.warning'', ''Ainda comprando?''),
      (''idle.continue'', ''Continuar''),
      (''idle.endSession'', ''Encerrar sess'' @ [CHR 0xC3, CHR 0xA3] @ ''o''),
      (''idle.timeoutWarning'', ''A sess'' @ [CHR 0xC3, CHR 0xA3] @ ''o ser'' @ [CHR 0xC3, CHR 0xA1] @ '' encerrada em breve por inatividade.''),
      (''offline.banner'', ''Voc'' @ [CHR 0xC3, CHR 0xAA] @ '' est'' @ [CHR 0xC3, CHR 0xA1] @ '' offline. Alguns recursos podem n'' @ [CHR 0xC3, CHR 0xA3] @ ''o estar dispon'' @ [CHR 0xC3, CHR 0xAD] @ ''veis.''),
      (''offline.reconnecting'', ''Reconectando...''),
      (''offline.longOffline'', ''Sem conex'' @ [CHR 0xC3, CHR 0xA3] @ ''o de rede por um per'' @ [CHR 0xC3, CHR 0xAD] @ ''odo prolongado.''),
      (''error.generic'', ''Algo deu errado''),
      (''error.restart'', ''Reiniciar quiosque''),
      (''error.retry'', ''Tentar novamente''),
      (''error.paymentDeclined'', ''Pagamento recusado. Tente outro m'' @ [CHR 0xC3, CHR 0xA9] @ ''todo.''),
      (''error.paymentFailed'', ''Falha no pagamento. Tente novamente.''),
      (''error.sessionExpired'', ''Sess'' @ [CHR 0xC3, CHR 0xA3] @ ''o expirada. Por favor, comece novamente.''),
      (''error.connectionLost'', ''Conex'' @ [CHR 0xC3, CHR 0xA3] @ ''o perdida. Verificando rede...''),
      (''admin.title'', ''Painel de Administra'' @ [CHR 0xC3, CHR 0xA7, CHR 0xC3, CHR 0xA3] @ ''o''),
      (''admin.close'', ''Fechar''),
      (''admin.dashboard'', ''Painel''),
      (''general.confirm'', ''Confirmar''),
      (''general.cancel'', ''Cancelar''),
      (''general.back'', ''Voltar''),
      (''general.next'', ''Pr'' @ [CHR 0xC3, CHR 0xB3] @ ''ximo''),
      (''general.done'', ''Conclu'' @ [CHR 0xC3, CHR 0xAD] @ ''do''),
      (''general.loading'', ''Carregando...''),
      (''general.save'', ''Salvar''),
      (''general.delete'', ''Excluir''),
      (''general.edit'', ''Editar''),
      (''general.search'', ''Pesquisar''),
      (''general.close'', ''Fechar''),
      (''general.yes'', ''Sim''),
      (''general.no'', ''N'' @ [CHR 0xC3, CHR 0xA3] @ ''o''),
      (''a11y.closeModal'', ''Fechar modal''),
      (''a11y.navigateBack'', ''Navegar para tr'' @ [CHR 0xC3, CHR 0xA1] @ ''s''),
      (''menu.noItemsHint'', ''Try a different search term or check all categories''),
      (''menu.categoriesLabel'', ''Menu categories''),
      (''menu.categories.mains'', ''Mains''),
      (''menu.categories.drinks'', ''Drinks''),
      (''menu.clearSearch'', ''Clear search''),
      (''menu.itemsInCart'', ''{count} items in cart'')]"

definition texts_pt_2 :: TranslationMap where
  "texts_pt_2 =
     [(''item.included'', ''Included''),
      (''item.chooseCount'', ''Choose {count}''),
      (''item.chooseRange'', ''Choose {min}-{max}''),
      (''item.closeLabel'', ''Close item details''),
      (''item.decreaseQuantity'', ''Decrease quantity''),
      (''item.increaseQuantity'', ''Increase quantity''),
      (''item.quantityLabel'', ''Quantity: {count}''),
      (''item.addToCartLabel'', ''Add {name} to cart '' @ [CHR 0xE2, CHR 0x80, CHR 0x94] @ '' {amount}''),
      (''item.priceAddition'', ''+{amount}''),
      (''item.customizeLabel'', ''Customize {name}''),
      (''cart.itemSingular'', ''{count} item''),
      (''cart.tapToEdit'', ''Tap an item to edit''),
      (''cart.itemsLabel'', ''Cart items''),
      (''cart.pay'', ''Pay {amount}''),
      (''cart.editItem'', ''Edit {name}. Quantity: {quantity}. Price: {amount}''),
      (''cart.decreaseQuantity'', ''Decrease quantity of {name}''),
      (''cart.increaseQuantity'', ''Increase quantity of {name}''),
      (''cart.quantityLabel'', ''Quantity: {count}''),
      (''cart.priceLabel'', ''Price: {amount}''),
      (''payment.cardNfc'', ''Card / NFC''),
      (''payment.qrCode'', ''QR Code''),
      (''payment.verifyToComplete'', ''Verify to complete''),
      (''payment.pinPadInstruction'', ''Please use the PIN pad or present your card to the terminal.''),
      (''payment.terminalStatus'', ''Terminal: {status}''),
      (''payment.authorizing'', ''Authorizing...''),
      (''payment.authorize'', ''Authorize''),
      (''payment.authorized'', ''Authorized''),
      (''payment.connected'', ''Connected''),
      (''payment.cartSummary'', ''Cart summary: {count} items, total {amount}. Tap to {action}.''),
      (''payment.expand'', ''expand''),
      (''payment.collapse'', ''collapse''),
      (''payment.employeeOverrideHint'', ''Employee override. Hold for 3 seconds.''),
      (''payment.cancelPayment'', ''Cancel payment''),
      (''payment.confirmPayment'', ''Pay {amount}''),
      (''processing.connecting'', ''Connecting to terminal...''),
      (''processing.waitingForCard'', ''Waiting for card...''),
      (''processing.authorizing'', ''Authorizing...''),
      (''processing.finalizingStage'', ''Finalizing...''),
      (''processing.default'', ''Processing...''),
      (''processing.terminalStatus'', ''Terminal: {label}''),
      (''processing.orderFailed'', ''Order could not be completed''),
      (''processing.orderFailedMessage'', ''We couldn'' @ [CHR 0x27] @ ''t complete your order. Please try again.''),
      (''processing.retry'', ''Try again''),
      (''processing.cancelReturn'', ''Cancel and return to cart''),
      (''receipt.printing'', ''Printing...''),
      (''receipt.emailSending'', ''Sending...''),
      (''receipt.emailSent'', ''Sent!''),
      (''receipt.printerUnavailable'', ''Printer unavailable. Receipt saved.''),
      (''receipt.srComplete'', ''Order complete. Tap start new order to continue.''),
      (''receipt.srReady'', ''Receipt ready.''),
      (''receipt.printLabel'', ''Print receipt''),
      (''receipt.emailLabel'', ''Email receipt''),
      (''receipt.startNewLabel'', ''Start new order''),
      (''status.synced'', ''Synced''),
      (''status.syncing'', ''Syncing''),
      (''status.p2pStatus'', ''P2P sync status: {label}. Tap for mesh details.''),
      (''status.kioskStatus'', ''Kiosk status''),
      (''status.p2pTitle'', ''P2P mesh sync''),
      (''status.meshDescription'', ''This kiosk shares cart and order state with nearby peers over a local mesh so orders survive network drops.''),
      (''status.connectedPeers'', ''Connected peers''),
      (''status.syncLag'', ''Sync lag''),
      (''status.role'', ''Role''),
      (''status.leader'', ''Leader''),
      (''status.peer'', ''Peer''),
      (''status.thisKiosk'', ''This kiosk''),
      (''status.apiOnline'', ''API online''),
      (''status.apiDegraded'', ''API degraded''),
      (''status.apiOffline'', ''API offline''),
      (''status.networkConnected'', ''Connected to network''),
      (''status.networkDisconnected'', ''No network connection''),
      (''idle.message'', ''Tap below to continue, or this kiosk will reset for the next customer.''),
      (''idle.continueLabel'', ''I am still here''),
      (''idle.endSessionLabel'', ''Start over''),
      (''idle.ariaLabel'', ''Idle timeout warning''),
      (''offline.workingOffline'', ''Working offline. Your cart is secure.''),
      (''offline.dismiss'', ''Dismiss offline notice''),
      (''error.helpMessage'', ''Please ask a staff member for help. We apologise for the inconvenience.''),
      (''admin.kioskStatus'', ''Kiosk Status''),
      (''admin.session'', ''Session''),
      (''admin.laneMode'', ''Lane Mode''),
      (''admin.apiStatus'', ''API Status''),
      (''admin.cartHasItems'', ''Cart Has Items''),
      (''admin.actions'', ''Actions''),
      (''admin.simulateOnline'', ''Simulate Online''),
      (''admin.simulateOffline'', ''Simulate Offline''),
      (''admin.errors'', ''Errors''),
      (''admin.closeLabel'', ''Close admin panel''),
      (''item.modifierSingular'', ''{count} modifier''),
      (''item.modifierPlural'', ''{count} modifiers'')]"

definition texts_pt :: TranslationMap where
  "texts_pt = texts_pt_1 @ texts_pt_2"

definition texts_ru_1 :: TranslationMap where
  "texts_ru_1 =
     [(''language.select'', [CHR 0xD0, CHR 0x92, CHR 0xD1, CHR 0x8B, CHR 0xD0, CHR 0xB1, CHR 0xD0, CHR 0xB5, CHR 0xD1, CHR 0x80, CHR 0xD0, CHR 0xB8, CHR 0xD1, CHR 0x82, CHR 0xD0, CHR 0xB5] @ '' '' @ [CHR 0xD1, CHR 0x8F, CHR 0xD0, CHR 0xB7, CHR 0xD1, CHR 0x8B, CHR 0xD0, CHR 0xBA]),
      (''language.mainLanguages'', [CHR 0xD0, CHR 0x9E, CHR 0xD1, CHR 0x81, CHR 0xD0, CHR 0xBD, CHR 0xD0, CHR 0xBE, CHR 0xD0, CHR 0xB2, CHR 0xD0, CHR 0xBD, CHR 0xD1, CHR 0x8B, CHR 0xD0, CHR 0xB5] @ '' '' @ [CHR 0xD1, CHR 0x8F, CHR 0xD0, CHR 0xB7, CHR 0xD1, CHR 0x8B, CHR 0xD0, CHR 0xBA, CHR 0xD0, CHR 0xB8]),
      (''language.moreLanguages'', [CHR 0xD0, CHR 0x94, CHR 0xD1, CHR 0x80, CHR 0xD1, CHR 0x83, CHR 0xD0, CHR 0xB3, CHR 0xD0, CHR 0xB8, CHR 0xD0, CHR 0xB5] @ '' '' @ [CHR 0xD1, CHR 0x8F, CHR 0xD0, CHR 0xB7, CHR 0xD1, CHR 0x8B, CHR 0xD0, CHR 0xBA, CHR 0xD0, CHR 0xB8]),
      (''language.continue'', [CHR 0xD0, CHR 0x9F, CHR 0xD1, CHR 0x80, CHR 0xD0, CHR 0xBE, CHR 0xD0, CHR 0xB4, CHR 0xD0, CHR 0xBE, CHR 0xD0, CHR 0xBB, CHR 0xD0, CHR 0xB6, CHR 0xD0, CHR 0xB8, CHR 0xD1, CHR 0x82, CHR 0xD1, CHR 0x8C]),
      (''attract.title'', ''Astra''),
      (''attract.touchToBegin'', [CHR 0xD0, CHR 0x9D, CHR 0xD0, CHR 0xB0, CHR 0xD0, CHR 0xB6, CHR 0xD0, CHR 0xBC, CHR 0xD0, CHR 0xB8, CHR 0xD1, CHR 0x82, CHR 0xD0, CHR 0xB5] @ '', '' @ [CHR 0xD1, CHR 0x87, CHR 0xD1, CHR 0x82, CHR 0xD0, CHR 0xBE, CHR 0xD0, CHR 0xB1, CHR 0xD1, CHR 0x8B] @ '' '' @ [CHR 0xD0, CHR 0xBD, CHR 0xD0, CHR 0xB0, CHR 0xD1, CHR 0x87, CHR 0xD0, CHR 0xB0, CHR 0xD1, CHR 0x82, CHR 0xD1, CHR 0x8C]),
      (''attract.laneInfo'', [CHR 0xD0, CHR 0xA1, CHR 0xD0, CHR 0xB0, CHR 0xD0, CHR 0xBC, CHR 0xD0, CHR 0xBE, CHR 0xD0, CHR 0xBE, CHR 0xD0, CHR 0xB1, CHR 0xD1, CHR 0x81, CHR 0xD0, CHR 0xBB, CHR 0xD1, CHR 0x83, CHR 0xD0, CHR 0xB6, CHR 0xD0, CHR 0xB8, CHR 0xD0, CHR 0xB2, CHR 0xD0, CHR 0xB0, CHR 0xD0, CHR 0xBD, CHR 0xD0, CHR 0xB8, CHR 0xD0, CHR 0xB5] @ '' '' @ [CHR 0xE2, CHR 0x80, CHR 0xA2] @ '' '' @ [CHR 0xD0, CHR 0x9B, CHR 0xD0, CHR 0xB8, CHR 0xD0, CHR 0xBD, CHR 0xD0, CHR 0xB8, CHR 0xD1, CHR 0x8F] @ '' {lane}''),
      (''attract.screenReader'', [CHR 0xD0, CHR 0xAD, CHR 0xD0, CHR 0xBA, CHR 0xD1, CHR 0x80, CHR 0xD0, CHR 0xB0, CHR 0xD0, CHR 0xBD] @ '' '' @ [CHR 0xD0, CHR 0xBF, CHR 0xD1, CHR 0x80, CHR 0xD0, CHR 0xB8, CHR 0xD0, CHR 0xB2, CHR 0xD0, CHR 0xB5, CHR 0xD1, CHR 0x82, CHR 0xD1, CHR 0x81, CHR 0xD1, CHR 0x82, CHR 0xD0, CHR 0xB2, CHR 0xD0, CHR 0xB8, CHR 0xD1, CHR 0x8F] @ ''. '' @ [CHR 0xD0, CHR 0x9D, CHR 0xD0, CHR 0xB0, CHR 0xD0, CHR 0xB6, CHR 0xD0, CHR 0xBC, CHR 0xD0, CHR 0xB8, CHR 0xD1, CHR 0x82, CHR 0xD0, CHR 0xB5] @ '', '' @ [CHR 0xD1, CHR 0x87, CHR 0xD1, CHR 0x82, CHR 0xD0, CHR 0xBE, CHR 0xD0, CHR 0xB1, CHR 0xD1, CHR 0x8B] @ '' '' @ [CHR 0xD0, CHR 0xBD, CHR 0xD0, CHR 0xB0, CHR 0xD1, CHR 0x87, CHR 0xD0, CHR 0xB0, CHR 0xD1, CHR 0x82, CHR 0xD1, CHR 0x8C] @ '' '' @ [CHR 0xD0, CHR 0xBF, CHR 0xD0, CHR 0xBE, CHR 0xD0, CHR 0xBA, CHR 0xD1, CHR 0x83, CHR 0xD0, CHR 0xBF, CHR 0xD0, CHR 0xBA, CHR 0xD0, CHR 0xB8] @ ''.''),
      (''menu.title'', [CHR 0xD0, CHR 0x9C, CHR 0xD0, CHR 0xB5, CHR 0xD0, CHR 0xBD, CHR 0xD1, CHR 0x8E]),
      (''menu.search'', [CHR 0xD0, CHR 0x9F, CHR 0xD0, CHR 0xBE, CHR 0xD0, CHR 0xB8, CHR 0xD1, CHR 0x81, CHR 0xD0, CHR 0xBA] @ '' '' @ [CHR 0xD0, CHR 0xB2] @ '' '' @ [CHR 0xD0, CHR 0xBC, CHR 0xD0, CHR 0xB5, CHR 0xD0, CHR 0xBD, CHR 0xD1, CHR 0x8E] @ ''...''),
      (''menu.noItems'', [CHR 0xD0, CHR 0xA2, CHR 0xD0, CHR 0xBE, CHR 0xD0, CHR 0xB2, CHR 0xD0, CHR 0xB0, CHR 0xD1, CHR 0x80, CHR 0xD1, CHR 0x8B] @ '' '' @ [CHR 0xD0, CHR 0xBD, CHR 0xD0, CHR 0xB5] @ '' '' @ [CHR 0xD0, CHR 0xBD, CHR 0xD0, CHR 0xB0, CHR 0xD0, CHR 0xB9, CHR 0xD0, CHR 0xB4, CHR 0xD0, CHR 0xB5, CHR 0xD0, CHR 0xBD, CHR 0xD1, CHR 0x8B]),
      (''menu.backToMenu'', [CHR 0xD0, CHR 0x9D, CHR 0xD0, CHR 0xB0, CHR 0xD0, CHR 0xB7, CHR 0xD0, CHR 0xB0, CHR 0xD0, CHR 0xB4] @ '' '' @ [CHR 0xD0, CHR 0xB2] @ '' '' @ [CHR 0xD0, CHR 0xBC, CHR 0xD0, CHR 0xB5, CHR 0xD0, CHR 0xBD, CHR 0xD1, CHR 0x8E]),
      (''menu.viewCart'', [CHR 0xD0, CHR 0x9A, CHR 0xD0, CHR 0xBE, CHR 0xD1, CHR 0x80, CHR 0xD0, CHR 0xB7, CHR 0xD0, CHR 0xB8, CHR 0xD0, CHR 0xBD, CHR 0xD0, CHR 0xB0] @ '' ({count})''),
      (''menu.itemAdded'', [CHR 0xD0, CHR 0xA2, CHR 0xD0, CHR 0xBE, CHR 0xD0, CHR 0xB2, CHR 0xD0, CHR 0xB0, CHR 0xD1, CHR 0x80] @ '' '' @ [CHR 0xD0, CHR 0xB4, CHR 0xD0, CHR 0xBE, CHR 0xD0, CHR 0xB1, CHR 0xD0, CHR 0xB0, CHR 0xD0, CHR 0xB2, CHR 0xD0, CHR 0xBB, CHR 0xD0, CHR 0xB5, CHR 0xD0, CHR 0xBD]),
      (''menu.categories.all'', [CHR 0xD0, CHR 0x92, CHR 0xD1, CHR 0x81, CHR 0xD0, CHR 0xB5]),
      (''item.addToCart'', [CHR 0xD0, CHR 0x94, CHR 0xD0, CHR 0xBE, CHR 0xD0, CHR 0xB1, CHR 0xD0, CHR 0xB0, CHR 0xD0, CHR 0xB2, CHR 0xD0, CHR 0xB8, CHR 0xD1, CHR 0x82, CHR 0xD1, CHR 0x8C] @ '' '' @ [CHR 0xD0, CHR 0xB2] @ '' '' @ [CHR 0xD0, CHR 0xBA, CHR 0xD0, CHR 0xBE, CHR 0xD1, CHR 0x80, CHR 0xD0, CHR 0xB7, CHR 0xD0, CHR 0xB8, CHR 0xD0, CHR 0xBD, CHR 0xD1, CHR 0x83]),
      (''item.quantity'', [CHR 0xD0, CHR 0x9A, CHR 0xD0, CHR 0xBE, CHR 0xD0, CHR 0xBB, CHR 0xD0, CHR 0xB8, CHR 0xD1, CHR 0x87, CHR 0xD0, CHR 0xB5, CHR 0xD1, CHR 0x81, CHR 0xD1, CHR 0x82, CHR 0xD0, CHR 0xB2, CHR 0xD0, CHR 0xBE]),
      (''item.modifiers'', [CHR 0xD0, CHR 0x9D, CHR 0xD0, CHR 0xB0, CHR 0xD1, CHR 0x81, CHR 0xD1, CHR 0x82, CHR 0xD1, CHR 0x80, CHR 0xD0, CHR 0xBE, CHR 0xD0, CHR 0xB8, CHR 0xD1, CHR 0x82, CHR 0xD1, CHR 0x8C]),
      (''item.price'', [CHR 0xD0, CHR 0xA6, CHR 0xD0, CHR 0xB5, CHR 0xD0, CHR 0xBD, CHR 0xD0, CHR 0xB0]),
      (''item.description'', [CHR 0xD0, CHR 0x9E, CHR 0xD0, CHR 0xBF, CHR 0xD0, CHR 0xB8, CHR 0xD1, CHR 0x81, CHR 0xD0, CHR 0xB0, CHR 0xD0, CHR 0xBD, CHR 0xD0, CHR 0xB8, CHR 0xD0, CHR 0xB5]),
      (''cart.title'', [CHR 0xD0, CHR 0x9A, CHR 0xD0, CHR 0xBE, CHR 0xD1, CHR 0x80, CHR 0xD0, CHR 0xB7, CHR 0xD0, CHR 0xB8, CHR 0xD0, CHR 0xBD, CHR 0xD0, CHR 0xB0]),
      (''cart.empty'', [CHR 0xD0, CHR 0x9A, CHR 0xD0, CHR 0xBE, CHR 0xD1, CHR 0x80, CHR 0xD0, CHR 0xB7, CHR 0xD0, CHR 0xB8, CHR 0xD0, CHR 0xBD, CHR 0xD0, CHR 0xB0] @ '' '' @ [CHR 0xD0, CHR 0xBF, CHR 0xD1, CHR 0x83, CHR 0xD1, CHR 0x81, CHR 0xD1, CHR 0x82, CHR 0xD0, CHR 0xB0]),
      (''cart.subtotal'', [CHR 0xD0, CHR 0x9F, CHR 0xD0, CHR 0xBE, CHR 0xD0, CHR 0xB4, CHR 0xD1, CHR 0x8B, CHR 0xD1, CHR 0x82, CHR 0xD0, CHR 0xBE, CHR 0xD0, CHR 0xB3]),
      (''cart.tax'', [CHR 0xD0, CHR 0x9D, CHR 0xD0, CHR 0xB0, CHR 0xD0, CHR 0xBB, CHR 0xD0, CHR 0xBE, CHR 0xD0, CHR 0xB3]),
      (''cart.total'', [CHR 0xD0, CHR 0x98, CHR 0xD1, CHR 0x82, CHR 0xD0, CHR 0xBE, CHR 0xD0, CHR 0xB3, CHR 0xD0, CHR 0xBE]),
      (''cart.backToMenu'', [CHR 0xD0, CHR 0x9D, CHR 0xD0, CHR 0xB0, CHR 0xD0, CHR 0xB7, CHR 0xD0, CHR 0xB0, CHR 0xD0, CHR 0xB4] @ '' '' @ [CHR 0xD0, CHR 0xB2] @ '' '' @ [CHR 0xD0, CHR 0xBC, CHR 0xD0, CHR 0xB5, CHR 0xD0, CHR 0xBD, CHR 0xD1, CHR 0x8E]),
      (''cart.proceedToPayment'', [CHR 0xD0, CHR 0x9A] @ '' '' @ [CHR 0xD0, CHR 0xBE, CHR 0xD0, CHR 0xBF, CHR 0xD0, CHR 0xBB, CHR 0xD0, CHR 0xB0, CHR 0xD1, CHR 0x82, CHR 0xD0, CHR 0xB5]),
      (''cart.removeItem'', [CHR 0xD0, CHR 0xA3, CHR 0xD0, CHR 0xB4, CHR 0xD0, CHR 0xB0, CHR 0xD0, CHR 0xBB, CHR 0xD0, CHR 0xB8, CHR 0xD1, CHR 0x82, CHR 0xD1, CHR 0x8C]),
      (''cart.itemCount'', ''{count} '' @ [CHR 0xD1, CHR 0x82, CHR 0xD0, CHR 0xBE, CHR 0xD0, CHR 0xB2, CHR 0xD0, CHR 0xB0, CHR 0xD1, CHR 0x80, CHR 0xD0, CHR 0xBE, CHR 0xD0, CHR 0xB2]),
      (''cart.summary'', [CHR 0xD0, CHR 0x98, CHR 0xD1, CHR 0x82, CHR 0xD0, CHR 0xBE, CHR 0xD0, CHR 0xB3, CHR 0xD0, CHR 0xB8] @ '' '' @ [CHR 0xD0, CHR 0xB7, CHR 0xD0, CHR 0xB0, CHR 0xD0, CHR 0xBA, CHR 0xD0, CHR 0xB0, CHR 0xD0, CHR 0xB7, CHR 0xD0, CHR 0xB0]),
      (''payment.title'', [CHR 0xD0, CHR 0x9E, CHR 0xD0, CHR 0xBF, CHR 0xD0, CHR 0xBB, CHR 0xD0, CHR 0xB0, CHR 0xD1, CHR 0x82, CHR 0xD0, CHR 0xB0]),
      (''payment.confirm'', [CHR 0xD0, CHR 0x9F, CHR 0xD0, CHR 0xBE, CHR 0xD0, CHR 0xB4, CHR 0xD1, CHR 0x82, CHR 0xD0, CHR 0xB2, CHR 0xD0, CHR 0xB5, CHR 0xD1, CHR 0x80, CHR 0xD0, CHR 0xB4, CHR 0xD0, CHR 0xB8, CHR 0xD1, CHR 0x82, CHR 0xD1, CHR 0x8C] @ '' '' @ [CHR 0xD0, CHR 0xBE, CHR 0xD0, CHR 0xBF, CHR 0xD0, CHR 0xBB, CHR 0xD0, CHR 0xB0, CHR 0xD1, CHR 0x82, CHR 0xD1, CHR 0x83]),
      (''payment.cancel'', [CHR 0xD0, CHR 0x9E, CHR 0xD1, CHR 0x82, CHR 0xD0, CHR 0xBC, CHR 0xD0, CHR 0xB5, CHR 0xD0, CHR 0xBD, CHR 0xD0, CHR 0xB0]),
      (''payment.processing'', [CHR 0xD0, CHR 0x9E, CHR 0xD0, CHR 0xB1, CHR 0xD1, CHR 0x80, CHR 0xD0, CHR 0xB0, CHR 0xD0, CHR 0xB1, CHR 0xD0, CHR 0xBE, CHR 0xD1, CHR 0x82, CHR 0xD0, CHR 0xBA, CHR 0xD0, CHR 0xB0] @ '' '' @ [CHR 0xD0, CHR 0xBF, CHR 0xD0, CHR 0xBB, CHR 0xD0, CHR 0xB0, CHR 0xD1, CHR 0x82, CHR 0xD0, CHR 0xB5, CHR 0xD0, CHR 0xB6, CHR 0xD0, CHR 0xB0] @ ''...''),
      (''payment.selectMethod'', [CHR 0xD0, CHR 0x92, CHR 0xD1, CHR 0x8B, CHR 0xD0, CHR 0xB1, CHR 0xD0, CHR 0xB5, CHR 0xD1, CHR 0x80, CHR 0xD0, CHR 0xB8, CHR 0xD1, CHR 0x82, CHR 0xD0, CHR 0xB5] @ '' '' @ [CHR 0xD1, CHR 0x81, CHR 0xD0, CHR 0xBF, CHR 0xD0, CHR 0xBE, CHR 0xD1, CHR 0x81, CHR 0xD0, CHR 0xBE, CHR 0xD0, CHR 0xB1] @ '' '' @ [CHR 0xD0, CHR 0xBE, CHR 0xD0, CHR 0xBF, CHR 0xD0, CHR 0xBB, CHR 0xD0, CHR 0xB0, CHR 0xD1, CHR 0x82, CHR 0xD1, CHR 0x8B]),
      (''payment.card'', [CHR 0xD0, CHR 0x9A, CHR 0xD0, CHR 0xB0, CHR 0xD1, CHR 0x80, CHR 0xD1, CHR 0x82, CHR 0xD0, CHR 0xB0]),
      (''payment.cash'', [CHR 0xD0, CHR 0x9D, CHR 0xD0, CHR 0xB0, CHR 0xD0, CHR 0xBB, CHR 0xD0, CHR 0xB8, CHR 0xD1, CHR 0x87, CHR 0xD0, CHR 0xBD, CHR 0xD1, CHR 0x8B, CHR 0xD0, CHR 0xB5]),
      (''payment.mobile'', [CHR 0xD0, CHR 0x9C, CHR 0xD0, CHR 0xBE, CHR 0xD0, CHR 0xB1, CHR 0xD0, CHR 0xB8, CHR 0xD0, CHR 0xBB, CHR 0xD1, CHR 0x8C, CHR 0xD0, CHR 0xBD, CHR 0xD1, CHR 0x8B, CHR 0xD0, CHR 0xB9] @ '' '' @ [CHR 0xD0, CHR 0xBA, CHR 0xD0, CHR 0xBE, CHR 0xD1, CHR 0x88, CHR 0xD0, CHR 0xB5, CHR 0xD0, CHR 0xBB, CHR 0xD1, CHR 0x91, CHR 0xD0, CHR 0xBA]),
      (''payment.biometric'', [CHR 0xD0, CHR 0x91, CHR 0xD0, CHR 0xB8, CHR 0xD0, CHR 0xBE, CHR 0xD0, CHR 0xBC, CHR 0xD0, CHR 0xB5, CHR 0xD1, CHR 0x82, CHR 0xD1, CHR 0x80, CHR 0xD0, CHR 0xB8, CHR 0xD1, CHR 0x8F]),
      (''payment.employeeOverride'', [CHR 0xD0, CHR 0x9F, CHR 0xD0, CHR 0xBE, CHR 0xD0, CHR 0xB4, CHR 0xD1, CHR 0x82, CHR 0xD0, CHR 0xB2, CHR 0xD0, CHR 0xB5, CHR 0xD1, CHR 0x80, CHR 0xD0, CHR 0xB6, CHR 0xD0, CHR 0xB4, CHR 0xD0, CHR 0xB5, CHR 0xD0, CHR 0xBD, CHR 0xD0, CHR 0xB8, CHR 0xD0, CHR 0xB5] @ '' '' @ [CHR 0xD1, CHR 0x81, CHR 0xD0, CHR 0xBE, CHR 0xD1, CHR 0x82, CHR 0xD1, CHR 0x80, CHR 0xD1, CHR 0x83, CHR 0xD0, CHR 0xB4, CHR 0xD0, CHR 0xBD, CHR 0xD0, CHR 0xB8, CHR 0xD0, CHR 0xBA, CHR 0xD0, CHR 0xB0]),
      (''payment.insertCard'', [CHR 0xD0, CHR 0x92, CHR 0xD1, CHR 0x81, CHR 0xD1, CHR 0x82, CHR 0xD0, CHR 0xB0, CHR 0xD0, CHR 0xB2, CHR 0xD1, CHR 0x8C, CHR 0xD1, CHR 0x82, CHR 0xD0, CHR 0xB5] @ '' '' @ [CHR 0xD0, CHR 0xB8, CHR 0xD0, CHR 0xBB, CHR 0xD0, CHR 0xB8] @ '' '' @ [CHR 0xD0, CHR 0xBF, CHR 0xD1, CHR 0x80, CHR 0xD0, CHR 0xB8, CHR 0xD0, CHR 0xBB, CHR 0xD0, CHR 0xBE, CHR 0xD0, CHR 0xB6, CHR 0xD0, CHR 0xB8, CHR 0xD1, CHR 0x82, CHR 0xD0, CHR 0xB5] @ '' '' @ [CHR 0xD0, CHR 0xBA, CHR 0xD0, CHR 0xB0, CHR 0xD1, CHR 0x80, CHR 0xD1, CHR 0x82, CHR 0xD1, CHR 0x83]),
      (''payment.scanQR'', [CHR 0xD0, CHR 0xA1, CHR 0xD0, CHR 0xBA, CHR 0xD0, CHR 0xB0, CHR 0xD0, CHR 0xBD, CHR 0xD0, CHR 0xB8, CHR 0xD1, CHR 0x80, CHR 0xD1, CHR 0x83, CHR 0xD0, CHR 0xB9, CHR 0xD1, CHR 0x82, CHR 0xD0, CHR 0xB5] @ '' QR-'' @ [CHR 0xD0, CHR 0xBA, CHR 0xD0, CHR 0xBE, CHR 0xD0, CHR 0xB4]),
      (''payment.tapPhone'', [CHR 0xD0, CHR 0x9F, CHR 0xD1, CHR 0x80, CHR 0xD0, CHR 0xB8, CHR 0xD0, CHR 0xBB, CHR 0xD0, CHR 0xBE, CHR 0xD0, CHR 0xB6, CHR 0xD0, CHR 0xB8, CHR 0xD1, CHR 0x82, CHR 0xD0, CHR 0xB5] @ '' '' @ [CHR 0xD1, CHR 0x82, CHR 0xD0, CHR 0xB5, CHR 0xD0, CHR 0xBB, CHR 0xD0, CHR 0xB5, CHR 0xD1, CHR 0x84, CHR 0xD0, CHR 0xBE, CHR 0xD0, CHR 0xBD]),
      (''payment.amount'', [CHR 0xD0, CHR 0xA1, CHR 0xD1, CHR 0x83, CHR 0xD0, CHR 0xBC, CHR 0xD0, CHR 0xBC, CHR 0xD0, CHR 0xB0]),
      (''processing.title'', [CHR 0xD0, CHR 0x9E, CHR 0xD0, CHR 0xB1, CHR 0xD1, CHR 0x80, CHR 0xD0, CHR 0xB0, CHR 0xD0, CHR 0xB1, CHR 0xD0, CHR 0xBE, CHR 0xD1, CHR 0x82, CHR 0xD0, CHR 0xBA, CHR 0xD0, CHR 0xB0]),
      (''processing.pleaseWait'', [CHR 0xD0, CHR 0x9F, CHR 0xD0, CHR 0xBE, CHR 0xD0, CHR 0xB6, CHR 0xD0, CHR 0xB0, CHR 0xD0, CHR 0xBB, CHR 0xD1, CHR 0x83, CHR 0xD0, CHR 0xB9, CHR 0xD1, CHR 0x81, CHR 0xD1, CHR 0x82, CHR 0xD0, CHR 0xB0] @ '', '' @ [CHR 0xD0, CHR 0xBF, CHR 0xD0, CHR 0xBE, CHR 0xD0, CHR 0xB4, CHR 0xD0, CHR 0xBE, CHR 0xD0, CHR 0xB6, CHR 0xD0, CHR 0xB4, CHR 0xD0, CHR 0xB8, CHR 0xD1, CHR 0x82, CHR 0xD0, CHR 0xB5] @ ''...''),
      (''processing.finalizing'', [CHR 0xD0, CHR 0x97, CHR 0xD0, CHR 0xB0, CHR 0xD0, CHR 0xB2, CHR 0xD0, CHR 0xB5, CHR 0xD1, CHR 0x80, CHR 0xD1, CHR 0x88, CHR 0xD0, CHR 0xB5, CHR 0xD0, CHR 0xBD, CHR 0xD0, CHR 0xB8, CHR 0xD0, CHR 0xB5] @ '' '' @ [CHR 0xD0, CHR 0xB7, CHR 0xD0, CHR 0xB0, CHR 0xD0, CHR 0xBA, CHR 0xD0, CHR 0xB0, CHR 0xD0, CHR 0xB7, CHR 0xD0, CHR 0xB0]),
      (''processing.redirecting'', [CHR 0xD0, CHR 0x9F, CHR 0xD0, CHR 0xB5, CHR 0xD1, CHR 0x80, CHR 0xD0, CHR 0xB5, CHR 0xD0, CHR 0xBD, CHR 0xD0, CHR 0xB0, CHR 0xD0, CHR 0xBF, CHR 0xD1, CHR 0x80, CHR 0xD0, CHR 0xB0, CHR 0xD0, CHR 0xB2, CHR 0xD0, CHR 0xBB, CHR 0xD0, CHR 0xB5, CHR 0xD0, CHR 0xBD, CHR 0xD0, CHR 0xB8, CHR 0xD0, CHR 0xB5] @ '' '' @ [CHR 0xD0, CHR 0xBD, CHR 0xD0, CHR 0xB0] @ '' '' @ [CHR 0xD1, CHR 0x87, CHR 0xD0, CHR 0xB5, CHR 0xD0, CHR 0xBA]),
      (''receipt.title'', [CHR 0xD0, CHR 0xA1, CHR 0xD0, CHR 0xBF, CHR 0xD0, CHR 0xB0, CHR 0xD1, CHR 0x81, CHR 0xD0, CHR 0xB8, CHR 0xD0, CHR 0xB1, CHR 0xD0, CHR 0xBE]),
      (''receipt.orderNumber'', [CHR 0xD0, CHR 0x97, CHR 0xD0, CHR 0xB0, CHR 0xD0, CHR 0xBA, CHR 0xD0, CHR 0xB0, CHR 0xD0, CHR 0xB7] @ '' #{number}''),
      (''receipt.print'', [CHR 0xD0, CHR 0x9D, CHR 0xD0, CHR 0xB0, CHR 0xD0, CHR 0xBF, CHR 0xD0, CHR 0xB5, CHR 0xD1, CHR 0x87, CHR 0xD0, CHR 0xB0, CHR 0xD1, CHR 0x82, CHR 0xD0, CHR 0xB0, CHR 0xD1, CHR 0x82, CHR 0xD1, CHR 0x8C] @ '' '' @ [CHR 0xD1, CHR 0x87, CHR 0xD0, CHR 0xB5, CHR 0xD0, CHR 0xBA]),
      (''receipt.email'', [CHR 0xD0, CHR 0x9E, CHR 0xD1, CHR 0x82, CHR 0xD0, CHR 0xBF, CHR 0xD1, CHR 0x80, CHR 0xD0, CHR 0xB0, CHR 0xD0, CHR 0xB2, CHR 0xD0, CHR 0xB8, CHR 0xD1, CHR 0x82, CHR 0xD1, CHR 0x8C] @ '' '' @ [CHR 0xD0, CHR 0xBF, CHR 0xD0, CHR 0xBE] @ '' email''),
      (''receipt.startNew'', [CHR 0xD0, CHR 0x9D, CHR 0xD0, CHR 0xBE, CHR 0xD0, CHR 0xB2, CHR 0xD1, CHR 0x8B, CHR 0xD0, CHR 0xB9] @ '' '' @ [CHR 0xD0, CHR 0xB7, CHR 0xD0, CHR 0xB0, CHR 0xD0, CHR 0xBA, CHR 0xD0, CHR 0xB0, CHR 0xD0, CHR 0xB7]),
      (''receipt.thankYouMessage'', [CHR 0xD0, CHR 0xA1, CHR 0xD0, CHR 0xBF, CHR 0xD0, CHR 0xB0, CHR 0xD1, CHR 0x81, CHR 0xD0, CHR 0xB8, CHR 0xD0, CHR 0xB1, CHR 0xD0, CHR 0xBE] @ '' '' @ [CHR 0xD0, CHR 0xB7, CHR 0xD0, CHR 0xB0] @ '' '' @ [CHR 0xD0, CHR 0xBF, CHR 0xD0, CHR 0xBE, CHR 0xD0, CHR 0xBA, CHR 0xD1, CHR 0x83, CHR 0xD0, CHR 0xBF, CHR 0xD0, CHR 0xBA, CHR 0xD1, CHR 0x83] @ ''!''),
      (''status.offline'', [CHR 0xD0, CHR 0x9E, CHR 0xD1, CHR 0x84, CHR 0xD0, CHR 0xBB, CHR 0xD0, CHR 0xB0, CHR 0xD0, CHR 0xB9, CHR 0xD0, CHR 0xBD]),
      (''status.online'', [CHR 0xD0, CHR 0x9E, CHR 0xD0, CHR 0xBD, CHR 0xD0, CHR 0xBB, CHR 0xD0, CHR 0xB0, CHR 0xD0, CHR 0xB9, CHR 0xD0, CHR 0xBD]),
      (''status.connecting'', [CHR 0xD0, CHR 0x9F, CHR 0xD0, CHR 0xBE, CHR 0xD0, CHR 0xB4, CHR 0xD0, CHR 0xBA, CHR 0xD0, CHR 0xBB, CHR 0xD1, CHR 0x8E, CHR 0xD1, CHR 0x87, CHR 0xD0, CHR 0xB5, CHR 0xD0, CHR 0xBD, CHR 0xD0, CHR 0xB8, CHR 0xD0, CHR 0xB5] @ ''...''),
      (''status.network'', [CHR 0xD0, CHR 0xA1, CHR 0xD0, CHR 0xB5, CHR 0xD1, CHR 0x82, CHR 0xD1, CHR 0x8C]),
      (''idle.warning'', [CHR 0xD0, CHR 0x95, CHR 0xD1, CHR 0x89, CHR 0xD1, CHR 0x91] @ '' '' @ [CHR 0xD0, CHR 0xBF, CHR 0xD0, CHR 0xBE, CHR 0xD0, CHR 0xBA, CHR 0xD1, CHR 0x83, CHR 0xD0, CHR 0xBF, CHR 0xD0, CHR 0xB0, CHR 0xD0, CHR 0xB5, CHR 0xD1, CHR 0x82, CHR 0xD0, CHR 0xB5] @ ''?''),
      (''idle.continue'', [CHR 0xD0, CHR 0x9F, CHR 0xD1, CHR 0x80, CHR 0xD0, CHR 0xBE, CHR 0xD0, CHR 0xB4, CHR 0xD0, CHR 0xBE, CHR 0xD0, CHR 0xBB, CHR 0xD0, CHR 0xB6, CHR 0xD0, CHR 0xB8, CHR 0xD1, CHR 0x82, CHR 0xD1, CHR 0x8C]),
      (''idle.endSession'', [CHR 0xD0, CHR 0x97, CHR 0xD0, CHR 0xB0, CHR 0xD0, CHR 0xB2, CHR 0xD0, CHR 0xB5, CHR 0xD1, CHR 0x80, CHR 0xD1, CHR 0x88, CHR 0xD0, CHR 0xB8, CHR 0xD1, CHR 0x82, CHR 0xD1, CHR 0x8C] @ '' '' @ [CHR 0xD1, CHR 0x81, CHR 0xD0, CHR 0xB5, CHR 0xD0, CHR 0xB0, CHR 0xD0, CHR 0xBD, CHR 0xD1, CHR 0x81]),
      (''idle.timeoutWarning'', [CHR 0xD0, CHR 0xA1, CHR 0xD0, CHR 0xB5, CHR 0xD0, CHR 0xB0, CHR 0xD0, CHR 0xBD, CHR 0xD1, CHR 0x81] @ '' '' @ [CHR 0xD1, CHR 0x81, CHR 0xD0, CHR 0xBA, CHR 0xD0, CHR 0xBE, CHR 0xD1, CHR 0x80, CHR 0xD0, CHR 0xBE] @ '' '' @ [CHR 0xD0, CHR 0xB7, CHR 0xD0, CHR 0xB0, CHR 0xD0, CHR 0xB2, CHR 0xD0, CHR 0xB5, CHR 0xD1, CHR 0x80, CHR 0xD1, CHR 0x88, CHR 0xD0, CHR 0xB8, CHR 0xD1, CHR 0x82, CHR 0xD1, CHR 0x81, CHR 0xD1, CHR 0x8F] @ '' '' @ [CHR 0xD0, CHR 0xB8, CHR 0xD0, CHR 0xB7] @ ''-'' @ [CHR 0xD0, CHR 0xB7, CHR 0xD0, CHR 0xB0] @ '' '' @ [CHR 0xD0, CHR 0xB1, CHR 0xD0, CHR 0xB5, CHR 0xD0, CHR 0xB7, CHR 0xD0, CHR 0xB4, CHR 0xD0, CHR 0xB5, CHR 0xD0, CHR 0xB9, CHR 0xD1, CHR 0x81, CHR 0xD1, CHR 0x82, CHR 0xD0, CHR 0xB2, CHR 0xD0, CHR 0xB8, CHR 0xD1, CHR 0x8F] @ ''.''),
      (''offline.banner'', [CHR 0xD0, CHR 0x92, CHR 0xD1, CHR 0x8B] @ '' '' @ [CHR 0xD0, CHR 0xBE, CHR 0xD1, CHR 0x84, CHR 0xD0, CHR 0xBB, CHR 0xD0, CHR 0xB0, CHR 0xD0, CHR 0xB9, CHR 0xD0, CHR 0xBD] @ ''. '' @ [CHR 0xD0, CHR 0x9D, CHR 0xD0, CHR 0xB5, CHR 0xD0, CHR 0xBA, CHR 0xD0, CHR 0xBE, CHR 0xD1, CHR 0x82, CHR 0xD0, CHR 0xBE, CHR 0xD1, CHR 0x80, CHR 0xD1, CHR 0x8B, CHR 0xD0, CHR 0xB5] @ '' '' @ [CHR 0xD1, CHR 0x84, CHR 0xD1, CHR 0x83, CHR 0xD0, CHR 0xBD, CHR 0xD0, CHR 0xBA, CHR 0xD1, CHR 0x86, CHR 0xD0, CHR 0xB8, CHR 0xD0, CHR 0xB8] @ '' '' @ [CHR 0xD0, CHR 0xBC, CHR 0xD0, CHR 0xBE, CHR 0xD0, CHR 0xB3, CHR 0xD1, CHR 0x83, CHR 0xD1, CHR 0x82] @ '' '' @ [CHR 0xD0, CHR 0xB1, CHR 0xD1, CHR 0x8B, CHR 0xD1, CHR 0x82, CHR 0xD1, CHR 0x8C] @ '' '' @ [CHR 0xD0, CHR 0xBD, CHR 0xD0, CHR 0xB5, CHR 0xD0, CHR 0xB4, CHR 0xD0, CHR 0xBE, CHR 0xD1, CHR 0x81, CHR 0xD1, CHR 0x82, CHR 0xD1, CHR 0x83, CHR 0xD0, CHR 0xBF, CHR 0xD0, CHR 0xBD, CHR 0xD1, CHR 0x8B] @ ''.''),
      (''offline.reconnecting'', [CHR 0xD0, CHR 0x9F, CHR 0xD0, CHR 0xB5, CHR 0xD1, CHR 0x80, CHR 0xD0, CHR 0xB5, CHR 0xD0, CHR 0xBF, CHR 0xD0, CHR 0xBE, CHR 0xD0, CHR 0xB4, CHR 0xD0, CHR 0xBA, CHR 0xD0, CHR 0xBB, CHR 0xD1, CHR 0x8E, CHR 0xD1, CHR 0x87, CHR 0xD0, CHR 0xB5, CHR 0xD0, CHR 0xBD, CHR 0xD0, CHR 0xB8, CHR 0xD0, CHR 0xB5] @ ''...''),
      (''offline.longOffline'', [CHR 0xD0, CHR 0x94, CHR 0xD0, CHR 0xBB, CHR 0xD0, CHR 0xB8, CHR 0xD1, CHR 0x82, CHR 0xD0, CHR 0xB5, CHR 0xD0, CHR 0xBB, CHR 0xD1, CHR 0x8C, CHR 0xD0, CHR 0xBD, CHR 0xD0, CHR 0xBE, CHR 0xD0, CHR 0xB5] @ '' '' @ [CHR 0xD0, CHR 0xBE, CHR 0xD1, CHR 0x82, CHR 0xD1, CHR 0x81, CHR 0xD1, CHR 0x83, CHR 0xD1, CHR 0x82, CHR 0xD1, CHR 0x81, CHR 0xD1, CHR 0x82, CHR 0xD0, CHR 0xB2, CHR 0xD0, CHR 0xB8, CHR 0xD0, CHR 0xB5] @ '' '' @ [CHR 0xD1, CHR 0x81, CHR 0xD0, CHR 0xB5, CHR 0xD1, CHR 0x82, CHR 0xD0, CHR 0xB5, CHR 0xD0, CHR 0xB2, CHR 0xD0, CHR 0xBE, CHR 0xD0, CHR 0xB3, CHR 0xD0, CHR 0xBE] @ '' '' @ [CHR 0xD0, CHR 0xBF, CHR 0xD0, CHR 0xBE, CHR 0xD0, CHR 0xB4, CHR 0xD0, CHR 0xBA, CHR 0xD0, CHR 0xBB, CHR 0xD1, CHR 0x8E, CHR 0xD1, CHR 0x87, CHR 0xD0, CHR 0xB5, CHR 0xD0, CHR 0xBD, CHR 0xD0, CHR 0xB8, CHR 0xD1, CHR 0x8F] @ ''.''),
      (''error.generic'', [CHR 0xD0, CHR 0xA7, CHR 0xD1, CHR 0x82, CHR 0xD0, CHR 0xBE] @ ''-'' @ [CHR 0xD1, CHR 0x82, CHR 0xD0, CHR 0xBE] @ '' '' @ [CHR 0xD0, CHR 0xBF, CHR 0xD0, CHR 0xBE, CHR 0xD1, CHR 0x88, CHR 0xD0, CHR 0xBB, CHR 0xD0, CHR 0xBE] @ '' '' @ [CHR 0xD0, CHR 0xBD, CHR 0xD0, CHR 0xB5] @ '' '' @ [CHR 0xD1, CHR 0x82, CHR 0xD0, CHR 0xB0, CHR 0xD0, CHR 0xBA]),
      (''error.restart'', [CHR 0xD0, CHR 0x9F, CHR 0xD0, CHR 0xB5, CHR 0xD1, CHR 0x80, CHR 0xD0, CHR 0xB5, CHR 0xD0, CHR 0xB7, CHR 0xD0, CHR 0xB0, CHR 0xD0, CHR 0xBF, CHR 0xD1, CHR 0x83, CHR 0xD1, CHR 0x81, CHR 0xD1, CHR 0x82, CHR 0xD0, CHR 0xB8, CHR 0xD1, CHR 0x82, CHR 0xD1, CHR 0x8C] @ '' '' @ [CHR 0xD0, CHR 0xBA, CHR 0xD0, CHR 0xB8, CHR 0xD0, CHR 0xBE, CHR 0xD1, CHR 0x81, CHR 0xD0, CHR 0xBA]),
      (''error.retry'', [CHR 0xD0, CHR 0x9F, CHR 0xD0, CHR 0xBE, CHR 0xD0, CHR 0xB2, CHR 0xD1, CHR 0x82, CHR 0xD0, CHR 0xBE, CHR 0xD1, CHR 0x80, CHR 0xD0, CHR 0xB8, CHR 0xD1, CHR 0x82, CHR 0xD1, CHR 0x8C]),
      (''error.paymentDeclined'', [CHR 0xD0, CHR 0x9F, CHR 0xD0, CHR 0xBB, CHR 0xD0, CHR 0xB0, CHR 0xD1, CHR 0x82, CHR 0xD1, CHR 0x91, CHR 0xD0, CHR 0xB6] @ '' '' @ [CHR 0xD0, CHR 0xBE, CHR 0xD1, CHR 0x82, CHR 0xD0, CHR 0xBA, CHR 0xD0, CHR 0xBB, CHR 0xD0, CHR 0xBE, CHR 0xD0, CHR 0xBD, CHR 0xD1, CHR 0x91, CHR 0xD0, CHR 0xBD] @ ''. '' @ [CHR 0xD0, CHR 0x9F, CHR 0xD0, CHR 0xBE, CHR 0xD0, CHR 0xBF, CHR 0xD1, CHR 0x80, CHR 0xD0, CHR 0xBE, CHR 0xD0, CHR 0xB1, CHR 0xD1, CHR 0x83, CHR 0xD0, CHR 0xB9, CHR 0xD1, CHR 0x82, CHR 0xD0, CHR 0xB5] @ '' '' @ [CHR 0xD0, CHR 0xB4, CHR 0xD1, CHR 0x80, CHR 0xD1, CHR 0x83, CHR 0xD0, CHR 0xB3, CHR 0xD0, CHR 0xBE, CHR 0xD0, CHR 0xB9] @ '' '' @ [CHR 0xD1, CHR 0x81, CHR 0xD0, CHR 0xBF, CHR 0xD0, CHR 0xBE, CHR 0xD1, CHR 0x81, CHR 0xD0, CHR 0xBE, CHR 0xD0, CHR 0xB1] @ ''.''),
      (''error.paymentFailed'', [CHR 0xD0, CHR 0x9E, CHR 0xD1, CHR 0x88, CHR 0xD0, CHR 0xB8, CHR 0xD0, CHR 0xB1, CHR 0xD0, CHR 0xBA, CHR 0xD0, CHR 0xB0] @ '' '' @ [CHR 0xD0, CHR 0xBF, CHR 0xD0, CHR 0xBB, CHR 0xD0, CHR 0xB0, CHR 0xD1, CHR 0x82, CHR 0xD0, CHR 0xB5, CHR 0xD0, CHR 0xB6, CHR 0xD0, CHR 0xB0] @ ''. '' @ [CHR 0xD0, CHR 0x9F, CHR 0xD0, CHR 0xBE, CHR 0xD0, CHR 0xBF, CHR 0xD1, CHR 0x80, CHR 0xD0, CHR 0xBE, CHR 0xD0, CHR 0xB1, CHR 0xD1, CHR 0x83, CHR 0xD0, CHR 0xB9, CHR 0xD1, CHR 0x82, CHR 0xD0, CHR 0xB5] @ '' '' @ [CHR 0xD1, CHR 0x81, CHR 0xD0, CHR 0xBD, CHR 0xD0, CHR 0xBE, CHR 0xD0, CHR 0xB2, CHR 0xD0, CHR 0xB0] @ ''.''),
      (''error.sessionExpired'', [CHR 0xD0, CHR 0xA1, CHR 0xD0, CHR 0xB5, CHR 0xD0, CHR 0xB0, CHR 0xD0, CHR 0xBD, CHR 0xD1, CHR 0x81] @ '' '' @ [CHR 0xD0, CHR 0xB8, CHR 0xD1, CHR 0x81, CHR 0xD1, CHR 0x82, CHR 0xD1, CHR 0x91, CHR 0xD0, CHR 0xBA] @ ''. '' @ [CHR 0xD0, CHR 0x9D, CHR 0xD0, CHR 0xB0, CHR 0xD1, CHR 0x87, CHR 0xD0, CHR 0xBD, CHR 0xD0, CHR 0xB8, CHR 0xD1, CHR 0x82, CHR 0xD0, CHR 0xB5] @ '' '' @ [CHR 0xD0, CHR 0xB7, CHR 0xD0, CHR 0xB0, CHR 0xD0, CHR 0xBD, CHR 0xD0, CHR 0xBE, CHR 0xD0, CHR 0xB2, CHR 0xD0, CHR 0xBE] @ ''.''),
      (''error.connectionLost'', [CHR 0xD0, CHR 0xA1, CHR 0xD0, CHR 0xBE, CHR 0xD0, CHR 0xB5, CHR 0xD0, CHR 0xB4, CHR 0xD0, CHR 0xB8, CHR 0xD0, CHR 0xBD, CHR 0xD0, CHR 0xB5, CHR 0xD0, CHR 0xBD, CHR 0xD0, CHR 0xB8, CHR 0xD0, CHR 0xB5] @ '' '' @ [CHR 0xD0, CHR 0xBF, CHR 0xD0, CHR 0xBE, CHR 0xD1, CHR 0x82, CHR 0xD0, CHR 0xB5, CHR 0xD1, CHR 0x80, CHR 0xD1, CHR 0x8F, CHR 0xD0, CHR 0xBD, CHR 0xD0, CHR 0xBE] @ ''. '' @ [CHR 0xD0, CHR 0x9F, CHR 0xD1, CHR 0x80, CHR 0xD0, CHR 0xBE, CHR 0xD0, CHR 0xB2, CHR 0xD0, CHR 0xB5, CHR 0xD1, CHR 0x80, CHR 0xD0, CHR 0xBA, CHR 0xD0, CHR 0xB0] @ '' '' @ [CHR 0xD1, CHR 0x81, CHR 0xD0, CHR 0xB5, CHR 0xD1, CHR 0x82, CHR 0xD0, CHR 0xB8] @ ''...''),
      (''admin.title'', [CHR 0xD0, CHR 0x9F, CHR 0xD0, CHR 0xB0, CHR 0xD0, CHR 0xBD, CHR 0xD0, CHR 0xB5, CHR 0xD0, CHR 0xBB, CHR 0xD1, CHR 0x8C] @ '' '' @ [CHR 0xD1, CHR 0x83, CHR 0xD0, CHR 0xBF, CHR 0xD1, CHR 0x80, CHR 0xD0, CHR 0xB0, CHR 0xD0, CHR 0xB2, CHR 0xD0, CHR 0xBB, CHR 0xD0, CHR 0xB5, CHR 0xD0, CHR 0xBD, CHR 0xD0, CHR 0xB8, CHR 0xD1, CHR 0x8F]),
      (''admin.close'', [CHR 0xD0, CHR 0x97, CHR 0xD0, CHR 0xB0, CHR 0xD0, CHR 0xBA, CHR 0xD1, CHR 0x80, CHR 0xD1, CHR 0x8B, CHR 0xD1, CHR 0x82, CHR 0xD1, CHR 0x8C]),
      (''admin.dashboard'', [CHR 0xD0, CHR 0x9F, CHR 0xD0, CHR 0xB0, CHR 0xD0, CHR 0xBD, CHR 0xD0, CHR 0xB5, CHR 0xD0, CHR 0xBB, CHR 0xD1, CHR 0x8C]),
      (''general.confirm'', [CHR 0xD0, CHR 0x9F, CHR 0xD0, CHR 0xBE, CHR 0xD0, CHR 0xB4, CHR 0xD1, CHR 0x82, CHR 0xD0, CHR 0xB2, CHR 0xD0, CHR 0xB5, CHR 0xD1, CHR 0x80, CHR 0xD0, CHR 0xB4, CHR 0xD0, CHR 0xB8, CHR 0xD1, CHR 0x82, CHR 0xD1, CHR 0x8C]),
      (''general.cancel'', [CHR 0xD0, CHR 0x9E, CHR 0xD1, CHR 0x82, CHR 0xD0, CHR 0xBC, CHR 0xD0, CHR 0xB5, CHR 0xD0, CHR 0xBD, CHR 0xD0, CHR 0xB0]),
      (''general.back'', [CHR 0xD0, CHR 0x9D, CHR 0xD0, CHR 0xB0, CHR 0xD0, CHR 0xB7, CHR 0xD0, CHR 0xB0, CHR 0xD0, CHR 0xB4]),
      (''general.next'', [CHR 0xD0, CHR 0x94, CHR 0xD0, CHR 0xB0, CHR 0xD0, CHR 0xBB, CHR 0xD0, CHR 0xB5, CHR 0xD0, CHR 0xB5]),
      (''general.done'', [CHR 0xD0, CHR 0x93, CHR 0xD0, CHR 0xBE, CHR 0xD1, CHR 0x82, CHR 0xD0, CHR 0xBE, CHR 0xD0, CHR 0xB2, CHR 0xD0, CHR 0xBE]),
      (''general.loading'', [CHR 0xD0, CHR 0x97, CHR 0xD0, CHR 0xB0, CHR 0xD0, CHR 0xB3, CHR 0xD1, CHR 0x80, CHR 0xD1, CHR 0x83, CHR 0xD0, CHR 0xB7, CHR 0xD0, CHR 0xBA, CHR 0xD0, CHR 0xB0] @ ''...''),
      (''general.save'', [CHR 0xD0, CHR 0xA1, CHR 0xD0, CHR 0xBE, CHR 0xD1, CHR 0x85, CHR 0xD1, CHR 0x80, CHR 0xD0, CHR 0xB0, CHR 0xD0, CHR 0xBD, CHR 0xD0, CHR 0xB8, CHR 0xD1, CHR 0x82, CHR 0xD1, CHR 0x8C]),
      (''general.delete'', [CHR 0xD0, CHR 0xA3, CHR 0xD0, CHR 0xB4, CHR 0xD0, CHR 0xB0, CHR 0xD0, CHR 0xBB, CHR 0xD0, CHR 0xB8, CHR 0xD1, CHR 0x82, CHR 0xD1, CHR 0x8C]),
      (''general.edit'', [CHR 0xD0, CHR 0x98, CHR 0xD0, CHR 0xB7, CHR 0xD0, CHR 0xBC, CHR 0xD0, CHR 0xB5, CHR 0xD0, CHR 0xBD, CHR 0xD0, CHR 0xB8, CHR 0xD1, CHR 0x82, CHR 0xD1, CHR 0x8C]),
      (''general.search'', [CHR 0xD0, CHR 0x9F, CHR 0xD0, CHR 0xBE, CHR 0xD0, CHR 0xB8, CHR 0xD1, CHR 0x81, CHR 0xD0, CHR 0xBA]),
      (''general.close'', [CHR 0xD0, CHR 0x97, CHR 0xD0, CHR 0xB0, CHR 0xD0, CHR 0xBA, CHR 0xD1, CHR 0x80, CHR 0xD1, CHR 0x8B, CHR 0xD1, CHR 0x82, CHR 0xD1, CHR 0x8C]),
      (''general.yes'', [CHR 0xD0, CHR 0x94, CHR 0xD0, CHR 0xB0]),
      (''general.no'', [CHR 0xD0, CHR 0x9D, CHR 0xD0, CHR 0xB5, CHR 0xD1, CHR 0x82]),
      (''a11y.closeModal'', [CHR 0xD0, CHR 0x97, CHR 0xD0, CHR 0xB0, CHR 0xD0, CHR 0xBA, CHR 0xD1, CHR 0x80, CHR 0xD1, CHR 0x8B, CHR 0xD1, CHR 0x82, CHR 0xD1, CHR 0x8C] @ '' '' @ [CHR 0xD0, CHR 0xBC, CHR 0xD0, CHR 0xBE, CHR 0xD0, CHR 0xB4, CHR 0xD0, CHR 0xB0, CHR 0xD0, CHR 0xBB, CHR 0xD1, CHR 0x8C, CHR 0xD0, CHR 0xBD, CHR 0xD0, CHR 0xBE, CHR 0xD0, CHR 0xB5] @ '' '' @ [CHR 0xD0, CHR 0xBE, CHR 0xD0, CHR 0xBA, CHR 0xD0, CHR 0xBD, CHR 0xD0, CHR 0xBE]),
      (''a11y.navigateBack'', [CHR 0xD0, CHR 0x92, CHR 0xD0, CHR 0xB5, CHR 0xD1, CHR 0x80, CHR 0xD0, CHR 0xBD, CHR 0xD1, CHR 0x83, CHR 0xD1, CHR 0x82, CHR 0xD1, CHR 0x8C, CHR 0xD1, CHR 0x81, CHR 0xD1, CHR 0x8F] @ '' '' @ [CHR 0xD0, CHR 0xBD, CHR 0xD0, CHR 0xB0, CHR 0xD0, CHR 0xB7, CHR 0xD0, CHR 0xB0, CHR 0xD0, CHR 0xB4]),
      (''menu.noItemsHint'', ''Try a different search term or check all categories''),
      (''menu.categoriesLabel'', ''Menu categories''),
      (''menu.categories.mains'', ''Mains''),
      (''menu.categories.drinks'', ''Drinks''),
      (''menu.clearSearch'', ''Clear search''),
      (''menu.itemsInCart'', ''{count} items in cart'')]"

definition texts_ru_2 :: TranslationMap where
  "texts_ru_2 =
     [(''item.included'', ''Included''),
      (''item.chooseCount'', ''Choose {count}''),
      (''item.chooseRange'', ''Choose {min}-{max}''),
      (''item.closeLabel'', ''Close item details''),
      (''item.decreaseQuantity'', ''Decrease quantity''),
      (''item.increaseQuantity'', ''Increase quantity''),
      (''item.quantityLabel'', ''Quantity: {count}''),
      (''item.addToCartLabel'', ''Add {name} to cart '' @ [CHR 0xE2, CHR 0x80, CHR 0x94] @ '' {amount}''),
      (''item.priceAddition'', ''+{amount}''),
      (''item.customizeLabel'', ''Customize {name}''),
      (''cart.itemSingular'', ''{count} item''),
      (''cart.tapToEdit'', ''Tap an item to edit''),
      (''cart.itemsLabel'', ''Cart items''),
      (''cart.pay'', ''Pay {amount}''),
      (''cart.editItem'', ''Edit {name}. Quantity: {quantity}. Price: {amount}''),
      (''cart.decreaseQuantity'', ''Decrease quantity of {name}''),
      (''cart.increaseQuantity'', ''Increase quantity of {name}''),
      (''cart.quantityLabel'', ''Quantity: {count}''),
      (''cart.priceLabel'', ''Price: {amount}''),
      (''payment.cardNfc'', ''Card / NFC''),
      (''payment.qrCode'', ''QR Code''),
      (''payment.verifyToComplete'', ''Verify to complete''),
      (''payment.pinPadInstruction'', ''Please use the PIN pad or present your card to the terminal.''),
      (''payment.terminalStatus'', ''Terminal: {status}''),
      (''payment.authorizing'', ''Authorizing...''),
      (''payment.authorize'', ''Authorize''),
      (''payment.authorized'', ''Authorized''),
      (''payment.connected'', ''Connected''),
      (''payment.cartSummary'', ''Cart summary: {count} items, total {amount}. Tap to {action}.''),
      (''payment.expand'', ''expand''),
      (''payment.collapse'', ''collapse''),
      (''payment.employeeOverrideHint'', ''Employee override. Hold for 3 seconds.''),
      (''payment.cancelPayment'', ''Cancel payment''),
      (''payment.confirmPayment'', ''Pay {amount}''),
      (''processing.connecting'', ''Connecting to terminal...''),
      (''processing.waitingForCard'', ''Waiting for card...''),
      (''processing.authorizing'', ''Authorizing...''),
      (''processing.finalizingStage'', ''Finalizing...''),
      (''processing.default'', ''Processing...''),
      (''processing.terminalStatus'', ''Terminal: {label}''),
      (''processing.orderFailed'', ''Order could not be completed''),
      (''processing.orderFailedMessage'', ''We couldn'' @ [CHR 0x27] @ ''t complete your order. Please try again.''),
      (''processing.retry'', ''Try again''),
      (''processing.cancelReturn'', ''Cancel and return to cart''),
      (''receipt.printing'', ''Printing...''),
      (''receipt.emailSending'', ''Sending...''),
      (''receipt.emailSent'', ''Sent!''),
      (''receipt.printerUnavailable'', ''Printer unavailable. Receipt saved.''),
      (''receipt.srComplete'', ''Order complete. Tap start new order to continue.''),
      (''receipt.srReady'', ''Receipt ready.''),
      (''receipt.printLabel'', ''Print receipt''),
      (''receipt.emailLabel'', ''Email receipt''),
      (''receipt.startNewLabel'', ''Start new order''),
      (''status.synced'', ''Synced''),
      (''status.syncing'', ''Syncing''),
      (''status.p2pStatus'', ''P2P sync status: {label}. Tap for mesh details.''),
      (''status.kioskStatus'', ''Kiosk status''),
      (''status.p2pTitle'', ''P2P mesh sync''),
      (''status.meshDescription'', ''This kiosk shares cart and order state with nearby peers over a local mesh so orders survive network drops.''),
      (''status.connectedPeers'', ''Connected peers''),
      (''status.syncLag'', ''Sync lag''),
      (''status.role'', ''Role''),
      (''status.leader'', ''Leader''),
      (''status.peer'', ''Peer''),
      (''status.thisKiosk'', ''This kiosk''),
      (''status.apiOnline'', ''API online''),
      (''status.apiDegraded'', ''API degraded''),
      (''status.apiOffline'', ''API offline''),
      (''status.networkConnected'', ''Connected to network''),
      (''status.networkDisconnected'', ''No network connection''),
      (''idle.message'', ''Tap below to continue, or this kiosk will reset for the next customer.''),
      (''idle.continueLabel'', ''I am still here''),
      (''idle.endSessionLabel'', ''Start over''),
      (''idle.ariaLabel'', ''Idle timeout warning''),
      (''offline.workingOffline'', ''Working offline. Your cart is secure.''),
      (''offline.dismiss'', ''Dismiss offline notice''),
      (''error.helpMessage'', ''Please ask a staff member for help. We apologise for the inconvenience.''),
      (''admin.kioskStatus'', ''Kiosk Status''),
      (''admin.session'', ''Session''),
      (''admin.laneMode'', ''Lane Mode''),
      (''admin.apiStatus'', ''API Status''),
      (''admin.cartHasItems'', ''Cart Has Items''),
      (''admin.actions'', ''Actions''),
      (''admin.simulateOnline'', ''Simulate Online''),
      (''admin.simulateOffline'', ''Simulate Offline''),
      (''admin.errors'', ''Errors''),
      (''admin.closeLabel'', ''Close admin panel''),
      (''item.modifierSingular'', ''{count} modifier''),
      (''item.modifierPlural'', ''{count} modifiers'')]"

definition texts_ru :: TranslationMap where
  "texts_ru = texts_ru_1 @ texts_ru_2"

definition texts_de_1 :: TranslationMap where
  "texts_de_1 =
     [(''language.select'', ''W'' @ [CHR 0xC3, CHR 0xA4] @ ''hlen Sie Ihre Sprache''),
      (''language.mainLanguages'', ''Hauptsprachen''),
      (''language.moreLanguages'', ''Weitere Sprachen''),
      (''language.continue'', ''Weiter''),
      (''attract.title'', ''Astra''),
      (''attract.touchToBegin'', ''Ber'' @ [CHR 0xC3, CHR 0xBC] @ ''hren zum Starten''),
      (''attract.laneInfo'', ''Selbstbedienungskasse '' @ [CHR 0xE2, CHR 0x80, CHR 0xA2] @ '' Kasse {lane}''),
      (''attract.screenReader'', ''Startbildschirm. Ber'' @ [CHR 0xC3, CHR 0xBC] @ ''hren zum Einkaufen.''),
      (''menu.title'', ''Speisekarte''),
      (''menu.search'', ''Men'' @ [CHR 0xC3, CHR 0xBC] @ '' durchsuchen...''),
      (''menu.noItems'', ''Keine Artikel gefunden''),
      (''menu.backToMenu'', ''Zur'' @ [CHR 0xC3, CHR 0xBC] @ ''ck zur Karte''),
      (''menu.viewCart'', ''Warenkorb anzeigen ({count})''),
      (''menu.itemAdded'', ''Artikel hinzugef'' @ [CHR 0xC3, CHR 0xBC] @ ''gt''),
      (''menu.categories.all'', ''Alle''),
      (''item.addToCart'', ''In den Warenkorb''),
      (''item.quantity'', ''Menge''),
      (''item.modifiers'', ''Anpassen''),
      (''item.price'', ''Preis''),
      (''item.description'', ''Beschreibung''),
      (''cart.title'', ''Ihr Warenkorb''),
      (''cart.empty'', ''Ihr Warenkorb ist leer''),
      (''cart.subtotal'', ''Zwischensumme''),
      (''cart.tax'', ''MwSt.''),
      (''cart.total'', ''Gesamtsumme''),
      (''cart.backToMenu'', ''Zur'' @ [CHR 0xC3, CHR 0xBC] @ ''ck zur Karte''),
      (''cart.proceedToPayment'', ''Zur Zahlung''),
      (''cart.removeItem'', ''Entfernen''),
      (''cart.itemCount'', ''{count} Artikel''),
      (''cart.summary'', ''Bestell'' @ [CHR 0xC3, CHR 0xBC] @ ''bersicht''),
      (''payment.title'', ''Zahlung''),
      (''payment.confirm'', ''Zahlung best'' @ [CHR 0xC3, CHR 0xA4] @ ''tigen''),
      (''payment.cancel'', ''Abbrechen''),
      (''payment.processing'', ''Zahlung wird verarbeitet...''),
      (''payment.selectMethod'', ''Zahlungsmethode w'' @ [CHR 0xC3, CHR 0xA4] @ ''hlen''),
      (''payment.card'', ''Karte''),
      (''payment.cash'', ''Bargeld''),
      (''payment.mobile'', ''Mobiles Bezahlen''),
      (''payment.biometric'', ''Biometrie''),
      (''payment.employeeOverride'', ''Mitarbeiterfreigabe''),
      (''payment.insertCard'', ''Karte einf'' @ [CHR 0xC3, CHR 0xBC] @ ''hren oder auflegen''),
      (''payment.scanQR'', ''QR-Code scannen''),
      (''payment.tapPhone'', ''Handy auflegen''),
      (''payment.amount'', ''Betrag''),
      (''processing.title'', ''Verarbeitung''),
      (''processing.pleaseWait'', ''Bitte warten...''),
      (''processing.finalizing'', ''Bestellung wird abgeschlossen''),
      (''processing.redirecting'', ''Weiterleitung zur Quittung''),
      (''receipt.title'', ''Vielen Dank''),
      (''receipt.orderNumber'', ''Bestellung #{number}''),
      (''receipt.print'', ''Quittung drucken''),
      (''receipt.email'', ''Per E-Mail senden''),
      (''receipt.startNew'', ''Neue Bestellung''),
      (''receipt.thankYouMessage'', ''Vielen Dank f'' @ [CHR 0xC3, CHR 0xBC] @ ''r Ihren Einkauf!''),
      (''status.offline'', ''Offline''),
      (''status.online'', ''Online''),
      (''status.connecting'', ''Verbinde...''),
      (''status.network'', ''Netzwerk''),
      (''idle.warning'', ''Noch am Einkaufen?''),
      (''idle.continue'', ''Fortsetzen''),
      (''idle.endSession'', ''Sitzung beenden''),
      (''idle.timeoutWarning'', ''Die Sitzung wird aufgrund von Inaktivit'' @ [CHR 0xC3, CHR 0xA4] @ ''t bald beendet.''),
      (''offline.banner'', ''Sie sind offline. Einige Funktionen sind m'' @ [CHR 0xC3, CHR 0xB6] @ ''glicherweise nicht verf'' @ [CHR 0xC3, CHR 0xBC] @ ''gbar.''),
      (''offline.reconnecting'', ''Wiederverbinden...''),
      (''offline.longOffline'', ''L'' @ [CHR 0xC3, CHR 0xA4] @ ''ngere Zeit keine Netzwerkverbindung.''),
      (''error.generic'', ''Etwas ist schief gelaufen''),
      (''error.restart'', ''Kiosk neu starten''),
      (''error.retry'', ''Erneut versuchen''),
      (''error.paymentDeclined'', ''Zahlung abgelehnt. Versuchen Sie eine andere Methode.''),
      (''error.paymentFailed'', ''Zahlung fehlgeschlagen. Bitte versuchen Sie es erneut.''),
      (''error.sessionExpired'', ''Sitzung abgelaufen. Bitte beginnen Sie erneut.''),
      (''error.connectionLost'', ''Verbindung verloren. Netzwerk wird gepr'' @ [CHR 0xC3, CHR 0xBC] @ ''ft...''),
      (''admin.title'', ''Verwaltungspanel''),
      (''admin.close'', ''Schlie'' @ [CHR 0xC3, CHR 0x9F] @ ''en''),
      (''admin.dashboard'', ''Dashboard''),
      (''general.confirm'', ''Best'' @ [CHR 0xC3, CHR 0xA4] @ ''tigen''),
      (''general.cancel'', ''Abbrechen''),
      (''general.back'', ''Zur'' @ [CHR 0xC3, CHR 0xBC] @ ''ck''),
      (''general.next'', ''Weiter''),
      (''general.done'', ''Fertig''),
      (''general.loading'', ''Laden...''),
      (''general.save'', ''Speichern''),
      (''general.delete'', ''L'' @ [CHR 0xC3, CHR 0xB6] @ ''schen''),
      (''general.edit'', ''Bearbeiten''),
      (''general.search'', ''Suchen''),
      (''general.close'', ''Schlie'' @ [CHR 0xC3, CHR 0x9F] @ ''en''),
      (''general.yes'', ''Ja''),
      (''general.no'', ''Nein''),
      (''a11y.closeModal'', ''Modal schlie'' @ [CHR 0xC3, CHR 0x9F] @ ''en''),
      (''a11y.navigateBack'', ''Zur'' @ [CHR 0xC3, CHR 0xBC] @ ''ck navigieren''),
      (''menu.noItemsHint'', ''Try a different search term or check all categories''),
      (''menu.categoriesLabel'', ''Menu categories''),
      (''menu.categories.mains'', ''Mains''),
      (''menu.categories.drinks'', ''Drinks''),
      (''menu.clearSearch'', ''Clear search''),
      (''menu.itemsInCart'', ''{count} items in cart'')]"

definition texts_de_2 :: TranslationMap where
  "texts_de_2 =
     [(''item.included'', ''Included''),
      (''item.chooseCount'', ''Choose {count}''),
      (''item.chooseRange'', ''Choose {min}-{max}''),
      (''item.closeLabel'', ''Close item details''),
      (''item.decreaseQuantity'', ''Decrease quantity''),
      (''item.increaseQuantity'', ''Increase quantity''),
      (''item.quantityLabel'', ''Quantity: {count}''),
      (''item.addToCartLabel'', ''Add {name} to cart '' @ [CHR 0xE2, CHR 0x80, CHR 0x94] @ '' {amount}''),
      (''item.priceAddition'', ''+{amount}''),
      (''item.customizeLabel'', ''Customize {name}''),
      (''cart.itemSingular'', ''{count} item''),
      (''cart.tapToEdit'', ''Tap an item to edit''),
      (''cart.itemsLabel'', ''Cart items''),
      (''cart.pay'', ''Pay {amount}''),
      (''cart.editItem'', ''Edit {name}. Quantity: {quantity}. Price: {amount}''),
      (''cart.decreaseQuantity'', ''Decrease quantity of {name}''),
      (''cart.increaseQuantity'', ''Increase quantity of {name}''),
      (''cart.quantityLabel'', ''Quantity: {count}''),
      (''cart.priceLabel'', ''Price: {amount}''),
      (''payment.cardNfc'', ''Card / NFC''),
      (''payment.qrCode'', ''QR Code''),
      (''payment.verifyToComplete'', ''Verify to complete''),
      (''payment.pinPadInstruction'', ''Please use the PIN pad or present your card to the terminal.''),
      (''payment.terminalStatus'', ''Terminal: {status}''),
      (''payment.authorizing'', ''Authorizing...''),
      (''payment.authorize'', ''Authorize''),
      (''payment.authorized'', ''Authorized''),
      (''payment.connected'', ''Connected''),
      (''payment.cartSummary'', ''Cart summary: {count} items, total {amount}. Tap to {action}.''),
      (''payment.expand'', ''expand''),
      (''payment.collapse'', ''collapse''),
      (''payment.employeeOverrideHint'', ''Employee override. Hold for 3 seconds.''),
      (''payment.cancelPayment'', ''Cancel payment''),
      (''payment.confirmPayment'', ''Pay {amount}''),
      (''processing.connecting'', ''Connecting to terminal...''),
      (''processing.waitingForCard'', ''Waiting for card...''),
      (''processing.authorizing'', ''Authorizing...''),
      (''processing.finalizingStage'', ''Finalizing...''),
      (''processing.default'', ''Processing...''),
      (''processing.terminalStatus'', ''Terminal: {label}''),
      (''processing.orderFailed'', ''Order could not be completed''),
      (''processing.orderFailedMessage'', ''We couldn'' @ [CHR 0x27] @ ''t complete your order. Please try again.''),
      (''processing.retry'', ''Try again''),
      (''processing.cancelReturn'', ''Cancel and return to cart''),
      (''receipt.printing'', ''Printing...''),
      (''receipt.emailSending'', ''Sending...''),
      (''receipt.emailSent'', ''Sent!''),
      (''receipt.printerUnavailable'', ''Printer unavailable. Receipt saved.''),
      (''receipt.srComplete'', ''Order complete. Tap start new order to continue.''),
      (''receipt.srReady'', ''Receipt ready.''),
      (''receipt.printLabel'', ''Print receipt''),
      (''receipt.emailLabel'', ''Email receipt''),
      (''receipt.startNewLabel'', ''Start new order''),
      (''status.synced'', ''Synced''),
      (''status.syncing'', ''Syncing''),
      (''status.p2pStatus'', ''P2P sync status: {label}. Tap for mesh details.''),
      (''status.kioskStatus'', ''Kiosk status''),
      (''status.p2pTitle'', ''P2P mesh sync''),
      (''status.meshDescription'', ''This kiosk shares cart and order state with nearby peers over a local mesh so orders survive network drops.''),
      (''status.connectedPeers'', ''Connected peers''),
      (''status.syncLag'', ''Sync lag''),
      (''status.role'', ''Role''),
      (''status.leader'', ''Leader''),
      (''status.peer'', ''Peer''),
      (''status.thisKiosk'', ''This kiosk''),
      (''status.apiOnline'', ''API online''),
      (''status.apiDegraded'', ''API degraded''),
      (''status.apiOffline'', ''API offline''),
      (''status.networkConnected'', ''Connected to network''),
      (''status.networkDisconnected'', ''No network connection''),
      (''idle.message'', ''Tap below to continue, or this kiosk will reset for the next customer.''),
      (''idle.continueLabel'', ''I am still here''),
      (''idle.endSessionLabel'', ''Start over''),
      (''idle.ariaLabel'', ''Idle timeout warning''),
      (''offline.workingOffline'', ''Working offline. Your cart is secure.''),
      (''offline.dismiss'', ''Dismiss offline notice''),
      (''error.helpMessage'', ''Please ask a staff member for help. We apologise for the inconvenience.''),
      (''admin.kioskStatus'', ''Kiosk Status''),
      (''admin.session'', ''Session''),
      (''admin.laneMode'', ''Lane Mode''),
      (''admin.apiStatus'', ''API Status''),
      (''admin.cartHasItems'', ''Cart Has Items''),
      (''admin.actions'', ''Actions''),
      (''admin.simulateOnline'', ''Simulate Online''),
      (''admin.simulateOffline'', ''Simulate Offline''),
      (''admin.errors'', ''Errors''),
      (''admin.closeLabel'', ''Close admin panel''),
      (''item.modifierSingular'', ''{count} modifier''),
      (''item.modifierPlural'', ''{count} modifiers'')]"

definition texts_de :: TranslationMap where
  "texts_de = texts_de_1 @ texts_de_2"

definition texts_tr_1 :: TranslationMap where
  "texts_tr_1 =
     [(''language.select'', ''Dilinizi se'' @ [CHR 0xC3, CHR 0xA7] @ ''in''),
      (''language.mainLanguages'', ''Ana Diller''),
      (''language.moreLanguages'', ''Di'' @ [CHR 0xC4, CHR 0x9F] @ ''er Diller''),
      (''language.continue'', ''Devam''),
      (''attract.title'', ''Astra''),
      (''attract.touchToBegin'', ''Ba'' @ [CHR 0xC5, CHR 0x9F] @ ''lamak i'' @ [CHR 0xC3, CHR 0xA7] @ ''in dokunun''),
      (''attract.laneInfo'', ''Self servis '' @ [CHR 0xE2, CHR 0x80, CHR 0xA2] @ '' S'' @ [CHR 0xC4, CHR 0xB1] @ ''ra {lane}''),
      (''attract.screenReader'', ''Kar'' @ [CHR 0xC5, CHR 0x9F, CHR 0xC4, CHR 0xB1] @ ''lama ekran'' @ [CHR 0xC4, CHR 0xB1] @ ''. Al'' @ [CHR 0xC4, CHR 0xB1, CHR 0xC5, CHR 0x9F] @ ''veri'' @ [CHR 0xC5, CHR 0x9F] @ ''e ba'' @ [CHR 0xC5, CHR 0x9F] @ ''lamak i'' @ [CHR 0xC3, CHR 0xA7] @ ''in dokunun.''),
      (''menu.title'', ''Men'' @ [CHR 0xC3, CHR 0xBC]),
      (''menu.search'', ''Men'' @ [CHR 0xC3, CHR 0xBC] @ ''de ara...''),
      (''menu.noItems'', [CHR 0xC3, CHR 0x9C] @ ''r'' @ [CHR 0xC3, CHR 0xBC] @ ''n bulunamad'' @ [CHR 0xC4, CHR 0xB1]),
      (''menu.backToMenu'', ''Men'' @ [CHR 0xC3, CHR 0xBC] @ ''ye d'' @ [CHR 0xC3, CHR 0xB6] @ ''n''),
      (''menu.viewCart'', ''Sepeti G'' @ [CHR 0xC3, CHR 0xB6] @ ''r ({count})''),
      (''menu.itemAdded'', [CHR 0xC3, CHR 0x9C] @ ''r'' @ [CHR 0xC3, CHR 0xBC] @ ''n eklendi''),
      (''menu.categories.all'', ''T'' @ [CHR 0xC3, CHR 0xBC] @ ''m'' @ [CHR 0xC3, CHR 0xBC]),
      (''item.addToCart'', ''Sepete ekle''),
      (''item.quantity'', ''Adet''),
      (''item.modifiers'', [CHR 0xC3, CHR 0x96] @ ''zelle'' @ [CHR 0xC5, CHR 0x9F] @ ''tir''),
      (''item.price'', ''Fiyat''),
      (''item.description'', ''A'' @ [CHR 0xC3, CHR 0xA7, CHR 0xC4, CHR 0xB1] @ ''klama''),
      (''cart.title'', ''Sepetiniz''),
      (''cart.empty'', ''Sepetiniz bo'' @ [CHR 0xC5, CHR 0x9F]),
      (''cart.subtotal'', ''Ara Toplam''),
      (''cart.tax'', ''Vergi''),
      (''cart.total'', ''Toplam''),
      (''cart.backToMenu'', ''Men'' @ [CHR 0xC3, CHR 0xBC] @ ''ye d'' @ [CHR 0xC3, CHR 0xB6] @ ''n''),
      (''cart.proceedToPayment'', [CHR 0xC3, CHR 0x96] @ ''demeye haz'' @ [CHR 0xC4, CHR 0xB1] @ ''r''),
      (''cart.removeItem'', ''Kald'' @ [CHR 0xC4, CHR 0xB1] @ ''r''),
      (''cart.itemCount'', ''{count} '' @ [CHR 0xC3, CHR 0xBC] @ ''r'' @ [CHR 0xC3, CHR 0xBC] @ ''n''),
      (''cart.summary'', ''Sipari'' @ [CHR 0xC5, CHR 0x9F] @ '' '' @ [CHR 0xC3, CHR 0x96] @ ''zeti''),
      (''payment.title'', [CHR 0xC3, CHR 0x96] @ ''deme''),
      (''payment.confirm'', [CHR 0xC3, CHR 0x96] @ ''demeyi Onayla''),
      (''payment.cancel'', [CHR 0xC4, CHR 0xB0] @ ''ptal''),
      (''payment.processing'', [CHR 0xC3, CHR 0x96] @ ''deme i'' @ [CHR 0xC5, CHR 0x9F] @ ''leniyor...''),
      (''payment.selectMethod'', [CHR 0xC3, CHR 0x96] @ ''deme y'' @ [CHR 0xC3, CHR 0xB6] @ ''ntemi se'' @ [CHR 0xC3, CHR 0xA7] @ ''in''),
      (''payment.card'', ''Kart''),
      (''payment.cash'', ''Nakit''),
      (''payment.mobile'', ''Mobil C'' @ [CHR 0xC3, CHR 0xBC] @ ''zdan''),
      (''payment.biometric'', ''Biyometrik''),
      (''payment.employeeOverride'', [CHR 0xC3, CHR 0x87] @ ''al'' @ [CHR 0xC4, CHR 0xB1, CHR 0xC5, CHR 0x9F] @ ''an Onay'' @ [CHR 0xC4, CHR 0xB1]),
      (''payment.insertCard'', ''Kart'' @ [CHR 0xC4, CHR 0xB1] @ '' tak'' @ [CHR 0xC4, CHR 0xB1] @ ''n veya dokundurun''),
      (''payment.scanQR'', ''QR kodu taray'' @ [CHR 0xC4, CHR 0xB1] @ ''n''),
      (''payment.tapPhone'', ''Telefonunuzu dokundurun''),
      (''payment.amount'', ''Tutar''),
      (''processing.title'', [CHR 0xC4, CHR 0xB0, CHR 0xC5, CHR 0x9F] @ ''leniyor''),
      (''processing.pleaseWait'', ''L'' @ [CHR 0xC3, CHR 0xBC] @ ''tfen bekleyin...''),
      (''processing.finalizing'', ''Sipari'' @ [CHR 0xC5, CHR 0x9F] @ ''iniz tamamlan'' @ [CHR 0xC4, CHR 0xB1] @ ''yor''),
      (''processing.redirecting'', ''Fi'' @ [CHR 0xC5, CHR 0x9F] @ ''e y'' @ [CHR 0xC3, CHR 0xB6] @ ''nlendiriliyor''),
      (''receipt.title'', ''Te'' @ [CHR 0xC5, CHR 0x9F] @ ''ekk'' @ [CHR 0xC3, CHR 0xBC] @ ''rler''),
      (''receipt.orderNumber'', ''Sipari'' @ [CHR 0xC5, CHR 0x9F] @ '' #{number}''),
      (''receipt.print'', ''Fi'' @ [CHR 0xC5, CHR 0x9F] @ '' yazd'' @ [CHR 0xC4, CHR 0xB1] @ ''r''),
      (''receipt.email'', ''E-posta ile g'' @ [CHR 0xC3, CHR 0xB6] @ ''nder''),
      (''receipt.startNew'', ''Yeni sipari'' @ [CHR 0xC5, CHR 0x9F] @ '' ba'' @ [CHR 0xC5, CHR 0x9F] @ ''lat''),
      (''receipt.thankYouMessage'', ''Al'' @ [CHR 0xC4, CHR 0xB1, CHR 0xC5, CHR 0x9F] @ ''veri'' @ [CHR 0xC5, CHR 0x9F] @ ''iniz i'' @ [CHR 0xC3, CHR 0xA7] @ ''in te'' @ [CHR 0xC5, CHR 0x9F] @ ''ekk'' @ [CHR 0xC3, CHR 0xBC] @ ''rler!''),
      (''status.offline'', [CHR 0xC3, CHR 0x87] @ ''evrimd'' @ [CHR 0xC4, CHR 0xB1, CHR 0xC5, CHR 0x9F, CHR 0xC4, CHR 0xB1]),
      (''status.online'', [CHR 0xC3, CHR 0x87] @ ''evrimi'' @ [CHR 0xC3, CHR 0xA7] @ ''i''),
      (''status.connecting'', ''Ba'' @ [CHR 0xC4, CHR 0x9F] @ ''lan'' @ [CHR 0xC4, CHR 0xB1] @ ''yor...''),
      (''status.network'', ''A'' @ [CHR 0xC4, CHR 0x9F]),
      (''idle.warning'', ''H'' @ [CHR 0xC3, CHR 0xA2] @ ''l'' @ [CHR 0xC3, CHR 0xA2] @ '' al'' @ [CHR 0xC4, CHR 0xB1, CHR 0xC5, CHR 0x9F] @ ''veri'' @ [CHR 0xC5, CHR 0x9F] @ '' yap'' @ [CHR 0xC4, CHR 0xB1] @ ''yor musunuz?''),
      (''idle.continue'', ''Devam''),
      (''idle.endSession'', ''Oturumu sonland'' @ [CHR 0xC4, CHR 0xB1] @ ''r''),
      (''idle.timeoutWarning'', ''Hareketsizlik nedeniyle oturum yak'' @ [CHR 0xC4, CHR 0xB1] @ ''nda sona erecek.''),
      (''offline.banner'', [CHR 0xC3, CHR 0x87] @ ''evrimd'' @ [CHR 0xC4, CHR 0xB1, CHR 0xC5, CHR 0x9F, CHR 0xC4, CHR 0xB1] @ ''s'' @ [CHR 0xC4, CHR 0xB1] @ ''n'' @ [CHR 0xC4, CHR 0xB1] @ ''z. Baz'' @ [CHR 0xC4, CHR 0xB1] @ '' '' @ [CHR 0xC3, CHR 0xB6] @ ''zellikler kullan'' @ [CHR 0xC4, CHR 0xB1] @ ''lamayabilir.''),
      (''offline.reconnecting'', ''Yeniden ba'' @ [CHR 0xC4, CHR 0x9F] @ ''lan'' @ [CHR 0xC4, CHR 0xB1] @ ''yor...''),
      (''offline.longOffline'', ''Uzun s'' @ [CHR 0xC3, CHR 0xBC] @ ''redir a'' @ [CHR 0xC4, CHR 0x9F] @ '' ba'' @ [CHR 0xC4, CHR 0x9F] @ ''lant'' @ [CHR 0xC4, CHR 0xB1] @ ''s'' @ [CHR 0xC4, CHR 0xB1] @ '' yok.''),
      (''error.generic'', ''Bir '' @ [CHR 0xC5, CHR 0x9F] @ ''eyler ters gitti''),
      (''error.restart'', ''Kiosk'' @ [CHR 0x27] @ ''u yeniden ba'' @ [CHR 0xC5, CHR 0x9F] @ ''lat''),
      (''error.retry'', ''Tekrar dene''),
      (''error.paymentDeclined'', [CHR 0xC3, CHR 0x96] @ ''deme reddedildi. Ba'' @ [CHR 0xC5, CHR 0x9F] @ ''ka bir y'' @ [CHR 0xC3, CHR 0xB6] @ ''ntem deneyin.''),
      (''error.paymentFailed'', [CHR 0xC3, CHR 0x96] @ ''deme ba'' @ [CHR 0xC5, CHR 0x9F] @ ''ar'' @ [CHR 0xC4, CHR 0xB1] @ ''s'' @ [CHR 0xC4, CHR 0xB1] @ ''z. L'' @ [CHR 0xC3, CHR 0xBC] @ ''tfen tekrar deneyin.''),
      (''error.sessionExpired'', ''Oturum s'' @ [CHR 0xC3, CHR 0xBC] @ ''resi doldu. L'' @ [CHR 0xC3, CHR 0xBC] @ ''tfen yeniden ba'' @ [CHR 0xC5, CHR 0x9F] @ ''lay'' @ [CHR 0xC4, CHR 0xB1] @ ''n.''),
      (''error.connectionLost'', ''Ba'' @ [CHR 0xC4, CHR 0x9F] @ ''lant'' @ [CHR 0xC4, CHR 0xB1] @ '' kesildi. A'' @ [CHR 0xC4, CHR 0x9F] @ '' kontrol ediliyor...''),
      (''admin.title'', ''Y'' @ [CHR 0xC3, CHR 0xB6] @ ''netim Paneli''),
      (''admin.close'', ''Kapat''),
      (''admin.dashboard'', ''Kontrol Paneli''),
      (''general.confirm'', ''Onayla''),
      (''general.cancel'', [CHR 0xC4, CHR 0xB0] @ ''ptal''),
      (''general.back'', ''Geri''),
      (''general.next'', [CHR 0xC4, CHR 0xB0] @ ''leri''),
      (''general.done'', ''Tamam''),
      (''general.loading'', ''Y'' @ [CHR 0xC3, CHR 0xBC] @ ''kleniyor...''),
      (''general.save'', ''Kaydet''),
      (''general.delete'', ''Sil''),
      (''general.edit'', ''D'' @ [CHR 0xC3, CHR 0xBC] @ ''zenle''),
      (''general.search'', ''Ara''),
      (''general.close'', ''Kapat''),
      (''general.yes'', ''Evet''),
      (''general.no'', ''Hay'' @ [CHR 0xC4, CHR 0xB1] @ ''r''),
      (''a11y.closeModal'', ''Modal'' @ [CHR 0xC4, CHR 0xB1] @ '' kapat''),
      (''a11y.navigateBack'', ''Geri git''),
      (''menu.noItemsHint'', ''Try a different search term or check all categories''),
      (''menu.categoriesLabel'', ''Menu categories''),
      (''menu.categories.mains'', ''Mains''),
      (''menu.categories.drinks'', ''Drinks''),
      (''menu.clearSearch'', ''Clear search''),
      (''menu.itemsInCart'', ''{count} items in cart'')]"

definition texts_tr_2 :: TranslationMap where
  "texts_tr_2 =
     [(''item.included'', ''Included''),
      (''item.chooseCount'', ''Choose {count}''),
      (''item.chooseRange'', ''Choose {min}-{max}''),
      (''item.closeLabel'', ''Close item details''),
      (''item.decreaseQuantity'', ''Decrease quantity''),
      (''item.increaseQuantity'', ''Increase quantity''),
      (''item.quantityLabel'', ''Quantity: {count}''),
      (''item.addToCartLabel'', ''Add {name} to cart '' @ [CHR 0xE2, CHR 0x80, CHR 0x94] @ '' {amount}''),
      (''item.priceAddition'', ''+{amount}''),
      (''item.customizeLabel'', ''Customize {name}''),
      (''cart.itemSingular'', ''{count} item''),
      (''cart.tapToEdit'', ''Tap an item to edit''),
      (''cart.itemsLabel'', ''Cart items''),
      (''cart.pay'', ''Pay {amount}''),
      (''cart.editItem'', ''Edit {name}. Quantity: {quantity}. Price: {amount}''),
      (''cart.decreaseQuantity'', ''Decrease quantity of {name}''),
      (''cart.increaseQuantity'', ''Increase quantity of {name}''),
      (''cart.quantityLabel'', ''Quantity: {count}''),
      (''cart.priceLabel'', ''Price: {amount}''),
      (''payment.cardNfc'', ''Card / NFC''),
      (''payment.qrCode'', ''QR Code''),
      (''payment.verifyToComplete'', ''Verify to complete''),
      (''payment.pinPadInstruction'', ''Please use the PIN pad or present your card to the terminal.''),
      (''payment.terminalStatus'', ''Terminal: {status}''),
      (''payment.authorizing'', ''Authorizing...''),
      (''payment.authorize'', ''Authorize''),
      (''payment.authorized'', ''Authorized''),
      (''payment.connected'', ''Connected''),
      (''payment.cartSummary'', ''Cart summary: {count} items, total {amount}. Tap to {action}.''),
      (''payment.expand'', ''expand''),
      (''payment.collapse'', ''collapse''),
      (''payment.employeeOverrideHint'', ''Employee override. Hold for 3 seconds.''),
      (''payment.cancelPayment'', ''Cancel payment''),
      (''payment.confirmPayment'', ''Pay {amount}''),
      (''processing.connecting'', ''Connecting to terminal...''),
      (''processing.waitingForCard'', ''Waiting for card...''),
      (''processing.authorizing'', ''Authorizing...''),
      (''processing.finalizingStage'', ''Finalizing...''),
      (''processing.default'', ''Processing...''),
      (''processing.terminalStatus'', ''Terminal: {label}''),
      (''processing.orderFailed'', ''Order could not be completed''),
      (''processing.orderFailedMessage'', ''We couldn'' @ [CHR 0x27] @ ''t complete your order. Please try again.''),
      (''processing.retry'', ''Try again''),
      (''processing.cancelReturn'', ''Cancel and return to cart''),
      (''receipt.printing'', ''Printing...''),
      (''receipt.emailSending'', ''Sending...''),
      (''receipt.emailSent'', ''Sent!''),
      (''receipt.printerUnavailable'', ''Printer unavailable. Receipt saved.''),
      (''receipt.srComplete'', ''Order complete. Tap start new order to continue.''),
      (''receipt.srReady'', ''Receipt ready.''),
      (''receipt.printLabel'', ''Print receipt''),
      (''receipt.emailLabel'', ''Email receipt''),
      (''receipt.startNewLabel'', ''Start new order''),
      (''status.synced'', ''Synced''),
      (''status.syncing'', ''Syncing''),
      (''status.p2pStatus'', ''P2P sync status: {label}. Tap for mesh details.''),
      (''status.kioskStatus'', ''Kiosk status''),
      (''status.p2pTitle'', ''P2P mesh sync''),
      (''status.meshDescription'', ''This kiosk shares cart and order state with nearby peers over a local mesh so orders survive network drops.''),
      (''status.connectedPeers'', ''Connected peers''),
      (''status.syncLag'', ''Sync lag''),
      (''status.role'', ''Role''),
      (''status.leader'', ''Leader''),
      (''status.peer'', ''Peer''),
      (''status.thisKiosk'', ''This kiosk''),
      (''status.apiOnline'', ''API online''),
      (''status.apiDegraded'', ''API degraded''),
      (''status.apiOffline'', ''API offline''),
      (''status.networkConnected'', ''Connected to network''),
      (''status.networkDisconnected'', ''No network connection''),
      (''idle.message'', ''Tap below to continue, or this kiosk will reset for the next customer.''),
      (''idle.continueLabel'', ''I am still here''),
      (''idle.endSessionLabel'', ''Start over''),
      (''idle.ariaLabel'', ''Idle timeout warning''),
      (''offline.workingOffline'', ''Working offline. Your cart is secure.''),
      (''offline.dismiss'', ''Dismiss offline notice''),
      (''error.helpMessage'', ''Please ask a staff member for help. We apologise for the inconvenience.''),
      (''admin.kioskStatus'', ''Kiosk Status''),
      (''admin.session'', ''Session''),
      (''admin.laneMode'', ''Lane Mode''),
      (''admin.apiStatus'', ''API Status''),
      (''admin.cartHasItems'', ''Cart Has Items''),
      (''admin.actions'', ''Actions''),
      (''admin.simulateOnline'', ''Simulate Online''),
      (''admin.simulateOffline'', ''Simulate Offline''),
      (''admin.errors'', ''Errors''),
      (''admin.closeLabel'', ''Close admin panel''),
      (''item.modifierSingular'', ''{count} modifier''),
      (''item.modifierPlural'', ''{count} modifiers'')]"

definition texts_tr :: TranslationMap where
  "texts_tr = texts_tr_1 @ texts_tr_2"

end
