(* ===== verification/AsianTexts.thy ===== *)
theory AsianTexts
  imports Languages
begin

text \<open>
  Tables of texts of the kiosk: \<open>ja.ts\<close>, \<open>ko.ts\<close>, \<open>zh-TW.ts\<close>, \<open>vi.ts\<close> of \<open>apps/kiosk/src/i18n/locales\<close>. A text is
  given by its bytes in UTF-8.
\<close>

definition texts_ja_1 :: TranslationMap where
  "texts_ja_1 =
     [(''language.select'', [CHR 0xE8, CHR 0xA8, CHR 0x80, CHR 0xE8, CHR 0xAA, CHR 0x9E, CHR 0xE3, CHR 0x82, CHR 0x92, CHR 0xE9, CHR 0x81, CHR 0xB8, CHR 0xE6, CHR 0x8A, CHR 0x9E, CHR 0xE3, CHR 0x81, CHR 0x97, CHR 0xE3, CHR 0x81, CHR 0xA6, CHR 0xE3, CHR 0x81, CHR 0x8F, CHR 0xE3, CHR 0x81, CHR 0xA0, CHR 0xE3, CHR 0x81, CHR 0x95, CHR 0xE3, CHR 0x81, CHR 0x84]),
      (''language.mainLanguages'', [CHR 0xE4, CHR 0xB8, CHR 0xBB, CHR 0xE8, CHR 0xA6, CHR 0x81, CHR 0xE8, CHR 0xA8, CHR 0x80, CHR 0xE8, CHR 0xAA, CHR 0x9E]),
      (''language.moreLanguages'', [CHR 0xE3, CHR 0x81, CHR 0x9D, CHR 0xE3, CHR 0x81, CHR 0xAE, CHR 0xE4, CHR 0xBB, CHR 0x96, CHR 0xE3, CHR 0x81, CHR 0xAE, CHR 0xE8, CHR 0xA8, CHR 0x80, CHR 0xE8, CHR 0xAA, CHR 0x9E]),
      (''language.continue'', [CHR 0xE7, CHR 0xB6, CHR 0x9A, CHR 0xE3, CHR 0x81, CHR 0x91, CHR 0xE3, CHR 0x82, CHR 0x8B]),
      (''attract.title'', ''Astra''),
      (''attract.touchToBegin'', [CHR 0xE3, CHR 0x82, CHR 0xBF, CHR 0xE3, CHR 0x83, CHR 0x83, CHR 0xE3, CHR 0x83, CHR 0x81, CHR 0xE3, CHR 0x81, CHR 0x97, CHR 0xE3, CHR 0x81, CHR 0xA6, CHR 0xE9, CHR 0x96, CHR 0x8B, CHR 0xE5, CHR 0xA7, CHR 0x8B]),
      (''attract.laneInfo'', [CHR 0xE3, CHR 0x82, CHR 0xBB, CHR 0xE3, CHR 0x83, CHR 0xAB, CHR 0xE3, CHR 0x83, CHR 0x95, CHR 0xE3, CHR 0x83, CHR 0xAC, CHR 0xE3, CHR 0x82, CHR 0xB8] @ '' '' @ [CHR 0xE2, CHR 0x80, CHR 0xA2] @ '' '' @ [CHR 0xE3, CHR 0x83, CHR 0xAC, CHR 0xE3, CHR 0x83, CHR 0xBC, CHR 0xE3, CHR 0x83, CHR 0xB3] @ '' {lane}''),
      (''attract.screenReader'', [CHR 0xE3, CHR 0x82, CHR 0xA2, CHR 0xE3, CHR 0x83, CHR 0x88, CHR 0xE3, CHR 0x83, CHR 0xA9, CHR 0xE3, CHR 0x82, CHR 0xAF, CHR 0xE3, CHR 0x83, CHR 0x88, CHR 0xE7, CHR 0x94, CHR 0xBB, CHR 0xE9, CHR 0x9D, CHR 0xA2, CHR 0xE3, CHR 0x80, CHR 0x82, CHR 0xE3, CHR 0x82, CHR 0xBF, CHR 0xE3, CHR 0x83, CHR 0x83, CHR 0xE3, CHR 0x83, CHR 0x81, CHR 0xE3, CHR 0x81, CHR 0x97, CHR 0xE3, CHR 0x81, CHR 0xA6, CHR 0xE8, CHR 0xB2, CHR 0xB7, CHR 0xE3, CHR 0x81, CHR 0x84, CHR 0xE7, CHR 0x89, CHR 0xA9, CHR 0xE3, CHR 0x82, CHR 0x92, CHR 0xE5, CHR 0xA7, CHR 0x8B, CHR 0xE3, CHR 0x82, CHR 0x81, CHR 0xE3, CHR 0x81, CHR 0xBE, CHR 0xE3, CHR 0x81, CHR 0x99, CHR 0xE3, CHR 0x80, CHR 0x82]),
      (''menu.title'', [CHR 0xE3, CHR 0x83, CHR 0xA1, CHR 0xE3, CHR 0x83, CHR 0x8B, CHR 0xE3, CHR 0x83, CHR 0xA5, CHR 0xE3, CHR 0x83, CHR 0xBC]),
      (''menu.search'', [CHR 0xE3, CHR 0x83, CHR 0xA1, CHR 0xE3, CHR 0x83, CHR 0x8B, CHR 0xE3, CHR 0x83, CHR 0xA5, CHR 0xE3, CHR 0x83, CHR 0xBC, CHR 0xE3, CHR 0x82, CHR 0x92, CHR 0xE6, CHR 0xA4, CHR 0x9C, CHR 0xE7, CHR 0xB4, CHR 0xA2] @ ''...''),
      (''menu.noItems'', [CHR 0xE5, CHR 0x95, CHR 0x86, CHR 0xE5, CHR 0x93, CHR 0x81, CHR 0xE3, CHR 0x81, CHR 0x8C, CHR 0xE8, CHR 0xA6, CHR 0x8B, CHR 0xE3, CHR 0x81, CHR 0xA4, CHR 0xE3, CHR 0x81, CHR 0x8B, CHR 0xE3, CHR 0x82, CHR 0x8A, CHR 0xE3, CHR 0x81, CHR 0xBE, CHR 0xE3, CHR 0x81, CHR 0x9B, CHR 0xE3, CHR 0x82, CHR 0x93]),
      (''menu.backToMenu'', [CHR 0xE3, CHR 0x83, CHR 0xA1, CHR 0xE3, CHR 0x83, CHR 0x8B, CHR 0xE3, CHR 0x83, CHR 0xA5, CHR 0xE3, CHR 0x83, CHR 0xBC, CHR 0xE3, CHR 0x81, CHR 0xAB, CHR 0xE6, CHR 0x88, CHR 0xBB, CHR 0xE3, CHR 0x82, CHR 0x8B]),
      (''menu.viewCart'', [CHR 0xE3, CHR 0x82, CHR 0xAB, CHR 0xE3, CHR 0x83, CHR 0xBC, CHR 0xE3, CHR 0x83, CHR 0x88, CHR 0xE3, CHR 0x82, CHR 0x92, CHR 0xE8, CHR 0xA6, CHR 0x8B, CHR 0xE3, CHR 0x82, CHR 0x8B] @ '' ({count})''),
      (''menu.itemAdded'', [CHR 0xE5, CHR 0x95, CHR 0x86, CHR 0xE5, CHR 0x93, CHR 0x81, CHR 0xE3, CHR 0x82, CHR 0x92, CHR 0xE8, CHR 0xBF, CHR 0xBD, CHR 0xE5, CHR 0x8A, CHR 0xA0, CHR 0xE3, CHR 0x81, CHR 0x97, CHR 0xE3, CHR 0x81, CHR 0xBE, CHR 0xE3, CHR 0x81, CHR 0x97, CHR 0xE3, CHR 0x81, CHR 0x9F]),
      (''menu.categories.all'', [CHR 0xE3, CHR 0x81, CHR 0x99, CHR 0xE3, CHR 0x81, CHR 0xB9, CHR 0xE3, CHR 0x81, CHR 0xA6]),
      (''item.addToCart'', [CHR 0xE3, CHR 0x82, CHR 0xAB, CHR 0xE3, CHR 0x83, CHR 0xBC, CHR 0xE3, CHR 0x83, CHR 0x88, CHR 0xE3, CHR 0x81, CHR 0xAB, CHR 0xE8, CHR 0xBF, CHR 0xBD, CHR 0xE5, CHR 0x8A, CHR 0xA0]),
      (''item.quantity'', [CHR 0xE6, CHR 0x95, CHR 0xB0, CHR 0xE9, CHR 0x87, CHR 0x8F]),
      (''item.modifiers'', [CHR 0xE3, CHR 0x82, CHR 0xAB, CHR 0xE3, CHR 0x82, CHR 0xB9, CHR 0xE3, CHR 0x82, CHR 0xBF, CHR 0xE3, CHR 0x83, CHR 0x9E, CHR 0xE3, CHR 0x82, CHR 0xA4, CHR 0xE3, CHR 0x82, CHR 0xBA]),
      (''item.price'', [CHR 0xE4, CHR 0xBE, CHR 0xA1, CHR 0xE6, CHR 0xA0, CHR 0xBC]),
      (''item.description'', [CHR 0xE8, CHR 0xAA, CHR 0xAC, CHR 0xE6, CHR 0x98, CHR 0x8E]),
      (''cart.title'', [CHR 0xE8, CHR 0xB2, CHR 0xB7, CHR 0xE3, CHR 0x81, CHR 0x84, CHR 0xE7, CHR 0x89, CHR 0xA9, CHR 0xE3, CHR 0x81, CHR 0x8B, CHR 0xE3, CHR 0x81, CHR 0x94]),
      (''cart.empty'', [CHR 0xE3, CHR 0x82, CHR 0xAB, CHR 0xE3, CHR 0x83, CHR 0xBC, CHR 0xE3, CHR 0x83, CHR 0x88, CHR 0xE3, CHR 0x81, CHR 0xAF, CHR 0xE7, CHR 0xA9, CHR 0xBA, CHR 0xE3, CHR 0x81, CHR 0xA7, CHR 0xE3, CHR 0x81, CHR 0x99]),
      (''cart.subtotal'', [CHR 0xE5, CHR 0xB0, CHR 0x8F, CHR 0xE8, CHR 0xA8, CHR 0x88]),
      (''cart.tax'', [CHR 0xE7, CHR 0xA8, CHR 0x8E, CHR 0xE9, CHR 0x87, CHR 0x91]),
      (''cart.total'', [CHR 0xE5, CHR 0x90, CHR 0x88, CHR 0xE8, CHR 0xA8, CHR 0x88]),
      (''cart.backToMenu'', [CHR 0xE3, CHR 0x83, CHR 0xA1, CHR 0xE3, CHR 0x83, CHR 0x8B, CHR 0xE3, CHR 0x83, CHR 0xA5, CHR 0xE3, CHR 0x83, CHR 0xBC, CHR 0xE3, CHR 0x81, CHR 0xAB, CHR 0xE6, CHR 0x88, CHR 0xBB, CHR 0xE3, CHR 0x82, CHR 0x8B]),
      (''cart.proceedToPayment'', [CHR 0xE3, CHR 0x81, CHR 0x8A, CHR 0xE4, CHR 0xBC, CHR 0x9A, CHR 0xE8, CHR 0xA8, CHR 0x88, CHR 0xE3, CHR 0x81, CHR 0xAB, CHR 0xE9, CHR 0x80, CHR 0xB2, CHR 0xE3, CHR 0x82, CHR 0x80]),
      (''cart.removeItem'', [CHR 0xE5, CHR 0x89, CHR 0x8A, CHR 0xE9, CHR 0x99, CHR 0xA4]),
      (''cart.itemCount'', ''{count} '' @ [CHR 0xE7, CHR 0x82, CHR 0xB9]),
      (''cart.summary'', [CHR 0xE6, CHR 0xB3, CHR 0xA8, CHR 0xE6, CHR 0x96, CHR 0x87, CHR 0xE6, CHR 0xA6, CHR 0x82, CHR 0xE8, CHR 0xA6, CHR 0x81]),
      (''payment.title'', [CHR 0xE3, CHR 0x81, CHR 0x8A, CHR 0xE6, CHR 0x94, CHR 0xAF, CHR 0xE6, CHR 0x89, CHR 0x95, CHR 0xE3, CHR 0x81, CHR 0x84]),
      (''payment.confirm'', [CHR 0xE3, CHR 0x81, CHR 0x8A, CHR 0xE6, CHR 0x94, CHR 0xAF, CHR 0xE6, CHR 0x89, CHR 0x95, CHR 0xE3, CHR 0x81, CHR 0x84, CHR 0xE3, CHR 0x82, CHR 0x92, CHR 0xE7, CHR 0xA2, CHR 0xBA, CHR 0xE8, CHR 0xAA, CHR 0x8D]),
      (''payment.cancel'', [CHR 0xE3, CHR 0x82, CHR 0xAD, CHR 0xE3, CHR 0x83, CHR 0xA3, CHR 0xE3, CHR 0x83, CHR 0xB3, CHR 0xE3, CHR 0x82, CHR 0xBB, CHR 0xE3, CHR 0x83, CHR 0xAB]),
      (''payment.processing'', [CHR 0xE3, CHR 0x81, CHR 0x8A, CHR 0xE6, CHR 0x94, CHR 0xAF, CHR 0xE6, CHR 0x89, CHR 0x95, CHR 0xE3, CHR 0x81, CHR 0x84, CHR 0xE3, CHR 0x82, CHR 0x92, CHR 0xE5, CHR 0x87, CHR 0xA6, CHR 0xE7, CHR 0x90, CHR 0x86, CHR 0xE4, CHR 0xB8, CHR 0xAD] @ ''...''),
      (''payment.selectMethod'', [CHR 0xE6, CHR 0x94, CHR 0xAF, CHR 0xE6, CHR 0x89, CHR 0x95, CHR 0xE3, CHR 0x81, CHR 0x84, CHR 0xE6, CHR 0x96, CHR 0xB9, CHR 0xE6, CHR 0xB3, CHR 0x95, CHR 0xE3, CHR 0x82, CHR 0x92, CHR 0xE9, CHR 0x81, CHR 0xB8, CHR 0xE6, CHR 0x8A, CHR 0x9E]),
      (''payment.card'', [CHR 0xE3, CHR 0x82, CHR 0xAB, CHR 0xE3, CHR 0x83, CHR 0xBC, CHR 0xE3, CHR 0x83, CHR 0x89]),
      (''payment.cash'', [CHR 0xE7, CHR 0x8F, CHR 0xBE, CHR 0xE9, CHR 0x87, CHR 0x91]),
      (''payment.mobile'', [CHR 0xE3, CHR 0x83, CHR 0xA2, CHR 0xE3, CHR 0x83, CHR 0x90, CHR 0xE3, CHR 0x82, CHR 0xA4, CHR 0xE3, CHR 0x83, CHR 0xAB, CHR 0xE3, CHR 0x82, CHR 0xA6, CHR 0xE3, CHR 0x82, CHR 0xA9, CHR 0xE3, CHR 0x83, CHR 0xAC, CHR 0xE3, CHR 0x83, CHR 0x83, CHR 0xE3, CHR 0x83, CHR 0x88]),
      (''payment.biometric'', [CHR 0xE7, CHR 0x94, CHR 0x9F, CHR 0xE4, CHR 0xBD, CHR 0x93, CHR 0xE8, CHR 0xAA, CHR 0x8D, CHR 0xE8, CHR 0xA8, CHR 0xBC]),
      (''payment.employeeOverride'', [CHR 0xE5, CHR 0xBE, CHR 0x93, CHR 0xE6, CHR 0xA5, CHR 0xAD, CHR 0xE5, CHR 0x93, CHR 0xA1, CHR 0xE6, CHR 0x89, CHR 0xBF, CHR 0xE8, CHR 0xAA, CHR 0x8D]),
      (''payment.insertCard'', [CHR 0xE3, CHR 0x82, CHR 0xAB, CHR 0xE3, CHR 0x83, CHR 0xBC, CHR 0xE3, CHR 0x83, CHR 0x89, CHR 0xE3, CHR 0x82, CHR 0x92, CHR 0xE6, CHR 0x8C, CHR 0xBF, CHR 0xE5, CHR 0x85, CHR 0xA5, CHR 0xE3, CHR 0x81, CHR 0xBE, CHR 0xE3, CHR 0x81, CHR 0x9F, CHR 0xE3, CHR 0x81, CHR 0xAF, CHR 0xE3, CHR 0x82, CHR 0xBF, CHR 0xE3, CHR 0x83, CHR 0x83, CHR 0xE3, CHR 0x83, CHR 0x81]),
      (''payment.scanQR'', ''QR'' @ [CHR 0xE3, CHR 0x82, CHR 0xB3, CHR 0xE3, CHR 0x83, CHR 0xBC, CHR 0xE3, CHR 0x83, CHR 0x89, CHR 0xE3, CHR 0x82, CHR 0x92, CHR 0xE3, CHR 0x82, CHR 0xB9, CHR 0xE3, CHR 0x82, CHR 0xAD, CHR 0xE3, CHR 0x83, CHR 0xA3, CHR 0xE3, CHR 0x83, CHR 0xB3]),
      (''payment.tapPhone'', [CHR 0xE3, CHR 0x82, CHR 0xB9, CHR 0xE3, CHR 0x83, CHR 0x9E, CHR 0xE3, CHR 0x83, CHR 0xBC, CHR 0xE3, CHR 0x83, CHR 0x88, CHR 0xE3, CHR 0x83, CHR 0x95, CHR 0xE3, CHR 0x82, CHR 0xA9, CHR 0xE3, CHR 0x83, CHR 0xB3, CHR 0xE3, CHR 0x82, CHR 0x92, CHR 0xE3, CHR 0x82, CHR 0xBF, CHR 0xE3, CHR 0x83, CHR 0x83, CHR 0xE3, CHR 0x83, CHR 0x81]),
      (''payment.amount'', [CHR 0xE9, CHR 0x87, CHR 0x91, CHR 0xE9, CHR 0xA1, CHR 0x8D]),
      (''processing.title'', [CHR 0xE5, CHR 0x87, CHR 0xA6, CHR 0xE7, CHR 0x90, CHR 0x86, CHR 0xE4, CHR 0xB8, CHR 0xAD]),
      (''processing.pleaseWait'', [CHR 0xE3, CHR 0x81, CHR 0x8A, CHR 0xE5, CHR 0xBE, CHR 0x85, CHR 0xE3, CHR 0x81, CHR 0xA1, CHR 0xE3, CHR 0x81, CHR 0x8F, CHR 0xE3, CHR 0x81, CHR 0xA0, CHR 0xE3, CHR 0x81, CHR 0x95, CHR 0xE3, CHR 0x81, CHR 0x84] @ ''...''),
      (''processing.finalizing'', [CHR 0xE6, CHR 0xB3, CHR 0xA8, CHR 0xE6, CHR 0x96, CHR 0x87, CHR 0xE3, CHR 0x82, CHR 0x92, CHR 0xE7, CHR 0xA2, CHR 0xBA, CHR 0xE5, CHR 0xAE, CHR 0x9A, CHR 0xE4, CHR 0xB8, CHR 0xAD]),
      (''processing.redirecting'', [CHR 0xE3, CHR 0x83, CHR 0xAC, CHR 0xE3, CHR 0x82, CHR 0xB7, CHR 0xE3, CHR 0x83, CHR 0xBC, CHR 0xE3, CHR 0x83, CHR 0x88, CHR 0xE3, CHR 0x81, CHR 0xAB, CHR 0xE7, CHR 0xA7, CHR 0xBB, CHR 0xE5, CHR 0x8B, CHR 0x95, CHR 0xE4, CHR 0xB8, CHR 0xAD]),
      (''receipt.title'', [CHR 0xE3, CHR 0x81, CHR 0x82, CHR 0xE3, CHR 0x82, CHR 0x8A, CHR 0xE3, CHR 0x81, CHR 0x8C, CHR 0xE3, CHR 0x81, CHR 0xA8, CHR 0xE3, CHR 0x81, CHR 0x86, CHR 0xE3, CHR 0x81, CHR 0x94, CHR 0xE3, CHR 0x81, CHR 0x96, CHR 0xE3, CHR 0x81, CHR 0x84, CHR 0xE3, CHR 0x81, CHR 0xBE, CHR 0xE3, CHR 0x81, CHR 0x99]),
      (''receipt.orderNumber'', [CHR 0xE6, CHR 0xB3, CHR 0xA8, CHR 0xE6, CHR 0x96, CHR 0x87] @ '' #{number}''),
      (''receipt.print'', [CHR 0xE3, CHR 0x83, CHR 0xAC, CHR 0xE3, CHR 0x82, CHR 0xB7, CHR 0xE3, CHR 0x83, CHR 0xBC, CHR 0xE3, CHR 0x83, CHR 0x88, CHR 0xE3, CHR 0x82, CHR 0x92, CHR 0xE5, CHR 0x8D, CHR 0xB0, CHR 0xE5, CHR 0x88, CHR 0xB7]),
      (''receipt.email'', [CHR 0xE3, CHR 0x83, CHR 0xA1, CHR 0xE3, CHR 0x83, CHR 0xBC, CHR 0xE3, CHR 0x83, CHR 0xAB, CHR 0xE3, CHR 0x81, CHR 0xA7, CHR 0xE9, CHR 0x80, CHR 0x81, CHR 0xE4, CHR 0xBF, CHR 0xA1]),
      (''receipt.startNew'', [CHR 0xE6, CHR 0x96, CHR 0xB0, CHR 0xE3, CHR 0x81, CHR 0x97, CHR 0xE3, CHR 0x81, CHR 0x84, CHR 0xE6, CHR 0xB3, CHR 0xA8, CHR 0xE6, CHR 0x96, CHR 0x87, CHR 0xE3, CHR 0x82, CHR 0x92, CHR 0xE9, CHR 0x96, CHR 0x8B, CHR 0xE5, CHR 0xA7, CHR 0x8B]),
      (''receipt.thankYouMessage'', [CHR 0xE3, CHR 0x81, CHR 0x94, CHR 0xE8, CHR 0xB3, CHR 0xBC, CHR 0xE5, CHR 0x85, CHR 0xA5, CHR 0xE3, CHR 0x81, CHR 0x82, CHR 0xE3, CHR 0x82, CHR 0x8A, CHR 0xE3, CHR 0x81, CHR 0x8C, CHR 0xE3, CHR 0x81, CHR 0xA8, CHR 0xE3, CHR 0x81, CHR 0x86, CHR 0xE3, CHR 0x81, CHR 0x94, CHR 0xE3, CHR 0x81, CHR 0x96, CHR 0xE3, CHR 0x81, CHR 0x84, CHR 0xE3, CHR 0x81, CHR 0xBE, CHR 0xE3, CHR 0x81, CHR 0x99, CHR 0xEF, CHR 0xBC, CHR 0x81]),
      (''status.offline'', [CHR 0xE3, CHR 0x82, CHR 0xAA, CHR 0xE3, CHR 0x83, CHR 0x95, CHR 0xE3, CHR 0x83, CHR 0xA9, CHR 0xE3, CHR 0x82, CHR 0xA4, CHR 0xE3, CHR 0x83, CHR 0xB3]),
      (''status.online'', [CHR 0xE3, CHR 0x82, CHR 0xAA, CHR 0xE3, CHR 0x83, CHR 0xB3, CHR 0xE3, CHR 0x83, CHR 0xA9, CHR 0xE3, CHR 0x82, CHR 0xA4, CHR 0xE3, CHR 0x83, CHR 0xB3]),
      (''status.connecting'', [CHR 0xE6, CHR 0x8E, CHR 0xA5, CHR 0xE7, CHR 0xB6, CHR 0x9A, CHR 0xE4, CHR 0xB8, CHR 0xAD] @ ''...''),
      (''status.network'', [CHR 0xE3, CHR 0x83, CHR 0x8D, CHR 0xE3, CHR 0x83, CHR 0x83, CHR 0xE3, CHR 0x83, CHR 0x88, CHR 0xE3, CHR 0x83, CHR 0xAF, CHR 0xE3, CHR 0x83, CHR 0xBC, CHR 0xE3, CHR 0x82, CHR 0xAF]),
      (''idle.warning'', [CHR 0xE3, CHR 0x81, CHR 0xBE, CHR 0xE3, CHR 0x81, CHR 0xA0, CHR 0xE3, CHR 0x81, CHR 0x8A, CHR 0xE8, CHR 0xB2, CHR 0xB7, CHR 0xE3, CHR 0x81, CHR 0x84, CHR 0xE7, CHR 0x89, CHR 0xA9, CHR 0xE4, CHR 0xB8, CHR 0xAD, CHR 0xE3, CHR 0x81, CHR 0xA7, CHR 0xE3, CHR 0x81, CHR 0x99, CHR 0xE3, CHR 0x81, CHR 0x8B, CHR 0xEF, CHR 0xBC, CHR 0x9F]),
      (''idle.continue'', [CHR 0xE7, CHR 0xB6, CHR 0x9A, CHR 0xE3, CHR 0x81, CHR 0x91, CHR 0xE3, CHR 0x82, CHR 0x8B]),
      (''idle.endSession'', [CHR 0xE3, CHR 0x82, CHR 0xBB, CHR 0xE3, CHR 0x83, CHR 0x83, CHR 0xE3, CHR 0x82, CHR 0xB7, CHR 0xE3, CHR 0x83, CHR 0xA7, CHR 0xE3, CHR 0x83, CHR 0xB3, CHR 0xE3, CHR 0x82, CHR 0x92, CHR 0xE7, CHR 0xB5, CHR 0x82, CHR 0xE4, CHR 0xBA, CHR 0x86]),
      (''idle.timeoutWarning'', [CHR 0xE6, CHR 0x93, CHR 0x8D, CHR 0xE4, CHR 0xBD, CHR 0x9C, CHR 0xE3, CHR 0x81, CHR 0x8C, CHR 0xE3, CHR 0x81, CHR 0xAA, CHR 0xE3, CHR 0x81, CHR 0x84, CHR 0xE3, CHR 0x81, CHR 0x9F, CHR 0xE3, CHR 0x82, CHR 0x81, CHR 0xE3, CHR 0x80, CHR 0x81, CHR 0xE3, CHR 0x82, CHR 0xBB, CHR 0xE3, CHR 0x83, CHR 0x83, CHR 0xE3, CHR 0x82, CHR 0xB7, CHR 0xE3, CHR 0x83, CHR 0xA7, CHR 0xE3, CHR 0x83, CHR 0xB3, CHR 0xE3, CHR 0x81, CHR 0x8C, CHR 0xE9, CHR 0x96, CHR 0x93, CHR 0xE3, CHR 0x82, CHR 0x82, CHR 0xE3, CHR 0x81, CHR 0xAA, CHR 0xE3, CHR 0x81, CHR 0x8F, CHR 0xE7, CHR 0xB5, CHR 0x82, CHR 0xE4, CHR 0xBA, CHR 0x86, CHR 0xE3, CHR 0x81, CHR 0x97, CHR 0xE3, CHR 0x81, CHR 0xBE, CHR 0xE3, CHR 0x81, CHR 0x99, CHR 0xE3, CHR 0x80, CHR 0x82]),
      (''offline.banner'', [CHR 0xE3, CHR 0x82, CHR 0xAA, CHR 0xE3, CHR 0x83, CHR 0x95, CHR 0xE3, CHR 0x83, CHR 0xA9, CHR 0xE3, CHR 0x82, CHR 0xA4, CHR 0xE3, CHR 0x83, CHR 0xB3, CHR 0xE3, CHR 0x81, CHR 0xA7, CHR 0xE3, CHR 0x81, CHR 0x99, CHR 0xE3, CHR 0x80, CHR 0x82, CHR 0xE4, CHR 0xB8, CHR 0x80, CHR 0xE9, CHR 0x83, CHR 0xA8, CHR 0xE3, CHR 0x81, CHR 0xAE, CHR 0xE6, CHR 0xA9, CHR 0x9F, CHR 0xE8, CHR 0x83, CHR 0xBD, CHR 0xE3, CHR 0x81, CHR 0x8C, CHR 0xE5, CHR 0x88, CHR 0xA9, CHR 0xE7, CHR 0x94, CHR 0xA8, CHR 0xE3, CHR 0x81, CHR 0xA7, CHR 0xE3, CHR 0x81, CHR 0x8D, CHR 0xE3, CHR 0x81, CHR 0xAA, CHR 0xE3, CHR 0x81, CHR 0x84, CHR 0xE5, CHR 0xA0, CHR 0xB4, CHR 0xE5, CHR 0x90, CHR 0x88, CHR 0xE3, CHR 0x81, CHR 0x8C, CHR 0xE3, CHR 0x81, CHR 0x82, CHR 0xE3, CHR 0x82, CHR 0x8A, CHR 0xE3, CHR 0x81, CHR 0xBE, CHR 0xE3, CHR 0x81, CHR 0x99, CHR 0xE3, CHR 0x80, CHR 0x82]),
      (''offline.reconnecting'', [CHR 0xE5, CHR 0x86, CHR 0x8D, CHR 0xE6, CHR 0x8E, CHR 0xA5, CHR 0xE7, CHR 0xB6, CHR 0x9A, CHR 0xE4, CHR 0xB8, CHR 0xAD] @ ''...''),
      (''offline.longOffline'', [CHR 0xE9, CHR 0x95, CHR 0xB7, CHR 0xE6, CHR 0x9C, CHR 0x9F, CHR 0xE9, CHR 0x96, CHR 0x93, CHR 0xE3, CHR 0x83, CHR 0x8D, CHR 0xE3, CHR 0x83, CHR 0x83, CHR 0xE3, CHR 0x83, CHR 0x88, CHR 0xE3, CHR 0x83, CHR 0xAF, CHR 0xE3, CHR 0x83, CHR 0xBC, CHR 0xE3, CHR 0x82, CHR 0xAF, CHR 0xE3, CHR 0x81, CHR 0xAB, CHR 0xE6, CHR 0x8E, CHR 0xA5, CHR 0xE7, CHR 0xB6, CHR 0x9A, CHR 0xE3, CHR 0x81, CHR 0x95, CHR 0xE3, CHR 0x82, CHR 0x8C, CHR 0xE3, CHR 0x81, CHR 0xA6, CHR 0xE3, CHR 0x81, CHR 0x84, CHR 0xE3, CHR 0x81, CHR 0xBE, CHR 0xE3, CHR 0x81, CHR 0x9B, CHR 0xE3, CHR 0x82, CHR 0x93, CHR 0xE3, CHR 0x80, CHR 0x82]),
      (''error.generic'', [CHR 0xE3, CHR 0x82, CHR 0xA8, CHR 0xE3, CHR 0x83, CHR 0xA9, CHR 0xE3, CHR 0x83, CHR 0xBC, CHR 0xE3, CHR 0x81, CHR 0x8C, CHR 0xE7, CHR 0x99, CHR 0xBA, CHR 0xE7, CHR 0x94, CHR 0x9F, CHR 0xE3, CHR 0x81, CHR 0x97, CHR 0xE3, CHR 0x81, CHR 0xBE, CHR 0xE3, CHR 0x81, CHR 0x97, CHR 0xE3, CHR 0x81, CHR 0x9F]),
      (''error.restart'', [CHR 0xE3, CHR 0x82, CHR 0xAD, CHR 0xE3, CHR 0x82, CHR 0xAA, CHR 0xE3, CHR 0x82, CHR 0xB9, CHR 0xE3, CHR 0x82, CHR 0xAF, CHR 0xE3, CHR 0x82, CHR 0x92, CHR 0xE5, CHR 0x86, CHR 0x8D, CHR 0xE8, CHR 0xB5, CHR 0xB7, CHR 0xE5, CHR 0x8B, CHR 0x95]),
      (''error.retry'', [CHR 0xE5, CHR 0x86, CHR 0x8D, CHR 0xE8, CHR 0xA9, CHR 0xA6, CHR 0xE8, CHR 0xA1, CHR 0x8C]),
      (''error.paymentDeclined'', [CHR 0xE3, CHR 0x81, CHR 0x8A, CHR 0xE6, CHR 0x94, CHR 0xAF, CHR 0xE6, CHR 0x89, CHR 0x95, CHR 0xE3, CHR 0x81, CHR 0x84, CHR 0xE3, CHR 0x81, CHR 0x8C, CHR 0xE6, CHR 0x8B, CHR 0x92, CHR 0xE5, CHR 0x90, CHR 0xA6, CHR 0xE3, CHR 0x81, CHR 0x95, CHR 0xE3, CHR 0x82, CHR 0x8C, CHR 0xE3, CHR 0x81, CHR 0xBE, CHR 0xE3, CHR 0x81, CHR 0x97, CHR 0xE3, CHR 0x81, CHR 0x9F, CHR 0xE3, CHR 0x80, CHR 0x82, CHR 0xE5, CHR 0x88, CHR 0xA5, CHR 0xE3, CHR 0x81, CHR 0xAE, CHR 0xE6, CHR 0x96, CHR 0xB9, CHR 0xE6, CHR 0xB3, CHR 0x95, CHR 0xE3, CHR 0x82, CHR 0x92, CHR 0xE3, CHR 0x81, CHR 0x8A, CHR 0xE8, CHR 0xA9, CHR 0xA6, CHR 0xE3, CHR 0x81, CHR 0x97, CHR 0xE3, CHR 0x81, CHR 0x8F, CHR 0xE3, CHR 0x81, CHR 0xA0, CHR 0xE3, CHR 0x81, CHR 0x95, CHR 0xE3, CHR 0x81, CHR 0x84, CHR 0xE3, CHR 0x80, CHR 0x82]),
      (''error.paymentFailed'', [CHR 0xE3, CHR 0x81, CHR 0x8A, CHR 0xE6, CHR 0x94, CHR 0xAF, CHR 0xE6, CHR 0x89, CHR 0x95, CHR 0xE3, CHR 0x81, CHR 0x84, CHR 0xE3, CHR 0x81, CHR 0xAB, CHR 0xE5, CHR 0xA4, CHR 0xB1, CHR 0xE6, CHR 0x95, CHR 0x97, CHR 0xE3, CHR 0x81, CHR 0x97, CHR 0xE3, CHR 0x81, CHR 0xBE, CHR 0xE3, CHR 0x81, CHR 0x97, CHR 0xE3, CHR 0x81, CHR 0x9F, CHR 0xE3, CHR 0x80, CHR 0x82, CHR 0xE3, CHR 0x82, CHR 0x82, CHR 0xE3, CHR 0x81, CHR 0x86, CHR 0xE4, CHR 0xB8, CHR 0x80, CHR 0xE5, CHR 0xBA, CHR 0xA6, CHR 0xE3, CHR 0x81, CHR 0x8A, CHR 0xE8, CHR 0xA9, CHR 0xA6, CHR 0xE3, CHR 0x81, CHR 0x97, CHR 0xE3, CHR 0x81, CHR 0x8F, CHR 0xE3, CHR 0x81, CHR 0xA0, CHR 0xE3, CHR 0x81, CHR 0x95, CHR 0xE3, CHR 0x81, CHR 0x84, CHR 0xE3, CHR 0x80, CHR 0x82]),
      (''error.sessionExpired'', [CHR 0xE3, CHR 0x82, CHR 0xBB, CHR 0xE3, CHR 0x83, CHR 0x83, CHR 0xE3, CHR 0x82, CHR 0xB7, CHR 0xE3, CHR 0x83, CHR 0xA7, CHR 0xE3, CHR 0x83, CHR 0xB3, CHR 0xE3, CHR 0x81, CHR 0xAE, CHR 0xE6, CHR 0x9C, CHR 0x89, CHR 0xE5, CHR 0x8A, CHR 0xB9, CHR 0xE6, CHR 0x9C, CHR 0x9F, CHR 0xE9, CHR 0x99, CHR 0x90, CHR 0xE3, CHR 0x81, CHR 0x8C, CHR 0xE5, CHR 0x88, CHR 0x87, CHR 0xE3, CHR 0x82, CHR 0x8C, CHR 0xE3, CHR 0x81, CHR 0xBE, CHR 0xE3, CHR 0x81, CHR 0x97, CHR 0xE3, CHR 0x81, CHR 0x9F, CHR 0xE3, CHR 0x80, CHR 0x82, CHR 0xE3, CHR 0x82, CHR 0x82, CHR 0xE3, CHR 0x81, CHR 0x86, CHR 0xE4, CHR 0xB8, CHR 0x80, CHR 0xE5, CHR 0xBA, CHR 0xA6, CHR 0xE3, CHR 0x81, CHR 0x8A, CHR 0xE5, CHR 0xA7, CHR 0x8B, CHR 0xE3, CHR 0x82, CHR 0x81, CHR 0xE3, CHR 0x81, CHR 0x8F, CHR 0xE3, CHR 0x81, CHR 0xA0, CHR 0xE3, CHR 0x81, CHR 0x95, CHR 0xE3, CHR 0x81, CHR 0x84, CHR 0xE3, CHR 0x80, CHR 0x82]),
      (''error.connectionLost'', [CHR 0xE6, CHR 0x8E, CHR 0xA5, CHR 0xE7, CHR 0xB6, CHR 0x9A, CHR 0xE3, CHR 0x81, CHR 0x8C, CHR 0xE5, CHR 0x88, CHR 0x87, CHR 0xE3, CHR 0x82, CHR 0x8C, CHR 0xE3, CHR 0x81, CHR 0xBE, CHR 0xE3, CHR 0x81, CHR 0x97, CHR 0xE3, CHR 0x81, CHR 0x9F, CHR 0xE3, CHR 0x80, CHR 0x82, CHR 0xE3, CHR 0x83, CHR 0x8D, CHR 0xE3, CHR 0x83, CHR 0x83, CHR 0xE3, CHR 0x83, CHR 0x88, CHR 0xE3, CHR 0x83, CHR 0xAF, CHR 0xE3, CHR 0x83, CHR 0xBC, CHR 0xE3, CHR 0x82, CHR 0xAF, CHR 0xE3, CHR 0x82, CHR 0x92, CHR 0xE7, CHR 0xA2, CHR 0xBA, CHR 0xE8, CHR 0xAA, CHR 0x8D, CHR 0xE4, CHR 0xB8, CHR 0xAD] @ ''...''),
      (''admin.title'', [CHR 0xE7, CHR 0xAE, CHR 0xA1, CHR 0xE7, CHR 0x90, CHR 0x86, CHR 0xE3, CHR 0x83, CHR 0x91, CHR 0xE3, CHR 0x83, CHR 0x8D, CHR 0xE3, CHR 0x83, CHR 0xAB]),
      (''admin.close'', [CHR 0xE9, CHR 0x96, CHR 0x89, CHR 0xE3, CHR 0x81, CHR 0x98, CHR 0xE3, CHR 0x82, CHR 0x8B]),
      (''admin.dashboard'', [CHR 0xE3, CHR 0x83, CHR 0x80, CHR 0xE3, CHR 0x83, CHR 0x83, CHR 0xE3, CHR 0x82, CHR 0xB7, CHR 0xE3, CHR 0x83, CHR 0xA5, CHR 0xE3, CHR 0x83, CHR 0x9C, CHR 0xE3, CHR 0x83, CHR 0xBC, CHR 0xE3, CHR 0x83, CHR 0x89]),
      (''general.confirm'', [CHR 0xE7, CHR 0xA2, CHR 0xBA, CHR 0xE8, CHR 0xAA, CHR 0x8D]),
      (''general.cancel'', [CHR 0xE3, CHR 0x82, CHR 0xAD, CHR 0xE3, CHR 0x83, CHR 0xA3, CHR 0xE3, CHR 0x83, CHR 0xB3, CHR 0xE3, CHR 0x82, CHR 0xBB, CHR 0xE3, CHR 0x83, CHR 0xAB]),
      (''general.back'', [CHR 0xE6, CHR 0x88, CHR 0xBB, CHR 0xE3, CHR 0x82, CHR 0x8B]),
      (''general.next'', [CHR 0xE6, CHR 0xAC, CHR 0xA1, CHR 0xE3, CHR 0x81, CHR 0xB8]),
      (''general.done'', [CHR 0xE5, CHR 0xAE, CHR 0x8C, CHR 0xE4, CHR 0xBA, CHR 0x86]),
      (''general.loading'', [CHR 0xE8, CHR 0xAA, CHR 0xAD, CHR 0xE3, CHR 0x81, CHR 0xBF, CHR 0xE8, CHR 0xBE, CHR 0xBC, CHR 0xE3, CHR 0x81, CHR 0xBF, CHR 0xE4, CHR 0xB8, CHR 0xAD] @ ''...''),
      (''general.save'', [CHR 0xE4, CHR 0xBF, CHR 0x9D, CHR 0xE5, CHR 0xAD, CHR 0x98]),
      (''general.delete'', [CHR 0xE5, CHR 0x89, CHR 0x8A, CHR 0xE9, CHR 0x99, CHR 0xA4]),
      (''general.edit'', [CHR 0xE7, CHR 0xB7, CHR 0xA8, CHR 0xE9, CHR 0x9B, CHR 0x86]),
      (''general.search'', [CHR 0xE6, CHR 0xA4, CHR 0x9C, CHR 0xE7, CHR 0xB4, CHR 0xA2]),
      (''general.close'', [CHR 0xE9, CHR 0x96, CHR 0x89, CHR 0xE3, CHR 0x81, CHR 0x98, CHR 0xE3, CHR 0x82, CHR 0x8B]),
      (''general.yes'', [CHR 0xE3, CHR 0x81, CHR 0xAF, CHR 0xE3, CHR 0x81, CHR 0x84]),
      (''general.no'', [CHR 0xE3, CHR 0x81, CHR 0x84, CHR 0xE3, CHR 0x81, CHR 0x84, CHR 0xE3, CHR 0x81, CHR 0x88]),
      (''a11y.closeModal'', [CHR 0xE3, CHR 0x83, CHR 0xA2, CHR 0xE3, CHR 0x83, CHR 0xBC, CHR 0xE3, CHR 0x83, CHR 0x80, CHR 0xE3, CHR 0x83, CHR 0xAB, CHR 0xE3, CHR 0x82, CHR 0x92, CHR 0xE9, CHR 0x96, CHR 0x89, CHR 0xE3, CHR 0x81, CHR 0x98, CHR 0xE3, CHR 0x82, CHR 0x8B]),
      (''a11y.navigateBack'', [CHR 0xE6, CHR 0x88, CHR 0xBB, CHR 0xE3, CHR 0x82, CHR 0x8B]),
      (''menu.noItemsHint'', ''Try a different search term or check all categories''),
      (''menu.categoriesLabel'', ''Menu categories''),
      (''menu.categories.mains'', ''Mains''),
      (''menu.categories.drinks'', ''Drinks''),
      (''menu.clearSearch'', ''Clear search''),
      (''menu.itemsInCart'', ''{count} items in cart'')]"

definition texts_ja_2 :: TranslationMap where
  "texts_ja_2 =
     [(''item.included'', ''Included''),
      (''item.chooseCount'', ''Choose {count}''),
      (''item.chooseRange'', ''Choose {min}-{max}''),
      (''item.closeLabel'', ''Close item details''),
      (''item.decreaseQuantity'', ''Decrease quantity''),
      (''item.increaseQuantity'', ''Increase quantity''),
      (''item.quantityLabel'', ''Quantity: {count}''),
      (''item.addToCartLabel'', ''Add {name} to cart '' @ [CHR 0xE2, CHR 0x80, CHR 0x94] @ '' {amount}''),
      (''item.priceAddition'', ''+{amount}''),
      (''item.customizeLabel'', ''Customize {name}''),
      (''cart.itemSingular'', ''{count} item''),
      (''cart.tapToEdit'', ''Tap an item to edit''),
      (''cart.itemsLabel'', ''Cart items''),
      (''cart.pay'', ''Pay {amount}''),
      (''cart.editItem'', ''Edit {name}. Quantity: {quantity}. Price: {amount}''),
      (''cart.decreaseQuantity'', ''Decrease quantity of {name}''),
      (''cart.increaseQuantity'', ''Increase quantity of {name}''),
      (''cart.quantityLabel'', ''Quantity: {count}''),
      (''cart.priceLabel'', ''Price: {amount}''),
      (''payment.cardNfc'', ''Card / NFC''),
      (''payment.qrCode'', ''QR Code''),
      (''payment.verifyToComplete'', ''Verify to complete''),
      (''payment.pinPadInstruction'', ''Please use the PIN pad or present your card to the terminal.''),
      (''payment.terminalStatus'', ''Terminal: {status}''),
      (''payment.authorizing'', ''Authorizing...''),
      (''payment.authorize'', ''Authorize''),
      (''payment.authorized'', ''Authorized''),
      (''payment.connected'', ''Connected''),
      (''payment.cartSummary'', ''Cart summary: {count} items, total {amount}. Tap to {action}.''),
      (''payment.expand'', ''expand''),
      (''payment.collapse'', ''collapse''),
      (''payment.employeeOverrideHint'', ''Employee override. Hold for 3 seconds.''),
      (''payment.cancelPayment'', ''Cancel payment''),
      (''payment.confirmPayment'', ''Pay {amount}''),
      (''processing.connecting'', ''Connecting to terminal...''),
      (''processing.waitingForCard'', ''Waiting for card...''),
      (''processing.authorizing'', ''Authorizing...''),
      (''processing.finalizingStage'', ''Finalizing...''),
      (''processing.default'', ''Processing...''),
      (''processing.terminalStatus'', ''Terminal: {label}''),
      (''processing.orderFailed'', ''Order could not be completed''),
      (''processing.orderFailedMessage'', ''We couldn'' @ [CHR 0x27] @ ''t complete your order. Please try again.''),
      (''processing.retry'', ''Try again''),
      (''processing.cancelReturn'', ''Cancel and return to cart''),
      (''receipt.printing'', ''Printing...''),
      (''receipt.emailSending'', ''Sending...''),
      (''receipt.emailSent'', ''Sent!''),
      (''receipt.printerUnavailable'', ''Printer unavailable. Receipt saved.''),
      (''receipt.srComplete'', ''Order complete. Tap start new order to continue.''),
      (''receipt.srReady'', ''Receipt ready.''),
      (''receipt.printLabel'', ''Print receipt''),
      (''receipt.emailLabel'', ''Email receipt''),
      (''receipt.startNewLabel'', ''Start new order''),
      (''status.synced'', ''Synced''),
      (''status.syncing'', ''Syncing''),
      (''status.p2pStatus'', ''P2P sync status: {label}. Tap for mesh details.''),
      (''status.kioskStatus'', ''Kiosk status''),
      (''status.p2pTitle'', ''P2P mesh sync''),
      (''status.meshDescription'', ''This kiosk shares cart and order state with nearby peers over a local mesh so orders survive network drops.''),
      (''status.connectedPeers'', ''Connected peers''),
      (''status.syncLag'', ''Sync lag''),
      (''status.role'', ''Role''),
      (''status.leader'', ''Leader''),
      (''status.peer'', ''Peer''),
      (''status.thisKiosk'', ''This kiosk''),
      (''status.apiOnline'', ''API online''),
      (''status.apiDegraded'', ''API degraded''),
      (''status.apiOffline'', ''API offline''),
      (''status.networkConnected'', ''Connected to network''),
      (''status.networkDisconnected'', ''No network connection''),
      (''idle.message'', ''Tap below to continue, or this kiosk will reset for the next customer.''),
      (''idle.continueLabel'', ''I am still here''),
      (''idle.endSessionLabel'', ''Start over''),
      (''idle.ariaLabel'', ''Idle timeout warning''),
      (''offline.workingOffline'', ''Working offline. Your cart is secure.''),
      (''offline.dismiss'', ''Dismiss offline notice''),
      (''error.helpMessage'', ''Please ask a staff member for help. We apologise for the inconvenience.''),
      (''admin.kioskStatus'', ''Kiosk Status''),
      (''admin.session'', ''Session''),
      (''admin.laneMode'', ''Lane Mode''),
      (''admin.apiStatus'', ''API Status''),
      (''admin.cartHasItems'', ''Cart Has Items''),
      (''admin.actions'', ''Actions''),
      (''admin.simulateOnline'', ''Simulate Online''),
      (''admin.simulateOffline'', ''Simulate Offline''),
      (''admin.errors'', ''Errors''),
      (''admin.closeLabel'', ''Close admin panel''),
      (''item.modifierSingular'', ''{count} modifier''),
      (''item.modifierPlural'', ''{count} modifiers'')]"

definition texts_ja :: TranslationMap where
  "texts_ja = texts_ja_1 @ texts_ja_2"

definition texts_ko_1 :: TranslationMap where
  "texts_ko_1 =
     [(''language.select'', [CHR 0xEC, CHR 0x96, CHR 0xB8, CHR 0xEC, CHR 0x96, CHR 0xB4, CHR 0xEB, CHR 0xA5, CHR 0xBC] @ '' '' @ [CHR 0xEC, CHR 0x84, CHR 0xA0, CHR 0xED, CHR 0x83, CHR 0x9D, CHR 0xED, CHR 0x95, CHR 0x98, CHR 0xEC, CHR 0x84, CHR 0xB8, CHR 0xEC, CHR 0x9A, CHR 0x94]),
      (''language.mainLanguages'', [CHR 0xEC, CHR 0xA3, CHR 0xBC, CHR 0xEC, CHR 0x9A, CHR 0x94] @ '' '' @ [CHR 0xEC, CHR 0x96, CHR 0xB8, CHR 0xEC, CHR 0x96, CHR 0xB4]),
      (''language.moreLanguages'', [CHR 0xEB, CHR 0x8D, CHR 0x94] @ '' '' @ [CHR 0xEB, CHR 0xA7, CHR 0x8E, CHR 0xEC, CHR 0x9D, CHR 0x80] @ '' '' @ [CHR 0xEC, CHR 0x96, CHR 0xB8, CHR 0xEC, CHR 0x96, CHR 0xB4]),
      (''language.continue'', [CHR 0xEA, CHR 0xB3, CHR 0x84, CHR 0xEC, CHR 0x86, CHR 0x8D, CHR 0xED, CHR 0x95, CHR 0x98, CHR 0xEA, CHR 0xB8, CHR 0xB0]),
      (''attract.title'', ''Astra''),
      (''attract.touchToBegin'', [CHR 0xED, CHR 0x84, CHR 0xB0, CHR 0xEC, CHR 0xB9, CHR 0x98, CHR 0xED, CHR 0x95, CHR 0x98, CHR 0xEC, CHR 0x97, CHR 0xAC] @ '' '' @ [CHR 0xEC, CHR 0x8B, CHR 0x9C, CHR 0xEC, CHR 0x9E, CHR 0x91]),
      (''attract.laneInfo'', [CHR 0xEC, CHR 0x85, CHR 0x80, CHR 0xED, CHR 0x94, CHR 0x84] @ '' '' @ [CHR 0xEA, CHR 0xB3, CHR 0x84, CHR 0xEC, CHR 0x82, CHR 0xB0, CHR 0xEB, CHR 0x8C, CHR 0x80] @ '' '' @ [CHR 0xE2, CHR 0x80, CHR 0xA2] @ '' '' @ [CHR 0xEB, CHR 0x9D, CHR 0xBC, CHR 0xEC, CHR 0x9D, CHR 0xB8] @ '' {lane}''),
      (''attract.screenReader'', [CHR 0xEC, CHR 0x8B, CHR 0x9C, CHR 0xEC, CHR 0x9E, CHR 0x91] @ '' '' @ [CHR 0xED, CHR 0x99, CHR 0x94, CHR 0xEB, CHR 0xA9, CHR 0xB4, CHR 0xEC, CHR 0x9E, CHR 0x85, CHR 0xEB, CHR 0x8B, CHR 0x88, CHR 0xEB, CHR 0x8B, CHR 0xA4] @ ''. '' @ [CHR 0xED, CHR 0x84, CHR 0xB0, CHR 0xEC, CHR 0xB9, CHR 0x98, CHR 0xED, CHR 0x95, CHR 0x98, CHR 0xEC, CHR 0x97, CHR 0xAC] @ '' '' @ [CHR 0xEC, CHR 0x87, CHR 0xBC, CHR 0xED, CHR 0x95, CHR 0x91, CHR 0xEC, CHR 0x9D, CHR 0x84] @ '' '' @ [CHR 0xEC, CHR 0x8B, CHR 0x9C, CHR 0xEC, CHR 0x9E, CHR 0x91, CHR 0xED, CHR 0x95, CHR 0x98, CHR 0xEC, CHR 0x84, CHR 0xB8, CHR 0xEC, CHR 0x9A, CHR 0x94] @ ''.''),
      (''menu.title'', [CHR 0xEB, CHR 0xA9, CHR 0x94, CHR 0xEB, CHR 0x89, CHR 0xB4]),
      (''menu.search'', [CHR 0xEB, CHR 0xA9, CHR 0x94, CHR 0xEB, CHR 0x89, CHR 0xB4] @ '' '' @ [CHR 0xEA, CHR 0xB2, CHR 0x80, CHR 0xEC, CHR 0x83, CHR 0x89] @ ''...''),
      (''menu.noItems'', [CHR 0xEC, CHR 0x83, CHR 0x81, CHR 0xED, CHR 0x92, CHR 0x88, CHR 0xEC, CHR 0x9D, CHR 0x84] @ '' '' @ [CHR 0xEC, CHR 0xB0, CHR 0xBE, CHR 0xEC, CHR 0x9D, CHR 0x84] @ '' '' @ [CHR 0xEC, CHR 0x88, CHR 0x98] @ '' '' @ [CHR 0xEC, CHR 0x97, CHR 0x86, CHR 0xEC, CHR 0x8A, CHR 0xB5, CHR 0xEB, CHR 0x8B, CHR 0x88, CHR 0xEB, CHR 0x8B, CHR 0xA4]),
      (''menu.backToMenu'', [CHR 0xEB, CHR 0xA9, CHR 0x94, CHR 0xEB, CHR 0x89, CHR 0xB4, CHR 0xEB, CHR 0xA1, CHR 0x9C] @ '' '' @ [CHR 0xEB, CHR 0x8F, CHR 0x8C, CHR 0xEC, CHR 0x95, CHR 0x84, CHR 0xEA, CHR 0xB0, CHR 0x80, CHR 0xEA, CHR 0xB8, CHR 0xB0]),
      (''menu.viewCart'', [CHR 0xEC, CHR 0x9E, CHR 0xA5, CHR 0xEB, CHR 0xB0, CHR 0x94, CHR 0xEA, CHR 0xB5, CHR 0xAC, CHR 0xEB, CHR 0x8B, CHR 0x88] @ '' '' @ [CHR 0xEB, CHR 0xB3, CHR 0xB4, CHR 0xEA, CHR 0xB8, CHR 0xB0] @ '' ({count})''),
      (''menu.itemAdded'', [CHR 0xEC, CHR 0x83, CHR 0x81, CHR 0xED, CHR 0x92, CHR 0x88, CHR 0xEC, CHR 0x9D, CHR 0xB4] @ '' '' @ [CHR 0xEC, CHR 0xB6, CHR 0x94, CHR 0xEA, CHR 0xB0, CHR 0x80, CHR 0xEB, CHR 0x90, CHR 0x98, CHR 0xEC, CHR 0x97, CHR 0x88, CHR 0xEC, CHR 0x8A, CHR 0xB5, CHR 0xEB, CHR 0x8B, CHR 0x88, CHR 0xEB, CHR 0x8B, CHR 0xA4]),
      (''menu.categories.all'', [CHR 0xEC, CHR 0xA0, CHR 0x84, CHR 0xEC, CHR 0xB2, CHR 0xB4]),
      (''item.addToCart'', [CHR 0xEC, CHR 0x9E, CHR 0xA5, CHR 0xEB, CHR 0xB0, CHR 0x94, CHR 0xEA, CHR 0xB5, CHR 0xAC, CHR 0xEB, CHR 0x8B, CHR 0x88, CHR 0xEC, CHR 0x97, CHR 0x90] @ '' '' @ [CHR 0xEB, CHR 0x8B, CHR 0xB4, CHR 0xEA, CHR 0xB8, CHR 0xB0]),
      (''item.quantity'', [CHR 0xEC, CHR 0x88, CHR 0x98, CHR 0xEB, CHR 0x9F, CHR 0x89]),
      (''item.modifiers'', [CHR 0xEB, CHR 0xA7, CHR 0x9E, CHR 0xEC, CHR 0xB6, CHR 0xA4] @ '' '' @ [CHR 0xEC, CHR 0x84, CHR 0xA4, CHR 0xEC, CHR 0xA0, CHR 0x95]),
      (''item.price'', [CHR 0xEA, CHR 0xB0, CHR 0x80, CHR 0xEA, CHR 0xB2, CHR 0xA9]),
      (''item.description'', [CHR 0xEC, CHR 0x84, CHR 0xA4, CHR 0xEB, CHR 0xAA, CHR 0x85]),
      (''cart.title'', [CHR 0xEC, CHR 0x9E, CHR 0xA5, CHR 0xEB, CHR 0xB0, CHR 0x94, CHR 0xEA, CHR 0xB5, CHR 0xAC, CHR 0xEB, CHR 0x8B, CHR 0x88]),
      (''cart.empty'', [CHR 0xEC, CHR 0x9E, CHR 0xA5, CHR 0xEB, CHR 0xB0, CHR 0x94, CHR 0xEA, CHR 0xB5, CHR 0xAC, CHR 0xEB, CHR 0x8B, CHR 0x88, CHR 0xEA, CHR 0xB0, CHR 0x80] @ '' '' @ [CHR 0xEB, CHR 0xB9, CHR 0x84, CHR 0xEC, CHR 0x96, CHR 0xB4] @ '' '' @ [CHR 0xEC, CHR 0x9E, CHR 0x88, CHR 0xEC, CHR 0x8A, CHR 0xB5, CHR 0xEB, CHR 0x8B, CHR 0x88, CHR 0xEB, CHR 0x8B, CHR 0xA4]),
      (''cart.subtotal'', [CHR 0xEC, CHR 0x86, CHR 0x8C, CHR 0xEA, CHR 0xB3, CHR 0x84]),
      (''cart.tax'', [CHR 0xEC, CHR 0x84, CHR 0xB8, CHR 0xEA, CHR 0xB8, CHR 0x88]),
      (''cart.total'', [CHR 0xED, CHR 0x95, CHR 0xA9, CHR 0xEA, CHR 0xB3, CHR 0x84]),
      (''cart.backToMenu'', [CHR 0xEB, CHR 0xA9, CHR 0x94, CHR 0xEB, CHR 0x89, CHR 0xB4, CHR 0xEB, CHR 0xA1, CHR 0x9C] @ '' '' @ [CHR 0xEB, CHR 0x8F, CHR 0x8C, CHR 0xEC, CHR 0x95, CHR 0x84, CHR 0xEA, CHR 0xB0, CHR 0x80, CHR 0xEA, CHR 0xB8, CHR 0xB0]),
      (''cart.proceedToPayment'', [CHR 0xEA, CHR 0xB2, CHR 0xB0, CHR 0xEC, CHR 0xA0, CHR 0x9C, CHR 0xED, CHR 0x95, CHR 0x98, CHR 0xEA, CHR 0xB8, CHR 0xB0]),
      (''cart.removeItem'', [CHR 0xEC, CHR 0x82, CHR 0xAD, CHR 0xEC, CHR 0xA0, CHR 0x9C]),
      (''cart.itemCount'', ''{count}'' @ [CHR 0xEA, CHR 0xB0, CHR 0x9C] @ '' '' @ [CHR 0xEC, CHR 0x83, CHR 0x81, CHR 0xED, CHR 0x92, CHR 0x88]),
      (''cart.summary'', [CHR 0xEC, CHR 0xA3, CHR 0xBC, CHR 0xEB, CHR 0xAC, CHR 0xB8] @ '' '' @ [CHR 0xEC, CHR 0x9A, CHR 0x94, CHR 0xEC, CHR 0x95, CHR 0xBD]),
      (''payment.title'', [CHR 0xEA, CHR 0xB2, CHR 0xB0, CHR 0xEC, CHR 0xA0, CHR 0x9C]),
      (''payment.confirm'', [CHR 0xEA, CHR 0xB2, CHR 0xB0, CHR 0xEC, CHR 0xA0, CHR 0x9C] @ '' '' @ [CHR 0xED, CHR 0x99, CHR 0x95, CHR 0xEC, CHR 0x9D, CHR 0xB8]),
      (''payment.cancel'', [CHR 0xEC, CHR 0xB7, CHR 0xA8, CHR 0xEC, CHR 0x86, CHR 0x8C]),
      (''payment.processing'', [CHR 0xEA, CHR 0xB2, CHR 0xB0, CHR 0xEC, CHR 0xA0, CHR 0x9C] @ '' '' @ [CHR 0xEC, CHR 0xB2, CHR 0x98, CHR 0xEB, CHR 0xA6, CHR 0xAC] @ '' '' @ [CHR 0xEC, CHR 0xA4, CHR 0x91] @ ''...''),
      (''payment.selectMethod'', [CHR 0xEA, CHR 0xB2, CHR 0xB0, CHR 0xEC, CHR 0xA0, CHR 0x9C] @ '' '' @ [CHR 0xEC, CHR 0x88, CHR 0x98, CHR 0xEB, CHR 0x8B, CHR 0xA8] @ '' '' @ [CHR 0xEC, CHR 0x84, CHR 0xA0, CHR 0xED, CHR 0x83, CHR 0x9D]),
      (''payment.card'', [CHR 0xEC, CHR 0xB9, CHR 0xB4, CHR 0xEB, CHR 0x93, CHR 0x9C]),
      (''payment.cash'', [CHR 0xED, CHR 0x98, CHR 0x84, CHR 0xEA, CHR 0xB8, CHR 0x88]),
      (''payment.mobile'', [CHR 0xEB, CHR 0xAA, CHR 0xA8, CHR 0xEB, CHR 0xB0, CHR 0x94, CHR 0xEC, CHR 0x9D, CHR 0xBC] @ '' '' @ [CHR 0xEC, CHR 0xA7, CHR 0x80, CHR 0xEA, CHR 0xB0, CHR 0x91]),
      (''payment.biometric'', [CHR 0xEC, CHR 0x83, CHR 0x9D, CHR 0xEC, CHR 0xB2, CHR 0xB4] @ '' '' @ [CHR 0xEC, CHR 0x9D, CHR 0xB8, CHR 0xEC, CHR 0xA6, CHR 0x9D]),
      (''payment.employeeOverride'', [CHR 0xEC, CHR 0xA7, CHR 0x81, CHR 0xEC, CHR 0x9B, CHR 0x90] @ '' '' @ [CHR 0xEC, CHR 0x8A, CHR 0xB9, CHR 0xEC, CHR 0x9D, CHR 0xB8]),
      (''payment.insertCard'', [CHR 0xEC, CHR 0xB9, CHR 0xB4, CHR 0xEB, CHR 0x93, CHR 0x9C, CHR 0xEB, CHR 0xA5, CHR 0xBC] @ '' '' @ [CHR 0xEC, CHR 0x82, CHR 0xBD, CHR 0xEC, CHR 0x9E, CHR 0x85, CHR 0xED, CHR 0x95, CHR 0x98, CHR 0xEA, CHR 0xB1, CHR 0xB0, CHR 0xEB, CHR 0x82, CHR 0x98] @ '' '' @ [CHR 0xED, CHR 0x84, CHR 0xB0, CHR 0xEC, CHR 0xB9, CHR 0x98, CHR 0xED, CHR 0x95, CHR 0x98, CHR 0xEC, CHR 0x84, CHR 0xB8, CHR 0xEC, CHR 0x9A, CHR 0x94]),
      (''payment.scanQR'', ''QR '' @ [CHR 0xEC, CHR 0xBD, CHR 0x94, CHR 0xEB, CHR 0x93, CHR 0x9C] @ '' '' @ [CHR 0xEC, CHR 0x8A, CHR 0xA4, CHR 0xEC, CHR 0xBA, CHR 0x94]),
      (''payment.tapPhone'', [CHR 0xED, CHR 0x9C, CHR 0xB4, CHR 0xEB, CHR 0x8C, CHR 0x80, CHR 0xED, CHR 0x8F, CHR 0xB0, CHR 0xEC, CHR 0x9D, CHR 0x84] @ '' '' @ [CHR 0xED, CHR 0x84, CHR 0xB0, CHR 0xEC, CHR 0xB9, CHR 0x98, CHR 0xED, CHR 0x95, CHR 0x98, CHR 0xEC, CHR 0x84, CHR 0xB8, CHR 0xEC, CHR 0x9A, CHR 0x94]),
      (''payment.amount'', [CHR 0xEA, CHR 0xB8, CHR 0x88, CHR 0xEC, CHR 0x95, CHR 0xA1]),
      (''processing.title'', [CHR 0xEC, CHR 0xB2, CHR 0x98, CHR 0xEB, CHR 0xA6, CHR 0xAC] @ '' '' @ [CHR 0xEC, CHR 0xA4, CHR 0x91]),
      (''processing.pleaseWait'', [CHR 0xEC, CHR 0x9E, CHR 0xA0, CHR 0xEC, CHR 0x8B, CHR 0x9C] @ '' '' @ [CHR 0xEA, CHR 0xB8, CHR 0xB0, CHR 0xEB, CHR 0x8B, CHR 0xA4, CHR 0xEB, CHR 0xA0, CHR 0xA4] @ '' '' @ [CHR 0xEC, CHR 0xA3, CHR 0xBC, CHR 0xEC, CHR 0x84, CHR 0xB8, CHR 0xEC, CHR 0x9A, CHR 0x94] @ ''...''),
      (''processing.finalizing'', [CHR 0xEC, CHR 0xA3, CHR 0xBC, CHR 0xEB, CHR 0xAC, CHR 0xB8, CHR 0xEC, CHR 0x9D, CHR 0x84] @ '' '' @ [CHR 0xEB, CHR 0xA7, CHR 0x88, CHR 0xEB, CHR 0xAC, CHR 0xB4, CHR 0xEB, CHR 0xA6, CHR 0xAC, CHR 0xED, CHR 0x95, CHR 0x98, CHR 0xEB, CHR 0x8A, CHR 0x94] @ '' '' @ [CHR 0xEC, CHR 0xA4, CHR 0x91]),
      (''processing.redirecting'', [CHR 0xEC, CHR 0x98, CHR 0x81, CHR 0xEC, CHR 0x88, CHR 0x98, CHR 0xEC, CHR 0xA6, CHR 0x9D, CHR 0xEC, CHR 0x9C, CHR 0xBC, CHR 0xEB, CHR 0xA1, CHR 0x9C] @ '' '' @ [CHR 0xEC, CHR 0x9D, CHR 0xB4, CHR 0xEB, CHR 0x8F, CHR 0x99] @ '' '' @ [CHR 0xEC, CHR 0xA4, CHR 0x91]),
      (''receipt.title'', [CHR 0xEA, CHR 0xB0, CHR 0x90, CHR 0xEC, CHR 0x82, CHR 0xAC, CHR 0xED, CHR 0x95, CHR 0xA9, CHR 0xEB, CHR 0x8B, CHR 0x88, CHR 0xEB, CHR 0x8B, CHR 0xA4]),
      (''receipt.orderNumber'', [CHR 0xEC, CHR 0xA3, CHR 0xBC, CHR 0xEB, CHR 0xAC, CHR 0xB8] @ '' #{number}''),
      (''receipt.print'', [CHR 0xEC, CHR 0x98, CHR 0x81, CHR 0xEC, CHR 0x88, CHR 0x98, CHR 0xEC, CHR 0xA6, CHR 0x9D] @ '' '' @ [CHR 0xEC, CHR 0x9D, CHR 0xB8, CHR 0xEC, CHR 0x87, CHR 0x84]),
      (''receipt.email'', [CHR 0xEC, CHR 0x9D, CHR 0xB4, CHR 0xEB, CHR 0xA9, CHR 0x94, CHR 0xEC, CHR 0x9D, CHR 0xBC, CHR 0xEB, CHR 0xA1, CHR 0x9C] @ '' '' @ [CHR 0xEB, CHR 0xB0, CHR 0x9B, CHR 0xEA, CHR 0xB8, CHR 0xB0]),
      (''receipt.startNew'', [CHR 0xEC, CHR 0x83, CHR 0x88] @ '' '' @ [CHR 0xEC, CHR 0xA3, CHR 0xBC, CHR 0xEB, CHR 0xAC, CHR 0xB8] @ '' '' @ [CHR 0xEC, CHR 0x8B, CHR 0x9C, CHR 0xEC, CHR 0x9E, CHR 0x91]),
      (''receipt.thankYouMessage'', [CHR 0xEA, CHR 0xB5, CHR 0xAC, CHR 0xEB, CHR 0xA7, CHR 0xA4, CHR 0xED, CHR 0x95, CHR 0xB4] @ '' '' @ [CHR 0xEC, CHR 0xA3, CHR 0xBC, CHR 0xEC, CHR 0x85, CHR 0x94, CHR 0xEC, CHR 0x84, CHR 0x9C] @ '' '' @ [CHR 0xEA, CHR 0xB0, CHR 0x90, CHR 0xEC, CHR 0x82, CHR 0xAC, CHR 0xED, CHR 0x95, CHR 0xA9, CHR 0xEB, CHR 0x8B, CHR 0x88, CHR 0xEB, CHR 0x8B, CHR 0xA4] @ ''!''),
      (''status.offline'', [CHR 0xEC, CHR 0x98, CHR 0xA4, CHR 0xED, CHR 0x94, CHR 0x84, CHR 0xEB, CHR 0x9D, CHR 0xBC, CHR 0xEC, CHR 0x9D, CHR 0xB8]),
      (''status.online'', [CHR 0xEC, CHR 0x98, CHR 0xA8, CHR 0xEB, CHR 0x9D, CHR 0xBC, CHR 0xEC, CHR 0x9D, CHR 0xB8]),
      (''status.connecting'', [CHR 0xEC, CHR 0x97, CHR 0xB0, CHR 0xEA, CHR 0xB2, CHR 0xB0] @ '' '' @ [CHR 0xEC, CHR 0xA4, CHR 0x91] @ ''...''),
      (''status.network'', [CHR 0xEB, CHR 0x84, CHR 0xA4, CHR 0xED, CHR 0x8A, CHR 0xB8, CHR 0xEC, CHR 0x9B, CHR 0x8C, CHR 0xED, CHR 0x81, CHR 0xAC]),
      (''idle.warning'', [CHR 0xEC, CHR 0x95, CHR 0x84, CHR 0xEC, CHR 0xA7, CHR 0x81] @ '' '' @ [CHR 0xEC, CHR 0x87, CHR 0xBC, CHR 0xED, CHR 0x95, CHR 0x91] @ '' '' @ [CHR 0xEC, CHR 0xA4, CHR 0x91, CHR 0xEC, CHR 0x9D, CHR 0xB4, CHR 0xEC, CHR 0x8B, CHR 0xA0, CHR 0xEA, CHR 0xB0, CHR 0x80, CHR 0xEC, CHR 0x9A, CHR 0x94] @ ''?''),
      (''idle.continue'', [CHR 0xEA, CHR 0xB3, CHR 0x84, CHR 0xEC, CHR 0x86, CHR 0x8D]),
      (''idle.endSession'', [CHR 0xEC, CHR 0x84, CHR 0xB8, CHR 0xEC, CHR 0x85, CHR 0x98] @ '' '' @ [CHR 0xEC, CHR 0xA2, CHR 0x85, CHR 0xEB, CHR 0xA3, CHR 0x8C]),
      (''idle.timeoutWarning'', [CHR 0xEC, CHR 0x9D, CHR 0xBC, CHR 0xEC, CHR 0xA0, CHR 0x95] @ '' '' @ [CHR 0xEC, CHR 0x8B, CHR 0x9C, CHR 0xEA, CHR 0xB0, CHR 0x84] @ '' '' @ [CHR 0xEC, CHR 0x82, CHR 0xAC, CHR 0xEC, CHR 0x9A, CHR 0xA9, CHR 0xED, CHR 0x95, CHR 0x98, CHR 0xEC, CHR 0xA7, CHR 0x80] @ '' '' @ [CHR 0xEC, CHR 0x95, CHR 0x8A, CHR 0xEC, CHR 0x95, CHR 0x84] @ '' '' @ [CHR 0xEC, CHR 0x84, CHR 0xB8, CHR 0xEC, CHR 0x85, CHR 0x98, CHR 0xEC, CHR 0x9D, CHR 0xB4] @ '' '' @ [CHR 0xEA, CHR 0xB3, CHR 0xA7] @ '' '' @ [CHR 0xEC, CHR 0xA2, CHR 0x85, CHR 0xEB, CHR 0xA3, CHR 0x8C, CHR 0xEB, CHR 0x90, CHR 0xA9, CHR 0xEB, CHR 0x8B, CHR 0x88, CHR 0xEB, CHR 0x8B, CHR 0xA4] @ ''.''),
      (''offline.banner'', [CHR 0xEC, CHR 0x98, CHR 0xA4, CHR 0xED, CHR 0x94, CHR 0x84, CHR 0xEB, CHR 0x9D, CHR 0xBC, CHR 0xEC, CHR 0x9D, CHR 0xB8] @ '' '' @ [CHR 0xEC, CHR 0x83, CHR 0x81, CHR 0xED, CHR 0x83, CHR 0x9C, CHR 0xEC, CHR 0x9E, CHR 0x85, CHR 0xEB, CHR 0x8B, CHR 0x88, CHR 0xEB, CHR 0x8B, CHR 0xA4] @ ''. '' @ [CHR 0xEC, CHR 0x9D, CHR 0xBC, CHR 0xEB, CHR 0xB6, CHR 0x80] @ '' '' @ [CHR 0xEA, CHR 0xB8, CHR 0xB0, CHR 0xEB, CHR 0x8A, CHR 0xA5, CHR 0xEC, CHR 0x9D, CHR 0x84] @ '' '' @ [CHR 0xEC, CHR 0x82, CHR 0xAC, CHR 0xEC, CHR 0x9A, CHR 0xA9, CHR 0xED, CHR 0x95, CHR 0xA0] @ '' '' @ [CHR 0xEC, CHR 0x88, CHR 0x98] @ '' '' @ [CHR 0xEC, CHR 0x97, CHR 0x86, CHR 0xEC, CHR 0x8A, CHR 0xB5, CHR 0xEB, CHR 0x8B, CHR 0x88, CHR 0xEB, CHR 0x8B, CHR 0xA4] @ ''.''),
      (''offline.reconnecting'', [CHR 0xEC, CHR 0x9E, CHR 0xAC, CHR 0xEC, CHR 0x97, CHR 0xB0, CHR 0xEA, CHR 0xB2, CHR 0xB0] @ '' '' @ [CHR 0xEC, CHR 0xA4, CHR 0x91] @ ''...''),
      (''offline.longOffline'', [CHR 0xEC, CHR 0x9E, CHR 0xA5, CHR 0xEC, CHR 0x8B, CHR 0x9C, CHR 0xEA, CHR 0xB0, CHR 0x84] @ '' '' @ [CHR 0xEB, CHR 0x84, CHR 0xA4, CHR 0xED, CHR 0x8A, CHR 0xB8, CHR 0xEC, CHR 0x9B, CHR 0x8C, CHR 0xED, CHR 0x81, CHR 0xAC, CHR 0xEC, CHR 0x97, CHR 0x90] @ '' '' @ [CHR 0xEC, CHR 0x97, CHR 0xB0, CHR 0xEA, CHR 0xB2, CHR 0xB0, CHR 0xEB, CHR 0x90, CHR 0x98, CHR 0xEC, CHR 0xA7, CHR 0x80] @ '' '' @ [CHR 0xEC, CHR 0x95, CHR 0x8A, CHR 0xEC, CHR 0x95, CHR 0x98, CHR 0xEC, CHR 0x8A, CHR 0xB5, CHR 0xEB, CHR 0x8B, CHR 0x88, CHR 0xEB, CHR 0x8B, CHR 0xA4] @ ''.''),
      (''error.generic'', [CHR 0xEB, CHR 0xAC, CHR 0xB8, CHR 0xEC, CHR 0xA0, CHR 0x9C, CHR 0xEA, CHR 0xB0, CHR 0x80] @ '' '' @ [CHR 0xEB, CHR 0xB0, CHR 0x9C, CHR 0xEC, CHR 0x83, CHR 0x9D, CHR 0xED, CHR 0x96, CHR 0x88, CHR 0xEC, CHR 0x8A, CHR 0xB5, CHR 0xEB, CHR 0x8B, CHR 0x88, CHR 0xEB, CHR 0x8B, CHR 0xA4]),
      (''error.restart'', [CHR 0xED, CHR 0x82, CHR 0xA4, CHR 0xEC, CHR 0x98, CHR 0xA4, CHR 0xEC, CHR 0x8A, CHR 0xA4, CHR 0xED, CHR 0x81, CHR 0xAC] @ '' '' @ [CHR 0xEB, CHR 0x8B, CHR 0xA4, CHR 0xEC, CHR 0x8B, CHR 0x9C] @ '' '' @ [CHR 0xEC, CHR 0x8B, CHR 0x9C, CHR 0xEC, CHR 0x9E, CHR 0x91]),
      (''error.retry'', [CHR 0xEC, CHR 0x9E, CHR 0xAC, CHR 0xEC, CHR 0x8B, CHR 0x9C, CHR 0xEB, CHR 0x8F, CHR 0x84]),
      (''error.paymentDeclined'', [CHR 0xEA, CHR 0xB2, CHR 0xB0, CHR 0xEC, CHR 0xA0, CHR 0x9C, CHR 0xEA, CHR 0xB0, CHR 0x80] @ '' '' @ [CHR 0xEA, CHR 0xB1, CHR 0xB0, CHR 0xEB, CHR 0xB6, CHR 0x80, CHR 0xEB, CHR 0x90, CHR 0x98, CHR 0xEC, CHR 0x97, CHR 0x88, CHR 0xEC, CHR 0x8A, CHR 0xB5, CHR 0xEB, CHR 0x8B, CHR 0x88, CHR 0xEB, CHR 0x8B, CHR 0xA4] @ ''. '' @ [CHR 0xEB, CHR 0x8B, CHR 0xA4, CHR 0xEB, CHR 0xA5, CHR 0xB8] @ '' '' @ [CHR 0xEB, CHR 0xB0, CHR 0xA9, CHR 0xEB, CHR 0xB2, CHR 0x95, CHR 0xEC, CHR 0x9D, CHR 0x84] @ '' '' @ [CHR 0xEC, CHR 0x8B, CHR 0x9C, CHR 0xEB, CHR 0x8F, CHR 0x84, CHR 0xED, CHR 0x95, CHR 0xB4] @ '' '' @ [CHR 0xEB, CHR 0xB3, CHR 0xB4, CHR 0xEC, CHR 0x84, CHR 0xB8, CHR 0xEC, CHR 0x9A, CHR 0x94] @ ''.''),
      (''error.paymentFailed'', [CHR 0xEA, CHR 0xB2, CHR 0xB0, CHR 0xEC, CHR 0xA0, CHR 0x9C, CHR 0xEC, CHR 0x97, CHR 0x90] @ '' '' @ [CHR 0xEC, CHR 0x8B, CHR 0xA4, CHR 0xED, CHR 0x8C, CHR 0xA8, CHR 0xED, CHR 0x96, CHR 0x88, CHR 0xEC, CHR 0x8A, CHR 0xB5, CHR 0xEB, CHR 0x8B, CHR 0x88, CHR 0xEB, CHR 0x8B, CHR 0xA4] @ ''. '' @ [CHR 0xEB, CHR 0x8B, CHR 0xA4, CHR 0xEC, CHR 0x8B, CHR 0x9C] @ '' '' @ [CHR 0xEC, CHR 0x8B, CHR 0x9C, CHR 0xEB, CHR 0x8F, CHR 0x84, CHR 0xED, CHR 0x95, CHR 0xB4] @ '' '' @ [CHR 0xEC, CHR 0xA3, CHR 0xBC, CHR 0xEC, CHR 0x84, CHR 0xB8, CHR 0xEC, CHR 0x9A, CHR 0x94] @ ''.''),
      (''error.sessionExpired'', [CHR 0xEC, CHR 0x84, CHR 0xB8, CHR 0xEC, CHR 0x85, CHR 0x98, CHR 0xEC, CHR 0x9D, CHR 0xB4] @ '' '' @ [CHR 0xEB, CHR 0xA7, CHR 0x8C, CHR 0xEB, CHR 0xA3, CHR 0x8C, CHR 0xEB, CHR 0x90, CHR 0x98, CHR 0xEC, CHR 0x97, CHR 0x88, CHR 0xEC, CHR 0x8A, CHR 0xB5, CHR 0xEB, CHR 0x8B, CHR 0x88, CHR 0xEB, CHR 0x8B, CHR 0xA4] @ ''. '' @ [CHR 0xEB, CHR 0x8B, CHR 0xA4, CHR 0xEC, CHR 0x8B, CHR 0x9C] @ '' '' @ [CHR 0xEC, CHR 0x8B, CHR 0x9C, CHR 0xEC, CHR 0x9E, CHR 0x91, CHR 0xED, CHR 0x95, CHR 0xB4] @ '' '' @ [CHR 0xEC, CHR 0xA3, CHR 0xBC, CHR 0xEC, CHR 0x84, CHR 0xB8, CHR 0xEC, CHR 0x9A, CHR 0x94] @ ''.''),
      (''error.connectionLost'', [CHR 0xEC, CHR 0x97, CHR 0xB0, CHR 0xEA, CHR 0xB2, CHR 0xB0, CHR 0xEC, CHR 0x9D, CHR 0xB4] @ '' '' @ [CHR 0xEB, CHR 0x81, CHR 0x8A, CHR 0xEC, CHR 0x96, CHR 0xB4, CHR 0xEC, CHR 0xA1, CHR 0x8C, CHR 0xEC, CHR 0x8A, CHR 0xB5, CHR 0xEB, CHR 0x8B, CHR 0x88, CHR 0xEB, CHR 0x8B, CHR 0xA4] @ ''. '' @ [CHR 0xEB, CHR 0x84, CHR 0xA4, CHR 0xED, CHR 0x8A, CHR 0xB8, CHR 0xEC, CHR 0x9B, CHR 0x8C, CHR 0xED, CHR 0x81, CHR 0xAC, CHR 0xEB, CHR 0xA5, CHR 0xBC] @ '' '' @ [CHR 0xED, CHR 0x99, CHR 0x95, CHR 0xEC, CHR 0x9D, CHR 0xB8, CHR 0xED, CHR 0x95, CHR 0x98, CHR 0xEB, CHR 0x8A, CHR 0x94] @ '' '' @ [CHR 0xEC, CHR 0xA4, CHR 0x91] @ ''...''),
      (''admin.title'', [CHR 0xEA, CHR 0xB4, CHR 0x80, CHR 0xEB, CHR 0xA6, CHR 0xAC] @ '' '' @ [CHR 0xED, CHR 0x8C, CHR 0xA8, CHR 0xEB, CHR 0x84, CHR 0x90]),
      (''admin.close'', [CHR 0xEB, CHR 0x8B, CHR 0xAB, CHR 0xEA, CHR 0xB8, CHR 0xB0]),
      (''admin.dashboard'', [CHR 0xEB, CHR 0x8C, CHR 0x80, CHR 0xEC, CHR 0x8B, CHR 0x9C, CHR 0xEB, CHR 0xB3, CHR 0xB4, CHR 0xEB, CHR 0x93, CHR 0x9C]),
      (''general.confirm'', [CHR 0xED, CHR 0x99, CHR 0x95, CHR 0xEC, CHR 0x9D, CHR 0xB8]),
      (''general.cancel'', [CHR 0xEC, CHR 0xB7, CHR 0xA8, CHR 0xEC, CHR 0x86, CHR 0x8C]),
      (''general.back'', [CHR 0xEB, CHR 0x92, CHR 0xA4, CHR 0xEB, CHR 0xA1, CHR 0x9C]),
      (''general.next'', [CHR 0xEB, CHR 0x8B, CHR 0xA4, CHR 0xEC, CHR 0x9D, CHR 0x8C]),
      (''general.done'', [CHR 0xEC, CHR 0x99, CHR 0x84, CHR 0xEB, CHR 0xA3, CHR 0x8C]),
      (''general.loading'', [CHR 0xEB, CHR 0xA1, CHR 0x9C, CHR 0xEB, CHR 0x94, CHR 0xA9] @ '' '' @ [CHR 0xEC, CHR 0xA4, CHR 0x91] @ ''...''),
      (''general.save'', [CHR 0xEC, CHR 0xA0, CHR 0x80, CHR 0xEC, CHR 0x9E, CHR 0xA5]),
      (''general.delete'', [CHR 0xEC, CHR 0x82, CHR 0xAD, CHR 0xEC, CHR 0xA0, CHR 0x9C]),
      (''general.edit'', [CHR 0xED, CHR 0x8E, CHR 0xB8, CHR 0xEC, CHR 0xA7, CHR 0x91]),
      (''general.search'', [CHR 0xEA, CHR 0xB2, CHR 0x80, CHR 0xEC, CHR 0x83, CHR 0x89]),
      (''general.close'', [CHR 0xEB, CHR 0x8B, CHR 0xAB, CHR 0xEA, CHR 0xB8, CHR 0xB0]),
      (''general.yes'', [CHR 0xEC, CHR 0x98, CHR 0x88]),
      (''general.no'', [CHR 0xEC, CHR 0x95, CHR 0x84, CHR 0xEB, CHR 0x8B, CHR 0x88, CHR 0xEC, CHR 0x9A, CHR 0x94]),
      (''a11y.closeModal'', [CHR 0xEB, CHR 0xAA, CHR 0xA8, CHR 0xEB, CHR 0x8B, CHR 0xAC] @ '' '' @ [CHR 0xEB, CHR 0x8B, CHR 0xAB, CHR 0xEA, CHR 0xB8, CHR 0xB0]),
      (''a11y.navigateBack'', [CHR 0xEB, CHR 0x92, CHR 0xA4, CHR 0xEB, CHR 0xA1, CHR 0x9C] @ '' '' @ [CHR 0xEA, CHR 0xB0, CHR 0x80, CHR 0xEA, CHR 0xB8, CHR 0xB0]),
      (''menu.noItemsHint'', ''Try a different search term or check all categories''),
      (''menu.categoriesLabel'', ''Menu categories''),
      (''menu.categories.mains'', ''Mains''),
      (''menu.categories.drinks'', ''Drinks''),
      (''menu.clearSearch'', ''Clear search''),
      (''menu.itemsInCart'', ''{count} items in cart'')]"

definition texts_ko_2 :: TranslationMap where
  "texts_ko_2 =
     [(''item.included'', ''Included''),
      (''item.chooseCount'', ''Choose {count}''),
      (''item.chooseRange'', ''Choose {min}-{max}''),
      (''item.closeLabel'', ''Close item details''),
      (''item.decreaseQuantity'', ''Decrease quantity''),
      (''item.increaseQuantity'', ''Increase quantity''),
      (''item.quantityLabel'', ''Quantity: {count}''),
      (''item.addToCartLabel'', ''Add {name} to cart '' @ [CHR 0xE2, CHR 0x80, CHR 0x94] @ '' {amount}''),
      (''item.priceAddition'', ''+{amount}''),
      (''item.customizeLabel'', ''Customize {name}''),
      (''cart.itemSingular'', ''{count} item''),
      (''cart.tapToEdit'', ''Tap an item to edit''),
      (''cart.itemsLabel'', ''Cart items''),
      (''cart.pay'', ''Pay {amount}''),
      (''cart.editItem'', ''Edit {name}. Quantity: {quantity}. Price: {amount}''),
      (''cart.decreaseQuantity'', ''Decrease quantity of {name}''),
      (''cart.increaseQuantity'', ''Increase quantity of {name}''),
      (''cart.quantityLabel'', ''Quantity: {count}''),
      (''cart.priceLabel'', ''Price: {amount}''),
      (''payment.cardNfc'', ''Card / NFC''),
      (''payment.qrCode'', ''QR Code''),
      (''payment.verifyToComplete'', ''Verify to complete''),
      (''payment.pinPadInstruction'', ''Please use the PIN pad or present your card to the terminal.''),
      (''payment.terminalStatus'', ''Terminal: {status}''),
      (''payment.authorizing'', ''Authorizing...''),
      (''payment.authorize'', ''Authorize''),
      (''payment.authorized'', ''Authorized''),
      (''payment.connected'', ''Connected''),
      (''payment.cartSummary'', ''Cart summary: {count} items, total {amount}. Tap to {action}.''),
      (''payment.expand'', ''expand''),
      (''payment.collapse'', ''collapse''),
      (''payment.employeeOverrideHint'', ''Employee override. Hold for 3 seconds.''),
      (''payment.cancelPayment'', ''Cancel payment''),
      (''payment.confirmPayment'', ''Pay {amount}''),
      (''processing.connecting'', ''Connecting to terminal...''),
      (''processing.waitingForCard'', ''Waiting for card...''),
      (''processing.authorizing'', ''Authorizing...''),
      (''processing.finalizingStage'', ''Finalizing...''),
      (''processing.default'', ''Processing...''),
      (''processing.terminalStatus'', ''Terminal: {label}''),
      (''processing.orderFailed'', ''Order could not be completed''),
      (''processing.orderFailedMessage'', ''We couldn'' @ [CHR 0x27] @ ''t complete your order. Please try again.''),
      (''processing.retry'', ''Try again''),
      (''processing.cancelReturn'', ''Cancel and return to cart''),
      (''receipt.printing'', ''Printing...''),
      (''receipt.emailSending'', ''Sending...''),
      (''receipt.emailSent'', ''Sent!''),
      (''receipt.printerUnavailable'', ''Printer unavailable. Receipt saved.''),
      (''receipt.srComplete'', ''Order complete. Tap start new order to continue.''),
      (''receipt.srReady'', ''Receipt ready.''),
      (''receipt.printLabel'', ''Print receipt''),
      (''receipt.emailLabel'', ''Email receipt''),
      (''receipt.startNewLabel'', ''Start new order''),
      (''status.synced'', ''Synced''),
      (''status.syncing'', ''Syncing''),
      (''status.p2pStatus'', ''P2P sync status: {label}. Tap for mesh details.''),
      (''status.kioskStatus'', ''Kiosk status''),
      (''status.p2pTitle'', ''P2P mesh sync''),
      (''status.meshDescription'', ''This kiosk shares cart and order state with nearby peers over a local mesh so orders survive network drops.''),
      (''status.connectedPeers'', ''Connected peers''),
      (''status.syncLag'', ''Sync lag''),
      (''status.role'', ''Role''),
      (''status.leader'', ''Leader''),
      (''status.peer'', ''Peer''),
      (''status.thisKiosk'', ''This kiosk''),
      (''status.apiOnline'', ''API online''),
      (''status.apiDegraded'', ''API degraded''),
      (''status.apiOffline'', ''API offline''),
      (''status.networkConnected'', ''Connected to network''),
      (''status.networkDisconnected'', ''No network connection''),
      (''idle.message'', ''Tap below to continue, or this kiosk will reset for the next customer.''),
      (''idle.continueLabel'', ''I am still here''),
      (''idle.endSessionLabel'', ''Start over''),
      (''idle.ariaLabel'', ''Idle timeout warning''),
      (''offline.workingOffline'', ''Working offline. Your cart is secure.''),
      (''offline.dismiss'', ''Dismiss offline notice''),
      (''error.helpMessage'', ''Please ask a staff member for help. We apologise for the inconvenience.''),
      (''admin.kioskStatus'', ''Kiosk Status''),
      (''admin.session'', ''Session''),
      (''admin.laneMode'', ''Lane Mode''),
      (''admin.apiStatus'', ''API Status''),
      (''admin.cartHasItems'', ''Cart Has Items''),
      (''admin.actions'', ''Actions''),
      (''admin.simulateOnline'', ''Simulate Online''),
      (''admin.simulateOffline'', ''Simulate Offline''),
      (''admin.errors'', ''Errors''),
      (''admin.closeLabel'', ''Close admin panel''),
      (''item.modifierSingular'', ''{count} modifier''),
      (''item.modifierPlural'', ''{count} modifiers'')]"

definition texts_ko :: TranslationMap where
  "texts_ko = texts_ko_1 @ texts_ko_2"

definition texts_zh_TW_1 :: TranslationMap where
  "texts_zh_TW_1 =
     [(''language.select'', [CHR 0xE9, CHR 0x81, CHR 0xB8, CHR 0xE6, CHR 0x93, CHR 0x87, CHR 0xE6, CHR 0x82, CHR 0xA8, CHR 0xE7, CHR 0x9A, CHR 0x84, CHR 0xE8, CHR 0xAA, CHR 0x9E, CHR 0xE8, CHR 0xA8, CHR 0x80]),
      (''language.mainLanguages'', [CHR 0xE4, CHR 0xB8, CHR 0xBB, CHR 0xE8, CHR 0xA6, CHR 0x81, CHR 0xE8, CHR 0xAA, CHR 0x9E, CHR 0xE8, CHR 0xA8, CHR 0x80]),
      (''language.moreLanguages'', [CHR 0xE6, CHR 0x9B, CHR 0xB4, CHR 0xE5, CHR 0xA4, CHR 0x9A, CHR 0xE8, CHR 0xAA, CHR 0x9E, CHR 0xE8, CHR 0xA8, CHR 0x80]),
      (''language.continue'', [CHR 0xE7, CHR 0xB9, CHR 0xBC, CHR 0xE7, CHR 0xBA, CHR 0x8C]),
      (''attract.title'', ''Astra''),
      (''attract.touchToBegin'', [CHR 0xE8, CHR 0xA7, CHR 0xB8, CHR 0xE7, CHR 0xA2, CHR 0xB0, CHR 0xE9, CHR 0x96, CHR 0x8B, CHR 0xE5, CHR 0xA7, CHR 0x8B]),
      (''attract.laneInfo'', [CHR 0xE8, CHR 0x87, CHR 0xAA, CHR 0xE5, CHR 0x8A, CHR 0xA9, CHR 0xE7, CHR 0xB5, CHR 0x90, CHR 0xE5, CHR 0xB8, CHR 0xB3] @ '' '' @ [CHR 0xE2, CHR 0x80, CHR 0xA2] @ '' '' @ [CHR 0xE9, CHR 0x80, CHR 0x9A, CHR 0xE9, CHR 0x81, CHR 0x93] @ '' {lane}''),
      (''attract.screenReader'', [CHR 0xE6, CHR 0xAD, CHR 0xA1, CHR 0xE8, CHR 0xBF, CHR 0x8E, CHR 0xE7, CHR 0x95, CHR 0xAB, CHR 0xE9, CHR 0x9D, CHR 0xA2, CHR 0xE3, CHR 0x80, CHR 0x82, CHR 0xE8, CHR 0xA7, CHR 0xB8, CHR 0xE7, CHR 0xA2, CHR 0xB0, CHR 0xE9, CHR 0x96, CHR 0x8B, CHR 0xE5, CHR 0xA7, CHR 0x8B, CHR 0xE8, CHR 0xB3, CHR 0xBC, CHR 0xE7, CHR 0x89, CHR 0xA9, CHR 0xE3, CHR 0x80, CHR 0x82]),
      (''menu.title'', [CHR 0xE8, CHR 0x8F, CHR 0x9C, CHR 0xE5, CHR 0x96, CHR 0xAE]),
      (''menu.search'', [CHR 0xE6, CHR 0x90, CHR 0x9C, CHR 0xE5, CHR 0xB0, CHR 0x8B, CHR 0xE8, CHR 0x8F, CHR 0x9C, CHR 0xE5, CHR 0x96, CHR 0xAE] @ ''...''),
      (''menu.noItems'', [CHR 0xE6, CHR 0x89, CHR 0xBE, CHR 0xE4, CHR 0xB8, CHR 0x8D, CHR 0xE5, CHR 0x88, CHR 0xB0, CHR 0xE5, CHR 0x95, CHR 0x86, CHR 0xE5, CHR 0x93, CHR 0x81]),
      (''menu.backToMenu'', [CHR 0xE8, CHR 0xBF, CHR 0x94, CHR 0xE5, CHR 0x9B, CHR 0x9E, CHR 0xE8, CHR 0x8F, CHR 0x9C, CHR 0xE5, CHR 0x96, CHR 0xAE]),
      (''menu.viewCart'', [CHR 0xE6, CHR 0x9F, CHR 0xA5, CHR 0xE7, CHR 0x9C, CHR 0x8B, CHR 0xE8, CHR 0xB3, CHR 0xBC, CHR 0xE7, CHR 0x89, CHR 0xA9, CHR 0xE8, CHR 0xBB, CHR 0x8A] @ '' ({count})''),
      (''menu.itemAdded'', [CHR 0xE5, CHR 0x95, CHR 0x86, CHR 0xE5, CHR 0x93, CHR 0x81, CHR 0xE5, CHR 0xB7, CHR 0xB2, CHR 0xE5, CHR 0x8A, CHR 0xA0, CHR 0xE5, CHR 0x85, CHR 0xA5]),
      (''menu.categories.all'', [CHR 0xE5, CHR 0x85, CHR 0xA8, CHR 0xE9, CHR 0x83, CHR 0xA8]),
      (''item.addToCart'', [CHR 0xE5, CHR 0x8A, CHR 0xA0, CHR 0xE5, CHR 0x85, CHR 0xA5, CHR 0xE8, CHR 0xB3, CHR 0xBC, CHR 0xE7, CHR 0x89, CHR 0xA9, CHR 0xE8, CHR 0xBB, CHR 0x8A]),
      (''item.quantity'', [CHR 0xE6, CHR 0x95, CHR 0xB8, CHR 0xE9, CHR 0x87, CHR 0x8F]),
      (''item.modifiers'', [CHR 0xE8, CHR 0x87, CHR 0xAA, CHR 0xE8, CHR 0xA8, CHR 0x82]),
      (''item.price'', [CHR 0xE5, CHR 0x83, CHR 0xB9, CHR 0xE6, CHR 0xA0, CHR 0xBC]),
      (''item.description'', [CHR 0xE6, CHR 0x8F, CHR 0x8F, CHR 0xE8, CHR 0xBF, CHR 0xB0]),
      (''cart.title'', [CHR 0xE6, CHR 0x82, CHR 0xA8, CHR 0xE7, CHR 0x9A, CHR 0x84, CHR 0xE8, CHR 0xB3, CHR 0xBC, CHR 0xE7, CHR 0x89, CHR 0xA9, CHR 0xE8, CHR 0xBB, CHR 0x8A]),
      (''cart.empty'', [CHR 0xE8, CHR 0xB3, CHR 0xBC, CHR 0xE7, CHR 0x89, CHR 0xA9, CHR 0xE8, CHR 0xBB, CHR 0x8A, CHR 0xE6, CHR 0x98, CHR 0xAF, CHR 0xE7, CHR 0xA9, CHR 0xBA, CHR 0xE7, CHR 0x9A, CHR 0x84]),
      (''cart.subtotal'', [CHR 0xE5, CHR 0xB0, CHR 0x8F, CHR 0xE8, CHR 0xA8, CHR 0x88]),
      (''cart.tax'', [CHR 0xE7, CHR 0xA8, CHR 0x85, CHR 0xE8, CHR 0xB2, CHR 0xBB]),
      (''cart.total'', [CHR 0xE7, CHR 0xB8, CHR 0xBD, CHR 0xE8, CHR 0xA8, CHR 0x88]),
      (''cart.backToMenu'', [CHR 0xE8, CHR 0xBF, CHR 0x94, CHR 0xE5, CHR 0x9B, CHR 0x9E, CHR 0xE8, CHR 0x8F, CHR 0x9C, CHR 0xE5, CHR 0x96, CHR 0xAE]),
      (''cart.proceedToPayment'', [CHR 0xE6, CHR 0xBA, CHR 0x96, CHR 0xE5, CHR 0x82, CHR 0x99, CHR 0xE4, CHR 0xBB, CHR 0x98, CHR 0xE6, CHR 0xAC, CHR 0xBE]),
      (''cart.removeItem'', [CHR 0xE7, CHR 0xA7, CHR 0xBB, CHR 0xE9, CHR 0x99, CHR 0xA4]),
      (''cart.itemCount'', ''{count} '' @ [CHR 0xE4, CHR 0xBB, CHR 0xB6, CHR 0xE5, CHR 0x95, CHR 0x86, CHR 0xE5, CHR 0x93, CHR 0x81]),
      (''cart.summary'', [CHR 0xE8, CHR 0xA8, CHR 0x82, CHR 0xE5, CHR 0x96, CHR 0xAE, CHR 0xE6, CHR 0x91, CHR 0x98, CHR 0xE8, CHR 0xA6, CHR 0x81]),
      (''payment.title'', [CHR 0xE4, CHR 0xBB, CHR 0x98, CHR 0xE6, CHR 0xAC, CHR 0xBE]),
      (''payment.confirm'', [CHR 0xE7, CHR 0xA2, CHR 0xBA, CHR 0xE8, CHR 0xAA, CHR 0x8D, CHR 0xE4, CHR 0xBB, CHR 0x98, CHR 0xE6, CHR 0xAC, CHR 0xBE]),
      (''payment.cancel'', [CHR 0xE5, CHR 0x8F, CHR 0x96, CHR 0xE6, CHR 0xB6, CHR 0x88]),
      (''payment.processing'', [CHR 0xE8, CHR 0x99, CHR 0x95, CHR 0xE7, CHR 0x90, CHR 0x86, CHR 0xE4, CHR 0xBB, CHR 0x98, CHR 0xE6, CHR 0xAC, CHR 0xBE, CHR 0xE4, CHR 0xB8, CHR 0xAD] @ ''...''),
      (''payment.selectMethod'', [CHR 0xE9, CHR 0x81, CHR 0xB8, CHR 0xE6, CHR 0x93, CHR 0x87, CHR 0xE4, CHR 0xBB, CHR 0x98, CHR 0xE6, CHR 0xAC, CHR 0xBE, CHR 0xE6, CHR 0x96, CHR 0xB9, CHR 0xE5, CHR 0xBC, CHR 0x8F]),
      (''payment.card'', [CHR 0xE4, CHR 0xBF, CHR 0xA1, CHR 0xE7, CHR 0x94, CHR 0xA8, CHR 0xE5, CHR 0x8D, CHR 0xA1]),
      (''payment.cash'', [CHR 0xE7, CHR 0x8F, CHR 0xBE, CHR 0xE9, CHR 0x87, CHR 0x91]),
      (''payment.mobile'', [CHR 0xE8, CHR 0xA1, CHR 0x8C, CHR 0xE5, CHR 0x8B, CHR 0x95, CHR 0xE9, CHR 0x8C, CHR 0xA2, CHR 0xE5, CHR 0x8C, CHR 0x85]),
      (''payment.biometric'', [CHR 0xE7, CHR 0x94, CHR 0x9F, CHR 0xE7, CHR 0x89, CHR 0xA9, CHR 0xE8, CHR 0xBE, CHR 0xA8, CHR 0xE8, CHR 0xAD, CHR 0x98]),
      (''payment.employeeOverride'', [CHR 0xE5, CHR 0x93, CHR 0xA1, CHR 0xE5, CHR 0xB7, CHR 0xA5, CHR 0xE6, CHR 0x8E, CHR 0x88, CHR 0xE6, CHR 0xAC, CHR 0x8A]),
      (''payment.insertCard'', [CHR 0xE6, CHR 0x8F, CHR 0x92, CHR 0xE5, CHR 0x85, CHR 0xA5, CHR 0xE6, CHR 0x88, CHR 0x96, CHR 0xE8, CHR 0xBC, CHR 0x95, CHR 0xE8, CHR 0xA7, CHR 0xB8, CHR 0xE5, CHR 0x8D, CHR 0xA1, CHR 0xE7, CHR 0x89, CHR 0x87]),
      (''payment.scanQR'', [CHR 0xE6, CHR 0x8E, CHR 0x83, CHR 0xE6, CHR 0x8F, CHR 0x8F] @ '' QR '' @ [CHR 0xE7, CHR 0xA2, CHR 0xBC]),
      (''payment.tapPhone'', [CHR 0xE8, CHR 0xBC, CHR 0x95, CHR 0xE8, CHR 0xA7, CHR 0xB8, CHR 0xE6, CHR 0x82, CHR 0xA8, CHR 0xE7, CHR 0x9A, CHR 0x84, CHR 0xE6, CHR 0x89, CHR 0x8B, CHR 0xE6, CHR 0xA9, CHR 0x9F]),
      (''payment.amount'', [CHR 0xE9, CHR 0x87, CHR 0x91, CHR 0xE9, CHR 0xA1, CHR 0x8D]),
      (''processing.title'', [CHR 0xE8, CHR 0x99, CHR 0x95, CHR 0xE7, CHR 0x90, CHR 0x86, CHR 0xE4, CHR 0xB8, CHR 0xAD]),
      (''processing.pleaseWait'', [CHR 0xE8, CHR 0xAB, CHR 0x8B, CHR 0xE7, CHR 0xA8, CHR 0x8D, CHR 0xE5, CHR 0x80, CHR 0x99] @ ''...''),
      (''processing.finalizing'', [CHR 0xE6, CHR 0xAD, CHR 0xA3, CHR 0xE5, CHR 0x9C, CHR 0xA8, CHR 0xE5, CHR 0xAE, CHR 0x8C, CHR 0xE6, CHR 0x88, CHR 0x90, CHR 0xE6, CHR 0x82, CHR 0xA8, CHR 0xE7, CHR 0x9A, CHR 0x84, CHR 0xE8, CHR 0xA8, CHR 0x82, CHR 0xE5, CHR 0x96, CHR 0xAE]),
      (''processing.redirecting'', [CHR 0xE6, CHR 0xAD, CHR 0xA3, CHR 0xE5, CHR 0x9C, CHR 0xA8, CHR 0xE8, CHR 0xB7, CHR 0xB3, CHR 0xE8, CHR 0xBD, CHR 0x89, CHR 0xE5, CHR 0x88, CHR 0xB0, CHR 0xE6, CHR 0x94, CHR 0xB6, CHR 0xE6, CHR 0x93, CHR 0x9A]),
      (''receipt.title'', [CHR 0xE8, CHR 0xAC, CHR 0x9D, CHR 0xE8, CHR 0xAC, CHR 0x9D]),
      (''receipt.orderNumber'', [CHR 0xE8, CHR 0xA8, CHR 0x82, CHR 0xE5, CHR 0x96, CHR 0xAE] @ '' #{number}''),
      (''receipt.print'', [CHR 0xE5, CHR 0x88, CHR 0x97, CHR 0xE5, CHR 0x8D, CHR 0xB0, CHR 0xE6, CHR 0x94, CHR 0xB6, CHR 0xE6, CHR 0x93, CHR 0x9A]),
      (''receipt.email'', [CHR 0xE5, CHR 0xAF, CHR 0x84, CHR 0xE9, CHR 0x80, CHR 0x81, CHR 0xE6, CHR 0x94, CHR 0xB6, CHR 0xE6, CHR 0x93, CHR 0x9A, CHR 0xE8, CHR 0x87, CHR 0xB3, CHR 0xE9, CHR 0x9B, CHR 0xBB, CHR 0xE5, CHR 0xAD, CHR 0x90, CHR 0xE9, CHR 0x83, CHR 0xB5, CHR 0xE4, CHR 0xBB, CHR 0xB6]),
      (''receipt.startNew'', [CHR 0xE9, CHR 0x96, CHR 0x8B, CHR 0xE5, CHR 0xA7, CHR 0x8B, CHR 0xE6, CHR 0x96, CHR 0xB0, CHR 0xE8, CHR 0xA8, CHR 0x82, CHR 0xE5, CHR 0x96, CHR 0xAE]),
      (''receipt.thankYouMessage'', [CHR 0xE6, CHR 0x84, CHR 0x9F, CHR 0xE8, CHR 0xAC, CHR 0x9D, CHR 0xE6, CHR 0x82, CHR 0xA8, CHR 0xE7, CHR 0x9A, CHR 0x84, CHR 0xE8, CHR 0xB3, CHR 0xBC, CHR 0xE8, CHR 0xB2, CHR 0xB7, CHR 0xEF, CHR 0xBC, CHR 0x81]),
      (''status.offline'', [CHR 0xE9, CHR 0x9B, CHR 0xA2, CHR 0xE7, CHR 0xB7, CHR 0x9A]),
      (''status.online'', [CHR 0xE5, CHR 0x9C, CHR 0xA8, CHR 0xE7, CHR 0xB7, CHR 0x9A]),
      (''status.connecting'', [CHR 0xE9, CHR 0x80, CHR 0xA3, CHR 0xE7, CHR 0xB7, CHR 0x9A, CHR 0xE4, CHR 0xB8, CHR 0xAD] @ ''...''),
      (''status.network'', [CHR 0xE7, CHR 0xB6, CHR 0xB2, CHR 0xE8, CHR 0xB7, CHR 0xAF]),
      (''idle.warning'', [CHR 0xE9, CHR 0x82, CHR 0x84, CHR 0xE5, CHR 0x9C, CHR 0xA8, CHR 0xE8, CHR 0xB3, CHR 0xBC, CHR 0xE7, CHR 0x89, CHR 0xA9, CHR 0xE5, CHR 0x97, CHR 0x8E, CHR 0xEF, CHR 0xBC, CHR 0x9F]),
      (''idle.continue'', [CHR 0xE7, CHR 0xB9, CHR 0xBC, CHR 0xE7, CHR 0xBA, CHR 0x8C]),
      (''idle.endSession'', [CHR 0xE7, CHR 0xB5, CHR 0x90, CHR 0xE6, CHR 0x9D, CHR 0x9F, CHR 0xE6, CHR 0x9C, CHR 0x83, CHR 0xE8, CHR 0xA9, CHR 0xB1]),
      (''idle.timeoutWarning'', [CHR 0xE7, CHR 0x94, CHR 0xB1, CHR 0xE6, CHR 0x96, CHR 0xBC, CHR 0xE9, CHR 0x95, CHR 0xB7, CHR 0xE6, CHR 0x99, CHR 0x82, CHR 0xE9, CHR 0x96, CHR 0x93, CHR 0xE6, CHR 0x9C, CHR 0xAA, CHR 0xE6, CHR 0x93, CHR 0x8D, CHR 0xE4, CHR 0xBD, CHR 0x9C, CHR 0xEF, CHR 0xBC, CHR 0x8C, CHR 0xE6, CHR 0x9C, CHR 0x83, CHR 0xE8, CHR 0xA9, CHR 0xB1, CHR 0xE5, CHR 0x8D, CHR 0xB3, CHR 0xE5, CHR 0xB0, CHR 0x87, CHR 0xE7, CHR 0xB5, CHR 0x90, CHR 0xE6, CHR 0x9D, CHR 0x9F, CHR 0xE3, CHR 0x80, CHR 0x82]),
      (''offline.banner'', [CHR 0xE6, CHR 0x82, CHR 0xA8, CHR 0xE5, CHR 0xB7, CHR 0xB2, CHR 0xE9, CHR 0x9B, CHR 0xA2, CHR 0xE7, CHR 0xB7, CHR 0x9A, CHR 0xE3, CHR 0x80, CHR 0x82, CHR 0xE6, CHR 0x9F, CHR 0x90, CHR 0xE4, CHR 0xBA, CHR 0x9B, CHR 0xE5, CHR 0x8A, CHR 0x9F, CHR 0xE8, CHR 0x83, CHR 0xBD, CHR 0xE5, CHR 0x8F, CHR 0xAF, CHR 0xE8, CHR 0x83, CHR 0xBD, CHR 0xE7, CHR 0x84, CHR 0xA1, CHR 0xE6, CHR 0xB3, CHR 0x95, CHR 0xE4, CHR 0xBD, CHR 0xBF, CHR 0xE7, CHR 0x94, CHR 0xA8, CHR 0xE3, CHR 0x80, CHR 0x82]),
      (''offline.reconnecting'', [CHR 0xE9, CHR 0x87, CHR 0x8D, CHR 0xE6, CHR 0x96, CHR 0xB0, CHR 0xE9, CHR 0x80, CHR 0xA3, CHR 0xE7, CHR 0xB7, CHR 0x9A, CHR 0xE4, CHR 0xB8, CHR 0xAD] @ ''...''),
      (''offline.longOffline'', [CHR 0xE9, CHR 0x95, CHR 0xB7, CHR 0xE6, CHR 0x99, CHR 0x82, CHR 0xE9, CHR 0x96, CHR 0x93, CHR 0xE7, CHR 0x84, CHR 0xA1, CHR 0xE7, CHR 0xB6, CHR 0xB2, CHR 0xE8, CHR 0xB7, CHR 0xAF, CHR 0xE9, CHR 0x80, CHR 0xA3, CHR 0xE7, CHR 0xB7, CHR 0x9A, CHR 0xE3, CHR 0x80, CHR 0x82]),
      (''error.generic'', [CHR 0xE5, CHR 0x87, CHR 0xBA, CHR 0xE4, CHR 0xBA, CHR 0x86, CHR 0xE9, CHR 0xBB, CHR 0x9E, CHR 0xE5, CHR 0x95, CHR 0x8F, CHR 0xE9, CHR 0xA1, CHR 0x8C]),
      (''error.restart'', [CHR 0xE9, CHR 0x87, CHR 0x8D, CHR 0xE6, CHR 0x96, CHR 0xB0, CHR 0xE5, CHR 0x95, CHR 0x9F, CHR 0xE5, CHR 0x8B, CHR 0x95, CHR 0xE8, CHR 0x87, CHR 0xAA, CHR 0xE5, CHR 0x8A, CHR 0xA9, CHR 0xE6, CHR 0xA9, CHR 0x9F]),
      (''error.retry'', [CHR 0xE9, CHR 0x87, CHR 0x8D, CHR 0xE8, CHR 0xA9, CHR 0xA6]),
      (''error.paymentDeclined'', [CHR 0xE4, CHR 0xBB, CHR 0x98, CHR 0xE6, CHR 0xAC, CHR 0xBE, CHR 0xE8, CHR 0xA2, CHR 0xAB, CHR 0xE6, CHR 0x8B, CHR 0x92, CHR 0xE7, CHR 0xB5, CHR 0x95, CHR 0xE3, CHR 0x80, CHR 0x82, CHR 0xE8, CHR 0xAB, CHR 0x8B, CHR 0xE5, CHR 0x98, CHR 0x97, CHR 0xE8, CHR 0xA9, CHR 0xA6, CHR 0xE5, CHR 0x85, CHR 0xB6, CHR 0xE4, CHR 0xBB, CHR 0x96, CHR 0xE6, CHR 0x96, CHR 0xB9, CHR 0xE5, CHR 0xBC, CHR 0x8F, CHR 0xE3, CHR 0x80, CHR 0x82]),
      (''error.paymentFailed'', [CHR 0xE4, CHR 0xBB, CHR 0x98, CHR 0xE6, CHR 0xAC, CHR 0xBE, CHR 0xE5, CHR 0xA4, CHR 0xB1, CHR 0xE6, CHR 0x95, CHR 0x97, CHR 0xE3, CHR 0x80, CHR 0x82, CHR 0xE8, CHR 0xAB, CHR 0x8B, CHR 0xE9, CHR 0x87, CHR 0x8D, CHR 0xE8, CHR 0xA9, CHR 0xA6, CHR 0xE3, CHR 0x80, CHR 0x82]),
      (''error.sessionExpired'', [CHR 0xE6, CHR 0x9C, CHR 0x83, CHR 0xE8, CHR 0xA9, CHR 0xB1, CHR 0xE5, CHR 0xB7, CHR 0xB2, CHR 0xE9, CHR 0x81, CHR 0x8E, CHR 0xE6, CHR 0x9C, CHR 0x9F, CHR 0xE3, CHR 0x80, CHR 0x82, CHR 0xE8, CHR 0xAB, CHR 0x8B, CHR 0xE9, CHR 0x87, CHR 0x8D, CHR 0xE6, CHR 0x96, CHR 0xB0, CHR 0xE9, CHR 0x96, CHR 0x8B, CHR 0xE5, CHR 0xA7, CHR 0x8B, CHR 0xE3, CHR 0x80, CHR 0x82]),
      (''error.connectionLost'', [CHR 0xE9, CHR 0x80, CHR 0xA3, CHR 0xE7, CHR 0xB7, CHR 0x9A, CHR 0xE4, CHR 0xB8, CHR 0xAD, CHR 0xE6, CHR 0x96, CHR 0xB7, CHR 0xE3, CHR 0x80, CHR 0x82, CHR 0xE6, CHR 0xAD, CHR 0xA3, CHR 0xE5, CHR 0x9C, CHR 0xA8, CHR 0xE6, CHR 0xAA, CHR 0xA2, CHR 0xE6, CHR 0x9F, CHR 0xA5, CHR 0xE7, CHR 0xB6, CHR 0xB2, CHR 0xE8, CHR 0xB7, CHR 0xAF] @ ''...''),
      (''admin.title'', [CHR 0xE7, CHR 0xAE, CHR 0xA1, CHR 0xE7, CHR 0x90, CHR 0x86, CHR 0xE9, CHR 0x9D, CHR 0xA2, CHR 0xE6, CHR 0x9D, CHR 0xBF]),
      (''admin.close'', [CHR 0xE9, CHR 0x97, CHR 0x9C, CHR 0xE9, CHR 0x96, CHR 0x89]),
      (''admin.dashboard'', [CHR 0xE5, CHR 0x84, CHR 0x80, CHR 0xE8, CHR 0xA1, CHR 0xA8, CHR 0xE6, CHR 0x9D, CHR 0xBF]),
      (''general.confirm'', [CHR 0xE7, CHR 0xA2, CHR 0xBA, CHR 0xE8, CHR 0xAA, CHR 0x8D]),
      (''general.cancel'', [CHR 0xE5, CHR 0x8F, CHR 0x96, CHR 0xE6, CHR 0xB6, CHR 0x88]),
      (''general.back'', [CHR 0xE8, CHR 0xBF, CHR 0x94, CHR 0xE5, CHR 0x9B, CHR 0x9E]),
      (''general.next'', [CHR 0xE4, CHR 0xB8, CHR 0x8B, CHR 0xE4, CHR 0xB8, CHR 0x80, CHR 0xE6, CHR 0xAD, CHR 0xA5]),
      (''general.done'', [CHR 0xE5, CHR 0xAE, CHR 0x8C, CHR 0xE6, CHR 0x88, CHR 0x90]),
      (''general.loading'', [CHR 0xE8, CHR 0xBC, CHR 0x89, CHR 0xE5, CHR 0x85, CHR 0xA5, CHR 0xE4, CHR 0xB8, CHR 0xAD] @ ''...''),
      (''general.save'', [CHR 0xE5, CHR 0x84, CHR 0xB2, CHR 0xE5, CHR 0xAD, CHR 0x98]),
      (''general.delete'', [CHR 0xE5, CHR 0x88, CHR 0xAA, CHR 0xE9, CHR 0x99, CHR 0xA4]),
      (''general.edit'', [CHR 0xE7, CHR 0xB7, CHR 0xA8, CHR 0xE8, CHR 0xBC, CHR 0xAF]),
      (''general.search'', [CHR 0xE6, CHR 0x90, CHR 0x9C, CHR 0xE5, CHR 0xB0, CHR 0x8B]),
      (''general.close'', [CHR 0xE9, CHR 0x97, CHR 0x9C, CHR 0xE9, CHR 0x96, CHR 0x89]),
      (''general.yes'', [CHR 0xE6, CHR 0x98, CHR 0xAF]),
      (''general.no'', [CHR 0xE5, CHR 0x90, CHR 0xA6]),
      (''a11y.closeModal'', [CHR 0xE9, CHR 0x97, CHR 0x9C, CHR 0xE9, CHR 0x96, CHR 0x89, CHR 0xE5, CHR 0xBD, CHR 0x88, CHR 0xE7, CHR 0xAA, CHR 0x97]),
      (''a11y.navigateBack'', [CHR 0xE8, CHR 0xBF, CHR 0x94, CHR 0xE5, CHR 0x9B, CHR 0x9E, CHR 0xE5, CHR 0xB0, CHR 0x8E, CHR 0xE8, CHR 0x88, CHR 0xAA]),
      (''menu.noItemsHint'', ''Try a different search term or check all categories''),
      (''menu.categoriesLabel'', ''Menu categories''),
      (''menu.categories.mains'', ''Mains''),
      (''menu.categories.drinks'', ''Drinks''),
      (''menu.clearSearch'', ''Clear search''),
      (''menu.itemsInCart'', ''{count} items in cart'')]"

definition texts_zh_TW_2 :: TranslationMap where
  "texts_zh_TW_2 =
     [(''item.included'', ''Included''),
      (''item.chooseCount'', ''Choose {count}''),
      (''item.chooseRange'', ''Choose {min}-{max}''),
      (''item.closeLabel'', ''Close item details''),
      (''item.decreaseQuantity'', ''Decrease quantity''),
      (''item.increaseQuantity'', ''Increase quantity''),
      (''item.quantityLabel'', ''Quantity: {count}''),
      (''item.addToCartLabel'', ''Add {name} to cart '' @ [CHR 0xE2, CHR 0x80, CHR 0x94] @ '' {amount}''),
      (''item.priceAddition'', ''+{amount}''),
      (''item.customizeLabel'', ''Customize {name}''),
      (''cart.itemSingular'', ''{count} item''),
      (''cart.tapToEdit'', ''Tap an item to edit''),
      (''cart.itemsLabel'', ''Cart items''),
      (''cart.pay'', ''Pay {amount}''),
      (''cart.editItem'', ''Edit {name}. Quantity: {quantity}. Price: {amount}''),
      (''cart.decreaseQuantity'', ''Decrease quantity of {name}''),
      (''cart.increaseQuantity'', ''Increase quantity of {name}''),
      (''cart.quantityLabel'', ''Quantity: {count}''),
      (''cart.priceLabel'', ''Price: {amount}''),
      (''payment.cardNfc'', ''Card / NFC''),
      (''payment.qrCode'', ''QR Code''),
      (''payment.verifyToComplete'', ''Verify to complete''),
      (''payment.pinPadInstruction'', ''Please use the PIN pad or present your card to the terminal.''),
      (''payment.terminalStatus'', ''Terminal: {status}''),
      (''payment.authorizing'', ''Authorizing...''),
      (''payment.authorize'', ''Authorize''),
      (''payment.authorized'', ''Authorized''),
      (''payment.connected'', ''Connected''),
      (''payment.cartSummary'', ''Cart summary: {count} items, total {amount}. Tap to {action}.''),
      (''payment.expand'', ''expand''),
      (''payment.collapse'', ''collapse''),
      (''payment.employeeOverrideHint'', ''Employee override. Hold for 3 seconds.''),
      (''payment.cancelPayment'', ''Cancel payment''),
      (''payment.confirmPayment'', ''Pay {amount}''),
      (''processing.connecting'', ''Connecting to terminal...''),
      (''processing.waitingForCard'', ''Waiting for card...''),
      (''processing.authorizing'', ''Authorizing...''),
      (''processing.finalizingStage'', ''Finalizing...''),
      (''processing.default'', ''Processing...''),
      (''processing.terminalStatus'', ''Terminal: {label}''),
      (''processing.orderFailed'', ''Order could not be completed''),
      (''processing.orderFailedMessage'', ''We couldn'' @ [CHR 0x27] @ ''t complete your order. Please try again.''),
      (''processing.retry'', ''Try again''),
      (''processing.cancelReturn'', ''Cancel and return to cart''),
      (''receipt.printing'', ''Printing...''),
      (''receipt.emailSending'', ''Sending...''),
      (''receipt.emailSent'', ''Sent!''),
      (''receipt.printerUnavailable'', ''Printer unavailable. Receipt saved.''),
      (''receipt.srComplete'', ''Order complete. Tap start new order to continue.''),
      (''receipt.srReady'', ''Receipt ready.''),
      (''receipt.printLabel'', ''Print receipt''),
      (''receipt.emailLabel'', ''Email receipt''),
      (''receipt.startNewLabel'', ''Start new order''),
      (''status.synced'', ''Synced''),
      (''status.syncing'', ''Syncing''),
      (''status.p2pStatus'', ''P2P sync status: {label}. Tap for mesh details.''),
      (''status.kioskStatus'', ''Kiosk status''),
      (''status.p2pTitle'', ''P2P mesh sync''),
      (''status.meshDescription'', ''This kiosk shares cart and order state with nearby peers over a local mesh so orders survive network drops.''),
      (''status.connectedPeers'', ''Connected peers''),
      (''status.syncLag'', ''Sync lag''),
      (''status.role'', ''Role''),
      (''status.leader'', ''Leader''),
      (''status.peer'', ''Peer''),
      (''status.thisKiosk'', ''This kiosk''),
      (''status.apiOnline'', ''API online''),
      (''status.apiDegraded'', ''API degraded''),
      (''status.apiOffline'', ''API offline''),
      (''status.networkConnected'', ''Connected to network''),
      (''status.networkDisconnected'', ''No network connection''),
      (''idle.message'', ''Tap below to continue, or this kiosk will reset for the next customer.''),
      (''idle.continueLabel'', ''I am still here''),
      (''idle.endSessionLabel'', ''Start over''),
      (''idle.ariaLabel'', ''Idle timeout warning''),
      (''offline.workingOffline'', ''Working offline. Your cart is secure.''),
      (''offline.dismiss'', ''Dismiss offline notice''),
      (''error.helpMessage'', ''Please ask a staff member for help. We apologise for the inconvenience.''),
      (''admin.kioskStatus'', ''Kiosk Status''),
      (''admin.session'', ''Session''),
      (''admin.laneMode'', ''Lane Mode''),
      (''admin.apiStatus'', ''API Status''),
      (''admin.cartHasItems'', ''Cart Has Items''),
      (''admin.actions'', ''Actions''),
      (''admin.simulateOnline'', ''Simulate Online''),
      (''admin.simulateOffline'', ''Simulate Offline''),
      (''admin.errors'', ''Errors''),
      (''admin.closeLabel'', ''Close admin panel''),
      (''item.modifierSingular'', ''{count} modifier''),
      (''item.modifierPlural'', ''{count} modifiers'')]"

definition texts_zh_TW :: TranslationMap where
  "texts_zh_TW = texts_zh_TW_1 @ texts_zh_TW_2"

definition texts_vi_1 :: TranslationMap where
  "texts_vi_1 =
     [(''language.select'', ''Ch'' @ [CHR 0xE1, CHR 0xBB, CHR 0x8D] @ ''n ng'' @ [CHR 0xC3, CHR 0xB4] @ ''n ng'' @ [CHR 0xE1, CHR 0xBB, CHR 0xAF] @ '' c'' @ [CHR 0xE1, CHR 0xBB, CHR 0xA7] @ ''a b'' @ [CHR 0xE1, CHR 0xBA, CHR 0xA1] @ ''n''),
      (''language.mainLanguages'', ''Ng'' @ [CHR 0xC3, CHR 0xB4] @ ''n ng'' @ [CHR 0xE1, CHR 0xBB, CHR 0xAF] @ '' Ch'' @ [CHR 0xC3, CHR 0xAD] @ ''nh''),
      (''language.moreLanguages'', ''Th'' @ [CHR 0xC3, CHR 0xAA] @ ''m Ng'' @ [CHR 0xC3, CHR 0xB4] @ ''n ng'' @ [CHR 0xE1, CHR 0xBB, CHR 0xAF]),
      (''language.continue'', ''Ti'' @ [CHR 0xE1, CHR 0xBA, CHR 0xBF] @ ''p t'' @ [CHR 0xE1, CHR 0xBB, CHR 0xA5] @ ''c''),
      (''attract.title'', ''Astra''),
      (''attract.touchToBegin'', ''Ch'' @ [CHR 0xE1, CHR 0xBA, CHR 0xA1] @ ''m '' @ [CHR 0xC4, CHR 0x91, CHR 0xE1, CHR 0xBB, CHR 0x83] @ '' b'' @ [CHR 0xE1, CHR 0xBA, CHR 0xAF] @ ''t '' @ [CHR 0xC4, CHR 0x91, CHR 0xE1, CHR 0xBA, CHR 0xA7] @ ''u''),
      (''attract.laneInfo'', ''T'' @ [CHR 0xE1, CHR 0xBB, CHR 0xB1] @ '' thanh to'' @ [CHR 0xC3, CHR 0xA1] @ ''n '' @ [CHR 0xE2, CHR 0x80, CHR 0xA2] @ '' Qu'' @ [CHR 0xE1, CHR 0xBA, CHR 0xA7] @ ''y {lane}''),
      (''attract.screenReader'', ''M'' @ [CHR 0xC3, CHR 0xA0] @ ''n h'' @ [CHR 0xC3, CHR 0xAC] @ ''nh ch'' @ [CHR 0xC3, CHR 0xA0] @ ''o '' @ [CHR 0xC4, CHR 0x91, CHR 0xC3, CHR 0xB3] @ ''n. Ch'' @ [CHR 0xE1, CHR 0xBA, CHR 0xA1] @ ''m '' @ [CHR 0xC4, CHR 0x91, CHR 0xE1, CHR 0xBB, CHR 0x83] @ '' b'' @ [CHR 0xE1, CHR 0xBA, CHR 0xAF] @ ''t '' @ [CHR 0xC4, CHR 0x91, CHR 0xE1, CHR 0xBA, CHR 0xA7] @ ''u mua s'' @ [CHR 0xE1, CHR 0xBA, CHR 0xAF] @ ''m.''),
      (''menu.title'', ''Th'' @ [CHR 0xE1, CHR 0xBB, CHR 0xB1] @ ''c '' @ [CHR 0xC4, CHR 0x91, CHR 0xC6, CHR 0xA1] @ ''n''),
      (''menu.search'', ''T'' @ [CHR 0xC3, CHR 0xAC] @ ''m ki'' @ [CHR 0xE1, CHR 0xBA, CHR 0xBF] @ ''m th'' @ [CHR 0xE1, CHR 0xBB, CHR 0xB1] @ ''c '' @ [CHR 0xC4, CHR 0x91, CHR 0xC6, CHR 0xA1] @ ''n...''),
      (''menu.noItems'', ''Kh'' @ [CHR 0xC3, CHR 0xB4] @ ''ng t'' @ [CHR 0xC3, CHR 0xAC] @ ''m th'' @ [CHR 0xE1, CHR 0xBA, CHR 0xA5] @ ''y m'' @ [CHR 0xE1, CHR 0xBA, CHR 0xB7] @ ''t h'' @ [CHR 0xC3, CHR 0xA0] @ ''ng''),
      (''menu.backToMenu'', ''Quay l'' @ [CHR 0xE1, CHR 0xBA, CHR 0xA1] @ ''i th'' @ [CHR 0xE1, CHR 0xBB, CHR 0xB1] @ ''c '' @ [CHR 0xC4, CHR 0x91, CHR 0xC6, CHR 0xA1] @ ''n''),
      (''menu.viewCart'', ''Xem Gi'' @ [CHR 0xE1, CHR 0xBB, CHR 0x8F] @ '' h'' @ [CHR 0xC3, CHR 0xA0] @ ''ng ({count})''),
      (''menu.itemAdded'', [CHR 0xC4, CHR 0x90, CHR 0xC3, CHR 0xA3] @ '' th'' @ [CHR 0xC3, CHR 0xAA] @ ''m m'' @ [CHR 0xE1, CHR 0xBA, CHR 0xB7] @ ''t h'' @ [CHR 0xC3, CHR 0xA0] @ ''ng''),
      (''menu.categories.all'', ''T'' @ [CHR 0xE1, CHR 0xBA, CHR 0xA5] @ ''t c'' @ [CHR 0xE1, CHR 0xBA, CHR 0xA3]),
      (''item.addToCart'', ''Th'' @ [CHR 0xC3, CHR 0xAA] @ ''m v'' @ [CHR 0xC3, CHR 0xA0] @ ''o gi'' @ [CHR 0xE1, CHR 0xBB, CHR 0x8F]),
      (''item.quantity'', ''S'' @ [CHR 0xE1, CHR 0xBB, CHR 0x91] @ '' l'' @ [CHR 0xC6, CHR 0xB0, CHR 0xE1, CHR 0xBB, CHR 0xA3] @ ''ng''),
      (''item.modifiers'', ''T'' @ [CHR 0xC3, CHR 0xB9] @ ''y ch'' @ [CHR 0xE1, CHR 0xBB, CHR 0x89] @ ''nh''),
      (''item.price'', ''Gi'' @ [CHR 0xC3, CHR 0xA1]),
      (''item.description'', ''M'' @ [CHR 0xC3, CHR 0xB4] @ '' t'' @ [CHR 0xE1, CHR 0xBA, CHR 0xA3]),
      (''cart.title'', ''Gi'' @ [CHR 0xE1, CHR 0xBB, CHR 0x8F] @ '' h'' @ [CHR 0xC3, CHR 0xA0] @ ''ng c'' @ [CHR 0xE1, CHR 0xBB, CHR 0xA7] @ ''a b'' @ [CHR 0xE1, CHR 0xBA, CHR 0xA1] @ ''n''),
      (''cart.empty'', ''Gi'' @ [CHR 0xE1, CHR 0xBB, CHR 0x8F] @ '' h'' @ [CHR 0xC3, CHR 0xA0] @ ''ng tr'' @ [CHR 0xE1, CHR 0xBB, CHR 0x91] @ ''ng''),
      (''cart.subtotal'', ''T'' @ [CHR 0xE1, CHR 0xBA, CHR 0xA1] @ ''m t'' @ [CHR 0xC3, CHR 0xAD] @ ''nh''),
      (''cart.tax'', ''Thu'' @ [CHR 0xE1, CHR 0xBA, CHR 0xBF]),
      (''cart.total'', ''T'' @ [CHR 0xE1, CHR 0xBB, CHR 0x95] @ ''ng c'' @ [CHR 0xE1, CHR 0xBB, CHR 0x99] @ ''ng''),
      (''cart.backToMenu'', ''Quay l'' @ [CHR 0xE1, CHR 0xBA, CHR 0xA1] @ ''i th'' @ [CHR 0xE1, CHR 0xBB, CHR 0xB1] @ ''c '' @ [CHR 0xC4, CHR 0x91, CHR 0xC6, CHR 0xA1] @ ''n''),
      (''cart.proceedToPayment'', ''S'' @ [CHR 0xE1, CHR 0xBA, CHR 0xB5] @ ''n s'' @ [CHR 0xC3, CHR 0xA0] @ ''ng thanh to'' @ [CHR 0xC3, CHR 0xA1] @ ''n''),
      (''cart.removeItem'', ''X'' @ [CHR 0xC3, CHR 0xB3] @ ''a''),
      (''cart.itemCount'', ''{count} m'' @ [CHR 0xE1, CHR 0xBA, CHR 0xB7] @ ''t h'' @ [CHR 0xC3, CHR 0xA0] @ ''ng''),
      (''cart.summary'', ''T'' @ [CHR 0xC3, CHR 0xB3] @ ''m t'' @ [CHR 0xE1, CHR 0xBA, CHR 0xAF] @ ''t '' @ [CHR 0xC4, CHR 0x90, CHR 0xC6, CHR 0xA1] @ ''n h'' @ [CHR 0xC3, CHR 0xA0] @ ''ng''),
      (''payment.title'', ''Thanh to'' @ [CHR 0xC3, CHR 0xA1] @ ''n''),
      (''payment.confirm'', ''X'' @ [CHR 0xC3, CHR 0xA1] @ ''c nh'' @ [CHR 0xE1, CHR 0xBA, CHR 0xAD] @ ''n Thanh to'' @ [CHR 0xC3, CHR 0xA1] @ ''n''),
      (''payment.cancel'', ''H'' @ [CHR 0xE1, CHR 0xBB, CHR 0xA7] @ ''y''),
      (''payment.processing'', [CHR 0xC4, CHR 0x90] @ ''ang x'' @ [CHR 0xE1, CHR 0xBB, CHR 0xAD] @ '' l'' @ [CHR 0xC3, CHR 0xBD] @ '' thanh to'' @ [CHR 0xC3, CHR 0xA1] @ ''n...''),
      (''payment.selectMethod'', ''Ch'' @ [CHR 0xE1, CHR 0xBB, CHR 0x8D] @ ''n ph'' @ [CHR 0xC6, CHR 0xB0, CHR 0xC6, CHR 0xA1] @ ''ng th'' @ [CHR 0xE1, CHR 0xBB, CHR 0xA9] @ ''c thanh to'' @ [CHR 0xC3, CHR 0xA1] @ ''n''),
      (''payment.card'', ''Th'' @ [CHR 0xE1, CHR 0xBA, CHR 0xBB]),
      (''payment.cash'', ''Ti'' @ [CHR 0xE1, CHR 0xBB, CHR 0x81] @ ''n m'' @ [CHR 0xE1, CHR 0xBA, CHR 0xB7] @ ''t''),
      (''payment.mobile'', ''V'' @ [CHR 0xC3, CHR 0xAD] @ '' '' @ [CHR 0xC4, CHR 0x91] @ ''i'' @ [CHR 0xE1, CHR 0xBB, CHR 0x87] @ ''n t'' @ [CHR 0xE1, CHR 0xBB, CHR 0xAD]),
      (''payment.biometric'', ''Sinh tr'' @ [CHR 0xE1, CHR 0xBA, CHR 0xAF] @ ''c h'' @ [CHR 0xE1, CHR 0xBB, CHR 0x8D] @ ''c''),
      (''payment.employeeOverride'', ''X'' @ [CHR 0xC3, CHR 0xA1] @ ''c nh'' @ [CHR 0xE1, CHR 0xBA, CHR 0xAD] @ ''n Nh'' @ [CHR 0xC3, CHR 0xA2] @ ''n vi'' @ [CHR 0xC3, CHR 0xAA] @ ''n''),
      (''payment.insertCard'', ''Ch'' @ [CHR 0xC3, CHR 0xA8] @ ''n ho'' @ [CHR 0xE1, CHR 0xBA, CHR 0xB7] @ ''c ch'' @ [CHR 0xE1, CHR 0xBA, CHR 0xA1] @ ''m th'' @ [CHR 0xE1, CHR 0xBA, CHR 0xBB]),
      (''payment.scanQR'', ''Qu'' @ [CHR 0xC3, CHR 0xA9] @ ''t m'' @ [CHR 0xC3, CHR 0xA3] @ '' QR''),
      (''payment.tapPhone'', ''Ch'' @ [CHR 0xE1, CHR 0xBA, CHR 0xA1] @ ''m '' @ [CHR 0xC4, CHR 0x91] @ ''i'' @ [CHR 0xE1, CHR 0xBB, CHR 0x87] @ ''n tho'' @ [CHR 0xE1, CHR 0xBA, CHR 0xA1] @ ''i c'' @ [CHR 0xE1, CHR 0xBB, CHR 0xA7] @ ''a b'' @ [CHR 0xE1, CHR 0xBA, CHR 0xA1] @ ''n''),
      (''payment.amount'', ''S'' @ [CHR 0xE1, CHR 0xBB, CHR 0x91] @ '' ti'' @ [CHR 0xE1, CHR 0xBB, CHR 0x81] @ ''n''),
      (''processing.title'', [CHR 0xC4, CHR 0x90] @ ''ang x'' @ [CHR 0xE1, CHR 0xBB, CHR 0xAD] @ '' l'' @ [CHR 0xC3, CHR 0xBD]),
      (''processing.pleaseWait'', ''Vui l'' @ [CHR 0xC3, CHR 0xB2] @ ''ng ch'' @ [CHR 0xE1, CHR 0xBB, CHR 0x9D] @ ''...''),
      (''processing.finalizing'', [CHR 0xC4, CHR 0x90] @ ''ang ho'' @ [CHR 0xC3, CHR 0xA0] @ ''n t'' @ [CHR 0xE1, CHR 0xBA, CHR 0xA5] @ ''t '' @ [CHR 0xC4, CHR 0x91, CHR 0xC6, CHR 0xA1] @ ''n h'' @ [CHR 0xC3, CHR 0xA0] @ ''ng''),
      (''processing.redirecting'', [CHR 0xC4, CHR 0x90] @ ''ang chuy'' @ [CHR 0xE1, CHR 0xBB, CHR 0x83] @ ''n '' @ [CHR 0xC4, CHR 0x91, CHR 0xE1, CHR 0xBA, CHR 0xBF] @ ''n h'' @ [CHR 0xC3, CHR 0xB3] @ ''a '' @ [CHR 0xC4, CHR 0x91, CHR 0xC6, CHR 0xA1] @ ''n''),
      (''receipt.title'', ''C'' @ [CHR 0xE1, CHR 0xBA, CHR 0xA3] @ ''m '' @ [CHR 0xC6, CHR 0xA1] @ ''n''),
      (''receipt.orderNumber'', [CHR 0xC4, CHR 0x90, CHR 0xC6, CHR 0xA1] @ ''n h'' @ [CHR 0xC3, CHR 0xA0] @ ''ng #{number}''),
      (''receipt.print'', ''In h'' @ [CHR 0xC3, CHR 0xB3] @ ''a '' @ [CHR 0xC4, CHR 0x91, CHR 0xC6, CHR 0xA1] @ ''n''),
      (''receipt.email'', ''G'' @ [CHR 0xE1, CHR 0xBB, CHR 0xAD] @ ''i qua email''),
      (''receipt.startNew'', ''B'' @ [CHR 0xE1, CHR 0xBA, CHR 0xAF] @ ''t '' @ [CHR 0xC4, CHR 0x91, CHR 0xE1, CHR 0xBA, CHR 0xA7] @ ''u '' @ [CHR 0xC4, CHR 0x91, CHR 0xC6, CHR 0xA1] @ ''n m'' @ [CHR 0xE1, CHR 0xBB, CHR 0x9B] @ ''i''),
      (''receipt.thankYouMessage'', ''C'' @ [CHR 0xE1, CHR 0xBA, CHR 0xA3] @ ''m '' @ [CHR 0xC6, CHR 0xA1] @ ''n b'' @ [CHR 0xE1, CHR 0xBA, CHR 0xA1] @ ''n '' @ [CHR 0xC4, CHR 0x91, CHR 0xC3, CHR 0xA3] @ '' mua h'' @ [CHR 0xC3, CHR 0xA0] @ ''ng!''),
      (''status.offline'', ''Ngo'' @ [CHR 0xE1, CHR 0xBA, CHR 0xA1] @ ''i tuy'' @ [CHR 0xE1, CHR 0xBA, CHR 0xBF] @ ''n''),
      (''status.online'', ''Tr'' @ [CHR 0xE1, CHR 0xBB, CHR 0xB1] @ ''c tuy'' @ [CHR 0xE1, CHR 0xBA, CHR 0xBF] @ ''n''),
      (''status.connecting'', [CHR 0xC4, CHR 0x90] @ ''ang k'' @ [CHR 0xE1, CHR 0xBA, CHR 0xBF] @ ''t n'' @ [CHR 0xE1, CHR 0xBB, CHR 0x91] @ ''i...''),
      (''status.network'', ''M'' @ [CHR 0xE1, CHR 0xBA, CHR 0xA1] @ ''ng''),
      (''idle.warning'', ''V'' @ [CHR 0xE1, CHR 0xBA, CHR 0xAB] @ ''n '' @ [CHR 0xC4, CHR 0x91] @ ''ang mua s'' @ [CHR 0xE1, CHR 0xBA, CHR 0xAF] @ ''m?''),
      (''idle.continue'', ''Ti'' @ [CHR 0xE1, CHR 0xBA, CHR 0xBF] @ ''p t'' @ [CHR 0xE1, CHR 0xBB, CHR 0xA5] @ ''c''),
      (''idle.endSession'', ''K'' @ [CHR 0xE1, CHR 0xBA, CHR 0xBF] @ ''t th'' @ [CHR 0xC3, CHR 0xBA] @ ''c phi'' @ [CHR 0xC3, CHR 0xAA] @ ''n''),
      (''idle.timeoutWarning'', ''Phi'' @ [CHR 0xC3, CHR 0xAA] @ ''n s'' @ [CHR 0xE1, CHR 0xBA, CHR 0xBD] @ '' s'' @ [CHR 0xE1, CHR 0xBB, CHR 0x9B] @ ''m k'' @ [CHR 0xE1, CHR 0xBA, CHR 0xBF] @ ''t th'' @ [CHR 0xC3, CHR 0xBA] @ ''c do kh'' @ [CHR 0xC3, CHR 0xB4] @ ''ng ho'' @ [CHR 0xE1, CHR 0xBA, CHR 0xA1] @ ''t '' @ [CHR 0xC4, CHR 0x91, CHR 0xE1, CHR 0xBB, CHR 0x99] @ ''ng.''),
      (''offline.banner'', ''B'' @ [CHR 0xE1, CHR 0xBA, CHR 0xA1] @ ''n '' @ [CHR 0xC4, CHR 0x91] @ ''ang ngo'' @ [CHR 0xE1, CHR 0xBA, CHR 0xA1] @ ''i tuy'' @ [CHR 0xE1, CHR 0xBA, CHR 0xBF] @ ''n. M'' @ [CHR 0xE1, CHR 0xBB, CHR 0x99] @ ''t s'' @ [CHR 0xE1, CHR 0xBB, CHR 0x91] @ '' t'' @ [CHR 0xC3, CHR 0xAD] @ ''nh n'' @ [CHR 0xC4, CHR 0x83] @ ''ng c'' @ [CHR 0xC3, CHR 0xB3] @ '' th'' @ [CHR 0xE1, CHR 0xBB, CHR 0x83] @ '' kh'' @ [CHR 0xC3, CHR 0xB4] @ ''ng kh'' @ [CHR 0xE1, CHR 0xBA, CHR 0xA3] @ '' d'' @ [CHR 0xE1, CHR 0xBB, CHR 0xA5] @ ''ng.''),
      (''offline.reconnecting'', [CHR 0xC4, CHR 0x90] @ ''ang k'' @ [CHR 0xE1, CHR 0xBA, CHR 0xBF] @ ''t n'' @ [CHR 0xE1, CHR 0xBB, CHR 0x91] @ ''i l'' @ [CHR 0xE1, CHR 0xBA, CHR 0xA1] @ ''i...''),
      (''offline.longOffline'', ''Kh'' @ [CHR 0xC3, CHR 0xB4] @ ''ng c'' @ [CHR 0xC3, CHR 0xB3] @ '' k'' @ [CHR 0xE1, CHR 0xBA, CHR 0xBF] @ ''t n'' @ [CHR 0xE1, CHR 0xBB, CHR 0x91] @ ''i m'' @ [CHR 0xE1, CHR 0xBA, CHR 0xA1] @ ''ng trong th'' @ [CHR 0xE1, CHR 0xBB, CHR 0x9D] @ ''i gian d'' @ [CHR 0xC3, CHR 0xA0] @ ''i.''),
      (''error.generic'', [CHR 0xC4, CHR 0x90, CHR 0xC3, CHR 0xA3] @ '' x'' @ [CHR 0xE1, CHR 0xBA, CHR 0xA3] @ ''y ra l'' @ [CHR 0xE1, CHR 0xBB, CHR 0x97] @ ''i''),
      (''error.restart'', ''Kh'' @ [CHR 0xE1, CHR 0xBB, CHR 0x9F] @ ''i '' @ [CHR 0xC4, CHR 0x91, CHR 0xE1, CHR 0xBB, CHR 0x99] @ ''ng l'' @ [CHR 0xE1, CHR 0xBA, CHR 0xA1] @ ''i ki-'' @ [CHR 0xE1, CHR 0xBB, CHR 0x91] @ ''t''),
      (''error.retry'', ''Th'' @ [CHR 0xE1, CHR 0xBB, CHR 0xAD] @ '' l'' @ [CHR 0xE1, CHR 0xBA, CHR 0xA1] @ ''i''),
      (''error.paymentDeclined'', ''Thanh to'' @ [CHR 0xC3, CHR 0xA1] @ ''n b'' @ [CHR 0xE1, CHR 0xBB, CHR 0x8B] @ '' t'' @ [CHR 0xE1, CHR 0xBB, CHR 0xAB] @ '' ch'' @ [CHR 0xE1, CHR 0xBB, CHR 0x91] @ ''i. H'' @ [CHR 0xC3, CHR 0xA3] @ ''y th'' @ [CHR 0xE1, CHR 0xBB, CHR 0xAD] @ '' ph'' @ [CHR 0xC6, CHR 0xB0, CHR 0xC6, CHR 0xA1] @ ''ng th'' @ [CHR 0xE1, CHR 0xBB, CHR 0xA9] @ ''c kh'' @ [CHR 0xC3, CHR 0xA1] @ ''c.''),
      (''error.paymentFailed'', ''Thanh to'' @ [CHR 0xC3, CHR 0xA1] @ ''n th'' @ [CHR 0xE1, CHR 0xBA, CHR 0xA5] @ ''t b'' @ [CHR 0xE1, CHR 0xBA, CHR 0xA1] @ ''i. Vui l'' @ [CHR 0xC3, CHR 0xB2] @ ''ng th'' @ [CHR 0xE1, CHR 0xBB, CHR 0xAD] @ '' l'' @ [CHR 0xE1, CHR 0xBA, CHR 0xA1] @ ''i.''),
      (''error.sessionExpired'', ''Phi'' @ [CHR 0xC3, CHR 0xAA] @ ''n '' @ [CHR 0xC4, CHR 0x91, CHR 0xC3, CHR 0xA3] @ '' h'' @ [CHR 0xE1, CHR 0xBA, CHR 0xBF] @ ''t h'' @ [CHR 0xE1, CHR 0xBA, CHR 0xA1] @ ''n. Vui l'' @ [CHR 0xC3, CHR 0xB2] @ ''ng b'' @ [CHR 0xE1, CHR 0xBA, CHR 0xAF] @ ''t '' @ [CHR 0xC4, CHR 0x91, CHR 0xE1, CHR 0xBA, CHR 0xA7] @ ''u l'' @ [CHR 0xE1, CHR 0xBA, CHR 0xA1] @ ''i.''),
      (''error.connectionLost'', ''M'' @ [CHR 0xE1, CHR 0xBA, CHR 0xA5] @ ''t k'' @ [CHR 0xE1, CHR 0xBA, CHR 0xBF] @ ''t n'' @ [CHR 0xE1, CHR 0xBB, CHR 0x91] @ ''i. '' @ [CHR 0xC4, CHR 0x90] @ ''ang ki'' @ [CHR 0xE1, CHR 0xBB, CHR 0x83] @ ''m tra m'' @ [CHR 0xE1, CHR 0xBA, CHR 0xA1] @ ''ng...''),
      (''admin.title'', ''B'' @ [CHR 0xE1, CHR 0xBA, CHR 0xA3] @ ''ng Qu'' @ [CHR 0xE1, CHR 0xBA, CHR 0xA3] @ ''n tr'' @ [CHR 0xE1, CHR 0xBB, CHR 0x8B]),
      (''admin.close'', [CHR 0xC4, CHR 0x90, CHR 0xC3, CHR 0xB3] @ ''ng''),
      (''admin.dashboard'', ''B'' @ [CHR 0xE1, CHR 0xBA, CHR 0xA3] @ ''ng '' @ [CHR 0xC4, CHR 0x91] @ ''i'' @ [CHR 0xE1, CHR 0xBB, CHR 0x81] @ ''u khi'' @ [CHR 0xE1, CHR 0xBB, CHR 0x83] @ ''n''),
      (''general.confirm'', ''X'' @ [CHR 0xC3, CHR 0xA1] @ ''c nh'' @ [CHR 0xE1, CHR 0xBA, CHR 0xAD] @ ''n''),
      (''general.cancel'', ''H'' @ [CHR 0xE1, CHR 0xBB, CHR 0xA7] @ ''y''),
      (''general.back'', ''Quay l'' @ [CHR 0xE1, CHR 0xBA, CHR 0xA1] @ ''i''),
      (''general.next'', ''Ti'' @ [CHR 0xE1, CHR 0xBA, CHR 0xBF] @ ''p theo''),
      (''general.done'', ''Ho'' @ [CHR 0xC3, CHR 0xA0] @ ''n t'' @ [CHR 0xE1, CHR 0xBA, CHR 0xA5] @ ''t''),
      (''general.loading'', [CHR 0xC4, CHR 0x90] @ ''ang t'' @ [CHR 0xE1, CHR 0xBA, CHR 0xA3] @ ''i...''),
      (''general.save'', ''L'' @ [CHR 0xC6, CHR 0xB0] @ ''u''),
      (''general.delete'', ''X'' @ [CHR 0xC3, CHR 0xB3] @ ''a''),
      (''general.edit'', ''S'' @ [CHR 0xE1, CHR 0xBB, CHR 0xAD] @ ''a''),
      (''general.search'', ''T'' @ [CHR 0xC3, CHR 0xAC] @ ''m ki'' @ [CHR 0xE1, CHR 0xBA, CHR 0xBF] @ ''m''),
      (''general.close'', [CHR 0xC4, CHR 0x90, CHR 0xC3, CHR 0xB3] @ ''ng''),
      (''general.yes'', ''C'' @ [CHR 0xC3, CHR 0xB3]),
      (''general.no'', ''Kh'' @ [CHR 0xC3, CHR 0xB4] @ ''ng''),
      (''a11y.closeModal'', [CHR 0xC4, CHR 0x90, CHR 0xC3, CHR 0xB3] @ ''ng c'' @ [CHR 0xE1, CHR 0xBB, CHR 0xAD] @ ''a s'' @ [CHR 0xE1, CHR 0xBB, CHR 0x95]),
      (''a11y.navigateBack'', [CHR 0xC4, CHR 0x90] @ ''i'' @ [CHR 0xE1, CHR 0xBB, CHR 0x81] @ ''u h'' @ [CHR 0xC6, CHR 0xB0, CHR 0xE1, CHR 0xBB, CHR 0x9B] @ ''ng quay l'' @ [CHR 0xE1, CHR 0xBA, CHR 0xA1] @ ''i''),
      (''menu.noItemsHint'', ''Try a different search term or check all categories''),
      (''menu.categoriesLabel'', ''Menu categories''),
      (''menu.categories.mains'', ''Mains''),
      (''menu.categories.drinks'', ''Drinks''),
      (''menu.clearSearch'', ''Clear search''),
      (''menu.itemsInCart'', ''{count} items in cart'')]"

definition texts_vi_2 :: TranslationMap where
  "texts_vi_2 =
     [(''item.included'', ''Included''),
      (''item.chooseCount'', ''Choose {count}''),
      (''item.chooseRange'', ''Choose {min}-{max}''),
      (''item.closeLabel'', ''Close item details''),
      (''item.decreaseQuantity'', ''Decrease quantity''),
      (''item.increaseQuantity'', ''Increase quantity''),
      (''item.quantityLabel'', ''Quantity: {count}''),
      (''item.addToCartLabel'', ''Add {name} to cart '' @ [CHR 0xE2, CHR 0x80, CHR 0x94] @ '' {amount}''),
      (''item.priceAddition'', ''+{amount}''),
      (''item.customizeLabel'', ''Customize {name}''),
      (''cart.itemSingular'', ''{count} item''),
      (''cart.tapToEdit'', ''Tap an item to edit''),
      (''cart.itemsLabel'', ''Cart items''),
      (''cart.pay'', ''Pay {amount}''),
      (''cart.editItem'', ''Edit {name}. Quantity: {quantity}. Price: {amount}''),
      (''cart.decreaseQuantity'', ''Decrease quantity of {name}''),
      (''cart.increaseQuantity'', ''Increase quantity of {name}''),
      (''cart.quantityLabel'', ''Quantity: {count}''),
      (''cart.priceLabel'', ''Price: {amount}''),
      (''payment.cardNfc'', ''Card / NFC''),
      (''payment.qrCode'', ''QR Code''),
      (''payment.verifyToComplete'', ''Verify to complete''),
      (''payment.pinPadInstruction'', ''Please use the PIN pad or present your card to the terminal.''),
      (''payment.terminalStatus'', ''Terminal: {status}''),
      (''payment.authorizing'', ''Authorizing...''),
      (''payment.authorize'', ''Authorize''),
      (''payment.authorized'', ''Authorized''),
      (''payment.connected'', ''Connected''),
      (''payment.cartSummary'', ''Cart summary: {count} items, total {amount}. Tap to {action}.''),
      (''payment.expand'', ''expand''),
      (''payment.collapse'', ''collapse''),
      (''payment.employeeOverrideHint'', ''Employee override. Hold for 3 seconds.''),
      (''payment.cancelPayment'', ''Cancel payment''),
      (''payment.confirmPayment'', ''Pay {amount}''),
      (''processing.connecting'', ''Connecting to terminal...''),
      (''processing.waitingForCard'', ''Waiting for card...''),
      (''processing.authorizing'', ''Authorizing...''),
      (''processing.finalizingStage'', ''Finalizing...''),
      (''processing.default'', ''Processing...''),
      (''processing.terminalStatus'', ''Terminal: {label}''),
      (''processing.orderFailed'', ''Order could not be completed''),
      (''processing.orderFailedMessage'', ''We couldn'' @ [CHR 0x27] @ ''t complete your order. Please try again.''),
      (''processing.retry'', ''Try again''),
      (''processing.cancelReturn'', ''Cancel and return to cart''),
      (''receipt.printing'', ''Printing...''),
      (''receipt.emailSending'', ''Sending...''),
      (''receipt.emailSent'', ''Sent!''),
      (''receipt.printerUnavailable'', ''Printer unavailable. Receipt saved.''),
      (''receipt.srComplete'', ''Order complete. Tap start new order to continue.''),
      (''receipt.srReady'', ''Receipt ready.''),
      (''receipt.printLabel'', ''Print receipt''),
      (''receipt.emailLabel'', ''Email receipt''),
      (''receipt.startNewLabel'', ''Start new order''),
      (''status.synced'', ''Synced''),
      (''status.syncing'', ''Syncing''),
      (''status.p2pStatus'', ''P2P sync status: {label}. Tap for mesh details.''),
      (''status.kioskStatus'', ''Kiosk status''),
      (''status.p2pTitle'', ''P2P mesh sync''),
      (''status.meshDescription'', ''This kiosk shares cart and order state with nearby peers over a local mesh so orders survive network drops.''),
      (''status.connectedPeers'', ''Connected peers''),
      (''status.syncLag'', ''Sync lag''),
      (''status.role'', ''Role''),
      (''status.leader'', ''Leader''),
      (''status.peer'', ''Peer''),
      (''status.thisKiosk'', ''This kiosk''),
      (''status.apiOnline'', ''API online''),
      (''status.apiDegraded'', ''API degraded''),
      (''status.apiOffline'', ''API offline''),
      (''status.networkConnected'', ''Connected to network''),
      (''status.networkDisconnected'', ''No network connection''),
      (''idle.message'', ''Tap below to continue, or this kiosk will reset for the next customer.''),
      (''idle.continueLabel'', ''I am still here''),
      (''idle.endSessionLabel'', ''Start over''),
      (''idle.ariaLabel'', ''Idle timeout warning''),
      (''offline.workingOffline'', ''Working offline. Your cart is secure.''),
      (''offline.dismiss'', ''Dismiss offline notice''),
      (''error.helpMessage'', ''Please ask a staff member for help. We apologise for the inconvenience.''),
      (''admin.kioskStatus'', ''Kiosk Status''),
      (''admin.session'', ''Session''),
      (''admin.laneMode'', ''Lane Mode''),
      (''admin.apiStatus'', ''API Status''),
      (''admin.cartHasItems'', ''Cart Has Items''),
      (''admin.actions'', ''Actions''),
      (''admin.simulateOnline'', ''Simulate Online''),
      (''admin.simulateOffline'', ''Simulate Offline''),
      (''admin.errors'', ''Errors''),
      (''admin.closeLabel'', ''Close admin panel''),
      (''item.modifierSingular'', ''{count} modifier''),
      (''item.modifierPlural'', ''{count} modifiers'')]"

definition texts_vi :: TranslationMap where
  "texts_vi = texts_vi_1 @ texts_vi_2"

end
