(* ===== verification/IndicTexts.thy ===== *)
theory IndicTexts
  imports Languages
begin

text \<open>
  Tables of texts of the kiosk: \<open>hi.ts\<close>, \<open>bn.ts\<close>, \<open>th.ts\<close> of \<open>apps/kiosk/src/i18n/locales\<close>. A text is
  given by its bytes in UTF-8.
\<close>

definition texts_hi_1 :: TranslationMap where
  "texts_hi_1 =
     [(''language.select'', [CHR 0xE0, CHR 0xA4, CHR 0x85, CHR 0xE0, CHR 0xA4, CHR 0xAA, CHR 0xE0, CHR 0xA4, CHR 0xA8, CHR 0xE0, CHR 0xA5, CHR 0x80] @ '' '' @ [CHR 0xE0, CHR 0xA4, CHR 0xAD, CHR 0xE0, CHR 0xA4, CHR 0xBE, CHR 0xE0, CHR 0xA4, CHR 0xB7, CHR 0xE0, CHR 0xA4, CHR 0xBE] @ '' '' @ [CHR 0xE0, CHR 0xA4, CHR 0x9A, CHR 0xE0, CHR 0xA5, CHR 0x81, CHR 0xE0, CHR 0xA4, CHR 0xA8, CHR 0xE0, CHR 0xA5, CHR 0x87, CHR 0xE0, CHR 0xA4, CHR 0x82]),
      (''language.mainLanguages'', [CHR 0xE0, CHR 0xA4, CHR 0xAE, CHR 0xE0, CHR 0xA5, CHR 0x81, CHR 0xE0, CHR 0xA4, CHR 0x96, CHR 0xE0, CHR 0xA5, CHR 0x8D, CHR 0xE0, CHR 0xA4, CHR 0xAF] @ '' '' @ [CHR 0xE0, CHR 0xA4, CHR 0xAD, CHR 0xE0, CHR 0xA4, CHR 0xBE, CHR 0xE0, CHR 0xA4, CHR 0xB7, CHR 0xE0, CHR 0xA4, CHR 0xBE, CHR 0xE0, CHR 0xA4, CHR 0x8F, CHR 0xE0, CHR 0xA4, CHR 0x81]),
      (''language.moreLanguages'', [CHR 0xE0, CHR 0xA4, CHR 0x85, CHR 0xE0, CHR 0xA4, CHR 0xA7, CHR 0xE0, CHR 0xA4, CHR 0xBF, CHR 0xE0, CHR 0xA4, CHR 0x95] @ '' '' @ [CHR 0xE0, CHR 0xA4, CHR 0xAD, CHR 0xE0, CHR 0xA4, CHR 0xBE, CHR 0xE0, CHR 0xA4, CHR 0xB7, CHR 0xE0, CHR 0xA4, CHR 0xBE, CHR 0xE0, CHR 0xA4, CHR 0x8F, CHR 0xE0, CHR 0xA4, CHR 0x81]),
      (''language.continue'', [CHR 0xE0, CHR 0xA4, CHR 0x9C, CHR 0xE0, CHR 0xA4, CHR 0xBE, CHR 0xE0, CHR 0xA4, CHR 0xB0, CHR 0xE0, CHR 0xA5, CHR 0x80] @ '' '' @ [CHR 0xE0, CHR 0xA4, CHR 0xB0, CHR 0xE0, CHR 0xA4, CHR 0x96, CHR 0xE0, CHR 0xA5, CHR 0x87, CHR 0xE0, CHR 0xA4, CHR 0x82]),
      (''attract.title'', ''Astra''),
      (''attract.touchToBegin'', [CHR 0xE0, CHR 0xA4, CHR 0xB6, CHR 0xE0, CHR 0xA5, CHR 0x81, CHR 0xE0, CHR 0xA4, CHR 0xB0, CHR 0xE0, CHR 0xA5, CHR 0x82] @ '' '' @ [CHR 0xE0, CHR 0xA4, CHR 0x95, CHR 0xE0, CHR 0xA4, CHR 0xB0, CHR 0xE0, CHR 0xA4, CHR 0xA8, CHR 0xE0, CHR 0xA5, CHR 0x87] @ '' '' @ [CHR 0xE0, CHR 0xA4, CHR 0x95, CHR 0xE0, CHR 0xA5, CHR 0x87] @ '' '' @ [CHR 0xE0, CHR 0xA4, CHR 0xB2, CHR 0xE0, CHR 0xA4, CHR 0xBF, CHR 0xE0, CHR 0xA4, CHR 0x8F] @ '' '' @ [CHR 0xE0, CHR 0xA4, CHR 0xB8, CHR 0xE0, CHR 0xA5, CHR 0x8D, CHR 0xE0, CHR 0xA4, CHR 0xAA, CHR 0xE0, CHR 0xA4, CHR 0xB0, CHR 0xE0, CHR 0xA5, CHR 0x8D, CHR 0xE0, CHR 0xA4, CHR 0xB6] @ '' '' @ [CHR 0xE0, CHR 0xA4, CHR 0x95, CHR 0xE0, CHR 0xA4, CHR 0xB0, CHR 0xE0, CHR 0xA5, CHR 0x87, CHR 0xE0, CHR 0xA4, CHR 0x82]),
      (''attract.laneInfo'', [CHR 0xE0, CHR 0xA4, CHR 0xB8, CHR 0xE0, CHR 0xA5, CHR 0x87, CHR 0xE0, CHR 0xA4, CHR 0xB2, CHR 0xE0, CHR 0xA5, CHR 0x8D, CHR 0xE0, CHR 0xA4, CHR 0xAB] @ ''-'' @ [CHR 0xE0, CHR 0xA4, CHR 0x9A, CHR 0xE0, CHR 0xA5, CHR 0x87, CHR 0xE0, CHR 0xA4, CHR 0x95, CHR 0xE0, CHR 0xA4, CHR 0x86, CHR 0xE0, CHR 0xA4, CHR 0x89, CHR 0xE0, CHR 0xA4, CHR 0x9F] @ '' '' @ [CHR 0xE2, CHR 0x80, CHR 0xA2] @ '' '' @ [CHR 0xE0, CHR 0xA4, CHR 0xB2, CHR 0xE0, CHR 0xA5, CHR 0x87, CHR 0xE0, CHR 0xA4, CHR 0xA8] @ '' {lane}''),
      (''attract.screenReader'', [CHR 0xE0, CHR 0xA4, CHR 0x86, CHR 0xE0, CHR 0xA4, CHR 0x95, CHR 0xE0, CHR 0xA4, CHR 0xB0, CHR 0xE0, CHR 0xA5, CHR 0x8D, CHR 0xE0, CHR 0xA4, CHR 0xB7, CHR 0xE0, CHR 0xA4, CHR 0xA3] @ '' '' @ [CHR 0xE0, CHR 0xA4, CHR 0xB8, CHR 0xE0, CHR 0xA5, CHR 0x8D, CHR 0xE0, CHR 0xA4, CHR 0x95, CHR 0xE0, CHR 0xA5, CHR 0x8D, CHR 0xE0, CHR 0xA4, CHR 0xB0, CHR 0xE0, CHR 0xA5, CHR 0x80, CHR 0xE0, CHR 0xA4, CHR 0xA8, CHR 0xE0, CHR 0xA5, CHR 0xA4] @ '' '' @ [CHR 0xE0, CHR 0xA4, CHR 0x96, CHR 0xE0, CHR 0xA4, CHR 0xB0, CHR 0xE0, CHR 0xA5, CHR 0x80, CHR 0xE0, CHR 0xA4, CHR 0xA6, CHR 0xE0, CHR 0xA4, CHR 0xBE, CHR 0xE0, CHR 0xA4, CHR 0xB0, CHR 0xE0, CHR 0xA5, CHR 0x80] @ '' '' @ [CHR 0xE0, CHR 0xA4, CHR 0xB6, CHR 0xE0, CHR 0xA5, CHR 0x81, CHR 0xE0, CHR 0xA4, CHR 0xB0, CHR 0xE0, CHR 0xA5, CHR 0x82] @ '' '' @ [CHR 0xE0, CHR 0xA4, CHR 0x95, CHR 0xE0, CHR 0xA4, CHR 0xB0, CHR 0xE0, CHR 0xA4, CHR 0xA8, CHR 0xE0, CHR 0xA5, CHR 0x87] @ '' '' @ [CHR 0xE0, CHR 0xA4, CHR 0x95, CHR 0xE0, CHR 0xA5, CHR 0x87] @ '' '' @ [CHR 0xE0, CHR 0xA4, CHR 0xB2, CHR 0xE0, CHR 0xA4, CHR 0xBF, CHR 0xE0, CHR 0xA4, CHR 0x8F] @ '' '' @ [CHR 0xE0, CHR 0xA4, CHR 0xB8, CHR 0xE0, CHR 0xA5, CHR 0x8D, CHR 0xE0, CHR 0xA4, CHR 0xAA, CHR 0xE0, CHR 0xA4, CHR 0xB0, CHR 0xE0, CHR 0xA5, CHR 0x8D, CHR 0xE0, CHR 0xA4, CHR 0xB6] @ '' '' @ [CHR 0xE0, CHR 0xA4, CHR 0x95, CHR 0xE0, CHR 0xA4, CHR 0xB0, CHR 0xE0, CHR 0xA5, CHR 0x87, CHR 0xE0, CHR 0xA4, CHR 0x82, CHR 0xE0, CHR 0xA5, CHR 0xA4]),
      (''menu.title'', [CHR 0xE0, CHR 0xA4, CHR 0xAE, CHR 0xE0, CHR 0xA5, CHR 0x87, CHR 0xE0, CHR 0xA4, CHR 0xA8, CHR 0xE0, CHR 0xA5, CHR 0x82]),
      (''menu.search'', [CHR 0xE0, CHR 0xA4, CHR 0xAE, CHR 0xE0, CHR 0xA5, CHR 0x87, CHR 0xE0, CHR 0xA4, CHR 0xA8, CHR 0xE0, CHR 0xA5, CHR 0x82] @ '' '' @ [CHR 0xE0, CHR 0xA4, CHR 0x96, CHR 0xE0, CHR 0xA5, CHR 0x8B, CHR 0xE0, CHR 0xA4, CHR 0x9C, CHR 0xE0, CHR 0xA5, CHR 0x87, CHR 0xE0, CHR 0xA4, CHR 0x82] @ ''...''),
      (''menu.noItems'', [CHR 0xE0, CHR 0xA4, CHR 0x95, CHR 0xE0, CHR 0xA5, CHR 0x8B, CHR 0xE0, CHR 0xA4, CHR 0x88] @ '' '' @ [CHR 0xE0, CHR 0xA4, CHR 0x86, CHR 0xE0, CHR 0xA4, CHR 0x87, CHR 0xE0, CHR 0xA4, CHR 0x9F, CHR 0xE0, CHR 0xA4, CHR 0xAE] @ '' '' @ [CHR 0xE0, CHR 0xA4, CHR 0xA8, CHR 0xE0, CHR 0xA4, CHR 0xB9, CHR 0xE0, CHR 0xA5, CHR 0x80, CHR 0xE0, CHR 0xA4, CHR 0x82] @ '' '' @ [CHR 0xE0, CHR 0xA4, CHR 0xAE, CHR 0xE0, CHR 0xA4, CHR 0xBF, CHR 0xE0, CHR 0xA4, CHR 0xB2, CHR 0xE0, CHR 0xA4, CHR 0xBE]),
      (''menu.backToMenu'', [CHR 0xE0, CHR 0xA4, CHR 0xAE, CHR 0xE0, CHR 0xA5, CHR 0x87, CHR 0xE0, CHR 0xA4, CHR 0xA8, CHR 0xE0, CHR 0xA5, CHR 0x82] @ '' '' @ [CHR 0xE0, CHR 0xA4, CHR 0xAA, CHR 0xE0, CHR 0xA4, CHR 0xB0] @ '' '' @ [CHR 0xE0, CHR 0xA4, CHR 0xB5, CHR 0xE0, CHR 0xA4, CHR 0xBE, CHR 0xE0, CHR 0xA4, CHR 0xAA, CHR 0xE0, CHR 0xA4, CHR 0xB8] @ '' '' @ [CHR 0xE0, CHR 0xA4, CHR 0x9C, CHR 0xE0, CHR 0xA4, CHR 0xBE, CHR 0xE0, CHR 0xA4, CHR 0x8F, CHR 0xE0, CHR 0xA4, CHR 0x81]),
      (''menu.viewCart'', [CHR 0xE0, CHR 0xA4, CHR 0x95, CHR 0xE0, CHR 0xA4, CHR 0xBE, CHR 0xE0, CHR 0xA4, CHR 0xB0, CHR 0xE0, CHR 0xA5, CHR 0x8D, CHR 0xE0, CHR 0xA4, CHR 0x9F] @ '' '' @ [CHR 0xE0, CHR 0xA4, CHR 0xA6, CHR 0xE0, CHR 0xA5, CHR 0x87, CHR 0xE0, CHR 0xA4, CHR 0x96, CHR 0xE0, CHR 0xA5, CHR 0x87, CHR 0xE0, CHR 0xA4, CHR 0x82] @ '' ({count})''),
      (''menu.itemAdded'', [CHR 0xE0, CHR 0xA4, CHR 0x86, CHR 0xE0, CHR 0xA4, CHR 0x87, CHR 0xE0, CHR 0xA4, CHR 0x9F, CHR 0xE0, CHR 0xA4, CHR 0xAE] @ '' '' @ [CHR 0xE0, CHR 0xA4, CHR 0x9C, CHR 0xE0, CHR 0xA5, CHR 0x8B, CHR 0xE0, CHR 0xA4, CHR 0xA1, CHR 0xE0, CHR 0xA4, CHR 0xBC, CHR 0xE0, CHR 0xA4, CHR 0xBE] @ '' '' @ [CHR 0xE0, CHR 0xA4, CHR 0x97, CHR 0xE0, CHR 0xA4, CHR 0xAF, CHR 0xE0, CHR 0xA4, CHR 0xBE]),
      (''menu.categories.all'', [CHR 0xE0, CHR 0xA4, CHR 0xB8, CHR 0xE0, CHR 0xA4, CHR 0xAD, CHR 0xE0, CHR 0xA5, CHR 0x80]),
      (''item.addToCart'', [CHR 0xE0, CHR 0xA4, CHR 0x95, CHR 0xE0, CHR 0xA4, CHR 0xBE, CHR 0xE0, CHR 0xA4, CHR 0xB0, CHR 0xE0, CHR 0xA5, CHR 0x8D, CHR 0xE0, CHR 0xA4, CHR 0x9F] @ '' '' @ [CHR 0xE0, CHR 0xA4, CHR 0xAE, CHR 0xE0, CHR 0xA5, CHR 0x87, CHR 0xE0, CHR 0xA4, CHR 0x82] @ '' '' @ [CHR 0xE0, CHR 0xA4, CHR 0x9C, CHR 0xE0, CHR 0xA5, CHR 0x8B, CHR 0xE0, CHR 0xA4, CHR 0xA1, CHR 0xE0, CHR 0xA4, CHR 0xBC, CHR 0xE0, CHR 0xA5, CHR 0x87, CHR 0xE0, CHR 0xA4, CHR 0x82]),
      (''item.quantity'', [CHR 0xE0, CHR 0xA4, CHR 0xAE, CHR 0xE0, CHR 0xA4, CHR 0xBE, CHR 0xE0, CHR 0xA4, CHR 0xA4, CHR 0xE0, CHR 0xA5, CHR 0x8D, CHR 0xE0, CHR 0xA4, CHR 0xB0, CHR 0xE0, CHR 0xA4, CHR 0xBE]),
      (''item.modifiers'', [CHR 0xE0, CHR 0xA4, CHR 0x85, CHR 0xE0, CHR 0xA4, CHR 0xA8, CHR 0xE0, CHR 0xA5, CHR 0x81, CHR 0xE0, CHR 0xA4, CHR 0x95, CHR 0xE0, CHR 0xA5, CHR 0x82, CHR 0xE0, CHR 0xA4, CHR 0xB2, CHR 0xE0, CHR 0xA4, CHR 0xBF, CHR 0xE0, CHR 0xA4, CHR 0xA4] @ '' '' @ [CHR 0xE0, CHR 0xA4, CHR 0x95, CHR 0xE0, CHR 0xA4, CHR 0xB0, CHR 0xE0, CHR 0xA5, CHR 0x87, CHR 0xE0, CHR 0xA4, CHR 0x82]),
      (''item.price'', [CHR 0xE0, CHR 0xA4, CHR 0xAE, CHR 0xE0, CHR 0xA5, CHR 0x82, CHR 0xE0, CHR 0xA4, CHR 0xB2, CHR 0xE0, CHR 0xA5, CHR 0x8D, CHR 0xE0, CHR 0xA4, CHR 0xAF]),
      (''item.description'', [CHR 0xE0, CHR 0xA4, CHR 0xB5, CHR 0xE0, CHR 0xA4, CHR 0xBF, CHR 0xE0, CHR 0xA4, CHR 0xB5, CHR 0xE0, CHR 0xA4, CHR 0xB0, CHR 0xE0, CHR 0xA4, CHR 0xA3]),
      (''cart.title'', [CHR 0xE0, CHR 0xA4, CHR 0x86, CHR 0xE0, CHR 0xA4, CHR 0xAA, CHR 0xE0, CHR 0xA4, CHR 0x95, CHR 0xE0, CHR 0xA5, CHR 0x80] @ '' '' @ [CHR 0xE0, CHR 0xA4, CHR 0x95, CHR 0xE0, CHR 0xA4, CHR 0xBE, CHR 0xE0, CHR 0xA4, CHR 0xB0, CHR 0xE0, CHR 0xA5, CHR 0x8D, CHR 0xE0, CHR 0xA4, CHR 0x9F]),
      (''cart.empty'', [CHR 0xE0, CHR 0xA4, CHR 0x86, CHR 0xE0, CHR 0xA4, CHR 0xAA, CHR 0xE0, CHR 0xA4, CHR 0x95, CHR 0xE0, CHR 0xA5, CHR 0x80] @ '' '' @ [CHR 0xE0, CHR 0xA4, CHR 0x95, CHR 0xE0, CHR 0xA4, CHR 0xBE, CHR 0xE0, CHR 0xA4, CHR 0xB0, CHR 0xE0, CHR 0xA5, CHR 0x8D, CHR 0xE0, CHR 0xA4, CHR 0x9F] @ '' '' @ [CHR 0xE0, CHR 0xA4, CHR 0x96, CHR 0xE0, CHR 0xA4, CHR 0xBE, CHR 0xE0, CHR 0xA4, CHR 0xB2, CHR 0xE0, CHR 0xA5, CHR 0x80] @ '' '' @ [CHR 0xE0, CHR 0xA4, CHR 0xB9, CHR 0xE0, CHR 0xA5, CHR 0x88]),
      (''cart.subtotal'', [CHR 0xE0, CHR 0xA4, CHR 0x89, CHR 0xE0, CHR 0xA4, CHR 0xAA] @ ''-'' @ [CHR 0xE0, CHR 0xA4, CHR 0xAF, CHR 0xE0, CHR 0xA5, CHR 0x8B, CHR 0xE0, CHR 0xA4, CHR 0x97]),
      (''cart.tax'', [CHR 0xE0, CHR 0xA4, CHR 0x95, CHR 0xE0, CHR 0xA4, CHR 0xB0]),
      (''cart.total'', [CHR 0xE0, CHR 0xA4, CHR 0x95, CHR 0xE0, CHR 0xA5, CHR 0x81, CHR 0xE0, CHR 0xA4, CHR 0xB2]),
      (''cart.backToMenu'', [CHR 0xE0, CHR 0xA4, CHR 0xAE, CHR 0xE0, CHR 0xA5, CHR 0x87, CHR 0xE0, CHR 0xA4, CHR 0xA8, CHR 0xE0, CHR 0xA5, CHR 0x82] @ '' '' @ [CHR 0xE0, CHR 0xA4, CHR 0xAA, CHR 0xE0, CHR 0xA4, CHR 0xB0] @ '' '' @ [CHR 0xE0, CHR 0xA4, CHR 0xB5, CHR 0xE0, CHR 0xA4, CHR 0xBE, CHR 0xE0, CHR 0xA4, CHR 0xAA, CHR 0xE0, CHR 0xA4, CHR 0xB8] @ '' '' @ [CHR 0xE0, CHR 0xA4, CHR 0x9C, CHR 0xE0, CHR 0xA4, CHR 0xBE, CHR 0xE0, CHR 0xA4, CHR 0x8F, CHR 0xE0, CHR 0xA4, CHR 0x81]),
      (''cart.proceedToPayment'', [CHR 0xE0, CHR 0xA4, CHR 0xAD, CHR 0xE0, CHR 0xA5, CHR 0x81, CHR 0xE0, CHR 0xA4, CHR 0x97, CHR 0xE0, CHR 0xA4, CHR 0xA4, CHR 0xE0, CHR 0xA4, CHR 0xBE, CHR 0xE0, CHR 0xA4, CHR 0xA8] @ '' '' @ [CHR 0xE0, CHR 0xA4, CHR 0x95, CHR 0xE0, CHR 0xA5, CHR 0x87] @ '' '' @ [CHR 0xE0, CHR 0xA4, CHR 0xB2, CHR 0xE0, CHR 0xA4, CHR 0xBF, CHR 0xE0, CHR 0xA4, CHR 0x8F] @ '' '' @ [CHR 0xE0, CHR 0xA4, CHR 0xA4, CHR 0xE0, CHR 0xA5, CHR 0x88, CHR 0xE0, CHR 0xA4, CHR 0xAF, CHR 0xE0, CHR 0xA4, CHR 0xBE, CHR 0xE0, CHR 0xA4, CHR 0xB0]),
      (''cart.removeItem'', [CHR 0xE0, CHR 0xA4, CHR 0xB9, CHR 0xE0, CHR 0xA4, CHR 0x9F, CHR 0xE0, CHR 0xA4, CHR 0xBE, CHR 0xE0, CHR 0xA4, CHR 0x8F, CHR 0xE0, CHR 0xA4, CHR 0x81]),
      (''cart.itemCount'', ''{count} '' @ [CHR 0xE0, CHR 0xA4, CHR 0x86, CHR 0xE0, CHR 0xA4, CHR 0x87, CHR 0xE0, CHR 0xA4, CHR 0x9F, CHR 0xE0, CHR 0xA4, CHR 0xAE]),
      (''cart.summary'', [CHR 0xE0, CHR 0xA4, CHR 0x91, CHR 0xE0, CHR 0xA4, CHR 0xB0, CHR 0xE0, CHR 0xA5, CHR 0x8D, CHR 0xE0, CHR 0xA4, CHR 0xA1, CHR 0xE0, CHR 0xA4, CHR 0xB0] @ '' '' @ [CHR 0xE0, CHR 0xA4, CHR 0xB8, CHR 0xE0, CHR 0xA4, CHR 0xBE, CHR 0xE0, CHR 0xA4, CHR 0xB0, CHR 0xE0, CHR 0xA4, CHR 0xBE, CHR 0xE0, CHR 0xA4, CHR 0x82, CHR 0xE0, CHR 0xA4, CHR 0xB6]),
      (''payment.title'', [CHR 0xE0, CHR 0xA4, CHR 0xAD, CHR 0xE0, CHR 0xA5, CHR 0x81, CHR 0xE0, CHR 0xA4, CHR 0x97, CHR 0xE0, CHR 0xA4, CHR 0xA4, CHR 0xE0, CHR 0xA4, CHR 0xBE, CHR 0xE0, CHR 0xA4, CHR 0xA8]),
      (''payment.confirm'', [CHR 0xE0, CHR 0xA4, CHR 0xAD, CHR 0xE0, CHR 0xA5, CHR 0x81, CHR 0xE0, CHR 0xA4, CHR 0x97, CHR 0xE0, CHR 0xA4, CHR 0xA4, CHR 0xE0, CHR 0xA4, CHR 0xBE, CHR 0xE0, CHR 0xA4, CHR 0xA8] @ '' '' @ [CHR 0xE0, CHR 0xA4, CHR 0x95, CHR 0xE0, CHR 0xA5, CHR 0x80] @ '' '' @ [CHR 0xE0, CHR 0xA4, CHR 0xAA, CHR 0xE0, CHR 0xA5, CHR 0x81, CHR 0xE0, CHR 0xA4, CHR 0xB7, CHR 0xE0, CHR 0xA5, CHR 0x8D, CHR 0xE0, CHR 0xA4, CHR 0x9F, CHR 0xE0, CHR 0xA4, CHR 0xBF] @ '' '' @ [CHR 0xE0, CHR 0xA4, CHR 0x95, CHR 0xE0, CHR 0xA4, CHR 0xB0, CHR 0xE0, CHR 0xA5, CHR 0x87, CHR 0xE0, CHR 0xA4, CHR 0x82]),
      (''payment.cancel'', [CHR 0xE0, CHR 0xA4, CHR 0xB0, CHR 0xE0, CHR 0xA4, CHR 0xA6, CHR 0xE0, CHR 0xA5, CHR 0x8D, CHR 0xE0, CHR 0xA4, CHR 0xA6] @ '' '' @ [CHR 0xE0, CHR 0xA4, CHR 0x95, CHR 0xE0, CHR 0xA4, CHR 0xB0, CHR 0xE0, CHR 0xA5, CHR 0x87, CHR 0xE0, CHR 0xA4, CHR 0x82]),
      (''payment.processing'', [CHR 0xE0, CHR 0xA4, CHR 0xAD, CHR 0xE0, CHR 0xA5, CHR 0x81, CHR 0xE0, CHR 0xA4, CHR 0x97, CHR 0xE0, CHR 0xA4, CHR 0xA4, CHR 0xE0, CHR 0xA4, CHR 0xBE, CHR 0xE0, CHR 0xA4, CHR 0xA8] @ '' '' @ [CHR 0xE0, CHR 0xA4, CHR 0xAA, CHR 0xE0, CHR 0xA5, CHR 0x8D, CHR 0xE0, CHR 0xA4, CHR 0xB0, CHR 0xE0, CHR 0xA4, CHR 0x95, CHR 0xE0, CHR 0xA5, CHR 0x8D, CHR 0xE0, CHR 0xA4, CHR 0xB0, CHR 0xE0, CHR 0xA4, CHR 0xBF, CHR 0xE0, CHR 0xA4, CHR 0xAF, CHR 0xE0, CHR 0xA4, CHR 0xBE] @ '' '' @ [CHR 0xE0, CHR 0xA4, CHR 0x9C, CHR 0xE0, CHR 0xA4, CHR 0xBE, CHR 0xE0, CHR 0xA4, CHR 0xB0, CHR 0xE0, CHR 0xA5, CHR 0x80] @ ''...''),
      (''payment.selectMethod'', [CHR 0xE0, CHR 0xA4, CHR 0xAD, CHR 0xE0, CHR 0xA5, CHR 0x81, CHR 0xE0, CHR 0xA4, CHR 0x97, CHR 0xE0, CHR 0xA4, CHR 0xA4, CHR 0xE0, CHR 0xA4, CHR 0xBE, CHR 0xE0, CHR 0xA4, CHR 0xA8] @ '' '' @ [CHR 0xE0, CHR 0xA4, CHR 0xB5, CHR 0xE0, CHR 0xA4, CHR 0xBF, CHR 0xE0, CHR 0xA4, CHR 0xA7, CHR 0xE0, CHR 0xA4, CHR 0xBF] @ '' '' @ [CHR 0xE0, CHR 0xA4, CHR 0x9A, CHR 0xE0, CHR 0xA5, CHR 0x81, CHR 0xE0, CHR 0xA4, CHR 0xA8, CHR 0xE0, CHR 0xA5, CHR 0x87, CHR 0xE0, CHR 0xA4, CHR 0x82]),
      (''payment.card'', [CHR 0xE0, CHR 0xA4, CHR 0x95, CHR 0xE0, CHR 0xA4, CHR 0xBE, CHR 0xE0, CHR 0xA4, CHR 0xB0, CHR 0xE0, CHR 0xA5, CHR 0x8D, CHR 0xE0, CHR 0xA4, CHR 0xA1]),
      (''payment.cash'', [CHR 0xE0, CHR 0xA4, CHR 0xA8, CHR 0xE0, CHR 0xA4, CHR 0x95, CHR 0xE0, CHR 0xA4, CHR 0xA6]),
      (''payment.mobile'', [CHR 0xE0, CHR 0xA4, CHR 0xAE, CHR 0xE0, CHR 0xA5, CHR 0x8B, CHR 0xE0, CHR 0xA4, CHR 0xAC, CHR 0xE0, CHR 0xA4, CHR 0xBE, CHR 0xE0, CHR 0xA4, CHR 0x87, CHR 0xE0, CHR 0xA4, CHR 0xB2] @ '' '' @ [CHR 0xE0, CHR 0xA4, CHR 0xB5, CHR 0xE0, CHR 0xA5, CHR 0x89, CHR 0xE0, CHR 0xA4, CHR 0xB2, CHR 0xE0, CHR 0xA5, CHR 0x87, CHR 0xE0, CHR 0xA4, CHR 0x9F]),
      (''payment.biometric'', [CHR 0xE0, CHR 0xA4, CHR 0xAC, CHR 0xE0, CHR 0xA4, CHR 0xBE, CHR 0xE0, CHR 0xA4, CHR 0xAF, CHR 0xE0, CHR 0xA5, CHR 0x8B, CHR 0xE0, CHR 0xA4, CHR 0xAE, CHR 0xE0, CHR 0xA5, CHR 0x87, CHR 0xE0, CHR 0xA4, CHR 0x9F, CHR 0xE0, CHR 0xA5, CHR 0x8D, CHR 0xE0, CHR 0xA4, CHR 0xB0, CHR 0xE0, CHR 0xA4, CHR 0xBF, CHR 0xE0, CHR 0xA4, CHR 0x95]),
      (''payment.employeeOverride'', [CHR 0xE0, CHR 0xA4, CHR 0x95, CHR 0xE0, CHR 0xA4, CHR 0xB0, CHR 0xE0, CHR 0xA5, CHR 0x8D, CHR 0xE0, CHR 0xA4, CHR 0xAE, CHR 0xE0, CHR 0xA4, CHR 0x9A, CHR 0xE0, CHR 0xA4, CHR 0xBE, CHR 0xE0, CHR 0xA4, CHR 0xB0, CHR 0xE0, CHR 0xA5, CHR 0x80] @ '' '' @ [CHR 0xE0, CHR 0xA4, CHR 0x85, CHR 0xE0, CHR 0xA4, CHR 0xA7, CHR 0xE0, CHR 0xA4, CHR 0xBF, CHR 0xE0, CHR 0xA4, CHR 0x95, CHR 0xE0, CHR 0xA4, CHR 0xBE, CHR 0xE0, CHR 0xA4, CHR 0xB0]),
      (''payment.insertCard'', [CHR 0xE0, CHR 0xA4, CHR 0x95, CHR 0xE0, CHR 0xA4, CHR 0xBE, CHR 0xE0, CHR 0xA4, CHR 0xB0, CHR 0xE0, CHR 0xA5, CHR 0x8D, CHR 0xE0, CHR 0xA4, CHR 0xA1] @ '' '' @ [CHR 0xE0, CHR 0xA4, CHR 0xA1, CHR 0xE0, CHR 0xA4, CHR 0xBE, CHR 0xE0, CHR 0xA4, CHR 0xB2, CHR 0xE0, CHR 0xA5, CHR 0x87, CHR 0xE0, CHR 0xA4, CHR 0x82] @ '' '' @ [CHR 0xE0, CHR 0xA4, CHR 0xAF, CHR 0xE0, CHR 0xA4, CHR 0xBE] @ '' '' @ [CHR 0xE0, CHR 0xA4, CHR 0xB8, CHR 0xE0, CHR 0xA5, CHR 0x8D, CHR 0xE0, CHR 0xA4, CHR 0xAA, CHR 0xE0, CHR 0xA4, CHR 0xB0, CHR 0xE0, CHR 0xA5, CHR 0x8D, CHR 0xE0, CHR 0xA4, CHR 0xB6] @ '' '' @ [CHR 0xE0, CHR 0xA4, CHR 0x95, CHR 0xE0, CHR 0xA4, CHR 0xB0, CHR 0xE0, CHR 0xA5, CHR 0x87, CHR 0xE0, CHR 0xA4, CHR 0x82]),
      (''payment.scanQR'', ''QR '' @ [CHR 0xE0, CHR 0xA4, CHR 0x95, CHR 0xE0, CHR 0xA5, CHR 0x8B, CHR 0xE0, CHR 0xA4, CHR 0xA1] @ '' '' @ [CHR 0xE0, CHR 0xA4, CHR 0xB8, CHR 0xE0, CHR 0xA5, CHR 0x8D, CHR 0xE0, CHR 0xA4, CHR 0x95, CHR 0xE0, CHR 0xA5, CHR 0x88, CHR 0xE0, CHR 0xA4, CHR 0xA8] @ '' '' @ [CHR 0xE0, CHR 0xA4, CHR 0x95, CHR 0xE0, CHR 0xA4, CHR 0xB0, CHR 0xE0, CHR 0xA5, CHR 0x87, CHR 0xE0, CHR 0xA4, CHR 0x82]),
      (''payment.tapPhone'', [CHR 0xE0, CHR 0xA4, CHR 0x85, CHR 0xE0, CHR 0xA4, CHR 0xAA, CHR 0xE0, CHR 0xA4, CHR 0xA8, CHR 0xE0, CHR 0xA4, CHR 0xBE] @ '' '' @ [CHR 0xE0, CHR 0xA4, CHR 0xAB, CHR 0xE0, CHR 0xA4, CHR 0xBC, CHR 0xE0, CHR 0xA5, CHR 0x8B, CHR 0xE0, CHR 0xA4, CHR 0xA8] @ '' '' @ [CHR 0xE0, CHR 0xA4, CHR 0xB8, CHR 0xE0, CHR 0xA5, CHR 0x8D, CHR 0xE0, CHR 0xA4, CHR 0xAA, CHR 0xE0, CHR 0xA4, CHR 0xB0, CHR 0xE0, CHR 0xA5, CHR 0x8D, CHR 0xE0, CHR 0xA4, CHR 0xB6] @ '' '' @ [CHR 0xE0, CHR 0xA4, CHR 0x95, CHR 0xE0, CHR 0xA4, CHR 0xB0, CHR 0xE0, CHR 0xA5, CHR 0x87, CHR 0xE0, CHR 0xA4, CHR 0x82]),
      (''payment.amount'', [CHR 0xE0, CHR 0xA4, CHR 0xB0, CHR 0xE0, CHR 0xA4, CHR 0xBE, CHR 0xE0, CHR 0xA4, CHR 0xB6, CHR 0xE0, CHR 0xA4, CHR 0xBF]),
      (''processing.title'', [CHR 0xE0, CHR 0xA4, CHR 0xAA, CHR 0xE0, CHR 0xA5, CHR 0x8D, CHR 0xE0, CHR 0xA4, CHR 0xB0, CHR 0xE0, CHR 0xA4, CHR 0x95, CHR 0xE0, CHR 0xA5, CHR 0x8D, CHR 0xE0, CHR 0xA4, CHR 0xB0, CHR 0xE0, CHR 0xA4, CHR 0xBF, CHR 0xE0, CHR 0xA4, CHR 0xAF, CHR 0xE0, CHR 0xA4, CHR 0xBE] @ '' '' @ [CHR 0xE0, CHR 0xA4, CHR 0x9C, CHR 0xE0, CHR 0xA4, CHR 0xBE, CHR 0xE0, CHR 0xA4, CHR 0xB0, CHR 0xE0, CHR 0xA5, CHR 0x80]),
      (''processing.pleaseWait'', [CHR 0xE0, CHR 0xA4, CHR 0x95, CHR 0xE0, CHR 0xA5, CHR 0x83, CHR 0xE0, CHR 0xA4, CHR 0xAA, CHR 0xE0, CHR 0xA4, CHR 0xAF, CHR 0xE0, CHR 0xA4, CHR 0xBE] @ '' '' @ [CHR 0xE0, CHR 0xA4, CHR 0xAA, CHR 0xE0, CHR 0xA5, CHR 0x8D, CHR 0xE0, CHR 0xA4, CHR 0xB0, CHR 0xE0, CHR 0xA4, CHR 0xA4, CHR 0xE0, CHR 0xA5, CHR 0x80, CHR 0xE0, CHR 0xA4, CHR 0x95, CHR 0xE0, CHR 0xA5, CHR 0x8D, CHR 0xE0, CHR 0xA4, CHR 0xB7, CHR 0xE0, CHR 0xA4, CHR 0xBE] @ '' '' @ [CHR 0xE0, CHR 0xA4, CHR 0x95, CHR 0xE0, CHR 0xA4, CHR 0xB0, CHR 0xE0, CHR 0xA5, CHR 0x87, CHR 0xE0, CHR 0xA4, CHR 0x82] @ ''...''),
      (''processing.finalizing'', [CHR 0xE0, CHR 0xA4, CHR 0x86, CHR 0xE0, CHR 0xA4, CHR 0xAA, CHR 0xE0, CHR 0xA4, CHR 0x95, CHR 0xE0, CHR 0xA5, CHR 0x87] @ '' '' @ [CHR 0xE0, CHR 0xA4, CHR 0x91, CHR 0xE0, CHR 0xA4, CHR 0xB0, CHR 0xE0, CHR 0xA5, CHR 0x8D, CHR 0xE0, CHR 0xA4, CHR 0xA1, CHR 0xE0, CHR 0xA4, CHR 0xB0] @ '' '' @ [CHR 0xE0, CHR 0xA4, CHR 0x95, CHR 0xE0, CHR 0xA5, CHR 0x8B] @ '' '' @ [CHR 0xE0, CHR 0xA4, CHR 0x85, CHR 0xE0, CHR 0xA4, CHR 0x82, CHR 0xE0, CHR 0xA4, CHR 0xA4, CHR 0xE0, CHR 0xA4, CHR 0xBF, CHR 0xE0, CHR 0xA4, CHR 0xAE] @ '' '' @ [CHR 0xE0, CHR 0xA4, CHR 0xB0, CHR 0xE0, CHR 0xA5, CHR 0x82, CHR 0xE0, CHR 0xA4, CHR 0xAA] @ '' '' @ [CHR 0xE0, CHR 0xA4, CHR 0xA6, CHR 0xE0, CHR 0xA4, CHR 0xBF, CHR 0xE0, CHR 0xA4, CHR 0xAF, CHR 0xE0, CHR 0xA4, CHR 0xBE] @ '' '' @ [CHR 0xE0, CHR 0xA4, CHR 0x9C, CHR 0xE0, CHR 0xA4, CHR 0xBE] @ '' '' @ [CHR 0xE0, CHR 0xA4, CHR 0xB0, CHR 0xE0, CHR 0xA4, CHR 0xB9, CHR 0xE0, CHR 0xA4, CHR 0xBE] @ '' '' @ [CHR 0xE0, CHR 0xA4, CHR 0xB9, CHR 0xE0, CHR 0xA5, CHR 0x88]),
      (''processing.redirecting'', [CHR 0xE0, CHR 0xA4, CHR 0xB0, CHR 0xE0, CHR 0xA4, CHR 0xB8, CHR 0xE0, CHR 0xA5, CHR 0x80, CHR 0xE0, CHR 0xA4, CHR 0xA6] @ '' '' @ [CHR 0xE0, CHR 0xA4, CHR 0xAA, CHR 0xE0, CHR 0xA4, CHR 0xB0] @ '' '' @ [CHR 0xE0, CHR 0xA4, CHR 0xB0, CHR 0xE0, CHR 0xA5, CHR 0x80, CHR 0xE0, CHR 0xA4, CHR 0xA1, CHR 0xE0, CHR 0xA4, CHR 0xBE, CHR 0xE0, CHR 0xA4, CHR 0xAF, CHR 0xE0, CHR 0xA4, CHR 0xB0, CHR 0xE0, CHR 0xA5, CHR 0x87, CHR 0xE0, CHR 0xA4, CHR 0x95, CHR 0xE0, CHR 0xA5, CHR 0x8D, CHR 0xE0, CHR 0xA4, CHR 0x9F] @ '' '' @ [CHR 0xE0, CHR 0xA4, CHR 0x95, CHR 0xE0, CHR 0xA4, CHR 0xBF, CHR 0xE0, CHR 0xA4, CHR 0xAF, CHR 0xE0, CHR 0xA4, CHR 0xBE] @ '' '' @ [CHR 0xE0, CHR 0xA4, CHR 0x9C, CHR 0xE0, CHR 0xA4, CHR 0xBE] @ '' '' @ [CHR 0xE0, CHR 0xA4, CHR 0xB0, CHR 0xE0, CHR 0xA4, CHR 0xB9, CHR 0xE0, CHR 0xA4, CHR 0xBE] @ '' '' @ [CHR 0xE0, CHR 0xA4, CHR 0xB9, CHR 0xE0, CHR 0xA5, CHR 0x88]),
      (''receipt.title'', [CHR 0xE0, CHR 0xA4, CHR 0xA7, CHR 0xE0, CHR 0xA4, CHR 0xA8, CHR 0xE0, CHR 0xA5, CHR 0x8D, CHR 0xE0, CHR 0xA4, CHR 0xAF, CHR 0xE0, CHR 0xA4, CHR 0xB5, CHR 0xE0, CHR 0xA4, CHR 0xBE, CHR 0xE0, CHR 0xA4, CHR 0xA6]),
      (''receipt.orderNumber'', [CHR 0xE0, CHR 0xA4, CHR 0x91, CHR 0xE0, CHR 0xA4, CHR 0xB0, CHR 0xE0, CHR 0xA5, CHR 0x8D, CHR 0xE0, CHR 0xA4, CHR 0xA1, CHR 0xE0, CHR 0xA4, CHR 0xB0] @ '' #{number}''),
      (''receipt.print'', [CHR 0xE0, CHR 0xA4, CHR 0xB0, CHR 0xE0, CHR 0xA4, CHR 0xB8, CHR 0xE0, CHR 0xA5, CHR 0x80, CHR 0xE0, CHR 0xA4, CHR 0xA6] @ '' '' @ [CHR 0xE0, CHR 0xA4, CHR 0xAA, CHR 0xE0, CHR 0xA5, CHR 0x8D, CHR 0xE0, CHR 0xA4, CHR 0xB0, CHR 0xE0, CHR 0xA4, CHR 0xBF, CHR 0xE0, CHR 0xA4, CHR 0x82, CHR 0xE0, CHR 0xA4, CHR 0x9F] @ '' '' @ [CHR 0xE0, CHR 0xA4, CHR 0x95, CHR 0xE0, CHR 0xA4, CHR 0xB0, CHR 0xE0, CHR 0xA5, CHR 0x87, CHR 0xE0, CHR 0xA4, CHR 0x82]),
      (''receipt.email'', [CHR 0xE0, CHR 0xA4, CHR 0x88, CHR 0xE0, CHR 0xA4, CHR 0xAE, CHR 0xE0, CHR 0xA5, CHR 0x87, CHR 0xE0, CHR 0xA4, CHR 0xB2] @ '' '' @ [CHR 0xE0, CHR 0xA4, CHR 0xA6, CHR 0xE0, CHR 0xA5, CHR 0x8D, CHR 0xE0, CHR 0xA4, CHR 0xB5, CHR 0xE0, CHR 0xA4, CHR 0xBE, CHR 0xE0, CHR 0xA4, CHR 0xB0, CHR 0xE0, CHR 0xA4, CHR 0xBE] @ '' '' @ [CHR 0xE0, CHR 0xA4, CHR 0xB0, CHR 0xE0, CHR 0xA4, CHR 0xB8, CHR 0xE0, CHR 0xA5, CHR 0x80, CHR 0xE0, CHR 0xA4, CHR 0xA6] @ '' '' @ [CHR 0xE0, CHR 0xA4, CHR 0xAA, CHR 0xE0, CHR 0xA5, CHR 0x8D, CHR 0xE0, CHR 0xA4, CHR 0xB0, CHR 0xE0, CHR 0xA4, CHR 0xBE, CHR 0xE0, CHR 0xA4, CHR 0xAA, CHR 0xE0, CHR 0xA5, CHR 0x8D, CHR 0xE0, CHR 0xA4, CHR 0xA4] @ '' '' @ [CHR 0xE0, CHR 0xA4, CHR 0x95, CHR 0xE0, CHR 0xA4, CHR 0xB0, CHR 0xE0, CHR 0xA5, CHR 0x87, CHR 0xE0, CHR 0xA4, CHR 0x82]),
      (''receipt.startNew'', [CHR 0xE0, CHR 0xA4, CHR 0xA8, CHR 0xE0, CHR 0xA4, CHR 0xAF, CHR 0xE0, CHR 0xA4, CHR 0xBE] @ '' '' @ [CHR 0xE0, CHR 0xA4, CHR 0x91, CHR 0xE0, CHR 0xA4, CHR 0xB0, CHR 0xE0, CHR 0xA5, CHR 0x8D, CHR 0xE0, CHR 0xA4, CHR 0xA1, CHR 0xE0, CHR 0xA4, CHR 0xB0] @ '' '' @ [CHR 0xE0, CHR 0xA4, CHR 0xB6, CHR 0xE0, CHR 0xA5, CHR 0x81, CHR 0xE0, CHR 0xA4, CHR 0xB0, CHR 0xE0, CHR 0xA5, CHR 0x82] @ '' '' @ [CHR 0xE0, CHR 0xA4, CHR 0x95, CHR 0xE0, CHR 0xA4, CHR 0xB0, CHR 0xE0, CHR 0xA5, CHR 0x87, CHR 0xE0, CHR 0xA4, CHR 0x82]),
      (''receipt.thankYouMessage'', [CHR 0xE0, CHR 0xA4, CHR 0x86, CHR 0xE0, CHR 0xA4, CHR 0xAA, CHR 0xE0, CHR 0xA4, CHR 0x95, CHR 0xE0, CHR 0xA5, CHR 0x80] @ '' '' @ [CHR 0xE0, CHR 0xA4, CHR 0x96, CHR 0xE0, CHR 0xA4, CHR 0xB0, CHR 0xE0, CHR 0xA5, CHR 0x80, CHR 0xE0, CHR 0xA4, CHR 0xA6, CHR 0xE0, CHR 0xA4, CHR 0xBE, CHR 0xE0, CHR 0xA4, CHR 0xB0, CHR 0xE0, CHR 0xA5, CHR 0x80] @ '' '' @ [CHR 0xE0, CHR 0xA4, CHR 0x95, CHR 0xE0, CHR 0xA5, CHR 0x87] @ '' '' @ [CHR 0xE0, CHR 0xA4, CHR 0xB2, CHR 0xE0, CHR 0xA4, CHR 0xBF, CHR 0xE0, CHR 0xA4, CHR 0x8F] @ '' '' @ [CHR 0xE0, CHR 0xA4, CHR 0xA7, CHR 0xE0, CHR 0xA4, CHR 0xA8, CHR 0xE0, CHR 0xA5, CHR 0x8D, CHR 0xE0, CHR 0xA4, CHR 0xAF, CHR 0xE0, CHR 0xA4, CHR 0xB5, CHR 0xE0, CHR 0xA4, CHR 0xBE, CHR 0xE0, CHR 0xA4, CHR 0xA6] @ ''!''),
      (''status.offline'', [CHR 0xE0, CHR 0xA4, CHR 0x91, CHR 0xE0, CHR 0xA4, CHR 0xAB, CHR 0xE0, CHR 0xA4, CHR 0xBC, CHR 0xE0, CHR 0xA4, CHR 0xB2, CHR 0xE0, CHR 0xA4, CHR 0xBE, CHR 0xE0, CHR 0xA4, CHR 0x87, CHR 0xE0, CHR 0xA4, CHR 0xA8]),
      (''status.online'', [CHR 0xE0, CHR 0xA4, CHR 0x91, CHR 0xE0, CHR 0xA4, CHR 0xA8, CHR 0xE0, CHR 0xA4, CHR 0xB2, CHR 0xE0, CHR 0xA4, CHR 0xBE, CHR 0xE0, CHR 0xA4, CHR 0x87, CHR 0xE0, CHR 0xA4, CHR 0xA8]),
      (''status.connecting'', [CHR 0xE0, CHR 0xA4, CHR 0x95, CHR 0xE0, CHR 0xA4, CHR 0xA8, CHR 0xE0, CHR 0xA5, CHR 0x87, CHR 0xE0, CHR 0xA4, CHR 0x95, CHR 0xE0, CHR 0xA5, CHR 0x8D, CHR 0xE0, CHR 0xA4, CHR 0x9F] @ '' '' @ [CHR 0xE0, CHR 0xA4, CHR 0xB9, CHR 0xE0, CHR 0xA5, CHR 0x8B] @ '' '' @ [CHR 0xE0, CHR 0xA4, CHR 0xB0, CHR 0xE0, CHR 0xA4, CHR 0xB9, CHR 0xE0, CHR 0xA4, CHR 0xBE] @ '' '' @ [CHR 0xE0, CHR 0xA4, CHR 0xB9, CHR 0xE0, CHR 0xA5, CHR 0x88] @ ''...''),
      (''status.network'', [CHR 0xE0, CHR 0xA4, CHR 0xA8, CHR 0xE0, CHR 0xA5, CHR 0x87, CHR 0xE0, CHR 0xA4, CHR 0x9F, CHR 0xE0, CHR 0xA4, CHR 0xB5, CHR 0xE0, CHR 0xA4, CHR 0xB0, CHR 0xE0, CHR 0xA5, CHR 0x8D, CHR 0xE0, CHR 0xA4, CHR 0x95]),
      (''idle.warning'', [CHR 0xE0, CHR 0xA4, CHR 0x85, CHR 0xE0, CHR 0xA4, CHR 0xAD, CHR 0xE0, CHR 0xA5, CHR 0x80] @ '' '' @ [CHR 0xE0, CHR 0xA4, CHR 0xAD, CHR 0xE0, CHR 0xA5, CHR 0x80] @ '' '' @ [CHR 0xE0, CHR 0xA4, CHR 0x96, CHR 0xE0, CHR 0xA4, CHR 0xB0, CHR 0xE0, CHR 0xA5, CHR 0x80, CHR 0xE0, CHR 0xA4, CHR 0xA6, CHR 0xE0, CHR 0xA4, CHR 0xBE, CHR 0xE0, CHR 0xA4, CHR 0xB0, CHR 0xE0, CHR 0xA5, CHR 0x80] @ '' '' @ [CHR 0xE0, CHR 0xA4, CHR 0x95, CHR 0xE0, CHR 0xA4, CHR 0xB0] @ '' '' @ [CHR 0xE0, CHR 0xA4, CHR 0xB0, CHR 0xE0, CHR 0xA4, CHR 0xB9, CHR 0xE0, CHR 0xA5, CHR 0x87] @ '' '' @ [CHR 0xE0, CHR 0xA4, CHR 0xB9, CHR 0xE0, CHR 0xA5, CHR 0x88, CHR 0xE0, CHR 0xA4, CHR 0x82] @ ''?''),
      (''idle.continue'', [CHR 0xE0, CHR 0xA4, CHR 0x9C, CHR 0xE0, CHR 0xA4, CHR 0xBE, CHR 0xE0, CHR 0xA4, CHR 0xB0, CHR 0xE0, CHR 0xA5, CHR 0x80] @ '' '' @ [CHR 0xE0, CHR 0xA4, CHR 0xB0, CHR 0xE0, CHR 0xA4, CHR 0x96, CHR 0xE0, CHR 0xA5, CHR 0x87, CHR 0xE0, CHR 0xA4, CHR 0x82]),
      (''idle.endSession'', [CHR 0xE0, CHR 0xA4, CHR 0xB8, CHR 0xE0, CHR 0xA4, CHR 0xA4, CHR 0xE0, CHR 0xA5, CHR 0x8D, CHR 0xE0, CHR 0xA4, CHR 0xB0] @ '' '' @ [CHR 0xE0, CHR 0xA4, CHR 0xB8, CHR 0xE0, CHR 0xA4, CHR 0xAE, CHR 0xE0, CHR 0xA4, CHR 0xBE, CHR 0xE0, CHR 0xA4, CHR 0xAA, CHR 0xE0, CHR 0xA5, CHR 0x8D, CHR 0xE0, CHR 0xA4, CHR 0xA4] @ '' '' @ [CHR 0xE0, CHR 0xA4, CHR 0x95, CHR 0xE0, CHR 0xA4, CHR 0xB0, CHR 0xE0, CHR 0xA5, CHR 0x87, CHR 0xE0, CHR 0xA4, CHR 0x82]),
      (''idle.timeoutWarning'', [CHR 0xE0, CHR 0xA4, CHR 0xA8, CHR 0xE0, CHR 0xA4, CHR 0xBF, CHR 0xE0, CHR 0xA4, CHR 0xB7, CHR 0xE0, CHR 0xA5, CHR 0x8D, CHR 0xE0, CHR 0xA4, CHR 0x95, CHR 0xE0, CHR 0xA5, CHR 0x8D, CHR 0xE0, CHR 0xA4, CHR 0xB0, CHR 0xE0, CHR 0xA4, CHR 0xBF, CHR 0xE0, CHR 0xA4, CHR 0xAF, CHR 0xE0, CHR 0xA4, CHR 0xA4, CHR 0xE0, CHR 0xA4, CHR 0xBE] @ '' '' @ [CHR 0xE0, CHR 0xA4, CHR 0x95, CHR 0xE0, CHR 0xA5, CHR 0x87] @ '' '' @ [CHR 0xE0, CHR 0xA4, CHR 0x95, CHR 0xE0, CHR 0xA4, CHR 0xBE, CHR 0xE0, CHR 0xA4, CHR 0xB0, CHR 0xE0, CHR 0xA4, CHR 0xA3] @ '' '' @ [CHR 0xE0, CHR 0xA4, CHR 0xB8, CHR 0xE0, CHR 0xA4, CHR 0xA4, CHR 0xE0, CHR 0xA5, CHR 0x8D, CHR 0xE0, CHR 0xA4, CHR 0xB0] @ '' '' @ [CHR 0xE0, CHR 0xA4, CHR 0x9C, CHR 0xE0, CHR 0xA4, CHR 0xB2, CHR 0xE0, CHR 0xA5, CHR 0x8D, CHR 0xE0, CHR 0xA4, CHR 0xA6] @ '' '' @ [CHR 0xE0, CHR 0xA4, CHR 0xB9, CHR 0xE0, CHR 0xA5, CHR 0x80] @ '' '' @ [CHR 0xE0, CHR 0xA4, CHR 0xB8, CHR 0xE0, CHR 0xA4, CHR 0xAE, CHR 0xE0, CHR 0xA4, CHR 0xBE, CHR 0xE0, CHR 0xA4, CHR 0xAA, CHR 0xE0, CHR 0xA5, CHR 0x8D, CHR 0xE0, CHR 0xA4, CHR 0xA4] @ '' '' @ [CHR 0xE0, CHR 0xA4, CHR 0xB9, CHR 0xE0, CHR 0xA5, CHR 0x8B] @ '' '' @ [CHR 0xE0, CHR 0xA4, CHR 0x9C, CHR 0xE0, CHR 0xA4, CHR 0xBE, CHR 0xE0, CHR 0xA4, CHR 0x8F, CHR 0xE0, CHR 0xA4, CHR 0x97, CHR 0xE0, CHR 0xA4, CHR 0xBE, CHR 0xE0, CHR 0xA5, CHR 0xA4]),
      (''offline.banner'', [CHR 0xE0, CHR 0xA4, CHR 0x86, CHR 0xE0, CHR 0xA4, CHR 0xAA] @ '' '' @ [CHR 0xE0, CHR 0xA4, CHR 0x91, CHR 0xE0, CHR 0xA4, CHR 0xAB, CHR 0xE0, CHR 0xA4, CHR 0xBC, CHR 0xE0, CHR 0xA4, CHR 0xB2, CHR 0xE0, CHR 0xA4, CHR 0xBE, CHR 0xE0, CHR 0xA4, CHR 0x87, CHR 0xE0, CHR 0xA4, CHR 0xA8] @ '' '' @ [CHR 0xE0, CHR 0xA4, CHR 0xB9, CHR 0xE0, CHR 0xA5, CHR 0x88, CHR 0xE0, CHR 0xA4, CHR 0x82, CHR 0xE0, CHR 0xA5, CHR 0xA4] @ '' '' @ [CHR 0xE0, CHR 0xA4, CHR 0x95, CHR 0xE0, CHR 0xA5, CHR 0x81, CHR 0xE0, CHR 0xA4, CHR 0x9B] @ '' '' @ [CHR 0xE0, CHR 0xA4, CHR 0xB8, CHR 0xE0, CHR 0xA5, CHR 0x81, CHR 0xE0, CHR 0xA4, CHR 0xB5, CHR 0xE0, CHR 0xA4, CHR 0xBF, CHR 0xE0, CHR 0xA4, CHR 0xA7, CHR 0xE0, CHR 0xA4, CHR 0xBE, CHR 0xE0, CHR 0xA4, CHR 0x8F, CHR 0xE0, CHR 0xA4, CHR 0x81] @ '' '' @ [CHR 0xE0, CHR 0xA4, CHR 0x89, CHR 0xE0, CHR 0xA4, CHR 0xAA, CHR 0xE0, CHR 0xA4, CHR 0xB2, CHR 0xE0, CHR 0xA4, CHR 0xAC, CHR 0xE0, CHR 0xA5, CHR 0x8D, CHR 0xE0, CHR 0xA4, CHR 0xA7] @ '' '' @ [CHR 0xE0, CHR 0xA4, CHR 0xA8, CHR 0xE0, CHR 0xA4, CHR 0xB9, CHR 0xE0, CHR 0xA5, CHR 0x80, CHR 0xE0, CHR 0xA4, CHR 0x82] @ '' '' @ [CHR 0xE0, CHR 0xA4, CHR 0xB9, CHR 0xE0, CHR 0xA5, CHR 0x8B] @ '' '' @ [CHR 0xE0, CHR 0xA4, CHR 0xB8, CHR 0xE0, CHR 0xA4, CHR 0x95, CHR 0xE0, CHR 0xA4, CHR 0xA4, CHR 0xE0, CHR 0xA5, CHR 0x80] @ '' '' @ [CHR 0xE0, CHR 0xA4, CHR 0xB9, CHR 0xE0, CHR 0xA5, CHR 0x88, CHR 0xE0, CHR 0xA4, CHR 0x82, CHR 0xE0, CHR 0xA5, CHR 0xA4]),
      (''offline.reconnecting'', [CHR 0xE0, CHR 0xA4, CHR 0xAA, CHR 0xE0, CHR 0xA5, CHR 0x81, CHR 0xE0, CHR 0xA4, CHR 0xA8, CHR 0xE0, CHR 0xA4, CHR 0x83] @ '' '' @ [CHR 0xE0, CHR 0xA4, CHR 0x95, CHR 0xE0, CHR 0xA4, CHR 0xA8, CHR 0xE0, CHR 0xA5, CHR 0x87, CHR 0xE0, CHR 0xA4, CHR 0x95, CHR 0xE0, CHR 0xA5, CHR 0x8D, CHR 0xE0, CHR 0xA4, CHR 0x9F] @ '' '' @ [CHR 0xE0, CHR 0xA4, CHR 0xB9, CHR 0xE0, CHR 0xA5, CHR 0x8B] @ '' '' @ [CHR 0xE0, CHR 0xA4, CHR 0xB0, CHR 0xE0, CHR 0xA4, CHR 0xB9, CHR 0xE0, CHR 0xA4, CHR 0xBE] @ '' '' @ [CHR 0xE0, CHR 0xA4, CHR 0xB9, CHR 0xE0, CHR 0xA5, CHR 0x88] @ ''...''),
      (''offline.longOffline'', [CHR 0xE0, CHR 0xA4, CHR 0xB2, CHR 0xE0, CHR 0xA4, CHR 0x82, CHR 0xE0, CHR 0xA4, CHR 0xAC, CHR 0xE0, CHR 0xA5, CHR 0x87] @ '' '' @ [CHR 0xE0, CHR 0xA4, CHR 0xB8, CHR 0xE0, CHR 0xA4, CHR 0xAE, CHR 0xE0, CHR 0xA4, CHR 0xAF] @ '' '' @ [CHR 0xE0, CHR 0xA4, CHR 0xB8, CHR 0xE0, CHR 0xA5, CHR 0x87] @ '' '' @ [CHR 0xE0, CHR 0xA4, CHR 0x95, CHR 0xE0, CHR 0xA5, CHR 0x8B, CHR 0xE0, CHR 0xA4, CHR 0x88] @ '' '' @ [CHR 0xE0, CHR 0xA4, CHR 0xA8, CHR 0xE0, CHR 0xA5, CHR 0x87, CHR 0xE0, CHR 0xA4, CHR 0x9F, CHR 0xE0, CHR 0xA4, CHR 0xB5, CHR 0xE0, CHR 0xA4, CHR 0xB0, CHR 0xE0, CHR 0xA5, CHR 0x8D, CHR 0xE0, CHR 0xA4, CHR 0x95] @ '' '' @ [CHR 0xE0, CHR 0xA4, CHR 0x95, CHR 0xE0, CHR 0xA4, CHR 0xA8, CHR 0xE0, CHR 0xA5, CHR 0x87, CHR 0xE0, CHR 0xA4, CHR 0x95, CHR 0xE0, CHR 0xA5, CHR 0x8D, CHR 0xE0, CHR 0xA4, CHR 0xB6, CHR 0xE0, CHR 0xA4, CHR 0xA8] @ '' '' @ [CHR 0xE0, CHR 0xA4, CHR 0xA8, CHR 0xE0, CHR 0xA4, CHR 0xB9, CHR 0xE0, CHR 0xA5, CHR 0x80, CHR 0xE0, CHR 0xA4, CHR 0x82] @ '' '' @ [CHR 0xE0, CHR 0xA4, CHR 0xB9, CHR 0xE0, CHR 0xA5, CHR 0x88, CHR 0xE0, CHR 0xA5, CHR 0xA4]),
      (''error.generic'', [CHR 0xE0, CHR 0xA4, CHR 0x95, CHR 0xE0, CHR 0xA5, CHR 0x81, CHR 0xE0, CHR 0xA4, CHR 0x9B] @ '' '' @ [CHR 0xE0, CHR 0xA4, CHR 0x97, CHR 0xE0, CHR 0xA4, CHR 0xB2, CHR 0xE0, CHR 0xA4, CHR 0xA4] @ '' '' @ [CHR 0xE0, CHR 0xA4, CHR 0xB9, CHR 0xE0, CHR 0xA5, CHR 0x8B] @ '' '' @ [CHR 0xE0, CHR 0xA4, CHR 0x97, CHR 0xE0, CHR 0xA4, CHR 0xAF, CHR 0xE0, CHR 0xA4, CHR 0xBE]),
      (''error.restart'', [CHR 0xE0, CHR 0xA4, CHR 0x95, CHR 0xE0, CHR 0xA4, CHR 0xBF, CHR 0xE0, CHR 0xA4, CHR 0xAF, CHR 0xE0, CHR 0xA5, CHR 0x8B, CHR 0xE0, CHR 0xA4, CHR 0xB8, CHR 0xE0, CHR 0xA5, CHR 0x8D, CHR 0xE0, CHR 0xA4, CHR 0x95] @ '' '' @ [CHR 0xE0, CHR 0xA4, CHR 0xAA, CHR 0xE0, CHR 0xA5, CHR 0x81, CHR 0xE0, CHR 0xA4, CHR 0xA8, CHR 0xE0, CHR 0xA4, CHR 0xB0, CHR 0xE0, CHR 0xA4, CHR 0xBE, CHR 0xE0, CHR 0xA4, CHR 0xB0, CHR 0xE0, CHR 0xA4, CHR 0x82, CHR 0xE0, CHR 0xA4, CHR 0xAD] @ '' '' @ [CHR 0xE0, CHR 0xA4, CHR 0x95, CHR 0xE0, CHR 0xA4, CHR 0xB0, CHR 0xE0, CHR 0xA5, CHR 0x87, CHR 0xE0, CHR 0xA4, CHR 0x82]),
      (''error.retry'', [CHR 0xE0, CHR 0xA4, CHR 0xAA, CHR 0xE0, CHR 0xA5, CHR 0x81, CHR 0xE0, CHR 0xA4, CHR 0xA8, CHR 0xE0, CHR 0xA4, CHR 0x83] @ '' '' @ [CHR 0xE0, CHR 0xA4, CHR 0xAA, CHR 0xE0, CHR 0xA5, CHR 0x8D, CHR 0xE0, CHR 0xA4, CHR 0xB0, CHR 0xE0, CHR 0xA4, CHR 0xAF, CHR 0xE0, CHR 0xA4, CHR 0xBE, CHR 0xE0, CHR 0xA4, CHR 0xB8] @ '' '' @ [CHR 0xE0, CHR 0xA4, CHR 0x95, CHR 0xE0, CHR 0xA4, CHR 0xB0, CHR 0xE0, CHR 0xA5, CHR 0x87, CHR 0xE0, CHR 0xA4, CHR 0x82]),
      (''error.paymentDeclined'', [CHR 0xE0, CHR 0xA4, CHR 0xAD, CHR 0xE0, CHR 0xA5, CHR 0x81, CHR 0xE0, CHR 0xA4, CHR 0x97, CHR 0xE0, CHR 0xA4, CHR 0xA4, CHR 0xE0, CHR 0xA4, CHR 0xBE, CHR 0xE0, CHR 0xA4, CHR 0xA8] @ '' '' @ [CHR 0xE0, CHR 0xA4, CHR 0x85, CHR 0xE0, CHR 0xA4, CHR 0xB8, CHR 0xE0, CHR 0xA5, CHR 0x8D, CHR 0xE0, CHR 0xA4, CHR 0xB5, CHR 0xE0, CHR 0xA5, CHR 0x80, CHR 0xE0, CHR 0xA4, CHR 0x95, CHR 0xE0, CHR 0xA5, CHR 0x83, CHR 0xE0, CHR 0xA4, CHR 0xA4, CHR 0xE0, CHR 0xA5, CHR 0xA4] @ '' '' @ [CHR 0xE0, CHR 0xA4, CHR 0x95, CHR 0xE0, CHR 0xA5, CHR 0x8B, CHR 0xE0, CHR 0xA4, CHR 0x88] @ '' '' @ [CHR 0xE0, CHR 0xA4, CHR 0x85, CHR 0xE0, CHR 0xA4, CHR 0xA8, CHR 0xE0, CHR 0xA5, CHR 0x8D, CHR 0xE0, CHR 0xA4, CHR 0xAF] @ '' '' @ [CHR 0xE0, CHR 0xA4, CHR 0xA4, CHR 0xE0, CHR 0xA4, CHR 0xB0, CHR 0xE0, CHR 0xA5, CHR 0x80, CHR 0xE0, CHR 0xA4, CHR 0x95, CHR 0xE0, CHR 0xA4, CHR 0xBE] @ '' '' @ [CHR 0xE0, CHR 0xA4, CHR 0x86, CHR 0xE0, CHR 0xA4, CHR 0x9C, CHR 0xE0, CHR 0xA4, CHR 0xBC, CHR 0xE0, CHR 0xA4, CHR 0xAE, CHR 0xE0, CHR 0xA4, CHR 0xBE, CHR 0xE0, CHR 0xA4, CHR 0x8F, CHR 0xE0, CHR 0xA4, CHR 0x81, CHR 0xE0, CHR 0xA5, CHR 0xA4]),
      (''error.paymentFailed'', [CHR 0xE0, CHR 0xA4, CHR 0xAD, CHR 0xE0, CHR 0xA5, CHR 0x81, CHR 0xE0, CHR 0xA4, CHR 0x97, CHR 0xE0, CHR 0xA4, CHR 0xA4, CHR 0xE0, CHR 0xA4, CHR 0xBE, CHR 0xE0, CHR 0xA4, CHR 0xA8] @ '' '' @ [CHR 0xE0, CHR 0xA4, CHR 0xB5, CHR 0xE0, CHR 0xA4, CHR 0xBF, CHR 0xE0, CHR 0xA4, CHR 0xAB, CHR 0xE0, CHR 0xA4, CHR 0xB2, CHR 0xE0, CHR 0xA5, CHR 0xA4] @ '' '' @ [CHR 0xE0, CHR 0xA4, CHR 0x95, CHR 0xE0, CHR 0xA5, CHR 0x83, CHR 0xE0, CHR 0xA4, CHR 0xAA, CHR 0xE0, CHR 0xA4, CHR 0xAF, CHR 0xE0, CHR 0xA4, CHR 0xBE] @ '' '' @ [CHR 0xE0, CHR 0xA4, CHR 0xAA, CHR 0xE0, CHR 0xA5, CHR 0x81, CHR 0xE0, CHR 0xA4, CHR 0xA8, CHR 0xE0, CHR 0xA4, CHR 0x83] @ '' '' @ [CHR 0xE0, CHR 0xA4, CHR 0xAA, CHR 0xE0, CHR 0xA5, CHR 0x8D, CHR 0xE0, CHR 0xA4, CHR 0xB0, CHR 0xE0, CHR 0xA4, CHR 0xAF, CHR 0xE0, CHR 0xA4, CHR 0xBE, CHR 0xE0, CHR 0xA4, CHR 0xB8] @ '' '' @ [CHR 0xE0, CHR 0xA4, CHR 0x95, CHR 0xE0, CHR 0xA4, CHR 0xB0, CHR 0xE0, CHR 0xA5, CHR 0x87, CHR 0xE0, CHR 0xA4, CHR 0x82, CHR 0xE0, CHR 0xA5, CHR 0xA4]),
      (''error.sessionExpired'', [CHR 0xE0, CHR 0xA4, CHR 0xB8, CHR 0xE0, CHR 0xA4, CHR 0xA4, CHR 0xE0, CHR 0xA5, CHR 0x8D, CHR 0xE0, CHR 0xA4, CHR 0xB0] @ '' '' @ [CHR 0xE0, CHR 0xA4, CHR 0xB8, CHR 0xE0, CHR 0xA4, CHR 0xAE, CHR 0xE0, CHR 0xA4, CHR 0xBE, CHR 0xE0, CHR 0xA4, CHR 0xAA, CHR 0xE0, CHR 0xA5, CHR 0x8D, CHR 0xE0, CHR 0xA4, CHR 0xA4] @ '' '' @ [CHR 0xE0, CHR 0xA4, CHR 0xB9, CHR 0xE0, CHR 0xA5, CHR 0x8B] @ '' '' @ [CHR 0xE0, CHR 0xA4, CHR 0x97, CHR 0xE0, CHR 0xA4, CHR 0xAF, CHR 0xE0, CHR 0xA4, CHR 0xBE, CHR 0xE0, CHR 0xA5, CHR 0xA4] @ '' '' @ [CHR 0xE0, CHR 0xA4, CHR 0x95, CHR 0xE0, CHR 0xA5, CHR 0x83, CHR 0xE0, CHR 0xA4, CHR 0xAA, CHR 0xE0, CHR 0xA4, CHR 0xAF, CHR 0xE0, CHR 0xA4, CHR 0xBE] @ '' '' @ [CHR 0xE0, CHR 0xA4, CHR 0xAA, CHR 0xE0, CHR 0xA5, CHR 0x81, CHR 0xE0, CHR 0xA4, CHR 0xA8, CHR 0xE0, CHR 0xA4, CHR 0x83] @ '' '' @ [CHR 0xE0, CHR 0xA4, CHR 0xB6, CHR 0xE0, CHR 0xA5, CHR 0x81, CHR 0xE0, CHR 0xA4, CHR 0xB0, CHR 0xE0, CHR 0xA5, CHR 0x82] @ '' '' @ [CHR 0xE0, CHR 0xA4, CHR 0x95, CHR 0xE0, CHR 0xA4, CHR 0xB0, CHR 0xE0, CHR 0xA5, CHR 0x87, CHR 0xE0, CHR 0xA4, CHR 0x82, CHR 0xE0, CHR 0xA5, CHR 0xA4]),
      (''error.connectionLost'', [CHR 0xE0, CHR 0xA4, CHR 0x95, CHR 0xE0, CHR 0xA4, CHR 0xA8, CHR 0xE0, CHR 0xA5, CHR 0x87, CHR 0xE0, CHR 0xA4, CHR 0x95, CHR 0xE0, CHR 0xA5, CHR 0x8D, CHR 0xE0, CHR 0xA4, CHR 0xB6, CHR 0xE0, CHR 0xA4, CHR 0xA8] @ '' '' @ [CHR 0xE0, CHR 0xA4, CHR 0x96, CHR 0xE0, CHR 0xA5, CHR 0x8B] @ '' '' @ [CHR 0xE0, CHR 0xA4, CHR 0x97, CHR 0xE0, CHR 0xA4, CHR 0xAF, CHR 0xE0, CHR 0xA4, CHR 0xBE, CHR 0xE0, CHR 0xA5, CHR 0xA4] @ '' '' @ [CHR 0xE0, CHR 0xA4, CHR 0xA8, CHR 0xE0, CHR 0xA5, CHR 0x87, CHR 0xE0, CHR 0xA4, CHR 0x9F, CHR 0xE0, CHR 0xA4, CHR 0xB5, CHR 0xE0, CHR 0xA4, CHR 0xB0, CHR 0xE0, CHR 0xA5, CHR 0x8D, CHR 0xE0, CHR 0xA4, CHR 0x95] @ '' '' @ [CHR 0xE0, CHR 0xA4, CHR 0x9C, CHR 0xE0, CHR 0xA4, CHR 0xBE, CHR 0xE0, CHR 0xA4, CHR 0x81, CHR 0xE0, CHR 0xA4, CHR 0x9A] @ '' '' @ [CHR 0xE0, CHR 0xA4, CHR 0xB0, CHR 0xE0, CHR 0xA4, CHR 0xB9, CHR 0xE0, CHR 0xA4, CHR 0xBE] @ '' '' @ [CHR 0xE0, CHR 0xA4, CHR 0xB9, CHR 0xE0, CHR 0xA5, CHR 0x88] @ ''...''),
      (''admin.title'', [CHR 0xE0, CHR 0xA4, CHR 0xAA, CHR 0xE0, CHR 0xA5, CHR 0x8D, CHR 0xE0, CHR 0xA4, CHR 0xB0, CHR 0xE0, CHR 0xA4, CHR 0xB6, CHR 0xE0, CHR 0xA4, CHR 0xBE, CHR 0xE0, CHR 0xA4, CHR 0xB8, CHR 0xE0, CHR 0xA4, CHR 0xA8] @ '' '' @ [CHR 0xE0, CHR 0xA4, CHR 0xAA, CHR 0xE0, CHR 0xA5, CHR 0x88, CHR 0xE0, CHR 0xA4, CHR 0xA8, CHR 0xE0, CHR 0xA4, CHR 0xB2]),
      (''admin.close'', [CHR 0xE0, CHR 0xA4, CHR 0xAC, CHR 0xE0, CHR 0xA4, CHR 0x82, CHR 0xE0, CHR 0xA4, CHR 0xA6] @ '' '' @ [CHR 0xE0, CHR 0xA4, CHR 0x95, CHR 0xE0, CHR 0xA4, CHR 0xB0, CHR 0xE0, CHR 0xA5, CHR 0x87, CHR 0xE0, CHR 0xA4, CHR 0x82]),
      (''admin.dashboard'', [CHR 0xE0, CHR 0xA4, CHR 0xA1, CHR 0xE0, CHR 0xA5, CHR 0x88, CHR 0xE0, CHR 0xA4, CHR 0xB6, CHR 0xE0, CHR 0xA4, CHR 0xAC, CHR 0xE0, CHR 0xA5, CHR 0x8B, CHR 0xE0, CHR 0xA4, CHR 0xB0, CHR 0xE0, CHR 0xA5, CHR 0x8D, CHR 0xE0, CHR 0xA4, CHR 0xA1]),
      (''general.confirm'', [CHR 0xE0, CHR 0xA4, CHR 0xAA, CHR 0xE0, CHR 0xA5, CHR 0x81, CHR 0xE0, CHR 0xA4, CHR 0xB7, CHR 0xE0, CHR 0xA5, CHR 0x8D, CHR 0xE0, CHR 0xA4, CHR 0x9F, CHR 0xE0, CHR 0xA4, CHR 0xBF] @ '' '' @ [CHR 0xE0, CHR 0xA4, CHR 0x95, CHR 0xE0, CHR 0xA4, CHR 0xB0, CHR 0xE0, CHR 0xA5, CHR 0x87, CHR 0xE0, CHR 0xA4, CHR 0x82]),
      (''general.cancel'', [CHR 0xE0, CHR 0xA4, CHR 0xB0, CHR 0xE0, CHR 0xA4, CHR 0xA6, CHR 0xE0, CHR 0xA5, CHR 0x8D, CHR 0xE0, CHR 0xA4, CHR 0xA6] @ '' '' @ [CHR 0xE0, CHR 0xA4, CHR 0x95, CHR 0xE0, CHR 0xA4, CHR 0xB0, CHR 0xE0, CHR 0xA5, CHR 0x87, CHR 0xE0, CHR 0xA4, CHR 0x82]),
      (''general.back'', [CHR 0xE0, CHR 0xA4, CHR 0xB5, CHR 0xE0, CHR 0xA4, CHR 0xBE, CHR 0xE0, CHR 0xA4, CHR 0xAA, CHR 0xE0, CHR 0xA4, CHR 0xB8]),
      (''general.next'', [CHR 0xE0, CHR 0xA4, CHR 0x85, CHR 0xE0, CHR 0xA4, CHR 0x97, CHR 0xE0, CHR 0xA4, CHR 0xB2, CHR 0xE0, CHR 0xA4, CHR 0xBE]),
      (''general.done'', [CHR 0xE0, CHR 0xA4, CHR 0xAA, CHR 0xE0, CHR 0xA5, CHR 0x82, CHR 0xE0, CHR 0xA4, CHR 0xB0, CHR 0xE0, CHR 0xA5, CHR 0x8D, CHR 0xE0, CHR 0xA4, CHR 0xA3]),
      (''general.loading'', [CHR 0xE0, CHR 0xA4, CHR 0xB2, CHR 0xE0, CHR 0xA5, CHR 0x8B, CHR 0xE0, CHR 0xA4, CHR 0xA1] @ '' '' @ [CHR 0xE0, CHR 0xA4, CHR 0xB9, CHR 0xE0, CHR 0xA5, CHR 0x8B] @ '' '' @ [CHR 0xE0, CHR 0xA4, CHR 0xB0, CHR 0xE0, CHR 0xA4, CHR 0xB9, CHR 0xE0, CHR 0xA4, CHR 0xBE] @ '' '' @ [CHR 0xE0, CHR 0xA4, CHR 0xB9, CHR 0xE0, CHR 0xA5, CHR 0x88] @ ''...''),
      (''general.save'', [CHR 0xE0, CHR 0xA4, CHR 0xB8, CHR 0xE0, CHR 0xA4, CHR 0xB9, CHR 0xE0, CHR 0xA5, CHR 0x87, CHR 0xE0, CHR 0xA4, CHR 0x9C, CHR 0xE0, CHR 0xA5, CHR 0x87, CHR 0xE0, CHR 0xA4, CHR 0x82]),
      (''general.delete'', [CHR 0xE0, CHR 0xA4, CHR 0xB9, CHR 0xE0, CHR 0xA4, CHR 0x9F, CHR 0xE0, CHR 0xA4, CHR 0xBE, CHR 0xE0, CHR 0xA4, CHR 0x8F, CHR 0xE0, CHR 0xA4, CHR 0x81]),
      (''general.edit'', [CHR 0xE0, CHR 0xA4, CHR 0xB8, CHR 0xE0, CHR 0xA4, CHR 0x82, CHR 0xE0, CHR 0xA4, CHR 0xAA, CHR 0xE0, CHR 0xA4, CHR 0xBE, CHR 0xE0, CHR 0xA4, CHR 0xA6, CHR 0xE0, CHR 0xA4, CHR 0xBF, CHR 0xE0, CHR 0xA4, CHR 0xA4] @ '' '' @ [CHR 0xE0, CHR 0xA4, CHR 0x95, CHR 0xE0, CHR 0xA4, CHR 0xB0, CHR 0xE0, CHR 0xA5, CHR 0x87, CHR 0xE0, CHR 0xA4, CHR 0x82]),
      (''general.search'', [CHR 0xE0, CHR 0xA4, CHR 0x96, CHR 0xE0, CHR 0xA5, CHR 0x8B, CHR 0xE0, CHR 0xA4, CHR 0x9C, CHR 0xE0, CHR 0xA5, CHR 0x87, CHR 0xE0, CHR 0xA4, CHR 0x82]),
      (''general.close'', [CHR 0xE0, CHR 0xA4, CHR 0xAC, CHR 0xE0, CHR 0xA4, CHR 0x82, CHR 0xE0, CHR 0xA4, CHR 0xA6] @ '' '' @ [CHR 0xE0, CHR 0xA4, CHR 0x95, CHR 0xE0, CHR 0xA4, CHR 0xB0, CHR 0xE0, CHR 0xA5, CHR 0x87, CHR 0xE0, CHR 0xA4, CHR 0x82]),
      (''general.yes'', [CHR 0xE0, CHR 0xA4, CHR 0xB9, CHR 0xE0, CHR 0xA4, CHR 0xBE, CHR 0xE0, CHR 0xA4, CHR 0x81]),
      (''general.no'', [CHR 0xE0, CHR 0xA4, CHR 0xA8, CHR 0xE0, CHR 0xA4, CHR 0xB9, CHR 0xE0, CHR 0xA5, CHR 0x80, CHR 0xE0, CHR 0xA4, CHR 0x82]),
      (''a11y.closeModal'', [CHR 0xE0, CHR 0xA4, CHR 0xAE, CHR 0xE0, CHR 0xA5, CHR 0x8B, CHR 0xE0, CHR 0xA4, CHR 0xA1, CHR 0xE0, CHR 0xA4, CHR 0xB2] @ '' '' @ [CHR 0xE0, CHR 0xA4, CHR 0xAC, CHR 0xE0, CHR 0xA4, CHR 0x82, CHR 0xE0, CHR 0xA4, CHR 0xA6] @ '' '' @ [CHR 0xE0, CHR 0xA4, CHR 0x95, CHR 0xE0, CHR 0xA4, CHR 0xB0, CHR 0xE0, CHR 0xA5, CHR 0x87, CHR 0xE0, CHR 0xA4, CHR 0x82]),
      (''a11y.navigateBack'', [CHR 0xE0, CHR 0xA4, CHR 0xB5, CHR 0xE0, CHR 0xA4, CHR 0xBE, CHR 0xE0, CHR 0xA4, CHR 0xAA, CHR 0xE0, CHR 0xA4, CHR 0xB8] @ '' '' @ [CHR 0xE0, CHR 0xA4, CHR 0x9C, CHR 0xE0, CHR 0xA4, CHR 0xBE, CHR 0xE0, CHR 0xA4, CHR 0x8F, CHR 0xE0, CHR 0xA4, CHR 0x81]),
      (''menu.noItemsHint'', ''Try a different search term or check all categories''),
      (''menu.categoriesLabel'', ''Menu categories''),
      (''menu.categories.mains'', ''Mains''),
      (''menu.categories.drinks'', ''Drinks''),
      (''menu.clearSearch'', ''Clear search''),
      (''menu.itemsInCart'', ''{count} items in cart'')]"

definition texts_hi_2 :: TranslationMap where
  "texts_hi_2 =
     [(''item.included'', ''Included''),
      (''item.chooseCount'', ''Choose {count}''),
      (''item.chooseRange'', ''Choose {min}-{max}''),
      (''item.closeLabel'', ''Close item details''),
      (''item.decreaseQuantity'', ''Decrease quantity''),
      (''item.increaseQuantity'', ''Increase quantity''),
      (''item.quantityLabel'', ''Quantity: {count}''),
      (''item.addToCartLabel'', ''Add {name} to cart '' @ [CHR 0xE2, CHR 0x80, CHR 0x94] @ '' {amount}''),
      (''item.priceAddition'', ''+{amount}''),
      (''item.customizeLabel'', ''Customize {name}''),
      (''cart.itemSingular'', ''{count} item''),
      (''cart.tapToEdit'', ''Tap an item to edit''),
      (''cart.itemsLabel'', ''Cart items''),
      (''cart.pay'', ''Pay {amount}''),
      (''cart.editItem'', ''Edit {name}. Quantity: {quantity}. Price: {amount}''),
      (''cart.decreaseQuantity'', ''Decrease quantity of {name}''),
      (''cart.increaseQuantity'', ''Increase quantity of {name}''),
      (''cart.quantityLabel'', ''Quantity: {count}''),
      (''cart.priceLabel'', ''Price: {amount}''),
      (''payment.cardNfc'', ''Card / NFC''),
      (''payment.qrCode'', ''QR Code''),
      (''payment.verifyToComplete'', ''Verify to complete''),
      (''payment.pinPadInstruction'', ''Please use the PIN pad or present your card to the terminal.''),
      (''payment.terminalStatus'', ''Terminal: {status}''),
      (''payment.authorizing'', ''Authorizing...''),
      (''payment.authorize'', ''Authorize''),
      (''payment.authorized'', ''Authorized''),
      (''payment.connected'', ''Connected''),
      (''payment.cartSummary'', ''Cart summary: {count} items, total {amount}. Tap to {action}.''),
      (''payment.expand'', ''expand''),
      (''payment.collapse'', ''collapse''),
      (''payment.employeeOverrideHint'', ''Employee override. Hold for 3 seconds.''),
      (''payment.cancelPayment'', ''Cancel payment''),
      (''payment.confirmPayment'', ''Pay {amount}''),
      (''processing.connecting'', ''Connecting to terminal...''),
      (''processing.waitingForCard'', ''Waiting for card...''),
      (''processing.authorizing'', ''Authorizing...''),
      (''processing.finalizingStage'', ''Finalizing...''),
      (''processing.default'', ''Processing...''),
      (''processing.terminalStatus'', ''Terminal: {label}''),
      (''processing.orderFailed'', ''Order could not be completed''),
      (''processing.orderFailedMessage'', ''We couldn'' @ [CHR 0x27] @ ''t complete your order. Please try again.''),
      (''processing.retry'', ''Try again''),
      (''processing.cancelReturn'', ''Cancel and return to cart''),
      (''receipt.printing'', ''Printing...''),
      (''receipt.emailSending'', ''Sending...''),
      (''receipt.emailSent'', ''Sent!''),
      (''receipt.printerUnavailable'', ''Printer unavailable. Receipt saved.''),
      (''receipt.srComplete'', ''Order complete. Tap start new order to continue.''),
      (''receipt.srReady'', ''Receipt ready.''),
      (''receipt.printLabel'', ''Print receipt''),
      (''receipt.emailLabel'', ''Email receipt''),
      (''receipt.startNewLabel'', ''Start new order''),
      (''status.synced'', ''Synced''),
      (''status.syncing'', ''Syncing''),
      (''status.p2pStatus'', ''P2P sync status: {label}. Tap for mesh details.''),
      (''status.kioskStatus'', ''Kiosk status''),
      (''status.p2pTitle'', ''P2P mesh sync''),
      (''status.meshDescription'', ''This kiosk shares cart and order state with nearby peers over a local mesh so orders survive network drops.''),
      (''status.connectedPeers'', ''Connected peers''),
      (''status.syncLag'', ''Sync lag''),
      (''status.role'', ''Role''),
      (''status.leader'', ''Leader''),
      (''status.peer'', ''Peer''),
      (''status.thisKiosk'', ''This kiosk''),
      (''status.apiOnline'', ''API online''),
      (''status.apiDegraded'', ''API degraded''),
      (''status.apiOffline'', ''API offline''),
      (''status.networkConnected'', ''Connected to network''),
      (''status.networkDisconnected'', ''No network connection''),
      (''idle.message'', ''Tap below to continue, or this kiosk will reset for the next customer.''),
      (''idle.continueLabel'', ''I am still here''),
      (''idle.endSessionLabel'', ''Start over''),
      (''idle.ariaLabel'', ''Idle timeout warning''),
      (''offline.workingOffline'', ''Working offline. Your cart is secure.''),
      (''offline.dismiss'', ''Dismiss offline notice''),
      (''error.helpMessage'', ''Please ask a staff member for help. We apologise for the inconvenience.''),
      (''admin.kioskStatus'', ''Kiosk Status''),
      (''admin.session'', ''Session''),
      (''admin.laneMode'', ''Lane Mode''),
      (''admin.apiStatus'', ''API Status''),
      (''admin.cartHasItems'', ''Cart Has Items''),
      (''admin.actions'', ''Actions''),
      (''admin.simulateOnline'', ''Simulate Online''),
      (''admin.simulateOffline'', ''Simulate Offline''),
      (''admin.errors'', ''Errors''),
      (''admin.closeLabel'', ''Close admin panel''),
      (''item.modifierSingular'', ''{count} modifier''),
      (''item.modifierPlural'', ''{count} modifiers'')]"

definition texts_hi :: TranslationMap where
  "texts_hi = texts_hi_1 @ texts_hi_2"

definition texts_bn_1 :: TranslationMap where
  "texts_bn_1 =
     [(''language.select'', [CHR 0xE0, CHR 0xA6, CHR 0x86, CHR 0xE0, CHR 0xA6, CHR 0xAA, CHR 0xE0, CHR 0xA6, CHR 0xA8, CHR 0xE0, CHR 0xA6, CHR 0xBE, CHR 0xE0, CHR 0xA6, CHR 0xB0] @ '' '' @ [CHR 0xE0, CHR 0xA6, CHR 0xAD, CHR 0xE0, CHR 0xA6, CHR 0xBE, CHR 0xE0, CHR 0xA6, CHR 0xB7, CHR 0xE0, CHR 0xA6, CHR 0xBE] @ '' '' @ [CHR 0xE0, CHR 0xA6, CHR 0xA8, CHR 0xE0, CHR 0xA6, CHR 0xBF, CHR 0xE0, CHR 0xA6, CHR 0xB0, CHR 0xE0, CHR 0xA7, CHR 0x8D, CHR 0xE0, CHR 0xA6, CHR 0xAC, CHR 0xE0, CHR 0xA6, CHR 0xBE, CHR 0xE0, CHR 0xA6, CHR 0x9A, CHR 0xE0, CHR 0xA6, CHR 0xA8] @ '' '' @ [CHR 0xE0, CHR 0xA6, CHR 0x95, CHR 0xE0, CHR 0xA6, CHR 0xB0, CHR 0xE0, CHR 0xA7, CHR 0x81, CHR 0xE0, CHR 0xA6, CHR 0xA8]),
      (''language.mainLanguages'', [CHR 0xE0, CHR 0xA6, CHR 0xAA, CHR 0xE0, CHR 0xA7, CHR 0x8D, CHR 0xE0, CHR 0xA6, CHR 0xB0, CHR 0xE0, CHR 0xA6, CHR 0xA7, CHR 0xE0, CHR 0xA6, CHR 0xBE, CHR 0xE0, CHR 0xA6, CHR 0xA8] @ '' '' @ [CHR 0xE0, CHR 0xA6, CHR 0xAD, CHR 0xE0, CHR 0xA6, CHR 0xBE, CHR 0xE0, CHR 0xA6, CHR 0xB7, CHR 0xE0, CHR 0xA6, CHR 0xBE, CHR 0xE0, CHR 0xA6, CHR 0xB8, CHR 0xE0, CHR 0xA6, CHR 0xAE, CHR 0xE0, CHR 0xA7, CHR 0x82, CHR 0xE0, CHR 0xA6, CHR 0xB9]),
      (''language.moreLanguages'', [CHR 0xE0, CHR 0xA6, CHR 0x86, CHR 0xE0, CHR 0xA6, CHR 0xB0, CHR 0xE0, CHR 0xA6, CHR 0x93] @ '' '' @ [CHR 0xE0, CHR 0xA6, CHR 0xAD, CHR 0xE0, CHR 0xA6, CHR 0xBE, CHR 0xE0, CHR 0xA6, CHR 0xB7, CHR 0xE0, CHR 0xA6, CHR 0xBE]),
      (''language.continue'', [CHR 0xE0, CHR 0xA6, CHR 0x9A, CHR 0xE0, CHR 0xA6, CHR 0xBE, CHR 0xE0, CHR 0xA6, CHR 0xB2, CHR 0xE0, CHR 0xA6, CHR 0xBF, CHR 0xE0, CHR 0xA6, CHR 0xAF, CHR 0xE0, CHR 0xA6, CHR 0xBC, CHR 0xE0, CHR 0xA7, CHR 0x87] @ '' '' @ [CHR 0xE0, CHR 0xA6, CHR 0xAF, CHR 0xE0, CHR 0xA6, CHR 0xBE, CHR 0xE0, CHR 0xA6, CHR 0xA8]),
      (''attract.title'', ''Astra''),
      (''attract.touchToBegin'', [CHR 0xE0, CHR 0xA6, CHR 0xB6, CHR 0xE0, CHR 0xA7, CHR 0x81, CHR 0xE0, CHR 0xA6, CHR 0xB0, CHR 0xE0, CHR 0xA7, CHR 0x81] @ '' '' @ [CHR 0xE0, CHR 0xA6, CHR 0x95, CHR 0xE0, CHR 0xA6, CHR 0xB0, CHR 0xE0, CHR 0xA6, CHR 0xA4, CHR 0xE0, CHR 0xA7, CHR 0x87] @ '' '' @ [CHR 0xE0, CHR 0xA6, CHR 0xB8, CHR 0xE0, CHR 0xA7, CHR 0x8D, CHR 0xE0, CHR 0xA6, CHR 0xAA, CHR 0xE0, CHR 0xA6, CHR 0xB0, CHR 0xE0, CHR 0xA7, CHR 0x8D, CHR 0xE0, CHR 0xA6, CHR 0xB6] @ '' '' @ [CHR 0xE0, CHR 0xA6, CHR 0x95, CHR 0xE0, CHR 0xA6, CHR 0xB0, CHR 0xE0, CHR 0xA7, CHR 0x81, CHR 0xE0, CHR 0xA6, CHR 0xA8]),
      (''attract.laneInfo'', [CHR 0xE0, CHR 0xA6, CHR 0xB8, CHR 0xE0, CHR 0xA7, CHR 0x8D, CHR 0xE0, CHR 0xA6, CHR 0xAC] @ ''-'' @ [CHR 0xE0, CHR 0xA6, CHR 0x9A, CHR 0xE0, CHR 0xA7, CHR 0x87, CHR 0xE0, CHR 0xA6, CHR 0x95, CHR 0xE0, CHR 0xA6, CHR 0x86, CHR 0xE0, CHR 0xA6, CHR 0x89, CHR 0xE0, CHR 0xA6, CHR 0x9F] @ '' '' @ [CHR 0xE2, CHR 0x80, CHR 0xA2] @ '' '' @ [CHR 0xE0, CHR 0xA6, CHR 0xB2, CHR 0xE0, CHR 0xA7, CHR 0x87, CHR 0xE0, CHR 0xA6, CHR 0xA8] @ '' {lane}''),
      (''attract.screenReader'', [CHR 0xE0, CHR 0xA6, CHR 0x86, CHR 0xE0, CHR 0xA6, CHR 0x95, CHR 0xE0, CHR 0xA6, CHR 0xB0, CHR 0xE0, CHR 0xA7, CHR 0x8D, CHR 0xE0, CHR 0xA6, CHR 0xB7, CHR 0xE0, CHR 0xA6, CHR 0xA3] @ '' '' @ [CHR 0xE0, CHR 0xA6, CHR 0xB8, CHR 0xE0, CHR 0xA7, CHR 0x8D, CHR 0xE0, CHR 0xA6, CHR 0x95, CHR 0xE0, CHR 0xA7, CHR 0x8D, CHR 0xE0, CHR 0xA6, CHR 0xB0, CHR 0xE0, CHR 0xA7, CHR 0x80, CHR 0xE0, CHR 0xA6, CHR 0xA8, CHR 0xE0, CHR 0xA5, CHR 0xA4] @ '' '' @ [CHR 0xE0, CHR 0xA6, CHR 0x95, CHR 0xE0, CHR 0xA7, CHR 0x87, CHR 0xE0, CHR 0xA6, CHR 0xA8, CHR 0xE0, CHR 0xA6, CHR 0xBE, CHR 0xE0, CHR 0xA6, CHR 0x95, CHR 0xE0, CHR 0xA6, CHR 0xBE, CHR 0xE0, CHR 0xA6, CHR 0x9F, CHR 0xE0, CHR 0xA6, CHR 0xBE] @ '' '' @ [CHR 0xE0, CHR 0xA6, CHR 0xB6, CHR 0xE0, CHR 0xA7, CHR 0x81, CHR 0xE0, CHR 0xA6, CHR 0xB0, CHR 0xE0, CHR 0xA7, CHR 0x81] @ '' '' @ [CHR 0xE0, CHR 0xA6, CHR 0x95, CHR 0xE0, CHR 0xA6, CHR 0xB0, CHR 0xE0, CHR 0xA6, CHR 0xA4, CHR 0xE0, CHR 0xA7, CHR 0x87] @ '' '' @ [CHR 0xE0, CHR 0xA6, CHR 0xB8, CHR 0xE0, CHR 0xA7, CHR 0x8D, CHR 0xE0, CHR 0xA6, CHR 0xAA, CHR 0xE0, CHR 0xA6, CHR 0xB0, CHR 0xE0, CHR 0xA7, CHR 0x8D, CHR 0xE0, CHR 0xA6, CHR 0xB6] @ '' '' @ [CHR 0xE0, CHR 0xA6, CHR 0x95, CHR 0xE0, CHR 0xA6, CHR 0xB0, CHR 0xE0, CHR 0xA7, CHR 0x81, CHR 0xE0, CHR 0xA6, CHR 0xA8, CHR 0xE0, CHR 0xA5, CHR 0xA4]),
      (''menu.title'', [CHR 0xE0, CHR 0xA6, CHR 0xAE, CHR 0xE0, CHR 0xA7, CHR 0x87, CHR 0xE0, CHR 0xA6, CHR 0xA8, CHR 0xE0, CHR 0xA7, CHR 0x81]),
      (''menu.search'', [CHR 0xE0, CHR 0xA6, CHR 0xAE, CHR 0xE0, CHR 0xA7, CHR 0x87, CHR 0xE0, CHR 0xA6, CHR 0xA8, CHR 0xE0, CHR 0xA7, CHR 0x81] @ '' '' @ [CHR 0xE0, CHR 0xA6, CHR 0x85, CHR 0xE0, CHR 0xA6, CHR 0xA8, CHR 0xE0, CHR 0xA7, CHR 0x81, CHR 0xE0, CHR 0xA6, CHR 0xB8, CHR 0xE0, CHR 0xA6, CHR 0xA8, CHR 0xE0, CHR 0xA7, CHR 0x8D, CHR 0xE0, CHR 0xA6, CHR 0xA7, CHR 0xE0, CHR 0xA6, CHR 0xBE, CHR 0xE0, CHR 0xA6, CHR 0xA8] @ ''...''),
      (''menu.noItems'', [CHR 0xE0, CHR 0xA6, CHR 0x95, CHR 0xE0, CHR 0xA7, CHR 0x8B, CHR 0xE0, CHR 0xA6, CHR 0xA8, CHR 0xE0, CHR 0xA7, CHR 0x8B] @ '' '' @ [CHR 0xE0, CHR 0xA6, CHR 0x86, CHR 0xE0, CHR 0xA6, CHR 0x87, CHR 0xE0, CHR 0xA6, CHR 0x9F, CHR 0xE0, CHR 0xA7, CHR 0x87, CHR 0xE0, CHR 0xA6, CHR 0xAE] @ '' '' @ [CHR 0xE0, CHR 0xA6, CHR 0xAA, CHR 0xE0, CHR 0xA6, CHR 0xBE, CHR 0xE0, CHR 0xA6, CHR 0x93, CHR 0xE0, CHR 0xA6, CHR 0xAF, CHR 0xE0, CHR 0xA6, CHR 0xBC, CHR 0xE0, CHR 0xA6, CHR 0xBE] @ '' '' @ [CHR 0xE0, CHR 0xA6, CHR 0xAF, CHR 0xE0, CHR 0xA6, CHR 0xBE, CHR 0xE0, CHR 0xA6, CHR 0xAF, CHR 0xE0, CHR 0xA6, CHR 0xBC, CHR 0xE0, CHR 0xA6, CHR 0xA8, CHR 0xE0, CHR 0xA6, CHR 0xBF]),
      (''menu.backToMenu'', [CHR 0xE0, CHR 0xA6, CHR 0xAE, CHR 0xE0, CHR 0xA7, CHR 0x87, CHR 0xE0, CHR 0xA6, CHR 0xA8, CHR 0xE0, CHR 0xA7, CHR 0x81, CHR 0xE0, CHR 0xA6, CHR 0xA4, CHR 0xE0, CHR 0xA7, CHR 0x87] @ '' '' @ [CHR 0xE0, CHR 0xA6, CHR 0xAB, CHR 0xE0, CHR 0xA6, CHR 0xBF, CHR 0xE0, CHR 0xA6, CHR 0xB0, CHR 0xE0, CHR 0xA7, CHR 0x87] @ '' '' @ [CHR 0xE0, CHR 0xA6, CHR 0xAF, CHR 0xE0, CHR 0xA6, CHR 0xBE, CHR 0xE0, CHR 0xA6, CHR 0xA8]),
      (''menu.viewCart'', [CHR 0xE0, CHR 0xA6, CHR 0x95, CHR 0xE0, CHR 0xA6, CHR 0xBE, CHR 0xE0, CHR 0xA6, CHR 0xB0, CHR 0xE0, CHR 0xA7, CHR 0x8D, CHR 0xE0, CHR 0xA6, CHR 0x9F] @ '' '' @ [CHR 0xE0, CHR 0xA6, CHR 0xA6, CHR 0xE0, CHR 0xA7, CHR 0x87, CHR 0xE0, CHR 0xA6, CHR 0x96, CHR 0xE0, CHR 0xA7, CHR 0x81, CHR 0xE0, CHR 0xA6, CHR 0xA8] @ '' ({count})''),
      (''menu.itemAdded'', [CHR 0xE0, CHR 0xA6, CHR 0x86, CHR 0xE0, CHR 0xA6, CHR 0x87, CHR 0xE0, CHR 0xA6, CHR 0x9F, CHR 0xE0, CHR 0xA7, CHR 0x87, CHR 0xE0, CHR 0xA6, CHR 0xAE] @ '' '' @ [CHR 0xE0, CHR 0xA6, CHR 0xAF, CHR 0xE0, CHR 0xA7, CHR 0x8B, CHR 0xE0, CHR 0xA6, CHR 0x97] @ '' '' @ [CHR 0xE0, CHR 0xA6, CHR 0x95, CHR 0xE0, CHR 0xA6, CHR 0xB0, CHR 0xE0, CHR 0xA6, CHR 0xBE] @ '' '' @ [CHR 0xE0, CHR 0xA6, CHR 0xB9, CHR 0xE0, CHR 0xA6, CHR 0xAF, CHR 0xE0, CHR 0xA6, CHR 0xBC, CHR 0xE0, CHR 0xA7, CHR 0x87, CHR 0xE0, CHR 0xA6, CHR 0x9B, CHR 0xE0, CHR 0xA7, CHR 0x87]),
      (''menu.categories.all'', [CHR 0xE0, CHR 0xA6, CHR 0xB8, CHR 0xE0, CHR 0xA6, CHR 0xAC]),
      (''item.addToCart'', [CHR 0xE0, CHR 0xA6, CHR 0x95, CHR 0xE0, CHR 0xA6, CHR 0xBE, CHR 0xE0, CHR 0xA6, CHR 0xB0, CHR 0xE0, CHR 0xA7, CHR 0x8D, CHR 0xE0, CHR 0xA6, CHR 0x9F, CHR 0xE0, CHR 0xA7, CHR 0x87] @ '' '' @ [CHR 0xE0, CHR 0xA6, CHR 0xAF, CHR 0xE0, CHR 0xA7, CHR 0x8B, CHR 0xE0, CHR 0xA6, CHR 0x97] @ '' '' @ [CHR 0xE0, CHR 0xA6, CHR 0x95, CHR 0xE0, CHR 0xA6, CHR 0xB0, CHR 0xE0, CHR 0xA7, CHR 0x81, CHR 0xE0, CHR 0xA6, CHR 0xA8]),
      (''item.quantity'', [CHR 0xE0, CHR 0xA6, CHR 0xAA, CHR 0xE0, CHR 0xA6, CHR 0xB0, CHR 0xE0, CHR 0xA6, CHR 0xBF, CHR 0xE0, CHR 0xA6, CHR 0xAE, CHR 0xE0, CHR 0xA6, CHR 0xBE, CHR 0xE0, CHR 0xA6, CHR 0xA3]),
      (''item.modifiers'', [CHR 0xE0, CHR 0xA6, CHR 0x95, CHR 0xE0, CHR 0xA6, CHR 0xBE, CHR 0xE0, CHR 0xA6, CHR 0xB8, CHR 0xE0, CHR 0xA7, CHR 0x8D, CHR 0xE0, CHR 0xA6, CHR 0x9F, CHR 0xE0, CHR 0xA6, CHR 0xAE, CHR 0xE0, CHR 0xA6, CHR 0xBE, CHR 0xE0, CHR 0xA6, CHR 0x87, CHR 0xE0, CHR 0xA6, CHR 0x9C]),
      (''item.price'', [CHR 0xE0, CHR 0xA6, CHR 0xAE, CHR 0xE0, CHR 0xA7, CHR 0x82, CHR 0xE0, CHR 0xA6, CHR 0xB2, CHR 0xE0, CHR 0xA7, CHR 0x8D, CHR 0xE0, CHR 0xA6, CHR 0xAF]),
      (''item.description'', [CHR 0xE0, CHR 0xA6, CHR 0xAC, CHR 0xE0, CHR 0xA6, CHR 0xBF, CHR 0xE0, CHR 0xA6, CHR 0xAC, CHR 0xE0, CHR 0xA6, CHR 0xB0, CHR 0xE0, CHR 0xA6, CHR 0xA3]),
      (''cart.title'', [CHR 0xE0, CHR 0xA6, CHR 0x86, CHR 0xE0, CHR 0xA6, CHR 0xAA, CHR 0xE0, CHR 0xA6, CHR 0xA8, CHR 0xE0, CHR 0xA6, CHR 0xBE, CHR 0xE0, CHR 0xA6, CHR 0xB0] @ '' '' @ [CHR 0xE0, CHR 0xA6, CHR 0x95, CHR 0xE0, CHR 0xA6, CHR 0xBE, CHR 0xE0, CHR 0xA6, CHR 0xB0, CHR 0xE0, CHR 0xA7, CHR 0x8D, CHR 0xE0, CHR 0xA6, CHR 0x9F]),
      (''cart.empty'', [CHR 0xE0, CHR 0xA6, CHR 0x86, CHR 0xE0, CHR 0xA6, CHR 0xAA, CHR 0xE0, CHR 0xA6, CHR 0xA8, CHR 0xE0, CHR 0xA6, CHR 0xBE, CHR 0xE0, CHR 0xA6, CHR 0xB0] @ '' '' @ [CHR 0xE0, CHR 0xA6, CHR 0x95, CHR 0xE0, CHR 0xA6, CHR 0xBE, CHR 0xE0, CHR 0xA6, CHR 0xB0, CHR 0xE0, CHR 0xA7, CHR 0x8D, CHR 0xE0, CHR 0xA6, CHR 0x9F] @ '' '' @ [CHR 0xE0, CHR 0xA6, CHR 0x96, CHR 0xE0, CHR 0xA6, CHR 0xBE, CHR 0xE0, CHR 0xA6, CHR 0xB2, CHR 0xE0, CHR 0xA6, CHR 0xBF]),
      (''cart.subtotal'', [CHR 0xE0, CHR 0xA6, CHR 0xB8, CHR 0xE0, CHR 0xA6, CHR 0xBE, CHR 0xE0, CHR 0xA6, CHR 0xAC, CHR 0xE0, CHR 0xA6, CHR 0x9F, CHR 0xE0, CHR 0xA7, CHR 0x8B, CHR 0xE0, CHR 0xA6, CHR 0x9F, CHR 0xE0, CHR 0xA6, CHR 0xBE, CHR 0xE0, CHR 0xA6, CHR 0xB2]),
      (''cart.tax'', [CHR 0xE0, CHR 0xA6, CHR 0x95, CHR 0xE0, CHR 0xA6, CHR 0xB0]),
      (''cart.total'', [CHR 0xE0, CHR 0xA6, CHR 0xAE, CHR 0xE0, CHR 0xA7, CHR 0x8B, CHR 0xE0, CHR 0xA6, CHR 0x9F]),
      (''cart.backToMenu'', [CHR 0xE0, CHR 0xA6, CHR 0xAE, CHR 0xE0, CHR 0xA7, CHR 0x87, CHR 0xE0, CHR 0xA6, CHR 0xA8, CHR 0xE0, CHR 0xA7, CHR 0x81, CHR 0xE0, CHR 0xA6, CHR 0xA4, CHR 0xE0, CHR 0xA7, CHR 0x87] @ '' '' @ [CHR 0xE0, CHR 0xA6, CHR 0xAB, CHR 0xE0, CHR 0xA6, CHR 0xBF, CHR 0xE0, CHR 0xA6, CHR 0xB0, CHR 0xE0, CHR 0xA7, CHR 0x87] @ '' '' @ [CHR 0xE0, CHR 0xA6, CHR 0xAF, CHR 0xE0, CHR 0xA6, CHR 0xBE, CHR 0xE0, CHR 0xA6, CHR 0xA8]),
      (''cart.proceedToPayment'', [CHR 0xE0, CHR 0xA6, CHR 0xAA, CHR 0xE0, CHR 0xA7, CHR 0x87, CHR 0xE0, CHR 0xA6, CHR 0xAE, CHR 0xE0, CHR 0xA7, CHR 0x87, CHR 0xE0, CHR 0xA6, CHR 0xA8, CHR 0xE0, CHR 0xA7, CHR 0x8D, CHR 0xE0, CHR 0xA6, CHR 0x9F, CHR 0xE0, CHR 0xA7, CHR 0x87, CHR 0xE0, CHR 0xA6, CHR 0xB0] @ '' '' @ [CHR 0xE0, CHR 0xA6, CHR 0x9C, CHR 0xE0, CHR 0xA6, CHR 0xA8, CHR 0xE0, CHR 0xA7, CHR 0x8D, CHR 0xE0, CHR 0xA6, CHR 0xAF] @ '' '' @ [CHR 0xE0, CHR 0xA6, CHR 0xAA, CHR 0xE0, CHR 0xA7, CHR 0x8D, CHR 0xE0, CHR 0xA6, CHR 0xB0, CHR 0xE0, CHR 0xA6, CHR 0xB8, CHR 0xE0, CHR 0xA7, CHR 0x8D, CHR 0xE0, CHR 0xA6, CHR 0xA4, CHR 0xE0, CHR 0xA7, CHR 0x81, CHR 0xE0, CHR 0xA6, CHR 0xA4]),
      (''cart.removeItem'', [CHR 0xE0, CHR 0xA6, CHR 0xB8, CHR 0xE0, CHR 0xA6, CHR 0xB0, CHR 0xE0, CHR 0xA6, CHR 0xBE, CHR 0xE0, CHR 0xA6, CHR 0xA8]),
      (''cart.itemCount'', ''{count}'' @ [CHR 0xE0, CHR 0xA6, CHR 0x9F, CHR 0xE0, CHR 0xA6, CHR 0xBF] @ '' '' @ [CHR 0xE0, CHR 0xA6, CHR 0x86, CHR 0xE0, CHR 0xA6, CHR 0x87, CHR 0xE0, CHR 0xA6, CHR 0x9F, CHR 0xE0, CHR 0xA7, CHR 0x87, CHR 0xE0, CHR 0xA6, CHR 0xAE]),
      (''cart.summary'', [CHR 0xE0, CHR 0xA6, CHR 0x85, CHR 0xE0, CHR 0xA6, CHR 0xB0, CHR 0xE0, CHR 0xA7, CHR 0x8D, CHR 0xE0, CHR 0xA6, CHR 0xA1, CHR 0xE0, CHR 0xA6, CHR 0xBE, CHR 0xE0, CHR 0xA6, CHR 0xB0] @ '' '' @ [CHR 0xE0, CHR 0xA6, CHR 0xB8, CHR 0xE0, CHR 0xA6, CHR 0xBE, CHR 0xE0, CHR 0xA6, CHR 0xB0, CHR 0xE0, CHR 0xA6, CHR 0xB8, CHR 0xE0, CHR 0xA6, CHR 0x82, CHR 0xE0, CHR 0xA6, CHR 0x95, CHR 0xE0, CHR 0xA7, CHR 0x8D, CHR 0xE0, CHR 0xA6, CHR 0xB7, CHR 0xE0, CHR 0xA7, CHR 0x87, CHR 0xE0, CHR 0xA6, CHR 0xAA]),
      (''payment.title'', [CHR 0xE0, CHR 0xA6, CHR 0xAA, CHR 0xE0, CHR 0xA7, CHR 0x87, CHR 0xE0, CHR 0xA6, CHR 0xAE, CHR 0xE0, CHR 0xA7, CHR 0x87, CHR 0xE0, CHR 0xA6, CHR 0xA8, CHR 0xE0, CHR 0xA7, CHR 0x8D, CHR 0xE0, CHR 0xA6, CHR 0x9F]),
      (''payment.confirm'', [CHR 0xE0, CHR 0xA6, CHR 0xAA, CHR 0xE0, CHR 0xA7, CHR 0x87, CHR 0xE0, CHR 0xA6, CHR 0xAE, CHR 0xE0, CHR 0xA7, CHR 0x87, CHR 0xE0, CHR 0xA6, CHR 0xA8, CHR 0xE0, CHR 0xA7, CHR 0x8D, CHR 0xE0, CHR 0xA6, CHR 0x9F] @ '' '' @ [CHR 0xE0, CHR 0xA6, CHR 0xA8, CHR 0xE0, CHR 0xA6, CHR 0xBF, CHR 0xE0, CHR 0xA6, CHR 0xB6, CHR 0xE0, CHR 0xA7, CHR 0x8D, CHR 0xE0, CHR 0xA6, CHR 0x9A, CHR 0xE0, CHR 0xA6, CHR 0xBF, CHR 0xE0, CHR 0xA6, CHR 0xA4] @ '' '' @ [CHR 0xE0, CHR 0xA6, CHR 0x95, CHR 0xE0, CHR 0xA6, CHR 0xB0, CHR 0xE0, CHR 0xA7, CHR 0x81, CHR 0xE0, CHR 0xA6, CHR 0xA8]),
      (''payment.cancel'', [CHR 0xE0, CHR 0xA6, CHR 0xAC, CHR 0xE0, CHR 0xA6, CHR 0xBE, CHR 0xE0, CHR 0xA6, CHR 0xA4, CHR 0xE0, CHR 0xA6, CHR 0xBF, CHR 0xE0, CHR 0xA6, CHR 0xB2]),
      (''payment.processing'', [CHR 0xE0, CHR 0xA6, CHR 0xAA, CHR 0xE0, CHR 0xA7, CHR 0x87, CHR 0xE0, CHR 0xA6, CHR 0xAE, CHR 0xE0, CHR 0xA7, CHR 0x87, CHR 0xE0, CHR 0xA6, CHR 0xA8, CHR 0xE0, CHR 0xA7, CHR 0x8D, CHR 0xE0, CHR 0xA6, CHR 0x9F] @ '' '' @ [CHR 0xE0, CHR 0xA6, CHR 0xAA, CHR 0xE0, CHR 0xA7, CHR 0x8D, CHR 0xE0, CHR 0xA6, CHR 0xB0, CHR 0xE0, CHR 0xA6, CHR 0x95, CHR 0xE0, CHR 0xA7, CHR 0x8D, CHR 0xE0, CHR 0xA6, CHR 0xB0, CHR 0xE0, CHR 0xA6, CHR 0xBF, CHR 0xE0, CHR 0xA6, CHR 0xAF, CHR 0xE0, CHR 0xA6, CHR 0xBC, CHR 0xE0, CHR 0xA6, CHR 0xBE, CHR 0xE0, CHR 0xA6, CHR 0x95, CHR 0xE0, CHR 0xA6, CHR 0xB0, CHR 0xE0, CHR 0xA6, CHR 0xA3] @ ''...''),
      (''payment.selectMethod'', [CHR 0xE0, CHR 0xA6, CHR 0xAA, CHR 0xE0, CHR 0xA7, CHR 0x87, CHR 0xE0, CHR 0xA6, CHR 0xAE, CHR 0xE0, CHR 0xA7, CHR 0x87, CHR 0xE0, CHR 0xA6, CHR 0xA8, CHR 0xE0, CHR 0xA7, CHR 0x8D, CHR 0xE0, CHR 0xA6, CHR 0x9F] @ '' '' @ [CHR 0xE0, CHR 0xA6, CHR 0xAA, CHR 0xE0, CHR 0xA6, CHR 0xA6, CHR 0xE0, CHR 0xA7, CHR 0x8D, CHR 0xE0, CHR 0xA6, CHR 0xA7, CHR 0xE0, CHR 0xA6, CHR 0xA4, CHR 0xE0, CHR 0xA6, CHR 0xBF] @ '' '' @ [CHR 0xE0, CHR 0xA6, CHR 0xA8, CHR 0xE0, CHR 0xA6, CHR 0xBF, CHR 0xE0, CHR 0xA6, CHR 0xB0, CHR 0xE0, CHR 0xA7, CHR 0x8D, CHR 0xE0, CHR 0xA6, CHR 0xAC, CHR 0xE0, CHR 0xA6, CHR 0xBE, CHR 0xE0, CHR 0xA6, CHR 0x9A, CHR 0xE0, CHR 0xA6, CHR 0xA8] @ '' '' @ [CHR 0xE0, CHR 0xA6, CHR 0x95, CHR 0xE0, CHR 0xA6, CHR 0xB0, CHR 0xE0, CHR 0xA7, CHR 0x81, CHR 0xE0, CHR 0xA6, CHR 0xA8]),
      (''payment.card'', [CHR 0xE0, CHR 0xA6, CHR 0x95, CHR 0xE0, CHR 0xA6, CHR 0xBE, CHR 0xE0, CHR 0xA6, CHR 0xB0, CHR 0xE0, CHR 0xA7, CHR 0x8D, CHR 0xE0, CHR 0xA6, CHR 0xA1]),
      (''payment.cash'', [CHR 0xE0, CHR 0xA6, CHR 0xA8, CHR 0xE0, CHR 0xA6, CHR 0x97, CHR 0xE0, CHR 0xA6, CHR 0xA6]),
      (''payment.mobile'', [CHR 0xE0, CHR 0xA6, CHR 0xAE, CHR 0xE0, CHR 0xA7, CHR 0x8B, CHR 0xE0, CHR 0xA6, CHR 0xAC, CHR 0xE0, CHR 0xA6, CHR 0xBE, CHR 0xE0, CHR 0xA6, CHR 0x87, CHR 0xE0, CHR 0xA6, CHR 0xB2] @ '' '' @ [CHR 0xE0, CHR 0xA6, CHR 0x93, CHR 0xE0, CHR 0xA6, CHR 0xAF, CHR 0xE0, CHR 0xA6, CHR 0xBC, CHR 0xE0, CHR 0xA6, CHR 0xBE, CHR 0xE0, CHR 0xA6, CHR 0xB2, CHR 0xE0, CHR 0xA7, CHR 0x87, CHR 0xE0, CHR 0xA6, CHR 0x9F]),
      (''payment.biometric'', [CHR 0xE0, CHR 0xA6, CHR 0xAC, CHR 0xE0, CHR 0xA6, CHR 0xBE, CHR 0xE0, CHR 0xA6, CHR 0xAF, CHR 0xE0, CHR 0xA6, CHR 0xBC, CHR 0xE0, CHR 0xA7, CHR 0x8B, CHR 0xE0, CHR 0xA6, CHR 0xAE, CHR 0xE0, CHR 0xA7, CHR 0x87, CHR 0xE0, CHR 0xA6, CHR 0x9F, CHR 0xE0, CHR 0xA7, CHR 0x8D, CHR 0xE0, CHR 0xA6, CHR 0xB0, CHR 0xE0, CHR 0xA6, CHR 0xBF, CHR 0xE0, CHR 0xA6, CHR 0x95]),
      (''payment.employeeOverride'', [CHR 0xE0, CHR 0xA6, CHR 0x95, CHR 0xE0, CHR 0xA6, CHR 0xB0, CHR 0xE0, CHR 0xA7, CHR 0x8D, CHR 0xE0, CHR 0xA6, CHR 0xAE, CHR 0xE0, CHR 0xA6, CHR 0x9A, CHR 0xE0, CHR 0xA6, CHR 0xBE, CHR 0xE0, CHR 0xA6, CHR 0xB0, CHR 0xE0, CHR 0xA7, CHR 0x80] @ '' '' @ [CHR 0xE0, CHR 0xA6, CHR 0x85, CHR 0xE0, CHR 0xA6, CHR 0xA8, CHR 0xE0, CHR 0xA7, CHR 0x81, CHR 0xE0, CHR 0xA6, CHR 0xAE, CHR 0xE0, CHR 0xA7, CHR 0x8B, CHR 0xE0, CHR 0xA6, CHR 0xA6, CHR 0xE0, CHR 0xA6, CHR 0xA8]),
      (''payment.insertCard'', [CHR 0xE0, CHR 0xA6, CHR 0x95, CHR 0xE0, CHR 0xA6, CHR 0xBE, CHR 0xE0, CHR 0xA6, CHR 0xB0, CHR 0xE0, CHR 0xA7, CHR 0x8D, CHR 0xE0, CHR 0xA6, CHR 0xA1] @ '' '' @ [CHR 0xE0, CHR 0xA6, CHR 0xA2, CHR 0xE0, CHR 0xA7, CHR 0x8B, CHR 0xE0, CHR 0xA6, CHR 0x95, CHR 0xE0, CHR 0xA6, CHR 0xBE, CHR 0xE0, CHR 0xA6, CHR 0xA8] @ '' '' @ [CHR 0xE0, CHR 0xA6, CHR 0xAC, CHR 0xE0, CHR 0xA6, CHR 0xBE] @ '' '' @ [CHR 0xE0, CHR 0xA6, CHR 0xB8, CHR 0xE0, CHR 0xA7, CHR 0x8D, CHR 0xE0, CHR 0xA6, CHR 0xAA, CHR 0xE0, CHR 0xA6, CHR 0xB0, CHR 0xE0, CHR 0xA7, CHR 0x8D, CHR 0xE0, CHR 0xA6, CHR 0xB6] @ '' '' @ [CHR 0xE0, CHR 0xA6, CHR 0x95, CHR 0xE0, CHR 0xA6, CHR 0xB0, CHR 0xE0, CHR 0xA7, CHR 0x81, CHR 0xE0, CHR 0xA6, CHR 0xA8]),
      (''payment.scanQR'', ''QR '' @ [CHR 0xE0, CHR 0xA6, CHR 0x95, CHR 0xE0, CHR 0xA7, CHR 0x8B, CHR 0xE0, CHR 0xA6, CHR 0xA1] @ '' '' @ [CHR 0xE0, CHR 0xA6, CHR 0xB8, CHR 0xE0, CHR 0xA7, CHR 0x8D, CHR 0xE0, CHR 0xA6, CHR 0x95, CHR 0xE0, CHR 0xA7, CHR 0x8D, CHR 0xE0, CHR 0xA6, CHR 0xAF, CHR 0xE0, CHR 0xA6, CHR 0xBE, CHR 0xE0, CHR 0xA6, CHR 0xA8] @ '' '' @ [CHR 0xE0, CHR 0xA6, CHR 0x95, CHR 0xE0, CHR 0xA6, CHR 0xB0, CHR 0xE0, CHR 0xA7, CHR 0x81, CHR 0xE0, CHR 0xA6, CHR 0xA8]),
      (''payment.tapPhone'', [CHR 0xE0, CHR 0xA6, CHR 0x86, CHR 0xE0, CHR 0xA6, CHR 0xAA, CHR 0xE0, CHR 0xA6, CHR 0xA8, CHR 0xE0, CHR 0xA6, CHR 0xBE, CHR 0xE0, CHR 0xA6, CHR 0xB0] @ '' '' @ [CHR 0xE0, CHR 0xA6, CHR 0xAB, CHR 0xE0, CHR 0xA7, CHR 0x8B, CHR 0xE0, CHR 0xA6, CHR 0xA8] @ '' '' @ [CHR 0xE0, CHR 0xA6, CHR 0xB8, CHR 0xE0, CHR 0xA7, CHR 0x8D, CHR 0xE0, CHR 0xA6, CHR 0xAA, CHR 0xE0, CHR 0xA6, CHR 0xB0, CHR 0xE0, CHR 0xA7, CHR 0x8D, CHR 0xE0, CHR 0xA6, CHR 0xB6] @ '' '' @ [CHR 0xE0, CHR 0xA6, CHR 0x95, CHR 0xE0, CHR 0xA6, CHR 0xB0, CHR 0xE0, CHR 0xA7, CHR 0x81, CHR 0xE0, CHR 0xA6, CHR 0xA8]),
      (''payment.amount'', [CHR 0xE0, CHR 0xA6, CHR 0xAA, CHR 0xE0, CHR 0xA6, CHR 0xB0, CHR 0xE0, CHR 0xA6, CHR 0xBF, CHR 0xE0, CHR 0xA6, CHR 0xAE, CHR 0xE0, CHR 0xA6, CHR 0xBE, CHR 0xE0, CHR 0xA6, CHR 0xA3]),
      (''processing.title'', [CHR 0xE0, CHR 0xA6, CHR 0xAA, CHR 0xE0, CHR 0xA7, CHR 0x8D, CHR 0xE0, CHR 0xA6, CHR 0xB0, CHR 0xE0, CHR 0xA6, CHR 0x95, CHR 0xE0, CHR 0xA7, CHR 0x8D, CHR 0xE0, CHR 0xA6, CHR 0xB0, CHR 0xE0, CHR 0xA6, CHR 0xBF, CHR 0xE0, CHR 0xA6, CHR 0xAF, CHR 0xE0, CHR 0xA6, CHR 0xBC, CHR 0xE0, CHR 0xA6, CHR 0xBE, CHR 0xE0, CHR 0xA6, CHR 0x95, CHR 0xE0, CHR 0xA6, CHR 0xB0, CHR 0xE0, CHR 0xA6, CHR 0xA3]),
      (''processing.pleaseWait'', [CHR 0xE0, CHR 0xA6, CHR 0x85, CHR 0xE0, CHR 0xA6, CHR 0xA8, CHR 0xE0, CHR 0xA7, CHR 0x81, CHR 0xE0, CHR 0xA6, CHR 0x97, CHR 0xE0, CHR 0xA7, CHR 0x8D, CHR 0xE0, CHR 0xA6, CHR 0xB0, CHR 0xE0, CHR 0xA6, CHR 0xB9] @ '' '' @ [CHR 0xE0, CHR 0xA6, CHR 0x95, CHR 0xE0, CHR 0xA6, CHR 0xB0, CHR 0xE0, CHR 0xA7, CHR 0x87] @ '' '' @ [CHR 0xE0, CHR 0xA6, CHR 0x85, CHR 0xE0, CHR 0xA6, CHR 0xAA, CHR 0xE0, CHR 0xA7, CHR 0x87, CHR 0xE0, CHR 0xA6, CHR 0x95, CHR 0xE0, CHR 0xA7, CHR 0x8D, CHR 0xE0, CHR 0xA6, CHR 0xB7, CHR 0xE0, CHR 0xA6, CHR 0xBE] @ '' '' @ [CHR 0xE0, CHR 0xA6, CHR 0x95, CHR 0xE0, CHR 0xA6, CHR 0xB0, CHR 0xE0, CHR 0xA7, CHR 0x81, CHR 0xE0, CHR 0xA6, CHR 0xA8] @ ''...''),
      (''processing.finalizing'', [CHR 0xE0, CHR 0xA6, CHR 0x86, CHR 0xE0, CHR 0xA6, CHR 0xAA, CHR 0xE0, CHR 0xA6, CHR 0xA8, CHR 0xE0, CHR 0xA6, CHR 0xBE, CHR 0xE0, CHR 0xA6, CHR 0xB0] @ '' '' @ [CHR 0xE0, CHR 0xA6, CHR 0x85, CHR 0xE0, CHR 0xA6, CHR 0xB0, CHR 0xE0, CHR 0xA7, CHR 0x8D, CHR 0xE0, CHR 0xA6, CHR 0xA1, CHR 0xE0, CHR 0xA6, CHR 0xBE, CHR 0xE0, CHR 0xA6, CHR 0xB0] @ '' '' @ [CHR 0xE0, CHR 0xA6, CHR 0x9A, CHR 0xE0, CHR 0xA7, CHR 0x82, CHR 0xE0, CHR 0xA6, CHR 0xA1, CHR 0xE0, CHR 0xA6, CHR 0xBC, CHR 0xE0, CHR 0xA6, CHR 0xBE, CHR 0xE0, CHR 0xA6, CHR 0xA8, CHR 0xE0, CHR 0xA7, CHR 0x8D, CHR 0xE0, CHR 0xA6, CHR 0xA4] @ '' '' @ [CHR 0xE0, CHR 0xA6, CHR 0x95, CHR 0xE0, CHR 0xA6, CHR 0xB0, CHR 0xE0, CHR 0xA6, CHR 0xBE] @ '' '' @ [CHR 0xE0, CHR 0xA6, CHR 0xB9, CHR 0xE0, CHR 0xA6, CHR 0x9A, CHR 0xE0, CHR 0xA7, CHR 0x8D, CHR 0xE0, CHR 0xA6, CHR 0x9B, CHR 0xE0, CHR 0xA7, CHR 0x87]),
      (''processing.redirecting'', [CHR 0xE0, CHR 0xA6, CHR 0xB0, CHR 0xE0, CHR 0xA6, CHR 0xB8, CHR 0xE0, CHR 0xA6, CHR 0xBF, CHR 0xE0, CHR 0xA6, CHR 0xA6, CHR 0xE0, CHR 0xA7, CHR 0x87] @ '' '' @ [CHR 0xE0, CHR 0xA6, CHR 0xAA, CHR 0xE0, CHR 0xA7, CHR 0x81, CHR 0xE0, CHR 0xA6, CHR 0xA8, CHR 0xE0, CHR 0xA6, CHR 0x83, CHR 0xE0, CHR 0xA6, CHR 0xA8, CHR 0xE0, CHR 0xA6, CHR 0xBF, CHR 0xE0, CHR 0xA6, CHR 0xB0, CHR 0xE0, CHR 0xA7, CHR 0x8D, CHR 0xE0, CHR 0xA6, CHR 0xA6, CHR 0xE0, CHR 0xA7, CHR 0x87, CHR 0xE0, CHR 0xA6, CHR 0xB6, CHR 0xE0, CHR 0xA6, CHR 0xBF, CHR 0xE0, CHR 0xA6, CHR 0xA4] @ '' '' @ [CHR 0xE0, CHR 0xA6, CHR 0x95, CHR 0xE0, CHR 0xA6, CHR 0xB0, CHR 0xE0, CHR 0xA6, CHR 0xBE] @ '' '' @ [CHR 0xE0, CHR 0xA6, CHR 0xB9, CHR 0xE0, CHR 0xA6, CHR 0x9A, CHR 0xE0, CHR 0xA7, CHR 0x8D, CHR 0xE0, CHR 0xA6, CHR 0x9B, CHR 0xE0, CHR 0xA7, CHR 0x87]),
      (''receipt.title'', [CHR 0xE0, CHR 0xA6, CHR 0xA7, CHR 0xE0, CHR 0xA6, CHR 0xA8, CHR 0xE0, CHR 0xA7, CHR 0x8D, CHR 0xE0, CHR 0xA6, CHR 0xAF, CHR 0xE0, CHR 0xA6, CHR 0xAC, CHR 0xE0, CHR 0xA6, CHR 0xBE, CHR 0xE0, CHR 0xA6, CHR 0xA6]),
      (''receipt.orderNumber'', [CHR 0xE0, CHR 0xA6, CHR 0x85, CHR 0xE0, CHR 0xA6, CHR 0xB0, CHR 0xE0, CHR 0xA7, CHR 0x8D, CHR 0xE0, CHR 0xA6, CHR 0xA1, CHR 0xE0, CHR 0xA6, CHR 0xBE, CHR 0xE0, CHR 0xA6, CHR 0xB0] @ '' #{number}''),
      (''receipt.print'', [CHR 0xE0, CHR 0xA6, CHR 0xB0, CHR 0xE0, CHR 0xA6, CHR 0xB8, CHR 0xE0, CHR 0xA6, CHR 0xBF, CHR 0xE0, CHR 0xA6, CHR 0xA6] @ '' '' @ [CHR 0xE0, CHR 0xA6, CHR 0xAA, CHR 0xE0, CHR 0xA7, CHR 0x8D, CHR 0xE0, CHR 0xA6, CHR 0xB0, CHR 0xE0, CHR 0xA6, CHR 0xBF, CHR 0xE0, CHR 0xA6, CHR 0xA8, CHR 0xE0, CHR 0xA7, CHR 0x8D, CHR 0xE0, CHR 0xA6, CHR 0x9F] @ '' '' @ [CHR 0xE0, CHR 0xA6, CHR 0x95, CHR 0xE0, CHR 0xA6, CHR 0xB0, CHR 0xE0, CHR 0xA7, CHR 0x81, CHR 0xE0, CHR 0xA6, CHR 0xA8]),
      (''receipt.email'', [CHR 0xE0, CHR 0xA6, CHR 0x87, CHR 0xE0, CHR 0xA6, CHR 0xAE, CHR 0xE0, CHR 0xA7, CHR 0x87, CHR 0xE0, CHR 0xA6, CHR 0x87, CHR 0xE0, CHR 0xA6, CHR 0xB2, CHR 0xE0, CHR 0xA7, CHR 0x87] @ '' '' @ [CHR 0xE0, CHR 0xA6, CHR 0xB0, CHR 0xE0, CHR 0xA6, CHR 0xB8, CHR 0xE0, CHR 0xA6, CHR 0xBF, CHR 0xE0, CHR 0xA6, CHR 0xA6] @ '' '' @ [CHR 0xE0, CHR 0xA6, CHR 0xAA, CHR 0xE0, CHR 0xA6, CHR 0xBE, CHR 0xE0, CHR 0xA6, CHR 0xA0, CHR 0xE0, CHR 0xA6, CHR 0xBE, CHR 0xE0, CHR 0xA6, CHR 0xA8]),
      (''receipt.startNew'', [CHR 0xE0, CHR 0xA6, CHR 0xA8, CHR 0xE0, CHR 0xA6, CHR 0xA4, CHR 0xE0, CHR 0xA7, CHR 0x81, CHR 0xE0, CHR 0xA6, CHR 0xA8] @ '' '' @ [CHR 0xE0, CHR 0xA6, CHR 0x85, CHR 0xE0, CHR 0xA6, CHR 0xB0, CHR 0xE0, CHR 0xA7, CHR 0x8D, CHR 0xE0, CHR 0xA6, CHR 0xA1, CHR 0xE0, CHR 0xA6, CHR 0xBE, CHR 0xE0, CHR 0xA6, CHR 0xB0] @ '' '' @ [CHR 0xE0, CHR 0xA6, CHR 0xB6, CHR 0xE0, CHR 0xA7, CHR 0x81, CHR 0xE0, CHR 0xA6, CHR 0xB0, CHR 0xE0, CHR 0xA7, CHR 0x81] @ '' '' @ [CHR 0xE0, CHR 0xA6, CHR 0x95, CHR 0xE0, CHR 0xA6, CHR 0xB0, CHR 0xE0, CHR 0xA7, CHR 0x81, CHR 0xE0, CHR 0xA6, CHR 0xA8]),
      (''receipt.thankYouMessage'', [CHR 0xE0, CHR 0xA6, CHR 0x86, CHR 0xE0, CHR 0xA6, CHR 0xAA, CHR 0xE0, CHR 0xA6, CHR 0xA8, CHR 0xE0, CHR 0xA6, CHR 0xBE, CHR 0xE0, CHR 0xA6, CHR 0xB0] @ '' '' @ [CHR 0xE0, CHR 0xA6, CHR 0x95, CHR 0xE0, CHR 0xA7, CHR 0x87, CHR 0xE0, CHR 0xA6, CHR 0xA8, CHR 0xE0, CHR 0xA6, CHR 0xBE, CHR 0xE0, CHR 0xA6, CHR 0x95, CHR 0xE0, CHR 0xA6, CHR 0xBE, CHR 0xE0, CHR 0xA6, CHR 0x9F, CHR 0xE0, CHR 0xA6, CHR 0xBE, CHR 0xE0, CHR 0xA6, CHR 0xB0] @ '' '' @ [CHR 0xE0, CHR 0xA6, CHR 0x9C, CHR 0xE0, CHR 0xA6, CHR 0xA8, CHR 0xE0, CHR 0xA7, CHR 0x8D, CHR 0xE0, CHR 0xA6, CHR 0xAF] @ '' '' @ [CHR 0xE0, CHR 0xA6, CHR 0xA7, CHR 0xE0, CHR 0xA6, CHR 0xA8, CHR 0xE0, CHR 0xA7, CHR 0x8D, CHR 0xE0, CHR 0xA6, CHR 0xAF, CHR 0xE0, CHR 0xA6, CHR 0xAC, CHR 0xE0, CHR 0xA6, CHR 0xBE, CHR 0xE0, CHR 0xA6, CHR 0xA6] @ ''!''),
      (''status.offline'', [CHR 0xE0, CHR 0xA6, CHR 0x85, CHR 0xE0, CHR 0xA6, CHR 0xAB, CHR 0xE0, CHR 0xA6, CHR 0xB2, CHR 0xE0, CHR 0xA6, CHR 0xBE, CHR 0xE0, CHR 0xA6, CHR 0x87, CHR 0xE0, CHR 0xA6, CHR 0xA8]),
      (''status.online'', [CHR 0xE0, CHR 0xA6, CHR 0x85, CHR 0xE0, CHR 0xA6, CHR 0xA8, CHR 0xE0, CHR 0xA6, CHR 0xB2, CHR 0xE0, CHR 0xA6, CHR 0xBE, CHR 0xE0, CHR 0xA6, CHR 0x87, CHR 0xE0, CHR 0xA6, CHR 0xA8]),
      (''status.connecting'', [CHR 0xE0, CHR 0xA6, CHR 0xB8, CHR 0xE0, CHR 0xA6, CHR 0x82, CHR 0xE0, CHR 0xA6, CHR 0xAF, CHR 0xE0, CHR 0xA7, CHR 0x8B, CHR 0xE0, CHR 0xA6, CHR 0x97] @ '' '' @ [CHR 0xE0, CHR 0xA6, CHR 0xB9, CHR 0xE0, CHR 0xA6, CHR 0x9A, CHR 0xE0, CHR 0xA7, CHR 0x8D, CHR 0xE0, CHR 0xA6, CHR 0x9B, CHR 0xE0, CHR 0xA7, CHR 0x87] @ ''...''),
      (''status.network'', [CHR 0xE0, CHR 0xA6, CHR 0xA8, CHR 0xE0, CHR 0xA7, CHR 0x87, CHR 0xE0, CHR 0xA6, CHR 0x9F, CHR 0xE0, CHR 0xA6, CHR 0x93, CHR 0xE0, CHR 0xA6, CHR 0xAF, CHR 0xE0, CHR 0xA6, CHR 0xBC, CHR 0xE0, CHR 0xA6, CHR 0xBE, CHR 0xE0, CHR 0xA6, CHR 0xB0, CHR 0xE0, CHR 0xA7, CHR 0x8D, CHR 0xE0, CHR 0xA6, CHR 0x95]),
      (''idle.warning'', [CHR 0xE0, CHR 0xA6, CHR 0x8F, CHR 0xE0, CHR 0xA6, CHR 0x96, CHR 0xE0, CHR 0xA6, CHR 0xA8, CHR 0xE0, CHR 0xA6, CHR 0x93] @ '' '' @ [CHR 0xE0, CHR 0xA6, CHR 0x95, CHR 0xE0, CHR 0xA7, CHR 0x87, CHR 0xE0, CHR 0xA6, CHR 0xA8, CHR 0xE0, CHR 0xA6, CHR 0xBE, CHR 0xE0, CHR 0xA6, CHR 0x95, CHR 0xE0, CHR 0xA6, CHR 0xBE, CHR 0xE0, CHR 0xA6, CHR 0x9F, CHR 0xE0, CHR 0xA6, CHR 0xBE] @ '' '' @ [CHR 0xE0, CHR 0xA6, CHR 0x95, CHR 0xE0, CHR 0xA6, CHR 0xB0, CHR 0xE0, CHR 0xA6, CHR 0x9B, CHR 0xE0, CHR 0xA7, CHR 0x87, CHR 0xE0, CHR 0xA6, CHR 0xA8] @ ''?''),
      (''idle.continue'', [CHR 0xE0, CHR 0xA6, CHR 0x9A, CHR 0xE0, CHR 0xA6, CHR 0xBE, CHR 0xE0, CHR 0xA6, CHR 0xB2, CHR 0xE0, CHR 0xA6, CHR 0xBF, CHR 0xE0, CHR 0xA6, CHR 0xAF, CHR 0xE0, CHR 0xA6, CHR 0xBC, CHR 0xE0, CHR 0xA7, CHR 0x87] @ '' '' @ [CHR 0xE0, CHR 0xA6, CHR 0xAF, CHR 0xE0, CHR 0xA6, CHR 0xBE, CHR 0xE0, CHR 0xA6, CHR 0xA8]),
      (''idle.endSession'', [CHR 0xE0, CHR 0xA6, CHR 0xB8, CHR 0xE0, CHR 0xA7, CHR 0x87, CHR 0xE0, CHR 0xA6, CHR 0xB6, CHR 0xE0, CHR 0xA6, CHR 0xA8] @ '' '' @ [CHR 0xE0, CHR 0xA6, CHR 0xB6, CHR 0xE0, CHR 0xA7, CHR 0x87, CHR 0xE0, CHR 0xA6, CHR 0xB7] @ '' '' @ [CHR 0xE0, CHR 0xA6, CHR 0x95, CHR 0xE0, CHR 0xA6, CHR 0xB0, CHR 0xE0, CHR 0xA7, CHR 0x81, CHR 0xE0, CHR 0xA6, CHR 0xA8]),
      (''idle.timeoutWarning'', [CHR 0xE0, CHR 0xA6, CHR 0xA8, CHR 0xE0, CHR 0xA6, CHR 0xBF, CHR 0xE0, CHR 0xA6, CHR 0xB7, CHR 0xE0, CHR 0xA7, CHR 0x8D, CHR 0xE0, CHR 0xA6, CHR 0x95, CHR 0xE0, CHR 0xA7, CHR 0x8D, CHR 0xE0, CHR 0xA6, CHR 0xB0, CHR 0xE0, CHR 0xA6, CHR 0xBF, CHR 0xE0, CHR 0xA6, CHR 0xAF, CHR 0xE0, CHR 0xA6, CHR 0xBC, CHR 0xE0, CHR 0xA6, CHR 0xA4, CHR 0xE0, CHR 0xA6, CHR 0xBE, CHR 0xE0, CHR 0xA6, CHR 0xB0] @ '' '' @ [CHR 0xE0, CHR 0xA6, CHR 0x95, CHR 0xE0, CHR 0xA6, CHR 0xBE, CHR 0xE0, CHR 0xA6, CHR 0xB0, CHR 0xE0, CHR 0xA6, CHR 0xA3, CHR 0xE0, CHR 0xA7, CHR 0x87] @ '' '' @ [CHR 0xE0, CHR 0xA6, CHR 0xB8, CHR 0xE0, CHR 0xA7, CHR 0x87, CHR 0xE0, CHR 0xA6, CHR 0xB6, CHR 0xE0, CHR 0xA6, CHR 0xA8] @ '' '' @ [CHR 0xE0, CHR 0xA6, CHR 0xB6, CHR 0xE0, CHR 0xA7, CHR 0x80, CHR 0xE0, CHR 0xA6, CHR 0x98, CHR 0xE0, CHR 0xA7, CHR 0x8D, CHR 0xE0, CHR 0xA6, CHR 0xB0, CHR 0xE0, CHR 0xA6, CHR 0x87] @ '' '' @ [CHR 0xE0, CHR 0xA6, CHR 0xB6, CHR 0xE0, CHR 0xA7, CHR 0x87, CHR 0xE0, CHR 0xA6, CHR 0xB7] @ '' '' @ [CHR 0xE0, CHR 0xA6, CHR 0xB9, CHR 0xE0, CHR 0xA6, CHR 0xAC, CHR 0xE0, CHR 0xA7, CHR 0x87, CHR 0xE0, CHR 0xA5, CHR 0xA4]),
      (''offline.banner'', [CHR 0xE0, CHR 0xA6, CHR 0x86, CHR 0xE0, CHR 0xA6, CHR 0xAA, CHR 0xE0, CHR 0xA6, CHR 0xA8, CHR 0xE0, CHR 0xA6, CHR 0xBF] @ '' '' @ [CHR 0xE0, CHR 0xA6, CHR 0x85, CHR 0xE0, CHR 0xA6, CHR 0xAB, CHR 0xE0, CHR 0xA6, CHR 0xB2, CHR 0xE0, CHR 0xA6, CHR 0xBE, CHR 0xE0, CHR 0xA6, CHR 0x87, CHR 0xE0, CHR 0xA6, CHR 0xA8, CHR 0xE0, CHR 0xA7, CHR 0x87] @ '' '' @ [CHR 0xE0, CHR 0xA6, CHR 0x86, CHR 0xE0, CHR 0xA6, CHR 0x9B, CHR 0xE0, CHR 0xA7, CHR 0x87, CHR 0xE0, CHR 0xA6, CHR 0xA8, CHR 0xE0, CHR 0xA5, CHR 0xA4] @ '' '' @ [CHR 0xE0, CHR 0xA6, CHR 0x95, CHR 0xE0, CHR 0xA6, CHR 0xBF, CHR 0xE0, CHR 0xA6, CHR 0x9B, CHR 0xE0, CHR 0xA7, CHR 0x81] @ '' '' @ [CHR 0xE0, CHR 0xA6, CHR 0xAC, CHR 0xE0, CHR 0xA7, CHR 0x88, CHR 0xE0, CHR 0xA6, CHR 0xB6, CHR 0xE0, CHR 0xA6, CHR 0xBF, CHR 0xE0, CHR 0xA6, CHR 0xB7, CHR 0xE0, CHR 0xA7, CHR 0x8D, CHR 0xE0, CHR 0xA6, CHR 0x9F, CHR 0xE0, CHR 0xA7, CHR 0x8D, CHR 0xE0, CHR 0xA6, CHR 0xAF] @ '' '' @ [CHR 0xE0, CHR 0xA6, CHR 0x89, CHR 0xE0, CHR 0xA6, CHR 0xAA, CHR 0xE0, CHR 0xA6, CHR 0xB2, CHR 0xE0, CHR 0xA6, CHR 0xAC, CHR 0xE0, CHR 0xA7, CHR 0x8D, CHR 0xE0, CHR 0xA6, CHR 0xA7] @ '' '' @ [CHR 0xE0, CHR 0xA6, CHR 0xA8, CHR 0xE0, CHR 0xA6, CHR 0xBE, CHR 0xE0, CHR 0xA6, CHR 0x93] @ '' '' @ [CHR 0xE0, CHR 0xA6, CHR 0xB9, CHR 0xE0, CHR 0xA6, CHR 0xA4, CHR 0xE0, CHR 0xA7, CHR 0x87] @ '' '' @ [CHR 0xE0, CHR 0xA6, CHR 0xAA, CHR 0xE0, CHR 0xA6, CHR 0xBE, CHR 0xE0, CHR 0xA6, CHR 0xB0, CHR 0xE0, CHR 0xA7, CHR 0x87, CHR 0xE0, CHR 0xA5, CHR 0xA4]),
      (''offline.reconnecting'', [CHR 0xE0, CHR 0xA6, CHR 0xAA, CHR 0xE0, CHR 0xA7, CHR 0x81, CHR 0xE0, CHR 0xA6, CHR 0xA8, CHR 0xE0, CHR 0xA6, CHR 0xB0, CHR 0xE0, CHR 0xA6, CHR 0xBE, CHR 0xE0, CHR 0xA6, CHR 0xAF, CHR 0xE0, CHR 0xA6, CHR 0xBC] @ '' '' @ [CHR 0xE0, CHR 0xA6, CHR 0xB8, CHR 0xE0, CHR 0xA6, CHR 0x82, CHR 0xE0, CHR 0xA6, CHR 0xAF, CHR 0xE0, CHR 0xA7, CHR 0x8B, CHR 0xE0, CHR 0xA6, CHR 0x97] @ '' '' @ [CHR 0xE0, CHR 0xA6, CHR 0xB9, CHR 0xE0, CHR 0xA6, CHR 0x9A, CHR 0xE0, CHR 0xA7, CHR 0x8D, CHR 0xE0, CHR 0xA6, CHR 0x9B, CHR 0xE0, CHR 0xA7, CHR 0x87] @ ''...''),
      (''offline.longOffline'', [CHR 0xE0, CHR 0xA6, CHR 0xA6, CHR 0xE0, CHR 0xA7, CHR 0x80, CHR 0xE0, CHR 0xA6, CHR 0xB0, CHR 0xE0, CHR 0xA7, CHR 0x8D, CHR 0xE0, CHR 0xA6, CHR 0x98] @ '' '' @ [CHR 0xE0, CHR 0xA6, CHR 0xB8, CHR 0xE0, CHR 0xA6, CHR 0xAE, CHR 0xE0, CHR 0xA6, CHR 0xAF, CHR 0xE0, CHR 0xA6, CHR 0xBC] @ '' '' @ [CHR 0xE0, CHR 0xA6, CHR 0xA7, CHR 0xE0, CHR 0xA6, CHR 0xB0, CHR 0xE0, CHR 0xA7, CHR 0x87] @ '' '' @ [CHR 0xE0, CHR 0xA6, CHR 0xA8, CHR 0xE0, CHR 0xA7, CHR 0x87, CHR 0xE0, CHR 0xA6, CHR 0x9F, CHR 0xE0, CHR 0xA6, CHR 0x93, CHR 0xE0, CHR 0xA6, CHR 0xAF, CHR 0xE0, CHR 0xA6, CHR 0xBC, CHR 0xE0, CHR 0xA6, CHR 0xBE, CHR 0xE0, CHR 0xA6, CHR 0xB0, CHR 0xE0, CHR 0xA7, CHR 0x8D, CHR 0xE0, CHR 0xA6, CHR 0x95] @ '' '' @ [CHR 0xE0, CHR 0xA6, CHR 0xB8, CHR 0xE0, CHR 0xA6, CHR 0x82, CHR 0xE0, CHR 0xA6, CHR 0xAF, CHR 0xE0, CHR 0xA7, CHR 0x8B, CHR 0xE0, CHR 0xA6, CHR 0x97] @ '' '' @ [CHR 0xE0, CHR 0xA6, CHR 0xA8, CHR 0xE0, CHR 0xA7, CHR 0x87, CHR 0xE0, CHR 0xA6, CHR 0x87, CHR 0xE0, CHR 0xA5, CHR 0xA4]),
      (''error.generic'', [CHR 0xE0, CHR 0xA6, CHR 0x95, CHR 0xE0, CHR 0xA6, CHR 0xBF, CHR 0xE0, CHR 0xA6, CHR 0x9B, CHR 0xE0, CHR 0xA7, CHR 0x81] @ '' '' @ [CHR 0xE0, CHR 0xA6, CHR 0xAD, CHR 0xE0, CHR 0xA7, CHR 0x81, CHR 0xE0, CHR 0xA6, CHR 0xB2] @ '' '' @ [CHR 0xE0, CHR 0xA6, CHR 0xB9, CHR 0xE0, CHR 0xA6, CHR 0xAF, CHR 0xE0, CHR 0xA6, CHR 0xBC, CHR 0xE0, CHR 0xA7, CHR 0x87, CHR 0xE0, CHR 0xA6, CHR 0x9B, CHR 0xE0, CHR 0xA7, CHR 0x87]),
      (''error.restart'', [CHR 0xE0, CHR 0xA6, CHR 0x95, CHR 0xE0, CHR 0xA6, CHR 0xBF, CHR 0xE0, CHR 0xA6, CHR 0x93, CHR 0xE0, CHR 0xA6, CHR 0xB8, CHR 0xE0, CHR 0xA7, CHR 0x8D, CHR 0xE0, CHR 0xA6, CHR 0x95] @ '' '' @ [CHR 0xE0, CHR 0xA6, CHR 0xAA, CHR 0xE0, CHR 0xA7, CHR 0x81, CHR 0xE0, CHR 0xA6, CHR 0xA8, CHR 0xE0, CHR 0xA6, CHR 0xB0, CHR 0xE0, CHR 0xA6, CHR 0xBE, CHR 0xE0, CHR 0xA6, CHR 0xAF, CHR 0xE0, CHR 0xA6, CHR 0xBC] @ '' '' @ [CHR 0xE0, CHR 0xA6, CHR 0x9A, CHR 0xE0, CHR 0xA6, CHR 0xBE, CHR 0xE0, CHR 0xA6, CHR 0xB2, CHR 0xE0, CHR 0xA7, CHR 0x81] @ '' '' @ [CHR 0xE0, CHR 0xA6, CHR 0x95, CHR 0xE0, CHR 0xA6, CHR 0xB0, CHR 0xE0, CHR 0xA7, CHR 0x81, CHR 0xE0, CHR 0xA6, CHR 0xA8]),
      (''error.retry'', [CHR 0xE0, CHR 0xA6, CHR 0xAA, CHR 0xE0, CHR 0xA7, CHR 0x81, CHR 0xE0, CHR 0xA6, CHR 0xA8, CHR 0xE0, CHR 0xA6, CHR 0xB0, CHR 0xE0, CHR 0xA6, CHR 0xBE, CHR 0xE0, CHR 0xA6, CHR 0xAF, CHR 0xE0, CHR 0xA6, CHR 0xBC] @ '' '' @ [CHR 0xE0, CHR 0xA6, CHR 0x9A, CHR 0xE0, CHR 0xA7, CHR 0x87, CHR 0xE0, CHR 0xA6, CHR 0xB7, CHR 0xE0, CHR 0xA7, CHR 0x8D, CHR 0xE0, CHR 0xA6, CHR 0x9F, CHR 0xE0, CHR 0xA6, CHR 0xBE] @ '' '' @ [CHR 0xE0, CHR 0xA6, CHR 0x95, CHR 0xE0, CHR 0xA6, CHR 0xB0, CHR 0xE0, CHR 0xA7, CHR 0x81, CHR 0xE0, CHR 0xA6, CHR 0xA8]),
      (''error.paymentDeclined'', [CHR 0xE0, CHR 0xA6, CHR 0xAA, CHR 0xE0, CHR 0xA7, CHR 0x87, CHR 0xE0, CHR 0xA6, CHR 0xAE, CHR 0xE0, CHR 0xA7, CHR 0x87, CHR 0xE0, CHR 0xA6, CHR 0xA8, CHR 0xE0, CHR 0xA7, CHR 0x8D, CHR 0xE0, CHR 0xA6, CHR 0x9F] @ '' '' @ [CHR 0xE0, CHR 0xA6, CHR 0xAA, CHR 0xE0, CHR 0xA7, CHR 0x8D, CHR 0xE0, CHR 0xA6, CHR 0xB0, CHR 0xE0, CHR 0xA6, CHR 0xA4, CHR 0xE0, CHR 0xA7, CHR 0x8D, CHR 0xE0, CHR 0xA6, CHR 0xAF, CHR 0xE0, CHR 0xA6, CHR 0xBE, CHR 0xE0, CHR 0xA6, CHR 0x96, CHR 0xE0, CHR 0xA7, CHR 0x8D, CHR 0xE0, CHR 0xA6, CHR 0xAF, CHR 0xE0, CHR 0xA6, CHR 0xBE, CHR 0xE0, CHR 0xA6, CHR 0xA8, CHR 0xE0, CHR 0xA5, CHR 0xA4] @ '' '' @ [CHR 0xE0, CHR 0xA6, CHR 0x85, CHR 0xE0, CHR 0xA6, CHR 0xA8, CHR 0xE0, CHR 0xA7, CHR 0x8D, CHR 0xE0, CHR 0xA6, CHR 0xAF] @ '' '' @ [CHR 0xE0, CHR 0xA6, CHR 0xAA, CHR 0xE0, CHR 0xA6, CHR 0xA6, CHR 0xE0, CHR 0xA7, CHR 0x8D, CHR 0xE0, CHR 0xA6, CHR 0xA7, CHR 0xE0, CHR 0xA6, CHR 0xA4, CHR 0xE0, CHR 0xA6, CHR 0xBF] @ '' '' @ [CHR 0xE0, CHR 0xA6, CHR 0x9A, CHR 0xE0, CHR 0xA7, CHR 0x87, CHR 0xE0, CHR 0xA6, CHR 0xB7, CHR 0xE0, CHR 0xA7, CHR 0x8D, CHR 0xE0, CHR 0xA6, CHR 0x9F, CHR 0xE0, CHR 0xA6, CHR 0xBE] @ '' '' @ [CHR 0xE0, CHR 0xA6, CHR 0x95, CHR 0xE0, CHR 0xA6, CHR 0xB0, CHR 0xE0, CHR 0xA7, CHR 0x81, CHR 0xE0, CHR 0xA6, CHR 0xA8, CHR 0xE0, CHR 0xA5, CHR 0xA4]),
      (''error.paymentFailed'', [CHR 0xE0, CHR 0xA6, CHR 0xAA, CHR 0xE0, CHR 0xA7, CHR 0x87, CHR 0xE0, CHR 0xA6, CHR 0xAE, CHR 0xE0, CHR 0xA7, CHR 0x87, CHR 0xE0, CHR 0xA6, CHR 0xA8, CHR 0xE0, CHR 0xA7, CHR 0x8D, CHR 0xE0, CHR 0xA6, CHR 0x9F] @ '' '' @ [CHR 0xE0, CHR 0xA6, CHR 0xAC, CHR 0xE0, CHR 0xA7, CHR 0x8D, CHR 0xE0, CHR 0xA6, CHR 0xAF, CHR 0xE0, CHR 0xA6, CHR 0xB0, CHR 0xE0, CHR 0xA7, CHR 0x8D, CHR 0xE0, CHR 0xA6, CHR 0xA5, CHR 0xE0, CHR 0xA5, CHR 0xA4] @ '' '' @ [CHR 0xE0, CHR 0xA6, CHR 0x86, CHR 0xE0, CHR 0xA6, CHR 0xAC, CHR 0xE0, CHR 0xA6, CHR 0xBE, CHR 0xE0, CHR 0xA6, CHR 0xB0] @ '' '' @ [CHR 0xE0, CHR 0xA6, CHR 0x9A, CHR 0xE0, CHR 0xA7, CHR 0x87, CHR 0xE0, CHR 0xA6, CHR 0xB7, CHR 0xE0, CHR 0xA7, CHR 0x8D, CHR 0xE0, CHR 0xA6, CHR 0x9F, CHR 0xE0, CHR 0xA6, CHR 0xBE] @ '' '' @ [CHR 0xE0, CHR 0xA6, CHR 0x95, CHR 0xE0, CHR 0xA6, CHR 0xB0, CHR 0xE0, CHR 0xA7, CHR 0x81, CHR 0xE0, CHR 0xA6, CHR 0xA8, CHR 0xE0, CHR 0xA5, CHR 0xA4]),
      (''error.sessionExpired'', [CHR 0xE0, CHR 0xA6, CHR 0xB8, CHR 0xE0, CHR 0xA7, CHR 0x87, CHR 0xE0, CHR 0xA6, CHR 0xB6, CHR 0xE0, CHR 0xA6, CHR 0xA8, CHR 0xE0, CHR 0xA7, CHR 0x87, CHR 0xE0, CHR 0xA6, CHR 0xB0] @ '' '' @ [CHR 0xE0, CHR 0xA6, CHR 0xAE, CHR 0xE0, CHR 0xA7, CHR 0x87, CHR 0xE0, CHR 0xA6, CHR 0xAF, CHR 0xE0, CHR 0xA6, CHR 0xBC, CHR 0xE0, CHR 0xA6, CHR 0xBE, CHR 0xE0, CHR 0xA6, CHR 0xA6] @ '' '' @ [CHR 0xE0, CHR 0xA6, CHR 0xB6, CHR 0xE0, CHR 0xA7, CHR 0x87, CHR 0xE0, CHR 0xA6, CHR 0xB7, CHR 0xE0, CHR 0xA5, CHR 0xA4] @ '' '' @ [CHR 0xE0, CHR 0xA6, CHR 0x86, CHR 0xE0, CHR 0xA6, CHR 0xAC, CHR 0xE0, CHR 0xA6, CHR 0xBE, CHR 0xE0, CHR 0xA6, CHR 0xB0] @ '' '' @ [CHR 0xE0, CHR 0xA6, CHR 0xB6, CHR 0xE0, CHR 0xA7, CHR 0x81, CHR 0xE0, CHR 0xA6, CHR 0xB0, CHR 0xE0, CHR 0xA7, CHR 0x81] @ '' '' @ [CHR 0xE0, CHR 0xA6, CHR 0x95, CHR 0xE0, CHR 0xA6, CHR 0xB0, CHR 0xE0, CHR 0xA7, CHR 0x81, CHR 0xE0, CHR 0xA6, CHR 0xA8, CHR 0xE0, CHR 0xA5, CHR 0xA4]),
      (''error.connectionLost'', [CHR 0xE0, CHR 0xA6, CHR 0xB8, CHR 0xE0, CHR 0xA6, CHR 0x82, CHR 0xE0, CHR 0xA6, CHR 0xAF, CHR 0xE0, CHR 0xA7, CHR 0x8B, CHR 0xE0, CHR 0xA6, CHR 0x97] @ '' '' @ [CHR 0xE0, CHR 0xA6, CHR 0xB9, CHR 0xE0, CHR 0xA6, CHR 0xBE, CHR 0xE0, CHR 0xA6, CHR 0xB0, CHR 0xE0, CHR 0xA6, CHR 0xBF, CHR 0xE0, CHR 0xA6, CHR 0xAF, CHR 0xE0, CHR 0xA6, CHR 0xBC, CHR 0xE0, CHR 0xA7, CHR 0x87] @ '' '' @ [CHR 0xE0, CHR 0xA6, CHR 0x97, CHR 0xE0, CHR 0xA7, CHR 0x87, CHR 0xE0, CHR 0xA6, CHR 0x9B, CHR 0xE0, CHR 0xA7, CHR 0x87, CHR 0xE0, CHR 0xA5, CHR 0xA4] @ '' '' @ [CHR 0xE0, CHR 0xA6, CHR 0xA8, CHR 0xE0, CHR 0xA7, CHR 0x87, CHR 0xE0, CHR 0xA6, CHR 0x9F, CHR 0xE0, CHR 0xA6, CHR 0x93, CHR 0xE0, CHR 0xA6, CHR 0xAF, CHR 0xE0, CHR 0xA6, CHR 0xBC, CHR 0xE0, CHR 0xA6, CHR 0xBE, CHR 0xE0, CHR 0xA6, CHR 0xB0, CHR 0xE0, CHR 0xA7, CHR 0x8D, CHR 0xE0, CHR 0xA6, CHR 0x95] @ '' '' @ [CHR 0xE0, CHR 0xA6, CHR 0xAA, CHR 0xE0, CHR 0xA6, CHR 0xB0, CHR 0xE0, CHR 0xA7, CHR 0x80, CHR 0xE0, CHR 0xA6, CHR 0x95, CHR 0xE0, CHR 0xA7, CHR 0x8D, CHR 0xE0, CHR 0xA6, CHR 0xB7, CHR 0xE0, CHR 0xA6, CHR 0xBE] @ '' '' @ [CHR 0xE0, CHR 0xA6, CHR 0x95, CHR 0xE0, CHR 0xA6, CHR 0xB0, CHR 0xE0, CHR 0xA6, CHR 0xBE] @ '' '' @ [CHR 0xE0, CHR 0xA6, CHR 0xB9, CHR 0xE0, CHR 0xA6, CHR 0x9A, CHR 0xE0, CHR 0xA7, CHR 0x8D, CHR 0xE0, CHR 0xA6, CHR 0x9B, CHR 0xE0, CHR 0xA7, CHR 0x87] @ ''...''),
      (''admin.title'', [CHR 0xE0, CHR 0xA6, CHR 0x85, CHR 0xE0, CHR 0xA7, CHR 0x8D, CHR 0xE0, CHR 0xA6, CHR 0xAF, CHR 0xE0, CHR 0xA6, CHR 0xBE, CHR 0xE0, CHR 0xA6, CHR 0xA1, CHR 0xE0, CHR 0xA6, CHR 0xAE, CHR 0xE0, CHR 0xA6, CHR 0xBF, CHR 0xE0, CHR 0xA6, CHR 0xA8] @ '' '' @ [CHR 0xE0, CHR 0xA6, CHR 0xAA, CHR 0xE0, CHR 0xA7, CHR 0x8D, CHR 0xE0, CHR 0xA6, CHR 0xAF, CHR 0xE0, CHR 0xA6, CHR 0xBE, CHR 0xE0, CHR 0xA6, CHR 0xA8, CHR 0xE0, CHR 0xA7, CHR 0x87, CHR 0xE0, CHR 0xA6, CHR 0xB2]),
      (''admin.close'', [CHR 0xE0, CHR 0xA6, CHR 0xAC, CHR 0xE0, CHR 0xA6, CHR 0xA8, CHR 0xE0, CHR 0xA7, CHR 0x8D, CHR 0xE0, CHR 0xA6, CHR 0xA7]),
      (''admin.dashboard'', [CHR 0xE0, CHR 0xA6, CHR 0xA1, CHR 0xE0, CHR 0xA7, CHR 0x8D, CHR 0xE0, CHR 0xA6, CHR 0xAF, CHR 0xE0, CHR 0xA6, CHR 0xBE, CHR 0xE0, CHR 0xA6, CHR 0xB6, CHR 0xE0, CHR 0xA6, CHR 0xAC, CHR 0xE0, CHR 0xA7, CHR 0x8B, CHR 0xE0, CHR 0xA6, CHR 0xB0, CHR 0xE0, CHR 0xA7, CHR 0x8D, CHR 0xE0, CHR 0xA6, CHR 0xA1]),
      (''general.confirm'', [CHR 0xE0, CHR 0xA6, CHR 0xA8, CHR 0xE0, CHR 0xA6, CHR 0xBF, CHR 0xE0, CHR 0xA6, CHR 0xB6, CHR 0xE0, CHR 0xA7, CHR 0x8D, CHR 0xE0, CHR 0xA6, CHR 0x9A, CHR 0xE0, CHR 0xA6, CHR 0xBF, CHR 0xE0, CHR 0xA6, CHR 0xA4] @ '' '' @ [CHR 0xE0, CHR 0xA6, CHR 0x95, CHR 0xE0, CHR 0xA6, CHR 0xB0, CHR 0xE0, CHR 0xA7, CHR 0x81, CHR 0xE0, CHR 0xA6, CHR 0xA8]),
      (''general.cancel'', [CHR 0xE0, CHR 0xA6, CHR 0xAC, CHR 0xE0, CHR 0xA6, CHR 0xBE, CHR 0xE0, CHR 0xA6, CHR 0xA4, CHR 0xE0, CHR 0xA6, CHR 0xBF, CHR 0xE0, CHR 0xA6, CHR 0xB2]),
      (''general.back'', [CHR 0xE0, CHR 0xA6, CHR 0xAA, CHR 0xE0, CHR 0xA7, CHR 0x87, CHR 0xE0, CHR 0xA6, CHR 0x9B, CHR 0xE0, CHR 0xA6, CHR 0xA8, CHR 0xE0, CHR 0xA7, CHR 0x87]),
      (''general.next'', [CHR 0xE0, CHR 0xA6, CHR 0xAA, CHR 0xE0, CHR 0xA6, CHR 0xB0, CHR 0xE0, CHR 0xA6, CHR 0xAC, CHR 0xE0, CHR 0xA6, CHR 0xB0, CHR 0xE0, CHR 0xA7, CHR 0x8D, CHR 0xE0, CHR 0xA6, CHR 0xA4, CHR 0xE0, CHR 0xA7, CHR 0x80]),
      (''general.done'', [CHR 0xE0, CHR 0xA6, CHR 0xB8, CHR 0xE0, CHR 0xA6, CHR 0xAE, CHR 0xE0, CHR 0xA7, CHR 0x8D, CHR 0xE0, CHR 0xA6, CHR 0xAA, CHR 0xE0, CHR 0xA6, CHR 0xA8, CHR 0xE0, CHR 0xA7, CHR 0x8D, CHR 0xE0, CHR 0xA6, CHR 0xA8]),
      (''general.loading'', [CHR 0xE0, CHR 0xA6, CHR 0xB2, CHR 0xE0, CHR 0xA7, CHR 0x8B, CHR 0xE0, CHR 0xA6, CHR 0xA1] @ '' '' @ [CHR 0xE0, CHR 0xA6, CHR 0xB9, CHR 0xE0, CHR 0xA6, CHR 0x9A, CHR 0xE0, CHR 0xA7, CHR 0x8D, CHR 0xE0, CHR 0xA6, CHR 0x9B, CHR 0xE0, CHR 0xA7, CHR 0x87] @ ''...''),
      (''general.save'', [CHR 0xE0, CHR 0xA6, CHR 0xB8, CHR 0xE0, CHR 0xA6, CHR 0x82, CHR 0xE0, CHR 0xA6, CHR 0xB0, CHR 0xE0, CHR 0xA6, CHR 0x95, CHR 0xE0, CHR 0xA7, CHR 0x8D, CHR 0xE0, CHR 0xA6, CHR 0xB7, CHR 0xE0, CHR 0xA6, CHR 0xA3]),
      (''general.delete'', [CHR 0xE0, CHR 0xA6, CHR 0xAE, CHR 0xE0, CHR 0xA7, CHR 0x81, CHR 0xE0, CHR 0xA6, CHR 0x9B, CHR 0xE0, CHR 0xA7, CHR 0x81, CHR 0xE0, CHR 0xA6, CHR 0xA8]),
      (''general.edit'', [CHR 0xE0, CHR 0xA6, CHR 0xB8, CHR 0xE0, CHR 0xA6, CHR 0xAE, CHR 0xE0, CHR 0xA7, CHR 0x8D, CHR 0xE0, CHR 0xA6, CHR 0xAA, CHR 0xE0, CHR 0xA6, CHR 0xBE, CHR 0xE0, CHR 0xA6, CHR 0xA6, CHR 0xE0, CHR 0xA6, CHR 0xA8, CHR 0xE0, CHR 0xA6, CHR 0xBE]),
      (''general.search'', [CHR 0xE0, CHR 0xA6, CHR 0x85, CHR 0xE0, CHR 0xA6, CHR 0xA8, CHR 0xE0, CHR 0xA7, CHR 0x81, CHR 0xE0, CHR 0xA6, CHR 0xB8, CHR 0xE0, CHR 0xA6, CHR 0xA8, CHR 0xE0, CHR 0xA7, CHR 0x8D, CHR 0xE0, CHR 0xA6, CHR 0xA7, CHR 0xE0, CHR 0xA6, CHR 0xBE, CHR 0xE0, CHR 0xA6, CHR 0xA8]),
      (''general.close'', [CHR 0xE0, CHR 0xA6, CHR 0xAC, CHR 0xE0, CHR 0xA6, CHR 0xA8, CHR 0xE0, CHR 0xA7, CHR 0x8D, CHR 0xE0, CHR 0xA6, CHR 0xA7]),
      (''general.yes'', [CHR 0xE0, CHR 0xA6, CHR 0xB9, CHR 0xE0, CHR 0xA7, CHR 0x8D, CHR 0xE0, CHR 0xA6, CHR 0xAF, CHR 0xE0, CHR 0xA6, CHR 0xBE, CHR 0xE0, CHR 0xA6, CHR 0x81]),
      (''general.no'', [CHR 0xE0, CHR 0xA6, CHR 0xA8, CHR 0xE0, CHR 0xA6, CHR 0xBE]),
      (''a11y.closeModal'', [CHR 0xE0, CHR 0xA6, CHR 0xAE, CHR 0xE0, CHR 0xA6, CHR 0xA1, CHR 0xE0, CHR 0xA6, CHR 0xBE, CHR 0xE0, CHR 0xA6, CHR 0xB2] @ '' '' @ [CHR 0xE0, CHR 0xA6, CHR 0xAC, CHR 0xE0, CHR 0xA6, CHR 0xA8, CHR 0xE0, CHR 0xA7, CHR 0x8D, CHR 0xE0, CHR 0xA6, CHR 0xA7] @ '' '' @ [CHR 0xE0, CHR 0xA6, CHR 0x95, CHR 0xE0, CHR 0xA6, CHR 0xB0, CHR 0xE0, CHR 0xA7, CHR 0x81, CHR 0xE0, CHR 0xA6, CHR 0xA8]),
      (''a11y.navigateBack'', [CHR 0xE0, CHR 0xA6, CHR 0xAA, CHR 0xE0, CHR 0xA7, CHR 0x87, CHR 0xE0, CHR 0xA6, CHR 0x9B, CHR 0xE0, CHR 0xA6, CHR 0xA8, CHR 0xE0, CHR 0xA7, CHR 0x87] @ '' '' @ [CHR 0xE0, CHR 0xA6, CHR 0xA8, CHR 0xE0, CHR 0xA7, CHR 0x87, CHR 0xE0, CHR 0xA6, CHR 0xAD, CHR 0xE0, CHR 0xA6, CHR 0xBF, CHR 0xE0, CHR 0xA6, CHR 0x97, CHR 0xE0, CHR 0xA7, CHR 0x87, CHR 0xE0, CHR 0xA6, CHR 0x9F] @ '' '' @ [CHR 0xE0, CHR 0xA6, CHR 0x95, CHR 0xE0, CHR 0xA6, CHR 0xB0, CHR 0xE0, CHR 0xA7, CHR 0x81, CHR 0xE0, CHR 0xA6, CHR 0xA8]),
      (''menu.noItemsHint'', ''Try a different search term or check all categories''),
      (''menu.categoriesLabel'', ''Menu categories''),
      (''menu.categories.mains'', ''Mains''),
      (''menu.categories.drinks'', ''Drinks''),
      (''menu.clearSearch'', ''Clear search''),
      (''menu.itemsInCart'', ''{count} items in cart'')]"

definition texts_bn_2 :: TranslationMap where
  "texts_bn_2 =
     [(''item.included'', ''Included''),
      (''item.chooseCount'', ''Choose {count}''),
      (''item.chooseRange'', ''Choose {min}-{max}''),
      (''item.closeLabel'', ''Close item details''),
      (''item.decreaseQuantity'', ''Decrease quantity''),
      (''item.increaseQuantity'', ''Increase quantity''),
      (''item.quantityLabel'', ''Quantity: {count}''),
      (''item.addToCartLabel'', ''Add {name} to cart '' @ [CHR 0xE2, CHR 0x80, CHR 0x94] @ '' {amount}''),
      (''item.priceAddition'', ''+{amount}''),
      (''item.customizeLabel'', ''Customize {name}''),
      (''cart.itemSingular'', ''{count} item''),
      (''cart.tapToEdit'', ''Tap an item to edit''),
      (''cart.itemsLabel'', ''Cart items''),
      (''cart.pay'', ''Pay {amount}''),
      (''cart.editItem'', ''Edit {name}. Quantity: {quantity}. Price: {amount}''),
      (''cart.decreaseQuantity'', ''Decrease quantity of {name}''),
      (''cart.increaseQuantity'', ''Increase quantity of {name}''),
      (''cart.quantityLabel'', ''Quantity: {count}''),
      (''cart.priceLabel'', ''Price: {amount}''),
      (''payment.cardNfc'', ''Card / NFC''),
      (''payment.qrCode'', ''QR Code''),
      (''payment.verifyToComplete'', ''Verify to complete''),
      (''payment.pinPadInstruction'', ''Please use the PIN pad or present your card to the terminal.''),
      (''payment.terminalStatus'', ''Terminal: {status}''),
      (''payment.authorizing'', ''Authorizing...''),
      (''payment.authorize'', ''Authorize''),
      (''payment.authorized'', ''Authorized''),
      (''payment.connected'', ''Connected''),
      (''payment.cartSummary'', ''Cart summary: {count} items, total {amount}. Tap to {action}.''),
      (''payment.expand'', ''expand''),
      (''payment.collapse'', ''collapse''),
      (''payment.employeeOverrideHint'', ''Employee override. Hold for 3 seconds.''),
      (''payment.cancelPayment'', ''Cancel payment''),
      (''payment.confirmPayment'', ''Pay {amount}''),
      (''processing.connecting'', ''Connecting to terminal...''),
      (''processing.waitingForCard'', ''Waiting for card...''),
      (''processing.authorizing'', ''Authorizing...''),
      (''processing.finalizingStage'', ''Finalizing...''),
      (''processing.default'', ''Processing...''),
      (''processing.terminalStatus'', ''Terminal: {label}''),
      (''processing.orderFailed'', ''Order could not be completed''),
      (''processing.orderFailedMessage'', ''We couldn'' @ [CHR 0x27] @ ''t complete your order. Please try again.''),
      (''processing.retry'', ''Try again''),
      (''processing.cancelReturn'', ''Cancel and return to cart''),
      (''receipt.printing'', ''Printing...''),
      (''receipt.emailSending'', ''Sending...''),
      (''receipt.emailSent'', ''Sent!''),
      (''receipt.printerUnavailable'', ''Printer unavailable. Receipt saved.''),
      (''receipt.srComplete'', ''Order complete. Tap start new order to continue.''),
      (''receipt.srReady'', ''Receipt ready.''),
      (''receipt.printLabel'', ''Print receipt''),
      (''receipt.emailLabel'', ''Email receipt''),
      (''receipt.startNewLabel'', ''Start new order''),
      (''status.synced'', ''Synced''),
      (''status.syncing'', ''Syncing''),
      (''status.p2pStatus'', ''P2P sync status: {label}. Tap for mesh details.''),
      (''status.kioskStatus'', ''Kiosk status''),
      (''status.p2pTitle'', ''P2P mesh sync''),
      (''status.meshDescription'', ''This kiosk shares cart and order state with nearby peers over a local mesh so orders survive network drops.''),
      (''status.connectedPeers'', ''Connected peers''),
      (''status.syncLag'', ''Sync lag''),
      (''status.role'', ''Role''),
      (''status.leader'', ''Leader''),
      (''status.peer'', ''Peer''),
      (''status.thisKiosk'', ''This kiosk''),
      (''status.apiOnline'', ''API online''),
      (''status.apiDegraded'', ''API degraded''),
      (''status.apiOffline'', ''API offline''),
      (''status.networkConnected'', ''Connected to network''),
      (''status.networkDisconnected'', ''No network connection''),
      (''idle.message'', ''Tap below to continue, or this kiosk will reset for the next customer.''),
      (''idle.continueLabel'', ''I am still here''),
      (''idle.endSessionLabel'', ''Start over''),
      (''idle.ariaLabel'', ''Idle timeout warning''),
      (''offline.workingOffline'', ''Working offline. Your cart is secure.''),
      (''offline.dismiss'', ''Dismiss offline notice''),
      (''error.helpMessage'', ''Please ask a staff member for help. We apologise for the inconvenience.''),
      (''admin.kioskStatus'', ''Kiosk Status''),
      (''admin.session'', ''Session''),
      (''admin.laneMode'', ''Lane Mode''),
      (''admin.apiStatus'', ''API Status''),
      (''admin.cartHasItems'', ''Cart Has Items''),
      (''admin.actions'', ''Actions''),
      (''admin.simulateOnline'', ''Simulate Online''),
      (''admin.simulateOffline'', ''Simulate Offline''),
      (''admin.errors'', ''Errors''),
      (''admin.closeLabel'', ''Close admin panel''),
      (''item.modifierSingular'', ''{count} modifier''),
      (''item.modifierPlural'', ''{count} modifiers'')]"

definition texts_bn :: TranslationMap where
  "texts_bn = texts_bn_1 @ texts_bn_2"

definition texts_th_1 :: TranslationMap where
  "texts_th_1 =
     [(''language.select'', [CHR 0xE0, CHR 0xB9, CHR 0x80, CHR 0xE0, CHR 0xB8, CHR 0xA5, CHR 0xE0, CHR 0xB8, CHR 0xB7, CHR 0xE0, CHR 0xB8, CHR 0xAD, CHR 0xE0, CHR 0xB8, CHR 0x81, CHR 0xE0, CHR 0xB8, CHR 0xA0, CHR 0xE0, CHR 0xB8, CHR 0xB2, CHR 0xE0, CHR 0xB8, CHR 0xA9, CHR 0xE0, CHR 0xB8, CHR 0xB2, CHR 0xE0, CHR 0xB8, CHR 0x82, CHR 0xE0, CHR 0xB8, CHR 0xAD, CHR 0xE0, CHR 0xB8, CHR 0x87, CHR 0xE0, CHR 0xB8, CHR 0x84, CHR 0xE0, CHR 0xB8, CHR 0xB8, CHR 0xE0, CHR 0xB8, CHR 0x93]),
      (''language.mainLanguages'', [CHR 0xE0, CHR 0xB8, CHR 0xA0, CHR 0xE0, CHR 0xB8, CHR 0xB2, CHR 0xE0, CHR 0xB8, CHR 0xA9, CHR 0xE0, CHR 0xB8, CHR 0xB2, CHR 0xE0, CHR 0xB8, CHR 0xAB, CHR 0xE0, CHR 0xB8, CHR 0xA5, CHR 0xE0, CHR 0xB8, CHR 0xB1, CHR 0xE0, CHR 0xB8, CHR 0x81]),
      (''language.moreLanguages'', [CHR 0xE0, CHR 0xB8, CHR 0xA0, CHR 0xE0, CHR 0xB8, CHR 0xB2, CHR 0xE0, CHR 0xB8, CHR 0xA9, CHR 0xE0, CHR 0xB8, CHR 0xB2, CHR 0xE0, CHR 0xB8, CHR 0xAD, CHR 0xE0, CHR 0xB8, CHR 0xB7, CHR 0xE0, CHR 0xB9, CHR 0x88, CHR 0xE0, CHR 0xB8, CHR 0x99] @ '' '' @ [CHR 0xE0, CHR 0xB9, CHR 0x86]),
      (''language.continue'', [CHR 0xE0, CHR 0xB8, CHR 0x94, CHR 0xE0, CHR 0xB8, CHR 0xB3, CHR 0xE0, CHR 0xB9, CHR 0x80, CHR 0xE0, CHR 0xB8, CHR 0x99, CHR 0xE0, CHR 0xB8, CHR 0xB4, CHR 0xE0, CHR 0xB8, CHR 0x99, CHR 0xE0, CHR 0xB8, CHR 0x81, CHR 0xE0, CHR 0xB8, CHR 0xB2, CHR 0xE0, CHR 0xB8, CHR 0xA3, CHR 0xE0, CHR 0xB8, CHR 0x95, CHR 0xE0, CHR 0xB9, CHR 0x88, CHR 0xE0, CHR 0xB8, CHR 0xAD]),
      (''attract.title'', ''Astra''),
      (''attract.touchToBegin'', [CHR 0xE0, CHR 0xB9, CHR 0x81, CHR 0xE0, CHR 0xB8, CHR 0x95, CHR 0xE0, CHR 0xB8, CHR 0xB0, CHR 0xE0, CHR 0xB9, CHR 0x80, CHR 0xE0, CHR 0xB8, CHR 0x9E, CHR 0xE0, CHR 0xB8, CHR 0xB7, CHR 0xE0, CHR 0xB9, CHR 0x88, CHR 0xE0, CHR 0xB8, CHR 0xAD, CHR 0xE0, CHR 0xB9, CHR 0x80, CHR 0xE0, CHR 0xB8, CHR 0xA3, CHR 0xE0, CHR 0xB8, CHR 0xB4, CHR 0xE0, CHR 0xB9, CHR 0x88, CHR 0xE0, CHR 0xB8, CHR 0xA1, CHR 0xE0, CHR 0xB8, CHR 0x95, CHR 0xE0, CHR 0xB9, CHR 0x89, CHR 0xE0, CHR 0xB8, CHR 0x99]),
      (''attract.laneInfo'', [CHR 0xE0, CHR 0xB8, CHR 0x8A, CHR 0xE0, CHR 0xB8, CHR 0xB3, CHR 0xE0, CHR 0xB8, CHR 0xA3, CHR 0xE0, CHR 0xB8, CHR 0xB0, CHR 0xE0, CHR 0xB9, CHR 0x80, CHR 0xE0, CHR 0xB8, CHR 0x87, CHR 0xE0, CHR 0xB8, CHR 0xB4, CHR 0xE0, CHR 0xB8, CHR 0x99, CHR 0xE0, CHR 0xB8, CHR 0x94, CHR 0xE0, CHR 0xB9, CHR 0x89, CHR 0xE0, CHR 0xB8, CHR 0xA7, CHR 0xE0, CHR 0xB8, CHR 0xA2, CHR 0xE0, CHR 0xB8, CHR 0x95, CHR 0xE0, CHR 0xB8, CHR 0x99, CHR 0xE0, CHR 0xB9, CHR 0x80, CHR 0xE0, CHR 0xB8, CHR 0xAD, CHR 0xE0, CHR 0xB8, CHR 0x87] @ '' '' @ [CHR 0xE2, CHR 0x80, CHR 0xA2] @ '' '' @ [CHR 0xE0, CHR 0xB8, CHR 0x8A, CHR 0xE0, CHR 0xB9, CHR 0x88, CHR 0xE0, CHR 0xB8, CHR 0xAD, CHR 0xE0, CHR 0xB8, CHR 0x87] @ '' {lane}''),
      (''attract.screenReader'', [CHR 0xE0, CHR 0xB8, CHR 0xAB, CHR 0xE0, CHR 0xB8, CHR 0x99, CHR 0xE0, CHR 0xB9, CHR 0x89, CHR 0xE0, CHR 0xB8, CHR 0xB2, CHR 0xE0, CHR 0xB8, CHR 0x88, CHR 0xE0, CHR 0xB8, CHR 0xAD, CHR 0xE0, CHR 0xB8, CHR 0x95, CHR 0xE0, CHR 0xB9, CHR 0x89, CHR 0xE0, CHR 0xB8, CHR 0xAD, CHR 0xE0, CHR 0xB8, CHR 0x99, CHR 0xE0, CHR 0xB8, CHR 0xA3, CHR 0xE0, CHR 0xB8, CHR 0xB1, CHR 0xE0, CHR 0xB8, CHR 0x9A] @ '' '' @ [CHR 0xE0, CHR 0xB9, CHR 0x81, CHR 0xE0, CHR 0xB8, CHR 0x95, CHR 0xE0, CHR 0xB8, CHR 0xB0, CHR 0xE0, CHR 0xB9, CHR 0x80, CHR 0xE0, CHR 0xB8, CHR 0x9E, CHR 0xE0, CHR 0xB8, CHR 0xB7, CHR 0xE0, CHR 0xB9, CHR 0x88, CHR 0xE0, CHR 0xB8, CHR 0xAD, CHR 0xE0, CHR 0xB9, CHR 0x80, CHR 0xE0, CHR 0xB8, CHR 0xA3, CHR 0xE0, CHR 0xB8, CHR 0xB4, CHR 0xE0, CHR 0xB9, CHR 0x88, CHR 0xE0, CHR 0xB8, CHR 0xA1, CHR 0xE0, CHR 0xB8, CHR 0x8A, CHR 0xE0, CHR 0xB9, CHR 0x89, CHR 0xE0, CHR 0xB8, CHR 0xAD, CHR 0xE0, CHR 0xB8, CHR 0x9B, CHR 0xE0, CHR 0xB8, CHR 0x9B, CHR 0xE0, CHR 0xB8, CHR 0xB4, CHR 0xE0, CHR 0xB9, CHR 0x89, CHR 0xE0, CHR 0xB8, CHR 0x87]),
      (''menu.title'', [CHR 0xE0, CHR 0xB9, CHR 0x80, CHR 0xE0, CHR 0xB8, CHR 0xA1, CHR 0xE0, CHR 0xB8, CHR 0x99, CHR 0xE0, CHR 0xB8, CHR 0xB9]),
      (''menu.search'', [CHR 0xE0, CHR 0xB8, CHR 0x84, CHR 0xE0, CHR 0xB9, CHR 0x89, CHR 0xE0, CHR 0xB8, CHR 0x99, CHR 0xE0, CHR 0xB8, CHR 0xAB, CHR 0xE0, CHR 0xB8, CHR 0xB2, CHR 0xE0, CHR 0xB9, CHR 0x80, CHR 0xE0, CHR 0xB8, CHR 0xA1, CHR 0xE0, CHR 0xB8, CHR 0x99, CHR 0xE0, CHR 0xB8, CHR 0xB9] @ ''...''),
      (''menu.noItems'', [CHR 0xE0, CHR 0xB9, CHR 0x84, CHR 0xE0, CHR 0xB8, CHR 0xA1, CHR 0xE0, CHR 0xB9, CHR 0x88, CHR 0xE0, CHR 0xB8, CHR 0x9E, CHR 0xE0, CHR 0xB8, CHR 0x9A, CHR 0xE0, CHR 0xB8, CHR 0xAA, CHR 0xE0, CHR 0xB8, CHR 0xB4, CHR 0xE0, CHR 0xB8, CHR 0x99, CHR 0xE0, CHR 0xB8, CHR 0x84, CHR 0xE0, CHR 0xB9, CHR 0x89, CHR 0xE0, CHR 0xB8, CHR 0xB2]),
      (''menu.backToMenu'', [CHR 0xE0, CHR 0xB8, CHR 0x81, CHR 0xE0, CHR 0xB8, CHR 0xA5, CHR 0xE0, CHR 0xB8, CHR 0xB1, CHR 0xE0, CHR 0xB8, CHR 0x9A, CHR 0xE0, CHR 0xB9, CHR 0x84, CHR 0xE0, CHR 0xB8, CHR 0x9B, CHR 0xE0, CHR 0xB8, CHR 0x97, CHR 0xE0, CHR 0xB8, CHR 0xB5, CHR 0xE0, CHR 0xB9, CHR 0x88, CHR 0xE0, CHR 0xB9, CHR 0x80, CHR 0xE0, CHR 0xB8, CHR 0xA1, CHR 0xE0, CHR 0xB8, CHR 0x99, CHR 0xE0, CHR 0xB8, CHR 0xB9]),
      (''menu.viewCart'', [CHR 0xE0, CHR 0xB8, CHR 0x94, CHR 0xE0, CHR 0xB8, CHR 0xB9, CHR 0xE0, CHR 0xB8, CHR 0x95, CHR 0xE0, CHR 0xB8, CHR 0xB0, CHR 0xE0, CHR 0xB8, CHR 0x81, CHR 0xE0, CHR 0xB8, CHR 0xA3, CHR 0xE0, CHR 0xB9, CHR 0x89, CHR 0xE0, CHR 0xB8, CHR 0xB2] @ '' ({count})''),
      (''menu.itemAdded'', [CHR 0xE0, CHR 0xB9, CHR 0x80, CHR 0xE0, CHR 0xB8, CHR 0x9E, CHR 0xE0, CHR 0xB8, CHR 0xB4, CHR 0xE0, CHR 0xB9, CHR 0x88, CHR 0xE0, CHR 0xB8, CHR 0xA1, CHR 0xE0, CHR 0xB8, CHR 0xAA, CHR 0xE0, CHR 0xB8, CHR 0xB4, CHR 0xE0, CHR 0xB8, CHR 0x99, CHR 0xE0, CHR 0xB8, CHR 0x84, CHR 0xE0, CHR 0xB9, CHR 0x89, CHR 0xE0, CHR 0xB8, CHR 0xB2, CHR 0xE0, CHR 0xB9, CHR 0x81, CHR 0xE0, CHR 0xB8, CHR 0xA5, CHR 0xE0, CHR 0xB9, CHR 0x89, CHR 0xE0, CHR 0xB8, CHR 0xA7]),
      (''menu.categories.all'', [CHR 0xE0, CHR 0xB8, CHR 0x97, CHR 0xE0, CHR 0xB8, CHR 0xB1, CHR 0xE0, CHR 0xB9, CHR 0x89, CHR 0xE0, CHR 0xB8, CHR 0x87, CHR 0xE0, CHR 0xB8, CHR 0xAB, CHR 0xE0, CHR 0xB8, CHR 0xA1, CHR 0xE0, CHR 0xB8, CHR 0x94]),
      (''item.addToCart'', [CHR 0xE0, CHR 0xB9, CHR 0x80, CHR 0xE0, CHR 0xB8, CHR 0x9E, CHR 0xE0, CHR 0xB8, CHR 0xB4, CHR 0xE0, CHR 0xB9, CHR 0x88, CHR 0xE0, CHR 0xB8, CHR 0xA1, CHR 0xE0, CHR 0xB9, CHR 0x83, CHR 0xE0, CHR 0xB8, CHR 0x99, CHR 0xE0, CHR 0xB8, CHR 0x95, CHR 0xE0, CHR 0xB8, CHR 0xB0, CHR 0xE0, CHR 0xB8, CHR 0x81, CHR 0xE0, CHR 0xB8, CHR 0xA3, CHR 0xE0, CHR 0xB9, CHR 0x89, CHR 0xE0, CHR 0xB8, CHR 0xB2]),
      (''item.quantity'', [CHR 0xE0, CHR 0xB8, CHR 0x88, CHR 0xE0, CHR 0xB8, CHR 0xB3, CHR 0xE0, CHR 0xB8, CHR 0x99, CHR 0xE0, CHR 0xB8, CHR 0xA7, CHR 0xE0, CHR 0xB8, CHR 0x99]),
      (''item.modifiers'', [CHR 0xE0, CHR 0xB8, CHR 0x9B, CHR 0xE0, CHR 0xB8, CHR 0xA3, CHR 0xE0, CHR 0xB8, CHR 0xB1, CHR 0xE0, CHR 0xB8, CHR 0x9A, CHR 0xE0, CHR 0xB9, CHR 0x81, CHR 0xE0, CHR 0xB8, CHR 0x95, CHR 0xE0, CHR 0xB9, CHR 0x88, CHR 0xE0, CHR 0xB8, CHR 0x87]),
      (''item.price'', [CHR 0xE0, CHR 0xB8, CHR 0xA3, CHR 0xE0, CHR 0xB8, CHR 0xB2, CHR 0xE0, CHR 0xB8, CHR 0x84, CHR 0xE0, CHR 0xB8, CHR 0xB2]),
      (''item.description'', [CHR 0xE0, CHR 0xB8, CHR 0x84, CHR 0xE0, CHR 0xB8, CHR 0xB3, CHR 0xE0, CHR 0xB8, CHR 0xAD, CHR 0xE0, CHR 0xB8, CHR 0x98, CHR 0xE0, CHR 0xB8, CHR 0xB4, CHR 0xE0, CHR 0xB8, CHR 0x9A, CHR 0xE0, CHR 0xB8, CHR 0xB2, CHR 0xE0, CHR 0xB8, CHR 0xA2]),
      (''cart.title'', [CHR 0xE0, CHR 0xB8, CHR 0x95, CHR 0xE0, CHR 0xB8, CHR 0xB0, CHR 0xE0, CHR 0xB8, CHR 0x81, CHR 0xE0, CHR 0xB8, CHR 0xA3, CHR 0xE0, CHR 0xB9, CHR 0x89, CHR 0xE0, CHR 0xB8, CHR 0xB2, CHR 0xE0, CHR 0xB8, CHR 0x82, CHR 0xE0, CHR 0xB8, CHR 0xAD, CHR 0xE0, CHR 0xB8, CHR 0x87, CHR 0xE0, CHR 0xB8, CHR 0x84, CHR 0xE0, CHR 0xB8, CHR 0xB8, CHR 0xE0, CHR 0xB8, CHR 0x93]),
      (''cart.empty'', [CHR 0xE0, CHR 0xB8, CHR 0x95, CHR 0xE0, CHR 0xB8, CHR 0xB0, CHR 0xE0, CHR 0xB8, CHR 0x81, CHR 0xE0, CHR 0xB8, CHR 0xA3, CHR 0xE0, CHR 0xB9, CHR 0x89, CHR 0xE0, CHR 0xB8, CHR 0xB2, CHR 0xE0, CHR 0xB8, CHR 0x82, CHR 0xE0, CHR 0xB8, CHR 0xAD, CHR 0xE0, CHR 0xB8, CHR 0x87, CHR 0xE0, CHR 0xB8, CHR 0x84, CHR 0xE0, CHR 0xB8, CHR 0xB8, CHR 0xE0, CHR 0xB8, CHR 0x93, CHR 0xE0, CHR 0xB8, CHR 0xA7, CHR 0xE0, CHR 0xB9, CHR 0x88, CHR 0xE0, CHR 0xB8, CHR 0xB2, CHR 0xE0, CHR 0xB8, CHR 0x87, CHR 0xE0, CHR 0xB9, CHR 0x80, CHR 0xE0, CHR 0xB8, CHR 0x9B, CHR 0xE0, CHR 0xB8, CHR 0xA5, CHR 0xE0, CHR 0xB9, CHR 0x88, CHR 0xE0, CHR 0xB8, CHR 0xB2]),
      (''cart.subtotal'', [CHR 0xE0, CHR 0xB8, CHR 0xA2, CHR 0xE0, CHR 0xB8, CHR 0xAD, CHR 0xE0, CHR 0xB8, CHR 0x94, CHR 0xE0, CHR 0xB8, CHR 0xA3, CHR 0xE0, CHR 0xB8, CHR 0xA7, CHR 0xE0, CHR 0xB8, CHR 0xA1, CHR 0xE0, CHR 0xB8, CHR 0x81, CHR 0xE0, CHR 0xB9, CHR 0x88, CHR 0xE0, CHR 0xB8, CHR 0xAD, CHR 0xE0, CHR 0xB8, CHR 0x99, CHR 0xE0, CHR 0xB8, CHR 0xAB, CHR 0xE0, CHR 0xB8, CHR 0xB1, CHR 0xE0, CHR 0xB8, CHR 0x81, CHR 0xE0, CHR 0xB8, CHR 0xAA, CHR 0xE0, CHR 0xB9, CHR 0x88, CHR 0xE0, CHR 0xB8, CHR 0xA7, CHR 0xE0, CHR 0xB8, CHR 0x99, CHR 0xE0, CHR 0xB8, CHR 0xA5, CHR 0xE0, CHR 0xB8, CHR 0x94]),
      (''cart.tax'', [CHR 0xE0, CHR 0xB8, CHR 0xA0, CHR 0xE0, CHR 0xB8, CHR 0xB2, CHR 0xE0, CHR 0xB8, CHR 0xA9, CHR 0xE0, CHR 0xB8, CHR 0xB5]),
      (''cart.total'', [CHR 0xE0, CHR 0xB8, CHR 0xA3, CHR 0xE0, CHR 0xB8, CHR 0xA7, CHR 0xE0, CHR 0xB8, CHR 0xA1, CHR 0xE0, CHR 0xB8, CHR 0x97, CHR 0xE0, CHR 0xB8, CHR 0xB1, CHR 0xE0, CHR 0xB9, CHR 0x89, CHR 0xE0, CHR 0xB8, CHR 0x87, CHR 0xE0, CHR 0xB8, CHR 0xAA, CHR 0xE0, CHR 0xB8, CHR 0xB4, CHR 0xE0, CHR 0xB9, CHR 0x89, CHR 0xE0, CHR 0xB8, CHR 0x99]),
      (''cart.backToMenu'', [CHR 0xE0, CHR 0xB8, CHR 0x81, CHR 0xE0, CHR 0xB8, CHR 0xA5, CHR 0xE0, CHR 0xB8, CHR 0xB1, CHR 0xE0, CHR 0xB8, CHR 0x9A, CHR 0xE0, CHR 0xB9, CHR 0x84, CHR 0xE0, CHR 0xB8, CHR 0x9B, CHR 0xE0, CHR 0xB8, CHR 0x97, CHR 0xE0, CHR 0xB8, CHR 0xB5, CHR 0xE0, CHR 0xB9, CHR 0x88, CHR 0xE0, CHR 0xB9, CHR 0x80, CHR 0xE0, CHR 0xB8, CHR 0xA1, CHR 0xE0, CHR 0xB8, CHR 0x99, CHR 0xE0, CHR 0xB8, CHR 0xB9]),
      (''cart.proceedToPayment'', [CHR 0xE0, CHR 0xB8, CHR 0x9E, CHR 0xE0, CHR 0xB8, CHR 0xA3, CHR 0xE0, CHR 0xB9, CHR 0x89, CHR 0xE0, CHR 0xB8, CHR 0xAD, CHR 0xE0, CHR 0xB8, CHR 0xA1, CHR 0xE0, CHR 0xB8, CHR 0x8A, CHR 0xE0, CHR 0xB8, CHR 0xB3, CHR 0xE0, CHR 0xB8, CHR 0xA3, CHR 0xE0, CHR 0xB8, CHR 0xB0, CHR 0xE0, CHR 0xB9, CHR 0x80, CHR 0xE0, CHR 0xB8, CHR 0x87, CHR 0xE0, CHR 0xB8, CHR 0xB4, CHR 0xE0, CHR 0xB8, CHR 0x99]),
      (''cart.removeItem'', [CHR 0xE0, CHR 0xB8, CHR 0xA5, CHR 0xE0, CHR 0xB8, CHR 0x9A]),
      (''cart.itemCount'', ''{count} '' @ [CHR 0xE0, CHR 0xB8, CHR 0xA3, CHR 0xE0, CHR 0xB8, CHR 0xB2, CHR 0xE0, CHR 0xB8, CHR 0xA2, CHR 0xE0, CHR 0xB8, CHR 0x81, CHR 0xE0, CHR 0xB8, CHR 0xB2, CHR 0xE0, CHR 0xB8, CHR 0xA3]),
      (''cart.summary'', [CHR 0xE0, CHR 0xB8, CHR 0xAA, CHR 0xE0, CHR 0xB8, CHR 0xA3, CHR 0xE0, CHR 0xB8, CHR 0xB8, CHR 0xE0, CHR 0xB8, CHR 0x9B, CHR 0xE0, CHR 0xB8, CHR 0x84, CHR 0xE0, CHR 0xB8, CHR 0xB3, CHR 0xE0, CHR 0xB8, CHR 0xAA, CHR 0xE0, CHR 0xB8, CHR 0xB1, CHR 0xE0, CHR 0xB9, CHR 0x88, CHR 0xE0, CHR 0xB8, CHR 0x87, CHR 0xE0, CHR 0xB8, CHR 0x8B, CHR 0xE0, CHR 0xB8, CHR 0xB7, CHR 0xE0, CHR 0xB9, CHR 0x89, CHR 0xE0, CHR 0xB8, CHR 0xAD]),
      (''payment.title'', [CHR 0xE0, CHR 0xB8, CHR 0x81, CHR 0xE0, CHR 0xB8, CHR 0xB2, CHR 0xE0, CHR 0xB8, CHR 0xA3, CHR 0xE0, CHR 0xB8, CHR 0x8A, CHR 0xE0, CHR 0xB8, CHR 0xB3, CHR 0xE0, CHR 0xB8, CHR 0xA3, CHR 0xE0, CHR 0xB8, CHR 0xB0, CHR 0xE0, CHR 0xB9, CHR 0x80, CHR 0xE0, CHR 0xB8, CHR 0x87, CHR 0xE0, CHR 0xB8, CHR 0xB4, CHR 0xE0, CHR 0xB8, CHR 0x99]),
      (''payment.confirm'', [CHR 0xE0, CHR 0xB8, CHR 0xA2, CHR 0xE0, CHR 0xB8, CHR 0xB7, CHR 0xE0, CHR 0xB8, CHR 0x99, CHR 0xE0, CHR 0xB8, CHR 0xA2, CHR 0xE0, CHR 0xB8, CHR 0xB1, CHR 0xE0, CHR 0xB8, CHR 0x99, CHR 0xE0, CHR 0xB8, CHR 0x81, CHR 0xE0, CHR 0xB8, CHR 0xB2, CHR 0xE0, CHR 0xB8, CHR 0xA3, CHR 0xE0, CHR 0xB8, CHR 0x8A, CHR 0xE0, CHR 0xB8, CHR 0xB3, CHR 0xE0, CHR 0xB8, CHR 0xA3, CHR 0xE0, CHR 0xB8, CHR 0xB0, CHR 0xE0, CHR 0xB9, CHR 0x80, CHR 0xE0, CHR 0xB8, CHR 0x87, CHR 0xE0, CHR 0xB8, CHR 0xB4, CHR 0xE0, CHR 0xB8, CHR 0x99]),
      (''payment.cancel'', [CHR 0xE0, CHR 0xB8, CHR 0xA2, CHR 0xE0, CHR 0xB8, CHR 0x81, CHR 0xE0, CHR 0xB9, CHR 0x80, CHR 0xE0, CHR 0xB8, CHR 0xA5, CHR 0xE0, CHR 0xB8, CHR 0xB4, CHR 0xE0, CHR 0xB8, CHR 0x81]),
      (''payment.processing'', [CHR 0xE0, CHR 0xB8, CHR 0x81, CHR 0xE0, CHR 0xB8, CHR 0xB3, CHR 0xE0, CHR 0xB8, CHR 0xA5, CHR 0xE0, CHR 0xB8, CHR 0xB1, CHR 0xE0, CHR 0xB8, CHR 0x87, CHR 0xE0, CHR 0xB8, CHR 0x94, CHR 0xE0, CHR 0xB8, CHR 0xB3, CHR 0xE0, CHR 0xB9, CHR 0x80, CHR 0xE0, CHR 0xB8, CHR 0x99, CHR 0xE0, CHR 0xB8, CHR 0xB4, CHR 0xE0, CHR 0xB8, CHR 0x99, CHR 0xE0, CHR 0xB8, CHR 0x81, CHR 0xE0, CHR 0xB8, CHR 0xB2, CHR 0xE0, CHR 0xB8, CHR 0xA3, CHR 0xE0, CHR 0xB8, CHR 0x8A, CHR 0xE0, CHR 0xB8, CHR 0xB3, CHR 0xE0, CHR 0xB8, CHR 0xA3, CHR 0xE0, CHR 0xB8, CHR 0xB0, CHR 0xE0, CHR 0xB9, CHR 0x80, CHR 0xE0, CHR 0xB8, CHR 0x87, CHR 0xE0, CHR 0xB8, CHR 0xB4, CHR 0xE0, CHR 0xB8, CHR 0x99] @ ''...''),
      (''payment.selectMethod'', [CHR 0xE0, CHR 0xB9, CHR 0x80, CHR 0xE0, CHR 0xB8, CHR 0xA5, CHR 0xE0, CHR 0xB8, CHR 0xB7, CHR 0xE0, CHR 0xB8, CHR 0xAD, CHR 0xE0, CHR 0xB8, CHR 0x81, CHR 0xE0, CHR 0xB8, CHR 0xA7, CHR 0xE0, CHR 0xB8, CHR 0xB4, CHR 0xE0, CHR 0xB8, CHR 0x98, CHR 0xE0, CHR 0xB8, CHR 0xB5, CHR 0xE0, CHR 0xB8, CHR 0x81, CHR 0xE0, CHR 0xB8, CHR 0xB2, CHR 0xE0, CHR 0xB8, CHR 0xA3, CHR 0xE0, CHR 0xB8, CHR 0x8A, CHR 0xE0, CHR 0xB8, CHR 0xB3, CHR 0xE0, CHR 0xB8, CHR 0xA3, CHR 0xE0, CHR 0xB8, CHR 0xB0, CHR 0xE0, CHR 0xB9, CHR 0x80, CHR 0xE0, CHR 0xB8, CHR 0x87, CHR 0xE0, CHR 0xB8, CHR 0xB4, CHR 0xE0, CHR 0xB8, CHR 0x99]),
      (''payment.card'', [CHR 0xE0, CHR 0xB8, CHR 0x9A, CHR 0xE0, CHR 0xB8, CHR 0xB1, CHR 0xE0, CHR 0xB8, CHR 0x95, CHR 0xE0, CHR 0xB8, CHR 0xA3]),
      (''payment.cash'', [CHR 0xE0, CHR 0xB9, CHR 0x80, CHR 0xE0, CHR 0xB8, CHR 0x87, CHR 0xE0, CHR 0xB8, CHR 0xB4, CHR 0xE0, CHR 0xB8, CHR 0x99, CHR 0xE0, CHR 0xB8, CHR 0xAA, CHR 0xE0, CHR 0xB8, CHR 0x94]),
      (''payment.mobile'', [CHR 0xE0, CHR 0xB8, CHR 0x81, CHR 0xE0, CHR 0xB8, CHR 0xA3, CHR 0xE0, CHR 0xB8, CHR 0xB0, CHR 0xE0, CHR 0xB9, CHR 0x80, CHR 0xE0, CHR 0xB8, CHR 0x9B, CHR 0xE0, CHR 0xB9, CHR 0x8B, CHR 0xE0, CHR 0xB8, CHR 0xB2, CHR 0xE0, CHR 0xB9, CHR 0x80, CHR 0xE0, CHR 0xB8, CHR 0x87, CHR 0xE0, CHR 0xB8, CHR 0xB4, CHR 0xE0, CHR 0xB8, CHR 0x99, CHR 0xE0, CHR 0xB8, CHR 0xA1, CHR 0xE0, CHR 0xB8, CHR 0xB7, CHR 0xE0, CHR 0xB8, CHR 0xAD, CHR 0xE0, CHR 0xB8, CHR 0x96, CHR 0xE0, CHR 0xB8, CHR 0xB7, CHR 0xE0, CHR 0xB8, CHR 0xAD]),
      (''payment.biometric'', [CHR 0xE0, CHR 0xB9, CHR 0x84, CHR 0xE0, CHR 0xB8, CHR 0x9A, CHR 0xE0, CHR 0xB9, CHR 0x82, CHR 0xE0, CHR 0xB8, CHR 0xAD, CHR 0xE0, CHR 0xB9, CHR 0x80, CHR 0xE0, CHR 0xB8, CHR 0xA1, CHR 0xE0, CHR 0xB8, CHR 0x95, CHR 0xE0, CHR 0xB8, CHR 0xA3, CHR 0xE0, CHR 0xB8, CHR 0xB4, CHR 0xE0, CHR 0xB8, CHR 0x81, CHR 0xE0, CHR 0xB8, CHR 0x8B, CHR 0xE0, CHR 0xB9, CHR 0x8C]),
      (''payment.employeeOverride'', [CHR 0xE0, CHR 0xB8, CHR 0x81, CHR 0xE0, CHR 0xB8, CHR 0xB2, CHR 0xE0, CHR 0xB8, CHR 0xA3, CHR 0xE0, CHR 0xB8, CHR 0xAD, CHR 0xE0, CHR 0xB8, CHR 0x99, CHR 0xE0, CHR 0xB8, CHR 0xB8, CHR 0xE0, CHR 0xB8, CHR 0xA1, CHR 0xE0, CHR 0xB8, CHR 0xB1, CHR 0xE0, CHR 0xB8, CHR 0x95, CHR 0xE0, CHR 0xB8, CHR 0xB4, CHR 0xE0, CHR 0xB8, CHR 0x9E, CHR 0xE0, CHR 0xB8, CHR 0x99, CHR 0xE0, CHR 0xB8, CHR 0xB1, CHR 0xE0, CHR 0xB8, CHR 0x81, CHR 0xE0, CHR 0xB8, CHR 0x87, CHR 0xE0, CHR 0xB8, CHR 0xB2, CHR 0xE0, CHR 0xB8, CHR 0x99]),
      (''payment.insertCard'', [CHR 0xE0, CHR 0xB9, CHR 0x80, CHR 0xE0, CHR 0xB8, CHR 0xAA, CHR 0xE0, CHR 0xB8, CHR 0xB5, CHR 0xE0, CHR 0xB8, CHR 0xA2, CHR 0xE0, CHR 0xB8, CHR 0x9A, CHR 0xE0, CHR 0xB8, CHR 0x9A, CHR 0xE0, CHR 0xB8, CHR 0xB1, CHR 0xE0, CHR 0xB8, CHR 0x95, CHR 0xE0, CHR 0xB8, CHR 0xA3, CHR 0xE0, CHR 0xB8, CHR 0xAB, CHR 0xE0, CHR 0xB8, CHR 0xA3, CHR 0xE0, CHR 0xB8, CHR 0xB7, CHR 0xE0, CHR 0xB8, CHR 0xAD, CHR 0xE0, CHR 0xB9, CHR 0x81, CHR 0xE0, CHR 0xB8, CHR 0x95, CHR 0xE0, CHR 0xB8, CHR 0xB0, CHR 0xE0, CHR 0xB8, CHR 0x9A, CHR 0xE0, CHR 0xB8, CHR 0xB1, CHR 0xE0, CHR 0xB8, CHR 0x95, CHR 0xE0, CHR 0xB8, CHR 0xA3]),
      (''payment.scanQR'', [CHR 0xE0, CHR 0xB8, CHR 0xAA, CHR 0xE0, CHR 0xB9, CHR 0x81, CHR 0xE0, CHR 0xB8, CHR 0x81, CHR 0xE0, CHR 0xB8, CHR 0x99] @ '' QR Code''),
      (''payment.tapPhone'', [CHR 0xE0, CHR 0xB9, CHR 0x81, CHR 0xE0, CHR 0xB8, CHR 0x95, CHR 0xE0, CHR 0xB8, CHR 0xB0, CHR 0xE0, CHR 0xB9, CHR 0x82, CHR 0xE0, CHR 0xB8, CHR 0x97, CHR 0xE0, CHR 0xB8, CHR 0xA3, CHR 0xE0, CHR 0xB8, CHR 0xA8, CHR 0xE0, CHR 0xB8, CHR 0xB1, CHR 0xE0, CHR 0xB8, CHR 0x9E, CHR 0xE0, CHR 0xB8, CHR 0x97, CHR 0xE0, CHR 0xB9, CHR 0x8C, CHR 0xE0, CHR 0xB8, CHR 0x82, CHR 0xE0, CHR 0xB8, CHR 0xAD, CHR 0xE0, CHR 0xB8, CHR 0x87, CHR 0xE0, CHR 0xB8, CHR 0x84, CHR 0xE0, CHR 0xB8, CHR 0xB8, CHR 0xE0, CHR 0xB8, CHR 0x93]),
      (''payment.amount'', [CHR 0xE0, CHR 0xB8, CHR 0x88, CHR 0xE0, CHR 0xB8, CHR 0xB3, CHR 0xE0, CHR 0xB8, CHR 0x99, CHR 0xE0, CHR 0xB8, CHR 0xA7, CHR 0xE0, CHR 0xB8, CHR 0x99, CHR 0xE0, CHR 0xB9, CHR 0x80, CHR 0xE0, CHR 0xB8, CHR 0x87, CHR 0xE0, CHR 0xB8, CHR 0xB4, CHR 0xE0, CHR 0xB8, CHR 0x99]),
      (''processing.title'', [CHR 0xE0, CHR 0xB8, CHR 0x81, CHR 0xE0, CHR 0xB8, CHR 0xB3, CHR 0xE0, CHR 0xB8, CHR 0xA5, CHR 0xE0, CHR 0xB8, CHR 0xB1, CHR 0xE0, CHR 0xB8, CHR 0x87, CHR 0xE0, CHR 0xB8, CHR 0x94, CHR 0xE0, CHR 0xB8, CHR 0xB3, CHR 0xE0, CHR 0xB9, CHR 0x80, CHR 0xE0, CHR 0xB8, CHR 0x99, CHR 0xE0, CHR 0xB8, CHR 0xB4, CHR 0xE0, CHR 0xB8, CHR 0x99, CHR 0xE0, CHR 0xB8, CHR 0x81, CHR 0xE0, CHR 0xB8, CHR 0xB2, CHR 0xE0, CHR 0xB8, CHR 0xA3]),
      (''processing.pleaseWait'', [CHR 0xE0, CHR 0xB9, CHR 0x82, CHR 0xE0, CHR 0xB8, CHR 0x9B, CHR 0xE0, CHR 0xB8, CHR 0xA3, CHR 0xE0, CHR 0xB8, CHR 0x94, CHR 0xE0, CHR 0xB8, CHR 0xA3, CHR 0xE0, CHR 0xB8, CHR 0xAD, CHR 0xE0, CHR 0xB8, CHR 0xAA, CHR 0xE0, CHR 0xB8, CHR 0xB1, CHR 0xE0, CHR 0xB8, CHR 0x81, CHR 0xE0, CHR 0xB8, CHR 0x84, CHR 0xE0, CHR 0xB8, CHR 0xA3, CHR 0xE0, CHR 0xB8, CHR 0xB9, CHR 0xE0, CHR 0xB9, CHR 0x88] @ ''...''),
      (''processing.finalizing'', [CHR 0xE0, CHR 0xB8, CHR 0x81, CHR 0xE0, CHR 0xB8, CHR 0xB3, CHR 0xE0, CHR 0xB8, CHR 0xA5, CHR 0xE0, CHR 0xB8, CHR 0xB1, CHR 0xE0, CHR 0xB8, CHR 0x87, CHR 0xE0, CHR 0xB8, CHR 0x94, CHR 0xE0, CHR 0xB8, CHR 0xB3, CHR 0xE0, CHR 0xB9, CHR 0x80, CHR 0xE0, CHR 0xB8, CHR 0x99, CHR 0xE0, CHR 0xB8, CHR 0xB4, CHR 0xE0, CHR 0xB8, CHR 0x99, CHR 0xE0, CHR 0xB8, CHR 0x81, CHR 0xE0, CHR 0xB8, CHR 0xB2, CHR 0xE0, CHR 0xB8, CHR 0xA3, CHR 0xE0, CHR 0xB8, CHR 0x84, CHR 0xE0, CHR 0xB8, CHR 0xB3, CHR 0xE0, CHR 0xB8, CHR 0xAA, CHR 0xE0, CHR 0xB8, CHR 0xB1, CHR 0xE0, CHR 0xB9, CHR 0x88, CHR 0xE0, CHR 0xB8, CHR 0x87, CHR 0xE0, CHR 0xB8, CHR 0x8B, CHR 0xE0, CHR 0xB8, CHR 0xB7, CHR 0xE0, CHR 0xB9, CHR 0x89, CHR 0xE0, CHR 0xB8, CHR 0xAD, CHR 0xE0, CHR 0xB8, CHR 0x82, CHR 0xE0, CHR 0xB8, CHR 0xAD, CHR 0xE0, CHR 0xB8, CHR 0x87, CHR 0xE0, CHR 0xB8, CHR 0x84, CHR 0xE0, CHR 0xB8, CHR 0xB8, CHR 0xE0, CHR 0xB8, CHR 0x93]),
      (''processing.redirecting'', [CHR 0xE0, CHR 0xB8, CHR 0x81, CHR 0xE0, CHR 0xB8, CHR 0xB3, CHR 0xE0, CHR 0xB8, CHR 0xA5, CHR 0xE0, CHR 0xB8, CHR 0xB1, CHR 0xE0, CHR 0xB8, CHR 0x87, CHR 0xE0, CHR 0xB8, CHR 0x99, CHR 0xE0, CHR 0xB8, CHR 0xB3, CHR 0xE0, CHR 0xB9, CHR 0x84, CHR 0xE0, CHR 0xB8, CHR 0x9B, CHR 0xE0, CHR 0xB8, CHR 0xA2, CHR 0xE0, CHR 0xB8, CHR 0xB1, CHR 0xE0, CHR 0xB8, CHR 0x87, CHR 0xE0, CHR 0xB9, CHR 0x83, CHR 0xE0, CHR 0xB8, CHR 0x9A, CHR 0xE0, CHR 0xB9, CHR 0x80, CHR 0xE0, CHR 0xB8, CHR 0xAA, CHR 0xE0, CHR 0xB8, CHR 0xA3, CHR 0xE0, CHR 0xB9, CHR 0x87, CHR 0xE0, CHR 0xB8, CHR 0x88]),
      (''receipt.title'', [CHR 0xE0, CHR 0xB8, CHR 0x82, CHR 0xE0, CHR 0xB8, CHR 0xAD, CHR 0xE0, CHR 0xB8, CHR 0x9A, CHR 0xE0, CHR 0xB8, CHR 0x84, CHR 0xE0, CHR 0xB8, CHR 0xB8, CHR 0xE0, CHR 0xB8, CHR 0x93]),
      (''receipt.orderNumber'', [CHR 0xE0, CHR 0xB8, CHR 0x84, CHR 0xE0, CHR 0xB8, CHR 0xB3, CHR 0xE0, CHR 0xB8, CHR 0xAA, CHR 0xE0, CHR 0xB8, CHR 0xB1, CHR 0xE0, CHR 0xB9, CHR 0x88, CHR 0xE0, CHR 0xB8, CHR 0x87, CHR 0xE0, CHR 0xB8, CHR 0x8B, CHR 0xE0, CHR 0xB8, CHR 0xB7, CHR 0xE0, CHR 0xB9, CHR 0x89, CHR 0xE0, CHR 0xB8, CHR 0xAD] @ '' #{number}''),
      (''receipt.print'', [CHR 0xE0, CHR 0xB8, CHR 0x9E, CHR 0xE0, CHR 0xB8, CHR 0xB4, CHR 0xE0, CHR 0xB8, CHR 0xA1, CHR 0xE0, CHR 0xB8, CHR 0x9E, CHR 0xE0, CHR 0xB9, CHR 0x8C, CHR 0xE0, CHR 0xB9, CHR 0x83, CHR 0xE0, CHR 0xB8, CHR 0x9A, CHR 0xE0, CHR 0xB9, CHR 0x80, CHR 0xE0, CHR 0xB8, CHR 0xAA, CHR 0xE0, CHR 0xB8, CHR 0xA3, CHR 0xE0, CHR 0xB9, CHR 0x87, CHR 0xE0, CHR 0xB8, CHR 0x88]),
      (''receipt.email'', [CHR 0xE0, CHR 0xB8, CHR 0xAA, CHR 0xE0, CHR 0xB9, CHR 0x88, CHR 0xE0, CHR 0xB8, CHR 0x87, CHR 0xE0, CHR 0xB8, CHR 0x97, CHR 0xE0, CHR 0xB8, CHR 0xB2, CHR 0xE0, CHR 0xB8, CHR 0x87, CHR 0xE0, CHR 0xB8, CHR 0xAD, CHR 0xE0, CHR 0xB8, CHR 0xB5, CHR 0xE0, CHR 0xB9, CHR 0x80, CHR 0xE0, CHR 0xB8, CHR 0xA1, CHR 0xE0, CHR 0xB8, CHR 0xA5]),
      (''receipt.startNew'', [CHR 0xE0, CHR 0xB9, CHR 0x80, CHR 0xE0, CHR 0xB8, CHR 0xA3, CHR 0xE0, CHR 0xB8, CHR 0xB4, CHR 0xE0, CHR 0xB9, CHR 0x88, CHR 0xE0, CHR 0xB8, CHR 0xA1, CHR 0xE0, CHR 0xB8, CHR 0x84, CHR 0xE0, CHR 0xB8, CHR 0xB3, CHR 0xE0, CHR 0xB8, CHR 0xAA, CHR 0xE0, CHR 0xB8, CHR 0xB1, CHR 0xE0, CHR 0xB9, CHR 0x88, CHR 0xE0, CHR 0xB8, CHR 0x87, CHR 0xE0, CHR 0xB8, CHR 0x8B, CHR 0xE0, CHR 0xB8, CHR 0xB7, CHR 0xE0, CHR 0xB9, CHR 0x89, CHR 0xE0, CHR 0xB8, CHR 0xAD, CHR 0xE0, CHR 0xB9, CHR 0x83, CHR 0xE0, CHR 0xB8, CHR 0xAB, CHR 0xE0, CHR 0xB8, CHR 0xA1, CHR 0xE0, CHR 0xB9, CHR 0x88]),
      (''receipt.thankYouMessage'', [CHR 0xE0, CHR 0xB8, CHR 0x82, CHR 0xE0, CHR 0xB8, CHR 0xAD, CHR 0xE0, CHR 0xB8, CHR 0x9A, CHR 0xE0, CHR 0xB8, CHR 0x84, CHR 0xE0, CHR 0xB8, CHR 0xB8, CHR 0xE0, CHR 0xB8, CHR 0x93, CHR 0xE0, CHR 0xB8, CHR 0xAA, CHR 0xE0, CHR 0xB8, CHR 0xB3, CHR 0xE0, CHR 0xB8, CHR 0xAB, CHR 0xE0, CHR 0xB8, CHR 0xA3, CHR 0xE0, CHR 0xB8, CHR 0xB1, CHR 0xE0, CHR 0xB8, CHR 0x9A, CHR 0xE0, CHR 0xB8, CHR 0x81, CHR 0xE0, CHR 0xB8, CHR 0xB2, CHR 0xE0, CHR 0xB8, CHR 0xA3, CHR 0xE0, CHR 0xB8, CHR 0x8B, CHR 0xE0, CHR 0xB8, CHR 0xB7, CHR 0xE0, CHR 0xB9, CHR 0x89, CHR 0xE0, CHR 0xB8, CHR 0xAD, CHR 0xE0, CHR 0xB8, CHR 0x82, CHR 0xE0, CHR 0xB8, CHR 0xAD, CHR 0xE0, CHR 0xB8, CHR 0x87, CHR 0xE0, CHR 0xB8, CHR 0x84, CHR 0xE0, CHR 0xB8, CHR 0xB8, CHR 0xE0, CHR 0xB8, CHR 0x93] @ ''!''),
      (''status.offline'', [CHR 0xE0, CHR 0xB8, CHR 0xAD, CHR 0xE0, CHR 0xB8, CHR 0xAD, CHR 0xE0, CHR 0xB8, CHR 0x9F, CHR 0xE0, CHR 0xB9, CHR 0x84, CHR 0xE0, CHR 0xB8, CHR 0xA5, CHR 0xE0, CHR 0xB8, CHR 0x99, CHR 0xE0, CHR 0xB9, CHR 0x8C]),
      (''status.online'', [CHR 0xE0, CHR 0xB8, CHR 0xAD, CHR 0xE0, CHR 0xB8, CHR 0xAD, CHR 0xE0, CHR 0xB8, CHR 0x99, CHR 0xE0, CHR 0xB9, CHR 0x84, CHR 0xE0, CHR 0xB8, CHR 0xA5, CHR 0xE0, CHR 0xB8, CHR 0x99, CHR 0xE0, CHR 0xB9, CHR 0x8C]),
      (''status.connecting'', [CHR 0xE0, CHR 0xB8, CHR 0x81, CHR 0xE0, CHR 0xB8, CHR 0xB3, CHR 0xE0, CHR 0xB8, CHR 0xA5, CHR 0xE0, CHR 0xB8, CHR 0xB1, CHR 0xE0, CHR 0xB8, CHR 0x87, CHR 0xE0, CHR 0xB9, CHR 0x80, CHR 0xE0, CHR 0xB8, CHR 0x8A, CHR 0xE0, CHR 0xB8, CHR 0xB7, CHR 0xE0, CHR 0xB9, CHR 0x88, CHR 0xE0, CHR 0xB8, CHR 0xAD, CHR 0xE0, CHR 0xB8, CHR 0xA1, CHR 0xE0, CHR 0xB8, CHR 0x95, CHR 0xE0, CHR 0xB9, CHR 0x88, CHR 0xE0, CHR 0xB8, CHR 0xAD] @ ''...''),
      (''status.network'', [CHR 0xE0, CHR 0xB9, CHR 0x80, CHR 0xE0, CHR 0xB8, CHR 0x84, CHR 0xE0, CHR 0xB8, CHR 0xA3, CHR 0xE0, CHR 0xB8, CHR 0xB7, CHR 0xE0, CHR 0xB8, CHR 0xAD, CHR 0xE0, CHR 0xB8, CHR 0x82, CHR 0xE0, CHR 0xB9, CHR 0x88, CHR 0xE0, CHR 0xB8, CHR 0xB2, CHR 0xE0, CHR 0xB8, CHR 0xA2]),
      (''idle.warning'', [CHR 0xE0, CHR 0xB8, CHR 0xA2, CHR 0xE0, CHR 0xB8, CHR 0xB1, CHR 0xE0, CHR 0xB8, CHR 0x87, CHR 0xE0, CHR 0xB8, CHR 0x8A, CHR 0xE0, CHR 0xB9, CHR 0x89, CHR 0xE0, CHR 0xB8, CHR 0xAD, CHR 0xE0, CHR 0xB8, CHR 0x9B, CHR 0xE0, CHR 0xB8, CHR 0x9B, CHR 0xE0, CHR 0xB8, CHR 0xB4, CHR 0xE0, CHR 0xB9, CHR 0x89, CHR 0xE0, CHR 0xB8, CHR 0x87, CHR 0xE0, CHR 0xB8, CHR 0xAD, CHR 0xE0, CHR 0xB8, CHR 0xA2, CHR 0xE0, CHR 0xB8, CHR 0xB9, CHR 0xE0, CHR 0xB9, CHR 0x88, CHR 0xE0, CHR 0xB8, CHR 0xAB, CHR 0xE0, CHR 0xB8, CHR 0xA3, CHR 0xE0, CHR 0xB8, CHR 0xB7, CHR 0xE0, CHR 0xB8, CHR 0xAD, CHR 0xE0, CHR 0xB9, CHR 0x80, CHR 0xE0, CHR 0xB8, CHR 0x9B, CHR 0xE0, CHR 0xB8, CHR 0xA5, CHR 0xE0, CHR 0xB9, CHR 0x88, CHR 0xE0, CHR 0xB8, CHR 0xB2] @ ''?''),
      (''idle.continue'', [CHR 0xE0, CHR 0xB8, CHR 0x94, CHR 0xE0, CHR 0xB8, CHR 0xB3, CHR 0xE0, CHR 0xB9, CHR 0x80, CHR 0xE0, CHR 0xB8, CHR 0x99, CHR 0xE0, CHR 0xB8, CHR 0xB4, CHR 0xE0, CHR 0xB8, CHR 0x99, CHR 0xE0, CHR 0xB8, CHR 0x81, CHR 0xE0, CHR 0xB8, CHR 0xB2, CHR 0xE0, CHR 0xB8, CHR 0xA3, CHR 0xE0, CHR 0xB8, CHR 0x95, CHR 0xE0, CHR 0xB9, CHR 0x88, CHR 0xE0, CHR 0xB8, CHR 0xAD]),
      (''idle.endSession'', [CHR 0xE0, CHR 0xB8, CHR 0xAA, CHR 0xE0, CHR 0xB8, CHR 0xB4, CHR 0xE0, CHR 0xB9, CHR 0x89, CHR 0xE0, CHR 0xB8, CHR 0x99, CHR 0xE0, CHR 0xB8, CHR 0xAA, CHR 0xE0, CHR 0xB8, CHR 0xB8, CHR 0xE0, CHR 0xB8, CHR 0x94, CHR 0xE0, CHR 0xB9, CHR 0x80, CHR 0xE0, CHR 0xB8, CHR 0x8B, CHR 0xE0, CHR 0xB8, CHR 0xAA, CHR 0xE0, CHR 0xB8, CHR 0x8A, CHR 0xE0, CHR 0xB8, CHR 0xB1, CHR 0xE0, CHR 0xB8, CHR 0x99]),
      (''idle.timeoutWarning'', [CHR 0xE0, CHR 0xB9, CHR 0x80, CHR 0xE0, CHR 0xB8, CHR 0x8B, CHR 0xE0, CHR 0xB8, CHR 0xAA, CHR 0xE0, CHR 0xB8, CHR 0x8A, CHR 0xE0, CHR 0xB8, CHR 0xB1, CHR 0xE0, CHR 0xB8, CHR 0x99, CHR 0xE0, CHR 0xB8, CHR 0x88, CHR 0xE0, CHR 0xB8, CHR 0xB0, CHR 0xE0, CHR 0xB8, CHR 0xAA, CHR 0xE0, CHR 0xB8, CHR 0xB4, CHR 0xE0, CHR 0xB9, CHR 0x89, CHR 0xE0, CHR 0xB8, CHR 0x99, CHR 0xE0, CHR 0xB8, CHR 0xAA, CHR 0xE0, CHR 0xB8, CHR 0xB8, CHR 0xE0, CHR 0xB8, CHR 0x94, CHR 0xE0, CHR 0xB9, CHR 0x83, CHR 0xE0, CHR 0xB8, CHR 0x99, CHR 0xE0, CHR 0xB9, CHR 0x80, CHR 0xE0, CHR 0xB8, CHR 0xA3, CHR 0xE0, CHR 0xB9, CHR 0x87, CHR 0xE0, CHR 0xB8, CHR 0xA7] @ '' '' @ [CHR 0xE0, CHR 0xB9, CHR 0x86] @ '' '' @ [CHR 0xE0, CHR 0xB8, CHR 0x99, CHR 0xE0, CHR 0xB8, CHR 0xB5, CHR 0xE0, CHR 0xB9, CHR 0x89, CHR 0xE0, CHR 0xB9, CHR 0x80, CHR 0xE0, CHR 0xB8, CHR 0x99, CHR 0xE0, CHR 0xB8, CHR 0xB7, CHR 0xE0, CHR 0xB9, CHR 0x88, CHR 0xE0, CHR 0xB8, CHR 0xAD, CHR 0xE0, CHR 0xB8, CHR 0x87, CHR 0xE0, CHR 0xB8, CHR 0x88, CHR 0xE0, CHR 0xB8, CHR 0xB2, CHR 0xE0, CHR 0xB8, CHR 0x81, CHR 0xE0, CHR 0xB9, CHR 0x84, CHR 0xE0, CHR 0xB8, CHR 0xA1, CHR 0xE0, CHR 0xB9, CHR 0x88, CHR 0xE0, CHR 0xB8, CHR 0xA1, CHR 0xE0, CHR 0xB8, CHR 0xB5, CHR 0xE0, CHR 0xB8, CHR 0x81, CHR 0xE0, CHR 0xB8, CHR 0xB2, CHR 0xE0, CHR 0xB8, CHR 0xA3, CHR 0xE0, CHR 0xB9, CHR 0x80, CHR 0xE0, CHR 0xB8, CHR 0x84, CHR 0xE0, CHR 0xB8, CHR 0xA5, CHR 0xE0, CHR 0xB8, CHR 0xB7, CHR 0xE0, CHR 0xB9, CHR 0x88, CHR 0xE0, CHR 0xB8, CHR 0xAD, CHR 0xE0, CHR 0xB8, CHR 0x99, CHR 0xE0, CHR 0xB9, CHR 0x84, CHR 0xE0, CHR 0xB8, CHR 0xAB, CHR 0xE0, CHR 0xB8, CHR 0xA7]),
      (''offline.banner'', [CHR 0xE0, CHR 0xB8, CHR 0x84, CHR 0xE0, CHR 0xB8, CHR 0xB8, CHR 0xE0, CHR 0xB8, CHR 0x93, CHR 0xE0, CHR 0xB8, CHR 0xAD, CHR 0xE0, CHR 0xB8, CHR 0xAD, CHR 0xE0, CHR 0xB8, CHR 0x9F, CHR 0xE0, CHR 0xB9, CHR 0x84, CHR 0xE0, CHR 0xB8, CHR 0xA5, CHR 0xE0, CHR 0xB8, CHR 0x99, CHR 0xE0, CHR 0xB9, CHR 0x8C, CHR 0xE0, CHR 0xB8, CHR 0xAD, CHR 0xE0, CHR 0xB8, CHR 0xA2, CHR 0xE0, CHR 0xB8, CHR 0xB9, CHR 0xE0, CHR 0xB9, CHR 0x88] @ '' '' @ [CHR 0xE0, CHR 0xB8, CHR 0x9A, CHR 0xE0, CHR 0xB8, CHR 0xB2, CHR 0xE0, CHR 0xB8, CHR 0x87, CHR 0xE0, CHR 0xB8, CHR 0x9F, CHR 0xE0, CHR 0xB8, CHR 0xB5, CHR 0xE0, CHR 0xB9, CHR 0x80, CHR 0xE0, CHR 0xB8, CHR 0x88, CHR 0xE0, CHR 0xB8, CHR 0xAD, CHR 0xE0, CHR 0xB8, CHR 0xA3, CHR 0xE0, CHR 0xB9, CHR 0x8C, CHR 0xE0, CHR 0xB8, CHR 0xAD, CHR 0xE0, CHR 0xB8, CHR 0xB2, CHR 0xE0, CHR 0xB8, CHR 0x88, CHR 0xE0, CHR 0xB9, CHR 0x84, CHR 0xE0, CHR 0xB8, CHR 0xA1, CHR 0xE0, CHR 0xB9, CHR 0x88, CHR 0xE0, CHR 0xB8, CHR 0x9E, CHR 0xE0, CHR 0xB8, CHR 0xA3, CHR 0xE0, CHR 0xB9, CHR 0x89, CHR 0xE0, CHR 0xB8, CHR 0xAD, CHR 0xE0, CHR 0xB8, CHR 0xA1, CHR 0xE0, CHR 0xB9, CHR 0x83, CHR 0xE0, CHR 0xB8, CHR 0x8A, CHR 0xE0, CHR 0xB9, CHR 0x89, CHR 0xE0, CHR 0xB8, CHR 0x87, CHR 0xE0, CHR 0xB8, CHR 0xB2, CHR 0xE0, CHR 0xB8, CHR 0x99]),
      (''offline.reconnecting'', [CHR 0xE0, CHR 0xB8, CHR 0x81, CHR 0xE0, CHR 0xB8, CHR 0xB3, CHR 0xE0, CHR 0xB8, CHR 0xA5, CHR 0xE0, CHR 0xB8, CHR 0xB1, CHR 0xE0, CHR 0xB8, CHR 0x87, CHR 0xE0, CHR 0xB9, CHR 0x80, CHR 0xE0, CHR 0xB8, CHR 0x8A, CHR 0xE0, CHR 0xB8, CHR 0xB7, CHR 0xE0, CHR 0xB9, CHR 0x88, CHR 0xE0, CHR 0xB8, CHR 0xAD, CHR 0xE0, CHR 0xB8, CHR 0xA1, CHR 0xE0, CHR 0xB8, CHR 0x95, CHR 0xE0, CHR 0xB9, CHR 0x88, CHR 0xE0, CHR 0xB8, CHR 0xAD, CHR 0xE0, CHR 0xB9, CHR 0x83, CHR 0xE0, CHR 0xB8, CHR 0xAB, CHR 0xE0, CHR 0xB8, CHR 0xA1, CHR 0xE0, CHR 0xB9, CHR 0x88] @ ''...''),
      (''offline.longOffline'', [CHR 0xE0, CHR 0xB9, CHR 0x84, CHR 0xE0, CHR 0xB8, CHR 0xA1, CHR 0xE0, CHR 0xB9, CHR 0x88, CHR 0xE0, CHR 0xB8, CHR 0xA1, CHR 0xE0, CHR 0xB8, CHR 0xB5, CHR 0xE0, CHR 0xB8, CHR 0x81, CHR 0xE0, CHR 0xB8, CHR 0xB2, CHR 0xE0, CHR 0xB8, CHR 0xA3, CHR 0xE0, CHR 0xB9, CHR 0x80, CHR 0xE0, CHR 0xB8, CHR 0x8A, CHR 0xE0, CHR 0xB8, CHR 0xB7, CHR 0xE0, CHR 0xB9, CHR 0x88, CHR 0xE0, CHR 0xB8, CHR 0xAD, CHR 0xE0, CHR 0xB8, CHR 0xA1, CHR 0xE0, CHR 0xB8, CHR 0x95, CHR 0xE0, CHR 0xB9, CHR 0x88, CHR 0xE0, CHR 0xB8, CHR 0xAD, CHR 0xE0, CHR 0xB9, CHR 0x80, CHR 0xE0, CHR 0xB8, CHR 0x84, CHR 0xE0, CHR 0xB8, CHR 0xA3, CHR 0xE0, CHR 0xB8, CHR 0xB7, CHR 0xE0, CHR 0xB8, CHR 0xAD, CHR 0xE0, CHR 0xB8, CHR 0x82, CHR 0xE0, CHR 0xB9, CHR 0x88, CHR 0xE0, CHR 0xB8, CHR 0xB2, CHR 0xE0, CHR 0xB8, CHR 0xA2, CHR 0xE0, CHR 0xB9, CHR 0x80, CHR 0xE0, CHR 0xB8, CHR 0x9B, CHR 0xE0, CHR 0xB9, CHR 0x87, CHR 0xE0, CHR 0xB8, CHR 0x99, CHR 0xE0, CHR 0xB8, CHR 0xA3, CHR 0xE0, CHR 0xB8, CHR 0xB0, CHR 0xE0, CHR 0xB8, CHR 0xA2, CHR 0xE0, CHR 0xB8, CHR 0xB0, CHR 0xE0, CHR 0xB9, CHR 0x80, CHR 0xE0, CHR 0xB8, CHR 0xA7, CHR 0xE0, CHR 0xB8, CHR 0xA5, CHR 0xE0, CHR 0xB8, CHR 0xB2, CHR 0xE0, CHR 0xB8, CHR 0x99, CHR 0xE0, CHR 0xB8, CHR 0xB2, CHR 0xE0, CHR 0xB8, CHR 0x99]),
      (''error.generic'', [CHR 0xE0, CHR 0xB9, CHR 0x80, CHR 0xE0, CHR 0xB8, CHR 0x81, CHR 0xE0, CHR 0xB8, CHR 0xB4, CHR 0xE0, CHR 0xB8, CHR 0x94, CHR 0xE0, CHR 0xB8, CHR 0x82, CHR 0xE0, CHR 0xB9, CHR 0x89, CHR 0xE0, CHR 0xB8, CHR 0xAD, CHR 0xE0, CHR 0xB8, CHR 0x9C, CHR 0xE0, CHR 0xB8, CHR 0xB4, CHR 0xE0, CHR 0xB8, CHR 0x94, CHR 0xE0, CHR 0xB8, CHR 0x9E, CHR 0xE0, CHR 0xB8, CHR 0xA5, CHR 0xE0, CHR 0xB8, CHR 0xB2, CHR 0xE0, CHR 0xB8, CHR 0x94, CHR 0xE0, CHR 0xB8, CHR 0x9A, CHR 0xE0, CHR 0xB8, CHR 0xB2, CHR 0xE0, CHR 0xB8, CHR 0x87, CHR 0xE0, CHR 0xB8, CHR 0xAD, CHR 0xE0, CHR 0xB8, CHR 0xA2, CHR 0xE0, CHR 0xB9, CHR 0x88, CHR 0xE0, CHR 0xB8, CHR 0xB2, CHR 0xE0, CHR 0xB8, CHR 0x87]),
      (''error.restart'', [CHR 0xE0, CHR 0xB9, CHR 0x80, CHR 0xE0, CHR 0xB8, CHR 0xA3, CHR 0xE0, CHR 0xB8, CHR 0xB4, CHR 0xE0, CHR 0xB9, CHR 0x88, CHR 0xE0, CHR 0xB8, CHR 0xA1, CHR 0xE0, CHR 0xB8, CHR 0x95, CHR 0xE0, CHR 0xB9, CHR 0x89, CHR 0xE0, CHR 0xB8, CHR 0x99, CHR 0xE0, CHR 0xB8, CHR 0x95, CHR 0xE0, CHR 0xB8, CHR 0xB9, CHR 0xE0, CHR 0xB9, CHR 0x89, CHR 0xE0, CHR 0xB9, CHR 0x83, CHR 0xE0, CHR 0xB8, CHR 0xAB, CHR 0xE0, CHR 0xB8, CHR 0xA1, CHR 0xE0, CHR 0xB9, CHR 0x88]),
      (''error.retry'', [CHR 0xE0, CHR 0xB8, CHR 0xA5, CHR 0xE0, CHR 0xB8, CHR 0xAD, CHR 0xE0, CHR 0xB8, CHR 0x87, CHR 0xE0, CHR 0xB8, CHR 0xAD, CHR 0xE0, CHR 0xB8, CHR 0xB5, CHR 0xE0, CHR 0xB8, CHR 0x81, CHR 0xE0, CHR 0xB8, CHR 0x84, CHR 0xE0, CHR 0xB8, CHR 0xA3, CHR 0xE0, CHR 0xB8, CHR 0xB1, CHR 0xE0, CHR 0xB9, CHR 0x89, CHR 0xE0, CHR 0xB8, CHR 0x87]),
      (''error.paymentDeclined'', [CHR 0xE0, CHR 0xB8, CHR 0x81, CHR 0xE0, CHR 0xB8, CHR 0xB2, CHR 0xE0, CHR 0xB8, CHR 0xA3, CHR 0xE0, CHR 0xB8, CHR 0x8A, CHR 0xE0, CHR 0xB8, CHR 0xB3, CHR 0xE0, CHR 0xB8, CHR 0xA3, CHR 0xE0, CHR 0xB8, CHR 0xB0, CHR 0xE0, CHR 0xB9, CHR 0x80, CHR 0xE0, CHR 0xB8, CHR 0x87, CHR 0xE0, CHR 0xB8, CHR 0xB4, CHR 0xE0, CHR 0xB8, CHR 0x99, CHR 0xE0, CHR 0xB8, CHR 0x96, CHR 0xE0, CHR 0xB8, CHR 0xB9, CHR 0xE0, CHR 0xB8, CHR 0x81, CHR 0xE0, CHR 0xB8, CHR 0x9B, CHR 0xE0, CHR 0xB8, CHR 0x8F, CHR 0xE0, CHR 0xB8, CHR 0xB4, CHR 0xE0, CHR 0xB9, CHR 0x80, CHR 0xE0, CHR 0xB8, CHR 0xAA, CHR 0xE0, CHR 0xB8, CHR 0x98] @ '' '' @ [CHR 0xE0, CHR 0xB8, CHR 0xA5, CHR 0xE0, CHR 0xB8, CHR 0xAD, CHR 0xE0, CHR 0xB8, CHR 0x87, CHR 0xE0, CHR 0xB8, CHR 0xA7, CHR 0xE0, CHR 0xB8, CHR 0xB4, CHR 0xE0, CHR 0xB8, CHR 0x98, CHR 0xE0, CHR 0xB8, CHR 0xB5, CHR 0xE0, CHR 0xB8, CHR 0xAD, CHR 0xE0, CHR 0xB8, CHR 0xB7, CHR 0xE0, CHR 0xB9, CHR 0x88, CHR 0xE0, CHR 0xB8, CHR 0x99]),
      (''error.paymentFailed'', [CHR 0xE0, CHR 0xB8, CHR 0x81, CHR 0xE0, CHR 0xB8, CHR 0xB2, CHR 0xE0, CHR 0xB8, CHR 0xA3, CHR 0xE0, CHR 0xB8, CHR 0x8A, CHR 0xE0, CHR 0xB8, CHR 0xB3, CHR 0xE0, CHR 0xB8, CHR 0xA3, CHR 0xE0, CHR 0xB8, CHR 0xB0, CHR 0xE0, CHR 0xB9, CHR 0x80, CHR 0xE0, CHR 0xB8, CHR 0x87, CHR 0xE0, CHR 0xB8, CHR 0xB4, CHR 0xE0, CHR 0xB8, CHR 0x99, CHR 0xE0, CHR 0xB8, CHR 0xA5, CHR 0xE0, CHR 0xB9, CHR 0x89, CHR 0xE0, CHR 0xB8, CHR 0xA1, CHR 0xE0, CHR 0xB9, CHR 0x80, CHR 0xE0, CHR 0xB8, CHR 0xAB, CHR 0xE0, CHR 0xB8, CHR 0xA5, CHR 0xE0, CHR 0xB8, CHR 0xA7] @ '' '' @ [CHR 0xE0, CHR 0xB8, CHR 0x81, CHR 0xE0, CHR 0xB8, CHR 0xA3, CHR 0xE0, CHR 0xB8, CHR 0xB8, CHR 0xE0, CHR 0xB8, CHR 0x93, CHR 0xE0, CHR 0xB8, CHR 0xB2, CHR 0xE0, CHR 0xB8, CHR 0xA5, CHR 0xE0, CHR 0xB8, CHR 0xAD, CHR 0xE0, CHR 0xB8, CHR 0x87, CHR 0xE0, CHR 0xB8, CHR 0xAD, CHR 0xE0, CHR 0xB8, CHR 0xB5, CHR 0xE0, CHR 0xB8, CHR 0x81, CHR 0xE0, CHR 0xB8, CHR 0x84, CHR 0xE0, CHR 0xB8, CHR 0xA3, CHR 0xE0, CHR 0xB8, CHR 0xB1, CHR 0xE0, CHR 0xB9, CHR 0x89, CHR 0xE0, CHR 0xB8, CHR 0x87]),
      (''error.sessionExpired'', [CHR 0xE0, CHR 0xB9, CHR 0x80, CHR 0xE0, CHR 0xB8, CHR 0x8B, CHR 0xE0, CHR 0xB8, CHR 0xAA, CHR 0xE0, CHR 0xB8, CHR 0x8A, CHR 0xE0, CHR 0xB8, CHR 0xB1, CHR 0xE0, CHR 0xB8, CHR 0x99, CHR 0xE0, CHR 0xB8, CHR 0xAB, CHR 0xE0, CHR 0xB8, CHR 0xA1, CHR 0xE0, CHR 0xB8, CHR 0x94, CHR 0xE0, CHR 0xB8, CHR 0xAD, CHR 0xE0, CHR 0xB8, CHR 0xB2, CHR 0xE0, CHR 0xB8, CHR 0xA2, CHR 0xE0, CHR 0xB8, CHR 0xB8] @ '' '' @ [CHR 0xE0, CHR 0xB8, CHR 0x81, CHR 0xE0, CHR 0xB8, CHR 0xA3, CHR 0xE0, CHR 0xB8, CHR 0xB8, CHR 0xE0, CHR 0xB8, CHR 0x93, CHR 0xE0, CHR 0xB8, CHR 0xB2, CHR 0xE0, CHR 0xB9, CHR 0x80, CHR 0xE0, CHR 0xB8, CHR 0xA3, CHR 0xE0, CHR 0xB8, CHR 0xB4, CHR 0xE0, CHR 0xB9, CHR 0x88, CHR 0xE0, CHR 0xB8, CHR 0xA1, CHR 0xE0, CHR 0xB8, CHR 0x95, CHR 0xE0, CHR 0xB9, CHR 0x89, CHR 0xE0, CHR 0xB8, CHR 0x99, CHR 0xE0, CHR 0xB9, CHR 0x83, CHR 0xE0, CHR 0xB8, CHR 0xAB, CHR 0xE0, CHR 0xB8, CHR 0xA1, CHR 0xE0, CHR 0xB9, CHR 0x88]),
      (''error.connectionLost'', [CHR 0xE0, CHR 0xB8, CHR 0x81, CHR 0xE0, CHR 0xB8, CHR 0xB2, CHR 0xE0, CHR 0xB8, CHR 0xA3, CHR 0xE0, CHR 0xB9, CHR 0x80, CHR 0xE0, CHR 0xB8, CHR 0x8A, CHR 0xE0, CHR 0xB8, CHR 0xB7, CHR 0xE0, CHR 0xB9, CHR 0x88, CHR 0xE0, CHR 0xB8, CHR 0xAD, CHR 0xE0, CHR 0xB8, CHR 0xA1, CHR 0xE0, CHR 0xB8, CHR 0x95, CHR 0xE0, CHR 0xB9, CHR 0x88, CHR 0xE0, CHR 0xB8, CHR 0xAD, CHR 0xE0, CHR 0xB8, CHR 0x82, CHR 0xE0, CHR 0xB8, CHR 0xB2, CHR 0xE0, CHR 0xB8, CHR 0x94, CHR 0xE0, CHR 0xB8, CHR 0xAB, CHR 0xE0, CHR 0xB8, CHR 0xB2, CHR 0xE0, CHR 0xB8, CHR 0xA2] @ '' '' @ [CHR 0xE0, CHR 0xB8, CHR 0x81, CHR 0xE0, CHR 0xB8, CHR 0xB3, CHR 0xE0, CHR 0xB8, CHR 0xA5, CHR 0xE0, CHR 0xB8, CHR 0xB1, CHR 0xE0, CHR 0xB8, CHR 0x87, CHR 0xE0, CHR 0xB8, CHR 0x95, CHR 0xE0, CHR 0xB8, CHR 0xA3, CHR 0xE0, CHR 0xB8, CHR 0xA7, CHR 0xE0, CHR 0xB8, CHR 0x88, CHR 0xE0, CHR 0xB8, CHR 0xAA, CHR 0xE0, CHR 0xB8, CHR 0xAD, CHR 0xE0, CHR 0xB8, CHR 0x9A, CHR 0xE0, CHR 0xB9, CHR 0x80, CHR 0xE0, CHR 0xB8, CHR 0x84, CHR 0xE0, CHR 0xB8, CHR 0xA3, CHR 0xE0, CHR 0xB8, CHR 0xB7, CHR 0xE0, CHR 0xB8, CHR 0xAD, CHR 0xE0, CHR 0xB8, CHR 0x82, CHR 0xE0, CHR 0xB9, CHR 0x88, CHR 0xE0, CHR 0xB8, CHR 0xB2, CHR 0xE0, CHR 0xB8, CHR 0xA2] @ ''...''),
      (''admin.title'', [CHR 0xE0, CHR 0xB9, CHR 0x81, CHR 0xE0, CHR 0xB8, CHR 0x9C, CHR 0xE0, CHR 0xB8, CHR 0x87, CHR 0xE0, CHR 0xB8, CHR 0x9C, CHR 0xE0, CHR 0xB8, CHR 0xB9, CHR 0xE0, CHR 0xB9, CHR 0x89, CHR 0xE0, CHR 0xB8, CHR 0x94, CHR 0xE0, CHR 0xB8, CHR 0xB9, CHR 0xE0, CHR 0xB9, CHR 0x81, CHR 0xE0, CHR 0xB8, CHR 0xA5, CHR 0xE0, CHR 0xB8, CHR 0xA3, CHR 0xE0, CHR 0xB8, CHR 0xB0, CHR 0xE0, CHR 0xB8, CHR 0x9A, CHR 0xE0, CHR 0xB8, CHR 0x9A]),
      (''admin.close'', [CHR 0xE0, CHR 0xB8, CHR 0x9B, CHR 0xE0, CHR 0xB8, CHR 0xB4, CHR 0xE0, CHR 0xB8, CHR 0x94]),
      (''admin.dashboard'', [CHR 0xE0, CHR 0xB9, CHR 0x81, CHR 0xE0, CHR 0xB8, CHR 0x94, CHR 0xE0, CHR 0xB8, CHR 0x8A, CHR 0xE0, CHR 0xB8, CHR 0x9A, CHR 0xE0, CHR 0xB8, CHR 0xAD, CHR 0xE0, CHR 0xB8, CHR 0xA3, CHR 0xE0, CHR 0xB9, CHR 0x8C, CHR 0xE0, CHR 0xB8, CHR 0x94]),
      (''general.confirm'', [CHR 0xE0, CHR 0xB8, CHR 0xA2, CHR 0xE0, CHR 0xB8, CHR 0xB7, CHR 0xE0, CHR 0xB8, CHR 0x99, CHR 0xE0, CHR 0xB8, CHR 0xA2, CHR 0xE0, CHR 0xB8, CHR 0xB1, CHR 0xE0, CHR 0xB8, CHR 0x99]),
      (''general.cancel'', [CHR 0xE0, CHR 0xB8, CHR 0xA2, CHR 0xE0, CHR 0xB8, CHR 0x81, CHR 0xE0, CHR 0xB9, CHR 0x80, CHR 0xE0, CHR 0xB8, CHR 0xA5, CHR 0xE0, CHR 0xB8, CHR 0xB4, CHR 0xE0, CHR 0xB8, CHR 0x81]),
      (''general.back'', [CHR 0xE0, CHR 0xB8, CHR 0x81, CHR 0xE0, CHR 0xB8, CHR 0xA5, CHR 0xE0, CHR 0xB8, CHR 0xB1, CHR 0xE0, CHR 0xB8, CHR 0x9A]),
      (''general.next'', [CHR 0xE0, CHR 0xB8, CHR 0x96, CHR 0xE0, CHR 0xB8, CHR 0xB1, CHR 0xE0, CHR 0xB8, CHR 0x94, CHR 0xE0, CHR 0xB9, CHR 0x84, CHR 0xE0, CHR 0xB8, CHR 0x9B]),
      (''general.done'', [CHR 0xE0, CHR 0xB9, CHR 0x80, CHR 0xE0, CHR 0xB8, CHR 0xAA, CHR 0xE0, CHR 0xB8, CHR 0xA3, CHR 0xE0, CHR 0xB9, CHR 0x87, CHR 0xE0, CHR 0xB8, CHR 0x88, CHR 0xE0, CHR 0xB8, CHR 0xAA, CHR 0xE0, CHR 0xB8, CHR 0xB4, CHR 0xE0, CHR 0xB9, CHR 0x89, CHR 0xE0, CHR 0xB8, CHR 0x99]),
      (''general.loading'', [CHR 0xE0, CHR 0xB8, CHR 0x81, CHR 0xE0, CHR 0xB8, CHR 0xB3, CHR 0xE0, CHR 0xB8, CHR 0xA5, CHR 0xE0, CHR 0xB8, CHR 0xB1, CHR 0xE0, CHR 0xB8, CHR 0x87, CHR 0xE0, CHR 0xB9, CHR 0x82, CHR 0xE0, CHR 0xB8, CHR 0xAB, CHR 0xE0, CHR 0xB8, CHR 0xA5, CHR 0xE0, CHR 0xB8, CHR 0x94] @ ''...''),
      (''general.save'', [CHR 0xE0, CHR 0xB8, CHR 0x9A, CHR 0xE0, CHR 0xB8, CHR 0xB1, CHR 0xE0, CHR 0xB8, CHR 0x99, CHR 0xE0, CHR 0xB8, CHR 0x97, CHR 0xE0, CHR 0xB8, CHR 0xB6, CHR 0xE0, CHR 0xB8, CHR 0x81]),
      (''general.delete'', [CHR 0xE0, CHR 0xB8, CHR 0xA5, CHR 0xE0, CHR 0xB8, CHR 0x9A]),
      (''general.edit'', [CHR 0xE0, CHR 0xB9, CHR 0x81, CHR 0xE0, CHR 0xB8, CHR 0x81, CHR 0xE0, CHR 0xB9, CHR 0x89, CHR 0xE0, CHR 0xB9, CHR 0x84, CHR 0xE0, CHR 0xB8, CHR 0x82]),
      (''general.search'', [CHR 0xE0, CHR 0xB8, CHR 0x84, CHR 0xE0, CHR 0xB9, CHR 0x89, CHR 0xE0, CHR 0xB8, CHR 0x99, CHR 0xE0, CHR 0xB8, CHR 0xAB, CHR 0xE0, CHR 0xB8, CHR 0xB2]),
      (''general.close'', [CHR 0xE0, CHR 0xB8, CHR 0x9B, CHR 0xE0, CHR 0xB8, CHR 0xB4, CHR 0xE0, CHR 0xB8, CHR 0x94]),
      (''general.yes'', [CHR 0xE0, CHR 0xB9, CHR 0x83, CHR 0xE0, CHR 0xB8, CHR 0x8A, CHR 0xE0, CHR 0xB9, CHR 0x88]),
      (''general.no'', [CHR 0xE0, CHR 0xB9, CHR 0x84, CHR 0xE0, CHR 0xB8, CHR 0xA1, CHR 0xE0, CHR 0xB9, CHR 0x88, CHR 0xE0, CHR 0xB9, CHR 0x83, CHR 0xE0, CHR 0xB8, CHR 0x8A, CHR 0xE0, CHR 0xB9, CHR 0x88]),
      (''a11y.closeModal'', [CHR 0xE0, CHR 0xB8, CHR 0x9B, CHR 0xE0, CHR 0xB8, CHR 0xB4, CHR 0xE0, CHR 0xB8, CHR 0x94, CHR 0xE0, CHR 0xB8, CHR 0xAB, CHR 0xE0, CHR 0xB8, CHR 0x99, CHR 0xE0, CHR 0xB9, CHR 0x89, CHR 0xE0, CHR 0xB8, CHR 0xB2, CHR 0xE0, CHR 0xB8, CHR 0x95, CHR 0xE0, CHR 0xB9, CHR 0x88, CHR 0xE0, CHR 0xB8, CHR 0xB2, CHR 0xE0, CHR 0xB8, CHR 0x87]),
      (''a11y.navigateBack'', [CHR 0xE0, CHR 0xB8, CHR 0x99, CHR 0xE0, CHR 0xB8, CHR 0xB3, CHR 0xE0, CHR 0xB8, CHR 0x97, CHR 0xE0, CHR 0xB8, CHR 0xB2, CHR 0xE0, CHR 0xB8, CHR 0x87, CHR 0xE0, CHR 0xB8, CHR 0x81, CHR 0xE0, CHR 0xB8, CHR 0xA5, CHR 0xE0, CHR 0xB8, CHR 0xB1, CHR 0xE0, CHR 0xB8, CHR 0x9A]),
      (''menu.noItemsHint'', ''Try a different search term or check all categories''),
      (''menu.categoriesLabel'', ''Menu categories''),
      (''menu.categories.mains'', ''Mains''),
      (''menu.categories.drinks'', ''Drinks''),
      (''menu.clearSearch'', ''Clear search''),
      (''menu.itemsInCart'', ''{count} items in cart'')]"

definition texts_th_2 :: TranslationMap where
  "texts_th_2 =
     [(''item.included'', ''Included''),
      (''item.chooseCount'', ''Choose {count}''),
      (''item.chooseRange'', ''Choose {min}-{max}''),
      (''item.closeLabel'', ''Close item details''),
      (''item.decreaseQuantity'', ''Decrease quantity''),
      (''item.increaseQuantity'', ''Increase quantity''),
      (''item.quantityLabel'', ''Quantity: {count}''),
      (''item.addToCartLabel'', ''Add {name} to cart '' @ [CHR 0xE2, CHR 0x80, CHR 0x94] @ '' {amount}''),
      (''item.priceAddition'', ''+{amount}''),
      (''item.customizeLabel'', ''Customize {name}''),
      (''cart.itemSingular'', ''{count} item''),
      (''cart.tapToEdit'', ''Tap an item to edit''),
      (''cart.itemsLabel'', ''Cart items''),
      (''cart.pay'', ''Pay {amount}''),
      (''cart.editItem'', ''Edit {name}. Quantity: {quantity}. Price: {amount}''),
      (''cart.decreaseQuantity'', ''Decrease quantity of {name}''),
      (''cart.increaseQuantity'', ''Increase quantity of {name}''),
      (''cart.quantityLabel'', ''Quantity: {count}''),
      (''cart.priceLabel'', ''Price: {amount}''),
      (''payment.cardNfc'', ''Card / NFC''),
      (''payment.qrCode'', ''QR Code''),
      (''payment.verifyToComplete'', ''Verify to complete''),
      (''payment.pinPadInstruction'', ''Please use the PIN pad or present your card to the terminal.''),
      (''payment.terminalStatus'', ''Terminal: {status}''),
      (''payment.authorizing'', ''Authorizing...''),
      (''payment.authorize'', ''Authorize''),
      (''payment.authorized'', ''Authorized''),
      (''payment.connected'', ''Connected''),
      (''payment.cartSummary'', ''Cart summary: {count} items, total {amount}. Tap to {action}.''),
      (''payment.expand'', ''expand''),
      (''payment.collapse'', ''collapse''),
      (''payment.employeeOverrideHint'', ''Employee override. Hold for 3 seconds.''),
      (''payment.cancelPayment'', ''Cancel payment''),
      (''payment.confirmPayment'', ''Pay {amount}''),
      (''processing.connecting'', ''Connecting to terminal...''),
      (''processing.waitingForCard'', ''Waiting for card...''),
      (''processing.authorizing'', ''Authorizing...''),
      (''processing.finalizingStage'', ''Finalizing...''),
      (''processing.default'', ''Processing...''),
      (''processing.terminalStatus'', ''Terminal: {label}''),
      (''processing.orderFailed'', ''Order could not be completed''),
      (''processing.orderFailedMessage'', ''We couldn'' @ [CHR 0x27] @ ''t complete your order. Please try again.''),
      (''processing.retry'', ''Try again''),
      (''processing.cancelReturn'', ''Cancel and return to cart''),
      (''receipt.printing'', ''Printing...''),
      (''receipt.emailSending'', ''Sending...''),
      (''receipt.emailSent'', ''Sent!''),
      (''receipt.printerUnavailable'', ''Printer unavailable. Receipt saved.''),
      (''receipt.srComplete'', ''Order complete. Tap start new order to continue.''),
      (''receipt.srReady'', ''Receipt ready.''),
      (''receipt.printLabel'', ''Print receipt''),
      (''receipt.emailLabel'', ''Email receipt''),
      (''receipt.startNewLabel'', ''Start new order''),
      (''status.synced'', ''Synced''),
      (''status.syncing'', ''Syncing''),
      (''status.p2pStatus'', ''P2P sync status: {label}. Tap for mesh details.''),
      (''status.kioskStatus'', ''Kiosk status''),
      (''status.p2pTitle'', ''P2P mesh sync''),
      (''status.meshDescription'', ''This kiosk shares cart and order state with nearby peers over a local mesh so orders survive network drops.''),
      (''status.connectedPeers'', ''Connected peers''),
      (''status.syncLag'', ''Sync lag''),
      (''status.role'', ''Role''),
      (''status.leader'', ''Leader''),
      (''status.peer'', ''Peer''),
      (''status.thisKiosk'', ''This kiosk''),
      (''status.apiOnline'', ''API online''),
      (''status.apiDegraded'', ''API degraded''),
      (''status.apiOffline'', ''API offline''),
      (''status.networkConnected'', ''Connected to network''),
      (''status.networkDisconnected'', ''No network connection''),
      (''idle.message'', ''Tap below to continue, or this kiosk will reset for the next customer.''),
      (''idle.continueLabel'', ''I am still here''),
      (''idle.endSessionLabel'', ''Start over''),
      (''idle.ariaLabel'', ''Idle timeout warning''),
      (''offline.workingOffline'', ''Working offline. Your cart is secure.''),
      (''offline.dismiss'', ''Dismiss offline notice''),
      (''error.helpMessage'', ''Please ask a staff member for help. We apologise for the inconvenience.''),
      (''admin.kioskStatus'', ''Kiosk Status''),
      (''admin.session'', ''Session''),
      (''admin.laneMode'', ''Lane Mode''),
      (''admin.apiStatus'', ''API Status''),
      (''admin.cartHasItems'', ''Cart Has Items''),
      (''admin.actions'', ''Actions''),
      (''admin.simulateOnline'', ''Simulate Online''),
      (''admin.simulateOffline'', ''Simulate Offline''),
      (''admin.errors'', ''Errors''),
      (''admin.closeLabel'', ''Close admin panel''),
      (''item.modifierSingular'', ''{count} modifier''),
      (''item.modifierPlural'', ''{count} modifiers'')]"

definition texts_th :: TranslationMap where
  "texts_th = texts_th_1 @ texts_th_2"

end
