(* ===== verification/ArabicTexts.thy ===== *)
theory ArabicTexts
  imports Languages
begin

text \<open>
  Tables of texts of the kiosk: \<open>ar.ts\<close>, \<open>ur.ts\<close> of \<open>apps/kiosk/src/i18n/locales\<close>. A text is
  given by its bytes in UTF-8.
\<close>

definition texts_ar_1 :: TranslationMap where
  "texts_ar_1 =
     [(''language.select'', [CHR 0xD8, CHR 0xA7, CHR 0xD8, CHR 0xAE, CHR 0xD8, CHR 0xAA, CHR 0xD8, CHR 0xB1] @ '' '' @ [CHR 0xD9, CHR 0x84, CHR 0xD8, CHR 0xBA, CHR 0xD8, CHR 0xAA, CHR 0xD9, CHR 0x83]),
      (''language.mainLanguages'', [CHR 0xD8, CHR 0xA7, CHR 0xD9, CHR 0x84, CHR 0xD9, CHR 0x84, CHR 0xD8, CHR 0xBA, CHR 0xD8, CHR 0xA7, CHR 0xD8, CHR 0xAA] @ '' '' @ [CHR 0xD8, CHR 0xA7, CHR 0xD9, CHR 0x84, CHR 0xD8, CHR 0xB1, CHR 0xD8, CHR 0xA6, CHR 0xD9, CHR 0x8A, CHR 0xD8, CHR 0xB3, CHR 0xD9, CHR 0x8A, CHR 0xD8, CHR 0xA9]),
      (''language.moreLanguages'', [CHR 0xD8, CHR 0xA7, CHR 0xD9, CHR 0x84, CHR 0xD9, CHR 0x85, CHR 0xD8, CHR 0xB2, CHR 0xD9, CHR 0x8A, CHR 0xD8, CHR 0xAF] @ '' '' @ [CHR 0xD9, CHR 0x85, CHR 0xD9, CHR 0x86] @ '' '' @ [CHR 0xD8, CHR 0xA7, CHR 0xD9, CHR 0x84, CHR 0xD9, CHR 0x84, CHR 0xD8, CHR 0xBA, CHR 0xD8, CHR 0xA7, CHR 0xD8, CHR 0xAA]),
      (''language.continue'', [CHR 0xD9, CHR 0x85, CHR 0xD8, CHR 0xAA, CHR 0xD8, CHR 0xA7, CHR 0xD8, CHR 0xA8, CHR 0xD8, CHR 0xB9, CHR 0xD8, CHR 0xA9]),
      (''attract.title'', ''Astra''),
      (''attract.touchToBegin'', [CHR 0xD8, CHR 0xA7, CHR 0xD9, CHR 0x84, CHR 0xD9, CHR 0x85, CHR 0xD8, CHR 0xB3] @ '' '' @ [CHR 0xD9, CHR 0x84, CHR 0xD9, CHR 0x84, CHR 0xD8, CHR 0xA8, CHR 0xD8, CHR 0xAF, CHR 0xD8, CHR 0xA1]),
      (''attract.laneInfo'', [CHR 0xD8, CHR 0xA7, CHR 0xD9, CHR 0x84, CHR 0xD8, CHR 0xAF, CHR 0xD9, CHR 0x81, CHR 0xD8, CHR 0xB9] @ '' '' @ [CHR 0xD8, CHR 0xA7, CHR 0xD9, CHR 0x84, CHR 0xD8, CHR 0xB0, CHR 0xD8, CHR 0xA7, CHR 0xD8, CHR 0xAA, CHR 0xD9, CHR 0x8A] @ '' '' @ [CHR 0xE2, CHR 0x80, CHR 0xA2] @ '' '' @ [CHR 0xD8, CHR 0xA7, CHR 0xD9, CHR 0x84, CHR 0xD9, CHR 0x85, CHR 0xD8, CHR 0xB3, CHR 0xD8, CHR 0xA7, CHR 0xD8, CHR 0xB1] @ '' {lane}''),
      (''attract.screenReader'', [CHR 0xD8, CHR 0xB4, CHR 0xD8, CHR 0xA7, CHR 0xD8, CHR 0xB4, CHR 0xD8, CHR 0xA9] @ '' '' @ [CHR 0xD8, CHR 0xA7, CHR 0xD9, CHR 0x84, CHR 0xD8, CHR 0xAC, CHR 0xD8, CHR 0xB0, CHR 0xD8, CHR 0xA8] @ ''. '' @ [CHR 0xD8, CHR 0xA7, CHR 0xD9, CHR 0x84, CHR 0xD9, CHR 0x85, CHR 0xD8, CHR 0xB3] @ '' '' @ [CHR 0xD9, CHR 0x84, CHR 0xD8, CHR 0xA8, CHR 0xD8, CHR 0xAF, CHR 0xD8, CHR 0xA1] @ '' '' @ [CHR 0xD8, CHR 0xA7, CHR 0xD9, CHR 0x84, CHR 0xD8, CHR 0xAA, CHR 0xD8, CHR 0xB3, CHR 0xD9, CHR 0x88, CHR 0xD9, CHR 0x82] @ ''.''),
      (''menu.title'', [CHR 0xD8, CHR 0xA7, CHR 0xD9, CHR 0x84, CHR 0xD9, CHR 0x82, CHR 0xD8, CHR 0xA7, CHR 0xD8, CHR 0xA6, CHR 0xD9, CHR 0x85, CHR 0xD8, CHR 0xA9]),
      (''menu.search'', [CHR 0xD8, CHR 0xA7, CHR 0xD9, CHR 0x84, CHR 0xD8, CHR 0xA8, CHR 0xD8, CHR 0xAD, CHR 0xD8, CHR 0xAB] @ '' '' @ [CHR 0xD9, CHR 0x81, CHR 0xD9, CHR 0x8A] @ '' '' @ [CHR 0xD8, CHR 0xA7, CHR 0xD9, CHR 0x84, CHR 0xD9, CHR 0x82, CHR 0xD8, CHR 0xA7, CHR 0xD8, CHR 0xA6, CHR 0xD9, CHR 0x85, CHR 0xD8, CHR 0xA9] @ ''...''),
      (''menu.noItems'', [CHR 0xD9, CHR 0x84, CHR 0xD9, CHR 0x85] @ '' '' @ [CHR 0xD9, CHR 0x8A, CHR 0xD8, CHR 0xAA, CHR 0xD9, CHR 0x85] @ '' '' @ [CHR 0xD8, CHR 0xA7, CHR 0xD9, CHR 0x84, CHR 0xD8, CHR 0xB9, CHR 0xD8, CHR 0xAB, CHR 0xD9, CHR 0x88, CHR 0xD8, CHR 0xB1] @ '' '' @ [CHR 0xD8, CHR 0xB9, CHR 0xD9, CHR 0x84, CHR 0xD9, CHR 0x89] @ '' '' @ [CHR 0xD8, CHR 0xB9, CHR 0xD9, CHR 0x86, CHR 0xD8, CHR 0xA7, CHR 0xD8, CHR 0xB5, CHR 0xD8, CHR 0xB1]),
      (''menu.backToMenu'', [CHR 0xD8, CHR 0xA7, CHR 0xD9, CHR 0x84, CHR 0xD8, CHR 0xB9, CHR 0xD9, CHR 0x88, CHR 0xD8, CHR 0xAF, CHR 0xD8, CHR 0xA9] @ '' '' @ [CHR 0xD8, CHR 0xA5, CHR 0xD9, CHR 0x84, CHR 0xD9, CHR 0x89] @ '' '' @ [CHR 0xD8, CHR 0xA7, CHR 0xD9, CHR 0x84, CHR 0xD9, CHR 0x82, CHR 0xD8, CHR 0xA7, CHR 0xD8, CHR 0xA6, CHR 0xD9, CHR 0x85, CHR 0xD8, CHR 0xA9]),
      (''menu.viewCart'', [CHR 0xD8, CHR 0xB9, CHR 0xD8, CHR 0xB1, CHR 0xD8, CHR 0xB6] @ '' '' @ [CHR 0xD8, CHR 0xA7, CHR 0xD9, CHR 0x84, CHR 0xD8, CHR 0xB3, CHR 0xD9, CHR 0x84, CHR 0xD8, CHR 0xA9] @ '' ({count})''),
      (''menu.itemAdded'', [CHR 0xD8, CHR 0xAA, CHR 0xD9, CHR 0x85, CHR 0xD8, CHR 0xAA] @ '' '' @ [CHR 0xD8, CHR 0xA5, CHR 0xD8, CHR 0xB6, CHR 0xD8, CHR 0xA7, CHR 0xD9, CHR 0x81, CHR 0xD8, CHR 0xA9] @ '' '' @ [CHR 0xD8, CHR 0xA7, CHR 0xD9, CHR 0x84, CHR 0xD8, CHR 0xB9, CHR 0xD9, CHR 0x86, CHR 0xD8, CHR 0xB5, CHR 0xD8, CHR 0xB1]),
      (''menu.categories.all'', [CHR 0xD8, CHR 0xA7, CHR 0xD9, CHR 0x84, CHR 0xD9, CHR 0x83, CHR 0xD9, CHR 0x84]),
      (''item.addToCart'', [CHR 0xD8, CHR 0xA3, CHR 0xD8, CHR 0xB6, CHR 0xD9, CHR 0x81] @ '' '' @ [CHR 0xD8, CHR 0xA5, CHR 0xD9, CHR 0x84, CHR 0xD9, CHR 0x89] @ '' '' @ [CHR 0xD8, CHR 0xA7, CHR 0xD9, CHR 0x84, CHR 0xD8, CHR 0xB3, CHR 0xD9, CHR 0x84, CHR 0xD8, CHR 0xA9]),
      (''item.quantity'', [CHR 0xD8, CHR 0xA7, CHR 0xD9, CHR 0x84, CHR 0xD9, CHR 0x83, CHR 0xD9, CHR 0x85, CHR 0xD9, CHR 0x8A, CHR 0xD8, CHR 0xA9]),
      (''item.modifiers'', [CHR 0xD8, CHR 0xAA, CHR 0xD8, CHR 0xAE, CHR 0xD8, CHR 0xB5, CHR 0xD9, CHR 0x8A, CHR 0xD8, CHR 0xB5]),
      (''item.price'', [CHR 0xD8, CHR 0xA7, CHR 0xD9, CHR 0x84, CHR 0xD8, CHR 0xB3, CHR 0xD8, CHR 0xB9, CHR 0xD8, CHR 0xB1]),
      (''item.description'', [CHR 0xD8, CHR 0xA7, CHR 0xD9, CHR 0x84, CHR 0xD9, CHR 0x88, CHR 0xD8, CHR 0xB5, CHR 0xD9, CHR 0x81]),
      (''cart.title'', [CHR 0xD8, CHR 0xB3, CHR 0xD9, CHR 0x84, CHR 0xD8, CHR 0xAA, CHR 0xD9, CHR 0x83]),
      (''cart.empty'', [CHR 0xD8, CHR 0xB3, CHR 0xD9, CHR 0x84, CHR 0xD8, CHR 0xAA, CHR 0xD9, CHR 0x83] @ '' '' @ [CHR 0xD9, CHR 0x81, CHR 0xD8, CHR 0xA7, CHR 0xD8, CHR 0xB1, CHR 0xD8, CHR 0xBA, CHR 0xD8, CHR 0xA9]),
      (''cart.subtotal'', [CHR 0xD8, CHR 0xA7, CHR 0xD9, CHR 0x84, CHR 0xD9, CHR 0x85, CHR 0xD8, CHR 0xAC, CHR 0xD9, CHR 0x85, CHR 0xD9, CHR 0x88, CHR 0xD8, CHR 0xB9] @ '' '' @ [CHR 0xD8, CHR 0xA7, CHR 0xD9, CHR 0x84, CHR 0xD9, CHR 0x81, CHR 0xD8, CHR 0xB1, CHR 0xD8, CHR 0xB9, CHR 0xD9, CHR 0x8A]),
      (''cart.tax'', [CHR 0xD8, CHR 0xA7, CHR 0xD9, CHR 0x84, CHR 0xD8, CHR 0xB6, CHR 0xD8, CHR 0xB1, CHR 0xD9, CHR 0x8A, CHR 0xD8, CHR 0xA8, CHR 0xD8, CHR 0xA9]),
      (''cart.total'', [CHR 0xD8, CHR 0xA7, CHR 0xD9, CHR 0x84, CHR 0xD9, CHR 0x85, CHR 0xD8, CHR 0xAC, CHR 0xD9, CHR 0x85, CHR 0xD9, CHR 0x88, CHR 0xD8, CHR 0xB9]),
      (''cart.backToMenu'', [CHR 0xD8, CHR 0xA7, CHR 0xD9, CHR 0x84, CHR 0xD8, CHR 0xB9, CHR 0xD9, CHR 0x88, CHR 0xD8, CHR 0xAF, CHR 0xD8, CHR 0xA9] @ '' '' @ [CHR 0xD8, CHR 0xA5, CHR 0xD9, CHR 0x84, CHR 0xD9, CHR 0x89] @ '' '' @ [CHR 0xD8, CHR 0xA7, CHR 0xD9, CHR 0x84, CHR 0xD9, CHR 0x82, CHR 0xD8, CHR 0xA7, CHR 0xD8, CHR 0xA6, CHR 0xD9, CHR 0x85, CHR 0xD8, CHR 0xA9]),
      (''cart.proceedToPayment'', [CHR 0xD8, CHR 0xAC, CHR 0xD8, CHR 0xA7, CHR 0xD9, CHR 0x87, CHR 0xD8, CHR 0xB2] @ '' '' @ [CHR 0xD9, CHR 0x84, CHR 0xD9, CHR 0x84, CHR 0xD8, CHR 0xAF, CHR 0xD9, CHR 0x81, CHR 0xD8, CHR 0xB9]),
      (''cart.removeItem'', [CHR 0xD8, CHR 0xA5, CHR 0xD8, CHR 0xB2, CHR 0xD8, CHR 0xA7, CHR 0xD9, CHR 0x84, CHR 0xD8, CHR 0xA9]),
      (''cart.itemCount'', ''{count} '' @ [CHR 0xD8, CHR 0xB9, CHR 0xD9, CHR 0x86, CHR 0xD8, CHR 0xA7, CHR 0xD8, CHR 0xB5, CHR 0xD8, CHR 0xB1]),
      (''cart.summary'', [CHR 0xD9, CHR 0x85, CHR 0xD9, CHR 0x84, CHR 0xD8, CHR 0xAE, CHR 0xD8, CHR 0xB5] @ '' '' @ [CHR 0xD8, CHR 0xA7, CHR 0xD9, CHR 0x84, CHR 0xD8, CHR 0xB7, CHR 0xD9, CHR 0x84, CHR 0xD8, CHR 0xA8]),
      (''payment.title'', [CHR 0xD8, CHR 0xA7, CHR 0xD9, CHR 0x84, CHR 0xD8, CHR 0xAF, CHR 0xD9, CHR 0x81, CHR 0xD8, CHR 0xB9]),
      (''payment.confirm'', [CHR 0xD8, CHR 0xAA, CHR 0xD8, CHR 0xA3, CHR 0xD9, CHR 0x83, CHR 0xD9, CHR 0x8A, CHR 0xD8, CHR 0xAF] @ '' '' @ [CHR 0xD8, CHR 0xA7, CHR 0xD9, CHR 0x84, CHR 0xD8, CHR 0xAF, CHR 0xD9, CHR 0x81, CHR 0xD8, CHR 0xB9]),
      (''payment.cancel'', [CHR 0xD8, CHR 0xA5, CHR 0xD9, CHR 0x84, CHR 0xD8, CHR 0xBA, CHR 0xD8, CHR 0xA7, CHR 0xD8, CHR 0xA1]),
      (''payment.processing'', [CHR 0xD8, CHR 0xAC, CHR 0xD8, CHR 0xA7, CHR 0xD8, CHR 0xB1, CHR 0xD9, CHR 0x8A] @ '' '' @ [CHR 0xD9, CHR 0x85, CHR 0xD8, CHR 0xB9, CHR 0xD8, CHR 0xA7, CHR 0xD9, CHR 0x84, CHR 0xD8, CHR 0xAC, CHR 0xD8, CHR 0xA9] @ '' '' @ [CHR 0xD8, CHR 0xA7, CHR 0xD9, CHR 0x84, CHR 0xD8, CHR 0xAF, CHR 0xD9, CHR 0x81, CHR 0xD8, CHR 0xB9] @ ''...''),
      (''payment.selectMethod'', [CHR 0xD8, CHR 0xA7, CHR 0xD8, CHR 0xAE, CHR 0xD8, CHR 0xAA, CHR 0xD8, CHR 0xB1] @ '' '' @ [CHR 0xD8, CHR 0xB7, CHR 0xD8, CHR 0xB1, CHR 0xD9, CHR 0x8A, CHR 0xD9, CHR 0x82, CHR 0xD8, CHR 0xA9] @ '' '' @ [CHR 0xD8, CHR 0xA7, CHR 0xD9, CHR 0x84, CHR 0xD8, CHR 0xAF, CHR 0xD9, CHR 0x81, CHR 0xD8, CHR 0xB9]),
      (''payment.card'', [CHR 0xD8, CHR 0xA8, CHR 0xD8, CHR 0xB7, CHR 0xD8, CHR 0xA7, CHR 0xD9, CHR 0x82, CHR 0xD8, CHR 0xA9]),
      (''payment.cash'', [CHR 0xD9, CHR 0x86, CHR 0xD9, CHR 0x82, CHR 0xD8, CHR 0xAF, CHR 0xD8, CHR 0xA7, CHR 0xD9, CHR 0x8B]),
      (''payment.mobile'', [CHR 0xD9, CHR 0x85, CHR 0xD8, CHR 0xAD, CHR 0xD9, CHR 0x81, CHR 0xD8, CHR 0xB8, CHR 0xD8, CHR 0xA9] @ '' '' @ [CHR 0xD8, CHR 0xAC, CHR 0xD9, CHR 0x88, CHR 0xD8, CHR 0xA7, CHR 0xD9, CHR 0x84]),
      (''payment.biometric'', [CHR 0xD8, CHR 0xA7, CHR 0xD9, CHR 0x84, CHR 0xD9, CHR 0x82, CHR 0xD9, CHR 0x8A, CHR 0xD8, CHR 0xA7, CHR 0xD8, CHR 0xB3, CHR 0xD8, CHR 0xA7, CHR 0xD8, CHR 0xAA] @ '' '' @ [CHR 0xD8, CHR 0xA7, CHR 0xD9, CHR 0x84, CHR 0xD8, CHR 0xAD, CHR 0xD9, CHR 0x8A, CHR 0xD9, CHR 0x88, CHR 0xD9, CHR 0x8A, CHR 0xD8, CHR 0xA9]),
      (''payment.employeeOverride'', [CHR 0xD8, CHR 0xAA, CHR 0xD9, CHR 0x81, CHR 0xD9, CHR 0x88, CHR 0xD9, CHR 0x8A, CHR 0xD8, CHR 0xB6] @ '' '' @ [CHR 0xD8, CHR 0xA7, CHR 0xD9, CHR 0x84, CHR 0xD9, CHR 0x85, CHR 0xD9, CHR 0x88, CHR 0xD8, CHR 0xB8, CHR 0xD9, CHR 0x81]),
      (''payment.insertCard'', [CHR 0xD8, CHR 0xA3, CHR 0xD8, CHR 0xAF, CHR 0xD8, CHR 0xAE, CHR 0xD9, CHR 0x84] @ '' '' @ [CHR 0xD8, CHR 0xA3, CHR 0xD9, CHR 0x88] @ '' '' @ [CHR 0xD8, CHR 0xA7, CHR 0xD9, CHR 0x84, CHR 0xD9, CHR 0x85, CHR 0xD8, CHR 0xB3] @ '' '' @ [CHR 0xD8, CHR 0xA7, CHR 0xD9, CHR 0x84, CHR 0xD8, CHR 0xA8, CHR 0xD8, CHR 0xB7, CHR 0xD8, CHR 0xA7, CHR 0xD9, CHR 0x82, CHR 0xD8, CHR 0xA9]),
      (''payment.scanQR'', [CHR 0xD9, CHR 0x85, CHR 0xD8, CHR 0xB3, CHR 0xD8, CHR 0xAD] @ '' '' @ [CHR 0xD8, CHR 0xB1, CHR 0xD9, CHR 0x85, CHR 0xD8, CHR 0xB2] @ '' QR''),
      (''payment.tapPhone'', [CHR 0xD8, CHR 0xA7, CHR 0xD9, CHR 0x84, CHR 0xD9, CHR 0x85, CHR 0xD8, CHR 0xB3] @ '' '' @ [CHR 0xD9, CHR 0x87, CHR 0xD8, CHR 0xA7, CHR 0xD8, CHR 0xAA, CHR 0xD9, CHR 0x81, CHR 0xD9, CHR 0x83]),
      (''payment.amount'', [CHR 0xD8, CHR 0xA7, CHR 0xD9, CHR 0x84, CHR 0xD9, CHR 0x85, CHR 0xD8, CHR 0xA8, CHR 0xD9, CHR 0x84, CHR 0xD8, CHR 0xBA]),
      (''processing.title'', [CHR 0xD9, CHR 0x85, CHR 0xD8, CHR 0xB9, CHR 0xD8, CHR 0xA7, CHR 0xD9, CHR 0x84, CHR 0xD8, CHR 0xAC, CHR 0xD8, CHR 0xA9]),
      (''processing.pleaseWait'', [CHR 0xD9, CHR 0x8A, CHR 0xD8, CHR 0xB1, CHR 0xD8, CHR 0xAC, CHR 0xD9, CHR 0x89] @ '' '' @ [CHR 0xD8, CHR 0xA7, CHR 0xD9, CHR 0x84, CHR 0xD8, CHR 0xA7, CHR 0xD9, CHR 0x86, CHR 0xD8, CHR 0xAA, CHR 0xD8, CHR 0xB8, CHR 0xD8, CHR 0xA7, CHR 0xD8, CHR 0xB1] @ ''...''),
      (''processing.finalizing'', [CHR 0xD8, CHR 0xAC, CHR 0xD8, CHR 0xA7, CHR 0xD8, CHR 0xB1, CHR 0xD9, CHR 0x8A] @ '' '' @ [CHR 0xD8, CHR 0xA5, CHR 0xD9, CHR 0x86, CHR 0xD9, CHR 0x87, CHR 0xD8, CHR 0xA7, CHR 0xD8, CHR 0xA1] @ '' '' @ [CHR 0xD8, CHR 0xB7, CHR 0xD9, CHR 0x84, CHR 0xD8, CHR 0xA8, CHR 0xD9, CHR 0x83]),
      (''processing.redirecting'', [CHR 0xD8, CHR 0xAC, CHR 0xD8, CHR 0xA7, CHR 0xD8, CHR 0xB1, CHR 0xD9, CHR 0x8A] @ '' '' @ [CHR 0xD8, CHR 0xA7, CHR 0xD9, CHR 0x84, CHR 0xD8, CHR 0xAA, CHR 0xD9, CHR 0x88, CHR 0xD8, CHR 0xAC, CHR 0xD9, CHR 0x8A, CHR 0xD9, CHR 0x87] @ '' '' @ [CHR 0xD8, CHR 0xA5, CHR 0xD9, CHR 0x84, CHR 0xD9, CHR 0x89] @ '' '' @ [CHR 0xD8, CHR 0xA7, CHR 0xD9, CHR 0x84, CHR 0xD8, CHR 0xA5, CHR 0xD9, CHR 0x8A, CHR 0xD8, CHR 0xB5, CHR 0xD8, CHR 0xA7, CHR 0xD9, CHR 0x84]),
      (''receipt.title'', [CHR 0xD8, CHR 0xB4, CHR 0xD9, CHR 0x83, CHR 0xD8, CHR 0xB1, CHR 0xD8, CHR 0xA7, CHR 0xD9, CHR 0x8B] @ '' '' @ [CHR 0xD9, CHR 0x84, CHR 0xD9, CHR 0x83]),
      (''receipt.orderNumber'', [CHR 0xD8, CHR 0xA7, CHR 0xD9, CHR 0x84, CHR 0xD8, CHR 0xB7, CHR 0xD9, CHR 0x84, CHR 0xD8, CHR 0xA8] @ '' #{number}''),
      (''receipt.print'', [CHR 0xD8, CHR 0xB7, CHR 0xD8, CHR 0xA8, CHR 0xD8, CHR 0xA7, CHR 0xD8, CHR 0xB9, CHR 0xD8, CHR 0xA9] @ '' '' @ [CHR 0xD8, CHR 0xA7, CHR 0xD9, CHR 0x84, CHR 0xD8, CHR 0xA5, CHR 0xD9, CHR 0x8A, CHR 0xD8, CHR 0xB5, CHR 0xD8, CHR 0xA7, CHR 0xD9, CHR 0x84]),
      (''receipt.email'', [CHR 0xD8, CHR 0xA5, CHR 0xD8, CHR 0xB1, CHR 0xD8, CHR 0xB3, CHR 0xD8, CHR 0xA7, CHR 0xD9, CHR 0x84] @ '' '' @ [CHR 0xD8, CHR 0xA7, CHR 0xD9, CHR 0x84, CHR 0xD8, CHR 0xA5, CHR 0xD9, CHR 0x8A, CHR 0xD8, CHR 0xB5, CHR 0xD8, CHR 0xA7, CHR 0xD9, CHR 0x84] @ '' '' @ [CHR 0xD8, CHR 0xA8, CHR 0xD8, CHR 0xA7, CHR 0xD9, CHR 0x84, CHR 0xD8, CHR 0xA8, CHR 0xD8, CHR 0xB1, CHR 0xD9, CHR 0x8A, CHR 0xD8, CHR 0xAF] @ '' '' @ [CHR 0xD8, CHR 0xA7, CHR 0xD9, CHR 0x84, CHR 0xD8, CHR 0xA5, CHR 0xD9, CHR 0x84, CHR 0xD9, CHR 0x83, CHR 0xD8, CHR 0xAA, CHR 0xD8, CHR 0xB1, CHR 0xD9, CHR 0x88, CHR 0xD9, CHR 0x86, CHR 0xD9, CHR 0x8A]),
      (''receipt.startNew'', [CHR 0xD8, CHR 0xA8, CHR 0xD8, CHR 0xAF, CHR 0xD8, CHR 0xA1] @ '' '' @ [CHR 0xD8, CHR 0xB7, CHR 0xD9, CHR 0x84, CHR 0xD8, CHR 0xA8] @ '' '' @ [CHR 0xD8, CHR 0xAC, CHR 0xD8, CHR 0xAF, CHR 0xD9, CHR 0x8A, CHR 0xD8, CHR 0xAF]),
      (''receipt.thankYouMessage'', [CHR 0xD8, CHR 0xB4, CHR 0xD9, CHR 0x83, CHR 0xD8, CHR 0xB1, CHR 0xD8, CHR 0xA7, CHR 0xD9, CHR 0x8B] @ '' '' @ [CHR 0xD9, CHR 0x84, CHR 0xD9, CHR 0x83] @ '' '' @ [CHR 0xD8, CHR 0xB9, CHR 0xD9, CHR 0x84, CHR 0xD9, CHR 0x89] @ '' '' @ [CHR 0xD8, CHR 0xB4, CHR 0xD8, CHR 0xB1, CHR 0xD8, CHR 0xA7, CHR 0xD8, CHR 0xA6, CHR 0xD9, CHR 0x83] @ ''!''),
      (''status.offline'', [CHR 0xD8, CHR 0xBA, CHR 0xD9, CHR 0x8A, CHR 0xD8, CHR 0xB1] @ '' '' @ [CHR 0xD9, CHR 0x85, CHR 0xD8, CHR 0xAA, CHR 0xD8, CHR 0xB5, CHR 0xD9, CHR 0x84]),
      (''status.online'', [CHR 0xD9, CHR 0x85, CHR 0xD8, CHR 0xAA, CHR 0xD8, CHR 0xB5, CHR 0xD9, CHR 0x84]),
      (''status.connecting'', [CHR 0xD8, CHR 0xAC, CHR 0xD8, CHR 0xA7, CHR 0xD8, CHR 0xB1, CHR 0xD9, CHR 0x8A] @ '' '' @ [CHR 0xD8, CHR 0xA7, CHR 0xD9, CHR 0x84, CHR 0xD8, CHR 0xA7, CHR 0xD8, CHR 0xAA, CHR 0xD8, CHR 0xB5, CHR 0xD8, CHR 0xA7, CHR 0xD9, CHR 0x84] @ ''...''),
      (''status.network'', [CHR 0xD8, CHR 0xA7, CHR 0xD9, CHR 0x84, CHR 0xD8, CHR 0xB4, CHR 0xD8, CHR 0xA8, CHR 0xD9, CHR 0x83, CHR 0xD8, CHR 0xA9]),
      (''idle.warning'', [CHR 0xD9, CHR 0x87, CHR 0xD9, CHR 0x84] @ '' '' @ [CHR 0xD9, CHR 0x85, CHR 0xD8, CHR 0xA7, CHR 0xD8, CHR 0xB2, CHR 0xD9, CHR 0x84, CHR 0xD8, CHR 0xAA] @ '' '' @ [CHR 0xD8, CHR 0xAA, CHR 0xD8, CHR 0xAA, CHR 0xD8, CHR 0xB3, CHR 0xD9, CHR 0x88, CHR 0xD9, CHR 0x82, CHR 0xD8, CHR 0x9F]),
      (''idle.continue'', [CHR 0xD9, CHR 0x85, CHR 0xD8, CHR 0xAA, CHR 0xD8, CHR 0xA7, CHR 0xD8, CHR 0xA8, CHR 0xD8, CHR 0xB9, CHR 0xD8, CHR 0xA9]),
      (''idle.endSession'', [CHR 0xD8, CHR 0xA5, CHR 0xD9, CHR 0x86, CHR 0xD9, CHR 0x87, CHR 0xD8, CHR 0xA7, CHR 0xD8, CHR 0xA1] @ '' '' @ [CHR 0xD8, CHR 0xA7, CHR 0xD9, CHR 0x84, CHR 0xD8, CHR 0xAC, CHR 0xD9, CHR 0x84, CHR 0xD8, CHR 0xB3, CHR 0xD8, CHR 0xA9]),
      (''idle.timeoutWarning'', [CHR 0xD8, CHR 0xB3, CHR 0xD8, CHR 0xAA, CHR 0xD9, CHR 0x86, CHR 0xD8, CHR 0xAA, CHR 0xD9, CHR 0x87, CHR 0xD9, CHR 0x8A] @ '' '' @ [CHR 0xD8, CHR 0xA7, CHR 0xD9, CHR 0x84, CHR 0xD8, CHR 0xAC, CHR 0xD9, CHR 0x84, CHR 0xD8, CHR 0xB3, CHR 0xD8, CHR 0xA9] @ '' '' @ [CHR 0xD9, CHR 0x82, CHR 0xD8, CHR 0xB1, CHR 0xD9, CHR 0x8A, CHR 0xD8, CHR 0xA8, CHR 0xD8, CHR 0xA7, CHR 0xD9, CHR 0x8B] @ '' '' @ [CHR 0xD8, CHR 0xA8, CHR 0xD8, CHR 0xB3, CHR 0xD8, CHR 0xA8, CHR 0xD8, CHR 0xA8] @ '' '' @ [CHR 0xD8, CHR 0xB9, CHR 0xD8, CHR 0xAF, CHR 0xD9, CHR 0x85] @ '' '' @ [CHR 0xD8, CHR 0xA7, CHR 0xD9, CHR 0x84, CHR 0xD9, CHR 0x86, CHR 0xD8, CHR 0xB4, CHR 0xD8, CHR 0xA7, CHR 0xD8, CHR 0xB7] @ ''.''),
      (''offline.banner'', [CHR 0xD8, CHR 0xA3, CHR 0xD9, CHR 0x86, CHR 0xD8, CHR 0xAA] @ '' '' @ [CHR 0xD8, CHR 0xBA, CHR 0xD9, CHR 0x8A, CHR 0xD8, CHR 0xB1] @ '' '' @ [CHR 0xD9, CHR 0x85, CHR 0xD8, CHR 0xAA, CHR 0xD8, CHR 0xB5, CHR 0xD9, CHR 0x84] @ ''. '' @ [CHR 0xD8, CHR 0xA8, CHR 0xD8, CHR 0xB9, CHR 0xD8, CHR 0xB6] @ '' '' @ [CHR 0xD8, CHR 0xA7, CHR 0xD9, CHR 0x84, CHR 0xD9, CHR 0x85, CHR 0xD9, CHR 0x8A, CHR 0xD8, CHR 0xB2, CHR 0xD8, CHR 0xA7, CHR 0xD8, CHR 0xAA] @ '' '' @ [CHR 0xD9, CHR 0x82, CHR 0xD8, CHR 0xAF] @ '' '' @ [CHR 0xD9, CHR 0x84, CHR 0xD8, CHR 0xA7] @ '' '' @ [CHR 0xD8, CHR 0xAA, CHR 0xD9, CHR 0x83, CHR 0xD9, CHR 0x88, CHR 0xD9, CHR 0x86] @ '' '' @ [CHR 0xD9, CHR 0x85, CHR 0xD8, CHR 0xAA, CHR 0xD8, CHR 0xA7, CHR 0xD8, CHR 0xAD, CHR 0xD8, CHR 0xA9] @ ''.''),
      (''offline.reconnecting'', [CHR 0xD8, CHR 0xAC, CHR 0xD8, CHR 0xA7, CHR 0xD8, CHR 0xB1, CHR 0xD9, CHR 0x8A] @ '' '' @ [CHR 0xD8, CHR 0xA5, CHR 0xD8, CHR 0xB9, CHR 0xD8, CHR 0xA7, CHR 0xD8, CHR 0xAF, CHR 0xD8, CHR 0xA9] @ '' '' @ [CHR 0xD8, CHR 0xA7, CHR 0xD9, CHR 0x84, CHR 0xD8, CHR 0xA7, CHR 0xD8, CHR 0xAA, CHR 0xD8, CHR 0xB5, CHR 0xD8, CHR 0xA7, CHR 0xD9, CHR 0x84] @ ''...''),
      (''offline.longOffline'', [CHR 0xD9, CHR 0x84, CHR 0xD8, CHR 0xA7] @ '' '' @ [CHR 0xD9, CHR 0x8A, CHR 0xD9, CHR 0x88, CHR 0xD8, CHR 0xAC, CHR 0xD8, CHR 0xAF] @ '' '' @ [CHR 0xD8, CHR 0xA7, CHR 0xD8, CHR 0xAA, CHR 0xD8, CHR 0xB5, CHR 0xD8, CHR 0xA7, CHR 0xD9, CHR 0x84] @ '' '' @ [CHR 0xD8, CHR 0xA8, CHR 0xD8, CHR 0xA7, CHR 0xD9, CHR 0x84, CHR 0xD8, CHR 0xB4, CHR 0xD8, CHR 0xA8, CHR 0xD9, CHR 0x83, CHR 0xD8, CHR 0xA9] @ '' '' @ [CHR 0xD9, CHR 0x84, CHR 0xD9, CHR 0x81, CHR 0xD8, CHR 0xAA, CHR 0xD8, CHR 0xB1, CHR 0xD8, CHR 0xA9] @ '' '' @ [CHR 0xD8, CHR 0xB7, CHR 0xD9, CHR 0x88, CHR 0xD9, CHR 0x8A, CHR 0xD9, CHR 0x84, CHR 0xD8, CHR 0xA9] @ ''.''),
      (''error.generic'', [CHR 0xD8, CHR 0xAD, CHR 0xD8, CHR 0xAF, CHR 0xD8, CHR 0xAB] @ '' '' @ [CHR 0xD8, CHR 0xAE, CHR 0xD8, CHR 0xB7, CHR 0xD8, CHR 0xA3] @ '' '' @ [CHR 0xD9, CHR 0x85, CHR 0xD8, CHR 0xA7]),
      (''error.restart'', [CHR 0xD8, CHR 0xA5, CHR 0xD8, CHR 0xB9, CHR 0xD8, CHR 0xA7, CHR 0xD8, CHR 0xAF, CHR 0xD8, CHR 0xA9] @ '' '' @ [CHR 0xD8, CHR 0xAA, CHR 0xD8, CHR 0xB4, CHR 0xD8, CHR 0xBA, CHR 0xD9, CHR 0x8A, CHR 0xD9, CHR 0x84] @ '' '' @ [CHR 0xD8, CHR 0xA7, CHR 0xD9, CHR 0x84, CHR 0xD9, CHR 0x83, CHR 0xD8, CHR 0xB4, CHR 0xD9, CHR 0x83]),
      (''error.retry'', [CHR 0xD8, CHR 0xA5, CHR 0xD8, CHR 0xB9, CHR 0xD8, CHR 0xA7, CHR 0xD8, CHR 0xAF, CHR 0xD8, CHR 0xA9] @ '' '' @ [CHR 0xD8, CHR 0xA7, CHR 0xD9, CHR 0x84, CHR 0xD9, CHR 0x85, CHR 0xD8, CHR 0xAD, CHR 0xD8, CHR 0xA7, CHR 0xD9, CHR 0x88, CHR 0xD9, CHR 0x84, CHR 0xD8, CHR 0xA9]),
      (''error.paymentDeclined'', [CHR 0xD8, CHR 0xAA, CHR 0xD9, CHR 0x85] @ '' '' @ [CHR 0xD8, CHR 0xB1, CHR 0xD9, CHR 0x81, CHR 0xD8, CHR 0xB6] @ '' '' @ [CHR 0xD8, CHR 0xA7, CHR 0xD9, CHR 0x84, CHR 0xD8, CHR 0xAF, CHR 0xD9, CHR 0x81, CHR 0xD8, CHR 0xB9] @ ''. '' @ [CHR 0xD8, CHR 0xAC, CHR 0xD8, CHR 0xB1, CHR 0xD8, CHR 0xA8] @ '' '' @ [CHR 0xD8, CHR 0xB7, CHR 0xD8, CHR 0xB1, CHR 0xD9, CHR 0x8A, CHR 0xD9, CHR 0x82, CHR 0xD8, CHR 0xA9] @ '' '' @ [CHR 0xD8, CHR 0xA3, CHR 0xD8, CHR 0xAE, CHR 0xD8, CHR 0xB1, CHR 0xD9, CHR 0x89] @ ''.''),
      (''error.paymentFailed'', [CHR 0xD9, CHR 0x81, CHR 0xD8, CHR 0xB4, CHR 0xD9, CHR 0x84] @ '' '' @ [CHR 0xD8, CHR 0xA7, CHR 0xD9, CHR 0x84, CHR 0xD8, CHR 0xAF, CHR 0xD9, CHR 0x81, CHR 0xD8, CHR 0xB9] @ ''. '' @ [CHR 0xD9, CHR 0x8A, CHR 0xD8, CHR 0xB1, CHR 0xD8, CHR 0xAC, CHR 0xD9, CHR 0x89] @ '' '' @ [CHR 0xD8, CHR 0xA7, CHR 0xD9, CHR 0x84, CHR 0xD9, CHR 0x85, CHR 0xD8, CHR 0xAD, CHR 0xD8, CHR 0xA7, CHR 0xD9, CHR 0x88, CHR 0xD9, CHR 0x84, CHR 0xD8, CHR 0xA9] @ '' '' @ [CHR 0xD9, CHR 0x85, CHR 0xD8, CHR 0xB1, CHR 0xD8, CHR 0xA9] @ '' '' @ [CHR 0xD8, CHR 0xA3, CHR 0xD8, CHR 0xAE, CHR 0xD8, CHR 0xB1, CHR 0xD9, CHR 0x89] @ ''.''),
      (''error.sessionExpired'', [CHR 0xD8, CHR 0xA7, CHR 0xD9, CHR 0x86, CHR 0xD8, CHR 0xAA, CHR 0xD9, CHR 0x87, CHR 0xD8, CHR 0xAA] @ '' '' @ [CHR 0xD8, CHR 0xA7, CHR 0xD9, CHR 0x84, CHR 0xD8, CHR 0xAC, CHR 0xD9, CHR 0x84, CHR 0xD8, CHR 0xB3, CHR 0xD8, CHR 0xA9] @ ''. '' @ [CHR 0xD9, CHR 0x8A, CHR 0xD8, CHR 0xB1, CHR 0xD8, CHR 0xAC, CHR 0xD9, CHR 0x89] @ '' '' @ [CHR 0xD8, CHR 0xA7, CHR 0xD9, CHR 0x84, CHR 0xD8, CHR 0xA8, CHR 0xD8, CHR 0xAF, CHR 0xD8, CHR 0xA1] @ '' '' @ [CHR 0xD9, CHR 0x85, CHR 0xD9, CHR 0x86] @ '' '' @ [CHR 0xD8, CHR 0xAC, CHR 0xD8, CHR 0xAF, CHR 0xD9, CHR 0x8A, CHR 0xD8, CHR 0xAF] @ ''.''),
      (''error.connectionLost'', [CHR 0xD9, CHR 0x81, CHR 0xD9, CHR 0x82, CHR 0xD8, CHR 0xAF] @ '' '' @ [CHR 0xD8, CHR 0xA7, CHR 0xD9, CHR 0x84, CHR 0xD8, CHR 0xA7, CHR 0xD8, CHR 0xAA, CHR 0xD8, CHR 0xB5, CHR 0xD8, CHR 0xA7, CHR 0xD9, CHR 0x84] @ ''. '' @ [CHR 0xD8, CHR 0xAC, CHR 0xD8, CHR 0xA7, CHR 0xD8, CHR 0xB1, CHR 0xD9, CHR 0x8A] @ '' '' @ [CHR 0xD8, CHR 0xA7, CHR 0xD9, CHR 0x84, CHR 0xD8, CHR 0xAA, CHR 0xD8, CHR 0xAD, CHR 0xD9, CHR 0x82, CHR 0xD9, CHR 0x82] @ '' '' @ [CHR 0xD9, CHR 0x85, CHR 0xD9, CHR 0x86] @ '' '' @ [CHR 0xD8, CHR 0xA7, CHR 0xD9, CHR 0x84, CHR 0xD8, CHR 0xB4, CHR 0xD8, CHR 0xA8, CHR 0xD9, CHR 0x83, CHR 0xD8, CHR 0xA9] @ ''...''),
      (''admin.title'', [CHR 0xD9, CHR 0x84, CHR 0xD9, CHR 0x88, CHR 0xD8, CHR 0xAD, CHR 0xD8, CHR 0xA9] @ '' '' @ [CHR 0xD8, CHR 0xA7, CHR 0xD9, CHR 0x84, CHR 0xD8, CHR 0xA5, CHR 0xD8, CHR 0xAF, CHR 0xD8, CHR 0xA7, CHR 0xD8, CHR 0xB1, CHR 0xD8, CHR 0xA9]),
      (''admin.close'', [CHR 0xD8, CHR 0xA5, CHR 0xD8, CHR 0xBA, CHR 0xD9, CHR 0x84, CHR 0xD8, CHR 0xA7, CHR 0xD9, CHR 0x82]),
      (''admin.dashboard'', [CHR 0xD9, CHR 0x84, CHR 0xD9, CHR 0x88, CHR 0xD8, CHR 0xAD, CHR 0xD8, CHR 0xA9] @ '' '' @ [CHR 0xD8, CHR 0xA7, CHR 0xD9, CHR 0x84, CHR 0xD9, CHR 0x82, CHR 0xD9, CHR 0x8A, CHR 0xD8, CHR 0xA7, CHR 0xD8, CHR 0xAF, CHR 0xD8, CHR 0xA9]),
      (''general.confirm'', [CHR 0xD8, CHR 0xAA, CHR 0xD8, CHR 0xA3, CHR 0xD9, CHR 0x83, CHR 0xD9, CHR 0x8A, CHR 0xD8, CHR 0xAF]),
      (''general.cancel'', [CHR 0xD8, CHR 0xA5, CHR 0xD9, CHR 0x84, CHR 0xD8, CHR 0xBA, CHR 0xD8, CHR 0xA7, CHR 0xD8, CHR 0xA1]),
      (''general.back'', [CHR 0xD8, CHR 0xB1, CHR 0xD8, CHR 0xAC, CHR 0xD9, CHR 0x88, CHR 0xD8, CHR 0xB9]),
      (''general.next'', [CHR 0xD8, CHR 0xA7, CHR 0xD9, CHR 0x84, CHR 0xD8, CHR 0xAA, CHR 0xD8, CHR 0xA7, CHR 0xD9, CHR 0x84, CHR 0xD9, CHR 0x8A]),
      (''general.done'', [CHR 0xD8, CHR 0xAA, CHR 0xD9, CHR 0x85]),
      (''general.loading'', [CHR 0xD8, CHR 0xAC, CHR 0xD8, CHR 0xA7, CHR 0xD8, CHR 0xB1, CHR 0xD9, CHR 0x8A] @ '' '' @ [CHR 0xD8, CHR 0xA7, CHR 0xD9, CHR 0x84, CHR 0xD8, CHR 0xAA, CHR 0xD8, CHR 0xAD, CHR 0xD9, CHR 0x85, CHR 0xD9, CHR 0x8A, CHR 0xD9, CHR 0x84] @ ''...''),
      (''general.save'', [CHR 0xD8, CHR 0xAD, CHR 0xD9, CHR 0x81, CHR 0xD8, CHR 0xB8]),
      (''general.delete'', [CHR 0xD8, CHR 0xAD, CHR 0xD8, CHR 0xB0, CHR 0xD9, CHR 0x81]),
      (''general.edit'', [CHR 0xD8, CHR 0xAA, CHR 0xD8, CHR 0xB9, CHR 0xD8, CHR 0xAF, CHR 0xD9, CHR 0x8A, CHR 0xD9, CHR 0x84]),
      (''general.search'', [CHR 0xD8, CHR 0xA8, CHR 0xD8, CHR 0xAD, CHR 0xD8, CHR 0xAB]),
      (''general.close'', [CHR 0xD8, CHR 0xA5, CHR 0xD8, CHR 0xBA, CHR 0xD9, CHR 0x84, CHR 0xD8, CHR 0xA7, CHR 0xD9, CHR 0x82]),
      (''general.yes'', [CHR 0xD9, CHR 0x86, CHR 0xD8, CHR 0xB9, CHR 0xD9, CHR 0x85]),
      (''general.no'', [CHR 0xD9, CHR 0x84, CHR 0xD8, CHR 0xA7]),
      (''a11y.closeModal'', [CHR 0xD8, CHR 0xA5, CHR 0xD8, CHR 0xBA, CHR 0xD9, CHR 0x84, CHR 0xD8, CHR 0xA7, CHR 0xD9, CHR 0x82] @ '' '' @ [CHR 0xD8, CHR 0xA7, CHR 0xD9, CHR 0x84, CHR 0xD9, CHR 0x86, CHR 0xD8, CHR 0xA7, CHR 0xD9, CHR 0x81, CHR 0xD8, CHR 0xB0, CHR 0xD8, CHR 0xA9] @ '' '' @ [CHR 0xD8, CHR 0xA7, CHR 0xD9, CHR 0x84, CHR 0xD9, CHR 0x85, CHR 0xD9, CHR 0x86, CHR 0xD8, CHR 0xA8, CHR 0xD8, CHR 0xAB, CHR 0xD9, CHR 0x82, CHR 0xD8, CHR 0xA9]),
      (''a11y.navigateBack'', [CHR 0xD8, CHR 0xA7, CHR 0xD9, CHR 0x84, CHR 0xD8, CHR 0xB9, CHR 0xD9, CHR 0x88, CHR 0xD8, CHR 0xAF, CHR 0xD8, CHR 0xA9] @ '' '' @ [CHR 0xD9, CHR 0x84, CHR 0xD9, CHR 0x84, CHR 0xD8, CHR 0xAE, CHR 0xD9, CHR 0x84, CHR 0xD9, CHR 0x81]),
      (''menu.noItemsHint'', ''Try a different search term or check all categories''),
      (''menu.categoriesLabel'', ''Menu categories''),
      (''menu.categories.mains'', ''Mains''),
      (''menu.categories.drinks'', ''Drinks''),
      (''menu.clearSearch'', ''Clear search''),
      (''menu.itemsInCart'', ''{count} items in cart'')]"

definition texts_ar_2 :: TranslationMap where
  "texts_ar_2 =
     [(''item.included'', ''Included''),
      (''item.chooseCount'', ''Choose {count}''),
      (''item.chooseRange'', ''Choose {min}-{max}''),
      (''item.closeLabel'', ''Close item details''),
      (''item.decreaseQuantity'', ''Decrease quantity''),
      (''item.increaseQuantity'', ''Increase quantity''),
      (''item.quantityLabel'', ''Quantity: {count}''),
      (''item.addToCartLabel'', ''Add {name} to cart '' @ [CHR 0xE2, CHR 0x80, CHR 0x94] @ '' {amount}''),
      (''item.priceAddition'', ''+{amount}''),
      (''item.customizeLabel'', ''Customize {name}''),
      (''cart.itemSingular'', ''{count} item''),
      (''cart.tapToEdit'', ''Tap an item to edit''),
      (''cart.itemsLabel'', ''Cart items''),
      (''cart.pay'', ''Pay {amount}''),
      (''cart.editItem'', ''Edit {name}. Quantity: {quantity}. Price: {amount}''),
      (''cart.decreaseQuantity'', ''Decrease quantity of {name}''),
      (''cart.increaseQuantity'', ''Increase quantity of {name}''),
      (''cart.quantityLabel'', ''Quantity: {count}''),
      (''cart.priceLabel'', ''Price: {amount}''),
      (''payment.cardNfc'', ''Card / NFC''),
      (''payment.qrCode'', ''QR Code''),
      (''payment.verifyToComplete'', ''Verify to complete''),
      (''payment.pinPadInstruction'', ''Please use the PIN pad or present your card to the terminal.''),
      (''payment.terminalStatus'', ''Terminal: {status}''),
      (''payment.authorizing'', ''Authorizing...''),
      (''payment.authorize'', ''Authorize''),
      (''payment.authorized'', ''Authorized''),
      (''payment.connected'', ''Connected''),
      (''payment.cartSummary'', ''Cart summary: {count} items, total {amount}. Tap to {action}.''),
      (''payment.expand'', ''expand''),
      (''payment.collapse'', ''collapse''),
      (''payment.employeeOverrideHint'', ''Employee override. Hold for 3 seconds.''),
      (''payment.cancelPayment'', ''Cancel payment''),
      (''payment.confirmPayment'', ''Pay {amount}''),
      (''processing.connecting'', ''Connecting to terminal...''),
      (''processing.waitingForCard'', ''Waiting for card...''),
      (''processing.authorizing'', ''Authorizing...''),
      (''processing.finalizingStage'', ''Finalizing...''),
      (''processing.default'', ''Processing...''),
      (''processing.terminalStatus'', ''Terminal: {label}''),
      (''processing.orderFailed'', ''Order could not be completed''),
      (''processing.orderFailedMessage'', ''We couldn'' @ [CHR 0x27] @ ''t complete your order. Please try again.''),
      (''processing.retry'', ''Try again''),
      (''processing.cancelReturn'', ''Cancel and return to cart''),
      (''receipt.printing'', ''Printing...''),
      (''receipt.emailSending'', ''Sending...''),
      (''receipt.emailSent'', ''Sent!''),
      (''receipt.printerUnavailable'', ''Printer unavailable. Receipt saved.''),
      (''receipt.srComplete'', ''Order complete. Tap start new order to continue.''),
      (''receipt.srReady'', ''Receipt ready.''),
      (''receipt.printLabel'', ''Print receipt''),
      (''receipt.emailLabel'', ''Email receipt''),
      (''receipt.startNewLabel'', ''Start new order''),
      (''status.synced'', ''Synced''),
      (''status.syncing'', ''Syncing''),
      (''status.p2pStatus'', ''P2P sync status: {label}. Tap for mesh details.''),
      (''status.kioskStatus'', ''Kiosk status''),
      (''status.p2pTitle'', ''P2P mesh sync''),
      (''status.meshDescription'', ''This kiosk shares cart and order state with nearby peers over a local mesh so orders survive network drops.''),
      (''status.connectedPeers'', ''Connected peers''),
      (''status.syncLag'', ''Sync lag''),
      (''status.role'', ''Role''),
      (''status.leader'', ''Leader''),
      (''status.peer'', ''Peer''),
      (''status.thisKiosk'', ''This kiosk''),
      (''status.apiOnline'', ''API online''),
      (''status.apiDegraded'', ''API degraded''),
      (''status.apiOffline'', ''API offline''),
      (''status.networkConnected'', ''Connected to network''),
      (''status.networkDisconnected'', ''No network connection''),
      (''idle.message'', ''Tap below to continue, or this kiosk will reset for the next customer.''),
      (''idle.continueLabel'', ''I am still here''),
      (''idle.endSessionLabel'', ''Start over''),
      (''idle.ariaLabel'', ''Idle timeout warning''),
      (''offline.workingOffline'', ''Working offline. Your cart is secure.''),
      (''offline.dismiss'', ''Dismiss offline notice''),
      (''error.helpMessage'', ''Please ask a staff member for help. We apologise for the inconvenience.''),
      (''admin.kioskStatus'', ''Kiosk Status''),
      (''admin.session'', ''Session''),
      (''admin.laneMode'', ''Lane Mode''),
      (''admin.apiStatus'', ''API Status''),
      (''admin.cartHasItems'', ''Cart Has Items''),
      (''admin.actions'', ''Actions''),
      (''admin.simulateOnline'', ''Simulate Online''),
      (''admin.simulateOffline'', ''Simulate Offline''),
      (''admin.errors'', ''Errors''),
      (''admin.closeLabel'', ''Close admin panel''),
      (''item.modifierSingular'', ''{count} modifier''),
      (''item.modifierPlural'', ''{count} modifiers'')]"

definition texts_ar :: TranslationMap where
  "texts_ar = texts_ar_1 @ texts_ar_2"

definition texts_ur_1 :: TranslationMap where
  "texts_ur_1 =
     [(''language.select'', [CHR 0xD8, CHR 0xA7, CHR 0xD9, CHR 0xBE, CHR 0xD9, CHR 0x86, CHR 0xDB, CHR 0x8C] @ '' '' @ [CHR 0xD8, CHR 0xB2, CHR 0xD8, CHR 0xA8, CHR 0xD8, CHR 0xA7, CHR 0xD9, CHR 0x86] @ '' '' @ [CHR 0xD9, CHR 0x85, CHR 0xD9, CHR 0x86, CHR 0xD8, CHR 0xAA, CHR 0xD8, CHR 0xAE, CHR 0xD8, CHR 0xA8] @ '' '' @ [CHR 0xDA, CHR 0xA9, CHR 0xD8, CHR 0xB1, CHR 0xDB, CHR 0x8C, CHR 0xDA, CHR 0xBA]),
      (''language.mainLanguages'', [CHR 0xD8, CHR 0xA7, CHR 0xDB, CHR 0x81, CHR 0xD9, CHR 0x85] @ '' '' @ [CHR 0xD8, CHR 0xB2, CHR 0xD8, CHR 0xA8, CHR 0xD8, CHR 0xA7, CHR 0xD9, CHR 0x86, CHR 0xDB, CHR 0x8C, CHR 0xDA, CHR 0xBA]),
      (''language.moreLanguages'', [CHR 0xD9, CHR 0x85, CHR 0xD8, CHR 0xB2, CHR 0xDB, CHR 0x8C, CHR 0xD8, CHR 0xAF] @ '' '' @ [CHR 0xD8, CHR 0xB2, CHR 0xD8, CHR 0xA8, CHR 0xD8, CHR 0xA7, CHR 0xD9, CHR 0x86, CHR 0xDB, CHR 0x8C, CHR 0xDA, CHR 0xBA]),
      (''language.continue'', [CHR 0xD8, CHR 0xAC, CHR 0xD8, CHR 0xA7, CHR 0xD8, CHR 0xB1, CHR 0xDB, CHR 0x8C] @ '' '' @ [CHR 0xD8, CHR 0xB1, CHR 0xDA, CHR 0xA9, CHR 0xDA, CHR 0xBE, CHR 0xDB, CHR 0x8C, CHR 0xDA, CHR 0xBA]),
      (''attract.title'', ''Astra''),
      (''attract.touchToBegin'', [CHR 0xD8, CHR 0xB4, CHR 0xD8, CHR 0xB1, CHR 0xD9, CHR 0x88, CHR 0xD8, CHR 0xB9] @ '' '' @ [CHR 0xDA, CHR 0xA9, CHR 0xD8, CHR 0xB1, CHR 0xD9, CHR 0x86, CHR 0xDB, CHR 0x92] @ '' '' @ [CHR 0xDA, CHR 0xA9, CHR 0xDB, CHR 0x92] @ '' '' @ [CHR 0xD9, CHR 0x84, CHR 0xDB, CHR 0x8C, CHR 0xDB, CHR 0x92] @ '' '' @ [CHR 0xD8, CHR 0xAA, CHR 0xDA, CHR 0xBE, CHR 0xD9, CHR 0xBE, CHR 0xD8, CHR 0xAA, CHR 0xDA, CHR 0xBE, CHR 0xD9, CHR 0xBE, CHR 0xD8, CHR 0xA7, CHR 0xD8, CHR 0xA6, CHR 0xDB, CHR 0x8C, CHR 0xDA, CHR 0xBA]),
      (''attract.laneInfo'', [CHR 0xD8, CHR 0xB3, CHR 0xDB, CHR 0x8C, CHR 0xD9, CHR 0x84, CHR 0xD9, CHR 0x81] @ '' '' @ [CHR 0xDA, CHR 0x86, CHR 0xDB, CHR 0x8C, CHR 0xDA, CHR 0xA9] @ '' '' @ [CHR 0xD8, CHR 0xA2, CHR 0xD8, CHR 0xA4, CHR 0xD9, CHR 0xB9] @ '' '' @ [CHR 0xE2, CHR 0x80, CHR 0xA2] @ '' '' @ [CHR 0xD9, CHR 0x84, CHR 0xDB, CHR 0x8C, CHR 0xD9, CHR 0x86] @ '' {lane}''),
      (''attract.screenReader'', [CHR 0xDA, CHR 0xA9, CHR 0xD8, CHR 0xB4, CHR 0xD8, CHR 0xB4] @ '' '' @ [CHR 0xD8, CHR 0xA7, CHR 0xD8, CHR 0xB3, CHR 0xDA, CHR 0xA9, CHR 0xD8, CHR 0xB1, CHR 0xDB, CHR 0x8C, CHR 0xD9, CHR 0x86, CHR 0xDB, CHR 0x94] @ '' '' @ [CHR 0xD8, CHR 0xAE, CHR 0xD8, CHR 0xB1, CHR 0xDB, CHR 0x8C, CHR 0xD8, CHR 0xAF, CHR 0xD8, CHR 0xA7, CHR 0xD8, CHR 0xB1, CHR 0xDB, CHR 0x8C] @ '' '' @ [CHR 0xD8, CHR 0xB4, CHR 0xD8, CHR 0xB1, CHR 0xD9, CHR 0x88, CHR 0xD8, CHR 0xB9] @ '' '' @ [CHR 0xDA, CHR 0xA9, CHR 0xD8, CHR 0xB1, CHR 0xD9, CHR 0x86, CHR 0xDB, CHR 0x92] @ '' '' @ [CHR 0xDA, CHR 0xA9, CHR 0xDB, CHR 0x92] @ '' '' @ [CHR 0xD9, CHR 0x84, CHR 0xDB, CHR 0x8C, CHR 0xDB, CHR 0x92] @ '' '' @ [CHR 0xD8, CHR 0xAA, CHR 0xDA, CHR 0xBE, CHR 0xD9, CHR 0xBE, CHR 0xD8, CHR 0xAA, CHR 0xDA, CHR 0xBE, CHR 0xD9, CHR 0xBE, CHR 0xD8, CHR 0xA7, CHR 0xD8, CHR 0xA6, CHR 0xDB, CHR 0x8C, CHR 0xDA, CHR 0xBA, CHR 0xDB, CHR 0x94]),
      (''menu.title'', [CHR 0xD9, CHR 0x85, CHR 0xDB, CHR 0x8C, CHR 0xD9, CHR 0x86, CHR 0xD9, CHR 0x88]),
      (''menu.search'', [CHR 0xD9, CHR 0x85, CHR 0xDB, CHR 0x8C, CHR 0xD9, CHR 0x86, CHR 0xD9, CHR 0x88] @ '' '' @ [CHR 0xD8, CHR 0xAA, CHR 0xD9, CHR 0x84, CHR 0xD8, CHR 0xA7, CHR 0xD8, CHR 0xB4] @ '' '' @ [CHR 0xDA, CHR 0xA9, CHR 0xD8, CHR 0xB1, CHR 0xDB, CHR 0x8C, CHR 0xDA, CHR 0xBA] @ ''...''),
      (''menu.noItems'', [CHR 0xDA, CHR 0xA9, CHR 0xD9, CHR 0x88, CHR 0xD8, CHR 0xA6, CHR 0xDB, CHR 0x8C] @ '' '' @ [CHR 0xD8, CHR 0xA2, CHR 0xD8, CHR 0xA6, CHR 0xD9, CHR 0xB9, CHR 0xD9, CHR 0x85] @ '' '' @ [CHR 0xD9, CHR 0x86, CHR 0xDB, CHR 0x81, CHR 0xDB, CHR 0x8C, CHR 0xDA, CHR 0xBA] @ '' '' @ [CHR 0xD9, CHR 0x85, CHR 0xD9, CHR 0x84, CHR 0xD8, CHR 0xA7]),
      (''menu.backToMenu'', [CHR 0xD9, CHR 0x85, CHR 0xDB, CHR 0x8C, CHR 0xD9, CHR 0x86, CHR 0xD9, CHR 0x88] @ '' '' @ [CHR 0xD9, CHR 0xBE, CHR 0xD8, CHR 0xB1] @ '' '' @ [CHR 0xD9, CHR 0x88, CHR 0xD8, CHR 0xA7, CHR 0xD9, CHR 0xBE, CHR 0xD8, CHR 0xB3] @ '' '' @ [CHR 0xD8, CHR 0xAC, CHR 0xD8, CHR 0xA7, CHR 0xD8, CHR 0xA6, CHR 0xDB, CHR 0x8C, CHR 0xDA, CHR 0xBA]),
      (''menu.viewCart'', [CHR 0xDA, CHR 0xA9, CHR 0xD8, CHR 0xA7, CHR 0xD8, CHR 0xB1, CHR 0xD9, CHR 0xB9] @ '' '' @ [CHR 0xD8, CHR 0xAF, CHR 0xDB, CHR 0x8C, CHR 0xDA, CHR 0xA9, CHR 0xDA, CHR 0xBE, CHR 0xDB, CHR 0x8C, CHR 0xDA, CHR 0xBA] @ '' ({count})''),
      (''menu.itemAdded'', [CHR 0xD8, CHR 0xA2, CHR 0xD8, CHR 0xA6, CHR 0xD9, CHR 0xB9, CHR 0xD9, CHR 0x85] @ '' '' @ [CHR 0xD8, CHR 0xB4, CHR 0xD8, CHR 0xA7, CHR 0xD9, CHR 0x85, CHR 0xD9, CHR 0x84] @ '' '' @ [CHR 0xDA, CHR 0xA9, CHR 0xD8, CHR 0xB1] @ '' '' @ [CHR 0xD8, CHR 0xAF, CHR 0xDB, CHR 0x8C, CHR 0xD8, CHR 0xA7] @ '' '' @ [CHR 0xDA, CHR 0xAF, CHR 0xDB, CHR 0x8C, CHR 0xD8, CHR 0xA7]),
      (''menu.categories.all'', [CHR 0xD8, CHR 0xB3, CHR 0xD8, CHR 0xA8]),
      (''item.addToCart'', [CHR 0xDA, CHR 0xA9, CHR 0xD8, CHR 0xA7, CHR 0xD8, CHR 0xB1, CHR 0xD9, CHR 0xB9] @ '' '' @ [CHR 0xD9, CHR 0x85, CHR 0xDB, CHR 0x8C, CHR 0xDA, CHR 0xBA] @ '' '' @ [CHR 0xD8, CHR 0xB4, CHR 0xD8, CHR 0xA7, CHR 0xD9, CHR 0x85, CHR 0xD9, CHR 0x84] @ '' '' @ [CHR 0xDA, CHR 0xA9, CHR 0xD8, CHR 0xB1, CHR 0xDB, CHR 0x8C, CHR 0xDA, CHR 0xBA]),
      (''item.quantity'', [CHR 0xD9, CHR 0x85, CHR 0xD9, CHR 0x82, CHR 0xD8, CHR 0xAF, CHR 0xD8, CHR 0xA7, CHR 0xD8, CHR 0xB1]),
      (''item.modifiers'', [CHR 0xD8, CHR 0xA7, CHR 0xD9, CHR 0xBE, CHR 0xD9, CHR 0x86, CHR 0xDB, CHR 0x8C] @ '' '' @ [CHR 0xD9, CHR 0x85, CHR 0xD8, CHR 0xB1, CHR 0xD8, CHR 0xB6, CHR 0xDB, CHR 0x8C] @ '' '' @ [CHR 0xDA, CHR 0xA9, CHR 0xDB, CHR 0x92] @ '' '' @ [CHR 0xD9, CHR 0x85, CHR 0xD8, CHR 0xB7, CHR 0xD8, CHR 0xA7, CHR 0xD8, CHR 0xA8, CHR 0xD9, CHR 0x82] @ '' '' @ [CHR 0xD8, CHR 0xA8, CHR 0xD9, CHR 0x86, CHR 0xD8, CHR 0xA7, CHR 0xD8, CHR 0xA6, CHR 0xDB, CHR 0x8C, CHR 0xDA, CHR 0xBA]),
      (''item.price'', [CHR 0xD9, CHR 0x82, CHR 0xDB, CHR 0x8C, CHR 0xD9, CHR 0x85, CHR 0xD8, CHR 0xAA]),
      (''item.description'', [CHR 0xD8, CHR 0xAA, CHR 0xD9, CHR 0x81, CHR 0xD8, CHR 0xB5, CHR 0xDB, CHR 0x8C, CHR 0xD9, CHR 0x84]),
      (''cart.title'', [CHR 0xD8, CHR 0xA2, CHR 0xD9, CHR 0xBE] @ '' '' @ [CHR 0xDA, CHR 0xA9, CHR 0xDB, CHR 0x8C] @ '' '' @ [CHR 0xDA, CHR 0xA9, CHR 0xD8, CHR 0xA7, CHR 0xD8, CHR 0xB1, CHR 0xD9, CHR 0xB9]),
      (''cart.empty'', [CHR 0xD8, CHR 0xA2, CHR 0xD9, CHR 0xBE] @ '' '' @ [CHR 0xDA, CHR 0xA9, CHR 0xDB, CHR 0x8C] @ '' '' @ [CHR 0xDA, CHR 0xA9, CHR 0xD8, CHR 0xA7, CHR 0xD8, CHR 0xB1, CHR 0xD9, CHR 0xB9] @ '' '' @ [CHR 0xD8, CHR 0xAE, CHR 0xD8, CHR 0xA7, CHR 0xD9, CHR 0x84, CHR 0xDB, CHR 0x8C] @ '' '' @ [CHR 0xDB, CHR 0x81, CHR 0xDB, CHR 0x92]),
      (''cart.subtotal'', [CHR 0xD8, CHR 0xB0, CHR 0xDB, CHR 0x8C, CHR 0xD9, CHR 0x84, CHR 0xDB, CHR 0x8C] @ '' '' @ [CHR 0xDA, CHR 0xA9, CHR 0xD9, CHR 0x84]),
      (''cart.tax'', [CHR 0xD9, CHR 0xB9, CHR 0xDB, CHR 0x8C, CHR 0xDA, CHR 0xA9, CHR 0xD8, CHR 0xB3]),
      (''cart.total'', [CHR 0xDA, CHR 0xA9, CHR 0xD9, CHR 0x84]),
      (''cart.backToMenu'', [CHR 0xD9, CHR 0x85, CHR 0xDB, CHR 0x8C, CHR 0xD9, CHR 0x86, CHR 0xD9, CHR 0x88] @ '' '' @ [CHR 0xD9, CHR 0xBE, CHR 0xD8, CHR 0xB1] @ '' '' @ [CHR 0xD9, CHR 0x88, CHR 0xD8, CHR 0xA7, CHR 0xD9, CHR 0xBE, CHR 0xD8, CHR 0xB3] @ '' '' @ [CHR 0xD8, CHR 0xAC, CHR 0xD8, CHR 0xA7, CHR 0xD8, CHR 0xA6, CHR 0xDB, CHR 0x8C, CHR 0xDA, CHR 0xBA]),
      (''cart.proceedToPayment'', [CHR 0xD8, CHR 0xA7, CHR 0xD8, CHR 0xAF, CHR 0xD8, CHR 0xA7, CHR 0xD8, CHR 0xA6, CHR 0xDB, CHR 0x8C, CHR 0xDA, CHR 0xAF, CHR 0xDB, CHR 0x8C] @ '' '' @ [CHR 0xDA, CHR 0xA9, CHR 0xDB, CHR 0x92] @ '' '' @ [CHR 0xD9, CHR 0x84, CHR 0xDB, CHR 0x8C, CHR 0xDB, CHR 0x92] @ '' '' @ [CHR 0xD8, CHR 0xAA, CHR 0xDB, CHR 0x8C, CHR 0xD8, CHR 0xA7, CHR 0xD8, CHR 0xB1]),
      (''cart.removeItem'', [CHR 0xDB, CHR 0x81, CHR 0xD9, CHR 0xB9, CHR 0xD8, CHR 0xA7, CHR 0xD8, CHR 0xA6, CHR 0xDB, CHR 0x8C, CHR 0xDA, CHR 0xBA]),
      (''cart.itemCount'', ''{count} '' @ [CHR 0xD8, CHR 0xA2, CHR 0xD8, CHR 0xA6, CHR 0xD9, CHR 0xB9, CHR 0xD9, CHR 0x85, CHR 0xD8, CHR 0xB2]),
      (''cart.summary'', [CHR 0xD8, CHR 0xA2, CHR 0xD8, CHR 0xB1, CHR 0xDA, CHR 0x88, CHR 0xD8, CHR 0xB1] @ '' '' @ [CHR 0xDA, CHR 0xA9, CHR 0xD8, CHR 0xA7] @ '' '' @ [CHR 0xD8, CHR 0xAE, CHR 0xD9, CHR 0x84, CHR 0xD8, CHR 0xA7, CHR 0xD8, CHR 0xB5, CHR 0xDB, CHR 0x81]),
      (''payment.title'', [CHR 0xD8, CHR 0xA7, CHR 0xD8, CHR 0xAF, CHR 0xD8, CHR 0xA7, CHR 0xD8, CHR 0xA6, CHR 0xDB, CHR 0x8C, CHR 0xDA, CHR 0xAF, CHR 0xDB, CHR 0x8C]),
      (''payment.confirm'', [CHR 0xD8, CHR 0xA7, CHR 0xD8, CHR 0xAF, CHR 0xD8, CHR 0xA7, CHR 0xD8, CHR 0xA6, CHR 0xDB, CHR 0x8C, CHR 0xDA, CHR 0xAF, CHR 0xDB, CHR 0x8C] @ '' '' @ [CHR 0xDA, CHR 0xA9, CHR 0xDB, CHR 0x8C] @ '' '' @ [CHR 0xD8, CHR 0xAA, CHR 0xD8, CHR 0xB5, CHR 0xD8, CHR 0xAF, CHR 0xDB, CHR 0x8C, CHR 0xD9, CHR 0x82] @ '' '' @ [CHR 0xDA, CHR 0xA9, CHR 0xD8, CHR 0xB1, CHR 0xDB, CHR 0x8C, CHR 0xDA, CHR 0xBA]),
      (''payment.cancel'', [CHR 0xD9, CHR 0x85, CHR 0xD9, CHR 0x86, CHR 0xD8, CHR 0xB3, CHR 0xD9, CHR 0x88, CHR 0xD8, CHR 0xAE] @ '' '' @ [CHR 0xDA, CHR 0xA9, CHR 0xD8, CHR 0xB1, CHR 0xDB, CHR 0x8C, CHR 0xDA, CHR 0xBA]),
      (''payment.processing'', [CHR 0xD8, CHR 0xA7, CHR 0xD8, CHR 0xAF, CHR 0xD8, CHR 0xA7, CHR 0xD8, CHR 0xA6, CHR 0xDB, CHR 0x8C, CHR 0xDA, CHR 0xAF, CHR 0xDB, CHR 0x8C] @ '' '' @ [CHR 0xD9, CHR 0xBE, CHR 0xD8, CHR 0xB1] @ '' '' @ [CHR 0xDA, CHR 0xA9, CHR 0xD8, CHR 0xA7, CHR 0xD8, CHR 0xB1, CHR 0xD8, CHR 0xB1, CHR 0xD9, CHR 0x88, CHR 0xD8, CHR 0xA7, CHR 0xD8, CHR 0xA6, CHR 0xDB, CHR 0x8C] @ '' '' @ [CHR 0xDB, CHR 0x81, CHR 0xD9, CHR 0x88] @ '' '' @ [CHR 0xD8, CHR 0xB1, CHR 0xDB, CHR 0x81, CHR 0xDB, CHR 0x8C] @ '' '' @ [CHR 0xDB, CHR 0x81, CHR 0xDB, CHR 0x92] @ ''...''),
      (''payment.selectMethod'', [CHR 0xD8, CHR 0xA7, CHR 0xD8, CHR 0xAF, CHR 0xD8, CHR 0xA7, CHR 0xD8, CHR 0xA6, CHR 0xDB, CHR 0x8C, CHR 0xDA, CHR 0xAF, CHR 0xDB, CHR 0x8C] @ '' '' @ [CHR 0xDA, CHR 0xA9, CHR 0xD8, CHR 0xA7] @ '' '' @ [CHR 0xD8, CHR 0xB7, CHR 0xD8, CHR 0xB1, CHR 0xDB, CHR 0x8C, CHR 0xD9, CHR 0x82, CHR 0xDB, CHR 0x81] @ '' '' @ [CHR 0xD9, CHR 0x85, CHR 0xD9, CHR 0x86, CHR 0xD8, CHR 0xAA, CHR 0xD8, CHR 0xAE, CHR 0xD8, CHR 0xA8] @ '' '' @ [CHR 0xDA, CHR 0xA9, CHR 0xD8, CHR 0xB1, CHR 0xDB, CHR 0x8C, CHR 0xDA, CHR 0xBA]),
      (''payment.card'', [CHR 0xDA, CHR 0xA9, CHR 0xD8, CHR 0xA7, CHR 0xD8, CHR 0xB1, CHR 0xDA, CHR 0x88]),
      (''payment.cash'', [CHR 0xD9, CHR 0x86, CHR 0xD9, CHR 0x82, CHR 0xD8, CHR 0xAF]),
      (''payment.mobile'', [CHR 0xD9, CHR 0x85, CHR 0xD9, CHR 0x88, CHR 0xD8, CHR 0xA8, CHR 0xD8, CHR 0xA7, CHR 0xD8, CHR 0xA6, CHR 0xD9, CHR 0x84] @ '' '' @ [CHR 0xD9, CHR 0x88, CHR 0xD8, CHR 0xA7, CHR 0xD9, CHR 0x84, CHR 0xDB, CHR 0x8C, CHR 0xD9, CHR 0xB9]),
      (''payment.biometric'', [CHR 0xD8, CHR 0xA8, CHR 0xD8, CHR 0xA7, CHR 0xDB, CHR 0x8C, CHR 0xD9, CHR 0x88, CHR 0xD9, CHR 0x85, CHR 0xDB, CHR 0x8C, CHR 0xD9, CHR 0xB9, CHR 0xD8, CHR 0xB1, CHR 0xDA, CHR 0xA9]),
      (''payment.employeeOverride'', [CHR 0xD9, CHR 0x85, CHR 0xD9, CHR 0x84, CHR 0xD8, CHR 0xA7, CHR 0xD8, CHR 0xB2, CHR 0xD9, CHR 0x85] @ '' '' @ [CHR 0xDA, CHR 0xA9, CHR 0xDB, CHR 0x8C] @ '' '' @ [CHR 0xD8, CHR 0xA7, CHR 0xD8, CHR 0xAC, CHR 0xD8, CHR 0xA7, CHR 0xD8, CHR 0xB2, CHR 0xD8, CHR 0xAA]),
      (''payment.insertCard'', [CHR 0xDA, CHR 0xA9, CHR 0xD8, CHR 0xA7, CHR 0xD8, CHR 0xB1, CHR 0xDA, CHR 0x88] @ '' '' @ [CHR 0xD8, CHR 0xAF, CHR 0xD8, CHR 0xA7, CHR 0xD8, CHR 0xAE, CHR 0xD9, CHR 0x84] @ '' '' @ [CHR 0xDA, CHR 0xA9, CHR 0xD8, CHR 0xB1, CHR 0xDB, CHR 0x8C, CHR 0xDA, CHR 0xBA] @ '' '' @ [CHR 0xDB, CHR 0x8C, CHR 0xD8, CHR 0xA7] @ '' '' @ [CHR 0xD8, CHR 0xAA, CHR 0xDA, CHR 0xBE, CHR 0xD9, CHR 0xBE, CHR 0xD8, CHR 0xAA, CHR 0xDA, CHR 0xBE, CHR 0xD9, CHR 0xBE, CHR 0xD8, CHR 0xA7, CHR 0xD8, CHR 0xA6, CHR 0xDB, CHR 0x8C, CHR 0xDA, CHR 0xBA]),
      (''payment.scanQR'', ''QR '' @ [CHR 0xDA, CHR 0xA9, CHR 0xD9, CHR 0x88, CHR 0xDA, CHR 0x88] @ '' '' @ [CHR 0xD8, CHR 0xA7, CHR 0xD8, CHR 0xB3, CHR 0xDA, CHR 0xA9, CHR 0xDB, CHR 0x8C, CHR 0xD9, CHR 0x86] @ '' '' @ [CHR 0xDA, CHR 0xA9, CHR 0xD8, CHR 0xB1, CHR 0xDB, CHR 0x8C, CHR 0xDA, CHR 0xBA]),
      (''payment.tapPhone'', [CHR 0xD8, CHR 0xA7, CHR 0xD9, CHR 0xBE, CHR 0xD9, CHR 0x86, CHR 0xD8, CHR 0xA7] @ '' '' @ [CHR 0xD9, CHR 0x81, CHR 0xD9, CHR 0x88, CHR 0xD9, CHR 0x86] @ '' '' @ [CHR 0xD8, CHR 0xAA, CHR 0xDA, CHR 0xBE, CHR 0xD9, CHR 0xBE, CHR 0xD8, CHR 0xAA, CHR 0xDA, CHR 0xBE, CHR 0xD9, CHR 0xBE, CHR 0xD8, CHR 0xA7, CHR 0xD8, CHR 0xA6, CHR 0xDB, CHR 0x8C, CHR 0xDA, CHR 0xBA]),
      (''payment.amount'', [CHR 0xD8, CHR 0xB1, CHR 0xD9, CHR 0x82, CHR 0xD9, CHR 0x85]),
      (''processing.title'', [CHR 0xDA, CHR 0xA9, CHR 0xD8, CHR 0xA7, CHR 0xD8, CHR 0xB1, CHR 0xD8, CHR 0xB1, CHR 0xD9, CHR 0x88, CHR 0xD8, CHR 0xA7, CHR 0xD8, CHR 0xA6, CHR 0xDB, CHR 0x8C] @ '' '' @ [CHR 0xD8, CHR 0xAC, CHR 0xD8, CHR 0xA7, CHR 0xD8, CHR 0xB1, CHR 0xDB, CHR 0x8C]),
      (''processing.pleaseWait'', [CHR 0xD8, CHR 0xA8, CHR 0xD8, CHR 0xB1, CHR 0xD8, CHR 0xA7, CHR 0xDB, CHR 0x81] @ '' '' @ [CHR 0xDA, CHR 0xA9, CHR 0xD8, CHR 0xB1, CHR 0xD9, CHR 0x85] @ '' '' @ [CHR 0xD8, CHR 0xA7, CHR 0xD9, CHR 0x86, CHR 0xD8, CHR 0xAA, CHR 0xD8, CHR 0xB8, CHR 0xD8, CHR 0xA7, CHR 0xD8, CHR 0xB1] @ '' '' @ [CHR 0xDA, CHR 0xA9, CHR 0xD8, CHR 0xB1, CHR 0xDB, CHR 0x8C, CHR 0xDA, CHR 0xBA] @ ''...''),
      (''processing.finalizing'', [CHR 0xD8, CHR 0xA2, CHR 0xD9, CHR 0xBE] @ '' '' @ [CHR 0xDA, CHR 0xA9, CHR 0xDB, CHR 0x92] @ '' '' @ [CHR 0xD8, CHR 0xA2, CHR 0xD8, CHR 0xB1, CHR 0xDA, CHR 0x88, CHR 0xD8, CHR 0xB1] @ '' '' @ [CHR 0xDA, CHR 0xA9, CHR 0xD9, CHR 0x88] @ '' '' @ [CHR 0xD8, CHR 0xAD, CHR 0xD8, CHR 0xAA, CHR 0xD9, CHR 0x85, CHR 0xDB, CHR 0x8C] @ '' '' @ [CHR 0xD8, CHR 0xB4, CHR 0xDA, CHR 0xA9, CHR 0xD9, CHR 0x84] @ '' '' @ [CHR 0xD8, CHR 0xAF, CHR 0xDB, CHR 0x8C] @ '' '' @ [CHR 0xD8, CHR 0xAC, CHR 0xD8, CHR 0xA7] @ '' '' @ [CHR 0xD8, CHR 0xB1, CHR 0xDB, CHR 0x81, CHR 0xDB, CHR 0x8C] @ '' '' @ [CHR 0xDB, CHR 0x81, CHR 0xDB, CHR 0x92]),
      (''processing.redirecting'', [CHR 0xD8, CHR 0xB1, CHR 0xD8, CHR 0xB3, CHR 0xDB, CHR 0x8C, CHR 0xD8, CHR 0xAF] @ '' '' @ [CHR 0xD9, CHR 0xBE, CHR 0xD8, CHR 0xB1] @ '' '' @ [CHR 0xD8, CHR 0xA8, CHR 0xDA, CHR 0xBE, CHR 0xDB, CHR 0x8C, CHR 0xD8, CHR 0xAC, CHR 0xD8, CHR 0xA7] @ '' '' @ [CHR 0xD8, CHR 0xAC, CHR 0xD8, CHR 0xA7] @ '' '' @ [CHR 0xD8, CHR 0xB1, CHR 0xDB, CHR 0x81, CHR 0xD8, CHR 0xA7] @ '' '' @ [CHR 0xDB, CHR 0x81, CHR 0xDB, CHR 0x92]),
      (''receipt.title'', [CHR 0xD8, CHR 0xB4, CHR 0xDA, CHR 0xA9, CHR 0xD8, CHR 0xB1, CHR 0xDB, CHR 0x8C, CHR 0xDB, CHR 0x81]),
      (''receipt.orderNumber'', [CHR 0xD8, CHR 0xA2, CHR 0xD8, CHR 0xB1, CHR 0xDA, CHR 0x88, CHR 0xD8, CHR 0xB1] @ '' #{number}''),
      (''receipt.print'', [CHR 0xD8, CHR 0xB1, CHR 0xD8, CHR 0xB3, CHR 0xDB, CHR 0x8C, CHR 0xD8, CHR 0xAF] @ '' '' @ [CHR 0xD9, CHR 0xBE, CHR 0xD8, CHR 0xB1, CHR 0xD9, CHR 0x86, CHR 0xD9, CHR 0xB9] @ '' '' @ [CHR 0xDA, CHR 0xA9, CHR 0xD8, CHR 0xB1, CHR 0xDB, CHR 0x8C, CHR 0xDA, CHR 0xBA]),
      (''receipt.email'', [CHR 0xD8, CHR 0xA7, CHR 0xDB, CHR 0x8C] @ '' '' @ [CHR 0xD9, CHR 0x85, CHR 0xDB, CHR 0x8C, CHR 0xD9, CHR 0x84] @ '' '' @ [CHR 0xDA, CHR 0xA9, CHR 0xDB, CHR 0x92] @ '' '' @ [CHR 0xD8, CHR 0xB0, CHR 0xD8, CHR 0xB1, CHR 0xDB, CHR 0x8C, CHR 0xD8, CHR 0xB9, CHR 0xDB, CHR 0x92] @ '' '' @ [CHR 0xD8, CHR 0xB1, CHR 0xD8, CHR 0xB3, CHR 0xDB, CHR 0x8C, CHR 0xD8, CHR 0xAF]),
      (''receipt.startNew'', [CHR 0xD9, CHR 0x86, CHR 0xDB, CHR 0x8C, CHR 0xD8, CHR 0xA7] @ '' '' @ [CHR 0xD8, CHR 0xA2, CHR 0xD8, CHR 0xB1, CHR 0xDA, CHR 0x88, CHR 0xD8, CHR 0xB1] @ '' '' @ [CHR 0xD8, CHR 0xB4, CHR 0xD8, CHR 0xB1, CHR 0xD9, CHR 0x88, CHR 0xD8, CHR 0xB9] @ '' '' @ [CHR 0xDA, CHR 0xA9, CHR 0xD8, CHR 0xB1, CHR 0xDB, CHR 0x8C, CHR 0xDA, CHR 0xBA]),
      (''receipt.thankYouMessage'', [CHR 0xD8, CHR 0xA2, CHR 0xD9, CHR 0xBE] @ '' '' @ [CHR 0xDA, CHR 0xA9, CHR 0xDB, CHR 0x8C] @ '' '' @ [CHR 0xD8, CHR 0xAE, CHR 0xD8, CHR 0xB1, CHR 0xDB, CHR 0x8C, CHR 0xD8, CHR 0xAF, CHR 0xD8, CHR 0xA7, CHR 0xD8, CHR 0xB1, CHR 0xDB, CHR 0x8C] @ '' '' @ [CHR 0xDA, CHR 0xA9, CHR 0xD8, CHR 0xA7] @ '' '' @ [CHR 0xD8, CHR 0xB4, CHR 0xDA, CHR 0xA9, CHR 0xD8, CHR 0xB1, CHR 0xDB, CHR 0x8C, CHR 0xDB, CHR 0x81] @ ''!''),
      (''status.offline'', [CHR 0xD8, CHR 0xA2, CHR 0xD9, CHR 0x81] @ '' '' @ [CHR 0xD9, CHR 0x84, CHR 0xD8, CHR 0xA7, CHR 0xD8, CHR 0xA6, CHR 0xD9, CHR 0x86]),
      (''status.online'', [CHR 0xD8, CHR 0xA2, CHR 0xD9, CHR 0x86] @ '' '' @ [CHR 0xD9, CHR 0x84, CHR 0xD8, CHR 0xA7, CHR 0xD8, CHR 0xA6, CHR 0xD9, CHR 0x86]),
      (''status.connecting'', [CHR 0xD9, CHR 0x85, CHR 0xD9, CHR 0x86, CHR 0xD8, CHR 0xB3, CHR 0xD9, CHR 0x84, CHR 0xDA, CHR 0xA9] @ '' '' @ [CHR 0xDB, CHR 0x81, CHR 0xD9, CHR 0x88] @ '' '' @ [CHR 0xD8, CHR 0xB1, CHR 0xDB, CHR 0x81, CHR 0xD8, CHR 0xA7] @ '' '' @ [CHR 0xDB, CHR 0x81, CHR 0xDB, CHR 0x92] @ ''...''),
      (''status.network'', [CHR 0xD9, CHR 0x86, CHR 0xDB, CHR 0x8C, CHR 0xD9, CHR 0xB9] @ '' '' @ [CHR 0xD9, CHR 0x88, CHR 0xD8, CHR 0xB1, CHR 0xDA, CHR 0xA9]),
      (''idle.warning'', [CHR 0xD8, CHR 0xA7, CHR 0xD8, CHR 0xA8, CHR 0xDA, CHR 0xBE, CHR 0xDB, CHR 0x8C] @ '' '' @ [CHR 0xD8, CHR 0xA8, CHR 0xDA, CHR 0xBE, CHR 0xDB, CHR 0x8C] @ '' '' @ [CHR 0xD8, CHR 0xAE, CHR 0xD8, CHR 0xB1, CHR 0xDB, CHR 0x8C, CHR 0xD8, CHR 0xAF, CHR 0xD8, CHR 0xA7, CHR 0xD8, CHR 0xB1, CHR 0xDB, CHR 0x8C] @ '' '' @ [CHR 0xDA, CHR 0xA9, CHR 0xD8, CHR 0xB1] @ '' '' @ [CHR 0xD8, CHR 0xB1, CHR 0xDB, CHR 0x81, CHR 0xDB, CHR 0x92] @ '' '' @ [CHR 0xDB, CHR 0x81, CHR 0xDB, CHR 0x8C, CHR 0xDA, CHR 0xBA, CHR 0xD8, CHR 0x9F]),
      (''idle.continue'', [CHR 0xD8, CHR 0xAC, CHR 0xD8, CHR 0xA7, CHR 0xD8, CHR 0xB1, CHR 0xDB, CHR 0x8C] @ '' '' @ [CHR 0xD8, CHR 0xB1, CHR 0xDA, CHR 0xA9, CHR 0xDA, CHR 0xBE, CHR 0xDB, CHR 0x8C, CHR 0xDA, CHR 0xBA]),
      (''idle.endSession'', [CHR 0xD8, CHR 0xB3, CHR 0xDB, CHR 0x8C, CHR 0xD8, CHR 0xB4, CHR 0xD9, CHR 0x86] @ '' '' @ [CHR 0xD8, CHR 0xAE, CHR 0xD8, CHR 0xAA, CHR 0xD9, CHR 0x85] @ '' '' @ [CHR 0xDA, CHR 0xA9, CHR 0xD8, CHR 0xB1, CHR 0xDB, CHR 0x8C, CHR 0xDA, CHR 0xBA]),
      (''idle.timeoutWarning'', [CHR 0xD8, CHR 0xBA, CHR 0xDB, CHR 0x8C, CHR 0xD8, CHR 0xB1, CHR 0xD9, CHR 0x81, CHR 0xD8, CHR 0xB9, CHR 0xD8, CHR 0xA7, CHR 0xD9, CHR 0x84, CHR 0xDB, CHR 0x8C, CHR 0xD8, CHR 0xAA] @ '' '' @ [CHR 0xDA, CHR 0xA9, CHR 0xDB, CHR 0x8C] @ '' '' @ [CHR 0xD9, CHR 0x88, CHR 0xD8, CHR 0xAC, CHR 0xDB, CHR 0x81] @ '' '' @ [CHR 0xD8, CHR 0xB3, CHR 0xDB, CHR 0x92] @ '' '' @ [CHR 0xD8, CHR 0xB3, CHR 0xDB, CHR 0x8C, CHR 0xD8, CHR 0xB4, CHR 0xD9, CHR 0x86] @ '' '' @ [CHR 0xD8, CHR 0xAC, CHR 0xD9, CHR 0x84, CHR 0xD8, CHR 0xAF] @ '' '' @ [CHR 0xD8, CHR 0xAE, CHR 0xD8, CHR 0xAA, CHR 0xD9, CHR 0x85] @ '' '' @ [CHR 0xDB, CHR 0x81, CHR 0xD9, CHR 0x88] @ '' '' @ [CHR 0xD8, CHR 0xAC, CHR 0xD8, CHR 0xA7, CHR 0xD8, CHR 0xA6, CHR 0xDB, CHR 0x92] @ '' '' @ [CHR 0xDA, CHR 0xAF, CHR 0xD8, CHR 0xA7, CHR 0xDB, CHR 0x94]),
      (''offline.banner'', [CHR 0xD8, CHR 0xA2, CHR 0xD9, CHR 0xBE] @ '' '' @ [CHR 0xD8, CHR 0xA2, CHR 0xD9, CHR 0x81] @ '' '' @ [CHR 0xD9, CHR 0x84, CHR 0xD8, CHR 0xA7, CHR 0xD8, CHR 0xA6, CHR 0xD9, CHR 0x86] @ '' '' @ [CHR 0xDB, CHR 0x81, CHR 0xDB, CHR 0x8C, CHR 0xDA, CHR 0xBA, CHR 0xDB, CHR 0x94] @ '' '' @ [CHR 0xDA, CHR 0xA9, CHR 0xDA, CHR 0x86, CHR 0xDA, CHR 0xBE] @ '' '' @ [CHR 0xD8, CHR 0xAE, CHR 0xD8, CHR 0xB5, CHR 0xD9, CHR 0x88, CHR 0xD8, CHR 0xB5, CHR 0xDB, CHR 0x8C, CHR 0xD8, CHR 0xA7, CHR 0xD8, CHR 0xAA] @ '' '' @ [CHR 0xD8, CHR 0xAF, CHR 0xD8, CHR 0xB3, CHR 0xD8, CHR 0xAA, CHR 0xDB, CHR 0x8C, CHR 0xD8, CHR 0xA7, CHR 0xD8, CHR 0xA8] @ '' '' @ [CHR 0xD9, CHR 0x86, CHR 0xDB, CHR 0x81, CHR 0xDB, CHR 0x8C, CHR 0xDA, CHR 0xBA] @ '' '' @ [CHR 0xDB, CHR 0x81, CHR 0xD9, CHR 0x88] @ '' '' @ [CHR 0xD8, CHR 0xB3, CHR 0xDA, CHR 0xA9, CHR 0xD8, CHR 0xAA, CHR 0xDB, CHR 0x8C, CHR 0xDA, CHR 0xBA, CHR 0xDB, CHR 0x94]),
      (''offline.reconnecting'', [CHR 0xD8, CHR 0xAF, CHR 0xD9, CHR 0x88, CHR 0xD8, CHR 0xA8, CHR 0xD8, CHR 0xA7, CHR 0xD8, CHR 0xB1, CHR 0xDB, CHR 0x81] @ '' '' @ [CHR 0xD9, CHR 0x85, CHR 0xD9, CHR 0x86, CHR 0xD8, CHR 0xB3, CHR 0xD9, CHR 0x84, CHR 0xDA, CHR 0xA9] @ '' '' @ [CHR 0xDB, CHR 0x81, CHR 0xD9, CHR 0x88] @ '' '' @ [CHR 0xD8, CHR 0xB1, CHR 0xDB, CHR 0x81, CHR 0xD8, CHR 0xA7] @ '' '' @ [CHR 0xDB, CHR 0x81, CHR 0xDB, CHR 0x92] @ ''...''),
      (''offline.longOffline'', [CHR 0xD8, CHR 0xB7, CHR 0xD9, CHR 0x88, CHR 0xDB, CHR 0x8C, CHR 0xD9, CHR 0x84] @ '' '' @ [CHR 0xD8, CHR 0xB9, CHR 0xD8, CHR 0xB1, CHR 0xD8, CHR 0xB5, CHR 0xDB, CHR 0x92] @ '' '' @ [CHR 0xD8, CHR 0xB3, CHR 0xDB, CHR 0x92] @ '' '' @ [CHR 0xDA, CHR 0xA9, CHR 0xD9, CHR 0x88, CHR 0xD8, CHR 0xA6, CHR 0xDB, CHR 0x8C] @ '' '' @ [CHR 0xD9, CHR 0x86, CHR 0xDB, CHR 0x8C, CHR 0xD9, CHR 0xB9] @ '' '' @ [CHR 0xD9, CHR 0x88, CHR 0xD8, CHR 0xB1, CHR 0xDA, CHR 0xA9] @ '' '' @ [CHR 0xDA, CHR 0xA9, CHR 0xD9, CHR 0x86, CHR 0xDA, CHR 0xA9, CHR 0xD8, CHR 0xB4, CHR 0xD9, CHR 0x86] @ '' '' @ [CHR 0xD9, CHR 0x86, CHR 0xDB, CHR 0x81, CHR 0xDB, CHR 0x8C, CHR 0xDA, CHR 0xBA] @ '' '' @ [CHR 0xDB, CHR 0x81, CHR 0xDB, CHR 0x92, CHR 0xDB, CHR 0x94]),
      (''error.generic'', [CHR 0xDA, CHR 0xA9, CHR 0xDA, CHR 0x86, CHR 0xDA, CHR 0xBE] @ '' '' @ [CHR 0xD8, CHR 0xBA, CHR 0xD9, CHR 0x84, CHR 0xD8, CHR 0xB7] @ '' '' @ [CHR 0xDB, CHR 0x81, CHR 0xD9, CHR 0x88] @ '' '' @ [CHR 0xDA, CHR 0xAF, CHR 0xDB, CHR 0x8C, CHR 0xD8, CHR 0xA7]),
      (''error.restart'', [CHR 0xDA, CHR 0xA9, CHR 0xDB, CHR 0x8C, CHR 0xD9, CHR 0x88, CHR 0xD8, CHR 0xB3, CHR 0xDA, CHR 0xA9] @ '' '' @ [CHR 0xD8, CHR 0xAF, CHR 0xD9, CHR 0x88, CHR 0xD8, CHR 0xA8, CHR 0xD8, CHR 0xA7, CHR 0xD8, CHR 0xB1, CHR 0xDB, CHR 0x81] @ '' '' @ [CHR 0xD8, CHR 0xB4, CHR 0xD8, CHR 0xB1, CHR 0xD9, CHR 0x88, CHR 0xD8, CHR 0xB9] @ '' '' @ [CHR 0xDA, CHR 0xA9, CHR 0xD8, CHR 0xB1, CHR 0xDB, CHR 0x8C, CHR 0xDA, CHR 0xBA]),
      (''error.retry'', [CHR 0xD8, CHR 0xAF, CHR 0xD9, CHR 0x88, CHR 0xD8, CHR 0xA8, CHR 0xD8, CHR 0xA7, CHR 0xD8, CHR 0xB1, CHR 0xDB, CHR 0x81] @ '' '' @ [CHR 0xDA, CHR 0xA9, CHR 0xD9, CHR 0x88, CHR 0xD8, CHR 0xB4, CHR 0xD8, CHR 0xB4] @ '' '' @ [CHR 0xDA, CHR 0xA9, CHR 0xD8, CHR 0xB1, CHR 0xDB, CHR 0x8C, CHR 0xDA, CHR 0xBA]),
      (''error.paymentDeclined'', [CHR 0xD8, CHR 0xA7, CHR 0xD8, CHR 0xAF, CHR 0xD8, CHR 0xA7, CHR 0xD8, CHR 0xA6, CHR 0xDB, CHR 0x8C, CHR 0xDA, CHR 0xAF, CHR 0xDB, CHR 0x8C] @ '' '' @ [CHR 0xD9, CHR 0x85, CHR 0xD8, CHR 0xB3, CHR 0xD8, CHR 0xAA, CHR 0xD8, CHR 0xB1, CHR 0xD8, CHR 0xAF, CHR 0xDB, CHR 0x94] @ '' '' @ [CHR 0xDA, CHR 0xA9, CHR 0xD9, CHR 0x88, CHR 0xD8, CHR 0xA6, CHR 0xDB, CHR 0x8C] @ '' '' @ [CHR 0xD8, CHR 0xA7, CHR 0xD9, CHR 0x88, CHR 0xD8, CHR 0xB1] @ '' '' @ [CHR 0xD8, CHR 0xB7, CHR 0xD8, CHR 0xB1, CHR 0xDB, CHR 0x8C, CHR 0xD9, CHR 0x82, CHR 0xDB, CHR 0x81] @ '' '' @ [CHR 0xD8, CHR 0xA2, CHR 0xD8, CHR 0xB2, CHR 0xD9, CHR 0x85, CHR 0xD8, CHR 0xA7, CHR 0xD8, CHR 0xA6, CHR 0xDB, CHR 0x8C, CHR 0xDA, CHR 0xBA, CHR 0xDB, CHR 0x94]),
      (''error.paymentFailed'', [CHR 0xD8, CHR 0xA7, CHR 0xD8, CHR 0xAF, CHR 0xD8, CHR 0xA7, CHR 0xD8, CHR 0xA6, CHR 0xDB, CHR 0x8C, CHR 0xDA, CHR 0xAF, CHR 0xDB, CHR 0x8C] @ '' '' @ [CHR 0xD9, CHR 0x86, CHR 0xD8, CHR 0xA7, CHR 0xDA, CHR 0xA9, CHR 0xD8, CHR 0xA7, CHR 0xD9, CHR 0x85, CHR 0xDB, CHR 0x94] @ '' '' @ [CHR 0xD8, CHR 0xA8, CHR 0xD8, CHR 0xB1, CHR 0xD8, CHR 0xA7, CHR 0xDB, CHR 0x81] @ '' '' @ [CHR 0xDA, CHR 0xA9, CHR 0xD8, CHR 0xB1, CHR 0xD9, CHR 0x85] @ '' '' @ [CHR 0xD8, CHR 0xAF, CHR 0xD9, CHR 0x88, CHR 0xD8, CHR 0xA8, CHR 0xD8, CHR 0xA7, CHR 0xD8, CHR 0xB1, CHR 0xDB, CHR 0x81] @ '' '' @ [CHR 0xDA, CHR 0xA9, CHR 0xD9, CHR 0x88, CHR 0xD8, CHR 0xB4, CHR 0xD8, CHR 0xB4] @ '' '' @ [CHR 0xDA, CHR 0xA9, CHR 0xD8, CHR 0xB1, CHR 0xDB, CHR 0x8C, CHR 0xDA, CHR 0xBA, CHR 0xDB, CHR 0x94]),
      (''error.sessionExpired'', [CHR 0xD8, CHR 0xB3, CHR 0xDB, CHR 0x8C, CHR 0xD8, CHR 0xB4, CHR 0xD9, CHR 0x86] @ '' '' @ [CHR 0xD8, CHR 0xAE, CHR 0xD8, CHR 0xAA, CHR 0xD9, CHR 0x85] @ '' '' @ [CHR 0xDB, CHR 0x81, CHR 0xD9, CHR 0x88] @ '' '' @ [CHR 0xDA, CHR 0xAF, CHR 0xDB, CHR 0x8C, CHR 0xD8, CHR 0xA7, CHR 0xDB, CHR 0x94] @ '' '' @ [CHR 0xD8, CHR 0xA8, CHR 0xD8, CHR 0xB1, CHR 0xD8, CHR 0xA7, CHR 0xDB, CHR 0x81] @ '' '' @ [CHR 0xDA, CHR 0xA9, CHR 0xD8, CHR 0xB1, CHR 0xD9, CHR 0x85] @ '' '' @ [CHR 0xD8, CHR 0xAF, CHR 0xD9, CHR 0x88, CHR 0xD8, CHR 0xA8, CHR 0xD8, CHR 0xA7, CHR 0xD8, CHR 0xB1, CHR 0xDB, CHR 0x81] @ '' '' @ [CHR 0xD8, CHR 0xB4, CHR 0xD8, CHR 0xB1, CHR 0xD9, CHR 0x88, CHR 0xD8, CHR 0xB9] @ '' '' @ [CHR 0xDA, CHR 0xA9, CHR 0xD8, CHR 0xB1, CHR 0xDB, CHR 0x8C, CHR 0xDA, CHR 0xBA, CHR 0xDB, CHR 0x94]),
      (''error.connectionLost'', [CHR 0xDA, CHR 0xA9, CHR 0xD9, CHR 0x86, CHR 0xDA, CHR 0xA9, CHR 0xD8, CHR 0xB4, CHR 0xD9, CHR 0x86] @ '' '' @ [CHR 0xD8, CHR 0xAE, CHR 0xD8, CHR 0xAA, CHR 0xD9, CHR 0x85] @ '' '' @ [CHR 0xDB, CHR 0x81, CHR 0xD9, CHR 0x88] @ '' '' @ [CHR 0xDA, CHR 0xAF, CHR 0xDB, CHR 0x8C, CHR 0xD8, CHR 0xA7, CHR 0xDB, CHR 0x94] @ '' '' @ [CHR 0xD9, CHR 0x86, CHR 0xDB, CHR 0x8C, CHR 0xD9, CHR 0xB9] @ '' '' @ [CHR 0xD9, CHR 0x88, CHR 0xD8, CHR 0xB1, CHR 0xDA, CHR 0xA9] @ '' '' @ [CHR 0xDA, CHR 0x86, CHR 0xDB, CHR 0x8C, CHR 0xDA, CHR 0xA9] @ '' '' @ [CHR 0xDA, CHR 0xA9, CHR 0xD8, CHR 0xB1] @ '' '' @ [CHR 0xD8, CHR 0xB1, CHR 0xDB, CHR 0x81, CHR 0xD8, CHR 0xA7] @ '' '' @ [CHR 0xDB, CHR 0x81, CHR 0xDB, CHR 0x92] @ ''...''),
      (''admin.title'', [CHR 0xD8, CHR 0xA7, CHR 0xDB, CHR 0x8C, CHR 0xDA, CHR 0x88, CHR 0xD9, CHR 0x85, CHR 0xD9, CHR 0x86] @ '' '' @ [CHR 0xD9, CHR 0xBE, CHR 0xDB, CHR 0x8C, CHR 0xD9, CHR 0x86, CHR 0xD9, CHR 0x84]),
      (''admin.close'', [CHR 0xD8, CHR 0xA8, CHR 0xD9, CHR 0x86, CHR 0xD8, CHR 0xAF] @ '' '' @ [CHR 0xDA, CHR 0xA9, CHR 0xD8, CHR 0xB1, CHR 0xDB, CHR 0x8C, CHR 0xDA, CHR 0xBA]),
      (''admin.dashboard'', [CHR 0xDA, CHR 0x88, CHR 0xDB, CHR 0x8C, CHR 0xD8, CHR 0xB4] @ '' '' @ [CHR 0xD8, CHR 0xA8, CHR 0xD9, CHR 0x88, CHR 0xD8, CHR 0xB1, CHR 0xDA, CHR 0x88]),
      (''general.confirm'', [CHR 0xD8, CHR 0xAA, CHR 0xD8, CHR 0xB5, CHR 0xD8, CHR 0xAF, CHR 0xDB, CHR 0x8C, CHR 0xD9, CHR 0x82] @ '' '' @ [CHR 0xDA, CHR 0xA9, CHR 0xD8, CHR 0xB1, CHR 0xDB, CHR 0x8C, CHR 0xDA, CHR 0xBA]),
      (''general.cancel'', [CHR 0xD9, CHR 0x85, CHR 0xD9, CHR 0x86, CHR 0xD8, CHR 0xB3, CHR 0xD9, CHR 0x88, CHR 0xD8, CHR 0xAE] @ '' '' @ [CHR 0xDA, CHR 0xA9, CHR 0xD8, CHR 0xB1, CHR 0xDB, CHR 0x8C, CHR 0xDA, CHR 0xBA]),
      (''general.back'', [CHR 0xD9, CHR 0xBE, CHR 0xDB, CHR 0x8C, CHR 0xDA, CHR 0x86, CHR 0xDA, CHR 0xBE, CHR 0xDB, CHR 0x92]),
      (''general.next'', [CHR 0xD8, CHR 0xA7, CHR 0xDA, CHR 0xAF, CHR 0xD9, CHR 0x84, CHR 0xD8, CHR 0xA7]),
      (''general.done'', [CHR 0xD9, CHR 0x85, CHR 0xDA, CHR 0xA9, CHR 0xD9, CHR 0x85, CHR 0xD9, CHR 0x84]),
      (''general.loading'', [CHR 0xD9, CHR 0x84, CHR 0xD9, CHR 0x88, CHR 0xDA, CHR 0x88] @ '' '' @ [CHR 0xDB, CHR 0x81, CHR 0xD9, CHR 0x88] @ '' '' @ [CHR 0xD8, CHR 0xB1, CHR 0xDB, CHR 0x81, CHR 0xD8, CHR 0xA7] @ '' '' @ [CHR 0xDB, CHR 0x81, CHR 0xDB, CHR 0x92] @ ''...''),
      (''general.save'', [CHR 0xD9, CHR 0x85, CHR 0xD8, CHR 0xAD, CHR 0xD9, CHR 0x81, CHR 0xD9, CHR 0x88, CHR 0xD8, CHR 0xB8] @ '' '' @ [CHR 0xDA, CHR 0xA9, CHR 0xD8, CHR 0xB1, CHR 0xDB, CHR 0x8C, CHR 0xDA, CHR 0xBA]),
      (''general.delete'', [CHR 0xD8, CHR 0xAD, CHR 0xD8, CHR 0xB0, CHR 0xD9, CHR 0x81] @ '' '' @ [CHR 0xDA, CHR 0xA9, CHR 0xD8, CHR 0xB1, CHR 0xDB, CHR 0x8C, CHR 0xDA, CHR 0xBA]),
      (''general.edit'', [CHR 0xD8, CHR 0xAA, CHR 0xD8, CHR 0xB1, CHR 0xD9, CHR 0x85, CHR 0xDB, CHR 0x8C, CHR 0xD9, CHR 0x85] @ '' '' @ [CHR 0xDA, CHR 0xA9, CHR 0xD8, CHR 0xB1, CHR 0xDB, CHR 0x8C, CHR 0xDA, CHR 0xBA]),
      (''general.search'', [CHR 0xD8, CHR 0xAA, CHR 0xD9, CHR 0x84, CHR 0xD8, CHR 0xA7, CHR 0xD8, CHR 0xB4] @ '' '' @ [CHR 0xDA, CHR 0xA9, CHR 0xD8, CHR 0xB1, CHR 0xDB, CHR 0x8C, CHR 0xDA, CHR 0xBA]),
      (''general.close'', [CHR 0xD8, CHR 0xA8, CHR 0xD9, CHR 0x86, CHR 0xD8, CHR 0xAF] @ '' '' @ [CHR 0xDA, CHR 0xA9, CHR 0xD8, CHR 0xB1, CHR 0xDB, CHR 0x8C, CHR 0xDA, CHR 0xBA]),
      (''general.yes'', [CHR 0xDB, CHR 0x81, CHR 0xD8, CHR 0xA7, CHR 0xDA, CHR 0xBA]),
      (''general.no'', [CHR 0xD9, CHR 0x86, CHR 0xDB, CHR 0x81, CHR 0xDB, CHR 0x8C, CHR 0xDA, CHR 0xBA]),
      (''a11y.closeModal'', [CHR 0xD9, CHR 0x85, CHR 0xD9, CHR 0x88, CHR 0xDA, CHR 0x88, CHR 0xD9, CHR 0x84] @ '' '' @ [CHR 0xD8, CHR 0xA8, CHR 0xD9, CHR 0x86, CHR 0xD8, CHR 0xAF] @ '' '' @ [CHR 0xDA, CHR 0xA9, CHR 0xD8, CHR 0xB1, CHR 0xDB, CHR 0x8C, CHR 0xDA, CHR 0xBA]),
      (''a11y.navigateBack'', [CHR 0xD9, CHR 0x88, CHR 0xD8, CHR 0xA7, CHR 0xD9, CHR 0xBE, CHR 0xD8, CHR 0xB3] @ '' '' @ [CHR 0xD8, CHR 0xAC, CHR 0xD8, CHR 0xA7, CHR 0xD8, CHR 0xA6, CHR 0xDB, CHR 0x8C, CHR 0xDA, CHR 0xBA]),
      (''menu.noItemsHint'', ''Try a different search term or check all categories''),
      (''menu.categoriesLabel'', ''Menu categories''),
      (''menu.categories.mains'', ''Mains''),
      (''menu.categories.drinks'', ''Drinks''),
      (''menu.clearSearch'', ''Clear search''),
      (''menu.itemsInCart'', ''{count} items in cart'')]"

definition texts_ur_2 :: TranslationMap where
  "texts_ur_2 =
     [(''item.included'', ''Included''),
      (''item.chooseCount'', ''Choose {count}''),
      (''item.chooseRange'', ''Choose {min}-{max}''),
      (''item.closeLabel'', ''Close item details''),
      (''item.decreaseQuantity'', ''Decrease quantity''),
      (''item.increaseQuantity'', ''Increase quantity''),
      (''item.quantityLabel'', ''Quantity: {count}''),
      (''item.addToCartLabel'', ''Add {name} to cart '' @ [CHR 0xE2, CHR 0x80, CHR 0x94] @ '' {amount}''),
      (''item.priceAddition'', ''+{amount}''),
      (''item.customizeLabel'', ''Customize {name}''),
      (''cart.itemSingular'', ''{count} item''),
      (''cart.tapToEdit'', ''Tap an item to edit''),
      (''cart.itemsLabel'', ''Cart items''),
      (''cart.pay'', ''Pay {amount}''),
      (''cart.editItem'', ''Edit {name}. Quantity: {quantity}. Price: {amount}''),
      (''cart.decreaseQuantity'', ''Decrease quantity of {name}''),
      (''cart.increaseQuantity'', ''Increase quantity of {name}''),
      (''cart.quantityLabel'', ''Quantity: {count}''),
      (''cart.priceLabel'', ''Price: {amount}''),
      (''payment.cardNfc'', ''Card / NFC''),
      (''payment.qrCode'', ''QR Code''),
      (''payment.verifyToComplete'', ''Verify to complete''),
      (''payment.pinPadInstruction'', ''Please use the PIN pad or present your card to the terminal.''),
      (''payment.terminalStatus'', ''Terminal: {status}''),
      (''payment.authorizing'', ''Authorizing...''),
      (''payment.authorize'', ''Authorize''),
      (''payment.authorized'', ''Authorized''),
      (''payment.connected'', ''Connected''),
      (''payment.cartSummary'', ''Cart summary: {count} items, total {amount}. Tap to {action}.''),
      (''payment.expand'', ''expand''),
      (''payment.collapse'', ''collapse''),
      (''payment.employeeOverrideHint'', ''Employee override. Hold for 3 seconds.''),
      (''payment.cancelPayment'', ''Cancel payment''),
      (''payment.confirmPayment'', ''Pay {amount}''),
      (''processing.connecting'', ''Connecting to terminal...''),
      (''processing.waitingForCard'', ''Waiting for card...''),
      (''processing.authorizing'', ''Authorizing...''),
      (''processing.finalizingStage'', ''Finalizing...''),
      (''processing.default'', ''Processing...''),
      (''processing.terminalStatus'', ''Terminal: {label}''),
      (''processing.orderFailed'', ''Order could not be completed''),
      (''processing.orderFailedMessage'', ''We couldn'' @ [CHR 0x27] @ ''t complete your order. Please try again.''),
      (''processing.retry'', ''Try again''),
      (''processing.cancelReturn'', ''Cancel and return to cart''),
      (''receipt.printing'', ''Printing...''),
      (''receipt.emailSending'', ''Sending...''),
      (''receipt.emailSent'', ''Sent!''),
      (''receipt.printerUnavailable'', ''Printer unavailable. Receipt saved.''),
      (''receipt.srComplete'', ''Order complete. Tap start new order to continue.''),
      (''receipt.srReady'', ''Receipt ready.''),
      (''receipt.printLabel'', ''Print receipt''),
      (''receipt.emailLabel'', ''Email receipt''),
      (''receipt.startNewLabel'', ''Start new order''),
      (''status.synced'', ''Synced''),
      (''status.syncing'', ''Syncing''),
      (''status.p2pStatus'', ''P2P sync status: {label}. Tap for mesh details.''),
      (''status.kioskStatus'', ''Kiosk status''),
      (''status.p2pTitle'', ''P2P mesh sync''),
      (''status.meshDescription'', ''This kiosk shares cart and order state with nearby peers over a local mesh so orders survive network drops.''),
      (''status.connectedPeers'', ''Connected peers''),
      (''status.syncLag'', ''Sync lag''),
      (''status.role'', ''Role''),
      (''status.leader'', ''Leader''),
      (''status.peer'', ''Peer''),
      (''status.thisKiosk'', ''This kiosk''),
      (''status.apiOnline'', ''API online''),
      (''status.apiDegraded'', ''API degraded''),
      (''status.apiOffline'', ''API offline''),
      (''status.networkConnected'', ''Connected to network''),
      (''status.networkDisconnected'', ''No network connection''),
      (''idle.message'', ''Tap below to continue, or this kiosk will reset for the next customer.''),
      (''idle.continueLabel'', ''I am still here''),
      (''idle.endSessionLabel'', ''Start over''),
      (''idle.ariaLabel'', ''Idle timeout warning''),
      (''offline.workingOffline'', ''Working offline. Your cart is secure.''),
      (''offline.dismiss'', ''Dismiss offline notice''),
      (''error.helpMessage'', ''Please ask a staff member for help. We apologise for the inconvenience.''),
      (''admin.kioskStatus'', ''Kiosk Status''),
      (''admin.session'', ''Session''),
      (''admin.laneMode'', ''Lane Mode''),
      (''admin.apiStatus'', ''API Status''),
      (''admin.cartHasItems'', ''Cart Has Items''),
      (''admin.actions'', ''Actions''),
      (''admin.simulateOnline'', ''Simulate Online''),
      (''admin.simulateOffline'', ''Simulate Offline''),
      (''admin.errors'', ''Errors''),
      (''admin.closeLabel'', ''Close admin panel''),
      (''item.modifierSingular'', ''{count} modifier''),
      (''item.modifierPlural'', ''{count} modifiers'')]"

definition texts_ur :: TranslationMap where
  "texts_ur = texts_ur_1 @ texts_ur_2"

end
