(* ===== verification/LocaleTexts.thy ===== *)
theory LocaleTexts
  imports MainTexts EuropeanTexts AsianTexts IndicTexts ArabicTexts
begin

text \<open>
  The registry of the kiosk's texts (\<open>i18n/locales/index.ts\<close>) over all tables, and how the tables of the other languages
  compare with the English one: the placeholders that a text leaves to its parameters, and the texts that are the English ones.
\<close>

definition localeRegistry :: registry where
  "localeRegistry =
     [(L_en, texts_en),
      (L_es, texts_es),
      (L_zh_CN, texts_zh_CN),
      (L_fr, texts_fr),
      (L_ja, texts_ja),
      (L_ko, texts_ko),
      (L_hi, texts_hi),
      (L_ar, texts_ar),
      (L_pt, texts_pt),
      (L_ru, texts_ru),
      (L_bn, texts_bn),
      (L_de, texts_de),
      (L_ur, texts_ur),
      (L_tr, texts_tr),
      (L_zh_TW, texts_zh_TW),
      (L_vi, texts_vi),
      (L_th, texts_th)]"

section \<open>Placeholders\<close>

fun placeholders :: "string \<Rightarrow> string list" where
  "placeholders [] = []"
| "placeholders (c # cs) =
     (if c = CHR ''{'' then takeWhile (\<lambda>d. d \<noteq> CHR ''}'') cs # placeholders cs else placeholders cs)"

definition row_shape :: "TranslationMap \<Rightarrow> (string \<times> string list) list" where
  "row_shape tr = map (\<lambda>kv. (fst kv, placeholders (snd kv))) tr"

text \<open>
  The other tables are alike in their keys. Their rows are those of the English table in four groups, each in the English order;
  one row is left out.
\<close>

datatype row_group = G1 | G2 | G3 | G4 | GNone

definition row_groups :: "row_group list" where
  "row_groups =
     [G1, G1, G1, G1, GNone, G1, G1, G1, G1, G1, G1, G1, G2, G1, G1, G1, G2, G1, G2, G2, G2, G2, G1, G1, G1, G1, G1,
      G2, G2, G2, G2, G2, G2, G2, G2, G2, G2, G4, G4, G1, G1, G1, G1, G1, G1, G1, G1, G1, G2, G1, G2, G2, G2, G2, G2,
      G2, G2, G2, G1, G1, G1, G1, G1, G1, G2, G1, G1, G2, G1, G1, G3, G1, G1, G1, G1, G2, G2, G2, G2, G2, G2, G2, G2,
      G2, G2, G3, G3, G1, G1, G1, G1, G3, G3, G3, G3, G3, G3, G3, G3, G3, G3, G1, G1, G1, G1, G1, G1, G3, G3, G3, G3,
      G3, G3, G3, G3, G3, G1, G1, G1, G1, G3, G3, G3, G3, G3, G3, G3, G3, G3, G3, G3, G3, G3, G3, G3, G3, G3, G1, G1,
      G1, G1, G3, G3, G3, G3, G1, G1, G1, G3, G3, G1, G1, G1, G1, G1, G1, G1, G3, G1, G1, G1, G3, G3, G3, G3, G3, G3,
      G3, G3, G3, G3, G1, G1, G1, G1, G1, G1, G1, G1, G1, G1, G1, G1, G1, G1, G1]"

definition group :: "row_group \<Rightarrow> 'a list \<Rightarrow> 'a list" where
  "group g xs = map snd (filter (\<lambda>p. fst p = g) (zip row_groups xs))"

definition regroup :: "'a list \<Rightarrow> 'a list" where
  "regroup xs = group G1 xs @ group G2 xs @ group G3 xs @ group G4 xs"

lemma regroup_subset: "set (regroup xs) \<subseteq> set xs"
  unfolding regroup_def group_def by (auto dest: set_zip_rightD)

lemma regroup_map: "regroup (map f xs) = map f (regroup xs)"
  by (simp add: regroup_def group_def zip_map2 filter_map comp_def split_def)

section \<open>Keys\<close>

text \<open>Keys of one section stand together; only those of the same section have to be compared.\<close>

definition section_of :: "string \<Rightarrow> string" where
  "section_of k = takeWhile (\<lambda>c. c \<noteq> CHR ''.'') k"

fun fresh_keys :: "string list \<Rightarrow> string \<Rightarrow> string list \<Rightarrow> string list \<Rightarrow> bool" where
  "fresh_keys secs s names [] = True"
| "fresh_keys secs s names (k # ks) =
     (if section_of k = s
      then rev (drop (length s) k) \<notin> set names \<and> fresh_keys secs s (rev (drop (length s) k) # names) ks
      else section_of k \<noteq> s \<and> section_of k \<notin> set secs \<and>
        fresh_keys (s # secs) (section_of k) [rev (drop (length (section_of k)) k)] ks)"

lemma fresh_keys_distinct:
  "fresh_keys secs s names ks \<Longrightarrow> distinct ks \<and>
     (\<forall>k \<in> set ks. section_of k \<notin> set secs - {s} \<and> (section_of k = s \<longrightarrow> rev (drop (length s) k) \<notin> set names))"
proof (induction ks arbitrary: secs s names)
  case (Cons k ks)
  show ?case
  proof (cases "section_of k = s")
    case True
    with Cons.prems have f: "fresh_keys secs s (rev (drop (length s) k) # names) ks" "rev (drop (length s) k) \<notin> set names"
      by auto
    show ?thesis using Cons.IH [OF f(1)] f(2) True by auto
  next
    case False
    with Cons.prems have f: "fresh_keys (s # secs) (section_of k) [rev (drop (length (section_of k)) k)] ks" "section_of k \<notin> set secs"
      by auto
    show ?thesis using Cons.IH [OF f(1)] f(2) False by auto
  qed
qed simp

lemma english_keys_distinct: "distinct (map fst texts_en)"
proof -
  have "fresh_keys [] [] [] (map fst texts_en)" by (simp add: texts_en_def texts_en_1_def texts_en_2_def section_of_def)
  then show ?thesis by (rule fresh_keys_distinct [THEN conjunct1])
qed

section \<open>The tables side by side\<close>

text \<open>The number of texts of a table that are the English ones.\<close>

definition english_left :: "TranslationMap \<Rightarrow> nat" where
  "english_left tr = length (filter (\<lambda>kv. kv \<in> set texts_en) tr)"

definition same_rows :: "TranslationMap \<Rightarrow> TranslationMap \<Rightarrow> nat" where
  "same_rows tr rs = length (filter (\<lambda>p. snd (fst p) = snd (snd p)) (zip tr rs))"

lemma english_left_aligned:
  assumes "map fst tr = map fst (regroup texts_en)"
  shows "english_left tr = same_rows tr (regroup texts_en)"
proof -
  have "map fst tr = map fst rs \<Longrightarrow> set rs \<subseteq> set texts_en \<Longrightarrow> length (filter (\<lambda>kv. kv \<in> set texts_en) tr) = same_rows tr rs" for rs
    unfolding same_rows_def
  proof (induction tr arbitrary: rs)
    case (Cons kv tr)
    then obtain r rs' where rs: "rs = r # rs'" "fst kv = fst r" "map fst tr = map fst rs'" by (cases rs) auto
    have "kv \<in> set texts_en \<longleftrightarrow> snd kv = snd r"
      using Cons.prems(2) english_keys_distinct rs(1,2)
      by (metis eq_key_imp_eq_value insert_subset list.simps(15) prod.collapse)
    then show ?case using Cons.IH [OF rs(3)] Cons.prems(2) rs(1) by simp
  qed simp
  from this [OF assms regroup_subset] show ?thesis by (simp add: english_left_def)
qed

lemma row_shape_texts_es: "row_shape texts_es = regroup (row_shape texts_en)"
  by code_simp

lemma row_shape_texts_zh_CN: "row_shape texts_zh_CN = row_shape texts_es"
  by code_simp

lemma row_shape_texts_fr: "row_shape texts_fr = row_shape texts_es"
  by code_simp

lemma row_shape_texts_ja: "row_shape texts_ja = row_shape texts_es"
  by code_simp

lemma row_shape_texts_ko: "row_shape texts_ko = row_shape texts_es"
  by code_simp

lemma row_shape_texts_hi: "row_shape texts_hi = row_shape texts_es"
  by code_simp

lemma row_shape_texts_ar: "row_shape texts_ar = row_shape texts_es"
  by code_simp

lemma row_shape_texts_pt: "row_shape texts_pt = row_shape texts_es"
  by code_simp

lemma row_shape_texts_ru: "row_shape texts_ru = row_shape texts_es"
  by code_simp

lemma row_shape_texts_bn: "row_shape texts_bn = row_shape texts_es"
  by code_simp

lemma row_shape_texts_de: "row_shape texts_de = row_shape texts_es"
  by code_simp

lemma row_shape_texts_ur: "row_shape texts_ur = row_shape texts_es"
  by code_simp

lemma row_shape_texts_tr: "row_shape texts_tr = row_shape texts_es"
  by code_simp

lemma row_shape_texts_zh_TW: "row_shape texts_zh_TW = row_shape texts_es"
  by code_simp

lemma row_shape_texts_vi: "row_shape texts_vi = row_shape texts_es"
  by code_simp

lemma row_shape_texts_th: "row_shape texts_th = row_shape texts_es"
  by code_simp

lemma same_texts_es: "same_rows texts_es (regroup texts_en) = 99"
  by code_simp

lemmas same_row_shapes =
  row_shape_texts_zh_CN row_shape_texts_fr row_shape_texts_ja row_shape_texts_ko row_shape_texts_hi row_shape_texts_ar
  row_shape_texts_pt row_shape_texts_ru row_shape_texts_bn row_shape_texts_de row_shape_texts_ur row_shape_texts_tr
  row_shape_texts_zh_TW row_shape_texts_vi row_shape_texts_th

text \<open>The table of a language.\<close>

definition texts_of :: "LocaleCode \<Rightarrow> TranslationMap" where
  "texts_of loc = the (map_of localeRegistry loc)"

lemma registry_total: "map_of localeRegistry loc = Some (texts_of loc)"
  by (cases loc) (simp_all add: localeRegistry_def texts_of_def)

lemma row_shape_of: "loc \<noteq> L_en \<Longrightarrow> row_shape (texts_of loc) = regroup (row_shape texts_en)"
proof -
  have "loc \<noteq> L_en \<Longrightarrow> texts_of loc \<in> set (tl (map snd localeRegistry))"
    by (cases loc) (simp_all add: localeRegistry_def texts_of_def)
  moreover have "tr \<in> set (tl (map snd localeRegistry)) \<Longrightarrow> row_shape tr = row_shape texts_es" for tr
    unfolding localeRegistry_def list.map list.sel snd_conv list.set by (elim insertE emptyE) (simp_all only: same_row_shapes)
  ultimately show "loc \<noteq> L_en \<Longrightarrow> ?thesis" unfolding row_shape_texts_es by blast
qed

lemma row_shape_keys: "map fst (row_shape tr) = map fst tr"
  by (simp add: row_shape_def comp_def)

lemma row_shape_member: "(k, v) \<in> set tr \<Longrightarrow> (k, placeholders v) \<in> set (row_shape tr)"
  by (force simp: row_shape_def)

text \<open>
  Whatever the language, the text of a key of the English table leaves the same placeholders in the same order as the English
  text, so that the parameters written for one language fill every other.
\<close>

theorem texts_keep_placeholders:
  assumes "map_of texts_en k = Some v"
  shows "placeholders (text_of localeRegistry loc k) = placeholders v"
proof (cases "loc = L_en \<or> map_of (texts_of loc) k = None")
  case True
  have "texts_of L_en = texts_en" by (simp add: localeRegistry_def texts_of_def)
  then have "text_of localeRegistry loc k = v"
    using True assms by (auto simp: text_of_def translations_of_def registry_total)
  then show ?thesis by simp
next
  case False
  then obtain w where w: "map_of (texts_of loc) k = Some w" by auto
  then have "(k, placeholders w) \<in> set (regroup (row_shape texts_en))"
    using row_shape_member [OF map_of_SomeD] False by (metis row_shape_of)
  then have "(k, placeholders w) \<in> set (row_shape texts_en)" using regroup_subset by fastforce
  then obtain v' where v': "(k, v') \<in> set texts_en" "placeholders w = placeholders v'" by (auto simp: row_shape_def)
  then have "map_of texts_en k = Some v'" using english_keys_distinct by simp
  moreover have "text_of localeRegistry loc k = w" by (simp add: text_of_def translations_of_def registry_total w)
  ultimately show ?thesis using v'(2) assms by simp
qed

text \<open>
  More than half of the texts of the Spanish table are the English ones, those of the cart, the payment and the receipt among
  them. The other tables are like it.
\<close>

theorem spanish_half_english: "length texts_es = 185" "english_left texts_es = 99"
proof -
  have "map fst (row_shape texts_es) = map fst (regroup (row_shape texts_en))" by (simp only: row_shape_texts_es)
  then have "map fst texts_es = map fst (regroup texts_en)" by (simp only: row_shape_keys flip: regroup_map)
  then show "english_left texts_es = 99" by (simp add: english_left_aligned same_texts_es)
  show "length texts_es = 185" by (simp add: texts_es_def texts_es_1_def texts_es_2_def)
qed

end
