(* ===== verification/ScreenViews.thy ===== *)
theory ScreenViews
  imports LocaleTexts StatusViews KioskScreens Shell MenuScreens
begin

text \<open>
  What the kiosk's screens show: their texts, the names that assistive technology reads, and their buttons, in order. Pictures,
  styling and animation are left out. A text is one of the tables with its parameters, which may be texts of the tables
  themselves; or it is written in the screen; or it comes from the data; or it is made of such pieces. The browser's format of an
  amount is an argument.
\<close>

section \<open>Texts and parts\<close>

datatype shown = Tr string "(string \<times> shown) list" | Lit string | Data string | Joined "shown list"

text \<open>A text, the name of a region, and a button: whether it is disabled, its name and its contents.\<close>

datatype part = Says shown | Named shown | Button bool "shown option" "shown list"

abbreviation say :: "string \<Rightarrow> part" where
  "say k \<equiv> Says (Tr k [])"

abbreviation plainly :: "string \<Rightarrow> part" where
  "plainly s \<equiv> Says (Data s)"

fun labels_of :: "part \<Rightarrow> shown list" where
  "labels_of (Says s) = [s]"
| "labels_of (Named s) = [s]"
| "labels_of (Button _ nm ss) = (case nm of None \<Rightarrow> ss | Some s \<Rightarrow> s # ss)"

definition back_arrow :: string where
  "back_arrow = [CHR 0xE2, CHR 0x86, CHR 0x90, CHR '' '']"

definition forward_arrow :: string where
  "forward_arrow = [CHR '' '', CHR 0xE2, CHR 0x86, CHR 0x92]"

definition times_sign :: string where
  "times_sign = [CHR '' '', CHR 0xC3, CHR 0x97, CHR '' '']"

definition dash :: string where
  "dash = [CHR '' '', CHR 0xE2, CHR 0x80, CHR 0x94, CHR '' '']"

definition printing_message :: string where
  "printing_message = ''Printing receipt'' @ [CHR 0xE2, CHR 0x80, CHR 0xA6]"

definition number :: "int \<Rightarrow> shown" where
  "number n = Data (int_digits n)"

fun separated :: "shown \<Rightarrow> shown list \<Rightarrow> shown list" where
  "separated sep (x # y # xs) = x # sep # separated sep (y # xs)"
| "separated sep xs = xs"

text \<open>
  What the screens write themselves: the name of the system, marks and units, and the few words that are not translated.
\<close>

definition literals :: "string list" where
  "literals =
     [''Astra'', back_arrow, forward_arrow, times_sign, dash, ''!'', '' '', '': '', '', '', ''.'', '': +'', '' ms'', ''3'',
      ''Customize '', ''N/A'', printing_message, ''Email sent'']"

text \<open>
  A text of the tables exists in the language, its placeholders are the parameters given, and these are such texts
  themselves; a text of the screen is one of those few.
\<close>

primrec label_ok :: "LocaleCode \<Rightarrow> shown \<Rightarrow> bool" where
  "label_ok loc (Tr k ps) =
     (map_of texts_en k \<noteq> None \<and> set (placeholders (text_of localeRegistry loc k)) = fst ` set ps \<and>
      list_all snd (map (map_prod id (label_ok loc)) ps))"
| "label_ok loc (Lit s) = (s \<in> set literals)"
| "label_ok loc (Data s) = True"
| "label_ok loc (Joined ss) = list_all id (map (label_ok loc) ss)"

definition view_ok :: "LocaleCode \<Rightarrow> part list \<Rightarrow> bool" where
  "view_ok loc v \<longleftrightarrow> list_all (\<lambda>p. list_all (label_ok loc) (labels_of p)) v"

section \<open>The cart\<close>

definition modifier_text :: "(cents \<Rightarrow> string) \<Rightarrow> ModifierSelection \<Rightarrow> shown" where
  "modifier_text money md = Joined [Data (modifierId md), Lit '': +'', Data (money (ModifierSelection.priceDeltaCents md))]"

definition review_row :: "(cents \<Rightarrow> string) \<Rightarrow> CartLineItem \<Rightarrow> part list" where
  "review_row money l =
     [Named (Tr ''cart.editItem''
        [(''name'', Data (CartLineItem.nameSnapshot l)), (''quantity'', number (CartLineItem.quantity l)), (''amount'', Data (money (lineTotalCents l)))]),
      plainly (CartLineItem.nameSnapshot l), plainly (money (lineTotalCents l))] @
     (if modifiers l = [] then [] else [Says (Joined (separated (Lit '', '') (map (modifier_text money) (modifiers l))))]) @
     [Button False (Some (Tr ''cart.decreaseQuantity'' [(''name'', Data (CartLineItem.nameSnapshot l))])) [],
      Named (Tr ''cart.quantityLabel'' [(''count'', number (CartLineItem.quantity l))]), Says (number (CartLineItem.quantity l)),
      Button False (Some (Tr ''cart.increaseQuantity'' [(''name'', Data (CartLineItem.nameSnapshot l))])) []]"

definition review_screen :: "(cents \<Rightarrow> string) \<Rightarrow> dyadic \<Rightarrow> CartLineItem list \<Rightarrow> part list" where
  "review_screen money TAX_RATE ls =
     (let sub = review_subtotal ls; total = review_total TAX_RATE ls in
      [say ''cart.title'', Named (Tr ''cart.itemsLabel'' [])] @
      (if ls = [] then [say ''cart.empty'', say ''menu.noItemsHint''] else []) @
      concat (map (review_row money) ls) @
      (if ls \<noteq> [] then [say ''cart.tapToEdit''] else []) @
      [say ''cart.subtotal'', plainly (money sub), say ''cart.tax'', plainly (money (total - sub)),
       say ''cart.total'', plainly (money total),
       Button False (Some (Tr ''cart.backToMenu'' [])) [Lit back_arrow, Tr ''cart.backToMenu'' []],
       Button False (Some (Tr ''cart.pay'' [(''amount'', Data (money total))])) [Tr ''cart.pay'' [(''amount'', Data (money total))], Lit forward_arrow]])"

text \<open>A cart of more than five items fills the screen, a smaller one is a sheet.\<close>

definition review_full_screen :: "CartLineItem list \<Rightarrow> bool" where
  "review_full_screen ls \<longleftrightarrow> 5 < item_count ls"

section \<open>The payment\<close>

definition count_text :: "int \<Rightarrow> shown" where
  "count_text n = (if n = 1 then Tr ''cart.itemSingular'' [(''count'', number n)] else Tr ''cart.itemCount'' [(''count'', number n)])"

definition auth_summary :: "(cents \<Rightarrow> string) \<Rightarrow> bool \<Rightarrow> CartLineItem list \<Rightarrow> part list" where
  "auth_summary money expanded ls =
     Button False
       (Some (Tr ''payment.cartSummary''
          [(''count'', number (item_count ls)), (''amount'', Data (money (screen_total ls))),
           (''action'', Tr (if expanded then ''payment.collapse'' else ''payment.expand'') [])]))
       [count_text (item_count ls), Data (money (screen_total ls))] #
     (if expanded
      then concat (map (\<lambda>l. [Says (Joined [Data (CartLineItem.nameSnapshot l), Lit times_sign, number (CartLineItem.quantity l)]), plainly (money (line_cents l))]) ls) @
        [say ''cart.total'', plainly (money (screen_total ls))]
      else [])"

definition PAYMENT_LABELS :: "(ScreenMethod \<times> string) list" where
  "PAYMENT_LABELS = [(card_nfc, ''payment.cardNfc''), (cash, ''payment.cash''), (qr_screen, ''payment.qrCode'')]"

definition auth_dialog :: "AuthScreen \<Rightarrow> part list" where
  "auth_dialog s =
     (if \<not> showBiometric s then []
      else
        [Named (Tr ''payment.biometric'' []), say ''payment.verifyToComplete'', say ''payment.pinPadInstruction'',
         Says (Tr ''payment.terminalStatus'' [(''status'', Tr (if authorizing s then ''payment.authorizing'' else ''payment.connected'') [])]),
         Button (authorizing s) None [Tr ''general.cancel'' []],
         Button (authorizing s) None [Tr (if authorizing s then ''payment.authorizing'' else ''payment.authorize'') []]])"

definition auth_screen :: "(cents \<Rightarrow> string) \<Rightarrow> bool \<Rightarrow> CartLineItem list \<Rightarrow> AuthScreen \<Rightarrow> part list" where
  "auth_screen money expanded ls s =
     say ''cart.proceedToPayment'' # auth_summary money expanded ls @
     say ''payment.selectMethod'' #
     map (\<lambda>(_, k). Button False (Some (Tr k [])) [Tr k []]) PAYMENT_LABELS @
     [Button (selectedMethod s = None) (Some (Tr ''payment.confirmPayment'' [(''amount'', Data (money (screen_total ls)))]))
        [Tr ''payment.confirmPayment'' [(''amount'', Data (money (screen_total ls)))]],
      Button False (Some (Tr ''payment.employeeOverrideHint'' [])) []] @
     (if 0 < holdProgress s then [say ''payment.employeeOverride''] else []) @
     auth_dialog s"

section \<open>The processing and the receipt\<close>

definition processing_error :: "Kiosk \<Rightarrow> part list" where
  "processing_error k =
     [Named (Tr ''processing.orderFailed'' []), Says (Lit ''!''), say ''error.generic'',
      (case errorMessage (context_of k) of None \<Rightarrow> say ''processing.orderFailedMessage'' | Some e \<Rightarrow> plainly e),
      Button False (Some (Tr ''processing.retry'' [])) [Tr ''processing.retry'' []],
      Button False (Some (Tr ''processing.cancelReturn'' [])) [Tr ''general.cancel'' []]]"

definition processing_screen :: "Kiosk \<Rightarrow> processing_view \<Rightarrow> part list" where
  "processing_screen k v =
     (if showsError k then processing_error k
      else
        [Named (Tr ''payment.processing'' []), say ''payment.processing'',
         Says (Tr ''processing.terminalStatus'' [(''label'', Tr (currentStage v) [])])] @
        (if showCancel k then [Button False (Some (Tr ''payment.cancelPayment'' [])) [Tr ''general.cancel'' []]] else []))"

definition receipt_message_text :: "receipt_message \<Rightarrow> string" where
  "receipt_message_text c = (case c of PrintingReceipt \<Rightarrow> printing_message | EmailSent \<Rightarrow> ''Email sent'')"

definition receipt_screen :: "KioskContext \<Rightarrow> Receipt \<Rightarrow> part list" where
  "receipt_screen c r =
     [say ''receipt.title'', Says (Tr ''receipt.orderNumber'' [(''number'', Data (shown_orderNumber c))]),
      Button (printLoading r) (Some (Tr (if printLoading r then ''receipt.printing'' else ''receipt.printLabel'') []))
        [Tr (if printLoading r then ''receipt.printing'' else ''receipt.print'') []],
      Button (emailLoading r) (Some (Tr (if emailLoading r then ''receipt.emailSending'' else ''receipt.emailLabel'') []))
        [Tr (if emailLoading r then ''receipt.emailSending'' else if emailSent r then ''receipt.emailSent'' else ''receipt.email'') []]] @
     (if showPrimary r then [Button False (Some (Tr ''receipt.startNewLabel'' [])) [Tr ''receipt.startNew'' []]] else []) @
     (if printerFailed r then [say ''receipt.printerUnavailable''] else []) @
     (case confirmation r of None \<Rightarrow> [] | Some c \<Rightarrow> [Says (Lit (receipt_message_text c))]) @
     [say (if showPrimary r then ''receipt.srComplete'' else ''receipt.srReady'')]"

section \<open>The language, the welcome and the administration\<close>

definition language_screen :: "(LocaleCode \<Rightarrow> string) \<Rightarrow> bool \<Rightarrow> part list" where
  "language_screen ownName showAll =
     (let entry = (\<lambda>l. Button False None [Data (ownName (code l)), Data (nameEn l)]) in
      [Says (Lit ''Astra''), say ''language.select'', say ''language.mainLanguages''] @ map entry MAIN_LANGUAGES @
      [say ''language.moreLanguages''] @ map entry (visibleFeatureLanguages showAll) @
      (if shows_all_button showAll
       then [Button False None [Tr ''language.showAll'' [(''count'', number (int (length FEATURE_LANGUAGES)))]]]
       else []))"

definition attract_screen :: "bool \<Rightarrow> string option \<Rightarrow> part list" where
  "attract_screen clientReady lane =
     (if \<not> clientReady then []
      else
        [Named (Tr ''attract.screenReader'' []), say ''attract.title'', Named (Tr ''attract.touchToBegin'' []),
         say ''attract.touchToBegin'', Says (Tr ''attract.laneInfo'' [(''lane'', case lane of None \<Rightarrow> Lit ''3'' | Some l \<Rightarrow> Data l)]),
         say ''attract.screenReader''])"

definition lane_text :: "LaneMode \<Rightarrow> string" where
  "lane_text m = (case m of express \<Rightarrow> ''express'' | full \<Rightarrow> ''full'')"

definition api_text :: "apiStatusKind \<Rightarrow> string" where
  "api_text st =
     (case st of Api_online \<Rightarrow> ''online'' | Api_offline \<Rightarrow> ''offline'' | Api_degraded \<Rightarrow> ''degraded'' | Api_unknown \<Rightarrow> ''unknown'')"

definition kiosk_admin_screen :: "KioskContext \<Rightarrow> part list" where
  "kiosk_admin_screen c =
     [say ''admin.title'', Button False (Some (Tr ''admin.closeLabel'' [])) [Tr ''admin.close'' []], say ''admin.kioskStatus'',
      say ''admin.session'', Says (case sessionId c of None \<Rightarrow> Lit ''N/A'' | Some s \<Rightarrow> Data s),
      say ''admin.laneMode'', plainly (lane_text (laneMode c)),
      say ''admin.apiStatus'', plainly (api_text (apiStatus c)),
      say ''admin.cartHasItems'', say (if cartHasItems c then ''general.yes'' else ''general.no''),
      say ''admin.actions'', Button False None [Tr ''admin.simulateOnline'' []], Button False None [Tr ''admin.simulateOffline'' []]] @
     (case errorMessage c of None \<Rightarrow> [] | Some e \<Rightarrow> if e = [] then [] else [say ''admin.errors'', plainly e])"

section \<open>The menu\<close>

definition item_card :: "(cents \<Rightarrow> string) \<Rightarrow> MenuItem \<Rightarrow> part list" where
  "item_card money i =
     [plainly (Item.name i), plainly (case Item.description i of None \<Rightarrow> [] | Some d \<Rightarrow> d), plainly (money (Item.priceCents i))] @
     (if modifierGroups i = [] then [] else [say ''item.modifiers'', Says (Lit forward_arrow)])"

definition cart_summary :: "(cents \<Rightarrow> string) \<Rightarrow> CartLineItem list \<Rightarrow> part list" where
  "cart_summary money ls =
     (if \<not> summary_shown ls then []
      else
        [Button False
           (Some (Joined [Tr ''cart.summary'' [], Lit '': '', count_text (item_count ls), Lit '', '', Tr ''cart.total'' [], Lit '' '',
              Data (money (review_subtotal ls)), Lit ''.'']))
           [count_text (item_count ls), Data (money (review_subtotal ls))]])"

text \<open>The number of items in the cart is the truth value of its being filled, as a number.\<close>

definition menu_screen ::
  "(cents \<Rightarrow> string) \<Rightarrow> KioskContext \<Rightarrow> CartLineItem list \<Rightarrow> MenuState \<Rightarrow> part list" where
  "menu_screen money c ls s =
     (if isLoading s then []
      else if isApiError s then [say ''menu.noItems'', say ''menu.noItemsHint'']
      else
        Named (Tr ''menu.categoriesLabel'' []) # Button False None [Tr ''menu.categories.all'' []] #
        map (\<lambda>cat. Button False None [Data (Category.name cat)]) (menuCategories s) @
        (if searchFocused s \<or> searchQuery s \<noteq> []
         then Named (Tr ''menu.search'' []) # (if searchQuery s \<noteq> [] then [Button False (Some (Tr ''menu.clearSearch'' [])) []] else [])
         else []) @
        concat (map (item_card money) (displayedItems s)) @
        (if \<not> isSearching s \<and> displayedItems s = [] then [say ''menu.noItems'', say ''menu.noItemsHint''] else []) @
        cart_summary money ls @
        (if cartHasItems c then [Says (Tr ''menu.itemsInCart'' [(''count'', number 1)])] else []))"

definition option_row :: "(cents \<Rightarrow> string) \<Rightarrow> ModifierOption \<Rightarrow> part" where
  "option_row money opt =
     Button False None
       [Data (ModifierOption.name opt),
        if 0 < ModifierOption.priceDeltaCents opt
        then Tr ''item.priceAddition'' [(''amount'', Data (money (ModifierOption.priceDeltaCents opt)))]
        else Tr ''item.included'' []]"

definition choose_text :: "MenuModifierGroup \<Rightarrow> shown" where
  "choose_text g =
     (if ModifierGroup.minSelect g = ModifierGroup.maxSelect g
      then Tr ''item.chooseCount'' [(''count'', number (ModifierGroup.minSelect g))]
      else Tr ''item.chooseRange''
        [(''min'', number (ModifierGroup.minSelect g)), (''max'', number (ModifierGroup.maxSelect g))])"

definition item_sheet :: "(cents \<Rightarrow> string) \<Rightarrow> ItemSheet \<Rightarrow> part list" where
  "item_sheet money s =
     (case sheetItem s of
        None \<Rightarrow> []
      | Some i \<Rightarrow>
          [Named (Joined [Lit ''Customize '', Data (Item.name i)]), plainly (Item.name i)] @
          (case Item.description i of None \<Rightarrow> [] | Some d \<Rightarrow> if d = [] then [] else [plainly d]) @
          [Named (Joined [Tr ''item.price'' [], Lit '' '', Data (money (shown_total s))]), plainly (money (Item.priceCents i)),
           Button False (Some (Tr ''item.closeLabel'' [])) []] @
          concat (map (\<lambda>g. [plainly (ModifierGroup.name g), Says (choose_text g)] @ map (option_row money) (options g)) (modifierGroups i)) @
          [Button False (Some (Tr ''item.decreaseQuantity'' [])) [],
           Named (Tr ''item.quantityLabel'' [(''count'', number (sheetQuantity s))]), Says (number (sheetQuantity s)),
           Button False (Some (Tr ''item.increaseQuantity'' [])) [],
           Button (\<not> isValid s) (Some (Tr ''item.addToCartLabel'' [(''name'', Data (Item.name i)), (''amount'', Data (money (shown_total s)))]))
             [Tr ''item.addToCart'' [], Joined [Lit dash, Data (money (shown_total s))]]])"

section \<open>The overlays\<close>

definition idle_overlay :: "part list" where
  "idle_overlay =
     [Named (Tr ''idle.ariaLabel'' []), say ''idle.warning'', say ''idle.message'',
      Button False (Some (Tr ''idle.continueLabel'' [])) [Tr ''idle.continue'' []],
      Button False (Some (Tr ''idle.endSessionLabel'' [])) [Tr ''idle.endSession'' []]]"

definition offline_banner :: "OfflineBanner \<Rightarrow> part list" where
  "offline_banner b =
     (if banner_visible b then [say ''offline.workingOffline'', Button False (Some (Tr ''offline.dismiss'' [])) []] else [])"

definition status_header :: "apiStatusKind \<Rightarrow> NetworkStatus \<Rightarrow> status_bar \<Rightarrow> part list" where
  "status_header st n b =
     [Named (Tr ''status.kioskStatus'' []),
      Button False (Some (Tr ''status.p2pStatus'' [(''label'', Tr (p2pLabel n) [])])) [Tr (p2pLabel n) []],
      Named (Tr (iconLabel (api_icon st)) []), Named (Tr (iconLabel (network_icon n)) [])] @
     (if \<not> meshOpen b then []
      else
        [say ''status.p2pTitle'', say ''status.meshDescription'', say ''status.online'', say (onlineRow (mesh_sheet_of n)),
         say ''status.connectedPeers'', Says (number (peersRow (mesh_sheet_of n))),
         say ''status.syncLag'', Says (Joined [number (lagRow (mesh_sheet_of n)), Lit '' ms'']),
         say ''status.role'', say (roleRow (mesh_sheet_of n)), say ''status.thisKiosk''])"

section \<open>The texts asked for\<close>

text \<open>The keys that the screens ask for, in the order of the English table, with the placeholders of its texts.\<close>

definition asked_texts :: "(string \<times> string list) list" where
  "asked_texts =
     [(''language.select'', []), (''language.mainLanguages'', []), (''language.moreLanguages'', []),
      (''language.showAll'', [''count'']), (''attract.title'', []), (''attract.touchToBegin'', []),
      (''attract.laneInfo'', [''lane'']), (''attract.screenReader'', []), (''menu.search'', []), (''menu.noItems'', []),
      (''menu.noItemsHint'', []), (''menu.categoriesLabel'', []), (''menu.categories.all'', []), (''menu.clearSearch'', []),
      (''menu.itemsInCart'', [''count'']), (''item.addToCart'', []), (''item.modifiers'', []), (''item.price'', []),
      (''item.included'', []), (''item.chooseCount'', [''count'']), (''item.chooseRange'', [''min'', ''max'']),
      (''item.closeLabel'', []), (''item.decreaseQuantity'', []), (''item.increaseQuantity'', []),
      (''item.quantityLabel'', [''count'']), (''item.addToCartLabel'', [''name'', ''amount'']),
      (''item.priceAddition'', [''amount'']), (''cart.title'', []), (''cart.empty'', []), (''cart.subtotal'', []),
      (''cart.tax'', []), (''cart.total'', []), (''cart.backToMenu'', []), (''cart.proceedToPayment'', []),
      (''cart.itemCount'', [''count'']), (''cart.itemSingular'', [''count'']), (''cart.summary'', []),
      (''cart.tapToEdit'', []), (''cart.itemsLabel'', []), (''cart.pay'', [''amount'']),
      (''cart.editItem'', [''name'', ''quantity'', ''amount'']), (''cart.decreaseQuantity'', [''name'']),
      (''cart.increaseQuantity'', [''name'']), (''cart.quantityLabel'', [''count'']), (''payment.processing'', []),
      (''payment.selectMethod'', []), (''payment.cardNfc'', []), (''payment.cash'', []), (''payment.qrCode'', []),
      (''payment.biometric'', []), (''payment.employeeOverride'', []), (''payment.employeeOverrideHint'', []),
      (''payment.verifyToComplete'', []), (''payment.pinPadInstruction'', []), (''payment.terminalStatus'', [''status'']),
      (''payment.authorizing'', []), (''payment.authorize'', []), (''payment.connected'', []),
      (''payment.cartSummary'', [''count'', ''amount'', ''action'']), (''payment.expand'', []), (''payment.collapse'', []),
      (''payment.cancelPayment'', []), (''payment.confirmPayment'', [''amount'']), (''processing.connecting'', []),
      (''processing.waitingForCard'', []), (''processing.authorizing'', []), (''processing.finalizingStage'', []),
      (''processing.terminalStatus'', [''label'']), (''processing.orderFailed'', []),
      (''processing.orderFailedMessage'', []), (''processing.retry'', []), (''processing.cancelReturn'', []),
      (''receipt.title'', []), (''receipt.orderNumber'', [''number'']), (''receipt.print'', []), (''receipt.email'', []),
      (''receipt.startNew'', []), (''receipt.printing'', []), (''receipt.emailSending'', []), (''receipt.emailSent'', []),
      (''receipt.printerUnavailable'', []), (''receipt.srComplete'', []), (''receipt.srReady'', []),
      (''receipt.printLabel'', []), (''receipt.emailLabel'', []), (''receipt.startNewLabel'', []), (''status.offline'', []),
      (''status.online'', []), (''status.synced'', []), (''status.syncing'', []), (''status.p2pStatus'', [''label'']),
      (''status.kioskStatus'', []), (''status.p2pTitle'', []), (''status.meshDescription'', []),
      (''status.connectedPeers'', []), (''status.syncLag'', []), (''status.role'', []), (''status.leader'', []),
      (''status.peer'', []), (''status.thisKiosk'', []), (''status.apiOnline'', []), (''status.apiDegraded'', []),
      (''status.apiOffline'', []), (''status.networkConnected'', []), (''status.networkDisconnected'', []),
      (''idle.warning'', []), (''idle.continue'', []), (''idle.endSession'', []), (''idle.message'', []),
      (''idle.continueLabel'', []), (''idle.endSessionLabel'', []), (''idle.ariaLabel'', []),
      (''offline.workingOffline'', []), (''offline.dismiss'', []), (''error.generic'', []), (''admin.title'', []),
      (''admin.close'', []), (''admin.kioskStatus'', []), (''admin.session'', []), (''admin.laneMode'', []),
      (''admin.apiStatus'', []), (''admin.cartHasItems'', []), (''admin.actions'', []), (''admin.simulateOnline'', []),
      (''admin.simulateOffline'', []), (''admin.errors'', []), (''admin.closeLabel'', []), (''general.cancel'', []),
      (''general.yes'', []), (''general.no'', [])]"

fun sub_rows :: "'a list \<Rightarrow> 'a list \<Rightarrow> bool" where
  "sub_rows [] ys = True"
| "sub_rows (x # xs) [] = False"
| "sub_rows (x # xs) (y # ys) = (if x = y then sub_rows xs ys else sub_rows (x # xs) ys)"

lemma sub_rows_subset: "sub_rows xs ys \<Longrightarrow> set xs \<subseteq> set ys"
  by (induction xs ys rule: sub_rows.induct) (auto split: if_splits)

lemma asked_in_english: "sub_rows asked_texts (row_shape texts_en)"
  by code_simp

lemma asked_map_of: "list_all (\<lambda>r. map_of (row_shape texts_en) (fst r) = Some (snd r)) asked_texts"
proof -
  have "distinct (map fst (row_shape texts_en))" by (simp only: row_shape_keys english_keys_distinct)
  then show ?thesis
    using sub_rows_subset [OF asked_in_english] by (auto simp: list_all_iff)
qed

lemma row_shape_map_of: "map_of (row_shape tr) k = map_option placeholders (map_of tr k)"
  by (induction tr) (auto simp: row_shape_def)

lemma label_ok_Tr [simp]:
  "label_ok loc (Tr k ps) \<longleftrightarrow>
     (case map_of (row_shape texts_en) k of None \<Rightarrow> False | Some phs \<Rightarrow> set phs = fst ` set ps) \<and>
     list_all (label_ok loc \<circ> snd) ps"
  using texts_keep_placeholders [of k _ loc] by (auto simp: row_shape_map_of list.pred_map comp_def split: option.split)

lemma label_ok_Joined [simp]: "label_ok loc (Joined ss) \<longleftrightarrow> list_all (label_ok loc) ss"
  by (simp add: list.pred_map)

lemma label_ok_number [simp]: "label_ok loc (number n)"
  by (simp add: number_def)

lemma separated_ok [simp]:
  "label_ok loc sep \<Longrightarrow> list_all (label_ok loc) (separated sep xs) \<longleftrightarrow> list_all (label_ok loc) xs"
  by (induction sep xs rule: separated.induct) auto

lemmas asked = asked_map_of [unfolded asked_texts_def, simplified]

declare label_ok.simps(1,4) [simp del]

lemma view_ok_simps [simp]:
  "view_ok loc []" "view_ok loc (p # v) \<longleftrightarrow> list_all (label_ok loc) (labels_of p) \<and> view_ok loc v"
  "view_ok loc (v @ w) \<longleftrightarrow> view_ok loc v \<and> view_ok loc w"
  "view_ok loc (concat vs) \<longleftrightarrow> list_all (view_ok loc) vs"
  "view_ok loc (if b then v else w) \<longleftrightarrow> (if b then view_ok loc v else view_ok loc w)"
  by (induction vs) (simp_all add: view_ok_def list.pred_map comp_def)

lemma view_ok_map: "view_ok loc (map f xs) \<longleftrightarrow> list_all (\<lambda>x. list_all (label_ok loc) (labels_of (f x))) xs"
  by (simp add: view_ok_def list.pred_map comp_def)

lemma count_text_ok [simp]: "label_ok loc (count_text n)"
  by (simp add: count_text_def asked)

lemma choose_text_ok [simp]: "label_ok loc (choose_text g)"
  by (auto simp: choose_text_def asked)

lemma modifier_text_ok [simp]: "label_ok loc (modifier_text money md)"
  by (simp add: modifier_text_def literals_def)

lemma review_row_ok: "view_ok loc (review_row money l)"
  by (auto simp: review_row_def asked literals_def list.pred_map comp_def list.pred_True)

lemma cart_summary_ok: "view_ok loc (cart_summary money ls)"
  by (simp add: cart_summary_def asked literals_def)

lemma item_card_ok: "view_ok loc (item_card money i)"
  by (simp add: item_card_def asked literals_def)

lemma review_screen_ok: "view_ok loc (review_screen money TAX ls)"
  by (simp add: review_screen_def Let_def asked literals_def list.pred_map comp_def review_row_ok list.pred_True)

lemma auth_screen_ok: "view_ok loc (auth_screen money expanded ls s)"
  by (auto simp: auth_screen_def auth_summary_def auth_dialog_def PAYMENT_LABELS_def asked literals_def list.pred_map comp_def list.pred_True)

lemma stage_label_ok: "label_ok loc (Tr (currentStage v) [])"
proof -
  have "currentStage v \<in> set stage_labels"
    unfolding currentStage_def by (rule nth_mem) (simp add: stage_labels_def)
  then show ?thesis by (auto simp: stage_labels_def asked)
qed

lemma processing_screen_ok: "view_ok loc (processing_screen k v)"
  using stage_label_ok [of loc v]
  by (auto simp: processing_screen_def processing_error_def asked literals_def split: option.split)

lemma receipt_screen_ok: "view_ok loc (receipt_screen c r)"
  by (simp add: receipt_screen_def receipt_message_text_def asked literals_def split: option.split receipt_message.split)

lemma language_screen_ok: "view_ok loc (language_screen own showAll)"
  by (simp add: language_screen_def Let_def view_ok_map asked literals_def list.pred_True)

lemma attract_screen_ok: "view_ok loc (attract_screen ready lane)"
  by (simp add: attract_screen_def asked literals_def split: option.split)

lemma kiosk_admin_screen_ok: "view_ok loc (kiosk_admin_screen c)"
  by (simp add: kiosk_admin_screen_def asked literals_def split: option.split)

lemma menu_screen_ok: "view_ok loc (menu_screen money c ls s)"
  by (simp add: menu_screen_def view_ok_map asked cart_summary_ok list.pred_map comp_def item_card_ok list.pred_True)

lemma item_sheet_ok: "view_ok loc (item_sheet money s)"
  by (auto simp: item_sheet_def view_ok_map option_row_def asked literals_def list.pred_map comp_def list.pred_True split: option.split)

lemma overlays_ok: "view_ok loc idle_overlay" "view_ok loc (offline_banner b)" "view_ok loc (status_header st n sb)"
  by (simp_all add: idle_overlay_def offline_banner_def status_header_def p2pLabel_def api_icon_def network_icon_def mesh_sheet_of_def
      asked literals_def)

text \<open>Every key begins with a small letter, and nothing that a screen writes itself does.\<close>

definition small_start :: "string \<Rightarrow> bool" where
  "small_start s \<longleftrightarrow> (case s of [] \<Rightarrow> False | c # _ \<Rightarrow> c \<in> set ''abcdefghijklmnopqrstuvwxyz'')"

lemma keys_small_start: "list_all small_start (map fst texts_en)"
  by (simp add: texts_en_def texts_en_1_def texts_en_2_def section_of_def small_start_def)

lemma literals_no_small_start: "list_all (\<lambda>s. \<not> small_start s) literals"
  by code_simp

lemma literals_no_keys: "list_all (\<lambda>s. map_of texts_en s = None) literals"
  using keys_small_start literals_no_small_start by (auto simp: list_all_iff map_of_eq_None_iff)


section \<open>Amounts and hints\<close>

definition amounts_on :: "(cents \<Rightarrow> string) \<Rightarrow> cents \<Rightarrow> part list \<Rightarrow> bool" where
  "amounts_on money amount v \<longleftrightarrow>
     (\<exists>d nm ss. Button d (Some (Tr nm [(''amount'', Data (money amount))])) ss \<in> set v) \<and>
     (\<forall>d nm n ss. Button d (Some (Tr nm [(''amount'', n)])) ss \<in> set v \<longrightarrow> n = Data (money amount))"


text \<open>A cart of ten dollars at the rate of Florida, which the cart engine charges: 10.70 on the one button, 10.80 on the other.\<close>

definition ten_dollars :: "CartLineItem list" where
  "ten_dollars = [sample_cart_line\<lparr>unitPriceCentsSnapshot := 1000, quantity := 1, modifiers := []\<rparr>]"

lemma ten_dollars_subtotal: "subtotal_of ten_dollars = 1000"
  by (simp add: ten_dollars_def subtotal_of_def line_cents_def modifiersTotal_def)

lemma ten_dollars_taxes:
  "Math_round (fmul 1000 FLORIDA_SALES_TAX_RATE) = 70" "Math_round (fmul 1000 SCREEN_TAX_RATE) = 80"
  using tax_rate_rounds [of 1000] screen_rate_rounds [of 1000] by (simp_all add: percent_def)


text \<open>
  Every filled cart is shown with the hint to tap an item to edit it, and a tap does nothing: the machine has no transition for
  it in that stage.
\<close>

theorem tap_to_edit_does_nothing:
  assumes "front_stage f = CART" "ls \<noteq> []"
  shows "say ''cart.tapToEdit'' \<in> set (review_screen money TAX ls)" "handleItemTap b cached mid f = f"
proof -
  show "say ''cart.tapToEdit'' \<in> set (review_screen money TAX ls)" using assms(2) by (simp add: review_screen_def Let_def)
  have "send env (SELECT_ITEM item) (frontKiosk f) = frontKiosk f" for env item
    using assms(1) by (simp add: send_defs config_defs)
  then show "handleItemTap b cached mid f = f" by (simp add: handleItemTap_def front_send_def split: option.split)
qed

text \<open>
  An option that lowers the price is shown as included, like one that leaves it. The menu says of every filled cart that it has
  one item.
\<close>

theorem shown_otherwise:
  "ModifierOption.priceDeltaCents opt \<le> 0 \<Longrightarrow>
     option_row money opt = Button False None [Data (ModifierOption.name opt), Tr ''item.included'' []]"
  "cartHasItems c \<Longrightarrow> \<not> isLoading s \<Longrightarrow> \<not> isApiError s \<Longrightarrow>
     Says (Tr ''menu.itemsInCart'' [(''count'', Data ''1'')]) \<in> set (menu_screen money c ls s)"
proof -
  have "number 1 = Data ''1''" by code_simp
  then show "cartHasItems c \<Longrightarrow> \<not> isLoading s \<Longrightarrow> \<not> isApiError s \<Longrightarrow>
      Says (Tr ''menu.itemsInCart'' [(''count'', Data ''1'')]) \<in> set (menu_screen money c ls s)"
    by (simp add: menu_screen_def)
qed (simp add: option_row_def)

end
