(* ===== verification/Spec2Isabelle.thy ===== *)
theory Spec2Isabelle
  imports Crdt KioskHooks CartEngine CartService ApiClient Updater RemoteModules GhostCart Produce AdminRoles Ids
    PaymentBridge MenuScreens KioskScreens AdminConsole Controls Shell Languages
    CrdtWorker EmployeeAuth Tables SchemaAgreement AndinoSync Environment AdminPages AdminShell
    Accessibility Widgets StatusViews Logging UnroutedScreens PeerBridge LocaleTexts ScreenViews
begin

text \<open>
  The Astra kiosk, verified. The program is a self-service shop terminal: a React shell
  (\<open>src/astra-service/apps/kiosk\<close>) around a workflow state machine, with federated
  micro-frontends for menu, cart and payment (\<open>apps/kiosk-menu\<close>, \<open>kiosk-cart\<close>, \<open>kiosk-payment\<close>), shared
  packages for state, prices and types (\<open>packages/kiosk-state\<close>, \<open>cart-engine\<close>, \<open>shared-types\<close>), an
  admin console, the declarations of the database (\<open>database/schemas/drizzle.ts\<close>), and a proxy that feeds a kiosk from
  the Andino service (\<open>packages/andino-kiosk\<close>). It talks to Go services, a payment sidecar and a sync daemon over HTTP. This
  development models the TypeScript code.

  \<^bold>\<open>How the parts interact.\<close> A tap on the attract screen resets the cart proxy and starts a session of the
  machine. The menu sends a chosen item to the machine, the item sheet adds a line through the cart
  service, which changes the proxy and schedules a debounced sync through the cart client and the HTTP client. Review and
  payment screens show the proxy's lines; an authorization sends the machine to its order
  actor, whose answer leads to the receipt. Idle timers and network monitors send events from the side. The
  updater and the manager of remotes replace the software underneath.

  \<^bold>\<open>Conventions\<close> (theory \<open>Prelude\<close>). Interfaces are records, unions of literals datatypes, an exception
  is the left of a sum. The time, generated identifiers and the answers of the network are arguments. A module with callbacks is a
  function from events and states to states, one event per callback or settled promise, so that every
  interleaving is a list of events; the locales \<open>event_system\<close> and \<open>free_event_system\<close> carry an invariant from
  one event to a run, and each module interprets them. An \<open>await\<close> splits a function into the
  part before it and the continuation. Where two fields share a name, the record's name is written in front.

  \<^bold>\<open>Theories, code and results.\<close>

  \<^item> \<open>JsValues\<close>, \<open>JsNumber\<close>, \<open>JsJson\<close>, \<open>JsParse\<close>: the language's library as far as it is used: values, errors,
    double-precision products and sums with \<open>Math.round\<close>, \<open>JSON.stringify\<close> and \<open>JSON.parse\<close>, \<open>btoa\<close> and \<open>atob\<close>, with their
    round trips.
  \<^item> \<open>Hlc\<close>, \<open>Crdt\<close>, \<open>Ids\<close> (\<open>packages/shared-types/src/hlc.ts\<close>, \<open>crdt.ts\<close>, \<open>ids.ts\<close>): the clock is a total order and
    strictly increases; replicas of the element set converge and resurrect nothing; identifiers sort by time.
  \<^item> \<open>KioskTypes\<close>, \<open>KioskMachine\<close>, \<open>KioskSafety\<close> (\<open>types/domain.ts\<close>, \<open>machines/kioskMachine.ts\<close>): the machine's
    configuration and an interpreter for it, reachable states and their invariant; orders only for approved payments, the
    receipt of the finalized order, nothing but the language left of the previous customer, the way back to the attract screen.
  \<^item> \<open>KioskHooks\<close> (\<open>hooks/useIdleReclaim.ts\<close>, \<open>useApiStatus.ts\<close>, \<open>useApiNetworkMonitor.ts\<close>, \<open>useScrollSpy.ts\<close>,
    \<open>routes/WorkflowRouter.tsx\<close>): timers and polls on the machine, and which screen a stage shows.
  \<^item> \<open>CartEngine\<close> (\<open>packages/cart-engine/src/computeTotals.ts\<close>, \<open>useCartTotals.ts\<close>, its worker): prices computed in
    doubles are the exact ones, and the hook settles on them.
  \<^item> \<open>KioskState\<close> (\<open>packages/kiosk-state/src/cartProxy.ts\<close>, \<open>sessionStore.ts\<close>, \<open>hooks/useSilentAssist.ts\<close>,
    \<open>useNetworkMonitor.ts\<close>): the proxy refines a finite map; a session cannot skip the payment.
  \<^item> \<open>ApiCart\<close>, \<open>CartService\<close>, \<open>ApiClient\<close> (\<open>kiosk-state/src/apiCart.ts\<close>, \<open>state/cartService.ts\<close>,
    \<open>apiClient.ts\<close>, \<open>queryClient.ts\<close>): bounded retries and what they return, no change made through the service
    forgotten, at most one deduplicated request in flight, fresh cache entries only, the form of every error.
  \<^item> \<open>UpdateManifest\<close>, \<open>Updater\<close>, \<open>RemoteModules\<close> (\<open>updater/crypto.ts\<close>, \<open>updater.ts\<close>, \<open>remote-modules.ts\<close>): only signed
    manifests and matching artifacts are applied under any interleaving; a version of a remote is swapped whole unless two
    swaps of it overlap.
  \<^item> \<open>GhostCart\<close> (\<open>ghost-cart/qrSignaling.ts\<close>, \<open>nfcFallback.ts\<close>, \<open>dataChannel.ts\<close>): round trips of the signaling and what it refuses,
    also by code units too large for base64; a bounded and ordered queue; an open channel that falls silent is closed.
  \<^item> \<open>Produce\<close> (\<open>cart-engine/src/produceRecognition.ts\<close>, \<open>produce/useProduceScanner.ts\<close>): the table of codes, the recognizer and
    the scanner's camera.
  \<^item> \<open>AdminRoles\<close>, \<open>AdminConsole\<close> (\<open>apps/kiosk-admin/src/lib/roles.ts\<close>, \<open>App.tsx\<close>, \<open>components/AuthProvider.tsx\<close>,
    \<open>RouteGuard.tsx\<close>, \<open>Nav.tsx\<close>, \<open>MeshTopologyGraph.tsx\<close>): which role sees which page, the links of the mesh graph.
  \<^item> \<open>Controls\<close> (\<open>components/CategoryTabs.tsx\<close>, \<open>QuantityStepper.tsx\<close>, \<open>packages/design-system/src/components/QuantityStepper.tsx\<close>):
    quantities stay in range, timers end with the press, a tap on a tab counts once; a held button moves the value once only.
  \<^item> \<open>ItemModal\<close> (\<open>routes/ItemModal.tsx\<close>): the price shown is the price charged.
  \<^item> \<open>PaymentAuth\<close> (\<open>routes/PaymentAuthScreen.tsx\<close>) and \<open>PaymentBridge\<close> (\<open>apps/kiosk-payment/src/verifoneBridge.ts\<close>,
    \<open>PaymentApp.tsx\<close>): what is authorized and for which amount, the hold button, offline tokens and the outcome of attempts.
  \<^item> \<open>MenuScreens\<close> (\<open>routes/MenuScreen.tsx\<close>, \<open>hooks/useDebouncedCallback.ts\<close>, \<open>apps/kiosk-menu/src/MenuApp.tsx\<close>): pages
    without gap, one call per burst, rows that hold every item.
  \<^item> \<open>KioskScreens\<close> (\<open>routes/AttractScreen.tsx\<close>, \<open>CartReviewScreen.tsx\<close>, \<open>ProcessingScreen.tsx\<close>,
    \<open>components/CartSummary.tsx\<close>, \<open>apps/kiosk-cart/src/CartApp.tsx\<close>): router, machine, cart service and screens in one
    event system, where the markup decides which events a customer can cause. Here the guarantees
    of the parts meet: the order is for the cart shown, if the service's first request has settled; and here their gaps show: a production
    build without a way to the cart, an emptied cart that can be ordered, a failed order without retry.

  \<^item> \<open>Shell\<close> (\<open>App.tsx\<close>, \<open>components/OfflineBanner.tsx\<close>, \<open>routes/ReceiptScreen.tsx\<close>): when an idle session is
    reclaimed and whether it is announced, each outage is announced once, the receipt is about the paid order and gives the kiosk back.
  \<^item> \<open>Languages\<close> (\<open>i18n/index.ts\<close>, \<open>routes/LanguageSelectScreen.tsx\<close>): every language can be chosen and reaches the
    store; texts fall back to English; the choice is made once for all customers. \<open>MainTexts\<close>, \<open>EuropeanTexts\<close>, \<open>AsianTexts\<close>,
    \<open>IndicTexts\<close>, \<open>ArabicTexts\<close> hold the seventeen tables (\<open>i18n/locales\<close>), as UTF-8 bytes; \<open>LocaleTexts\<close>: each key
    stands once and has the same placeholders in every language, and much of each is left in English.
  \<^item> \<open>ScreenViews\<close> (the markup of \<open>routes\<close> and \<open>components\<close>): which texts, names and buttons each screen shows in each state. No
    screen shows a raw key or an unfilled placeholder in any language; review and payment name the same amount when the build
    keeps the tax rate of eight percent.
  \<^item> \<open>CrdtWorker\<close> (\<open>workers/crdtWorker.ts\<close>) and \<open>EmployeeAuth\<close> (\<open>webauthn/employeeAuth.ts\<close>,
    \<open>apps/kiosk-payment/src/useWebAuthnEmployeeAuth.ts\<close>): one answer per request, base64url round trips between the two ceremonies.
  \<^item> \<open>Tables\<close> (\<open>database/schemas/drizzle.ts\<close>), \<open>Schemas\<close> (\<open>shared-types/src/schemas/zod.ts\<close>, \<open>api.ts\<close>), \<open>DomainTypes\<close>
    (\<open>types/domain.ts\<close>): every declaration as a value; the tables fit together, their foreign keys have no cycle between tables.
    \<open>SchemaAgreement\<close> sets the three against each other: what is inferred from a schema is its domain type, what a schema
    accepts can be stored, the types mirror the tables; and where they part.
  \<^item> \<open>JsConvert\<close>, \<open>AndinoProxy\<close>, \<open>AndinoSync\<close> (\<open>packages/andino-kiosk/proxy/server.js\<close>, \<open>sync-andino-to-db.js\<close>): texts and
    numbers of the language; all pages in order, a consistent menu with exact prices, hits after misses; SQL that reads back,
    but for the addresses of images.
  \<^item> \<open>Environment\<close> (\<open>shared-types/src/env.ts\<close>): where a variable comes from, what it is when nothing is set, what stops the start.
  \<^item> \<open>AdminQueries\<close>, \<open>AdminFormat\<close>, \<open>AdminPages\<close>, \<open>AdminShell\<close> (\<open>apps/kiosk-admin/src/graphql\<close>, \<open>lib/format.ts\<close>, \<open>routes\<close>,
    \<open>components\<close>, \<open>hooks\<close>, \<open>lib/apollo.ts\<close>): every document with the type of its answers, what every page makes of every such
    answer, which pages throw and what the boundary shows then, the theme and the sidebar, the headers of a request.
  \<^item> \<open>Accessibility\<close> (\<open>design-system/src/utils/a11y.ts\<close>, \<open>components/Modal.tsx\<close>, \<open>Toast.tsx\<close>): exactly when a trap keeps the
    focus, a closed dialog leaves nothing behind, a toast closes once.
  \<^item> \<open>Widgets\<close> (the kiosk's \<open>Toast.tsx\<close>, \<open>ConfirmDialog.tsx\<close>, \<open>BottomSheet.tsx\<close>, \<open>ThermalPrinterFeedback.tsx\<close>,
    \<open>ViewportLock.tsx\<close>, \<open>KioskErrorBoundary.tsx\<close>) and \<open>StatusViews\<close> (\<open>StatusBar.tsx\<close>, the stages of \<open>ProcessingScreen.tsx\<close>, the
    panel of \<open>ProduceScanner.tsx\<close>): timers, keys and gestures, and what is shown of the state.
  \<^item> \<open>Logging\<close> (\<open>utils/logger.ts\<close>), \<open>PeerBridge\<close> (\<open>utils/WebRTCBridge.ts\<close>), \<open>UnroutedScreens\<close> (\<open>routes/CartScreen.tsx\<close>,
    \<open>PaymentScreen.tsx\<close>): levels and lines, where transfers go, and the two screens that no route shows.

  \<^bold>\<open>Bounds and fuel.\<close> The retry loop of the cart client runs at most \<open>MAX_ATTEMPTS\<close> times, by recursion on the attempts left. The
  JSON parser recurses on fuel, one more than the length of the text, which suffices since every call consumes a
  character; the round trip is proved at that fuel. Everything else terminates structurally or by a measure. Prices are proved for carts
  below \<open>2^48\<close> cents, where products with the rates stay within the precision of doubles; counts, versions and
  times are integers, which the code keeps below \<open>2^53\<close>.

  \<^bold>\<open>Parameters.\<close> Web Crypto (digests, signatures, HMAC), the identifier generator, UTF-8, the QR encoder, lower-casing, the
  WASM recognizer, and the answers of the API, the sidecar, the daemon, Andino and Redis are arguments of the definitions that use
  them. What zod infers and accepts and what PostgreSQL admits are arguments, their documented behaviour the hypotheses
  \<open>infer_documented\<close>, \<open>zod_documented\<close> and \<open>pg_documented\<close>.
  The laws relied on are hypotheses of the theorems, and their witnesses instantiate them.

  \<^bold>\<open>Not modelled.\<close> Styling, pictures and animation, the design tokens among them; the time in which a replaced screen fades
  out; the format of amounts and dates, which is the browser's; the SQL that drizzle makes of the declarations; the server
  framework of the proxy; \<open>components/AttractScreen.tsx\<close>, which repeats the routed screen with fixed texts, and the sample
  drawing of \<open>P2PMesh.tsx\<close>, which no module in use imports; the contents of the sample menu \<open>mockMenuData.ts\<close>, which a
  development build shows when the API fails and which is an argument of \<open>getMenuCatalog\<close>; Go services, Rust daemons and the recognition
  module, which are other languages.
\<close>

end
